(* ===== verification/Prelude.thy ===== *)
theory Prelude
  imports Main "HOL-Library.Word" "HOL-Library.State_Monad" "HOL-Library.Code_Target_Nat"
begin

text \<open>
  Shared material of the development.

  \<^item> Rust's \<open>Result<T, E>\<close> as a sum type (\<open>Err\<close> left, \<open>Ok\<close> right) with the adapters
    the program uses (\<open>?\<close> is \<open>and_then\<close>, \<open>map_err\<close>, \<open>ok_or\<close>).
  \<^item> Rust's \<open>str\<close> as the list of its UTF-8 bytes (\<^typ>\<open>string\<close>), so that \<open>len()\<close> is
    \<^const>\<open>length\<close>; \<open>chars()\<close> decodes the Unicode scalar values from the bytes.
  \<^item> The ASCII classes of \<open>u8\<close>, the string operations of \<open>core::str\<close> used by the
    validators, big-endian words and the length-prefixed fields of the request digests.
  \<^item> Fallible, state-threading calls (\<open>async fn ... -> Result\<close>) as the library's
    \<open>State_Monad\<close> over a result.
\<close>

section \<open>Collections of facts\<close>

named_theorems case_fold \<open>facts about ASCII case folding\<close>
named_theorems run_simps \<open>equations that execute state-threading calls\<close>

section \<open>Results\<close>

type_synonym ('a, 'e) result = "'e + 'a"

abbreviation Ok :: "'a \<Rightarrow> ('a, 'e) result" where
  "Ok \<equiv> Inr"

abbreviation Err :: "'e \<Rightarrow> ('a, 'e) result" where
  "Err \<equiv> Inl"

definition is_ok :: "('a, 'e) result \<Rightarrow> bool" where
  "is_ok r = (case r of Err _ \<Rightarrow> False | Ok _ \<Rightarrow> True)"

definition and_then :: "('a, 'e) result \<Rightarrow> ('a \<Rightarrow> ('b, 'e) result) \<Rightarrow> ('b, 'e) result" where
  "and_then r f = (case r of Err e \<Rightarrow> Err e | Ok x \<Rightarrow> f x)"

definition map_ok :: "('a \<Rightarrow> 'b) \<Rightarrow> ('a, 'e) result \<Rightarrow> ('b, 'e) result" where
  "map_ok f r = (case r of Err e \<Rightarrow> Err e | Ok x \<Rightarrow> Ok (f x))"

definition map_err :: "('e \<Rightarrow> 'f) \<Rightarrow> ('a, 'e) result \<Rightarrow> ('a, 'f) result" where
  "map_err f r = (case r of Err e \<Rightarrow> Err (f e) | Ok x \<Rightarrow> Ok x)"

definition ok_or :: "'a option \<Rightarrow> 'e \<Rightarrow> ('a, 'e) result" where
  "ok_or x e = (case x of None \<Rightarrow> Err e | Some y \<Rightarrow> Ok y)"

lemma is_ok_simps [simp]: "is_ok (Ok x)" "\<not> is_ok (Err e)"
  by (simp_all add: is_ok_def)

lemma and_then_simps [simp]: "and_then (Ok x) f = f x" "and_then (Err e) f = Err e"
  by (simp_all add: and_then_def)

lemma map_ok_simps [simp]: "map_ok g (Ok x) = Ok (g x)" "map_ok g (Err e) = Err e"
  by (simp_all add: map_ok_def)

lemma map_err_simps [simp]: "map_err g (Ok x) = Ok x" "map_err g (Err e) = Err (g e)"
  by (simp_all add: map_err_def)

lemma ok_or_simps [simp]: "ok_or (Some x) e = Ok x" "ok_or None e = Err e"
  by (simp_all add: ok_or_def)

lemma and_then_Ok_iff: "and_then r f = Ok y \<longleftrightarrow> (\<exists>x. r = Ok x \<and> f x = Ok y)"
  by (cases r) auto

lemma and_then_OkE:
  assumes "and_then r f = Ok y" obtains x where "r = Ok x" "f x = Ok y"
  using assms by (auto simp: and_then_Ok_iff)

lemma if_Err_OkE:
  assumes "(if c then Err e else r) = Ok y" obtains "\<not> c" "r = Ok y"
  using assms by (auto split: if_splits)

lemmas result_elims = and_then_OkE if_Err_OkE

lemma map_ok_Ok_iff: "map_ok f r = Ok y \<longleftrightarrow> (\<exists>x. r = Ok x \<and> y = f x)"
  by (cases r) auto

lemma map_err_Ok_iff [simp]: "map_err f r = Ok y \<longleftrightarrow> r = Ok y"
  by (cases r) auto

lemma map_err_Err_iff: "map_err f r = Err e \<longleftrightarrow> (\<exists>x. r = Err x \<and> e = f x)"
  by (cases r) auto

lemma ok_or_Ok_iff [simp]: "ok_or x e = Ok y \<longleftrightarrow> x = Some y"
  by (cases x) auto

section \<open>Fallible calls that thread a state\<close>

text \<open>
  A call is a \<open>State_Monad\<close> computation whose answer is a result. The program's \<open>?\<close> on an
  awaited call is \<open>try_call\<close>: an error ends the enclosing function, with the state as the
  failed call left it.
\<close>

type_synonym ('s, 'a, 'e) call = "('s, ('a, 'e) result) state"

definition try_call :: "('s, 'a, 'e) call \<Rightarrow> ('a \<Rightarrow> ('s, 'b, 'e) call) \<Rightarrow> ('s, 'b, 'e) call" where
  "try_call m f = State_Monad.bind m
     (\<lambda>r. case r of Err e \<Rightarrow> State_Monad.return (Err e) | Ok x \<Rightarrow> f x)"

definition throw :: "'e \<Rightarrow> ('s, 'a, 'e) call" where
  "throw e = State_Monad.return (Err e)"

definition done_with :: "'a \<Rightarrow> ('s, 'a, 'e) call" where
  "done_with x = State_Monad.return (Ok x)"

definition lift_result :: "('a, 'e) result \<Rightarrow> ('s, 'a, 'e) call" where
  "lift_result r = State_Monad.return r"

definition on_err :: "('e \<Rightarrow> 'f) \<Rightarrow> ('s, 'a, 'e) call \<Rightarrow> ('s, 'a, 'f) call" where
  "on_err f m = State_Monad.bind m (\<lambda>r. State_Monad.return (map_err f r))"

lemma run_state_bind [run_simps]:
  "run_state (State_Monad.bind m f) s = (case run_state m s of (a, t) \<Rightarrow> run_state (f a) t)"
  by (simp add: State_Monad.bind_def)

lemma run_state_return [run_simps]: "run_state (State_Monad.return x) s = (x, s)"
  by (simp add: State_Monad.return_def)

lemma run_try_call [run_simps]:
  "run_state (try_call m f) s =
     (case run_state m s of (Err e, t) \<Rightarrow> (Err e, t) | (Ok x, t) \<Rightarrow> run_state (f x) t)"
  by (simp add: try_call_def run_simps split: prod.splits sum.splits)

lemma run_throw [run_simps]: "run_state (throw e) s = (Err e, s)"
  by (simp add: throw_def run_simps)

lemma run_done_with [run_simps]: "run_state (done_with x) s = (Ok x, s)"
  by (simp add: done_with_def run_simps)

lemma run_lift_result [run_simps]: "run_state (lift_result r) s = (r, s)"
  by (simp add: lift_result_def run_simps)

lemma run_on_err [run_simps]:
  "run_state (on_err f m) s = (case run_state m s of (r, t) \<Rightarrow> (map_err f r, t))"
  by (simp add: on_err_def run_simps)

section \<open>Lists\<close>

text \<open>An action whose answer nobody reads.\<close>

definition ignore :: "('s, 'a) state \<Rightarrow> ('s, unit) state" where
  "ignore action = State_Monad.bind action (\<lambda>_. State_Monad.return ())"

text \<open>Eliminations for calls that ended well.\<close>

lemma run_try_call_OkE:
  assumes "run_state (try_call m f) s = (Ok y, s')"
  obtains x t where "run_state m s = (Ok x, t)" "run_state (f x) t = (Ok y, s')"
  using assms by (auto simp: run_try_call split: prod.splits sum.splits)

lemma run_bindE:
  assumes "run_state (State_Monad.bind m f) s = (y, s')"
  obtains x t where "run_state m s = (x, t)" "run_state (f x) t = (y, s')"
  using assms by (auto simp: run_state_bind split: prod.splits)

lemma find_SomeD: "find P xs = Some x \<Longrightarrow> P x \<and> x \<in> set xs"
  by (induction xs) (auto split: if_splits)

section \<open>Bytes and ASCII\<close>

definition byte :: "char \<Rightarrow> nat" where
  "byte c = of_char c"

definition is_ascii :: "char \<Rightarrow> bool" where
  "is_ascii c \<longleftrightarrow> byte c < 128"

definition is_ascii_uppercase :: "char \<Rightarrow> bool" where
  "is_ascii_uppercase c \<longleftrightarrow> 65 \<le> byte c \<and> byte c \<le> 90"

definition is_ascii_lowercase :: "char \<Rightarrow> bool" where
  "is_ascii_lowercase c \<longleftrightarrow> 97 \<le> byte c \<and> byte c \<le> 122"

definition is_ascii_digit :: "char \<Rightarrow> bool" where
  "is_ascii_digit c \<longleftrightarrow> 48 \<le> byte c \<and> byte c \<le> 57"

definition is_ascii_alphabetic :: "char \<Rightarrow> bool" where
  "is_ascii_alphabetic c \<longleftrightarrow> is_ascii_uppercase c \<or> is_ascii_lowercase c"

definition is_ascii_alphanumeric :: "char \<Rightarrow> bool" where
  "is_ascii_alphanumeric c \<longleftrightarrow> is_ascii_alphabetic c \<or> is_ascii_digit c"

definition is_ascii_graphic :: "char \<Rightarrow> bool" where
  "is_ascii_graphic c \<longleftrightarrow> 33 \<le> byte c \<and> byte c \<le> 126"

definition is_ascii_whitespace :: "char \<Rightarrow> bool" where
  "is_ascii_whitespace c \<longleftrightarrow> byte c \<in> {9, 10, 12, 13, 32}"

definition to_lower :: "char \<Rightarrow> char" where
  "to_lower c = (if is_ascii_uppercase c then char_of (byte c + 32) else c)"

definition to_upper :: "char \<Rightarrow> char" where
  "to_upper c = (if is_ascii_lowercase c then char_of (byte c - 32) else c)"

definition to_ascii_lowercase :: "string \<Rightarrow> string" where
  "to_ascii_lowercase s = map to_lower s"

definition to_ascii_uppercase :: "string \<Rightarrow> string" where
  "to_ascii_uppercase s = map to_upper s"

definition eq_ignore_ascii_case :: "string \<Rightarrow> string \<Rightarrow> bool" where
  "eq_ignore_ascii_case a b \<longleftrightarrow> to_ascii_lowercase a = to_ascii_lowercase b"

lemmas ascii_class_defs =
  is_ascii_def is_ascii_uppercase_def is_ascii_lowercase_def is_ascii_digit_def
  is_ascii_alphabetic_def is_ascii_alphanumeric_def is_ascii_graphic_def
  is_ascii_whitespace_def

lemma byte_less [simp]: "byte c < 256"
proof -
  have "(of_char c :: nat) = of_char c mod 256"
    using of_char_mod_256 [where c = c and 'a = nat] by simp
  also have "\<dots> < 256" by simp
  finally show ?thesis by (simp add: byte_def)
qed

lemma byte_char_of [simp]: "byte (char_of n) = n mod 256"
  by (simp add: byte_def of_char_of)

lemma char_of_byte [simp]: "char_of (byte c) = c"
  by (simp add: byte_def)

lemma byte_inject [simp]: "byte c = byte d \<longleftrightarrow> c = d"
  by (metis char_of_byte)

lemma byte_to_lower: "byte (to_lower c) = (if is_ascii_uppercase c then byte c + 32 else byte c)"
  by (simp add: to_lower_def is_ascii_uppercase_def)

lemma byte_to_upper: "byte (to_upper c) = (if is_ascii_lowercase c then byte c - 32 else byte c)"
proof (cases "is_ascii_lowercase c")
  case True
  have "byte c - 32 < 256" using byte_less [of c] by linarith
  with True show ?thesis by (simp add: to_upper_def)
qed (simp add: to_upper_def)

lemma to_lower_class [simp, case_fold]:
  "is_ascii (to_lower c) = is_ascii c"
  "is_ascii_alphabetic (to_lower c) = is_ascii_alphabetic c"
  "is_ascii_digit (to_lower c) = is_ascii_digit c"
  "is_ascii_alphanumeric (to_lower c) = is_ascii_alphanumeric c"
  "is_ascii_graphic (to_lower c) = is_ascii_graphic c"
  by (auto simp: ascii_class_defs byte_to_lower)

lemma to_upper_class [simp, case_fold]:
  "is_ascii (to_upper c) = is_ascii c"
  "is_ascii_alphabetic (to_upper c) = is_ascii_alphabetic c"
  "is_ascii_digit (to_upper c) = is_ascii_digit c"
  "is_ascii_alphanumeric (to_upper c) = is_ascii_alphanumeric c"
  "is_ascii_graphic (to_upper c) = is_ascii_graphic c"
  by (auto simp: ascii_class_defs byte_to_upper)

lemma to_lower_lower [simp, case_fold]: "to_lower (to_lower c) = to_lower c"
  unfolding byte_inject [symmetric] by (auto simp: byte_to_lower ascii_class_defs)

lemma to_lower_upper [simp, case_fold]: "to_lower (to_upper c) = to_lower c"
  unfolding byte_inject [symmetric] by (auto simp: byte_to_lower byte_to_upper ascii_class_defs)

lemma to_upper_lower [simp, case_fold]: "to_upper (to_lower c) = to_upper c"
  unfolding byte_inject [symmetric] by (auto simp: byte_to_lower byte_to_upper ascii_class_defs)

lemma to_lower_eq_noncased [simp]:
  "byte d < 65 \<Longrightarrow> to_lower c = d \<longleftrightarrow> c = d"
  "90 < byte d \<Longrightarrow> byte d < 97 \<Longrightarrow> to_lower c = d \<longleftrightarrow> c = d"
  unfolding byte_inject [symmetric] by (auto simp: byte_to_lower ascii_class_defs)

lemma to_upper_eq_noncased [simp]:
  "byte d < 65 \<Longrightarrow> to_upper c = d \<longleftrightarrow> c = d"
  unfolding byte_inject [symmetric] by (auto simp: byte_to_upper ascii_class_defs)

lemma length_case [simp]:
  "length (to_ascii_lowercase s) = length s"
  "length (to_ascii_uppercase s) = length s"
  by (simp_all add: to_ascii_lowercase_def to_ascii_uppercase_def)

lemma lowercase_idem [simp, case_fold]:
  "to_ascii_lowercase (to_ascii_lowercase s) = to_ascii_lowercase s"
  "to_ascii_lowercase (to_ascii_uppercase s) = to_ascii_lowercase s"
  "to_ascii_uppercase (to_ascii_lowercase s) = to_ascii_uppercase s"
  by (simp_all add: to_ascii_lowercase_def to_ascii_uppercase_def)

lemma to_ascii_lowercase_Nil [simp]: "to_ascii_lowercase [] = []"
  by (simp add: to_ascii_lowercase_def)

lemma to_ascii_lowercase_Nil_iff [simp]: "to_ascii_lowercase s = [] \<longleftrightarrow> s = []"
  by (simp add: to_ascii_lowercase_def)

lemma to_ascii_lowercase_append [simp]:
  "to_ascii_lowercase (s @ t) = to_ascii_lowercase s @ to_ascii_lowercase t"
  by (simp add: to_ascii_lowercase_def)

lemma to_ascii_lowercase_Cons [simp]:
  "to_ascii_lowercase (c # t) = to_lower c # to_ascii_lowercase t"
  by (simp add: to_ascii_lowercase_def)

section \<open>String operations of the Rust core library\<close>

text \<open>\<open>str::split(char)\<close>: always at least one piece, empty pieces kept.\<close>

fun split_on :: "char \<Rightarrow> string \<Rightarrow> string list" where
  "split_on d [] = [[]]"
| "split_on d (c # s) =
     (if c = d then [] # split_on d s
      else (case split_on d s of [] \<Rightarrow> [[c]] | p # ps \<Rightarrow> (c # p) # ps))"

text \<open>\<open>[S]::join\<close>.\<close>

fun join_with :: "string \<Rightarrow> string list \<Rightarrow> string" where
  "join_with d [] = []"
| "join_with d [p] = p"
| "join_with d (p # ps) = p @ d @ join_with d ps"

lemma split_on_nonempty [simp]: "split_on d s \<noteq> []"
  by (cases s) (auto split: list.splits)

lemma join_split: "join_with [d] (split_on d s) = s"
proof (induction s)
  case (Cons c s)
  obtain p ps where "split_on d s = p # ps"
    by (meson neq_Nil_conv split_on_nonempty)
  with Cons.IH show ?case by (cases ps) auto
qed simp

lemma split_on_no_sep: "d \<notin> set p \<Longrightarrow> split_on d p = [p]"
  by (induction p) auto

lemma split_on_append_sep: "d \<notin> set p \<Longrightarrow> split_on d (p @ d # s) = p # split_on d s"
  by (induction p) auto

lemma split_join:
  "ps \<noteq> [] \<Longrightarrow> (\<forall>p \<in> set ps. d \<notin> set p) \<Longrightarrow> split_on d (join_with [d] ps) = ps"
proof (induction "[d]" ps rule: join_with.induct)
  case (3 p q ps)
  then show ?case by (simp add: split_on_append_sep)
qed (auto simp: split_on_no_sep)

lemma split_on_map_lower:
  "byte d < 65 \<Longrightarrow> split_on d (to_ascii_lowercase s) = map to_ascii_lowercase (split_on d s)"
  by (induction s) (auto split: list.splits)

lemma split_on_no_sep_in: "p \<in> set (split_on d s) \<Longrightarrow> d \<notin> set p"
proof (induction s arbitrary: p)
  case (Cons c s)
  then show ?case by (auto split: if_splits list.splits)
qed simp

lemma split_on_mem: "p \<in> set (split_on d s) \<Longrightarrow> set p \<subseteq> set s"
proof (induction s arbitrary: p)
  case (Cons c s)
  then show ?case by (fastforce split: if_splits list.splits)
qed simp

definition strip_prefix :: "string \<Rightarrow> string \<Rightarrow> string option" where
  "strip_prefix p s = (if take (length p) s = p then Some (drop (length p) s) else None)"

definition starts_with :: "string \<Rightarrow> string \<Rightarrow> bool" where
  "starts_with p s \<longleftrightarrow> take (length p) s = p"

definition ends_with :: "string \<Rightarrow> string \<Rightarrow> bool" where
  "ends_with p s \<longleftrightarrow> starts_with (rev p) (rev s)"

lemma strip_prefix_Some_iff: "strip_prefix p s = Some t \<longleftrightarrow> s = p @ t"
  by (auto simp: strip_prefix_def) (metis append_take_drop_id)

text \<open>\<open>str::split_ascii_whitespace\<close>: the maximal runs of non-whitespace bytes.\<close>

fun words_from :: "string \<Rightarrow> string \<Rightarrow> string list" where
  "words_from acc [] = (if acc = [] then [] else [rev acc])"
| "words_from acc (c # s) =
     (if is_ascii_whitespace c then (if acc = [] then words_from [] s else rev acc # words_from [] s)
      else words_from (c # acc) s)"

definition split_ascii_whitespace :: "string \<Rightarrow> string list" where
  "split_ascii_whitespace s = words_from [] s"

section \<open>Unicode scalar values\<close>

text \<open>
  \<open>str::chars\<close> as the standard library decodes it: the leading byte decides how many
  continuation bytes follow, each of which carries six bits.
\<close>

definition cont_bits :: "char \<Rightarrow> nat" where
  "cont_bits c = byte c mod 64"

fun utf8_chars :: "string \<Rightarrow> nat list" where
  "utf8_chars [] = []"
| "utf8_chars (b # bs) =
     (if byte b < 128 then byte b # utf8_chars bs
      else if byte b < 224 then
        (case bs of
           c # rest \<Rightarrow> (byte b mod 32 * 64 + cont_bits c) # utf8_chars rest
         | _ \<Rightarrow> [])
      else if byte b < 240 then
        (case bs of
           c # d # rest \<Rightarrow> (byte b mod 32 * 4096 + cont_bits c * 64 + cont_bits d) # utf8_chars rest
         | _ \<Rightarrow> [])
      else
        (case bs of
           c # d # e # rest \<Rightarrow>
             (byte b mod 8 * 262144 + cont_bits c * 4096 + cont_bits d * 64 + cont_bits e)
               # utf8_chars rest
         | _ \<Rightarrow> []))"

definition utf8_encode :: "nat \<Rightarrow> string" where
  "utf8_encode n =
     (if n < 128 then [char_of n]
      else if n < 2048 then [char_of (192 + n div 64), char_of (128 + n mod 64)]
      else if n < 65536 then
        [char_of (224 + n div 4096), char_of (128 + n div 64 mod 64), char_of (128 + n mod 64)]
      else
        [char_of (240 + n div 262144), char_of (128 + n div 4096 mod 64),
         char_of (128 + n div 64 mod 64), char_of (128 + n mod 64)])"

definition utf8_of_chars :: "nat list \<Rightarrow> string" where
  "utf8_of_chars cs = concat (map utf8_encode cs)"

text \<open>\<open>char::is_whitespace\<close>: the Unicode property \<open>White_Space\<close>.\<close>

definition is_unicode_whitespace :: "nat \<Rightarrow> bool" where
  "is_unicode_whitespace n \<longleftrightarrow>
     9 \<le> n \<and> n \<le> 13 \<or> n = 32 \<or> n = 133 \<or> n = 160 \<or> n = 5760 \<or> 8192 \<le> n \<and> n \<le> 8202 \<or>
     n = 8232 \<or> n = 8233 \<or> n = 8239 \<or> n = 8287 \<or> n = 12288"

lemma is_unicode_whitespace_code [code]:
  "is_unicode_whitespace n =
     (if n < 128 then 9 \<le> n \<and> n \<le> 13 \<or> n = 32
      else n = 133 \<or> n = 160 \<or> n = 5760 \<or> 8192 \<le> n \<and> n \<le> 8202 \<or>
        n = 8232 \<or> n = 8233 \<or> n = 8239 \<or> n = 8287 \<or> n = 12288)"
  by (auto simp: is_unicode_whitespace_def)

definition str_trim :: "string \<Rightarrow> string" where
  "str_trim s = utf8_of_chars
     (rev (dropWhile is_unicode_whitespace (rev (dropWhile is_unicode_whitespace (utf8_chars s)))))"

definition char_count :: "string \<Rightarrow> nat" where
  "char_count s = length (utf8_chars s)"

text \<open>\<open>s.trim_end_matches('/')\<close>.\<close>

definition trim_end_slashes :: "string \<Rightarrow> string" where
  "trim_end_slashes s = rev (dropWhile (\<lambda>c. c = CHR ''/'') (rev s))"

text \<open>\<open>s.lines().next().unwrap_or_default().chars().take(n).collect()\<close>.\<close>

definition first_line_chars :: "nat \<Rightarrow> string \<Rightarrow> string" where
  "first_line_chars n s =
     (let line = takeWhile (\<lambda>c. byte c \<noteq> 10) s;
          line = (if length line < length s \<and> line \<noteq> [] \<and> byte (last line) = 13
                  then butlast line else line)
      in utf8_of_chars (take n (utf8_chars line)))"

lemma lead_byte_bits:
  fixes k :: nat
  shows "k < 32 \<Longrightarrow> (192 + k) mod 32 = k" "k < 16 \<Longrightarrow> (224 + k) mod 32 = k"
    "k < 8 \<Longrightarrow> (240 + k) mod 8 = k" "k < 64 \<Longrightarrow> (128 + k) mod 64 = k"
  using mod_mult_self1 [of k 6 32] mod_mult_self1 [of k 7 32]
    mod_mult_self1 [of k 30 8] mod_mult_self1 [of k 2 64]
  by (simp_all add: add.commute)

lemma six_bit_groups:
  fixes n :: nat
  shows "n div 4096 * 4096 + n div 64 mod 64 * 64 + n mod 64 = n"
    "n div 262144 * 262144 + n div 4096 mod 64 * 4096 + n div 64 mod 64 * 64 + n mod 64 = n"
proof -
  have a: "n div 64 = n div 4096 * 64 + n div 64 mod 64"
    using div_mult_mod_eq [of "n div 64" 64] by (simp add: div_mult2_eq [symmetric])
  have b: "n div 4096 = n div 262144 * 64 + n div 4096 mod 64"
    using div_mult_mod_eq [of "n div 4096" 64] by (simp add: div_mult2_eq [symmetric])
  have c: "n = n div 64 * 64 + n mod 64" by simp
  show "n div 4096 * 4096 + n div 64 mod 64 * 64 + n mod 64 = n"
    using a c by linarith
  show "n div 262144 * 262144 + n div 4096 mod 64 * 4096 + n div 64 mod 64 * 64 + n mod 64 = n"
    using a b c by linarith
qed

lemma utf8_chars_encode_append:
  assumes "n < 1114112"
  shows "utf8_chars (utf8_encode n @ s) = n # utf8_chars s"
proof -
  consider "n < 128" | "128 \<le> n" "n < 2048" | "2048 \<le> n" "n < 65536" | "65536 \<le> n"
    by linarith
  then show ?thesis
  proof cases
    case 1
    then show ?thesis by (simp add: utf8_encode_def)
  next
    case 2
    then have "n div 64 < 32" by simp
    with 2 show ?thesis by (simp add: utf8_encode_def cont_bits_def lead_byte_bits)
  next
    case 3
    then have "n div 4096 < 16" by simp
    with 3 show ?thesis
      by (simp add: utf8_encode_def cont_bits_def lead_byte_bits six_bit_groups)
  next
    case 4
    with assms have "n div 262144 < 5" by simp
    with 4 show ?thesis
      by (simp add: utf8_encode_def cont_bits_def lead_byte_bits six_bit_groups)
  qed
qed

lemma utf8_chars_of_chars:
  "(\<forall>n \<in> set cs. n < 1114112) \<Longrightarrow> utf8_chars (utf8_of_chars cs) = cs"
  by (induction cs) (simp_all add: utf8_of_chars_def utf8_chars_encode_append)

lemma utf8_chars_ascii:
  "(\<forall>c \<in> set s. is_ascii c) \<Longrightarrow> utf8_chars s = map byte s"
  by (induction s) (simp_all add: is_ascii_def)

lemma utf8_of_chars_ascii:
  "(\<forall>c \<in> set s. is_ascii c) \<Longrightarrow> utf8_of_chars (map byte s) = s"
  by (induction s) (simp_all add: is_ascii_def utf8_of_chars_def utf8_encode_def)

section \<open>Decimal and hexadecimal text\<close>

text \<open>\<open>{}\<close> of an unsigned integer, and zero padding \<open>{:0w}\<close> (the sign counts as a column).\<close>

fun decimal :: "nat \<Rightarrow> string" where
  "decimal n = (if n < 10 then [char_of (48 + n)] else decimal (n div 10) @ [char_of (48 + n mod 10)])"

declare decimal.simps [simp del]

definition pad0 :: "nat \<Rightarrow> string \<Rightarrow> string" where
  "pad0 w s = replicate (w - length s) CHR ''0'' @ s"

definition padded :: "nat \<Rightarrow> int \<Rightarrow> string" where
  "padded w n = (if n < 0 then CHR ''-'' # pad0 (w - 1) (decimal (nat (- n))) else pad0 w (decimal (nat n)))"

definition hex_digit :: "nat \<Rightarrow> char" where
  "hex_digit d = char_of (if d < 10 then 48 + d else 87 + d)"

text \<open>The low \<open>k\<close> hexadecimal digits of a number, most significant first.\<close>

fun hex_digits :: "nat \<Rightarrow> nat \<Rightarrow> string" where
  "hex_digits 0 n = []"
| "hex_digits (Suc k) n = hex_digits k (n div 16) @ [hex_digit (n mod 16)]"

lemma hex_digits_code [code]:
  "hex_digits k n = (if k = 0 then [] else hex_digits (k - 1) (n div 16) @ [hex_digit (n mod 16)])"
  by (cases k) simp_all

lemma length_hex_digits [simp]: "length (hex_digits k n) = k"
  by (induction k arbitrary: n) simp_all

lemma hex_digit_inject: "a < 16 \<Longrightarrow> b < 16 \<Longrightarrow> hex_digit a = hex_digit b \<longleftrightarrow> a = b"
  unfolding byte_inject [symmetric] by (auto simp: hex_digit_def split: if_splits)

lemma hex_digits_inject:
  "m < 16 ^ k \<Longrightarrow> n < 16 ^ k \<Longrightarrow> hex_digits k m = hex_digits k n \<Longrightarrow> m = n"
proof (induction k arbitrary: m n)
  case (Suc k)
  from Suc.prems have "hex_digits k (m div 16) = hex_digits k (n div 16)"
    and low: "m mod 16 = n mod 16" by (simp_all add: hex_digit_inject)
  moreover from Suc.prems have "m div 16 < 16 ^ k" "n div 16 < 16 ^ k"
    by (simp_all add: less_mult_imp_div_less mult.commute)
  ultimately have "m div 16 = n div 16" using Suc.IH by blast
  with low show ?case by (metis div_mult_mod_eq)
qed simp

lemma append_same_length_suffix:
  "length s = length t \<Longrightarrow> a @ s = b @ t \<longleftrightarrow> a = b \<and> s = t"
  by (metis append_eq_append_conv)

section \<open>Binary64 numbers\<close>

text \<open>
  An \<open>f64\<close> is its 64 bits: sign, 11 exponent bits, 52 fraction bits. Finite numbers are
  ordered by the signed magnitude of the remaining 63 bits (the two zeros are equal).
\<close>

type_synonym f64 = "64 word"

definition f64_is_finite :: "f64 \<Rightarrow> bool" where
  "f64_is_finite v \<longleftrightarrow> uint v div 2 ^ 52 mod 2048 \<noteq> 2047"

definition f64_key :: "f64 \<Rightarrow> int" where
  "f64_key v = (if uint v < 2 ^ 63 then uint v else 2 ^ 63 - uint v)"

text \<open>\<open>v.is_finite() && (min..=max).contains(&v)\<close>.\<close>

definition f64_in_range :: "f64 \<Rightarrow> f64 \<Rightarrow> f64 \<Rightarrow> bool" where
  "f64_in_range lo hi v \<longleftrightarrow> f64_is_finite v \<and> f64_key lo \<le> f64_key v \<and> f64_key v \<le> f64_key hi"

section \<open>Big-endian words and length-prefixed fields\<close>

fun be_bytes :: "nat \<Rightarrow> nat \<Rightarrow> string" where
  "be_bytes 0 n = []"
| "be_bytes (Suc k) n = be_bytes k (n div 256) @ [char_of n]"

definition u64_max :: nat where
  "u64_max = 2 ^ 64 - 1"

text \<open>\<open>u64::try_from(len).unwrap_or(u64::MAX).to_be_bytes()\<close>.\<close>

definition u64_be :: "nat \<Rightarrow> string" where
  "u64_be n = be_bytes 8 (min n u64_max)"

lemma be_bytes_code [code]:
  "be_bytes k n = (if k = 0 then [] else be_bytes (k - 1) (n div 256) @ [char_of n])"
  by (cases k) simp_all

lemma length_be_bytes [simp]: "length (be_bytes k n) = k"
  by (induction k arbitrary: n) simp_all

lemma be_bytes_inject:
  "m < 256 ^ k \<Longrightarrow> n < 256 ^ k \<Longrightarrow> be_bytes k m = be_bytes k n \<Longrightarrow> m = n"
proof (induction k arbitrary: m n)
  case (Suc k)
  from Suc.prems have "be_bytes k (m div 256) = be_bytes k (n div 256)"
    and low: "byte (char_of m) = byte (char_of n)" by simp_all
  moreover from Suc.prems have "m div 256 < 256 ^ k" "n div 256 < 256 ^ k"
    by (simp_all add: less_mult_imp_div_less mult.commute)
  ultimately have "m div 256 = n div 256" using Suc.IH by blast
  moreover from low have "m mod 256 = n mod 256" by simp
  ultimately show ?case by (metis div_mult_mod_eq)
qed simp

lemma length_u64_be [simp]: "length (u64_be n) = 8"
  by (simp add: u64_be_def)

lemma u64_be_inject:
  "m \<le> u64_max \<Longrightarrow> n \<le> u64_max \<Longrightarrow> u64_be m = u64_be n \<Longrightarrow> m = n"
  unfolding u64_be_def u64_max_def
  by (rule be_bytes_inject [where k = 8]) simp_all

end
