(* ===== verification/Language.thy ===== *)
theory Language
  imports Prelude
begin

text \<open>
  \<open>src/src/domain/language.rs\<close>: parsing and canonicalization of BCP 47 language hints. The
  parser's running \<open>index\<close> into the subtags is the list of subtags still to read; each \<open>while\<close>
  loop of \<open>canonicalize\<close> is one function that answers what it pushed and what it left.

  The lemmas show that the parser only ever changes letter case (outside the table of
  grandfathered tags), that it does not depend on the case of its input, and hence that
  canonicalization is idempotent: a stored hint parses back to itself.
\<close>

section \<open>Model\<close>

datatype language_hint = LanguageHint (hint_str: string)

datatype language_hint_error = Empty | TooLong | NonAscii | InvalidSyntax

definition MAX_LANGUAGE_TAG_LENGTH :: nat where
  "MAX_LANGUAGE_TAG_LENGTH = 64"

definition is_alpha :: "string \<Rightarrow> bool" where
  "is_alpha s \<longleftrightarrow> (\<forall>c \<in> set s. is_ascii_alphabetic c)"

definition is_region :: "string \<Rightarrow> bool" where
  "is_region s \<longleftrightarrow> (length s = 2 \<and> is_alpha s) \<or> (length s = 3 \<and> (\<forall>c \<in> set s. is_ascii_digit c))"

definition is_variant :: "string \<Rightarrow> bool" where
  "is_variant s \<longleftrightarrow> (5 \<le> length s \<and> length s \<le> 8) \<or>
     (length s = 4 \<and> (case s of c # _ \<Rightarrow> is_ascii_digit c | [] \<Rightarrow> False))"

definition GRANDFATHERED :: "(string \<times> string) list" where
  "GRANDFATHERED =
     [(''art-lojban'', ''jbo''),
      (''cel-gaulish'', ''cel-gaulish''),
      (''en-gb-oed'', ''en-GB-oxendict''),
      (''i-ami'', ''ami''),
      (''i-bnn'', ''bnn''),
      (''i-default'', ''i-default''),
      (''i-enochian'', ''i-enochian''),
      (''i-hak'', ''hak''),
      (''i-klingon'', ''tlh''),
      (''i-lux'', ''lb''),
      (''i-mingo'', ''i-mingo''),
      (''i-navajo'', ''nv''),
      (''i-pwn'', ''pwn''),
      (''i-tao'', ''tao''),
      (''i-tay'', ''tay''),
      (''i-tsu'', ''tsu''),
      (''no-bok'', ''nb''),
      (''no-nyn'', ''nn''),
      (''sgn-be-fr'', ''sfb''),
      (''sgn-be-nl'', ''vgt''),
      (''sgn-ch-de'', ''sgg''),
      (''zh-guoyu'', ''cmn''),
      (''zh-hakka'', ''hak''),
      (''zh-min'', ''zh-min''),
      (''zh-min-nan'', ''nan''),
      (''zh-xiang'', ''hsn'')]"

definition canonical_grandfathered :: "string \<Rightarrow> string option" where
  "canonical_grandfathered s =
     map_option snd (find (\<lambda>(candidate, _). eq_ignore_ascii_case s candidate) GRANDFATHERED)"

text \<open>The \<open>extlang\<close> loop: at most \<open>n\<close> three-letter subtags.\<close>

fun extlangs :: "nat \<Rightarrow> string list \<Rightarrow> string list \<times> string list" where
  "extlangs n (t # ts) =
     (if 0 < n \<and> length t = 3 \<and> is_alpha t
      then (case extlangs (n - 1) ts of (pushed, rest) \<Rightarrow> (to_ascii_lowercase t # pushed, rest))
      else ([], t # ts))"
| "extlangs n [] = ([], [])"

definition title_case :: "string \<Rightarrow> string" where
  "title_case s = (case to_ascii_lowercase s of [] \<Rightarrow> [] | c # cs \<Rightarrow> to_upper c # cs)"

definition script_subtag :: "string list \<Rightarrow> string list \<times> string list" where
  "script_subtag ts = (case ts of
      t # rest \<Rightarrow> if length t = 4 \<and> is_alpha t then ([title_case t], rest) else ([], ts)
    | [] \<Rightarrow> ([], []))"

definition region_subtag :: "string list \<Rightarrow> string list \<times> string list" where
  "region_subtag ts = (case ts of
      t # rest \<Rightarrow> if is_region t then ([to_ascii_uppercase t], rest) else ([], ts)
    | [] \<Rightarrow> ([], []))"

text \<open>The variant loop, with the set of variants already seen; \<open>None\<close> is \<open>InvalidSyntax\<close>.\<close>

fun variant_subtags :: "string list \<Rightarrow> string list \<Rightarrow> (string list \<times> string list) option" where
  "variant_subtags seen (t # ts) =
     (if is_variant t then
        (let v = to_ascii_lowercase t in
         if v \<in> set seen then None
         else map_option (\<lambda>(pushed, rest). (v # pushed, rest)) (variant_subtags (v # seen) ts))
      else Some ([], t # ts))"
| "variant_subtags seen [] = Some ([], [])"

definition is_extension_part :: "string \<Rightarrow> bool" where
  "is_extension_part s \<longleftrightarrow> 2 \<le> length s \<and> length s \<le> 8"

definition is_extension_singleton :: "string \<Rightarrow> bool" where
  "is_extension_singleton s \<longleftrightarrow> length s = 1 \<and> \<not> eq_ignore_ascii_case s ''x''"

text \<open>The extension loop: a singleton once each, followed by at least one part.\<close>

function extension_subtags :: "string list \<Rightarrow> string list \<Rightarrow> (string list \<times> string list) option" where
  "extension_subtags seen (t # ts) =
     (if is_extension_singleton t then
        (let s = to_ascii_lowercase t in
         if s \<in> set seen \<or> takeWhile is_extension_part ts = [] then None
         else map_option
           (\<lambda>(pushed, rest). (s # map to_ascii_lowercase (takeWhile is_extension_part ts) @ pushed, rest))
           (extension_subtags (s # seen) (dropWhile is_extension_part ts)))
      else Some ([], t # ts))"
| "extension_subtags seen [] = Some ([], [])"
  by pat_completeness auto
termination
  by (relation "measure (\<lambda>(seen, ts). length ts)") (auto simp: length_dropWhile_le le_imp_less_Suc)

definition private_subtags :: "string list \<Rightarrow> (string list \<times> string list) option" where
  "private_subtags ts = (case ts of
      t # rest \<Rightarrow>
        if eq_ignore_ascii_case t ''x''
        then (if rest = [] then None else Some (''x'' # map to_ascii_lowercase rest, []))
        else Some ([], ts)
    | [] \<Rightarrow> Some ([], []))"

text \<open>What follows the language subtag (\<open>index >= 1\<close>), in the order of the grammar.\<close>

definition canonicalize_rest :: "string \<Rightarrow> string list \<Rightarrow> string list option" where
  "canonicalize_rest language ts =
     (let (ext, ts) = (if length language \<le> 3 then extlangs 3 ts else ([], ts));
          (script, ts) = script_subtag ts;
          (region, ts) = region_subtag ts
      in case variant_subtags [] ts of
           None \<Rightarrow> None
         | Some (variants, ts) \<Rightarrow>
             (case extension_subtags [] ts of
                None \<Rightarrow> None
              | Some (extensions, ts) \<Rightarrow>
                  (case private_subtags ts of
                     None \<Rightarrow> None
                   | Some (priv, ts) \<Rightarrow>
                       if ts \<noteq> [] then None
                       else Some (to_ascii_lowercase language # ext @ script @ region @
                                  variants @ extensions @ priv))))"

definition canonicalize_subtags :: "string list \<Rightarrow> string list option" where
  "canonicalize_subtags subtags =
     (case subtags of
        [] \<Rightarrow> None
      | language # rest \<Rightarrow>
          if eq_ignore_ascii_case language ''x'' then
            (if length subtags < 2 then None else Some (map to_ascii_lowercase subtags))
          else if \<not> (2 \<le> length language \<and> length language \<le> 8) \<or> \<not> is_alpha language then None
          else canonicalize_rest language rest)"

definition bad_subtag :: "string \<Rightarrow> bool" where
  "bad_subtag s \<longleftrightarrow> s = [] \<or> length s > 8 \<or> \<not> (\<forall>c \<in> set s. is_ascii_alphanumeric c)"

definition canonicalize :: "string \<Rightarrow> (string, language_hint_error) result" where
  "canonicalize s =
     (if s = [] then Err Empty
      else if length s > MAX_LANGUAGE_TAG_LENGTH then Err TooLong
      else if \<not> (\<forall>c \<in> set s. is_ascii c) then Err NonAscii
      else if s \<noteq> str_trim s \<or> CHR ''_'' \<in> set s then Err InvalidSyntax
      else case canonical_grandfathered s of
        Some canonical \<Rightarrow> Ok canonical
      | None \<Rightarrow>
          (let subtags = split_on CHR ''-'' s in
           if \<exists>t \<in> set subtags. bad_subtag t then Err InvalidSyntax
           else case canonicalize_subtags subtags of
             None \<Rightarrow> Err InvalidSyntax
           | Some canonical \<Rightarrow> Ok (join_with ''-'' canonical)))"

definition language_hint_from_str :: "string \<Rightarrow> (language_hint, language_hint_error) result" where
  "language_hint_from_str s = map_ok LanguageHint (canonicalize s)"

definition primary_language :: "language_hint \<Rightarrow> string" where
  "primary_language h = (case split_on CHR ''-'' (hint_str h) of p # _ \<Rightarrow> p | [] \<Rightarrow> [])"

section \<open>The parser does not depend on letter case\<close>

lemma case_fold_predicates [simp]:
  "is_alpha (to_ascii_lowercase t) = is_alpha t"
  "is_region (to_ascii_lowercase t) = is_region t"
  "is_variant (to_ascii_lowercase t) = is_variant t"
  "is_extension_part (to_ascii_lowercase t) = is_extension_part t"
  "eq_ignore_ascii_case (to_ascii_lowercase t) u = eq_ignore_ascii_case t u"
  "is_extension_singleton (to_ascii_lowercase t) = is_extension_singleton t"
  "bad_subtag (to_ascii_lowercase t) = bad_subtag t"
  "title_case (to_ascii_lowercase t) = title_case t"
  by (simp_all add: is_alpha_def is_region_def is_variant_def is_extension_part_def
      eq_ignore_ascii_case_def is_extension_singleton_def bad_subtag_def title_case_def)
    (simp_all add: to_ascii_lowercase_def split: list.splits)

lemma extlangs_lower:
  "extlangs n (map to_ascii_lowercase ts) = map_prod id (map to_ascii_lowercase) (extlangs n ts)"
  by (induction n ts rule: extlangs.induct) (auto split: prod.splits)

lemma script_subtag_lower:
  "script_subtag (map to_ascii_lowercase ts) = map_prod id (map to_ascii_lowercase) (script_subtag ts)"
  by (cases ts) (simp_all add: script_subtag_def)

lemma region_subtag_lower:
  "region_subtag (map to_ascii_lowercase ts) = map_prod id (map to_ascii_lowercase) (region_subtag ts)"
  by (cases ts) (simp_all add: region_subtag_def)

lemma variant_subtags_lower:
  "variant_subtags seen (map to_ascii_lowercase ts) =
     map_option (map_prod id (map to_ascii_lowercase)) (variant_subtags seen ts)"
  by (induction seen ts rule: variant_subtags.induct)
    (auto simp: Let_def option.map_comp comp_def intro!: option.map_cong0)

lemma takeWhile_extension_lower:
  "takeWhile is_extension_part (map to_ascii_lowercase ts) =
     map to_ascii_lowercase (takeWhile is_extension_part ts)"
  "dropWhile is_extension_part (map to_ascii_lowercase ts) =
     map to_ascii_lowercase (dropWhile is_extension_part ts)"
  by (simp_all add: takeWhile_map dropWhile_map comp_def)

lemma extension_subtags_lower:
  "extension_subtags seen (map to_ascii_lowercase ts) =
     map_option (map_prod id (map to_ascii_lowercase)) (extension_subtags seen ts)"
proof (induction seen ts rule: extension_subtags.induct)
  case (1 seen t ts)
  show ?case
  proof (cases "is_extension_singleton t \<and> to_ascii_lowercase t \<notin> set seen \<and> takeWhile is_extension_part ts \<noteq> []")
    case True
    with "1.IH" [OF _ refl]
    have IH: "extension_subtags (to_ascii_lowercase t # seen)
        (map to_ascii_lowercase (dropWhile is_extension_part ts)) =
      map_option (map_prod id (map to_ascii_lowercase))
        (extension_subtags (to_ascii_lowercase t # seen) (dropWhile is_extension_part ts))"
      by blast
    with True show ?thesis
      by (cases "extension_subtags (to_ascii_lowercase t # seen) (dropWhile is_extension_part ts)")
        (auto simp: takeWhile_extension_lower Let_def)
  qed (auto simp: takeWhile_extension_lower)
qed simp

lemma private_subtags_lower:
  "private_subtags (map to_ascii_lowercase ts) =
     map_option (map_prod id (map to_ascii_lowercase)) (private_subtags ts)"
  by (cases ts) (simp_all add: private_subtags_def)

lemmas subtags_lower = extlangs_lower script_subtag_lower region_subtag_lower
  variant_subtags_lower extension_subtags_lower private_subtags_lower

lemma canonicalize_rest_lower:
  "canonicalize_rest (to_ascii_lowercase l) (map to_ascii_lowercase ts) = canonicalize_rest l ts"
  by (simp add: canonicalize_rest_def subtags_lower split: prod.splits option.splits)

lemma canonicalize_subtags_lower:
  "canonicalize_subtags (map to_ascii_lowercase ts) = canonicalize_subtags ts"
  by (cases ts) (simp_all add: canonicalize_subtags_def canonicalize_rest_lower)

lemma whitespace_to_lower [simp]:
  "is_unicode_whitespace (byte (to_lower c)) = is_unicode_whitespace (byte c)"
  by (auto simp: is_unicode_whitespace_def byte_to_lower ascii_class_defs)

lemma str_trim_ascii:
  assumes "\<forall>c \<in> set s. is_ascii c"
  shows "str_trim s = rev (dropWhile (is_unicode_whitespace \<circ> byte)
    (rev (dropWhile (is_unicode_whitespace \<circ> byte) s)))"
proof -
  let ?t = "rev (dropWhile (is_unicode_whitespace \<circ> byte)
    (rev (dropWhile (is_unicode_whitespace \<circ> byte) s)))"
  have "set ?t \<subseteq> set s" by (auto dest!: set_dropWhileD)
  with assms have "utf8_of_chars (map byte ?t) = ?t" by (intro utf8_of_chars_ascii) auto
  moreover have "str_trim s = utf8_of_chars (map byte ?t)"
    by (simp add: str_trim_def utf8_chars_ascii [OF assms] rev_map dropWhile_map)
  ultimately show ?thesis by simp
qed

lemma str_trim_lower:
  assumes "\<forall>c \<in> set s. is_ascii c"
  shows "str_trim (to_ascii_lowercase s) = to_ascii_lowercase (str_trim s)"
proof -
  have "\<forall>c \<in> set (to_ascii_lowercase s). is_ascii c"
    using assms by (auto simp: to_ascii_lowercase_def)
  with assms show ?thesis
    by (simp add: str_trim_ascii)
      (simp add: to_ascii_lowercase_def dropWhile_map rev_map comp_def)
qed

lemma str_trim_eq_length:
  assumes "\<forall>c \<in> set s. is_ascii c" and "length (str_trim s) = length s"
  shows "str_trim s = s"
proof -
  let ?w = "is_unicode_whitespace \<circ> byte"
  have drop: "dropWhile ?w xs = xs" if "length (dropWhile ?w xs) = length xs" for xs
    using that by (metis append_eq_conv_conj length_0_conv takeWhile_dropWhile_id length_append
        add_eq_self_zero self_append_conv2 add.commute)
  have le: "length (dropWhile ?w (rev (dropWhile ?w s))) \<le> length (dropWhile ?w s)"
    by (metis length_dropWhile_le length_rev)
  with assms have len: "length (dropWhile ?w s) = length s"
    by (metis (no_types, lifting) str_trim_ascii length_dropWhile_le length_rev order_antisym)
  then have s: "dropWhile ?w s = s" by (rule drop)
  with assms have "length (dropWhile ?w (rev s)) = length (rev s)"
    by (simp add: str_trim_ascii)
  then have "dropWhile ?w (rev s) = rev s" by (rule drop)
  with s show ?thesis by (simp add: str_trim_ascii [OF assms(1)])
qed

lemma untrimmed_lower:
  assumes "\<forall>c \<in> set s. is_ascii c"
  shows "to_ascii_lowercase s = str_trim (to_ascii_lowercase s) \<longleftrightarrow> s = str_trim s"
  using assms by (metis length_case(1) str_trim_eq_length str_trim_lower)

lemma underscore_lower: "CHR ''_'' \<in> set (to_ascii_lowercase s) \<longleftrightarrow> CHR ''_'' \<in> set s"
proof -
  have "byte CHR ''_'' = 95" by (simp add: byte_def)
  then have "\<And>c. to_lower c = CHR ''_'' \<longleftrightarrow> c = CHR ''_''" by simp
  then show ?thesis by (metis (no_types, lifting) image_iff list.set_map to_ascii_lowercase_def)
qed

lemma canonical_grandfathered_lower [simp]:
  "canonical_grandfathered (to_ascii_lowercase s) = canonical_grandfathered s"
  by (simp add: canonical_grandfathered_def)

lemma split_hyphen_lower:
  "split_on CHR ''-'' (to_ascii_lowercase s) = map to_ascii_lowercase (split_on CHR ''-'' s)"
  by (rule split_on_map_lower) (simp add: byte_def)

text \<open>
  Canonicalization is insensitive to letter case: a tag and its lower-case spelling are
  accepted or refused together, with the same error or the same canonical form.
\<close>

theorem canonicalize_case_insensitive: "canonicalize (to_ascii_lowercase s) = canonicalize s"
proof (cases "\<forall>c \<in> set s. is_ascii c")
  case True
  then have "\<forall>c \<in> set (to_ascii_lowercase s). is_ascii c"
    by (simp add: to_ascii_lowercase_def)
  with True show ?thesis
    by (cases "canonical_grandfathered s") (simp_all add: canonicalize_def untrimmed_lower
        underscore_lower split_hyphen_lower canonicalize_subtags_lower Let_def)
next
  case False
  then have "\<not> (\<forall>c \<in> set (to_ascii_lowercase s). is_ascii c)"
    by (simp add: to_ascii_lowercase_def)
  with False show ?thesis by (simp add: canonicalize_def)
qed

section \<open>Only letter case changes\<close>

lemma extlangs_fold:
  "extlangs n ts = (pushed, rest) \<Longrightarrow>
     map to_ascii_lowercase (pushed @ rest) = map to_ascii_lowercase ts"
  by (induction n ts arbitrary: pushed rest rule: extlangs.induct)
    (auto split: if_splits prod.splits)

lemma lower_title_case [simp]: "to_ascii_lowercase (title_case t) = to_ascii_lowercase t"
  by (cases t) (simp_all add: title_case_def)

lemma script_subtag_fold:
  "script_subtag ts = (pushed, rest) \<Longrightarrow>
     map to_ascii_lowercase (pushed @ rest) = map to_ascii_lowercase ts"
  by (auto simp: script_subtag_def split: list.splits if_splits)

lemma region_subtag_fold:
  "region_subtag ts = (pushed, rest) \<Longrightarrow>
     map to_ascii_lowercase (pushed @ rest) = map to_ascii_lowercase ts"
  by (auto simp: region_subtag_def split: list.splits if_splits)

lemma variant_subtags_fold:
  "variant_subtags seen ts = Some (pushed, rest) \<Longrightarrow>
     map to_ascii_lowercase (pushed @ rest) = map to_ascii_lowercase ts"
  by (induction seen ts arbitrary: pushed rest rule: variant_subtags.induct)
    (auto simp: Let_def split: if_splits)

lemma extension_subtags_fold:
  "extension_subtags seen ts = Some (pushed, rest) \<Longrightarrow>
     map to_ascii_lowercase (pushed @ rest) = map to_ascii_lowercase ts"
proof (induction seen ts arbitrary: pushed rest rule: extension_subtags.induct)
  case (1 seen t ts)
  show ?case
  proof (cases "is_extension_singleton t")
    case True
    with "1.prems" obtain p where p:
      "extension_subtags (to_ascii_lowercase t # seen) (dropWhile is_extension_part ts) = Some (p, rest)"
      "to_ascii_lowercase t \<notin> set seen" "takeWhile is_extension_part ts \<noteq> []"
      "pushed = to_ascii_lowercase t # map to_ascii_lowercase (takeWhile is_extension_part ts) @ p"
      by (auto simp: Let_def split: if_splits)
    with "1.IH" [OF True refl] have
      "map to_ascii_lowercase (p @ rest) = map to_ascii_lowercase (dropWhile is_extension_part ts)"
      by simp
    then have "map to_ascii_lowercase (takeWhile is_extension_part ts) @ map to_ascii_lowercase (p @ rest)
        = map to_ascii_lowercase ts"
      by (simp only: map_append [symmetric] takeWhile_dropWhile_id)
    with p(4) show ?thesis by (simp add: comp_def)
  qed (use "1.prems" in simp)
qed simp

lemma private_subtags_fold:
  "private_subtags ts = Some (pushed, rest) \<Longrightarrow>
     map to_ascii_lowercase (pushed @ rest) = map to_ascii_lowercase ts"
  by (auto simp: private_subtags_def eq_ignore_ascii_case_def split: list.splits if_splits)

lemma canonicalize_rest_fold:
  assumes "canonicalize_rest l ts = Some c"
  shows "map to_ascii_lowercase c = map to_ascii_lowercase (l # ts)"
proof -
  obtain ext ts1 where 1: "(if length l \<le> 3 then extlangs 3 ts else ([], ts)) = (ext, ts1)"
    by force
  obtain script ts2 where 2: "script_subtag ts1 = (script, ts2)" by force
  obtain region ts3 where 3: "region_subtag ts2 = (region, ts3)" by force
  from assms 1 2 3 obtain variants ts4 extensions ts5 priv where
    4: "variant_subtags [] ts3 = Some (variants, ts4)" and
    5: "extension_subtags [] ts4 = Some (extensions, ts5)" and
    6: "private_subtags ts5 = Some (priv, [])" and
    c: "c = to_ascii_lowercase l # ext @ script @ region @ variants @ extensions @ priv"
    by (auto simp: canonicalize_rest_def split: option.splits if_splits)
  from 1 have "map to_ascii_lowercase (ext @ ts1) = map to_ascii_lowercase ts"
    by (auto dest: extlangs_fold split: if_splits)
  with c script_subtag_fold [OF 2] region_subtag_fold [OF 3] variant_subtags_fold [OF 4]
    extension_subtags_fold [OF 5] private_subtags_fold [OF 6]
  show ?thesis by (simp add: comp_def)
qed

lemma canonicalize_subtags_fold:
  "canonicalize_subtags ts = Some c \<Longrightarrow> map to_ascii_lowercase c = map to_ascii_lowercase ts"
  by (auto simp: canonicalize_subtags_def comp_def dest: canonicalize_rest_fold
      split: list.splits if_splits)

lemma join_hyphen_lower:
  "to_ascii_lowercase (join_with ''-'' ps) = join_with ''-'' (map to_ascii_lowercase ps)"
proof -
  have "byte CHR ''-'' = 45" by (simp add: byte_def)
  then have "to_lower CHR ''-'' = CHR ''-''" by simp
  then show ?thesis by (induction "''-''" ps rule: join_with.induct) simp_all
qed

lemma canonicalize_fold:
  assumes "canonicalize s = Ok c" and "canonical_grandfathered s = None"
  shows "to_ascii_lowercase c = to_ascii_lowercase s"
proof -
  from assms obtain ts where "canonicalize_subtags (split_on CHR ''-'' s) = Some ts"
    and c: "c = join_with ''-'' ts"
    by (auto simp: canonicalize_def Let_def split: if_splits option.splits)
  then have "map to_ascii_lowercase ts = map to_ascii_lowercase (split_on CHR ''-'' s)"
    by (intro canonicalize_subtags_fold)
  then show ?thesis
    by (metis c join_hyphen_lower join_split)
qed

lemma grandfathered_length: "canonical_grandfathered s \<noteq> None \<Longrightarrow> 5 \<le> length s"
proof -
  assume "canonical_grandfathered s \<noteq> None"
  then obtain x where "x \<in> set GRANDFATHERED" and "eq_ignore_ascii_case s (fst x)"
    by (auto simp: canonical_grandfathered_def dest!: find_SomeD)
  moreover have "list_all (\<lambda>x. 5 \<le> length (fst x)) GRANDFATHERED"
    by (simp add: GRANDFATHERED_def)
  ultimately show ?thesis
    by (metis eq_ignore_ascii_case_def length_case(1) list_all_iff)
qed

lemma lowercase_not_special:
  assumes "is_ascii_lowercase c"
  shows "is_ascii c" "\<not> is_unicode_whitespace (byte c)" "c \<noteq> CHR ''_''" "c \<noteq> CHR ''-''"
    "is_ascii_alphabetic c" "to_lower c = c"
proof -
  have "byte CHR ''_'' = 95" "byte CHR ''-'' = 45" by (simp_all add: byte_def)
  with assms show "c \<noteq> CHR ''_''" "c \<noteq> CHR ''-''" by (auto simp: is_ascii_lowercase_def)
qed (use assms in \<open>auto simp: ascii_class_defs is_unicode_whitespace_def to_lower_def\<close>)

lemma canonicalize_plain_language:
  assumes "2 \<le> length s" "length s \<le> 3" and low: "\<forall>c \<in> set s. is_ascii_lowercase c"
  shows "canonicalize s = Ok s"
proof -
  have lower: "to_ascii_lowercase s = s"
    using low by (simp add: to_ascii_lowercase_def map_idI lowercase_not_special)
  have "dropWhile (is_unicode_whitespace \<circ> byte) s = s"
    using low by (cases s) (simp_all add: lowercase_not_special)
  moreover have "dropWhile (is_unicode_whitespace \<circ> byte) (rev s) = rev s"
    using low by (cases s rule: rev_cases) (simp_all add: lowercase_not_special)
  ultimately have "str_trim s = s"
    using low by (simp add: str_trim_ascii lowercase_not_special)
  moreover have "canonical_grandfathered s = None"
    using assms(2) grandfathered_length [of s] by fastforce
  moreover have "split_on CHR ''-'' s = [s]"
    using low by (intro split_on_no_sep) (auto dest: lowercase_not_special)
  moreover have "\<not> bad_subtag s" "is_alpha s"
    using assms by (auto simp: bad_subtag_def is_alpha_def is_ascii_alphanumeric_def lowercase_not_special)
  moreover have "canonicalize_rest s [] = Some [s]"
    by (simp add: canonicalize_rest_def script_subtag_def region_subtag_def private_subtags_def
        lower numeral_3_eq_3)
  moreover have "\<not> eq_ignore_ascii_case s ''x''"
    using assms(1) by (auto simp: eq_ignore_ascii_case_def dest: arg_cong [where f = length])
  moreover have "CHR ''_'' \<notin> set s" "\<forall>c \<in> set s. is_ascii c"
    using low lowercase_not_special by blast+
  ultimately show ?thesis
    using assms(1,2) by (auto simp: canonicalize_def canonicalize_subtags_def MAX_LANGUAGE_TAG_LENGTH_def)
qed

lemma canonicalize_fixed_tags:
  "canonicalize ''cel-gaulish'' = Ok ''cel-gaulish''"
  "canonicalize ''i-default'' = Ok ''i-default''"
  "canonicalize ''i-enochian'' = Ok ''i-enochian''"
  "canonicalize ''i-mingo'' = Ok ''i-mingo''"
  "canonicalize ''zh-min'' = Ok ''zh-min''"
  "canonicalize ''en-GB-oxendict'' = Ok ''en-GB-oxendict''"
  by code_simp+

lemma grandfathered_canonical_fixed:
  "list_all (\<lambda>x. canonicalize (snd x) = Ok (snd x)) GRANDFATHERED"
  by (simp add: GRANDFATHERED_def canonicalize_fixed_tags canonicalize_plain_language
      is_ascii_lowercase_def byte_def)

lemma canonical_grandfathered_in_table:
  "canonical_grandfathered s = Some c \<Longrightarrow> c \<in> snd ` set GRANDFATHERED"
  by (auto simp: canonical_grandfathered_def dest!: find_SomeD intro: rev_image_eqI)

text \<open>
  Canonicalization is idempotent. Whatever the input, a canonical tag it produced is
  accepted and is its own canonical form, so a stored hint (serialized with \<open>into = "String"\<close>
  and read back with \<open>try_from = "String"\<close>) never changes.
\<close>

theorem canonicalize_idempotent:
  assumes "canonicalize s = Ok c"
  shows "canonicalize c = Ok c"
proof (cases "canonical_grandfathered s")
  case None
  with assms have "to_ascii_lowercase c = to_ascii_lowercase s" by (rule canonicalize_fold)
  with assms show ?thesis by (metis canonicalize_case_insensitive)
next
  case (Some g)
  with assms have "c = g" by (auto simp: canonicalize_def split: if_splits)
  with Some have "c \<in> snd ` set GRANDFATHERED" by (simp add: canonical_grandfathered_in_table)
  then show ?thesis using grandfathered_canonical_fixed by (auto simp: list_all_iff)
qed

theorem canonicalize_idempotent_witness:
  "canonicalize ''PT-br-X-team'' = Ok ''pt-BR-x-team'' \<and>
   canonicalize ''pt-BR-x-team'' = Ok ''pt-BR-x-team''"
proof -
  have "canonicalize ''PT-br-X-team'' = Ok ''pt-BR-x-team''" by code_simp
  with canonicalize_idempotent [OF this] show ?thesis by simp
qed

end
