(* ===== verification/Identity.thy ===== *)
theory Identity
  imports Prelude
begin

text \<open>
  \<open>src/src/domain/identity.rs\<close>: account kinds, private storage keys, permanent account uuids,
  public ids, application ids and request ids. The \<open>uuid\<close> crate's text functions are the
  parameter \<open>uuid_crate\<close>; an RFC 4122 UUID itself is its 128 bits.
\<close>

type_synonym uuid = "128 word"

text \<open>Instants and durations are counted in nanoseconds, the resolution of \<open>OffsetDateTime\<close>
  and \<open>std::time::Duration\<close>.\<close>

type_synonym instant = int
type_synonym duration = nat

definition secs :: "nat \<Rightarrow> duration" where
  "secs n = n * 1000000000"

text \<open>\<open>Uuid::parse_str\<close> and \<open>Uuid::hyphenated().to_string()\<close> (also its \<open>Display\<close>).\<close>

record uuid_crate =
  uuid_parse :: "string \<Rightarrow> uuid option"
  uuid_text :: "uuid \<Rightarrow> string"

section \<open>Model\<close>

datatype actor_kind = Carbon | Silicon

fun actor_kind_as_str :: "actor_kind \<Rightarrow> string" where
  "actor_kind_as_str Carbon = ''carbon''"
| "actor_kind_as_str Silicon = ''silicon''"

datatype identity_error =
    InvalidLength string nat
  | InvalidCharacters string
  | InvalidUuid string
  | NilUuid string

definition actor_kind_from_str :: "string \<Rightarrow> (actor_kind, identity_error) result" where
  "actor_kind_from_str s =
     (if s = ''carbon'' then Ok Carbon
      else if s = ''silicon'' then Ok Silicon
      else Err (InvalidCharacters ''account kind''))"

definition ensure_non_nil :: "uuid \<Rightarrow> string \<Rightarrow> (uuid, identity_error) result" where
  "ensure_non_nil u field = (if u = 0 then Err (NilUuid field) else Ok u)"

datatype actor_id = ActorId (actor_uuid: uuid)

definition actor_id_new :: "uuid \<Rightarrow> (actor_id, identity_error) result" where
  "actor_id_new u = map_ok ActorId (ensure_non_nil u ''actor ID'')"

record actor =
  act_kind :: actor_kind
  act_id :: actor_id

definition MAX_ACCOUNT_UUID_LENGTH :: nat where
  "MAX_ACCOUNT_UUID_LENGTH = 64"

definition MAX_APPLICATION_ID_LENGTH :: nat where
  "MAX_APPLICATION_ID_LENGTH = 80"

definition MAX_PUBLIC_ID_HANDLE_LENGTH :: nat where
  "MAX_PUBLIC_ID_HANDLE_LENGTH = 64"

datatype account_uuid = AccountUuid (account_uuid_str: string)

definition account_uuid_from_str ::
    "uuid_crate \<Rightarrow> string \<Rightarrow> (account_uuid, identity_error) result" where
  "account_uuid_from_str U s =
     (if \<not> (1 \<le> length s \<and> length s \<le> MAX_ACCOUNT_UUID_LENGTH)
      then Err (InvalidLength ''account uuid'' MAX_ACCOUNT_UUID_LENGTH)
      else if \<not> (\<forall>c \<in> set s. is_ascii_alphanumeric c) \<and>
              \<not> (case uuid_parse U s of Some u \<Rightarrow> uuid_text U u = s | None \<Rightarrow> False)
      then Err (InvalidCharacters ''account uuid'')
      else Ok (AccountUuid s))"

definition is_handle_byte :: "char \<Rightarrow> bool" where
  "is_handle_byte c \<longleftrightarrow> is_ascii_lowercase c \<or> is_ascii_digit c \<or> c = CHR ''_'' \<or> c = CHR ''-''"

definition public_id_kind :: "string \<Rightarrow> actor_kind option" where
  "public_id_kind s =
     (let split = (case strip_prefix ''c:'' s of
                     Some handle \<Rightarrow> Some (Carbon, handle)
                   | None \<Rightarrow> map_option (\<lambda>handle. (Silicon, handle)) (strip_prefix ''si:'' s))
      in case split of
           None \<Rightarrow> None
         | Some (kind, handle) \<Rightarrow>
             if (1 \<le> length handle \<and> length handle \<le> MAX_PUBLIC_ID_HANDLE_LENGTH) \<and>
                (\<forall>c \<in> set handle. is_handle_byte c)
             then Some kind else None)"

record account_ref =
  ref_uuid :: account_uuid
  ref_id :: string

datatype application_id = ApplicationId (application_id_str: string)

definition application_id_from_str :: "string \<Rightarrow> (application_id, identity_error) result" where
  "application_id_from_str s =
     (if \<not> (1 \<le> length s \<and> length s \<le> MAX_APPLICATION_ID_LENGTH)
      then Err (InvalidLength ''application ID'' MAX_APPLICATION_ID_LENGTH)
      else if \<not> is_ascii_lowercase (s ! 0) \<or> \<not> (\<forall>c \<in> set s. is_handle_byte c)
      then Err (InvalidCharacters ''application ID'')
      else Ok (ApplicationId s))"

datatype request_id = RequestId (request_uuid: uuid)

definition request_id_new :: "uuid \<Rightarrow> (request_id, identity_error) result" where
  "request_id_new u = map_ok RequestId (ensure_non_nil u ''request ID'')"

definition request_id_from_str :: "uuid_crate \<Rightarrow> string \<Rightarrow> (request_id, identity_error) result" where
  "request_id_from_str U s =
     and_then (ok_or (uuid_parse U s) (InvalidUuid ''request ID'')) request_id_new"

section \<open>A reference text form of uuids\<close>

text \<open>
  The documented hyphenated form (8-4-4-4-12 lower-case hexadecimal digits) as one concrete
  \<open>uuid_crate\<close>, on which statements that take the crate as a parameter are instantiated.
\<close>

definition hyphenated :: "uuid \<Rightarrow> string" where
  "hyphenated u =
     (let h = hex_digits 32 (unat u) in
      take 8 h @ ''-'' @ take 4 (drop 8 h) @ ''-'' @ take 4 (drop 12 h) @ ''-'' @
      take 4 (drop 16 h) @ ''-'' @ drop 20 h)"

definition hex_value :: "char \<Rightarrow> nat option" where
  "hex_value c = (if is_ascii_digit c then Some (byte c - 48)
     else if 97 \<le> byte c \<and> byte c \<le> 102 then Some (byte c - 87)
     else if 65 \<le> byte c \<and> byte c \<le> 70 then Some (byte c - 55) else None)"

definition parse_hyphenated :: "string \<Rightarrow> uuid option" where
  "parse_hyphenated s =
     (let ds = map hex_value (filter (\<lambda>c. c \<noteq> CHR ''-'') s) in
      if length s = 36 \<and> (\<forall>i \<in> {8, 13, 18, 23}. s ! i = CHR ''-'') \<and>
         length ds = 32 \<and> None \<notin> set ds
      then Some (of_nat (foldl (\<lambda>a d. 16 * a + the d) 0 ds)) else None)"

definition reference_uuid_crate :: uuid_crate where
  "reference_uuid_crate = \<lparr>uuid_parse = parse_hyphenated, uuid_text = hyphenated\<rparr>"

lemma length_hyphenated [simp]: "length (hyphenated u) = 36"
  by (simp add: hyphenated_def Let_def)

lemma hyphenated_inject: "hyphenated u = hyphenated v \<Longrightarrow> u = v"
proof -
  assume eq: "hyphenated u = hyphenated v"
  let ?h = "\<lambda>w :: uuid. hex_digits 32 (unat w)"
  have parts: "take 8 (?h u) = take 8 (?h v) \<and> take 4 (drop 8 (?h u)) = take 4 (drop 8 (?h v)) \<and>
      take 4 (drop 12 (?h u)) = take 4 (drop 12 (?h v)) \<and>
      take 4 (drop 16 (?h u)) = take 4 (drop 16 (?h v)) \<and> drop 20 (?h u) = drop 20 (?h v)"
    using eq by (simp add: hyphenated_def Let_def)
  have glue: "?h w = take 8 (?h w) @ take 4 (drop 8 (?h w)) @ take 4 (drop 12 (?h w)) @
      take 4 (drop 16 (?h w)) @ drop 20 (?h w)" for w
  proof -
    have "drop 16 (?h w) = take 4 (drop 16 (?h w)) @ drop 20 (?h w)"
      "drop 12 (?h w) = take 4 (drop 12 (?h w)) @ drop 16 (?h w)"
      "drop 8 (?h w) = take 4 (drop 8 (?h w)) @ drop 12 (?h w)"
      using append_take_drop_id [of 4 "drop 16 (?h w)"] append_take_drop_id [of 4 "drop 12 (?h w)"]
        append_take_drop_id [of 4 "drop 8 (?h w)"] by simp_all
    then show ?thesis by (metis append_take_drop_id)
  qed
  have "?h u = ?h v" using parts glue [of u] glue [of v] by presburger
  moreover have "unat w < 16 ^ 32" for w :: uuid using unsigned_less [of w] by simp
  ultimately show "u = v" using hex_digits_inject unsigned_word_eqI by blast
qed

section \<open>Properties\<close>

lemma actor_kind_round_trip: "actor_kind_from_str (actor_kind_as_str k) = Ok k"
  by (cases k) (simp_all add: actor_kind_from_str_def)

lemma request_id_new_non_nil: "request_id_new u = Ok r \<longleftrightarrow> u \<noteq> 0 \<and> r = RequestId u"
  by (auto simp: request_id_new_def ensure_non_nil_def)

lemma actor_id_new_non_nil: "actor_id_new u = Ok a \<longleftrightarrow> u \<noteq> 0 \<and> a = ActorId u"
  by (auto simp: actor_id_new_def ensure_non_nil_def)

lemma account_uuid_exact:
  "account_uuid_from_str U s = Ok a \<Longrightarrow> account_uuid_str a = s"
  by (auto simp: account_uuid_from_str_def split: if_splits)

lemma handle_byte_no_colon: "is_handle_byte c \<Longrightarrow> c \<noteq> CHR '':''"
proof -
  have "byte CHR '':'' = 58" by (simp add: byte_def)
  then show "is_handle_byte c \<Longrightarrow> c \<noteq> CHR '':''"
    by (auto simp: is_handle_byte_def ascii_class_defs)
qed

text \<open>
  A public id names a kind exactly when it is the kind's prefix followed by a handle of 1
  to 64 lower-case letters, digits, underscores or hyphens; the two prefixes never overlap, so
  the kind is unambiguous.
\<close>

theorem public_id_kind_iff:
  "public_id_kind s = Some k \<longleftrightarrow>
     (\<exists>handle. s = (case k of Carbon \<Rightarrow> ''c:'' | Silicon \<Rightarrow> ''si:'') @ handle \<and>
        1 \<le> length handle \<and> length handle \<le> 64 \<and> (\<forall>c \<in> set handle. is_handle_byte c))"
proof -
  have prefixes: "strip_prefix ''c:'' (CHR ''c'' # CHR '':'' # h) = Some h"
    "strip_prefix ''c:'' (CHR ''s'' # CHR ''i'' # CHR '':'' # h) = None"
    "strip_prefix ''si:'' (CHR ''s'' # CHR ''i'' # CHR '':'' # h) = Some h" for h
    by (simp_all add: strip_prefix_def)
  have "public_id_kind s = Some Carbon \<longleftrightarrow>
     (\<exists>h. s = ''c:'' @ h \<and> 1 \<le> length h \<and> length h \<le> 64 \<and> (\<forall>c \<in> set h. is_handle_byte c))"
    by (auto simp: public_id_kind_def MAX_PUBLIC_ID_HANDLE_LENGTH_def prefixes strip_prefix_Some_iff
        split: option.splits if_splits)
  moreover have "public_id_kind s = Some Silicon \<longleftrightarrow>
     (\<exists>h. s = ''si:'' @ h \<and> 1 \<le> length h \<and> length h \<le> 64 \<and> (\<forall>c \<in> set h. is_handle_byte c))"
    by (auto simp: public_id_kind_def MAX_PUBLIC_ID_HANDLE_LENGTH_def prefixes strip_prefix_Some_iff
        split: option.splits if_splits)
  ultimately show ?thesis by (cases k) simp_all
qed

theorem public_id_kind_iff_witness:
  "public_id_kind ''si:scout-1'' = Some Silicon \<and> public_id_kind ''si:a:b'' = None"
proof -
  have "public_id_kind ''si:scout-1'' = Some Silicon"
    unfolding public_id_kind_iff
    by (rule exI [where x = "''scout-1''"]) (simp add: is_handle_byte_def ascii_class_defs byte_def)
  moreover have "public_id_kind ''si:a:b'' = None"
    by (simp add: public_id_kind_def strip_prefix_def is_handle_byte_def ascii_class_defs byte_def)
  ultimately show ?thesis by simp
qed

end
