(* ===== verification/Auth.thy ===== *)
theory Auth
  imports Identity
begin

text \<open>
  \<open>src/src/domain/auth.rs\<close>: credentials, the verified identity of a request and the exact
  reasons a credential is refused. Zeroization and redacted \<open>Debug\<close> output have no
  counterpart in the model.
\<close>

section \<open>Actions and credentials\<close>

definition MAX_CREDENTIAL_LENGTH :: nat where
  "MAX_CREDENTIAL_LENGTH = 16384"

definition PROOF_TOKEN_PREFIX :: string where
  "PROOF_TOKEN_PREFIX = ''sap_''"

datatype waveform_action = SynthesizeSpeech | TranscribeSpeech | ManageAccount

fun proof_scope :: "waveform_action \<Rightarrow> string option" where
  "proof_scope SynthesizeSpeech = Some ''waveform.tts''"
| "proof_scope TranscribeSpeech = Some ''waveform.stt''"
| "proof_scope ManageAccount = None"

datatype credential_error = Empty | TooLong | InvalidCharacters | WrongKind

datatype opaque_credential = OpaqueCredential (expose: string)

definition opaque_credential_new :: "string \<Rightarrow> (opaque_credential, credential_error) result" where
  "opaque_credential_new s =
     (if s = [] then Err credential_error.Empty
      else if length s > MAX_CREDENTIAL_LENGTH then Err credential_error.TooLong
      else if \<not> (\<forall>c \<in> set s. is_ascii_graphic c) then Err credential_error.InvalidCharacters
      else Ok (OpaqueCredential s))"

datatype access_token = AccessToken (access_credential: opaque_credential)

datatype proof_token = ProofToken (proof_credential: opaque_credential)

definition access_token_new :: "string \<Rightarrow> (access_token, credential_error) result" where
  "access_token_new s = map_ok AccessToken (opaque_credential_new s)"

definition proof_token_new :: "string \<Rightarrow> (proof_token, credential_error) result" where
  "proof_token_new s =
     (if \<not> starts_with PROOF_TOKEN_PREFIX s \<or> length s \<le> length PROOF_TOKEN_PREFIX
      then Err credential_error.WrongKind
      else map_ok ProofToken (opaque_credential_new s))"

definition access_secret :: "access_token \<Rightarrow> string" where
  "access_secret t = expose (access_credential t)"

definition proof_secret :: "proof_token \<Rightarrow> string" where
  "proof_secret t = expose (proof_credential t)"

datatype inbound_credentials = Bearer access_token | Proof proof_token

fun subject_token :: "inbound_credentials \<Rightarrow> access_token option" where
  "subject_token (Bearer t) = Some t"
| "subject_token (Proof _) = None"

section \<open>Verified identity\<close>

record authorized_actor =
  aa_actor :: actor
  aa_account :: account_ref
  originating_application :: "application_id option"
  aa_expires_at :: "instant option"
  aa_scopes :: "string list"
  token_family :: "string option"

definition is_delegated :: "authorized_actor \<Rightarrow> bool" where
  "is_delegated a \<longleftrightarrow> originating_application a \<noteq> None"

record authorization_request =
  ar_credentials :: inbound_credentials
  ar_action :: waveform_action
  ar_request_id :: request_id

record briefcase_proof =
  bp_token :: proof_token
  bp_expires_at :: instant

section \<open>Why a credential is refused\<close>

datatype auth_failure =
    MissingCredentials | MalformedAuthorization | RetiredCredentials | InvalidToken
  | TokenExpired | WrongAudience | WrongIssuer | UnknownSigningKey
  | SignInEnded | AccountDeleted | TokenInactive | InvalidProof
  | ProofWithoutAccount | ProofScopeMissing | ProofIssuerNotAllowed | ProofNotAccepted
  | AccountRecordConflict

fun auth_failure_reason :: "auth_failure \<Rightarrow> string" where
  "auth_failure_reason MissingCredentials = ''missing_credentials''"
| "auth_failure_reason MalformedAuthorization = ''malformed_authorization''"
| "auth_failure_reason RetiredCredentials = ''retired_credentials''"
| "auth_failure_reason InvalidToken = ''invalid_token''"
| "auth_failure_reason TokenExpired = ''token_expired''"
| "auth_failure_reason WrongAudience = ''wrong_audience''"
| "auth_failure_reason WrongIssuer = ''wrong_issuer''"
| "auth_failure_reason UnknownSigningKey = ''unknown_signing_key''"
| "auth_failure_reason SignInEnded = ''sign_in_ended''"
| "auth_failure_reason AccountDeleted = ''account_deleted''"
| "auth_failure_reason TokenInactive = ''token_inactive''"
| "auth_failure_reason InvalidProof = ''invalid_proof''"
| "auth_failure_reason ProofWithoutAccount = ''proof_without_account''"
| "auth_failure_reason ProofScopeMissing = ''proof_scope_missing''"
| "auth_failure_reason ProofIssuerNotAllowed = ''proof_issuer_not_allowed''"
| "auth_failure_reason ProofNotAccepted = ''proof_not_accepted''"
| "auth_failure_reason AccountRecordConflict = ''account_record_conflict''"

definition is_forbidden :: "auth_failure \<Rightarrow> bool" where
  "is_forbidden f \<longleftrightarrow> f \<in> {ProofWithoutAccount, ProofScopeMissing, ProofIssuerNotAllowed,
     ProofNotAccepted, AccountRecordConflict}"

fun auth_failure_message :: "auth_failure \<Rightarrow> string" where
  "auth_failure_message MissingCredentials =
     ''No credentials: send Authorization: Bearer <Silicon Accounts access token for waveform>, or Authorization: Proof sap_'' @ [CHR 0xE2, CHR 0x80, CHR 0xA6] @ '' when another app calls for an account.''"
| "auth_failure_message MalformedAuthorization =
     ''The Authorization header must be exactly `Bearer <access token>` or `Proof sap_'' @ [CHR 0xE2, CHR 0x80, CHR 0xA6] @ ''`, sent once.''"
| "auth_failure_message RetiredCredentials =
     ''X-IAM-OBO-Access-Token, X-IAM-OBO-Access-Proof and X-App-ID are no longer accepted. Waveform uses Silicon Accounts: send Authorization: Bearer <access token> or Authorization: Proof sap_'' @ [CHR 0xE2, CHR 0x80, CHR 0xA6] @ ''.''"
| "auth_failure_message InvalidToken =
     ''The access token is not a valid Silicon Accounts token for Waveform (bad format or signature).''"
| "auth_failure_message TokenExpired =
     ''The access token expired.''"
| "auth_failure_message WrongAudience =
     ''The access token was issued to another app; Waveform accepts only tokens issued to waveform.''"
| "auth_failure_message WrongIssuer =
     ''The access token was issued by a different Silicon Accounts deployment than the one Waveform trusts.''"
| "auth_failure_message UnknownSigningKey =
     ''The access token is signed with a key Silicon Accounts does not publish.''"
| "auth_failure_message SignInEnded =
     ''This sign-in ended (signed out, or Waveform's access was removed) after the token was issued.''"
| "auth_failure_message AccountDeleted =
     ''This Silicon Accounts account was deleted.''"
| "auth_failure_message TokenInactive =
     ''Silicon Accounts reports this access token is no longer active (its sign-in was revoked).''"
| "auth_failure_message InvalidProof =
     ''Silicon Accounts says this proof is not valid for Waveform: unknown, expired, revoked, issued for another app, or its sign-in ended.''"
| "auth_failure_message ProofWithoutAccount =
     ''This is an App verification proof. Waveform only acts for an account, so it needs a User verification proof.''"
| "auth_failure_message ProofScopeMissing =
     ''The proof does not carry the scope this route needs.''"
| "auth_failure_message ProofIssuerNotAllowed =
     ''The app that issued this proof is not allowed to use this scope at Waveform.''"
| "auth_failure_message ProofNotAccepted =
     ''This route does not accept proofs; the account must call it with its own access token.''"
| "auth_failure_message AccountRecordConflict =
     ''Waveform's record of this account names the other kind of account (Carbon or Silicon) than its credential, so it holds another account's earlier data; Waveform shows none of it.''"

fun auth_failure_hint :: "auth_failure \<Rightarrow> string" where
  "auth_failure_hint MissingCredentials =
     ''Carbons: `waveform login`. Silicons: `silicon-accounts login --app waveform -q | waveform login --slt-stdin`. Apps acting for an account: issue a User verification proof for receiving_app waveform.''"
| "auth_failure_hint MalformedAuthorization =
     ''Carbons: `waveform login`. Silicons: `silicon-accounts login --app waveform -q | waveform login --slt-stdin`. Apps acting for an account: issue a User verification proof for receiving_app waveform.''"
| "auth_failure_hint RetiredCredentials =
     ''Carbons: `waveform login`. Silicons: `silicon-accounts login --app waveform -q | waveform login --slt-stdin`. Apps acting for an account: issue a User verification proof for receiving_app waveform.''"
| "auth_failure_hint InvalidToken =
     ''Get a token issued to app waveform by the Silicon Accounts deployment configured in ACCOUNTS_URL, then retry.''"
| "auth_failure_hint TokenExpired =
     ''Refresh the sign-in with its refresh token (once, single-flight) or sign in again.''"
| "auth_failure_hint WrongAudience =
     ''Get a token issued to app waveform by the Silicon Accounts deployment configured in ACCOUNTS_URL, then retry.''"
| "auth_failure_hint WrongIssuer =
     ''Get a token issued to app waveform by the Silicon Accounts deployment configured in ACCOUNTS_URL, then retry.''"
| "auth_failure_hint UnknownSigningKey =
     ''Get a token issued to app waveform by the Silicon Accounts deployment configured in ACCOUNTS_URL, then retry.''"
| "auth_failure_hint SignInEnded =
     ''Sign in to Waveform again; tokens issued before the sign-in ended are refused.''"
| "auth_failure_hint AccountDeleted =
     ''A deleted account cannot use Waveform.''"
| "auth_failure_hint TokenInactive =
     ''Sign in to Waveform again; tokens issued before the sign-in ended are refused.''"
| "auth_failure_hint InvalidProof =
     ''Issue a fresh User verification proof for receiving_app waveform (POST /v1/proofs/user-verification) or refresh it.''"
| "auth_failure_hint ProofWithoutAccount =
     ''Issue a User verification proof (POST /v1/proofs/user-verification) with the account's access token at your app.''"
| "auth_failure_hint ProofScopeMissing =
     ''Request the scope this route needs: waveform.tts for /api/v1/tts and /api/v1/audio, waveform.stt for /api/v1/stt and /api/v1/stt/source-target.''"
| "auth_failure_hint ProofIssuerNotAllowed =
     ''Waveform's operator must add the app to WAVEFORM_PROOF_ISSUERS for this scope.''"
| "auth_failure_hint ProofNotAccepted =
     ''Call with Authorization: Bearer <the account's access token>.''"
| "auth_failure_hint AccountRecordConflict =
     ''Waveform's operator must correct the mapping that linked earlier data to this account (`waveform-api link-identities --relink`).''"

section \<open>Properties\<close>

lemma proof_token_new_Ok_iff:
  "proof_token_new s = Ok t \<longleftrightarrow>
     t = ProofToken (OpaqueCredential s) \<and> starts_with ''sap_'' s \<and> 4 < length s \<and>
     length s \<le> 16384 \<and> (\<forall>c \<in> set s. is_ascii_graphic c)"
  by (auto simp: proof_token_new_def opaque_credential_new_def PROOF_TOKEN_PREFIX_def
      MAX_CREDENTIAL_LENGTH_def split: if_splits)

lemma access_token_new_Ok_iff:
  "access_token_new s = Ok t \<longleftrightarrow>
     t = AccessToken (OpaqueCredential s) \<and> s \<noteq> [] \<and> length s \<le> 16384 \<and>
     (\<forall>c \<in> set s. is_ascii_graphic c)"
  by (auto simp: access_token_new_def opaque_credential_new_def MAX_CREDENTIAL_LENGTH_def
      split: if_splits)

lemma auth_failure_reason_inject:
  "auth_failure_reason f = auth_failure_reason g \<Longrightarrow> f = g"
  by (cases f; cases g) simp_all

end
