(* ===== verification/Media.thy ===== *)
theory Media
  imports Identity
begin

text \<open>
  \<open>src/src/domain/media.rs\<close>: bounded media, normalized audio and the references to stored
  audio. A \<open>Url\<close> is the record of the components its accessors return; what the \<open>url\<close> crate
  computes beyond them (parsing, printing, \<open>set_path\<close>, comparing origins) is the parameter
  \<open>url_crate\<close>, and the calendar of the \<open>time\<close> crate is a parameter of the file name.
\<close>

section \<open>Media types\<close>

type_synonym bytes = string

datatype media_error =
    EmptyMedia
  | MediaTooLarge "64 word"
  | InvalidSizeLimit
  | UnsupportedMediaType
  | InvalidPcm
  | InvalidUrl
  | InvalidPermanentUrl

definition MAX_SOURCE_MEDIA_BYTES :: "64 word" where
  "MAX_SOURCE_MEDIA_BYTES = 25 * 1024 * 1024"

definition MAX_PROVIDER_AUDIO_BYTES :: "64 word" where
  "MAX_PROVIDER_AUDIO_BYTES = 25 * 1024 * 1024"

datatype source_media_type =
    Mpeg | Wav | Flac | Ogg | WebM | Mp4 | Aac | M4a | Mp4Video | MpegVideo | WebMVideo

definition source_media_types :: "source_media_type list" where
  "source_media_types =
     [Mpeg, Wav, Flac, Ogg, WebM, Mp4, Aac, M4a, Mp4Video, MpegVideo, WebMVideo]"

fun as_mime_str :: "source_media_type \<Rightarrow> string" where
  "as_mime_str Mpeg = ''audio/mpeg''"
| "as_mime_str Wav = ''audio/wav''"
| "as_mime_str Flac = ''audio/flac''"
| "as_mime_str Ogg = ''audio/ogg''"
| "as_mime_str WebM = ''audio/webm''"
| "as_mime_str Mp4 = ''audio/mp4''"
| "as_mime_str Aac = ''audio/aac''"
| "as_mime_str M4a = ''audio/m4a''"
| "as_mime_str Mp4Video = ''video/mp4''"
| "as_mime_str MpegVideo = ''video/mpeg''"
| "as_mime_str WebMVideo = ''video/webm''"

definition mime_essence :: "string \<Rightarrow> string" where
  "mime_essence s = to_ascii_lowercase (case split_on CHR '';'' s of p # _ \<Rightarrow> str_trim p | [] \<Rightarrow> [])"

definition source_media_type_from_str :: "string \<Rightarrow> (source_media_type, media_error) result" where
  "source_media_type_from_str s =
     (let essence = mime_essence s in
      if essence \<in> {''audio/mpeg'', ''audio/mp3'', ''audio/mpga''} then Ok Mpeg
      else if essence \<in> {''audio/wav'', ''audio/x-wav'', ''audio/wave''} then Ok Wav
      else if essence \<in> {''audio/flac'', ''audio/x-flac''} then Ok Flac
      else if essence = ''audio/ogg'' then Ok Ogg
      else if essence = ''audio/webm'' then Ok WebM
      else if essence = ''audio/mp4'' then Ok Mp4
      else if essence = ''audio/aac'' then Ok Aac
      else if essence \<in> {''audio/m4a'', ''audio/x-m4a''} then Ok M4a
      else if essence = ''video/mp4'' then Ok Mp4Video
      else if essence = ''video/mpeg'' then Ok MpegVideo
      else if essence = ''video/webm'' then Ok WebMVideo
      else Err UnsupportedMediaType)"

section \<open>Bounded payloads\<close>

text \<open>The limit is a non-zero \<open>u32\<close>; \<open>u32::try_from\<close> of a \<open>u64\<close> fails above \<open>2^32 - 1\<close>.\<close>

datatype media_size_limit = MediaSizeLimit "32 word"

definition media_size_limit_new :: "64 word \<Rightarrow> (media_size_limit, media_error) result" where
  "media_size_limit_new n =
     (if n = 0 \<or> n > MAX_SOURCE_MEDIA_BYTES then Err InvalidSizeLimit
      else if uint n \<ge> 2 ^ 32 then Err InvalidSizeLimit
      else if (ucast n :: 32 word) = 0 then Err InvalidSizeLimit
      else Ok (MediaSizeLimit (ucast n)))"

fun media_size_limit_get :: "media_size_limit \<Rightarrow> 64 word" where
  "media_size_limit_get (MediaSizeLimit n) = ucast n"

definition media_size_limit_default :: media_size_limit where
  "media_size_limit_default =
     (let n = 25 * 1024 * 1024 in if n = 0 then MediaSizeLimit 1 else MediaSizeLimit n)"

text \<open>\<open>u64::try_from(len)\<close> of a \<open>usize\<close>.\<close>

definition u64_try_from :: "nat \<Rightarrow> 64 word option" where
  "u64_try_from n = (if n \<le> u64_max then Some (of_nat n) else None)"

record source_media =
  sm_media_type :: source_media_type
  sm_bytes :: bytes

definition source_media_new ::
    "source_media_type \<Rightarrow> bytes \<Rightarrow> media_size_limit \<Rightarrow> (source_media, media_error) result" where
  "source_media_new t bs limit =
     (if bs = [] then Err EmptyMedia
      else case u64_try_from (length bs) of
        None \<Rightarrow> Err (MediaTooLarge (media_size_limit_get limit))
      | Some n \<Rightarrow>
          if n > media_size_limit_get limit \<or> n > MAX_SOURCE_MEDIA_BYTES
          then Err (MediaTooLarge (media_size_limit_get limit))
          else Ok \<lparr>sm_media_type = t, sm_bytes = bs\<rparr>)"

record pcm_specification =
  sample_rate_hz :: "32 word"
  channels :: "32 word"
  bits_per_sample :: "32 word"

definition pcm_specification_new ::
    "32 word \<Rightarrow> 32 word \<Rightarrow> 32 word \<Rightarrow> (pcm_specification, media_error) result" where
  "pcm_specification_new rate chans bits =
     (if rate = 0 \<or> chans = 0 \<or> bits = 0 then Err InvalidPcm
      else if chans > 8 \<or> bits \<notin> {8, 16, 24, 32} then Err InvalidPcm
      else Ok \<lparr>sample_rate_hz = rate, channels = chans, bits_per_sample = bits\<rparr>)"

datatype provider_audio_format = Mp3 | Wav | LinearPcm pcm_specification

record audio_artifact =
  artifact_format :: provider_audio_format
  artifact_bytes :: bytes

text \<open>\<open>u64::try_from(bytes.len()).map_or(true, |length| length > MAX_PROVIDER_AUDIO_BYTES)\<close>.\<close>

definition exceeds_audio_limit :: "bytes \<Rightarrow> bool" where
  "exceeds_audio_limit bs =
     (case u64_try_from (length bs) of None \<Rightarrow> True | Some n \<Rightarrow> n > MAX_PROVIDER_AUDIO_BYTES)"

definition audio_artifact_new ::
    "provider_audio_format \<Rightarrow> bytes \<Rightarrow> (audio_artifact, media_error) result" where
  "audio_artifact_new f bs =
     (if bs = [] then Err EmptyMedia
      else if exceeds_audio_limit bs then Err (MediaTooLarge MAX_PROVIDER_AUDIO_BYTES)
      else Ok \<lparr>artifact_format = f, artifact_bytes = bs\<rparr>)"

datatype media_duration = MediaDuration (as_millis: "64 word")

record normalized_audio =
  na_bytes :: bytes
  na_duration :: media_duration

definition normalized_audio_new :: "bytes \<Rightarrow> media_duration \<Rightarrow> (normalized_audio, media_error) result" where
  "normalized_audio_new bs d =
     (if bs = [] then Err EmptyMedia
      else if exceeds_audio_limit bs then Err (MediaTooLarge MAX_PROVIDER_AUDIO_BYTES)
      else Ok \<lparr>na_bytes = bs, na_duration = d\<rparr>)"

section \<open>URLs\<close>

datatype url_host = Domain string | Ipv4 "32 word" | Ipv6 "128 word"

record url =
  url_scheme :: string
  url_username :: string
  url_password :: "string option"
  url_host :: "url_host option"
  url_port :: "16 word option"
  url_path :: string
  url_query :: "string option"
  url_fragment :: "string option"

record url_crate =
  url_parse :: "string \<Rightarrow> url option"
  url_text :: "url \<Rightarrow> string"
  url_set_path :: "url \<Rightarrow> string \<Rightarrow> url"
  url_same_origin :: "url \<Rightarrow> url \<Rightarrow> bool"

definition trim_end_dots :: "string \<Rightarrow> string" where
  "trim_end_dots s = rev (dropWhile (\<lambda>c. c = CHR ''.'') (rev s))"

definition is_loopback_host :: "url \<Rightarrow> bool" where
  "is_loopback_host u =
     (case url_host u of
        Some (Domain domain) \<Rightarrow>
          (let d = to_ascii_lowercase (trim_end_dots domain)
           in d = ''localhost'' \<or> ends_with ''.localhost'' d)
      | Some (Ipv4 address) \<Rightarrow> (drop_bit 24 address) = 127
      | Some (Ipv6 address) \<Rightarrow> address = 1
      | None \<Rightarrow> False)"

definition validate_https_url :: "url \<Rightarrow> (unit, media_error) result" where
  "validate_https_url u =
     (let secure = (url_scheme u = ''https'' \<or> url_scheme u = ''http'' \<and> is_loopback_host u) in
      if \<not> secure \<or> url_host u = None \<or> url_username u \<noteq> [] \<or> url_password u \<noteq> None
      then Err InvalidUrl else Ok ())"

datatype briefcase_origin = BriefcaseOrigin (origin_url: url)

datatype briefcase_file_url = BriefcaseFileUrl (as_url: url)

definition briefcase_origin_new :: "url_crate \<Rightarrow> url \<Rightarrow> (briefcase_origin, media_error) result" where
  "briefcase_origin_new C u =
     and_then (validate_https_url u) (\<lambda>_.
       if url_query u \<noteq> None \<or> url_fragment u \<noteq> None then Err InvalidUrl
       else Ok (BriefcaseOrigin (url_set_path C u ''/'')))"

definition briefcase_origin_contains :: "url_crate \<Rightarrow> briefcase_origin \<Rightarrow> briefcase_file_url \<Rightarrow> bool" where
  "briefcase_origin_contains C b f \<longleftrightarrow> url_same_origin C (origin_url b) (as_url f)"

definition briefcase_file_url_new :: "url \<Rightarrow> (briefcase_file_url, media_error) result" where
  "briefcase_file_url_new u =
     and_then (validate_https_url u) (\<lambda>_.
       if url_query u \<noteq> None \<or> url_fragment u \<noteq> None then Err InvalidPermanentUrl
       else Ok (BriefcaseFileUrl u))"

section \<open>Generated audio\<close>

text \<open>\<open>to_offset(UTC)\<close> and the accessors of the \<open>time\<close> crate: year, month, day, hour, minute, second.\<close>

type_synonym utc_calendar = "instant \<Rightarrow> int \<times> nat \<times> nat \<times> nat \<times> nat \<times> nat"

datatype generated_audio_file_name = GeneratedAudioFileName (file_name_str: string)

definition for_request ::
    "uuid_crate \<Rightarrow> utc_calendar \<Rightarrow> instant \<Rightarrow> request_id \<Rightarrow> generated_audio_file_name" where
  "for_request U utc generated_at r =
     (case utc generated_at of (year, month, day, hour, minute, second) \<Rightarrow>
        GeneratedAudioFileName
          (''tts_'' @ padded 4 year @ padded 2 (int month) @ padded 2 (int day) @ ''_'' @
           padded 2 (int hour) @ padded 2 (int minute) @ padded 2 (int second) @ ''_'' @
           uuid_text U (request_uuid r) @ ''.mp3''))"

datatype held_reason =
    DelegatedCall | StorageNotAuthorized | BriefcaseRefused | BriefcaseUnavailable
  | BriefcaseTimeout | BriefcaseContractUnavailable

fun held_reason_as_str :: "held_reason \<Rightarrow> string" where
  "held_reason_as_str DelegatedCall = ''delegated_call''"
| "held_reason_as_str StorageNotAuthorized = ''storage_not_authorized''"
| "held_reason_as_str BriefcaseRefused = ''briefcase_refused''"
| "held_reason_as_str BriefcaseUnavailable = ''briefcase_unavailable''"
| "held_reason_as_str BriefcaseTimeout = ''briefcase_timeout''"
| "held_reason_as_str BriefcaseContractUnavailable = ''briefcase_contract_unavailable''"

fun held_reason_message :: "held_reason \<Rightarrow> string" where
  "held_reason_message DelegatedCall =
     ''Not stored in Briefcase: another app called Waveform for this account with a proof, and Waveform only stores in Briefcase when the account calls it directly. Fetch audio_url with the same proof before it expires.''"
| "held_reason_message StorageNotAuthorized =
     ''Not stored in Briefcase: Waveform could not get Briefcase access for this account. Run `waveform storage approve` (or sign in again) and retry with a new Idempotency-Key to store future speech.''"
| "held_reason_message BriefcaseRefused =
     ''Not stored in Briefcase: Briefcase refused Waveform's access or the upload. The audio is held by Waveform at audio_url until it expires.''"
| "held_reason_message BriefcaseUnavailable =
     ''Not stored in Briefcase: Briefcase is unavailable. The audio is held by Waveform at audio_url until it expires.''"
| "held_reason_message BriefcaseTimeout =
     ''Not stored in Briefcase: Briefcase did not answer in time. The audio is held by Waveform at audio_url until it expires.''"
| "held_reason_message BriefcaseContractUnavailable =
     ''Not stored in Briefcase: Briefcase does not offer the upload contract Waveform needs yet. The audio is held by Waveform at audio_url until it expires.''"

definition held_reason_from_str :: "string \<Rightarrow> (held_reason, media_error) result" where
  "held_reason_from_str s =
     ok_or (find (\<lambda>reason. held_reason_as_str reason = s)
              [DelegatedCall, StorageNotAuthorized, BriefcaseRefused, BriefcaseUnavailable,
               BriefcaseTimeout, BriefcaseContractUnavailable]) InvalidUrl"

datatype audio_storage =
    Briefcase (briefcase_url: briefcase_file_url)
  | Held (held_because: held_reason) (audio_url: url) (held_until: instant)

fun permanent_url :: "audio_storage \<Rightarrow> briefcase_file_url option" where
  "permanent_url (audio_storage.Briefcase f) = Some f"
| "permanent_url (Held _ _ _) = None"

section \<open>Lemmas\<close>

lemma mime_essence_params:
  "CHR '';'' \<notin> set s \<Longrightarrow> mime_essence (s @ CHR '';'' # params) = mime_essence s"
  by (simp add: mime_essence_def split_on_no_sep split_on_append_sep)

lemma mime_essence_canonical: "mime_essence (as_mime_str t) = as_mime_str t"
  by (cases t; hypsubst; code_simp)

lemma as_mime_str_no_params: "CHR '';'' \<notin> set (as_mime_str t)"
  by (cases t) simp_all

lemma source_media_type_from_canonical_essence:
  "mime_essence s = as_mime_str t \<Longrightarrow> source_media_type_from_str s = Ok t"
  by (cases t) (simp_all add: source_media_type_from_str_def)

lemma source_media_type_round_trip:
  "source_media_type_from_str (as_mime_str t) = Ok t"
  "source_media_type_from_str (as_mime_str t @ CHR '';'' # params) = Ok t"
  by (simp_all add: source_media_type_from_canonical_essence mime_essence_canonical
      mime_essence_params as_mime_str_no_params)

lemma held_reason_round_trip: "held_reason_from_str (held_reason_as_str r) = Ok r"
  by (cases r) (simp_all add: held_reason_from_str_def)

lemma held_reason_from_str_Ok_iff: "held_reason_from_str s = Ok r \<longleftrightarrow> s = held_reason_as_str r"
  by (auto simp: held_reason_round_trip) (auto simp: held_reason_from_str_def split: if_splits)

lemma media_size_limit_new_Ok_iff:
  "media_size_limit_new n = Ok limit \<longleftrightarrow>
     0 < n \<and> n \<le> MAX_SOURCE_MEDIA_BYTES \<and> limit = MediaSizeLimit (ucast n)"
proof -
  have small: "ucast n \<noteq> (0 :: 32 word) \<and> uint n < 2 ^ 32" if "0 < n" "n \<le> MAX_SOURCE_MEDIA_BYTES"
  proof -
    from that(2) have "uint n \<le> 26214400" by (simp add: MAX_SOURCE_MEDIA_BYTES_def word_le_def)
    then have lt: "uint n < 2 ^ 32" by simp
    moreover have "uint (ucast n :: 32 word) = uint n"
      using lt by (simp add: unsigned_ucast_eq take_bit_int_eq_self)
    moreover have "uint n \<noteq> 0" using that(1) by (metis unsigned_0 word_less_def less_irrefl)
    ultimately show ?thesis by (metis unsigned_0)
  qed
  show ?thesis using small by (auto simp: media_size_limit_new_def word_neq_0_conv)
qed

lemma media_size_limit_get_new:
  assumes "media_size_limit_new n = Ok limit"
  shows "media_size_limit_get limit = n"
proof -
  from assms have n: "n \<le> MAX_SOURCE_MEDIA_BYTES" and limit: "limit = MediaSizeLimit (ucast n)"
    by (simp_all add: media_size_limit_new_Ok_iff)
  from n have "uint n \<le> 26214400" by (simp add: MAX_SOURCE_MEDIA_BYTES_def word_le_def)
  then have "uint (ucast n :: 32 word) = uint n"
    by (simp add: unsigned_ucast_eq take_bit_int_eq_self)
  then show ?thesis using limit
    by (simp add: word_uint_eq_iff unsigned_ucast_eq unsigned_take_bit_eq)
qed

lemma u64_try_from_le:
  "u64_try_from n = Some w \<Longrightarrow> w \<le> v \<longleftrightarrow> n \<le> unat v"
  by (auto simp: u64_try_from_def u64_max_def word_le_nat_alt unat_of_nat split: if_splits)

lemma media_bounds [simp]:
  "unat MAX_SOURCE_MEDIA_BYTES = 26214400" "unat MAX_PROVIDER_AUDIO_BYTES = 26214400"
  by (simp_all add: MAX_SOURCE_MEDIA_BYTES_def MAX_PROVIDER_AUDIO_BYTES_def)

lemma exceeds_audio_limit_iff: "exceeds_audio_limit bs \<longleftrightarrow> 26214400 < length bs"
proof (cases "u64_try_from (length bs)")
  case None
  then have "u64_max < length bs" by (simp add: u64_try_from_def split: if_splits)
  with None show ?thesis by (simp add: exceeds_audio_limit_def u64_max_def)
next
  case (Some n)
  then show ?thesis
    using u64_try_from_le [OF Some, of MAX_PROVIDER_AUDIO_BYTES]
    by (simp add: exceeds_audio_limit_def) (metis not_le)
qed

lemma normalized_audio_new_Ok_iff:
  "normalized_audio_new bs d = Ok a \<longleftrightarrow>
     bs \<noteq> [] \<and> length bs \<le> 26214400 \<and> a = \<lparr>na_bytes = bs, na_duration = d\<rparr>"
  by (auto simp: normalized_audio_new_def exceeds_audio_limit_iff)

lemma audio_artifact_new_Ok_iff:
  "audio_artifact_new f bs = Ok a \<longleftrightarrow>
     bs \<noteq> [] \<and> length bs \<le> 26214400 \<and> a = \<lparr>artifact_format = f, artifact_bytes = bs\<rparr>"
  by (auto simp: audio_artifact_new_def exceeds_audio_limit_iff)

lemma validate_https_url_Ok_iff:
  "validate_https_url u = Ok x \<longleftrightarrow>
     (url_scheme u = ''https'' \<or> url_scheme u = ''http'' \<and> is_loopback_host u) \<and>
     url_host u \<noteq> None \<and> url_username u = [] \<and> url_password u = None"
  by (auto simp: validate_https_url_def Let_def)

lemma for_request_suffix:
  "\<exists>a. for_request U utc t r = GeneratedAudioFileName (a @ uuid_text U (request_uuid r) @ ''.mp3'')"
proof -
  obtain year month day hour minute second where c: "utc t = (year, month, day, hour, minute, second)"
    by (metis prod_cases6)
  show ?thesis
    by (rule exI [where x = "''tts_'' @ padded 4 year @ padded 2 (int month) @ padded 2 (int day) @
        ''_'' @ padded 2 (int hour) @ padded 2 (int minute) @ padded 2 (int second) @ ''_''"])
      (simp add: for_request_def c)
qed

section \<open>Properties\<close>

text \<open>
  Source media are accepted exactly within both bounds. A body becomes source media iff it
  is not empty and no longer than the deployment's limit and 25 MiB; the media keep its bytes
  and type, and every refusal is either of an empty body or reports the enforced limit.
\<close>

theorem source_media_new_bounds:
  "(source_media_new t bs limit = Ok m \<longleftrightarrow>
      bs \<noteq> [] \<and> length bs \<le> unat (media_size_limit_get limit) \<and> length bs \<le> 26214400 \<and>
      m = \<lparr>sm_media_type = t, sm_bytes = bs\<rparr>) \<and>
   (source_media_new t bs limit = Err e \<longrightarrow>
      e = EmptyMedia \<and> bs = [] \<or> e = MediaTooLarge (media_size_limit_get limit) \<and> bs \<noteq> [])"
proof (cases "u64_try_from (length bs)")
  case None
  then have "u64_max < length bs" by (simp add: u64_try_from_def split: if_splits)
  with None show ?thesis
    by (auto simp: source_media_new_def u64_max_def)
next
  case (Some n)
  show ?thesis
    using u64_try_from_le [OF Some, of "media_size_limit_get limit"]
      u64_try_from_le [OF Some, of MAX_SOURCE_MEDIA_BYTES] Some
    by (auto simp: source_media_new_def not_less [symmetric])
qed

theorem source_media_new_bounds_witness:
  "source_media_new Mpeg ''four'' (MediaSizeLimit 3) = Err (MediaTooLarge 3) \<and>
   source_media_new Mpeg ''abc'' (MediaSizeLimit 3) = Ok \<lparr>sm_media_type = Mpeg, sm_bytes = ''abc''\<rparr>"
proof -
  have "\<not> is_ok (source_media_new Mpeg ''four'' (MediaSizeLimit 3))"
    using source_media_new_bounds [of Mpeg "''four''" "MediaSizeLimit 3"]
    by (auto simp: is_ok_def split: sum.splits)
  then have "source_media_new Mpeg ''four'' (MediaSizeLimit 3) = Err (MediaTooLarge 3)"
    using source_media_new_bounds [of Mpeg "''four''" "MediaSizeLimit 3"]
    by (cases "source_media_new Mpeg ''four'' (MediaSizeLimit 3)") auto
  then show ?thesis by (simp add: source_media_new_bounds)
qed

text \<open>
  A permanent Briefcase reference is safe to follow. A URL is accepted iff it has a host, is
  HTTPS (plain HTTP only when the host never leaves the machine), embeds no credentials and has
  no query and no fragment; the reference is the URL itself.
\<close>

theorem briefcase_file_url_new_iff:
  "briefcase_file_url_new u = Ok f \<longleftrightarrow>
     f = BriefcaseFileUrl u \<and> url_host u \<noteq> None \<and>
     (url_scheme u = ''https'' \<or> url_scheme u = ''http'' \<and> is_loopback_host u) \<and>
     url_username u = [] \<and> url_password u = None \<and> url_query u = None \<and> url_fragment u = None"
  by (auto simp: briefcase_file_url_new_def and_then_Ok_iff validate_https_url_Ok_iff)

text \<open>
  Generated file names do not collide. If the text of a request id has a fixed length and
  determines the id (as the hyphenated form does), two requests with different ids never get
  the same file name, whenever their audio was generated.
\<close>

theorem generated_file_name_unique:
  assumes "\<forall>u. length (uuid_text U u) = 36" and "inj (uuid_text U)"
    and "for_request U utc t r = for_request U utc' t' r'"
  shows "r = r'"
proof -
  obtain a b where a: "for_request U utc t r =
      GeneratedAudioFileName (a @ uuid_text U (request_uuid r) @ ''.mp3'')"
    and b: "for_request U utc' t' r' =
      GeneratedAudioFileName (b @ uuid_text U (request_uuid r') @ ''.mp3'')"
    using for_request_suffix by meson
  from a b assms(3) have
    "a @ uuid_text U (request_uuid r) @ ''.mp3'' = b @ uuid_text U (request_uuid r') @ ''.mp3''"
    by simp
  then have "uuid_text U (request_uuid r) @ ''.mp3'' = uuid_text U (request_uuid r') @ ''.mp3''"
    by (subst (asm) append_same_length_suffix) (simp_all add: assms(1))
  then have "uuid_text U (request_uuid r) = uuid_text U (request_uuid r')" by simp
  then show ?thesis using assms(2) by (metis injD request_id.expand)
qed

theorem generated_file_name_unique_witness:
  "for_request reference_uuid_crate (\<lambda>_. (2026, 8, 31, 7, 4, 56)) 0 (RequestId 1) \<noteq>
   for_request reference_uuid_crate (\<lambda>_. (2026, 8, 31, 7, 4, 56)) 0 (RequestId 2)"
proof
  assume eq: "for_request reference_uuid_crate (\<lambda>_. (2026, 8, 31, 7, 4, 56)) 0 (RequestId 1) =
    for_request reference_uuid_crate (\<lambda>_. (2026, 8, 31, 7, 4, 56)) 0 (RequestId 2)"
  have "\<forall>u. length (uuid_text reference_uuid_crate u) = 36" "inj (uuid_text reference_uuid_crate)"
    by (simp_all add: reference_uuid_crate_def injI hyphenated_inject)
  from generated_file_name_unique [OF this eq] show False by simp
qed

lemma generated_file_name_example:
  "for_request reference_uuid_crate (\<lambda>_. (2026, 8, 31, 7, 4, 56)) 0 (RequestId 1) =
     GeneratedAudioFileName ''tts_20260831_070456_00000000-0000-0000-0000-000000000001.mp3''"
  by code_simp

end
