(* ===== verification/Provider.thy ===== *)
theory Provider
  imports Prelude
begin

text \<open>
  \<open>src/src/domain/provider.rs\<close>: the provider identities, the two fixed fallback chains, the
  completion of a caller's preference prefix (\<open>resolve_order\<close>) and the redacted failure
  classification. The lemmas give \<open>resolve_order\<close> its declarative meaning: it accepts exactly
  the repetition-free selections from the base order and completes them to a repetition-free
  enumeration of the base that starts with the selection and keeps the base's order after it.
\<close>

section \<open>Provider identities and chains\<close>

datatype provider_name = Gemini | ElevenLabs | OpenAi | Deepgram

instantiation provider_name :: enum
begin

definition enum_provider_name :: "provider_name list" where
  "enum_provider_name = [Gemini, ElevenLabs, OpenAi, Deepgram]"

definition enum_all_provider_name :: "(provider_name \<Rightarrow> bool) \<Rightarrow> bool" where
  "enum_all_provider_name P \<longleftrightarrow> P Gemini \<and> P ElevenLabs \<and> P OpenAi \<and> P Deepgram"

definition enum_ex_provider_name :: "(provider_name \<Rightarrow> bool) \<Rightarrow> bool" where
  "enum_ex_provider_name P \<longleftrightarrow> P Gemini \<or> P ElevenLabs \<or> P OpenAi \<or> P Deepgram"

instance proof
  show "(UNIV :: provider_name set) = set enum_class.enum"
    by (auto simp: enum_provider_name_def intro: provider_name.exhaust)
  show "distinct (enum_class.enum :: provider_name list)"
    by (simp add: enum_provider_name_def)
  fix P :: "provider_name \<Rightarrow> bool"
  show "enum_class.enum_all P = Ball UNIV P"
    unfolding enum_all_provider_name_def by (metis UNIV_I provider_name.exhaust)
  show "enum_class.enum_ex P = Bex UNIV P"
    unfolding enum_ex_provider_name_def by (metis UNIV_I provider_name.exhaust)
qed

end

fun provider_as_str :: "provider_name \<Rightarrow> string" where
  "provider_as_str Gemini = ''gemini''"
| "provider_as_str ElevenLabs = ''elevenlabs''"
| "provider_as_str OpenAi = ''openai''"
| "provider_as_str Deepgram = ''deepgram''"

definition accepts_tts_language_hint :: "provider_name \<Rightarrow> bool" where
  "accepts_tts_language_hint p \<longleftrightarrow> p = Gemini"

definition TTS_PROVIDER_CHAIN :: "provider_name list" where
  "TTS_PROVIDER_CHAIN = [Gemini, ElevenLabs, OpenAi]"

definition STT_PROVIDER_CHAIN :: "provider_name list" where
  "STT_PROVIDER_CHAIN = [Gemini, OpenAi, Deepgram]"

lemma provider_as_str_inject: "provider_as_str p = provider_as_str q \<Longrightarrow> p = q"
  by (cases p; cases q) simp_all

section \<open>Completing a preference prefix\<close>

text \<open>The first loop of \<open>resolve_order\<close>: pushes the requested providers, or gives up.\<close>

fun push_requested :: "'p list \<Rightarrow> 'p list \<Rightarrow> 'p list \<Rightarrow> 'p list option" where
  "push_requested base acc [] = Some acc"
| "push_requested base acc (p # ps) =
     (if p \<notin> set base \<or> p \<in> set acc then None else push_requested base (acc @ [p]) ps)"

text \<open>The second loop: pushes what the base still has.\<close>

fun push_base :: "'p list \<Rightarrow> 'p list \<Rightarrow> 'p list" where
  "push_base acc [] = acc"
| "push_base acc (p # ps) = (if p \<notin> set acc then push_base (acc @ [p]) ps else push_base acc ps)"

definition resolve_order :: "'p list \<Rightarrow> 'p list \<Rightarrow> 'p list option" where
  "resolve_order requested base =
     (if length requested > length base then None
      else case push_requested base [] requested of
        None \<Rightarrow> None
      | Some acc \<Rightarrow> Some (push_base acc base))"

lemma push_requested_spec:
  "distinct acc \<Longrightarrow> push_requested base acc ps =
     (if distinct (acc @ ps) \<and> set ps \<subseteq> set base then Some (acc @ ps) else None)"
  by (induction ps arbitrary: acc) auto

lemma push_base_prefix: "\<exists>rest. push_base acc ps = acc @ rest \<and> set rest \<subseteq> set ps"
proof (induction ps arbitrary: acc)
  case (Cons p ps)
  show ?case
  proof (cases "p \<in> set acc")
    case True
    with Cons.IH [of acc] show ?thesis by auto
  next
    case False
    with Cons.IH [of "acc @ [p]"] show ?thesis by auto
  qed
qed simp

lemma push_base_set [simp]: "set (push_base acc ps) = set acc \<union> set ps"
  by (induction ps arbitrary: acc) auto

lemma push_base_distinct: "distinct acc \<Longrightarrow> distinct (push_base acc ps)"
  by (induction ps arbitrary: acc) auto

lemma push_base_filter:
  "distinct ps \<Longrightarrow> push_base acc ps = acc @ filter (\<lambda>p. p \<notin> set acc) ps"
proof (induction ps arbitrary: acc)
  case (Cons p ps)
  from Cons.prems have "filter (\<lambda>q. q \<notin> insert p (set acc)) ps = filter (\<lambda>q. q \<notin> set acc) ps"
    by (intro filter_cong) auto
  with Cons show ?case by auto
qed simp

lemma resolve_order_eq:
  "resolve_order requested base =
     (if distinct requested \<and> set requested \<subseteq> set base then Some (push_base requested base) else None)"
proof -
  have "distinct requested \<Longrightarrow> set requested \<subseteq> set base \<Longrightarrow> length requested \<le> length base"
    by (metis List.finite_set card_length card_mono distinct_card le_trans)
  then show ?thesis by (auto simp: resolve_order_def push_requested_spec not_less)
qed

lemma resolve_order_length:
  assumes "resolve_order requested base = Some r" and "distinct base"
  shows "length r = length base"
proof -
  from assms(1) have "distinct r" "set r = set base"
    by (auto simp: resolve_order_eq push_base_distinct split: if_splits)
  with assms(2) show ?thesis by (metis distinct_card)
qed

text \<open>
  \<open>resolve_order\<close> meets its declarative specification. It accepts a request exactly when
  the requested providers are pairwise different members of the base, and the order it answers
  then starts with the request, has no repetitions, names exactly the base's members, and lists
  the providers that were not requested in the order the (repetition-free) base has them.
\<close>

theorem resolve_order_correct:
  "(resolve_order requested base \<noteq> None \<longleftrightarrow> distinct requested \<and> set requested \<subseteq> set base) \<and>
   (\<forall>r. resolve_order requested base = Some r \<longrightarrow>
      (\<exists>rest. r = requested @ rest) \<and> distinct r \<and> set r = set base \<and>
      (distinct base \<longrightarrow> r = requested @ filter (\<lambda>p. p \<notin> set requested) base))"
proof (intro conjI allI impI)
  show "resolve_order requested base \<noteq> None \<longleftrightarrow> distinct requested \<and> set requested \<subseteq> set base"
    by (simp add: resolve_order_eq)
next
  fix r
  assume r: "resolve_order requested base = Some r"
  then have req: "distinct requested" "set requested \<subseteq> set base" and r_eq: "r = push_base requested base"
    by (auto simp: resolve_order_eq split: if_splits)
  show "\<exists>rest. r = requested @ rest" using r_eq push_base_prefix [of requested base] by auto
  show "distinct r" using r_eq req by (simp add: push_base_distinct)
  show "set r = set base" using r_eq req(2) by (simp add: Un_absorb1)
  show "r = requested @ filter (\<lambda>p. p \<notin> set requested) base" if "distinct base"
    using that r_eq by (simp add: push_base_filter)
qed

theorem resolve_order_correct_witness:
  "resolve_order [ElevenLabs] [OpenAi, Gemini, ElevenLabs] = Some [ElevenLabs, OpenAi, Gemini] \<and>
   distinct [ElevenLabs, OpenAi, Gemini] \<and>
   resolve_order [OpenAi, OpenAi] [OpenAi, Gemini, ElevenLabs] = None"
proof -
  have r: "resolve_order [ElevenLabs] [OpenAi, Gemini, ElevenLabs] = Some [ElevenLabs, OpenAi, Gemini]"
    by (simp add: resolve_order_def)
  with resolve_order_correct [of "[ElevenLabs]" "[OpenAi, Gemini, ElevenLabs]"]
  have "distinct [ElevenLabs, OpenAi, Gemini]" by blast
  moreover have "resolve_order [OpenAi, OpenAi] [OpenAi, Gemini, ElevenLabs] = None"
    using resolve_order_correct [of "[OpenAi, OpenAi]" "[OpenAi, Gemini, ElevenLabs]"] by auto
  ultimately show ?thesis using r by simp
qed

section \<open>Failure classification\<close>

datatype provider_failure_kind =
    Saturated | Timeout | Network | RateLimited | Unavailable | Authentication
  | RejectedRequest | InvalidResponse

fun failure_kind_message :: "provider_failure_kind \<Rightarrow> string" where
  "failure_kind_message Saturated = ''The provider's concurrent request limit is reached.''"
| "failure_kind_message Timeout = ''The provider did not respond before the request deadline.''"
| "failure_kind_message Network = ''Waveform could not connect to the provider.''"
| "failure_kind_message RateLimited = ''The provider rate or quota limit was reached.''"
| "failure_kind_message Unavailable = ''The provider service is unavailable.''"
| "failure_kind_message Authentication = ''The provider rejected the API key or its access permissions.''"
| "failure_kind_message RejectedRequest = ''The provider rejected the request. Check the selected model, voice and options.''"
| "failure_kind_message InvalidResponse = ''The provider returned empty, malformed or unsupported audio.''"

fun failure_kind_as_str :: "provider_failure_kind \<Rightarrow> string" where
  "failure_kind_as_str Saturated = ''saturated''"
| "failure_kind_as_str Timeout = ''timeout''"
| "failure_kind_as_str Network = ''network''"
| "failure_kind_as_str RateLimited = ''rate_limited''"
| "failure_kind_as_str Unavailable = ''unavailable''"
| "failure_kind_as_str Authentication = ''authentication''"
| "failure_kind_as_str RejectedRequest = ''rejected_request''"
| "failure_kind_as_str InvalidResponse = ''invalid_response''"

record provider_error =
  pe_status :: "16 word option"
  pe_reason :: "string option"
  pe_provider :: provider_name
  pe_kind :: provider_failure_kind

definition provider_error_new :: "provider_name \<Rightarrow> provider_failure_kind \<Rightarrow> provider_error" where
  "provider_error_new p k = \<lparr>pe_status = None, pe_reason = None, pe_provider = p, pe_kind = k\<rparr>"

definition provider_error_message :: "provider_error \<Rightarrow> string" where
  "provider_error_message e =
     (case pe_reason e of
        None \<Rightarrow> failure_kind_message (pe_kind e)
      | Some reason \<Rightarrow>
          if reason = ''key_not_configured'' then
            ''No API key is configured for this provider. Connect your own key or select another provider.''
          else if reason = ''quota_exceeded'' then
            ''The provider account has insufficient quota or credits.''
          else if reason = ''invalid_api_key'' then
            ''The provider API key is invalid or expired.''
          else if reason = ''model_not_found'' then
            ''The selected model does not exist or is not available to this API key.''
          else if reason = ''voice_not_found'' then
            ''The selected voice does not exist or is not available to this API key.''
          else if reason = ''content_blocked'' then
            ''The provider blocked this content under its content policy.''
          else if reason = ''missing_permissions'' then
            ''The provider API key does not have the required permissions.''
          else failure_kind_message (pe_kind e))"

lemma failure_kind_as_str_inject: "failure_kind_as_str j = failure_kind_as_str k \<Longrightarrow> j = k"
  by (cases j; cases k) simp_all

end
