(* ===== verification/Voice.thy ===== *)
theory Voice
  imports Provider
begin

text \<open>
  \<open>src/src/domain/voice.rs\<close> and \<open>src/src/domain/tts_options.rs\<close>: voice profiles, the controls of one
  synthesis request and their validation. The lemmas show that nothing of one provider's
  configuration reaches another provider.
\<close>

section \<open>Voice profiles\<close>

record eleven_labs_voice_settings =
  vs_stability :: f64
  vs_similarity_boost :: f64
  vs_style :: f64
  vs_use_speaker_boost :: bool
  vs_speed :: f64

record eleven_labs_voice =
  elv_voice_id :: string
  elv_model_id :: string
  elv_voice_settings :: eleven_labs_voice_settings

record voice_profile =
  vp_id :: string
  vp_name :: string
  vp_description :: string
  vp_revision :: "32 word"
  vp_auditioned :: bool
  vp_gemini_voice :: string
  vp_openai_voice :: string
  vp_elevenlabs :: eleven_labs_voice

datatype provider_voice =
    Gemini string
  | OpenAi string
  | ElevenLabs eleven_labs_voice

definition valid_profile_id :: "string \<Rightarrow> bool" where
  "valid_profile_id s \<longleftrightarrow> s \<noteq> [] \<and> length s \<le> 64 \<and>
     (\<forall>b \<in> set s. is_ascii_lowercase b \<or> is_ascii_digit b \<or> b = CHR ''-'')"

text \<open>The literals \<open>0.0\<close>, \<open>1.0\<close>, \<open>0.7\<close>, \<open>1.2\<close>, \<open>0.25\<close> and \<open>4.0\<close>.\<close>

definition f64_0 :: f64 where "f64_0 = 0"
definition f64_1 :: f64 where "f64_1 = 0x3FF0000000000000"
definition f64_0_7 :: f64 where "f64_0_7 = 0x3FE6666666666666"
definition f64_1_2 :: f64 where "f64_1_2 = 0x3FF3333333333333"
definition f64_0_25 :: f64 where "f64_0_25 = 0x3FD0000000000000"
definition f64_4 :: f64 where "f64_4 = 0x4010000000000000"

definition OPENAI_VOICES :: "string list" where
  "OPENAI_VOICES =
     [''alloy'', ''ash'', ''coral'', ''echo'', ''fable'', ''onyx'', ''nova'', ''sage'', ''shimmer'']"

definition voice_profile_is_valid :: "voice_profile \<Rightarrow> bool" where
  "voice_profile_is_valid p \<longleftrightarrow>
     (let settings = elv_voice_settings (vp_elevenlabs p) in
      valid_profile_id (vp_id p) \<and>
      sint (vp_revision p) > 0 \<and>
      vp_gemini_voice p \<noteq> [] \<and> length (vp_gemini_voice p) \<le> 64 \<and>
      (\<forall>b \<in> set (vp_gemini_voice p). is_ascii_alphabetic b) \<and>
      vp_openai_voice p \<in> set OPENAI_VOICES \<and>
      elv_model_id (vp_elevenlabs p) = ''eleven_multilingual_v2'' \<and>
      elv_voice_id (vp_elevenlabs p) \<noteq> [] \<and> length (elv_voice_id (vp_elevenlabs p)) \<le> 128 \<and>
      (\<forall>b \<in> set (elv_voice_id (vp_elevenlabs p)).
         is_ascii_alphanumeric b \<or> b = CHR ''_'' \<or> b = CHR ''-'') \<and>
      (\<forall>v \<in> set [vs_stability settings, vs_similarity_boost settings, vs_style settings].
         f64_in_range f64_0 f64_1 v) \<and>
      f64_in_range f64_0_7 f64_1_2 (vs_speed settings))"

definition voice_for_provider :: "voice_profile \<Rightarrow> provider_name \<Rightarrow> provider_voice option" where
  "voice_for_provider p n =
     (case n of
        provider_name.Gemini \<Rightarrow> Some (provider_voice.Gemini (vp_gemini_voice p))
      | provider_name.OpenAi \<Rightarrow> Some (provider_voice.OpenAi (vp_openai_voice p))
      | provider_name.ElevenLabs \<Rightarrow> Some (provider_voice.ElevenLabs (vp_elevenlabs p))
      | provider_name.Deepgram \<Rightarrow> None)"

record voice_profile_ref =
  vr_id :: string
  vr_revision :: "32 word"

definition voice_profile_ref_from :: "voice_profile \<Rightarrow> voice_profile_ref" where
  "voice_profile_ref_from p = \<lparr>vr_id = vp_id p, vr_revision = vp_revision p\<rparr>"

section \<open>Provider controls of one request\<close>

record gemini_tts_options =
  gm_voice :: "string option"
  gm_scene :: "string option"
  gm_audio_profile :: "string option"
  gm_director_notes :: "string option"
  gm_sample_context :: "string option"

record eleven_labs_tts_options =
  el_voice_id :: "string option"
  el_model_id :: "string option"
  el_stability :: "f64 option"
  el_similarity_boost :: "f64 option"
  el_style :: "f64 option"
  el_speed :: "f64 option"
  el_use_speaker_boost :: "bool option"
  el_seed :: "32 word option"
  el_previous_text :: "string option"
  el_next_text :: "string option"
  el_apply_text_normalization :: "string option"

record open_ai_tts_options =
  oa_voice :: "string option"
  oa_model :: "string option"
  oa_instructions :: "string option"
  oa_speed :: "f64 option"

record tts_provider_options =
  po_gemini :: "gemini_tts_options option"
  po_elevenlabs :: "eleven_labs_tts_options option"
  po_openai :: "open_ai_tts_options option"

definition gemini_default :: gemini_tts_options where
  "gemini_default = \<lparr>gm_voice = None, gm_scene = None, gm_audio_profile = None,
     gm_director_notes = None, gm_sample_context = None\<rparr>"

definition eleven_labs_default :: eleven_labs_tts_options where
  "eleven_labs_default = \<lparr>el_voice_id = None, el_model_id = None, el_stability = None,
     el_similarity_boost = None, el_style = None, el_speed = None, el_use_speaker_boost = None,
     el_seed = None, el_previous_text = None, el_next_text = None,
     el_apply_text_normalization = None\<rparr>"

definition open_ai_default :: open_ai_tts_options where
  "open_ai_default = \<lparr>oa_voice = None, oa_model = None, oa_instructions = None, oa_speed = None\<rparr>"

definition tts_options_default :: tts_provider_options where
  "tts_options_default = \<lparr>po_gemini = None, po_elevenlabs = None, po_openai = None\<rparr>"

definition tts_options_is_empty :: "tts_provider_options \<Rightarrow> bool" where
  "tts_options_is_empty opts \<longleftrightarrow>
     (case po_gemini opts of None \<Rightarrow> True | Some v \<Rightarrow> v = gemini_default) \<and>
     (case po_elevenlabs opts of None \<Rightarrow> True | Some v \<Rightarrow> v = eleven_labs_default) \<and>
     (case po_openai opts of None \<Rightarrow> True | Some v \<Rightarrow> v = open_ai_default)"

definition options_for_provider :: "tts_provider_options \<Rightarrow> provider_name \<Rightarrow> tts_provider_options" where
  "options_for_provider opts p =
     \<lparr>po_gemini = (if p = provider_name.Gemini then po_gemini opts else None),
      po_elevenlabs = (if p = provider_name.ElevenLabs then po_elevenlabs opts else None),
      po_openai = (if p = provider_name.OpenAi then po_openai opts else None)\<rparr>"

definition for_other_providers :: "tts_provider_options \<Rightarrow> provider_name \<Rightarrow> tts_provider_options" where
  "for_other_providers opts p =
     \<lparr>po_gemini = (if p \<noteq> provider_name.Gemini then po_gemini opts else None),
      po_elevenlabs = (if p \<noteq> provider_name.ElevenLabs then po_elevenlabs opts else None),
      po_openai = (if p \<noteq> provider_name.OpenAi then po_openai opts else None)\<rparr>"

definition valid_identifier :: "string \<Rightarrow> nat \<Rightarrow> bool" where
  "valid_identifier s limit \<longleftrightarrow> s \<noteq> [] \<and> length s \<le> limit \<and>
     (\<forall>b \<in> set s. is_ascii_alphanumeric b \<or> b = CHR ''_'' \<or> b = CHR ''-'')"

definition valid_text :: "string option \<Rightarrow> nat \<Rightarrow> bool" where
  "valid_text v limit =
     (case v of
        None \<Rightarrow> True
      | Some s \<Rightarrow> str_trim s \<noteq> [] \<and> char_count s \<le> limit \<and> CHR 0x00 \<notin> set s)"

definition valid_range :: "f64 option \<Rightarrow> f64 \<Rightarrow> f64 \<Rightarrow> bool" where
  "valid_range v lo hi = (case v of None \<Rightarrow> True | Some x \<Rightarrow> f64_in_range lo hi x)"

definition gemini_validate :: "gemini_tts_options \<Rightarrow> (unit, string) result" where
  "gemini_validate g =
     (if (case gm_voice g of
            None \<Rightarrow> False
          | Some v \<Rightarrow> v = [] \<or> length v > 64 \<or> \<not> (\<forall>b \<in> set v. is_ascii_alphabetic b))
      then Err (''Gemini voice must be a supported prebuilt name containing 1'' @ [CHR 0xE2, CHR 0x80, CHR 0x93] @ ''64 ASCII letters.'')
      else if \<exists>v \<in> set [gm_scene g, gm_audio_profile g, gm_director_notes g, gm_sample_context g].
                \<not> valid_text v 4096
      then Err (''Each Gemini direction field must contain 1'' @ [CHR 0xE2, CHR 0x80, CHR 0x93] @ ''4096 characters, with no NUL character.'')
      else Ok ())"

definition eleven_labs_validate :: "eleven_labs_tts_options \<Rightarrow> (unit, string) result" where
  "eleven_labs_validate e =
     (if \<exists>v \<in> set [el_voice_id e, el_model_id e].
           (case v of None \<Rightarrow> False | Some s \<Rightarrow> \<not> valid_identifier s 128)
      then Err (''ElevenLabs voice_id and model_id must contain 1'' @ [CHR 0xE2, CHR 0x80, CHR 0x93] @ ''128 letters, digits, underscores or hyphens.'')
      else if (\<exists>v \<in> set [el_stability e, el_similarity_boost e, el_style e].
                 \<not> valid_range v f64_0 f64_1) \<or> \<not> valid_range (el_speed e) f64_0_7 f64_1_2
      then Err (''ElevenLabs stability, similarity_boost and style must be 0'' @ [CHR 0xE2, CHR 0x80, CHR 0x93] @ ''1; speed must be 0.7'' @ [CHR 0xE2, CHR 0x80, CHR 0x93] @ ''1.2.'')
      else if \<not> valid_text (el_previous_text e) 4096 \<or> \<not> valid_text (el_next_text e) 4096
      then Err (''ElevenLabs previous_text and next_text must each contain 1'' @ [CHR 0xE2, CHR 0x80, CHR 0x93] @ ''4096 characters, with no NUL character.'')
      else if (case el_apply_text_normalization e of
                 None \<Rightarrow> False | Some v \<Rightarrow> v \<notin> {''auto'', ''on'', ''off''})
      then Err (''ElevenLabs apply_text_normalization must be auto, on or off.'')
      else Ok ())"

definition open_ai_validate :: "open_ai_tts_options \<Rightarrow> (unit, string) result" where
  "open_ai_validate a =
     (if (case oa_model a of
            None \<Rightarrow> False | Some v \<Rightarrow> v \<notin> {''tts-1'', ''tts-1-hd'', ''gpt-4o-mini-tts''})
      then Err (''OpenAI model must be tts-1, tts-1-hd or gpt-4o-mini-tts.'')
      else if oa_instructions a \<noteq> None \<and> oa_model a \<noteq> Some ''gpt-4o-mini-tts''
      then Err (''OpenAI instructions require model gpt-4o-mini-tts explicitly; tts-1 and tts-1-hd do not support them.'')
      else if \<not> valid_text (oa_instructions a) 4096 \<or> \<not> valid_range (oa_speed a) f64_0_25 f64_4
      then Err (''OpenAI instructions must contain 1'' @ [CHR 0xE2, CHR 0x80, CHR 0x93] @ ''4096 characters without NUL; speed must be 0.25'' @ [CHR 0xE2, CHR 0x80, CHR 0x93] @ ''4.'')
      else case oa_voice a of
        None \<Rightarrow> Ok ()
      | Some voice \<Rightarrow>
          (let legacy = voice \<in> set OPENAI_VOICES;
               modern = oa_model a = Some ''gpt-4o-mini-tts'' \<and>
                 voice \<in> {''ballad'', ''verse'', ''marin'', ''cedar''}
           in if \<not> legacy \<and> \<not> modern
              then Err (''OpenAI voice is not supported by the selected model; newer voices require gpt-4o-mini-tts explicitly.'')
              else Ok ()))"

text \<open>\<open>if let Some(options) = ... { options.validate()?; }\<close>.\<close>

definition validate_if_some :: "('o \<Rightarrow> (unit, string) result) \<Rightarrow> 'o option \<Rightarrow> (unit, string) result" where
  "validate_if_some f x = (case x of None \<Rightarrow> Ok () | Some opts \<Rightarrow> f opts)"

definition validate_for :: "tts_provider_options \<Rightarrow> provider_name \<Rightarrow> (unit, string) result" where
  "validate_for opts p =
     (if \<not> tts_options_is_empty (for_other_providers opts p)
      then Err (''provider_options must belong to the first selected provider. Set provider_order to match the controls.'')
      else and_then (validate_if_some gemini_validate (po_gemini opts)) (\<lambda>_.
           and_then (validate_if_some eleven_labs_validate (po_elevenlabs opts)) (\<lambda>_.
           validate_if_some open_ai_validate (po_openai opts))))"

text \<open>The loop of \<open>GeminiTtsOptions::prompt\<close> over the headed sections.\<close>

fun prompt_sections :: "(string \<times> string option) list \<Rightarrow> string" where
  "prompt_sections [] = []"
| "prompt_sections ((heading, v) # rest) =
     (case v of
        None \<Rightarrow> prompt_sections rest
      | Some text \<Rightarrow> heading @ [CHR 0x0A] @ text @ [CHR 0x0A, CHR 0x0A] @ prompt_sections rest)"

definition gemini_prompt :: "gemini_tts_options \<Rightarrow> string \<Rightarrow> string" where
  "gemini_prompt g transcript =
     (let prompt = prompt_sections
            [(''# AUDIO PROFILE'', gm_audio_profile g),
             (''## THE SCENE'', gm_scene g),
             (''### DIRECTOR'' @ [CHR 0x27] @ ''S NOTES'', gm_director_notes g),
             (''### SAMPLE CONTEXT'', gm_sample_context g)];
          prompt = (if prompt \<noteq> [] then prompt @ ''#### TRANSCRIPT'' @ [CHR 0x0A] else prompt)
      in prompt @ transcript)"

section \<open>Properties\<close>

lemma options_for_provider_idem [simp]:
  "options_for_provider (options_for_provider opts p) p = options_for_provider opts p"
  by (simp add: options_for_provider_def)

lemma for_other_options_for_provider:
  "for_other_providers (options_for_provider opts p) p = tts_options_default"
  by (simp add: for_other_providers_def options_for_provider_def tts_options_default_def)

lemma validate_for_Ok_iff:
  "validate_for opts p = Ok u \<longleftrightarrow>
     tts_options_is_empty (for_other_providers opts p) \<and>
     (\<forall>g. po_gemini opts = Some g \<longrightarrow> gemini_validate g = Ok ()) \<and>
     (\<forall>e. po_elevenlabs opts = Some e \<longrightarrow> eleven_labs_validate e = Ok ()) \<and>
     (\<forall>a. po_openai opts = Some a \<longrightarrow> open_ai_validate a = Ok ())"
  by (auto simp: validate_for_def and_then_Ok_iff validate_if_some_def split: option.splits)

lemma default_options_valid: "validate_for tts_options_default p = Ok ()"
  by (simp add: validate_for_Ok_iff tts_options_default_def for_other_providers_def
      tts_options_is_empty_def)

lemma gemini_prompt_ends_with_transcript: "\<exists>directions. gemini_prompt g transcript = directions @ transcript"
  by (auto simp: gemini_prompt_def Let_def)

lemma gemini_default_prompt: "gemini_prompt gemini_default transcript = transcript"
  by (simp add: gemini_prompt_def gemini_default_def)

text \<open>
  Controls never cross providers. If a request's controls are valid for its first provider
  and another provider is tried, what that provider receives carries no setting at all; the
  first provider receives everything that was set.
\<close>

theorem controls_never_cross_providers:
  assumes "validate_for opts p = Ok ()"
  shows "(\<forall>q. q \<noteq> p \<longrightarrow> tts_options_is_empty (options_for_provider opts q)) \<and>
     (\<forall>g. po_gemini opts = Some g \<and> g \<noteq> gemini_default \<longrightarrow>
        po_gemini (options_for_provider opts p) = Some g) \<and>
     (\<forall>e. po_elevenlabs opts = Some e \<and> e \<noteq> eleven_labs_default \<longrightarrow>
        po_elevenlabs (options_for_provider opts p) = Some e) \<and>
     (\<forall>a. po_openai opts = Some a \<and> a \<noteq> open_ai_default \<longrightarrow>
        po_openai (options_for_provider opts p) = Some a)"
  using assms
  by (auto simp: validate_for_Ok_iff tts_options_is_empty_def for_other_providers_def
      options_for_provider_def split: option.splits if_splits)

theorem controls_never_cross_providers_witness:
  "tts_options_is_empty (options_for_provider
     (tts_options_default\<lparr>po_gemini := Some (gemini_default\<lparr>gm_voice := Some ''Kore''\<rparr>)\<rparr>) provider_name.OpenAi)"
proof -
  have "validate_for (tts_options_default\<lparr>po_gemini := Some (gemini_default\<lparr>gm_voice := Some ''Kore''\<rparr>)\<rparr>)
      provider_name.Gemini = Ok ()"
    by code_simp
  from controls_never_cross_providers [OF this] show ?thesis by blast
qed

end
