(* ===== verification/Speech.thy ===== *)
theory Speech
  imports Language Media Voice
begin

text \<open>
  \<open>src/src/domain/provider_keys.rs\<close>, \<open>capabilities.rs\<close> and \<open>speech.rs\<close>: request-local provider keys,
  the public capabilities, and the validated requests, provider inputs and results of the two
  speech operations.
\<close>

section \<open>Request-local provider keys\<close>

text \<open>\<open>HashMap<ProviderName, SecretString>\<close>; a secret is its exposed text.\<close>

datatype provider_api_keys = ProviderApiKeys (key_map: "provider_name \<Rightarrow> string option")

definition no_provider_keys :: provider_api_keys where
  "no_provider_keys = ProviderApiKeys (\<lambda>_. None)"

definition keys_iter_order :: "provider_name list" where
  "keys_iter_order =
     [provider_name.Gemini, provider_name.ElevenLabs, provider_name.OpenAi, provider_name.Deepgram]"

definition keys_iter :: "provider_api_keys \<Rightarrow> (provider_name \<times> string) list" where
  "keys_iter ks =
     List.map_filter (\<lambda>name. map_option (Pair name) (key_map ks name)) keys_iter_order"

definition keys_is_empty :: "provider_api_keys \<Rightarrow> bool" where
  "keys_is_empty ks \<longleftrightarrow> (\<forall>p. key_map ks p = None)"

definition supports_only :: "provider_api_keys \<Rightarrow> provider_name list \<Rightarrow> bool" where
  "supports_only ks providers \<longleftrightarrow> (\<forall>p. key_map ks p \<noteq> None \<longrightarrow> p \<in> set providers)"

definition valid_provider_key :: "string \<Rightarrow> bool" where
  "valid_provider_key s \<longleftrightarrow> \<not> (s = [] \<or> length s > 16384 \<or> \<not> (\<forall>b \<in> set s. is_ascii_graphic b))"

definition keys_deserialize :: "(provider_name \<Rightarrow> string option) \<Rightarrow> (provider_api_keys, string) result" where
  "keys_deserialize values =
     (if \<exists>p. (case values p of None \<Rightarrow> False | Some v \<Rightarrow> \<not> valid_provider_key v)
      then Err ''invalid provider API key'' else Ok (ProviderApiKeys values))"

section \<open>Capabilities\<close>

definition TTS_LANGUAGE_HINTS :: "string list" where
  "TTS_LANGUAGE_HINTS =
     [''af'', ''am'', ''ar'', ''az'', ''be'', ''bg'', ''bn'', ''ca'', ''ceb'', ''cmn'',
      ''cs'', ''da'', ''de'', ''el'', ''en'', ''es'', ''et'', ''eu'', ''fa'', ''fi'', ''fil'',
      ''fr'', ''gl'', ''gu'', ''he'', ''hi'', ''hr'', ''ht'', ''hu'', ''hy'', ''id'', ''is'',
      ''it'', ''ja'', ''jv'', ''ka'', ''kn'', ''ko'', ''kok'', ''la'', ''lb'', ''lo'', ''lt'',
      ''lv'', ''mai'', ''mg'', ''mk'', ''ml'', ''mn'', ''mr'', ''ms'', ''my'', ''nb'', ''ne'',
      ''nl'', ''nn'', ''or'', ''pa'', ''pl'', ''ps'', ''pt'', ''ro'', ''ru'', ''sd'', ''si'',
      ''sk'', ''sl'', ''sq'', ''sr'', ''sv'', ''sw'', ''ta'', ''te'', ''th'', ''tr'', ''uk'',
      ''ur'', ''vi'']"

definition STT_LANGUAGE_HINTS :: "string list" where
  "STT_LANGUAGE_HINTS =
     [''de'', ''en'', ''es'', ''fr'', ''hi'', ''it'', ''ja'', ''nl'', ''pt'', ''ru'']"

datatype tts_output_format = Mp3

definition tts_output_mime :: "tts_output_format \<Rightarrow> string" where
  "tts_output_mime f = (case f of tts_output_format.Mp3 \<Rightarrow> ''audio/mpeg'')"

definition tts_output_as_str :: "tts_output_format \<Rightarrow> string" where
  "tts_output_as_str f = (case f of tts_output_format.Mp3 \<Rightarrow> ''mp3'')"

record tts_capabilities =
  tc_output_format :: tts_output_format
  tc_languages :: "string list"

record stt_capabilities =
  sc_languages :: "string list"
  sc_accepted_media_types :: "source_media_type list"

record capabilities =
  cap_tts :: tts_capabilities
  cap_stt :: stt_capabilities

definition current_capabilities :: capabilities where
  "current_capabilities =
     \<lparr>cap_tts = \<lparr>tc_output_format = tts_output_format.Mp3, tc_languages = TTS_LANGUAGE_HINTS\<rparr>,
      cap_stt = \<lparr>sc_languages = STT_LANGUAGE_HINTS, sc_accepted_media_types = source_media_types\<rparr>\<rparr>"

definition supports :: "string list \<Rightarrow> language_hint \<Rightarrow> bool" where
  "supports languages hint \<longleftrightarrow> (\<exists>language \<in> set languages. language = primary_language hint)"

definition tts_supports :: "tts_capabilities \<Rightarrow> language_hint \<Rightarrow> bool" where
  "tts_supports c hint = supports (tc_languages c) hint"

definition stt_supports :: "stt_capabilities \<Rightarrow> language_hint \<Rightarrow> bool" where
  "stt_supports c hint = supports (sc_languages c) hint"

definition accepts_media_type :: "stt_capabilities \<Rightarrow> source_media_type \<Rightarrow> bool" where
  "accepts_media_type c t \<longleftrightarrow> t \<in> set (sc_accepted_media_types c)"

section \<open>Requests, provider inputs and results\<close>

definition MAX_TTS_TEXT_CHARACTERS :: nat where
  "MAX_TTS_TEXT_CHARACTERS = 4096"

definition MAX_TRANSCRIPT_BYTES :: nat where
  "MAX_TRANSCRIPT_BYTES = 1024 * 1024"

datatype speech_validation_error =
    BlankText
  | TextTooLong nat
  | UnsupportedTtsLanguage
  | UnsupportedSttLanguage
  | TranscriptTooLong nat

datatype speech_text = SpeechText (speech_str: string)

definition speech_text_new :: "string \<Rightarrow> (speech_text, speech_validation_error) result" where
  "speech_text_new s =
     (if str_trim s = [] then Err BlankText
      else if char_count s > MAX_TTS_TEXT_CHARACTERS then Err (TextTooLong MAX_TTS_TEXT_CHARACTERS)
      else Ok (SpeechText s))"

definition character_count :: "speech_text \<Rightarrow> nat" where
  "character_count t = char_count (speech_str t)"

record tts_request =
  tq_auto_fallback :: bool
  tq_provider_options :: tts_provider_options
  tq_provider_keys :: provider_api_keys
  tq_text :: speech_text
  tq_voice_profile :: "string option"
  tq_resolved_voice :: "voice_profile option"
  tq_language :: "language_hint option"
  tq_provider_order :: "provider_name list option"

definition tts_request_new ::
    "speech_text \<Rightarrow> language_hint option \<Rightarrow> (tts_request, speech_validation_error) result" where
  "tts_request_new text language =
     (if (case language of
            None \<Rightarrow> False | Some hint \<Rightarrow> \<not> tts_supports (cap_tts current_capabilities) hint)
      then Err UnsupportedTtsLanguage
      else Ok \<lparr>tq_auto_fallback = False, tq_provider_options = tts_options_default,
               tq_provider_keys = no_provider_keys, tq_text = text, tq_voice_profile = None,
               tq_resolved_voice = None, tq_language = language, tq_provider_order = None\<rparr>)"

record tts_provider_request =
  tp_fixture_voice :: "string option"
  tp_options :: tts_provider_options
  tp_text :: speech_text
  tp_voice :: "provider_voice option"
  tp_language :: "language_hint option"

definition tts_provider_request_for :: "tts_request \<Rightarrow> provider_name \<Rightarrow> tts_provider_request" where
  "tts_provider_request_for request provider =
     \<lparr>tp_fixture_voice = map_option vp_gemini_voice (tq_resolved_voice request),
      tp_options = options_for_provider (tq_provider_options request) provider,
      tp_text = tq_text request,
      tp_voice = Option.bind (tq_resolved_voice request) (\<lambda>v. voice_for_provider v provider),
      tp_language = (if accepts_tts_language_hint provider then tq_language request else None)\<rparr>"

record tts_result =
  tr_voice_profile :: "voice_profile_ref option"
  tr_request_id :: request_id
  tr_storage :: audio_storage
  tr_provider :: provider_name
  tr_output_format :: tts_output_format
  tr_duration :: media_duration

definition tts_result_new ::
    "request_id \<Rightarrow> audio_storage \<Rightarrow> provider_name \<Rightarrow> media_duration \<Rightarrow> tts_result" where
  "tts_result_new r s p d =
     \<lparr>tr_voice_profile = None, tr_request_id = r, tr_storage = s, tr_provider = p,
      tr_output_format = tts_output_format.Mp3, tr_duration = d\<rparr>"

record stt_request =
  sq_provider_keys :: provider_api_keys
  sq_source_url :: briefcase_file_url
  sq_language :: "language_hint option"
  sq_provider_order :: "provider_name list option"

definition stt_request_new ::
    "briefcase_file_url \<Rightarrow> language_hint option \<Rightarrow> (stt_request, speech_validation_error) result" where
  "stt_request_new source language =
     (if (case language of
            None \<Rightarrow> False | Some hint \<Rightarrow> \<not> stt_supports (cap_stt current_capabilities) hint)
      then Err UnsupportedSttLanguage
      else Ok \<lparr>sq_provider_keys = no_provider_keys, sq_source_url = source,
               sq_language = language, sq_provider_order = None\<rparr>)"

record stt_provider_request =
  sp_media :: source_media
  sp_language :: "language_hint option"

datatype transcript = Transcript (transcript_str: string)

definition transcript_new :: "string \<Rightarrow> (transcript, speech_validation_error) result" where
  "transcript_new s =
     (if length s > MAX_TRANSCRIPT_BYTES then Err (TranscriptTooLong MAX_TRANSCRIPT_BYTES)
      else Ok (Transcript s))"

record stt_provider_result =
  pr_transcript :: transcript
  pr_detected_language :: "language_hint option"
  pr_duration :: "media_duration option"

record stt_result =
  sr_request_id :: request_id
  sr_transcript :: transcript
  sr_detected_language :: "language_hint option"
  sr_provider :: provider_name
  sr_duration :: "media_duration option"

definition stt_result_from_provider ::
    "request_id \<Rightarrow> provider_name \<Rightarrow> stt_provider_result \<Rightarrow> stt_result" where
  "stt_result_from_provider r p result =
     \<lparr>sr_request_id = r, sr_transcript = pr_transcript result,
      sr_detected_language = pr_detected_language result, sr_provider = p,
      sr_duration = pr_duration result\<rparr>"

section \<open>Lemmas\<close>

lemma keys_iter_set: "set (keys_iter ks) = {(p, k). key_map ks p = Some k}"
proof -
  have "p \<in> set keys_iter_order" for p
    by (cases p) (simp_all add: keys_iter_order_def)
  then show ?thesis unfolding keys_iter_def by (force simp: map_filter_def image_iff)
qed

lemma keys_iter_inject: "keys_iter a = keys_iter b \<Longrightarrow> a = b"
proof -
  assume eq: "keys_iter a = keys_iter b"
  have "key_map a p = key_map b p" for p
  proof -
    have "(p, k) \<in> set (keys_iter a) \<longleftrightarrow> (p, k) \<in> set (keys_iter b)" for k using eq by simp
    then have "key_map a p = Some k \<longleftrightarrow> key_map b p = Some k" for k by (simp add: keys_iter_set)
    then show ?thesis by (metis not_Some_eq)
  qed
  then show "a = b" by (metis ext provider_api_keys.expand)
qed

lemma keys_is_empty_iter: "keys_is_empty ks \<longleftrightarrow> keys_iter ks = []"
proof -
  have "keys_iter ks = [] \<longleftrightarrow> set (keys_iter ks) = {}" by simp
  also have "\<dots> \<longleftrightarrow> (\<forall>p. key_map ks p = None)" unfolding keys_iter_set by auto
  finally show ?thesis by (simp add: keys_is_empty_def)
qed

lemma every_source_type_accepted: "accepts_media_type (cap_stt current_capabilities) t"
  by (cases t) (simp_all add: accepts_media_type_def current_capabilities_def source_media_types_def)

lemma stt_languages_subset_tts: "set STT_LANGUAGE_HINTS \<subseteq> set TTS_LANGUAGE_HINTS"
  by (simp add: STT_LANGUAGE_HINTS_def TTS_LANGUAGE_HINTS_def)

lemma language_hint_only_for_gemini:
  "tp_language (tts_provider_request_for request p) \<noteq> None \<Longrightarrow> p = provider_name.Gemini"
  by (simp add: tts_provider_request_for_def accepts_tts_language_hint_def split: if_splits)

end
