(* ===== verification/Errors.thy ===== *)
theory Errors
  imports Provider Auth
begin

text \<open>
  \<open>src/src/domain/error.rs\<close>: the service's failure taxonomy, its stable public codes and the
  retry delay of a duplicate that is still in progress.
\<close>

datatype error_code =
    StorageAuthorizationRequired | ProviderFailed | InvalidRequest | Unauthenticated | Forbidden
  | PayloadTooLarge | UnsupportedMediaType | SourceNotFound | IdempotencyKeyReused
  | RequestInProgress | ProvidersExhausted | DependencyContractUnavailable
  | DependencyUnavailable | DependencyTimeout | Internal

fun error_code_as_str :: "error_code \<Rightarrow> string" where
  "error_code_as_str error_code.StorageAuthorizationRequired = ''storage_authorization_required''"
| "error_code_as_str error_code.ProviderFailed = ''provider_failed''"
| "error_code_as_str error_code.InvalidRequest = ''invalid_request''"
| "error_code_as_str error_code.Unauthenticated = ''unauthenticated''"
| "error_code_as_str error_code.Forbidden = ''forbidden''"
| "error_code_as_str error_code.PayloadTooLarge = ''payload_too_large''"
| "error_code_as_str error_code.UnsupportedMediaType = ''unsupported_media_type''"
| "error_code_as_str error_code.SourceNotFound = ''source_not_found''"
| "error_code_as_str error_code.IdempotencyKeyReused = ''idempotency_key_reused''"
| "error_code_as_str error_code.RequestInProgress = ''request_in_progress''"
| "error_code_as_str error_code.ProvidersExhausted = ''providers_exhausted''"
| "error_code_as_str error_code.DependencyContractUnavailable = ''dependency_contract_unavailable''"
| "error_code_as_str error_code.DependencyUnavailable = ''dependency_unavailable''"
| "error_code_as_str error_code.DependencyTimeout = ''dependency_timeout''"
| "error_code_as_str error_code.Internal = ''internal_error''"

datatype dependency =
    VoiceProfiles | ProviderKeys | Accounts | Briefcase | AudioStore | IdempotencyStore
  | AudioNormalizer

datatype waveform_error =
    StorageAuthorizationRequired
  | AuthenticationFailed auth_failure
  | InvalidProviderOptions string
  | ProviderFailed provider_error
  | InvalidRequest
  | Unauthenticated
  | Forbidden
  | PayloadTooLarge
  | UnsupportedMediaType
  | SourceNotFound
  | IdempotencyKeyReused
  | RequestInProgress duration
  | ProvidersExhausted
  | DependencyContractUnavailable dependency
  | DependencyUnavailable dependency
  | DependencyTimeout dependency
  | Internal

fun waveform_error_code :: "waveform_error \<Rightarrow> error_code" where
  "waveform_error_code (InvalidProviderOptions _) = error_code.InvalidRequest"
| "waveform_error_code InvalidRequest = error_code.InvalidRequest"
| "waveform_error_code StorageAuthorizationRequired = error_code.StorageAuthorizationRequired"
| "waveform_error_code (ProviderFailed _) = error_code.ProviderFailed"
| "waveform_error_code Unauthenticated = error_code.Unauthenticated"
| "waveform_error_code (AuthenticationFailed failure) =
     (if is_forbidden failure then error_code.Forbidden else error_code.Unauthenticated)"
| "waveform_error_code Forbidden = error_code.Forbidden"
| "waveform_error_code PayloadTooLarge = error_code.PayloadTooLarge"
| "waveform_error_code UnsupportedMediaType = error_code.UnsupportedMediaType"
| "waveform_error_code SourceNotFound = error_code.SourceNotFound"
| "waveform_error_code IdempotencyKeyReused = error_code.IdempotencyKeyReused"
| "waveform_error_code (RequestInProgress _) = error_code.RequestInProgress"
| "waveform_error_code ProvidersExhausted = error_code.ProvidersExhausted"
| "waveform_error_code (DependencyContractUnavailable _) = error_code.DependencyContractUnavailable"
| "waveform_error_code (DependencyUnavailable _) = error_code.DependencyUnavailable"
| "waveform_error_code (DependencyTimeout _) = error_code.DependencyTimeout"
| "waveform_error_code Internal = error_code.Internal"

fun waveform_error_retry_after :: "waveform_error \<Rightarrow> duration option" where
  "waveform_error_retry_after (RequestInProgress retry_after) = Some retry_after"
| "waveform_error_retry_after _ = None"

lemma error_code_as_str_inject: "error_code_as_str c = error_code_as_str d \<Longrightarrow> c = d"
  by (cases c; cases d) simp_all

lemma retry_after_iff_in_progress:
  "waveform_error_retry_after e \<noteq> None \<longleftrightarrow> waveform_error_code e = error_code.RequestInProgress"
  by (cases e) (auto split: if_splits)

end
