(* ===== verification/Digest.thy ===== *)
theory Digest
  imports Speech Errors
begin

text \<open>
  \<open>src/src/domain/idempotency.rs\<close>: idempotency keys and scopes, keyed request digests, leases and
  the decisions of the idempotency store. HMAC-SHA-256, the JSON of the provider options and the
  text of a URL are parameters. The lemmas show that the hashed messages are unambiguous: a
  digest binds the caller's whole intent, up to collisions among the messages actually hashed.
\<close>

section \<open>Keys and scopes\<close>

definition ACCOUNT_SCOPE :: string where
  "ACCOUNT_SCOPE = ''@''"

definition MIN_IDEMPOTENCY_KEY_LENGTH :: nat where
  "MIN_IDEMPOTENCY_KEY_LENGTH = 8"

definition MAX_IDEMPOTENCY_KEY_LENGTH :: nat where
  "MAX_IDEMPOTENCY_KEY_LENGTH = 255"

definition MIN_REQUEST_DIGEST_KEY_BYTES :: nat where
  "MIN_REQUEST_DIGEST_KEY_BYTES = 32"

definition MAX_REQUEST_DIGEST_KEY_BYTES :: nat where
  "MAX_REQUEST_DIGEST_KEY_BYTES = 1024"

datatype speech_operation = Tts | Stt

fun operation_as_str :: "speech_operation \<Rightarrow> string" where
  "operation_as_str speech_operation.Tts = ''tts''"
| "operation_as_str speech_operation.Stt = ''stt''"

datatype idempotency_key = IdempotencyKey (key_str: string)

datatype idempotency_key_error = InvalidLength | InvalidCharacters

definition idempotency_key_from_str :: "string \<Rightarrow> (idempotency_key, idempotency_key_error) result" where
  "idempotency_key_from_str s =
     (if \<not> (MIN_IDEMPOTENCY_KEY_LENGTH \<le> length s \<and> length s \<le> MAX_IDEMPOTENCY_KEY_LENGTH)
      then Err idempotency_key_error.InvalidLength
      else if \<not> (\<forall>b \<in> set s. is_ascii_graphic b) then Err idempotency_key_error.InvalidCharacters
      else Ok (IdempotencyKey s))"

definition for_briefcase_upload :: "uuid_crate \<Rightarrow> request_id \<Rightarrow> idempotency_key" where
  "for_briefcase_upload U r =
     IdempotencyKey (''waveform:briefcase:tts:'' @ uuid_text U (request_uuid r))"

record idempotency_scope =
  sc_plane_id :: uuid
  sc_actor :: actor
  sc_operation :: speech_operation
  sc_key :: idempotency_key

section \<open>Request digests\<close>

datatype request_digest_key = RequestDigestKey (digest_key_bytes: bytes)

definition request_digest_key_new :: "bytes \<Rightarrow> request_digest_key option" where
  "request_digest_key_new bs =
     (if \<not> (MIN_REQUEST_DIGEST_KEY_BYTES \<le> length bs \<and> length bs \<le> MAX_REQUEST_DIGEST_KEY_BYTES)
      then None else Some (RequestDigestKey bs))"

datatype request_digest = RequestDigest (digest_bytes: bytes)

text \<open>What the digests use of other crates: HMAC-SHA-256 (key, message), the JSON of the options
  and the text of a URL.\<close>

record digest_crates =
  hmac_sha256 :: "bytes \<Rightarrow> bytes \<Rightarrow> bytes"
  options_json :: "tts_provider_options \<Rightarrow> bytes"
  digest_url_text :: "url \<Rightarrow> string"

definition length_prefixed :: "bytes \<Rightarrow> bytes" where
  "length_prefixed v = u64_be (length v) @ v"

text \<open>The bytes the hasher of \<open>digest_fields\<close> is updated with.\<close>

definition fields_message ::
    "speech_operation \<Rightarrow> string \<Rightarrow> string option \<Rightarrow> provider_name list option \<Rightarrow> bytes" where
  "fields_message operation primary language provider_order =
     ''silicon-waveform:request:v1'' @ [CHR 0x00] @
     length_prefixed (operation_as_str operation) @
     length_prefixed primary @
     (case language of
        Some v \<Rightarrow> [CHR 0x01] @ length_prefixed v
      | None \<Rightarrow> [CHR 0x00]) @
     (case provider_order of
        Some order \<Rightarrow>
          [CHR 0x01] @ u64_be (length order) @
          concat (map (\<lambda>p. length_prefixed (provider_as_str p)) order)
      | None \<Rightarrow> [CHR 0x00])"

definition digest_fields ::
    "digest_crates \<Rightarrow> speech_operation \<Rightarrow> string \<Rightarrow> string option \<Rightarrow> provider_name list option \<Rightarrow>
     request_digest_key \<Rightarrow> request_digest" where
  "digest_fields D operation primary language provider_order key =
     RequestDigest (hmac_sha256 D (digest_key_bytes key)
       (fields_message operation primary language provider_order))"

definition profile_message :: "bytes \<Rightarrow> string \<Rightarrow> bytes" where
  "profile_message original profile =
     ''silicon-waveform:voice-profile:v1'' @ [CHR 0x00] @ original @ length_prefixed profile"

definition keys_message :: "provider_api_keys \<Rightarrow> bytes" where
  "keys_message ks = concat (map (\<lambda>(provider, credential).
     length_prefixed (provider_as_str provider) @ length_prefixed credential) (keys_iter ks))"

definition controls_message :: "bytes \<Rightarrow> bool \<Rightarrow> bytes \<Rightarrow> provider_api_keys \<Rightarrow> bytes" where
  "controls_message original auto_fallback options_bytes ks =
     ''silicon-waveform:tts-controls:v1'' @ [CHR 0x00] @ original @
     [if auto_fallback then CHR 0x01 else CHR 0x00] @ length_prefixed options_bytes @ keys_message ks"

definition stt_keys_message :: "bytes \<Rightarrow> provider_api_keys \<Rightarrow> bytes" where
  "stt_keys_message original ks =
     ''silicon-waveform:stt-keys:v1'' @ [CHR 0x00] @ original @ keys_message ks"

text \<open>\<open>auto_fallback\<close> with no options and no keys keeps the digest of records stored earlier.\<close>

definition legacy_controls :: "tts_request \<Rightarrow> bool" where
  "legacy_controls r \<longleftrightarrow> tq_auto_fallback r \<and> tts_options_is_empty (tq_provider_options r) \<and>
     keys_is_empty (tq_provider_keys r)"

definition for_tts :: "digest_crates \<Rightarrow> tts_request \<Rightarrow> request_digest_key \<Rightarrow> request_digest" where
  "for_tts D request key =
     (let original = digest_fields D speech_operation.Tts (speech_str (tq_text request))
            (map_option hint_str (tq_language request)) (tq_provider_order request) key;
          original = (case tq_voice_profile request of
              Some profile \<Rightarrow>
                RequestDigest (hmac_sha256 D (digest_key_bytes key)
                  (profile_message (digest_bytes original) profile))
            | None \<Rightarrow> original)
      in if legacy_controls request then original
         else RequestDigest (hmac_sha256 D (digest_key_bytes key)
           (controls_message (digest_bytes original) (tq_auto_fallback request)
              (options_json D (tq_provider_options request)) (tq_provider_keys request))))"

definition for_stt :: "digest_crates \<Rightarrow> stt_request \<Rightarrow> request_digest_key \<Rightarrow> request_digest" where
  "for_stt D request key =
     (let original = digest_fields D speech_operation.Stt (digest_url_text D (as_url (sq_source_url request)))
            (map_option hint_str (sq_language request)) (sq_provider_order request) key
      in if keys_is_empty (sq_provider_keys request) then original
         else RequestDigest (hmac_sha256 D (digest_key_bytes key)
           (stt_keys_message (digest_bytes original) (sq_provider_keys request))))"

section \<open>Leases, claims and decisions\<close>

datatype idempotency_lease_id = IdempotencyLeaseId (lease_uuid: uuid)

definition idempotency_lease_id_new :: "uuid \<Rightarrow> idempotency_lease_id option" where
  "idempotency_lease_id_new u = (if u = 0 then None else Some (IdempotencyLeaseId u))"

record idempotency_lease =
  lease_id :: idempotency_lease_id
  lease_expires_at :: instant

record idempotency_claim =
  cl_scope :: idempotency_scope
  cl_digest :: request_digest
  cl_request_id :: request_id
  cl_lease_id :: idempotency_lease_id
  cl_lease_duration :: duration

record completed_tts_operation =
  co_voice_profile :: "voice_profile_ref option"
  co_request_id :: request_id
  co_storage :: audio_storage
  co_provider :: provider_name
  co_duration :: media_duration

definition from_result :: "tts_result \<Rightarrow> completed_tts_operation" where
  "from_result r = \<lparr>co_voice_profile = tr_voice_profile r, co_request_id = tr_request_id r,
     co_storage = tr_storage r, co_provider = tr_provider r, co_duration = tr_duration r\<rparr>"

definition into_result :: "completed_tts_operation \<Rightarrow> tts_result" where
  "into_result c =
     (tts_result_new (co_request_id c) (co_storage c) (co_provider c) (co_duration c))
       \<lparr>tr_voice_profile := co_voice_profile c\<rparr>"

datatype completed_speech_operation =
    Tts completed_tts_operation
  | Stt stt_result

fun completed_operation :: "completed_speech_operation \<Rightarrow> speech_operation" where
  "completed_operation (completed_speech_operation.Tts _) = speech_operation.Tts"
| "completed_operation (completed_speech_operation.Stt _) = speech_operation.Stt"

datatype idempotency_decision =
    Acquired idempotency_lease request_id instant
  | Replay completed_speech_operation
  | KeyReused
  | InProgress duration

record idempotency_completion =
  cm_scope :: idempotency_scope
  cm_lease_id :: idempotency_lease_id
  cm_response :: completed_speech_operation

record idempotency_release =
  rl_failure_code :: "error_code option"
  rl_scope :: idempotency_scope
  rl_lease_id :: idempotency_lease_id

record speech_job_start =
  js_voice_profile :: "voice_profile_ref option"
  js_scope :: idempotency_scope
  js_issuing_app :: "application_id option"
  js_lease_id :: idempotency_lease_id
  js_first_line :: string

section \<open>The hashed messages are unambiguous\<close>

definition sized :: "bytes \<Rightarrow> bool" where
  "sized s \<longleftrightarrow> length s \<le> u64_max"

lemma length_prefixed_cancel:
  assumes "sized a" "sized b" "length_prefixed a @ x = length_prefixed b @ y"
  shows "a = b \<and> x = y"
proof -
  from assms(3) have eq: "u64_be (length a) @ a @ x = u64_be (length b) @ b @ y"
    by (simp add: length_prefixed_def)
  then have "u64_be (length a) = u64_be (length b)" and rest: "a @ x = b @ y"
    by (metis append_eq_append_conv length_u64_be)+
  then have "length a = length b" using u64_be_inject assms(1,2) by (auto simp: sized_def)
  with rest show ?thesis by simp
qed

lemma length_prefixed_inject:
  "sized a \<Longrightarrow> sized b \<Longrightarrow> length_prefixed a = length_prefixed b \<Longrightarrow> a = b"
  using length_prefixed_cancel [of a b "[]" "[]"] by simp

lemma length_prefixed_not_Nil [simp]: "length_prefixed a \<noteq> []"
  by (metis append_is_Nil_conv length_0_conv length_prefixed_def length_u64_be zero_neq_numeral)

lemma concat_length_prefixed_inject:
  "(\<forall>a \<in> set xs \<union> set ys. sized a) \<Longrightarrow>
     concat (map length_prefixed xs) = concat (map length_prefixed ys) \<Longrightarrow> xs = ys"
proof (induction xs arbitrary: ys)
  case Nil
  then show ?case by (cases ys) auto
next
  case (Cons x xs)
  from Cons.prems(2) obtain y ys' where ys: "ys = y # ys'" by (cases ys) simp_all
  with Cons.prems have "x = y \<and> concat (map length_prefixed xs) = concat (map length_prefixed ys')"
    by (intro length_prefixed_cancel) auto
  with Cons.IH [of ys'] Cons.prems(1) ys show ?case by auto
qed

lemma sized_provider [simp]: "sized (provider_as_str p)"
  by (cases p) (simp_all add: sized_def u64_max_def)

lemma sized_operation [simp]: "sized (operation_as_str f)"
  by (cases f) (simp_all add: sized_def u64_max_def)

lemma operation_as_str_inject: "operation_as_str f = operation_as_str g \<Longrightarrow> f = g"
  by (cases f; cases g) simp_all

lemma provider_order_message_inject:
  assumes "concat (map (\<lambda>p. length_prefixed (provider_as_str p)) ps) =
     concat (map (\<lambda>p. length_prefixed (provider_as_str p)) qs)"
  shows "ps = qs"
proof -
  have "concat (map length_prefixed (map provider_as_str ps)) =
      concat (map length_prefixed (map provider_as_str qs))"
    using assms by (simp add: comp_def)
  then have "map provider_as_str ps = map provider_as_str qs"
    by (rule concat_length_prefixed_inject [rotated]) auto
  moreover have "inj provider_as_str" by (rule injI) (rule provider_as_str_inject)
  ultimately show ?thesis by simp
qed

lemma fields_message_inject:
  assumes "fields_message f p l order = fields_message f' p' l' order'"
    and "sized p" "sized p'" "\<forall>v \<in> set_option l. sized v" "\<forall>v \<in> set_option l'. sized v"
  shows "f = f' \<and> p = p' \<and> l = l' \<and> order = order'"
proof -
  let ?lang = "\<lambda>l. case l of Some v \<Rightarrow> [CHR 0x01] @ length_prefixed v | None \<Rightarrow> [CHR 0x00]"
  let ?ord = "\<lambda>order. case order of
      Some order \<Rightarrow> [CHR 0x01] @ u64_be (length order) @
        concat (map (\<lambda>p. length_prefixed (provider_as_str p)) order)
    | None \<Rightarrow> [CHR 0x00]"
  from assms(1) have "length_prefixed (operation_as_str f) @ length_prefixed p @ ?lang l @ ?ord order =
      length_prefixed (operation_as_str f') @ length_prefixed p' @ ?lang l' @ ?ord order'"
    by (simp add: fields_message_def)
  then have f: "operation_as_str f = operation_as_str f'"
    and "length_prefixed p @ ?lang l @ ?ord order = length_prefixed p' @ ?lang l' @ ?ord order'"
    by (auto dest: length_prefixed_cancel [rotated 2])
  with assms(2,3) have p: "p = p'" and rest: "?lang l @ ?ord order = ?lang l' @ ?ord order'"
    by (auto dest: length_prefixed_cancel [rotated 2])
  have l: "l = l' \<and> ?ord order = ?ord order'"
    using rest assms(4,5) by (cases l; cases l') (auto dest: length_prefixed_cancel [rotated 2])
  then have "order = order'"
    by (cases order; cases order') (auto simp: append_eq_append_conv intro: provider_order_message_inject)
  with f p l show ?thesis by (auto intro: operation_as_str_inject)
qed

lemma flat_pairs_inject:
  "concat (map (\<lambda>(p, c). [provider_as_str p, c]) xs) = concat (map (\<lambda>(p, c). [provider_as_str p, c]) ys)
     \<Longrightarrow> xs = ys"
proof (induction xs arbitrary: ys)
  case Nil
  then show ?case by (cases ys) auto
next
  case (Cons x xs)
  then show ?case by (cases ys; cases x) (auto dest: provider_as_str_inject)
qed

lemma keys_message_flat:
  "keys_message ks = concat (map length_prefixed
     (concat (map (\<lambda>(p, c). [provider_as_str p, c]) (keys_iter ks))))"
proof -
  have "concat (map (\<lambda>(p, c). length_prefixed (provider_as_str p) @ length_prefixed c) xs) =
      concat (map length_prefixed (concat (map (\<lambda>(p, c). [provider_as_str p, c]) xs)))" for xs
    by (induction xs) auto
  then show ?thesis by (simp add: keys_message_def)
qed

definition sized_keys :: "provider_api_keys \<Rightarrow> bool" where
  "sized_keys ks \<longleftrightarrow> (\<forall>p k. key_map ks p = Some k \<longrightarrow> sized k)"

lemma keys_message_inject:
  assumes "sized_keys a" "sized_keys b" "keys_message a = keys_message b"
  shows "a = b"
proof -
  have all: "\<forall>s \<in> set (concat (map (\<lambda>(p, c). [provider_as_str p, c]) (keys_iter ks))). sized s"
    if "sized_keys ks" for ks
    using that by (auto simp: keys_iter_set sized_keys_def)
  have "concat (map (\<lambda>(p, c). [provider_as_str p, c]) (keys_iter a)) =
      concat (map (\<lambda>(p, c). [provider_as_str p, c]) (keys_iter b))"
    using all [OF assms(1)] all [OF assms(2)] assms(3) unfolding keys_message_flat
    by (intro concat_length_prefixed_inject) blast+
  then show ?thesis by (intro keys_iter_inject flat_pairs_inject)
qed

lemma profile_message_inject:
  assumes "length d = length d'" "profile_message d p = profile_message d' p'" "sized p" "sized p'"
  shows "d = d' \<and> p = p'"
  using assms by (auto simp: profile_message_def dest: length_prefixed_inject)

lemma controls_message_inject:
  assumes "length d = length d'" "controls_message d f j ks = controls_message d' f' j' ks'"
    and "sized j" "sized j'" "sized_keys ks" "sized_keys ks'"
  shows "d = d' \<and> f = f' \<and> j = j' \<and> ks = ks'"
proof -
  from assms(1,2) have "d = d'" and f: "f = f'"
    and "length_prefixed j @ keys_message ks = length_prefixed j' @ keys_message ks'"
    by (auto simp: controls_message_def split: if_splits)
  with assms(3-) show ?thesis
    using length_prefixed_cancel [of j j'] keys_message_inject [of ks ks'] by auto
qed

lemma stt_keys_message_inject:
  assumes "length d = length d'" "stt_keys_message d ks = stt_keys_message d' ks'"
    and "sized_keys ks" "sized_keys ks'"
  shows "d = d' \<and> ks = ks'"
  using assms by (auto simp: stt_keys_message_def dest: keys_message_inject)

lemma message_tags:
  "fields_message f p l ord \<noteq> profile_message d q"
  "fields_message f p l ord \<noteq> controls_message d' b j ks"
  "fields_message f p l ord \<noteq> stt_keys_message d'' ks'"
  "profile_message d q \<noteq> controls_message d' b j ks"
  "profile_message d q \<noteq> stt_keys_message d'' ks'"
  "controls_message d' b j ks \<noteq> stt_keys_message d'' ks'"
  by (simp_all add: fields_message_def profile_message_def controls_message_def stt_keys_message_def)

lemmas message_tags_sym = message_tags message_tags [symmetric]

section \<open>A digest binds the whole request\<close>

text \<open>The messages hashed on the way to a digest, the last one last.\<close>

definition tts_fields :: "tts_request \<Rightarrow> bytes" where
  "tts_fields r = fields_message speech_operation.Tts (speech_str (tq_text r))
     (map_option hint_str (tq_language r)) (tq_provider_order r)"

definition tts_base_messages :: "digest_crates \<Rightarrow> request_digest_key \<Rightarrow> tts_request \<Rightarrow> bytes list" where
  "tts_base_messages D key r =
     (case tq_voice_profile r of
        None \<Rightarrow> [tts_fields r]
      | Some p \<Rightarrow> [tts_fields r,
          profile_message (hmac_sha256 D (digest_key_bytes key) (tts_fields r)) p])"

definition tts_messages :: "digest_crates \<Rightarrow> request_digest_key \<Rightarrow> tts_request \<Rightarrow> bytes list" where
  "tts_messages D key r =
     (let ms = tts_base_messages D key r in
      if legacy_controls r then ms
      else ms @ [controls_message (hmac_sha256 D (digest_key_bytes key) (last ms))
             (tq_auto_fallback r) (options_json D (tq_provider_options r)) (tq_provider_keys r)])"

definition tts_sized :: "digest_crates \<Rightarrow> tts_request \<Rightarrow> bool" where
  "tts_sized D r \<longleftrightarrow> sized (speech_str (tq_text r)) \<and> sized (options_json D (tq_provider_options r)) \<and>
     (\<forall>h \<in> set_option (tq_language r). sized (hint_str h)) \<and>
     (\<forall>p \<in> set_option (tq_voice_profile r). sized p) \<and> sized_keys (tq_provider_keys r)"

lemma for_tts_last:
  "for_tts D r key = RequestDigest (hmac_sha256 D (digest_key_bytes key) (last (tts_messages D key r)))"
  by (simp add: for_tts_def tts_messages_def tts_base_messages_def tts_fields_def digest_fields_def
      Let_def split: option.splits)

lemma tts_fields_inject:
  assumes "tts_fields r = tts_fields r'" "tts_sized D r" "tts_sized D r'"
  shows "tq_text r = tq_text r' \<and> tq_language r = tq_language r' \<and>
    tq_provider_order r = tq_provider_order r'"
proof -
  have "speech_str (tq_text r) = speech_str (tq_text r') \<and>
      map_option hint_str (tq_language r) = map_option hint_str (tq_language r') \<and>
      tq_provider_order r = tq_provider_order r'"
    using fields_message_inject [OF assms(1) [unfolded tts_fields_def]] assms(2,3)
    by (auto simp: tts_sized_def)
  moreover have "inj hint_str" by (rule injI) (rule language_hint.expand)
  ultimately show ?thesis
    using speech_text.expand option.inj_map [THEN injD] by blast
qed

lemma tts_base_messages_simps:
  "tts_base_messages D key r \<noteq> []"
  "set (tts_base_messages D key r) \<subseteq> set (tts_messages D key r)"
  "tts_messages D key r \<noteq> []"
  by (auto simp: tts_base_messages_def tts_messages_def Let_def split: option.splits)

lemma tts_base_binds:
  fixes D key
  defines "H \<equiv> hmac_sha256 D (digest_key_bytes key)"
  assumes len: "\<forall>m. length (H m) = 32"
    and inj: "inj_on H (set (tts_base_messages D key r) \<union> set (tts_base_messages D key r'))"
    and sized: "tts_sized D r" "tts_sized D r'"
    and eq: "last (tts_base_messages D key r) = last (tts_base_messages D key r')"
  shows "tq_text r = tq_text r' \<and> tq_language r = tq_language r' \<and>
    tq_provider_order r = tq_provider_order r' \<and> tq_voice_profile r = tq_voice_profile r'"
proof -
  have fields: "tts_fields r = tts_fields r' \<and> tq_voice_profile r = tq_voice_profile r'"
  proof (cases "tq_voice_profile r"; cases "tq_voice_profile r'")
    fix p p'
    assume p: "tq_voice_profile r = Some p" "tq_voice_profile r' = Some p'"
    with eq have m: "profile_message (H (tts_fields r)) p = profile_message (H (tts_fields r')) p'"
      by (simp add: tts_base_messages_def H_def)
    moreover have "length (H (tts_fields r)) = length (H (tts_fields r'))" using len by simp
    moreover have "sized p" "sized p'" using sized p by (simp_all add: tts_sized_def)
    ultimately have "H (tts_fields r) = H (tts_fields r')" "p = p'"
      using profile_message_inject by blast+
    moreover have "tts_fields r \<in> set (tts_base_messages D key r)"
      "tts_fields r' \<in> set (tts_base_messages D key r')"
      using p by (simp_all add: tts_base_messages_def)
    ultimately show ?thesis using inj p by (auto dest: inj_onD)
  qed (use eq in \<open>auto simp: tts_base_messages_def tts_fields_def message_tags_sym\<close>)
  with tts_fields_inject sized show ?thesis by blast
qed

text \<open>
  An idempotency digest binds the caller's whole intent. If two synthesis requests have the
  same digest and HMAC has no collision among the at most six messages hashed for them (and
  yields 32 bytes), then they agree on the text, language, provider order, voice profile,
  fallback choice and request keys, and on the serialized provider options unless both are the
  legacy form without options. Lengths are those of Rust values (below \<open>2^64\<close>).
\<close>

theorem tts_digest_binds_request:
  assumes len: "\<forall>m. length (hmac_sha256 D (digest_key_bytes key) m) = 32"
    and inj: "inj_on (hmac_sha256 D (digest_key_bytes key))
      (set (tts_messages D key r) \<union> set (tts_messages D key r'))"
    and sized: "tts_sized D r" "tts_sized D r'"
    and eq: "for_tts D r key = for_tts D r' key"
  shows "tq_text r = tq_text r' \<and> tq_language r = tq_language r' \<and>
     tq_provider_order r = tq_provider_order r' \<and> tq_voice_profile r = tq_voice_profile r' \<and>
     tq_auto_fallback r = tq_auto_fallback r' \<and> tq_provider_keys r = tq_provider_keys r' \<and>
     (options_json D (tq_provider_options r) = options_json D (tq_provider_options r') \<or>
      legacy_controls r \<and> legacy_controls r')"
proof -
  let ?H = "hmac_sha256 D (digest_key_bytes key)"
  let ?b = "\<lambda>r. last (tts_base_messages D key r)"
  have last_mem: "last (tts_messages D key r) \<in> set (tts_messages D key r)" for r
    by (simp add: tts_base_messages_simps)
  have base_mem: "?b r \<in> set (tts_messages D key r)" for r
    using tts_base_messages_simps(1,2) [of D key r] by (meson last_in_set subsetD)
  have m: "last (tts_messages D key r) = last (tts_messages D key r')"
    using eq inj last_mem unfolding for_tts_last by (auto dest: inj_onD)
  have tag: "?b r \<noteq> controls_message d f j ks" for r d f j ks
    by (simp add: tts_base_messages_def tts_fields_def message_tags split: option.splits)
  have same: "legacy_controls r = legacy_controls r' \<and> ?b r = ?b r' \<and>
      (\<not> legacy_controls r \<longrightarrow> tq_auto_fallback r = tq_auto_fallback r' \<and>
         options_json D (tq_provider_options r) = options_json D (tq_provider_options r') \<and>
         tq_provider_keys r = tq_provider_keys r')"
  proof (cases "legacy_controls r \<or> legacy_controls r'")
    case True
    with m show ?thesis by (auto simp: tts_messages_def Let_def tag tag [symmetric] split: if_splits)
  next
    case False
    with m have "controls_message (?H (?b r)) (tq_auto_fallback r)
        (options_json D (tq_provider_options r)) (tq_provider_keys r) =
      controls_message (?H (?b r')) (tq_auto_fallback r')
        (options_json D (tq_provider_options r')) (tq_provider_keys r')"
      by (simp add: tts_messages_def Let_def)
    moreover have "length (?H (?b r)) = length (?H (?b r'))" using len by simp
    ultimately have c: "?H (?b r) = ?H (?b r') \<and> tq_auto_fallback r = tq_auto_fallback r' \<and>
        options_json D (tq_provider_options r) = options_json D (tq_provider_options r') \<and>
        tq_provider_keys r = tq_provider_keys r'"
      using controls_message_inject sized by (metis tts_sized_def)
    moreover from c have "?b r = ?b r'" using inj base_mem by (meson UnI1 UnI2 inj_onD)
    ultimately show ?thesis using False by simp
  qed
  have "inj_on ?H (set (tts_base_messages D key r) \<union> set (tts_base_messages D key r'))"
    using inj tts_base_messages_simps(2) by (meson Un_mono inj_on_subset)
  with tts_base_binds [OF len _ sized] same
  have "tq_text r = tq_text r' \<and> tq_language r = tq_language r' \<and>
    tq_provider_order r = tq_provider_order r' \<and> tq_voice_profile r = tq_voice_profile r'" by blast
  moreover have "legacy_controls r \<and> legacy_controls r' \<Longrightarrow>
      tq_auto_fallback r = tq_auto_fallback r' \<and> tq_provider_keys r = tq_provider_keys r'"
    by (auto simp: legacy_controls_def keys_is_empty_iter intro: keys_iter_inject)
  ultimately show ?thesis using same by blast
qed

text \<open>A 32-byte additive checksum, on which the statement is instantiated.\<close>

definition checksum :: "bytes \<Rightarrow> bytes \<Rightarrow> bytes" where
  "checksum k m = be_bytes 32 (sum_list (map byte m))"

definition checksum_crates :: digest_crates where
  "checksum_crates = \<lparr>hmac_sha256 = checksum, options_json = (\<lambda>_. ''{}''), digest_url_text = url_path\<rparr>"

definition hello_request :: "string \<Rightarrow> tts_request" where
  "hello_request s = \<lparr>tq_auto_fallback = True, tq_provider_options = tts_options_default,
     tq_provider_keys = no_provider_keys, tq_text = SpeechText s, tq_voice_profile = None,
     tq_resolved_voice = None, tq_language = None, tq_provider_order = None\<rparr>"

lemma tts_messages_hello:
  "tts_messages checksum_crates key (hello_request s) =
     [fields_message speech_operation.Tts s None None]"
  by (simp add: tts_messages_def tts_base_messages_def tts_fields_def hello_request_def
      legacy_controls_def keys_is_empty_def no_provider_keys_def tts_options_default_def
      tts_options_is_empty_def)

theorem tts_digest_binds_request_witness:
  "for_tts checksum_crates (hello_request ''hello'') (RequestDigestKey ''k'') \<noteq>
   for_tts checksum_crates (hello_request ''hallo'') (RequestDigestKey ''k'')"
proof
  let ?k = "RequestDigestKey ''k''"
  assume eq: "for_tts checksum_crates (hello_request ''hello'') ?k =
    for_tts checksum_crates (hello_request ''hallo'') ?k"
  have len: "\<forall>m. length (hmac_sha256 checksum_crates (digest_key_bytes ?k) m) = 32"
    by (simp add: checksum_crates_def checksum_def)
  have "checksum ''k'' (fields_message speech_operation.Tts ''hello'' None None) \<noteq>
      checksum ''k'' (fields_message speech_operation.Tts ''hallo'' None None)"
    by code_simp
  then have inj: "inj_on (hmac_sha256 checksum_crates (digest_key_bytes ?k))
      (set (tts_messages checksum_crates ?k (hello_request ''hello'')) \<union>
       set (tts_messages checksum_crates ?k (hello_request ''hallo'')))"
    unfolding tts_messages_hello by (simp add: checksum_crates_def inj_on_def)
  have sized: "tts_sized checksum_crates (hello_request ''hello'')"
    "tts_sized checksum_crates (hello_request ''hallo'')"
    by (simp_all add: tts_sized_def hello_request_def sized_def sized_keys_def checksum_crates_def
        no_provider_keys_def u64_max_def)
  from tts_digest_binds_request [OF len inj sized eq] show False
    by (simp add: hello_request_def)
qed

text \<open>
  Completing and replaying a synthesis loses nothing: the response rebuilt from the durable
  fields of a result is that result.
\<close>

theorem replay_restores_result: "into_result (from_result r) = r"
proof (cases r)
  case (fields profile request_id storage provider format duration)
  then show ?thesis by (cases format) (simp add: into_result_def from_result_def tts_result_new_def)
qed

lemma from_into_result: "from_result (into_result c) = c"
  by (simp add: into_result_def from_result_def tts_result_new_def)

end
