(* ===== verification/Ports.thy ===== *)
theory Ports
  imports Digest
begin

text \<open>
  \<open>src/src/application/ports.rs\<close>: the failure categories and inputs of the contracts between the
  application service and its adapters. The contracts themselves are locales over these types.
\<close>

datatype audio_normalization_error = Saturated | Timeout | InvalidAudio | Unavailable | Failed

datatype accounts_error = Rejected auth_failure | Unavailable | Timeout

datatype storage_authority_error = NotAuthorized | Refused | Unavailable | Timeout

record read_source_media_request =
  rs_proof :: briefcase_proof
  rs_source_url :: briefcase_file_url
  rs_size_limit :: media_size_limit
  rs_request_id :: request_id

record briefcase_file_access_request =
  fa_proof :: briefcase_proof
  fa_file_url :: briefcase_file_url
  fa_request_id :: request_id

record store_generated_audio_request =
  ga_proof :: briefcase_proof
  ga_filename :: generated_audio_file_name
  ga_audio :: normalized_audio
  ga_request_id :: request_id

datatype briefcase_error =
    Unauthorized | Forbidden | NotFound | MediaTooLarge | UnsupportedMediaType
  | ContractUnavailable | Unavailable | Timeout | InvalidResponse

record held_audio =
  ha_request_id :: request_id
  ha_owner :: actor_id
  ha_filename :: generated_audio_file_name
  ha_audio :: normalized_audio
  ha_reason :: held_reason

datatype held_audio_error = HeldAudioError

datatype idempotency_store_error = Unavailable | Timeout | InvalidRecord | LeaseLost

datatype provider_key_store_error = ProviderKeyStoreError

text \<open>The saved keys of one account (\<open>ProviderKeys\<close>).\<close>

type_synonym provider_keys = "provider_name \<Rightarrow> string option"

text \<open>The errors of the database driver as the code tells them apart.\<close>

datatype sqlx_error = SqlxError | RowNotFound | DecodeError

end
