(* ===== verification/Service.thy ===== *)
theory Service
  imports Ports
begin

text \<open>
  \<open>src/src/application/service.rs\<close>: the synchronous text-to-speech and speech-to-text workflows.
  The adapters behind the ports are functions on a world \<open>'w\<close>, so the model is the service's own
  code for every possible behaviour of providers, Briefcase, the stores, the audio normalizer and
  Silicon Accounts. What the service uses of other crates (URLs, uuids, the calendar, hashing,
  the range of \<open>time::Duration\<close>, \<open>tokio::spawn\<close>) is a parameter as well.
\<close>

section \<open>Provider adapters\<close>

text \<open>
  \<open>dyn TextToSpeechProvider\<close> and \<open>dyn SpeechToTextProvider\<close>: a name, the clone that takes a
  request-local key (if the adapter can take one), and one attempt.
\<close>

datatype 'w tts_provider = TtsProvider
  (tts_name: provider_name)
  (tts_with_api_key: "string \<Rightarrow> 'w tts_provider option")
  (tts_synthesize: "tts_provider_request \<Rightarrow> request_id \<Rightarrow> ('w, audio_artifact, provider_error) call")

datatype 'w stt_provider = SttProvider
  (stt_name: provider_name)
  (stt_with_api_key: "string \<Rightarrow> 'w stt_provider option")
  (stt_transcribe: "stt_provider_request \<Rightarrow> request_id \<Rightarrow> ('w, stt_provider_result, provider_error) call")

section \<open>Policy and construction\<close>

datatype service_construction_error =
    InvalidDuration
  | InvalidTextLimit
  | InvalidPublicUrl
  | InvalidTtsProviderChain "provider_name list"
  | InvalidSttProviderChain "provider_name list"

record service_crates =
  sv_url :: url_crate
  sv_uuid :: uuid_crate
  sv_utc :: utc_calendar
  sv_digest :: digest_crates
  sv_time_duration :: "duration \<Rightarrow> bool"

record service_policy =
  pol_lease_duration :: duration
  pol_source_media_size_limit :: media_size_limit
  pol_briefcase_origin :: briefcase_origin
  pol_max_text_chars :: nat
  pol_request_digest_key :: request_digest_key
  pol_public_base_url :: url

definition service_policy_new ::
    "service_crates \<Rightarrow> duration \<Rightarrow> media_size_limit \<Rightarrow> briefcase_origin \<Rightarrow> nat \<Rightarrow>
     request_digest_key \<Rightarrow> url \<Rightarrow> (service_policy, service_construction_error) result" where
  "service_policy_new C lease limit origin max_chars digest_key base =
     (if lease = 0 then Err InvalidDuration
      else if \<not> sv_time_duration C lease then Err InvalidDuration
      else if \<not> (1 \<le> max_chars \<and> max_chars \<le> MAX_TTS_TEXT_CHARACTERS) then Err InvalidTextLimit
      else if url_scheme base \<notin> {''http'', ''https''} \<or> url_host base = None \<or> url_query base \<noteq> None
      then Err InvalidPublicUrl
      else Ok \<lparr>pol_lease_duration = lease, pol_source_media_size_limit = limit,
               pol_briefcase_origin = origin, pol_max_text_chars = max_chars,
               pol_request_digest_key = digest_key, pol_public_base_url = base\<rparr>)"

definition held_audio_url :: "service_crates \<Rightarrow> service_policy \<Rightarrow> request_id \<Rightarrow> url" where
  "held_audio_url C p r =
     (let u = pol_public_base_url p; base = trim_end_slashes (url_path u)
      in url_set_path (sv_url C) u (base @ ''/api/v1/audio/'' @ uuid_text (sv_uuid C) (request_uuid r)))"

text \<open>\<open>StorageBoundary\<close>: Briefcase proofs, Briefcase itself and the store of held audio.\<close>

record 'w storage_boundary =
  sb_briefcase_proof ::
    "authorized_actor \<Rightarrow> access_token option \<Rightarrow> ('w, briefcase_proof, storage_authority_error) call"
  sb_renew_refused_proof ::
    "authorized_actor \<Rightarrow> access_token option \<Rightarrow> briefcase_proof \<Rightarrow>
     ('w, briefcase_proof, storage_authority_error) call"
  sb_verify_file_read_access :: "briefcase_file_access_request \<Rightarrow> ('w, unit, briefcase_error) call"
  sb_read_source_media :: "read_source_media_request \<Rightarrow> ('w, source_media, briefcase_error) call"
  sb_store_generated_audio ::
    "store_generated_audio_request \<Rightarrow> ('w, briefcase_file_url, briefcase_error) call"
  sb_hold :: "held_audio \<Rightarrow> ('w, instant, held_audio_error) call"
  sb_is_held :: "request_id \<Rightarrow> actor_id \<Rightarrow> ('w, bool, held_audio_error) call"

record 'w idempotency_port =
  ip_claim :: "idempotency_claim \<Rightarrow> ('w, idempotency_decision, idempotency_store_error) call"
  ip_start_job :: "speech_job_start \<Rightarrow> ('w, unit, idempotency_store_error) call"
  ip_complete :: "idempotency_completion \<Rightarrow> ('w, unit, idempotency_store_error) call"
  ip_release :: "idempotency_release \<Rightarrow> ('w, unit, idempotency_store_error) call"

record 'w waveform_service =
  ws_authorize :: "authorization_request \<Rightarrow> ('w, authorized_actor, accounts_error) call"
  ws_storage :: "'w storage_boundary"
  ws_idempotency :: "'w idempotency_port"
  ws_normalize_to_mp3 ::
    "audio_artifact \<Rightarrow> request_id \<Rightarrow> ('w, normalized_audio, audio_normalization_error) call"
  ws_source_duration ::
    "source_media \<Rightarrow> request_id \<Rightarrow> ('w, media_duration, audio_normalization_error) call"
  ws_new_lease_id :: "('w, idempotency_lease_id) state"
  ws_tts_providers :: "'w tts_provider list"
  ws_stt_providers :: "'w stt_provider list"
  ws_policy :: service_policy
  ws_provider_keys ::
    "(authorized_actor \<Rightarrow> ('w, provider_keys, provider_key_store_error) call) option"
  ws_voice_profiles ::
    "(authorized_actor \<Rightarrow> string option \<Rightarrow> ('w, voice_profile, waveform_error) call) option"
  ws_provider_orders ::
    "(authorized_actor \<Rightarrow> speech_operation \<Rightarrow> ('w, provider_name list, waveform_error) call) option"
  ws_spawn_release :: "idempotency_release \<Rightarrow> ('w, unit) state"

text \<open>
  \<open>WaveformService::new\<close>: the ports are given as a service without the optional stores; both
  provider lists must be exactly the documented chains.
\<close>

definition waveform_service_new ::
    "'w waveform_service \<Rightarrow> ('w waveform_service, service_construction_error) result" where
  "waveform_service_new ports =
     (let actual_tts = map tts_name (ws_tts_providers ports);
          actual_stt = map stt_name (ws_stt_providers ports)
      in if actual_tts \<noteq> TTS_PROVIDER_CHAIN then Err (InvalidTtsProviderChain actual_tts)
         else if actual_stt \<noteq> STT_PROVIDER_CHAIN then Err (InvalidSttProviderChain actual_stt)
         else Ok (ports\<lparr>ws_provider_keys := None, ws_voice_profiles := None,
                       ws_provider_orders := None\<rparr>))"

definition with_provider_keys ::
    "'w waveform_service \<Rightarrow> (authorized_actor \<Rightarrow> ('w, provider_keys, provider_key_store_error) call) \<Rightarrow>
     'w waveform_service" where
  "with_provider_keys S store = S\<lparr>ws_provider_keys := Some store\<rparr>"

definition with_voice_profiles ::
    "'w waveform_service \<Rightarrow>
     (authorized_actor \<Rightarrow> string option \<Rightarrow> ('w, voice_profile, waveform_error) call) \<Rightarrow>
     'w waveform_service" where
  "with_voice_profiles S store = S\<lparr>ws_voice_profiles := Some store\<rparr>"

definition with_provider_orders ::
    "'w waveform_service \<Rightarrow>
     (authorized_actor \<Rightarrow> speech_operation \<Rightarrow> ('w, provider_name list, waveform_error) call) \<Rightarrow>
     'w waveform_service" where
  "with_provider_orders S store = S\<lparr>ws_provider_orders := Some store\<rparr>"

section \<open>Requests and responses\<close>

record speech_request_context =
  cx_request_id :: request_id
  cx_credentials :: inbound_credentials
  cx_idempotency_key :: idempotency_key

record 'r service_response =
  resp_result :: 'r
  resp_replayed :: bool
  resp_authorized_actor :: "actor option"

definition replayed_response :: "'r \<Rightarrow> 'r service_response" where
  "replayed_response r = \<lparr>resp_result = r, resp_replayed = True, resp_authorized_actor = None\<rparr>"

definition fresh_authorized :: "'r \<Rightarrow> actor \<Rightarrow> 'r service_response" where
  "fresh_authorized r a = \<lparr>resp_result = r, resp_replayed = False, resp_authorized_actor = Some a\<rparr>"

section \<open>Error mappings\<close>

fun map_accounts_error :: "accounts_error \<Rightarrow> waveform_error" where
  "map_accounts_error (Rejected failure) = AuthenticationFailed failure"
| "map_accounts_error accounts_error.Unavailable = DependencyUnavailable Accounts"
| "map_accounts_error accounts_error.Timeout = DependencyTimeout Accounts"

fun map_briefcase_error :: "briefcase_error \<Rightarrow> waveform_error" where
  "map_briefcase_error briefcase_error.InvalidResponse = Internal"
| "map_briefcase_error briefcase_error.Forbidden = waveform_error.Forbidden"
| "map_briefcase_error briefcase_error.NotFound = SourceNotFound"
| "map_briefcase_error briefcase_error.MediaTooLarge = PayloadTooLarge"
| "map_briefcase_error briefcase_error.UnsupportedMediaType = waveform_error.UnsupportedMediaType"
| "map_briefcase_error briefcase_error.ContractUnavailable = DependencyContractUnavailable dependency.Briefcase"
| "map_briefcase_error briefcase_error.Unauthorized = StorageAuthorizationRequired"
| "map_briefcase_error briefcase_error.Unavailable = DependencyUnavailable dependency.Briefcase"
| "map_briefcase_error briefcase_error.Timeout = DependencyTimeout dependency.Briefcase"

fun map_idempotency_error :: "idempotency_store_error \<Rightarrow> waveform_error" where
  "map_idempotency_error idempotency_store_error.Unavailable = DependencyUnavailable IdempotencyStore"
| "map_idempotency_error idempotency_store_error.Timeout = DependencyTimeout IdempotencyStore"
| "map_idempotency_error idempotency_store_error.InvalidRecord = Internal"
| "map_idempotency_error idempotency_store_error.LeaseLost = Internal"

fun map_audio_error :: "audio_normalization_error \<Rightarrow> waveform_error" where
  "map_audio_error audio_normalization_error.Saturated = DependencyUnavailable AudioNormalizer"
| "map_audio_error audio_normalization_error.Unavailable = DependencyUnavailable AudioNormalizer"
| "map_audio_error audio_normalization_error.Timeout = DependencyTimeout AudioNormalizer"
| "map_audio_error audio_normalization_error.InvalidAudio = Internal"
| "map_audio_error audio_normalization_error.Failed = Internal"

fun map_authority_error :: "storage_authority_error \<Rightarrow> waveform_error" where
  "map_authority_error storage_authority_error.NotAuthorized = StorageAuthorizationRequired"
| "map_authority_error storage_authority_error.Refused = StorageAuthorizationRequired"
| "map_authority_error storage_authority_error.Unavailable = DependencyUnavailable Accounts"
| "map_authority_error storage_authority_error.Timeout = DependencyTimeout Accounts"

text \<open>A Briefcase operation that failed there, or whose refused proof could not be renewed.\<close>

datatype renewal = AtBriefcase briefcase_error | AtAuthority storage_authority_error

fun map_renewal_error :: "renewal \<Rightarrow> waveform_error" where
  "map_renewal_error (AtBriefcase e) = map_briefcase_error e"
| "map_renewal_error (AtAuthority storage_authority_error.NotAuthorized) = StorageAuthorizationRequired"
| "map_renewal_error (AtAuthority storage_authority_error.Refused) = StorageAuthorizationRequired"
| "map_renewal_error (AtAuthority storage_authority_error.Unavailable) = DependencyUnavailable Accounts"
| "map_renewal_error (AtAuthority storage_authority_error.Timeout) = DependencyTimeout Accounts"

section \<open>The lease guard\<close>

text \<open>\<open>OperationLeaseGuard\<close>: \<open>None\<close> once it is disarmed.\<close>

datatype operation_lease_guard = OperationLeaseGuard (guard_release: "idempotency_release option")

definition guard_new :: "idempotency_scope \<Rightarrow> idempotency_lease_id \<Rightarrow> operation_lease_guard" where
  "guard_new scope lid =
     OperationLeaseGuard (Some \<lparr>rl_failure_code = None, rl_scope = scope, rl_lease_id = lid\<rparr>)"

definition guard_disarm :: "operation_lease_guard \<Rightarrow> operation_lease_guard" where
  "guard_disarm g = OperationLeaseGuard None"

text \<open>A failed release is only logged.\<close>

definition release_ignoring :: "'w waveform_service \<Rightarrow> idempotency_release \<Rightarrow> ('w, unit) state" where
  "release_ignoring S r =
     State_Monad.bind (ip_release (ws_idempotency S) r) (\<lambda>_. State_Monad.return ())"

definition guard_fail ::
    "'w waveform_service \<Rightarrow> operation_lease_guard \<Rightarrow> error_code option \<Rightarrow>
     ('w, operation_lease_guard) state" where
  "guard_fail S g code =
     (case guard_release g of
        Some r \<Rightarrow>
          State_Monad.bind (release_ignoring S (r\<lparr>rl_failure_code := code\<rparr>))
            (\<lambda>_. State_Monad.return (guard_disarm g))
      | None \<Rightarrow> State_Monad.return (guard_disarm g))"

text \<open>
  \<open>Drop\<close>: an armed guard spawns a task that is \<open>release_ignoring\<close> of its release. When the runtime
  runs the task is up to the parameter \<open>ws_spawn_release\<close>.
\<close>

definition guard_drop :: "'w waveform_service \<Rightarrow> operation_lease_guard \<Rightarrow> ('w, unit) state" where
  "guard_drop S g =
     (case guard_release g of
        Some r \<Rightarrow> ws_spawn_release S r
      | None \<Rightarrow> State_Monad.return ())"

text \<open>
  A block that owns a guard answers its result and the guard it ends with, which is dropped when
  the enclosing function returns. \<open>fail_with\<close> is \<open>guard.fail(Some(error.code())).await; return
  Err(error)\<close>.
\<close>

type_synonym ('w, 'a) guarded = "('w, ('a, waveform_error) result \<times> operation_lease_guard) state"

definition fail_with ::
    "'w waveform_service \<Rightarrow> operation_lease_guard \<Rightarrow> waveform_error \<Rightarrow> ('w, 'a) guarded" where
  "fail_with S g e =
     State_Monad.bind (guard_fail S g (Some (waveform_error_code e)))
       (\<lambda>g'. State_Monad.return (Err e, g'))"

definition drop_guard_of :: "'w waveform_service \<Rightarrow> ('w, 'a) guarded \<Rightarrow> ('w, 'a, waveform_error) call" where
  "drop_guard_of S m =
     State_Monad.bind m (\<lambda>(r, g). State_Monad.bind (guard_drop S g) (\<lambda>_. State_Monad.return r))"

section \<open>Preparing a request\<close>

definition authorize ::
    "'w waveform_service \<Rightarrow> speech_request_context \<Rightarrow> waveform_action \<Rightarrow>
     ('w, authorized_actor, waveform_error) call" where
  "authorize S context action =
     on_err map_accounts_error
       (ws_authorize S \<lparr>ar_credentials = cx_credentials context, ar_action = action,
                       ar_request_id = cx_request_id context\<rparr>)"

text \<open>The two loops of \<open>for_actor\<close> that replace the adapters whose provider has a key.\<close>

fun keyed_tts ::
    "provider_keys \<Rightarrow> 'w tts_provider list \<Rightarrow> ('w tts_provider list, waveform_error) result" where
  "keyed_tts keys [] = Ok []"
| "keyed_tts keys (p # ps) =
     and_then (case keys (tts_name p) of
                 Some key \<Rightarrow> ok_or (tts_with_api_key p key) Internal
               | None \<Rightarrow> Ok p) (\<lambda>q.
     map_ok (\<lambda>qs. q # qs) (keyed_tts keys ps))"

fun keyed_stt ::
    "provider_keys \<Rightarrow> 'w stt_provider list \<Rightarrow> ('w stt_provider list, waveform_error) result" where
  "keyed_stt keys [] = Ok []"
| "keyed_stt keys (p # ps) =
     and_then (case keys (stt_name p) of
                 Some key \<Rightarrow> ok_or (stt_with_api_key p key) Internal
               | None \<Rightarrow> Ok p) (\<lambda>q.
     map_ok (\<lambda>qs. q # qs) (keyed_stt keys ps))"

definition insert_request_keys :: "provider_api_keys \<Rightarrow> provider_keys \<Rightarrow> provider_keys" where
  "insert_request_keys request_keys saved =
     fold (\<lambda>(p, key) keys. keys(p \<mapsto> key)) (keys_iter request_keys) saved"

definition for_actor ::
    "'w waveform_service \<Rightarrow> authorized_actor \<Rightarrow> provider_api_keys \<Rightarrow>
     ('w, 'w waveform_service, waveform_error) call" where
  "for_actor S actor request_keys =
     try_call (case ws_provider_keys S of
                 Some load \<Rightarrow> on_err (\<lambda>_. DependencyUnavailable ProviderKeys) (load actor)
               | None \<Rightarrow> done_with (\<lambda>_. None)) (\<lambda>saved.
     let keys = insert_request_keys request_keys saved in
     lift_result
       (and_then (keyed_tts keys (ws_tts_providers S)) (\<lambda>tts.
        map_ok (\<lambda>stt. S\<lparr>ws_tts_providers := tts, ws_stt_providers := stt\<rparr>)
          (keyed_stt keys (ws_stt_providers S)))))"

definition chain_of :: "speech_operation \<Rightarrow> provider_name list" where
  "chain_of op =
     (case op of
        speech_operation.Tts \<Rightarrow> TTS_PROVIDER_CHAIN
      | speech_operation.Stt \<Rightarrow> STT_PROVIDER_CHAIN)"

definition complete_provider_order ::
    "'w waveform_service \<Rightarrow> authorized_actor \<Rightarrow> speech_operation \<Rightarrow> provider_name list option \<Rightarrow>
     ('w, provider_name list, waveform_error) call" where
  "complete_provider_order S actor operation requested =
     try_call (case ws_provider_orders S of
                 Some order_of \<Rightarrow> order_of actor operation
               | None \<Rightarrow> done_with (chain_of operation)) (\<lambda>base.
     if requested = Some [] then throw InvalidRequest
     else lift_result (ok_or
       (case resolve_order (case requested of Some order \<Rightarrow> order | None \<Rightarrow> []) base of
          Some order \<Rightarrow> if length order = length (chain_of operation) then Some order else None
        | None \<Rightarrow> None) InvalidRequest))"

definition claim_scope ::
    "'w waveform_service \<Rightarrow> idempotency_scope \<Rightarrow> request_digest \<Rightarrow> request_id \<Rightarrow>
     ('w, idempotency_decision, waveform_error) call" where
  "claim_scope S scope digest candidate =
     State_Monad.bind (ws_new_lease_id S) (\<lambda>lid.
     on_err map_idempotency_error
       (ip_claim (ws_idempotency S)
          \<lparr>cl_scope = scope, cl_digest = digest, cl_request_id = candidate, cl_lease_id = lid,
           cl_lease_duration = pol_lease_duration (ws_policy S)\<rparr>))"

definition completion ::
    "idempotency_scope \<Rightarrow> idempotency_lease_id \<Rightarrow> completed_speech_operation \<Rightarrow>
     (idempotency_completion, waveform_error) result" where
  "completion scope lid response =
     (if completed_operation response \<noteq> sc_operation scope then Err Internal
      else Ok \<lparr>cm_scope = scope, cm_lease_id = lid, cm_response = response\<rparr>)"

section \<open>Briefcase on the account's behalf\<close>

text \<open>A delegated call never uses its token to create a proof.\<close>

definition usable_subject_token :: "authorized_actor \<Rightarrow> access_token option \<Rightarrow> access_token option" where
  "usable_subject_token authorization token = (if is_delegated authorization then None else token)"

definition briefcase_authority ::
    "'w waveform_service \<Rightarrow> authorized_actor \<Rightarrow> access_token option \<Rightarrow>
     ('w, briefcase_proof, waveform_error) call" where
  "briefcase_authority S authorization token =
     on_err map_authority_error
       (sb_briefcase_proof (ws_storage S) authorization (usable_subject_token authorization token))"

definition with_renewal ::
    "'w waveform_service \<Rightarrow> authorized_actor \<Rightarrow> access_token option \<Rightarrow> briefcase_proof \<Rightarrow>
     (briefcase_proof \<Rightarrow> ('w, 'a, briefcase_error) call) \<Rightarrow> ('w, 'a, renewal) call" where
  "with_renewal S authorization token proof operation =
     State_Monad.bind (operation proof) (\<lambda>r.
       if r = Err briefcase_error.Unauthorized then
         try_call (on_err AtAuthority
             (sb_renew_refused_proof (ws_storage S) authorization
                (usable_subject_token authorization token) proof)) (\<lambda>renewed.
         on_err AtBriefcase (operation renewed))
       else lift_result (map_err AtBriefcase r))"

definition replay_tts ::
    "'w waveform_service \<Rightarrow> request_id \<Rightarrow> authorized_actor \<Rightarrow> access_token option \<Rightarrow>
     completed_tts_operation \<Rightarrow> ('w, tts_result, waveform_error) call" where
  "replay_tts S attempt authorization token completed =
     (case co_storage completed of
        audio_storage.Briefcase file \<Rightarrow>
          try_call (briefcase_authority S authorization token) (\<lambda>proof.
          try_call (on_err map_renewal_error
              (with_renewal S authorization token proof (\<lambda>proof.
                 sb_verify_file_read_access (ws_storage S)
                   \<lparr>fa_proof = proof, fa_file_url = file, fa_request_id = attempt\<rparr>))) (\<lambda>_.
          done_with (into_result completed)))
      | Held _ _ _ \<Rightarrow>
          try_call (on_err (\<lambda>_. DependencyUnavailable AudioStore)
              (sb_is_held (ws_storage S) (co_request_id completed)
                 (act_id (aa_actor authorization)))) (\<lambda>held.
          if \<not> held then throw SourceNotFound else done_with (into_result completed)))"

definition hold ::
    "service_crates \<Rightarrow> 'w waveform_service \<Rightarrow> authorized_actor \<Rightarrow> generated_audio_file_name \<Rightarrow>
     normalized_audio \<Rightarrow> request_id \<Rightarrow> held_reason \<Rightarrow> ('w, audio_storage, waveform_error) call" where
  "hold C S authorization filename audio rid reason =
     try_call (on_err (\<lambda>_. DependencyUnavailable AudioStore)
         (sb_hold (ws_storage S)
            \<lparr>ha_request_id = rid, ha_owner = act_id (aa_actor authorization), ha_filename = filename,
             ha_audio = audio, ha_reason = reason\<rparr>)) (\<lambda>expires_at.
     done_with (Held reason (held_audio_url C (ws_policy S) rid) expires_at))"

text \<open>Why audio is held after Briefcase refused the proof or the upload failed.\<close>

fun held_reason_of_renewal :: "renewal \<Rightarrow> held_reason" where
  "held_reason_of_renewal (AtAuthority storage_authority_error.NotAuthorized) = StorageNotAuthorized"
| "held_reason_of_renewal (AtAuthority storage_authority_error.Refused) = StorageNotAuthorized"
| "held_reason_of_renewal (AtAuthority storage_authority_error.Unavailable) = BriefcaseRefused"
| "held_reason_of_renewal (AtAuthority storage_authority_error.Timeout) = BriefcaseRefused"
| "held_reason_of_renewal (AtBriefcase briefcase_error.Unauthorized) = BriefcaseRefused"
| "held_reason_of_renewal (AtBriefcase briefcase_error.Forbidden) = BriefcaseRefused"
| "held_reason_of_renewal (AtBriefcase briefcase_error.ContractUnavailable) = BriefcaseContractUnavailable"
| "held_reason_of_renewal (AtBriefcase briefcase_error.Timeout) = BriefcaseTimeout"
| "held_reason_of_renewal (AtBriefcase briefcase_error.NotFound) = BriefcaseUnavailable"
| "held_reason_of_renewal (AtBriefcase briefcase_error.MediaTooLarge) = BriefcaseUnavailable"
| "held_reason_of_renewal (AtBriefcase briefcase_error.UnsupportedMediaType) = BriefcaseUnavailable"
| "held_reason_of_renewal (AtBriefcase briefcase_error.Unavailable) = BriefcaseUnavailable"
| "held_reason_of_renewal (AtBriefcase briefcase_error.InvalidResponse) = BriefcaseUnavailable"

definition store_audio ::
    "service_crates \<Rightarrow> 'w waveform_service \<Rightarrow> authorized_actor \<Rightarrow> access_token option \<Rightarrow>
     generated_audio_file_name \<Rightarrow> normalized_audio \<Rightarrow> request_id \<Rightarrow>
     ('w, audio_storage, waveform_error) call" where
  "store_audio C S authorization token filename audio rid =
     (if is_delegated authorization then hold C S authorization filename audio rid DelegatedCall
      else State_Monad.bind (sb_briefcase_proof (ws_storage S) authorization token) (\<lambda>r.
        case r of
          Err _ \<Rightarrow> hold C S authorization filename audio rid StorageNotAuthorized
        | Ok proof \<Rightarrow>
            State_Monad.bind (with_renewal S authorization token proof (\<lambda>proof.
                sb_store_generated_audio (ws_storage S)
                  \<lparr>ga_proof = proof, ga_filename = filename, ga_audio = audio,
                   ga_request_id = rid\<rparr>)) (\<lambda>stored.
            case stored of
              Ok file \<Rightarrow> done_with (audio_storage.Briefcase file)
            | Err refused \<Rightarrow>
                hold C S authorization filename audio rid (held_reason_of_renewal refused))))"

section \<open>Text to speech\<close>

text \<open>
  The loop of \<open>execute_tts\<close> over the providers: the first one whose audio normalizes, \<open>None\<close> when
  all of them failed.
\<close>

fun tts_attempts ::
    "'w waveform_service \<Rightarrow> request_id \<Rightarrow> tts_request \<Rightarrow> provider_name list \<Rightarrow>
     ('w, (provider_name \<times> normalized_audio) option, waveform_error) call" where
  "tts_attempts S rid request [] = done_with None"
| "tts_attempts S rid request (name # rest) =
     (case find (\<lambda>p. tts_name p = name) (ws_tts_providers S) of
        None \<Rightarrow> throw Internal
      | Some provider \<Rightarrow>
          State_Monad.bind (tts_synthesize provider (tts_provider_request_for request name) rid) (\<lambda>r.
          case r of
            Err failure \<Rightarrow>
              if \<not> tq_auto_fallback request then throw (ProviderFailed failure)
              else tts_attempts S rid request rest
          | Ok artifact \<Rightarrow>
              State_Monad.bind (ws_normalize_to_mp3 S artifact rid) (\<lambda>n.
              case n of
                Ok audio \<Rightarrow> done_with (Some (name, audio))
              | Err audio_normalization_error.InvalidAudio \<Rightarrow>
                  if \<not> tq_auto_fallback request
                  then throw (ProviderFailed (provider_error_new name provider_failure_kind.InvalidResponse))
                  else tts_attempts S rid request rest
              | Err audio_normalization_error.Failed \<Rightarrow>
                  if \<not> tq_auto_fallback request
                  then throw (DependencyUnavailable AudioNormalizer)
                  else tts_attempts S rid request rest
              | Err e \<Rightarrow> throw (map_audio_error e))))"

definition execute_tts ::
    "service_crates \<Rightarrow> 'w waveform_service \<Rightarrow> request_id \<Rightarrow> instant \<Rightarrow> authorized_actor \<Rightarrow>
     access_token option \<Rightarrow> tts_request \<Rightarrow> ('w, tts_result, waveform_error) call" where
  "execute_tts C S rid started authorization token request =
     try_call (lift_result (ok_or
         (resolve_order (case tq_provider_order request of Some order \<Rightarrow> order | None \<Rightarrow> [])
            TTS_PROVIDER_CHAIN) InvalidRequest)) (\<lambda>order.
     try_call (tts_attempts S rid request (if \<not> tq_auto_fallback request then take 1 order else order))
       (\<lambda>successful.
     try_call (lift_result (ok_or successful ProvidersExhausted)) (\<lambda>(provider, audio).
     try_call (store_audio C S authorization token
         (for_request (sv_uuid C) (sv_utc C) started rid) audio rid) (\<lambda>storage.
     done_with ((tts_result_new rid storage provider (na_duration audio))
       \<lparr>tr_voice_profile := map_option voice_profile_ref_from (tq_resolved_voice request)\<rparr>)))))"

text \<open>The voice profile is resolved under the lease; without a store none may be requested.\<close>

definition resolve_voice ::
    "'w waveform_service \<Rightarrow> authorized_actor \<Rightarrow> tts_request \<Rightarrow> ('w, tts_request, waveform_error) call" where
  "resolve_voice S authorization request =
     (case ws_voice_profiles S of
        Some resolve \<Rightarrow>
          try_call (resolve authorization (tq_voice_profile request)) (\<lambda>profile.
          done_with (request\<lparr>tq_resolved_voice := Some profile\<rparr>))
      | None \<Rightarrow>
          if tq_voice_profile request \<noteq> None then throw InvalidRequest else done_with request)"

text \<open>Everything after the voice profile: the history row, the work, the completion.\<close>

definition finish_under_lease ::
    "'w waveform_service \<Rightarrow> operation_lease_guard \<Rightarrow> idempotency_scope \<Rightarrow> idempotency_lease_id \<Rightarrow>
     actor \<Rightarrow> speech_job_start \<Rightarrow> ('w, 'r, waveform_error) call \<Rightarrow>
     ('r \<Rightarrow> completed_speech_operation) \<Rightarrow> ('w, 'r service_response) guarded" where
  "finish_under_lease S g scope lid actor job work completed =
     State_Monad.bind (ip_start_job (ws_idempotency S) job) (\<lambda>started.
     case started of
       Err e \<Rightarrow> State_Monad.return (Err (map_idempotency_error e), g)
     | Ok _ \<Rightarrow>
         State_Monad.bind work (\<lambda>r.
         case r of
           Err e \<Rightarrow> fail_with S g e
         | Ok answer \<Rightarrow>
             (case completion scope lid (completed answer) of
                Err e \<Rightarrow> fail_with S g e
              | Ok c \<Rightarrow>
                  State_Monad.bind (ip_complete (ws_idempotency S) c) (\<lambda>finished.
                  case finished of
                    Err e \<Rightarrow> fail_with S g (map_idempotency_error e)
                  | Ok _ \<Rightarrow> State_Monad.return (Ok (fresh_authorized answer actor), guard_disarm g)))))"

definition tts_under_lease ::
    "service_crates \<Rightarrow> 'w waveform_service \<Rightarrow> 'w waveform_service \<Rightarrow> operation_lease_guard \<Rightarrow>
     idempotency_scope \<Rightarrow> idempotency_lease_id \<Rightarrow> request_id \<Rightarrow> instant \<Rightarrow> authorized_actor \<Rightarrow>
     access_token option \<Rightarrow> tts_request \<Rightarrow> ('w, tts_result service_response) guarded" where
  "tts_under_lease C S service g scope lid rid started authorization token request =
     State_Monad.bind (resolve_voice S authorization request) (\<lambda>voice.
     case voice of
       Err e \<Rightarrow> fail_with S g e
     | Ok request \<Rightarrow>
         finish_under_lease S g scope lid (aa_actor authorization)
           \<lparr>js_voice_profile = map_option voice_profile_ref_from (tq_resolved_voice request),
            js_scope = scope, js_issuing_app = originating_application authorization,
            js_lease_id = lid, js_first_line = first_line_chars 512 (speech_str (tq_text request))\<rparr>
           (execute_tts C service rid started authorization token request)
           (\<lambda>r. completed_speech_operation.Tts (from_result r)))"

definition scope_of :: "authorized_actor \<Rightarrow> speech_operation \<Rightarrow> speech_request_context \<Rightarrow> idempotency_scope" where
  "scope_of authorization operation context =
     \<lparr>sc_plane_id = 0, sc_actor = aa_actor authorization, sc_operation = operation,
      sc_key = cx_idempotency_key context\<rparr>"

definition synthesize_authorized ::
    "service_crates \<Rightarrow> 'w waveform_service \<Rightarrow> speech_request_context \<Rightarrow> tts_request \<Rightarrow>
     authorized_actor \<Rightarrow> ('w, tts_result service_response, waveform_error) call" where
  "synthesize_authorized C S context request authorization =
     (if character_count (tq_text request) > pol_max_text_chars (ws_policy S)
      then throw PayloadTooLarge
      else
        try_call (complete_provider_order S authorization speech_operation.Tts
            (tq_provider_order request)) (\<lambda>order.
        let request = request\<lparr>tq_provider_order := Some order\<rparr>;
            scope = scope_of authorization speech_operation.Tts context;
            token = subject_token (cx_credentials context) in
        if tq_auto_fallback request \<and> \<not> tts_options_is_empty (tq_provider_options request)
        then throw (InvalidProviderOptions
               ''Provider-specific controls require auto_fallback=false.'')
        else
          try_call (lift_result (map_err InvalidProviderOptions
              (validate_for (tq_provider_options request) (order ! 0)))) (\<lambda>_.
          if \<not> supports_only (tq_provider_keys request) TTS_PROVIDER_CHAIN then throw InvalidRequest
          else
            try_call (for_actor S authorization (tq_provider_keys request)) (\<lambda>service.
            try_call (claim_scope S scope
                (for_tts (sv_digest C) request (pol_request_digest_key (ws_policy S)))
                (cx_request_id context)) (\<lambda>decision.
            case decision of
              Acquired lease rid started \<Rightarrow>
                drop_guard_of S (tts_under_lease C S service (guard_new scope (lease_id lease)) scope
                  (lease_id lease) rid started authorization token request)
            | Replay (completed_speech_operation.Tts completed) \<Rightarrow>
                try_call (replay_tts S (cx_request_id context) authorization token completed)
                  (\<lambda>result. done_with (replayed_response result))
            | Replay (completed_speech_operation.Stt _) \<Rightarrow> throw Internal
            | KeyReused \<Rightarrow> throw IdempotencyKeyReused
            | InProgress retry_after \<Rightarrow> throw (RequestInProgress retry_after))))))"

definition synthesize ::
    "service_crates \<Rightarrow> 'w waveform_service \<Rightarrow> speech_request_context \<Rightarrow> tts_request \<Rightarrow>
     ('w, tts_result service_response, waveform_error) call" where
  "synthesize C S context request =
     (if character_count (tq_text request) > pol_max_text_chars (ws_policy S)
      then throw PayloadTooLarge
      else try_call (authorize S context SynthesizeSpeech) (\<lambda>authorization.
        synthesize_authorized C S context request authorization))"

section \<open>Speech to text\<close>

text \<open>The loop of \<open>execute_stt\<close> over the providers.\<close>

fun stt_attempts ::
    "'w waveform_service \<Rightarrow> request_id \<Rightarrow> stt_request \<Rightarrow> source_media \<Rightarrow> media_duration \<Rightarrow>
     provider_name list \<Rightarrow> ('w, stt_result, waveform_error) call" where
  "stt_attempts S rid request media source_duration [] = throw ProvidersExhausted"
| "stt_attempts S rid request media source_duration (name # rest) =
     (case find (\<lambda>p. stt_name p = name) (ws_stt_providers S) of
        None \<Rightarrow> throw Internal
      | Some provider \<Rightarrow>
          State_Monad.bind (stt_transcribe provider
              \<lparr>sp_media = media, sp_language = sq_language request\<rparr> rid) (\<lambda>r.
          case r of
            Ok result \<Rightarrow>
              done_with (stt_result_from_provider rid name (result\<lparr>pr_duration := Some source_duration\<rparr>))
          | Err _ \<Rightarrow> stt_attempts S rid request media source_duration rest))"

fun map_source_duration_error :: "audio_normalization_error \<Rightarrow> waveform_error" where
  "map_source_duration_error audio_normalization_error.InvalidAudio = waveform_error.UnsupportedMediaType"
| "map_source_duration_error other = map_audio_error other"

definition execute_stt ::
    "'w waveform_service \<Rightarrow> request_id \<Rightarrow> authorized_actor \<Rightarrow> access_token option \<Rightarrow>
     stt_request \<Rightarrow> ('w, stt_result, waveform_error) call" where
  "execute_stt S rid authorization token request =
     try_call (briefcase_authority S authorization token) (\<lambda>proof.
     try_call (on_err map_renewal_error (with_renewal S authorization token proof (\<lambda>proof.
         sb_read_source_media (ws_storage S)
           \<lparr>rs_proof = proof, rs_source_url = sq_source_url request,
            rs_size_limit = pol_source_media_size_limit (ws_policy S), rs_request_id = rid\<rparr>))) (\<lambda>media.
     try_call (on_err map_source_duration_error (ws_source_duration S media rid)) (\<lambda>source_duration.
     try_call (lift_result (ok_or
         (resolve_order (case sq_provider_order request of Some order \<Rightarrow> order | None \<Rightarrow> [])
            STT_PROVIDER_CHAIN) InvalidRequest)) (\<lambda>order.
     stt_attempts S rid request media source_duration order))))"

text \<open>A cached transcript is content: current read access is checked first.\<close>

definition replay_stt ::
    "'w waveform_service \<Rightarrow> speech_request_context \<Rightarrow> authorized_actor \<Rightarrow> stt_request \<Rightarrow> stt_result \<Rightarrow>
     ('w, stt_result service_response, waveform_error) call" where
  "replay_stt S context authorization request result =
     try_call (briefcase_authority S authorization (subject_token (cx_credentials context))) (\<lambda>proof.
     try_call (on_err map_briefcase_error (sb_verify_file_read_access (ws_storage S)
         \<lparr>fa_proof = proof, fa_file_url = sq_source_url request,
          fa_request_id = cx_request_id context\<rparr>)) (\<lambda>_.
     done_with (replayed_response result)))"

definition transcribe_authorized ::
    "service_crates \<Rightarrow> 'w waveform_service \<Rightarrow> speech_request_context \<Rightarrow> stt_request \<Rightarrow>
     authorized_actor \<Rightarrow> ('w, stt_result service_response, waveform_error) call" where
  "transcribe_authorized C S context request authorization =
     (if \<not> briefcase_origin_contains (sv_url C) (pol_briefcase_origin (ws_policy S))
            (sq_source_url request)
      then throw InvalidRequest
      else if \<not> supports_only (sq_provider_keys request) STT_PROVIDER_CHAIN then throw InvalidRequest
      else
        try_call (complete_provider_order S authorization speech_operation.Stt
            (sq_provider_order request)) (\<lambda>order.
        let request = request\<lparr>sq_provider_order := Some order\<rparr>;
            scope = scope_of authorization speech_operation.Stt context;
            token = subject_token (cx_credentials context) in
        try_call (for_actor S authorization (sq_provider_keys request)) (\<lambda>service.
        try_call (claim_scope S scope
            (for_stt (sv_digest C) request (pol_request_digest_key (ws_policy S)))
            (cx_request_id context)) (\<lambda>decision.
        case decision of
          Acquired lease rid started \<Rightarrow>
            drop_guard_of S (finish_under_lease S (guard_new scope (lease_id lease)) scope
              (lease_id lease) (aa_actor authorization)
              \<lparr>js_voice_profile = None, js_scope = scope,
               js_issuing_app = originating_application authorization,
               js_lease_id = lease_id lease, js_first_line = []\<rparr>
              (execute_stt service rid authorization token request)
              completed_speech_operation.Stt)
        | Replay (completed_speech_operation.Stt result) \<Rightarrow>
            replay_stt S context authorization request result
        | Replay (completed_speech_operation.Tts _) \<Rightarrow> throw Internal
        | KeyReused \<Rightarrow> throw IdempotencyKeyReused
        | InProgress retry_after \<Rightarrow> throw (RequestInProgress retry_after)))))"

definition transcribe ::
    "service_crates \<Rightarrow> 'w waveform_service \<Rightarrow> speech_request_context \<Rightarrow> stt_request \<Rightarrow>
     ('w, stt_result service_response, waveform_error) call" where
  "transcribe C S context request =
     try_call (authorize S context TranscribeSpeech) (\<lambda>authorization.
     transcribe_authorized C S context request authorization)"

end
