(* ===== verification/Service_Trace.thy ===== *)
theory Service_Trace
  imports Service
begin

text \<open>
  Observing the service: \<open>logged\<close> wraps every port of a service so that each call is appended,
  with its answer, to a log beside the world. The service's code is unchanged, so a statement
  about every log of \<open>logged S\<close> is a statement about the order and the outcomes of the calls the
  code makes, whatever the adapters do. \<open>traces\<close> is the program logic of these statements.
\<close>

section \<open>Calls and their answers\<close>

datatype event =
    EvAuthorize authorization_request
  | EvProviderOrder speech_operation
  | EvLoadKeys
  | EvResolveVoice
  | EvClaim idempotency_claim "(idempotency_decision, idempotency_store_error) result"
  | EvStartJob speech_job_start "(unit, idempotency_store_error) result"
  | EvComplete idempotency_completion "(unit, idempotency_store_error) result"
  | EvRelease idempotency_release "(unit, idempotency_store_error) result"
  | EvSpawnRelease idempotency_release
  | EvProof "access_token option" "(briefcase_proof, storage_authority_error) result"
  | EvRenew "access_token option" briefcase_proof "(briefcase_proof, storage_authority_error) result"
  | EvVerify briefcase_file_access_request "(unit, briefcase_error) result"
  | EvRead read_source_media_request "(source_media, briefcase_error) result"
  | EvStore store_generated_audio_request "(briefcase_file_url, briefcase_error) result"
  | EvHold held_audio "(instant, held_audio_error) result"
  | EvIsHeld request_id actor_id "(bool, held_audio_error) result"
  | EvSynthesize provider_name tts_provider_request request_id "(audio_artifact, provider_error) result"
  | EvNormalize audio_artifact request_id "(normalized_audio, audio_normalization_error) result"
  | EvTranscribe provider_name stt_provider_request request_id
      "(stt_provider_result, provider_error) result"
  | EvSourceDuration source_media request_id "(media_duration, audio_normalization_error) result"

type_synonym 'w observed = "'w \<times> event list"

definition log_call :: "('a \<Rightarrow> event) \<Rightarrow> ('w, 'a) state \<Rightarrow> ('w observed, 'a) state" where
  "log_call ev m = State (\<lambda>(w, es). case run_state m w of (r, w') \<Rightarrow> (r, (w', es @ [ev r])))"

definition unlogged :: "('w, 'a) state \<Rightarrow> ('w observed, 'a) state" where
  "unlogged m = State (\<lambda>(w, es). case run_state m w of (r, w') \<Rightarrow> (r, (w', es)))"

primrec logged_tts :: "'w tts_provider \<Rightarrow> 'w observed tts_provider" where
  "logged_tts (TtsProvider n k s) = TtsProvider n (\<lambda>key. map_option logged_tts (k key))
     (\<lambda>request rid. log_call (EvSynthesize n request rid) (s request rid))"

primrec logged_stt :: "'w stt_provider \<Rightarrow> 'w observed stt_provider" where
  "logged_stt (SttProvider n k s) = SttProvider n (\<lambda>key. map_option logged_stt (k key))
     (\<lambda>request rid. log_call (EvTranscribe n request rid) (s request rid))"

definition logged_storage :: "'w storage_boundary \<Rightarrow> 'w observed storage_boundary" where
  "logged_storage B =
     \<lparr>sb_briefcase_proof = (\<lambda>a token. log_call (EvProof token) (sb_briefcase_proof B a token)),
      sb_renew_refused_proof = (\<lambda>a token proof.
        log_call (EvRenew token proof) (sb_renew_refused_proof B a token proof)),
      sb_verify_file_read_access = (\<lambda>q. log_call (EvVerify q) (sb_verify_file_read_access B q)),
      sb_read_source_media = (\<lambda>q. log_call (EvRead q) (sb_read_source_media B q)),
      sb_store_generated_audio = (\<lambda>q. log_call (EvStore q) (sb_store_generated_audio B q)),
      sb_hold = (\<lambda>h. log_call (EvHold h) (sb_hold B h)),
      sb_is_held = (\<lambda>rid owner. log_call (EvIsHeld rid owner) (sb_is_held B rid owner))\<rparr>"

definition logged_idempotency :: "'w idempotency_port \<Rightarrow> 'w observed idempotency_port" where
  "logged_idempotency I =
     \<lparr>ip_claim = (\<lambda>c. log_call (EvClaim c) (ip_claim I c)),
      ip_start_job = (\<lambda>j. log_call (EvStartJob j) (ip_start_job I j)),
      ip_complete = (\<lambda>m. log_call (EvComplete m) (ip_complete I m)),
      ip_release = (\<lambda>r. log_call (EvRelease r) (ip_release I r))\<rparr>"

definition logged :: "'w waveform_service \<Rightarrow> 'w observed waveform_service" where
  "logged S =
     \<lparr>ws_authorize = (\<lambda>q. log_call (\<lambda>_. EvAuthorize q) (ws_authorize S q)),
      ws_storage = logged_storage (ws_storage S),
      ws_idempotency = logged_idempotency (ws_idempotency S),
      ws_normalize_to_mp3 = (\<lambda>a rid. log_call (EvNormalize a rid) (ws_normalize_to_mp3 S a rid)),
      ws_source_duration = (\<lambda>m rid. log_call (EvSourceDuration m rid) (ws_source_duration S m rid)),
      ws_new_lease_id = unlogged (ws_new_lease_id S),
      ws_tts_providers = map logged_tts (ws_tts_providers S),
      ws_stt_providers = map logged_stt (ws_stt_providers S),
      ws_policy = ws_policy S,
      ws_provider_keys = map_option (\<lambda>load a. log_call (\<lambda>_. EvLoadKeys) (load a)) (ws_provider_keys S),
      ws_voice_profiles =
        map_option (\<lambda>resolve a v. log_call (\<lambda>_. EvResolveVoice) (resolve a v)) (ws_voice_profiles S),
      ws_provider_orders =
        map_option (\<lambda>order_of a op. log_call (\<lambda>_. EvProviderOrder op) (order_of a op)) (ws_provider_orders S),
      ws_spawn_release = (\<lambda>r. log_call (\<lambda>_. EvSpawnRelease r) (ws_spawn_release S r))\<rparr>"

section \<open>A logic of logs\<close>

text \<open>Whatever the world and the log so far, the calls made and the answer satisfy \<open>Q\<close>.\<close>

definition traces :: "('w observed, 'a) state \<Rightarrow> ('a \<Rightarrow> event list \<Rightarrow> bool) \<Rightarrow> bool" where
  "traces m Q \<longleftrightarrow> (\<forall>w es. \<exists>r w' t. run_state m (w, es) = (r, (w', es @ t)) \<and> Q r t)"

named_theorems trace_intros \<open>backward rules of the logic of logs\<close>

lemma traces_run:
  assumes "traces m Q" "run_state m (w, []) = (r, (w', t))"
  shows "Q r t"
  using assms by (auto simp: traces_def) (metis append_Nil prod.inject)

lemma traces_conseq: "traces m P \<Longrightarrow> (\<And>r t. P r t \<Longrightarrow> Q r t) \<Longrightarrow> traces m Q"
  unfolding traces_def by blast

lemma traces_conj: "traces m P \<Longrightarrow> traces m Q \<Longrightarrow> traces m (\<lambda>r t. P r t \<and> Q r t)"
  unfolding traces_def by (metis prod.inject same_append_eq)

lemma traces_return [trace_intros]: "Q x [] \<Longrightarrow> traces (State_Monad.return x) Q"
  by (simp add: traces_def run_simps)

lemma traces_log_call [trace_intros]: "(\<And>r. Q r [ev r]) \<Longrightarrow> traces (log_call ev m) Q"
  by (auto simp: traces_def log_call_def split: prod.splits)

lemma traces_unlogged [trace_intros]: "(\<And>r. Q r []) \<Longrightarrow> traces (unlogged m) Q"
  by (auto simp: traces_def unlogged_def split: prod.splits)

lemma traces_bind [trace_intros]:
  assumes "traces m (\<lambda>x t. traces (f x) (\<lambda>y u. Q y (t @ u)))"
  shows "traces (State_Monad.bind m f) Q"
  unfolding traces_def
proof (intro allI)
  fix w es
  from assms obtain x w1 t where m: "run_state m (w, es) = (x, (w1, es @ t))"
    and f: "traces (f x) (\<lambda>y u. Q y (t @ u))" unfolding traces_def [of m] by blast
  from f obtain y w2 u where "run_state (f x) (w1, es @ t) = (y, (w2, (es @ t) @ u))" "Q y (t @ u)"
    unfolding traces_def by blast
  with m show "\<exists>r w' v. run_state (State_Monad.bind m f) (w, es) = (r, (w', es @ v)) \<and> Q r v"
    by (intro exI [where x = y] exI [where x = w2] exI [where x = "t @ u"]) (simp add: run_simps)
qed

lemma traces_try_call [trace_intros]:
  assumes "traces m (\<lambda>r t. case r of Err e \<Rightarrow> Q (Err e) t
     | Ok x \<Rightarrow> traces (f x) (\<lambda>y u. Q y (t @ u)))"
  shows "traces (try_call m f) Q"
  unfolding try_call_def
  by (intro traces_bind traces_conseq [OF assms]) (auto split: sum.splits intro!: traces_return)

lemma traces_on_err [trace_intros]:
  "traces m (\<lambda>r t. Q (map_err f r) t) \<Longrightarrow> traces (on_err f m) Q"
  unfolding on_err_def by (intro traces_bind) (auto elim!: traces_conseq intro!: traces_return)

lemma traces_throw [trace_intros]: "Q (Err e) [] \<Longrightarrow> traces (throw e) Q"
  by (simp add: throw_def traces_return)

lemma traces_done_with [trace_intros]: "Q (Ok x) [] \<Longrightarrow> traces (done_with x) Q"
  by (simp add: done_with_def traces_return)

lemma traces_lift_result [trace_intros]: "Q r [] \<Longrightarrow> traces (lift_result r) Q"
  by (simp add: lift_result_def traces_return)

lemma traces_if [trace_intros]:
  "(b \<Longrightarrow> traces m Q) \<Longrightarrow> (\<not> b \<Longrightarrow> traces n Q) \<Longrightarrow> traces (if b then m else n) Q"
  by simp

lemma traces_True: "traces m (\<lambda>r t. P r t) \<Longrightarrow> traces m (\<lambda>r t. True)"
  by (erule traces_conseq) simp

section \<open>Logged services\<close>

lemma logged_storage_simps [simp]:
  "sb_briefcase_proof (logged_storage B) a token = log_call (EvProof token) (sb_briefcase_proof B a token)"
  "sb_renew_refused_proof (logged_storage B) a token p =
     log_call (EvRenew token p) (sb_renew_refused_proof B a token p)"
  "sb_verify_file_read_access (logged_storage B) q =
     log_call (EvVerify q) (sb_verify_file_read_access B q)"
  "sb_read_source_media (logged_storage B) rq = log_call (EvRead rq) (sb_read_source_media B rq)"
  "sb_store_generated_audio (logged_storage B) sq =
     log_call (EvStore sq) (sb_store_generated_audio B sq)"
  "sb_hold (logged_storage B) h = log_call (EvHold h) (sb_hold B h)"
  "sb_is_held (logged_storage B) rid owner = log_call (EvIsHeld rid owner) (sb_is_held B rid owner)"
  by (simp_all add: logged_storage_def)

lemma logged_idempotency_simps [simp]:
  "ip_claim (logged_idempotency I) c = log_call (EvClaim c) (ip_claim I c)"
  "ip_start_job (logged_idempotency I) j = log_call (EvStartJob j) (ip_start_job I j)"
  "ip_complete (logged_idempotency I) m = log_call (EvComplete m) (ip_complete I m)"
  "ip_release (logged_idempotency I) r = log_call (EvRelease r) (ip_release I r)"
  by (simp_all add: logged_idempotency_def)

lemma logged_simps [simp]:
  "ws_authorize (logged S) q = log_call (\<lambda>_. EvAuthorize q) (ws_authorize S q)"
  "ws_storage (logged S) = logged_storage (ws_storage S)"
  "ws_idempotency (logged S) = logged_idempotency (ws_idempotency S)"
  "ws_normalize_to_mp3 (logged S) a rid = log_call (EvNormalize a rid) (ws_normalize_to_mp3 S a rid)"
  "ws_source_duration (logged S) m rid = log_call (EvSourceDuration m rid) (ws_source_duration S m rid)"
  "ws_new_lease_id (logged S) = unlogged (ws_new_lease_id S)"
  "ws_tts_providers (logged S) = map logged_tts (ws_tts_providers S)"
  "ws_stt_providers (logged S) = map logged_stt (ws_stt_providers S)"
  "ws_policy (logged S) = ws_policy S"
  "ws_provider_keys (logged S) =
     map_option (\<lambda>load a. log_call (\<lambda>_. EvLoadKeys) (load a)) (ws_provider_keys S)"
  "ws_voice_profiles (logged S) =
     map_option (\<lambda>resolve a v. log_call (\<lambda>_. EvResolveVoice) (resolve a v)) (ws_voice_profiles S)"
  "ws_provider_orders (logged S) =
     map_option (\<lambda>order_of a op. log_call (\<lambda>_. EvProviderOrder op) (order_of a op)) (ws_provider_orders S)"
  "ws_spawn_release (logged S) r = log_call (\<lambda>_. EvSpawnRelease r) (ws_spawn_release S r)"
  by (simp_all add: logged_def)

lemma logged_tts_simps [simp]:
  "tts_name (logged_tts p) = tts_name p"
  "tts_with_api_key (logged_tts p) key = map_option logged_tts (tts_with_api_key p key)"
  "tts_synthesize (logged_tts p) request rid =
     log_call (EvSynthesize (tts_name p) request rid) (tts_synthesize p request rid)"
  by (cases p; simp)+

lemma logged_stt_simps [simp]:
  "stt_name (logged_stt p) = stt_name p"
  "stt_with_api_key (logged_stt p) key = map_option logged_stt (stt_with_api_key p key)"
  "stt_transcribe (logged_stt p) request' rid =
     log_call (EvTranscribe (stt_name p) request' rid) (stt_transcribe p request' rid)"
  by (cases p; simp)+

lemma find_map: "find P (map f xs) = map_option f (find (\<lambda>x. P (f x)) xs)"
  by (induction xs) auto

lemma keyed_tts_logged:
  "keyed_tts keys (map logged_tts ps) = map_ok (map logged_tts) (keyed_tts keys ps)"
proof (induction ps)
  case (Cons p ps)
  then show ?case
    by (cases "keys (tts_name p)"; cases "keyed_tts keys ps")
      (auto simp: and_then_def ok_or_def split: option.splits)
qed simp

lemma keyed_stt_logged:
  "keyed_stt keys (map logged_stt ps) = map_ok (map logged_stt) (keyed_stt keys ps)"
proof (induction ps)
  case (Cons p ps)
  then show ?case
    by (cases "keys (stt_name p)"; cases "keyed_stt keys ps")
      (auto simp: and_then_def ok_or_def split: option.splits)
qed simp

end
