(* ===== verification/Service_Calls.thy ===== *)
theory Service_Calls
  imports Service_Trace "HOL-Library.Sublist"
begin

text \<open>
  What the parts of the two workflows call and answer, as facts of the logic of logs: Briefcase
  operations with their single renewal, storing audio, the provider loops and the executions
  under a lease.
\<close>

section \<open>Briefcase and the held-audio store\<close>

text \<open>The calls of an operation under \<open>with_renewal\<close>.\<close>

definition renewed_calls ::
    "access_token option \<Rightarrow> briefcase_proof \<Rightarrow>
     (briefcase_proof \<Rightarrow> ('a, briefcase_error) result \<Rightarrow> event) \<Rightarrow> ('a, renewal) result \<Rightarrow> event list \<Rightarrow> bool" where
  "renewed_calls token proof ev r t \<longleftrightarrow>
     (\<exists>x. x \<noteq> Err briefcase_error.Unauthorized \<and> t = [ev proof x] \<and> r = map_err AtBriefcase x) \<or>
     (\<exists>e. t = [ev proof (Err briefcase_error.Unauthorized), EvRenew token proof (Err e)] \<and>
        r = Err (AtAuthority e)) \<or>
     (\<exists>p x. t = [ev proof (Err briefcase_error.Unauthorized), EvRenew token proof (Ok p), ev p x] \<and>
        r = map_err AtBriefcase x)"

lemma traces_with_renewal:
  assumes "\<And>r t. renewed_calls (usable_subject_token authorization token) proof ev r t \<Longrightarrow> Q r t"
  shows "traces (with_renewal (logged S) authorization token proof (\<lambda>p. log_call (ev p) (operation p))) Q"
  unfolding with_renewal_def
  apply (intro trace_intros)
  subgoal using assms unfolding renewed_calls_def
    by (auto intro!: trace_intros split: sum.splits simp: map_err_Err_iff) blast+
  subgoal by (intro assms) (auto simp: renewed_calls_def)
  done

text \<open>
  A Briefcase operation is repeated at most once. \<open>with_renewal\<close> runs the operation with the
  given proof; only when Briefcase answers \<open>Unauthorized\<close> it asks for a renewal of exactly that
  proof, and only when it gets one runs the operation again, with the new proof. The second
  answer stands, a delegated call renews without the caller's token, and no other call is made.
\<close>

theorem with_renewal_calls:
  "traces (with_renewal (logged S) authorization token proof (\<lambda>p. log_call (ev p) (operation p)))
     (\<lambda>r t. (\<exists>x. x \<noteq> Err briefcase_error.Unauthorized \<and> t = [ev proof x] \<and> r = map_err AtBriefcase x) \<or>
       (\<exists>e. t = [ev proof (Err briefcase_error.Unauthorized),
              EvRenew (if is_delegated authorization then None else token) proof (Err e)] \<and>
          r = Err (AtAuthority e)) \<or>
       (\<exists>p x. t = [ev proof (Err briefcase_error.Unauthorized),
              EvRenew (if is_delegated authorization then None else token) proof (Ok p), ev p x] \<and>
          r = map_err AtBriefcase x))"
  by (rule traces_with_renewal) (simp add: renewed_calls_def usable_subject_token_def)

lemma renewed_calls_events:
  assumes "renewed_calls token proof ev r t" "e \<in> set t"
  obtains p x where "e = ev p x" | p x where "e = EvRenew token p x"
  using assms unfolding renewed_calls_def by fastforce

lemma renewed_calls_Ok: "renewed_calls token proof ev (Ok x) t \<Longrightarrow> \<exists>p. ev p (Ok x) \<in> set t"
  unfolding renewed_calls_def
  by (metis map_err_Ok_iff list.set_intros sum.distinct(1))

lemma traces_hold:
  assumes "\<And>x. Q (map_ok (Held reason (held_audio_url C (ws_policy S) rid))
        (map_err (\<lambda>_. DependencyUnavailable AudioStore) x))
     [EvHold \<lparr>ha_request_id = rid, ha_owner = act_id (aa_actor authorization),
        ha_filename = filename, ha_audio = audio, ha_reason = reason\<rparr> x]"
  shows "traces (hold C (logged S) authorization filename audio rid reason) Q"
  unfolding hold_def
  apply (simp, intro trace_intros)
  subgoal for x using assms [of x] by (cases x) (auto intro!: trace_intros)
  done

text \<open>What storing a request's audio may call, and what its answer stands for.\<close>

definition storing_event :: "authorized_actor \<Rightarrow> request_id \<Rightarrow> event \<Rightarrow> bool" where
  "storing_event authorization rid e \<longleftrightarrow>
     (case e of
        EvHold h _ \<Rightarrow> ha_request_id h = rid
      | EvStore q _ \<Rightarrow> \<not> is_delegated authorization \<and> ga_request_id q = rid
      | EvProof _ _ \<Rightarrow> \<not> is_delegated authorization
      | EvRenew _ _ _ \<Rightarrow> \<not> is_delegated authorization
      | _ \<Rightarrow> False)"

definition stored_as ::
    "service_crates \<Rightarrow> service_policy \<Rightarrow> authorized_actor \<Rightarrow> generated_audio_file_name \<Rightarrow>
     normalized_audio \<Rightarrow> request_id \<Rightarrow> event list \<Rightarrow> audio_storage \<Rightarrow> bool" where
  "stored_as C policy authorization filename audio rid t storage \<longleftrightarrow>
     (case storage of
        audio_storage.Briefcase file \<Rightarrow> \<not> is_delegated authorization \<and>
          (\<exists>p. EvStore \<lparr>ga_proof = p, ga_filename = filename, ga_audio = audio,
                        ga_request_id = rid\<rparr> (Ok file) \<in> set t)
      | Held reason url expires \<Rightarrow> url = held_audio_url C policy rid \<and>
          EvHold \<lparr>ha_request_id = rid, ha_owner = act_id (aa_actor authorization),
                  ha_filename = filename, ha_audio = audio, ha_reason = reason\<rparr> (Ok expires) \<in> set t)"

definition stored_calls ::
    "service_crates \<Rightarrow> service_policy \<Rightarrow> authorized_actor \<Rightarrow> generated_audio_file_name \<Rightarrow>
     normalized_audio \<Rightarrow> request_id \<Rightarrow> (audio_storage, waveform_error) result \<Rightarrow> event list \<Rightarrow> bool" where
  "stored_calls C policy authorization filename audio rid r t \<longleftrightarrow>
     (\<forall>storage. r = Ok storage \<longrightarrow> stored_as C policy authorization filename audio rid t storage) \<and>
     (\<forall>e. r = Err e \<longrightarrow> e = DependencyUnavailable AudioStore \<and> (\<exists>h x. EvHold h (Err x) \<in> set t)) \<and>
     (\<forall>e \<in> set t. storing_event authorization rid e)"

lemma stored_calls_hold:
  assumes "\<forall>e \<in> set t. storing_event authorization rid e"
  shows "stored_calls C policy authorization filename audio rid
     (map_ok (Held reason (held_audio_url C policy rid)) (map_err (\<lambda>_. DependencyUnavailable AudioStore) x))
     (t @ [EvHold \<lparr>ha_request_id = rid, ha_owner = act_id (aa_actor authorization),
        ha_filename = filename, ha_audio = audio, ha_reason = reason\<rparr> x])"
  using assms
  by (cases x) (auto simp: stored_calls_def stored_as_def storing_event_def)

lemma stored_calls_briefcase:
  assumes "\<not> is_delegated authorization"
    and "renewed_calls token p (\<lambda>p. EvStore \<lparr>ga_proof = p, ga_filename = filename, ga_audio = audio,
                        ga_request_id = rid\<rparr>) (Ok file) t"
    and "\<forall>e \<in> set u. storing_event authorization rid e" "\<forall>e \<in> set t. storing_event authorization rid e"
  shows "stored_calls C policy authorization filename audio rid (Ok (audio_storage.Briefcase file)) (u @ t)"
  using assms renewed_calls_Ok [OF assms(2)] by (auto simp: stored_calls_def stored_as_def)

lemma traces_store_audio:
  "traces (store_audio C (logged S) authorization token filename audio rid)
     (stored_calls C (ws_policy S) authorization filename audio rid)"
proof (cases "is_delegated authorization")
  case True
  then show ?thesis unfolding store_audio_def
    using stored_calls_hold [where t = "[]"] by (auto intro!: traces_hold)
next
  case False
  let ?ev = "\<lambda>p. EvStore \<lparr>ga_proof = p, ga_filename = filename, ga_audio = audio, ga_request_id = rid\<rparr>"
  let ?Q = "stored_calls C (ws_policy S) authorization filename audio rid"
  have proof_event: "storing_event authorization rid (EvProof token r)" for r
    using False by (simp add: storing_event_def)
  have unproved: "traces (hold C (logged S) authorization filename audio rid StorageNotAuthorized)
      (\<lambda>y u. ?Q y (EvProof token r # u))" for r
    using stored_calls_hold [where t = "[EvProof token r]"] proof_event by (auto intro!: traces_hold)
  have proved: "traces (State_Monad.bind
       (with_renewal (logged S) authorization token p
          (\<lambda>p. log_call (?ev p) (sb_store_generated_audio (ws_storage S)
             \<lparr>ga_proof = p, ga_filename = filename, ga_audio = audio, ga_request_id = rid\<rparr>)))
       (\<lambda>stored. case stored of
          Ok file \<Rightarrow> done_with (audio_storage.Briefcase file)
        | Err refused \<Rightarrow>
            hold C (logged S) authorization filename audio rid (held_reason_of_renewal refused)))
      (\<lambda>y u. ?Q y (EvProof token r # u))" for p r
  proof (intro traces_bind traces_with_renewal)
    fix stored t
    assume t: "renewed_calls (usable_subject_token authorization token) p ?ev stored t"
    have events: "\<forall>e \<in> set t. storing_event authorization rid e"
      using False by (auto elim!: renewed_calls_events [OF t] simp: storing_event_def)
    show "traces (case stored of
          Ok file \<Rightarrow> done_with (audio_storage.Briefcase file)
        | Err refused \<Rightarrow>
            hold C (logged S) authorization filename audio rid (held_reason_of_renewal refused))
      (\<lambda>y u. ?Q y (EvProof token r # t @ u))"
    proof (cases stored)
      case (Inl refused)
      then show ?thesis
        using stored_calls_hold [where t = "EvProof token r # t"] events proof_event
        by (auto intro!: traces_hold)
    next
      case (Inr f)
      then show ?thesis
        using stored_calls_briefcase [where u = "[EvProof token r]", OF False t [unfolded Inr]]
          events proof_event by (auto intro!: traces_done_with)
    qed
  qed
  show ?thesis unfolding store_audio_def
    by (simp add: False, intro trace_intros) (auto split: sum.splits intro: unproved proved)
qed

section \<open>Attempting providers\<close>

definition attempted :: "event \<Rightarrow> provider_name option" where
  "attempted e =
     (case e of
        EvSynthesize n _ _ _ \<Rightarrow> Some n
      | EvTranscribe n _ _ _ \<Rightarrow> Some n
      | _ \<Rightarrow> None)"

definition tried :: "event list \<Rightarrow> provider_name list" where
  "tried t = List.map_filter attempted t"

lemma tried_simps [simp]:
  "tried [] = []"
  "tried (e # t) = (case attempted e of None \<Rightarrow> tried t | Some n \<Rightarrow> n # tried t)"
  by (simp_all add: tried_def map_filter_simps split: option.splits)

lemma tried_append [simp]: "tried (t @ u) = tried t @ tried u"
  by (induction t) (auto split: option.splits)

definition tts_attempt_event :: "request_id \<Rightarrow> tts_request \<Rightarrow> event \<Rightarrow> bool" where
  "tts_attempt_event rid request e \<longleftrightarrow>
     (case e of
        EvSynthesize n q rid' _ \<Rightarrow> rid' = rid \<and> q = tts_provider_request_for request n
      | EvNormalize _ rid' _ \<Rightarrow> rid' = rid
      | _ \<Rightarrow> False)"

definition normalized_in :: "event list \<Rightarrow> bool" where
  "normalized_in t \<longleftrightarrow> (\<exists>art rid audio. EvNormalize art rid (Ok audio) \<in> set t)"

definition tts_attempt_error :: "'w waveform_service \<Rightarrow> provider_name list \<Rightarrow> tts_request \<Rightarrow> waveform_error \<Rightarrow> bool" where
  "tts_attempt_error S names request e \<longleftrightarrow>
     (e = Internal \<and> \<not> set names \<subseteq> tts_name ` set (ws_tts_providers S)) \<or>
     (\<exists>failure. e = ProviderFailed failure \<and> \<not> tq_auto_fallback request) \<or>
     e = DependencyUnavailable AudioNormalizer \<or> e = DependencyTimeout AudioNormalizer"

definition tts_attempts_calls ::
    "'w waveform_service \<Rightarrow> request_id \<Rightarrow> tts_request \<Rightarrow> provider_name list \<Rightarrow>
     ((provider_name \<times> normalized_audio) option, waveform_error) result \<Rightarrow> event list \<Rightarrow> bool" where
  "tts_attempts_calls S rid request names r t \<longleftrightarrow>
     prefix (tried t) names \<and>
     (\<forall>e \<in> set t. tts_attempt_event rid request e) \<and>
     (case r of
        Ok (Some (n, audio)) \<Rightarrow> tried t \<noteq> [] \<and> last (tried t) = n \<and>
          (\<exists>art. EvSynthesize n (tts_provider_request_for request n) rid (Ok art) \<in> set t \<and>
                 EvNormalize art rid (Ok audio) \<in> set t)
      | Ok None \<Rightarrow> tried t = names \<and> \<not> normalized_in t
      | Err e \<Rightarrow> tts_attempt_error S names request e \<and> \<not> normalized_in t)"

lemma tts_attempts_calls_start:
  "tts_attempts_calls S rid request [] (Ok None) []"
  by (simp add: tts_attempts_calls_def normalized_in_def)

lemma tts_attempts_calls_skip:
  assumes "tts_attempts_calls S rid request names r t"
    and "\<forall>e \<in> set u. tts_attempt_event rid request e" "tried u = [n]" "\<not> normalized_in u"
  shows "tts_attempts_calls S rid request (n # names) r (u @ t)"
  using assms
  by (auto simp: tts_attempts_calls_def normalized_in_def tts_attempt_error_def
      split: sum.splits option.splits)

lemma tts_attempts_calls_fail:
  assumes "tts_attempt_error S (n # names) request e"
    and "\<forall>e \<in> set u. tts_attempt_event rid request e" "prefix (tried u) [n]" "\<not> normalized_in u"
  shows "tts_attempts_calls S rid request (n # names) (Err e) u"
  using assms by (auto simp: tts_attempts_calls_def prefix_Cons)

lemma find_logged_tts:
  "find (\<lambda>p. tts_name p = n) (map logged_tts ps) =
     map_option logged_tts (find (\<lambda>p. tts_name p = n) ps)"
  by (simp add: find_map)

lemma find_None_not_name:
  "find (\<lambda>p. f p = n) ps = None \<Longrightarrow> n \<notin> f ` set ps"
  by (auto simp: find_None_iff)

lemma traces_tts_attempts:
  "traces (tts_attempts (logged S) rid request names) (tts_attempts_calls S rid request names)"
proof (induction names)
  case Nil
  show ?case by (simp add: traces_done_with tts_attempts_calls_start)
next
  case (Cons n names)
  let ?Q = "tts_attempts_calls S rid request (n # names)"
  let ?syn = "EvSynthesize n (tts_provider_request_for request n) rid"
  show ?case
  proof (cases "find (\<lambda>p. tts_name p = n) (ws_tts_providers S)")
    case None
    then have "tts_attempt_error S (n # names) request Internal"
      by (auto simp: tts_attempt_error_def dest: find_None_not_name)
    then have "?Q (Err Internal) []"
      by (rule tts_attempts_calls_fail) (simp_all add: normalized_in_def)
    with None show ?thesis by (simp add: find_logged_tts traces_throw)
  next
    case (Some p)
    then have p: "tts_name p = n" by (auto dest: find_SomeD)
    have retry: "traces (tts_attempts (logged S) rid request names) (\<lambda>y u. ?Q y (v @ u))"
      if "\<forall>e \<in> set v. tts_attempt_event rid request e" "tried v = [n]" "\<not> normalized_in v" for v
      by (rule traces_conseq [OF Cons.IH]) (rule tts_attempts_calls_skip [OF _ that])
    have events: "tts_attempt_event rid request (?syn r)" "attempted (?syn r) = Some n"
      "tts_attempt_event rid request (EvNormalize art rid x)" "attempted (EvNormalize art rid x) = None"
      for r art x by (simp_all add: tts_attempt_event_def attempted_def)
    have none: "\<not> normalized_in [?syn r]" "\<not> normalized_in [?syn r, EvNormalize art rid (Err e)]"
      for r art e by (simp_all add: normalized_in_def)
    have fail: "tts_attempt_error S (n # names) request e \<Longrightarrow> ?Q (Err e) [?syn r]"
      "tts_attempt_error S (n # names) request e \<Longrightarrow>
         ?Q (Err e) [?syn r, EvNormalize art rid (Err x)]" for e r art x
      by (rule tts_attempts_calls_fail; simp add: events none)+
    have win: "?Q (Ok (Some (n, audio))) [?syn (Ok art), EvNormalize art rid (Ok audio)]" for art audio
      by (auto simp: tts_attempts_calls_def events)
    show ?thesis
    proof (cases "tq_auto_fallback request")
      case True
      have one: "traces (tts_attempts (logged S) rid request names) (\<lambda>y u. ?Q y (?syn r # u))" for r
        using retry [of "[?syn r]"] by (simp add: events none)
      have two: "traces (tts_attempts (logged S) rid request names)
          (\<lambda>y u. ?Q y (?syn r # EvNormalize art rid (Err x) # u))" for r art x
        using retry [of "[?syn r, EvNormalize art rid (Err x)]"] by (simp add: events none)
      show ?thesis using Some True
        by (auto simp: find_logged_tts p tts_attempt_error_def split: sum.split audio_normalization_error.split
            intro!: traces_bind traces_log_call traces_throw traces_done_with one two win fail)
    next
      case False
      then show ?thesis using Some
        by (auto simp: find_logged_tts p tts_attempt_error_def split: sum.split audio_normalization_error.split
            intro!: traces_bind traces_log_call traces_throw traces_done_with win fail)
    qed
  qed
qed

section \<open>Executing text to speech\<close>

definition requested_order :: "tts_request \<Rightarrow> provider_name list" where
  "requested_order request = (case tq_provider_order request of Some order \<Rightarrow> order | None \<Rightarrow> [])"

definition attempt_order :: "tts_request \<Rightarrow> provider_name list \<Rightarrow> provider_name list" where
  "attempt_order request order = (if tq_auto_fallback request then order else take 1 order)"

definition tts_answer ::
    "request_id \<Rightarrow> tts_request \<Rightarrow> provider_name \<Rightarrow> normalized_audio \<Rightarrow> audio_storage \<Rightarrow> tts_result" where
  "tts_answer rid request n audio storage =
     \<lparr>tr_voice_profile = map_option voice_profile_ref_from (tq_resolved_voice request),
      tr_request_id = rid, tr_storage = storage, tr_provider = n,
      tr_output_format = tts_output_format.Mp3, tr_duration = na_duration audio\<rparr>"

definition execute_tts_calls ::
    "service_crates \<Rightarrow> 'w waveform_service \<Rightarrow> request_id \<Rightarrow> instant \<Rightarrow> authorized_actor \<Rightarrow>
     tts_request \<Rightarrow> (tts_result, waveform_error) result \<Rightarrow> event list \<Rightarrow> bool" where
  "execute_tts_calls C S rid started authorization request r t \<longleftrightarrow>
     (case resolve_order (requested_order request) TTS_PROVIDER_CHAIN of
        None \<Rightarrow> r = Err InvalidRequest \<and> t = []
      | Some order \<Rightarrow> \<exists>tried_r t1 t2. t = t1 @ t2 \<and>
          tts_attempts_calls S rid request (attempt_order request order) tried_r t1 \<and>
          (case tried_r of
             Err e \<Rightarrow> r = Err e \<and> t2 = []
           | Ok None \<Rightarrow> r = Err ProvidersExhausted \<and> t2 = []
           | Ok (Some (n, audio)) \<Rightarrow> \<exists>storage.
               stored_calls C (ws_policy S) authorization
                 (for_request (sv_uuid C) (sv_utc C) started rid) audio rid storage t2 \<and>
               r = map_ok (tts_answer rid request n audio) storage))"

lemma execute_tts_calls_failed:
  assumes "resolve_order (requested_order request) TTS_PROVIDER_CHAIN = Some order"
    and "tts_attempts_calls S rid request (attempt_order request order) (Err e) t"
  shows "execute_tts_calls C S rid started authorization request (Err e) t"
  unfolding execute_tts_calls_def assms(1) option.case
  by (intro exI [where x = "Err e"] exI [where x = t] exI [where x = "[]"]) (use assms(2) in auto)

lemma execute_tts_calls_exhausted:
  assumes "resolve_order (requested_order request) TTS_PROVIDER_CHAIN = Some order"
    and "tts_attempts_calls S rid request (attempt_order request order) (Ok None) t"
  shows "execute_tts_calls C S rid started authorization request (Err ProvidersExhausted) t"
  unfolding execute_tts_calls_def assms(1) option.case
  by (intro exI [where x = "Ok None"] exI [where x = t] exI [where x = "[]"]) (use assms(2) in auto)

lemma execute_tts_calls_stored:
  assumes "resolve_order (requested_order request) TTS_PROVIDER_CHAIN = Some order"
    and "tts_attempts_calls S rid request (attempt_order request order) (Ok (Some (n, audio))) t"
    and "stored_calls C (ws_policy S) authorization (for_request (sv_uuid C) (sv_utc C) started rid)
           audio rid storage u"
  shows "execute_tts_calls C S rid started authorization request
     (map_ok (tts_answer rid request n audio) storage) (t @ u)"
  unfolding execute_tts_calls_def assms(1) option.case
  by (intro exI [where x = "Ok (Some (n, audio))"] exI [where x = t] exI [where x = u])
    (use assms(2,3) in auto)

lemma tts_answer_new:
  "(tts_result_new rid storage n (na_duration audio))
     \<lparr>tr_voice_profile := map_option voice_profile_ref_from (tq_resolved_voice request)\<rparr> =
   tts_answer rid request n audio storage"
  by (simp add: tts_answer_def tts_result_new_def)

lemma traces_store_answer:
  assumes "resolve_order (requested_order request) TTS_PROVIDER_CHAIN = Some order"
    and "tts_attempts_calls S rid request (attempt_order request order) (Ok (Some (n, audio))) t"
  shows "traces (try_call
       (store_audio C (logged S) authorization token (for_request (sv_uuid C) (sv_utc C) started rid) audio rid)
       (\<lambda>storage. done_with (tts_answer rid request n audio storage)))
     (\<lambda>y u. execute_tts_calls C S rid started authorization request y (t @ u))"
proof (rule traces_try_call, rule traces_conseq [OF traces_store_audio])
  fix storage u
  assume "stored_calls C (ws_policy S) authorization (for_request (sv_uuid C) (sv_utc C) started rid)
      audio rid storage u"
  from execute_tts_calls_stored [OF assms this]
  show "case storage of
        Err e \<Rightarrow> execute_tts_calls C S rid started authorization request (Err e) (t @ u)
      | Ok storage \<Rightarrow> traces (done_with (tts_answer rid request n audio storage))
          (\<lambda>y v. execute_tts_calls C S rid started authorization request y (t @ (u @ v)))"
    by (cases storage) (auto intro!: traces_done_with)
qed

lemma traces_execute_tts:
  "traces (execute_tts C (logged S) rid started authorization token request)
     (execute_tts_calls C S rid started authorization request)"
proof (cases "resolve_order (requested_order request) TTS_PROVIDER_CHAIN")
  case None
  then show ?thesis
    by (auto simp: execute_tts_def requested_order_def execute_tts_calls_def
        intro!: traces_try_call traces_lift_result)
next
  case (Some order)
  have attempts: "traces (tts_attempts (logged S) rid request (attempt_order request order))
      (tts_attempts_calls S rid request (attempt_order request order))"
    by (rule traces_tts_attempts)
  have order: "(if \<not> tq_auto_fallback request then take 1 order else order) = attempt_order request order"
    for order by (simp add: attempt_order_def)
  note failed = execute_tts_calls_failed [OF Some] and exhausted = execute_tts_calls_exhausted [OF Some]
    and stored = traces_store_answer [OF Some]
  show ?thesis
    unfolding execute_tts_def tts_answer_new requested_order_def [symmetric] order Some
    apply (rule traces_try_call, rule traces_lift_result, simp)
    apply (rule traces_try_call, rule traces_conseq [OF attempts])
    subgoal for r t
    proof (cases r)
      case (Inr successful)
      assume "tts_attempts_calls S rid request (attempt_order request order) r t"
      with Inr show ?thesis
        by (cases successful)
          (auto intro!: traces_try_call [of "lift_result _"] traces_lift_result exhausted stored)
    qed (simp add: failed)
    done
qed

section \<open>Executing speech to text\<close>

definition stt_attempts_calls ::
    "'w waveform_service \<Rightarrow> request_id \<Rightarrow> stt_request \<Rightarrow> source_media \<Rightarrow> media_duration \<Rightarrow>
     provider_name list \<Rightarrow> (stt_result, waveform_error) result \<Rightarrow> event list \<Rightarrow> bool" where
  "stt_attempts_calls S rid request media duration names r t \<longleftrightarrow>
     prefix (tried t) names \<and>
     (\<forall>e \<in> set t. \<exists>n x. e = EvTranscribe n \<lparr>sp_media = media, sp_language = sq_language request\<rparr> rid x) \<and>
     (case r of
        Ok result \<Rightarrow> tried t \<noteq> [] \<and> last (tried t) = sr_provider result \<and>
          (\<exists>pr. EvTranscribe (sr_provider result)
                  \<lparr>sp_media = media, sp_language = sq_language request\<rparr> rid (Ok pr) \<in> set t \<and>
                result = stt_result_from_provider rid (sr_provider result) (pr\<lparr>pr_duration := Some duration\<rparr>))
      | Err e \<Rightarrow> e = Internal \<and> \<not> set names \<subseteq> stt_name ` set (ws_stt_providers S) \<or>
          e = ProvidersExhausted \<and> tried t = names)"

lemma find_logged_stt:
  "find (\<lambda>p. stt_name p = n) (map logged_stt ps) =
     map_option logged_stt (find (\<lambda>p. stt_name p = n) ps)"
  by (simp add: find_map)

lemma stt_attempts_calls_skip:
  assumes "stt_attempts_calls S rid request media duration names r t"
  shows "stt_attempts_calls S rid request media duration (n # names) r
     (EvTranscribe n \<lparr>sp_media = media, sp_language = sq_language request\<rparr> rid x # t)"
  using assms by (auto simp: stt_attempts_calls_def attempted_def split: sum.splits)

lemma traces_stt_attempts:
  "traces (stt_attempts (logged S) rid request media duration names)
     (stt_attempts_calls S rid request media duration names)"
proof (induction names)
  case Nil
  show ?case by (simp add: stt_attempts_calls_def traces_throw)
next
  case (Cons n names)
  let ?Q = "stt_attempts_calls S rid request media duration (n # names)"
  show ?case
  proof (cases "find (\<lambda>p. stt_name p = n) (ws_stt_providers S)")
    case None
    then have "n \<notin> stt_name ` set (ws_stt_providers S)" by (rule find_None_not_name)
    then have "?Q (Err Internal) []" by (simp add: stt_attempts_calls_def)
    with None show ?thesis by (simp add: find_logged_stt traces_throw)
  next
    case (Some p)
    then have p: "stt_name p = n" by (auto dest: find_SomeD)
    have retry: "traces (stt_attempts (logged S) rid request media duration names)
       (\<lambda>y u. ?Q y (EvTranscribe n \<lparr>sp_media = media, sp_language = sq_language request\<rparr> rid x # u))" for x
      by (rule traces_conseq [OF Cons.IH]) (rule stt_attempts_calls_skip)
    have win: "?Q (Ok (stt_result_from_provider rid n (pr\<lparr>pr_duration := Some duration\<rparr>)))
       [EvTranscribe n \<lparr>sp_media = media, sp_language = sq_language request\<rparr> rid (Ok pr)]" for pr
      by (auto simp: stt_attempts_calls_def attempted_def stt_result_from_provider_def)
    show ?thesis using Some
      by (auto simp: find_logged_stt p split: sum.split
          intro!: traces_bind traces_log_call traces_done_with retry win)
  qed
qed

definition reading_event :: "request_id \<Rightarrow> event \<Rightarrow> bool" where
  "reading_event rid e \<longleftrightarrow>
     (case e of
        EvProof _ _ \<Rightarrow> True
      | EvRenew _ _ _ \<Rightarrow> True
      | EvRead q _ \<Rightarrow> rs_request_id q = rid
      | EvSourceDuration _ rid' _ \<Rightarrow> rid' = rid
      | _ \<Rightarrow> False)"

definition execute_stt_calls ::
    "'w waveform_service \<Rightarrow> request_id \<Rightarrow> stt_request \<Rightarrow> (stt_result, waveform_error) result \<Rightarrow>
     event list \<Rightarrow> bool" where
  "execute_stt_calls S rid request r t \<longleftrightarrow>
     ((\<forall>e \<in> set t. reading_event rid e) \<and> (\<exists>e. r = Err e)) \<or>
     (\<exists>t1 t2 p media duration order. t = t1 @ t2 \<and> (\<forall>e \<in> set t1. reading_event rid e) \<and>
        EvRead \<lparr>rs_proof = p, rs_source_url = sq_source_url request,
                rs_size_limit = pol_source_media_size_limit (ws_policy S), rs_request_id = rid\<rparr>
          (Ok media) \<in> set t1 \<and>
        EvSourceDuration media rid (Ok duration) \<in> set t1 \<and>
        resolve_order (case sq_provider_order request of Some order \<Rightarrow> order | None \<Rightarrow> [])
          STT_PROVIDER_CHAIN = Some order \<and>
        stt_attempts_calls S rid request media duration order r t2)"

lemma traces_transcribe_media:
  assumes "\<forall>e \<in> set t1. reading_event rid e"
    and "EvRead \<lparr>rs_proof = p, rs_source_url = sq_source_url request,
            rs_size_limit = pol_source_media_size_limit (ws_policy S), rs_request_id = rid\<rparr>
          (Ok media) \<in> set t1"
    and "EvSourceDuration media rid (Ok duration) \<in> set t1"
  shows "traces (try_call (lift_result (ok_or
         (resolve_order (case sq_provider_order request of Some order \<Rightarrow> order | None \<Rightarrow> [])
            STT_PROVIDER_CHAIN) InvalidRequest)) (\<lambda>order.
       stt_attempts (logged S) rid request media duration order))
     (\<lambda>y u. execute_stt_calls S rid request y (t1 @ u))"
proof (cases "resolve_order (case sq_provider_order request of Some order \<Rightarrow> order | None \<Rightarrow> [])
     STT_PROVIDER_CHAIN")
  case None
  then show ?thesis using assms(1)
    by (auto intro!: traces_try_call traces_lift_result simp: execute_stt_calls_def)
next
  case (Some order)
  have "traces (stt_attempts (logged S) rid request media duration order)
      (\<lambda>y u. execute_stt_calls S rid request y (t1 @ u))"
    by (rule traces_conseq [OF traces_stt_attempts], unfold execute_stt_calls_def)
      (use assms Some in blast)
  with Some show ?thesis by (auto intro!: traces_try_call traces_lift_result)
qed

lemma traces_measure_media:
  assumes "\<forall>e \<in> set t1. reading_event rid e"
    and "EvRead \<lparr>rs_proof = p, rs_source_url = sq_source_url request,
            rs_size_limit = pol_source_media_size_limit (ws_policy S), rs_request_id = rid\<rparr>
          (Ok media) \<in> set t1"
  shows "traces (try_call (on_err map_source_duration_error
         (ws_source_duration (logged S) media rid)) (\<lambda>duration.
       try_call (lift_result (ok_or
         (resolve_order (case sq_provider_order request of Some order \<Rightarrow> order | None \<Rightarrow> [])
            STT_PROVIDER_CHAIN) InvalidRequest)) (\<lambda>order.
       stt_attempts (logged S) rid request media duration order)))
     (\<lambda>y u. execute_stt_calls S rid request y (t1 @ u))"
proof (simp, intro traces_try_call traces_on_err traces_log_call)
  fix x :: "(media_duration, audio_normalization_error) result"
  let ?t = "t1 @ [EvSourceDuration media rid x]"
  have events: "\<forall>e \<in> set ?t. reading_event rid e"
    using assms(1) by (simp add: reading_event_def)
  show "case map_err map_source_duration_error x of
      Err e \<Rightarrow> execute_stt_calls S rid request (Err e) ?t
    | Ok duration \<Rightarrow> traces (try_call (lift_result (ok_or
         (resolve_order (case sq_provider_order request of Some order \<Rightarrow> order | None \<Rightarrow> [])
            STT_PROVIDER_CHAIN) InvalidRequest)) (\<lambda>order.
       stt_attempts (logged S) rid request media duration order))
       (\<lambda>y u. execute_stt_calls S rid request y (t1 @ [EvSourceDuration media rid x] @ u))"
  proof (cases x)
    case (Inl e)
    then show ?thesis using events by (auto simp: execute_stt_calls_def)
  next
    case (Inr duration)
    from traces_transcribe_media [OF events, of p request S media duration] assms(2) Inr
    show ?thesis by simp
  qed
qed

lemma traces_briefcase_authority:
  assumes "\<And>x. Q (map_err map_authority_error x) [EvProof (usable_subject_token authorization token) x]"
  shows "traces (briefcase_authority (logged S) authorization token) Q"
  unfolding briefcase_authority_def using assms by (auto intro!: traces_on_err traces_log_call)

lemma traces_execute_stt:
  "traces (execute_stt (logged S) rid authorization token request) (execute_stt_calls S rid request)"
  unfolding execute_stt_def
proof (intro traces_try_call traces_briefcase_authority)
  fix x
  let ?proof = "EvProof (usable_subject_token authorization token) x"
  let ?ask = "\<lambda>p. \<lparr>rs_proof = p, rs_source_url = sq_source_url request,
            rs_size_limit = pol_source_media_size_limit (ws_policy S), rs_request_id = rid\<rparr>"
  let ?rest = "\<lambda>media. try_call (on_err map_source_duration_error
         (ws_source_duration (logged S) media rid)) (\<lambda>duration.
       try_call (lift_result (ok_or
         (resolve_order (case sq_provider_order request of Some order \<Rightarrow> order | None \<Rightarrow> [])
            STT_PROVIDER_CHAIN) InvalidRequest)) (\<lambda>order.
       stt_attempts (logged S) rid request media duration order))"
  have read: "traces (try_call (on_err map_renewal_error
       (with_renewal (logged S) authorization token p
          (\<lambda>p. log_call (EvRead (?ask p)) (sb_read_source_media (ws_storage S) (?ask p))))) ?rest)
     (\<lambda>y u. execute_stt_calls S rid request y (?proof # u))" for p
  proof (intro traces_try_call traces_on_err traces_with_renewal)
    fix r t
    assume t: "renewed_calls (usable_subject_token authorization token) p (\<lambda>p. EvRead (?ask p)) r t"
    have events: "\<forall>e \<in> set (?proof # t). reading_event rid e"
      by (auto elim!: renewed_calls_events [OF t] simp: reading_event_def)
    show "case map_err map_renewal_error r of
        Err e \<Rightarrow> execute_stt_calls S rid request (Err e) (?proof # t)
      | Ok media \<Rightarrow> traces (?rest media) (\<lambda>y u. execute_stt_calls S rid request y (?proof # t @ u))"
    proof (cases r)
      case (Inl e)
      then show ?thesis using events by (auto simp: execute_stt_calls_def)
    next
      case (Inr media)
      with renewed_calls_Ok [of "usable_subject_token authorization token" p "\<lambda>p. EvRead (?ask p)"] t
      obtain q where "EvRead (?ask q) (Ok media) \<in> set (?proof # t)" by auto
      from traces_measure_media [OF events this] Inr show ?thesis by simp
    qed
  qed
  show "case map_err map_authority_error x of
      Err e \<Rightarrow> execute_stt_calls S rid request (Err e) [?proof]
    | Ok p \<Rightarrow> traces (try_call (on_err map_renewal_error (with_renewal (logged S) authorization token p
          (\<lambda>p. sb_read_source_media (ws_storage (logged S))
             \<lparr>rs_proof = p, rs_source_url = sq_source_url request,
              rs_size_limit = pol_source_media_size_limit (ws_policy (logged S)),
              rs_request_id = rid\<rparr>))) ?rest)
       (\<lambda>y u. execute_stt_calls S rid request y ([?proof] @ u))"
    using read by (cases x) (simp_all add: execute_stt_calls_def reading_event_def)
qed

end
