(* ===== verification/Idempotency_Store.thy ===== *)
theory Idempotency_Store
  imports Ports "HOL-Library.Finite_Map"
begin

text \<open>
  \<open>src/src/infrastructure/idempotency.rs\<close>: the lease-based idempotency store on PostgreSQL. The two
  tables are finite maps from their primary keys to rows; every store operation is one
  transaction on them. The database clock readings of an operation, a fault of the connection
  and a concurrent cleaner are inputs of the operation.
\<close>

section \<open>Tables\<close>

record claim_row =
  row_digest :: bytes
  row_request_id :: uuid
  row_state :: string
  row_lease_token :: "uuid option"
  row_lease_expires_at :: "instant option"
  row_response :: "string option"
  row_created_at :: instant
  row_updated_at :: instant
  row_expires_at :: instant

record job_row =
  jb_plane_id :: uuid
  jb_org_id :: string
  jb_actor_id :: uuid
  jb_actor_kind :: string
  jb_operation :: string
  jb_status :: string
  jb_first_line :: string
  jb_duration_ms :: "int option"
  jb_provider :: "string option"
  jb_request_digest :: bytes
  jb_key_hash :: bytes
  jb_error_code :: "string option"
  jb_created_at :: instant
  jb_finished_at :: "instant option"
  jb_lease_token :: "uuid option"
  jb_lease_expires_at :: "instant option"
  jb_voice_profile :: "voice_profile_ref option"
  jb_issuing_app :: "string option"

text \<open>\<open>waveform_idempotency_records\<close> by its primary key, \<open>waveform_jobs\<close> by id, and the ids of the
  rows of \<open>waveform_environments\<close> that are not deleted.\<close>

record db =
  db_records :: "(idempotency_scope, claim_row) fmap"
  db_jobs :: "(uuid, job_row) fmap"
  db_planes :: "uuid list"

section \<open>Parameters of an operation\<close>

datatype stored_response =
    Tts "voice_profile_ref option" request_id "string option" "string option" "string option"
      "int option" provider_name "64 word"
  | Stt request_id string "language_hint option" provider_name "64 word option"

text \<open>
  What the store uses of other crates: the JSON codec of a stored response, parsing and printing
  URLs, \<open>PgInterval::try_from\<close> (in nanoseconds), SHA-256 and the range check of
  \<open>OffsetDateTime::from_unix_timestamp\<close>.
\<close>

record store_crates =
  to_value :: "stored_response \<Rightarrow> string option"
  from_value :: "string \<Rightarrow> stored_response option"
  parse_url_text :: "string \<Rightarrow> url option"
  print_url :: "url \<Rightarrow> string"
  pg_interval :: "duration \<Rightarrow> int option"
  sha256 :: "bytes \<Rightarrow> bytes"
  uuid_bytes :: "uuid \<Rightarrow> bytes"
  timestamp_in_range :: "int \<Rightarrow> bool"

record store_config =
  cfg_retry_after :: duration
  cfg_record_ttl :: duration

text \<open>
  A connection fault: the transaction does not commit, or the commit succeeds and its
  acknowledgement is lost. Timeouts of the operation appear in the same two ways.
\<close>

datatype db_fault = NotCommitted idempotency_store_error | CommittedUnseen idempotency_store_error

record db_env =
  env_clock :: "nat \<Rightarrow> instant"
  env_fault :: "db_fault option"
  env_cleaner :: bool

text \<open>A transaction's changes become visible when it ends well; an early return rolls it back.\<close>

definition run_transaction ::
    "db_env \<Rightarrow> db \<Rightarrow> ('a \<times> db, idempotency_store_error) result \<Rightarrow>
     ('a, idempotency_store_error) result \<times> db" where
  "run_transaction E d body =
     (case env_fault E of
        Some (NotCommitted e) \<Rightarrow> (Err e, d)
      | Some (CommittedUnseen e) \<Rightarrow>
          (case body of Ok (_, d') \<Rightarrow> (Err e, d') | Err e' \<Rightarrow> (Err e', d))
      | None \<Rightarrow> (case body of Ok (x, d') \<Rightarrow> (Ok x, d') | Err e' \<Rightarrow> (Err e', d)))"

section \<open>Stored responses\<close>

definition response_request_id :: "completed_speech_operation \<Rightarrow> request_id" where
  "response_request_id r =
     (case r of
        completed_speech_operation.Tts c \<Rightarrow> co_request_id c
      | completed_speech_operation.Stt s \<Rightarrow> sr_request_id s)"

text \<open>\<open>OffsetDateTime::unix_timestamp\<close>: whole seconds, rounded down.\<close>

definition unix_timestamp :: "instant \<Rightarrow> int" where
  "unix_timestamp t = t div 1000000000"

definition from_unix_timestamp :: "store_crates \<Rightarrow> int \<Rightarrow> instant option" where
  "from_unix_timestamp C s = (if timestamp_in_range C s then Some (s * 1000000000) else None)"

definition stored_form :: "store_crates \<Rightarrow> completed_speech_operation \<Rightarrow> stored_response option" where
  "stored_form C response =
     (case response of
        completed_speech_operation.Tts c \<Rightarrow>
          if co_provider c \<in> set TTS_PROVIDER_CHAIN then
            (case co_storage c of
               audio_storage.Briefcase f \<Rightarrow>
                 Some (stored_response.Tts (co_voice_profile c) (co_request_id c)
                   (Some (print_url C (as_url f))) None None None
                   (co_provider c) (as_millis (co_duration c)))
             | Held reason url until \<Rightarrow>
                 Some (stored_response.Tts (co_voice_profile c) (co_request_id c)
                   None (Some (held_reason_as_str reason)) (Some (print_url C url))
                   (Some (unix_timestamp until)) (co_provider c) (as_millis (co_duration c))))
          else None
      | completed_speech_operation.Stt s \<Rightarrow>
          if sr_provider s \<in> set STT_PROVIDER_CHAIN then
            Some (stored_response.Stt (sr_request_id s) (transcript_str (sr_transcript s))
              (sr_detected_language s) (sr_provider s) (map_option as_millis (sr_duration s)))
          else None)"

definition encode_response ::
    "store_crates \<Rightarrow> completed_speech_operation \<Rightarrow> (string, idempotency_store_error) result" where
  "encode_response C response =
     (case stored_form C response of
        None \<Rightarrow> Err idempotency_store_error.InvalidRecord
      | Some stored \<Rightarrow> ok_or (to_value C stored) idempotency_store_error.InvalidRecord)"

definition parse_url :: "store_crates \<Rightarrow> string \<Rightarrow> (url, idempotency_store_error) result" where
  "parse_url C s = ok_or (parse_url_text C s) idempotency_store_error.InvalidRecord"

definition decode_storage ::
    "store_crates \<Rightarrow> string option \<Rightarrow> string option \<Rightarrow> string option \<Rightarrow> int option \<Rightarrow>
     (audio_storage, idempotency_store_error) result" where
  "decode_storage C file_url reason audio until =
     (case (file_url, reason, audio, until) of
        (Some f, None, None, None) \<Rightarrow>
          and_then (parse_url C f) (\<lambda>u.
            map_ok audio_storage.Briefcase
              (map_err (\<lambda>_. idempotency_store_error.InvalidRecord) (briefcase_file_url_new u)))
      | (None, Some r, Some a, Some t) \<Rightarrow>
          and_then (map_err (\<lambda>_. idempotency_store_error.InvalidRecord) (held_reason_from_str r)) (\<lambda>reason.
          and_then (parse_url C a) (\<lambda>u.
          map_ok (Held reason u)
            (ok_or (from_unix_timestamp C t) idempotency_store_error.InvalidRecord)))
      | _ \<Rightarrow> Err idempotency_store_error.InvalidRecord)"

definition decode_response ::
    "store_crates \<Rightarrow> string \<Rightarrow> (completed_speech_operation, idempotency_store_error) result" where
  "decode_response C value =
     and_then (ok_or (from_value C value) idempotency_store_error.InvalidRecord) (\<lambda>stored.
       case stored of
         stored_response.Tts profile rid file_url reason audio until provider ms \<Rightarrow>
           if provider \<notin> set TTS_PROVIDER_CHAIN then Err idempotency_store_error.InvalidRecord
           else map_ok (\<lambda>storage. completed_speech_operation.Tts
                  \<lparr>co_voice_profile = profile, co_request_id = rid, co_storage = storage,
                   co_provider = provider, co_duration = MediaDuration ms\<rparr>)
                (decode_storage C file_url reason audio until)
       | stored_response.Stt rid transcript language provider ms \<Rightarrow>
           if provider \<notin> set STT_PROVIDER_CHAIN then Err idempotency_store_error.InvalidRecord
           else map_ok (\<lambda>t. completed_speech_operation.Stt
                  \<lparr>sr_request_id = rid, sr_transcript = t, sr_detected_language = language,
                   sr_provider = provider, sr_duration = map_option MediaDuration ms\<rparr>)
                (map_err (\<lambda>_. idempotency_store_error.InvalidRecord) (transcript_new transcript)))"

section \<open>Claiming a scope\<close>

record stored_claim_record =
  st_digest :: bytes
  st_request_id :: request_id
  st_state :: string
  st_lease_token :: "uuid option"
  st_lease_expires_at :: "instant option"
  st_response :: "string option"
  st_created_at :: instant
  st_expires_at :: instant

definition postgres_interval :: "store_crates \<Rightarrow> duration \<Rightarrow> (int, idempotency_store_error) result" where
  "postgres_interval C d =
     (if d = 0 then Err idempotency_store_error.InvalidRecord
      else ok_or (pg_interval C d) idempotency_store_error.InvalidRecord)"

definition lock_plane :: "db \<Rightarrow> uuid \<Rightarrow> (unit, idempotency_store_error) result" where
  "lock_plane d plane = (if plane \<in> set (db_planes d) then Ok () else Err idempotency_store_error.LeaseLost)"

definition stored_of_row :: "claim_row \<Rightarrow> (stored_claim_record, idempotency_store_error) result" where
  "stored_of_row r =
     map_ok (\<lambda>rid. \<lparr>st_digest = row_digest r, st_request_id = rid, st_state = row_state r,
        st_lease_token = row_lease_token r, st_lease_expires_at = row_lease_expires_at r,
        st_response = row_response r, st_created_at = row_created_at r,
        st_expires_at = row_expires_at r\<rparr>)
       (map_err (\<lambda>_. idempotency_store_error.InvalidRecord) (request_id_new (row_request_id r)))"

definition load_claim ::
    "db \<Rightarrow> idempotency_scope \<Rightarrow> (stored_claim_record option, idempotency_store_error) result" where
  "load_claim d scope =
     (case fmlookup (db_records d) scope of
        None \<Rightarrow> Ok None
      | Some r \<Rightarrow> map_ok Some (stored_of_row r))"

definition record_is_purgeable ::
    "stored_claim_record \<Rightarrow> instant \<Rightarrow> (bool, idempotency_store_error) result" where
  "record_is_purgeable stored now =
     (if st_expires_at stored > now then Ok False
      else if st_state stored = ''completed'' then Ok True
      else if st_state stored = ''pending'' then
        ok_or (map_option (\<lambda>e. e \<le> now) (st_lease_expires_at stored)) idempotency_store_error.InvalidRecord
      else Err idempotency_store_error.InvalidRecord)"

text \<open>The predicate of the cleaner's \<open>DELETE\<close>.\<close>

definition row_expired :: "instant \<Rightarrow> claim_row \<Rightarrow> bool" where
  "row_expired now r \<longleftrightarrow> row_expires_at r \<le> now \<and>
     (row_state r = ''completed'' \<or> (case row_lease_expires_at r of Some e \<Rightarrow> e \<le> now | None \<Rightarrow> False))"

definition insert_claim :: "idempotency_claim \<Rightarrow> int \<Rightarrow> int \<Rightarrow> instant \<Rightarrow> db \<Rightarrow> bool \<times> db" where
  "insert_claim claim lease ttl now d =
     (if cl_scope claim |\<in>| fmdom (db_records d) then (False, d)
      else (True, d\<lparr>db_records := fmupd (cl_scope claim)
              \<lparr>row_digest = digest_bytes (cl_digest claim),
               row_request_id = request_uuid (cl_request_id claim),
               row_state = ''pending'',
               row_lease_token = Some (lease_uuid (cl_lease_id claim)),
               row_lease_expires_at = Some (now + lease),
               row_response = None,
               row_created_at = now, row_updated_at = now, row_expires_at = now + ttl\<rparr>
              (db_records d)\<rparr>))"

text \<open>Answers \<open>created_at\<close> and \<open>lease_expires_at\<close> of the refreshed row.\<close>

definition initialize_inserted_claim ::
    "idempotency_claim \<Rightarrow> int \<Rightarrow> int \<Rightarrow> instant \<Rightarrow> db \<Rightarrow>
     ((instant \<times> instant) \<times> db, idempotency_store_error) result" where
  "initialize_inserted_claim claim lease ttl now d =
     (case fmlookup (db_records d) (cl_scope claim) of
        Some r \<Rightarrow>
          if row_state r = ''pending'' \<and> row_lease_token r = Some (lease_uuid (cl_lease_id claim))
          then Ok ((now, now + lease), d\<lparr>db_records := fmupd (cl_scope claim)
                 (r\<lparr>row_lease_expires_at := Some (now + lease), row_created_at := now,
                    row_updated_at := now, row_expires_at := now + ttl\<rparr>) (db_records d)\<rparr>)
          else Err idempotency_store_error.InvalidRecord
      | None \<Rightarrow> Err idempotency_store_error.InvalidRecord)"

definition delete_locked_claim :: "idempotency_scope \<Rightarrow> db \<Rightarrow> (db, idempotency_store_error) result" where
  "delete_locked_claim scope d =
     (if scope |\<in>| fmdom (db_records d)
      then Ok (d\<lparr>db_records := fmdrop scope (db_records d)\<rparr>)
      else Err idempotency_store_error.InvalidRecord)"

text \<open>
  What the loop of \<open>claim_inner\<close> ends with: a new row, or the locked row of an earlier claim, the
  database time read after locking it and the number of clock readings so far.
\<close>

datatype claim_found =
    Inserted instant instant
  | Stored stored_claim_record instant nat

text \<open>What a concurrent cleaner may do to the conflicting row before it is locked.\<close>

definition cleaned :: "db_env \<Rightarrow> nat \<Rightarrow> idempotency_scope \<Rightarrow> db \<Rightarrow> db" where
  "cleaned E k scope d =
     (if env_cleaner E \<and>
         (case fmlookup (db_records d) scope of
            Some r \<Rightarrow> row_expired (env_clock E k) r | None \<Rightarrow> False)
      then d\<lparr>db_records := fmdrop scope (db_records d)\<rparr> else d)"

text \<open>
  The loop: insert, or read the conflicting row under its lock; an expired row is deleted and the
  insert retried, and so it is when a concurrent cleaner removed the row first.
\<close>

function claim_loop ::
    "db_env \<Rightarrow> idempotency_claim \<Rightarrow> int \<Rightarrow> int \<Rightarrow> nat \<Rightarrow> db \<Rightarrow>
     (claim_found \<times> db, idempotency_store_error) result" where
  "claim_loop E claim lease ttl k d =
     (case insert_claim claim lease ttl (env_clock E k) d of
        (True, d') \<Rightarrow>
          map_ok (\<lambda>((created, expires), d''). (Inserted created expires, d''))
            (initialize_inserted_claim claim lease ttl (env_clock E (k + 1)) d')
      | (False, _) \<Rightarrow>
          (let d' = cleaned E (k + 1) (cl_scope claim) d in
           case load_claim d' (cl_scope claim) of
             Err e \<Rightarrow> Err e
           | Ok None \<Rightarrow> claim_loop E claim lease ttl (k + 2) d'
           | Ok (Some stored) \<Rightarrow>
               (case record_is_purgeable stored (env_clock E (k + 2)) of
                  Err e \<Rightarrow> Err e
                | Ok True \<Rightarrow>
                    (case delete_locked_claim (cl_scope claim) d' of
                       Err e \<Rightarrow> Err e
                     | Ok d'' \<Rightarrow> claim_loop E claim lease ttl (k + 3) d'')
                | Ok False \<Rightarrow> Ok (Stored stored (env_clock E (k + 2)) (k + 3), d'))))"
  by pat_completeness auto

lemma insert_claim_False: "insert_claim claim lease ttl now d = (False, d') \<longleftrightarrow>
    cl_scope claim |\<in>| fmdom (db_records d) \<and> d' = d"
  by (auto simp: insert_claim_def)

lemma load_claim_None: "load_claim d scope = Ok None \<longleftrightarrow> scope |\<notin>| fmdom (db_records d)"
  by (auto simp: load_claim_def map_ok_Ok_iff fmdomI fmdom_notD split: option.splits)

lemma delete_locked_claim_Ok: "delete_locked_claim scope d = Ok d' \<longleftrightarrow>
    scope |\<in>| fmdom (db_records d) \<and> d' = d\<lparr>db_records := fmdrop scope (db_records d)\<rparr>"
  by (auto simp: delete_locked_claim_def)

termination claim_loop
  by (relation "measure (\<lambda>(E, claim, lease, ttl, k, d).
        if cl_scope claim |\<in>| fmdom (db_records d) then 1 else 0)")
    (auto simp: insert_claim_False load_claim_None delete_locked_claim_Ok
      dest: insert_claim_False [THEN iffD1, OF sym])

declare claim_loop.simps [simp del]

definition reclaim_claim ::
    "idempotency_claim \<Rightarrow> int \<Rightarrow> instant \<Rightarrow> db \<Rightarrow> (instant \<times> db, idempotency_store_error) result" where
  "reclaim_claim claim lease now d =
     (case fmlookup (db_records d) (cl_scope claim) of
        Some r \<Rightarrow>
          if row_state r = ''pending'' \<and>
             (case row_lease_expires_at r of Some e \<Rightarrow> e \<le> now | None \<Rightarrow> False)
          then Ok (now + lease, d\<lparr>db_records := fmupd (cl_scope claim)
                 (r\<lparr>row_lease_token := Some (lease_uuid (cl_lease_id claim)),
                    row_lease_expires_at := Some (now + lease), row_updated_at := now\<rparr>)
                 (db_records d)\<rparr>)
          else Err idempotency_store_error.LeaseLost
      | None \<Rightarrow> Err idempotency_store_error.LeaseLost)"

text \<open>The suggested delay: the rest of the lease in whole seconds, at least one, at most the
  configured delay.\<close>

definition retry_delay :: "store_config \<Rightarrow> instant \<Rightarrow> instant \<Rightarrow> duration" where
  "retry_delay K expires now =
     (let ms = (expires - now) div 1000000;
          ms = (if 0 \<le> ms \<and> ms \<le> int u64_max then nat ms else u64_max);
          remaining = max 1 ((ms + 999) div 1000)
      in min (cfg_retry_after K) (secs remaining))"

definition decide_stored ::
    "store_config \<Rightarrow> store_crates \<Rightarrow> db_env \<Rightarrow> idempotency_claim \<Rightarrow> int \<Rightarrow> stored_claim_record \<Rightarrow>
     instant \<Rightarrow> nat \<Rightarrow> db \<Rightarrow> (idempotency_decision \<times> db, idempotency_store_error) result" where
  "decide_stored K C E claim lease stored now k d =
     (if length (st_digest stored) \<noteq> length (digest_bytes (cl_digest claim))
      then Err idempotency_store_error.InvalidRecord
      else if st_digest stored \<noteq> digest_bytes (cl_digest claim) then Ok (KeyReused, d)
      else if st_state stored = ''completed'' then
        and_then (and_then (ok_or (st_response stored) idempotency_store_error.InvalidRecord)
                    (decode_response C)) (\<lambda>response.
          if completed_operation response \<noteq> sc_operation (cl_scope claim) \<or>
             response_request_id response \<noteq> st_request_id stored
          then Err idempotency_store_error.InvalidRecord
          else Ok (Replay response, d))
      else if st_state stored = ''pending'' then
        (case st_lease_expires_at stored of
           None \<Rightarrow> Err idempotency_store_error.InvalidRecord
         | Some expires \<Rightarrow>
             if expires \<le> now then
               map_ok (\<lambda>(lease_expires, d').
                   (Acquired \<lparr>lease_id = cl_lease_id claim, lease_expires_at = lease_expires\<rparr>
                      (st_request_id stored) (st_created_at stored), d'))
                 (reclaim_claim claim lease (env_clock E k) d)
             else Ok (InProgress (retry_delay K expires now), d))
      else Err idempotency_store_error.InvalidRecord)"

definition claim_inner ::
    "store_config \<Rightarrow> store_crates \<Rightarrow> db_env \<Rightarrow> idempotency_claim \<Rightarrow> db \<Rightarrow>
     (idempotency_decision \<times> db, idempotency_store_error) result" where
  "claim_inner K C E claim d =
     and_then (postgres_interval C (cl_lease_duration claim)) (\<lambda>lease.
     and_then (postgres_interval C (cfg_record_ttl K)) (\<lambda>ttl.
     and_then (lock_plane d (sc_plane_id (cl_scope claim))) (\<lambda>_.
     and_then (claim_loop E claim lease ttl 0 d) (\<lambda>(found, d').
       case found of
         Inserted created lease_expires \<Rightarrow>
           Ok (Acquired \<lparr>lease_id = cl_lease_id claim, lease_expires_at = lease_expires\<rparr>
                 (cl_request_id claim) created, d')
       | Stored stored now k \<Rightarrow> decide_stored K C E claim lease stored now k d'))))"

definition pg_claim ::
    "store_config \<Rightarrow> store_crates \<Rightarrow> db_env \<Rightarrow> idempotency_claim \<Rightarrow> db \<Rightarrow>
     (idempotency_decision, idempotency_store_error) result \<times> db" where
  "pg_claim K C E c d = run_transaction E d (claim_inner K C E c d)"

section \<open>Working under a lease\<close>

definition ensure_current_lease ::
    "stored_claim_record \<Rightarrow> idempotency_lease_id \<Rightarrow> request_id option \<Rightarrow>
     (unit, idempotency_store_error) result" where
  "ensure_current_lease stored expected expected_request =
     (if st_state stored = ''completed'' then Err idempotency_store_error.LeaseLost
      else if st_state stored \<noteq> ''pending'' then Err idempotency_store_error.InvalidRecord
      else if st_lease_expires_at stored = None then Err idempotency_store_error.InvalidRecord
      else if st_lease_token stored \<noteq> Some (lease_uuid expected) \<or>
              (case expected_request of None \<Rightarrow> False | Some r \<Rightarrow> r \<noteq> st_request_id stored)
      then Err idempotency_store_error.LeaseLost
      else Ok ())"

text \<open>\<open>load_claim(...)?.ok_or(LeaseLost)?\<close>.\<close>

definition load_owned ::
    "db \<Rightarrow> idempotency_scope \<Rightarrow> (stored_claim_record, idempotency_store_error) result" where
  "load_owned d scope = and_then (load_claim d scope) (\<lambda>s. ok_or s idempotency_store_error.LeaseLost)"

definition job_key_hash :: "store_crates \<Rightarrow> idempotency_scope \<Rightarrow> request_id \<Rightarrow> bytes" where
  "job_key_hash C scope rid =
     sha256 C (operation_as_str (sc_operation scope) @ [CHR 0x00] @ key_str (sc_key scope) @
       uuid_bytes C (request_uuid rid))"

definition new_job_row ::
    "store_crates \<Rightarrow> speech_job_start \<Rightarrow> stored_claim_record \<Rightarrow> job_row" where
  "new_job_row C job stored =
     \<lparr>jb_plane_id = sc_plane_id (js_scope job), jb_org_id = ACCOUNT_SCOPE,
      jb_actor_id = actor_uuid (act_id (sc_actor (js_scope job))),
      jb_actor_kind = actor_kind_as_str (act_kind (sc_actor (js_scope job))),
      jb_operation = operation_as_str (sc_operation (js_scope job)),
      jb_status = ''running'',
      jb_first_line = utf8_of_chars (take 512 (utf8_chars (js_first_line job))),
      jb_duration_ms = None, jb_provider = None,
      jb_request_digest = st_digest stored,
      jb_key_hash = job_key_hash C (js_scope job) (st_request_id stored),
      jb_error_code = None, jb_created_at = st_created_at stored, jb_finished_at = None,
      jb_lease_token = Some (lease_uuid (js_lease_id job)),
      jb_lease_expires_at = st_lease_expires_at stored,
      jb_voice_profile = js_voice_profile job,
      jb_issuing_app = map_option application_id_str (js_issuing_app job)\<rparr>"

text \<open>The \<open>UNIQUE (plane_id, org_id, actor_id, idempotency_key_hash)\<close> of the jobs table.\<close>

definition same_unique_key :: "job_row \<Rightarrow> job_row \<Rightarrow> bool" where
  "same_unique_key a b \<longleftrightarrow> jb_plane_id a = jb_plane_id b \<and> jb_org_id a = jb_org_id b \<and>
     jb_actor_id a = jb_actor_id b \<and> jb_key_hash a = jb_key_hash b"

text \<open>The \<open>WHERE\<close> of \<open>ON CONFLICT(id) DO UPDATE\<close>.\<close>

definition restartable :: "job_row \<Rightarrow> job_row \<Rightarrow> bool" where
  "restartable old new \<longleftrightarrow> jb_plane_id old = jb_plane_id new \<and> jb_org_id old = jb_org_id new \<and>
     jb_actor_id old = jb_actor_id new \<and> jb_actor_kind old = jb_actor_kind new \<and>
     jb_operation old = jb_operation new \<and> jb_status old \<noteq> ''completed'' \<and>
     jb_request_digest old = jb_request_digest new \<and> jb_key_hash old = jb_key_hash new"

definition upsert_job :: "uuid \<Rightarrow> job_row \<Rightarrow> db \<Rightarrow> (db, idempotency_store_error) result" where
  "upsert_job jid new d =
     (case fmlookup (db_jobs d) jid of
        None \<Rightarrow>
          if \<exists>row |\<in>| fmran (db_jobs d). same_unique_key row new
          then Err idempotency_store_error.Unavailable
          else Ok (d\<lparr>db_jobs := fmupd jid new (db_jobs d)\<rparr>)
      | Some old \<Rightarrow>
          if restartable old new
          then Ok (d\<lparr>db_jobs := fmupd jid
                 (old\<lparr>jb_status := ''running'', jb_voice_profile := jb_voice_profile new,
                      jb_first_line := jb_first_line new, jb_duration_ms := None, jb_provider := None,
                      jb_error_code := None, jb_finished_at := None,
                      jb_lease_token := jb_lease_token new,
                      jb_lease_expires_at := jb_lease_expires_at new\<rparr>) (db_jobs d)\<rparr>)
          else Err idempotency_store_error.LeaseLost)"

definition start_job_inner ::
    "store_crates \<Rightarrow> db_env \<Rightarrow> speech_job_start \<Rightarrow> db \<Rightarrow> (unit \<times> db, idempotency_store_error) result" where
  "start_job_inner C E job d =
     and_then (lock_plane d (sc_plane_id (js_scope job))) (\<lambda>_.
     and_then (load_owned d (js_scope job)) (\<lambda>stored.
     and_then (ensure_current_lease stored (js_lease_id job) None) (\<lambda>_.
       if (case st_lease_expires_at stored of None \<Rightarrow> True | Some expiry \<Rightarrow> expiry \<le> env_clock E 0)
       then Err idempotency_store_error.LeaseLost
       else map_ok (Pair ())
         (upsert_job (request_uuid (st_request_id stored)) (new_job_row C job stored) d))))"

definition pg_start_job ::
    "store_crates \<Rightarrow> db_env \<Rightarrow> speech_job_start \<Rightarrow> db \<Rightarrow>
     (unit, idempotency_store_error) result \<times> db" where
  "pg_start_job C E job d = run_transaction E d (start_job_inner C E job d)"

text \<open>\<open>i64::try_from\<close> of a \<open>u64\<close>.\<close>

definition i64_try_from :: "64 word \<Rightarrow> int option" where
  "i64_try_from w = (if uint w < 2 ^ 63 then Some (uint w) else None)"

definition completion_fields ::
    "completed_speech_operation \<Rightarrow> string option \<times> media_duration option \<times> provider_name" where
  "completion_fields r =
     (case r of
        completed_speech_operation.Tts c \<Rightarrow> (None, Some (co_duration c), co_provider c)
      | completed_speech_operation.Stt s \<Rightarrow>
          (Some (first_line_chars 512 (transcript_str (sr_transcript s))), sr_duration s, sr_provider s))"

definition finish_completed_job ::
    "instant \<Rightarrow> idempotency_completion \<Rightarrow> db \<Rightarrow> (db, idempotency_store_error) result" where
  "finish_completed_job now completion d =
     (case completion_fields (cm_response completion) of
        (first_line, duration, provider) \<Rightarrow>
          and_then (case duration of
                      None \<Rightarrow> Ok None
                    | Some v \<Rightarrow> map_ok Some (ok_or (i64_try_from (as_millis v))
                                  idempotency_store_error.InvalidRecord)) (\<lambda>ms.
          let jid = request_uuid (response_request_id (cm_response completion)) in
          case fmlookup (db_jobs d) jid of
            Some j \<Rightarrow>
              if jb_lease_token j = Some (lease_uuid (cm_lease_id completion))
              then Ok (d\<lparr>db_jobs := fmupd jid
                     (j\<lparr>jb_status := ''completed'',
                        jb_first_line := (case first_line of Some l \<Rightarrow> l | None \<Rightarrow> jb_first_line j),
                        jb_duration_ms := ms, jb_provider := Some (provider_as_str provider),
                        jb_error_code := None, jb_finished_at := Some now,
                        jb_lease_token := None, jb_lease_expires_at := None\<rparr>) (db_jobs d)\<rparr>)
              else Err idempotency_store_error.InvalidRecord
          | None \<Rightarrow> Err idempotency_store_error.InvalidRecord))"

definition complete_inner ::
    "store_config \<Rightarrow> store_crates \<Rightarrow> db_env \<Rightarrow> idempotency_completion \<Rightarrow> db \<Rightarrow>
     (unit \<times> db, idempotency_store_error) result" where
  "complete_inner K C E completion d =
     (let scope = cm_scope completion; rid = response_request_id (cm_response completion) in
      if completed_operation (cm_response completion) \<noteq> sc_operation scope \<or> request_uuid rid = 0
      then Err idempotency_store_error.InvalidRecord
      else
        and_then (encode_response C (cm_response completion)) (\<lambda>response.
        and_then (postgres_interval C (cfg_record_ttl K)) (\<lambda>ttl.
        and_then (load_owned d scope) (\<lambda>stored.
        and_then (ensure_current_lease stored (cm_lease_id completion) (Some rid)) (\<lambda>_.
          case fmlookup (db_records d) scope of
            Some r \<Rightarrow>
              if row_state r = ''pending'' \<and>
                 row_lease_token r = Some (lease_uuid (cm_lease_id completion)) \<and>
                 row_request_id r = request_uuid rid
              then map_ok (Pair ()) (finish_completed_job (env_clock E 1) completion
                     (d\<lparr>db_records := fmupd scope
                        (r\<lparr>row_state := ''completed'', row_lease_token := None,
                           row_lease_expires_at := None, row_response := Some response,
                           row_updated_at := env_clock E 0,
                           row_expires_at := env_clock E 0 + ttl\<rparr>) (db_records d)\<rparr>))
              else Err idempotency_store_error.LeaseLost
          | None \<Rightarrow> Err idempotency_store_error.LeaseLost)))))"

definition pg_complete ::
    "store_config \<Rightarrow> store_crates \<Rightarrow> db_env \<Rightarrow> idempotency_completion \<Rightarrow> db \<Rightarrow>
     (unit, idempotency_store_error) result \<times> db" where
  "pg_complete K C E c d = run_transaction E d (complete_inner K C E c d)"

definition fail_job :: "uuid \<Rightarrow> uuid \<Rightarrow> string \<Rightarrow> instant \<Rightarrow> instant \<Rightarrow> db \<Rightarrow> db" where
  "fail_job jid token code finished expires d =
     (case fmlookup (db_jobs d) jid of
        Some j \<Rightarrow>
          if jb_lease_token j = Some token \<and> jb_status j = ''running''
          then d\<lparr>db_jobs := fmupd jid
                 (j\<lparr>jb_status := ''failed'', jb_error_code := Some code,
                    jb_finished_at := Some finished, jb_lease_expires_at := Some expires\<rparr>) (db_jobs d)\<rparr>
          else d
      | None \<Rightarrow> d)"

definition release_inner ::
    "db_env \<Rightarrow> idempotency_release \<Rightarrow> db \<Rightarrow> (unit \<times> db, idempotency_store_error) result" where
  "release_inner E release d =
     (let scope = rl_scope release; now = env_clock E 0 in
      and_then (load_owned d scope) (\<lambda>stored.
      and_then (ensure_current_lease stored (rl_lease_id release) None) (\<lambda>_.
        case fmlookup (db_records d) scope of
          Some r \<Rightarrow>
            if row_state r = ''pending'' \<and> row_lease_token r = Some (lease_uuid (rl_lease_id release))
            then Ok ((), fail_job (request_uuid (st_request_id stored)) (lease_uuid (rl_lease_id release))
                   (case rl_failure_code release of
                      None \<Rightarrow> ''request_interrupted'' | Some c \<Rightarrow> error_code_as_str c)
                   (env_clock E 1) now
                   (d\<lparr>db_records := fmupd scope
                      (r\<lparr>row_lease_expires_at := Some now, row_updated_at := now\<rparr>) (db_records d)\<rparr>))
            else Err idempotency_store_error.LeaseLost
        | None \<Rightarrow> Err idempotency_store_error.LeaseLost)))"

definition pg_release ::
    "db_env \<Rightarrow> idempotency_release \<Rightarrow> db \<Rightarrow> (unit, idempotency_store_error) result \<times> db" where
  "pg_release E r d = run_transaction E d (release_inner E r d)"

section \<open>Recovery and cleaning\<close>

definition job_abandoned :: "instant \<Rightarrow> job_row \<Rightarrow> bool" where
  "job_abandoned now j \<longleftrightarrow> jb_status j = ''running'' \<and>
     ((case jb_lease_expires_at j of Some e \<Rightarrow> e \<le> now | None \<Rightarrow> False) \<or>
      jb_lease_token j = None \<and> jb_created_at j < now - 86400 * 1000000000)"

definition recovered :: "instant \<Rightarrow> job_row \<Rightarrow> job_row" where
  "recovered now j =
     (if job_abandoned now j
      then j\<lparr>jb_status := ''failed'', jb_error_code := Some ''request_interrupted'',
             jb_finished_at := Some now\<rparr>
      else j)"

definition recover_expired_jobs :: "instant \<Rightarrow> db \<Rightarrow> db" where
  "recover_expired_jobs now d = d\<lparr>db_jobs := fmmap (recovered now) (db_jobs d)\<rparr>"

text \<open>The \<open>DELETE\<close> of \<open>delete_expired\<close> removes a batch of expired rows that no other transaction
  has locked; which ones is the database's choice.\<close>

definition delete_batch :: "instant \<Rightarrow> idempotency_scope fset \<Rightarrow> db \<Rightarrow> db" where
  "delete_batch now batch d =
     d\<lparr>db_records := fmfilter (\<lambda>s. \<not> (s |\<in>| batch \<and>
        (case fmlookup (db_records d) s of Some r \<Rightarrow> row_expired now r | None \<Rightarrow> False))) (db_records d)\<rparr>"

text \<open>Two statements of their own: a fault may hit either.\<close>

definition delete_expired ::
    "db_env \<Rightarrow> idempotency_scope fset \<Rightarrow> db \<Rightarrow> (nat, idempotency_store_error) result \<times> db" where
  "delete_expired E batch d =
     (case env_fault E of
        Some (NotCommitted e) \<Rightarrow> (Err e, recover_expired_jobs (env_clock E 0) d)
      | Some (CommittedUnseen e) \<Rightarrow>
          (Err e, delete_batch (env_clock E 1) batch (recover_expired_jobs (env_clock E 0) d))
      | None \<Rightarrow>
          (let d' = recover_expired_jobs (env_clock E 0) d;
               d'' = delete_batch (env_clock E 1) batch d'
           in (Ok (size (fmdom (db_records d')) - size (fmdom (db_records d''))), d'')))"

end
