(* ===== verification/Service_Protocol.thy ===== *)
theory Service_Protocol
  imports Service_Calls Idempotency_Store
begin

text \<open>
  The protocol the service follows with the idempotency store, as an automaton over the log of
  one request, and the proof that both workflows follow it with every adapter behaviour.
\<close>

section \<open>The automaton\<close>

text \<open>
  Where a request stands: before its claim, refused by it, replaying a stored result, owning a
  lease (scope, lease, canonical request id), with a history row that could not be started,
  working, with a completion that failed, finished with a stored result, or settled: the lease
  was given up with a failure code (\<open>None\<close> for the release a dropped guard spawns).
\<close>

datatype phase =
    Unclaimed
  | Refused
  | Replaying completed_speech_operation
  | Owned idempotency_scope idempotency_lease_id request_id
  | Unstarted idempotency_scope idempotency_lease_id
  | Working idempotency_scope idempotency_lease_id request_id
  | Unfinished idempotency_scope idempotency_lease_id
  | Finished request_id completed_speech_operation
  | Settled "error_code option"

definition after_claim ::
    "idempotency_claim \<Rightarrow> (idempotency_decision, idempotency_store_error) result \<Rightarrow> phase" where
  "after_claim c r =
     (case r of
        Ok (Acquired lease rid _) \<Rightarrow> Owned (cl_scope c) (lease_id lease) rid
      | Ok (Replay completed) \<Rightarrow> Replaying completed
      | _ \<Rightarrow> Refused)"

text \<open>Work done for a request: providers, audio and Briefcase content, under the canonical id.\<close>

definition work_event :: "request_id \<Rightarrow> event \<Rightarrow> bool" where
  "work_event rid e \<longleftrightarrow>
     (case e of
        EvProof _ _ \<Rightarrow> True
      | EvRenew _ _ _ \<Rightarrow> True
      | EvRead q _ \<Rightarrow> rs_request_id q = rid
      | EvStore q _ \<Rightarrow> ga_request_id q = rid
      | EvHold h _ \<Rightarrow> ha_request_id h = rid
      | EvSynthesize _ _ rid' _ \<Rightarrow> rid' = rid
      | EvNormalize _ rid' _ \<Rightarrow> rid' = rid
      | EvTranscribe _ _ rid' _ \<Rightarrow> rid' = rid
      | EvSourceDuration _ rid' _ \<Rightarrow> rid' = rid
      | _ \<Rightarrow> False)"

text \<open>What a replay may do: check that the caller may still read the stored result.\<close>

definition replay_event :: "event \<Rightarrow> bool" where
  "replay_event e \<longleftrightarrow>
     (case e of
        EvProof _ _ \<Rightarrow> True
      | EvRenew _ _ _ \<Rightarrow> True
      | EvVerify _ _ \<Rightarrow> True
      | EvIsHeld _ _ _ \<Rightarrow> True
      | _ \<Rightarrow> False)"

definition preparing_event :: "event \<Rightarrow> bool" where
  "preparing_event e \<longleftrightarrow>
     (case e of
        EvAuthorize _ \<Rightarrow> True
      | EvProviderOrder _ \<Rightarrow> True
      | EvLoadKeys \<Rightarrow> True
      | _ \<Rightarrow> False)"

text \<open>A release given with an error code settles the lease it names.\<close>

definition settles ::
    "idempotency_scope \<Rightarrow> idempotency_lease_id \<Rightarrow> event \<Rightarrow> phase option" where
  "settles k l e =
     (case e of
        EvRelease rl _ \<Rightarrow>
          if rl_scope rl = k \<and> rl_lease_id rl = l \<and> rl_failure_code rl \<noteq> None
          then Some (Settled (rl_failure_code rl)) else None
      | _ \<Rightarrow> None)"

definition lease_step :: "phase \<Rightarrow> event \<Rightarrow> phase option" where
  "lease_step ph e =
     (case ph of
        Unclaimed \<Rightarrow>
          (case e of
             EvClaim c r \<Rightarrow> Some (after_claim c r)
           | _ \<Rightarrow> if preparing_event e then Some Unclaimed else None)
      | Replaying completed \<Rightarrow> if replay_event e then Some ph else None
      | Owned k l rid \<Rightarrow>
          (case e of
             EvResolveVoice \<Rightarrow> Some ph
           | EvStartJob j r \<Rightarrow>
               if js_scope j = k \<and> js_lease_id j = l
               then Some (case r of Ok _ \<Rightarrow> Working k l rid | Err _ \<Rightarrow> Unstarted k l) else None
           | _ \<Rightarrow> settles k l e)
      | Unstarted k l \<Rightarrow>
          (case e of
             EvSpawnRelease rl \<Rightarrow>
               if rl_scope rl = k \<and> rl_lease_id rl = l \<and> rl_failure_code rl = None
               then Some (Settled None) else None
           | _ \<Rightarrow> None)
      | Working k l rid \<Rightarrow>
          (case e of
             EvComplete m r \<Rightarrow>
               if cm_scope m = k \<and> cm_lease_id m = l \<and> response_request_id (cm_response m) = rid
               then Some (case r of Ok _ \<Rightarrow> Finished rid (cm_response m) | Err _ \<Rightarrow> Unfinished k l)
               else None
           | _ \<Rightarrow> if work_event rid e then Some ph else settles k l e)
      | Unfinished k l \<Rightarrow> settles k l e
      | Refused \<Rightarrow> None
      | Finished _ _ \<Rightarrow> None
      | Settled _ \<Rightarrow> None)"

fun lease_run :: "phase \<Rightarrow> event list \<Rightarrow> phase option" where
  "lease_run ph [] = Some ph"
| "lease_run ph (e # es) = (case lease_step ph e of None \<Rightarrow> None | Some ph' \<Rightarrow> lease_run ph' es)"

text \<open>What an answer says about the phase its request ended in.\<close>

definition lease_settled ::
    "('r \<Rightarrow> completed_speech_operation) \<Rightarrow> ('r service_response, waveform_error) result \<Rightarrow> phase \<Rightarrow> bool" where
  "lease_settled completed r ph \<longleftrightarrow>
     (case r of
        Ok resp \<Rightarrow>
          if resp_replayed resp then ph = Replaying (completed (resp_result resp))
          else ph = Finished (response_request_id (completed (resp_result resp))) (completed (resp_result resp))
      | Err e \<Rightarrow> ph = Unclaimed \<or> ph = Refused \<or> (\<exists>c. ph = Replaying c) \<or>
          ph = Settled (Some (waveform_error_code e)) \<or> ph = Settled None)"

section \<open>Runs of the automaton\<close>

lemma lease_run_append:
  "lease_run ph (t @ u) = Option.bind (lease_run ph t) (\<lambda>p. lease_run p u)"
  by (induction t arbitrary: ph) (auto split: option.splits)

lemma lease_run_work:
  "\<forall>e \<in> set t. work_event rid e \<Longrightarrow> lease_run (Working k l rid) t = Some (Working k l rid)"
  by (induction t) (auto simp: lease_step_def work_event_def split: event.splits)

lemma lease_run_replay:
  "\<forall>e \<in> set t. replay_event e \<Longrightarrow> lease_run (Replaying c) t = Some (Replaying c)"
  by (induction t) (auto simp: lease_step_def)

lemma lease_run_prepare:
  "\<forall>e \<in> set t. preparing_event e \<Longrightarrow> lease_run Unclaimed t = Some Unclaimed"
  by (induction t) (auto simp: lease_step_def preparing_event_def split: event.splits)

section \<open>The work is work under the canonical id\<close>

lemma tts_attempt_event_work: "tts_attempt_event rid request e \<Longrightarrow> work_event rid e"
  by (auto simp: tts_attempt_event_def work_event_def split: event.splits)

lemma storing_event_work: "storing_event authorization rid e \<Longrightarrow> work_event rid e"
  by (auto simp: storing_event_def work_event_def split: event.splits)

lemma reading_event_work: "reading_event rid e \<Longrightarrow> work_event rid e"
  by (auto simp: reading_event_def work_event_def split: event.splits)

lemma tts_attempts_calls_work:
  "tts_attempts_calls S rid request names r t \<Longrightarrow> e \<in> set t \<Longrightarrow> work_event rid e"
  by (auto simp: tts_attempts_calls_def intro: tts_attempt_event_work)

lemma stored_calls_work:
  "stored_calls C policy authorization filename audio rid r t \<Longrightarrow> e \<in> set t \<Longrightarrow> work_event rid e"
  by (auto simp: stored_calls_def intro: storing_event_work)

lemma execute_tts_calls_cases:
  assumes "execute_tts_calls C S rid started authorization request r t"
  obtains "t = []" "r = Err InvalidRequest"
  | order e where "resolve_order (requested_order request) TTS_PROVIDER_CHAIN = Some order"
      "tts_attempts_calls S rid request (attempt_order request order) (Err e) t" "r = Err e"
  | order where "resolve_order (requested_order request) TTS_PROVIDER_CHAIN = Some order"
      "tts_attempts_calls S rid request (attempt_order request order) (Ok None) t"
      "r = Err ProvidersExhausted"
  | order n audio t1 t2 storage where
      "resolve_order (requested_order request) TTS_PROVIDER_CHAIN = Some order" "t = t1 @ t2"
      "tts_attempts_calls S rid request (attempt_order request order) (Ok (Some (n, audio))) t1"
      "stored_calls C (ws_policy S) authorization (for_request (sv_uuid C) (sv_utc C) started rid)
         audio rid storage t2"
      "r = map_ok (tts_answer rid request n audio) storage"
proof (cases "resolve_order (requested_order request) TTS_PROVIDER_CHAIN")
  case None
  with assms that(1) show ?thesis by (simp add: execute_tts_calls_def)
next
  case (Some order)
  from assms obtain tried_r t1 t2 where t: "t = t1 @ t2"
    and t1: "tts_attempts_calls S rid request (attempt_order request order) tried_r t1"
    and rest: "case tried_r of
             Err e \<Rightarrow> r = Err e \<and> t2 = []
           | Ok None \<Rightarrow> r = Err ProvidersExhausted \<and> t2 = []
           | Ok (Some (n, audio)) \<Rightarrow> \<exists>storage.
               stored_calls C (ws_policy S) authorization
                 (for_request (sv_uuid C) (sv_utc C) started rid) audio rid storage t2 \<and>
               r = map_ok (tts_answer rid request n audio) storage"
    unfolding execute_tts_calls_def Some option.case by blast
  show ?thesis
  proof (cases tried_r)
    case (Inl e)
    with rest t t1 that(2) [OF Some] show ?thesis by simp
  next
    case (Inr x)
    show ?thesis
    proof (cases x)
      case None
      with Inr rest t t1 that(3) [OF Some] show ?thesis by simp
    next
      case (Some won)
      obtain n audio where "won = (n, audio)" by (cases won)
      with Some Inr rest t1
        that(4) [OF \<open>resolve_order (requested_order request) TTS_PROVIDER_CHAIN = Some order\<close> t]
      show ?thesis by auto
    qed
  qed
qed

lemma execute_tts_calls_work:
  assumes "execute_tts_calls C S rid started authorization request r t" and "e \<in> set t"
  shows "work_event rid e"
  using assms(2)
  by (cases rule: execute_tts_calls_cases [OF assms(1)])
    (auto dest: tts_attempts_calls_work stored_calls_work)

lemma execute_tts_calls_request_id:
  assumes "execute_tts_calls C S rid started authorization request (Ok result) t"
  shows "tr_request_id result = rid"
proof -
  have "tr_request_id (tts_answer rid request n audio storage) = rid" for n audio storage
    by (simp add: tts_answer_def)
  then show ?thesis
    by (cases rule: execute_tts_calls_cases [OF assms]) (auto simp: map_ok_Ok_iff eq_commute [of "Ok _"])
qed

lemma stt_attempts_calls_work:
  assumes "stt_attempts_calls S rid request media duration names r t" "e \<in> set t"
  shows "work_event rid e"
proof -
  from assms obtain n x where "e = EvTranscribe n \<lparr>sp_media = media, sp_language = sq_language request\<rparr> rid x"
    by (auto simp: stt_attempts_calls_def)
  then show ?thesis by (simp add: work_event_def)
qed

lemma execute_stt_calls_work:
  "execute_stt_calls S rid request r t \<Longrightarrow> e \<in> set t \<Longrightarrow> work_event rid e"
  unfolding execute_stt_calls_def
  by (elim disjE conjE exE; hypsubst?; (unfold set_append Un_iff)?; (elim disjE)?;
      (rule reading_event_work, erule (1) bspec | erule (1) stt_attempts_calls_work))

lemma execute_stt_calls_request_id:
  assumes "execute_stt_calls S rid request (Ok result) t"
  shows "sr_request_id result = rid"
proof -
  have "sr_request_id (stt_result_from_provider rid n pr) = rid" for n pr
    by (simp add: stt_result_from_provider_def)
  with assms show ?thesis by (auto simp: execute_stt_calls_def stt_attempts_calls_def) metis
qed

section \<open>Under a lease\<close>

text \<open>What a block that owns a guard leaves behind.\<close>

definition guarded_end ::
    "('r \<Rightarrow> completed_speech_operation) \<Rightarrow> idempotency_scope \<Rightarrow> idempotency_lease_id \<Rightarrow> request_id \<Rightarrow>
     ('r service_response, waveform_error) result \<times> operation_lease_guard \<Rightarrow> event list \<Rightarrow> bool" where
  "guarded_end completed k l rid rg t \<longleftrightarrow>
     (case rg of
        (Ok resp, g) \<Rightarrow> \<not> resp_replayed resp \<and> guard_release g = None \<and>
          response_request_id (completed (resp_result resp)) = rid \<and>
          lease_run (Owned k l rid) t = Some (Finished rid (completed (resp_result resp)))
      | (Err e, g) \<Rightarrow>
          guard_release g = None \<and>
            lease_run (Owned k l rid) t = Some (Settled (Some (waveform_error_code e))) \<or>
          g = guard_new k l \<and> lease_run (Owned k l rid) t = Some (Unstarted k l))"

lemma traces_fail_with:
  assumes "lease_run (Owned k l rid) t = Some ph"
    and "\<And>e. settles k l e \<noteq> None \<Longrightarrow> lease_step ph e = settles k l e"
  shows "traces (fail_with (logged S) (guard_new k l) e) (\<lambda>y u. guarded_end completed k l rid y (t @ u))"
proof -
  have "lease_step ph (EvRelease \<lparr>rl_failure_code = Some c, rl_scope = k, rl_lease_id = l\<rparr> x) =
      Some (Settled (Some c))" for c x
    by (subst assms(2)) (simp_all add: settles_def)
  then have "guarded_end completed k l rid (Err e, guard_disarm (guard_new k l))
      (t @ [EvRelease \<lparr>rl_failure_code = Some (waveform_error_code e), rl_scope = k, rl_lease_id = l\<rparr> x])" for x
    using assms(1) by (simp add: guarded_end_def guard_disarm_def lease_run_append)
  then show ?thesis
    by (auto simp: fail_with_def guard_fail_def guard_new_def release_ignoring_def
        intro!: traces_bind traces_log_call traces_return)
qed

lemma settles_steps:
  "settles k l e \<noteq> None \<Longrightarrow> lease_step (Owned k l rid) e = settles k l e"
  "settles k l e \<noteq> None \<Longrightarrow> lease_step (Working k l rid) e = settles k l e"
  "settles k l e \<noteq> None \<Longrightarrow> lease_step (Unfinished k l) e = settles k l e"
  by (auto simp: lease_step_def settles_def work_event_def split: event.splits)

lemma traces_complete:
  assumes "lease_run (Owned k l rid) t = Some (Working k l rid)"
    and "response_request_id (completed answer) = rid"
    and "completion k l (completed answer) = Ok c"
  shows "traces (State_Monad.bind (ip_complete (ws_idempotency (logged S)) c) (\<lambda>finished.
       case finished of
         Err e \<Rightarrow> fail_with (logged S) (guard_new k l) (map_idempotency_error e)
       | Ok _ \<Rightarrow> State_Monad.return (Ok (fresh_authorized answer actor), guard_disarm (guard_new k l))))
     (\<lambda>y u. guarded_end completed k l rid y (t @ u))"
proof -
  from assms(3) have c: "c = \<lparr>cm_scope = k, cm_lease_id = l, cm_response = completed answer\<rparr>"
    by (simp add: completion_def split: if_splits)
  have step: "lease_run (Owned k l rid) (t @ [EvComplete c r]) =
      Some (case r of Ok _ \<Rightarrow> Finished rid (completed answer) | Err _ \<Rightarrow> Unfinished k l)" for r
    using assms(1,2) by (simp add: lease_run_append lease_step_def c split: sum.split)
  have ok: "guarded_end completed k l rid (Ok (fresh_authorized answer actor), guard_disarm (guard_new k l))
      (t @ [EvComplete c (Ok x)])" for x
    using step [of "Ok x"] assms(2)
    by (simp add: guarded_end_def fresh_authorized_def guard_disarm_def)
  have err: "traces (fail_with (logged S) (guard_new k l) e)
      (\<lambda>y u. guarded_end completed k l rid y ((t @ [EvComplete c (Err x)]) @ u))" for e x
    by (rule traces_fail_with [where ph = "Unfinished k l"]) (use step [of "Err x"] settles_steps in auto)
  show ?thesis
    by (auto intro!: traces_bind traces_log_call traces_return split: sum.split
        simp: ok err [simplified])
qed

lemma traces_finish_under_lease:
  assumes work: "traces work W"
    and events: "\<And>r t e. W r t \<Longrightarrow> e \<in> set t \<Longrightarrow> work_event rid e"
    and answers: "\<And>x t. W (Ok x) t \<Longrightarrow> response_request_id (completed x) = rid"
    and job: "js_scope job = k" "js_lease_id job = l"
    and start: "lease_run (Owned k l rid) t = Some (Owned k l rid)"
  shows "traces (finish_under_lease (logged S) (guard_new k l) k l actor job work completed)
     (\<lambda>y u. guarded_end completed k l rid y (t @ u))"
proof -
  have running: "lease_run (Owned k l rid) (t @ [EvStartJob job r]) =
      Some (case r of Ok _ \<Rightarrow> Working k l rid | Err _ \<Rightarrow> Unstarted k l)" for r
    using start job by (simp add: lease_run_append lease_step_def)
  have unstarted: "guarded_end completed k l rid (Err e, guard_new k l) (t @ [EvStartJob job (Err x)])" for e x
    using running [of "Err x"] by (simp add: guarded_end_def)
  have worked: "lease_run (Owned k l rid) (t @ EvStartJob job (Ok x) # u) = Some (Working k l rid)"
    if "W r u" for r u x
  proof -
    have "lease_run (Owned k l rid) ((t @ [EvStartJob job (Ok x)]) @ u) = Some (Working k l rid)"
      using events [OF that] by (subst lease_run_append) (simp add: running lease_run_work)
    then show ?thesis by simp
  qed
  have failed: "traces (fail_with (logged S) (guard_new k l) e)
      (\<lambda>y v. guarded_end completed k l rid y ((t @ EvStartJob job (Ok x) # u) @ v))" if "W r u" for r u x e
    by (rule traces_fail_with [OF worked [OF that] settles_steps(2)])
  have completes: "traces (case completion k l (completed answer) of
        Err e \<Rightarrow> fail_with (logged S) (guard_new k l) e
      | Ok c \<Rightarrow> State_Monad.bind (ip_complete (ws_idempotency (logged S)) c) (\<lambda>finished.
          case finished of
            Err e \<Rightarrow> fail_with (logged S) (guard_new k l) (map_idempotency_error e)
          | Ok _ \<Rightarrow> State_Monad.return (Ok (fresh_authorized answer actor), guard_disarm (guard_new k l))))
      (\<lambda>y v. guarded_end completed k l rid y ((t @ EvStartJob job (Ok x) # u) @ v))"
    if w: "W (Ok answer) u" for answer u x
  proof (cases "completion k l (completed answer)")
    case (Inl e)
    then show ?thesis using failed [OF w] by simp
  next
    case (Inr c)
    then show ?thesis using traces_complete [where completed = completed, OF worked [OF w] answers [OF w] Inr] by simp
  qed
  have works: "traces (State_Monad.bind work (\<lambda>r. case r of
        Err e \<Rightarrow> fail_with (logged S) (guard_new k l) e
      | Ok answer \<Rightarrow> (case completion k l (completed answer) of
          Err e \<Rightarrow> fail_with (logged S) (guard_new k l) e
        | Ok c \<Rightarrow> State_Monad.bind (ip_complete (ws_idempotency (logged S)) c) (\<lambda>finished.
            case finished of
              Err e \<Rightarrow> fail_with (logged S) (guard_new k l) (map_idempotency_error e)
            | Ok _ \<Rightarrow> State_Monad.return (Ok (fresh_authorized answer actor), guard_disarm (guard_new k l))))))
      (\<lambda>y v. guarded_end completed k l rid y (t @ EvStartJob job (Ok x) # v))" for x
    apply (rule traces_bind, rule traces_conseq [OF work])
    subgoal for r u
      by (cases r) (use failed [of r u] completes [of _ u] in \<open>simp_all del: logged_simps\<close>)
    done
  show ?thesis unfolding finish_under_lease_def
    by (auto intro!: traces_bind [of "log_call _ _"] traces_log_call traces_return split: sum.split
        simp: unstarted works [simplified])
qed

section \<open>Whole requests\<close>

definition follows_protocol ::
    "('r \<Rightarrow> completed_speech_operation) \<Rightarrow> ('r service_response, waveform_error) result \<Rightarrow> event list \<Rightarrow> bool" where
  "follows_protocol completed r t \<longleftrightarrow>
     (\<exists>ph. lease_run Unclaimed t = Some ph \<and> lease_settled completed r ph)"

lemma traces_drop_guard:
  assumes m: "traces m (guarded_end completed k l rid)"
    and start: "lease_run Unclaimed t = Some (Owned k l rid)"
  shows "traces (drop_guard_of (logged S) m) (\<lambda>r u. follows_protocol completed r (t @ u))"
  unfolding drop_guard_of_def
proof (rule traces_bind, rule traces_conseq [OF m], clarify)
  fix r g u
  assume u: "guarded_end completed k l rid (r, g) u"
  have drop: "lease_step (Unstarted k l) (EvSpawnRelease \<lparr>rl_failure_code = None, rl_scope = k, rl_lease_id = l\<rparr>)
      = Some (Settled None)"
    by (simp add: lease_step_def)
  show "traces (State_Monad.bind (guard_drop (logged S) g) (\<lambda>_. State_Monad.return r))
      (\<lambda>r v. follows_protocol completed r (t @ u @ v))"
    using u start drop
    by (cases r; cases "guard_release g")
      (auto simp: guard_drop_def guarded_end_def guard_new_def follows_protocol_def lease_run_append
        lease_settled_def intro!: traces_bind traces_log_call traces_return)
qed

lemma traces_complete_provider_order:
  assumes "\<And>r t. \<forall>e \<in> set t. preparing_event e \<Longrightarrow> Q r t"
  shows "traces (complete_provider_order (logged S) actor operation requested) Q"
proof -
  have "preparing_event (EvProviderOrder operation)" by (simp add: preparing_event_def)
  then show ?thesis unfolding complete_provider_order_def
    by (cases "ws_provider_orders S")
      (auto intro!: traces_try_call traces_log_call traces_done_with traces_lift_result traces_throw
        assms split: sum.split)
qed

lemma traces_for_actor:
  assumes "\<And>e t. \<forall>e \<in> set t. preparing_event e \<Longrightarrow> Q (Err e) t"
    and "\<And>S' t. \<forall>e \<in> set t. preparing_event e \<Longrightarrow> ws_policy S' = ws_policy S \<Longrightarrow> Q (Ok (logged S')) t"
  shows "traces (for_actor (logged S) actor request_keys) Q"
proof -
  have load: "preparing_event EvLoadKeys" by (simp add: preparing_event_def)
  have final: "Q (and_then (keyed_tts keys (map logged_tts (ws_tts_providers S))) (\<lambda>tts.
        map_ok (\<lambda>stt. logged S\<lparr>ws_tts_providers := tts, ws_stt_providers := stt\<rparr>)
          (keyed_stt keys (map logged_stt (ws_stt_providers S))))) t"
    if "\<forall>e \<in> set t. preparing_event e" for keys t
  proof (cases "keyed_tts keys (ws_tts_providers S)"; cases "keyed_stt keys (ws_stt_providers S)")
    fix tts stt
    assume k: "keyed_tts keys (ws_tts_providers S) = Ok tts" "keyed_stt keys (ws_stt_providers S) = Ok stt"
    have "logged S\<lparr>ws_tts_providers := map logged_tts tts, ws_stt_providers := map logged_stt stt\<rparr> =
        logged (S\<lparr>ws_tts_providers := tts, ws_stt_providers := stt\<rparr>)"
      by (simp add: logged_def)
    with k assms(2) [OF that, of "S\<lparr>ws_tts_providers := tts, ws_stt_providers := stt\<rparr>"] show ?thesis
      by (simp add: keyed_tts_logged keyed_stt_logged)
  qed (use assms(1) [OF that] in \<open>auto simp: keyed_tts_logged keyed_stt_logged\<close>)
  show ?thesis unfolding for_actor_def
    by (cases "ws_provider_keys S")
      (auto simp: Let_def load map_err_Err_iff intro!: traces_try_call traces_on_err traces_log_call
        traces_done_with traces_lift_result final assms(1) split: sum.split)
qed

lemma traces_claim_scope:
  assumes "\<And>c x. cl_scope c = scope \<Longrightarrow> Q (map_err map_idempotency_error x) [EvClaim c x]"
  shows "traces (claim_scope (logged S) scope digest candidate) Q"
  unfolding claim_scope_def
  using assms by (auto intro!: traces_bind traces_unlogged traces_on_err traces_log_call)

lemma follows_protocol_prepare:
  "\<forall>e \<in> set t. preparing_event e \<Longrightarrow> follows_protocol completed (Err e) t"
  by (simp add: follows_protocol_def lease_run_prepare lease_settled_def)

lemma lease_run_claim:
  "\<forall>e \<in> set t. preparing_event e \<Longrightarrow>
     lease_run Unclaimed (t @ [EvClaim c x]) = Some (after_claim c x)"
  by (simp add: lease_run_append lease_run_prepare) (simp add: lease_step_def)

lemma follows_protocol_claim_failed:
  assumes "\<forall>e \<in> set t. preparing_event e"
    and "after_claim c x = Refused \<or> (\<exists>completed. after_claim c x = Replaying completed)"
  shows "follows_protocol completed (Err e) (t @ [EvClaim c x])"
  using assms by (auto simp: follows_protocol_def lease_run_claim lease_settled_def)

lemma follows_protocol_replay:
  assumes "\<forall>e \<in> set t. preparing_event e" and "\<forall>e \<in> set u. replay_event e"
  shows "follows_protocol completed (Err e) (t @ [EvClaim c (Ok (Replay stored))] @ u)"
    and "completed result = stored \<Longrightarrow>
      follows_protocol completed (Ok (replayed_response result)) (t @ [EvClaim c (Ok (Replay stored))] @ u)"
proof -
  have "lease_run Unclaimed ((t @ [EvClaim c (Ok (Replay stored))]) @ u) = Some (Replaying stored)"
    using assms by (simp only: lease_run_append [of _ "_ @ [_]"] lease_run_claim)
      (simp add: after_claim_def lease_run_replay)
  then show "follows_protocol completed (Err e) (t @ [EvClaim c (Ok (Replay stored))] @ u)"
    and "completed result = stored \<Longrightarrow>
      follows_protocol completed (Ok (replayed_response result)) (t @ [EvClaim c (Ok (Replay stored))] @ u)"
    by (auto simp: follows_protocol_def lease_settled_def replayed_response_def)
qed

lemma renewed_calls_replay:
  assumes "renewed_calls token p (\<lambda>p. EvVerify (q p)) r t"
  shows "\<forall>e \<in> set t. replay_event e"
  by (auto elim!: renewed_calls_events [OF assms] simp: replay_event_def)

lemma traces_replay_tts:
  assumes "\<And>e t. \<forall>e \<in> set t. replay_event e \<Longrightarrow> Q (Err e) t"
    and "\<And>t. \<forall>e \<in> set t. replay_event e \<Longrightarrow> Q (Ok (into_result completed)) t"
  shows "traces (replay_tts (logged S) attempt authorization token completed) Q"
proof -
  have ev: "replay_event (EvProof tok x)" "replay_event (EvIsHeld rid owner y)" for tok x rid owner y
    by (simp_all add: replay_event_def)
  have verify: "traces (try_call (on_err map_renewal_error
        (with_renewal (logged S) authorization token p (\<lambda>p. log_call (EvVerify (q p)) (operation p))))
        (\<lambda>_. done_with (into_result completed)))
      (\<lambda>y u. Q y (EvProof tok x # u))" for p q operation tok x
    by (intro traces_try_call traces_on_err traces_with_renewal)
      (auto dest!: renewed_calls_replay intro!: traces_done_with assms simp: ev split: sum.split)
  show ?thesis
  proof (cases "co_storage completed")
    case (Briefcase f)
    then show ?thesis unfolding replay_tts_def
      using verify
      by (auto intro!: traces_try_call [of "briefcase_authority _ _ _"] traces_briefcase_authority assms
          simp: ev split: sum.split)
  next
    case (Held reason url until)
    then show ?thesis unfolding replay_tts_def
      by (auto intro!: traces_try_call traces_on_err traces_log_call traces_throw traces_done_with assms
          simp: ev split: sum.split)
  qed
qed

lemma traces_tts_under_lease:
  assumes "sc_operation k = speech_operation.Tts"
  shows "traces (tts_under_lease C (logged S) (logged S') (guard_new k l) k l rid started authorization
        token request)
     (guarded_end (\<lambda>r. completed_speech_operation.Tts (from_result r)) k l rid)"
proof -
  let ?completed = "\<lambda>r. completed_speech_operation.Tts (from_result r)"
  have voice: "lease_run (Owned k l rid) [EvResolveVoice] = Some (Owned k l rid)"
    by (simp add: lease_step_def)
  have ids: "response_request_id (?completed x) = rid"
    if "execute_tts_calls C S' rid started authorization request (Ok x) t" for x t request
    using execute_tts_calls_request_id [OF that] by (simp add: response_request_id_def from_result_def)
  have finish: "traces (finish_under_lease (logged S) (guard_new k l) k l (aa_actor authorization)
       \<lparr>js_voice_profile = map_option voice_profile_ref_from (tq_resolved_voice request),
        js_scope = k, js_issuing_app = originating_application authorization,
        js_lease_id = l, js_first_line = first_line_chars 512 (speech_str (tq_text request))\<rparr>
       (execute_tts C (logged S') rid started authorization token request) ?completed)
     (\<lambda>y u. guarded_end ?completed k l rid y (t @ u))"
    if "lease_run (Owned k l rid) t = Some (Owned k l rid)" for t request
    by (rule traces_finish_under_lease [OF traces_execute_tts])
      (use that ids execute_tts_calls_work in auto)
  have fail: "traces (fail_with (logged S) (guard_new k l) e)
     (\<lambda>y u. guarded_end ?completed k l rid y (t @ u))"
    if "lease_run (Owned k l rid) t = Some (Owned k l rid)" for t e
    by (rule traces_fail_with [OF that settles_steps(1)])
  show ?thesis
    unfolding tts_under_lease_def resolve_voice_def
    using finish [of "[]"] finish [OF voice, of "request\<lparr>tq_resolved_voice := Some v\<rparr>" for v] fail [of "[]"] fail [OF voice]
    by (cases "ws_voice_profiles S")
      (auto intro!: traces_bind [of "try_call _ _"] traces_bind [of "throw _"] traces_bind [of "done_with _"]
        traces_try_call [of "log_call _ _"] traces_log_call traces_throw traces_done_with split: sum.split)
qed

lemma sc_operation_scope_of [simp]: "sc_operation (scope_of authorization operation context) = operation"
  by (simp add: scope_of_def)

lemma from_result_into_result [simp]: "from_result (into_result c) = c"
  by (simp add: from_result_def into_result_def tts_result_new_def)

lemma follows_protocol_lease:
  assumes "\<forall>e \<in> set t. preparing_event e" "cl_scope c = k"
    and "traces m (guarded_end completed k (lease_id lease) rid)"
  shows "traces (drop_guard_of (logged S) m)
     (\<lambda>r u. follows_protocol completed r (t @ EvClaim c (Ok (Acquired lease rid started)) # u))"
proof -
  have "lease_run Unclaimed (t @ [EvClaim c (Ok (Acquired lease rid started))]) =
      Some (Owned k (lease_id lease) rid)"
    using assms(1,2) by (simp add: lease_run_claim after_claim_def)
  from traces_drop_guard [OF assms(3) this] show ?thesis by simp
qed

lemma traces_decide:
  assumes prep: "\<forall>e \<in> set t. preparing_event e"
    and acquired: "\<And>lease rid started. traces (acquired lease rid started)
      (guarded_end completed scope (lease_id lease) rid)"
    and replay: "\<And>stored c. traces (replay stored)
      (\<lambda>r u. follows_protocol completed r (t @ [EvClaim c (Ok (Replay stored))] @ u))"
  shows "traces (try_call (claim_scope (logged S) scope digest candidate) (\<lambda>decision.
       case decision of
         Acquired lease rid started \<Rightarrow> drop_guard_of (logged S) (acquired lease rid started)
       | Replay stored \<Rightarrow> replay stored
       | KeyReused \<Rightarrow> throw IdempotencyKeyReused
       | InProgress retry_after \<Rightarrow> throw (RequestInProgress retry_after)))
     (\<lambda>r u. follows_protocol completed r (t @ u))"
proof (rule traces_try_call, rule traces_claim_scope)
  fix c :: idempotency_claim and x
  assume c: "cl_scope c = scope"
  let ?P = "\<lambda>r u. follows_protocol completed r (t @ [EvClaim c x] @ u)"
  have refused: "follows_protocol completed (Err e) (t @ [EvClaim c x])"
    if "after_claim c x = Refused" for e
    using that by (intro follows_protocol_claim_failed prep) simp
  show "case map_err map_idempotency_error x of
      Err e \<Rightarrow> follows_protocol completed (Err e) (t @ [EvClaim c x])
    | Ok decision \<Rightarrow> traces (case decision of
         Acquired lease rid started \<Rightarrow> drop_guard_of (logged S) (acquired lease rid started)
       | Replay stored \<Rightarrow> replay stored
       | KeyReused \<Rightarrow> throw IdempotencyKeyReused
       | InProgress retry_after \<Rightarrow> throw (RequestInProgress retry_after)) ?P"
  proof (cases x)
    case (Inl e)
    then show ?thesis using refused by (simp add: after_claim_def)
  next
    case (Inr decision)
    then show ?thesis
      using refused replay follows_protocol_lease [OF prep c acquired]
      by (cases decision) (auto simp: after_claim_def intro!: traces_throw)
  qed
qed

lemma traces_prepared:
  assumes "\<And>r t. \<forall>e \<in> set t. preparing_event e \<Longrightarrow>
     case r of Err e \<Rightarrow> Q (Err e) t | Ok x \<Rightarrow> traces (f x) (\<lambda>y u. Q y (t @ u))"
  shows "traces (try_call (complete_provider_order (logged S) actor operation requested) f) Q"
  by (rule traces_try_call, rule traces_complete_provider_order) (rule assms)

text \<open>
  C1: every text-to-speech request follows the lease protocol, whatever Silicon Accounts, the
  stores, Briefcase, the normalizer and the providers answer. Nothing is synthesized, stored or
  held before the request owns a lease and its history row was started, and all of it carries
  the canonical request id. An owned lease ends in exactly one way: a completion the store
  accepted, a release with the code of the error the caller gets, or the release a dropped guard
  spawns when the history row could not be started. A fresh answer is given exactly when the store
  accepted the completion with that result, a replayed one exactly when the store replayed it,
  after nothing but checks of the caller's current access.
\<close>

theorem synthesize_follows_lease_protocol:
  "traces (synthesize_authorized C (logged S) context request authorization)
     (follows_protocol (\<lambda>r. completed_speech_operation.Tts (from_result r)))"
proof -
  let ?completed = "\<lambda>r. completed_speech_operation.Tts (from_result r)"
  let ?P = "follows_protocol ?completed"
  have replay: "traces (case stored of
        completed_speech_operation.Tts completed \<Rightarrow>
          try_call (replay_tts (logged S) (cx_request_id context) authorization
              (subject_token (cx_credentials context)) completed)
            (\<lambda>result. done_with (replayed_response result))
      | completed_speech_operation.Stt _ \<Rightarrow> throw Internal)
      (\<lambda>r u. ?P r (t @ [EvClaim c (Ok (Replay stored))] @ u))"
    if "\<forall>e \<in> set t. preparing_event e" for t stored c
    using follows_protocol_replay [OF that, where completed = ?completed]
      follows_protocol_replay(1) [OF that, of "[]", where completed = ?completed]
    by (cases stored) (auto intro!: traces_try_call traces_replay_tts traces_done_with traces_throw)
  note decide = traces_decide [OF _ traces_tts_under_lease replay]
  have actor: "traces (try_call (for_actor (logged S) authorization ks) f) (\<lambda>r u. ?P r (t @ u))"
    if "\<forall>e \<in> set t. preparing_event e"
      and "\<And>S' u. \<forall>e \<in> set u. preparing_event e \<Longrightarrow>
        traces (f (logged S')) (\<lambda>r v. ?P r ((t @ u) @ v))" for t ks f
    using that by (intro traces_try_call traces_for_actor) (auto intro!: follows_protocol_prepare)
  show ?thesis
    unfolding synthesize_authorized_def Let_def
    by (auto intro!: traces_if traces_throw traces_prepared traces_lift_result actor decide
          traces_try_call [of "lift_result _"]
        simp: follows_protocol_prepare split: sum.split)
qed

lemma traces_replay_stt:
  assumes "\<And>e t. \<forall>e \<in> set t. replay_event e \<Longrightarrow> Q (Err e) t"
    and "\<And>t. \<forall>e \<in> set t. replay_event e \<Longrightarrow> Q (Ok (replayed_response result)) t"
  shows "traces (replay_stt (logged S) context authorization request result) Q"
proof -
  have ev: "replay_event (EvProof tok x)" "replay_event (EvVerify q y)" for tok x q y
    by (simp_all add: replay_event_def)
  show ?thesis unfolding replay_stt_def
    by (auto intro!: traces_try_call traces_briefcase_authority traces_on_err traces_log_call
        traces_done_with assms simp: ev split: sum.split)
qed

text \<open>
  Every speech-to-text request follows the same protocol: no media is read and no provider
  called before the request owns a lease and its history row was started, the lease ends in
  exactly one way, and the answer is the stored result, fresh or replayed.
\<close>

theorem transcribe_follows_lease_protocol:
  "traces (transcribe_authorized C (logged S) context request authorization)
     (follows_protocol completed_speech_operation.Stt)"
proof -
  let ?P = "follows_protocol completed_speech_operation.Stt"
  have replay: "traces (case stored of
        completed_speech_operation.Tts _ \<Rightarrow> throw Internal
      | completed_speech_operation.Stt result \<Rightarrow>
          replay_stt (logged S) context authorization request result)
      (\<lambda>r u. ?P r (t @ [EvClaim c (Ok (Replay stored))] @ u))"
    if "\<forall>e \<in> set t. preparing_event e" for t stored c request
    using follows_protocol_replay [OF that, where completed = completed_speech_operation.Stt]
      follows_protocol_replay(1) [OF that, of "[]", where completed = completed_speech_operation.Stt]
    by (cases stored) (auto intro!: traces_replay_stt traces_throw)
  have work: "traces (finish_under_lease (logged S) (guard_new k l) k l actor
       \<lparr>js_voice_profile = None, js_scope = k, js_issuing_app = app, js_lease_id = l, js_first_line = []\<rparr>
       (execute_stt (logged S') rid authorization token request) completed_speech_operation.Stt)
     (guarded_end completed_speech_operation.Stt k l rid)" for k l actor app S' rid token request
    by (rule traces_finish_under_lease [OF traces_execute_stt, where t = "[]", simplified append_Nil])
      (auto dest: execute_stt_calls_work execute_stt_calls_request_id simp: response_request_id_def)
  note decide = traces_decide [OF _ work replay]
  have actor: "traces (try_call (for_actor (logged S) authorization ks) f) (\<lambda>r u. ?P r (t @ u))"
    if "\<forall>e \<in> set t. preparing_event e"
      and "\<And>S' u. \<forall>e \<in> set u. preparing_event e \<Longrightarrow>
        traces (f (logged S')) (\<lambda>r v. ?P r ((t @ u) @ v))" for t ks f
    using that by (intro traces_try_call traces_for_actor) (auto intro!: follows_protocol_prepare)
  show ?thesis
    unfolding transcribe_authorized_def Let_def
    by (auto intro!: traces_if traces_throw traces_prepared actor decide
        simp: follows_protocol_prepare split: sum.split)
qed

end
