(* ===== verification/Service_Properties.thy ===== *)
theory Service_Properties
  imports Service_Protocol
begin

text \<open>
  What the two workflows guarantee beyond the lease protocol: what stands behind an answer, which
  providers are tried, when Briefcase is involved, and that the service's own checks make its
  indexing and its provider lookups safe.
\<close>

section \<open>Construction\<close>

lemma service_policy_new_Ok_iff:
  "service_policy_new C lease limit origin max_chars digest_key base = Ok p \<longleftrightarrow>
     0 < lease \<and> sv_time_duration C lease \<and> 1 \<le> max_chars \<and> max_chars \<le> 4096 \<and>
     url_scheme base \<in> {''http'', ''https''} \<and> url_host base \<noteq> None \<and> url_query base = None \<and>
     p = \<lparr>pol_lease_duration = lease, pol_source_media_size_limit = limit,
          pol_briefcase_origin = origin, pol_max_text_chars = max_chars,
          pol_request_digest_key = digest_key, pol_public_base_url = base\<rparr>"
  by (auto simp: service_policy_new_def MAX_TTS_TEXT_CHARACTERS_def)

lemma waveform_service_new_Ok_iff:
  "waveform_service_new ports = Ok S \<longleftrightarrow>
     map tts_name (ws_tts_providers ports) = TTS_PROVIDER_CHAIN \<and>
     map stt_name (ws_stt_providers ports) = STT_PROVIDER_CHAIN \<and>
     S = ports\<lparr>ws_provider_keys := None, ws_voice_profiles := None, ws_provider_orders := None\<rparr>"
  by (auto simp: waveform_service_new_def Let_def)

lemma trim_end_slashes_last: "trim_end_slashes s \<noteq> [] \<Longrightarrow> last (trim_end_slashes s) \<noteq> CHR ''/''"
  using hd_dropWhile [of "\<lambda>c. c = CHR ''/''" "rev s"] by (auto simp: trim_end_slashes_def last_rev)

text \<open>Request keys take the place of the account's saved keys.\<close>

lemma insert_request_keys_apply:
  "insert_request_keys ks saved p = (case key_map ks p of Some key \<Rightarrow> Some key | None \<Rightarrow> saved p)"
proof -
  have fold: "fold (\<lambda>(p, key) keys. keys(p \<mapsto> key)) xs m p =
      (case map_of (rev xs) p of Some key \<Rightarrow> Some key | None \<Rightarrow> m p)" for xs m
    by (induction xs arbitrary: m) (auto simp: map_add_def split: option.splits)
  have "distinct (map fst (keys_iter ks))"
    by (simp add: keys_iter_def keys_iter_order_def map_filter_simps split: option.splits)
  then have "distinct (map fst (rev (keys_iter ks)))" by (simp add: rev_map [symmetric])
  then have "map_of (rev (keys_iter ks)) p = Some key \<longleftrightarrow> key_map ks p = Some key" for key
    by (auto simp: map_of_eq_Some_iff keys_iter_set)
  then have "map_of (rev (keys_iter ks)) p = key_map ks p" by (metis not_Some_eq)
  then show ?thesis by (simp add: insert_request_keys_def fold)
qed

lemma keyed_tts_Ok:
  "keyed_tts keys ps = Ok qs \<Longrightarrow>
     list_all2 (\<lambda>p q. case keys (tts_name p) of
         Some key \<Rightarrow> tts_with_api_key p key = Some q | None \<Rightarrow> q = p) ps qs"
  by (induction ps arbitrary: qs)
    (auto simp: and_then_Ok_iff map_ok_Ok_iff split: option.splits elim!: list_all2_mono)

section \<open>Provider orders\<close>

lemma complete_provider_order_Ok:
  assumes "run_state (complete_provider_order S actor operation requested) w = (Ok order, w')"
  shows "length order = 3 \<and> distinct order \<and> requested \<noteq> Some [] \<and>
    (\<forall>r. requested = Some r \<longrightarrow> prefix r order) \<and>
    (ws_provider_orders S = None \<longrightarrow>
       resolve_order (case requested of Some r \<Rightarrow> r | None \<Rightarrow> []) (chain_of operation) = Some order)"
proof -
  have chain: "length (chain_of operation) = 3"
    by (cases operation) (simp_all add: chain_of_def TTS_PROVIDER_CHAIN_def STT_PROVIDER_CHAIN_def)
  from assms obtain base where base: "resolve_order (case requested of Some r \<Rightarrow> r | None \<Rightarrow> []) base = Some order"
    and len: "length order = length (chain_of operation)" and req: "requested \<noteq> Some []"
    and none: "ws_provider_orders S = None \<longrightarrow> base = chain_of operation"
    by (cases "ws_provider_orders S")
      (auto simp: complete_provider_order_def run_simps split: sum.splits prod.splits option.splits if_splits)
  from base have order: "distinct order" "order = push_base (case requested of Some r \<Rightarrow> r | None \<Rightarrow> []) base"
    by (auto simp: resolve_order_eq push_base_distinct split: if_splits)
  moreover from order(2) obtain rest where "order = (case requested of Some r \<Rightarrow> r | None \<Rightarrow> []) @ rest"
    using push_base_prefix by metis
  ultimately have "distinct order" "\<exists>rest. order = (case requested of Some r \<Rightarrow> r | None \<Rightarrow> []) @ rest"
    by blast+
  with base len req none chain show ?thesis by (auto simp: prefix_def)
qed

text \<open>
  The order a request is executed with is never empty, so taking its first provider is safe.
  Whatever the account's saved order is, an accepted order has exactly three different providers
  and starts with the caller's explicit preference, which is not empty; without saved orders it is
  the documented chain completed after that preference.
\<close>

theorem accepted_provider_order:
  assumes "run_state (complete_provider_order S actor operation requested) w = (Ok order, w')"
  shows "length order = 3 \<and> distinct order \<and> (\<forall>r. requested = Some r \<longrightarrow> r \<noteq> [] \<and> prefix r order) \<and>
    (ws_provider_orders S = None \<longrightarrow> set order = set (chain_of operation) \<and>
       order = (case requested of Some r \<Rightarrow> r | None \<Rightarrow> []) @
         filter (\<lambda>p. p \<notin> set (case requested of Some r \<Rightarrow> r | None \<Rightarrow> [])) (chain_of operation))"
proof -
  note order = complete_provider_order_Ok [OF assms]
  have "distinct (chain_of operation)"
    by (cases operation) (simp_all add: chain_of_def TTS_PROVIDER_CHAIN_def STT_PROVIDER_CHAIN_def)
  with order show ?thesis
    by (auto simp: resolve_order_eq push_base_filter split: if_splits option.splits)
qed

section \<open>Text to speech\<close>

lemma tts_attempts_calls_tried:
  assumes "tts_attempts_calls S rid request (attempt_order request order) r t"
  shows "prefix (tried t) order \<and> (\<not> tq_auto_fallback request \<longrightarrow> length (tried t) \<le> 1)"
proof -
  have "prefix (tried t) (attempt_order request order)" using assms by (simp add: tts_attempts_calls_def)
  then show ?thesis
    by (auto simp: attempt_order_def split: if_splits dest: prefix_length_le
        intro: prefix_order.trans [OF _ take_is_prefix])
qed

lemma stored_calls_tried:
  assumes "stored_calls C policy authorization filename audio rid r t"
  shows "tried t = []"
proof -
  have "\<forall>e \<in> set t. attempted e = None"
    using assms by (auto simp: stored_calls_def storing_event_def attempted_def split: event.splits)
  then show ?thesis by (induction t) auto
qed

lemma stored_calls_no_attempt:
  assumes "stored_calls C policy authorization filename audio rid r t"
  shows "EvSynthesize n q rid' x \<notin> set t"
  using assms by (auto simp: stored_calls_def storing_event_def)

text \<open>
  Text to speech tries providers in the accepted order and stops where it should. The
  providers called are a prefix of the request's order; without \<open>auto_fallback\<close> there is at most
  one; each of them receives exactly the part of the request that is meant for it.
\<close>

theorem tts_tries_providers_in_order:
  "traces (execute_tts C (logged S) rid started authorization token request)
     (\<lambda>r t. \<forall>order. resolve_order (requested_order request) TTS_PROVIDER_CHAIN = Some order \<longrightarrow>
        prefix (tried t) order \<and>
        (\<not> tq_auto_fallback request \<longrightarrow> length (tried t) \<le> 1) \<and>
        (\<forall>n q rid' x. EvSynthesize n q rid' x \<in> set t \<longrightarrow>
           rid' = rid \<and> q = tts_provider_request_for request n))"
proof (rule traces_conseq [OF traces_execute_tts], intro allI impI)
  fix r t order
  assume calls: "execute_tts_calls C S rid started authorization request r t"
    and order: "resolve_order (requested_order request) TTS_PROVIDER_CHAIN = Some order"
  have attempts: "prefix (tried t1) order \<and> (\<not> tq_auto_fallback request \<longrightarrow> length (tried t1) \<le> 1) \<and>
      (\<forall>n q rid' x. EvSynthesize n q rid' x \<in> set t1 \<longrightarrow>
         rid' = rid \<and> q = tts_provider_request_for request n)"
    if "tts_attempts_calls S rid request (attempt_order request order) r1 t1" for r1 t1
    using tts_attempts_calls_tried [OF that] that
    by (auto simp: tts_attempts_calls_def tts_attempt_event_def)
  from calls show "prefix (tried t) order \<and> (\<not> tq_auto_fallback request \<longrightarrow> length (tried t) \<le> 1) \<and>
      (\<forall>n q rid' x. EvSynthesize n q rid' x \<in> set t \<longrightarrow>
         rid' = rid \<and> q = tts_provider_request_for request n)"
  proof (cases rule: execute_tts_calls_cases)
    case (4 order' n audio t1 t2 storage)
    with order attempts [of "Ok (Some (n, audio))" t1] stored_calls_tried [OF 4(4)]
      stored_calls_no_attempt [OF 4(4)] show ?thesis by auto
  qed (use order attempts in auto)
qed

text \<open>
  C10: an answer is backed by stored audio. When text to speech succeeds, some provider was called
  with the request and answered an artifact, the normalizer turned exactly that artifact into
  audio, and exactly that audio, under the request's file name and canonical id, was accepted by
  Briefcase at the answered URL, or by Waveform's own store for this account with the answered
  reason and expiry at the request's own audio URL. The answer names that provider and duration.
\<close>

theorem tts_answer_is_backed:
  "traces (execute_tts C (logged S) rid started authorization token request)
     (\<lambda>r t. \<forall>result. r = Ok result \<longrightarrow>
        (\<exists>n art audio.
           EvSynthesize n (tts_provider_request_for request n) rid (Ok art) \<in> set t \<and>
           EvNormalize art rid (Ok audio) \<in> set t \<and>
           result = tts_answer rid request n audio (tr_storage result) \<and>
           stored_as C (ws_policy S) authorization (for_request (sv_uuid C) (sv_utc C) started rid)
             audio rid t (tr_storage result)))"
proof (rule traces_conseq [OF traces_execute_tts], intro allI impI)
  fix r t result
  assume calls: "execute_tts_calls C S rid started authorization request r t" and r: "r = Ok result"
  from calls show "\<exists>n art audio.
           EvSynthesize n (tts_provider_request_for request n) rid (Ok art) \<in> set t \<and>
           EvNormalize art rid (Ok audio) \<in> set t \<and>
           result = tts_answer rid request n audio (tr_storage result) \<and>
           stored_as C (ws_policy S) authorization (for_request (sv_uuid C) (sv_utc C) started rid)
             audio rid t (tr_storage result)"
  proof (cases rule: execute_tts_calls_cases)
    case (4 order n audio t1 t2 storage)
    from 4(3) obtain art where
      art: "EvSynthesize n (tts_provider_request_for request n) rid (Ok art) \<in> set t1"
        "EvNormalize art rid (Ok audio) \<in> set t1"
      by (auto simp: tts_attempts_calls_def)
    from r 4(5) obtain st where st: "storage = Ok st" "result = tts_answer rid request n audio st"
      by (cases storage) auto
    then have "tr_storage result = st" by (simp add: tts_answer_def)
    moreover have "stored_as C (ws_policy S) authorization (for_request (sv_uuid C) (sv_utc C) started rid)
        audio rid t st"
      using 4(4) st(1) 4(2) by (auto simp: stored_calls_def stored_as_def split: audio_storage.splits)
    ultimately show ?thesis using art st(2) 4(2) by auto
  qed (use r in simp_all)
qed

lemma stored_calls_not_normalized:
  "stored_calls C policy authorization filename audio rid r t \<Longrightarrow> \<not> normalized_in t"
  by (auto simp: stored_calls_def storing_event_def normalized_in_def)

text \<open>
  Once a provider's audio is ready, only Waveform's own audio store can fail the request.
  Whatever Briefcase and Silicon Accounts answer, a failure after a successful normalization is
  \<open>DependencyUnavailable AudioStore\<close> and that store really refused the audio; every other failure
  is of the providers, the normalizer or the requested order and never asks for storage approval.
\<close>

theorem storage_never_fails_speech:
  "traces (execute_tts C (logged S) rid started authorization token request)
     (\<lambda>r t. \<forall>e. r = Err e \<longrightarrow>
        (if normalized_in t
         then e = DependencyUnavailable AudioStore \<and> (\<exists>h x. EvHold h (Err x) \<in> set t)
         else (\<exists>failure. e = ProviderFailed failure \<and> \<not> tq_auto_fallback request) \<or>
           e \<in> {InvalidRequest, ProvidersExhausted, Internal, DependencyUnavailable AudioNormalizer,
                DependencyTimeout AudioNormalizer}))"
proof (rule traces_conseq [OF traces_execute_tts], intro allI impI)
  fix r t e
  assume calls: "execute_tts_calls C S rid started authorization request r t" and r: "r = Err e"
  have failed: "\<not> normalized_in t1 \<and> tts_attempt_error S names request e"
    if "tts_attempts_calls S rid request names (Err e) t1" for names t1
    using that by (simp add: tts_attempts_calls_def)
  from calls show "if normalized_in t
      then e = DependencyUnavailable AudioStore \<and> (\<exists>h x. EvHold h (Err x) \<in> set t)
      else (\<exists>failure. e = ProviderFailed failure \<and> \<not> tq_auto_fallback request) \<or>
        e \<in> {InvalidRequest, ProvidersExhausted, Internal, DependencyUnavailable AudioNormalizer,
             DependencyTimeout AudioNormalizer}"
  proof (cases rule: execute_tts_calls_cases)
    case 1
    with r show ?thesis by (simp add: normalized_in_def)
  next
    case (2 order e')
    with r failed show ?thesis by (auto simp: tts_attempt_error_def)
  next
    case (3 order)
    with r show ?thesis by (simp add: tts_attempts_calls_def)
  next
    case (4 order n audio t1 t2 storage)
    then have "normalized_in t" by (auto simp: tts_attempts_calls_def normalized_in_def)
    moreover from r 4(5) have "storage = Err e" by (cases storage) auto
    ultimately show ?thesis using 4(2,4) by (auto simp: stored_calls_def)
  qed
qed

section \<open>Properties of every call\<close>

definition emits :: "('w observed, 'a) state \<Rightarrow> (event \<Rightarrow> bool) \<Rightarrow> bool" where
  "emits m ok \<longleftrightarrow> traces m (\<lambda>r t. \<forall>e \<in> set t. ok e)"

lemma emits_rules:
  "emits (State_Monad.return x) ok" "emits (throw e) ok" "emits (done_with y) ok"
  "emits (lift_result r) ok" "emits (unlogged u) ok"
  by (simp_all add: emits_def traces_return traces_throw traces_done_with traces_lift_result traces_unlogged)

lemma emits_log_call: "(\<And>r. ok (ev r)) \<Longrightarrow> emits (log_call ev m) ok"
  by (auto simp: emits_def intro!: traces_log_call)

lemma emits_after:
  "emits m ok \<Longrightarrow> \<forall>e \<in> set t. ok e \<Longrightarrow> traces m (\<lambda>y u. \<forall>e \<in> set (t @ u). ok e)"
  unfolding emits_def by (erule traces_conseq) auto

lemma emits_bind: "emits m ok \<Longrightarrow> (\<And>x. emits (f x) ok) \<Longrightarrow> emits (State_Monad.bind m f) ok"
  unfolding emits_def [of m] emits_def [of "State_Monad.bind m f"]
  by (rule traces_bind, erule traces_conseq, rule emits_after)

lemma emits_try_call: "emits m ok \<Longrightarrow> (\<And>x. emits (f x) ok) \<Longrightarrow> emits (try_call m f) ok"
  unfolding emits_def [of m] emits_def [of "try_call m f"]
  by (rule traces_try_call, erule traces_conseq) (simp split: sum.split add: emits_after del: set_append)

lemma emits_on_err: "emits m ok \<Longrightarrow> emits (on_err f m) ok"
  unfolding emits_def by (rule traces_on_err)

lemma emits_conseq: "traces m Q \<Longrightarrow> (\<And>r t e. Q r t \<Longrightarrow> e \<in> set t \<Longrightarrow> ok e) \<Longrightarrow> emits m ok"
  unfolding emits_def by (erule traces_conseq) blast

lemma emits_with_renewal:
  assumes "\<And>p x. ok (ev p x)" "\<And>p x. ok (EvRenew (usable_subject_token authorization token) p x)"
  shows "emits (with_renewal (logged S) authorization token proof (\<lambda>p. log_call (ev p) (operation p))) ok"
  unfolding emits_def by (rule traces_with_renewal) (auto elim!: renewed_calls_events simp: assms)

lemma emits_for_actor:
  assumes "\<And>e. preparing_event e \<Longrightarrow> ok e" and "\<And>S'. emits (f (logged S')) ok"
  shows "emits (try_call (for_actor (logged S) actor ks) f) ok"
  unfolding emits_def
  by (rule traces_try_call, rule traces_for_actor) (use assms emits_after [OF assms(2)] in auto)

lemma emits_complete_provider_order:
  assumes "\<And>e. preparing_event e \<Longrightarrow> ok e" and "\<And>order. emits (f order) ok"
  shows "emits (try_call (complete_provider_order (logged S) actor operation requested) f) ok"
  by (rule emits_try_call, unfold emits_def, rule traces_complete_provider_order)
    (use assms in \<open>auto simp: emits_def\<close>)

section \<open>Delegated calls\<close>

text \<open>
  What Waveform may do at Briefcase for a call another app makes with a proof: nothing that needs
  the account's own token, and no upload.
\<close>

definition without_own_token :: "event \<Rightarrow> bool" where
  "without_own_token e \<longleftrightarrow>
     (case e of
        EvProof token _ \<Rightarrow> token = None
      | EvRenew token _ _ \<Rightarrow> token = None
      | EvStore _ _ \<Rightarrow> False
      | _ \<Rightarrow> True)"

lemma without_own_token_prepare: "preparing_event e \<Longrightarrow> without_own_token e"
  by (auto simp: preparing_event_def without_own_token_def split: event.splits)

lemma without_own_token_store:
  "without_own_token (EvClaim c r)" "without_own_token (EvSpawnRelease rl)"
  by (simp_all add: without_own_token_def)

lemma emits_execute_tts_delegated:
  assumes "is_delegated authorization"
  shows "emits (execute_tts C (logged S) rid started authorization token request) without_own_token"
proof (rule emits_conseq [OF traces_execute_tts])
  fix r t e
  assume calls: "execute_tts_calls C S rid started authorization request r t" and e: "e \<in> set t"
  have attempt: "without_own_token e" if "tts_attempt_event rid request e"
    using that by (auto simp: tts_attempt_event_def without_own_token_def split: event.splits)
  have store: "without_own_token e" if "storing_event authorization rid e"
    using that assms by (auto simp: storing_event_def without_own_token_def split: event.splits)
  from calls show "without_own_token e"
    by (cases rule: execute_tts_calls_cases)
      (use e attempt store in \<open>auto simp: tts_attempts_calls_def stored_calls_def\<close>)
qed

lemma emits_replay_tts_delegated:
  assumes "is_delegated authorization"
  shows "emits (replay_tts (logged S) attempt authorization token completed) without_own_token"
  unfolding replay_tts_def briefcase_authority_def
  using assms
  by (cases "co_storage completed")
    (auto intro!: emits_try_call emits_on_err emits_log_call emits_rules emits_with_renewal
      simp: without_own_token_def usable_subject_token_def)

lemma emits_finish_under_lease:
  assumes "emits work ok" "\<And>x. ok (EvStartJob job x)" "\<And>m x. ok (EvComplete m x)" "\<And>rl x. ok (EvRelease rl x)"
  shows "emits (finish_under_lease (logged S) g k l actor job work completed) ok"
  unfolding finish_under_lease_def fail_with_def guard_fail_def release_ignoring_def
  by (auto intro!: emits_bind emits_log_call emits_rules assms split: sum.split option.split)

lemma emits_drop_guard_of:
  assumes "emits m ok" "\<And>rl. ok (EvSpawnRelease rl)"
  shows "emits (drop_guard_of (logged S) m) ok"
  unfolding drop_guard_of_def guard_drop_def
  by (auto intro!: emits_bind emits_log_call emits_rules assms split: option.split prod.split)

lemma emits_tts_under_lease_delegated:
  assumes "is_delegated authorization"
  shows "emits (tts_under_lease C (logged S) (logged S') g k l rid started authorization token request)
     without_own_token"
  unfolding tts_under_lease_def resolve_voice_def fail_with_def guard_fail_def release_ignoring_def
  by (cases "ws_voice_profiles S")
    (auto intro!: emits_bind emits_try_call emits_log_call emits_rules emits_finish_under_lease
      emits_execute_tts_delegated assms simp: without_own_token_def split: sum.split option.split)


section \<open>Constructed services\<close>

lemma names_after_keys:
  assumes "keyed_tts keys ps = Ok qs"
    and "\<forall>p \<in> set ps. \<forall>key q. tts_with_api_key p key = Some q \<longrightarrow> tts_name q = tts_name p"
  shows "map tts_name qs = map tts_name ps"
  using assms
  by (induction ps arbitrary: qs) (auto simp: and_then_Ok_iff map_ok_Ok_iff split: option.splits)

text \<open>
  A constructed service finds every provider of an accepted order. If the adapter lists passed
  construction, executing text to speech never ends in \<open>Internal\<close>: each name of the order belongs
  to a configured adapter.
\<close>

theorem constructed_service_has_every_provider:
  assumes "waveform_service_new ports = Ok S"
  shows "traces (execute_tts C (logged S) rid started authorization token request)
     (\<lambda>r t. r \<noteq> Err Internal)"
proof (rule traces_conseq [OF traces_execute_tts])
  fix r t
  assume calls: "execute_tts_calls C S rid started authorization request r t"
  from assms have "map tts_name (ws_tts_providers S) = TTS_PROVIDER_CHAIN"
    by (auto simp: waveform_service_new_Ok_iff)
  then have names: "tts_name ` set (ws_tts_providers S) = set TTS_PROVIDER_CHAIN"
    by (metis set_map)
  from calls show "r \<noteq> Err Internal"
  proof (cases rule: execute_tts_calls_cases)
    case (2 order e)
    from 2(1) have "set order = set TTS_PROVIDER_CHAIN"
      by (auto simp: resolve_order_eq split: if_splits)
    then have "set (attempt_order request order) \<subseteq> set TTS_PROVIDER_CHAIN"
      by (auto simp: attempt_order_def dest: in_set_takeD)
    with 2 names show ?thesis by (auto simp: tts_attempts_calls_def tts_attempt_error_def)
  next
    case (4 order n audio t1 t2 storage)
    then show ?thesis by (cases storage) (auto simp: stored_calls_def)
  qed simp_all
qed

section \<open>Speech to text\<close>

text \<open>
  A transcript is of the requested media. When speech to text succeeds, Briefcase answered the
  media at the request's URL under the configured size limit, the normalizer measured exactly
  that media, the answering provider was called with it and the request's language, the providers
  called are a prefix of the request's order that ends with the answering one, and the answer is
  that provider's, with the measured duration.
\<close>

theorem stt_answer_is_of_requested_media:
  "traces (execute_stt (logged S) rid authorization token request)
     (\<lambda>r t. \<forall>result. r = Ok result \<longrightarrow>
        (\<exists>p media duration pr order.
           EvRead \<lparr>rs_proof = p, rs_source_url = sq_source_url request,
                   rs_size_limit = pol_source_media_size_limit (ws_policy S), rs_request_id = rid\<rparr>
             (Ok media) \<in> set t \<and>
           EvSourceDuration media rid (Ok duration) \<in> set t \<and>
           EvTranscribe (sr_provider result)
             \<lparr>sp_media = media, sp_language = sq_language request\<rparr> rid (Ok pr) \<in> set t \<and>
           result = stt_result_from_provider rid (sr_provider result) (pr\<lparr>pr_duration := Some duration\<rparr>) \<and>
           resolve_order (case sq_provider_order request of Some order \<Rightarrow> order | None \<Rightarrow> [])
             STT_PROVIDER_CHAIN = Some order \<and>
           prefix (tried t) order \<and> last (tried t) = sr_provider result))"
proof (rule traces_conseq [OF traces_execute_stt], intro allI impI)
  fix r t result
  assume calls: "execute_stt_calls S rid request r t" and r: "r = Ok result"
  from calls r obtain t1 t2 p media duration order where t: "t = t1 @ t2"
    and reads: "\<forall>e \<in> set t1. reading_event rid e"
      "EvRead \<lparr>rs_proof = p, rs_source_url = sq_source_url request,
         rs_size_limit = pol_source_media_size_limit (ws_policy S), rs_request_id = rid\<rparr> (Ok media) \<in> set t1"
      "EvSourceDuration media rid (Ok duration) \<in> set t1"
    and order: "resolve_order (case sq_provider_order request of Some order \<Rightarrow> order | None \<Rightarrow> [])
       STT_PROVIDER_CHAIN = Some order"
    and attempts: "stt_attempts_calls S rid request media duration order (Ok result) t2"
    by (auto simp: execute_stt_calls_def)
  have "tried u = []" if "\<forall>e \<in> set u. reading_event rid e" for u
    using that by (induction u) (auto simp: reading_event_def attempted_def split: event.splits)
  then have "tried t = tried t2" using reads(1) t by simp
  with t reads order attempts show "\<exists>p media duration pr order.
      EvRead \<lparr>rs_proof = p, rs_source_url = sq_source_url request,
              rs_size_limit = pol_source_media_size_limit (ws_policy S), rs_request_id = rid\<rparr>
        (Ok media) \<in> set t \<and>
      EvSourceDuration media rid (Ok duration) \<in> set t \<and>
      EvTranscribe (sr_provider result)
        \<lparr>sp_media = media, sp_language = sq_language request\<rparr> rid (Ok pr) \<in> set t \<and>
      result = stt_result_from_provider rid (sr_provider result) (pr\<lparr>pr_duration := Some duration\<rparr>) \<and>
      resolve_order (case sq_provider_order request of Some order \<Rightarrow> order | None \<Rightarrow> [])
        STT_PROVIDER_CHAIN = Some order \<and>
      prefix (tried t) order \<and> last (tried t) = sr_provider result"
    unfolding stt_attempts_calls_def by auto
qed

end
