(* ===== verification/Lease_Spec.thy ===== *)
theory Lease_Spec
  imports Ports
begin

text \<open>
  The abstract contract of an idempotency store, as \<open>src/src/application/ports.rs\<close> documents the
  port \<open>IdempotencyStore\<close>: one slot per scope, which is free, leased or done. \<open>spec_claim\<close>,
  \<open>spec_complete\<close> and \<open>spec_release\<close> say what each operation does to its slot. The locale
  \<open>lease_store\<close> states the frame laws a store promises between operations, and derives from them
  that leases are exclusive and results are kept along every run.
\<close>

section \<open>Slots\<close>

datatype slot =
    Free
  | Leased (slot_digest: bytes) (slot_request: request_id) (slot_created: instant)
      (slot_token: uuid) (slot_lease_end: instant) (slot_expires: instant)
  | Done (slot_digest: bytes) (slot_request: request_id)
      (slot_response: completed_speech_operation) (slot_expires: instant)
  | Broken

definition spec_fresh :: "int \<Rightarrow> int \<Rightarrow> idempotency_claim \<Rightarrow> instant \<Rightarrow> idempotency_decision \<times> slot" where
  "spec_fresh lease ttl c t =
     (Acquired \<lparr>lease_id = cl_lease_id c, lease_expires_at = t + lease\<rparr> (cl_request_id c) t,
      Leased (digest_bytes (cl_digest c)) (cl_request_id c) t (lease_uuid (cl_lease_id c))
        (t + lease) (t + ttl))"

text \<open>
  A claim decided at \<open>now\<close> and written at \<open>t\<close>; \<open>delay\<close> is the suggested wait until a lease ends.
  A slot is reusable from scratch when its retention is over and no lease is live.
\<close>

fun spec_claim ::
    "(instant \<Rightarrow> instant \<Rightarrow> duration) \<Rightarrow> int \<Rightarrow> int \<Rightarrow> idempotency_claim \<Rightarrow> instant \<Rightarrow> instant \<Rightarrow> slot \<Rightarrow>
     idempotency_decision \<times> slot" where
  "spec_claim delay lease ttl c now t Free = spec_fresh lease ttl c t"
| "spec_claim delay lease ttl c now t (Leased d r cr tok e ex) =
     (if ex \<le> now \<and> e \<le> now then spec_fresh lease ttl c t
      else if d \<noteq> digest_bytes (cl_digest c) then (KeyReused, Leased d r cr tok e ex)
      else if e \<le> now then
        (Acquired \<lparr>lease_id = cl_lease_id c, lease_expires_at = t + lease\<rparr> r cr,
         Leased d r cr (lease_uuid (cl_lease_id c)) (t + lease) ex)
      else (InProgress (delay e now), Leased d r cr tok e ex))"
| "spec_claim delay lease ttl c now t (Done d r resp ex) =
     (if ex \<le> now then spec_fresh lease ttl c t
      else if d \<noteq> digest_bytes (cl_digest c) then (KeyReused, Done d r resp ex)
      else (Replay resp, Done d r resp ex))"
| "spec_claim delay lease ttl c now t Broken = (KeyReused, Broken)"

definition spec_complete ::
    "uuid \<Rightarrow> completed_speech_operation \<Rightarrow> request_id \<Rightarrow> instant \<Rightarrow> slot \<Rightarrow> slot option" where
  "spec_complete tok resp rid ex s =
     (case s of
        Leased d r cr tok' e ex' \<Rightarrow> if tok' = tok \<and> r = rid then Some (Done d r resp ex) else None
      | _ \<Rightarrow> None)"

definition spec_release :: "uuid \<Rightarrow> instant \<Rightarrow> slot \<Rightarrow> slot option" where
  "spec_release tok now s =
     (case s of
        Leased d r cr tok' e ex \<Rightarrow> if tok' = tok then Some (Leased d r cr tok now ex) else None
      | _ \<Rightarrow> None)"

section \<open>What the specification guarantees\<close>

lemma spec_claim_live_lease:
  assumes "now < e"
  shows "snd (spec_claim delay lease ttl c now t (Leased d r cr tok e ex)) = Leased d r cr tok e ex"
    and "fst (spec_claim delay lease ttl c now t (Leased d r cr tok e ex)) \<in> {KeyReused, InProgress (delay e now)}"
  using assms by auto

lemma spec_claim_live_result:
  assumes "now < ex"
  shows "snd (spec_claim delay lease ttl c now t (Done d r resp ex)) = Done d r resp ex"
    and "fst (spec_claim delay lease ttl c now t (Done d r resp ex)) =
      (if d = digest_bytes (cl_digest c) then Replay resp else KeyReused)"
  using assms by auto

lemma spec_claim_acquired_token:
  "spec_claim delay lease ttl c now t s = (Acquired l rid started, s') \<Longrightarrow>
     \<exists>d ex. s' = Leased d rid started (lease_uuid (cl_lease_id c)) (lease_expires_at l) ex \<and>
       lease_id l = cl_lease_id c"
  by (cases s) (auto simp: spec_fresh_def split: if_splits)

section \<open>Runs of a store\<close>

locale lease_store =
  fixes slot :: "'s \<Rightarrow> idempotency_scope \<Rightarrow> slot"
    and step :: "'e \<Rightarrow> 'o \<Rightarrow> 's \<Rightarrow> 's"
    and owns :: "'o \<Rightarrow> idempotency_scope \<Rightarrow> uuid \<Rightarrow> bool"
    and before :: "'e \<Rightarrow> instant \<Rightarrow> bool"
  assumes lease_kept: "slot s k = Leased d r cr tok e ex \<Longrightarrow> before env e \<Longrightarrow> \<not> owns op k tok \<Longrightarrow>
      slot (step env op s) k = slot s k"
    and done_kept: "slot s k = Done d r resp ex \<Longrightarrow> before env ex \<Longrightarrow>
      slot (step env op s) k = slot s k"
begin

definition run :: "('e \<times> 'o) list \<Rightarrow> 's \<Rightarrow> 's" where
  "run events s = fold (\<lambda>(env, op). step env op) events s"

lemma run_steps: "run [] s = s" "run ((env, op) # events) s = run events (step env op s)"
  by (simp_all add: run_def)

lemma run_keeps_lease:
  "slot s k = Leased d r cr tok e ex \<Longrightarrow>
     (\<forall>(env, op) \<in> set events. before env e \<and> \<not> owns op k tok) \<Longrightarrow>
     slot (run events s) k = Leased d r cr tok e ex"
  by (induction events arbitrary: s) (auto simp: run_steps lease_kept)

lemma run_keeps_done:
  "slot s k = Done d r resp ex \<Longrightarrow> (\<forall>(env, op) \<in> set events. before env ex) \<Longrightarrow>
     slot (run events s) k = Done d r resp ex"
  by (induction events arbitrary: s) (auto simp: run_steps done_kept)

end

end
