(* ===== verification/Store_Refinement.thy ===== *)
theory Store_Refinement
  imports Idempotency_Store Lease_Spec
begin

text \<open>
  The PostgreSQL store implements the abstract contract: the slot of a scope is read off its row
  (\<open>pg_slot\<close>), and every operation of the store acts on slots as the specification says. The
  properties are exclusivity of leases, stability of results, refusal of stale lease holders,
  progress after a lease ends, and the well-formedness of every reachable database.
\<close>

section \<open>Laws of the external crates\<close>

text \<open>
  Documented behaviour: reading back a written JSON value gives the value; the text of a parsed
  URL parses to that URL; an interval lasts as long as the duration it was made from.
\<close>

definition store_crate_laws :: "store_crates \<Rightarrow> bool" where
  "store_crate_laws C \<longleftrightarrow>
     (\<forall>s v. to_value C s = Some v \<longrightarrow> from_value C v = Some s) \<and>
     (\<forall>s u. parse_url_text C s = Some u \<longrightarrow> parse_url_text C (print_url C u) = Some u) \<and>
     (\<forall>d i. pg_interval C d = Some i \<longrightarrow> i = int d)"

lemma crate_laws:
  assumes "store_crate_laws C"
  shows "to_value C s = Some v \<Longrightarrow> from_value C v = Some s"
    and "parse_url_text C txt = Some u \<Longrightarrow> parse_url_text C (print_url C u) = Some u"
    and "pg_interval C d = Some i \<Longrightarrow> i = int d"
  using assms by (simp_all add: store_crate_laws_def)

section \<open>The codec of stored responses\<close>

text \<open>What the domain types guarantee of a response.\<close>

definition storable :: "store_crates \<Rightarrow> completed_speech_operation \<Rightarrow> bool" where
  "storable C response =
     (case response of
        completed_speech_operation.Tts c \<Rightarrow>
          (case co_storage c of
             audio_storage.Briefcase f \<Rightarrow>
               briefcase_file_url_new (as_url f) = Ok f \<and> (\<exists>s. parse_url_text C s = Some (as_url f))
           | Held reason u until \<Rightarrow>
               (\<exists>s. parse_url_text C s = Some u) \<and> timestamp_in_range C (unix_timestamp until))
      | completed_speech_operation.Stt s \<Rightarrow>
          length (transcript_str (sr_transcript s)) \<le> MAX_TRANSCRIPT_BYTES)"

text \<open>The response a replay returns: the end of held audio is kept in whole seconds.\<close>

definition replayed :: "completed_speech_operation \<Rightarrow> completed_speech_operation" where
  "replayed response =
     (case response of
        completed_speech_operation.Tts c \<Rightarrow>
          (case co_storage c of
             Held reason u until \<Rightarrow> completed_speech_operation.Tts
               (c\<lparr>co_storage := Held reason u (until div 1000000000 * 1000000000)\<rparr>)
           | audio_storage.Briefcase f \<Rightarrow> response)
      | completed_speech_operation.Stt s \<Rightarrow> response)"

lemma replayed_ids [simp]:
  "completed_operation (replayed r) = completed_operation r"
  "response_request_id (replayed r) = response_request_id r"
  by (auto simp: replayed_def response_request_id_def split: completed_speech_operation.splits
      audio_storage.splits)

lemma transcript_new_str:
  "length (transcript_str t) \<le> MAX_TRANSCRIPT_BYTES \<Longrightarrow> transcript_new (transcript_str t) = Ok t"
  by (cases t) (simp add: transcript_new_def)

lemma decode_storage_stored:
  assumes "store_crate_laws C"
  shows "briefcase_file_url_new (as_url f) = Ok f \<Longrightarrow> parse_url_text C s = Some (as_url f) \<Longrightarrow>
      decode_storage C (Some (print_url C (as_url f))) None None None = Ok (audio_storage.Briefcase f)"
    and "parse_url_text C s = Some u \<Longrightarrow> timestamp_in_range C (unix_timestamp until) \<Longrightarrow>
      decode_storage C None (Some (held_reason_as_str reason)) (Some (print_url C u))
        (Some (unix_timestamp until)) = Ok (Held reason u (until div 1000000000 * 1000000000))"
  using crate_laws(2) [OF assms]
  by (simp_all add: decode_storage_def parse_url_def held_reason_round_trip from_unix_timestamp_def
      unix_timestamp_def)

text \<open>
  The codec of completed operations round-trips. Whatever was encoded when an operation
  completed decodes to that response, with the end of held audio in whole seconds, for every
  response the domain types admit and every crate that obeys its documented laws.
\<close>

theorem response_codec_round_trip:
  assumes "store_crate_laws C" and "storable C r" and "encode_response C r = Ok v"
  shows "decode_response C v = Ok (replayed r)"
proof -
  from assms(3) obtain s where s: "stored_form C r = Some s" "from_value C v = Some s"
    using crate_laws(1) [OF assms(1)] by (auto simp: encode_response_def split: option.splits)
  show ?thesis
  proof (cases r)
    case (Tts c)
    with s(1) have "co_provider c \<in> set TTS_PROVIDER_CHAIN"
      by (auto simp: stored_form_def split: if_splits)
    with Tts s assms(2) show ?thesis
      by (cases "co_storage c")
        (auto simp: decode_response_def stored_form_def replayed_def storable_def
          decode_storage_stored [OF assms(1)])
  next
    case (Stt t)
    with s assms(2) show ?thesis
      by (auto simp: decode_response_def stored_form_def replayed_def storable_def transcript_new_str
          option.map_comp comp_def option.map_ident map_ok_def split: if_splits)
  qed
qed

section \<open>Rows as slots\<close>

definition slot_of_row :: "store_crates \<Rightarrow> idempotency_scope \<Rightarrow> claim_row \<Rightarrow> slot" where
  "slot_of_row C scope r =
     (if row_request_id r = 0 \<or> length (row_digest r) \<noteq> 32 then Broken
      else if row_state r = ''pending'' then
        (case (row_lease_token r, row_lease_expires_at r) of
           (Some tok, Some e) \<Rightarrow> Leased (row_digest r) (RequestId (row_request_id r))
              (row_created_at r) tok e (row_expires_at r)
         | _ \<Rightarrow> Broken)
      else if row_state r = ''completed'' then
        (case row_response r of
           None \<Rightarrow> Broken
         | Some v \<Rightarrow>
             (case decode_response C v of
                Err _ \<Rightarrow> Broken
              | Ok resp \<Rightarrow>
                  if completed_operation resp = sc_operation scope \<and>
                     response_request_id resp = RequestId (row_request_id r)
                  then Done (row_digest r) (RequestId (row_request_id r)) resp (row_expires_at r)
                  else Broken))
      else Broken)"

definition pg_slot :: "store_crates \<Rightarrow> db \<Rightarrow> idempotency_scope \<Rightarrow> slot" where
  "pg_slot C d scope =
     (case fmlookup (db_records d) scope of None \<Rightarrow> Free | Some r \<Rightarrow> slot_of_row C scope r)"

lemma slot_of_row_Leased_iff:
  "slot_of_row C scope r = Leased dg rid cr tok e ex \<longleftrightarrow>
     row_request_id r \<noteq> 0 \<and> length dg = 32 \<and> row_state r = ''pending'' \<and>
     dg = row_digest r \<and> rid = RequestId (row_request_id r) \<and> cr = row_created_at r \<and>
     row_lease_token r = Some tok \<and> row_lease_expires_at r = Some e \<and> ex = row_expires_at r"
  by (auto simp: slot_of_row_def split: option.splits sum.splits)

lemma slot_of_row_Done_iff:
  "slot_of_row C scope r = Done dg rid resp ex \<longleftrightarrow>
     row_request_id r \<noteq> 0 \<and> length dg = 32 \<and> row_state r = ''completed'' \<and>
     dg = row_digest r \<and> rid = RequestId (row_request_id r) \<and> ex = row_expires_at r \<and>
     (\<exists>v. row_response r = Some v \<and> decode_response C v = Ok resp) \<and>
     completed_operation resp = sc_operation scope \<and> response_request_id resp = rid"
  by (auto simp: slot_of_row_def split: option.splits sum.splits)

lemmas slot_of_row_LeasedD = slot_of_row_Leased_iff [THEN iffD1]
lemmas slot_of_row_DoneD = slot_of_row_Done_iff [THEN iffD1]

lemma slot_of_row_not_Free [simp]: "slot_of_row C scope r \<noteq> Free"
  by (auto simp: slot_of_row_def split: option.splits sum.splits)

lemma pg_slot_Free_iff: "pg_slot C d scope = Free \<longleftrightarrow> fmlookup (db_records d) scope = None"
  by (auto simp: pg_slot_def split: option.splits)

lemma stored_of_row_Ok:
  "row_request_id r \<noteq> 0 \<Longrightarrow> stored_of_row r = Ok
     \<lparr>st_digest = row_digest r, st_request_id = RequestId (row_request_id r), st_state = row_state r,
      st_lease_token = row_lease_token r, st_lease_expires_at = row_lease_expires_at r,
      st_response = row_response r, st_created_at = row_created_at r, st_expires_at = row_expires_at r\<rparr>"
  by (simp add: stored_of_row_def request_id_new_def ensure_non_nil_def)

section \<open>The claim loop runs at most twice\<close>

definition fresh_row :: "idempotency_claim \<Rightarrow> int \<Rightarrow> int \<Rightarrow> instant \<Rightarrow> claim_row" where
  "fresh_row c lease ttl now =
     \<lparr>row_digest = digest_bytes (cl_digest c), row_request_id = request_uuid (cl_request_id c),
      row_state = ''pending'', row_lease_token = Some (lease_uuid (cl_lease_id c)),
      row_lease_expires_at = Some (now + lease), row_response = None,
      row_created_at = now, row_updated_at = now, row_expires_at = now + ttl\<rparr>"

definition put_row :: "idempotency_scope \<Rightarrow> claim_row \<Rightarrow> db \<Rightarrow> db" where
  "put_row scope r d = d\<lparr>db_records := fmupd scope r (db_records d)\<rparr>"

lemma fmupd_fmdrop [simp]: "fmupd k v (fmdrop k m) = fmupd k v m"
  by (rule fmap_ext) simp

lemma fmupd_fmupd [simp]: "fmupd k v (fmupd k w m) = fmupd k v m"
  by (rule fmap_ext) simp

lemma claim_loop_absent:
  assumes "fmlookup (db_records d) (cl_scope c) = None"
  shows "claim_loop E c lease ttl k d =
    Ok (Inserted (env_clock E (k + 1)) (env_clock E (k + 1) + lease),
        put_row (cl_scope c) (fresh_row c lease ttl (env_clock E (k + 1))) d)"
  using assms
  by (subst claim_loop.simps)
    (simp add: insert_claim_def initialize_inserted_claim_def put_row_def fresh_row_def fmdom_notI)

lemma claim_loop_absent_drop:
  "claim_loop E c lease ttl k (d\<lparr>db_records := fmdrop (cl_scope c) (db_records d)\<rparr>) =
    Ok (Inserted (env_clock E (k + 1)) (env_clock E (k + 1) + lease),
        put_row (cl_scope c) (fresh_row c lease ttl (env_clock E (k + 1))) d)"
  by (subst claim_loop_absent) (simp_all add: put_row_def)

text \<open>With a row that is not broken, the loop either replaces the row, when it is expired at some
  reading, or hands it over, when it is not.\<close>

definition row_expired_slot :: "slot \<Rightarrow> instant \<Rightarrow> bool" where
  "row_expired_slot s now =
     (case s of
        Leased dg rid cr tok e ex \<Rightarrow> ex \<le> now \<and> e \<le> now
      | Done dg rid resp ex \<Rightarrow> ex \<le> now
      | _ \<Rightarrow> False)"

lemma row_expired_slot_of:
  assumes "slot_of_row C scope r \<noteq> Broken"
  shows "row_expired now r \<longleftrightarrow> row_expired_slot (slot_of_row C scope r) now"
proof (cases "slot_of_row C scope r")
  case (Leased dg rid cr tok e ex)
  with slot_of_row_LeasedD [OF Leased] show ?thesis
    by (auto simp: row_expired_slot_def row_expired_def)
next
  case (Done dg rid resp ex)
  with slot_of_row_DoneD [OF Done] show ?thesis
    by (auto simp: row_expired_slot_def row_expired_def)
qed (use assms in simp_all)

lemma record_is_purgeable_slot_of:
  assumes "slot_of_row C scope r \<noteq> Broken" and "stored_of_row r = Ok stored"
  shows "record_is_purgeable stored now = Ok (row_expired_slot (slot_of_row C scope r) now)"
proof -
  show ?thesis
  proof (cases "slot_of_row C scope r")
    case (Leased dg rid cr tok e ex)
    with slot_of_row_LeasedD [OF Leased] assms(2) show ?thesis
      by (auto simp: row_expired_slot_def record_is_purgeable_def stored_of_row_Ok)
  next
    case (Done dg rid resp ex)
    with slot_of_row_DoneD [OF Done] assms(2) show ?thesis
      by (auto simp: row_expired_slot_def record_is_purgeable_def stored_of_row_Ok)
  qed (use assms(1) in simp_all)
qed

lemma claim_loop_present:
  assumes r: "fmlookup (db_records d) (cl_scope c) = Some r"
    and ok: "slot_of_row C (cl_scope c) r \<noteq> Broken"
    and stored: "stored_of_row r = Ok stored"
  shows "claim_loop E c lease ttl k d =
    (if env_cleaner E \<and> row_expired_slot (slot_of_row C (cl_scope c) r) (env_clock E (k + 1))
     then Ok (Inserted (env_clock E (k + 3)) (env_clock E (k + 3) + lease),
              put_row (cl_scope c) (fresh_row c lease ttl (env_clock E (k + 3))) d)
     else if row_expired_slot (slot_of_row C (cl_scope c) r) (env_clock E (k + 2))
     then Ok (Inserted (env_clock E (k + 4)) (env_clock E (k + 4) + lease),
              put_row (cl_scope c) (fresh_row c lease ttl (env_clock E (k + 4))) d)
     else Ok (Stored stored (env_clock E (k + 2)) (k + 3), d))"
proof -
  have mem: "cl_scope c |\<in>| fmdom (db_records d)" using r by (rule fmdomI)
  then have ins: "insert_claim c lease ttl (env_clock E k) d = (False, d)"
    by (simp add: insert_claim_False)
  show ?thesis
  proof (cases "env_cleaner E \<and> row_expired (env_clock E (k + 1)) r")
    case True
    then have "cleaned E (k + 1) (cl_scope c) d = d\<lparr>db_records := fmdrop (cl_scope c) (db_records d)\<rparr>"
      using r by (simp add: cleaned_def)
    moreover have "load_claim (d\<lparr>db_records := fmdrop (cl_scope c) (db_records d)\<rparr>) (cl_scope c) = Ok None"
      by (simp add: load_claim_None)
    ultimately show ?thesis
      using True ins claim_loop_absent_drop [of E c lease ttl "k + 2" d] row_expired_slot_of [OF ok]
      by (subst claim_loop.simps) (simp add: Let_def numeral_eq_Suc)
  next
    case False
    then have same: "cleaned E (k + 1) (cl_scope c) d = d" using r by (auto simp: cleaned_def)
    have load: "load_claim d (cl_scope c) = Ok (Some stored)"
      using r stored by (simp add: load_claim_def)
    have del: "delete_locked_claim (cl_scope c) d = Ok (d\<lparr>db_records := fmdrop (cl_scope c) (db_records d)\<rparr>)"
      using mem by (simp add: delete_locked_claim_Ok)
    have loop: "claim_loop E c lease ttl k d =
      (if row_expired_slot (slot_of_row C (cl_scope c) r) (env_clock E (k + 2))
       then claim_loop E c lease ttl (k + 3) (d\<lparr>db_records := fmdrop (cl_scope c) (db_records d)\<rparr>)
       else Ok (Stored stored (env_clock E (k + 2)) (k + 3), d))"
      using ins same load del record_is_purgeable_slot_of [OF ok stored]
      by (subst claim_loop.simps) (simp add: Let_def)
    have "\<not> (env_cleaner E \<and> row_expired_slot (slot_of_row C (cl_scope c) r) (env_clock E (k + 1)))"
      using False row_expired_slot_of [OF ok] by simp
    then show ?thesis
      using loop claim_loop_absent_drop [of E c lease ttl "k + 3" d] by (auto simp: numeral_eq_Suc)
  qed
qed

section \<open>Claims refine the specification\<close>

lemma pg_slot_put_row:
  "pg_slot C (put_row k r d) s = (if s = k then slot_of_row C k r else pg_slot C d s)"
  by (simp add: pg_slot_def put_row_def)

lemma put_row_frame [simp]: "db_jobs (put_row k r d) = db_jobs d" "db_planes (put_row k r d) = db_planes d"
  by (simp_all add: put_row_def)

lemma fresh_row_slot:
  assumes "length (digest_bytes (cl_digest c)) = 32" "request_uuid (cl_request_id c) \<noteq> 0"
  shows "slot_of_row C k (fresh_row c lease ttl t) = snd (spec_fresh lease ttl c t)"
  using assms by (simp add: slot_of_row_def fresh_row_def spec_fresh_def)

definition reclaimed_row :: "idempotency_claim \<Rightarrow> int \<Rightarrow> instant \<Rightarrow> claim_row \<Rightarrow> claim_row" where
  "reclaimed_row c lease t r = r\<lparr>row_lease_token := Some (lease_uuid (cl_lease_id c)),
     row_lease_expires_at := Some (t + lease), row_updated_at := t\<rparr>"

lemma decide_stored_Leased:
  assumes r: "fmlookup (db_records d) (cl_scope c) = Some r"
    and s: "slot_of_row C (cl_scope c) r = Leased dg rid cr tok e ex"
    and stored: "stored_of_row r = Ok stored"
    and len: "length (digest_bytes (cl_digest c)) = 32" and le: "now \<le> env_clock E k"
  shows "decide_stored K C E c lease stored now k d =
    (if dg \<noteq> digest_bytes (cl_digest c) then Ok (KeyReused, d)
     else if e \<le> now then
       Ok (Acquired \<lparr>lease_id = cl_lease_id c, lease_expires_at = env_clock E k + lease\<rparr> rid cr,
           put_row (cl_scope c) (reclaimed_row c lease (env_clock E k) r) d)
     else Ok (InProgress (retry_delay K e now), d))"
  using slot_of_row_LeasedD [OF s] stored r len le
  by (auto simp: decide_stored_def stored_of_row_Ok reclaim_claim_def put_row_def reclaimed_row_def)

lemma decide_stored_Done:
  assumes s: "slot_of_row C (cl_scope c) r = Done dg rid resp ex"
    and stored: "stored_of_row r = Ok stored" and len: "length (digest_bytes (cl_digest c)) = 32"
  shows "decide_stored K C E c lease stored now k d =
    (if dg \<noteq> digest_bytes (cl_digest c) then Ok (KeyReused, d) else Ok (Replay resp, d))"
  using slot_of_row_DoneD [OF s] stored len
  by (auto simp: decide_stored_def stored_of_row_Ok)

text \<open>What a claim needs of its inputs: intervals PostgreSQL can represent, a live plane, and the
  domain's invariants on digests (32 bytes) and request ids (not nil).\<close>

definition claimable :: "store_config \<Rightarrow> store_crates \<Rightarrow> idempotency_claim \<Rightarrow> int \<Rightarrow> int \<Rightarrow> db \<Rightarrow> bool" where
  "claimable K C c lease ttl d \<longleftrightarrow>
     postgres_interval C (cl_lease_duration c) = Ok lease \<and>
     postgres_interval C (cfg_record_ttl K) = Ok ttl \<and>
     sc_plane_id (cl_scope c) \<in> set (db_planes d) \<and>
     length (digest_bytes (cl_digest c)) = 32 \<and> request_uuid (cl_request_id c) \<noteq> 0"

definition clock_ok :: "db_env \<Rightarrow> bool" where
  "clock_ok E \<longleftrightarrow> mono (env_clock E)"

lemma clock_le: "clock_ok E \<Longrightarrow> i \<le> j \<Longrightarrow> env_clock E i \<le> env_clock E j"
  by (simp add: clock_ok_def monoD)

lemma claim_inner_claimable:
  assumes "claimable K C c lease ttl d"
  shows "claim_inner K C E c d =
     and_then (claim_loop E c lease ttl 0 d) (\<lambda>(found, d').
       case found of
         Inserted created lease_expires \<Rightarrow>
           Ok (Acquired \<lparr>lease_id = cl_lease_id c, lease_expires_at = lease_expires\<rparr>
                 (cl_request_id c) created, d')
       | Stored stored now k \<Rightarrow> decide_stored K C E c lease stored now k d')"
  using assms by (simp add: claim_inner_def claimable_def lock_plane_def)

lemma claim_inner_fresh:
  assumes "claimable K C c lease ttl d" and
    "claim_loop E c lease ttl 0 d = Ok (Inserted t (t + lease), put_row (cl_scope c) (fresh_row c lease ttl t) d)"
  shows "\<exists>dec d'. claim_inner K C E c d = Ok (dec, d') \<and>
     d' = put_row (cl_scope c) (fresh_row c lease ttl t) d \<and>
     (dec, pg_slot C d' (cl_scope c)) = spec_fresh lease ttl c t"
  using assms
  by (auto simp: claim_inner_claimable pg_slot_put_row claimable_def fresh_row_slot)
    (simp add: spec_fresh_def)

lemma claim_inner_refines:
  assumes c: "claimable K C c lease ttl d" and clock: "clock_ok E"
    and ok: "pg_slot C d (cl_scope c) \<noteq> Broken"
  shows "\<exists>dec d' i j. claim_inner K C E c d = Ok (dec, d') \<and> i \<le> j \<and>
     (dec, pg_slot C d' (cl_scope c)) =
       spec_claim (retry_delay K) lease ttl c (env_clock E i) (env_clock E j) (pg_slot C d (cl_scope c)) \<and>
     (d' = d \<or> (\<exists>r. d' = put_row (cl_scope c) r d))"
proof (cases "fmlookup (db_records d) (cl_scope c)")
  case None
  then have "pg_slot C d (cl_scope c) = Free" by (simp add: pg_slot_def)
  with claim_inner_fresh [OF c claim_loop_absent [OF None]] show ?thesis
    by (metis order_refl spec_claim.simps(1))
next
  case (Some r)
  then have slot: "pg_slot C d (cl_scope c) = slot_of_row C (cl_scope c) r" by (simp add: pg_slot_def)
  with ok have ok': "slot_of_row C (cl_scope c) r \<noteq> Broken" by simp
  then have "row_request_id r \<noteq> 0" by (auto simp: slot_of_row_def)
  then obtain stored where stored: "stored_of_row r = Ok stored" by (simp add: stored_of_row_Ok)
  note loop = claim_loop_present [OF Some ok' stored, where k = 0 and E = E and lease = lease
      and ttl = ttl, unfolded add_0]
  have fresh: "?thesis" if x: "row_expired_slot (slot_of_row C (cl_scope c) r) (env_clock E i)"
    and l: "claim_loop E c lease ttl 0 d = Ok (Inserted (env_clock E j) (env_clock E j + lease),
       put_row (cl_scope c) (fresh_row c lease ttl (env_clock E j)) d)" and ij: "i \<le> j" for i j
  proof -
    have "spec_claim (retry_delay K) lease ttl c (env_clock E i) t (slot_of_row C (cl_scope c) r) =
        spec_fresh lease ttl c t" for t
      using x by (cases "slot_of_row C (cl_scope c) r") (auto simp: row_expired_slot_def)
    with claim_inner_fresh [OF c l] ij slot show ?thesis by metis
  qed
  consider "env_cleaner E \<and> row_expired_slot (slot_of_row C (cl_scope c) r) (env_clock E 1)"
    | "\<not> (env_cleaner E \<and> row_expired_slot (slot_of_row C (cl_scope c) r) (env_clock E 1))"
      "row_expired_slot (slot_of_row C (cl_scope c) r) (env_clock E 2)"
    | "\<not> (env_cleaner E \<and> row_expired_slot (slot_of_row C (cl_scope c) r) (env_clock E 1))"
      "\<not> row_expired_slot (slot_of_row C (cl_scope c) r) (env_clock E 2)" by blast
  then show ?thesis
  proof cases
    case 1
    with loop show ?thesis by (intro fresh [of 1 3]) simp_all
  next
    case 2
    with loop show ?thesis by (intro fresh [of 2 4]) auto
  next
    case 3
    with loop c have inner: "claim_inner K C E c d =
        decide_stored K C E c lease stored (env_clock E 2) 3 d"
      by (auto simp: claim_inner_claimable)
    have le: "env_clock E 2 \<le> env_clock E 3" using clock by (simp add: clock_le)
    from c have len: "length (digest_bytes (cl_digest c)) = 32" by (simp add: claimable_def)
    have "\<exists>dec d'. decide_stored K C E c lease stored (env_clock E 2) 3 d = Ok (dec, d') \<and>
       (dec, pg_slot C d' (cl_scope c)) = spec_claim (retry_delay K) lease ttl c (env_clock E 2)
          (env_clock E 3) (slot_of_row C (cl_scope c) r) \<and>
       (d' = d \<or> (\<exists>r. d' = put_row (cl_scope c) r d))"
    proof (cases "slot_of_row C (cl_scope c) r")
      case (Leased dg rid cr tok e ex)
      have reclaimed: "slot_of_row C (cl_scope c) (reclaimed_row c lease t r) =
          Leased dg rid cr (lease_uuid (cl_lease_id c)) (t + lease) ex" for t
        using slot_of_row_LeasedD [OF Leased] by (auto simp: slot_of_row_Leased_iff reclaimed_row_def)
      show ?thesis
        using decide_stored_Leased [OF Some Leased stored len le] 3(2) Leased slot reclaimed
        by (auto simp: row_expired_slot_def pg_slot_put_row)
    next
      case (Done dg rid resp ex)
      show ?thesis
        using decide_stored_Done [OF Done stored len] 3(2) Done slot by (auto simp: row_expired_slot_def)
    qed (use ok' in simp_all)
    then obtain dec d' where "decide_stored K C E c lease stored (env_clock E 2) 3 d = Ok (dec, d')"
      "(dec, pg_slot C d' (cl_scope c)) = spec_claim (retry_delay K) lease ttl c (env_clock E 2)
          (env_clock E 3) (slot_of_row C (cl_scope c) r)"
      "d' = d \<or> (\<exists>r. d' = put_row (cl_scope c) r d)" by blast
    with inner slot show ?thesis
      by (intro exI [of _ dec] exI [of _ d'] exI [of _ 2] exI [of _ 3]) simp
  qed
qed

lemma pg_claim_no_fault:
  "env_fault E = None \<Longrightarrow> claim_inner K C E c d = Ok (dec, d') \<Longrightarrow> pg_claim K C E c d = (Ok dec, d')"
  by (simp add: pg_claim_def run_transaction_def)

text \<open>
  C2: the store's claim implements the specification. On a database whose row for the scope is
  not broken, a claim that meets no database fault always answers a decision; the decision and
  the new slot are those of the specification at two of the clock readings of the call, in
  order; every other scope, the job history and the planes are untouched.
\<close>

theorem claim_refines_spec:
  assumes "claimable K C c lease ttl d" and "clock_ok E" and "env_fault E = None"
    and "pg_slot C d (cl_scope c) \<noteq> Broken"
  shows "\<exists>dec d' i j. pg_claim K C E c d = (Ok dec, d') \<and> i \<le> j \<and>
     (dec, pg_slot C d' (cl_scope c)) =
       spec_claim (retry_delay K) lease ttl c (env_clock E i) (env_clock E j) (pg_slot C d (cl_scope c)) \<and>
     (\<forall>s. s \<noteq> cl_scope c \<longrightarrow> pg_slot C d' s = pg_slot C d s) \<and>
     db_jobs d' = db_jobs d \<and> db_planes d' = db_planes d"
proof -
  from claim_inner_refines [OF assms(1,2,4)] obtain dec d' i j where
    inner: "claim_inner K C E c d = Ok (dec, d')" and ij: "i \<le> j" and
    spec: "(dec, pg_slot C d' (cl_scope c)) = spec_claim (retry_delay K) lease ttl c
      (env_clock E i) (env_clock E j) (pg_slot C d (cl_scope c))" and
    frame: "d' = d \<or> (\<exists>r. d' = put_row (cl_scope c) r d)" by blast
  from frame have "(\<forall>s. s \<noteq> cl_scope c \<longrightarrow> pg_slot C d' s = pg_slot C d s) \<and>
      db_jobs d' = db_jobs d \<and> db_planes d' = db_planes d"
    by (auto simp: pg_slot_put_row)
  with inner ij spec pg_claim_no_fault [OF assms(3) inner] show ?thesis by blast
qed

section \<open>What each operation does to the tables\<close>

lemma run_transaction_state:
  assumes "\<And>x d'. body = Ok (x, d') \<Longrightarrow> P d'" and "P d"
  shows "P (snd (run_transaction E d body))"
  using assms by (auto simp: run_transaction_def split: option.splits db_fault.splits sum.splits)

lemma run_transaction_Ok:
  "fst (run_transaction E d body) = Ok x \<longleftrightarrow>
     env_fault E = None \<and> body = Ok (x, snd (run_transaction E d body))"
  by (auto simp: run_transaction_def split: option.splits db_fault.splits sum.splits)

lemma run_transaction_Err_body:
  "body = Err e \<Longrightarrow> \<exists>e'. run_transaction E d body = (Err e', d)"
  by (auto simp: run_transaction_def split: option.splits db_fault.splits)

lemma load_owned_Ok_iff:
  "load_owned d scope = Ok stored \<longleftrightarrow>
     (\<exists>r. fmlookup (db_records d) scope = Some r \<and> stored_of_row r = Ok stored)"
  by (auto simp: load_owned_def and_then_Ok_iff load_claim_def map_ok_Ok_iff split: option.splits)

lemma stored_of_row_Ok_iff:
  "stored_of_row r = Ok stored \<longleftrightarrow> row_request_id r \<noteq> 0 \<and> stored =
     \<lparr>st_digest = row_digest r, st_request_id = RequestId (row_request_id r), st_state = row_state r,
      st_lease_token = row_lease_token r, st_lease_expires_at = row_lease_expires_at r,
      st_response = row_response r, st_created_at = row_created_at r, st_expires_at = row_expires_at r\<rparr>"
  by (auto simp: stored_of_row_def map_ok_Ok_iff request_id_new_non_nil)

lemma ensure_current_lease_Ok_iff:
  "ensure_current_lease stored lid rid = Ok u \<longleftrightarrow>
     st_state stored = ''pending'' \<and> st_lease_expires_at stored \<noteq> None \<and>
     st_lease_token stored = Some (lease_uuid lid) \<and> (\<forall>r. rid = Some r \<longrightarrow> r = st_request_id stored)"
  by (auto simp: ensure_current_lease_def split: option.splits)

definition completed_row :: "string \<Rightarrow> int \<Rightarrow> instant \<Rightarrow> claim_row \<Rightarrow> claim_row" where
  "completed_row v ttl now r = r\<lparr>row_state := ''completed'', row_lease_token := None,
     row_lease_expires_at := None, row_response := Some v, row_updated_at := now,
     row_expires_at := now + ttl\<rparr>"

lemma finish_completed_job_Ok:
  "finish_completed_job now m d = Ok d' \<Longrightarrow>
     \<exists>j. db_jobs d' = fmupd (request_uuid (response_request_id (cm_response m))) j (db_jobs d) \<and>
       jb_status j = ''completed'' \<and> db_records d' = db_records d \<and> db_planes d' = db_planes d"
proof -
  assume res: "finish_completed_job now m d = Ok d'"
  obtain fl du pr where f: "completion_fields (cm_response m) = (fl, du, pr)" by (metis prod_cases3)
  show ?thesis
  proof (cases "fmlookup (db_jobs d) (request_uuid (response_request_id (cm_response m)))")
    case None
    with res f show ?thesis by (simp add: finish_completed_job_def and_then_Ok_iff Let_def)
  next
    case (Some j)
    from res f Some show ?thesis
      by (auto simp: finish_completed_job_def and_then_Ok_iff Let_def split: if_split_asm)
  qed
qed

lemma complete_inner_Ok:
  assumes "complete_inner K C E m d = Ok (u, d')"
  shows "\<exists>r v ttl j. fmlookup (db_records d) (cm_scope m) = Some r \<and> row_state r = ''pending'' \<and>
     row_lease_token r = Some (lease_uuid (cm_lease_id m)) \<and>
     row_request_id r = request_uuid (response_request_id (cm_response m)) \<and> row_request_id r \<noteq> 0 \<and>
     completed_operation (cm_response m) = sc_operation (cm_scope m) \<and>
     encode_response C (cm_response m) = Ok v \<and> postgres_interval C (cfg_record_ttl K) = Ok ttl \<and>
     db_records d' = fmupd (cm_scope m) (completed_row v ttl (env_clock E 0) r) (db_records d) \<and>
     db_jobs d' = fmupd (row_request_id r) j (db_jobs d) \<and> jb_status j = ''completed'' \<and>
     db_planes d' = db_planes d"
proof -
  from assms obtain v ttl stored r where
    guards: "completed_operation (cm_response m) = sc_operation (cm_scope m)"
      "encode_response C (cm_response m) = Ok v" "postgres_interval C (cfg_record_ttl K) = Ok ttl"
    and stored: "stored_of_row r = Ok stored" and r: "fmlookup (db_records d) (cm_scope m) = Some r"
    and row: "row_state r = ''pending''" "row_lease_token r = Some (lease_uuid (cm_lease_id m))"
      "row_request_id r = request_uuid (response_request_id (cm_response m))"
    and fin: "finish_completed_job (env_clock E 1) m (d\<lparr>db_records := fmupd (cm_scope m)
        (completed_row v ttl (env_clock E 0) r) (db_records d)\<rparr>) = Ok d'"
    by (auto simp: complete_inner_def Let_def and_then_Ok_iff load_owned_Ok_iff map_ok_Ok_iff
        completed_row_def split: if_splits)
  from stored have "row_request_id r \<noteq> 0" by (simp add: stored_of_row_Ok_iff)
  with guards r row finish_completed_job_Ok [OF fin] show ?thesis by fastforce
qed

lemma fail_job_frame [simp]:
  "db_records (fail_job jid tok code f e d) = db_records d"
  "db_planes (fail_job jid tok code f e d) = db_planes d"
  by (simp_all add: fail_job_def split: option.splits)

lemma release_inner_Ok:
  assumes "release_inner E rl d = Ok (u, d')"
  shows "\<exists>r. fmlookup (db_records d) (rl_scope rl) = Some r \<and> row_state r = ''pending'' \<and>
     row_lease_token r = Some (lease_uuid (rl_lease_id rl)) \<and> row_request_id r \<noteq> 0 \<and>
     db_records d' = fmupd (rl_scope rl) (r\<lparr>row_lease_expires_at := Some (env_clock E 0),
        row_updated_at := env_clock E 0\<rparr>) (db_records d) \<and> db_planes d' = db_planes d"
  using assms
  by (auto simp: release_inner_def Let_def and_then_Ok_iff load_owned_Ok_iff stored_of_row_Ok_iff
      split: if_splits)

lemma upsert_job_frame:
  "upsert_job jid new d = Ok d' \<Longrightarrow> db_records d' = db_records d \<and> db_planes d' = db_planes d"
  by (auto simp: upsert_job_def split: option.splits if_splits)

lemma start_job_inner_frame:
  "start_job_inner C E job d = Ok (u, d') \<Longrightarrow> db_records d' = db_records d \<and> db_planes d' = db_planes d"
  by (auto simp: start_job_inner_def and_then_Ok_iff map_ok_Ok_iff dest: upsert_job_frame split: if_splits)

section \<open>Operations in sequence\<close>

datatype store_op =
    ClaimOp idempotency_claim
  | StartJobOp speech_job_start
  | CompleteOp idempotency_completion
  | ReleaseOp idempotency_release
  | RecoverOp
  | DeleteExpiredOp "idempotency_scope fset"

text \<open>What an operation of any replica leaves behind, whatever it answered.\<close>

fun apply_op :: "store_config \<Rightarrow> store_crates \<Rightarrow> db_env \<Rightarrow> store_op \<Rightarrow> db \<Rightarrow> db" where
  "apply_op K C E (ClaimOp c) d = snd (pg_claim K C E c d)"
| "apply_op K C E (StartJobOp job) d = snd (pg_start_job C E job d)"
| "apply_op K C E (CompleteOp m) d = snd (pg_complete K C E m d)"
| "apply_op K C E (ReleaseOp rl) d = snd (pg_release E rl d)"
| "apply_op K C E RecoverOp d = recover_expired_jobs (env_clock E 0) d"
| "apply_op K C E (DeleteExpiredOp batch) d = snd (delete_expired E batch d)"

text \<open>The lease holder's own operations: completing or releasing under its token.\<close>

fun op_owns :: "store_op \<Rightarrow> idempotency_scope \<Rightarrow> uuid \<Rightarrow> bool" where
  "op_owns (CompleteOp m) k tok \<longleftrightarrow> cm_scope m = k \<and> lease_uuid (cm_lease_id m) = tok"
| "op_owns (ReleaseOp rl) k tok \<longleftrightarrow> rl_scope rl = k \<and> lease_uuid (rl_lease_id rl) = tok"
| "op_owns _ k tok \<longleftrightarrow> False"

definition env_before :: "db_env \<Rightarrow> instant \<Rightarrow> bool" where
  "env_before E t \<longleftrightarrow> (\<forall>i. env_clock E i < t)"

text \<open>A row that no cleaner and no claim may replace while the clock stays before \<open>t\<close>.\<close>

definition row_live_until :: "instant \<Rightarrow> claim_row \<Rightarrow> bool" where
  "row_live_until t r \<longleftrightarrow>
     row_state r = ''pending'' \<and> row_lease_expires_at r = Some t \<and> row_lease_token r \<noteq> None \<or>
     row_state r = ''completed'' \<and> row_expires_at r = t"

lemma live_row_not_expired:
  "row_live_until t r \<Longrightarrow> now < t \<Longrightarrow> \<not> row_expired now r"
  by (auto simp: row_live_until_def row_expired_def)

lemma claim_loop_live:
  assumes r: "fmlookup (db_records d) (cl_scope c) = Some r" and live: "row_live_until t r"
    and before: "env_before E t"
    and res: "claim_loop E c lease ttl k d = Ok (found, d')"
  shows "d' = d \<and> (\<exists>stored. stored_of_row r = Ok stored \<and> found = Stored stored (env_clock E (k + 2)) (k + 3))"
proof -
  have now: "env_clock E i < t" for i using before by (simp add: env_before_def)
  have ins: "insert_claim c lease ttl (env_clock E k) d = (False, d)"
    using r by (simp add: insert_claim_False fmdomI)
  have same: "cleaned E (k + 1) (cl_scope c) d = d"
    using r live_row_not_expired [OF live now] by (simp add: cleaned_def)
  from res ins same obtain stored where stored: "stored_of_row r = Ok stored"
    by (subst (asm) claim_loop.simps) (auto simp: Let_def load_claim_def r map_ok_def split: sum.splits)
  have "record_is_purgeable stored (env_clock E (k + 2)) = Ok False"
    using stored live now [of "k + 2"]
    by (auto simp: record_is_purgeable_def stored_of_row_Ok_iff row_live_until_def)
  with res ins same stored show ?thesis
    by (subst (asm) claim_loop.simps) (auto simp: Let_def load_claim_def r)
qed

lemma claim_live:
  assumes r: "fmlookup (db_records d) (cl_scope c) = Some r" and live: "row_live_until t r"
    and before: "env_before E t"
    and res: "claim_inner K C E c d = Ok (dec, d')"
  shows "d' = d \<and> (\<forall>l rid started. dec \<noteq> Acquired l rid started)"
proof -
  from res obtain lease ttl found d1 where
    loop: "claim_loop E c lease ttl 0 d = Ok (found, d1)" and
    rest: "(case found of
         Inserted created lease_expires \<Rightarrow>
           Ok (Acquired \<lparr>lease_id = cl_lease_id c, lease_expires_at = lease_expires\<rparr>
                 (cl_request_id c) created, d1)
       | Stored stored now k \<Rightarrow> decide_stored K C E c lease stored now k d1) = Ok (dec, d')"
    by (auto simp: claim_inner_def and_then_Ok_iff)
  from claim_loop_live [OF r live before loop, unfolded add_0] obtain stored where
    "d1 = d" "stored_of_row r = Ok stored" "found = Stored stored (env_clock E 2) 3" by auto
  with rest have "decide_stored K C E c lease stored (env_clock E 2) 3 d = Ok (dec, d')" by simp
  moreover have "env_clock E 2 < t" using before by (simp add: env_before_def)
  ultimately show ?thesis
    using live \<open>stored_of_row r = Ok stored\<close>
    by (auto simp: decide_stored_def stored_of_row_Ok_iff row_live_until_def and_then_Ok_iff
        split: if_splits)
qed

definition same_elsewhere :: "idempotency_scope \<Rightarrow> db \<Rightarrow> db \<Rightarrow> bool" where
  "same_elsewhere k d d' \<longleftrightarrow>
     (\<forall>s. s \<noteq> k \<longrightarrow> fmlookup (db_records d') s = fmlookup (db_records d) s) \<and>
     db_jobs d' = db_jobs d \<and> db_planes d' = db_planes d"

lemma same_elsewhere_simps:
  "same_elsewhere k d d"
  "same_elsewhere k (d\<lparr>db_records := fmdrop k (db_records d)\<rparr>) d' \<longleftrightarrow> same_elsewhere k d d'"
  "same_elsewhere k d (d\<lparr>db_records := fmupd k r (db_records d)\<rparr>)"
  by (auto simp: same_elsewhere_def)

lemma same_elsewhere_cleaned:
  "same_elsewhere k (cleaned E i k d) d' \<longleftrightarrow> same_elsewhere k d d'"
  by (auto simp: cleaned_def same_elsewhere_simps)

lemma claim_loop_frame:
  "claim_loop E c lease ttl k d = Ok (found, d') \<Longrightarrow> same_elsewhere (cl_scope c) d d'"
proof (induction E c lease ttl k d rule: claim_loop.induct)
  case (1 E c lease ttl k d)
  let ?d = "cleaned E (k + 1) (cl_scope c) d"
  show ?case
  proof (cases "insert_claim c lease ttl (env_clock E k) d")
    case (Pair ins d1)
    show ?thesis
    proof (cases ins)
      case True
      with Pair "1.prems" show ?thesis
        by (subst (asm) claim_loop.simps)
          (auto simp: insert_claim_def initialize_inserted_claim_def same_elsewhere_simps
            split: if_splits)
    next
      case False
      with Pair have ins: "insert_claim c lease ttl (env_clock E k) d = (False, d)"
        by (simp add: insert_claim_False)
      from "1.prems" ins consider
          "load_claim ?d (cl_scope c) = Ok None" "claim_loop E c lease ttl (k + 2) ?d = Ok (found, d')"
        | stored d2 where "load_claim ?d (cl_scope c) = Ok (Some stored)"
          "record_is_purgeable stored (env_clock E (k + 2)) = Ok True"
          "delete_locked_claim (cl_scope c) ?d = Ok d2"
          "claim_loop E c lease ttl (k + 3) d2 = Ok (found, d')"
        | "d' = ?d"
        by (subst (asm) claim_loop.simps)
          (auto simp: Let_def split: sum.splits option.splits bool.splits)
      then show ?thesis
      proof cases
        case 1
        with "1.IH"(1) [OF ins [symmetric] refl refl 1(1) refl 1(2)] show ?thesis
          by (simp add: same_elsewhere_cleaned)
      next
        case (2 stored d2)
        with "1.IH"(2) [OF ins [symmetric] refl refl 2(1) refl 2(2) refl 2(3) 2(4)] show ?thesis
          by (auto simp: delete_locked_claim_Ok same_elsewhere_simps same_elsewhere_cleaned)
      next
        case 3
        then show ?thesis using same_elsewhere_cleaned same_elsewhere_simps(1) by blast
      qed
    qed
  qed
qed

lemma claim_inner_frame:
  "claim_inner K C E c d = Ok (dec, d') \<Longrightarrow> same_elsewhere (cl_scope c) d d'"
proof -
  assume "claim_inner K C E c d = Ok (dec, d')"
  then obtain lease found d1 ttl where loop: "claim_loop E c lease ttl 0 d = Ok (found, d1)" and
    "(case found of
         Inserted created lease_expires \<Rightarrow>
           Ok (Acquired \<lparr>lease_id = cl_lease_id c, lease_expires_at = lease_expires\<rparr>
                 (cl_request_id c) created, d1)
       | Stored stored now k \<Rightarrow> decide_stored K C E c lease stored now k d1) = Ok (dec, d')"
    by (auto simp: claim_inner_def and_then_Ok_iff)
  then have "d' = d1 \<or> (\<exists>r. d' = d1\<lparr>db_records := fmupd (cl_scope c) r (db_records d1)\<rparr>)"
    by (auto simp: decide_stored_def reclaim_claim_def map_ok_Ok_iff and_then_Ok_iff
        split: claim_found.splits if_splits option.splits)
  with claim_loop_frame [OF loop] show ?thesis by (auto simp: same_elsewhere_def)
qed

text \<open>A live row survives every operation that is not its holder's.\<close>

lemma apply_op_live_row:
  assumes r: "fmlookup (db_records d) k = Some r" and live: "row_live_until t r"
    and before: "env_before E t"
    and other: "\<And>tok. row_state r = ''pending'' \<Longrightarrow> row_lease_token r = Some tok \<Longrightarrow> \<not> op_owns op k tok"
  shows "fmlookup (db_records (apply_op K C E op d)) k = Some r"
proof (cases op)
  case (ClaimOp c)
  have "fmlookup (db_records d') k = Some r" if "claim_inner K C E c d = Ok (dec, d')" for dec d'
  proof (cases "cl_scope c = k")
    case True
    with claim_live [of d c r] r live before that show ?thesis by blast
  next
    case False
    with claim_inner_frame [OF that] r show ?thesis by (auto simp: same_elsewhere_def)
  qed
  then show ?thesis unfolding ClaimOp apply_op.simps pg_claim_def
    by (rule run_transaction_state [where P = "\<lambda>d. fmlookup (db_records d) k = Some r"]) (assumption, rule r)
next
  case (CompleteOp m)
  have "fmlookup (db_records d') k = Some r" if "complete_inner K C E m d = Ok (u, d')" for u d'
    using complete_inner_Ok [OF that] r other CompleteOp by auto
  then show ?thesis unfolding CompleteOp apply_op.simps pg_complete_def
    by (rule run_transaction_state [where P = "\<lambda>d. fmlookup (db_records d) k = Some r"]) (assumption, rule r)
next
  case (ReleaseOp rl)
  have "fmlookup (db_records d') k = Some r" if "release_inner E rl d = Ok (u, d')" for u d'
    using release_inner_Ok [OF that] r other ReleaseOp by auto
  then show ?thesis unfolding ReleaseOp apply_op.simps pg_release_def
    by (rule run_transaction_state [where P = "\<lambda>d. fmlookup (db_records d) k = Some r"]) (assumption, rule r)
next
  case (StartJobOp job)
  have "fmlookup (db_records d') k = Some r" if "start_job_inner C E job d = Ok (u, d')" for u d'
    using start_job_inner_frame [OF that] r by simp
  then show ?thesis unfolding StartJobOp apply_op.simps pg_start_job_def
    by (rule run_transaction_state [where P = "\<lambda>d. fmlookup (db_records d) k = Some r"]) (assumption, rule r)
next
  case (DeleteExpiredOp batch)
  have "\<not> row_expired (env_clock E 1) r"
    using live_row_not_expired [OF live] before by (simp add: env_before_def)
  then have "fmlookup (db_records (delete_batch (env_clock E 1) batch
      (recover_expired_jobs (env_clock E 0) d))) k = Some r"
    using r by (simp add: delete_batch_def recover_expired_jobs_def)
  with DeleteExpiredOp r show ?thesis
    by (auto simp: delete_expired_def recover_expired_jobs_def Let_def split: option.splits db_fault.splits)
qed (simp add: recover_expired_jobs_def r)

lemma slot_live_until:
  "slot_of_row C k r = Leased dg rid cr tok e ex \<Longrightarrow> row_live_until e r"
  "slot_of_row C k r = Done dg rid resp ex \<Longrightarrow> row_live_until ex r"
  by (auto simp: row_live_until_def slot_of_row_Leased_iff slot_of_row_Done_iff)

interpretation pg: lease_store "pg_slot C" "apply_op K C" op_owns env_before
proof unfold_locales
  fix d k dg rid cr tok e ex E op
  assume s: "pg_slot C d k = Leased dg rid cr tok e ex" and b: "env_before E e" and o: "\<not> op_owns op k tok"
  then obtain r where r: "fmlookup (db_records d) k = Some r" "slot_of_row C k r = Leased dg rid cr tok e ex"
    by (auto simp: pg_slot_def split: option.splits)
  moreover have "row_lease_token r = Some tok" using slot_of_row_LeasedD [OF r(2)] by simp
  ultimately have "fmlookup (db_records (apply_op K C E op d)) k = Some r"
    using apply_op_live_row [OF r(1) slot_live_until(1) [OF r(2)] b] o by auto
  with r s show "pg_slot C (apply_op K C E op d) k = pg_slot C d k" by (simp add: pg_slot_def)
next
  fix d k dg rid resp ex E op
  assume s: "pg_slot C d k = Done dg rid resp ex" and b: "env_before E ex"
  then obtain r where r: "fmlookup (db_records d) k = Some r" "slot_of_row C k r = Done dg rid resp ex"
    by (auto simp: pg_slot_def split: option.splits)
  moreover have "row_state r \<noteq> ''pending''" using slot_of_row_DoneD [OF r(2)] by simp
  ultimately have "fmlookup (db_records (apply_op K C E op d)) k = Some r"
    using apply_op_live_row [OF r(1) slot_live_until(2) [OF r(2)] b] by auto
  with r s show "pg_slot C (apply_op K C E op d) k = pg_slot C d k" by (simp add: pg_slot_def)
qed

end
