(* ===== verification/Store_Properties.thy ===== *)
theory Store_Properties
  imports Store_Refinement
begin

text \<open>
  What the idempotency store guarantees its callers: exclusive leases, stable replays, refusal of
  stale lease holders, progress after a lease ends, bounded retry delays, and well-formedness of
  every database the operations can reach.
\<close>

section \<open>Sequences of operations\<close>

definition run_ops :: "store_config \<Rightarrow> store_crates \<Rightarrow> (db_env \<times> store_op) list \<Rightarrow> db \<Rightarrow> db" where
  "run_ops K C events d = fold (\<lambda>(E, op). apply_op K C E op) events d"

lemma run_ops_pg: "run_ops K C events d = lease_store.run (apply_op K C) events d"
  by (simp add: run_ops_def pg.run_def)

lemma apply_op_planes: "db_planes (apply_op K C E op d) = db_planes d"
proof (cases op)
  case (ClaimOp c)
  show ?thesis unfolding ClaimOp apply_op.simps pg_claim_def
    by (rule run_transaction_state [where P = "\<lambda>d'. db_planes d' = db_planes d"])
      (auto dest: claim_inner_frame simp: same_elsewhere_def)
next
  case (CompleteOp m)
  show ?thesis unfolding CompleteOp apply_op.simps pg_complete_def
    by (rule run_transaction_state [where P = "\<lambda>d'. db_planes d' = db_planes d"])
      (auto dest: complete_inner_Ok)
next
  case (ReleaseOp rl)
  show ?thesis unfolding ReleaseOp apply_op.simps pg_release_def
    by (rule run_transaction_state [where P = "\<lambda>d'. db_planes d' = db_planes d"])
      (auto dest: release_inner_Ok)
next
  case (StartJobOp job)
  show ?thesis unfolding StartJobOp apply_op.simps pg_start_job_def
    by (rule run_transaction_state [where P = "\<lambda>d'. db_planes d' = db_planes d"])
      (auto dest: start_job_inner_frame)
next
  case (DeleteExpiredOp batch)
  then show ?thesis
    by (auto simp: delete_expired_def recover_expired_jobs_def delete_batch_def Let_def
        split: option.splits db_fault.splits)
qed (simp add: recover_expired_jobs_def)

lemma run_ops_planes: "db_planes (run_ops K C events d) = db_planes d"
  by (induction events arbitrary: d) (auto simp: run_ops_def apply_op_planes)

section \<open>Leases are exclusive\<close>

text \<open>
  C3: a lease is exclusive while it lasts. After any sequence of operations by any replicas, as
  long as the database clock stays before the end of the lease and the holder itself neither
  completes nor releases, the scope's slot is exactly the holder's lease, and no claim on the
  scope, whatever its digest and whatever fault it meets, acquires it or changes anything.
\<close>

theorem lease_is_exclusive:
  assumes "pg_slot C d (cl_scope c) = Leased dg rid cr tok e ex"
    and "\<forall>(E, op) \<in> set events. env_before E e \<and> \<not> op_owns op (cl_scope c) tok"
    and "env_before E' e"
  shows "pg_slot C (run_ops K C events d) (cl_scope c) = Leased dg rid cr tok e ex \<and>
     (\<forall>l r t. fst (pg_claim K C E' c (run_ops K C events d)) \<noteq> Ok (Acquired l r t)) \<and>
     snd (pg_claim K C E' c (run_ops K C events d)) = run_ops K C events d"
proof -
  let ?d = "run_ops K C events d"
  have slot: "pg_slot C ?d (cl_scope c) = Leased dg rid cr tok e ex"
    using pg.run_keeps_lease [OF assms(1,2)] by (simp add: run_ops_pg)
  then obtain r where r: "fmlookup (db_records ?d) (cl_scope c) = Some r"
    "slot_of_row C (cl_scope c) r = Leased dg rid cr tok e ex"
    by (auto simp: pg_slot_def split: option.splits)
  note live = claim_live [OF r(1) slot_live_until(1) [OF r(2)] assms(3)]
  have "snd (pg_claim K C E' c ?d) = ?d" unfolding pg_claim_def
    by (rule run_transaction_state [where P = "\<lambda>d'. d' = ?d"]) (use live in auto)
  moreover have "fst (pg_claim K C E' c ?d) \<noteq> Ok (Acquired l q t)" for l q t
    using live unfolding pg_claim_def run_transaction_Ok by blast
  ultimately show ?thesis using slot by blast
qed

section \<open>Results are replayed\<close>

lemma complete_slot:
  assumes laws: "store_crate_laws C" and resp: "storable C (cm_response m)"
    and ok: "fst (pg_complete K C E m d) = Ok u"
    and slot: "pg_slot C d (cm_scope m) = Leased dg rid cr tok e ex"
  shows "tok = lease_uuid (cm_lease_id m) \<and> rid = response_request_id (cm_response m) \<and>
     (\<exists>ttl. postgres_interval C (cfg_record_ttl K) = Ok ttl \<and>
        pg_slot C (snd (pg_complete K C E m d)) (cm_scope m) =
          Done dg rid (replayed (cm_response m)) (env_clock E 0 + ttl))"
proof -
  let ?d = "snd (pg_complete K C E m d)"
  from ok have "complete_inner K C E m d = Ok (u, ?d)"
    unfolding pg_complete_def run_transaction_Ok by simp
  from complete_inner_Ok [OF this] obtain r v ttl where
    r: "fmlookup (db_records d) (cm_scope m) = Some r" "row_state r = ''pending''"
      "row_lease_token r = Some (lease_uuid (cm_lease_id m))"
      "row_request_id r = request_uuid (response_request_id (cm_response m))" "row_request_id r \<noteq> 0"
    and m: "completed_operation (cm_response m) = sc_operation (cm_scope m)"
      "encode_response C (cm_response m) = Ok v" "postgres_interval C (cfg_record_ttl K) = Ok ttl"
    and d: "db_records ?d = fmupd (cm_scope m) (completed_row v ttl (env_clock E 0) r) (db_records d)"
    by blast
  from slot r(1) have row: "slot_of_row C (cm_scope m) r = Leased dg rid cr tok e ex"
    by (simp add: pg_slot_def)
  note s = slot_of_row_LeasedD [OF row]
  have "decode_response C v = Ok (replayed (cm_response m))"
    by (rule response_codec_round_trip [OF laws resp m(2)])
  then have "slot_of_row C (cm_scope m) (completed_row v ttl (env_clock E 0) r) =
      Done dg rid (replayed (cm_response m)) (env_clock E 0 + ttl)"
    using s r m(1) by (auto simp: slot_of_row_Done_iff completed_row_def)
  with s r m(3) d show ?thesis by (simp add: pg_slot_def)
qed

text \<open>
  C4: a completed operation is replayed. Once the lease holder's completion succeeded, then
  after any sequence of operations by any replicas, while the record's retention lasts, every
  claim on the scope that meets no fault changes nothing and answers: the stored response, for
  the digest of the original request; \<open>KeyReused\<close>, for any other digest.
\<close>

theorem completed_result_is_replayed:
  assumes laws: "store_crate_laws C" and resp: "storable C (cm_response m)"
    and lease: "pg_slot C d (cm_scope m) = Leased dg rid cr tok e ex"
    and ok: "fst (pg_complete K C E m d) = Ok ()"
    and ttl: "postgres_interval C (cfg_record_ttl K) = Ok ttl"
    and events: "\<forall>(E', op) \<in> set events. env_before E' (env_clock E 0 + ttl)"
    and c: "cl_scope c = cm_scope m" "claimable K C c lease ttl d"
    and env: "clock_ok E''" "env_fault E'' = None" "env_before E'' (env_clock E 0 + ttl)"
  shows "pg_claim K C E'' c (run_ops K C events (snd (pg_complete K C E m d))) =
     (Ok (if digest_bytes (cl_digest c) = dg then Replay (replayed (cm_response m)) else KeyReused),
      run_ops K C events (snd (pg_complete K C E m d)))"
proof -
  let ?d1 = "snd (pg_complete K C E m d)"
  let ?d = "run_ops K C events ?d1"
  have "pg_slot C ?d1 (cm_scope m) = Done dg rid (replayed (cm_response m)) (env_clock E 0 + ttl)"
    using complete_slot [OF laws resp ok lease] ttl by simp
  from pg.run_keeps_done [OF this events]
  have slot: "pg_slot C ?d (cl_scope c) = Done dg rid (replayed (cm_response m)) (env_clock E 0 + ttl)"
    by (simp add: run_ops_pg c(1))
  have "db_planes ?d = db_planes d"
    using apply_op_planes [of K C E "CompleteOp m" d] by (simp add: run_ops_planes)
  with c(2) have "claimable K C c lease ttl ?d" by (simp add: claimable_def)
  from claim_refines_spec [OF this env(1,2)] slot obtain dec d' i j where
    res: "pg_claim K C E'' c ?d = (Ok dec, d')" and
    spec: "(dec, pg_slot C d' (cl_scope c)) = spec_claim (retry_delay K) lease ttl c
      (env_clock E'' i) (env_clock E'' j) (Done dg rid (replayed (cm_response m)) (env_clock E 0 + ttl))"
    by auto
  have "env_clock E'' i < env_clock E 0 + ttl" using env(3) by (simp add: env_before_def)
  with spec have dec: "dec = (if digest_bytes (cl_digest c) = dg
      then Replay (replayed (cm_response m)) else KeyReused)"
    using spec_claim_live_result(2) by (metis fst_conv)
  have "d' = ?d"
  proof -
    from slot obtain r where r: "fmlookup (db_records ?d) (cl_scope c) = Some r"
      "slot_of_row C (cl_scope c) r = Done dg rid (replayed (cm_response m)) (env_clock E 0 + ttl)"
      by (auto simp: pg_slot_def split: option.splits)
    have "claim_inner K C E'' c ?d = Ok (dec, d')"
      using res env(2) by (auto simp: pg_claim_def run_transaction_def split: sum.splits prod.splits)
    from claim_live [OF r(1) slot_live_until(2) [OF r(2)] env(3) this] show ?thesis by blast
  qed
  with res dec show ?thesis by simp
qed

section \<open>Stale lease holders\<close>

text \<open>
  A stale lease changes nothing. When the row of a scope is missing, completed or leased to
  another token, an attempt to start a job, complete or release under a given lease ends in an
  error, with or without a database fault, and leaves the whole database as it was.
\<close>

theorem stale_lease_is_refused:
  assumes "\<forall>r. fmlookup (db_records d) k = Some r \<longrightarrow>
      row_state r \<noteq> ''pending'' \<or> row_lease_token r \<noteq> Some (lease_uuid lid)"
  shows "(cm_scope m = k \<and> cm_lease_id m = lid \<longrightarrow> (\<exists>err. pg_complete K C E m d = (Err err, d))) \<and>
     (rl_scope rl = k \<and> rl_lease_id rl = lid \<longrightarrow> (\<exists>err. pg_release E rl d = (Err err, d))) \<and>
     (js_scope job = k \<and> js_lease_id job = lid \<longrightarrow> (\<exists>err. pg_start_job C E job d = (Err err, d)))"
proof (intro conjI impI)
  assume m: "cm_scope m = k \<and> cm_lease_id m = lid"
  have "complete_inner K C E m d \<noteq> Ok x" for x
    using assms m by (cases x) (auto dest!: complete_inner_Ok)
  then obtain e where "complete_inner K C E m d = Err e" by (metis sum.exhaust)
  then show "\<exists>err. pg_complete K C E m d = (Err err, d)"
    unfolding pg_complete_def by (rule run_transaction_Err_body)
next
  assume rl: "rl_scope rl = k \<and> rl_lease_id rl = lid"
  have "release_inner E rl d \<noteq> Ok x" for x
    using assms rl by (cases x) (auto dest!: release_inner_Ok)
  then obtain e where "release_inner E rl d = Err e" by (metis sum.exhaust)
  then show "\<exists>err. pg_release E rl d = (Err err, d)"
    unfolding pg_release_def by (rule run_transaction_Err_body)
next
  assume job: "js_scope job = k \<and> js_lease_id job = lid"
  have "start_job_inner C E job d \<noteq> Ok x" for x
    using assms job
    by (auto simp: start_job_inner_def and_then_Ok_iff load_owned_Ok_iff stored_of_row_Ok_iff
        ensure_current_lease_Ok_iff split: if_splits)
  then obtain e where "start_job_inner C E job d = Err e" by (metis sum.exhaust)
  then show "\<exists>err. pg_start_job C E job d = (Err err, d)"
    unfolding pg_start_job_def by (rule run_transaction_Err_body)
qed

section \<open>Progress\<close>

text \<open>
  C38: abandoned work can be taken over. When the lease of a scope is over but its record is
  retained, a claim with the original digest that meets no fault acquires the scope under the
  new lease, and it is given the request id and the start time of the first claim.
\<close>

theorem ended_lease_is_reclaimed:
  assumes "pg_slot C d (cl_scope c) = Leased dg rid cr tok e ex"
    and "claimable K C c lease ttl d" and "digest_bytes (cl_digest c) = dg"
    and "clock_ok E" and "env_fault E = None"
    and "\<forall>i. e \<le> env_clock E i \<and> env_clock E i < ex"
  shows "\<exists>t d'. pg_claim K C E c d =
       (Ok (Acquired \<lparr>lease_id = cl_lease_id c, lease_expires_at = t + lease\<rparr> rid cr), d') \<and>
     pg_slot C d' (cl_scope c) = Leased dg rid cr (lease_uuid (cl_lease_id c)) (t + lease) ex"
proof -
  from claim_refines_spec [OF assms(2,4,5)] assms(1) obtain dec d' i j where
    res: "pg_claim K C E c d = (Ok dec, d')" and
    spec: "(dec, pg_slot C d' (cl_scope c)) = spec_claim (retry_delay K) lease ttl c
      (env_clock E i) (env_clock E j) (Leased dg rid cr tok e ex)"
    by auto
  have "e \<le> env_clock E i" "\<not> ex \<le> env_clock E i" using assms(6) by (simp_all add: not_le)
  with spec assms(3) have "dec = Acquired \<lparr>lease_id = cl_lease_id c, lease_expires_at = env_clock E j + lease\<rparr> rid cr"
    "pg_slot C d' (cl_scope c) = Leased dg rid cr (lease_uuid (cl_lease_id c)) (env_clock E j + lease) ex"
    by simp_all
  with res show ?thesis by blast
qed

section \<open>Retry delays\<close>

text \<open>
  The delay suggested for work in progress is bounded. It never exceeds the configured
  delay; it is at least the smaller of that and one second; and it does not exceed the rest of
  the lease by a full second or more, unless it is that one-second minimum.
\<close>

theorem retry_delay_bounds:
  assumes "now < expires"
  shows "retry_delay K expires now \<le> cfg_retry_after K \<and>
     min (cfg_retry_after K) (secs 1) \<le> retry_delay K expires now \<and>
     (retry_delay K expires now \<le> secs 1 \<or>
      int (retry_delay K expires now) < expires - now + int (secs 1))"
proof -
  define ms where "ms = (if 0 \<le> (expires - now) div 1000000 \<and> (expires - now) div 1000000 \<le> int u64_max
     then nat ((expires - now) div 1000000) else u64_max)"
  have delay: "retry_delay K expires now = min (cfg_retry_after K) (secs (max 1 ((ms + 999) div 1000)))"
    by (simp add: retry_delay_def ms_def Let_def)
  have pos: "0 \<le> (expires - now) div 1000000" using assms by (simp add: div_int_pos_iff)
  then have ms: "int ms \<le> (expires - now) div 1000000" by (auto simp: ms_def)
  have "(ms + 999) div 1000 * 1000 \<le> ms + 999" by (simp add: div_times_less_eq_dividend)
  then have "int ((ms + 999) div 1000) * 1000 \<le> (expires - now) div 1000000 + 999"
    using ms by linarith
  then have "int ((ms + 999) div 1000) * 1000000000 \<le> (expires - now) div 1000000 * 1000000 + 999000000"
    by linarith
  also have "(expires - now) div 1000000 * 1000000 \<le> expires - now" by simp
  finally have bound: "int (secs ((ms + 999) div 1000)) < expires - now + int (secs 1)"
    by (simp add: secs_def)
  show ?thesis
  proof (cases "(ms + 999) div 1000 \<le> 1")
    case True
    then have "max 1 ((ms + 999) div 1000) = 1" by (simp add: max_def)
    with delay show ?thesis by simp
  next
    case False
    then have "max 1 ((ms + 999) div 1000) = (ms + 999) div 1000" by (simp add: max_def)
    moreover have "secs 1 \<le> secs ((ms + 999) div 1000)" using False by (simp add: secs_def)
    ultimately show ?thesis using delay bound by (auto simp: min_def)
  qed
qed

end
