(* ===== verification/Store_Reachable.thy ===== *)
theory Store_Reachable
  imports Store_Properties
begin

text \<open>
  Every database that the store's operations can reach is well formed: no row is broken, every
  job satisfies the lifecycle checks of the schema, and a completed record has a completed job.
  The step relation is \<open>reachable\<close>; the invariant is proved by rule induction over it.
\<close>

section \<open>Reachable databases\<close>

definition empty_db :: "uuid list \<Rightarrow> db" where
  "empty_db planes = \<lparr>db_records = fmempty, db_jobs = fmempty, db_planes = planes\<rparr>"

text \<open>The invariants of the domain types an operation is called with.\<close>

fun op_valid :: "store_crates \<Rightarrow> store_op \<Rightarrow> bool" where
  "op_valid C (ClaimOp c) \<longleftrightarrow>
     length (digest_bytes (cl_digest c)) = 32 \<and> request_uuid (cl_request_id c) \<noteq> 0"
| "op_valid C (CompleteOp m) \<longleftrightarrow> storable C (cm_response m)"
| "op_valid C _ \<longleftrightarrow> True"

inductive reachable :: "store_config \<Rightarrow> store_crates \<Rightarrow> db \<Rightarrow> bool" for K C where
  start: "reachable K C (empty_db planes)"
| step: "reachable K C d \<Longrightarrow> op_valid C op \<Longrightarrow> reachable K C (apply_op K C E op d)"

text \<open>\<open>waveform_jobs_finished_at_state_check\<close> and \<open>waveform_jobs_error_code_state_check\<close>.\<close>

definition job_ok :: "job_row \<Rightarrow> bool" where
  "job_ok j \<longleftrightarrow>
     jb_status j = ''running'' \<and> jb_finished_at j = None \<and> jb_error_code j = None \<or>
     jb_status j = ''failed'' \<and> jb_finished_at j \<noteq> None \<and> jb_error_code j \<noteq> None \<or>
     jb_status j = ''completed'' \<and> jb_finished_at j \<noteq> None \<and> jb_error_code j = None"

definition jobs_ok :: "db \<Rightarrow> bool" where
  "jobs_ok d \<longleftrightarrow> (\<forall>jid j. fmlookup (db_jobs d) jid = Some j \<longrightarrow> job_ok j)"

definition rows_ok :: "store_crates \<Rightarrow> db \<Rightarrow> bool" where
  "rows_ok C d \<longleftrightarrow> (\<forall>k. pg_slot C d k \<noteq> Broken)"

definition job_completed :: "db \<Rightarrow> uuid \<Rightarrow> bool" where
  "job_completed d jid \<longleftrightarrow> (\<exists>j. fmlookup (db_jobs d) jid = Some j \<and> jb_status j = ''completed'')"

definition results_have_jobs :: "store_crates \<Rightarrow> db \<Rightarrow> bool" where
  "results_have_jobs C d \<longleftrightarrow>
     (\<forall>k dg rid resp ex. pg_slot C d k = Done dg rid resp ex \<longrightarrow> job_completed d (request_uuid rid))"

definition db_wf :: "store_crates \<Rightarrow> db \<Rightarrow> bool" where
  "db_wf C d \<longleftrightarrow> rows_ok C d \<and> jobs_ok d \<and> results_have_jobs C d"

lemma db_wf_same_jobs:
  assumes "db_wf C d" and "db_jobs d' = db_jobs d"
    and "\<And>k. pg_slot C d' k = pg_slot C d k \<or> pg_slot C d' k = Free \<or>
      (\<exists>dg rid cr tok e ex. pg_slot C d' k = Leased dg rid cr tok e ex)"
  shows "db_wf C d'"
proof -
  have "rows_ok C d'" using assms(1,3) unfolding db_wf_def rows_ok_def by (metis slot.distinct)
  moreover have "results_have_jobs C d'"
    using assms unfolding db_wf_def results_have_jobs_def job_completed_def
    by (metis slot.distinct(3) slot.distinct(7))
  moreover have "jobs_ok d'" using assms(1,2) by (simp add: db_wf_def jobs_ok_def)
  ultimately show ?thesis by (simp add: db_wf_def)
qed

lemma db_wf_same_rows:
  assumes "db_wf C d" and "db_records d' = db_records d" and "jobs_ok d'"
    and "\<And>jid. job_completed d jid \<Longrightarrow> job_completed d' jid"
  shows "db_wf C d'"
proof -
  have "pg_slot C d' k = pg_slot C d k" for k using assms(2) by (simp add: pg_slot_def)
  with assms show ?thesis by (simp add: db_wf_def rows_ok_def results_have_jobs_def)
qed

section \<open>Preservation\<close>

lemma claim_inner_rows:
  assumes "pg_slot C d (cl_scope c) \<noteq> Broken" and "claim_inner K C E c d = Ok (dec, d')"
  shows "d' = d \<or> (\<exists>lease ttl t. d' = put_row (cl_scope c) (fresh_row c lease ttl t) d) \<or>
    (\<exists>r lease t. fmlookup (db_records d) (cl_scope c) = Some r \<and> row_state r = ''pending'' \<and>
       d' = put_row (cl_scope c) (reclaimed_row c lease t r) d)"
proof -
  from assms(2) obtain lease ttl found d1 where
    loop: "claim_loop E c lease ttl 0 d = Ok (found, d1)" and
    rest: "(case found of
         Inserted created lease_expires \<Rightarrow>
           Ok (Acquired \<lparr>lease_id = cl_lease_id c, lease_expires_at = lease_expires\<rparr>
                 (cl_request_id c) created, d1)
       | Stored stored now k \<Rightarrow> decide_stored K C E c lease stored now k d1) = Ok (dec, d')"
    by (auto simp: claim_inner_def and_then_Ok_iff)
  show ?thesis
  proof (cases "fmlookup (db_records d) (cl_scope c)")
    case None
    from loop rest have "d' = put_row (cl_scope c) (fresh_row c lease ttl (env_clock E 1)) d"
      by (auto simp: claim_loop_absent [OF None])
    then show ?thesis by blast
  next
    case (Some r)
    with assms(1) have ok: "slot_of_row C (cl_scope c) r \<noteq> Broken" by (simp add: pg_slot_def)
    then have "row_request_id r \<noteq> 0" by (auto simp: slot_of_row_def)
    then obtain stored where stored: "stored_of_row r = Ok stored" by (simp add: stored_of_row_Ok)
    from loop claim_loop_present [OF Some ok stored, where k = 0 and E = E and lease = lease
        and ttl = ttl, unfolded add_0]
    consider t where "found = Inserted t (t + lease)" "d1 = put_row (cl_scope c) (fresh_row c lease ttl t) d"
      | "found = Stored stored (env_clock E 2) 3" "d1 = d" by (auto split: if_splits)
    then show ?thesis
    proof cases
      case 1
      with rest show ?thesis by auto
    next
      case 2
      with rest have "decide_stored K C E c lease stored (env_clock E 2) 3 d = Ok (dec, d')" by simp
      then have "d' = d \<or> reclaim_claim c lease (env_clock E 3) d = Ok (env_clock E 3 + lease, d')"
        by (auto simp: decide_stored_def map_ok_Ok_iff and_then_Ok_iff reclaim_claim_def
            split: if_splits option.splits)
      with Some show ?thesis
        by (auto simp: reclaim_claim_def put_row_def reclaimed_row_def split: if_splits)
    qed
  qed
qed

lemma claim_preserves_wf:
  assumes wf: "db_wf C d" and valid: "op_valid C (ClaimOp c)"
    and res: "claim_inner K C E c d = Ok (dec, d')"
  shows "db_wf C d'"
proof -
  from wf have ok: "pg_slot C d (cl_scope c) \<noteq> Broken" by (simp add: db_wf_def rows_ok_def)
  from claim_inner_rows [OF ok res] show ?thesis
  proof (elim disjE exE conjE)
    fix lease ttl t
    assume d': "d' = put_row (cl_scope c) (fresh_row c lease ttl t) d"
    have "slot_of_row C (cl_scope c) (fresh_row c lease ttl t) = snd (spec_fresh lease ttl c t)"
      using valid by (simp add: fresh_row_slot)
    with d' show ?thesis by (intro db_wf_same_jobs [OF wf]) (auto simp: pg_slot_put_row spec_fresh_def)
  next
    fix r lease t
    assume r: "fmlookup (db_records d) (cl_scope c) = Some r" "row_state r = ''pending''"
      and d': "d' = put_row (cl_scope c) (reclaimed_row c lease t r) d"
    from ok r(1) have "slot_of_row C (cl_scope c) r \<noteq> Broken" by (simp add: pg_slot_def)
    with r(2) have "slot_of_row C (cl_scope c) (reclaimed_row c lease t r) =
        Leased (row_digest r) (RequestId (row_request_id r)) (row_created_at r)
          (lease_uuid (cl_lease_id c)) (t + lease) (row_expires_at r)"
      by (auto simp: slot_of_row_def reclaimed_row_def split: if_splits)
    with d' show ?thesis by (intro db_wf_same_jobs [OF wf]) (auto simp: pg_slot_put_row)
  qed (use wf in simp)
qed

lemma jobs_ok_upd:
  "jobs_ok d \<Longrightarrow> job_ok j \<Longrightarrow> db_jobs d' = fmupd jid j (db_jobs d) \<Longrightarrow> jobs_ok d'"
  by (simp add: jobs_ok_def)

lemma finish_completed_job_ok:
  "finish_completed_job now m d = Ok d' \<Longrightarrow> jobs_ok d \<Longrightarrow> jobs_ok d'"
proof -
  assume res: "finish_completed_job now m d = Ok d'" and ok: "jobs_ok d"
  obtain fl du pr where f: "completion_fields (cm_response m) = (fl, du, pr)" by (metis prod_cases3)
  show ?thesis
  proof (cases "fmlookup (db_jobs d) (request_uuid (response_request_id (cm_response m)))")
    case None
    with res f show ?thesis by (simp add: finish_completed_job_def and_then_Ok_iff Let_def)
  next
    case (Some j)
    from res f Some obtain j' where "db_jobs d' =
        fmupd (request_uuid (response_request_id (cm_response m))) j' (db_jobs d)" "job_ok j'"
      by (auto simp: finish_completed_job_def and_then_Ok_iff Let_def job_ok_def split: if_split_asm)
    then show ?thesis using jobs_ok_upd [OF ok] by blast
  qed
qed

lemma complete_jobs_ok:
  "complete_inner K C E m d = Ok (u, d') \<Longrightarrow> jobs_ok d \<Longrightarrow> jobs_ok d'"
  by (auto simp: complete_inner_def Let_def and_then_Ok_iff map_ok_Ok_iff jobs_ok_def
      split: if_splits option.splits dest!: finish_completed_job_ok)

lemma complete_preserves_wf:
  assumes laws: "store_crate_laws C" and wf: "db_wf C d" and valid: "op_valid C (CompleteOp m)"
    and res: "complete_inner K C E m d = Ok (u, d')"
  shows "db_wf C d'"
proof -
  from complete_inner_Ok [OF res] obtain r v ttl j where
    r: "fmlookup (db_records d) (cm_scope m) = Some r" "row_state r = ''pending''"
      "row_request_id r = request_uuid (response_request_id (cm_response m))" "row_request_id r \<noteq> 0"
    and m: "completed_operation (cm_response m) = sc_operation (cm_scope m)"
      "encode_response C (cm_response m) = Ok v"
    and recs: "db_records d' = fmupd (cm_scope m) (completed_row v ttl (env_clock E 0) r) (db_records d)"
    and jobs: "db_jobs d' = fmupd (row_request_id r) j (db_jobs d)" "jb_status j = ''completed''"
    by blast
  have "decode_response C v = Ok (replayed (cm_response m))"
    using response_codec_round_trip [OF laws _ m(2)] valid by simp
  moreover from wf r(1) have "slot_of_row C (cm_scope m) r \<noteq> Broken"
    by (metis db_wf_def option.simps(5) pg_slot_def rows_ok_def)
  ultimately have fin: "slot_of_row C (cm_scope m) (completed_row v ttl (env_clock E 0) r) =
      Done (row_digest r) (response_request_id (cm_response m)) (replayed (cm_response m))
        (env_clock E 0 + ttl)"
    using r m(1) by (auto simp: slot_of_row_Done_iff completed_row_def slot_of_row_def split: if_splits)
  have slots: "pg_slot C d' k = (if k = cm_scope m then Done (row_digest r)
      (response_request_id (cm_response m)) (replayed (cm_response m)) (env_clock E 0 + ttl)
      else pg_slot C d k)" for k
    using fin by (simp add: pg_slot_def recs)
  have mono: "job_completed d jid \<Longrightarrow> job_completed d' jid" for jid
    using jobs by (auto simp: job_completed_def)
  have "job_completed d' (request_uuid (response_request_id (cm_response m)))"
    using jobs r(3) by (simp add: job_completed_def)
  with wf slots mono have "rows_ok C d'" "results_have_jobs C d'"
    by (auto simp: db_wf_def rows_ok_def results_have_jobs_def)
  moreover have "jobs_ok d'" using complete_jobs_ok [OF res] wf by (simp add: db_wf_def)
  ultimately show ?thesis by (simp add: db_wf_def)
qed

lemma fail_job_ok: "jobs_ok d \<Longrightarrow> jobs_ok (fail_job jid tok code f e d)"
  by (auto simp: fail_job_def jobs_ok_def job_ok_def split: option.splits)

lemma fail_job_completed: "job_completed d jid \<Longrightarrow> job_completed (fail_job jid' tok code f e d) jid"
  by (auto simp: job_completed_def fail_job_def split: option.splits)

lemma release_preserves_wf:
  assumes wf: "db_wf C d" and res: "release_inner E rl d = Ok (u, d')"
  shows "db_wf C d'"
proof -
  from release_inner_Ok [OF res] obtain r where
    r: "fmlookup (db_records d) (rl_scope rl) = Some r" "row_state r = ''pending''" by blast
  let ?d = "put_row (rl_scope rl) (r\<lparr>row_lease_expires_at := Some (env_clock E 0),
      row_updated_at := env_clock E 0\<rparr>) d"
  from res r have d': "\<exists>jid tok code f e. d' = fail_job jid tok code f e ?d"
    by (auto simp: release_inner_def Let_def and_then_Ok_iff put_row_def split: if_splits) blast
  from wf r(1) have ok: "slot_of_row C (rl_scope rl) r \<noteq> Broken"
    by (metis db_wf_def option.simps(5) pg_slot_def rows_ok_def)
  have "\<exists>dg rid cr tok e ex. slot_of_row C (rl_scope rl) (r\<lparr>row_lease_expires_at := Some (env_clock E 0),
      row_updated_at := env_clock E 0\<rparr>) = Leased dg rid cr tok e ex"
    using ok r(2) by (auto simp: slot_of_row_def split: if_splits option.splits)
  then have wf': "db_wf C ?d" by (intro db_wf_same_jobs [OF wf]) (auto simp: pg_slot_put_row)
  then have "db_wf C (fail_job jid tok code f e ?d)" for jid tok code f e
    by (intro db_wf_same_rows [OF wf']) (simp_all add: fail_job_ok fail_job_completed db_wf_def)
  with d' show ?thesis by blast
qed

lemma start_job_preserves_wf:
  assumes wf: "db_wf C d" and res: "start_job_inner C E job d = Ok (u, d')"
  shows "db_wf C d'"
proof -
  from res obtain stored where up: "upsert_job (request_uuid (st_request_id stored)) (new_job_row C job stored) d = Ok d'"
    by (auto simp: start_job_inner_def and_then_Ok_iff map_ok_Ok_iff split: if_splits)
  then obtain j where j: "db_jobs d' = fmupd (request_uuid (st_request_id stored)) j (db_jobs d)" "job_ok j"
    and old: "\<forall>old. fmlookup (db_jobs d) (request_uuid (st_request_id stored)) = Some old \<longrightarrow>
        jb_status old \<noteq> ''completed''"
    by (auto simp: upsert_job_def restartable_def job_ok_def new_job_row_def split: option.splits if_splits)
  have "jobs_ok d'" using wf j by (auto simp: db_wf_def intro: jobs_ok_upd)
  moreover have "job_completed d jid \<Longrightarrow> job_completed d' jid" for jid
    using j old by (auto simp: job_completed_def)
  ultimately show ?thesis
    using db_wf_same_rows [OF wf] start_job_inner_frame [OF res] by blast
qed

lemma recovered_ok: "job_ok j \<Longrightarrow> job_ok (recovered now j)"
  by (simp add: job_ok_def recovered_def)

lemma recovered_completed: "jb_status j = ''completed'' \<Longrightarrow> recovered now j = j"
  by (simp add: recovered_def job_abandoned_def)

lemma recover_preserves_wf:
  assumes wf: "db_wf C d"
  shows "db_wf C (recover_expired_jobs now d)"
proof (rule db_wf_same_rows [OF wf])
  show "jobs_ok (recover_expired_jobs now d)"
    using wf by (auto simp: db_wf_def jobs_ok_def recover_expired_jobs_def intro: recovered_ok)
  show "job_completed (recover_expired_jobs now d) jid" if "job_completed d jid" for jid
  proof -
    from that obtain j where "fmlookup (db_jobs d) jid = Some j" "jb_status j = ''completed''"
      by (auto simp: job_completed_def)
    then have "fmlookup (db_jobs (recover_expired_jobs now d)) jid = Some j"
      by (simp add: recover_expired_jobs_def recovered_completed)
    with \<open>jb_status j = ''completed''\<close> show ?thesis by (simp add: job_completed_def)
  qed
qed (simp add: recover_expired_jobs_def)

lemma delete_batch_preserves_wf: "db_wf C d \<Longrightarrow> db_wf C (delete_batch now batch d)"
  by (rule db_wf_same_jobs [where d = d]) (auto simp: delete_batch_def pg_slot_def)

lemma apply_op_preserves_wf:
  assumes laws: "store_crate_laws C" and wf: "db_wf C d" and valid: "op_valid C op"
  shows "db_wf C (apply_op K C E op d)"
proof (cases op)
  case (ClaimOp c)
  show ?thesis unfolding ClaimOp apply_op.simps pg_claim_def
    using wf claim_preserves_wf [OF wf] valid ClaimOp by (blast intro: run_transaction_state)
next
  case (CompleteOp m)
  show ?thesis unfolding CompleteOp apply_op.simps pg_complete_def
    using wf complete_preserves_wf [OF laws wf] valid CompleteOp by (blast intro: run_transaction_state)
next
  case (ReleaseOp rl)
  show ?thesis unfolding ReleaseOp apply_op.simps pg_release_def
    using wf release_preserves_wf [OF wf] by (blast intro: run_transaction_state)
next
  case (StartJobOp job)
  show ?thesis unfolding StartJobOp apply_op.simps pg_start_job_def
    using wf start_job_preserves_wf [OF wf] by (blast intro: run_transaction_state)
next
  case RecoverOp
  with wf show ?thesis by (simp add: recover_preserves_wf)
next
  case (DeleteExpiredOp batch)
  with wf show ?thesis
    by (auto simp: delete_expired_def Let_def recover_preserves_wf delete_batch_preserves_wf
        split: option.splits db_fault.splits)
qed

text \<open>
  C5: every reachable database is well formed. However claims, job starts, completions,
  releases, recoveries and cleanings of any replicas follow one another, with any clock and any
  faults: every record is a valid lease or a decodable result of its own scope and request id,
  every job row satisfies the lifecycle checks of the schema, and the job of every retained
  result is completed.
\<close>

theorem reachable_database_wf:
  assumes "store_crate_laws C" and "reachable K C d"
  shows "db_wf C d"
  using assms(2)
proof (induction rule: reachable.induct)
  case (start planes)
  show ?case
    by (simp add: db_wf_def rows_ok_def jobs_ok_def results_have_jobs_def empty_db_def pg_slot_def)
next
  case (step d op E)
  then show ?case using apply_op_preserves_wf [OF assms(1)] by blast
qed

end
