(* ===== verification/Store_Examples.thy ===== *)
theory Store_Examples
  imports Store_Reachable
begin

text \<open>
  Concrete inputs of the store's properties: one synthesized result stored in Briefcase, one
  scope and its lease, and external crates that handle just these values. Each theorem applies a
  property of the store at them.
\<close>

definition ex_url :: url where
  "ex_url = \<lparr>url_scheme = ''https'', url_username = [], url_password = None,
     url_host = Some (Domain ''files''), url_port = None, url_path = ''/a.mp3'', url_query = None,
     url_fragment = None\<rparr>"

definition ex_completed :: completed_tts_operation where
  "ex_completed = \<lparr>co_voice_profile = None, co_request_id = RequestId 7,
     co_storage = audio_storage.Briefcase (BriefcaseFileUrl ex_url),
     co_provider = provider_name.Gemini, co_duration = MediaDuration 1500\<rparr>"

definition ex_response :: completed_speech_operation where
  "ex_response = completed_speech_operation.Tts ex_completed"

definition ex_stored :: stored_response where
  "ex_stored = stored_response.Tts None (RequestId 7) (Some ''u'') None None None
     provider_name.Gemini 1500"

definition ex_crates :: store_crates where
  "ex_crates = \<lparr>to_value = (\<lambda>s. if s = ex_stored then Some ''v'' else None),
     from_value = (\<lambda>v. if v = ''v'' then Some ex_stored else None),
     parse_url_text = (\<lambda>t. if t = ''u'' then Some ex_url else None), print_url = (\<lambda>_. ''u''),
     pg_interval = (\<lambda>d. Some (int d)), sha256 = (\<lambda>_. ''h''), uuid_bytes = (\<lambda>_. ''b''),
     timestamp_in_range = (\<lambda>_. True)\<rparr>"

definition ex_config :: store_config where
  "ex_config = \<lparr>cfg_retry_after = secs 2, cfg_record_ttl = secs 100\<rparr>"

definition ex_scope :: idempotency_scope where
  "ex_scope = \<lparr>sc_plane_id = 0, sc_actor = \<lparr>act_kind = Carbon, act_id = ActorId 3\<rparr>,
     sc_operation = speech_operation.Tts, sc_key = IdempotencyKey ''key-0001''\<rparr>"

definition ex_claim :: "uuid \<Rightarrow> uuid \<Rightarrow> idempotency_claim" where
  "ex_claim rid tok = \<lparr>cl_scope = ex_scope, cl_digest = RequestDigest (replicate 32 CHR ''d''),
     cl_request_id = RequestId rid, cl_lease_id = IdempotencyLeaseId tok,
     cl_lease_duration = secs 10\<rparr>"

definition ex_env :: "instant \<Rightarrow> db_env" where
  "ex_env t = \<lparr>env_clock = (\<lambda>_. t), env_fault = None, env_cleaner = False\<rparr>"

definition ex_job :: job_row where
  "ex_job = \<lparr>jb_plane_id = 0, jb_org_id = ACCOUNT_SCOPE, jb_actor_id = 3, jb_actor_kind = ''carbon'',
     jb_operation = ''tts'', jb_status = ''running'', jb_first_line = ''hello'', jb_duration_ms = None,
     jb_provider = None, jb_request_digest = replicate 32 CHR ''d'', jb_key_hash = ''h'',
     jb_error_code = None, jb_created_at = 0, jb_finished_at = None, jb_lease_token = Some 11,
     jb_lease_expires_at = Some 10000000000, jb_voice_profile = None, jb_issuing_app = None\<rparr>"

text \<open>Token 11 holds the lease of request 7 until second 10; the job is running.\<close>

definition ex_leased :: db where
  "ex_leased = put_row ex_scope (fresh_row (ex_claim 7 11) 10000000000 100000000000 0)
     \<lparr>db_records = fmempty, db_jobs = fmupd 7 ex_job fmempty, db_planes = [0]\<rparr>"

definition ex_completion :: idempotency_completion where
  "ex_completion = \<lparr>cm_scope = ex_scope, cm_lease_id = IdempotencyLeaseId 11, cm_response = ex_response\<rparr>"

lemma ex_laws: "store_crate_laws ex_crates"
  by (simp add: store_crate_laws_def ex_crates_def)

lemma ex_stored_form: "stored_form ex_crates ex_response = Some ex_stored"
  by (simp add: stored_form_def ex_response_def ex_completed_def ex_crates_def ex_stored_def
      TTS_PROVIDER_CHAIN_def)

lemma ex_encode: "encode_response ex_crates ex_response = Ok ''v''"
  by (simp add: encode_response_def ex_stored_form) (simp add: ex_crates_def)

lemma ex_storable: "storable ex_crates ex_response"
  by (simp add: storable_def ex_response_def ex_completed_def briefcase_file_url_new_iff)
    (simp add: ex_crates_def ex_url_def)

lemma ex_replayed: "replayed ex_response = ex_response"
  by (simp add: replayed_def ex_response_def ex_completed_def)

lemma ex_claimable:
  "rid \<noteq> 0 \<Longrightarrow> 0 \<in> set (db_planes d) \<Longrightarrow>
     claimable ex_config ex_crates (ex_claim rid tok) 10000000000 100000000000 d"
  by (simp add: claimable_def ex_claim_def postgres_interval_def ex_crates_def ex_config_def secs_def
      ex_scope_def)

lemma ex_env_facts [simp]:
  "clock_ok (ex_env t)" "env_fault (ex_env t) = None" "env_clock (ex_env t) i = t"
  "env_before (ex_env t) e \<longleftrightarrow> t < e"
  by (simp_all add: clock_ok_def ex_env_def env_before_def mono_def)

lemma ex_leased_slot:
  "pg_slot C ex_leased ex_scope = Leased (replicate 32 CHR ''d'') (RequestId 7) 0 11 10000000000 100000000000"
  by (simp add: ex_leased_def pg_slot_put_row fresh_row_def ex_claim_def slot_of_row_def)

lemma ex_claim_simps [simp]:
  "cl_scope (ex_claim rid tok) = ex_scope" "cl_request_id (ex_claim rid tok) = RequestId rid"
  "cl_lease_id (ex_claim rid tok) = IdempotencyLeaseId tok"
  by (simp_all add: ex_claim_def)

lemma ex_complete_Ok: "fst (pg_complete ex_config ex_crates (ex_env 5) ex_completion ex_leased) = Ok ()"
proof -
  have ids: "completed_operation ex_response = speech_operation.Tts"
    "response_request_id ex_response = RequestId 7"
    "completion_fields ex_response = (None, Some (MediaDuration 1500), provider_name.Gemini)"
    by (simp_all add: ex_response_def ex_completed_def response_request_id_def completion_fields_def)
  have row: "fmlookup (db_records ex_leased) ex_scope =
      Some (fresh_row (ex_claim 7 11) 10000000000 100000000000 0)"
    and job: "db_jobs ex_leased = fmupd 7 ex_job fmempty"
    by (simp_all add: ex_leased_def put_row_def)
  have ttl: "postgres_interval ex_crates (cfg_record_ttl ex_config) = Ok 100000000000"
    by (simp add: postgres_interval_def ex_crates_def ex_config_def secs_def)
  have "\<exists>d. complete_inner ex_config ex_crates (ex_env 5) ex_completion ex_leased = Ok ((), d)"
    by (simp add: complete_inner_def ex_completion_def ids ex_encode ttl ex_scope_def [symmetric] Let_def
        load_owned_def load_claim_def row stored_of_row_Ok fresh_row_def ex_claim_def
        ensure_current_lease_def finish_completed_job_def job ex_job_def i64_try_from_def)
      (simp add: ex_scope_def)
  then show ?thesis by (auto simp: pg_complete_def run_transaction_def)
qed

section \<open>The properties at the example\<close>

theorem response_codec_round_trip_witness: "decode_response ex_crates ''v'' = Ok ex_response"
  using response_codec_round_trip [OF ex_laws ex_storable ex_encode] by (simp add: ex_replayed)

theorem claim_refines_spec_witness:
  "\<exists>d'. pg_claim ex_config ex_crates (ex_env 0) (ex_claim 7 11) (empty_db [0]) =
     (Ok (Acquired \<lparr>lease_id = IdempotencyLeaseId 11, lease_expires_at = 10000000000\<rparr> (RequestId 7) 0), d')"
proof -
  have "pg_slot ex_crates (empty_db [0]) ex_scope = Free" by (simp add: pg_slot_def empty_db_def)
  with claim_refines_spec [OF ex_claimable, of 7 "empty_db [0]" "ex_env 0" 11] show ?thesis
    by (auto simp: empty_db_def spec_fresh_def)
qed

theorem lease_is_exclusive_witness:
  "\<forall>l r t. fst (pg_claim ex_config ex_crates (ex_env 9) (ex_claim 8 12)
     (run_ops ex_config ex_crates [(ex_env 6, ClaimOp (ex_claim 9 13)), (ex_env 7, RecoverOp)] ex_leased))
     \<noteq> Ok (Acquired l r t)"
proof -
  have "\<forall>(E, op) \<in> set [(ex_env 6, ClaimOp (ex_claim 9 13)), (ex_env 7, RecoverOp)].
      env_before E 10000000000 \<and> \<not> op_owns op (cl_scope (ex_claim 8 12)) 11" by simp
  from lease_is_exclusive [OF _ this, of ex_crates ex_leased] show ?thesis
    by (simp add: ex_leased_slot)
qed

theorem completed_result_is_replayed_witness:
  "fst (pg_claim ex_config ex_crates (ex_env 50) (ex_claim 8 12)
     (run_ops ex_config ex_crates [(ex_env 20, ClaimOp (ex_claim 9 13))]
       (snd (pg_complete ex_config ex_crates (ex_env 5) ex_completion ex_leased)))) =
   Ok (Replay ex_response)"
proof -
  have slot: "pg_slot ex_crates ex_leased (cm_scope ex_completion) =
      Leased (replicate 32 CHR ''d'') (RequestId 7) 0 11 10000000000 100000000000"
    by (simp add: ex_completion_def ex_leased_slot)
  have st: "storable ex_crates (cm_response ex_completion)" by (simp add: ex_completion_def ex_storable)
  have ttl: "postgres_interval ex_crates (cfg_record_ttl ex_config) = Ok 100000000000"
    by (simp add: postgres_interval_def ex_crates_def ex_config_def secs_def)
  have ev: "\<forall>(E', op) \<in> set [(ex_env 20, ClaimOp (ex_claim 9 13))].
      env_before E' (env_clock (ex_env 5) 0 + 100000000000)" by simp
  have bef: "env_before (ex_env 50) (env_clock (ex_env 5) 0 + 100000000000)" by simp
  have sc: "cl_scope (ex_claim 8 12) = cm_scope ex_completion" by (simp add: ex_completion_def)
  have cl: "claimable ex_config ex_crates (ex_claim 8 12) 10000000000 100000000000 ex_leased"
    by (rule ex_claimable) (simp_all add: ex_leased_def)
  have "pg_claim ex_config ex_crates (ex_env 50) (ex_claim 8 12)
      (run_ops ex_config ex_crates [(ex_env 20, ClaimOp (ex_claim 9 13))]
        (snd (pg_complete ex_config ex_crates (ex_env 5) ex_completion ex_leased))) =
    (Ok (if digest_bytes (cl_digest (ex_claim 8 12)) = replicate 32 CHR ''d''
         then Replay (replayed (cm_response ex_completion)) else KeyReused),
     run_ops ex_config ex_crates [(ex_env 20, ClaimOp (ex_claim 9 13))]
        (snd (pg_complete ex_config ex_crates (ex_env 5) ex_completion ex_leased)))"
    by (rule completed_result_is_replayed [OF ex_laws st slot ex_complete_Ok ttl ev sc cl _ _ bef]) simp_all
  then show ?thesis by (simp add: ex_claim_def ex_completion_def ex_replayed)
qed

theorem stale_lease_is_refused_witness:
  "\<exists>err. pg_complete ex_config ex_crates (ex_env 5)
     (ex_completion\<lparr>cm_lease_id := IdempotencyLeaseId 12\<rparr>) ex_leased = (Err err, ex_leased)"
proof -
  have "\<forall>r. fmlookup (db_records ex_leased) ex_scope = Some r \<longrightarrow>
      row_state r \<noteq> ''pending'' \<or> row_lease_token r \<noteq> Some (lease_uuid (IdempotencyLeaseId 12))"
    by (simp add: ex_leased_def put_row_def fresh_row_def ex_claim_def)
  from stale_lease_is_refused [OF this, of "ex_completion\<lparr>cm_lease_id := IdempotencyLeaseId 12\<rparr>"]
  show ?thesis by (simp add: ex_completion_def)
qed

theorem ended_lease_is_reclaimed_witness:
  "\<exists>t d'. pg_claim ex_config ex_crates (ex_env 20000000000) (ex_claim 8 12) ex_leased =
     (Ok (Acquired \<lparr>lease_id = IdempotencyLeaseId 12, lease_expires_at = t + 10000000000\<rparr>
        (RequestId 7) 0), d')"
proof -
  have slot: "pg_slot ex_crates ex_leased (cl_scope (ex_claim 8 12)) =
      Leased (replicate 32 CHR ''d'') (RequestId 7) 0 11 10000000000 100000000000"
    by (simp add: ex_leased_slot)
  have "claimable ex_config ex_crates (ex_claim 8 12) 10000000000 100000000000 ex_leased"
    by (rule ex_claimable) (simp_all add: ex_leased_def)
  from ended_lease_is_reclaimed [OF slot this, of "ex_env 20000000000"] show ?thesis
    by (auto simp: ex_claim_def)
qed

theorem retry_delay_bounds_witness:
  "retry_delay ex_config 1500000000 0 \<le> secs 2 \<and> secs 1 \<le> retry_delay ex_config 1500000000 0"
  using retry_delay_bounds [of 0 1500000000 ex_config] by (simp add: ex_config_def secs_def)

theorem reachable_database_wf_witness:
  "db_wf ex_crates (apply_op ex_config ex_crates (ex_env 0) (ClaimOp (ex_claim 7 11)) (empty_db [0]))"
proof -
  have "reachable ex_config ex_crates
      (apply_op ex_config ex_crates (ex_env 0) (ClaimOp (ex_claim 7 11)) (empty_db [0]))"
    by (intro reachable.step reachable.start) (simp add: ex_claim_def)
  from reachable_database_wf [OF ex_laws this] show ?thesis .
qed

end
