(* ===== verification/Service_Examples.thy ===== *)
theory Service_Examples
  imports Service_Properties Store_Examples
begin

text \<open>
  A small concrete service: Gemini fails, the other providers answer; Briefcase refuses the first
  proof and takes the renewed one. Each theorem applies a property of the service at a run of it.
\<close>

definition sx_proof :: "string \<Rightarrow> briefcase_proof" where
  "sx_proof s = \<lparr>bp_token = ProofToken (OpaqueCredential s), bp_expires_at = 100\<rparr>"

definition sx_answer :: "('a, 'e) result \<Rightarrow> (unit, 'a, 'e) call" where
  "sx_answer r = State (\<lambda>w. (r, w))"

definition sx_audio :: normalized_audio where
  "sx_audio = \<lparr>na_bytes = ''mp3'', na_duration = MediaDuration 1500\<rparr>"

definition sx_tts :: "provider_name \<Rightarrow> unit tts_provider" where
  "sx_tts n = TtsProvider n (\<lambda>_. None) (\<lambda>q rid. sx_answer
     (if n = provider_name.Gemini then Err (provider_error_new n provider_failure_kind.Timeout)
      else Ok \<lparr>artifact_format = provider_audio_format.Mp3, artifact_bytes = ''raw''\<rparr>))"

definition sx_media :: source_media where
  "sx_media = \<lparr>sm_media_type = source_media_type.Wav, sm_bytes = ''wav''\<rparr>"

definition sx_stt :: "provider_name \<Rightarrow> unit stt_provider" where
  "sx_stt n = SttProvider n (\<lambda>_. None) (\<lambda>q rid. sx_answer
     (if n = provider_name.Gemini then Err (provider_error_new n provider_failure_kind.Timeout)
      else Ok \<lparr>pr_transcript = Transcript ''hi'', pr_detected_language = None, pr_duration = None\<rparr>))"

definition sx_storage :: "unit storage_boundary" where
  "sx_storage =
     \<lparr>sb_briefcase_proof = (\<lambda>_ _. sx_answer (Ok (sx_proof ''sap_old''))),
      sb_renew_refused_proof = (\<lambda>_ _ _. sx_answer (Ok (sx_proof ''sap_new''))),
      sb_verify_file_read_access = (\<lambda>_. sx_answer (Ok ())),
      sb_read_source_media = (\<lambda>_. sx_answer (Ok sx_media)),
      sb_store_generated_audio = (\<lambda>q. sx_answer
        (if ga_proof q = sx_proof ''sap_new'' then Ok (BriefcaseFileUrl ex_url)
         else Err briefcase_error.Unauthorized)),
      sb_hold = (\<lambda>_. sx_answer (Err HeldAudioError)),
      sb_is_held = (\<lambda>_ _. sx_answer (Ok True))\<rparr>"

definition sx_idempotency :: "unit idempotency_port" where
  "sx_idempotency =
     \<lparr>ip_claim = (\<lambda>c. sx_answer (Ok (Acquired
        \<lparr>lease_id = cl_lease_id c, lease_expires_at = 10\<rparr> (cl_request_id c) 0))),
      ip_start_job = (\<lambda>_. sx_answer (Ok ())), ip_complete = (\<lambda>_. sx_answer (Ok ())),
      ip_release = (\<lambda>_. sx_answer (Ok ()))\<rparr>"

definition sx_policy :: service_policy where
  "sx_policy = \<lparr>pol_lease_duration = secs 10, pol_source_media_size_limit = MediaSizeLimit 1000,
     pol_briefcase_origin = BriefcaseOrigin ex_url, pol_max_text_chars = 4096,
     pol_request_digest_key = RequestDigestKey (replicate 32 CHR ''k''),
     pol_public_base_url = ex_url\<rparr>"

definition sx_actor :: "application_id option \<Rightarrow> authorized_actor" where
  "sx_actor app = \<lparr>aa_actor = \<lparr>act_kind = Carbon, act_id = ActorId 3\<rparr>,
     aa_account = \<lparr>ref_uuid = AccountUuid ''u1'', ref_id = ''c:ada''\<rparr>,
     originating_application = app, aa_expires_at = None, aa_scopes = [], token_family = None\<rparr>"

definition sx_service :: "unit waveform_service" where
  "sx_service =
     \<lparr>ws_authorize = (\<lambda>_. sx_answer (Ok (sx_actor None))), ws_storage = sx_storage,
      ws_idempotency = sx_idempotency,
      ws_normalize_to_mp3 = (\<lambda>_ _. sx_answer (Ok sx_audio)),
      ws_source_duration = (\<lambda>_ _. sx_answer (Ok (MediaDuration 900))),
      ws_new_lease_id = State (\<lambda>w. (IdempotencyLeaseId 11, w)),
      ws_tts_providers = map sx_tts TTS_PROVIDER_CHAIN,
      ws_stt_providers = map sx_stt STT_PROVIDER_CHAIN, ws_policy = sx_policy,
      ws_provider_keys = None, ws_voice_profiles = None, ws_provider_orders = None,
      ws_spawn_release = (\<lambda>_. State (\<lambda>w. ((), w)))\<rparr>"

definition sx_crates :: service_crates where
  "sx_crates = \<lparr>sv_url = \<lparr>url_parse = (\<lambda>_. None), url_text = url_path,
       url_set_path = (\<lambda>u p. u\<lparr>url_path := p\<rparr>), url_same_origin = (\<lambda>_ _. True)\<rparr>,
     sv_uuid = reference_uuid_crate, sv_utc = (\<lambda>_. (2026, 8, 31, 7, 4, 56)),
     sv_digest = \<lparr>hmac_sha256 = (\<lambda>k m. take 32 m), options_json = (\<lambda>_. ''{}''), digest_url_text = url_path\<rparr>,
     sv_time_duration = (\<lambda>_. True)\<rparr>"

definition sx_tts_request :: tts_request where
  "sx_tts_request = \<lparr>tq_auto_fallback = True, tq_provider_options = tts_options_default,
     tq_provider_keys = no_provider_keys, tq_text = SpeechText ''hi'', tq_voice_profile = None,
     tq_resolved_voice = None, tq_language = None, tq_provider_order = None\<rparr>"

definition sx_stt_request :: stt_request where
  "sx_stt_request = \<lparr>sq_provider_keys = no_provider_keys, sq_source_url = BriefcaseFileUrl ex_url,
     sq_language = None, sq_provider_order = None\<rparr>"

section \<open>Runs\<close>

definition sx_run :: "(tts_result, waveform_error) result \<times> unit \<times> event list" where
  "sx_run = run_state (execute_tts sx_crates (logged sx_service) (RequestId 7) 0 (sx_actor None) None
     sx_tts_request) ((), [])"

lemmas sx_defs = sx_service_def sx_storage_def sx_idempotency_def sx_answer_def sx_tts_def sx_stt_def

lemma sx_run_Ok: "\<exists>result log. sx_run = (Ok result, ((), log)) \<and> tried log = [provider_name.Gemini, provider_name.ElevenLabs]"
  by (simp add: sx_run_def execute_tts_def sx_tts_request_def resolve_order_def TTS_PROVIDER_CHAIN_def
      sx_service_def run_simps log_call_def sx_tts_def sx_answer_def store_audio_def sx_actor_def
      is_delegated_def sx_storage_def with_renewal_def sx_proof_def attempted_def)

lemma sx_run_traces:
  assumes "traces (execute_tts sx_crates (logged sx_service) (RequestId 7) 0 (sx_actor None) None
     sx_tts_request) Q"
  obtains result log where "Q (Ok result) log"
    "tried log = [provider_name.Gemini, provider_name.ElevenLabs]"
    "sx_run = (Ok result, ((), log))"
proof -
  from sx_run_Ok obtain result log where run: "sx_run = (Ok result, ((), log))"
    "tried log = [provider_name.Gemini, provider_name.ElevenLabs]" by blast
  from traces_run [OF assms run(1) [unfolded sx_run_def]] run that show ?thesis by blast
qed

text \<open>The same request when the audio store is down and another app calls.\<close>

lemma sx_delegated_run:
  "\<exists>log. run_state (execute_tts sx_crates (logged sx_service) (RequestId 7) 0
      (sx_actor (Some (ApplicationId ''app''))) None sx_tts_request) ((), []) =
     (Err (DependencyUnavailable AudioStore), ((), log)) \<and> normalized_in log"
  by (simp add: execute_tts_def sx_tts_request_def resolve_order_def TTS_PROVIDER_CHAIN_def
      sx_service_def run_simps log_call_def sx_tts_def sx_answer_def store_audio_def sx_actor_def
      is_delegated_def sx_storage_def hold_def normalized_in_def)

lemma sx_stt_run:
  "\<exists>result log. run_state (execute_stt (logged sx_service) (RequestId 7) (sx_actor None) None
      sx_stt_request) ((), []) = (Ok result, ((), log)) \<and> sr_provider result = provider_name.OpenAi"
  by (simp add: execute_stt_def sx_stt_request_def resolve_order_def STT_PROVIDER_CHAIN_def
      briefcase_authority_def sx_service_def run_simps log_call_def sx_stt_def sx_answer_def
      sx_actor_def is_delegated_def sx_storage_def with_renewal_def sx_policy_def
      stt_result_from_provider_def)

lemma traces_result:
  "traces m Q \<Longrightarrow> Q (fst (run_state m (w, []))) (snd (snd (run_state m (w, []))))"
  by (rule traces_run [where w' = "fst (snd (run_state m (w, [])))"]) simp_all

section \<open>The properties at the example\<close>

theorem accepted_provider_order_witness:
  "length [provider_name.OpenAi, provider_name.Gemini, provider_name.ElevenLabs] = 3 \<and>
   fst (run_state (complete_provider_order sx_service (sx_actor None) speech_operation.Tts
     (Some [provider_name.OpenAi])) ()) =
     Ok [provider_name.OpenAi, provider_name.Gemini, provider_name.ElevenLabs]"
proof -
  have run: "run_state (complete_provider_order sx_service (sx_actor None) speech_operation.Tts
     (Some [provider_name.OpenAi])) () =
     (Ok [provider_name.OpenAi, provider_name.Gemini, provider_name.ElevenLabs], ())"
    by (simp add: complete_provider_order_def sx_service_def run_simps chain_of_def
        resolve_order_def TTS_PROVIDER_CHAIN_def)
  from accepted_provider_order [OF this] run show ?thesis by simp
qed

theorem tts_tries_providers_in_order_witness:
  "\<exists>r log. sx_run = (r, ((), log)) \<and> prefix (tried log) TTS_PROVIDER_CHAIN \<and> length (tried log) = 2"
proof -
  have order: "resolve_order (requested_order sx_tts_request) TTS_PROVIDER_CHAIN = Some TTS_PROVIDER_CHAIN"
    by (simp add: requested_order_def sx_tts_request_def resolve_order_def TTS_PROVIDER_CHAIN_def)
  obtain result log where "\<forall>order. resolve_order (requested_order sx_tts_request) TTS_PROVIDER_CHAIN = Some order \<longrightarrow>
        prefix (tried log) order \<and> (\<not> tq_auto_fallback sx_tts_request \<longrightarrow> length (tried log) \<le> 1) \<and>
        (\<forall>n q rid' x. EvSynthesize n q rid' x \<in> set log \<longrightarrow>
           rid' = RequestId 7 \<and> q = tts_provider_request_for sx_tts_request n)"
    "tried log = [provider_name.Gemini, provider_name.ElevenLabs]" "sx_run = (Ok result, ((), log))"
    by (rule sx_run_traces [OF tts_tries_providers_in_order])
  with order show ?thesis by (intro exI [where x = "Ok result"] exI [where x = log]) auto
qed

theorem tts_answer_is_backed_witness:
  "\<exists>result log n q art. sx_run = (Ok result, ((), log)) \<and>
     EvSynthesize n q (RequestId 7) (Ok art) \<in> set log \<and> tr_provider result = n"
proof (rule sx_run_traces [OF tts_answer_is_backed], elim allE impE exE conjE, rule refl)
  fix result log n art audio
  assume "EvSynthesize n (tts_provider_request_for sx_tts_request n) (RequestId 7) (Ok art) \<in> set log"
    "result = tts_answer (RequestId 7) sx_tts_request n audio (tr_storage result)"
    "sx_run = (Ok result, ((), log))"
  moreover from this(2) have "tr_provider result = n"
    by (metis tts_answer_def tts_result.select_convs(4))
  ultimately show ?thesis by blast
qed

theorem storage_never_fails_speech_witness:
  "\<exists>log h x. run_state (execute_tts sx_crates (logged sx_service) (RequestId 7) 0
      (sx_actor (Some (ApplicationId ''app''))) None sx_tts_request) ((), []) =
     (Err (DependencyUnavailable AudioStore), ((), log)) \<and> EvHold h (Err x) \<in> set log"
proof -
  from sx_delegated_run obtain log where run: "run_state (execute_tts sx_crates (logged sx_service)
      (RequestId 7) 0 (sx_actor (Some (ApplicationId ''app''))) None sx_tts_request) ((), []) =
     (Err (DependencyUnavailable AudioStore), ((), log))" and n: "normalized_in log" by blast
  from traces_run [OF storage_never_fails_speech run] n run show ?thesis by auto
qed


theorem constructed_service_has_every_provider_witness: "fst sx_run \<noteq> Err Internal"
proof -
  have "waveform_service_new sx_service = Ok sx_service"
    by (simp add: waveform_service_new_Ok_iff) (simp add: sx_service_def sx_tts_def sx_stt_def
        TTS_PROVIDER_CHAIN_def STT_PROVIDER_CHAIN_def)
  from constructed_service_has_every_provider [OF this] show ?thesis
    unfolding sx_run_def by (rule traces_result)
qed

theorem stt_answer_is_of_requested_media_witness:
  "\<exists>result log. run_state (execute_stt (logged sx_service) (RequestId 7) (sx_actor None) None
      sx_stt_request) ((), []) = (Ok result, ((), log)) \<and>
     last (tried log) = provider_name.OpenAi"
proof -
  from sx_stt_run obtain result log where run: "run_state (execute_stt (logged sx_service)
      (RequestId 7) (sx_actor None) None sx_stt_request) ((), []) = (Ok result, ((), log))"
    and p: "sr_provider result = provider_name.OpenAi" by blast
  from traces_run [OF stt_answer_is_of_requested_media run] p run show ?thesis by auto
qed

end
