(* ===== verification/Std_Text.thy ===== *)
theory Std_Text
  imports Identity
begin

text \<open>
  What the configuration and the HTTP boundary use of Rust's standard library to read text:
  \<open>str::split_once\<close>, \<open>char::is_control\<close>, and \<open>FromStr\<close> of unsigned integers, \<open>bool\<close> and
  \<open>SocketAddr\<close>, with the error texts of their \<open>Display\<close>.
\<close>

section \<open>Strings\<close>

definition split_once :: "char \<Rightarrow> string \<Rightarrow> (string \<times> string) option" where
  "split_once d s =
     (case dropWhile (\<lambda>c. c \<noteq> d) s of
        [] \<Rightarrow> None
      | _ # rest \<Rightarrow> Some (takeWhile (\<lambda>c. c \<noteq> d) s, rest))"

lemma split_once_Some_iff: "split_once d s = Some (a, b) \<longleftrightarrow> s = a @ d # b \<and> d \<notin> set a"
proof
  assume "split_once d s = Some (a, b)"
  then obtain c where c: "dropWhile (\<lambda>c. c \<noteq> d) s = c # b" and a: "a = takeWhile (\<lambda>c. c \<noteq> d) s"
    by (auto simp: split_once_def split: list.splits)
  have "c = d" using c by (metis (mono_tags, lifting) hd_dropWhile list.distinct(1) list.sel(1))
  then show "s = a @ d # b \<and> d \<notin> set a"
    using a c takeWhile_dropWhile_id [of "\<lambda>c. c \<noteq> d" s] by (auto dest: set_takeWhileD)
next
  assume "s = a @ d # b \<and> d \<notin> set a"
  then show "split_once d s = Some (a, b)"
    by (auto simp: split_once_def takeWhile_append dropWhile_append)
qed

definition is_control :: "nat \<Rightarrow> bool" where
  "is_control c \<longleftrightarrow> c < 32 \<or> 127 \<le> c \<and> c < 160"

text \<open>\<open>str::from_utf8\<close>: well-formed UTF-8 (no overlong forms, no surrogates, nothing above U+10FFFF).\<close>

definition is_cont :: "char \<Rightarrow> bool" where
  "is_cont c \<longleftrightarrow> 128 \<le> byte c \<and> byte c < 192"

fun utf8_valid :: "string \<Rightarrow> bool" where
  "utf8_valid [] \<longleftrightarrow> True"
| "utf8_valid (a # s) \<longleftrightarrow>
     (if byte a < 128 then utf8_valid s
      else case s of
        [] \<Rightarrow> False
      | b # t \<Rightarrow>
          if 194 \<le> byte a \<and> byte a < 224 then is_cont b \<and> utf8_valid t
          else case t of
            [] \<Rightarrow> False
          | c # u \<Rightarrow>
              if 224 \<le> byte a \<and> byte a < 240 then
                is_cont b \<and> is_cont c \<and> (byte a = 224 \<longrightarrow> 160 \<le> byte b) \<and>
                (byte a = 237 \<longrightarrow> byte b < 160) \<and> utf8_valid u
              else case u of
                [] \<Rightarrow> False
              | d # v \<Rightarrow>
                  240 \<le> byte a \<and> byte a < 245 \<and> is_cont b \<and> is_cont c \<and> is_cont d \<and>
                  (byte a = 240 \<longrightarrow> 144 \<le> byte b) \<and> (byte a = 244 \<longrightarrow> byte b < 144) \<and> utf8_valid v)"

lemma utf8_valid_ascii: "list_all is_ascii s \<Longrightarrow> utf8_valid s"
  by (induction s) (auto simp: is_ascii_def)

section \<open>Integers and booleans\<close>

text \<open>\<open>FromStr\<close> of an unsigned type with greatest value \<open>m\<close>.\<close>

fun parse_digits :: "nat \<Rightarrow> nat \<Rightarrow> string \<Rightarrow> (nat, string) result" where
  "parse_digits m acc [] = Ok acc"
| "parse_digits m acc (c # cs) =
     (if \<not> is_ascii_digit c then Err ''invalid digit found in string''
      else if acc * 10 + (byte c - 48) > m then Err ''number too large to fit in target type''
      else parse_digits m (acc * 10 + (byte c - 48)) cs)"

definition parse_unsigned :: "nat \<Rightarrow> string \<Rightarrow> (nat, string) result" where
  "parse_unsigned m s =
     (if s = [] then Err ''cannot parse integer from empty string''
      else if s = ''+'' \<or> s = ''-'' then Err ''invalid digit found in string''
      else parse_digits m 0 (if hd s = CHR ''+'' then tl s else s))"

definition u16_max :: nat where "u16_max = 65535"
definition u32_max :: nat where "u32_max = 4294967295"

definition parse_bool :: "string \<Rightarrow> (bool, string) result" where
  "parse_bool s =
     (if s = ''true'' then Ok True
      else if s = ''false'' then Ok False
      else Err ''provided string was not `true` or `false`'')"

lemma parse_digits_le: "parse_digits m acc s = Ok n \<Longrightarrow> acc \<le> m \<Longrightarrow> n \<le> m"
  by (induction m acc s rule: parse_digits.induct) (auto split: if_splits)

lemma parse_unsigned_le: "parse_unsigned m s = Ok n \<Longrightarrow> n \<le> m"
  by (auto simp: parse_unsigned_def dest: parse_digits_le split: if_splits)

lemma byte_digit: "n < (10::nat) \<Longrightarrow> byte (char_of (48 + n)) = 48 + n"
  by simp

lemma parse_digits_append:
  "parse_digits m acc (s @ t) = and_then (parse_digits m acc s) (\<lambda>a. parse_digits m a t)"
  by (induction m acc s rule: parse_digits.induct) auto

lemma digit_char: "n < (10::nat) \<Longrightarrow> is_ascii_digit (char_of (48 + n))"
  by (simp add: is_ascii_digit_def)

lemma parse_digits_decimal: "n \<le> m \<Longrightarrow> parse_digits m 0 (decimal n) = Ok n"
proof (induction n rule: decimal.induct)
  case (1 n)
  show ?case
  proof (cases "n < 10")
    case True
    then show ?thesis using 1(2) by (simp add: decimal.simps [of n] digit_char)
  next
    case False
    have "parse_digits m 0 (decimal (n div 10)) = Ok (n div 10)" using 1 False by auto
    moreover have "n div 10 * 10 + n mod 10 = n" by simp
    ultimately show ?thesis using False 1(2)
      by (simp add: decimal.simps [of n] parse_digits_append digit_char)
  qed
qed

lemma decimal_digits: "c \<in> set (decimal n) \<Longrightarrow> is_ascii_digit c"
proof (induction n rule: decimal.induct)
  case (1 n)
  then show ?case
    by (subst (asm) decimal.simps) (auto simp: digit_char split: if_splits)
qed

lemma decimal_nonempty [simp]: "decimal n \<noteq> []"
  by (subst decimal.simps) simp

text \<open>Printing a number and parsing it again is the identity within the type.\<close>

lemma parse_unsigned_decimal:
  assumes "n \<le> m"
  shows "parse_unsigned m (decimal n) = Ok n"
proof -
  have h: "hd (decimal n) \<noteq> CHR ''+''" "decimal n \<noteq> ''+''" "decimal n \<noteq> ''-''"
    using decimal_digits [of "hd (decimal n)" n] decimal_digits [of "CHR ''-''" n]
    by (auto simp: is_ascii_digit_def byte_def)
  show ?thesis using h parse_digits_decimal [OF assms] by (simp add: parse_unsigned_def)
qed

section \<open>Socket addresses\<close>

text \<open>
  The recursive-descent parser of \<open>core::net\<close>. A parser takes the rest of the input; one that
  fails consumes nothing.
\<close>

type_synonym 'a parser = "string \<Rightarrow> ('a \<times> string) option"

datatype socket_addr =
    SocketAddrV4 "nat list" (socket_port: nat)
  | SocketAddrV6 "nat list" nat (socket_port: nat)

definition to_digit :: "nat \<Rightarrow> char \<Rightarrow> nat option" where
  "to_digit radix c =
     (case hex_value c of Some v \<Rightarrow> if v < radix then Some v else None | None \<Rightarrow> None)"

definition read_given_char :: "char \<Rightarrow> unit parser" where
  "read_given_char c s = (case s of x # rest \<Rightarrow> if x = c then Some ((), rest) else None | [] \<Rightarrow> None)"

definition read_number :: "nat \<Rightarrow> nat option \<Rightarrow> bool \<Rightarrow> nat \<Rightarrow> nat parser" where
  "read_number radix max_digits allow_zero_prefix bound s =
     (let digits = takeWhile (\<lambda>c. to_digit radix c \<noteq> None) s;
          value = foldl (\<lambda>a c. radix * a + the (to_digit radix c)) 0 digits
      in if digits = [] then None
         else if (case max_digits of Some k \<Rightarrow> length digits > k | None \<Rightarrow> False) then None
         else if value > bound then None
         else if \<not> allow_zero_prefix \<and> hd digits = CHR ''0'' \<and> length digits > 1 then None
         else Some (value, drop (length digits) s))"

definition read_separator :: "char \<Rightarrow> nat \<Rightarrow> 'a parser \<Rightarrow> 'a parser" where
  "read_separator sep index inner s =
     (if index = 0 then inner s
      else case read_given_char sep s of None \<Rightarrow> None | Some (_, rest) \<Rightarrow> inner rest)"

definition read_ipv4_addr :: "nat list parser" where
  "read_ipv4_addr s =
     (case read_number 10 (Some 3) False 255 s of
        None \<Rightarrow> None
      | Some (a, s1) \<Rightarrow> (case read_separator CHR ''.'' 1 (read_number 10 (Some 3) False 255) s1 of
        None \<Rightarrow> None
      | Some (b, s2) \<Rightarrow> (case read_separator CHR ''.'' 2 (read_number 10 (Some 3) False 255) s2 of
        None \<Rightarrow> None
      | Some (c, s3) \<Rightarrow> (case read_separator CHR ''.'' 3 (read_number 10 (Some 3) False 255) s3 of
        None \<Rightarrow> None
      | Some (d, s4) \<Rightarrow> Some ([a, b, c, d], s4)))))"

text \<open>\<open>read_groups\<close>: the groups read, whether they end in an IPv4 address, and the rest.\<close>

fun read_groups :: "nat \<Rightarrow> nat \<Rightarrow> nat list \<Rightarrow> string \<Rightarrow> nat list \<times> bool \<times> string" where
  "read_groups 0 index groups s = (groups, False, s)"
| "read_groups (Suc left) index groups s =
     (case (if left = 0 then None else read_separator CHR '':'' index read_ipv4_addr s) of
        Some ([a, b, c, d], rest) \<Rightarrow> (groups @ [256 * a + b, 256 * c + d], True, rest)
      | _ \<Rightarrow>
          (case read_separator CHR '':'' index (read_number 16 (Some 4) True u16_max) s of
             Some (g, rest) \<Rightarrow> read_groups left (index + 1) (groups @ [g]) rest
           | None \<Rightarrow> (groups, False, s)))"

definition read_ipv6_addr :: "nat list parser" where
  "read_ipv6_addr s =
     (case read_groups 8 0 [] s of
        (front, front_ipv4, rest) \<Rightarrow>
          if length front = 8 then Some (front, rest)
          else if front_ipv4 then None
          else (case read_given_char CHR '':'' rest of None \<Rightarrow> None | Some (_, rest) \<Rightarrow>
               (case read_given_char CHR '':'' rest of None \<Rightarrow> None | Some (_, rest) \<Rightarrow>
               (case read_groups (8 - (length front + 1)) 0 [] rest of
                  (back, _, rest) \<Rightarrow>
                    Some (front @ replicate (8 - length front - length back) 0 @ back, rest)))))"

definition read_port :: "nat parser" where
  "read_port s =
     (case read_given_char CHR '':'' s of
        None \<Rightarrow> None
      | Some (_, rest) \<Rightarrow> read_number 10 None True u16_max rest)"

definition read_scope_id :: "nat parser" where
  "read_scope_id s =
     (case read_given_char CHR ''%'' s of
        None \<Rightarrow> None
      | Some (_, rest) \<Rightarrow> read_number 10 None True u32_max rest)"

definition read_socket_addr_v4 :: "socket_addr parser" where
  "read_socket_addr_v4 s =
     (case read_ipv4_addr s of None \<Rightarrow> None | Some (ip, rest) \<Rightarrow>
     (case read_port rest of None \<Rightarrow> None | Some (port, rest) \<Rightarrow>
      Some (SocketAddrV4 ip port, rest)))"

definition read_socket_addr_v6 :: "socket_addr parser" where
  "read_socket_addr_v6 s =
     (case read_given_char CHR ''['' s of None \<Rightarrow> None | Some (_, rest) \<Rightarrow>
     (case read_ipv6_addr rest of None \<Rightarrow> None | Some (ip, rest) \<Rightarrow>
     (case (case read_scope_id rest of Some scoped \<Rightarrow> scoped | None \<Rightarrow> (0, rest)) of (scope, rest) \<Rightarrow>
     (case read_given_char CHR '']'' rest of None \<Rightarrow> None | Some (_, rest) \<Rightarrow>
     (case read_port rest of None \<Rightarrow> None | Some (port, rest) \<Rightarrow>
      Some (SocketAddrV6 ip scope port, rest))))))"

definition parse_socket_addr :: "string \<Rightarrow> (socket_addr, string) result" where
  "parse_socket_addr s =
     (case (case read_socket_addr_v4 s of Some r \<Rightarrow> Some r | None \<Rightarrow> read_socket_addr_v6 s) of
        Some (address, []) \<Rightarrow> Ok address
      | _ \<Rightarrow> Err ''invalid socket address syntax'')"

lemma parse_socket_addr_default:
  "parse_socket_addr ''127.0.0.1:8080'' = Ok (SocketAddrV4 [127, 0, 0, 1] 8080)"
  by code_simp

lemma parse_socket_addr_v6:
  "parse_socket_addr ''[::1]:443'' = Ok (SocketAddrV6 [0, 0, 0, 0, 0, 0, 0, 1] 0 443)"
  by code_simp

lemma parse_socket_addr_refused:
  "parse_socket_addr ''localhost:80'' = Err ''invalid socket address syntax''"
  by code_simp

end
