(* ===== verification/Config.thy ===== *)
theory Config
  imports Std_Text Media "HOL-Library.Finite_Map"
begin

text \<open>
  \<open>src/src/config.rs\<close>: the settings of the process, read from environment variables and validated
  as a whole. Every loader reads its variables in the order of the code, so the first error is the
  code's. Durations are nanoseconds; sizes and counts are naturals within the range of their Rust
  type. The \<open>url\<close> crate is a parameter. Secrets are plain strings (their redaction and
  zeroization have no counterpart).
\<close>

section \<open>Settings\<close>

definition MAX_TEXT_CHARS :: nat where "MAX_TEXT_CHARS = 4096"
definition MAX_MEDIA_BYTES :: nat where "MAX_MEDIA_BYTES = 25 * 1024 * 1024"
definition MAX_SECRET_CHARS :: nat where "MAX_SECRET_CHARS = 16384"
definition ORCHESTRATION_HEADROOM :: duration where "ORCHESTRATION_HEADROOM = secs 30"

datatype runtime_environment = Development | Test | Production

record server_settings =
  server_bind_addr :: socket_addr
  server_json_body_limit :: nat
  server_tts_deadline :: duration
  server_stt_deadline :: duration
  server_max_in_flight :: nat
  server_shutdown_timeout :: duration

record database_settings =
  database_url :: string
  database_max_connections :: nat
  database_min_connections :: nat
  database_acquire_timeout :: duration
  database_statement_timeout :: duration

text \<open>\<open>ProofIssuers\<close>: the apps that may call with a proof, by scope.\<close>

datatype proof_issuers = ProofIssuers (issuers_map: "(string, string fset) fmap")

record accounts_settings =
  accounts_public_url :: url
  accounts_api_url :: url
  accounts_app_id :: string
  accounts_app_secret :: string
  accounts_webhook_secret :: "string option"
  accounts_previous_webhook_secret :: "string option"
  accounts_timeout :: duration
  accounts_proof_issuers :: proof_issuers

record control_settings =
  control_encryption_key :: "string option"

record public_settings =
  public_base_url :: url
  public_speech_fixtures :: bool

record briefcase_settings =
  briefcase_base_url :: url
  briefcase_permanent_origin :: url
  briefcase_app_id :: string
  briefcase_app_folder :: string
  briefcase_timeout :: duration
  briefcase_download_timeout :: duration
  briefcase_max_download_bytes :: nat

record gemini_settings =
  gemini_api_key :: "string option"
  gemini_base_url :: url
  gemini_tts_model :: string
  gemini_stt_model :: string
  gemini_tts_voice :: string
  gemini_tts_timeout :: duration
  gemini_stt_timeout :: duration
  gemini_max_concurrency :: nat

record elevenlabs_settings =
  elevenlabs_api_key :: "string option"
  elevenlabs_base_url :: url
  elevenlabs_model :: string
  elevenlabs_voice_id :: string
  elevenlabs_enable_logging :: bool
  elevenlabs_timeout :: duration
  elevenlabs_max_concurrency :: nat

record openai_settings =
  openai_api_key :: "string option"
  openai_base_url :: url
  openai_tts_model :: string
  openai_stt_model :: string
  openai_voice :: string
  openai_tts_timeout :: duration
  openai_stt_timeout :: duration
  openai_max_concurrency :: nat

record deepgram_settings =
  deepgram_api_key :: "string option"
  deepgram_base_url :: url
  deepgram_stt_model :: string
  deepgram_mip_opt_out :: bool
  deepgram_timeout :: duration
  deepgram_max_concurrency :: nat

record provider_settings =
  providers_gemini :: gemini_settings
  providers_elevenlabs :: elevenlabs_settings
  providers_openai :: openai_settings
  providers_deepgram :: deepgram_settings
  providers_require_full_chain :: bool

record audio_settings =
  audio_ffmpeg_path :: string
  audio_timeout :: duration
  audio_max_input_bytes :: nat
  audio_max_output_bytes :: nat
  audio_bitrate_kbps :: nat

record idempotency_settings =
  idempotency_digest_key :: string
  idempotency_ttl :: duration
  idempotency_lease :: duration
  idempotency_retry_after :: duration
  idempotency_cleanup_interval :: duration
  idempotency_cleanup_batch :: nat

record limit_settings =
  limits_max_text_chars :: nat
  limits_max_media_bytes :: nat

record log_settings =
  log_filter :: string
  log_json :: bool

record settings =
  set_environment :: runtime_environment
  set_server :: server_settings
  set_database :: database_settings
  set_accounts :: accounts_settings
  set_control :: control_settings
  set_public :: public_settings
  set_briefcase :: briefcase_settings
  set_providers :: provider_settings
  set_audio :: audio_settings
  set_idempotency :: idempotency_settings
  set_limits :: limit_settings
  set_logging :: log_settings
  set_obsolete_variables :: "string list"

datatype settings_error = Missing string | NonUnicode string | Invalid string string

abbreviation invalid :: "string \<Rightarrow> string \<Rightarrow> ('a, settings_error) result" where
  "invalid name reason \<equiv> Err (Invalid name reason)"

section \<open>Reading variables\<close>

text \<open>
  \<open>EnvironmentSource\<close>. The process environment answers a value, \<open>NotPresent\<close> or \<open>NotUnicode\<close> for
  a name.
\<close>

type_synonym environment_source = "string \<Rightarrow> (string option, settings_error) result"

datatype env_var = Present string | NotPresent | NotUnicode

definition process_environment :: "(string \<Rightarrow> env_var) \<Rightarrow> environment_source" where
  "process_environment env name =
     (case env name of
        Present v \<Rightarrow> Ok (Some v)
      | NotPresent \<Rightarrow> Ok None
      | NotUnicode \<Rightarrow> Err (NonUnicode name))"

definition optional :: "environment_source \<Rightarrow> string \<Rightarrow> (string option, settings_error) result" where
  "optional src name =
     map_ok (\<lambda>read. case read of
         None \<Rightarrow> None
       | Some v \<Rightarrow> if str_trim v = [] then None else Some (str_trim v)) (src name)"

definition required :: "environment_source \<Rightarrow> string \<Rightarrow> (string, settings_error) result" where
  "required src name = and_then (optional src name) (\<lambda>v. ok_or v (Missing name))"

definition value_or :: "environment_source \<Rightarrow> string \<Rightarrow> string \<Rightarrow> (string, settings_error) result" where
  "value_or src name dflt =
     map_ok (\<lambda>v. case v of Some s \<Rightarrow> s | None \<Rightarrow> dflt) (optional src name)"

definition parse_or ::
    "(string \<Rightarrow> ('a, string) result) \<Rightarrow> environment_source \<Rightarrow> string \<Rightarrow> string \<Rightarrow>
     ('a, settings_error) result" where
  "parse_or parse src name dflt =
     and_then (value_or src name dflt) (\<lambda>v. map_err (Invalid name) (parse v))"

definition validate_range :: "string \<Rightarrow> nat \<Rightarrow> nat \<Rightarrow> nat \<Rightarrow> (nat, settings_error) result" where
  "validate_range name v minimum maximum =
     (if v < minimum \<or> v > maximum
      then invalid name (''must be between '' @ decimal minimum @ '' and '' @ decimal maximum)
      else Ok v)"

text \<open>The four integer readers differ in the greatest value of the type they parse.\<close>

definition usize_in_range :: "environment_source \<Rightarrow> string \<Rightarrow> nat \<Rightarrow> nat \<Rightarrow> nat \<Rightarrow> (nat, settings_error) result" where
  "usize_in_range src name dflt minimum maximum =
     and_then (parse_or (parse_unsigned u64_max) src name (decimal dflt)) (\<lambda>v.
       validate_range name v minimum maximum)"

definition u64_in_range :: "environment_source \<Rightarrow> string \<Rightarrow> nat \<Rightarrow> nat \<Rightarrow> nat \<Rightarrow> (nat, settings_error) result" where
  "u64_in_range src name dflt minimum maximum =
     and_then (parse_or (parse_unsigned u64_max) src name (decimal dflt)) (\<lambda>v.
       validate_range name v minimum maximum)"

definition u32_in_range :: "environment_source \<Rightarrow> string \<Rightarrow> nat \<Rightarrow> nat \<Rightarrow> nat \<Rightarrow> (nat, settings_error) result" where
  "u32_in_range src name dflt minimum maximum =
     and_then (parse_or (parse_unsigned u32_max) src name (decimal dflt)) (\<lambda>v.
       validate_range name v minimum maximum)"

definition u16_in_range :: "environment_source \<Rightarrow> string \<Rightarrow> nat \<Rightarrow> nat \<Rightarrow> nat \<Rightarrow> (nat, settings_error) result" where
  "u16_in_range src name dflt minimum maximum =
     and_then (parse_or (parse_unsigned u16_max) src name (decimal dflt)) (\<lambda>v.
       validate_range name v minimum maximum)"

definition nonzero_usize :: "environment_source \<Rightarrow> string \<Rightarrow> nat \<Rightarrow> nat \<Rightarrow> (nat, settings_error) result" where
  "nonzero_usize src name dflt maximum =
     and_then (usize_in_range src name dflt 1 maximum) (\<lambda>n.
       if n = 0 then invalid name ''must be greater than zero'' else Ok n)"

definition nonzero_u32 :: "environment_source \<Rightarrow> string \<Rightarrow> nat \<Rightarrow> nat \<Rightarrow> (nat, settings_error) result" where
  "nonzero_u32 src name dflt maximum =
     and_then (u32_in_range src name dflt 1 maximum) (\<lambda>n.
       if n = 0 then invalid name ''must be greater than zero'' else Ok n)"

definition duration_seconds :: "environment_source \<Rightarrow> string \<Rightarrow> nat \<Rightarrow> nat \<Rightarrow> nat \<Rightarrow> (duration, settings_error) result" where
  "duration_seconds src name dflt minimum maximum =
     map_ok secs (u64_in_range src name dflt minimum maximum)"

definition validate_secret_length :: "string \<Rightarrow> string \<Rightarrow> nat \<Rightarrow> nat \<Rightarrow> (unit, settings_error) result" where
  "validate_secret_length name v minimum maximum =
     (if \<not> (minimum \<le> char_count v \<and> char_count v \<le> maximum)
      then invalid name (''must contain between '' @ decimal minimum @ '' and '' @ decimal maximum @
        '' characters'')
      else Ok ())"

definition optional_secret :: "environment_source \<Rightarrow> string \<Rightarrow> nat \<Rightarrow> nat \<Rightarrow> (string option, settings_error) result" where
  "optional_secret src name minimum maximum =
     and_then (optional src name) (\<lambda>v.
       case v of
         None \<Rightarrow> Ok None
       | Some s \<Rightarrow> map_ok (\<lambda>_. Some s) (validate_secret_length name s minimum maximum))"

definition secret_required :: "environment_source \<Rightarrow> string \<Rightarrow> nat \<Rightarrow> nat \<Rightarrow> (string, settings_error) result" where
  "secret_required src name minimum maximum =
     and_then (required src name) (\<lambda>s.
       map_ok (\<lambda>_. s) (validate_secret_length name s minimum maximum))"

definition bounded_string :: "string \<Rightarrow> string \<Rightarrow> nat \<Rightarrow> nat \<Rightarrow> (string, settings_error) result" where
  "bounded_string name v minimum maximum =
     (if \<not> (minimum \<le> char_count v \<and> char_count v \<le> maximum) \<or>
         list_ex is_control (utf8_chars v)
      then invalid name (''must contain between '' @ decimal minimum @ '' and '' @ decimal maximum @
        '' non-control characters'')
      else Ok v)"

definition bounded_value_or :: "environment_source \<Rightarrow> string \<Rightarrow> string \<Rightarrow> nat \<Rightarrow> nat \<Rightarrow> (string, settings_error) result" where
  "bounded_value_or src name dflt minimum maximum =
     and_then (value_or src name dflt) (\<lambda>v. bounded_string name v minimum maximum)"

section \<open>URLs\<close>

text \<open>\<open>Url::parse\<close> and the rest of the \<open>url\<close> crate, with \<open>Url::query_pairs\<close>.\<close>

record config_crates =
  cf_url :: url_crate
  cf_query_pairs :: "url \<Rightarrow> (string \<times> string) list"

definition parse_absolute_url :: "config_crates \<Rightarrow> string \<Rightarrow> string \<Rightarrow> (url, settings_error) result" where
  "parse_absolute_url C name v = ok_or (url_parse (cf_url C) v) (Invalid name ''must be a valid absolute URL'')"

definition validate_http_url :: "string \<Rightarrow> url \<Rightarrow> (unit, settings_error) result" where
  "validate_http_url name u =
     (if url_scheme u \<notin> {''http'', ''https''} \<or> url_host u = None
      then invalid name ''must use http or https and include a host''
      else if url_username u \<noteq> [] \<or> url_password u \<noteq> None
      then invalid name ''must not contain embedded credentials''
      else if url_query u \<noteq> None \<or> url_fragment u \<noteq> None
      then invalid name ''must not contain a query or fragment''
      else Ok ())"

definition http_url_or :: "config_crates \<Rightarrow> environment_source \<Rightarrow> string \<Rightarrow> string \<Rightarrow> (url, settings_error) result" where
  "http_url_or C src name dflt =
     and_then (value_or src name dflt) (\<lambda>v.
     and_then (parse_absolute_url C name v) (\<lambda>u.
     map_ok (\<lambda>_. u) (validate_http_url name u)))"

definition origin_url_or :: "config_crates \<Rightarrow> environment_source \<Rightarrow> string \<Rightarrow> string \<Rightarrow> (url, settings_error) result" where
  "origin_url_or C src name dflt =
     and_then (http_url_or C src name dflt) (\<lambda>u.
       if url_path u \<notin> {[], ''/''} then invalid name ''must be an origin without a non-root path''
       else Ok u)"

definition accounts_origin ::
    "config_crates \<Rightarrow> string \<Rightarrow> string \<Rightarrow> runtime_environment \<Rightarrow> (url, settings_error) result" where
  "accounts_origin C name v environment =
     and_then (parse_absolute_url C name v) (\<lambda>u.
     and_then (validate_http_url name u) (\<lambda>_.
       if url_path u \<notin> {[], ''/''}
       then invalid name
         ''must be an origin such as https://accounts.teamofsilicons.com, without a path''
       else if url_scheme u = ''http'' \<and> (environment = Production \<or> \<not> is_loopback_host u)
       then invalid name
         ''must use https (plain http is allowed only for a loopback host outside production)''
       else Ok u))"

definition validate_database_url ::
    "config_crates \<Rightarrow> runtime_environment \<Rightarrow> string \<Rightarrow> (unit, settings_error) result" where
  "validate_database_url C environment v =
     and_then (ok_or (url_parse (cf_url C) v)
         (Invalid ''WAVEFORM_DATABASE_URL'' ''must be a valid PostgreSQL connection URL'')) (\<lambda>u.
       if url_scheme u \<notin> {''postgres'', ''postgresql''} \<or> url_host u = None
       then invalid ''WAVEFORM_DATABASE_URL''
         ''must use postgres:// or postgresql:// and include a host''
       else if environment = Production \<and>
         map_option snd (find (\<lambda>(key, _). key = ''sslmode'') (cf_query_pairs C u)) \<noteq> Some ''verify-full''
       then invalid ''WAVEFORM_DATABASE_URL'' ''must set sslmode=verify-full in production''
       else Ok ())"

text \<open>\<open>AccountsSettings::issuer\<close>.\<close>

definition accounts_issuer :: "config_crates \<Rightarrow> accounts_settings \<Rightarrow> string" where
  "accounts_issuer C a = trim_end_slashes (url_text (cf_url C) (accounts_public_url a))"

section \<open>The allow-list of proofs\<close>

definition PROOF_SCOPES :: "string list" where
  "PROOF_SCOPES = [''waveform.tts'', ''waveform.stt'']"

text \<open>The non-empty trimmed pieces of a text.\<close>

definition trimmed_pieces :: "char \<Rightarrow> string \<Rightarrow> string list" where
  "trimmed_pieces d s = filter (\<lambda>p. p \<noteq> []) (map str_trim (split_on d s))"

fun parse_apps :: "string list \<Rightarrow> string fset \<Rightarrow> (string fset, string) result" where
  "parse_apps [] allowed = Ok allowed"
| "parse_apps (app # apps) allowed =
     and_then (map_err (\<lambda>_. ''`'' @ app @ ''` is not a valid app id'') (application_id_from_str app))
       (\<lambda>_. parse_apps apps (finsert app allowed))"

fun parse_entries ::
    "string list \<Rightarrow> (string, string fset) fmap \<Rightarrow> ((string, string fset) fmap, string) result" where
  "parse_entries [] m = Ok m"
| "parse_entries (entry # entries) m =
     and_then (ok_or (split_once CHR ''='' entry)
         (''`'' @ entry @ ''` must look like scope=app[,app]'')) (\<lambda>(scope, apps).
       let scope = str_trim scope in
       if scope \<notin> set PROOF_SCOPES
       then Err (''`'' @ scope @
         ''` is not a scope Waveform honours (use waveform.tts or waveform.stt)'')
       else
         and_then (parse_apps (trimmed_pieces CHR '','' apps)
             (case fmlookup m scope of Some allowed \<Rightarrow> allowed | None \<Rightarrow> {||})) (\<lambda>allowed.
         parse_entries entries (fmupd scope allowed m)))"

definition proof_issuers_parse :: "string \<Rightarrow> (proof_issuers, string) result" where
  "proof_issuers_parse v = map_ok ProofIssuers (parse_entries (trimmed_pieces CHR '';'' v) fmempty)"

definition allows :: "proof_issuers \<Rightarrow> string \<Rightarrow> string \<Rightarrow> bool" where
  "allows issuers scope app =
     (case fmlookup (issuers_map issuers) scope of Some apps \<Rightarrow> app |\<in>| apps | None \<Rightarrow> False)"

definition proof_issuers_is_empty :: "proof_issuers \<Rightarrow> bool" where
  "proof_issuers_is_empty issuers = fBall (fmran (issuers_map issuers)) (\<lambda>apps. apps = {||})"

section \<open>Loaders\<close>

text \<open>\<open>RuntimeEnvironment::from_str\<close>.\<close>

definition runtime_environment_from_str :: "string \<Rightarrow> (runtime_environment, string) result" where
  "runtime_environment_from_str s =
     (let v = to_ascii_lowercase (str_trim s) in
      if v = ''development'' \<or> v = ''dev'' then Ok Development
      else if v = ''test'' then Ok Test
      else if v = ''production'' \<or> v = ''prod'' then Ok Production
      else Err ''must be development, test, or production'')"

definition OBSOLETE_VARIABLES :: "string list" where
  "OBSOLETE_VARIABLES =
     [''WAVEFORM_IAM_BASE_URL'',
      ''WAVEFORM_IAM_APP_ID'',
      ''WAVEFORM_IAM_APP_SECRET'',
      ''WAVEFORM_IAM_TOKEN_INTROSPECTION_PATH'',
      ''WAVEFORM_IAM_OBO_VERIFY_PATH'',
      ''WAVEFORM_IAM_AUDIENCE'',
      ''WAVEFORM_IAM_TTS_ACTION'',
      ''WAVEFORM_IAM_STT_ACTION'',
      ''WAVEFORM_IAM_TIMEOUT_SECONDS'',
      ''WAVEFORM_WEBHOOK_SIGNING_SECRET'',
      ''WAVEFORM_WEBHOOK_KEY_VERSION'',
      ''WAVEFORM_WEBHOOK_PUBLIC_URL'',
      ''WAVEFORM_HONEYCOMB_SERVICE_TOKEN'',
      ''SILICON_IAM_CLIENT_AUTO_UPDATE'',
      ''WAVEFORM_BRIEFCASE_CDN_ORIGIN'',
      ''WAVEFORM_TELEMETRY'',
      ''WAVEFORM_TELEMETRY_KEY'',
      ''SPACE_STATION_HOME'',
      ''SPACE_STATION_URL'']"

fun present_variables :: "environment_source \<Rightarrow> string list \<Rightarrow> (string list, settings_error) result" where
  "present_variables src [] = Ok []"
| "present_variables src (name # names) =
     and_then (optional src name) (\<lambda>v.
     map_ok (\<lambda>rest. if v \<noteq> None then name # rest else rest) (present_variables src names))"

definition obsolete_variables :: "environment_source \<Rightarrow> (string list, settings_error) result" where
  "obsolete_variables src = present_variables src OBSOLETE_VARIABLES"

definition reject_renamed_variables :: "environment_source \<Rightarrow> (unit, settings_error) result" where
  "reject_renamed_variables src =
     and_then (optional src ''WAVEFORM_BRIEFCASE_AUDIENCE'') (\<lambda>v.
       if v \<noteq> None then invalid ''WAVEFORM_BRIEFCASE_AUDIENCE''
         (''was renamed to WAVEFORM_BRIEFCASE_APP_ID (Briefcase's app id, the receiving app of Waveform's proofs); move the value there and delete this variable'')
       else Ok ())"

definition load_webhook_secret :: "environment_source \<Rightarrow> string \<Rightarrow> (string option, settings_error) result" where
  "load_webhook_secret src name =
     and_then (optional_secret src name 7 512) (\<lambda>secret.
       if (case secret of Some v \<Rightarrow> \<not> starts_with ''whsec_'' v | None \<Rightarrow> False)
       then invalid name
         (''must be the whsec_'' @ [CHR 0xE2, CHR 0x80, CHR 0xA6] @ '' secret Silicon Accounts generated for Waveform's webhook'')
       else Ok secret)"

definition load_accounts ::
    "config_crates \<Rightarrow> environment_source \<Rightarrow> runtime_environment \<Rightarrow>
     (accounts_settings, settings_error) result" where
  "load_accounts C src environment =
     and_then (and_then (value_or src ''ACCOUNTS_URL'' ''https://accounts.teamofsilicons.com'') (\<lambda>v.
         accounts_origin C ''ACCOUNTS_URL'' v environment)) (\<lambda>public_url.
     and_then (and_then (optional src ''ACCOUNTS_API_URL'') (\<lambda>v.
         case v of
           Some v \<Rightarrow> accounts_origin C ''ACCOUNTS_API_URL'' v environment
         | None \<Rightarrow> Ok public_url)) (\<lambda>api_url.
     and_then (bounded_value_or src ''WAVEFORM_APP_ID'' ''waveform'' 1 80) (\<lambda>app_id.
     and_then (map_err (\<lambda>_. Invalid ''WAVEFORM_APP_ID'' ''must be a bare app id such as waveform'')
         (application_id_from_str app_id)) (\<lambda>_.
     and_then (load_webhook_secret src ''WAVEFORM_ACCOUNTS_WEBHOOK_SECRET'') (\<lambda>webhook_secret.
     and_then (load_webhook_secret src ''WAVEFORM_ACCOUNTS_WEBHOOK_SECRET_PREVIOUS'') (\<lambda>previous.
       if previous \<noteq> None \<and> webhook_secret = None
       then invalid ''WAVEFORM_ACCOUNTS_WEBHOOK_SECRET_PREVIOUS''
         ''needs WAVEFORM_ACCOUNTS_WEBHOOK_SECRET (the current secret) to be set too''
       else
         and_then (and_then (value_or src ''WAVEFORM_PROOF_ISSUERS'' []) (\<lambda>v.
             map_err (Invalid ''WAVEFORM_PROOF_ISSUERS'') (proof_issuers_parse v))) (\<lambda>issuers.
         and_then (secret_required src ''WAVEFORM_APP_SECRET'' 1 MAX_SECRET_CHARS) (\<lambda>app_secret.
         and_then (duration_seconds src ''WAVEFORM_ACCOUNTS_TIMEOUT_SECONDS'' 5 1 60) (\<lambda>timeout.
         Ok \<lparr>accounts_public_url = public_url, accounts_api_url = api_url, accounts_app_id = app_id,
             accounts_app_secret = app_secret, accounts_webhook_secret = webhook_secret,
             accounts_previous_webhook_secret = previous, accounts_timeout = timeout,
             accounts_proof_issuers = issuers\<rparr>)))))))))"

definition load_public ::
    "config_crates \<Rightarrow> environment_source \<Rightarrow> runtime_environment \<Rightarrow> server_settings \<Rightarrow>
     (public_settings, settings_error) result" where
  "load_public C src environment server =
     and_then (http_url_or C src ''WAVEFORM_PUBLIC_URL''
         (if environment = Production then ''https://api.waveform.teamofsilicons.com''
          else ''http://127.0.0.1:'' @ decimal (socket_port (server_bind_addr server)))) (\<lambda>base_url.
     and_then (parse_or parse_bool src ''WAVEFORM_SPEECH_FIXTURES'' ''false'') (\<lambda>fixtures.
       if environment = Production \<and> fixtures
       then invalid ''WAVEFORM_SPEECH_FIXTURES''
         ''must not be enabled in production: it replaces every paid speech provider with prerecorded fixtures''
       else Ok \<lparr>public_base_url = base_url, public_speech_fixtures = fixtures\<rparr>))"

definition load_briefcase ::
    "config_crates \<Rightarrow> environment_source \<Rightarrow> runtime_environment \<Rightarrow> string \<Rightarrow> limit_settings \<Rightarrow>
     (briefcase_settings, settings_error) result" where
  "load_briefcase C src environment waveform_app_id limits =
     and_then (http_url_or C src ''WAVEFORM_BRIEFCASE_BASE_URL''
         (if environment = Production then ''https://api.briefcase.teamofsilicons.com''
          else ''http://127.0.0.1:8082'')) (\<lambda>base_url.
     and_then (bounded_value_or src ''WAVEFORM_BRIEFCASE_APP_ID'' ''briefcase'' 1 80) (\<lambda>app_id.
       if app_id = waveform_app_id
       then invalid ''WAVEFORM_BRIEFCASE_APP_ID''
         (''is now Briefcase's app id (the app Waveform's proofs are for), not Waveform's own; set it to briefcase or delete it'')
       else
     and_then (map_err (\<lambda>_. Invalid ''WAVEFORM_BRIEFCASE_APP_ID'' ''must be a bare app id such as briefcase'')
         (application_id_from_str app_id)) (\<lambda>_.
     and_then (bounded_value_or src ''WAVEFORM_BRIEFCASE_APP_FOLDER'' ''apps/waveform'' 1 255) (\<lambda>app_folder.
       if starts_with ''/'' app_folder \<or> ends_with ''/'' app_folder \<or>
          list_ex (\<lambda>segment. segment = [] \<or> segment = ''.'' \<or> segment = ''..'')
            (split_on CHR ''/'' app_folder)
       then invalid ''WAVEFORM_BRIEFCASE_APP_FOLDER''
         ''must be a drive-relative folder path such as apps/waveform''
       else
     and_then (origin_url_or C src ''WAVEFORM_BRIEFCASE_PERMANENT_ORIGIN''
         (if environment = Production then ''https://briefcase.teamofsilicons.com''
          else ''https://127.0.0.1:8082'')) (\<lambda>permanent_origin.
     and_then (duration_seconds src ''WAVEFORM_BRIEFCASE_TIMEOUT_SECONDS'' 10 1 120) (\<lambda>timeout.
     and_then (duration_seconds src ''WAVEFORM_BRIEFCASE_DOWNLOAD_TIMEOUT_SECONDS'' 30 1 300) (\<lambda>download_timeout.
     and_then (usize_in_range src ''WAVEFORM_BRIEFCASE_MAX_DOWNLOAD_BYTES'' MAX_MEDIA_BYTES 1024
         MAX_MEDIA_BYTES) (\<lambda>max_download_bytes.
       if max_download_bytes < limits_max_media_bytes limits
       then invalid ''WAVEFORM_BRIEFCASE_MAX_DOWNLOAD_BYTES'' ''must be at least WAVEFORM_MAX_MEDIA_BYTES''
       else Ok \<lparr>briefcase_base_url = base_url, briefcase_permanent_origin = permanent_origin,
              briefcase_app_id = app_id, briefcase_app_folder = app_folder,
              briefcase_timeout = timeout, briefcase_download_timeout = download_timeout,
              briefcase_max_download_bytes = max_download_bytes\<rparr>))))))))"

definition load_limits :: "environment_source \<Rightarrow> (limit_settings, settings_error) result" where
  "load_limits src =
     and_then (usize_in_range src ''WAVEFORM_MAX_TEXT_CHARS'' MAX_TEXT_CHARS 1 MAX_TEXT_CHARS) (\<lambda>chars.
     and_then (usize_in_range src ''WAVEFORM_MAX_MEDIA_BYTES'' MAX_MEDIA_BYTES 1024 MAX_MEDIA_BYTES) (\<lambda>bytes.
     Ok \<lparr>limits_max_text_chars = chars, limits_max_media_bytes = bytes\<rparr>))"

definition usize_saturating :: "nat \<Rightarrow> nat" where
  "usize_saturating n = min n u64_max"

definition load_server :: "environment_source \<Rightarrow> limit_settings \<Rightarrow> (server_settings, settings_error) result" where
  "load_server src limits =
     and_then (parse_or parse_socket_addr src ''WAVEFORM_BIND_ADDR'' ''127.0.0.1:8080'') (\<lambda>bind_addr.
     and_then (usize_in_range src ''WAVEFORM_JSON_BODY_LIMIT_BYTES'' 327680 1024 1048576) (\<lambda>json_body_limit.
     and_then (duration_seconds src ''WAVEFORM_TTS_DEADLINE_SECONDS'' 300 1 900) (\<lambda>tts_deadline.
     and_then (duration_seconds src ''WAVEFORM_STT_DEADLINE_SECONDS'' 600 1 900) (\<lambda>stt_deadline.
     and_then (nonzero_usize src ''WAVEFORM_MAX_IN_FLIGHT'' 256 10000) (\<lambda>max_in_flight.
     and_then (duration_seconds src ''WAVEFORM_SHUTDOWN_TIMEOUT_SECONDS'' 30 1 300) (\<lambda>shutdown_timeout.
       if socket_port bind_addr = 0
       then invalid ''WAVEFORM_BIND_ADDR'' ''port must be greater than zero''
       else if json_body_limit <
         usize_saturating (usize_saturating (limits_max_text_chars limits * 12) + 1024)
       then invalid ''WAVEFORM_JSON_BODY_LIMIT_BYTES'' ''must accommodate the configured text limit''
       else Ok \<lparr>server_bind_addr = bind_addr, server_json_body_limit = json_body_limit,
              server_tts_deadline = tts_deadline, server_stt_deadline = stt_deadline,
              server_max_in_flight = max_in_flight, server_shutdown_timeout = shutdown_timeout\<rparr>))))))"

definition load_database ::
    "config_crates \<Rightarrow> environment_source \<Rightarrow> runtime_environment \<Rightarrow>
     (database_settings, settings_error) result" where
  "load_database C src environment =
     and_then (nonzero_u32 src ''WAVEFORM_DATABASE_MAX_CONNECTIONS'' 16 256) (\<lambda>max_connections.
     and_then (secret_required src ''WAVEFORM_DATABASE_URL'' 1 MAX_SECRET_CHARS) (\<lambda>u.
     and_then (u32_in_range src ''WAVEFORM_DATABASE_MIN_CONNECTIONS'' 1 0 (max_connections - 1)) (\<lambda>min_connections.
     and_then (duration_seconds src ''WAVEFORM_DATABASE_ACQUIRE_TIMEOUT_SECONDS'' 3 1 60) (\<lambda>acquire_timeout.
     and_then (duration_seconds src ''WAVEFORM_DATABASE_STATEMENT_TIMEOUT_SECONDS'' 10 1 300) (\<lambda>statement_timeout.
     map_ok (\<lambda>_. \<lparr>database_url = u, database_max_connections = max_connections,
              database_min_connections = min_connections,
              database_acquire_timeout = acquire_timeout,
              database_statement_timeout = statement_timeout\<rparr>)
       (validate_database_url C environment u))))))"

definition load_gemini :: "config_crates \<Rightarrow> environment_source \<Rightarrow> (gemini_settings, settings_error) result" where
  "load_gemini C src =
     and_then (optional_secret src ''WAVEFORM_GEMINI_API_KEY'' 1 MAX_SECRET_CHARS) (\<lambda>api_key.
     and_then (http_url_or C src ''WAVEFORM_GEMINI_BASE_URL''
         ''https://generativelanguage.googleapis.com/v1beta'') (\<lambda>base_url.
     and_then (bounded_value_or src ''WAVEFORM_GEMINI_TTS_MODEL'' ''gemini-3.1-flash-tts-preview'' 1 256) (\<lambda>tts_model.
     and_then (bounded_value_or src ''WAVEFORM_GEMINI_STT_MODEL'' ''gemini-3.5-transcribe'' 1 256) (\<lambda>stt_model.
     and_then (bounded_value_or src ''WAVEFORM_GEMINI_TTS_VOICE'' ''Kore'' 1 128) (\<lambda>tts_voice.
     and_then (duration_seconds src ''WAVEFORM_GEMINI_TTS_TIMEOUT_SECONDS'' 45 1 120) (\<lambda>tts_timeout.
     and_then (duration_seconds src ''WAVEFORM_GEMINI_STT_TIMEOUT_SECONDS'' 180 1 300) (\<lambda>stt_timeout.
     and_then (nonzero_usize src ''WAVEFORM_GEMINI_MAX_CONCURRENCY'' 16 1024) (\<lambda>max_concurrency.
     Ok \<lparr>gemini_api_key = api_key, gemini_base_url = base_url, gemini_tts_model = tts_model,
         gemini_stt_model = stt_model, gemini_tts_voice = tts_voice, gemini_tts_timeout = tts_timeout,
         gemini_stt_timeout = stt_timeout, gemini_max_concurrency = max_concurrency\<rparr>))))))))"

definition load_elevenlabs :: "config_crates \<Rightarrow> environment_source \<Rightarrow> (elevenlabs_settings, settings_error) result" where
  "load_elevenlabs C src =
     and_then (optional_secret src ''WAVEFORM_ELEVENLABS_API_KEY'' 1 MAX_SECRET_CHARS) (\<lambda>api_key.
     and_then (http_url_or C src ''WAVEFORM_ELEVENLABS_BASE_URL'' ''https://api.elevenlabs.io/v1'') (\<lambda>base_url.
     and_then (bounded_value_or src ''WAVEFORM_ELEVENLABS_MODEL'' ''eleven_multilingual_v2'' 1 256) (\<lambda>model.
     and_then (bounded_value_or src ''WAVEFORM_ELEVENLABS_VOICE_ID'' ''21m00Tcm4TlvDq8ikWAM'' 1 256) (\<lambda>voice_id.
     and_then (parse_or parse_bool src ''WAVEFORM_ELEVENLABS_ENABLE_LOGGING'' ''false'') (\<lambda>enable_logging.
     and_then (duration_seconds src ''WAVEFORM_ELEVENLABS_TIMEOUT_SECONDS'' 45 1 120) (\<lambda>timeout.
     and_then (nonzero_usize src ''WAVEFORM_ELEVENLABS_MAX_CONCURRENCY'' 16 1024) (\<lambda>max_concurrency.
     Ok \<lparr>elevenlabs_api_key = api_key, elevenlabs_base_url = base_url, elevenlabs_model = model,
         elevenlabs_voice_id = voice_id, elevenlabs_enable_logging = enable_logging,
         elevenlabs_timeout = timeout, elevenlabs_max_concurrency = max_concurrency\<rparr>)))))))"

definition load_openai :: "config_crates \<Rightarrow> environment_source \<Rightarrow> (openai_settings, settings_error) result" where
  "load_openai C src =
     and_then (optional_secret src ''WAVEFORM_OPENAI_API_KEY'' 1 MAX_SECRET_CHARS) (\<lambda>api_key.
     and_then (http_url_or C src ''WAVEFORM_OPENAI_BASE_URL'' ''https://api.openai.com/v1'') (\<lambda>base_url.
     and_then (bounded_value_or src ''WAVEFORM_OPENAI_TTS_MODEL'' ''tts-1'' 1 256) (\<lambda>tts_model.
     and_then (bounded_value_or src ''WAVEFORM_OPENAI_STT_MODEL'' ''gpt-transcribe'' 1 256) (\<lambda>stt_model.
     and_then (bounded_value_or src ''WAVEFORM_OPENAI_TTS_VOICE'' ''alloy'' 1 128) (\<lambda>voice.
     and_then (duration_seconds src ''WAVEFORM_OPENAI_TTS_TIMEOUT_SECONDS'' 45 1 120) (\<lambda>tts_timeout.
     and_then (duration_seconds src ''WAVEFORM_OPENAI_STT_TIMEOUT_SECONDS'' 120 1 300) (\<lambda>stt_timeout.
     and_then (nonzero_usize src ''WAVEFORM_OPENAI_MAX_CONCURRENCY'' 16 1024) (\<lambda>max_concurrency.
     Ok \<lparr>openai_api_key = api_key, openai_base_url = base_url, openai_tts_model = tts_model,
         openai_stt_model = stt_model, openai_voice = voice, openai_tts_timeout = tts_timeout,
         openai_stt_timeout = stt_timeout, openai_max_concurrency = max_concurrency\<rparr>))))))))"

definition load_deepgram :: "config_crates \<Rightarrow> environment_source \<Rightarrow> (deepgram_settings, settings_error) result" where
  "load_deepgram C src =
     and_then (optional_secret src ''WAVEFORM_DEEPGRAM_API_KEY'' 1 MAX_SECRET_CHARS) (\<lambda>api_key.
     and_then (http_url_or C src ''WAVEFORM_DEEPGRAM_BASE_URL'' ''https://api.deepgram.com/v1'') (\<lambda>base_url.
     and_then (bounded_value_or src ''WAVEFORM_DEEPGRAM_STT_MODEL'' ''nova-3'' 1 256) (\<lambda>stt_model.
     and_then (parse_or parse_bool src ''WAVEFORM_DEEPGRAM_MIP_OPT_OUT'' ''true'') (\<lambda>mip_opt_out.
     and_then (duration_seconds src ''WAVEFORM_DEEPGRAM_TIMEOUT_SECONDS'' 120 1 120) (\<lambda>timeout.
     and_then (nonzero_usize src ''WAVEFORM_DEEPGRAM_MAX_CONCURRENCY'' 16 1024) (\<lambda>max_concurrency.
     Ok \<lparr>deepgram_api_key = api_key, deepgram_base_url = base_url, deepgram_stt_model = stt_model,
         deepgram_mip_opt_out = mip_opt_out, deepgram_timeout = timeout,
         deepgram_max_concurrency = max_concurrency\<rparr>))))))"

definition load_providers :: "config_crates \<Rightarrow> environment_source \<Rightarrow> (provider_settings, settings_error) result" where
  "load_providers C src =
     and_then (load_gemini C src) (\<lambda>gemini.
     and_then (load_elevenlabs C src) (\<lambda>elevenlabs.
     and_then (load_openai C src) (\<lambda>openai.
     and_then (load_deepgram C src) (\<lambda>deepgram.
     and_then (parse_or parse_bool src ''WAVEFORM_REQUIRE_FULL_PROVIDER_CHAIN'' ''false'') (\<lambda>full.
     Ok \<lparr>providers_gemini = gemini, providers_elevenlabs = elevenlabs, providers_openai = openai,
         providers_deepgram = deepgram, providers_require_full_chain = full\<rparr>)))))"

definition load_audio :: "environment_source \<Rightarrow> (audio_settings, settings_error) result" where
  "load_audio src =
     and_then (value_or src ''WAVEFORM_FFMPEG_PATH'' ''ffmpeg'') (\<lambda>ffmpeg_path.
     and_then (duration_seconds src ''WAVEFORM_AUDIO_TIMEOUT_SECONDS'' 30 1 300) (\<lambda>timeout.
     and_then (usize_in_range src ''WAVEFORM_AUDIO_MAX_INPUT_BYTES'' MAX_MEDIA_BYTES 1024 MAX_MEDIA_BYTES) (\<lambda>max_input.
     and_then (usize_in_range src ''WAVEFORM_AUDIO_MAX_OUTPUT_BYTES'' MAX_MEDIA_BYTES 1024 MAX_MEDIA_BYTES) (\<lambda>max_output.
     and_then (u16_in_range src ''WAVEFORM_AUDIO_BITRATE_KBPS'' 128 32 320) (\<lambda>bitrate.
       if ffmpeg_path = [] then invalid ''WAVEFORM_FFMPEG_PATH'' ''must not be empty''
       else Ok \<lparr>audio_ffmpeg_path = ffmpeg_path, audio_timeout = timeout,
              audio_max_input_bytes = max_input, audio_max_output_bytes = max_output,
              audio_bitrate_kbps = bitrate\<rparr>)))))"

definition load_idempotency :: "environment_source \<Rightarrow> (idempotency_settings, settings_error) result" where
  "load_idempotency src =
     and_then (secret_required src ''WAVEFORM_IDEMPOTENCY_DIGEST_KEY'' 32 1024) (\<lambda>digest_key.
       if \<not> (32 \<le> length digest_key \<and> length digest_key \<le> 1024)
       then invalid ''WAVEFORM_IDEMPOTENCY_DIGEST_KEY'' ''must encode to between 32 and 1024 bytes''
       else
     and_then (duration_seconds src ''WAVEFORM_IDEMPOTENCY_TTL_SECONDS'' 86400 86400 604800) (\<lambda>ttl.
     and_then (duration_seconds src ''WAVEFORM_IDEMPOTENCY_LEASE_SECONDS'' 600 10 3600) (\<lambda>lease.
     and_then (duration_seconds src ''WAVEFORM_IDEMPOTENCY_RETRY_AFTER_SECONDS'' 2 1 300) (\<lambda>retry_after.
     and_then (duration_seconds src ''WAVEFORM_IDEMPOTENCY_CLEANUP_INTERVAL_SECONDS'' 300 10 86400) (\<lambda>interval.
     and_then (nonzero_u32 src ''WAVEFORM_IDEMPOTENCY_CLEANUP_BATCH'' 1000 100000) (\<lambda>batch.
       if retry_after \<ge> lease
       then invalid ''WAVEFORM_IDEMPOTENCY_RETRY_AFTER_SECONDS'' ''must be shorter than the ownership lease''
       else if lease \<ge> ttl
       then invalid ''WAVEFORM_IDEMPOTENCY_LEASE_SECONDS''
         ''must be shorter than the terminal record lifetime''
       else Ok \<lparr>idempotency_digest_key = digest_key, idempotency_ttl = ttl,
              idempotency_lease = lease, idempotency_retry_after = retry_after,
              idempotency_cleanup_interval = interval, idempotency_cleanup_batch = batch\<rparr>))))))"

definition load_logging :: "environment_source \<Rightarrow> (log_settings, settings_error) result" where
  "load_logging src =
     and_then (bounded_value_or src ''WAVEFORM_LOG_FILTER'' ''silicon_waveform=info,tower_http=info''
         1 2048) (\<lambda>filter_text.
     and_then (parse_or parse_bool src ''WAVEFORM_LOG_JSON'' ''false'') (\<lambda>json.
     Ok \<lparr>log_filter = filter_text, log_json = json\<rparr>))"

section \<open>Validation across parts\<close>

definition validate_idempotency_lease ::
    "idempotency_settings \<Rightarrow> server_settings \<Rightarrow> (unit, settings_error) result" where
  "validate_idempotency_lease idempotency server =
     (if idempotency_lease idempotency < max (server_tts_deadline server) (server_stt_deadline server)
      then invalid ''WAVEFORM_IDEMPOTENCY_LEASE_SECONDS''
        ''must cover the longest public request deadline''
      else Ok ())"

text \<open>\<open>Duration::MAX\<close>, and saturating sums and products of durations.\<close>

definition DURATION_MAX :: duration where
  "DURATION_MAX = secs u64_max + 999999999"

definition duration_saturating_add :: "duration \<Rightarrow> duration \<Rightarrow> duration" where
  "duration_saturating_add a b = min (a + b) DURATION_MAX"

definition duration_saturating_mul :: "duration \<Rightarrow> nat \<Rightarrow> duration" where
  "duration_saturating_mul a k = min (a * k) DURATION_MAX"

definition tts_attempt_budget ::
    "database_settings \<Rightarrow> accounts_settings \<Rightarrow> briefcase_settings \<Rightarrow> provider_settings \<Rightarrow>
     audio_settings \<Rightarrow> duration" where
  "tts_attempt_budget database accounts briefcase providers audio =
     foldl duration_saturating_add (gemini_tts_timeout (providers_gemini providers))
       [elevenlabs_timeout (providers_elevenlabs providers),
        openai_tts_timeout (providers_openai providers),
        duration_saturating_mul (audio_timeout audio) 3,
        duration_saturating_mul (accounts_timeout accounts) 3,
        briefcase_timeout briefcase,
        duration_saturating_mul (database_statement_timeout database) 2,
        ORCHESTRATION_HEADROOM]"

definition stt_attempt_budget ::
    "database_settings \<Rightarrow> accounts_settings \<Rightarrow> briefcase_settings \<Rightarrow> provider_settings \<Rightarrow> duration" where
  "stt_attempt_budget database accounts briefcase providers =
     foldl duration_saturating_add (gemini_stt_timeout (providers_gemini providers))
       [openai_stt_timeout (providers_openai providers),
        deepgram_timeout (providers_deepgram providers),
        duration_saturating_mul (accounts_timeout accounts) 3,
        briefcase_timeout briefcase,
        briefcase_download_timeout briefcase,
        duration_saturating_mul (database_statement_timeout database) 2,
        ORCHESTRATION_HEADROOM]"

definition validate_workflow_deadlines ::
    "server_settings \<Rightarrow> database_settings \<Rightarrow> accounts_settings \<Rightarrow> briefcase_settings \<Rightarrow>
     provider_settings \<Rightarrow> audio_settings \<Rightarrow> (unit, settings_error) result" where
  "validate_workflow_deadlines server database accounts briefcase providers audio =
     (if server_tts_deadline server < tts_attempt_budget database accounts briefcase providers audio
      then invalid ''WAVEFORM_TTS_DEADLINE_SECONDS''
        ''must cover provider, codec, Silicon Accounts, Briefcase, storage, and orchestration budgets''
      else if server_stt_deadline server < stt_attempt_budget database accounts briefcase providers
      then invalid ''WAVEFORM_STT_DEADLINE_SECONDS''
        ''must cover provider, Silicon Accounts, Briefcase, storage, and orchestration budgets''
      else Ok ())"

fun first_unconfigured :: "(string \<times> bool) list \<Rightarrow> (unit, settings_error) result" where
  "first_unconfigured [] = Ok ()"
| "first_unconfigured ((name, configured) # rest) =
     (if \<not> configured then Err (Missing name) else first_unconfigured rest)"

definition validate_full_provider_chain :: "provider_settings \<Rightarrow> (unit, settings_error) result" where
  "validate_full_provider_chain providers = first_unconfigured
     [(''WAVEFORM_GEMINI_API_KEY'', gemini_api_key (providers_gemini providers) \<noteq> None),
      (''WAVEFORM_ELEVENLABS_API_KEY'', elevenlabs_api_key (providers_elevenlabs providers) \<noteq> None),
      (''WAVEFORM_OPENAI_API_KEY'', openai_api_key (providers_openai providers) \<noteq> None),
      (''WAVEFORM_DEEPGRAM_API_KEY'', deepgram_api_key (providers_deepgram providers) \<noteq> None)]"

text \<open>The nine URLs that must use HTTPS in production.\<close>

definition production_urls :: "settings \<Rightarrow> (string \<times> url) list" where
  "production_urls s =
     [(''ACCOUNTS_URL'', accounts_public_url (set_accounts s)),
      (''ACCOUNTS_API_URL'', accounts_api_url (set_accounts s)),
      (''WAVEFORM_PUBLIC_URL'', public_base_url (set_public s)),
      (''WAVEFORM_BRIEFCASE_BASE_URL'', briefcase_base_url (set_briefcase s)),
      (''WAVEFORM_BRIEFCASE_PERMANENT_ORIGIN'', briefcase_permanent_origin (set_briefcase s)),
      (''WAVEFORM_GEMINI_BASE_URL'', gemini_base_url (providers_gemini (set_providers s))),
      (''WAVEFORM_ELEVENLABS_BASE_URL'', elevenlabs_base_url (providers_elevenlabs (set_providers s))),
      (''WAVEFORM_OPENAI_BASE_URL'', openai_base_url (providers_openai (set_providers s))),
      (''WAVEFORM_DEEPGRAM_BASE_URL'', deepgram_base_url (providers_deepgram (set_providers s)))]"

fun require_https :: "(string \<times> url) list \<Rightarrow> (unit, settings_error) result" where
  "require_https [] = Ok ()"
| "require_https ((name, u) # rest) =
     (if url_scheme u \<noteq> ''https'' then invalid name ''must use https in production''
      else require_https rest)"

definition path_is_absolute :: "string \<Rightarrow> bool" where
  "path_is_absolute p \<longleftrightarrow> starts_with ''/'' p"

definition validate_environment_safety :: "settings \<Rightarrow> (unit, settings_error) result" where
  "validate_environment_safety s =
     and_then (if providers_require_full_chain (set_providers s)
               then validate_full_provider_chain (set_providers s) else Ok ()) (\<lambda>_.
       if set_environment s \<noteq> Production then Ok ()
       else if \<not> providers_require_full_chain (set_providers s)
       then invalid ''WAVEFORM_REQUIRE_FULL_PROVIDER_CHAIN'' ''must be true in production''
       else if \<not> log_json (set_logging s)
       then invalid ''WAVEFORM_LOG_JSON'' ''must be true in production''
       else if \<not> path_is_absolute (audio_ffmpeg_path (set_audio s))
       then invalid ''WAVEFORM_FFMPEG_PATH'' ''must be an absolute path in production''
       else if char_count (accounts_app_secret (set_accounts s)) < 32
       then invalid ''WAVEFORM_APP_SECRET'' ''must contain at least 32 characters in production''
       else require_https (production_urls s))"

section \<open>\<open>Settings::from_source\<close>\<close>

definition from_source :: "config_crates \<Rightarrow> environment_source \<Rightarrow> (settings, settings_error) result" where
  "from_source C src =
     and_then (parse_or runtime_environment_from_str src ''WAVEFORM_ENVIRONMENT'' ''development'') (\<lambda>environment.
     and_then (reject_renamed_variables src) (\<lambda>_.
     and_then (load_limits src) (\<lambda>limits.
     and_then (load_server src limits) (\<lambda>server.
     and_then (load_database C src environment) (\<lambda>database.
     and_then (load_accounts C src environment) (\<lambda>accounts.
     and_then (optional_secret src ''WAVEFORM_ENCRYPTION_KEY'' 64 64) (\<lambda>encryption_key.
       if environment = Production \<and> encryption_key = None
       then Err (Missing ''WAVEFORM_ENCRYPTION_KEY'')
       else if environment = Production \<and> accounts_webhook_secret accounts = None
       then Err (Missing ''WAVEFORM_ACCOUNTS_WEBHOOK_SECRET'')
       else
     and_then (load_public C src environment server) (\<lambda>public.
     and_then (load_briefcase C src environment (accounts_app_id accounts) limits) (\<lambda>briefcase.
     and_then (load_providers C src) (\<lambda>providers.
     and_then (load_audio src) (\<lambda>audio.
     and_then (load_idempotency src) (\<lambda>idempotency.
     and_then (load_logging src) (\<lambda>logging.
     and_then (validate_idempotency_lease idempotency server) (\<lambda>_.
     and_then (validate_workflow_deadlines server database accounts briefcase providers audio) (\<lambda>_.
     and_then (obsolete_variables src) (\<lambda>obsolete.
     let s = \<lparr>set_environment = environment, set_server = server, set_database = database,
              set_accounts = accounts, set_control = \<lparr>control_encryption_key = encryption_key\<rparr>,
              set_public = public, set_briefcase = briefcase, set_providers = providers,
              set_audio = audio, set_idempotency = idempotency, set_limits = limits,
              set_logging = logging, set_obsolete_variables = obsolete\<rparr>
     in map_ok (\<lambda>_. s) (validate_environment_safety s)))))))))))))))))"

definition from_env :: "config_crates \<Rightarrow> (string \<Rightarrow> env_var) \<Rightarrow> (settings, settings_error) result" where
  "from_env C env = from_source C (process_environment env)"

end
