(* ===== verification/Config_Properties.thy ===== *)
theory Config_Properties
  imports Config
begin

text \<open>
  What accepted settings satisfy: the ranges of every number and URL (\<open>settings_wf\<close>), the safety
  policy of production, the deadlines that cover the work, and the meaning of the proof
  allow-list.
\<close>

section \<open>Readers\<close>

named_theorems config_bounds \<open>what an accepted value of a reader satisfies\<close>

lemma validate_range_Ok [simp]: "validate_range n v lo hi = Ok x \<longleftrightarrow> x = v \<and> lo \<le> v \<and> v \<le> hi"
  by (auto simp: validate_range_def)

lemma in_range_Ok [config_bounds]:
  "usize_in_range src n d lo hi = Ok v \<Longrightarrow> lo \<le> v \<and> v \<le> hi"
  "u64_in_range src n d lo hi = Ok v \<Longrightarrow> lo \<le> v \<and> v \<le> hi"
  "u32_in_range src n d lo hi = Ok v \<Longrightarrow> lo \<le> v \<and> v \<le> hi"
  "u16_in_range src n d lo hi = Ok v \<Longrightarrow> lo \<le> v \<and> v \<le> hi"
  by (auto simp: usize_in_range_def u64_in_range_def u32_in_range_def u16_in_range_def and_then_Ok_iff)

lemma nonzero_Ok [config_bounds]:
  "nonzero_usize src n d hi = Ok v \<Longrightarrow> 1 \<le> v \<and> v \<le> hi"
  "nonzero_u32 src n d hi = Ok v \<Longrightarrow> 1 \<le> v \<and> v \<le> hi"
  by (auto simp: nonzero_usize_def nonzero_u32_def and_then_Ok_iff split: if_splits
      dest!: in_range_Ok)

lemma duration_seconds_Ok [config_bounds]:
  "duration_seconds src n d lo hi = Ok v \<Longrightarrow> secs lo \<le> v \<and> v \<le> secs hi"
  by (auto simp: duration_seconds_def map_ok_Ok_iff secs_def dest!: in_range_Ok)

lemma validate_secret_length_Ok [simp]:
  "validate_secret_length n v lo hi = Ok x \<longleftrightarrow> lo \<le> char_count v \<and> char_count v \<le> hi"
  by (auto simp: validate_secret_length_def)

lemma secret_Ok [config_bounds]:
  "secret_required src n lo hi = Ok v \<Longrightarrow> lo \<le> char_count v \<and> char_count v \<le> hi"
  "optional_secret src n lo hi = Ok w \<Longrightarrow> pred_option (\<lambda>v. lo \<le> char_count v \<and> char_count v \<le> hi) w"
  by (auto simp: secret_required_def optional_secret_def and_then_Ok_iff map_ok_Ok_iff
      split: option.splits)

lemma bounded_Ok [config_bounds]:
  "bounded_string n v lo hi = Ok w \<Longrightarrow> w = v \<and> lo \<le> char_count w \<and> char_count w \<le> hi"
  "bounded_value_or src n d lo hi = Ok v \<Longrightarrow> lo \<le> char_count v \<and> char_count v \<le> hi"
  by (auto simp: bounded_value_or_def bounded_string_def and_then_Ok_iff split: if_splits)

text \<open>An absolute HTTP(S) URL with a host and without credentials, query or fragment.\<close>

definition http_url_wf :: "url \<Rightarrow> bool" where
  "http_url_wf u \<longleftrightarrow> (url_scheme u = ''http'' \<or> url_scheme u = ''https'') \<and> url_host u \<noteq> None \<and>
     url_username u = [] \<and> url_password u = None \<and> url_query u = None \<and> url_fragment u = None"

lemma validate_http_url_Ok [simp]: "validate_http_url n u = Ok x \<longleftrightarrow> http_url_wf u"
  by (auto simp: validate_http_url_def http_url_wf_def)

lemma http_url_or_Ok [config_bounds]: "http_url_or C src n d = Ok u \<Longrightarrow> http_url_wf u"
  by (auto simp: http_url_or_def and_then_Ok_iff map_ok_Ok_iff)

lemma origin_url_or_Ok [config_bounds]:
  "origin_url_or C src n d = Ok u \<Longrightarrow> http_url_wf u \<and> (url_path u = [] \<or> url_path u = ''/'')"
  by (auto simp: origin_url_or_def and_then_Ok_iff split: if_splits dest: http_url_or_Ok)

lemma accounts_origin_Ok [config_bounds]:
  "accounts_origin C n v environment = Ok u \<Longrightarrow>
     http_url_wf u \<and> (url_path u = [] \<or> url_path u = ''/'') \<and>
     (url_scheme u = ''https'' \<or> environment \<noteq> Production \<and> is_loopback_host u)"
  by (auto simp: accounts_origin_def and_then_Ok_iff http_url_wf_def split: if_splits)

section \<open>Loaders\<close>

definition server_wf :: "limit_settings \<Rightarrow> server_settings \<Rightarrow> bool" where
  "server_wf limits s \<longleftrightarrow>
     socket_port (server_bind_addr s) \<noteq> 0 \<and>
     1024 \<le> server_json_body_limit s \<and> server_json_body_limit s \<le> 1048576 \<and>
     limits_max_text_chars limits * 12 + 1024 \<le> server_json_body_limit s \<and>
     secs 1 \<le> server_tts_deadline s \<and> server_tts_deadline s \<le> secs 900 \<and>
     secs 1 \<le> server_stt_deadline s \<and> server_stt_deadline s \<le> secs 900 \<and>
     1 \<le> server_max_in_flight s \<and> server_max_in_flight s \<le> 10000 \<and>
     secs 1 \<le> server_shutdown_timeout s \<and> server_shutdown_timeout s \<le> secs 300"

definition database_wf :: "database_settings \<Rightarrow> bool" where
  "database_wf d \<longleftrightarrow>
     1 \<le> database_max_connections d \<and> database_max_connections d \<le> 256 \<and>
     database_min_connections d < database_max_connections d \<and>
     secs 1 \<le> database_acquire_timeout d \<and> database_acquire_timeout d \<le> secs 60 \<and>
     secs 1 \<le> database_statement_timeout d \<and> database_statement_timeout d \<le> secs 300"

definition webhook_secret_wf :: "string option \<Rightarrow> bool" where
  "webhook_secret_wf w \<longleftrightarrow> pred_option (\<lambda>v. starts_with ''whsec_'' v \<and> char_count v \<le> 512) w"

definition accounts_wf :: "accounts_settings \<Rightarrow> bool" where
  "accounts_wf a \<longleftrightarrow>
     http_url_wf (accounts_public_url a) \<and> http_url_wf (accounts_api_url a) \<and>
     is_ok (application_id_from_str (accounts_app_id a)) \<and>
     1 \<le> char_count (accounts_app_secret a) \<and>
     webhook_secret_wf (accounts_webhook_secret a) \<and>
     webhook_secret_wf (accounts_previous_webhook_secret a) \<and>
     (accounts_previous_webhook_secret a \<noteq> None \<longrightarrow> accounts_webhook_secret a \<noteq> None) \<and>
     secs 1 \<le> accounts_timeout a \<and> accounts_timeout a \<le> secs 60"

definition briefcase_wf :: "accounts_settings \<Rightarrow> limit_settings \<Rightarrow> briefcase_settings \<Rightarrow> bool" where
  "briefcase_wf a limits b \<longleftrightarrow>
     http_url_wf (briefcase_base_url b) \<and> http_url_wf (briefcase_permanent_origin b) \<and>
     is_ok (application_id_from_str (briefcase_app_id b)) \<and>
     briefcase_app_id b \<noteq> accounts_app_id a \<and>
     list_all (\<lambda>segment. segment \<notin> {[], ''.'', ''..''}) (split_on CHR ''/'' (briefcase_app_folder b)) \<and>
     limits_max_media_bytes limits \<le> briefcase_max_download_bytes b \<and>
     briefcase_max_download_bytes b \<le> MAX_MEDIA_BYTES \<and>
     secs 1 \<le> briefcase_timeout b \<and> briefcase_timeout b \<le> secs 120 \<and>
     secs 1 \<le> briefcase_download_timeout b \<and> briefcase_download_timeout b \<le> secs 300"

definition providers_wf :: "provider_settings \<Rightarrow> bool" where
  "providers_wf p \<longleftrightarrow>
     http_url_wf (gemini_base_url (providers_gemini p)) \<and>
     http_url_wf (elevenlabs_base_url (providers_elevenlabs p)) \<and>
     http_url_wf (openai_base_url (providers_openai p)) \<and>
     http_url_wf (deepgram_base_url (providers_deepgram p)) \<and>
     secs 1 \<le> gemini_tts_timeout (providers_gemini p) \<and> gemini_tts_timeout (providers_gemini p) \<le> secs 120 \<and>
     secs 1 \<le> gemini_stt_timeout (providers_gemini p) \<and> gemini_stt_timeout (providers_gemini p) \<le> secs 300 \<and>
     secs 1 \<le> elevenlabs_timeout (providers_elevenlabs p) \<and>
     elevenlabs_timeout (providers_elevenlabs p) \<le> secs 120 \<and>
     secs 1 \<le> openai_tts_timeout (providers_openai p) \<and> openai_tts_timeout (providers_openai p) \<le> secs 120 \<and>
     secs 1 \<le> openai_stt_timeout (providers_openai p) \<and> openai_stt_timeout (providers_openai p) \<le> secs 300 \<and>
     secs 1 \<le> deepgram_timeout (providers_deepgram p) \<and> deepgram_timeout (providers_deepgram p) \<le> secs 120 \<and>
     list_all (\<lambda>n. 1 \<le> n \<and> n \<le> 1024)
       [gemini_max_concurrency (providers_gemini p), elevenlabs_max_concurrency (providers_elevenlabs p),
        openai_max_concurrency (providers_openai p), deepgram_max_concurrency (providers_deepgram p)]"

definition audio_wf :: "audio_settings \<Rightarrow> bool" where
  "audio_wf a \<longleftrightarrow>
     secs 1 \<le> audio_timeout a \<and> audio_timeout a \<le> secs 300 \<and>
     1024 \<le> audio_max_input_bytes a \<and> audio_max_input_bytes a \<le> MAX_MEDIA_BYTES \<and>
     1024 \<le> audio_max_output_bytes a \<and> audio_max_output_bytes a \<le> MAX_MEDIA_BYTES \<and>
     32 \<le> audio_bitrate_kbps a \<and> audio_bitrate_kbps a \<le> 320 \<and> audio_ffmpeg_path a \<noteq> []"

definition idempotency_wf :: "idempotency_settings \<Rightarrow> bool" where
  "idempotency_wf i \<longleftrightarrow>
     32 \<le> length (idempotency_digest_key i) \<and> length (idempotency_digest_key i) \<le> 1024 \<and>
     secs 86400 \<le> idempotency_ttl i \<and> idempotency_ttl i \<le> secs 604800 \<and>
     secs 10 \<le> idempotency_lease i \<and> idempotency_lease i \<le> secs 3600 \<and>
     secs 1 \<le> idempotency_retry_after i \<and>
     idempotency_retry_after i < idempotency_lease i \<and> idempotency_lease i < idempotency_ttl i \<and>
     secs 10 \<le> idempotency_cleanup_interval i \<and> idempotency_cleanup_interval i \<le> secs 86400 \<and>
     1 \<le> idempotency_cleanup_batch i \<and> idempotency_cleanup_batch i \<le> 100000"

definition limits_wf :: "limit_settings \<Rightarrow> bool" where
  "limits_wf l \<longleftrightarrow> 1 \<le> limits_max_text_chars l \<and> limits_max_text_chars l \<le> MAX_TEXT_CHARS \<and>
     1024 \<le> limits_max_media_bytes l \<and> limits_max_media_bytes l \<le> MAX_MEDIA_BYTES"

lemma load_limits_Ok: "load_limits src = Ok l \<Longrightarrow> limits_wf l"
  by (auto simp: load_limits_def limits_wf_def and_then_Ok_iff dest!: config_bounds)

lemma load_server_Ok:
  assumes "load_server src limits = Ok s" and "limits_wf limits"
  shows "server_wf limits s"
proof -
  have "usize_saturating (usize_saturating (limits_max_text_chars limits * 12) + 1024) =
      limits_max_text_chars limits * 12 + 1024"
    using assms(2) by (simp add: limits_wf_def usize_saturating_def MAX_TEXT_CHARS_def u64_max_def)
  then show ?thesis using assms(1)
    by (auto simp: load_server_def server_wf_def and_then_Ok_iff split: if_splits dest!: config_bounds)
qed

lemma load_database_Ok:
  "load_database C src environment = Ok d \<Longrightarrow>
     database_wf d \<and> is_ok (validate_database_url C environment (database_url d))"
  by (auto simp: load_database_def database_wf_def and_then_Ok_iff map_ok_Ok_iff dest!: config_bounds)

lemma load_webhook_secret_Ok [config_bounds]:
  "load_webhook_secret src n = Ok w \<Longrightarrow> webhook_secret_wf w"
  by (auto simp: load_webhook_secret_def webhook_secret_wf_def and_then_Ok_iff split: if_splits
      option.splits dest!: config_bounds)

lemma load_accounts_Ok:
  assumes "load_accounts C src environment = Ok a"
  shows "accounts_wf a \<and>
     list_all (\<lambda>u. url_scheme u = ''https'' \<or> environment \<noteq> Production \<and> is_loopback_host u)
       [accounts_public_url a, accounts_api_url a]"
  using assms unfolding load_accounts_def
  by (safe elim!: result_elims dest!: config_bounds Inr_inject) (auto simp: accounts_wf_def split: option.splits dest!: accounts_origin_Ok)

lemma load_public_Ok:
  "load_public C src environment server = Ok p \<Longrightarrow>
     http_url_wf (public_base_url p) \<and> \<not> (environment = Production \<and> public_speech_fixtures p)"
  by (auto simp: load_public_def and_then_Ok_iff split: if_splits dest!: http_url_or_Ok)

lemma load_briefcase_Ok:
  "load_briefcase C src environment (accounts_app_id a) limits = Ok b \<Longrightarrow> briefcase_wf a limits b"
  unfolding load_briefcase_def
  by (safe elim!: result_elims dest!: config_bounds Inr_inject)
    (auto simp: briefcase_wf_def list_all_iff list_ex_iff)

lemma load_gemini_Ok:
  "load_gemini C src = Ok g \<Longrightarrow> http_url_wf (gemini_base_url g) \<and>
     secs 1 \<le> gemini_tts_timeout g \<and> gemini_tts_timeout g \<le> secs 120 \<and>
     secs 1 \<le> gemini_stt_timeout g \<and> gemini_stt_timeout g \<le> secs 300 \<and>
     1 \<le> gemini_max_concurrency g \<and> gemini_max_concurrency g \<le> 1024"
  unfolding load_gemini_def by (clarify elim!: result_elims dest!: config_bounds Inr_inject) simp

lemma load_elevenlabs_Ok:
  "load_elevenlabs C src = Ok g \<Longrightarrow> http_url_wf (elevenlabs_base_url g) \<and>
     secs 1 \<le> elevenlabs_timeout g \<and> elevenlabs_timeout g \<le> secs 120 \<and>
     1 \<le> elevenlabs_max_concurrency g \<and> elevenlabs_max_concurrency g \<le> 1024"
  unfolding load_elevenlabs_def by (clarify elim!: result_elims dest!: config_bounds Inr_inject) simp

lemma load_openai_Ok:
  "load_openai C src = Ok g \<Longrightarrow> http_url_wf (openai_base_url g) \<and>
     secs 1 \<le> openai_tts_timeout g \<and> openai_tts_timeout g \<le> secs 120 \<and>
     secs 1 \<le> openai_stt_timeout g \<and> openai_stt_timeout g \<le> secs 300 \<and>
     1 \<le> openai_max_concurrency g \<and> openai_max_concurrency g \<le> 1024"
  unfolding load_openai_def by (clarify elim!: result_elims dest!: config_bounds Inr_inject) simp

lemma load_deepgram_Ok:
  "load_deepgram C src = Ok g \<Longrightarrow> http_url_wf (deepgram_base_url g) \<and>
     secs 1 \<le> deepgram_timeout g \<and> deepgram_timeout g \<le> secs 120 \<and>
     1 \<le> deepgram_max_concurrency g \<and> deepgram_max_concurrency g \<le> 1024"
  unfolding load_deepgram_def by (clarify elim!: result_elims dest!: config_bounds Inr_inject) simp

lemma load_providers_Ok: "load_providers C src = Ok p \<Longrightarrow> providers_wf p"
  by (clarsimp simp: load_providers_def providers_wf_def and_then_Ok_iff
      dest!: load_gemini_Ok load_elevenlabs_Ok load_openai_Ok load_deepgram_Ok)

lemma load_audio_Ok: "load_audio src = Ok a \<Longrightarrow> audio_wf a"
  by (auto simp: load_audio_def audio_wf_def and_then_Ok_iff split: if_splits dest!: config_bounds)

lemma load_idempotency_Ok: "load_idempotency src = Ok i \<Longrightarrow> idempotency_wf i"
  by (auto simp: load_idempotency_def idempotency_wf_def and_then_Ok_iff split: if_splits
      dest!: config_bounds)

lemma load_logging_Ok:
  "load_logging src = Ok l \<Longrightarrow> 1 \<le> char_count (log_filter l) \<and> char_count (log_filter l) \<le> 2048"
  unfolding load_logging_def by (clarify elim!: result_elims dest!: config_bounds Inr_inject) simp

text \<open>Accepted settings come from accepted parts.\<close>

lemma from_source_parts:
  assumes "from_source C src = Ok s"
  shows "load_limits src = Ok (set_limits s) \<and>
    load_server src (set_limits s) = Ok (set_server s) \<and>
    load_database C src (set_environment s) = Ok (set_database s) \<and>
    load_accounts C src (set_environment s) = Ok (set_accounts s) \<and>
    optional_secret src ''WAVEFORM_ENCRYPTION_KEY'' 64 64 = Ok (control_encryption_key (set_control s)) \<and>
    \<not> (set_environment s = Production \<and> control_encryption_key (set_control s) = None) \<and>
    \<not> (set_environment s = Production \<and> accounts_webhook_secret (set_accounts s) = None) \<and>
    load_public C src (set_environment s) (set_server s) = Ok (set_public s) \<and>
    load_briefcase C src (set_environment s) (accounts_app_id (set_accounts s)) (set_limits s) =
      Ok (set_briefcase s) \<and>
    load_providers C src = Ok (set_providers s) \<and>
    load_audio src = Ok (set_audio s) \<and>
    load_idempotency src = Ok (set_idempotency s) \<and>
    load_logging src = Ok (set_logging s) \<and>
    validate_idempotency_lease (set_idempotency s) (set_server s) = Ok () \<and>
    validate_workflow_deadlines (set_server s) (set_database s) (set_accounts s)
      (set_briefcase s) (set_providers s) (set_audio s) = Ok () \<and>
    validate_environment_safety s = Ok ()"
  using assms unfolding from_source_def Let_def
  apply (elim result_elims)
  apply (unfold map_ok_Ok_iff)
  apply (elim exE conjE)
  apply hypsubst
  apply (simp only: settings.select_convs control_settings.select_convs simp_thms)
  apply simp
  done

section \<open>What accepted settings satisfy\<close>

definition settings_wf :: "settings \<Rightarrow> bool" where
  "settings_wf s \<longleftrightarrow>
     limits_wf (set_limits s) \<and> server_wf (set_limits s) (set_server s) \<and>
     database_wf (set_database s) \<and> accounts_wf (set_accounts s) \<and>
     pred_option (\<lambda>k. char_count k = 64) (control_encryption_key (set_control s)) \<and>
     http_url_wf (public_base_url (set_public s)) \<and>
     briefcase_wf (set_accounts s) (set_limits s) (set_briefcase s) \<and>
     providers_wf (set_providers s) \<and> audio_wf (set_audio s) \<and>
     idempotency_wf (set_idempotency s) \<and>
     1 \<le> char_count (log_filter (set_logging s)) \<and> char_count (log_filter (set_logging s)) \<le> 2048"

lemma settings_wfI:
  assumes "from_source C src = Ok s"
  shows "settings_wf s"
  using from_source_parts [OF assms]
  by (auto simp: settings_wf_def load_server_Ok load_audio_Ok load_idempotency_Ok
      load_providers_Ok load_limits_Ok dest: load_database_Ok load_accounts_Ok load_public_Ok
      load_briefcase_Ok load_logging_Ok secret_Ok(2) elim!: option.pred_mono_strong)


lemma require_https_Ok: "require_https us = Ok x \<longleftrightarrow> list_all (\<lambda>(_, u). url_scheme u = ''https'') us"
  by (induction us rule: require_https.induct) auto

lemma validate_database_url_production:
  "validate_database_url C Production v = Ok x \<Longrightarrow>
     \<exists>u. url_parse (cf_url C) v = Some u \<and>
       map_option snd (find (\<lambda>(key, _). key = ''sslmode'') (cf_query_pairs C u)) = Some ''verify-full''"
  by (auto simp: validate_database_url_def and_then_Ok_iff split: if_splits)

lemma validate_environment_safety_Ok:
  assumes "validate_environment_safety s = Ok x" and "set_environment s = Production"
  shows "log_json (set_logging s)" "path_is_absolute (audio_ffmpeg_path (set_audio s))"
    "32 \<le> char_count (accounts_app_secret (set_accounts s))"
    "list_all (\<lambda>(_, u). url_scheme u = ''https'') (production_urls s)"
    "gemini_api_key (providers_gemini (set_providers s)) \<noteq> None"
    "elevenlabs_api_key (providers_elevenlabs (set_providers s)) \<noteq> None"
    "openai_api_key (providers_openai (set_providers s)) \<noteq> None"
    "deepgram_api_key (providers_deepgram (set_providers s)) \<noteq> None"
  using assms
  by (auto simp: validate_environment_safety_def validate_full_provider_chain_def and_then_Ok_iff
      require_https_Ok simp del: not_None_eq split: if_splits)

text \<open>
  Accepted settings of a production process are safe: every URL uses HTTPS and names a host,
  all four providers have a key, speech fixtures are off, the logs are JSON, \<open>ffmpeg\<close> is named by
  an absolute path, the app secret has at least 32 characters, the encryption key and the webhook
  secret are set, and the database connection verifies the server's certificate and name.
\<close>

theorem production_settings_are_safe:
  assumes "from_source C src = Ok s" and "set_environment s = Production"
  shows "list_all (\<lambda>(_, u). url_scheme u = ''https'' \<and> url_host u \<noteq> None) (production_urls s) \<and>
    list_all (\<lambda>key. key \<noteq> None)
      [gemini_api_key (providers_gemini (set_providers s)),
       elevenlabs_api_key (providers_elevenlabs (set_providers s)),
       openai_api_key (providers_openai (set_providers s)),
       deepgram_api_key (providers_deepgram (set_providers s))] \<and>
    \<not> public_speech_fixtures (set_public s) \<and> log_json (set_logging s) \<and>
    starts_with ''/'' (audio_ffmpeg_path (set_audio s)) \<and>
    32 \<le> char_count (accounts_app_secret (set_accounts s)) \<and>
    (\<exists>key. control_encryption_key (set_control s) = Some key \<and> char_count key = 64) \<and>
    (\<exists>w. accounts_webhook_secret (set_accounts s) = Some w \<and> starts_with ''whsec_'' w) \<and>
    (\<exists>u. url_parse (cf_url C) (database_url (set_database s)) = Some u \<and>
       map_option snd (find (\<lambda>(key, _). key = ''sslmode'') (cf_query_pairs C u)) = Some ''verify-full'')"
proof -
  have wf: "settings_wf s" by (rule settings_wfI [OF assms(1)])
  show ?thesis
    using from_source_parts [OF assms(1)] wf validate_environment_safety_Ok [of s "()", OF _ assms(2)]
      validate_database_url_production [of C "database_url (set_database s)"]
    by (auto simp: assms(2) settings_wf_def accounts_wf_def briefcase_wf_def providers_wf_def
        http_url_wf_def webhook_secret_wf_def production_urls_def path_is_absolute_def is_ok_def
        dest!: load_database_Ok load_public_Ok split: sum.splits)
qed

text \<open>
  The deadlines of accepted settings cover the work they bound, without saturation: the text
  and transcription deadlines are at least the sum of every provider attempt, the codec, the calls
  to Silicon Accounts and Briefcase, the statements and the headroom; and the lease of a request
  outlives both deadlines, so a request ends before its lease.
\<close>

theorem deadlines_cover_the_work:
  assumes "from_source C src = Ok s"
  shows "gemini_tts_timeout (providers_gemini (set_providers s)) +
      elevenlabs_timeout (providers_elevenlabs (set_providers s)) +
      openai_tts_timeout (providers_openai (set_providers s)) + 3 * audio_timeout (set_audio s) +
      3 * accounts_timeout (set_accounts s) + briefcase_timeout (set_briefcase s) +
      2 * database_statement_timeout (set_database s) + secs 30
      \<le> server_tts_deadline (set_server s) \<and>
    gemini_stt_timeout (providers_gemini (set_providers s)) +
      openai_stt_timeout (providers_openai (set_providers s)) +
      deepgram_timeout (providers_deepgram (set_providers s)) +
      3 * accounts_timeout (set_accounts s) + briefcase_timeout (set_briefcase s) +
      briefcase_download_timeout (set_briefcase s) +
      2 * database_statement_timeout (set_database s) + secs 30
      \<le> server_stt_deadline (set_server s) \<and>
    server_tts_deadline (set_server s) \<le> idempotency_lease (set_idempotency s) \<and>
    server_stt_deadline (set_server s) \<le> idempotency_lease (set_idempotency s)"
proof -
  note parts = from_source_parts [OF assms]
  have lease: "server_tts_deadline (set_server s) \<le> idempotency_lease (set_idempotency s)"
    "server_stt_deadline (set_server s) \<le> idempotency_lease (set_idempotency s)"
    using parts by (auto simp: validate_idempotency_lease_def split: if_splits)
  have top: "server_tts_deadline (set_server s) < DURATION_MAX"
    "server_stt_deadline (set_server s) < DURATION_MAX"
    using settings_wfI [OF assms]
    by (auto simp: settings_wf_def server_wf_def DURATION_MAX_def secs_def u64_max_def)
  have "tts_attempt_budget (set_database s) (set_accounts s) (set_briefcase s) (set_providers s)
      (set_audio s) \<le> server_tts_deadline (set_server s)"
    and "stt_attempt_budget (set_database s) (set_accounts s) (set_briefcase s) (set_providers s)
      \<le> server_stt_deadline (set_server s)"
    using parts by (auto simp: validate_workflow_deadlines_def split: if_splits)
  then show ?thesis using lease top
    by (auto simp: tts_attempt_budget_def stt_attempt_budget_def duration_saturating_add_def
        duration_saturating_mul_def ORCHESTRATION_HEADROOM_def min_def split: if_splits)
qed

section \<open>The allow-list of proofs\<close>

text \<open>An entry of the list names an app for a scope.\<close>

definition entry_names :: "string \<Rightarrow> string \<Rightarrow> string \<Rightarrow> bool" where
  "entry_names entry scope app \<longleftrightarrow>
     (case split_once CHR ''='' entry of
        Some (s, apps) \<Rightarrow> str_trim s = scope \<and> app \<in> set (trimmed_pieces CHR '','' apps)
      | None \<Rightarrow> False)"

lemma parse_apps_Ok:
  "parse_apps apps allowed = Ok r \<longleftrightarrow>
     list_all (\<lambda>a. is_ok (application_id_from_str a)) apps \<and> r = allowed |\<union>| fset_of_list apps"
  by (induction apps allowed rule: parse_apps.induct)
    (auto simp: and_then_Ok_iff is_ok_def split: sum.splits)

definition map_allows :: "(string, string fset) fmap \<Rightarrow> string \<Rightarrow> string \<Rightarrow> bool" where
  "map_allows m scope app \<longleftrightarrow> (case fmlookup m scope of Some apps \<Rightarrow> app |\<in>| apps | None \<Rightarrow> False)"

lemma map_allows_upd: "map_allows (fmupd k v m) scope app \<longleftrightarrow>
    (if scope = k then app |\<in>| v else map_allows m scope app)"
  by (simp add: map_allows_def)

lemma parse_entries_allows:
  "parse_entries entries m = Ok r \<Longrightarrow>
     map_allows r scope app \<longleftrightarrow> map_allows m scope app \<or> list_ex (\<lambda>e. entry_names e scope app) entries"
proof (induction entries m rule: parse_entries.induct)
  case (2 entry entries m)
  from "2.prems" obtain s apps allowed where
    split: "split_once CHR ''='' entry = Some (s, apps)" and
    allowed: "allowed = (case fmlookup m (str_trim s) of Some a \<Rightarrow> a | None \<Rightarrow> {||}) |\<union>|
      fset_of_list (trimmed_pieces CHR '','' apps)" and
    rest: "parse_entries entries (fmupd (str_trim s) allowed m) = Ok r" and
    known: "str_trim s \<in> set PROOF_SCOPES" and
    apps: "parse_apps (trimmed_pieces CHR '','' apps)
      (case fmlookup m (str_trim s) of Some a \<Rightarrow> a | None \<Rightarrow> {||}) = Ok allowed"
    by (auto simp: and_then_Ok_iff parse_apps_Ok Let_def split: if_splits)
  have "map_allows r scope app \<longleftrightarrow> map_allows (fmupd (str_trim s) allowed m) scope app \<or>
      list_ex (\<lambda>e. entry_names e scope app) entries"
    using "2.IH" [OF refl _ rest] known by blast
  then show ?case
    using split known
    by (auto simp: map_allows_upd allowed entry_names_def map_allows_def fset_of_list.rep_eq
        split: option.splits)
qed (simp add: map_allows_def)

lemma parse_entries_valid:
  "parse_entries entries m = Ok r \<Longrightarrow> list_ex (\<lambda>e. entry_names e scope app) entries \<Longrightarrow>
     scope \<in> set PROOF_SCOPES \<and> is_ok (application_id_from_str app)"
  by (induction entries m rule: parse_entries.induct)
    (auto simp: and_then_Ok_iff parse_apps_Ok entry_names_def list_all_iff Let_def split: if_splits)

text \<open>
  The allow-list means what it says: after a successful parse an app may call with a scope
  exactly when an entry of the text names it under that scope, and then the scope is one Waveform
  honours and the app id is valid; an empty text allows nobody.
\<close>

theorem proof_issuers_allow_exactly:
  assumes "proof_issuers_parse v = Ok issuers"
  shows "(allows issuers scope app \<longleftrightarrow>
      list_ex (\<lambda>e. entry_names e scope app) (trimmed_pieces CHR '';'' v)) \<and>
    (allows issuers scope app \<longrightarrow>
      scope \<in> set PROOF_SCOPES \<and> is_ok (application_id_from_str app)) \<and>
    (v = [] \<longrightarrow> \<not> allows issuers scope app)"
proof -
  obtain m where m: "parse_entries (trimmed_pieces CHR '';'' v) fmempty = Ok m"
    and issuers: "issuers = ProofIssuers m"
    using assms by (auto simp: proof_issuers_parse_def map_ok_Ok_iff)
  have "allows issuers scope app \<longleftrightarrow>
      list_ex (\<lambda>e. entry_names e scope app) (trimmed_pieces CHR '';'' v)"
    using parse_entries_allows [OF m, of scope app]
    by (simp add: issuers allows_def map_allows_def)
  moreover have "v = [] \<Longrightarrow> trimmed_pieces CHR '';'' v = []"
    by (simp add: trimmed_pieces_def str_trim_def utf8_of_chars_def)
  ultimately show ?thesis using parse_entries_valid [OF m] by auto
qed

end
