(* ===== verification/Config_Examples.thy ===== *)
theory Config_Examples
  imports Config_Properties
begin

text \<open>
  A complete production environment and a table of the URLs it needs: the settings read from it
  are accepted, which instantiates the properties of accepted settings.
\<close>

definition sample_variables :: "(string \<times> string) list" where
  "sample_variables =
     [(''WAVEFORM_ENVIRONMENT'', ''production''),
      (''WAVEFORM_DATABASE_URL'', ''postgres://db''),
      (''WAVEFORM_APP_SECRET'', ''0123456789abcdef0123456789abcdef''),
      (''WAVEFORM_ACCOUNTS_WEBHOOK_SECRET'', ''whsec_0''),
      (''WAVEFORM_ENCRYPTION_KEY'',
       ''0123456789abcdef0123456789abcdef0123456789abcdef0123456789abcdef''),
      (''WAVEFORM_PROOF_ISSUERS'', ''waveform.tts=interface''),
      (''WAVEFORM_GEMINI_API_KEY'', ''g''),
      (''WAVEFORM_ELEVENLABS_API_KEY'', ''e''),
      (''WAVEFORM_OPENAI_API_KEY'', ''o''),
      (''WAVEFORM_DEEPGRAM_API_KEY'', ''d''),
      (''WAVEFORM_REQUIRE_FULL_PROVIDER_CHAIN'', ''true''),
      (''WAVEFORM_LOG_JSON'', ''true''),
      (''WAVEFORM_FFMPEG_PATH'', ''/usr/bin/ffmpeg''),
      (''WAVEFORM_IDEMPOTENCY_DIGEST_KEY'', ''0123456789abcdef0123456789abcdef'')]"

definition sample_environment :: "string \<Rightarrow> env_var" where
  "sample_environment name =
     (case map_of sample_variables name of Some v \<Rightarrow> Present v | None \<Rightarrow> NotPresent)"

definition sample_url :: "string \<Rightarrow> url" where
  "sample_url scheme =
     \<lparr>url_scheme = scheme, url_username = [], url_password = None,
      url_host = Some (Domain ''example''), url_port = None, url_path = ''/'',
      url_query = None, url_fragment = None\<rparr>"

definition sample_crates :: config_crates where
  "sample_crates =
     \<lparr>cf_url = \<lparr>url_parse = (\<lambda>s. if s = ''postgres://db'' then Some (sample_url ''postgres'')
         else Some (sample_url ''https'')), url_text = (\<lambda>_. ''https://example/''),
        url_set_path = (\<lambda>u p. u\<lparr>url_path := p\<rparr>), url_same_origin = (\<lambda>a b. a = b)\<rparr>,
      cf_query_pairs = (\<lambda>_. [(''sslmode'', ''verify-full'')])\<rparr>"

abbreviation sample_source :: environment_source where
  "sample_source \<equiv> process_environment sample_environment"

lemma sample_values_trimmed: "list_all (\<lambda>(_, v). v \<noteq> [] \<and> str_trim v = v) sample_variables"
  by code_simp

lemma optional_sample: "optional sample_source name = Ok (map_of sample_variables name)"
proof (cases "map_of sample_variables name")
  case (Some v)
  then have "v \<noteq> [] \<and> str_trim v = v"
    using sample_values_trimmed by (auto simp: list_all_iff dest: map_of_SomeD)
  then show ?thesis using Some
    by (simp add: optional_def process_environment_def sample_environment_def)
qed (simp add: optional_def process_environment_def sample_environment_def)

lemma sample_integer:
  assumes "map_of sample_variables name = None" "lo \<le> d" "d \<le> hi"
  shows "d \<le> u64_max \<Longrightarrow> u64_in_range sample_source name d lo hi = Ok d"
    "d \<le> u64_max \<Longrightarrow> usize_in_range sample_source name d lo hi = Ok d"
    "d \<le> u32_max \<Longrightarrow> u32_in_range sample_source name d lo hi = Ok d"
    "d \<le> u16_max \<Longrightarrow> u16_in_range sample_source name d lo hi = Ok d"
  using assms
  by (simp_all add: u64_in_range_def usize_in_range_def u32_in_range_def u16_in_range_def
      parse_or_def value_or_def optional_sample parse_unsigned_decimal validate_range_def)

lemma char_count_ascii: "list_all is_ascii v \<Longrightarrow> char_count v = length v"
  by (simp add: char_count_def utf8_chars_ascii list_all_iff)

lemma sample_bounded:
  assumes "map_of sample_variables name = None" "list_all is_ascii d"
    "list_all (\<lambda>c. \<not> is_control (byte c)) d" "lo \<le> length d" "length d \<le> hi"
  shows "bounded_value_or sample_source name d lo hi = Ok d"
  using assms
  by (simp add: bounded_value_or_def bounded_string_def value_or_def optional_sample
      char_count_ascii utf8_chars_ascii list_all_iff list_ex_iff)

lemma sample_http_url:
  assumes "map_of sample_variables name = None" "d \<noteq> ''postgres://db''"
  shows "http_url_or sample_crates sample_source name d = Ok (sample_url ''https'')"
    "origin_url_or sample_crates sample_source name d = Ok (sample_url ''https'')"
  using assms
  by (simp_all add: http_url_or_def origin_url_or_def value_or_def optional_sample
      parse_absolute_url_def sample_crates_def validate_http_url_def sample_url_def)

lemma sample_secret:
  assumes "map_of sample_variables name = Some v" "list_all is_ascii v" "lo \<le> length v" "length v \<le> hi"
  shows "optional_secret sample_source name lo hi = Ok (Some v)"
    "secret_required sample_source name lo hi = Ok v"
  using assms
  by (simp_all add: optional_secret_def secret_required_def required_def optional_sample
      validate_secret_length_def char_count_ascii)

lemma sample_flag:
  "map_of sample_variables name = None \<Longrightarrow> parse_or parse sample_source name d = map_err (Invalid name) (parse d)"
  "map_of sample_variables name = Some v \<Longrightarrow> parse_or parse sample_source name d = map_err (Invalid name) (parse v)"
  by (simp_all add: parse_or_def value_or_def optional_sample)

lemmas sample_simps = sample_integer sample_bounded sample_http_url sample_secret sample_flag
  sample_variables_def u64_max_def u32_max_def u16_max_def duration_seconds_def nonzero_usize_def
  nonzero_u32_def is_ascii_def byte_def is_control_def parse_bool_def MAX_SECRET_CHARS_def
  MAX_TEXT_CHARS_def MAX_MEDIA_BYTES_def

lemma sample_providers:
  "\<exists>p. load_providers sample_crates sample_source = Ok p \<and> providers_require_full_chain p \<and>
     gemini_tts_timeout (providers_gemini p) = secs 45 \<and>
     gemini_stt_timeout (providers_gemini p) = secs 180 \<and>
     elevenlabs_timeout (providers_elevenlabs p) = secs 45 \<and>
     openai_tts_timeout (providers_openai p) = secs 45 \<and>
     openai_stt_timeout (providers_openai p) = secs 120 \<and>
     deepgram_timeout (providers_deepgram p) = secs 120 \<and>
     gemini_api_key (providers_gemini p) = Some ''g'' \<and>
     elevenlabs_api_key (providers_elevenlabs p) = Some ''e'' \<and>
     openai_api_key (providers_openai p) = Some ''o'' \<and>
     deepgram_api_key (providers_deepgram p) = Some ''d'' \<and>
     gemini_base_url (providers_gemini p) = sample_url ''https'' \<and>
     elevenlabs_base_url (providers_elevenlabs p) = sample_url ''https'' \<and>
     openai_base_url (providers_openai p) = sample_url ''https'' \<and>
     deepgram_base_url (providers_deepgram p) = sample_url ''https''"
  by (simp add: load_providers_def load_gemini_def load_elevenlabs_def load_openai_def
      load_deepgram_def sample_simps)

lemma sample_limits: "load_limits sample_source =
    Ok \<lparr>limits_max_text_chars = 4096, limits_max_media_bytes = MAX_MEDIA_BYTES\<rparr>"
  by (simp add: load_limits_def sample_simps)

lemma sample_server:
  "\<exists>v. load_server sample_source
       \<lparr>limits_max_text_chars = 4096, limits_max_media_bytes = MAX_MEDIA_BYTES\<rparr> = Ok v \<and>
     server_tts_deadline v = secs 300 \<and> server_stt_deadline v = secs 600"
  by (simp add: load_server_def sample_simps parse_socket_addr_default usize_saturating_def)

lemma sample_database:
  "\<exists>d. load_database sample_crates sample_source Production = Ok d \<and>
     database_statement_timeout d = secs 10"
  by (simp add: load_database_def sample_simps validate_database_url_def sample_crates_def sample_url_def)

lemma sample_issuers:
  "proof_issuers_parse ''waveform.tts=interface'' =
     Ok (ProofIssuers (fmupd ''waveform.tts'' {|''interface''|} fmempty))"
proof -
  have "trimmed_pieces CHR '';'' ''waveform.tts=interface'' = [''waveform.tts=interface'']"
    "trimmed_pieces CHR '','' ''interface'' = [''interface'']"
    "str_trim ''waveform.tts'' = ''waveform.tts''"
    "split_once CHR ''='' ''waveform.tts=interface'' = Some (''waveform.tts'', ''interface'')"
    "application_id_from_str ''interface'' = Ok (ApplicationId ''interface'')"
    by code_simp+
  then show ?thesis by (simp add: proof_issuers_parse_def PROOF_SCOPES_def)
qed

lemma sample_accounts:
  "\<exists>a. load_accounts sample_crates sample_source Production = Ok a \<and>
     accounts_public_url a = sample_url ''https'' \<and> accounts_api_url a = sample_url ''https'' \<and>
     accounts_webhook_secret a = Some ''whsec_0'' \<and> accounts_timeout a = secs 5 \<and>
     accounts_app_id a = ''waveform'' \<and>
     accounts_app_secret a = ''0123456789abcdef0123456789abcdef''"
proof -
  have "application_id_from_str ''waveform'' = Ok (ApplicationId ''waveform'')" by code_simp
  then show ?thesis
    by (simp add: load_accounts_def load_webhook_secret_def value_or_def optional_sample
        accounts_origin_def parse_absolute_url_def validate_http_url_def sample_crates_def
        sample_url_def sample_issuers starts_with_def optional_secret_def sample_simps
        validate_secret_length_def char_count_ascii)
qed

lemma sample_rest:
  "\<exists>b. load_briefcase sample_crates sample_source Production ''waveform''
       \<lparr>limits_max_text_chars = 4096, limits_max_media_bytes = MAX_MEDIA_BYTES\<rparr> = Ok b \<and>
     briefcase_timeout b = secs 10 \<and> briefcase_download_timeout b = secs 30 \<and>
     briefcase_base_url b = sample_url ''https'' \<and> briefcase_permanent_origin b = sample_url ''https''"
  "load_public sample_crates sample_source Production v =
     Ok \<lparr>public_base_url = sample_url ''https'', public_speech_fixtures = False\<rparr>"
  "\<exists>a. load_audio sample_source = Ok a \<and> audio_timeout a = secs 30 \<and>
     audio_ffmpeg_path a = ''/usr/bin/ffmpeg''"
  "\<exists>i. load_idempotency sample_source = Ok i \<and> idempotency_lease i = secs 600"
  "\<exists>l. load_logging sample_source = Ok l \<and> log_json l"
proof -
  have "application_id_from_str ''briefcase'' = Ok (ApplicationId ''briefcase'')" by code_simp
  then show "\<exists>b. load_briefcase sample_crates sample_source Production ''waveform''
       \<lparr>limits_max_text_chars = 4096, limits_max_media_bytes = MAX_MEDIA_BYTES\<rparr> = Ok b \<and>
     briefcase_timeout b = secs 10 \<and> briefcase_download_timeout b = secs 30 \<and>
     briefcase_base_url b = sample_url ''https'' \<and> briefcase_permanent_origin b = sample_url ''https''"
    by (simp add: load_briefcase_def sample_simps starts_with_def ends_with_def)
qed (simp_all add: load_public_def load_audio_def load_idempotency_def load_logging_def
    sample_simps value_or_def optional_sample secs_def)

lemma validate_environment_safetyI:
  assumes "providers_require_full_chain (set_providers s)"
    and "validate_full_provider_chain (set_providers s) = Ok ()"
    and "log_json (set_logging s)" and "path_is_absolute (audio_ffmpeg_path (set_audio s))"
    and "32 \<le> char_count (accounts_app_secret (set_accounts s))"
    and "list_all (\<lambda>(_, u). url_scheme u = ''https'') (production_urls s)"
  shows "validate_environment_safety s = Ok ()"
  using assms by (simp add: validate_environment_safety_def require_https_Ok)

lemma sample_environment_read:
  "parse_or runtime_environment_from_str sample_source ''WAVEFORM_ENVIRONMENT'' ''development'' = Ok Production"
  "optional_secret sample_source ''WAVEFORM_ENCRYPTION_KEY'' 64 64 =
     Ok (Some ''0123456789abcdef0123456789abcdef0123456789abcdef0123456789abcdef'')"
  "obsolete_variables sample_source = Ok []"
  "reject_renamed_variables sample_source = Ok ()"
proof -
  have "runtime_environment_from_str ''production'' = Ok Production" by code_simp
  then show "parse_or runtime_environment_from_str sample_source ''WAVEFORM_ENVIRONMENT'' ''development'' =
      Ok Production"
    by (simp add: sample_simps)
qed (simp_all add: sample_simps obsolete_variables_def OBSOLETE_VARIABLES_def optional_sample
    reject_renamed_variables_def)

lemma secs_add: "secs a + secs b = secs (a + b)" "k * secs a = secs (k * a)"
  by (simp_all add: secs_def algebra_simps)

lemma sample_accepted:
  "\<exists>s. from_source sample_crates sample_source = Ok s \<and> set_environment s = Production"
proof -
  obtain p v d a b u i l where
    p: "load_providers sample_crates sample_source = Ok p" "providers_require_full_chain p"
     "gemini_tts_timeout (providers_gemini p) = secs 45"
     "gemini_stt_timeout (providers_gemini p) = secs 180"
     "elevenlabs_timeout (providers_elevenlabs p) = secs 45"
     "openai_tts_timeout (providers_openai p) = secs 45"
     "openai_stt_timeout (providers_openai p) = secs 120"
     "deepgram_timeout (providers_deepgram p) = secs 120" and
    keys: "gemini_api_key (providers_gemini p) = Some ''g''"
     "elevenlabs_api_key (providers_elevenlabs p) = Some ''e''"
     "openai_api_key (providers_openai p) = Some ''o''"
     "deepgram_api_key (providers_deepgram p) = Some ''d''" and
    urls: "gemini_base_url (providers_gemini p) = sample_url ''https''"
     "elevenlabs_base_url (providers_elevenlabs p) = sample_url ''https''"
     "openai_base_url (providers_openai p) = sample_url ''https''"
     "deepgram_base_url (providers_deepgram p) = sample_url ''https''" and
    v: "load_server sample_source
       \<lparr>limits_max_text_chars = 4096, limits_max_media_bytes = MAX_MEDIA_BYTES\<rparr> = Ok v"
     "server_tts_deadline v = secs 300" "server_stt_deadline v = secs 600" and
    d: "load_database sample_crates sample_source Production = Ok d"
     "database_statement_timeout d = secs 10" and
    a: "load_accounts sample_crates sample_source Production = Ok a"
     "accounts_public_url a = sample_url ''https''" "accounts_api_url a = sample_url ''https''"
     "accounts_webhook_secret a = Some ''whsec_0''" "accounts_timeout a = secs 5"
     "accounts_app_id a = ''waveform''" "accounts_app_secret a = ''0123456789abcdef0123456789abcdef''" and
    b: "load_briefcase sample_crates sample_source Production ''waveform''
       \<lparr>limits_max_text_chars = 4096, limits_max_media_bytes = MAX_MEDIA_BYTES\<rparr> = Ok b"
     "briefcase_timeout b = secs 10" "briefcase_download_timeout b = secs 30"
     "briefcase_base_url b = sample_url ''https''" "briefcase_permanent_origin b = sample_url ''https''" and
    u: "load_audio sample_source = Ok u" "audio_timeout u = secs 30"
     "audio_ffmpeg_path u = ''/usr/bin/ffmpeg''" and
    i: "load_idempotency sample_source = Ok i" "idempotency_lease i = secs 600" and
    l: "load_logging sample_source = Ok l" "log_json l"
    using sample_providers sample_server sample_database sample_accounts sample_rest(1,3-5) by blast
  have chain: "validate_full_provider_chain p = Ok ()"
    by (simp add: validate_full_provider_chain_def keys)
  have lease: "validate_idempotency_lease i v = Ok ()"
    by (simp add: validate_idempotency_lease_def i v secs_def)
  have sums: "validate_workflow_deadlines v d a b p u = Ok ()"
    by (simp add: validate_workflow_deadlines_def tts_attempt_budget_def stt_attempt_budget_def
        duration_saturating_add_def duration_saturating_mul_def DURATION_MAX_def u64_max_def
        ORCHESTRATION_HEADROOM_def v d(2) a(5) b(2,3) p(3-8) u(2) secs_def)
  have https: "url_scheme (sample_url ''https'') = ''https''" by (simp add: sample_url_def)
  show ?thesis
    by (simp add: from_source_def sample_environment_read sample_limits v(1) d(1) a(1,4,6)
        sample_rest(2) b(1) p(1) u(1) i(1) l(1) lease sums Let_def,
      subst validate_environment_safetyI,
      simp_all add: p(2) chain l(2) u(3) path_is_absolute_def starts_with_def a(2,3,7)
        char_count_ascii is_ascii_def byte_def production_urls_def https b(4,5) urls)
qed

section \<open>Witnesses\<close>


lemma production_settings_are_safe_witness:
  "\<exists>s. from_source sample_crates sample_source = Ok s \<and> set_environment s = Production \<and>
     \<not> public_speech_fixtures (set_public s) \<and> starts_with ''/'' (audio_ffmpeg_path (set_audio s))"
  using sample_accepted production_settings_are_safe by blast

lemma deadlines_cover_the_work_witness:
  "\<exists>s. from_source sample_crates sample_source = Ok s \<and>
     server_stt_deadline (set_server s) \<le> idempotency_lease (set_idempotency s)"
  using sample_accepted deadlines_cover_the_work by blast

lemma proof_issuers_allow_exactly_witness:
  "allows (ProofIssuers (fmupd ''waveform.tts'' {|''interface''|} fmempty)) ''waveform.tts'' ''interface'' \<and>
   is_ok (application_id_from_str ''interface'')"
  using proof_issuers_allow_exactly [OF sample_issuers, of "''waveform.tts''" "''interface''"]
  by (simp add: allows_def)

end
