(* ===== verification/Accounts.thy ===== *)
theory Accounts
  imports Json Ports Config
begin

text \<open>
  \<open>src/src/infrastructure/accounts.rs\<close>: the gateway to Silicon Accounts. The gateway's own memory
  (the cached key set, the cached introspections, the lookup budget) is a record; the crate
  \<open>silicon-accounts-client\<close>, the HTTP client, the clock and SHA-256 are parameters acting on an
  arbitrary world \<open>'w\<close>. Other tasks share the gateway: wherever the code awaits without holding the
  lock of the memory it goes on to use, they may change it (\<open>ac_others\<close>).
\<close>

section \<open>What the client crate answers\<close>

text \<open>The errors of the client as the code inspects them.\<close>

datatype token_error =
    Expired | WrongAudience | WrongIssuer | UnknownKey | OtherTokenError

record accounts_client_error =
  ce_token :: "token_error option"
  ce_is_transport :: bool
  ce_status :: "nat option"
  ce_code :: string
  ce_details :: "json option"
  ce_is_not_found :: bool

definition ce_is_code :: "accounts_client_error \<Rightarrow> string \<Rightarrow> bool" where
  "ce_is_code e code \<longleftrightarrow> ce_code e = code"

record claims =
  cl_sub :: string
  cl_kind :: "actor_kind option"
  cl_id :: "string option"
  cl_iat :: "int option"
  cl_exp :: int
  cl_scopes :: "string list"
  cl_fid :: "string option"

datatype proof_kind = UserVerification | OtherProofKind

record proof_user =
  pu_uuid :: string
  pu_kind :: "actor_kind option"
  pu_id :: string

record verified_proof =
  vp_kind :: proof_kind
  vp_receiving_app :: string
  vp_issuing_app :: string
  vp_scopes :: "string list"
  vp_user :: "proof_user option"
  vp_expires_at :: instant

datatype proof_verification = ValidProof verified_proof | InvalidProofAnswer

record account_summary =
  as_uuid :: string
  as_id :: string
  as_kind :: actor_kind
  as_status :: string
  as_display_name :: string
  as_pfp_url :: string
  as_custodian :: "(string \<times> string) option"

record issued_proof =
  is_proof_id :: string
  is_proof_token :: string
  is_expires_at :: "instant option"
  is_proof_refresh_token :: "string option"
  is_refresh_expires_at :: "instant option"
  is_scopes :: "string list"

section \<open>Constants and own types\<close>

definition JWKS_MAX_AGE :: duration where "JWKS_MAX_AGE = secs 3600"
definition JWKS_REFETCH_INTERVAL :: duration where "JWKS_REFETCH_INTERVAL = secs 30"
definition INTROSPECTION_TTL :: duration where "INTROSPECTION_TTL = secs 30"
definition INTROSPECTION_CACHE_LIMIT :: nat where "INTROSPECTION_CACHE_LIMIT = 10000"
definition LOOKUPS_PER_MINUTE :: "32 word" where "LOOKUPS_PER_MINUTE = 300"
definition SELECTOR_LOOKUPS_PER_MINUTE :: "32 word" where "SELECTOR_LOOKUPS_PER_MINUTE = 100"
definition SWEEP_LOOKUPS_PER_MINUTE :: "32 word" where "SWEEP_LOOKUPS_PER_MINUTE = 50"

datatype lookup_purpose = Authorization | Selector | Sweep

datatype lookup = Found account_summary | NotFound | Deleted

datatype proof_error = Refused "string option" | Unavailable | Timeout

definition is_explicit_revocation :: "proof_error \<Rightarrow> bool" where
  "is_explicit_revocation e =
     (case e of
        proof_error.Refused (Some reason) \<Rightarrow> reason \<in> {''revoked_by_account'', ''revoked_by_owner''}
      | _ \<Rightarrow> False)"

record 'k jwks_state =
  jw_keys :: "'k option"
  jw_fetched_at :: "instant option"
  jw_last_forced :: "instant option"

record lookup_budget =
  lb_window_started :: instant
  lb_used :: "32 word"
  lb_selector :: "32 word"
  lb_sweep :: "32 word"

text \<open>The part of \<open>AccountsGateway\<close> that changes, and the part that does not.\<close>

record 'k gateway_memory =
  gm_jwks :: "'k jwks_state"
  gm_introspections :: "(bytes, bool \<times> instant) fmap"
  gm_lookups :: lookup_budget

datatype refresh_answer =
    SendTimedOut
  | SendFailed
  | Answered nat "issued_proof option" "json option"

type_synonym ('k, 'w) gateway_state = "'k gateway_memory \<times> 'w"

text \<open>A bounded call of the client: \<open>None\<close> when the deadline passed first.\<close>

type_synonym ('w, 'a) accounts_client_call = "('w, ('a, accounts_client_error) result option) state"

record ('k, 'w) accounts_gateway =
  ag_app_id :: string
  ag_issuer :: string
  ag_now :: "('w, instant) state"
  ag_others :: "(('k, 'w) gateway_state, unit) state"
  ag_sha256 :: "string \<Rightarrow> bytes"
  ag_verify :: "'k \<Rightarrow> string \<Rightarrow> string \<Rightarrow> string \<Rightarrow> (claims, accounts_client_error) result"
  ag_jwks :: "('w, 'k) accounts_client_call"
  ag_introspect :: "string \<Rightarrow> ('w, bool) accounts_client_call"
  ag_verify_proof :: "string \<Rightarrow> ('w, proof_verification) accounts_client_call"
  ag_lookup :: "string \<Rightarrow> ('w, account_summary) accounts_client_call"
  ag_lookup_by_id :: "string \<Rightarrow> ('w, account_summary) accounts_client_call"
  ag_issue :: "string \<Rightarrow> string \<Rightarrow> string list \<Rightarrow> nat \<Rightarrow> string \<Rightarrow> ('w, issued_proof) accounts_client_call"
  ag_post_refresh :: "string \<Rightarrow> nat \<Rightarrow> string \<Rightarrow> ('w, refresh_answer) state"
  ag_revoke :: "string \<Rightarrow> ('w, unit) accounts_client_call"

text \<open>An action of the outside world, and the gateway's own memory.\<close>

definition outside :: "('w, 'a) state \<Rightarrow> (('k, 'w) gateway_state, 'a) state" where
  "outside action = State (\<lambda>(m, w). case run_state action w of (x, w') \<Rightarrow> (x, (m, w')))"

definition memory :: "(('k, 'w) gateway_state, 'k gateway_memory) state" where
  "memory = State (\<lambda>(m, w). (m, (m, w)))"

definition update_memory :: "('k gateway_memory \<Rightarrow> 'k gateway_memory) \<Rightarrow> (('k, 'w) gateway_state, unit) state" where
  "update_memory f = State (\<lambda>(m, w). ((), (f m, w)))"

lemma run_outside [run_simps]:
  "run_state (outside action) (m, w) = (case run_state action w of (x, w') \<Rightarrow> (x, (m, w')))"
  by (simp add: outside_def)

lemma run_memory [run_simps]: "run_state memory (m, w) = (m, (m, w))"
  by (simp add: memory_def)

lemma run_update_memory [run_simps]: "run_state (update_memory f) (m, w) = ((), (f m, w))"
  by (simp add: update_memory_def)

text \<open>\<open>Instant::elapsed\<close> (saturating).\<close>

definition elapsed :: "instant \<Rightarrow> instant \<Rightarrow> duration" where
  "elapsed now since = nat (now - since)"

text \<open>\<open>bounded(call).await?\<close>.\<close>

definition bounded ::
    "('w, 'a) accounts_client_call \<Rightarrow> (('k, 'w) gateway_state, ('a, accounts_client_error) result, accounts_error) call" where
  "bounded action = State_Monad.bind (outside action) (\<lambda>answer.
     State_Monad.return (case answer of None \<Rightarrow> Err accounts_error.Timeout | Some r \<Rightarrow> Ok r))"

section \<open>The key set\<close>

definition jwks_fresh :: "instant \<Rightarrow> 'k jwks_state \<Rightarrow> bool" where
  "jwks_fresh now s \<longleftrightarrow>
     (case jw_fetched_at s of Some t \<Rightarrow> elapsed now t < JWKS_MAX_AGE | None \<Rightarrow> False)"

text \<open>Under the write lock: the keys to use without a fetch, if any.\<close>

definition jwks_held :: "bool \<Rightarrow> instant \<Rightarrow> 'k jwks_state \<Rightarrow> 'k option" where
  "jwks_held unknown_kid now s =
     (if jw_fetched_at s = None then None
      else if \<not> unknown_kid \<and> jwks_fresh now s then jw_keys s
      else if unknown_kid \<and>
        (case jw_last_forced s of Some t \<Rightarrow> elapsed now t < JWKS_REFETCH_INTERVAL | None \<Rightarrow> False)
      then jw_keys s else None)"

definition fetch_jwks :: "('k, 'w) accounts_gateway \<Rightarrow> (('k, 'w) gateway_state, 'k, accounts_error) call" where
  "fetch_jwks G =
     State_Monad.bind (bounded (ag_jwks G)) (\<lambda>answer.
     case answer of
       Ok (Ok keys) \<Rightarrow>
         State_Monad.bind (outside (ag_now G)) (\<lambda>now.
         State_Monad.bind (update_memory (\<lambda>m. m\<lparr>gm_jwks :=
             (gm_jwks m)\<lparr>jw_keys := Some keys, jw_fetched_at := Some now\<rparr>\<rparr>)) (\<lambda>_.
         done_with keys))
     | _ \<Rightarrow>
         State_Monad.bind memory (\<lambda>m.
         lift_result (ok_or (jw_keys (gm_jwks m)) accounts_error.Unavailable)))"

definition key_set :: "('k, 'w) accounts_gateway \<Rightarrow> bool \<Rightarrow> (('k, 'w) gateway_state, 'k, accounts_error) call" where
  "key_set G unknown_kid =
     State_Monad.bind memory (\<lambda>m.
     State_Monad.bind (outside (ag_now G)) (\<lambda>now.
     case (if \<not> unknown_kid \<and> jwks_fresh now (gm_jwks m) then jw_keys (gm_jwks m) else None) of
       Some keys \<Rightarrow> done_with keys
     | None \<Rightarrow>
         State_Monad.bind (ag_others G) (\<lambda>_.
         State_Monad.bind memory (\<lambda>m.
         State_Monad.bind (outside (ag_now G)) (\<lambda>now.
         case jwks_held unknown_kid now (gm_jwks m) of
           Some keys \<Rightarrow> done_with keys
         | None \<Rightarrow>
             State_Monad.bind (if unknown_kid
                 then State_Monad.bind (outside (ag_now G)) (\<lambda>now.
                   update_memory (\<lambda>m. m\<lparr>gm_jwks := (gm_jwks m)\<lparr>jw_last_forced := Some now\<rparr>\<rparr>))
                 else State_Monad.return ()) (\<lambda>_.
             fetch_jwks G))))))"

fun token_failure :: "accounts_client_error \<Rightarrow> accounts_error" where
  "token_failure e =
     Rejected (case ce_token e of
        Some Expired \<Rightarrow> TokenExpired
      | Some token_error.WrongAudience \<Rightarrow> auth_failure.WrongAudience
      | Some token_error.WrongIssuer \<Rightarrow> auth_failure.WrongIssuer
      | Some UnknownKey \<Rightarrow> UnknownSigningKey
      | _ \<Rightarrow> InvalidToken)"

definition verify_access_token ::
    "('k, 'w) accounts_gateway \<Rightarrow> string \<Rightarrow> (('k, 'w) gateway_state, claims, accounts_error) call" where
  "verify_access_token G token =
     try_call (key_set G False) (\<lambda>keys.
     case ag_verify G keys token (ag_app_id G) (ag_issuer G) of
       Ok c \<Rightarrow> done_with c
     | Err e \<Rightarrow>
         if ce_token e = Some UnknownKey then
           try_call (State_Monad.bind (ag_others G) (\<lambda>_. key_set G True)) (\<lambda>refreshed.
           lift_result (map_err token_failure
             (ag_verify G refreshed token (ag_app_id G) (ag_issuer G))))
         else throw (token_failure e))"

section \<open>Introspection\<close>

definition cached_introspection :: "instant \<Rightarrow> bytes \<Rightarrow> (bytes, bool \<times> instant) fmap \<Rightarrow> bool option" where
  "cached_introspection now digest cache =
     (case fmlookup cache digest of
        Some (active, checked) \<Rightarrow> if elapsed now checked < INTROSPECTION_TTL then Some active else None
      | None \<Rightarrow> None)"

text \<open>Room for one more entry: stale entries go first, then all.\<close>

definition introspection_room :: "instant \<Rightarrow> (bytes, bool \<times> instant) fmap \<Rightarrow> (bytes, bool \<times> instant) fmap" where
  "introspection_room now cache =
     (if fcard (fmdom cache) < INTROSPECTION_CACHE_LIMIT then cache
      else
        let kept = fmfilter (\<lambda>d. case fmlookup cache d of
              Some (_, checked) \<Rightarrow> elapsed now checked < INTROSPECTION_TTL | None \<Rightarrow> False) cache
        in if fcard (fmdom kept) < INTROSPECTION_CACHE_LIMIT then kept else fmempty)"

text \<open>The answer is remembered under one lock of the cache.\<close>

definition remember_introspection ::
    "('k, 'w) accounts_gateway \<Rightarrow> bytes \<Rightarrow> bool \<Rightarrow> (('k, 'w) gateway_state, bool, accounts_error) call" where
  "remember_introspection G digest active =
     State_Monad.bind (outside (ag_now G)) (\<lambda>now.
     State_Monad.bind (update_memory (\<lambda>m. m\<lparr>gm_introspections :=
         introspection_room now (gm_introspections m)\<rparr>)) (\<lambda>_.
     State_Monad.bind (outside (ag_now G)) (\<lambda>checked.
     State_Monad.bind (update_memory (\<lambda>m. m\<lparr>gm_introspections :=
         fmupd digest (active, checked) (gm_introspections m)\<rparr>)) (\<lambda>_.
     done_with active))))"

definition introspect_active ::
    "('k, 'w) accounts_gateway \<Rightarrow> string \<Rightarrow> (('k, 'w) gateway_state, bool, accounts_error) call" where
  "introspect_active G token =
     (let digest = ag_sha256 G token in
      State_Monad.bind memory (\<lambda>m.
      State_Monad.bind (outside (ag_now G)) (\<lambda>now.
      case cached_introspection now digest (gm_introspections m) of
        Some active \<Rightarrow> done_with active
      | None \<Rightarrow>
          try_call (bounded (ag_introspect G token)) (\<lambda>answer.
          State_Monad.bind (ag_others G) (\<lambda>_.
          try_call (lift_result (map_err (\<lambda>_. accounts_error.Unavailable) answer))
            (remember_introspection G digest))))))"

definition verify_proof ::
    "('k, 'w) accounts_gateway \<Rightarrow> string \<Rightarrow>
     (('k, 'w) gateway_state, proof_verification, accounts_error) call" where
  "verify_proof G token =
     try_call (bounded (ag_verify_proof G token)) (\<lambda>answer.
     lift_result (map_err (\<lambda>_. accounts_error.Unavailable) answer))"

section \<open>The lookup budget\<close>

definition lookup_budget_new :: "instant \<Rightarrow> lookup_budget" where
  "lookup_budget_new now = \<lparr>lb_window_started = now, lb_used = 0, lb_selector = 0, lb_sweep = 0\<rparr>"

definition budget_share :: "lookup_purpose \<Rightarrow> lookup_budget \<Rightarrow> (32 word \<times> 32 word) option" where
  "budget_share purpose b =
     (case purpose of
        Authorization \<Rightarrow> None
      | Selector \<Rightarrow> Some (lb_selector b, SELECTOR_LOOKUPS_PER_MINUTE)
      | Sweep \<Rightarrow> Some (lb_sweep b, SWEEP_LOOKUPS_PER_MINUTE))"

text \<open>\<open>spend_lookup\<close> with its two clock readings.\<close>

definition spend ::
    "lookup_purpose \<Rightarrow> instant \<Rightarrow> instant \<Rightarrow> lookup_budget \<Rightarrow>
     (unit, accounts_error) result \<times> lookup_budget" where
  "spend purpose now now' b =
     (let b = (if elapsed now (lb_window_started b) \<ge> secs 60
               then \<lparr>lb_window_started = now', lb_used = 0, lb_selector = 0, lb_sweep = 0\<rparr> else b)
      in if lb_used b \<ge> LOOKUPS_PER_MINUTE \<or>
            (case budget_share purpose b of Some (used, limit) \<Rightarrow> used \<ge> limit | None \<Rightarrow> False)
         then (Err accounts_error.Unavailable, b)
         else
           let b = b\<lparr>lb_used := lb_used b + 1\<rparr>
           in (Ok (), (case purpose of
                 Authorization \<Rightarrow> b
               | Selector \<Rightarrow> b\<lparr>lb_selector := lb_selector b + 1\<rparr>
               | Sweep \<Rightarrow> b\<lparr>lb_sweep := lb_sweep b + 1\<rparr>)))"

definition spend_lookup ::
    "('k, 'w) accounts_gateway \<Rightarrow> lookup_purpose \<Rightarrow>
     (('k, 'w) gateway_state, unit, accounts_error) call" where
  "spend_lookup G purpose =
     State_Monad.bind (outside (ag_now G)) (\<lambda>now.
     State_Monad.bind (outside (ag_now G)) (\<lambda>now'.
     State_Monad.bind memory (\<lambda>m.
     case spend purpose now now' (gm_lookups m) of
       (r, b) \<Rightarrow> State_Monad.bind (update_memory (\<lambda>m. m\<lparr>gm_lookups := b\<rparr>)) (\<lambda>_. lift_result r))))"

definition found :: "(account_summary, accounts_client_error) result \<Rightarrow> (lookup, accounts_error) result" where
  "found answer =
     (case answer of
        Ok account \<Rightarrow> if as_status account = ''deleted'' then Ok Deleted else Ok (Found account)
      | Err e \<Rightarrow>
          if ce_is_code e ''account_deleted'' then Ok Deleted
          else if ce_is_not_found e \<or> ce_is_code e ''invalid_id'' \<or> ce_is_code e ''invalid_uuid''
          then Ok NotFound
          else Err accounts_error.Unavailable)"

definition lookup_account ::
    "('k, 'w) accounts_gateway \<Rightarrow> string \<Rightarrow> lookup_purpose \<Rightarrow>
     (('k, 'w) gateway_state, lookup, accounts_error) call" where
  "lookup_account G uuid purpose =
     try_call (spend_lookup G purpose) (\<lambda>_.
     try_call (bounded (ag_lookup G uuid)) (\<lambda>answer. lift_result (found answer)))"

definition lookup_account_by_id ::
    "('k, 'w) accounts_gateway \<Rightarrow> string \<Rightarrow> lookup_purpose \<Rightarrow>
     (('k, 'w) gateway_state, lookup, accounts_error) call" where
  "lookup_account_by_id G public_id purpose =
     try_call (spend_lookup G purpose) (\<lambda>_.
     try_call (bounded (ag_lookup_by_id G public_id)) (\<lambda>answer. lift_result (found answer)))"

section \<open>Proofs for Briefcase\<close>

definition refusal_reason :: "json \<Rightarrow> json \<Rightarrow> string option" where
  "refusal_reason details code =
     (case (case as_str (json_index details ''reason'') of Some r \<Rightarrow> Some r | None \<Rightarrow> as_str code) of
        Some r \<Rightarrow>
          if r \<noteq> [] \<and> length r \<le> 64 \<and> list_all (\<lambda>c. is_ascii_lowercase c \<or> c = CHR ''_'') r
          then Some r else None
      | None \<Rightarrow> None)"

text \<open>A client error that is a refusal: neither 401 nor 429.\<close>

definition refusing_status :: "nat \<Rightarrow> bool" where
  "refusing_status status \<longleftrightarrow> 400 \<le> status \<and> status < 500 \<and> status \<noteq> 429 \<and> status \<noteq> 401"

definition proof_failure :: "accounts_client_error \<Rightarrow> proof_error" where
  "proof_failure e =
     (if ce_is_transport e then proof_error.Unavailable
      else case ce_status e of
          Some status \<Rightarrow>
            if refusing_status status
            then proof_error.Refused (refusal_reason
              (case ce_details e of Some d \<Rightarrow> d | None \<Rightarrow> JNull) (JString (ce_code e)))
            else proof_error.Unavailable
        | None \<Rightarrow> proof_error.Unavailable)"

definition issue_user_verification ::
    "('k, 'w) accounts_gateway \<Rightarrow> string \<Rightarrow> string \<Rightarrow> string list \<Rightarrow> string \<Rightarrow>
     (('k, 'w) gateway_state, issued_proof, proof_error) call" where
  "issue_user_verification G subject receiving_app scopes idempotency_key =
     State_Monad.bind (outside (ag_issue G subject receiving_app scopes 1800 idempotency_key))
       (\<lambda>answer. lift_result (case answer of
          None \<Rightarrow> Err proof_error.Timeout
        | Some r \<Rightarrow> map_err proof_failure r))"

definition refresh_proof ::
    "('k, 'w) accounts_gateway \<Rightarrow> string \<Rightarrow> string \<Rightarrow>
     (('k, 'w) gateway_state, issued_proof, proof_error) call" where
  "refresh_proof G refresh_token idempotency_key =
     State_Monad.bind (outside (ag_post_refresh G refresh_token 1800 idempotency_key)) (\<lambda>answer.
     lift_result (case answer of
         SendTimedOut \<Rightarrow> Err proof_error.Timeout
       | SendFailed \<Rightarrow> Err proof_error.Unavailable
       | Answered status proof body \<Rightarrow>
           if 200 \<le> status \<and> status < 300 then ok_or proof proof_error.Unavailable
           else if refusing_status status then
             (let b = (case body of Some b \<Rightarrow> b | None \<Rightarrow> JNull);
                  e = json_index b ''error''
              in Err (proof_error.Refused
                   (refusal_reason (json_index e ''details'') (json_index e ''code''))))
           else Err proof_error.Unavailable))"

definition revoke_proof ::
    "('k, 'w) accounts_gateway \<Rightarrow> string \<Rightarrow> (('k, 'w) gateway_state, unit, accounts_error) call" where
  "revoke_proof G proof_id =
     try_call (bounded (ag_revoke G proof_id)) (\<lambda>answer.
     lift_result (case answer of
         Ok _ \<Rightarrow> Ok ()
       | Err e \<Rightarrow> if ce_is_not_found e then Ok () else Err accounts_error.Unavailable))"

text \<open>The memory of a new gateway.\<close>

definition gateway_memory_new :: "instant \<Rightarrow> 'k gateway_memory" where
  "gateway_memory_new now =
     \<lparr>gm_jwks = \<lparr>jw_keys = None, jw_fetched_at = None, jw_last_forced = None\<rparr>,
      gm_introspections = fmempty, gm_lookups = lookup_budget_new now\<rparr>"

end
