(* ===== verification/Accounts_Properties.thy ===== *)
theory Accounts_Properties
  imports Accounts
begin

text \<open>
  The gateway to Silicon Accounts: no purpose starves another of the lookup budget, signing keys
  once fetched outlive an outage, and cached introspections stay recent and few.
\<close>

section \<open>The lookup budget\<close>

text \<open>
  A sequence of budget decisions in the order the tasks took the lock, each with its two clock
  readings; the log keeps the purpose, the second reading and whether the lookup was granted.
\<close>

type_synonym lookup_log = "(lookup_purpose \<times> instant \<times> bool) list"

fun spend_run ::
    "(lookup_purpose \<times> instant \<times> instant) list \<Rightarrow> lookup_budget \<Rightarrow> lookup_log \<times> lookup_budget" where
  "spend_run [] b = ([], b)"
| "spend_run ((p, now, now') # rest) b =
     (let (r, b') = spend p now now' b; (log, b'') = spend_run rest b'
      in ((p, now', is_ok r) # log, b''))"

text \<open>The monotonic clock: readings never go back.\<close>

fun ordered_from :: "instant \<Rightarrow> (lookup_purpose \<times> instant \<times> instant) list \<Rightarrow> bool" where
  "ordered_from t [] \<longleftrightarrow> True"
| "ordered_from t ((p, now, now') # rest) \<longleftrightarrow> t \<le> now \<and> now \<le> now' \<and> ordered_from now' rest"

fun last_reading :: "instant \<Rightarrow> (lookup_purpose \<times> instant \<times> instant) list \<Rightarrow> instant" where
  "last_reading t [] = t"
| "last_reading t ((p, now, now') # rest) = last_reading now' rest"

lemma ordered_from_append:
  "ordered_from t (xs @ ys) \<longleftrightarrow> ordered_from t xs \<and> ordered_from (last_reading t xs) ys"
  by (induction t xs rule: ordered_from.induct) auto

definition granted_since :: "lookup_purpose \<Rightarrow> instant \<Rightarrow> lookup_log \<Rightarrow> nat" where
  "granted_since p t log = length (filter (\<lambda>(p', t', granted). p' = p \<and> granted \<and> t \<le> t') log)"

lemma granted_since_append [simp]:
  "granted_since p t (xs @ ys) = granted_since p t xs + granted_since p t ys"
  by (simp add: granted_since_def)

lemma granted_since_Nil [simp]: "granted_since p t [] = 0"
  by (simp add: granted_since_def)

lemma granted_since_single [simp]:
  "granted_since p t [(p', t', g)] = (if p' = p \<and> g \<and> t \<le> t' then 1 else 0)"
  by (simp add: granted_since_def)

lemma granted_since_antimono: "s \<le> t \<Longrightarrow> granted_since p t log \<le> granted_since p s log"
  unfolding granted_since_def by (induction log) (auto split: prod.splits)

lemma spend_run_append:
  "spend_run (xs @ ys) b =
     (let (log, b') = spend_run xs b; (log', b'') = spend_run ys b' in (log @ log', b''))"
  by (induction xs b rule: spend_run.induct) (auto simp: Let_def split: prod.splits)

text \<open>
  What the budget keeps: the counters are within their limits and every grant of the window is
  accounted for by a share or in the log.
\<close>

definition budget_inv :: "lookup_log \<Rightarrow> instant \<Rightarrow> lookup_budget \<Rightarrow> bool" where
  "budget_inv log now b \<longleftrightarrow>
     unat (lb_used b) \<le> 300 \<and> unat (lb_selector b) \<le> 100 \<and> unat (lb_sweep b) \<le> 50 \<and>
     unat (lb_used b) \<le> unat (lb_selector b) + unat (lb_sweep b) +
       granted_since Authorization (lb_window_started b) log \<and>
     lb_window_started b \<le> now"

lemma unat_inc_below:
  fixes x :: "32 word"
  assumes "\<not> l \<le> x"
  shows "unat (x + 1) = Suc (unat x)"
proof -
  have "unat x < unat l" using assms by (simp add: word_le_nat_alt)
  moreover have "unat l < 2 ^ LENGTH(32)" by (rule unsigned_less)
  ultimately have "unat x + 1 < 2 ^ LENGTH(32)" by linarith
  then show ?thesis by (simp add: unat_word_ariths)
qed

lemma budget_inv_new: "budget_inv [] t (lookup_budget_new t)"
  by (simp add: budget_inv_def lookup_budget_new_def)

lemma budget_window:
  assumes "budget_inv log t b" "t \<le> now" "now \<le> now'"
  shows "budget_inv log now' (if elapsed now (lb_window_started b) \<ge> secs 60
     then \<lparr>lb_window_started = now', lb_used = 0, lb_selector = 0, lb_sweep = 0\<rparr> else b)"
  using assms by (auto simp: budget_inv_def)

lemmas budget_limits = LOOKUPS_PER_MINUTE_def SELECTOR_LOOKUPS_PER_MINUTE_def
  SWEEP_LOOKUPS_PER_MINUTE_def

lemma budget_inv_grant:
  assumes "budget_inv log now b" "\<not> LOOKUPS_PER_MINUTE \<le> lb_used b"
    and "case budget_share p b of Some (used, limit) \<Rightarrow> \<not> limit \<le> used | None \<Rightarrow> True"
  shows "budget_inv (log @ [(p, now, True)]) now (case p of
       Authorization \<Rightarrow> b\<lparr>lb_used := lb_used b + 1\<rparr>
     | Selector \<Rightarrow> b\<lparr>lb_used := lb_used b + 1, lb_selector := lb_selector b + 1\<rparr>
     | Sweep \<Rightarrow> b\<lparr>lb_used := lb_used b + 1, lb_sweep := lb_sweep b + 1\<rparr>)"
proof -
  note inc = unat_inc_below [OF assms(2)]
  have used: "unat (lb_used b) < 300" using assms(2) by (simp add: budget_limits word_le_nat_alt)
  show ?thesis
  proof (cases p)
    case Authorization
    then show ?thesis using assms(1) inc used by (auto simp: budget_inv_def)
  next
    case Selector
    then have l: "\<not> SELECTOR_LOOKUPS_PER_MINUTE \<le> lb_selector b" using assms(3) by (simp add: budget_share_def)
    then have "unat (lb_selector b) < 100" by (simp add: budget_limits word_le_nat_alt)
    then show ?thesis using Selector assms(1) inc used unat_inc_below [OF l] by (auto simp: budget_inv_def)
  next
    case Sweep
    then have l: "\<not> SWEEP_LOOKUPS_PER_MINUTE \<le> lb_sweep b" using assms(3) by (simp add: budget_share_def)
    then have "unat (lb_sweep b) < 50" by (simp add: budget_limits word_le_nat_alt)
    then show ?thesis using Sweep assms(1) inc used unat_inc_below [OF l] by (auto simp: budget_inv_def)
  qed
qed

lemma budget_inv_refused: "budget_inv log now b \<Longrightarrow> budget_inv (log @ [(p, now, False)]) now b"
  by (simp add: budget_inv_def)

lemma spend_budget_inv:
  assumes "budget_inv log t b" "t \<le> now" "now \<le> now'" "spend p now now' b = (r, b')"
  shows "budget_inv (log @ [(p, now', is_ok r)]) now' b'"
proof -
  define c where "c = (if elapsed now (lb_window_started b) \<ge> secs 60
     then \<lparr>lb_window_started = now', lb_used = 0, lb_selector = 0, lb_sweep = 0\<rparr> else b)"
  have inv: "budget_inv log now' c" unfolding c_def by (rule budget_window [OF assms(1-3)])
  show ?thesis
  proof (cases "lb_used c \<ge> LOOKUPS_PER_MINUTE \<or>
      (case budget_share p c of Some (used, limit) \<Rightarrow> used \<ge> limit | None \<Rightarrow> False)")
    case True
    then have "r = Err accounts_error.Unavailable" "b' = c"
      using assms(4) by (simp_all add: spend_def c_def [symmetric] Let_def)
    then show ?thesis using budget_inv_refused [OF inv] by simp
  next
    case False
    then have "r = Ok ()" and b': "b' = (case p of
       Authorization \<Rightarrow> c\<lparr>lb_used := lb_used c + 1\<rparr>
     | Selector \<Rightarrow> c\<lparr>lb_used := lb_used c + 1, lb_selector := lb_selector c + 1\<rparr>
     | Sweep \<Rightarrow> c\<lparr>lb_used := lb_used c + 1, lb_sweep := lb_sweep c + 1\<rparr>)"
      using assms(4) by (auto simp: spend_def c_def [symmetric] Let_def split: lookup_purpose.splits)
    then show ?thesis
      using budget_inv_grant [OF inv, of p] False
      by (auto simp: budget_share_def split: option.splits lookup_purpose.splits)
  qed
qed

lemma spend_run_budget_inv:
  "budget_inv log t b \<Longrightarrow> ordered_from t reqs \<Longrightarrow> spend_run reqs b = (log', b') \<Longrightarrow>
     budget_inv (log @ log') (last_reading t reqs) b'"
proof (induction reqs b arbitrary: log t log' rule: spend_run.induct)
  case (1 b)
  then show ?case by auto
next
  case (2 p now now' rest b)
  obtain r c where s: "spend p now now' b = (r, c)" by fastforce
  obtain log'' where rest: "spend_run rest c = (log'', b')" and log': "log' = (p, now', is_ok r) # log''"
    using "2.prems"(3) s by (auto simp: Let_def split: prod.splits)
  have "budget_inv (log @ [(p, now', is_ok r)]) now' c"
    using spend_budget_inv [OF "2.prems"(1) _ _ s] "2.prems"(2) by simp
  from "2.IH" [OF s [symmetric] refl this _ rest] "2.prems"(2)
  show ?case unfolding log' by simp
qed

text \<open>
  Callers cannot starve the checks that authorize requests. Whatever lookups all tasks make,
  in whatever order, an authorization lookup is refused only when at least 150 authorization
  lookups were granted in the 60 seconds before: selectors and the background sweep never use more
  than their shares, and no counter wraps around.
\<close>

theorem authorization_keeps_its_share:
  assumes "ordered_from start (reqs @ [(Authorization, now, now')])"
    and "spend_run reqs (lookup_budget_new start) = (log, b)"
    and "fst (spend Authorization now now' b) \<noteq> Ok ()"
  shows "150 \<le> granted_since Authorization (now - int (secs 60)) log \<and>
    unat (lb_selector b) \<le> 100 \<and> unat (lb_sweep b) \<le> 50"
proof -
  have inv: "budget_inv log (last_reading start reqs) b"
    using spend_run_budget_inv [OF budget_inv_new _ assms(2)] assms(1)
    by (simp add: ordered_from_append)
  have open_window: "\<not> elapsed now (lb_window_started b) \<ge> secs 60"
    using assms(3) by (auto simp: spend_def Let_def budget_share_def budget_limits)
  then have "300 \<le> unat (lb_used b)"
    using assms(3) by (auto simp: spend_def Let_def budget_share_def budget_limits word_le_nat_alt
        split: if_splits)
  then have "150 \<le> granted_since Authorization (lb_window_started b) log"
    using inv by (simp add: budget_inv_def)
  also have "\<dots> \<le> granted_since Authorization (now - int (secs 60)) log"
    using open_window by (intro granted_since_antimono) (simp add: elapsed_def)
  finally show ?thesis using inv by (simp add: budget_inv_def)
qed

section \<open>What every call keeps of the gateway's memory\<close>

text \<open>An action that keeps a property of the gateway's memory.\<close>

definition keeps :: "('k gateway_memory \<Rightarrow> bool) \<Rightarrow> (('k, 'w) gateway_state, 'a) state \<Rightarrow> bool" where
  "keeps I action \<longleftrightarrow> (\<forall>m w. I m \<longrightarrow> I (fst (snd (run_state action (m, w)))))"

named_theorems keeps_intros \<open>rules for \<open>keeps\<close>\<close>

lemma keeps_bind [keeps_intros]:
  "keeps I a \<Longrightarrow> (\<And>x. keeps I (f x)) \<Longrightarrow> keeps I (State_Monad.bind a f)"
  by (simp add: keeps_def run_simps split: prod.splits) (metis fst_conv snd_conv)

lemma keeps_try_call [keeps_intros]:
  "keeps I a \<Longrightarrow> (\<And>x. keeps I (f x)) \<Longrightarrow> keeps I (try_call a f)"
  by (simp add: keeps_def run_simps split: prod.splits sum.splits) (metis fst_conv snd_conv)

lemma keeps_pure [keeps_intros]:
  "keeps I (State_Monad.return x)" "keeps I (throw e)" "keeps I (done_with y)" "keeps I (lift_result r)"
  "keeps I memory" "keeps I (outside action)"
  by (simp_all add: keeps_def run_simps split: prod.splits)

lemma keeps_update [keeps_intros]: "(\<And>m. I m \<Longrightarrow> I (f m)) \<Longrightarrow> keeps I (update_memory f)"
  by (simp add: keeps_def run_simps)

lemma keeps_bounded [keeps_intros]: "keeps I (bounded action)"
  unfolding bounded_def by (intro keeps_intros)

text \<open>
  The memory is well formed: keys and the time they were fetched are there together, the cache of
  introspections is within its limit, and so are the counters of the budget.
\<close>

definition budget_wf :: "lookup_budget \<Rightarrow> bool" where
  "budget_wf b \<longleftrightarrow> unat (lb_used b) \<le> 300 \<and> unat (lb_selector b) \<le> 100 \<and> unat (lb_sweep b) \<le> 50"

definition gateway_wf :: "'k gateway_memory \<Rightarrow> bool" where
  "gateway_wf m \<longleftrightarrow>
     (jw_keys (gm_jwks m) = None \<longleftrightarrow> jw_fetched_at (gm_jwks m) = None) \<and>
     fcard (fmdom (gm_introspections m)) \<le> INTROSPECTION_CACHE_LIMIT \<and> budget_wf (gm_lookups m)"

lemma unat_inc_le: "unat (x + 1 :: 32 word) \<le> Suc (unat x)"
  by (simp add: unat_word_ariths)

lemma spend_budget_wf:
  assumes "budget_wf b"
  shows "budget_wf (snd (spend p now now' b))"
proof -
  define c where "c = (if elapsed now (lb_window_started b) \<ge> secs 60
     then \<lparr>lb_window_started = now', lb_used = 0, lb_selector = 0, lb_sweep = 0\<rparr> else b)"
  have "budget_wf c" using assms by (simp add: c_def budget_wf_def)
  then show ?thesis
    using unat_inc_le [of "lb_used c"] unat_inc_le [of "lb_selector c"] unat_inc_le [of "lb_sweep c"]
    by (cases p) (auto simp: spend_def c_def [symmetric] Let_def budget_share_def budget_limits
        budget_wf_def word_le_nat_alt)
qed

lemma introspection_room_size: "fcard (fmdom (introspection_room now cache)) < INTROSPECTION_CACHE_LIMIT"
  unfolding introspection_room_def Let_def INTROSPECTION_CACHE_LIMIT_def
  by (simp only: split: if_split) (simp add: fcard.rep_eq)

text \<open>
  A property of the memory that every change the gateway makes preserves: storing fetched keys,
  noting a forced fetch, remembering an introspection, spending a lookup.
\<close>

locale gateway_invariant =
  fixes I :: "'k gateway_memory \<Rightarrow> bool"
  assumes store_keys: "I m \<Longrightarrow> I (m\<lparr>gm_jwks := (gm_jwks m)\<lparr>jw_keys := Some keys, jw_fetched_at := Some now\<rparr>\<rparr>)"
    and note_forced: "I m \<Longrightarrow> I (m\<lparr>gm_jwks := (gm_jwks m)\<lparr>jw_last_forced := Some now\<rparr>\<rparr>)"
    and remember: "I m \<Longrightarrow> I (m\<lparr>gm_introspections :=
      fmupd digest answer (introspection_room now (gm_introspections m))\<rparr>)"
    and spend: "I m \<Longrightarrow> I (m\<lparr>gm_lookups := snd (spend purpose now now' (gm_lookups m))\<rparr>)"

text \<open>A gateway whose other tasks preserve it too.\<close>

locale gateway_tasks = gateway_invariant I for I :: "'k gateway_memory \<Rightarrow> bool" +
  fixes G :: "('k, 'w) accounts_gateway"
  assumes others: "keeps I (ag_others G)"
begin

lemma keeps_remember: "keeps I (remember_introspection G digest active)"
  by (auto simp: keeps_def remember_introspection_def run_simps intro!: remember split: prod.splits)

lemma keeps_fetch: "keeps I (fetch_jwks G)"
  unfolding fetch_jwks_def by (auto intro!: keeps_intros store_keys split: sum.split)

lemma keeps_key_set: "keeps I (key_set G unknown_kid)"
  unfolding key_set_def
  by (auto intro!: keeps_intros others keeps_fetch note_forced split: option.split)

lemma keeps_verify_access_token: "keeps I (verify_access_token G token)"
  unfolding verify_access_token_def
  by (auto intro!: keeps_intros others keeps_key_set split: sum.split)

lemma keeps_introspect_active: "keeps I (introspect_active G token)"
  unfolding introspect_active_def Let_def
  by (auto intro!: keeps_intros others keeps_remember split: option.split)

lemma keeps_spend_lookup: "keeps I (spend_lookup G purpose)"
  by (auto simp: keeps_def spend_lookup_def run_simps dest: spend split: prod.splits)
    (metis snd_conv spend)

lemma keeps_lookups:
  "keeps I (lookup_account G uuid purpose)" "keeps I (lookup_account_by_id G public_id purpose)"
  unfolding lookup_account_def lookup_account_by_id_def
  by (auto intro!: keeps_intros keeps_spend_lookup)

lemma keeps_proofs:
  "keeps I (verify_proof G token)" "keeps I (issue_user_verification G subject app scopes key)"
  "keeps I (refresh_proof G refresh key)" "keeps I (revoke_proof G proof_id)"
  unfolding verify_proof_def issue_user_verification_def refresh_proof_def revoke_proof_def
  by (auto intro!: keeps_intros)

end

interpretation wf: gateway_invariant gateway_wf
proof unfold_locales
  fix m :: "'k gateway_memory" and digest answer now
  assume wf: "gateway_wf m"
  have "fcard (finsert digest (fmdom (introspection_room now (gm_introspections m)))) \<le> INTROSPECTION_CACHE_LIMIT"
    using introspection_room_size [of now "gm_introspections m"]
      fcard_finsert_if [of digest "fmdom (introspection_room now (gm_introspections m))"]
    by (simp split: if_splits)
  then show "gateway_wf (m\<lparr>gm_introspections :=
      fmupd digest answer (introspection_room now (gm_introspections m))\<rparr>)"
    using wf by (simp add: gateway_wf_def)
qed (simp_all add: gateway_wf_def spend_budget_wf)

text \<open>A well-formed memory that holds signing keys.\<close>

definition keyed :: "'k gateway_memory \<Rightarrow> bool" where
  "keyed m \<longleftrightarrow> gateway_wf m \<and> jw_keys (gm_jwks m) \<noteq> None"

interpretation kept: gateway_invariant keyed
  by unfold_locales (simp_all add: keyed_def wf.store_keys wf.note_forced wf.remember wf.spend)

section \<open>Tasks that share the gateway\<close>

text \<open>
  What other requests do at an await point: any operations of the gateway, chosen by the world,
  which at their own await points let further ones run, to any depth.
\<close>

datatype gateway_task =
    VerifyAccessToken string
  | IntrospectActive string
  | VerifyProof string
  | LookupAccount string lookup_purpose
  | LookupAccountById string lookup_purpose
  | IssueProof string string "string list" string
  | RefreshProof string string
  | RevokeProof string

fun run_task :: "('k, 'w) accounts_gateway \<Rightarrow> gateway_task \<Rightarrow> (('k, 'w) gateway_state, unit) state" where
  "run_task G (VerifyAccessToken token) = ignore (verify_access_token G token)"
| "run_task G (IntrospectActive token) = ignore (introspect_active G token)"
| "run_task G (VerifyProof token) = ignore (verify_proof G token)"
| "run_task G (LookupAccount uuid purpose) = ignore (lookup_account G uuid purpose)"
| "run_task G (LookupAccountById public_id purpose) = ignore (lookup_account_by_id G public_id purpose)"
| "run_task G (IssueProof subject app scopes key) = ignore (issue_user_verification G subject app scopes key)"
| "run_task G (RefreshProof refresh key) = ignore (refresh_proof G refresh key)"
| "run_task G (RevokeProof proof_id) = ignore (revoke_proof G proof_id)"

fun run_tasks :: "('k, 'w) accounts_gateway \<Rightarrow> gateway_task list \<Rightarrow> (('k, 'w) gateway_state, unit) state" where
  "run_tasks G [] = State_Monad.return ()"
| "run_tasks G (t # ts) = State_Monad.bind (run_task G t) (\<lambda>_. run_tasks G ts)"

definition chosen_tasks ::
    "('k, 'w) accounts_gateway \<Rightarrow> ('w \<Rightarrow> gateway_task list) \<Rightarrow> (('k, 'w) gateway_state, unit) state" where
  "chosen_tasks G plan = State (\<lambda>(m, w). run_state (run_tasks G (plan w)) (m, w))"

fun shared :: "nat \<Rightarrow> (nat \<Rightarrow> 'w \<Rightarrow> gateway_task list) \<Rightarrow> ('k, 'w) accounts_gateway \<Rightarrow> ('k, 'w) accounts_gateway" where
  "shared 0 plan G = G\<lparr>ag_others := State_Monad.return ()\<rparr>"
| "shared (Suc n) plan G = G\<lparr>ag_others := chosen_tasks (shared n plan G) (plan n)\<rparr>"

context gateway_tasks
begin

lemma keeps_task: "keeps I (run_task G t)"
  by (cases t) (simp_all add: ignore_def keeps_bind keeps_pure keeps_verify_access_token
      keeps_introspect_active keeps_proofs keeps_lookups)

lemma keeps_tasks: "keeps I (run_tasks G ts)"
  by (induction ts) (simp_all add: keeps_pure keeps_bind keeps_task)

lemma keeps_chosen: "keeps I (chosen_tasks G plan)"
  using keeps_tasks by (simp add: keeps_def chosen_tasks_def)

end

lemma shared_tasks:
  assumes "gateway_invariant I"
  shows "gateway_tasks I (shared n plan G)"
proof (induction n)
  case 0
  then show ?case using assms
    by (simp add: gateway_tasks_def gateway_tasks_axioms_def keeps_pure)
next
  case (Suc n)
  then have "keeps I (chosen_tasks (shared n plan G) (plan n))" by (rule gateway_tasks.keeps_chosen)
  then show ?case using assms by (simp add: gateway_tasks_def gateway_tasks_axioms_def)
qed

interpretation shared_wf: gateway_tasks gateway_wf "shared n plan G" for n plan G
  by (rule shared_tasks) (rule wf.gateway_invariant_axioms)

interpretation shared_keyed: gateway_tasks keyed "shared n plan G" for n plan G
  by (rule shared_tasks) (rule kept.gateway_invariant_axioms)

section \<open>Properties of the shared gateway\<close>

lemma gateway_wf_new: "gateway_wf (gateway_memory_new now)"
  by (simp add: gateway_wf_def gateway_memory_new_def lookup_budget_new_def budget_wf_def fcard.rep_eq)

text \<open>
  Whatever requests do with a gateway, one after the other and interleaved at their await
  points to any depth, its memory stays well formed: the cache of introspections never exceeds
  10,000 entries, keys and the time they were fetched are present together, and the budget's
  counters stay within their limits.
\<close>

theorem gateway_memory_stays_wf:
  "gateway_wf (fst (snd (run_state (run_tasks (shared n plan G) tasks) (gateway_memory_new now, w))))"
  using shared_wf.keeps_tasks [of n plan G tasks] by (simp add: keeps_def gateway_wf_new)

text \<open>An action that answers \<open>Ok\<close> whenever the memory satisfies a property.\<close>

definition answers :: "('k gateway_memory \<Rightarrow> bool) \<Rightarrow> (('k, 'w) gateway_state, 'a, 'e) call \<Rightarrow> bool" where
  "answers I action \<longleftrightarrow> (\<forall>m w. I m \<longrightarrow> is_ok (fst (run_state action (m, w))))"

lemma answers_bind:
  "keeps I a \<Longrightarrow> (\<And>x. answers I (f x)) \<Longrightarrow> answers I (State_Monad.bind a f)"
  by (simp add: answers_def keeps_def run_simps split: prod.splits) (metis fst_conv snd_conv)

lemma answers_memory:
  "(\<And>m. I m \<Longrightarrow> answers I (f m)) \<Longrightarrow> answers I (State_Monad.bind memory f)"
  by (simp add: answers_def run_simps)

lemma answers_done: "answers I (done_with x)"
  by (simp add: answers_def run_simps)

lemma answers_held: "r \<noteq> None \<Longrightarrow> answers I (lift_result (ok_or r e))"
  by (auto simp: answers_def run_simps)

lemmas answers_intros = answers_memory answers_done answers_held answers_bind [OF keeps_bounded]
  answers_bind [OF keeps_pure(6)] answers_bind [OF keeps_update]

lemma answers_fetch: "answers keyed (fetch_jwks G)"
  unfolding fetch_jwks_def
  by (auto intro!: answers_intros kept.store_keys simp: keyed_def split: sum.split)

context gateway_tasks
begin

lemma answers_key_set:
  assumes "answers I (fetch_jwks G)"
  shows "answers I (key_set G unknown_kid)"
  unfolding key_set_def
  by (auto intro!: answers_intros answers_bind [OF others] answers_bind [OF keeps_bind] keeps_pure
      keeps_update note_forced assms split: option.split)

end

text \<open>
  An outage of Silicon Accounts does not lock callers out: once a key set has been fetched,
  the gateway always has keys to verify tokens with, whatever Accounts answers and whatever other
  requests do with the gateway meanwhile.
\<close>

theorem signing_keys_outlive_outages:
  assumes "gateway_wf m" and "jw_keys (gm_jwks m) \<noteq> None"
  shows "\<exists>keys. fst (run_state (key_set (shared n plan G) unknown_kid) (m, w)) = Ok keys"
proof -
  have "answers keyed (key_set (shared n plan G) unknown_kid)"
    by (rule shared_keyed.answers_key_set [OF answers_fetch])
  then show ?thesis using assms by (simp add: answers_def keyed_def is_ok_def split: sum.splits)
      (metis sum.exhaust)
qed

section \<open>Witnesses\<close>

lemma spend_run_replicate:
  "k + n \<le> 300 \<Longrightarrow>
     spend_run (replicate n (Authorization, 0, 0))
       \<lparr>lb_window_started = 0, lb_used = of_nat k, lb_selector = 0, lb_sweep = 0\<rparr> =
     (replicate n (Authorization, 0, True),
      \<lparr>lb_window_started = 0, lb_used = of_nat (k + n), lb_selector = 0, lb_sweep = 0\<rparr>)"
proof (induction n arbitrary: k)
  case (Suc n)
  have "\<not> LOOKUPS_PER_MINUTE \<le> (of_nat k :: 32 word)"
    using Suc.prems by (simp add: budget_limits word_le_nat_alt unat_of_nat)
  then have "spend Authorization 0 0
       \<lparr>lb_window_started = 0, lb_used = of_nat k, lb_selector = 0, lb_sweep = 0\<rparr> =
     (Ok (), \<lparr>lb_window_started = 0, lb_used = of_nat (Suc k), lb_selector = 0, lb_sweep = 0\<rparr>)"
    by (simp add: spend_def budget_share_def elapsed_def secs_def)
  then show ?case using Suc.IH [of "Suc k"] Suc.prems by (simp add: Let_def)
qed simp

lemma ordered_from_replicate: "ordered_from 0 (replicate n (p, 0, 0) @ [(q, 0, 0)])"
  by (induction n) simp_all

lemma authorization_keeps_its_share_witness:
  "150 \<le> granted_since Authorization (- int (secs 60)) (replicate 300 (Authorization, 0, True))"
proof -
  have run: "spend_run (replicate 300 (Authorization, 0, 0)) (lookup_budget_new 0) =
     (replicate 300 (Authorization, 0, True),
      \<lparr>lb_window_started = 0, lb_used = 300, lb_selector = 0, lb_sweep = 0\<rparr>)"
    using spend_run_replicate [of 0 300] by (simp add: lookup_budget_new_def)
  have "fst (spend Authorization 0 0
      \<lparr>lb_window_started = 0, lb_used = 300, lb_selector = 0, lb_sweep = 0\<rparr>) \<noteq> Ok ()"
    by (simp add: spend_def budget_share_def elapsed_def secs_def budget_limits)
  from authorization_keeps_its_share [OF ordered_from_replicate run this] show ?thesis by simp
qed

text \<open>A gateway whose every call to Silicon Accounts times out.\<close>

definition silent_gateway :: "(nat, unit) accounts_gateway" where
  "silent_gateway =
     \<lparr>ag_app_id = ''waveform'', ag_issuer = ''https://accounts'', ag_now = State_Monad.return 0,
      ag_others = State_Monad.return (), ag_sha256 = id,
      ag_verify = (\<lambda>_ _ _ _. Err \<lparr>ce_token = Some UnknownKey, ce_is_transport = False,
        ce_status = None, ce_code = [], ce_details = None, ce_is_not_found = False\<rparr>),
      ag_jwks = State_Monad.return None, ag_introspect = (\<lambda>_. State_Monad.return None),
      ag_verify_proof = (\<lambda>_. State_Monad.return None), ag_lookup = (\<lambda>_. State_Monad.return None),
      ag_lookup_by_id = (\<lambda>_. State_Monad.return None),
      ag_issue = (\<lambda>_ _ _ _ _. State_Monad.return None),
      ag_post_refresh = (\<lambda>_ _ _. State_Monad.return SendTimedOut),
      ag_revoke = (\<lambda>_. State_Monad.return None)\<rparr>"

lemma signing_keys_outlive_outages_witness:
  "\<exists>keys. fst (run_state (key_set (shared 1 (\<lambda>_ _. [VerifyAccessToken ''t'', IntrospectActive ''t''])
       silent_gateway) True)
     ((gateway_memory_new 0)\<lparr>gm_jwks := \<lparr>jw_keys = Some 7, jw_fetched_at = Some 0, jw_last_forced = None\<rparr>\<rparr>,
      ())) = Ok keys"
  by (rule signing_keys_outlive_outages)
    (simp_all add: gateway_wf_def gateway_memory_new_def lookup_budget_new_def budget_wf_def fcard.rep_eq)

end
