(* ===== verification/Vault.thy ===== *)
theory Vault
  imports Std_Text Media
begin

text \<open>
  \<open>src/src/infrastructure/vault.rs\<close>: authenticated encryption of stored secrets under a key that
  is not in the database. The cipher (XChaCha20-Poly1305), its random nonces and HMAC-SHA-256 are
  parameters.
\<close>

datatype vault = Vault (vault_key: bytes)

record 'w vault_crates =
  vc_nonce :: "('w, bytes) state"
  vc_encrypt :: "bytes \<Rightarrow> bytes \<Rightarrow> string \<Rightarrow> bytes \<Rightarrow> bytes option"
  vc_decrypt :: "bytes \<Rightarrow> bytes \<Rightarrow> string \<Rightarrow> bytes \<Rightarrow> bytes option"
  vc_hmac :: "bytes \<Rightarrow> bytes \<Rightarrow> bytes option"

text \<open>A lower-case hexadecimal digit.\<close>

definition vault_digit :: "char \<Rightarrow> nat option" where
  "vault_digit c =
     (if 48 \<le> byte c \<and> byte c \<le> 57 then Some (byte c - 48)
      else if 97 \<le> byte c \<and> byte c \<le> 102 then Some (byte c - 97 + 10)
      else None)"

fun vault_key_bytes :: "string \<Rightarrow> (bytes, string) result" where
  "vault_key_bytes (a # b # rest) =
     and_then (ok_or (vault_digit a) ''invalid encryption key'') (\<lambda>high.
     and_then (ok_or (vault_digit b) ''invalid encryption key'') (\<lambda>low.
     map_ok (\<lambda>key. char_of (high * 16 + low) # key) (vault_key_bytes rest)))"
| "vault_key_bytes _ = Ok []"

definition vault_new :: "string \<Rightarrow> (vault, string) result" where
  "vault_new encoded =
     (if length encoded \<noteq> 64 then Err ''encryption key must be 64 hexadecimal characters''
      else map_ok Vault (vault_key_bytes encoded))"

definition seal :: "'w vault_crates \<Rightarrow> vault \<Rightarrow> string \<Rightarrow> string \<Rightarrow> ('w, bytes, string) call" where
  "seal C v secret context =
     State_Monad.bind (vc_nonce C) (\<lambda>nonce.
     lift_result (map_ok (\<lambda>cipher. nonce @ cipher)
       (ok_or (vc_encrypt C (vault_key v) nonce context secret) ''secret encryption failed'')))"

definition open_sealed :: "'w vault_crates \<Rightarrow> vault \<Rightarrow> bytes \<Rightarrow> string \<Rightarrow> (string, string) result" where
  "open_sealed C v stored context =
     (if length stored < 40 then Err ''invalid encrypted secret''
      else
        and_then (ok_or (vc_decrypt C (vault_key v) (take 24 stored) context (drop 24 stored))
            ''secret decryption failed'') (\<lambda>plain.
        if utf8_valid plain then Ok plain else Err ''invalid encrypted secret''))"

definition digest_secret :: "'w vault_crates \<Rightarrow> vault \<Rightarrow> string \<Rightarrow> string \<Rightarrow> (bytes, string) result" where
  "digest_secret C v secret purpose =
     ok_or (vc_hmac C (vault_key v) (purpose @ [CHR 0x00] @ secret)) ''secret digest failed''"

section \<open>Round trip\<close>

lemma vault_key_bytes_length: "vault_key_bytes s = Ok key \<Longrightarrow> length key = length s div 2"
  by (induction s arbitrary: key rule: vault_key_bytes.induct) (auto simp: and_then_Ok_iff map_ok_Ok_iff)

lemma vault_new_key: "vault_new encoded = Ok v \<Longrightarrow> length (vault_key v) = 32"
  by (auto simp: vault_new_def map_ok_Ok_iff vault_key_bytes_length split: if_splits)

text \<open>
  Documented facts about the cipher: a nonce has 24 bytes, and what is encrypted carries a tag of 16
  bytes and decrypts to the same text under the same key, nonce and associated data.
\<close>

definition cipher_laws :: "'w vault_crates \<Rightarrow> bool" where
  "cipher_laws C \<longleftrightarrow>
     (\<forall>w. length (fst (run_state (vc_nonce C) w)) = 24) \<and>
     (\<forall>key nonce ctx plain cipher. vc_encrypt C key nonce ctx plain = Some cipher \<longrightarrow>
        length cipher = length plain + 16 \<and> vc_decrypt C key nonce ctx cipher = Some plain)"

lemma open_sealed_seal:
  assumes "cipher_laws C" and "fst (run_state (seal C v secret ctx) w) = Ok sealed"
    and "utf8_valid secret"
  shows "open_sealed C v sealed ctx = Ok secret"
proof -
  obtain nonce w' where n: "run_state (vc_nonce C) w = (nonce, w')" by fastforce
  then have len: "length nonce = 24" using assms(1) by (metis cipher_laws_def fst_conv)
  obtain cipher where c: "vc_encrypt C (vault_key v) nonce ctx secret = Some cipher"
    and sealed: "sealed = nonce @ cipher"
    using assms(2) by (auto simp: seal_def run_simps n map_ok_Ok_iff)
  have "length cipher = length secret + 16" "vc_decrypt C (vault_key v) nonce ctx cipher = Some secret"
    using assms(1) c by (auto simp: cipher_laws_def)
  then show ?thesis using len assms(3) by (simp add: open_sealed_def sealed)
qed

end
