(* ===== verification/Storage_Proofs.thy ===== *)
theory Storage_Proofs
  imports Accounts Vault
begin

text \<open>
  \<open>src/src/infrastructure/storage_proofs.rs\<close>: the Briefcase proofs Waveform holds for accounts. A
  row is named by the account's storage key and the receiving app. An operation that may use,
  refresh or replace a proof is one transaction under the account's advisory lock; \<open>revoke\<close> and
  \<open>status\<close> are single statements that do not take it. The gateway to Silicon Accounts, the clocks,
  faults of the connection and the statements of other sessions are parameters.
\<close>

section \<open>Rows\<close>

definition BRIEFCASE_SCOPES :: "string list" where
  "BRIEFCASE_SCOPES =
     [''briefcase.uploads.reserve'', ''briefcase.uploads.commit'', ''briefcase.entries.list'',
      ''briefcase.files.read'']"

definition MINIMUM_REMAINING :: duration where
  "MINIMUM_REMAINING = secs 60"

definition EXPLICIT_REVOCATIONS :: "string list" where
  "EXPLICIT_REVOCATIONS =
     [''revoked_by_account'', ''revoked_by_custodian'', ''revoked_at_accounts'',
      ''account_uuid_migrated'']"

definition is_explicit :: "string option \<Rightarrow> bool" where
  "is_explicit reason \<longleftrightarrow> (case reason of Some r \<Rightarrow> r \<in> set EXPLICIT_REVOCATIONS | None \<Rightarrow> False)"

record proof_row =
  pr_proof_id :: string
  pr_scopes :: "string list"
  pr_token_cipher :: bytes
  pr_token_expires_at :: instant
  pr_refresh_cipher :: "bytes option"
  pr_refresh_expires_at :: "instant option"
  pr_updated_at :: instant
  pr_invalidated_at :: "instant option"
  pr_invalidated_reason :: "string option"

type_synonym proof_table = "(uuid \<times> string, proof_row) fmap"

record latest_proof =
  lp_proof_id :: string
  lp_active :: bool
  lp_reason :: "string option"

record storage_proof_status =
  ps_status :: string
  ps_receiving_app :: string
  ps_scopes :: "string list"
  ps_proof_id :: "string option"
  ps_token_expires_at :: "instant option"
  ps_refresh_expires_at :: "instant option"
  ps_updated_at :: "instant option"
  ps_revoked_reason :: "string option"

section \<open>Surroundings\<close>

text \<open>
  The committed table, the row the running transaction has written (nobody else sees it, and
  statements of other sessions on it wait), whether a statement of the transaction failed (then
  PostgreSQL refuses the others and its commit is a rollback) and the world.
\<close>

record 'w proof_state =
  px_table :: proof_table
  px_written :: "proof_row option"
  px_aborted :: bool
  px_world :: 'w

datatype commit_outcome = Committed | CommittedUnseen | NotCommitted

record 'w storage_proofs =
  sp_vault :: vault
  sp_receiving_app :: string
  sp_vault_crates :: "'w vault_crates"
  sp_issue :: "string \<Rightarrow> string \<Rightarrow> string list \<Rightarrow> string \<Rightarrow> ('w, issued_proof, proof_error) call"
  sp_refresh :: "string \<Rightarrow> string \<Rightarrow> ('w, issued_proof, proof_error) call"
  sp_revoke_proof :: "string \<Rightarrow> ('w, unit, accounts_error) call"
  sp_now_utc :: "('w, instant) state"
  sp_db_now :: "('w, instant) state"
  sp_fault :: "('w, bool) state"
  sp_commit :: "('w, commit_outcome) state"
  sp_other_sessions :: "('w proof_state, unit) state"
  sp_uuid_bytes :: "uuid \<Rightarrow> bytes"
  sp_uuid_text :: "uuid \<Rightarrow> string"
  sp_sha256 :: "bytes \<Rightarrow> bytes"
  sp_base64url :: "bytes \<Rightarrow> string"

type_synonym ('w, 'a) proof_call = "('w proof_state, 'a, storage_authority_error) call"

definition in_world :: "('w, 'a) state \<Rightarrow> ('w proof_state, 'a) state" where
  "in_world action = State (\<lambda>s. case run_state action (px_world s) of (x, w) \<Rightarrow> (x, s\<lparr>px_world := w\<rparr>))"

lemma run_in_world [run_simps]:
  "run_state (in_world action) s =
     (case run_state action (px_world s) of (x, w) \<Rightarrow> (x, s\<lparr>px_world := w\<rparr>))"
  by (simp add: in_world_def)

text \<open>
  A statement of a transaction, which may fail (\<open>map_err(|_| Unavailable)?\<close>), and one outside any
  transaction. A statement that fails does nothing.
\<close>

definition fail_statement :: "('w, 'a) proof_call" where
  "fail_statement =
     State_Monad.bind (State (\<lambda>s. ((), s\<lparr>px_aborted := True\<rparr>))) (\<lambda>_.
     throw storage_authority_error.Unavailable)"

definition statement :: "'w storage_proofs \<Rightarrow> ('w proof_state \<Rightarrow> 'a \<times> 'w proof_state) \<Rightarrow> ('w, 'a) proof_call" where
  "statement P f =
     State_Monad.bind (in_world (sp_fault P)) (\<lambda>failed.
     State_Monad.bind (State (\<lambda>s. (px_aborted s, s))) (\<lambda>aborted.
       if failed \<or> aborted then fail_statement
       else State_Monad.bind (State f) done_with))"

definition single_statement :: "'w storage_proofs \<Rightarrow> ('w proof_state \<Rightarrow> 'a \<times> 'w proof_state) \<Rightarrow> ('w, 'a) proof_call" where
  "single_statement P f =
     State_Monad.bind (in_world (sp_fault P)) (\<lambda>failed.
       if failed then throw storage_authority_error.Unavailable
       else State_Monad.bind (State f) done_with)"

lemma run_state_State [run_simps]: "run_state (State f) s = f s"
  by simp

text \<open>The row as the transaction sees it.\<close>

definition row_seen :: "'w storage_proofs \<Rightarrow> uuid \<Rightarrow> 'w proof_state \<Rightarrow> proof_row option" where
  "row_seen P key s =
     (case px_written s of Some r \<Rightarrow> Some r | None \<Rightarrow> fmlookup (px_table s) (key, sp_receiving_app P))"

text \<open>
  A call to Silicon Accounts. Meanwhile other sessions run statements; on a row this transaction has
  written they wait.
\<close>

definition ask_accounts :: "'w storage_proofs \<Rightarrow> ('w, 'a, 'e) call \<Rightarrow> ('w proof_state, 'a, 'e) call" where
  "ask_accounts P action =
     State_Monad.bind (State (\<lambda>s. ((), if px_written s = None
         then snd (run_state (sp_other_sessions P) s) else s))) (\<lambda>_. in_world action)"

text \<open>\<open>pool.begin()\<close> with the advisory lock, the end of a transaction, and an early return (rollback).\<close>

definition begin_locked :: "'w storage_proofs \<Rightarrow> ('w, unit) proof_call" where
  "begin_locked P = single_statement P (\<lambda>s. ((), s\<lparr>px_written := None, px_aborted := False\<rparr>))"

definition rolled_back :: "'w proof_state \<Rightarrow> 'w proof_state" where
  "rolled_back s = s\<lparr>px_written := None, px_aborted := False\<rparr>"

definition apply_written :: "'w storage_proofs \<Rightarrow> uuid \<Rightarrow> 'w proof_state \<Rightarrow> 'w proof_state" where
  "apply_written P key s = rolled_back
     (case px_written s of
        Some r \<Rightarrow>
          if px_aborted s then s
          else s\<lparr>px_table := fmupd (key, sp_receiving_app P) r (px_table s)\<rparr>
      | None \<Rightarrow> s)"

definition commit :: "'w storage_proofs \<Rightarrow> uuid \<Rightarrow> ('w, unit) proof_call" where
  "commit P key =
     State_Monad.bind (in_world (sp_commit P)) (\<lambda>outcome.
     State_Monad.bind (State (\<lambda>s. ((), if outcome = NotCommitted then rolled_back s
         else apply_written P key s))) (\<lambda>_.
     if outcome = Committed then done_with () else throw storage_authority_error.Unavailable))"

definition or_rollback :: "('w, 'a) proof_call \<Rightarrow> ('w, 'a) proof_call" where
  "or_rollback action =
     State_Monad.bind action (\<lambda>r.
       case r of
         Ok x \<Rightarrow> done_with x
       | Err e \<Rightarrow> State_Monad.bind (State (\<lambda>s. ((), rolled_back s))) (\<lambda>_. throw e))"

section \<open>Parts of the operations\<close>

fun map_proof_error :: "proof_error \<Rightarrow> storage_authority_error" where
  "map_proof_error (proof_error.Refused _) = storage_authority_error.Refused"
| "map_proof_error proof_error.Unavailable = storage_authority_error.Unavailable"
| "map_proof_error proof_error.Timeout = storage_authority_error.Timeout"

definition proof_context :: "'w storage_proofs \<Rightarrow> uuid \<Rightarrow> string \<Rightarrow> string" where
  "proof_context P key part =
     ''storage-proof/'' @ sp_uuid_text P key @ ''/'' @ sp_receiving_app P @ ''/'' @ part"

definition or_unavailable :: "('s, 'a, 'e) call \<Rightarrow> ('s, 'a, storage_authority_error) call" where
  "or_unavailable = on_err (\<lambda>_. storage_authority_error.Unavailable)"

text \<open>\<open>latest\<close>: the newest row, live or ended.\<close>

definition latest :: "'w storage_proofs \<Rightarrow> uuid \<Rightarrow> ('w, latest_proof option) proof_call" where
  "latest P key = statement P (\<lambda>s.
     (map_option (\<lambda>r. \<lparr>lp_proof_id = pr_proof_id r, lp_active = pr_invalidated_at r = None,
        lp_reason = pr_invalidated_reason r\<rparr>) (row_seen P key s), s))"

text \<open>\<open>INSERT ... ON CONFLICT DO UPDATE\<close>; the table refuses proof ids of other than 1 to 128 characters.\<close>

definition upsert_row :: "'w storage_proofs \<Rightarrow> proof_row \<Rightarrow> ('w, unit) proof_call" where
  "upsert_row P r =
     (if \<not> (1 \<le> char_count (pr_proof_id r) \<and> char_count (pr_proof_id r) \<le> 128)
      then fail_statement
      else try_call (statement P (\<lambda>s. ((), s))) (\<lambda>_.
        State_Monad.bind (in_world (sp_db_now P)) (\<lambda>now.
        State_Monad.bind (State (\<lambda>s. ((), s\<lparr>px_written := Some (r\<lparr>pr_updated_at := now\<rparr>)\<rparr>))) done_with)))"

definition save :: "'w storage_proofs \<Rightarrow> uuid \<Rightarrow> issued_proof \<Rightarrow> ('w, briefcase_proof) proof_call" where
  "save P key issued =
     try_call (lift_result (ok_or (is_expires_at issued) storage_authority_error.Unavailable)) (\<lambda>expires_at.
     try_call (lift_result (map_err (\<lambda>_. storage_authority_error.Unavailable)
         (proof_token_new (is_proof_token issued)))) (\<lambda>token.
     try_call (or_unavailable (in_world (seal (sp_vault_crates P) (sp_vault P) (proof_secret token)
         (proof_context P key ''token'')))) (\<lambda>token_cipher.
     try_call (case is_proof_refresh_token issued of
           None \<Rightarrow> done_with None
         | Some refresh \<Rightarrow>
             try_call (or_unavailable (in_world (seal (sp_vault_crates P) (sp_vault P) refresh
               (proof_context P key ''refresh'')))) (\<lambda>cipher. done_with (Some cipher)))
       (\<lambda>refresh_cipher.
     try_call (upsert_row P
         \<lparr>pr_proof_id = is_proof_id issued, pr_scopes = is_scopes issued,
          pr_token_cipher = token_cipher, pr_token_expires_at = expires_at,
          pr_refresh_cipher = refresh_cipher, pr_refresh_expires_at = is_refresh_expires_at issued,
          pr_updated_at = 0, pr_invalidated_at = None, pr_invalidated_reason = None\<rparr>) (\<lambda>_.
     done_with \<lparr>bp_token = token, bp_expires_at = expires_at\<rparr>)))))"

definition issue_key :: "'w storage_proofs \<Rightarrow> uuid \<Rightarrow> access_token \<Rightarrow> string option \<Rightarrow> string" where
  "issue_key P key subject replacing =
     ''waveform-briefcase-'' @ sp_base64url P (sp_sha256 P
       (sp_uuid_bytes P key @ sp_sha256 P (access_secret subject) @
        (case replacing of Some r \<Rightarrow> r | None \<Rightarrow> ''none'')))"

definition issue ::
    "'w storage_proofs \<Rightarrow> uuid \<Rightarrow> access_token \<Rightarrow> string option \<Rightarrow> ('w, briefcase_proof) proof_call" where
  "issue P key subject replacing =
     try_call (on_err map_proof_error (ask_accounts P (sp_issue P (access_secret subject)
         (sp_receiving_app P) BRIEFCASE_SCOPES (issue_key P key subject replacing)))) (save P key)"

definition replace ::
    "'w storage_proofs \<Rightarrow> uuid \<Rightarrow> access_token option \<Rightarrow> ('w, briefcase_proof) proof_call" where
  "replace P key subject =
     try_call (latest P key) (\<lambda>l.
     let explicit = (case l of Some p \<Rightarrow> \<not> lp_active p \<and> is_explicit (lp_reason p) | None \<Rightarrow> False) in
     case subject of
       Some token \<Rightarrow>
         if \<not> explicit then issue P key token (map_option lp_proof_id l)
         else throw storage_authority_error.NotAuthorized
     | None \<Rightarrow> throw storage_authority_error.NotAuthorized)"

text \<open>The row of a live proof becomes an ended one without secrets.\<close>

definition ended :: "instant \<Rightarrow> string \<Rightarrow> proof_row \<Rightarrow> proof_row" where
  "ended now reason r =
     r\<lparr>pr_token_cipher := [], pr_refresh_cipher := None, pr_invalidated_at := Some now,
       pr_invalidated_reason := Some reason, pr_updated_at := now\<rparr>"

definition invalidate :: "'w storage_proofs \<Rightarrow> uuid \<Rightarrow> string \<Rightarrow> ('w, unit) proof_call" where
  "invalidate P key reason =
     try_call (statement P (\<lambda>s. ((), s))) (\<lambda>_.
     State_Monad.bind (in_world (sp_db_now P)) (\<lambda>now.
     State_Monad.bind (State (\<lambda>s. ((), case row_seen P key s of
         Some r \<Rightarrow> if pr_invalidated_at r = None then s\<lparr>px_written := Some (ended now reason r)\<rparr> else s
       | None \<Rightarrow> s))) done_with))"

text \<open>The live row: \<open>... AND invalidated_at IS NULL\<close>.\<close>

definition live_row :: "'w storage_proofs \<Rightarrow> uuid \<Rightarrow> ('w, proof_row option) proof_call" where
  "live_row P key = statement P (\<lambda>s.
     (case row_seen P key s of
        Some r \<Rightarrow> if pr_invalidated_at r = None then Some r else None
      | None \<Rightarrow> None, s))"

definition has_time :: "instant \<Rightarrow> proof_row \<Rightarrow> bool" where
  "has_time now r \<longleftrightarrow> pr_token_expires_at r - now > int MINIMUM_REMAINING"

definition open_token :: "'w storage_proofs \<Rightarrow> uuid \<Rightarrow> proof_row \<Rightarrow> ('w, string) proof_call" where
  "open_token P key r = lift_result (map_err (\<lambda>_. storage_authority_error.Unavailable)
     (open_sealed (sp_vault_crates P) (sp_vault P) (pr_token_cipher r) (proof_context P key ''token'')))"

definition stored_proof :: "proof_row \<Rightarrow> string \<Rightarrow> ('w, briefcase_proof) proof_call" where
  "stored_proof r secret = lift_result (map_ok (\<lambda>t. \<lparr>bp_token = t, bp_expires_at = pr_token_expires_at r\<rparr>)
     (map_err (\<lambda>_. storage_authority_error.Unavailable) (proof_token_new secret)))"

text \<open>The refresh token to use now, if there is one that has not ended.\<close>

definition usable_refresh :: "instant \<Rightarrow> proof_row \<Rightarrow> bytes option" where
  "usable_refresh now r =
     (if (case pr_refresh_expires_at r of None \<Rightarrow> True | Some end_at \<Rightarrow> end_at > now)
      then pr_refresh_cipher r else None)"

definition refresh_key :: "'w storage_proofs \<Rightarrow> string \<Rightarrow> string" where
  "refresh_key P refresh = ''waveform-refresh-'' @ sp_base64url P (sp_sha256 P refresh)"

definition ask_refresh ::
    "'w storage_proofs \<Rightarrow> uuid \<Rightarrow> bytes \<Rightarrow>
     ('w, (issued_proof, proof_error) result) proof_call" where
  "ask_refresh P key cipher =
     try_call (lift_result (map_err (\<lambda>_. storage_authority_error.Unavailable)
         (open_sealed (sp_vault_crates P) (sp_vault P) cipher (proof_context P key ''refresh''))))
       (\<lambda>refresh. State_Monad.bind (ask_accounts P (sp_refresh P refresh (refresh_key P refresh))) done_with)"

section \<open>Using and renewing a proof\<close>

definition stored :: "'w storage_proofs \<Rightarrow> uuid \<Rightarrow> ('w, briefcase_proof option) proof_call" where
  "stored P key =
     try_call (live_row P key) (\<lambda>row.
     case row of
       None \<Rightarrow> done_with None
     | Some r \<Rightarrow>
         State_Monad.bind (in_world (sp_now_utc P)) (\<lambda>now.
         if has_time now r then
           try_call (open_token P key r) (\<lambda>secret.
           try_call (stored_proof r secret) (\<lambda>p. done_with (Some p)))
         else
           (case usable_refresh now r of
              None \<Rightarrow> try_call (invalidate P key ''expired'') (\<lambda>_. done_with None)
            | Some cipher \<Rightarrow>
                try_call (ask_refresh P key cipher) (\<lambda>answer.
                case answer of
                  Ok issued \<Rightarrow> try_call (save P key issued) (\<lambda>p. done_with (Some p))
                | Err (proof_error.Refused reason) \<Rightarrow>
                    try_call (invalidate P key
                      (if is_explicit_revocation (proof_error.Refused reason) then ''revoked_at_accounts''
                       else ''refresh_refused'')) (\<lambda>_. done_with None)
                | Err e \<Rightarrow> throw (map_proof_error e)))))"

definition renew ::
    "'w storage_proofs \<Rightarrow> uuid \<Rightarrow> access_token option \<Rightarrow> briefcase_proof \<Rightarrow> ('w, briefcase_proof) proof_call" where
  "renew P key subject refused =
     try_call (live_row P key) (\<lambda>row.
     case row of
       None \<Rightarrow> replace P key subject
     | Some r \<Rightarrow>
         State_Monad.bind (in_world (sp_now_utc P)) (\<lambda>now.
         try_call (open_token P key r) (\<lambda>secret.
         if secret \<noteq> proof_secret (bp_token refused) \<and> has_time now r then stored_proof r secret
         else
           let end_and_replace = try_call (invalidate P key ''proof_ended'') (\<lambda>_. replace P key subject) in
           case usable_refresh now r of
             None \<Rightarrow> end_and_replace
           | Some cipher \<Rightarrow>
               try_call (ask_refresh P key cipher) (\<lambda>answer.
               case answer of
                 Ok issued \<Rightarrow> save P key issued
               | Err e \<Rightarrow>
                   if is_explicit_revocation e then
                     try_call (invalidate P key ''revoked_at_accounts'') (\<lambda>_.
                     throw storage_authority_error.NotAuthorized)
                   else (case e of
                       proof_error.Refused _ \<Rightarrow> end_and_replace
                     | _ \<Rightarrow> throw (map_proof_error e))))))"

definition storage_key_of :: "authorized_actor \<Rightarrow> uuid" where
  "storage_key_of a = actor_uuid (act_id (aa_actor a))"

text \<open>What was learnt (an invalidation) is committed even when no proof came out of it.\<close>

definition storage_briefcase_proof ::
    "'w storage_proofs \<Rightarrow> authorized_actor \<Rightarrow> access_token option \<Rightarrow> ('w, briefcase_proof) proof_call" where
  "storage_briefcase_proof P a subject =
     (let key = storage_key_of a in
      try_call (begin_locked P) (\<lambda>_.
      try_call (or_rollback (stored P key)) (\<lambda>found.
      State_Monad.bind (case found of Some p \<Rightarrow> done_with p | None \<Rightarrow> replace P key subject) (\<lambda>proof.
      try_call (commit P key) (\<lambda>_. lift_result proof)))))"

definition renew_refused_proof ::
    "'w storage_proofs \<Rightarrow> authorized_actor \<Rightarrow> access_token option \<Rightarrow> briefcase_proof \<Rightarrow>
     ('w, briefcase_proof) proof_call" where
  "renew_refused_proof P a subject refused =
     (let key = storage_key_of a in
      try_call (begin_locked P) (\<lambda>_.
      State_Monad.bind (renew P key subject refused) (\<lambda>renewed.
      try_call (commit P key) (\<lambda>_. lift_result renewed))))"

section \<open>Approval, revocation, status\<close>

text \<open>Revoking at Silicon Accounts is best effort.\<close>

definition revoke_remote_by_id :: "'w storage_proofs \<Rightarrow> string \<Rightarrow> ('w proof_state, unit) state" where
  "revoke_remote_by_id P proof_id =
     State_Monad.bind (in_world (sp_revoke_proof P proof_id)) (\<lambda>_. State_Monad.return ())"

text \<open>\<open>status\<close>, a single statement outside any transaction.\<close>

definition status_of_row :: "'w storage_proofs \<Rightarrow> instant \<Rightarrow> proof_row option \<Rightarrow> storage_proof_status" where
  "status_of_row P now row =
     (case row of
        None \<Rightarrow>
          \<lparr>ps_status = ''missing'', ps_receiving_app = sp_receiving_app P, ps_scopes = [],
           ps_proof_id = None, ps_token_expires_at = None, ps_refresh_expires_at = None,
           ps_updated_at = None, ps_revoked_reason = None\<rparr>
      | Some r \<Rightarrow>
          let invalidated = pr_invalidated_at r \<noteq> None;
              over = (case pr_refresh_expires_at r of Some end_at \<Rightarrow> end_at \<le> now | None \<Rightarrow> False)
          in \<lparr>ps_status = (if invalidated \<or> over then ''revoked'' else ''active''),
              ps_receiving_app = sp_receiving_app P, ps_scopes = pr_scopes r,
              ps_proof_id = Some (pr_proof_id r),
              ps_token_expires_at = Some (pr_token_expires_at r),
              ps_refresh_expires_at = pr_refresh_expires_at r,
              ps_updated_at = Some (pr_updated_at r),
              ps_revoked_reason = (if over \<and> \<not> invalidated then Some ''expired''
                else pr_invalidated_reason r)\<rparr>)"

definition status :: "'w storage_proofs \<Rightarrow> uuid \<Rightarrow> ('w, storage_proof_status) proof_call" where
  "status P key =
     try_call (single_statement P (\<lambda>s. (fmlookup (px_table s) (key, sp_receiving_app P), s))) (\<lambda>row.
     State_Monad.bind (in_world (sp_now_utc P)) (\<lambda>now. done_with (status_of_row P now row)))"

definition approve ::
    "'w storage_proofs \<Rightarrow> authorized_actor \<Rightarrow> access_token \<Rightarrow> ('w, storage_proof_status) proof_call" where
  "approve P a subject =
     (let key = storage_key_of a in
      try_call (begin_locked P) (\<lambda>_.
      try_call (or_rollback (try_call (latest P key) (\<lambda>previous.
          try_call (issue P key subject (map_option lp_proof_id previous)) (\<lambda>_. done_with previous))))
        (\<lambda>previous.
      try_call (commit P key) (\<lambda>_.
      State_Monad.bind (case previous of
            Some p \<Rightarrow> if lp_active p then revoke_remote_by_id P (lp_proof_id p) else State_Monad.return ()
          | None \<Rightarrow> State_Monad.return ()) (\<lambda>_.
      status P key)))))"

text \<open>The \<open>UPDATE ... RETURNING proof_id\<close> of \<open>revoke\<close>, in its own transaction.\<close>

definition revoke_row :: "'w storage_proofs \<Rightarrow> uuid \<Rightarrow> string \<Rightarrow> instant \<Rightarrow> 'w proof_state \<Rightarrow> string option \<times> 'w proof_state" where
  "revoke_row P key reason now s =
     (case fmlookup (px_table s) (key, sp_receiving_app P) of
        Some r \<Rightarrow>
          if pr_invalidated_at r = None
          then (Some (pr_proof_id r),
                s\<lparr>px_table := fmupd (key, sp_receiving_app P) (ended now reason r) (px_table s)\<rparr>)
          else (None, s)
      | None \<Rightarrow> (None, s))"

definition revoke :: "'w storage_proofs \<Rightarrow> uuid \<Rightarrow> string \<Rightarrow> ('w, bool) proof_call" where
  "revoke P key reason =
     State_Monad.bind (in_world (sp_db_now P)) (\<lambda>now.
     try_call (single_statement P (revoke_row P key reason now)) (\<lambda>proof_id.
     State_Monad.bind (case proof_id of
           Some p \<Rightarrow> revoke_remote_by_id P p
         | None \<Rightarrow> State_Monad.return ()) (\<lambda>_.
     done_with (proof_id \<noteq> None))))"

end
