(* ===== verification/Storage_Properties.thy ===== *)
theory Storage_Properties
  imports Storage_Proofs
begin

text \<open>
  The Briefcase proofs held for accounts: an access someone revoked on purpose is not given back by
  speech, a delegated call never makes a proof, ended rows keep no secret, and a proof that was
  answered is answered again while it has time left. The last section shows the race the code
  leaves open: a revocation that arrives while a proof is refreshed is overwritten.
\<close>

section \<open>Revocations someone decided\<close>

definition revoked_on_purpose :: "'w storage_proofs \<Rightarrow> uuid \<Rightarrow> proof_table \<Rightarrow> bool" where
  "revoked_on_purpose P key table \<longleftrightarrow>
     (case fmlookup table (key, sp_receiving_app P) of
        Some r \<Rightarrow> pr_invalidated_at r \<noteq> None \<and> is_explicit (pr_invalidated_reason r)
      | None \<Rightarrow> False)"

lemma run_statement:
  "run_state (statement P f) s =
     (case run_state (sp_fault P) (px_world s) of (failed, w) \<Rightarrow>
        if failed \<or> px_aborted s then (Err storage_authority_error.Unavailable, s\<lparr>px_world := w, px_aborted := True\<rparr>)
        else case f (s\<lparr>px_world := w\<rparr>) of (x, s') \<Rightarrow> (Ok x, s'))"
  by (simp add: statement_def fail_statement_def run_simps split: prod.splits)

lemma run_single_statement:
  "run_state (single_statement P f) s =
     (case run_state (sp_fault P) (px_world s) of (failed, w) \<Rightarrow>
        if failed then (Err storage_authority_error.Unavailable, s\<lparr>px_world := w\<rparr>)
        else case f (s\<lparr>px_world := w\<rparr>) of (x, s') \<Rightarrow> (Ok x, s'))"
  by (simp add: single_statement_def run_simps split: prod.splits)

lemma run_commit:
  "run_state (commit P key) s =
     (case run_state (sp_commit P) (px_world s) of (outcome, w) \<Rightarrow>
        (if outcome = Committed then Ok () else Err storage_authority_error.Unavailable,
         if outcome = NotCommitted then rolled_back (s\<lparr>px_world := w\<rparr>)
         else apply_written P key (s\<lparr>px_world := w\<rparr>)))"
  by (simp add: commit_def run_simps split: prod.splits)

lemmas tx_simps = run_simps run_statement run_single_statement run_commit begin_locked_def
  or_rollback_def rolled_back_def apply_written_def row_seen_def Let_def

text \<open>
  C40: once a proof was revoked by the account, its custodian or Silicon Accounts, or its account
  uuid migrated, speech does not give the access back: whatever token the request carries, asking
  for a proof and renewing a refused one end without a proof, Silicon Accounts is not asked to issue
  or refresh one, and the table stays as it is.
\<close>

theorem explicit_revocation_sticks:
  assumes "revoked_on_purpose P (storage_key_of a) (px_table s)"
  shows "fst (run_state (storage_briefcase_proof P a subject) s)
      \<in> {Err storage_authority_error.NotAuthorized, Err storage_authority_error.Unavailable} \<and>
    fst (run_state (renew_refused_proof P a subject refused) s)
      \<in> {Err storage_authority_error.NotAuthorized, Err storage_authority_error.Unavailable} \<and>
    px_table (snd (run_state (storage_briefcase_proof P a subject) s)) = px_table s \<and>
    px_table (snd (run_state (renew_refused_proof P a subject refused) s)) = px_table s \<and>
    run_state (storage_briefcase_proof (P\<lparr>sp_issue := f, sp_refresh := g\<rparr>) a subject) s =
      run_state (storage_briefcase_proof P a subject) s \<and>
    run_state (renew_refused_proof (P\<lparr>sp_issue := f, sp_refresh := g\<rparr>) a subject refused) s =
      run_state (renew_refused_proof P a subject refused) s"
proof -
  obtain r t where r: "fmlookup (px_table s) (storage_key_of a, sp_receiving_app P) = Some r"
    "pr_invalidated_at r = Some t" "is_explicit (pr_invalidated_reason r)"
    using assms by (auto simp: revoked_on_purpose_def split: option.splits)
  note ops = storage_briefcase_proof_def renew_refused_proof_def stored_def renew_def live_row_def
    replace_def latest_def
  show ?thesis
    by (intro conjI; cases subject) (auto simp: ops tx_simps r split: prod.split)
qed

section \<open>No proof without the account's own token\<close>

lemma without_issue:
  "statement (P\<lparr>sp_issue := f\<rparr>) = statement P"
  "begin_locked (P\<lparr>sp_issue := f\<rparr>) = begin_locked P"
  "commit (P\<lparr>sp_issue := f\<rparr>) = commit P"
  "live_row (P\<lparr>sp_issue := f\<rparr>) = live_row P"
  "latest (P\<lparr>sp_issue := f\<rparr>) = latest P"
  "invalidate (P\<lparr>sp_issue := f\<rparr>) = invalidate P"
  "save (P\<lparr>sp_issue := f\<rparr>) = save P"
  "ask_refresh (P\<lparr>sp_issue := f\<rparr>) = ask_refresh P"
  "open_token (P\<lparr>sp_issue := f\<rparr>) = open_token P"
  by (simp_all add: fun_eq_iff statement_def begin_locked_def single_statement_def commit_def
      apply_written_def live_row_def latest_def invalidate_def save_def upsert_row_def
      proof_context_def row_seen_def ask_refresh_def ask_accounts_def refresh_key_def open_token_def
      cong: if_cong option.case_cong)

lemma replace_without_token: "replace (P\<lparr>sp_issue := f\<rparr>) key None = replace P key None"
  by (simp add: replace_def without_issue)

text \<open>
  A request that does not carry the account's own token (a delegated call) never makes Silicon
  Accounts issue a proof: asking for a proof and renewing a refused one do exactly the same
  whatever issuing would answer.
\<close>

theorem delegated_calls_never_issue:
  "storage_briefcase_proof (P\<lparr>sp_issue := f\<rparr>) a None = storage_briefcase_proof P a None \<and>
   renew_refused_proof (P\<lparr>sp_issue := f\<rparr>) a None refused = renew_refused_proof P a None refused"
proof -
  have "stored (P\<lparr>sp_issue := f\<rparr>) key = stored P key" for key
    unfolding stored_def without_issue by simp
  moreover have "renew (P\<lparr>sp_issue := f\<rparr>) key None refused = renew P key None refused" for key
    unfolding renew_def without_issue replace_without_token by simp
  ultimately show ?thesis
    unfolding storage_briefcase_proof_def renew_refused_proof_def without_issue replace_without_token by simp
qed

section \<open>Ended rows keep no secret\<close>

definition row_wf :: "proof_row \<Rightarrow> bool" where
  "row_wf r \<longleftrightarrow>
     (if pr_invalidated_at r = None then pr_invalidated_reason r = None
      else pr_invalidated_reason r \<noteq> None \<and> pr_token_cipher r = [] \<and> pr_refresh_cipher r = None)"

definition state_wf :: "'w proof_state \<Rightarrow> bool" where
  "state_wf s \<longleftrightarrow> (\<forall>k r. fmlookup (px_table s) k = Some r \<longrightarrow> row_wf r) \<and> pred_option row_wf (px_written s)"

lemma row_wf_ended: "row_wf (ended now reason r)"
  by (simp add: row_wf_def ended_def)

lemma row_wf_live: "pr_invalidated_at r = None \<Longrightarrow> pr_invalidated_reason r = None \<Longrightarrow> row_wf r"
  by (simp add: row_wf_def)

text \<open>What an action keeps of the state.\<close>

definition preserves :: "('w proof_state \<Rightarrow> bool) \<Rightarrow> ('w proof_state, 'a) state \<Rightarrow> bool" where
  "preserves I action \<longleftrightarrow> (\<forall>s. I s \<longrightarrow> I (snd (run_state action s)))"

named_theorems preserves_intros \<open>rules for \<open>preserves\<close>\<close>

lemma preserves_bind [preserves_intros]:
  "preserves I a \<Longrightarrow> (\<And>x. preserves I (f x)) \<Longrightarrow> preserves I (State_Monad.bind a f)"
  by (simp add: preserves_def run_simps split: prod.splits) (metis snd_conv)

lemma preserves_try_call [preserves_intros]:
  "preserves I a \<Longrightarrow> (\<And>x. preserves I (f x)) \<Longrightarrow> preserves I (try_call a f)"
  by (simp add: preserves_def run_simps split: prod.splits sum.splits) (metis snd_conv)

lemma preserves_pure [preserves_intros]:
  "preserves I (State_Monad.return x)" "preserves I (throw e)" "preserves I (done_with y)"
  "preserves I (lift_result r)"
  by (simp_all add: preserves_def run_simps)

lemma preserves_on_err [preserves_intros]: "preserves I a \<Longrightarrow> preserves I (on_err f a)"
  by (simp add: preserves_def run_simps split: prod.splits) (metis snd_conv)

lemma preserves_State [preserves_intros]: "(\<And>s. I s \<Longrightarrow> I (snd (f s))) \<Longrightarrow> preserves I (State f)"
  by (simp add: preserves_def)

text \<open>
  A property of tables and written rows that does not look at the world or the aborted flag, and
  that other sessions keep.
\<close>

locale proof_invariant =
  fixes I :: "'w proof_state \<Rightarrow> bool" and P :: "'w storage_proofs"
  assumes frame: "I s \<Longrightarrow> I (s\<lparr>px_world := w\<rparr>)" "I s \<Longrightarrow> I (s\<lparr>px_aborted := b\<rparr>)"
      "I s \<Longrightarrow> I (s\<lparr>px_written := None\<rparr>)"
    and write_row: "I s \<Longrightarrow> pr_invalidated_at r = None \<Longrightarrow> pr_invalidated_reason r = None \<Longrightarrow>
      I (s\<lparr>px_written := Some r\<rparr>)"
    and end_row: "I s \<Longrightarrow> row_seen P key s = Some r \<Longrightarrow> I (s\<lparr>px_written := Some (ended now reason r)\<rparr>)"
    and apply_row: "I s \<Longrightarrow> I (apply_written P key s)"
    and end_committed: "I s \<Longrightarrow> fmlookup (px_table s) k = Some r \<Longrightarrow>
      I (s\<lparr>px_table := fmupd k (ended now reason r) (px_table s)\<rparr>)"
    and others: "preserves I (sp_other_sessions P)"
begin

lemma preserves_world: "preserves I (in_world action)"
  by (simp add: preserves_def run_simps frame split: prod.splits)

lemma preserves_fail: "preserves I fail_statement"
  unfolding fail_statement_def by (auto intro!: preserves_intros frame)

lemma preserves_statement: "(\<And>s. I s \<Longrightarrow> I (snd (f s))) \<Longrightarrow> preserves I (statement P f)"
  unfolding statement_def by (auto intro!: preserves_intros preserves_world preserves_fail)

lemma preserves_single: "(\<And>s. I s \<Longrightarrow> I (snd (f s))) \<Longrightarrow> preserves I (single_statement P f)"
  unfolding single_statement_def by (auto intro!: preserves_intros preserves_world)

lemma preserves_begin: "preserves I (begin_locked P)"
  unfolding begin_locked_def by (auto intro!: preserves_single frame)

lemma preserves_commit: "preserves I (commit P key)"
  unfolding commit_def by (auto intro!: preserves_intros preserves_world apply_row frame simp: rolled_back_def)

lemma preserves_or_rollback: "preserves I a \<Longrightarrow> preserves I (or_rollback a)"
  unfolding or_rollback_def by (auto intro!: preserves_intros frame simp: rolled_back_def split: sum.split)

lemma preserves_ask: "preserves I (ask_accounts P action)"
proof -
  have "I s \<Longrightarrow> I (snd (run_state (sp_other_sessions P) s))" for s using others by (simp add: preserves_def)
  then show ?thesis unfolding ask_accounts_def by (auto intro!: preserves_intros preserves_world)
qed

lemma preserves_reads: "preserves I (latest P key)" "preserves I (live_row P key)"
  unfolding latest_def live_row_def by (auto intro!: preserves_statement)

lemma preserves_upsert:
  "pr_invalidated_at r = None \<Longrightarrow> pr_invalidated_reason r = None \<Longrightarrow> preserves I (upsert_row P r)"
  unfolding upsert_row_def
  by (auto intro!: preserves_intros preserves_fail preserves_statement preserves_world write_row)

lemma preserves_save: "preserves I (save P key issued)"
  unfolding save_def or_unavailable_def
  by (auto intro!: preserves_intros preserves_world preserves_upsert split: option.split)

lemma preserves_invalidate: "preserves I (invalidate P key reason)"
  unfolding invalidate_def
  by (auto intro!: preserves_intros preserves_statement preserves_world end_row split: option.split)

lemma preserves_issue: "preserves I (issue P key token replacing)"
  unfolding issue_def by (auto intro!: preserves_intros preserves_ask preserves_save)

lemma preserves_replace: "preserves I (replace P key subject)"
  unfolding replace_def Let_def
  by (auto intro!: preserves_intros preserves_reads preserves_issue split: option.split)

lemma preserves_ask_refresh: "preserves I (ask_refresh P key cipher)"
  unfolding ask_refresh_def by (auto intro!: preserves_intros preserves_ask)

lemma preserves_stored: "preserves I (stored P key)"
  unfolding stored_def open_token_def stored_proof_def
  by (auto intro!: preserves_intros preserves_reads preserves_world preserves_ask_refresh preserves_save
      preserves_invalidate split: option.split sum.split proof_error.split)

lemma preserves_renew: "preserves I (renew P key subject refused)"
  unfolding renew_def open_token_def stored_proof_def Let_def
  by (auto intro!: preserves_intros preserves_reads preserves_world preserves_ask_refresh preserves_save
      preserves_invalidate preserves_replace split: option.split sum.split proof_error.split)

lemma preserves_briefcase_proof: "preserves I (storage_briefcase_proof P a subject)"
  unfolding storage_briefcase_proof_def Let_def
  by (auto intro!: preserves_intros preserves_begin preserves_or_rollback preserves_stored
      preserves_replace preserves_commit split: option.split)

lemma preserves_renew_refused_proof: "preserves I (renew_refused_proof P a subject refused)"
  unfolding renew_refused_proof_def Let_def
  by (auto intro!: preserves_intros preserves_begin preserves_renew preserves_commit)

lemma preserves_revoke: "preserves I (revoke P key reason)"
  unfolding revoke_def revoke_remote_by_id_def
  by (auto intro!: preserves_intros preserves_single preserves_world end_committed
      simp: revoke_row_def split: option.split)

lemma preserves_status: "preserves I (status P key)"
  unfolding status_def by (auto intro!: preserves_intros preserves_single preserves_world)

lemma preserves_approve: "preserves I (approve P a token)"
  unfolding approve_def Let_def revoke_remote_by_id_def
  by (auto intro!: preserves_intros preserves_begin preserves_or_rollback preserves_reads preserves_issue
      preserves_commit preserves_world preserves_status split: option.split)

end

text \<open>
  What other sessions do without the account's lock: revocations of any account's proof, as many as
  the world has.
\<close>

fun other_revocations ::
    "'w storage_proofs \<Rightarrow> (uuid \<times> string \<times> instant) list \<Rightarrow> 'w proof_state \<Rightarrow> 'w proof_state" where
  "other_revocations P [] s = s"
| "other_revocations P ((key, reason, now) # rest) s =
     other_revocations P rest (snd (revoke_row P key reason now s))"

definition with_revocations ::
    "('w \<Rightarrow> (uuid \<times> string \<times> instant) list) \<Rightarrow> 'w storage_proofs \<Rightarrow> 'w storage_proofs" where
  "with_revocations plan P =
     P\<lparr>sp_other_sessions := State (\<lambda>s. ((), other_revocations P (plan (px_world s)) s))\<rparr>"

lemma state_wf_revoke_row: "state_wf s \<Longrightarrow> state_wf (snd (revoke_row P key reason now s))"
  by (auto simp: state_wf_def revoke_row_def row_wf_ended split: option.split)

lemma state_wf_other_revocations: "state_wf s \<Longrightarrow> state_wf (other_revocations P plan s)"
  by (induction P plan s rule: other_revocations.induct) (simp_all add: state_wf_revoke_row)

interpretation rows: proof_invariant state_wf "with_revocations plan P" for plan P
proof unfold_locales
  show "preserves state_wf (sp_other_sessions (with_revocations plan P))"
    by (simp add: preserves_def with_revocations_def state_wf_other_revocations)
qed (auto simp: state_wf_def row_wf_ended row_wf_live apply_written_def rolled_back_def split: option.split)

text \<open>The operations, and sequences of them.\<close>

datatype proof_operation =
    AskProof authorized_actor "access_token option"
  | RenewProof authorized_actor "access_token option" briefcase_proof
  | Approve authorized_actor access_token
  | Revoke uuid string
  | Status uuid

fun run_operation :: "'w storage_proofs \<Rightarrow> proof_operation \<Rightarrow> ('w proof_state, unit) state" where
  "run_operation P (AskProof a subject) = ignore (storage_briefcase_proof P a subject)"
| "run_operation P (RenewProof a subject refused) = ignore (renew_refused_proof P a subject refused)"
| "run_operation P (Approve a subject) = ignore (approve P a subject)"
| "run_operation P (Revoke key reason) = ignore (revoke P key reason)"
| "run_operation P (Status key) = ignore (status P key)"

fun run_operations :: "'w storage_proofs \<Rightarrow> proof_operation list \<Rightarrow> ('w proof_state, unit) state" where
  "run_operations P [] = State_Monad.return ()"
| "run_operations P (op # ops) = State_Monad.bind (run_operation P op) (\<lambda>_. run_operations P ops)"

definition no_proofs :: "'w \<Rightarrow> 'w proof_state" where
  "no_proofs w = \<lparr>px_table = fmempty, px_written = None, px_aborted = False, px_world = w\<rparr>"

context proof_invariant
begin

lemma preserves_operation: "preserves I (run_operation P op)"
  by (cases op) (simp_all add: ignore_def preserves_bind preserves_pure preserves_briefcase_proof
      preserves_renew_refused_proof preserves_approve preserves_revoke preserves_status)

lemma preserves_operations: "preserves I (run_operations P ops)"
  by (induction ops) (simp_all add: preserves_pure preserves_bind preserves_operation)

end

text \<open>
  A row that has ended keeps no secret. Whatever operations run on the store of proofs, with
  any answers of Silicon Accounts, failing statements and commits, and revocations of other sessions
  in the middle of a transaction, a row is either live without a reason or ended with a reason, an
  empty token and no refresh token.
\<close>

theorem ended_proofs_keep_no_secret:
  "state_wf (snd (run_state (run_operations (with_revocations plan P) ops) (no_proofs w)))"
proof -
  have "state_wf (no_proofs w)" by (simp add: state_wf_def no_proofs_def)
  then show ?thesis using rows.preserves_operations [of plan P ops] by (simp add: preserves_def)
qed

section \<open>A proof with time left is answered again\<close>

text \<open>A live row that holds a proof under the account's own context.\<close>

definition row_holds :: "'w storage_proofs \<Rightarrow> uuid \<Rightarrow> briefcase_proof \<Rightarrow> proof_row \<Rightarrow> bool" where
  "row_holds P key p r \<longleftrightarrow> pr_invalidated_at r = None \<and>
     open_sealed (sp_vault_crates P) (sp_vault P) (pr_token_cipher r) (proof_context P key ''token'') =
       Ok (proof_secret (bp_token p)) \<and>
     proof_token_new (proof_secret (bp_token p)) = Ok (bp_token p) \<and>
     pr_token_expires_at r = bp_expires_at p"

lemma proof_token_new_secret: "proof_token_new s = Ok t \<Longrightarrow> proof_secret t = s"
  by (auto simp: proof_token_new_def opaque_credential_new_def map_ok_Ok_iff proof_secret_def
      split: if_splits)

lemma proof_token_utf8: "proof_token_new s = Ok t \<Longrightarrow> utf8_valid s"
proof -
  assume "proof_token_new s = Ok t"
  then have "\<forall>c \<in> set s. is_ascii_graphic c"
    by (auto simp: proof_token_new_def opaque_credential_new_def map_ok_Ok_iff split: if_splits)
  then show ?thesis by (intro utf8_valid_ascii) (auto simp: list_all_iff is_ascii_graphic_def is_ascii_def)
qed

lemma run_in_worldD:
  "run_state (in_world a) s = (x, t) \<Longrightarrow>
     px_written t = px_written s \<and> px_aborted t = px_aborted s \<and> px_table t = px_table s \<and>
     x = fst (run_state a (px_world s))"
  by (auto simp: run_simps split: prod.splits)

lemma upsert_row_Ok:
  assumes "run_state (upsert_row P r) s = (Ok x, t)"
  shows "\<exists>now. px_written t = Some (r\<lparr>pr_updated_at := now\<rparr>) \<and> \<not> px_aborted t \<and> px_table t = px_table s"
proof -
  obtain now w where "t = s\<lparr>px_world := w, px_written := Some (r\<lparr>pr_updated_at := now\<rparr>)\<rparr>" "\<not> px_aborted s"
    using assms unfolding upsert_row_def
    by (auto simp: tx_simps fail_statement_def split: prod.splits if_splits)
  then show ?thesis by auto
qed

lemma seal_in_worldD:
  assumes "run_state (or_unavailable (in_world (seal C v secret context))) s = (Ok cipher, t)"
  shows "fst (run_state (seal C v secret context) (px_world s)) = Ok cipher"
    and "px_table t = px_table s"
  using assms by (auto simp: or_unavailable_def run_simps split: prod.splits)

lemma save_Ok:
  assumes laws: "cipher_laws (sp_vault_crates P)" and run: "run_state (save P key issued) s = (Ok p, t)"
  shows "\<exists>r. px_written t = Some r \<and> row_holds P key p r \<and> \<not> px_aborted t \<and> px_table t = px_table s"
proof -
  obtain expires where expires: "is_expires_at issued = Some expires"
    using run by (auto simp: save_def run_simps ok_or_def split: option.splits)
  obtain token where token: "proof_token_new (is_proof_token issued) = Ok token"
    using run expires by (auto simp: save_def run_simps map_err_Ok_iff split: prod.splits sum.splits)
  obtain cipher s1 where sealed: "run_state (or_unavailable (in_world (seal (sp_vault_crates P) (sp_vault P)
      (proof_secret token) (proof_context P key ''token'')))) s = (Ok cipher, s1)"
    and rest: "\<exists>c s2. px_table s2 = px_table s1 \<and>
      run_state (upsert_row P
         \<lparr>pr_proof_id = is_proof_id issued, pr_scopes = is_scopes issued, pr_token_cipher = cipher,
          pr_token_expires_at = expires, pr_refresh_cipher = c,
          pr_refresh_expires_at = is_refresh_expires_at issued, pr_updated_at = 0,
          pr_invalidated_at = None, pr_invalidated_reason = None\<rparr>) s2 = (Ok (), t)"
    and p: "p = \<lparr>bp_token = token, bp_expires_at = expires\<rparr>"
    using run unfolding save_def expires token
    by (cases "is_proof_refresh_token issued")
      (auto simp: run_lift_result run_done_with elim!: run_try_call_OkE; blast dest: seal_in_worldD(2))+
  obtain r where t: "px_written t = Some r" "\<not> px_aborted t" "px_table t = px_table s1"
    "pr_token_cipher r = cipher" "pr_token_expires_at r = expires" "pr_invalidated_at r = None"
    using rest by (auto dest!: upsert_row_Ok)
  have "open_sealed (sp_vault_crates P) (sp_vault P) cipher (proof_context P key ''token'') = Ok (proof_secret token)"
    using open_sealed_seal [OF laws seal_in_worldD(1) [OF sealed]] proof_token_utf8 [OF token]
    by (simp add: proof_token_new_secret [OF token])
  then show ?thesis
    using t seal_in_worldD(2) [OF sealed] token proof_token_new_secret [OF token]
    by (auto simp: row_holds_def p)
qed

text \<open>The transaction sees a live row that holds the proof.\<close>

definition seen_held :: "'w storage_proofs \<Rightarrow> uuid \<Rightarrow> briefcase_proof \<Rightarrow> 'w proof_state \<Rightarrow> bool" where
  "seen_held P key p s \<longleftrightarrow> (\<exists>r. row_seen P key s = Some r \<and> row_holds P key p r) \<and> \<not> px_aborted s"

lemma save_seen_held:
  "cipher_laws (sp_vault_crates P) \<Longrightarrow> run_state (save P key issued) s = (Ok p, t) \<Longrightarrow> seen_held P key p t"
  using save_Ok [of P key issued s p t] by (auto simp: seen_held_def row_seen_def)

lemma live_row_Ok:
  "run_state (live_row P key) s = (Ok row, t) \<Longrightarrow>
     px_written t = px_written s \<and> px_table t = px_table s \<and> \<not> px_aborted t \<and>
     (\<forall>r. row = Some r \<longrightarrow> row_seen P key s = Some r \<and> pr_invalidated_at r = None)"
  by (auto simp: live_row_def tx_simps split: prod.splits if_splits option.splits)

lemma stored_proof_seen_held:
  assumes row: "row_seen P key s = Some r" "pr_invalidated_at r = None" "\<not> px_aborted s"
    and opened: "run_state (open_token P key r) s = (Ok secret, s')"
    and token: "run_state (stored_proof r secret) s' = (Ok p, t)"
  shows "seen_held P key p t"
proof -
  obtain tok where "proof_token_new secret = Ok tok" "p = \<lparr>bp_token = tok, bp_expires_at = pr_token_expires_at r\<rparr>"
    and "t = s'" "s' = s"
    and "open_sealed (sp_vault_crates P) (sp_vault P) (pr_token_cipher r) (proof_context P key ''token'') = Ok secret"
    using opened token by (auto simp: stored_proof_def open_token_def run_simps map_ok_Ok_iff)
  then show ?thesis using row proof_token_new_secret [of secret tok] by (auto simp: seen_held_def row_holds_def)
qed

lemma stored_Ok:
  assumes laws: "cipher_laws (sp_vault_crates P)" and run: "run_state (stored P key) s = (Ok (Some p), t)"
  shows "seen_held P key p t"
proof -
  obtain row s1 where live: "run_state (live_row P key) s = (Ok row, s1)"
    and row_cases: "row \<noteq> None"
    using run by (cases "fst (run_state (live_row P key) s)")
      (auto simp: stored_def run_done_with elim!: run_try_call_OkE split: option.splits)
  then obtain r where row: "row = Some r" by auto
  obtain now s2 where now: "run_state (in_world (sp_now_utc P)) s1 = (now, s2)" by fastforce
  have seen: "row_seen P key s2 = Some r" "pr_invalidated_at r = None" "\<not> px_aborted s2"
    using live_row_Ok [OF live] run_in_worldD [OF now] by (auto simp: row row_seen_def split: option.splits)
  show ?thesis
  proof (cases "has_time now r")
    case True
    then obtain secret s3 where "run_state (open_token P key r) s2 = (Ok secret, s3)"
      "run_state (stored_proof r secret) s3 = (Ok p, t)"
      using run by (auto simp: stored_def run_try_call [of "live_row P key"] live row run_state_bind now
          run_done_with elim!: run_try_call_OkE)
    then show ?thesis using stored_proof_seen_held [OF seen] by blast
  next
    case False
    then obtain issued s3 where "run_state (save P key issued) s3 = (Ok p, t)"
      using run by (auto simp: stored_def run_try_call [of "live_row P key"] live row run_state_bind now
          run_done_with run_throw elim!: run_try_call_OkE split: option.splits sum.splits proof_error.splits)
    then show ?thesis by (rule save_seen_held [OF laws])
  qed
qed

lemma replace_Ok:
  assumes "cipher_laws (sp_vault_crates P)" and "run_state (replace P key subject) s = (Ok p, t)"
  shows "seen_held P key p t"
  using assms by (auto simp: replace_def issue_def Let_def run_throw elim!: run_try_call_OkE
      intro: save_seen_held split: option.splits if_splits)

lemma briefcase_proof_Ok:
  assumes laws: "cipher_laws (sp_vault_crates P)" and run: "run_state (storage_briefcase_proof P a subject) s = (Ok p, t)"
  shows "\<exists>r. fmlookup (px_table t) (storage_key_of a, sp_receiving_app P) = Some r \<and>
    row_holds P (storage_key_of a) p r"
proof -
  let ?key = "storage_key_of a"
  obtain s1 held s2 answer s3 where
    first: "run_state (or_rollback (stored P ?key)) s1 = (Ok held, s2)" and
    got: "run_state (case held of Some p \<Rightarrow> done_with p | None \<Rightarrow> replace P ?key subject) s2 = (answer, s3)" and
    committed: "run_state (commit P ?key) s3 = (Ok (), t)" and answer: "answer = Ok p"
    using run by (auto simp: storage_briefcase_proof_def Let_def run_lift_result elim!: run_try_call_OkE run_bindE)
  have "seen_held P ?key p s3"
  proof (cases held)
    case None
    then show ?thesis using got replace_Ok [OF laws] by (simp add: answer)
  next
    case (Some q)
    then have q: "q = p" "s3 = s2" using got by (simp_all add: run_done_with answer)
    have "run_state (stored P ?key) s1 = (Ok (Some p), s2)"
      using first Some q by (auto simp: or_rollback_def run_simps split: prod.splits sum.splits)
    then show ?thesis using stored_Ok [OF laws] q by blast
  qed
  then show ?thesis
    using committed by (auto simp: seen_held_def run_try_call run_commit run_lift_result apply_written_def
        rolled_back_def row_seen_def split: prod.splits if_splits option.splits)
qed

text \<open>
  A proof is kept for the account. When asking for a proof answered one (stored, refreshed or
  newly issued) and the cipher is sound, then as long as the account's row is untouched, the
  statements succeed and more than a minute is left, every later request of the account, with or
  without a token of its own, is answered that same proof and nothing is changed.
\<close>

theorem answered_proof_is_reused:
  assumes "cipher_laws (sp_vault_crates P)"
    and "run_state (storage_briefcase_proof P a subject) s = (Ok p, t)"
    and "fmlookup (px_table s') (storage_key_of a, sp_receiving_app P) =
      fmlookup (px_table t) (storage_key_of a, sp_receiving_app P)"
    and "\<forall>w. \<not> fst (run_state (sp_fault P) w)" and "\<forall>w. fst (run_state (sp_commit P) w) = Committed"
    and "\<forall>w. bp_expires_at p - fst (run_state (sp_now_utc P) w) > int MINIMUM_REMAINING"
  shows "fst (run_state (storage_briefcase_proof P a subject') s') = Ok p \<and>
    px_table (snd (run_state (storage_briefcase_proof P a subject') s')) = px_table s'"
proof -
  obtain r where r: "fmlookup (px_table s') (storage_key_of a, sp_receiving_app P) = Some r"
    and holds: "row_holds P (storage_key_of a) p r"
    using briefcase_proof_Ok [OF assms(1,2)] assms(3) by auto
  have fault: "\<exists>w'. run_state (sp_fault P) w = (False, w')" for w
    using assms(4) by (metis (full_types) prod.collapse)
  have commit: "\<exists>w'. run_state (sp_commit P) w = (Committed, w')" for w
    using assms(5) by (metis prod.collapse)
  have now: "\<exists>now w'. run_state (sp_now_utc P) w = (now, w') \<and> has_time now r" for w
    using assms(6) holds by (auto simp: has_time_def row_holds_def intro!: exI prod.collapse [symmetric])
  obtain w1 where w1: "run_state (sp_fault P) (px_world s') = (False, w1)" using fault by blast
  obtain w2 where w2: "run_state (sp_fault P) w1 = (False, w2)" using fault by blast
  obtain n w3 where w3: "run_state (sp_now_utc P) w2 = (n, w3)" "has_time n r" using now by blast
  obtain w4 where w4: "run_state (sp_commit P) w3 = (Committed, w4)" using commit by blast
  show ?thesis using holds
    by (auto simp: storage_briefcase_proof_def stored_def live_row_def open_token_def stored_proof_def
        row_holds_def tx_simps w1 w2 w3 w4 r)
qed

section \<open>A revocation during a refresh\<close>

text \<open>
  The code's \<open>revoke\<close> takes no lock and \<open>save\<close> overwrites an ended row (\<open>invalidated_at=NULL\<close>).
  The surroundings below make the race concrete: a transparent cipher, a proof that needs a refresh,
  Silicon Accounts answering the refresh, and the account revoking its access in the meantime.
\<close>

definition plain_crates :: "unit vault_crates" where
  "plain_crates =
     \<lparr>vc_nonce = State_Monad.return (replicate 24 CHR ''n''),
      vc_encrypt = (\<lambda>key nonce context plain. Some (plain @ replicate 16 CHR ''t'')),
      vc_decrypt = (\<lambda>key nonce context cipher. Some (take (length cipher - 16) cipher)),
      vc_hmac = (\<lambda>key v. None)\<rparr>"

definition race_app :: string where "race_app = ''briefcase''"

definition race_account :: uuid where "race_account = 1"

definition race_proofs :: "unit storage_proofs" where
  "race_proofs =
     \<lparr>sp_vault = Vault [], sp_receiving_app = race_app, sp_vault_crates = plain_crates,
      sp_issue = (\<lambda>_ _ _ _. throw proof_error.Unavailable),
      sp_refresh = (\<lambda>_ _. done_with
        \<lparr>is_proof_id = ''p1'', is_proof_token = ''sap_2'', is_expires_at = Some (int (secs 7200)),
         is_proof_refresh_token = None, is_refresh_expires_at = None, is_scopes = BRIEFCASE_SCOPES\<rparr>),
      sp_revoke_proof = (\<lambda>_. done_with ()), sp_now_utc = State_Monad.return (int (secs 3600)),
      sp_db_now = State_Monad.return (int (secs 3600)), sp_fault = State_Monad.return False,
      sp_commit = State_Monad.return Committed, sp_other_sessions = State_Monad.return (),
      sp_uuid_bytes = (\<lambda>_. []), sp_uuid_text = (\<lambda>_. ''u''), sp_sha256 = id, sp_base64url = id\<rparr>"

definition race_refresh_cipher :: bytes where
  "race_refresh_cipher = replicate 24 CHR ''n'' @ ''sapr_1'' @ replicate 16 CHR ''t''"

definition race_row :: proof_row where
  "race_row =
     \<lparr>pr_proof_id = ''p1'', pr_scopes = BRIEFCASE_SCOPES,
      pr_token_cipher = replicate 24 CHR ''n'' @ ''sap_1'' @ replicate 16 CHR ''t'',
      pr_token_expires_at = int (secs 3600),
      pr_refresh_cipher = Some race_refresh_cipher,
      pr_refresh_expires_at = None, pr_updated_at = 0, pr_invalidated_at = None,
      pr_invalidated_reason = None\<rparr>"

definition race_state :: "unit proof_state" where
  "race_state = \<lparr>px_table = fmupd (race_account, race_app) race_row fmempty, px_written = None,
     px_aborted = False, px_world = ()\<rparr>"

text \<open>The account's own revocation, as another session runs it.\<close>

definition race_revocation :: "unit \<Rightarrow> (uuid \<times> string \<times> instant) list" where
  "race_revocation _ = [(race_account, ''revoked_by_account'', int (secs 3600))]"

definition race_actor :: authorized_actor where
  "race_actor = \<lparr>aa_actor = \<lparr>act_kind = Carbon, act_id = ActorId race_account\<rparr>,
     aa_account = \<lparr>ref_uuid = AccountUuid ''a'', ref_id = ''c:a''\<rparr>, originating_application = None,
     aa_expires_at = None, aa_scopes = [], token_family = None\<rparr>"

lemma race_revokes:
  "revoked_on_purpose race_proofs race_account
     (px_table (other_revocations race_proofs (race_revocation ()) race_state))"
  by (simp add: revoked_on_purpose_def race_revocation_def revoke_row_def race_state_def race_proofs_def
      race_row_def ended_def is_explicit_def EXPLICIT_REVOCATIONS_def)

abbreviation race_store :: "unit storage_proofs" where
  "race_store \<equiv> with_revocations race_revocation race_proofs"

definition race_issued :: issued_proof where
  "race_issued = \<lparr>is_proof_id = ''p1'', is_proof_token = ''sap_2'', is_expires_at = Some (int (secs 7200)),
     is_proof_refresh_token = None, is_refresh_expires_at = None, is_scopes = BRIEFCASE_SCOPES\<rparr>"

definition race_revoked :: "unit proof_state" where
  "race_revoked = other_revocations race_proofs (race_revocation ()) race_state"

definition race_refreshed :: proof_row where
  "race_refreshed =
     \<lparr>pr_proof_id = ''p1'', pr_scopes = BRIEFCASE_SCOPES,
      pr_token_cipher = replicate 24 CHR ''n'' @ ''sap_2'' @ replicate 16 CHR ''t'',
      pr_token_expires_at = int (secs 7200), pr_refresh_cipher = None, pr_refresh_expires_at = None,
      pr_updated_at = int (secs 3600), pr_invalidated_at = None, pr_invalidated_reason = None\<rparr>"

lemma race_store_simps [simp]:
  "sp_fault race_store = State_Monad.return False" "sp_commit race_store = State_Monad.return Committed"
  "sp_receiving_app race_store = race_app" "sp_vault_crates race_store = plain_crates"
  "sp_now_utc race_store = State_Monad.return (int (secs 3600))"
  "sp_db_now race_store = State_Monad.return (int (secs 3600))"
  "sp_refresh race_store x y = done_with race_issued" "sp_vault race_store = Vault []"
  "sp_other_sessions race_store = State (\<lambda>s. ((), other_revocations race_proofs (race_revocation (px_world s)) s))"
  by (simp_all add: with_revocations_def race_proofs_def race_issued_def)

lemma race_state_simps [simp]:
  "px_written race_state = None" "px_aborted race_state = False" "px_world race_state = ()"
  "fmlookup (px_table race_state) (race_account, race_app) = Some race_row"
  "px_written race_revoked = None" "px_aborted race_revoked = False"
  by (simp_all add: race_state_def race_revoked_def race_revocation_def revoke_row_def)

lemma race_world [simp]: "(s :: unit proof_state)\<lparr>px_world := ()\<rparr> = s"
  by simp

lemma race_begin: "run_state (begin_locked race_store) race_state = (Ok (), race_state)"
  by (simp add: begin_locked_def run_single_statement run_state_return)

lemma race_live: "run_state (live_row race_store race_account) race_state = (Ok (Some race_row), race_state)"
  by (simp add: live_row_def run_statement run_state_return row_seen_def)
    (simp add: race_row_def race_state_def)

lemma race_refresh:
  "run_state (ask_refresh race_store race_account
     race_refresh_cipher) race_state = (Ok (Ok race_issued), race_revoked)"
proof -
  have "open_sealed plain_crates (Vault []) race_refresh_cipher ctx =
      Ok ''sapr_1''" for ctx
    by (simp add: race_refresh_cipher_def open_sealed_def plain_crates_def utf8_valid_ascii is_ascii_def byte_def)
  then show ?thesis
    by (simp add: ask_refresh_def ask_accounts_def run_simps race_revoked_def)
qed

lemma race_save:
  "\<exists>p. run_state (save race_store race_account race_issued) race_revoked =
     (Ok p, race_revoked\<lparr>px_written := Some race_refreshed\<rparr>)"
proof -
  have "proof_token_new ''sap_2'' = Ok (ProofToken (OpaqueCredential ''sap_2''))"
    and "char_count ''p1'' = 2"
    by code_simp+
  then show ?thesis
    by (simp add: save_def upsert_row_def seal_def or_unavailable_def run_simps run_statement
        race_issued_def plain_crates_def proof_secret_def race_refreshed_def)
qed

lemma race_stored:
  "\<exists>p. run_state (stored race_store race_account) race_state =
     (Ok (Some p), race_revoked\<lparr>px_written := Some race_refreshed\<rparr>)"
proof -
  have "\<not> has_time (int (secs 3600)) race_row"
    and "usable_refresh (int (secs 3600)) race_row =
      Some race_refresh_cipher"
    by (simp_all add: has_time_def usable_refresh_def race_row_def)
  then show ?thesis using race_save
    by (auto simp: stored_def run_try_call race_live run_state_bind run_in_world run_state_return
        race_refresh run_done_with)
qed

text \<open>
  The race is there. The account's revocation arrives while a request refreshes the account's
  proof; it is recorded as decided by the account, and yet the request ends with a proof and the
  account's row is live again, as if nobody had revoked.
\<close>

theorem revocation_during_refresh_is_lost:
  "revoked_on_purpose race_proofs race_account
     (px_table (other_revocations race_proofs (race_revocation ()) race_state)) \<and>
   (let (answer, s) = run_state (storage_briefcase_proof (with_revocations race_revocation race_proofs)
          race_actor None) race_state
    in is_ok answer \<and>
       (\<exists>r. fmlookup (px_table s) (race_account, race_app) = Some r \<and> pr_invalidated_at r = None))"
proof -
  obtain p where "run_state (stored race_store race_account) race_state =
     (Ok (Some p), race_revoked\<lparr>px_written := Some race_refreshed\<rparr>)"
    using race_stored by blast
  then have "\<exists>s. run_state (storage_briefcase_proof race_store race_actor None) race_state = (Ok p, s) \<and>
      fmlookup (px_table s) (race_account, race_app) = Some race_refreshed"
    by (simp add: storage_briefcase_proof_def storage_key_of_def race_actor_def run_try_call race_begin
        or_rollback_def run_state_bind run_done_with run_commit run_state_return run_lift_result
        apply_written_def rolled_back_def)
  then show ?thesis using race_revokes by (auto simp: race_refreshed_def)
qed

section \<open>Witnesses\<close>

lemma explicit_revocation_sticks_witness:
  "fst (run_state (storage_briefcase_proof race_proofs race_actor (Some (AccessToken (OpaqueCredential ''t'')))) race_revoked)
     \<in> {Err storage_authority_error.NotAuthorized, Err storage_authority_error.Unavailable}"
  using explicit_revocation_sticks [of race_proofs race_actor race_revoked] race_revokes
  by (simp add: race_revoked_def storage_key_of_def race_actor_def)

lemma race_answer: "\<exists>p s. run_state (storage_briefcase_proof race_store race_actor None) race_state = (Ok p, s) \<and>
    bp_expires_at p = int (secs 7200)"
proof -
  obtain p where p: "run_state (stored race_store race_account) race_state =
     (Ok (Some p), race_revoked\<lparr>px_written := Some race_refreshed\<rparr>)"
    using race_stored by blast
  then have "seen_held race_store race_account p (race_revoked\<lparr>px_written := Some race_refreshed\<rparr>)"
    by (intro stored_Ok) (simp_all add: cipher_laws_def plain_crates_def run_state_return)
  then have "bp_expires_at p = int (secs 7200)"
    by (simp add: seen_held_def row_seen_def row_holds_def race_refreshed_def)
  then show ?thesis using p
    by (simp add: storage_briefcase_proof_def storage_key_of_def race_actor_def run_try_call race_begin
        or_rollback_def run_state_bind run_done_with run_commit run_state_return run_lift_result
        apply_written_def rolled_back_def)
qed

lemma answered_proof_is_reused_witness:
  "\<exists>p s. run_state (storage_briefcase_proof race_store race_actor None) race_state = (Ok p, s) \<and>
     fst (run_state (storage_briefcase_proof race_store race_actor None) s) = Ok p"
proof -
  obtain p s where run: "run_state (storage_briefcase_proof race_store race_actor None) race_state = (Ok p, s)"
    and expires: "bp_expires_at p = int (secs 7200)"
    using race_answer by blast
  have "cipher_laws (sp_vault_crates race_store)"
    by (simp add: cipher_laws_def plain_crates_def run_state_return)
  from answered_proof_is_reused [OF this run refl, of None] show ?thesis
    using run expires by (auto simp: run_state_return MINIMUM_REMAINING_def secs_def)
qed

end
