(* ===== verification/Held_Audio.thy ===== *)
theory Held_Audio
  imports Ports "HOL-Library.Finite_Map"
begin

text \<open>
  \<open>src/src/infrastructure/held_audio.rs\<close>: the speech Waveform keeps itself, by request, in a table
  that is a finite map from request ids to rows. Every operation is one statement: it either fails
  (a fault) or takes effect at one reading of the database clock.
\<close>

section \<open>Table and operations\<close>

record held_row =
  hr_owner :: uuid
  hr_filename :: string
  hr_media_type :: string
  hr_audio :: bytes
  hr_reason :: string
  hr_expires_at :: instant

type_synonym held_table = "(uuid, held_row) fmap"

record held_audio_file =
  hf_filename :: string
  hf_media_type :: string
  hf_bytes :: bytes
  hf_expires_at :: instant

text \<open>\<open>PostgresHeldAudio\<close>: the retention, and \<open>PgInterval::try_from\<close> of it (in nanoseconds).\<close>

record postgres_held_audio =
  ph_retention :: duration
  ph_interval :: "duration \<Rightarrow> int option"

record held_env =
  he_now :: instant
  he_fault :: bool

text \<open>The checks of the table on a row.\<close>

definition held_row_allowed :: "instant \<Rightarrow> held_row \<Rightarrow> bool" where
  "held_row_allowed now r \<longleftrightarrow>
     1 \<le> char_count (hr_filename r) \<and> char_count (hr_filename r) \<le> 255 \<and>
     1 \<le> length (hr_audio r) \<and> length (hr_audio r) \<le> 26214400 \<and> hr_expires_at r > now"

text \<open>
  \<open>INSERT ... ON CONFLICT (request_id) DO UPDATE SET audio, reason WHERE storage_actor_id = ...\<close>: a
  second hold of the same request by the same owner replaces the audio and keeps the end.
\<close>

definition pg_hold ::
    "postgres_held_audio \<Rightarrow> held_env \<Rightarrow> held_audio \<Rightarrow> held_table \<Rightarrow>
     (instant, held_audio_error) result \<times> held_table" where
  "pg_hold H E a t =
     (case ph_interval H (ph_retention H) of
        None \<Rightarrow> (Err HeldAudioError, t)
      | Some retention \<Rightarrow>
          let key = request_uuid (ha_request_id a);
              new = \<lparr>hr_owner = actor_uuid (ha_owner a), hr_filename = file_name_str (ha_filename a),
                     hr_media_type = ''audio/mpeg'', hr_audio = na_bytes (ha_audio a),
                     hr_reason = held_reason_as_str (ha_reason a), hr_expires_at = he_now E + retention\<rparr>
          in if he_fault E \<or> \<not> held_row_allowed (he_now E) new then (Err HeldAudioError, t)
             else case fmlookup t key of
                 None \<Rightarrow> (Ok (hr_expires_at new), fmupd key new t)
               | Some old \<Rightarrow>
                   if hr_owner old = hr_owner new
                   then (Ok (hr_expires_at old),
                         fmupd key (old\<lparr>hr_audio := hr_audio new, hr_reason := hr_reason new\<rparr>) t)
                   else (Err HeldAudioError, t))"

text \<open>The row of a request, for its owner and before it ends.\<close>

definition visible_row :: "held_env \<Rightarrow> uuid \<Rightarrow> uuid \<Rightarrow> held_table \<Rightarrow> held_row option" where
  "visible_row E rid owner t =
     (case fmlookup t rid of
        Some r \<Rightarrow> if hr_owner r = owner \<and> hr_expires_at r > he_now E then Some r else None
      | None \<Rightarrow> None)"

definition pg_is_held ::
    "held_env \<Rightarrow> request_id \<Rightarrow> actor_id \<Rightarrow> held_table \<Rightarrow> (bool, held_audio_error) result" where
  "pg_is_held E rid owner t =
     (if he_fault E then Err HeldAudioError
      else Ok (visible_row E (request_uuid rid) (actor_uuid owner) t \<noteq> None))"

definition pg_fetch ::
    "held_env \<Rightarrow> uuid \<Rightarrow> uuid \<Rightarrow> held_table \<Rightarrow> (held_audio_file option, sqlx_error) result" where
  "pg_fetch E rid owner t =
     (if he_fault E then Err SqlxError
      else Ok (map_option (\<lambda>r. \<lparr>hf_filename = hr_filename r, hf_media_type = hr_media_type r,
          hf_bytes = hr_audio r, hf_expires_at = hr_expires_at r\<rparr>) (visible_row E rid owner t)))"

text \<open>
  A bounded batch of expired rows, in the order of their end: at most \<open>batch\<close> of them go, and any
  choice the database makes removes only rows that have ended. The chosen ids are a parameter that
  the statement restricts to ended rows.
\<close>

definition pg_delete_expired_audio ::
    "held_env \<Rightarrow> nat \<Rightarrow> uuid list \<Rightarrow> held_table \<Rightarrow> (nat, sqlx_error) result \<times> held_table" where
  "pg_delete_expired_audio E batch chosen t =
     (let gone = take batch (filter (\<lambda>k. case fmlookup t k of Some r \<Rightarrow> hr_expires_at r \<le> he_now E | None \<Rightarrow> False)
            (remdups chosen))
      in if he_fault E then (Err SqlxError, t)
         else (Ok (length gone), fmfilter (\<lambda>k. k \<notin> set gone) t))"

section \<open>A contract for held audio\<close>

text \<open>
  What the service and the audio route rely on, over any state: a successful hold makes the audio
  visible to its owner, and to nobody else, until the end it answers, and neither a failed hold nor
  any hold of another request nor the cleaner changes what is visible.
\<close>

locale held_store =
  fixes hold :: "held_env \<Rightarrow> held_audio \<Rightarrow> 's \<Rightarrow> (instant, held_audio_error) result \<times> 's"
    and visible :: "held_env \<Rightarrow> uuid \<Rightarrow> uuid \<Rightarrow> 's \<Rightarrow> (bytes \<times> instant) option"
    and clean :: "held_env \<Rightarrow> nat \<Rightarrow> uuid list \<Rightarrow> 's \<Rightarrow> 's"
  assumes hold_visible: "hold E a s = (Ok ends, s') \<Longrightarrow> he_now E' < ends \<Longrightarrow>
      visible E' (request_uuid (ha_request_id a)) (actor_uuid (ha_owner a)) s' = Some (na_bytes (ha_audio a), ends)"
    and visible_before_end: "visible E rid owner s = Some (audio, ends) \<Longrightarrow> he_now E < ends"
    and visible_owner: "visible E rid owner s \<noteq> None \<Longrightarrow> visible E' rid other s \<noteq> None \<Longrightarrow> other = owner"
    and visible_later: "visible E rid owner s = Some (audio, ends) \<Longrightarrow> he_now E' < ends \<Longrightarrow>
      visible E' rid owner s = Some (audio, ends)"
    and other_hold_keeps: "visible E rid owner s = Some (audio, ends) \<Longrightarrow>
      \<not> (request_uuid (ha_request_id a) = rid \<and> actor_uuid (ha_owner a) = owner) \<Longrightarrow>
      visible E rid owner (snd (hold E' a s)) = Some (audio, ends)"
    and clean_keeps: "visible E rid owner s = Some (audio, ends) \<Longrightarrow> he_now E' < ends \<Longrightarrow>
      visible E rid owner (clean E' batch chosen s) = Some (audio, ends)"
begin

text \<open>What others do: hold audio of other requests, try to hold under this one, clean.\<close>

fun others_run :: "(held_env \<times> (held_audio + nat \<times> uuid list)) list \<Rightarrow> 's \<Rightarrow> 's" where
  "others_run [] s = s"
| "others_run ((E, Inl a) # rest) s = others_run rest (snd (hold E a s))"
| "others_run ((E, Inr (batch, chosen)) # rest) s = others_run rest (clean E batch chosen s)"

definition foreign :: "uuid \<Rightarrow> uuid \<Rightarrow> instant \<Rightarrow> held_env \<times> (held_audio + nat \<times> uuid list) \<Rightarrow> bool" where
  "foreign rid owner ends step \<longleftrightarrow>
     (case step of
        (E, Inl a) \<Rightarrow> \<not> (request_uuid (ha_request_id a) = rid \<and> actor_uuid (ha_owner a) = owner)
      | (E, Inr _) \<Rightarrow> he_now E < ends)"

lemma others_keep:
  "visible E rid owner s = Some (audio, ends) \<Longrightarrow> list_all (foreign rid owner ends) steps \<Longrightarrow>
     visible E rid owner (others_run steps s) = Some (audio, ends)"
  by (induction steps s rule: others_run.induct)
    (auto simp: foreign_def intro: other_hold_keeps clean_keeps)

lemma held_until_end:
  assumes "hold E a s = (Ok ends, s')" "list_all (foreign (request_uuid (ha_request_id a))
      (actor_uuid (ha_owner a)) ends) steps" "he_now E' < ends"
  shows "visible E' (request_uuid (ha_request_id a)) (actor_uuid (ha_owner a)) (others_run steps s') =
      Some (na_bytes (ha_audio a), ends)"
    and "other \<noteq> actor_uuid (ha_owner a) \<Longrightarrow>
      visible E'' (request_uuid (ha_request_id a)) other (others_run steps s') = None"
proof -
  show v: "visible E' (request_uuid (ha_request_id a)) (actor_uuid (ha_owner a)) (others_run steps s') =
      Some (na_bytes (ha_audio a), ends)"
    by (rule others_keep [OF hold_visible [OF assms(1,3)] assms(2)])
  show "visible E'' (request_uuid (ha_request_id a)) other (others_run steps s') = None"
    if "other \<noteq> actor_uuid (ha_owner a)"
    using visible_owner [of E' _ _ _ E'' other] v that by blast
qed

end

section \<open>The table meets the contract\<close>

definition visible_audio :: "held_env \<Rightarrow> uuid \<Rightarrow> uuid \<Rightarrow> held_table \<Rightarrow> (bytes \<times> instant) option" where
  "visible_audio E rid owner t = map_option (\<lambda>r. (hr_audio r, hr_expires_at r)) (visible_row E rid owner t)"

definition clean_audio :: "held_env \<Rightarrow> nat \<Rightarrow> uuid list \<Rightarrow> held_table \<Rightarrow> held_table" where
  "clean_audio E batch chosen t = snd (pg_delete_expired_audio E batch chosen t)"

lemma pg_hold_Ok:
  "pg_hold H E a t = (Ok ends, t') \<Longrightarrow> \<exists>r. fmlookup t' (request_uuid (ha_request_id a)) = Some r \<and>
     hr_owner r = actor_uuid (ha_owner a) \<and> hr_audio r = na_bytes (ha_audio a) \<and> hr_expires_at r = ends"
  by (auto simp: pg_hold_def Let_def split: option.splits if_splits)

interpretation pg_held: held_store "pg_hold H" visible_audio clean_audio for H
proof unfold_locales
  fix E E' :: held_env and a :: held_audio and s s' :: held_table and ends :: instant
  assume "pg_hold H E a s = (Ok ends, s')" "he_now E' < ends"
  then show "visible_audio E' (request_uuid (ha_request_id a)) (actor_uuid (ha_owner a)) s' =
      Some (na_bytes (ha_audio a), ends)"
    by (auto simp: visible_audio_def visible_row_def dest: pg_hold_Ok)
next
  fix E E' :: held_env and rid owner :: uuid and s :: held_table and audio :: bytes
    and ends :: instant and a :: held_audio
  assume "visible_audio E rid owner s = Some (audio, ends)"
    "\<not> (request_uuid (ha_request_id a) = rid \<and> actor_uuid (ha_owner a) = owner)"
  then show "visible_audio E rid owner (snd (pg_hold H E' a s)) = Some (audio, ends)"
    by (auto simp: visible_audio_def visible_row_def pg_hold_def Let_def split: option.splits if_splits)
next
  fix E E' :: held_env and rid owner :: uuid and s :: held_table and audio :: bytes
    and ends :: instant and batch :: nat and chosen :: "uuid list"
  assume "visible_audio E rid owner s = Some (audio, ends)" "he_now E' < ends"
  then show "visible_audio E rid owner (clean_audio E' batch chosen s) = Some (audio, ends)"
    by (auto simp: visible_audio_def visible_row_def clean_audio_def pg_delete_expired_audio_def Let_def
        split: option.splits if_splits dest!: in_set_takeD)
qed (auto simp: visible_audio_def visible_row_def split: option.splits if_splits)

end
