(* ===== verification/Directory_Store.thy ===== *)
theory Directory_Store
  imports Storage_Proofs "HOL-Library.List_Lexorder" "HOL-Library.Char_ord"
begin

text \<open>
  The tables behind Waveform's account directory and what one transaction does to them:
  the SQL of \<open>src/src/infrastructure/directory.rs\<close>, \<open>src/src/infrastructure/directory_sweep.rs\<close> and
  \<open>src/src/control/webhooks.rs\<close>. A table is a finite map from its primary key. A transaction is a
  function of the database and of \<open>now()\<close>, the start of the transaction; its result is an error, which
  leaves the tables as they were, or an answer and the new tables. \<open>NULL\<close> is \<open>None\<close>.
\<close>

section \<open>Rows\<close>

record key_row =
  kr_storage_key :: uuid
  kr_kind :: actor_kind
  kr_source :: string

record account_row =
  ac_kind :: actor_kind
  ac_current_id :: "string option"
  ac_display_name :: "string option"
  ac_pfp_url :: "string option"
  ac_custodian_uuid :: "string option"
  ac_custodian_id :: "string option"
  ac_profile_version :: int
  ac_id_changed_at :: "instant option"
  ac_custodian_changed_at :: "instant option"
  ac_custodian_checked_at :: "instant option"
  ac_revoked_before :: "instant option"
  ac_revoked_reason :: "string option"
  ac_deleted_at :: "instant option"
  ac_looked_up_at :: "instant option"

record pending_row =
  pe_revoked_before :: instant
  pe_revoked_reason :: string
  pe_deleted_at :: "instant option"
  pe_updated_at :: instant

text \<open>The tables whose rows belong to a storage key and go with the account.\<close>

datatype owned_table =
    ProviderKeysTable | PreferencesTable | JobsTable | IdempotencyTable | HeldAudioTable
  | BugReportsTable | ActorKeysTable | IdentityLinksTable

text \<open>
  The Briefcase proofs are in the order in which a scan meets them (\<open>LIMIT 1\<close> takes the first row
  that fits); the rows of the other owned tables only matter by their owner.
\<close>

record directory_db =
  dd_keys :: "(string, key_row) fmap"
  dd_accounts :: "(string, account_row) fmap"
  dd_pending :: "(string, pending_row) fmap"
  dd_migrated :: "string fset"
  dd_events :: "(string, string) fmap"
  dd_proofs :: "((uuid \<times> string) \<times> proof_row) list"
  dd_owned :: "(owned_table \<times> uuid) list"

datatype key_source = SignIn | Proof | Lookup

fun key_source_as_str :: "key_source \<Rightarrow> string" where
  "key_source_as_str key_source.SignIn = ''sign_in''"
| "key_source_as_str key_source.Proof = ''proof''"
| "key_source_as_str key_source.Lookup = ''lookup''"

section \<open>SQL\<close>

definition coalesce :: "'a option \<Rightarrow> 'a option \<Rightarrow> 'a option" where
  "coalesce a b = (case a of Some x \<Rightarrow> Some x | None \<Rightarrow> b)"

text \<open>\<open>GREATEST\<close> ignores \<open>NULL\<close>.\<close>

definition greatest :: "instant option \<Rightarrow> instant option \<Rightarrow> instant option" where
  "greatest a b =
     (case (a, b) of (Some x, Some y) \<Rightarrow> Some (max x y) | (None, b) \<Rightarrow> b | (a, None) \<Rightarrow> a)"

definition nullif_empty :: "string \<Rightarrow> string option" where
  "nullif_empty s = (if s = [] then None else Some s)"

text \<open>\<open>a >= b\<close>, not true when \<open>a\<close> is \<open>NULL\<close>.\<close>

definition at_or_after :: "instant option \<Rightarrow> instant \<Rightarrow> bool" where
  "at_or_after a b \<longleftrightarrow> (case a of Some t \<Rightarrow> t \<ge> b | None \<Rightarrow> False)"

lemma coalesce_simps [simp]: "coalesce (Some x) b = Some x" "coalesce None b = b"
  by (simp_all add: coalesce_def)

lemma greatest_simps [simp]:
  "greatest None b = b" "greatest a None = a" "greatest (Some x) (Some y) = Some (max x y)"
  by (auto simp: greatest_def split: option.splits)

lemma at_or_after_simps [simp]: "\<not> at_or_after None b" "at_or_after (Some t) b \<longleftrightarrow> b \<le> t"
  by (simp_all add: at_or_after_def)

text \<open>The checks of \<open>waveform_accounts\<close>.\<close>

definition is_lower_hex :: "char \<Rightarrow> bool" where
  "is_lower_hex c \<longleftrightarrow> is_ascii_digit c \<or> 97 \<le> byte c \<and> byte c \<le> 102"

definition db_uuid_allowed :: "string \<Rightarrow> bool" where
  "db_uuid_allowed s \<longleftrightarrow>
     (1 \<le> length s \<and> length s \<le> 64 \<and> list_all is_ascii_alphanumeric s) \<or>
     (length s = 36 \<and> list_all (\<lambda>(i, c). if i \<in> {8, 13, 18, 23} then c = CHR ''-'' else is_lower_hex c)
        (enumerate 0 s))"

definition account_row_allowed :: "account_row \<Rightarrow> bool" where
  "account_row_allowed r \<longleftrightarrow>
     pred_option (\<lambda>s. 3 \<le> char_count s \<and> char_count s \<le> 128) (ac_current_id r) \<and>
     pred_option (\<lambda>s. char_count s \<le> 256) (ac_display_name r) \<and>
     pred_option (\<lambda>s. char_count s \<le> 2048) (ac_pfp_url r) \<and>
     pred_option db_uuid_allowed (ac_custodian_uuid r) \<and>
     (ac_kind r = Silicon \<or> ac_custodian_uuid r = None)"

definition new_account_row :: "actor_kind \<Rightarrow> string option \<Rightarrow> instant option \<Rightarrow> account_row" where
  "new_account_row kind current_id id_changed_at =
     \<lparr>ac_kind = kind, ac_current_id = current_id, ac_display_name = None, ac_pfp_url = None,
      ac_custodian_uuid = None, ac_custodian_id = None, ac_profile_version = 0,
      ac_id_changed_at = id_changed_at, ac_custodian_changed_at = None, ac_custodian_checked_at = None,
      ac_revoked_before = None, ac_revoked_reason = None, ac_deleted_at = None,
      ac_looked_up_at = None\<rparr>"

text \<open>\<open>UPDATE waveform_accounts SET ... WHERE account_uuid = $1 AND ...\<close>, with \<open>rows_affected() == 1\<close>.\<close>

definition update_account ::
    "string \<Rightarrow> (account_row \<Rightarrow> bool) \<Rightarrow> (account_row \<Rightarrow> account_row) \<Rightarrow> directory_db \<Rightarrow>
     (bool \<times> directory_db, sqlx_error) result" where
  "update_account uuid cond f db =
     (case fmlookup (dd_accounts db) uuid of
        Some r \<Rightarrow>
          if cond r then
            (if account_row_allowed (f r) then Ok (True, db\<lparr>dd_accounts := fmupd uuid (f r) (dd_accounts db)\<rparr>)
             else Err SqlxError)
          else Ok (False, db)
      | None \<Rightarrow> Ok (False, db))"

text \<open>\<open>UPDATE waveform_accounts SET custodian_id = $2 WHERE custodian_uuid = $1\<close>.\<close>

definition rename_custodian :: "string \<Rightarrow> string \<Rightarrow> directory_db \<Rightarrow> directory_db" where
  "rename_custodian uuid public_id db =
     db\<lparr>dd_accounts := fmmap (\<lambda>r. if ac_custodian_uuid r = Some uuid
        then r\<lparr>ac_custodian_id := Some public_id\<rparr> else r) (dd_accounts db)\<rparr>"

section \<open>Reading an account\<close>

record account_record =
  cr_uuid :: account_uuid
  cr_storage_key :: uuid
  cr_kind :: actor_kind
  cr_current_id :: "string option"
  cr_display_name :: "string option"
  cr_pfp_url :: "string option"
  cr_custodian :: "(string \<times> string) option"
  cr_custodian_checked_at :: "instant option"
  cr_revoked_before :: "instant option"
  cr_revoked_reason :: "string option"
  cr_deleted_at :: "instant option"

text \<open>\<open>custodian_is\<close> and \<open>custodian_checked_within\<close> at a reading of the clock.\<close>

definition custodian_is :: "account_record \<Rightarrow> account_uuid \<Rightarrow> bool" where
  "custodian_is r carbon \<longleftrightarrow>
     cr_kind r = Silicon \<and> cr_deleted_at r = None \<and>
     (case cr_custodian r of Some (uuid, _) \<Rightarrow> uuid = account_uuid_str carbon | None \<Rightarrow> False)"

definition custodian_checked_within :: "instant \<Rightarrow> duration \<Rightarrow> account_record \<Rightarrow> bool" where
  "custodian_checked_within now limit r \<longleftrightarrow>
     (case cr_custodian_checked_at r of Some checked \<Rightarrow> now - checked < int limit | None \<Rightarrow> False)"

text \<open>A row of \<open>SELECT_RECORD\<close>: the key joined with the account and the pending event, if any.\<close>

definition record_of ::
    "uuid_crate \<Rightarrow> string \<Rightarrow> key_row \<Rightarrow> account_row option \<Rightarrow> pending_row option \<Rightarrow>
     (account_record, sqlx_error) result" where
  "record_of U uuid k a p =
     (let revoked = Option.bind a ac_revoked_before; pending = map_option pe_revoked_before p in
      and_then (map_err (\<lambda>_. DecodeError) (account_uuid_from_str U uuid)) (\<lambda>u.
      Ok \<lparr>cr_uuid = u, cr_storage_key = kr_storage_key k, cr_kind = kr_kind k,
          cr_current_id = Option.bind a ac_current_id,
          cr_display_name = Option.bind a ac_display_name,
          cr_pfp_url = Option.bind a ac_pfp_url,
          cr_custodian = map_option (\<lambda>c. (c, case Option.bind a ac_custodian_id of Some i \<Rightarrow> i | None \<Rightarrow> []))
            (Option.bind a ac_custodian_uuid),
          cr_custodian_checked_at = Option.bind a ac_custodian_checked_at,
          cr_revoked_before = greatest revoked pending,
          cr_revoked_reason =
            (if (case pending of Some q \<Rightarrow> (case revoked of Some r \<Rightarrow> q > r | None \<Rightarrow> True) | None \<Rightarrow> False)
             then map_option pe_revoked_reason p else Option.bind a ac_revoked_reason),
          cr_deleted_at = coalesce (Option.bind a ac_deleted_at) (Option.bind p pe_deleted_at)\<rparr>))"

definition load_row :: "uuid_crate \<Rightarrow> string \<Rightarrow> directory_db \<Rightarrow> (account_record option, sqlx_error) result" where
  "load_row U uuid db =
     (case fmlookup (dd_keys db) uuid of
        None \<Rightarrow> Ok None
      | Some k \<Rightarrow> map_ok Some (record_of U uuid k (fmlookup (dd_accounts db) uuid)
          (fmlookup (dd_pending db) uuid)))"

text \<open>\<open>WHERE k.storage_actor_id = $1\<close>; the column is unique.\<close>

definition key_owner :: "uuid \<Rightarrow> directory_db \<Rightarrow> string option" where
  "key_owner key db =
     (case sorted_list_of_fset (ffilter (\<lambda>u. case fmlookup (dd_keys db) u of
          Some k \<Rightarrow> kr_storage_key k = key | None \<Rightarrow> False) (fmdom (dd_keys db))) of
        u # _ \<Rightarrow> Some u
      | [] \<Rightarrow> None)"

definition load_by_storage_key ::
    "uuid_crate \<Rightarrow> uuid \<Rightarrow> directory_db \<Rightarrow> (account_record option, sqlx_error) result" where
  "load_by_storage_key U key db =
     (case key_owner key db of None \<Rightarrow> Ok None | Some uuid \<Rightarrow> load_row U uuid db)"

section \<open>Deleting an account\<close>

datatype purge = Purged "string option" | Recorded

text \<open>The row of an event about an account that was not seen yet: a new one, or merged with an earlier one.\<close>

definition new_pending :: "instant \<Rightarrow> instant \<Rightarrow> string \<Rightarrow> bool \<Rightarrow> pending_row" where
  "new_pending now at reason deleted =
     \<lparr>pe_revoked_before = at, pe_revoked_reason = reason,
      pe_deleted_at = (if deleted then Some at else None), pe_updated_at = now\<rparr>"

definition merge_pending :: "pending_row \<Rightarrow> pending_row \<Rightarrow> pending_row" where
  "merge_pending p new =
     \<lparr>pe_revoked_before = max (pe_revoked_before p) (pe_revoked_before new),
      pe_revoked_reason = (if pe_deleted_at new \<noteq> None \<or> pe_revoked_before new \<ge> pe_revoked_before p
        then pe_revoked_reason new else pe_revoked_reason p),
      pe_deleted_at = coalesce (pe_deleted_at p) (pe_deleted_at new),
      pe_updated_at = pe_updated_at new\<rparr>"

definition record_pending_event ::
    "instant \<Rightarrow> string \<Rightarrow> instant \<Rightarrow> string \<Rightarrow> bool \<Rightarrow> directory_db \<Rightarrow> directory_db" where
  "record_pending_event now uuid at reason deleted db =
     (let new = new_pending now at reason deleted in
      db\<lparr>dd_pending := fmupd uuid
        (case fmlookup (dd_pending db) uuid of None \<Rightarrow> new | Some p \<Rightarrow> merge_pending p new)
        (dd_pending db)\<rparr>)"

text \<open>The row that stays of a deleted account.\<close>

definition tombstone :: "instant \<Rightarrow> account_row \<Rightarrow> account_row" where
  "tombstone at r =
     r\<lparr>ac_deleted_at := coalesce (ac_deleted_at r) (Some at),
       ac_revoked_before := greatest (coalesce (ac_revoked_before r) (Some at)) (Some at),
       ac_revoked_reason := Some ''account_deleted'', ac_current_id := None, ac_display_name := None,
       ac_pfp_url := None, ac_custodian_uuid := None, ac_custodian_id := None\<rparr>"

text \<open>\<open>SELECT proof_id ... WHERE storage_actor_id=$1 AND invalidated_at IS NULL LIMIT 1\<close>.\<close>

definition live_proof :: "uuid \<Rightarrow> directory_db \<Rightarrow> string option" where
  "live_proof key db = map_option (\<lambda>(_, r). pr_proof_id r)
     (find (\<lambda>((owner, _), r). owner = key \<and> pr_invalidated_at r = None) (dd_proofs db))"

definition delete_owned :: "uuid \<Rightarrow> directory_db \<Rightarrow> directory_db" where
  "delete_owned key db =
     db\<lparr>dd_proofs := filter (\<lambda>((owner, _), _). owner \<noteq> key) (dd_proofs db),
        dd_owned := filter (\<lambda>(_, owner). owner \<noteq> key) (dd_owned db)\<rparr>"

definition purge_account ::
    "instant \<Rightarrow> string \<Rightarrow> instant \<Rightarrow> directory_db \<Rightarrow> (purge \<times> directory_db, sqlx_error) result" where
  "purge_account now uuid at db =
     (case fmlookup (dd_keys db) uuid of
        None \<Rightarrow> Ok (Recorded, record_pending_event now uuid at ''account_deleted'' True db)
      | Some k \<Rightarrow>
          let revoked_proof = live_proof (kr_storage_key k) db in
          and_then (update_account uuid (\<lambda>_. True) (tombstone at) (delete_owned (kr_storage_key k) db))
            (\<lambda>(_, db). Ok (Purged revoked_proof, db\<lparr>dd_pending := fmdrop uuid (dd_pending db)\<rparr>)))"

text \<open>A sign-out kept before the account was first seen becomes its revocation marker.\<close>

definition fold_marker :: "pending_row \<Rightarrow> account_row \<Rightarrow> account_row" where
  "fold_marker p r =
     r\<lparr>ac_revoked_before := greatest (ac_revoked_before r) (Some (pe_revoked_before p)),
       ac_revoked_reason :=
         (if (case ac_revoked_before r of Some t \<Rightarrow> pe_revoked_before p > t | None \<Rightarrow> True)
          then Some (pe_revoked_reason p) else ac_revoked_reason r)\<rparr>"

definition fold_pending_events ::
    "instant \<Rightarrow> string \<Rightarrow> directory_db \<Rightarrow> (unit \<times> directory_db, sqlx_error) result" where
  "fold_pending_events now uuid db =
     (case fmlookup (dd_pending db) uuid of
        None \<Rightarrow> Ok ((), db)
      | Some p \<Rightarrow>
          (case pe_deleted_at p of
             Some at \<Rightarrow> and_then (purge_account now uuid at db) (\<lambda>(_, db). Ok ((), db))
           | None \<Rightarrow>
               and_then (update_account uuid (\<lambda>_. True) (fold_marker p) db) (\<lambda>(_, db).
               Ok ((), db\<lparr>dd_pending := fmdrop uuid (dd_pending db)\<rparr>))))"

section \<open>First sight\<close>

text \<open>\<open>INSERT INTO waveform_account_keys ... ON CONFLICT (account_uuid) DO NOTHING\<close>.\<close>

definition insert_key ::
    "string \<Rightarrow> uuid \<Rightarrow> actor_kind \<Rightarrow> string \<Rightarrow> directory_db \<Rightarrow> (unit \<times> directory_db, sqlx_error) result" where
  "insert_key uuid key kind source db =
     (if fmlookup (dd_keys db) uuid \<noteq> None then Ok ((), db)
      else if key = 0 \<or> \<not> db_uuid_allowed uuid \<or> key_owner key db \<noteq> None then Err SqlxError
      else Ok ((), db\<lparr>dd_keys := fmupd uuid
        \<lparr>kr_storage_key = key, kr_kind = kind, kr_source = source\<rparr> (dd_keys db)\<rparr>))"

text \<open>The insert of the account's row, or the fill of its missing id.\<close>

definition insert_account ::
    "string \<Rightarrow> string option \<Rightarrow> instant option \<Rightarrow> directory_db \<Rightarrow> (unit \<times> directory_db, sqlx_error) result" where
  "insert_account uuid id_hint as_of db =
     (case fmlookup (dd_keys db) uuid of
        None \<Rightarrow> Ok ((), db)
      | Some k \<Rightarrow>
          (case fmlookup (dd_accounts db) uuid of
             None \<Rightarrow>
               let r = new_account_row (kr_kind k) id_hint as_of in
               if account_row_allowed r
               then Ok ((), db\<lparr>dd_accounts := fmupd uuid r (dd_accounts db)\<rparr>)
               else Err SqlxError
           | Some _ \<Rightarrow>
               and_then (update_account uuid
                   (\<lambda>r. ac_current_id r = None \<and> ac_deleted_at r = None \<and> id_hint \<noteq> None)
                   (\<lambda>r. r\<lparr>ac_current_id := id_hint, ac_id_changed_at := coalesce as_of (ac_id_changed_at r)\<rparr>) db)
                 (\<lambda>(_, db). Ok ((), db))))"

definition ensure_rows ::
    "instant \<Rightarrow> uuid \<Rightarrow> string \<Rightarrow> actor_kind \<Rightarrow> string option \<Rightarrow> instant option \<Rightarrow> key_source \<Rightarrow>
     directory_db \<Rightarrow> (unit \<times> directory_db, sqlx_error) result" where
  "ensure_rows now key uuid kind id_hint as_of source db =
     and_then (insert_key uuid key kind (key_source_as_str source) db) (\<lambda>(_, db).
     and_then (insert_account uuid id_hint as_of db) (\<lambda>(_, db).
     fold_pending_events now uuid db))"

section \<open>Ids, custodians and profiles\<close>

definition adopt_id_rows ::
    "string \<Rightarrow> string \<Rightarrow> instant \<Rightarrow> directory_db \<Rightarrow> (bool \<times> directory_db, sqlx_error) result" where
  "adopt_id_rows uuid public_id as_of db =
     and_then (update_account uuid
         (\<lambda>r. ac_deleted_at r = None \<and> ac_current_id r \<noteq> Some public_id \<and>
            (case ac_id_changed_at r of None \<Rightarrow> True | Some t \<Rightarrow> t < as_of))
         (\<lambda>r. r\<lparr>ac_current_id := Some public_id, ac_id_changed_at := Some as_of\<rparr>) db)
       (\<lambda>(adopted, db). Ok (adopted, if adopted then rename_custodian uuid public_id db else db))"

text \<open>
  \<open>store_summary\<close>'s update: \<open>newer\<close> is the start of the lookup less the allowance for skew; what a
  webhook changed since then is kept.
\<close>

definition summary_row ::
    "directory_db \<Rightarrow> instant \<Rightarrow> instant \<Rightarrow> instant \<Rightarrow> string option \<Rightarrow> account_summary \<Rightarrow>
     (string \<times> string) option \<Rightarrow> account_row \<Rightarrow> account_row" where
  "summary_row db now newer started public_id summary custodian r =
     (let silicon = ac_kind r = Silicon;
          id_newer = at_or_after (ac_id_changed_at r) newer;
          custodian_newer = at_or_after (ac_custodian_changed_at r) newer;
          current_of_custodian = Option.bind custodian (\<lambda>(c, _).
            Option.bind (fmlookup (dd_accounts db) c) (\<lambda>cr.
              if at_or_after (ac_id_changed_at cr) newer then ac_current_id cr else None))
      in r\<lparr>ac_current_id := (if id_newer then ac_current_id r else coalesce public_id (ac_current_id r)),
           ac_id_changed_at := (if id_newer \<or> public_id = None then ac_id_changed_at r else Some started),
           ac_display_name := coalesce (nullif_empty (as_display_name summary)) (ac_display_name r),
           ac_pfp_url := coalesce (nullif_empty (as_pfp_url summary)) (ac_pfp_url r),
           ac_custodian_uuid :=
             (if \<not> silicon then None else if custodian_newer then ac_custodian_uuid r
              else coalesce (map_option fst custodian) (ac_custodian_uuid r)),
           ac_custodian_id :=
             (if \<not> silicon then None else if custodian_newer then ac_custodian_id r
              else coalesce current_of_custodian
                (coalesce (map_option snd custodian) (ac_custodian_id r))),
           ac_custodian_checked_at := (if silicon then Some now else ac_custodian_checked_at r),
           ac_looked_up_at := Some now\<rparr>)"

definition LOOKUP_SKEW :: duration where
  "LOOKUP_SKEW = secs 5"

definition store_summary_rows ::
    "uuid_crate \<Rightarrow> instant \<Rightarrow> string \<Rightarrow> instant \<Rightarrow> account_summary \<Rightarrow> directory_db \<Rightarrow>
     (bool \<times> directory_db, sqlx_error) result" where
  "store_summary_rows U now uuid started summary db =
     (let custodian = (case as_custodian summary of
            Some (c, i) \<Rightarrow> if as_kind summary = Silicon \<and> is_ok (account_uuid_from_str U c)
              then Some (c, i) else None
          | None \<Rightarrow> None)
      in update_account uuid (\<lambda>r. ac_deleted_at r = None)
           (summary_row db now (started - int LOOKUP_SKEW) started (nullif_empty (as_id summary)) summary custodian) db)"

definition note_unknown_rows ::
    "instant \<Rightarrow> string \<Rightarrow> directory_db \<Rightarrow> (bool \<times> directory_db, sqlx_error) result" where
  "note_unknown_rows now uuid = update_account uuid (\<lambda>_. True) (\<lambda>r. r\<lparr>ac_looked_up_at := Some now\<rparr>)"

text \<open>\<open>complete_profile\<close>'s update from the account's own userinfo.\<close>

definition complete_profile_rows ::
    "string \<Rightarrow> string \<Rightarrow> string \<Rightarrow> int \<Rightarrow> directory_db \<Rightarrow> (bool \<times> directory_db, sqlx_error) result" where
  "complete_profile_rows uuid display_name pfp_url version =
     update_account uuid (\<lambda>r. ac_deleted_at r = None \<and> ac_profile_version r \<le> version)
       (\<lambda>r. r\<lparr>ac_display_name := coalesce (nullif_empty display_name) (ac_display_name r),
              ac_pfp_url := coalesce (nullif_empty pfp_url) (ac_pfp_url r),
              ac_profile_version := max (ac_profile_version r) version\<rparr>)"

section \<open>The background check\<close>

definition day :: duration where "day = secs 86400"
definition hour :: duration where "hour = secs 3600"

definition forget_old_pending :: "instant \<Rightarrow> directory_db \<Rightarrow> directory_db" where
  "forget_old_pending now db =
     db\<lparr>dd_pending := fmfilter (\<lambda>u. case fmlookup (dd_pending db) u of
          Some p \<Rightarrow> \<not> pe_updated_at p < now - int (7 * day) | None \<Rightarrow> False) (dd_pending db)\<rparr>"

definition is_due :: "instant \<Rightarrow> account_row \<Rightarrow> bool" where
  "is_due now r \<longleftrightarrow> ac_deleted_at r = None \<and>
     (case ac_looked_up_at r of None \<Rightarrow> True | Some t \<Rightarrow> t < now - int day)"

text \<open>\<open>ORDER BY looked_up_at NULLS FIRST, account_uuid\<close>; rows another replica has locked are skipped.\<close>

definition due_accounts :: "instant \<Rightarrow> string fset \<Rightarrow> directory_db \<Rightarrow> string list" where
  "due_accounts now locked db =
     (let due = filter (\<lambda>u. u |\<notin>| locked) (sorted_list_of_fset (ffilter (\<lambda>u.
            case fmlookup (dd_accounts db) u of Some r \<Rightarrow> is_due now r | None \<Rightarrow> False)
            (fmdom (dd_accounts db))));
          seen = (\<lambda>u. Option.bind (fmlookup (dd_accounts db) u) ac_looked_up_at)
      in filter (\<lambda>u. seen u = None) due @
         sort_key (\<lambda>u. the (seen u)) (filter (\<lambda>u. seen u \<noteq> None) due))"

definition claim_due ::
    "instant \<Rightarrow> string fset \<Rightarrow> nat \<Rightarrow> directory_db \<Rightarrow> string list \<times> directory_db" where
  "claim_due now locked limit db =
     (let due = take limit (due_accounts now locked db)
      in (due, db\<lparr>dd_accounts := fmmap_keys (\<lambda>u r. if u \<in> set due
            then r\<lparr>ac_looked_up_at := Some (now - int (23 * hour))\<rparr> else r) (dd_accounts db)\<rparr>))"

end
