(* ===== verification/Directory.thy ===== *)
theory Directory
  imports Directory_Store "HOL-Library.Product_Lexorder"
begin

text \<open>
  \<open>src/src/infrastructure/directory.rs\<close> and the operations of \<open>src/src/infrastructure/directory_sweep.rs\<close>:
  the account directory over the tables of \<open>Directory_Store\<close>, its throttles in memory and the gateway
  to Silicon Accounts. Every transaction (and every statement outside one) is one atomic step, before
  which other sessions and tasks of any replica may run (\<open>di_others\<close>); it may fail, and its
  acknowledgement may get lost (\<open>di_commit\<close>). The gateway, the clocks and new storage keys act on a
  world \<open>'w\<close>.
\<close>

section \<open>State\<close>

record 'w directory_state =
  ds_db :: directory_db
  ds_first_lookup_failures :: "(string, instant) fmap"
  ds_profile_checks :: "(string, instant) fmap"
  ds_selector_lookups :: "(string, instant \<times> 32 word) fmap"
  ds_missing :: "(string, instant) fmap"
  ds_background :: "account_uuid list"
  ds_world :: 'w

record userinfo =
  ui_uuid :: string
  ui_display_name :: string
  ui_pfp_url :: string
  ui_version :: int

type_synonym ('w, 'a, 'e) directory_call = "('w directory_state, 'a, 'e) call"

record 'w directory =
  di_uuid_crate :: uuid_crate
  di_lookup :: "string \<Rightarrow> lookup_purpose \<Rightarrow> ('w, lookup, accounts_error) call"
  di_lookup_by_id :: "string \<Rightarrow> lookup_purpose \<Rightarrow> ('w, lookup, accounts_error) call"
  di_userinfo :: "string \<Rightarrow> ('w, userinfo, accounts_error) call"
  di_now_utc :: "('w, instant) state"
  di_db_now :: "('w, instant) state"
  di_now :: "('w, instant) state"
  di_uuid_v7 :: "('w, uuid) state"
  di_commit :: "('w, commit_outcome) state"
  di_deadline_passed :: "('w, bool) state"
  di_locked_rows :: "('w, string fset) state"
  di_returning :: "string list \<Rightarrow> string list"
  di_others :: "('w directory_state, unit) state"

definition in_directory_world :: "('w, 'a) state \<Rightarrow> ('w directory_state, 'a) state" where
  "in_directory_world action =
     State (\<lambda>s. case run_state action (ds_world s) of (x, w) \<Rightarrow> (x, s\<lparr>ds_world := w\<rparr>))"

definition change_directory :: "('w directory_state \<Rightarrow> 'w directory_state) \<Rightarrow> ('w directory_state, unit) state" where
  "change_directory f = State (\<lambda>s. ((), f s))"

definition directory_part :: "('w directory_state \<Rightarrow> 'a) \<Rightarrow> ('w directory_state, 'a) state" where
  "directory_part f = State (\<lambda>s. (f s, s))"

lemma run_in_directory_world [run_simps]:
  "run_state (in_directory_world action) s =
     (case run_state action (ds_world s) of (x, w) \<Rightarrow> (x, s\<lparr>ds_world := w\<rparr>))"
  by (simp add: in_directory_world_def)

lemma run_change_directory [run_simps]: "run_state (change_directory f) s = ((), f s)"
  by (simp add: change_directory_def)

lemma run_directory_part [run_simps]: "run_state (directory_part f) s = (f s, s)"
  by (simp add: directory_part_def)

text \<open>
  A transaction. \<open>NotCommitted\<close> covers a failed statement, a failed \<open>begin\<close> and a failed commit;
  \<open>CommittedUnseen\<close> a commit whose answer is lost.
\<close>

definition transact ::
    "'w directory \<Rightarrow> (directory_db \<Rightarrow> ('a \<times> directory_db, sqlx_error) result) \<Rightarrow>
     ('w, 'a, sqlx_error) directory_call" where
  "transact D body =
     State_Monad.bind (di_others D) (\<lambda>_.
     State_Monad.bind (in_directory_world (di_commit D)) (\<lambda>outcome.
     State_Monad.bind (directory_part ds_db) (\<lambda>db.
     case body db of
       Err e \<Rightarrow> throw e
     | Ok (x, db') \<Rightarrow>
         if outcome = NotCommitted then throw SqlxError
         else State_Monad.bind (change_directory (\<lambda>s. s\<lparr>ds_db := db'\<rparr>)) (\<lambda>_.
           if outcome = Committed then done_with x else throw SqlxError))))"

text \<open>A transaction that reads \<open>now()\<close>, and a query.\<close>

definition transact_at ::
    "'w directory \<Rightarrow> (instant \<Rightarrow> directory_db \<Rightarrow> ('a \<times> directory_db, sqlx_error) result) \<Rightarrow>
     ('w, 'a, sqlx_error) directory_call" where
  "transact_at D body = State_Monad.bind (in_directory_world (di_db_now D)) (\<lambda>now. transact D (body now))"

definition query ::
    "'w directory \<Rightarrow> (directory_db \<Rightarrow> ('a, sqlx_error) result) \<Rightarrow> ('w, 'a, sqlx_error) directory_call" where
  "query D read = transact D (\<lambda>db. map_ok (\<lambda>x. (x, db)) (read db))"

definition as_unavailable :: "('s, 'a, 'e) call \<Rightarrow> ('s, 'a, accounts_error) call" where
  "as_unavailable = on_err (\<lambda>_. accounts_error.Unavailable)"

section \<open>Constants\<close>

definition CUSTODIAN_RECHECK :: duration where "CUSTODIAN_RECHECK = secs 600"
definition CUSTODIAN_MISMATCH_RECHECK :: duration where "CUSTODIAN_MISMATCH_RECHECK = secs 60"
definition FIRST_LOOKUP_BACKOFF :: duration where "FIRST_LOOKUP_BACKOFF = secs 60"
definition PROFILE_RECHECK :: duration where "PROFILE_RECHECK = secs 600"
definition SELECTOR_LOOKUPS_PER_CALLER :: "32 word" where "SELECTOR_LOOKUPS_PER_CALLER = 30"
definition MISSING_TTL :: duration where "MISSING_TTL = secs 60"
definition MEMORY_LIMIT :: nat where "MEMORY_LIMIT = 10000"
definition MINUTE :: duration where "MINUTE = secs 60"

datatype confirm = Recent | Always

datatype selection = Custodian account_record | NotCustodian | NotFound | Throttled

datatype refreshed = Account account_record | Deleted | Unknown

section \<open>Throttles in memory\<close>

text \<open>\<open>retain(|_, at| at.elapsed() < limit)\<close>.\<close>

definition retain_recent :: "instant \<Rightarrow> duration \<Rightarrow> (string, instant) fmap \<Rightarrow> (string, instant) fmap" where
  "retain_recent now limit m = fmfilter (\<lambda>k. case fmlookup m k of
     Some t \<Rightarrow> elapsed now t < limit | None \<Rightarrow> False) m"

definition may_wait_for_first_lookup :: "'w directory \<Rightarrow> account_uuid \<Rightarrow> ('w directory_state, bool) state" where
  "may_wait_for_first_lookup D uuid =
     State_Monad.bind (in_directory_world (di_now D)) (\<lambda>now.
     State_Monad.bind (change_directory (\<lambda>s. s\<lparr>ds_first_lookup_failures :=
         retain_recent now FIRST_LOOKUP_BACKOFF (ds_first_lookup_failures s)\<rparr>)) (\<lambda>_.
     directory_part (\<lambda>s. fmlookup (ds_first_lookup_failures s) (account_uuid_str uuid) = None)))"

definition first_lookup_failed :: "'w directory \<Rightarrow> account_uuid \<Rightarrow> ('w directory_state, unit) state" where
  "first_lookup_failed D uuid =
     State_Monad.bind (in_directory_world (di_now D)) (\<lambda>now.
     change_directory (\<lambda>s. s\<lparr>ds_first_lookup_failures :=
       fmupd (account_uuid_str uuid) now (ds_first_lookup_failures s)\<rparr>))"

text \<open>A caller's allowance: the counter's window and count after the question, and the answer.\<close>

definition count_lookup :: "instant \<Rightarrow> (instant \<times> 32 word) option \<Rightarrow> bool \<times> (instant \<times> 32 word)" where
  "count_lookup now entry =
     (let (started, used) = (case entry of Some e \<Rightarrow> e | None \<Rightarrow> (now, 0));
          (started, used) = (if elapsed now started \<ge> MINUTE then (now, 0) else (started, used))
      in if used \<ge> SELECTOR_LOOKUPS_PER_CALLER then (False, (started, used))
         else (True, (started, used + 1)))"

definition counters_room ::
    "instant \<Rightarrow> (string, instant \<times> 32 word) fmap \<Rightarrow> (string, instant \<times> 32 word) fmap" where
  "counters_room now counts =
     (if fcard (fmdom counts) < MEMORY_LIMIT then counts
      else
        let kept = fmfilter (\<lambda>k. case fmlookup counts k of
              Some (started, _) \<Rightarrow> elapsed now started < MINUTE | None \<Rightarrow> False) counts
        in if fcard (fmdom kept) < MEMORY_LIMIT then kept else fmempty)"

definition may_look_up_for :: "'w directory \<Rightarrow> account_uuid \<Rightarrow> ('w directory_state, bool) state" where
  "may_look_up_for D caller =
     State_Monad.bind (in_directory_world (di_now D)) (\<lambda>now.
     State_Monad.bind (directory_part (\<lambda>s. counters_room now (ds_selector_lookups s))) (\<lambda>counts.
     case count_lookup now (fmlookup counts (account_uuid_str caller)) of
       (answer, entry) \<Rightarrow>
         State_Monad.bind (change_directory (\<lambda>s. s\<lparr>ds_selector_lookups :=
             fmupd (account_uuid_str caller) entry counts\<rparr>)) (\<lambda>_.
         State_Monad.return answer)))"

definition recently_missing :: "'w directory \<Rightarrow> string \<Rightarrow> ('w directory_state, bool) state" where
  "recently_missing D key =
     State_Monad.bind (in_directory_world (di_now D)) (\<lambda>now.
     directory_part (\<lambda>s. case fmlookup (ds_missing s) key of
         Some noted \<Rightarrow> elapsed now noted < MISSING_TTL | None \<Rightarrow> False))"

definition missing_room :: "instant \<Rightarrow> (string, instant) fmap \<Rightarrow> (string, instant) fmap" where
  "missing_room now missing =
     (if fcard (fmdom missing) < MEMORY_LIMIT then missing
      else let kept = retain_recent now MISSING_TTL missing
           in if fcard (fmdom kept) < MEMORY_LIMIT then kept else fmempty)"

definition remember_missing :: "'w directory \<Rightarrow> string \<Rightarrow> ('w directory_state, unit) state" where
  "remember_missing D key =
     State_Monad.bind (in_directory_world (di_now D)) (\<lambda>now.
     change_directory (\<lambda>s. s\<lparr>ds_missing := fmupd key now (missing_room now (ds_missing s))\<rparr>))"

section \<open>Reading and first sight\<close>

definition load :: "'w directory \<Rightarrow> account_uuid \<Rightarrow> ('w, account_record option, sqlx_error) directory_call" where
  "load D uuid = query D (load_row (di_uuid_crate D) (account_uuid_str uuid))"

definition by_storage_key :: "'w directory \<Rightarrow> uuid \<Rightarrow> ('w, account_record option, sqlx_error) directory_call" where
  "by_storage_key D key = query D (load_by_storage_key (di_uuid_crate D) key)"

definition is_retired_uuid :: "'w directory \<Rightarrow> account_uuid \<Rightarrow> ('w, bool, sqlx_error) directory_call" where
  "is_retired_uuid D uuid = query D (\<lambda>db. Ok (account_uuid_str uuid |\<in>| dd_migrated db))"

definition load_existing :: "'w directory \<Rightarrow> account_uuid \<Rightarrow> ('w, account_record, sqlx_error) directory_call" where
  "load_existing D uuid = try_call (load D uuid) (\<lambda>r. lift_result (ok_or r RowNotFound))"

definition of_kind :: "actor_kind \<Rightarrow> string option \<Rightarrow> string option" where
  "of_kind kind public_id =
     (case public_id of Some i \<Rightarrow> if public_id_kind i = Some kind then Some i else None | None \<Rightarrow> None)"

definition ensure_account ::
    "'w directory \<Rightarrow> account_uuid \<Rightarrow> actor_kind \<Rightarrow> string option \<Rightarrow> instant option \<Rightarrow> key_source \<Rightarrow>
     ('w, account_record, sqlx_error) directory_call" where
  "ensure_account D uuid kind id_hint as_of source =
     (let id_hint = of_kind kind id_hint; as_of = (if id_hint = None then None else as_of) in
      State_Monad.bind (in_directory_world (di_uuid_v7 D)) (\<lambda>key.
      try_call (transact_at D (\<lambda>now.
          ensure_rows now key (account_uuid_str uuid) kind id_hint as_of source)) (\<lambda>_.
      load_existing D uuid)))"

definition adopt_id ::
    "'w directory \<Rightarrow> account_uuid \<Rightarrow> string \<Rightarrow> instant \<Rightarrow>
     ('w, account_record option, sqlx_error) directory_call" where
  "adopt_id D uuid public_id as_of =
     try_call (transact D (adopt_id_rows (account_uuid_str uuid) public_id as_of)) (\<lambda>adopted.
     if adopted then load D uuid else done_with None)"

section \<open>Lookups\<close>

definition purge_deleted :: "'w directory \<Rightarrow> account_uuid \<Rightarrow> ('w, unit, sqlx_error) directory_call" where
  "purge_deleted D uuid =
     State_Monad.bind (in_directory_world (di_now_utc D)) (\<lambda>at.
     try_call (transact_at D (\<lambda>now. purge_account now (account_uuid_str uuid) at)) (\<lambda>_. done_with ()))"

definition note_unknown :: "'w directory \<Rightarrow> account_uuid \<Rightarrow> ('w, unit, sqlx_error) directory_call" where
  "note_unknown D uuid =
     try_call (transact_at D (\<lambda>now. note_unknown_rows now (account_uuid_str uuid))) (\<lambda>_. done_with ())"

definition store_summary ::
    "'w directory \<Rightarrow> account_summary \<Rightarrow> instant \<Rightarrow> ('w, account_record, accounts_error) directory_call" where
  "store_summary D summary started =
     try_call (lift_result (map_err (\<lambda>_. accounts_error.Unavailable)
         (account_uuid_from_str (di_uuid_crate D) (as_uuid summary)))) (\<lambda>uuid.
     try_call (as_unavailable (ensure_account D uuid (as_kind summary) (nullif_empty (as_id summary))
         (Some started) key_source.Lookup)) (\<lambda>_.
     try_call (as_unavailable (transact_at D (\<lambda>now.
         store_summary_rows (di_uuid_crate D) now (account_uuid_str uuid) started summary))) (\<lambda>_.
     as_unavailable (load_existing D uuid))))"

definition refresh_from_accounts ::
    "'w directory \<Rightarrow> account_uuid \<Rightarrow> ('w, refreshed, accounts_error) directory_call" where
  "refresh_from_accounts D uuid =
     State_Monad.bind (in_directory_world (di_now_utc D)) (\<lambda>started.
     try_call (in_directory_world (di_lookup D (account_uuid_str uuid) Authorization)) (\<lambda>answer.
     case answer of
       lookup.Found summary \<Rightarrow>
         try_call (store_summary D summary started) (\<lambda>r. done_with (Account r))
     | lookup.Deleted \<Rightarrow>
         try_call (as_unavailable (purge_deleted D uuid)) (\<lambda>_. done_with refreshed.Deleted)
     | lookup.NotFound \<Rightarrow>
         try_call (as_unavailable (note_unknown D uuid)) (\<lambda>_. done_with Unknown)))"

text \<open>\<open>tokio::spawn\<close>: the refresh is left to another task.\<close>

definition refresh_in_background :: "account_uuid \<Rightarrow> ('w directory_state, unit) state" where
  "refresh_in_background uuid = change_directory (\<lambda>s. s\<lparr>ds_background := ds_background s @ [uuid]\<rparr>)"

text \<open>
  \<open>tokio::time::timeout\<close>: \<open>None\<close> when the deadline passed first. A call cut off there has done what a
  call whose next step fails has done, which the outcomes of \<open>di_commit\<close> and of the gateway range
  over.
\<close>

definition within_deadline :: "'w directory \<Rightarrow> ('w directory_state, 'a) state \<Rightarrow> ('w directory_state, 'a option) state" where
  "within_deadline D action =
     State_Monad.bind action (\<lambda>x.
     State_Monad.bind (in_directory_world (di_deadline_passed D)) (\<lambda>passed.
     State_Monad.return (if passed then None else Some x)))"

text \<open>The end of \<open>sighting\<close>: a Silicon's custodian.\<close>

definition check_custodian ::
    "'w directory \<Rightarrow> account_uuid \<Rightarrow> account_record \<Rightarrow> ('w, account_record, sqlx_error) directory_call" where
  "check_custodian D uuid r =
     (if cr_kind r \<noteq> Silicon \<or> cr_deleted_at r \<noteq> None then done_with r
      else if cr_custodian_checked_at r = None then
        State_Monad.bind (may_wait_for_first_lookup D uuid) (\<lambda>wait.
        if \<not> wait then State_Monad.bind (refresh_in_background uuid) (\<lambda>_. done_with r)
        else
          State_Monad.bind (within_deadline D (refresh_from_accounts D uuid)) (\<lambda>answer.
          case answer of
            Some (Ok (Account fresh)) \<Rightarrow> done_with fresh
          | Some (Ok refreshed.Deleted) \<Rightarrow> load_existing D uuid
          | Some (Ok Unknown) \<Rightarrow> done_with r
          | _ \<Rightarrow> State_Monad.bind (first_lookup_failed D uuid) (\<lambda>_. done_with r)))
      else
        State_Monad.bind (in_directory_world (di_now_utc D)) (\<lambda>now.
        if custodian_checked_within now CUSTODIAN_RECHECK r then done_with r
        else State_Monad.bind (refresh_in_background uuid) (\<lambda>_. done_with r)))"

text \<open>A newer public id that the credential carried replaces the cached one.\<close>

definition learn_id ::
    "'w directory \<Rightarrow> account_uuid \<Rightarrow> string option \<Rightarrow> instant option \<Rightarrow> account_record \<Rightarrow>
     ('w, account_record, sqlx_error) directory_call" where
  "learn_id D uuid id_hint as_of r =
     (case (id_hint, as_of) of
        (Some i, Some t) \<Rightarrow>
          if cr_deleted_at r = None \<and> cr_current_id r \<noteq> Some i then
            try_call (adopt_id D uuid i t) (\<lambda>adopted.
            done_with (case adopted of Some fresh \<Rightarrow> fresh | None \<Rightarrow> r))
          else done_with r
      | _ \<Rightarrow> done_with r)"

definition sighting ::
    "'w directory \<Rightarrow> account_uuid \<Rightarrow> actor_kind \<Rightarrow> string option \<Rightarrow> instant option \<Rightarrow> key_source \<Rightarrow>
     ('w, account_record, sqlx_error) directory_call" where
  "sighting D uuid kind id_hint as_of source =
     (let id_hint = of_kind kind id_hint in
      try_call (load D uuid) (\<lambda>seen.
      case seen of
        Some r \<Rightarrow>
          if cr_kind r \<noteq> kind then done_with r
          else try_call
            (if cr_current_id r \<noteq> None \<or> id_hint = None then done_with r
             else ensure_account D uuid kind id_hint as_of source) (\<lambda>r.
            try_call (learn_id D uuid id_hint as_of r) (check_custodian D uuid))
      | None \<Rightarrow>
          try_call (ensure_account D uuid kind id_hint as_of source) (\<lambda>r.
          try_call (learn_id D uuid id_hint as_of r) (check_custodian D uuid))))"

section \<open>Acting as a custodian\<close>

definition custody ::
    "'w directory \<Rightarrow> account_uuid \<Rightarrow> account_record \<Rightarrow> confirm \<Rightarrow>
     ('w, selection, accounts_error) directory_call" where
  "custody D carbon r confirm =
     (if cr_deleted_at r \<noteq> None then done_with selection.NotFound
      else if cr_kind r \<noteq> Silicon then done_with NotCustodian
      else
        State_Monad.bind (in_directory_world (di_now_utc D)) (\<lambda>now.
        if custodian_is r carbon \<and> confirm = Recent \<and> custodian_checked_within now CUSTODIAN_RECHECK r
        then done_with (Custodian r)
        else if \<not> custodian_is r carbon \<and> custodian_checked_within now CUSTODIAN_MISMATCH_RECHECK r
        then done_with NotCustodian
        else
          try_call (refresh_from_accounts D (cr_uuid r)) (\<lambda>answer.
          done_with (case answer of
              Account fresh \<Rightarrow> if custodian_is fresh carbon then Custodian fresh else NotCustodian
            | Unknown \<Rightarrow> NotCustodian
            | refreshed.Deleted \<Rightarrow> selection.NotFound))))"

definition names_caller :: "account_summary \<Rightarrow> account_uuid \<Rightarrow> bool" where
  "names_caller summary carbon \<longleftrightarrow> as_kind summary = Silicon \<and>
     (case as_custodian summary of Some (uuid, _) \<Rightarrow> uuid = account_uuid_str carbon | None \<Rightarrow> False)"

definition select_by_lookup ::
    "'w directory \<Rightarrow> account_uuid \<Rightarrow> string \<Rightarrow> ('w, selection, accounts_error) directory_call" where
  "select_by_lookup D carbon selector =
     (let by_id = public_id_kind selector \<noteq> None;
          key = (if by_id then to_ascii_lowercase selector else selector)
      in State_Monad.bind (recently_missing D key) (\<lambda>missing.
         if missing then done_with selection.NotFound
         else State_Monad.bind (may_look_up_for D carbon) (\<lambda>allowed.
         if \<not> allowed then done_with Throttled
         else
           State_Monad.bind (in_directory_world (di_now_utc D)) (\<lambda>started.
           try_call (in_directory_world (if by_id then di_lookup_by_id D selector Selector
               else di_lookup D selector Selector)) (\<lambda>answer.
           case answer of
             lookup.Found summary \<Rightarrow>
               (case account_uuid_from_str (di_uuid_crate D) (as_uuid summary) of
                  Err _ \<Rightarrow> done_with selection.NotFound
                | Ok uuid \<Rightarrow>
                    try_call (as_unavailable (load D uuid)) (\<lambda>known.
                    if \<not> names_caller summary carbon \<and> known = None then done_with NotCustodian
                    else
                      try_call (store_summary D summary started) (\<lambda>r.
                      done_with (if custodian_is r carbon then Custodian r else NotCustodian))))
           | _ \<Rightarrow> State_Monad.bind (remember_missing D key) (\<lambda>_. done_with selection.NotFound))))))"

definition select_for_custodian ::
    "'w directory \<Rightarrow> account_uuid \<Rightarrow> string \<Rightarrow> confirm \<Rightarrow>
     ('w, selection, accounts_error) directory_call" where
  "select_for_custodian D carbon selector confirm =
     (if public_id_kind selector \<noteq> None then select_by_lookup D carbon selector
      else case account_uuid_from_str (di_uuid_crate D) selector of
          Err _ \<Rightarrow> done_with selection.NotFound
        | Ok uuid \<Rightarrow>
            try_call (as_unavailable (load D uuid)) (\<lambda>seen.
            case seen of
              Some r \<Rightarrow> custody D carbon r confirm
            | None \<Rightarrow> select_by_lookup D carbon selector))"

section \<open>Lists\<close>

record silicon_list =
  sl_items :: "account_record list"
  sl_complete :: bool

text \<open>The rows of \<open>WHERE a.custodian_uuid = $1 AND a.kind = 'silicon' AND a.deleted_at IS NULL\<close>.\<close>

definition silicon_rows :: "string \<Rightarrow> directory_db \<Rightarrow> string list" where
  "silicon_rows custodian db = sorted_list_of_fset (ffilter (\<lambda>u. case fmlookup (dd_accounts db) u of
     Some r \<Rightarrow> ac_custodian_uuid r = Some custodian \<and> ac_kind r = Silicon \<and> ac_deleted_at r = None
   | None \<Rightarrow> False) (fmdom (dd_accounts db)))"

fun collect_results :: "('a, 'e) result list \<Rightarrow> ('a list, 'e) result" where
  "collect_results [] = Ok []"
| "collect_results (r # rs) = and_then r (\<lambda>x. map_ok ((#) x) (collect_results rs))"

definition cached_silicons ::
    "uuid_crate \<Rightarrow> string \<Rightarrow> directory_db \<Rightarrow> (account_record list, sqlx_error) result" where
  "cached_silicons U custodian db =
     map_ok (\<lambda>rows. concat (map (\<lambda>r. case r of Some x \<Rightarrow> [x] | None \<Rightarrow> []) rows))
       (collect_results (map (\<lambda>u. load_row U u db) (silicon_rows custodian db)))"

text \<open>The stale ones are asked about again; the order in which the answers arrive is the list's.\<close>

fun confirm_stale ::
    "'w directory \<Rightarrow> account_record list \<Rightarrow>
     ('w directory_state, (refreshed, accounts_error) result list) state" where
  "confirm_stale D [] = State_Monad.return []"
| "confirm_stale D (r # rs) =
     State_Monad.bind (refresh_from_accounts D (cr_uuid r)) (\<lambda>answer.
     State_Monad.bind (confirm_stale D rs) (\<lambda>answers. State_Monad.return (answer # answers)))"

definition confirmed_silicons ::
    "account_uuid \<Rightarrow> (refreshed, accounts_error) result list \<Rightarrow> account_record list" where
  "confirmed_silicons carbon answers = concat (map (\<lambda>a. case a of
     Ok (Account fresh) \<Rightarrow> if custodian_is fresh carbon then [fresh] else []
   | _ \<Rightarrow> []) answers)"

definition silicon_order :: "account_record \<Rightarrow> bool \<times> string \<times> string" where
  "silicon_order r = (cr_current_id r = None, case cr_current_id r of Some i \<Rightarrow> i | None \<Rightarrow> [],
     account_uuid_str (cr_uuid r))"

definition silicons_of :: "'w directory \<Rightarrow> account_uuid \<Rightarrow> ('w, silicon_list, sqlx_error) directory_call" where
  "silicons_of D carbon =
     try_call (query D (cached_silicons (di_uuid_crate D) (account_uuid_str carbon))) (\<lambda>cached.
     State_Monad.bind (in_directory_world (di_now_utc D)) (\<lambda>now.
     let (fresh, stale) = partition (custodian_checked_within now CUSTODIAN_RECHECK) cached in
     State_Monad.bind (confirm_stale D stale) (\<lambda>answers.
     done_with \<lparr>sl_items = sort_key silicon_order (fresh @ confirmed_silicons carbon answers),
                sl_complete = list_all is_ok answers\<rparr>)))"

text \<open>The custodian circle.\<close>

definition circle_custodian :: "account_record \<Rightarrow> string option" where
  "circle_custodian r =
     (case cr_kind r of
        Carbon \<Rightarrow> Some (account_uuid_str (cr_uuid r))
      | Silicon \<Rightarrow> map_option fst (cr_custodian r))"

fun add_members :: "uuid_crate \<Rightarrow> string list \<Rightarrow> account_uuid list \<Rightarrow> account_uuid list" where
  "add_members U [] members = members"
| "add_members U (u # us) members =
     (case account_uuid_from_str U u of
        Ok uuid \<Rightarrow> add_members U us (if uuid \<in> set members then members else members @ [uuid])
      | Err _ \<Rightarrow> add_members U us members)"

definition circle :: "'w directory \<Rightarrow> account_record \<Rightarrow> ('w, account_uuid list, sqlx_error) directory_call" where
  "circle D r =
     (case circle_custodian r of
        None \<Rightarrow> done_with [cr_uuid r]
      | Some custodian \<Rightarrow>
          try_call (query D (\<lambda>db. Ok (silicon_rows custodian db))) (\<lambda>rows.
          done_with (add_members (di_uuid_crate D) (custodian # rows) [cr_uuid r])))"

section \<open>Profiles\<close>

definition complete_profile ::
    "'w directory \<Rightarrow> account_record \<Rightarrow> string \<Rightarrow> ('w directory_state, account_record) state" where
  "complete_profile D r token =
     (let uuid = account_uuid_str (cr_uuid r) in
      if cr_deleted_at r \<noteq> None \<or> (cr_display_name r \<noteq> None \<and> cr_pfp_url r \<noteq> None)
      then State_Monad.return r
      else
        State_Monad.bind (in_directory_world (di_now D)) (\<lambda>now.
        State_Monad.bind (change_directory (\<lambda>s. s\<lparr>ds_profile_checks :=
            retain_recent now PROFILE_RECHECK (ds_profile_checks s)\<rparr>)) (\<lambda>_.
        State_Monad.bind (directory_part (\<lambda>s. fmlookup (ds_profile_checks s) uuid \<noteq> None)) (\<lambda>recent.
        if recent then State_Monad.return r
        else
          State_Monad.bind (change_directory (\<lambda>s. s\<lparr>ds_profile_checks := fmupd uuid now (ds_profile_checks s)\<rparr>)) (\<lambda>_.
          State_Monad.bind (in_directory_world (di_userinfo D token)) (\<lambda>answer.
          case answer of
            Err _ \<Rightarrow> State_Monad.return r
          | Ok info \<Rightarrow>
              if ui_uuid info \<noteq> uuid then State_Monad.return r
              else
                State_Monad.bind (transact D (complete_profile_rows uuid (ui_display_name info)
                    (ui_pfp_url info) (ui_version info))) (\<lambda>updated.
                case updated of
                  Err _ \<Rightarrow> State_Monad.return r
                | Ok _ \<Rightarrow>
                    State_Monad.bind (load D (cr_uuid r)) (\<lambda>fresh.
                    State_Monad.return (case fresh of Ok (Some f) \<Rightarrow> f | _ \<Rightarrow> r)))))))))"

section \<open>The background check\<close>

record sweep_report =
  sr_checked :: nat
  sr_purged :: nat
  sr_unknown :: nat
  sr_stopped :: bool

fun sweep_accounts ::
    "'w directory \<Rightarrow> string list \<Rightarrow> sweep_report \<Rightarrow> ('w, sweep_report, sqlx_error) directory_call" where
  "sweep_accounts D [] report = done_with report"
| "sweep_accounts D (u # due) report =
     (case account_uuid_from_str (di_uuid_crate D) u of
        Err _ \<Rightarrow> sweep_accounts D due report
      | Ok uuid \<Rightarrow>
          State_Monad.bind (in_directory_world (di_now_utc D)) (\<lambda>started.
          State_Monad.bind (in_directory_world (di_lookup D u Sweep)) (\<lambda>answer.
          case answer of
            Ok (lookup.Found summary) \<Rightarrow>
              State_Monad.bind (store_summary D summary started) (\<lambda>r.
              if is_ok r then sweep_accounts D due (report\<lparr>sr_checked := sr_checked report + 1\<rparr>)
              else done_with (report\<lparr>sr_stopped := True\<rparr>))
          | Ok lookup.Deleted \<Rightarrow>
              try_call (purge_deleted D uuid) (\<lambda>_.
              sweep_accounts D due (report\<lparr>sr_purged := sr_purged report + 1\<rparr>))
          | Ok lookup.NotFound \<Rightarrow>
              try_call (note_unknown D uuid) (\<lambda>_.
              sweep_accounts D due (report\<lparr>sr_unknown := sr_unknown report + 1\<rparr>))
          | Err _ \<Rightarrow> done_with (report\<lparr>sr_stopped := True\<rparr>))))"

definition sweep :: "'w directory \<Rightarrow> nat \<Rightarrow> ('w, sweep_report, sqlx_error) directory_call" where
  "sweep D limit =
     try_call (transact_at D (\<lambda>now db. Ok ((), forget_old_pending now db))) (\<lambda>_.
     State_Monad.bind (in_directory_world (di_locked_rows D)) (\<lambda>locked.
     try_call (transact_at D (\<lambda>now db. Ok (claim_due now locked limit db))) (\<lambda>due.
     sweep_accounts D (di_returning D due)
       \<lparr>sr_checked = 0, sr_purged = 0, sr_unknown = 0, sr_stopped = False\<rparr>)))"

end
