(* ===== verification/Webhooks.thy ===== *)
theory Webhooks
  imports Directory
begin

text \<open>
  \<open>src/src/control/webhooks.rs\<close>: Silicon Accounts events about Waveform's members. The crate's
  signature check and event parser is a parameter. An event is applied in one transaction together
  with its \<open>event_id\<close> row.
\<close>

section \<open>Events\<close>

record webhook_profile =
  wp_display_name :: string
  wp_pfp_url :: string
  wp_id :: string
  wp_version :: int
  wp_custodian :: "string option"

datatype webhook_payload =
    AccountIdChanged string string
  | AccountUpdated string "webhook_profile option"
  | AccountDeletedEvent string
  | MembershipAccessRemoved string
  | MembershipSignedOut string "string option"
  | CustodianChanged string "(string \<times> string) option"
  | Ping
  | OtherPayload

record webhook_event =
  we_event_id :: string
  we_event_type :: string
  we_occurred_at :: "instant option"
  we_payload :: webhook_payload

datatype webhook_error = SignatureMismatch | InvalidBody string | OtherWebhookError string

record applied =
  ap_outcome :: string
  ap_revoked_proof :: "string option"

definition applied_as :: "string \<Rightarrow> applied" where
  "applied_as outcome = \<lparr>ap_outcome = outcome, ap_revoked_proof = None\<rparr>"

section \<open>Verification\<close>

datatype receive_error = NotConfigured | InvalidWebhookBody | InvalidSignature | DatabaseUnavailable

text \<open>
  The secrets are tried in order; only a mismatch lets the next one try. \<open>check\<close> is the crate's
  \<open>verify_and_parse_webhook\<close> on this delivery.
\<close>

fun try_secrets ::
    "(string \<Rightarrow> (webhook_event, webhook_error) result) \<Rightarrow> string list \<Rightarrow> webhook_error option \<Rightarrow>
     (webhook_event, webhook_error option) result" where
  "try_secrets check [] last_error = Err last_error"
| "try_secrets check (secret # secrets) last_error =
     (case check secret of
        Ok event \<Rightarrow> Ok event
      | Err SignatureMismatch \<Rightarrow> try_secrets check secrets (Some SignatureMismatch)
      | Err e \<Rightarrow> Err (Some e))"

definition verify_delivery ::
    "(string \<Rightarrow> (webhook_event, webhook_error) result) \<Rightarrow> string list \<Rightarrow>
     (webhook_event, receive_error) result" where
  "verify_delivery check secrets =
     (if secrets = [] then Err NotConfigured
      else map_err (\<lambda>e. case e of Some (InvalidBody _) \<Rightarrow> InvalidWebhookBody | _ \<Rightarrow> InvalidSignature)
        (try_secrets check secrets None))"

section \<open>Applying an event\<close>

definition account_of :: "uuid_crate \<Rightarrow> webhook_payload \<Rightarrow> account_uuid option" where
  "account_of U payload =
     (let uuid = (case payload of
            AccountIdChanged uuid _ \<Rightarrow> Some uuid
          | AccountUpdated uuid _ \<Rightarrow> Some uuid
          | AccountDeletedEvent uuid \<Rightarrow> Some uuid
          | MembershipAccessRemoved uuid \<Rightarrow> Some uuid
          | MembershipSignedOut uuid _ \<Rightarrow> Some uuid
          | CustodianChanged uuid _ \<Rightarrow> Some uuid
          | _ \<Rightarrow> None)
      in Option.bind uuid (\<lambda>u. case account_uuid_from_str U u of Ok a \<Rightarrow> Some a | Err _ \<Rightarrow> None))"

definition named_custodian :: "webhook_payload \<Rightarrow> string option" where
  "named_custodian payload =
     (case payload of
        AccountUpdated _ profile \<Rightarrow> Option.bind profile wp_custodian
      | CustodianChanged _ change_to \<Rightarrow> map_option fst change_to
      | _ \<Rightarrow> None)"

text \<open>\<open>invalidate_storage_proof\<close>: every live proof of the key ends; the first one is answered.\<close>

definition invalidate_storage_proof ::
    "instant \<Rightarrow> uuid \<Rightarrow> string \<Rightarrow> directory_db \<Rightarrow> string option \<times> directory_db" where
  "invalidate_storage_proof now key reason db =
     (live_proof key db,
      db\<lparr>dd_proofs := map (\<lambda>(k, r). if fst k = key \<and> pr_invalidated_at r = None
         then (k, ended now reason r) else (k, r)) (dd_proofs db)\<rparr>)"

definition sign_out :: "instant \<Rightarrow> string \<Rightarrow> account_row \<Rightarrow> account_row" where
  "sign_out at reason r =
     r\<lparr>ac_revoked_before := greatest (coalesce (ac_revoked_before r) (Some at)) (Some at),
       ac_revoked_reason := Some reason\<rparr>"

definition end_sign_ins ::
    "instant \<Rightarrow> string \<Rightarrow> instant \<Rightarrow> string \<Rightarrow> directory_db \<Rightarrow>
     (applied \<times> directory_db, sqlx_error) result" where
  "end_sign_ins now uuid at reason db =
     (case (fmlookup (dd_keys db) uuid, fmlookup (dd_accounts db) uuid) of
        (Some k, Some _) \<Rightarrow>
          and_then (update_account uuid (\<lambda>_. True) (sign_out at reason) db) (\<lambda>(_, db).
          case invalidate_storage_proof now (kr_storage_key k) reason db of
            (revoked_proof, db) \<Rightarrow>
              Ok (\<lparr>ap_outcome = ''sign_ins_ended'', ap_revoked_proof = revoked_proof\<rparr>, db))
      | _ \<Rightarrow> Ok (applied_as ''sign_ins_ended_before_first_use'',
               record_pending_event now uuid at reason False db))"

definition delete_account ::
    "instant \<Rightarrow> string \<Rightarrow> instant \<Rightarrow> directory_db \<Rightarrow> (applied \<times> directory_db, sqlx_error) result" where
  "delete_account now uuid at db =
     and_then (purge_account now uuid at db) (\<lambda>(p, db).
     Ok (case p of
           Purged revoked_proof \<Rightarrow> \<lparr>ap_outcome = ''account_deleted'', ap_revoked_proof = revoked_proof\<rparr>
         | Recorded \<Rightarrow> applied_as ''deleted_before_first_use'', db))"

definition updated_or_stale :: "string \<Rightarrow> bool \<times> directory_db \<Rightarrow> (applied \<times> directory_db, sqlx_error) result" where
  "updated_or_stale outcome answer =
     (case answer of (updated, db) \<Rightarrow>
        Ok (applied_as (if updated then outcome else ''stale_or_unknown_account''), db))"

definition change_id ::
    "string \<Rightarrow> string \<Rightarrow> instant \<Rightarrow> directory_db \<Rightarrow> (applied \<times> directory_db, sqlx_error) result" where
  "change_id uuid new_id at db =
     and_then (update_account uuid
         (\<lambda>r. ac_deleted_at r = None \<and> (case ac_id_changed_at r of None \<Rightarrow> True | Some t \<Rightarrow> t \<le> at))
         (\<lambda>r. r\<lparr>ac_current_id := Some new_id, ac_id_changed_at := Some at\<rparr>) db)
       (\<lambda>(updated, db). updated_or_stale ''id_updated'' (updated, rename_custodian uuid new_id db))"

definition update_profile ::
    "string \<Rightarrow> webhook_profile \<Rightarrow> directory_db \<Rightarrow> (applied \<times> directory_db, sqlx_error) result" where
  "update_profile uuid p db =
     and_then (update_account uuid (\<lambda>r. ac_deleted_at r = None \<and> ac_profile_version r < wp_version p)
         (\<lambda>r. r\<lparr>ac_display_name := nullif_empty (wp_display_name p), ac_pfp_url := nullif_empty (wp_pfp_url p),
                ac_current_id := coalesce (nullif_empty (wp_id p)) (ac_current_id r),
                ac_profile_version := wp_version p\<rparr>) db)
       (updated_or_stale ''profile_updated'')"

definition change_custodian ::
    "instant \<Rightarrow> string \<Rightarrow> string \<times> string \<Rightarrow> instant \<Rightarrow> directory_db \<Rightarrow>
     (applied \<times> directory_db, sqlx_error) result" where
  "change_custodian now uuid to_account at db =
     and_then (update_account uuid
         (\<lambda>r. ac_kind r = Silicon \<and> ac_deleted_at r = None \<and>
            (case ac_custodian_changed_at r of None \<Rightarrow> True | Some t \<Rightarrow> t \<le> at))
         (\<lambda>r. r\<lparr>ac_custodian_uuid := Some (fst to_account),
                ac_custodian_id := nullif_empty (snd to_account),
                ac_custodian_changed_at := Some at, ac_custodian_checked_at := Some now\<rparr>) db)
       (updated_or_stale ''custodian_updated'')"

definition apply_event ::
    "uuid_crate \<Rightarrow> instant \<Rightarrow> webhook_event \<Rightarrow> account_uuid option \<Rightarrow> instant \<Rightarrow> directory_db \<Rightarrow>
     (applied \<times> directory_db, sqlx_error) result" where
  "apply_event U now event account at db =
     (case account of
        None \<Rightarrow> Ok (applied_as (if we_payload event = Ping then ''ping'' else ''ignored''), db)
      | Some a \<Rightarrow>
          let uuid = account_uuid_str a in
          if uuid |\<in>| dd_migrated db \<or>
            (case named_custodian (we_payload event) of Some c \<Rightarrow> c |\<in>| dd_migrated db | None \<Rightarrow> False)
          then Ok (applied_as ''account_uuid_migrated'', db)
          else (case we_payload event of
              AccountIdChanged _ new_id \<Rightarrow> change_id uuid new_id at db
            | AccountUpdated _ (Some p) \<Rightarrow> update_profile uuid p db
            | AccountUpdated _ None \<Rightarrow> Ok (applied_as ''no_profile_in_event'', db)
            | CustodianChanged _ (Some change_to) \<Rightarrow>
                if is_ok (account_uuid_from_str U (fst change_to))
                then change_custodian now uuid change_to at db
                else Ok (applied_as ''no_custodian_in_event'', db)
            | CustodianChanged _ None \<Rightarrow> Ok (applied_as ''no_custodian_in_event'', db)
            | MembershipSignedOut _ reason \<Rightarrow>
                if reason = Some ''app_revoked'' then Ok (applied_as ''ignored_app_revoked'', db)
                else end_sign_ins now uuid at (case reason of Some r \<Rightarrow> r | None \<Rightarrow> ''signed_out'') db
            | MembershipAccessRemoved _ \<Rightarrow> end_sign_ins now uuid at ''access_removed'' db
            | AccountDeletedEvent _ \<Rightarrow> delete_account now uuid at db
            | _ \<Rightarrow> Ok (applied_as ''ignored'', db)))"

section \<open>A delivery\<close>

text \<open>
  The transaction. \<open>None\<close> is a repeated delivery, which returns early and so rolls back; the id's row
  is the only thing it could have written.
\<close>

definition receive_rows ::
    "uuid_crate \<Rightarrow> webhook_event \<Rightarrow> instant \<Rightarrow> instant \<Rightarrow> directory_db \<Rightarrow>
     (applied option \<times> directory_db, sqlx_error) result" where
  "receive_rows U event at now db =
     (if fmlookup (dd_events db) (we_event_id event) \<noteq> None then Ok (None, db)
      else if \<not> (1 \<le> char_count (we_event_id event) \<and> char_count (we_event_id event) \<le> 128 \<and>
                 1 \<le> char_count (we_event_type event) \<and> char_count (we_event_type event) \<le> 128)
      then Err SqlxError
      else
        and_then (apply_event U now event (account_of U (we_payload event)) at
            (db\<lparr>dd_events := fmupd (we_event_id event) ''processing'' (dd_events db)\<rparr>)) (\<lambda>(a, db).
        Ok (Some a, db\<lparr>dd_events := fmupd (we_event_id event) (ap_outcome a) (dd_events db)\<rparr>)))"

text \<open>
  The handler: \<open>revoke_remote\<close> revokes a Briefcase proof at Silicon Accounts, best effort, once the
  transaction is durable. The answer is the outcome, or \<open>None\<close> for a duplicate.
\<close>

definition receive ::
    "'w directory \<Rightarrow> (string \<Rightarrow> (webhook_event, webhook_error) result) \<Rightarrow> string list \<Rightarrow>
     (string \<Rightarrow> ('w, unit) state) option \<Rightarrow> ('w, string option, receive_error) directory_call" where
  "receive D check secrets revoke_remote =
     try_call (lift_result (verify_delivery check secrets)) (\<lambda>event.
     State_Monad.bind (in_directory_world (di_now_utc D)) (\<lambda>now.
     let at = (case we_occurred_at event of Some t \<Rightarrow> t | None \<Rightarrow> now) in
     try_call (on_err (\<lambda>_. DatabaseUnavailable)
         (transact_at D (receive_rows (di_uuid_crate D) event at))) (\<lambda>answer.
     case answer of
       None \<Rightarrow> done_with None
     | Some a \<Rightarrow>
         State_Monad.bind (case (ap_revoked_proof a, revoke_remote) of
               (Some proof_id, Some f) \<Rightarrow> in_directory_world (f proof_id)
             | _ \<Rightarrow> State_Monad.return ()) (\<lambda>_.
         done_with (Some (ap_outcome a))))))"

end
