(* ===== verification/Authenticator.thy ===== *)
theory Authenticator
  imports Directory
begin

text \<open>
  \<open>src/src/infrastructure/authenticator.rs\<close>: how a bearer token or a proof becomes an authorized actor.
  The directory's world carries the gateway; the two verifications are parameters, as the gateway's
  operations of \<open>Accounts\<close> answer them.
\<close>

record 'w authenticator =
  au_directory :: "'w directory"
  au_verify_access_token :: "string \<Rightarrow> ('w, claims, accounts_error) call"
  au_verify_proof :: "string \<Rightarrow> ('w, proof_verification, accounts_error) call"
  au_app_id :: string
  au_issuers :: proof_issuers

definition rejected :: "auth_failure \<Rightarrow> ('s, 'a, accounts_error) call" where
  "rejected f = throw (Rejected f)"

definition require_current_uuid :: "'w authenticator \<Rightarrow> account_uuid \<Rightarrow> ('w, unit, accounts_error) directory_call" where
  "require_current_uuid A uuid =
     try_call (as_unavailable (is_retired_uuid (au_directory A) uuid)) (\<lambda>retired.
     if retired then rejected SignInEnded else done_with ())"

definition same_kind :: "account_record \<Rightarrow> actor_kind \<Rightarrow> (unit, accounts_error) result" where
  "same_kind r kind = (if cr_kind r = kind then Ok () else Err (Rejected AccountRecordConflict))"

definition authorized ::
    "account_record \<Rightarrow> string option \<Rightarrow> application_id option \<Rightarrow> instant option \<Rightarrow>
     (authorized_actor, accounts_error) result" where
  "authorized r token_id originating expires =
     and_then (map_err (\<lambda>_. accounts_error.Unavailable) (actor_id_new (cr_storage_key r))) (\<lambda>key.
     Ok \<lparr>aa_actor = \<lparr>act_kind = cr_kind r, act_id = key\<rparr>,
         aa_account = \<lparr>ref_uuid = cr_uuid r,
           ref_id = (case coalesce (cr_current_id r) token_id of Some i \<Rightarrow> i | None \<Rightarrow> [])\<rparr>,
         originating_application = originating,
         aa_expires_at = expires, aa_scopes = [], token_family = None\<rparr>)"

text \<open>
  \<open>OffsetDateTime::from_unix_timestamp(..).ok()\<close>: the years -9999 to 9999, in seconds since 1970.
\<close>

definition unix_instant :: "int \<Rightarrow> instant option" where
  "unix_instant seconds =
     (if - 377705116800 \<le> seconds \<and> seconds \<le> 253402300799 then Some (seconds * 1000000000) else None)"

definition claimed_kind :: "actor_kind option \<Rightarrow> string option \<Rightarrow> actor_kind option" where
  "claimed_kind kind public_id =
     (case kind of Some k \<Rightarrow> Some k | None \<Rightarrow> Option.bind public_id public_id_kind)"

text \<open>A token issued before the account's sign-ins ended, or at an unknown time.\<close>

definition sign_in_ended :: "account_record \<Rightarrow> instant option \<Rightarrow> bool" where
  "sign_in_ended r issued_at \<longleftrightarrow>
     (case cr_revoked_before r of
        None \<Rightarrow> False
      | Some before \<Rightarrow> (case issued_at of None \<Rightarrow> True | Some t \<Rightarrow> t < before))"

definition bearer :: "'w authenticator \<Rightarrow> string \<Rightarrow> ('w, authorized_actor, accounts_error) directory_call" where
  "bearer A token =
     try_call (in_directory_world (au_verify_access_token A token)) (\<lambda>c.
     try_call (lift_result (map_err (\<lambda>_. Rejected InvalidToken)
         (account_uuid_from_str (di_uuid_crate (au_directory A)) (cl_sub c)))) (\<lambda>uuid.
     try_call (require_current_uuid A uuid) (\<lambda>_.
     try_call (lift_result (ok_or (claimed_kind (cl_kind c) (cl_id c)) (Rejected InvalidToken))) (\<lambda>kind.
     let issued_at = Option.bind (cl_iat c) unix_instant in
     try_call (as_unavailable (sighting (au_directory A) uuid kind (cl_id c) issued_at key_source.SignIn)) (\<lambda>r.
     if cr_deleted_at r \<noteq> None then rejected AccountDeleted
     else if sign_in_ended r issued_at then rejected SignInEnded
     else
       try_call (lift_result (same_kind r kind)) (\<lambda>_.
       try_call (lift_result (authorized r (cl_id c) None (unix_instant (cl_exp c)))) (\<lambda>a.
       done_with (a\<lparr>aa_scopes := cl_scopes c, token_family := cl_fid c\<rparr>))))))))"

definition proof_actor ::
    "'w authenticator \<Rightarrow> verified_proof \<Rightarrow> ('w, authorized_actor, accounts_error) directory_call" where
  "proof_actor A p =
     try_call (lift_result (map_err (\<lambda>_. Rejected InvalidProof)
         (application_id_from_str (vp_issuing_app p)))) (\<lambda>issuing_app.
     try_call (lift_result (ok_or (vp_user p) (Rejected ProofWithoutAccount))) (\<lambda>user.
     try_call (lift_result (map_err (\<lambda>_. Rejected InvalidProof)
         (account_uuid_from_str (di_uuid_crate (au_directory A)) (pu_uuid user)))) (\<lambda>uuid.
     try_call (require_current_uuid A uuid) (\<lambda>_.
     try_call (lift_result (ok_or (claimed_kind (pu_kind user) (Some (pu_id user))) (Rejected InvalidProof)))
       (\<lambda>kind.
     State_Monad.bind (in_directory_world (di_now_utc (au_directory A))) (\<lambda>now.
     try_call (as_unavailable (sighting (au_directory A) uuid kind (Some (pu_id user)) (Some now)
         key_source.Proof)) (\<lambda>r.
     if cr_deleted_at r \<noteq> None then rejected AccountDeleted
     else
       try_call (lift_result (same_kind r kind)) (\<lambda>_.
       try_call (lift_result (authorized r (Some (pu_id user)) (Some issuing_app) (Some (vp_expires_at p)))) (\<lambda>a.
       done_with (a\<lparr>aa_scopes := vp_scopes p\<rparr>))))))))))"

definition proof_authorization ::
    "'w authenticator \<Rightarrow> string \<Rightarrow> string \<Rightarrow> ('w, authorized_actor, accounts_error) directory_call" where
  "proof_authorization A token scope =
     try_call (in_directory_world (au_verify_proof A token)) (\<lambda>answer.
     case answer of
       InvalidProofAnswer \<Rightarrow> rejected InvalidProof
     | ValidProof p \<Rightarrow>
         if vp_kind p \<noteq> UserVerification then rejected ProofWithoutAccount
         else if vp_receiving_app p \<noteq> au_app_id A then rejected InvalidProof
         else if scope \<notin> set (vp_scopes p) then rejected ProofScopeMissing
         else if \<not> allows (au_issuers A) scope (vp_issuing_app p) then rejected ProofIssuerNotAllowed
         else proof_actor A p)"

definition authenticator_authorize ::
    "'w authenticator \<Rightarrow> authorization_request \<Rightarrow> ('w, authorized_actor, accounts_error) directory_call" where
  "authenticator_authorize A request =
     (case ar_credentials request of
        Bearer token \<Rightarrow> bearer A (access_secret token)
      | inbound_credentials.Proof token \<Rightarrow>
          try_call (lift_result (ok_or (proof_scope (ar_action request)) (Rejected ProofNotAccepted)))
            (\<lambda>scope. proof_authorization A (proof_secret token) scope))"

end
