(* ===== verification/Directory_Steps.thy ===== *)
theory Directory_Steps
  imports Webhooks Authenticator
begin

text \<open>
  The account directory as a step system: one step per transaction any task or replica can commit,
  the databases reachable by steps, and the lemma that every operation of the directory and of the
  authenticator changes the database by steps only. Invariants of the steps are thereby invariants
  of the operations, however they interleave.
\<close>

section \<open>Steps\<close>

datatype directory_step =
    EnsureStep instant uuid string actor_kind "string option" "instant option" key_source
  | AdoptStep string string instant
  | SummaryStep instant string instant account_summary
  | UnknownStep instant string
  | ProfileStep string string string int
  | PurgeStep instant string instant
  | ForgetStep instant
  | ClaimStep instant "string fset" nat
  | WebhookStep webhook_event instant instant

text \<open>The database after a transaction: unchanged by an error.\<close>

definition after_commit :: "directory_db \<Rightarrow> ('a \<times> directory_db, sqlx_error) result \<Rightarrow> directory_db" where
  "after_commit db r = (case r of Ok (_, db') \<Rightarrow> db' | Err _ \<Rightarrow> db)"

lemma after_commit_simps [simp]: "after_commit db (Ok (x, db')) = db'" "after_commit db (Err e) = db"
  by (simp_all add: after_commit_def)

fun apply_step :: "uuid_crate \<Rightarrow> directory_step \<Rightarrow> directory_db \<Rightarrow> directory_db" where
  "apply_step U (EnsureStep now key uuid kind id_hint as_of source) db =
     after_commit db (ensure_rows now key uuid kind id_hint as_of source db)"
| "apply_step U (AdoptStep uuid public_id as_of) db = after_commit db (adopt_id_rows uuid public_id as_of db)"
| "apply_step U (SummaryStep now uuid started summary) db =
     after_commit db (store_summary_rows U now uuid started summary db)"
| "apply_step U (UnknownStep now uuid) db = after_commit db (note_unknown_rows now uuid db)"
| "apply_step U (ProfileStep uuid display_name pfp_url version) db =
     after_commit db (complete_profile_rows uuid display_name pfp_url version db)"
| "apply_step U (PurgeStep now uuid at) db = after_commit db (purge_account now uuid at db)"
| "apply_step U (ForgetStep now) db = forget_old_pending now db"
| "apply_step U (ClaimStep now locked limit) db = snd (claim_due now locked limit db)"
| "apply_step U (WebhookStep event at now) db = after_commit db (receive_rows U event at now db)"

text \<open>The reading of the database clock a step has used, if any.\<close>

fun step_time :: "directory_step \<Rightarrow> instant option" where
  "step_time (EnsureStep now _ _ _ _ _ _) = Some now"
| "step_time (SummaryStep now _ _ _) = Some now"
| "step_time (UnknownStep now _) = Some now"
| "step_time (PurgeStep now _ _) = Some now"
| "step_time (ForgetStep now) = Some now"
| "step_time (ClaimStep now _ _) = Some now"
| "step_time (WebhookStep _ _ now) = Some now"
| "step_time _ = None"

definition is_forget :: "directory_step \<Rightarrow> bool" where
  "is_forget st \<longleftrightarrow> (case st of ForgetStep _ \<Rightarrow> True | _ \<Rightarrow> False)"

text \<open>Steps from \<open>lo\<close> on, the cleaner not yet forgetting what was recorded then.\<close>

definition step_since :: "instant \<Rightarrow> directory_step \<Rightarrow> bool" where
  "step_since lo st \<longleftrightarrow> (case step_time st of None \<Rightarrow> True | Some now \<Rightarrow>
     lo \<le> now \<and> (is_forget st \<longrightarrow> now \<le> lo + int (7 * day)))"

inductive reaches :: "uuid_crate \<Rightarrow> (directory_step \<Rightarrow> bool) \<Rightarrow> directory_db \<Rightarrow> directory_db \<Rightarrow> bool"
  for U allowed where
    here: "reaches U allowed db db"
  | later: "reaches U allowed db db' \<Longrightarrow> allowed st \<Longrightarrow> reaches U allowed db (apply_step U st db')"

lemma reaches_trans: "reaches U ok b c \<Longrightarrow> reaches U ok a b \<Longrightarrow> reaches U ok a c"
  by (induction rule: reaches.induct) (auto intro: reaches.intros)

lemma reaches_step: "ok st \<Longrightarrow> reaches U ok db (apply_step U st db)"
  by (rule reaches.later [OF reaches.here])

lemma reaches_invariant:
  assumes "reaches U ok db db'" "I db" "\<And>db st. I db \<Longrightarrow> ok st \<Longrightarrow> I (apply_step U st db)"
  shows "I db'"
  using assms by (induction rule: reaches.induct) auto

lemma reaches_mono: "reaches U ok a b \<Longrightarrow> (\<And>st. ok st \<Longrightarrow> ok' st) \<Longrightarrow> reaches U ok' a b"
  by (induction rule: reaches.induct) (auto intro: reaches.intros)

fun run_steps :: "uuid_crate \<Rightarrow> directory_step list \<Rightarrow> directory_db \<Rightarrow> directory_db" where
  "run_steps U [] db = db"
| "run_steps U (st # sts) db = run_steps U sts (apply_step U st db)"

lemma reaches_run_steps: "list_all ok sts \<Longrightarrow> reaches U ok db (run_steps U sts db)"
  by (induction sts arbitrary: db) (auto intro: reaches.here reaches_trans reaches_step)

section \<open>Operations change the database by steps\<close>

definition stepping ::
    "uuid_crate \<Rightarrow> (directory_step \<Rightarrow> bool) \<Rightarrow> ('w directory_state, 'a) state \<Rightarrow> bool" where
  "stepping U ok action \<longleftrightarrow> (\<forall>s. reaches U ok (ds_db s) (ds_db (snd (run_state action s))))"

named_theorems stepping_intros \<open>rules for \<open>stepping\<close>\<close>

lemma stepping_bind [stepping_intros]:
  "stepping U ok a \<Longrightarrow> (\<And>x. stepping U ok (f x)) \<Longrightarrow> stepping U ok (State_Monad.bind a f)"
  by (simp add: stepping_def run_simps split: prod.splits) (metis reaches_trans snd_conv)

lemma stepping_pure [stepping_intros]:
  "stepping U ok (State_Monad.return x)" "stepping U ok (throw e)" "stepping U ok (done_with y)"
  "stepping U ok (lift_result r)" "stepping U ok (rejected f)"
  by (simp_all add: stepping_def run_simps reaches.here rejected_def)

lemma stepping_try_call [stepping_intros]:
  "stepping U ok a \<Longrightarrow> (\<And>x. stepping U ok (f x)) \<Longrightarrow> stepping U ok (try_call a f)"
  unfolding try_call_def by (auto intro!: stepping_intros split: sum.split)

lemma stepping_on_err [stepping_intros]: "stepping U ok a \<Longrightarrow> stepping U ok (on_err f a)"
  unfolding on_err_def by (auto intro!: stepping_intros)

lemma stepping_as_unavailable [stepping_intros]: "stepping U ok a \<Longrightarrow> stepping U ok (as_unavailable a)"
  unfolding as_unavailable_def by (rule stepping_on_err)

lemma stepping_world [stepping_intros]:
  "stepping U ok (in_directory_world action)" "stepping U ok (directory_part g)"
  by (simp_all add: stepping_def run_simps reaches.here split: prod.split)

lemma stepping_memory [stepping_intros]:
  "(\<And>s. ds_db (f s) = ds_db s) \<Longrightarrow> stepping U ok (change_directory f)"
  by (simp add: stepping_def run_simps reaches.here)

text \<open>
  The surroundings of an operation: what other tasks do is steps, and every step at a reading of this
  directory's database clock is allowed, the cleaner's apart.
\<close>

locale directory_tasks =
  fixes D :: "'w directory" and ok :: "directory_step \<Rightarrow> bool"
  assumes others: "stepping (di_uuid_crate D) ok (di_others D)"
    and timeless: "step_time st = None \<Longrightarrow> ok st"
    and timed: "step_time st = Some (fst (run_state (di_db_now D) w)) \<Longrightarrow> \<not> is_forget st \<Longrightarrow> ok st"
begin

lemma stepping_transact:
  assumes "\<And>db x db'. body db = Ok (x, db') \<Longrightarrow> db' = db \<or> (\<exists>st. ok st \<and> db' = apply_step (di_uuid_crate D) st db)"
  shows "stepping (di_uuid_crate D) ok (transact D body)"
  unfolding stepping_def
proof
  fix s :: "'w directory_state"
  obtain s1 where s1: "run_state (di_others D) s = ((), s1)"
    by (cases "run_state (di_others D) s") simp
  have first: "reaches (di_uuid_crate D) ok (ds_db s) (ds_db s1)"
    using others s1 by (metis snd_conv stepping_def)
  have "reaches (di_uuid_crate D) ok (ds_db s1) (ds_db (snd (run_state (transact D body) s)))"
    using assms [of "ds_db s1"] s1
    by (auto simp: transact_def run_simps reaches.here intro!: reaches_step split: sum.split prod.split)
  then show "reaches (di_uuid_crate D) ok (ds_db s) (ds_db (snd (run_state (transact D body) s)))"
    using first by (rule reaches_trans)
qed

lemma stepping_query: "stepping (di_uuid_crate D) ok (query D read)"
  unfolding query_def by (rule stepping_transact) (auto simp: map_ok_Ok_iff)

lemma stepping_transact_at:
  assumes "\<And>now db x db'. body now db = Ok (x, db') \<Longrightarrow> db' = apply_step (di_uuid_crate D) (st now) db"
    and "\<And>now. step_time (st now) = Some now" "\<And>now. \<not> is_forget (st now)"
  shows "stepping (di_uuid_crate D) ok (transact_at D body)"
  unfolding stepping_def
proof
  fix s :: "'w directory_state"
  obtain now w where now: "run_state (di_db_now D) (ds_world s) = (now, w)" by fastforce
  have "ok (st now)" using timed [of "st now" "ds_world s"] assms(2,3) now by simp
  then have "stepping (di_uuid_crate D) ok (transact D (body now))"
    using assms(1) by (intro stepping_transact) blast
  from this [unfolded stepping_def, rule_format, of "s\<lparr>ds_world := w\<rparr>"]
  show "reaches (di_uuid_crate D) ok (ds_db s) (ds_db (snd (run_state (transact_at D body) s)))"
    by (simp add: transact_at_def run_simps now)
qed

lemma stepping_transactions:
  "stepping (di_uuid_crate D) ok (transact_at D (\<lambda>now. ensure_rows now key u kind i as_of source))"
  "stepping (di_uuid_crate D) ok (transact D (adopt_id_rows u i0 at))"
  "stepping (di_uuid_crate D) ok (transact_at D (\<lambda>now. store_summary_rows (di_uuid_crate D) now u at summary))"
  "stepping (di_uuid_crate D) ok (transact_at D (\<lambda>now. note_unknown_rows now u))"
  "stepping (di_uuid_crate D) ok (transact D (complete_profile_rows u name pfp version))"
  "stepping (di_uuid_crate D) ok (transact_at D (\<lambda>now. purge_account now u at))"
  "stepping (di_uuid_crate D) ok (transact_at D (receive_rows (di_uuid_crate D) event at))"
proof -
  have at: "\<exists>st. ok st \<and> db' = apply_step (di_uuid_crate D) st db"
    if "after_commit db (adopt_id_rows u i0 at db) = db'" for db db'
    using that timeless by (intro exI [of _ "AdoptStep u i0 at"]) simp
  have profile: "\<exists>st. ok st \<and> db' = apply_step (di_uuid_crate D) st db"
    if "after_commit db (complete_profile_rows u name pfp version db) = db'" for db db'
    using that timeless by (intro exI [of _ "ProfileStep u name pfp version"]) simp
  show "stepping (di_uuid_crate D) ok (transact D (adopt_id_rows u i0 at))"
    by (rule stepping_transact) (metis at after_commit_simps(1))
  show "stepping (di_uuid_crate D) ok (transact D (complete_profile_rows u name pfp version))"
    by (rule stepping_transact) (metis profile after_commit_simps(1))
qed (rule stepping_transact_at [where st = "\<lambda>now. EnsureStep now key u kind i as_of source"]
    stepping_transact_at [where st = "\<lambda>now. SummaryStep now u at summary"]
    stepping_transact_at [where st = "\<lambda>now. UnknownStep now u"]
    stepping_transact_at [where st = "\<lambda>now. PurgeStep now u at"]
    stepping_transact_at [where st = "\<lambda>now. WebhookStep event at now"];
    force simp: is_forget_def)+

lemma stepping_load: "stepping (di_uuid_crate D) ok (load D uuid)"
  unfolding load_def by (rule stepping_query)

lemma stepping_load_existing: "stepping (di_uuid_crate D) ok (load_existing D uuid)"
  unfolding load_existing_def by (intro stepping_intros stepping_load)

lemma stepping_ensure: "stepping (di_uuid_crate D) ok (ensure_account D uuid kind id_hint as_of source)"
  unfolding ensure_account_def Let_def
  by (intro stepping_intros stepping_load_existing stepping_transactions)

lemma stepping_adopt: "stepping (di_uuid_crate D) ok (adopt_id D uuid public_id as_of)"
  unfolding adopt_id_def by (auto intro!: stepping_intros stepping_load stepping_transactions)

lemma stepping_purge_deleted: "stepping (di_uuid_crate D) ok (purge_deleted D uuid)"
  unfolding purge_deleted_def by (intro stepping_intros stepping_transactions)

lemma stepping_note_unknown: "stepping (di_uuid_crate D) ok (note_unknown D uuid)"
  unfolding note_unknown_def by (intro stepping_intros stepping_transactions)

lemma stepping_store_summary: "stepping (di_uuid_crate D) ok (store_summary D summary started)"
  unfolding store_summary_def
  by (intro stepping_intros stepping_ensure stepping_load_existing stepping_transactions)

lemma stepping_refresh: "stepping (di_uuid_crate D) ok (refresh_from_accounts D uuid)"
  unfolding refresh_from_accounts_def
  by (auto intro!: stepping_intros stepping_store_summary stepping_purge_deleted stepping_note_unknown
      split: lookup.split)

lemma stepping_sighting: "stepping (di_uuid_crate D) ok (sighting D uuid kind id_hint as_of source)"
  unfolding sighting_def learn_id_def check_custodian_def may_wait_for_first_lookup_def first_lookup_failed_def
    refresh_in_background_def within_deadline_def Let_def
  by (auto intro!: stepping_intros stepping_load stepping_load_existing stepping_ensure stepping_adopt
      stepping_refresh split: option.split sum.split refreshed.split)

lemma stepping_require_current: "stepping (di_uuid_crate D) ok (require_current_uuid A uuid)" if "au_directory A = D"
  unfolding require_current_uuid_def is_retired_uuid_def that
  by (auto intro!: stepping_intros stepping_query)

lemma stepping_bearer: "stepping (di_uuid_crate D) ok (bearer A token)" if "au_directory A = D"
  unfolding bearer_def Let_def that
  by (auto intro!: stepping_intros stepping_require_current [OF that] stepping_sighting)

lemma stepping_proof: "stepping (di_uuid_crate D) ok (proof_authorization A token scope)" if "au_directory A = D"
  unfolding proof_authorization_def proof_actor_def that
  by (auto intro!: stepping_intros stepping_require_current [OF that] stepping_sighting
      split: proof_verification.split)

lemma stepping_authorize: "stepping (di_uuid_crate D) ok (authenticator_authorize A request)" if "au_directory A = D"
  unfolding authenticator_authorize_def
  by (auto intro!: stepping_intros stepping_bearer [OF that] stepping_proof [OF that]
      split: inbound_credentials.split)

lemma stepping_select: "stepping (di_uuid_crate D) ok (select_for_custodian D carbon selector confirm)"
  unfolding select_for_custodian_def custody_def select_by_lookup_def recently_missing_def may_look_up_for_def
    remember_missing_def Let_def
  by (auto intro!: stepping_intros stepping_load stepping_refresh stepping_store_summary
      split: option.split sum.split lookup.split refreshed.split prod.split)

lemma stepping_confirm_stale: "stepping (di_uuid_crate D) ok (confirm_stale D rs)"
  by (induction rs) (auto intro!: stepping_intros stepping_refresh)

lemma stepping_silicons: "stepping (di_uuid_crate D) ok (silicons_of D carbon)"
  unfolding silicons_of_def
  by (auto intro!: stepping_intros stepping_query stepping_confirm_stale simp: Let_def split: prod.split)

lemma stepping_profile: "stepping (di_uuid_crate D) ok (complete_profile D r token)"
  unfolding complete_profile_def Let_def
  by (auto intro!: stepping_intros stepping_load stepping_transactions split: sum.split)

lemma stepping_receive: "stepping (di_uuid_crate D) ok (receive D check secrets revoke_remote)"
  unfolding receive_def Let_def
  by (auto intro!: stepping_intros stepping_transactions split: option.split)

end

text \<open>The background check also lets the cleaner forget.\<close>

locale sweeping_tasks = directory_tasks +
  assumes forgets: "ok (ForgetStep (fst (run_state (di_db_now D) w)))"
begin

lemma stepping_forget:
  "stepping (di_uuid_crate D) ok (transact_at D (\<lambda>now db. Ok ((), forget_old_pending now db)))"
  unfolding stepping_def
proof
  fix s :: "'a directory_state"
  obtain now w where now: "run_state (di_db_now D) (ds_world s) = (now, w)" by fastforce
  have "ok (ForgetStep now)" using forgets [of "ds_world s"] now by simp
  then have "stepping (di_uuid_crate D) ok (transact D (\<lambda>db. Ok ((), forget_old_pending now db)))"
    by (intro stepping_transact) (metis Inr_inject apply_step.simps(7) snd_conv)
  from this [unfolded stepping_def, rule_format, of "s\<lparr>ds_world := w\<rparr>"]
  show "reaches (di_uuid_crate D) ok (ds_db s)
      (ds_db (snd (run_state (transact_at D (\<lambda>now db. Ok ((), forget_old_pending now db))) s)))"
    by (simp add: transact_at_def run_simps now)
qed

lemma stepping_claim:
  "stepping (di_uuid_crate D) ok (transact_at D (\<lambda>now db. Ok (claim_due now locked limit db)))"
  by (rule stepping_transact_at [where st = "\<lambda>now. ClaimStep now locked limit"])
    (auto simp: is_forget_def dest: arg_cong [of _ _ snd])

lemma stepping_sweep_accounts: "stepping (di_uuid_crate D) ok (sweep_accounts D due report)"
  by (induction due arbitrary: report)
    (auto intro!: stepping_intros stepping_store_summary stepping_purge_deleted stepping_note_unknown
      split: sum.split lookup.split)

lemma stepping_sweep: "stepping (di_uuid_crate D) ok (sweep D limit)"
  unfolding sweep_def
  by (intro stepping_intros stepping_forget stepping_claim stepping_sweep_accounts)

end

section \<open>A directory whose other tasks take steps\<close>

text \<open>
  From \<open>lo\<close> on: the database clock reads \<open>lo\<close> or later, and before every transaction the other tasks
  take the steps that the world has planned, and do as they like with the throttles in memory. They
  may do anything a transaction of Waveform does, except forget what was recorded since \<open>lo\<close>.
\<close>

definition clock_since :: "instant \<Rightarrow> ('w, instant) state \<Rightarrow> ('w, instant) state" where
  "clock_since lo clock = State_Monad.bind clock (\<lambda>t. State_Monad.return (max lo t))"

definition shared_directory ::
    "instant \<Rightarrow> ('w \<Rightarrow> directory_step list) \<Rightarrow> ('w directory_state \<Rightarrow> 'w directory_state) \<Rightarrow>
     'w directory \<Rightarrow> 'w directory" where
  "shared_directory lo plan throttles D =
     D\<lparr>di_others := State (\<lambda>s. ((), (throttles s)\<lparr>ds_db :=
           run_steps (di_uuid_crate D) (filter (step_since lo) (plan (ds_world s))) (ds_db s)\<rparr>)),
       di_db_now := clock_since lo (di_db_now D)\<rparr>"

interpretation shared: directory_tasks "shared_directory lo plan throttles D" "step_since lo"
  for lo plan throttles D
proof unfold_locales
  show "stepping (di_uuid_crate (shared_directory lo plan throttles D)) (step_since lo)
      (di_others (shared_directory lo plan throttles D))"
    by (auto simp: stepping_def shared_directory_def list_all_iff intro!: reaches_run_steps)
qed (auto simp: step_since_def shared_directory_def clock_since_def run_simps split: prod.split option.split)

text \<open>Without the bound: the other tasks take any steps at all.\<close>

definition open_directory ::
    "('w \<Rightarrow> directory_step list) \<Rightarrow> ('w directory_state \<Rightarrow> 'w directory_state) \<Rightarrow> 'w directory \<Rightarrow> 'w directory" where
  "open_directory plan throttles D =
     D\<lparr>di_others := State (\<lambda>s. ((), (throttles s)\<lparr>ds_db :=
           run_steps (di_uuid_crate D) (plan (ds_world s)) (ds_db s)\<rparr>))\<rparr>"

interpretation free: sweeping_tasks "open_directory plan throttles D" "\<lambda>_. True" for plan throttles D
  by unfold_locales (auto simp: stepping_def open_directory_def list_all_iff intro!: reaches_run_steps)

end
