(* ===== verification/Directory_Properties.thy ===== *)
theory Directory_Properties
  imports Directory_Steps
begin

text \<open>
  What the steps of the account directory keep: the tables fit each other, an account keeps its
  storage key and kind, a deleted account stays deleted and holds nothing personal, a sign-out is
  never forgotten, and a repeated webhook delivery changes nothing.
\<close>

section \<open>One row at a time\<close>

text \<open>What no step takes from an account's row.\<close>

definition row_keeps :: "account_row \<Rightarrow> account_row \<Rightarrow> bool" where
  "row_keeps r r' \<longleftrightarrow> ac_kind r' = ac_kind r \<and>
     (\<forall>b. ac_revoked_before r = Some b \<longrightarrow> (\<exists>b'. ac_revoked_before r' = Some b' \<and> b \<le> b')) \<and>
     (ac_deleted_at r \<noteq> None \<longrightarrow> ac_deleted_at r' = ac_deleted_at r)"

definition account_keeps :: "directory_db \<Rightarrow> directory_db \<Rightarrow> bool" where
  "account_keeps db db' \<longleftrightarrow>
     (\<forall>u k. fmlookup (dd_keys db) u = Some k \<longrightarrow> fmlookup (dd_keys db') u = Some k) \<and>
     (\<forall>u r. fmlookup (dd_accounts db) u = Some r \<longrightarrow>
        (\<exists>r'. fmlookup (dd_accounts db') u = Some r' \<and> row_keeps r r'))"

lemma row_keeps_refl [simp]: "row_keeps r r"
  by (auto simp: row_keeps_def)

lemma row_keeps_trans: "row_keeps a b \<Longrightarrow> row_keeps b c \<Longrightarrow> row_keeps a c"
  by (fastforce simp: row_keeps_def)

lemma account_keeps_refl [simp]: "account_keeps db db"
  by (auto simp: account_keeps_def)

lemma account_keeps_trans: "account_keeps a b \<Longrightarrow> account_keeps b c \<Longrightarrow> account_keeps a c"
  unfolding account_keeps_def by (meson row_keeps_trans)

lemma row_keeps_changes:
  "row_keeps r (tombstone at r)" "row_keeps r (sign_out at reason r)" "row_keeps r (fold_marker p r)"
  "row_keeps r (summary_row db now newer started i summary custodian r)"
  by (auto simp: row_keeps_def tombstone_def sign_out_def fold_marker_def summary_row_def Let_def)

lemma update_account_OkE:
  assumes "update_account uuid cond f db = Ok (b, db')"
  obtains (unchanged) "\<not> b" "db' = db"
    | (changed) r where "b" "fmlookup (dd_accounts db) uuid = Some r" "cond r" "account_row_allowed (f r)"
        "db' = db\<lparr>dd_accounts := fmupd uuid (f r) (dd_accounts db)\<rparr>"
  using assms by (auto simp: update_account_def split: option.splits if_splits)

lemma update_account_keeps:
  assumes "update_account uuid cond f db = Ok (b, db')" "\<And>r. cond r \<Longrightarrow> row_keeps r (f r)"
  shows "account_keeps db db'"
  using assms(1) by (cases rule: update_account_OkE) (auto simp: account_keeps_def assms(2))

lemma account_keeps_other_tables [simp]:
  "account_keeps db (db'\<lparr>dd_pending := p\<rparr>) \<longleftrightarrow> account_keeps db db'"
  "account_keeps db (db'\<lparr>dd_events := e\<rparr>) \<longleftrightarrow> account_keeps db db'"
  "account_keeps db (db'\<lparr>dd_proofs := q\<rparr>) \<longleftrightarrow> account_keeps db db'"
  "account_keeps (db\<lparr>dd_events := e\<rparr>) db' \<longleftrightarrow> account_keeps db db'"
  by (simp_all add: account_keeps_def)

lemma purge_keeps: "purge_account now uuid at db = Ok (p, db') \<Longrightarrow> account_keeps db db'"
  by (auto simp: purge_account_def record_pending_event_def Let_def elim!: result_elims
      dest!: update_account_keeps split: option.splits)
    (auto simp: row_keeps_changes account_keeps_def delete_owned_def)

lemma fold_keeps: "fold_pending_events now uuid db = Ok (x, db') \<Longrightarrow> account_keeps db db'"
  by (auto simp: fold_pending_events_def row_keeps_changes elim!: result_elims
      dest: purge_keeps update_account_keeps split: option.splits)

lemma insert_key_keeps: "insert_key uuid key kind source db = Ok (x, db') \<Longrightarrow> account_keeps db db'"
  by (auto simp: insert_key_def account_keeps_def split: if_splits)

lemma insert_account_keeps: "insert_account uuid id_hint as_of db = Ok (x, db') \<Longrightarrow> account_keeps db db'"
proof -
  have fill: "row_keeps r (r\<lparr>ac_current_id := i, ac_id_changed_at := t\<rparr>)" for r i t
    by (simp add: row_keeps_def)
  show "insert_account uuid id_hint as_of db = Ok (x, db') \<Longrightarrow> account_keeps db db'"
    by (auto simp: insert_account_def Let_def fill elim!: result_elims dest: update_account_keeps
        split: option.splits if_splits) (auto simp: account_keeps_def)
qed

lemma ensure_keeps:
  "ensure_rows now key uuid kind id_hint as_of source db = Ok (x, db') \<Longrightarrow> account_keeps db db'"
  unfolding ensure_rows_def
  by (auto elim!: result_elims dest!: insert_key_keeps insert_account_keeps fold_keeps
      intro: account_keeps_trans)

lemma rename_custodian_keeps: "account_keeps db (rename_custodian uuid i db)"
  by (auto simp: account_keeps_def rename_custodian_def row_keeps_def)

lemma adopt_keeps: "adopt_id_rows uuid i at db = Ok (b, db') \<Longrightarrow> account_keeps db db'"
proof -
  have adopt: "row_keeps r (r\<lparr>ac_current_id := Some i, ac_id_changed_at := Some at\<rparr>)" for r
    by (simp add: row_keeps_def)
  show "adopt_id_rows uuid i at db = Ok (b, db') \<Longrightarrow> account_keeps db db'"
    unfolding adopt_id_rows_def
    by (auto simp: adopt elim!: result_elims dest!: update_account_keeps split: if_splits
        intro: account_keeps_trans [OF _ rename_custodian_keeps])
qed

lemma row_keeps_webhook:
  "row_keeps r (r\<lparr>ac_looked_up_at := q\<rparr>)"
  "row_keeps r (r\<lparr>ac_display_name := n, ac_pfp_url := u, ac_profile_version := v\<rparr>)"
  "row_keeps r (r\<lparr>ac_display_name := n, ac_pfp_url := u, ac_current_id := i, ac_profile_version := v\<rparr>)"
  "row_keeps r (r\<lparr>ac_current_id := i, ac_id_changed_at := t\<rparr>)"
  "row_keeps r (r\<lparr>ac_custodian_uuid := c, ac_custodian_id := i, ac_custodian_changed_at := t,
     ac_custodian_checked_at := q\<rparr>)"
  by (simp_all add: row_keeps_def)

lemma end_sign_ins_keeps: "end_sign_ins now uuid at reason db = Ok (a, db') \<Longrightarrow> account_keeps db db'"
  unfolding end_sign_ins_def
  by (auto simp: record_pending_event_def invalidate_storage_proof_def row_keeps_changes Let_def
      elim!: result_elims dest!: update_account_keeps split: option.splits)

lemma webhook_updates_keep:
  "change_id uuid i at db = Ok (a, db') \<Longrightarrow> account_keeps db db'"
  "update_profile uuid p db = Ok (a, db') \<Longrightarrow> account_keeps db db'"
  "change_custodian now uuid c at db = Ok (a, db') \<Longrightarrow> account_keeps db db'"
  "delete_account now uuid at db = Ok (a, db') \<Longrightarrow> account_keeps db db'"
  unfolding change_id_def update_profile_def change_custodian_def delete_account_def updated_or_stale_def
  by (auto simp: row_keeps_webhook elim!: result_elims dest!: update_account_keeps purge_keeps
      intro: account_keeps_trans [OF _ rename_custodian_keeps])

lemma apply_event_keeps: "apply_event U now event account at db = Ok (a, db') \<Longrightarrow> account_keeps db db'"
  unfolding apply_event_def
  by (auto simp: Let_def dest: webhook_updates_keep end_sign_ins_keeps
      split: option.splits if_splits webhook_payload.splits)

lemma receive_rows_keep: "receive_rows U event at now db = Ok (a, db') \<Longrightarrow> account_keeps db db'"
  unfolding receive_rows_def
  by (auto elim!: result_elims dest!: apply_event_keeps split: if_splits)

lemma apply_step_keeps: "account_keeps db (apply_step U st db)"
proof -
  have after: "account_keeps db (after_commit db r)" if "\<And>x db'. r = Ok (x, db') \<Longrightarrow> account_keeps db db'" for r :: "('a \<times> directory_db, sqlx_error) result"
    using that by (cases r) auto
  show ?thesis
  proof (cases st)
    case (EnsureStep now key uuid kind id_hint as_of source)
    then show ?thesis by (auto intro!: after dest: ensure_keeps)
  next
    case (AdoptStep uuid i at)
    then show ?thesis by (cases "adopt_id_rows uuid i at db") (auto dest: adopt_keeps)
  next
    case (SummaryStep now uuid started summary)
    then show ?thesis
      by (cases "store_summary_rows U now uuid started summary db")
        (auto simp: store_summary_rows_def Let_def row_keeps_changes dest: update_account_keeps)
  next
    case (UnknownStep now uuid)
    then show ?thesis
      by (cases "note_unknown_rows now uuid db")
        (auto simp: note_unknown_rows_def row_keeps_webhook dest: update_account_keeps)
  next
    case (ProfileStep uuid name pfp version)
    then show ?thesis
      by (cases "complete_profile_rows uuid name pfp version db")
        (auto simp: complete_profile_rows_def row_keeps_webhook dest: update_account_keeps)
  next
    case (PurgeStep now uuid at)
    then show ?thesis by (cases "purge_account now uuid at db") (auto dest: purge_keeps)
  next
    case (ForgetStep now)
    then show ?thesis by (simp add: forget_old_pending_def)
  next
    case (ClaimStep now locked limit)
    then show ?thesis
      by (auto simp: claim_due_def Let_def account_keeps_def row_keeps_webhook)
  next
    case (WebhookStep event at now)
    then show ?thesis by (cases "receive_rows U event at now db") (auto dest: receive_rows_keep)
  qed
qed

lemma reaches_keeps: "reaches U ok db db' \<Longrightarrow> account_keeps db db'"
  by (induction rule: reaches.induct) (auto intro: account_keeps_trans apply_step_keeps)

section \<open>What the other tables keep\<close>

text \<open>Steps that touch neither keys nor pending events.\<close>

definition same_fences :: "directory_db \<Rightarrow> directory_db \<Rightarrow> bool" where
  "same_fences db db' \<longleftrightarrow> dd_keys db' = dd_keys db \<and> dd_pending db' = dd_pending db"

lemma same_fences_simps [simp]:
  "same_fences db db" "same_fences db (db'\<lparr>dd_events := e\<rparr>) \<longleftrightarrow> same_fences db db'"
  "same_fences (db\<lparr>dd_events := e\<rparr>) db' \<longleftrightarrow> same_fences db db'"
  "same_fences db (db'\<lparr>dd_accounts := a\<rparr>) \<longleftrightarrow> same_fences db db'"
  "same_fences db (db'\<lparr>dd_proofs := q\<rparr>) \<longleftrightarrow> same_fences db db'"
  "same_fences db (rename_custodian uuid i db') \<longleftrightarrow> same_fences db db'"
  by (simp_all add: same_fences_def rename_custodian_def)

lemma update_account_same: "update_account uuid cond f db = Ok (b, db') \<Longrightarrow> same_fences db db'"
  by (erule update_account_OkE) simp_all

lemma webhook_updates_same:
  "change_id uuid i at db = Ok (a, db') \<Longrightarrow> same_fences db db'"
  "update_profile uuid p db = Ok (a, db') \<Longrightarrow> same_fences db db'"
  "change_custodian now uuid c at db = Ok (a, db') \<Longrightarrow> same_fences db db'"
  unfolding change_id_def update_profile_def change_custodian_def updated_or_stale_def
  by (auto elim!: result_elims dest!: update_account_same)

definition keyed :: "directory_db \<Rightarrow> bool" where
  "keyed db \<longleftrightarrow> (\<forall>u. fmlookup (dd_keys db) u \<noteq> None \<longrightarrow> fmlookup (dd_accounts db) u \<noteq> None)"

lemma keyed_same_keys: "keyed db \<Longrightarrow> account_keeps db db' \<Longrightarrow> dd_keys db' = dd_keys db \<Longrightarrow> keyed db'"
  unfolding keyed_def account_keeps_def by (metis option.discI not_None_eq)

section \<open>The tables fit each other\<close>

text \<open>A deleted account's row holds nothing personal and refuses tokens.\<close>

definition row_ok :: "account_row \<Rightarrow> bool" where
  "row_ok r \<longleftrightarrow> account_row_allowed r \<and>
     (ac_deleted_at r \<noteq> None \<longrightarrow> ac_current_id r = None \<and> ac_display_name r = None \<and>
        ac_pfp_url r = None \<and> ac_custodian_uuid r = None \<and> ac_custodian_id r = None \<and>
        ac_revoked_before r \<noteq> None)"

definition directory_wf :: "directory_db \<Rightarrow> bool" where
  "directory_wf db \<longleftrightarrow>
     (\<forall>u. fmlookup (dd_keys db) u = None \<longleftrightarrow> fmlookup (dd_accounts db) u = None) \<and>
     (\<forall>u k r. fmlookup (dd_keys db) u = Some k \<longrightarrow> fmlookup (dd_accounts db) u = Some r \<longrightarrow>
        kr_kind k = ac_kind r) \<and>
     (\<forall>u r. fmlookup (dd_accounts db) u = Some r \<longrightarrow> row_ok r) \<and>
     (\<forall>u k. fmlookup (dd_keys db) u = Some k \<longrightarrow> kr_storage_key k \<noteq> 0) \<and>
     (\<forall>u v k l. fmlookup (dd_keys db) u = Some k \<longrightarrow> fmlookup (dd_keys db) v = Some l \<longrightarrow>
        kr_storage_key k = kr_storage_key l \<longrightarrow> u = v)"

lemma directory_wf_row: "directory_wf db \<Longrightarrow> fmlookup (dd_keys db) u = Some k \<Longrightarrow>
    \<exists>r. fmlookup (dd_accounts db) u = Some r"
  unfolding directory_wf_def by (metis not_None_eq)

lemma directory_wf_keyed: "directory_wf db \<Longrightarrow> keyed db"
  by (auto simp: directory_wf_def keyed_def)

lemma directory_wf_other_tables [simp]:
  "directory_wf (db\<lparr>dd_pending := p\<rparr>) \<longleftrightarrow> directory_wf db"
  "directory_wf (db\<lparr>dd_events := e\<rparr>) \<longleftrightarrow> directory_wf db"
  "directory_wf (db\<lparr>dd_proofs := q\<rparr>) \<longleftrightarrow> directory_wf db"
  "directory_wf (db\<lparr>dd_owned := w\<rparr>) \<longleftrightarrow> directory_wf db"
  by (simp_all add: directory_wf_def)

lemma update_account_wf:
  assumes "update_account uuid cond f db = Ok (b, db')" "directory_wf db"
    and "\<And>r. cond r \<Longrightarrow> row_keeps r (f r)"
    and "\<And>r. cond r \<Longrightarrow> row_ok r \<Longrightarrow> account_row_allowed (f r) \<Longrightarrow> row_ok (f r)"
  shows "directory_wf db'"
  using assms(1)
proof (cases rule: update_account_OkE)
  case (changed r)
  then have "ac_kind (f r) = ac_kind r" using assms(3) by (simp add: row_keeps_def)
  moreover have "row_ok (f r)" using assms(2,4) changed by (auto simp: directory_wf_def)
  ultimately show ?thesis using assms(2) changed by (fastforce simp: directory_wf_def split: if_splits)
qed (use assms(2) in simp)

lemma map_rows_wf:
  assumes "directory_wf db" "\<And>u r. row_ok r \<Longrightarrow> row_ok (f u r) \<and> ac_kind (f u r) = ac_kind r"
  shows "directory_wf (db\<lparr>dd_accounts := fmmap_keys f (dd_accounts db)\<rparr>)"
  using assms by (fastforce simp: directory_wf_def)

lemma rename_custodian_wf: "directory_wf db \<Longrightarrow> directory_wf (rename_custodian uuid i db)"
proof -
  assume wf: "directory_wf db"
  let ?f = "\<lambda>r. if ac_custodian_uuid r = Some uuid then r\<lparr>ac_custodian_id := Some i\<rparr> else r"
  have "row_ok (?f r) \<and> ac_kind (?f r) = ac_kind r" if "row_ok r" for r
    using that by (auto simp: row_ok_def account_row_allowed_def)
  then show ?thesis using wf unfolding rename_custodian_def by (fastforce simp: directory_wf_def)
qed

lemma row_ok_changes:
  "account_row_allowed (tombstone at r) \<Longrightarrow> row_ok (tombstone at r)"
  "row_ok r \<Longrightarrow> account_row_allowed (sign_out at reason r) \<Longrightarrow> row_ok (sign_out at reason r)"
  "row_ok r \<Longrightarrow> account_row_allowed (fold_marker p r) \<Longrightarrow> row_ok (fold_marker p r)"
  "ac_deleted_at r = None \<Longrightarrow> account_row_allowed (summary_row db now newer started i summary custodian r) \<Longrightarrow>
     row_ok (summary_row db now newer started i summary custodian r)"
  by (auto simp: row_ok_def tombstone_def sign_out_def fold_marker_def summary_row_def greatest_def
      coalesce_def Let_def split: option.splits)

lemma purge_wf: "purge_account now uuid at db = Ok (p, db') \<Longrightarrow> directory_wf db \<Longrightarrow> directory_wf db'"
  by (auto simp: purge_account_def record_pending_event_def Let_def delete_owned_def elim!: result_elims
      dest!: update_account_wf intro: row_ok_changes row_keeps_changes split: option.splits)

lemma fold_wf: "fold_pending_events now uuid db = Ok (x, db') \<Longrightarrow> directory_wf db \<Longrightarrow> directory_wf db'"
  by (auto simp: fold_pending_events_def elim!: result_elims dest: purge_wf update_account_wf
      intro: row_ok_changes row_keeps_changes split: option.splits)

lemma key_owner_None: "key_owner key db = None \<Longrightarrow> fmlookup (dd_keys db) u = Some k \<Longrightarrow> kr_storage_key k \<noteq> key"
proof
  assume free: "key_owner key db = None" and k: "fmlookup (dd_keys db) u = Some k" "kr_storage_key k = key"
  have "sorted_list_of_fset (ffilter (\<lambda>u. case fmlookup (dd_keys db) u of
      Some k \<Rightarrow> kr_storage_key k = key | None \<Rightarrow> False) (fmdom (dd_keys db))) = []"
    using free by (auto simp: key_owner_def split: list.splits)
  then have "ffilter (\<lambda>u. case fmlookup (dd_keys db) u of
      Some k \<Rightarrow> kr_storage_key k = key | None \<Rightarrow> False) (fmdom (dd_keys db)) = {||}"
    by (metis sorted_list_of_fset_simps(2) fset_of_list_simps(1))
  then have "u |\<notin>| ffilter (\<lambda>u. case fmlookup (dd_keys db) u of
      Some k \<Rightarrow> kr_storage_key k = key | None \<Rightarrow> False) (fmdom (dd_keys db))" by simp
  with k show False by (simp add: fmdomI)
qed

lemma first_rows_wf:
  assumes wf: "directory_wf db" and key: "insert_key uuid key kind source db = Ok ((), mid)"
    and row: "insert_account uuid i at mid = Ok ((), db')"
  shows "directory_wf db'"
proof (cases "fmlookup (dd_keys db) uuid")
  case (Some k)
  then have "mid = db" "fmlookup (dd_accounts db) uuid \<noteq> None"
    using key directory_wf_row [OF wf] by (auto simp: insert_key_def)
  then obtain b where "update_account uuid
      (\<lambda>r. ac_current_id r = None \<and> ac_deleted_at r = None \<and> i \<noteq> None)
      (\<lambda>r. r\<lparr>ac_current_id := i, ac_id_changed_at := coalesce at (ac_id_changed_at r)\<rparr>) db = Ok (b, db')"
    using row Some by (auto simp: insert_account_def elim!: result_elims)
  then show ?thesis by (rule update_account_wf [OF _ wf]) (auto simp: row_keeps_def row_ok_def)
next
  case None
  then have mid: "mid = db\<lparr>dd_keys := fmupd uuid \<lparr>kr_storage_key = key, kr_kind = kind, kr_source = source\<rparr> (dd_keys db)\<rparr>"
    "key \<noteq> 0" "key_owner key db = None"
    using key by (auto simp: insert_key_def split: if_splits)
  have unowned: "fmlookup (dd_keys db) u = Some k \<Longrightarrow> kr_storage_key k \<noteq> key" for u k
    by (rule key_owner_None [OF mid(3)])
  have "db' = mid\<lparr>dd_accounts := fmupd uuid (new_account_row kind i at) (dd_accounts mid)\<rparr>"
    "account_row_allowed (new_account_row kind i at)"
    using row None wf mid(1) by (auto simp: insert_account_def directory_wf_def Let_def split: option.splits if_splits)
  then show ?thesis
    using wf mid unowned by (auto simp: directory_wf_def row_ok_def new_account_row_def split: if_splits)
qed

lemma ensure_wf:
  "ensure_rows now key uuid kind i at source db = Ok (x, db') \<Longrightarrow> directory_wf db \<Longrightarrow> directory_wf db'"
  unfolding ensure_rows_def
  by (auto elim!: result_elims dest: first_rows_wf fold_wf)

lemma webhook_updates_wf:
  "change_id uuid i at db = Ok (a, db') \<Longrightarrow> directory_wf db \<Longrightarrow> directory_wf db'"
  "update_profile uuid p db = Ok (a, db') \<Longrightarrow> directory_wf db \<Longrightarrow> directory_wf db'"
  "change_custodian now uuid c at db = Ok (a, db') \<Longrightarrow> directory_wf db \<Longrightarrow> directory_wf db'"
  "end_sign_ins now uuid at reason db = Ok (a, db') \<Longrightarrow> directory_wf db \<Longrightarrow> directory_wf db'"
  "delete_account now uuid at db = Ok (a, db') \<Longrightarrow> directory_wf db \<Longrightarrow> directory_wf db'"
  unfolding change_id_def update_profile_def change_custodian_def updated_or_stale_def end_sign_ins_def
    delete_account_def invalidate_storage_proof_def record_pending_event_def Let_def
  by (auto elim!: result_elims update_account_wf intro!: rename_custodian_wf dest: purge_wf
      simp: row_keeps_webhook row_keeps_changes row_ok_changes(2) split: option.splits)
    (auto simp: row_ok_def)

lemma apply_event_wf:
  "apply_event U now event account at db = Ok (a, db') \<Longrightarrow> directory_wf db \<Longrightarrow> directory_wf db'"
  unfolding apply_event_def
  by (auto simp: Let_def dest: webhook_updates_wf split: option.splits if_splits webhook_payload.splits)

lemma apply_step_wf: "directory_wf db \<Longrightarrow> directory_wf (apply_step U st db)"
proof (cases st)
  case (AdoptStep uuid i at)
  assume "directory_wf db"
  then show ?thesis
    by (auto simp: AdoptStep adopt_id_rows_def after_commit_def row_keeps_webhook row_ok_def
        elim!: result_elims update_account_wf intro!: rename_custodian_wf split: sum.split)
next
  case (ClaimStep now locked limit)
  assume "directory_wf db"
  then show ?thesis
    unfolding ClaimStep claim_due_def Let_def apply_step.simps snd_conv
    by (rule map_rows_wf) (auto simp: row_ok_def account_row_allowed_def)
next
  case (WebhookStep event at now)
  assume "directory_wf db"
  then show ?thesis
    by (auto simp: WebhookStep receive_rows_def after_commit_def elim!: result_elims
        dest: apply_event_wf split: sum.split if_splits)
qed (auto simp: store_summary_rows_def note_unknown_rows_def complete_profile_rows_def forget_old_pending_def
    after_commit_def Let_def row_keeps_webhook row_keeps_changes row_ok_changes(4)
    elim!: update_account_wf dest: ensure_wf purge_wf split: sum.split, auto simp: row_ok_def)

section \<open>Fences\<close>

lemma pe_updated_at_simps [simp]:
  "pe_updated_at (merge_pending p new) = pe_updated_at new"
  "pe_updated_at (new_pending now at reason deleted) = now"
  by (simp_all add: merge_pending_def new_pending_def)

text \<open>
  A fence is what Waveform has recorded against an account: on its row or, before it was first seen,
  on its pending event. \<open>on_row\<close> and \<open>on_pending\<close> say what; the laws are what every recorded thing must
  satisfy to stay recorded whatever happens.
\<close>

locale account_fence =
  fixes on_row :: "account_row \<Rightarrow> bool" and on_pending :: "pending_row \<Rightarrow> bool"
  assumes kept: "on_row r \<Longrightarrow> row_keeps r r' \<Longrightarrow> on_row r'"
    and merged: "on_pending p \<Longrightarrow> on_pending (merge_pending p new)"
    and folded: "on_pending p \<Longrightarrow> pe_deleted_at p = None \<Longrightarrow> on_row (fold_marker p r)"
    and buried: "on_row (tombstone at r)"
begin

text \<open>The fence stands on the row of a seen account or on a pending event recorded since \<open>lo\<close>.\<close>

definition fenced :: "instant \<Rightarrow> string \<Rightarrow> directory_db \<Rightarrow> bool" where
  "fenced lo uuid db \<longleftrightarrow>
     (\<exists>r. fmlookup (dd_keys db) uuid \<noteq> None \<and> fmlookup (dd_accounts db) uuid = Some r \<and> on_row r) \<or>
     (\<exists>p. fmlookup (dd_pending db) uuid = Some p \<and> on_pending p \<and> lo \<le> pe_updated_at p)"

lemma fenced_row_kept:
  assumes "account_keeps db db'" "fmlookup (dd_keys db) uuid \<noteq> None"
    "fmlookup (dd_accounts db) uuid = Some r" "on_row r"
  shows "fenced lo uuid db'"
  using assms kept unfolding account_keeps_def fenced_def by (metis option.distinct(1) not_None_eq)

lemma fenced_pending_same:
  assumes "fenced lo uuid db" "account_keeps db db'"
    and "fmlookup (dd_pending db') uuid = fmlookup (dd_pending db) uuid"
  shows "fenced lo uuid db'"
  using assms(1) unfolding fenced_def [of lo uuid db]
proof (elim disjE exE conjE)
  fix r assume "fmlookup (dd_keys db) uuid \<noteq> None" "fmlookup (dd_accounts db) uuid = Some r" "on_row r"
  then show ?thesis by (rule fenced_row_kept [OF assms(2)])
next
  fix p assume "fmlookup (dd_pending db) uuid = Some p" "on_pending p" "lo \<le> pe_updated_at p"
  then show ?thesis by (simp add: fenced_def assms(3))
qed

lemma fenced_same: "fenced lo uuid db \<Longrightarrow> account_keeps db db' \<Longrightarrow> same_fences db db' \<Longrightarrow> fenced lo uuid db'"
  by (rule fenced_pending_same) (simp_all add: same_fences_def)

lemma fenced_recorded:
  assumes "fenced lo uuid db" "lo \<le> now"
  shows "fenced lo uuid (record_pending_event now v at reason deleted db)"
  using assms by (auto simp: fenced_def record_pending_event_def Let_def merged split: option.split)

lemma fenced_updated:
  assumes "update_account uuid (\<lambda>_. True) f db = Ok (b, db')" "fmlookup (dd_keys db) uuid \<noteq> None"
    "fmlookup (dd_accounts db) uuid = Some r" "on_row (f r)"
  shows "fenced lo uuid (db'\<lparr>dd_pending := q\<rparr>)"
  using assms(1)
  by (cases rule: update_account_OkE) (use assms in \<open>auto simp: fenced_def update_account_def split: if_splits\<close>)

lemma fenced_purged:
  assumes "fenced lo uuid db" "keyed db" "lo \<le> now" "purge_account now v at db = Ok (p, db')"
  shows "fenced lo uuid db'"
proof (cases "fmlookup (dd_keys db) v")
  case None
  then show ?thesis using assms fenced_recorded by (auto simp: purge_account_def)
next
  case (Some k)
  with assms(4) obtain b mid where mid:
    "update_account v (\<lambda>_. True) (tombstone at) (delete_owned (kr_storage_key k) db) = Ok (b, mid)"
    "db' = mid\<lparr>dd_pending := fmdrop v (dd_pending mid)\<rparr>"
    by (auto simp: purge_account_def Let_def elim!: result_elims)
  show ?thesis
  proof (cases "v = uuid")
    case True
    obtain r where "fmlookup (dd_accounts db) v = Some r" using assms(2) Some by (auto simp: keyed_def)
    then show ?thesis
      using fenced_updated [OF mid(1), of r] Some True mid(2) buried by (simp add: delete_owned_def)
  next
    case False
    have "fmlookup (dd_pending db') uuid = fmlookup (dd_pending db) uuid"
      using update_account_same [OF mid(1)] False mid(2) by (simp add: same_fences_def delete_owned_def)
    then show ?thesis by (rule fenced_pending_same [OF assms(1) purge_keeps [OF assms(4)]])
  qed
qed

lemma fenced_folded:
  assumes "fenced lo uuid db" "keyed db" "lo \<le> now" "fmlookup (dd_keys db) v \<noteq> None"
    and "fold_pending_events now v db = Ok (x, db')"
  shows "fenced lo uuid db'"
proof (cases "fmlookup (dd_pending db) v")
  case None
  then show ?thesis using assms by (simp add: fold_pending_events_def)
next
  case (Some p)
  show ?thesis
  proof (cases "pe_deleted_at p")
    case None
    with assms(5) Some obtain b mid where mid: "update_account v (\<lambda>_. True) (fold_marker p) db = Ok (b, mid)"
      "db' = mid\<lparr>dd_pending := fmdrop v (dd_pending mid)\<rparr>"
      by (auto simp: fold_pending_events_def elim!: result_elims)
    obtain r where r: "fmlookup (dd_accounts db) v = Some r" using assms(2,4) by (auto simp: keyed_def)
    show ?thesis
    proof (cases "v = uuid")
      case True
      from assms(1) have "on_row (fold_marker p r)"
        unfolding fenced_def using True r Some folded [OF _ None] kept row_keeps_changes(3) by auto
      then show ?thesis using fenced_updated [OF mid(1) assms(4) r] True mid(2) by simp
    next
      case False
      have "fmlookup (dd_pending db') uuid = fmlookup (dd_pending db) uuid"
        using update_account_same [OF mid(1)] False mid(2) by (simp add: same_fences_def)
      then show ?thesis by (rule fenced_pending_same [OF assms(1) fold_keeps [OF assms(5)]])
    qed
  next
    case (Some at)
    with assms(5) \<open>fmlookup (dd_pending db) v = Some p\<close> obtain q where "purge_account now v at db = Ok (q, db')"
      by (auto simp: fold_pending_events_def elim!: result_elims)
    then show ?thesis by (rule fenced_purged [OF assms(1-3)])
  qed
qed

lemma fenced_event:
  assumes "fenced lo uuid db" "keyed db" "lo \<le> now" "apply_event U now event account at db = Ok (a, db')"
  shows "fenced lo uuid db'"
proof -
  have signed_out: "fenced lo uuid db'" if "end_sign_ins now v at reason db = Ok (a, db')" for v reason
  proof (cases "\<exists>k r. fmlookup (dd_keys db) v = Some k \<and> fmlookup (dd_accounts db) v = Some r")
    case True
    then have "same_fences db db'"
      using that by (auto simp: end_sign_ins_def invalidate_storage_proof_def elim!: result_elims
          dest!: update_account_same)
    then show ?thesis by (rule fenced_same [OF assms(1) end_sign_ins_keeps [OF that]])
  next
    case False
    then have "db' = record_pending_event now v at reason False db"
      using that by (auto simp: end_sign_ins_def split: option.splits)
    then show ?thesis using fenced_recorded assms by simp
  qed
  have deleted: "fenced lo uuid db'" if "delete_account now v at db = Ok (a, db')" for v
    using that fenced_purged [OF assms(1-3)] by (auto simp: delete_account_def elim!: result_elims)
  have updates: "fenced lo uuid db'" if "same_fences db db'"
    by (rule fenced_same [OF assms(1) apply_event_keeps [OF assms(4)] that])
  show ?thesis
    using assms(1,4) unfolding apply_event_def Let_def
    by (auto intro: updates signed_out deleted dest: webhook_updates_same
        split: option.splits if_splits webhook_payload.splits)
qed

lemma fenced_step:
  assumes "fenced lo uuid db" "keyed db" "step_since lo st"
  shows "fenced lo uuid (apply_step U st db)"
proof -
  note keeps = apply_step_keeps [of db U st]
  have same: ?thesis if "same_fences db (apply_step U st db)"
    by (rule fenced_same [OF assms(1) keeps that])
  have since: "lo \<le> now" if "step_time st = Some now" for now
    using assms(3) that by (simp add: step_since_def)
  show ?thesis
  proof (cases st)
    case (EnsureStep now key v kind i at source)
    show ?thesis
    proof (cases "ensure_rows now key v kind i at source db")
      case (Inr answer)
      then obtain x mid mid' where steps:
        "insert_key v key kind (key_source_as_str source) db = Ok ((), mid)"
        "insert_account v i at mid = Ok ((), mid')" "fold_pending_events now v mid' = Ok (x, snd answer)"
        by (cases answer) (auto simp: ensure_rows_def elim!: result_elims)
      have keys: "fmlookup (dd_keys mid) v \<noteq> None" "\<And>u. u \<noteq> v \<Longrightarrow> fmlookup (dd_keys mid) u = fmlookup (dd_keys db) u"
        "dd_pending mid = dd_pending db" "dd_accounts mid = dd_accounts db"
        using steps(1) by (auto simp: insert_key_def split: if_splits)
      have rows: "dd_keys mid' = dd_keys mid" "dd_pending mid' = dd_pending mid"
        "fmlookup (dd_accounts mid') v \<noteq> None"
        using steps(2) keys(1) by (auto simp: insert_account_def update_account_def Let_def
            elim!: result_elims split: option.splits if_splits)
      have keyed: "keyed mid'"
        unfolding keyed_def
      proof (intro allI impI)
        fix u assume u: "fmlookup (dd_keys mid') u \<noteq> None"
        show "fmlookup (dd_accounts mid') u \<noteq> None"
        proof (cases "u = v")
          case False
          then have "fmlookup (dd_accounts mid) u \<noteq> None"
            using u keys rows assms(2) by (simp add: keyed_def)
          then show ?thesis using insert_account_keeps [OF steps(2)] by (fastforce simp: account_keeps_def)
        qed (use rows in simp)
      qed
      have "fenced lo uuid mid'"
        by (rule fenced_pending_same [OF assms(1) account_keeps_trans [OF insert_key_keeps [OF steps(1)]
            insert_account_keeps [OF steps(2)]]]) (simp add: rows keys)
      then have "fenced lo uuid (snd answer)"
        using fenced_folded [OF _ keyed _ _ steps(3)] rows(1) keys(1) since EnsureStep by simp
      then show ?thesis using Inr EnsureStep by (cases answer) simp
    qed (use assms(1) EnsureStep in simp)
  next
    case (PurgeStep now v at)
    then show ?thesis
      using fenced_purged [OF assms(1,2)] since assms(1) by (cases "purge_account now v at db") auto
  next
    case (ForgetStep now)
    have recent: "now \<le> lo + int (7 * day)" using assms(3) ForgetStep by (simp add: step_since_def is_forget_def)
    show ?thesis using assms(1) recent
      by (auto simp: ForgetStep fenced_def forget_old_pending_def)
  next
    case (WebhookStep event at now)
    then show ?thesis
    proof (cases "receive_rows U event at now db")
      case (Inr answer)
      obtain a where a: "answer = (a, snd answer)" by (cases answer) simp
      show ?thesis
      proof (cases a)
        case None
        then show ?thesis using Inr a WebhookStep assms(1)
          by (auto simp: receive_rows_def elim!: result_elims split: if_splits)
      next
        case (Some applied)
        then obtain mid where mid: "apply_event U now event (account_of U (we_payload event)) at
            (db\<lparr>dd_events := fmupd (we_event_id event) ''processing'' (dd_events db)\<rparr>) = Ok (applied, mid)"
          "snd answer = mid\<lparr>dd_events := fmupd (we_event_id event) (ap_outcome applied) (dd_events mid)\<rparr>"
          using Inr a by (auto simp: receive_rows_def elim!: result_elims split: if_splits)
        have "fenced lo uuid mid"
          by (rule fenced_event [OF _ _ since mid(1)]) (use assms WebhookStep in \<open>auto simp: fenced_def keyed_def\<close>)
        then show ?thesis using Inr a mid(2) WebhookStep by (cases answer) (simp add: fenced_def)
      qed
    qed (use assms(1) in simp)
  qed (rule same, (auto simp: adopt_id_rows_def store_summary_rows_def note_unknown_rows_def
      complete_profile_rows_def claim_due_def Let_def after_commit_def elim!: result_elims
      dest!: update_account_same split: sum.split)[1])+
qed

lemma fenced_reaches:
  assumes "reaches U (step_since lo) db db'" "fenced lo uuid db" "directory_wf db"
  shows "fenced lo uuid db'"
  using reaches_invariant [OF assms(1), of "\<lambda>db. fenced lo uuid db \<and> directory_wf db"] assms(2,3)
    fenced_step directory_wf_keyed apply_step_wf by blast

end

text \<open>Sign-ins that ended at \<open>t\<close> (a deletion refuses tokens too), and deletions.\<close>

definition row_signed_out :: "instant \<Rightarrow> account_row \<Rightarrow> bool" where
  "row_signed_out t r \<longleftrightarrow> ac_deleted_at r \<noteq> None \<or> at_or_after (ac_revoked_before r) t"

definition pending_signed_out :: "instant \<Rightarrow> pending_row \<Rightarrow> bool" where
  "pending_signed_out t p \<longleftrightarrow> t \<le> pe_revoked_before p"

definition row_deleted :: "account_row \<Rightarrow> bool" where
  "row_deleted r \<longleftrightarrow> ac_deleted_at r \<noteq> None"

definition pending_deleted :: "pending_row \<Rightarrow> bool" where
  "pending_deleted p \<longleftrightarrow> pe_deleted_at p \<noteq> None"

interpretation signed_out: account_fence "row_signed_out t" "pending_signed_out t" for t
proof unfold_locales
  fix r r' :: account_row
  assume "row_signed_out t r" "row_keeps r r'"
  then show "row_signed_out t r'"
    unfolding row_signed_out_def row_keeps_def at_or_after_def by (fastforce split: option.splits)
qed (auto simp: row_signed_out_def pending_signed_out_def merge_pending_def fold_marker_def tombstone_def
    greatest_def coalesce_def split: option.splits)

interpretation gone: account_fence row_deleted pending_deleted
  by unfold_locales (auto simp: row_deleted_def pending_deleted_def row_keeps_def merge_pending_def
      tombstone_def coalesce_def split: option.splits)

text \<open>Reading a fenced account shows the fence.\<close>

lemma load_row_OkE:
  assumes "load_row U uuid db = Ok (Some c)"
  obtains k u where "fmlookup (dd_keys db) uuid = Some k" "account_uuid_from_str U uuid = Ok u"
    "cr_uuid c = u" "cr_storage_key c = kr_storage_key k" "cr_kind c = kr_kind k"
    "cr_revoked_before c = greatest (Option.bind (fmlookup (dd_accounts db) uuid) ac_revoked_before)
       (map_option pe_revoked_before (fmlookup (dd_pending db) uuid))"
    "cr_deleted_at c = coalesce (Option.bind (fmlookup (dd_accounts db) uuid) ac_deleted_at)
       (Option.bind (fmlookup (dd_pending db) uuid) pe_deleted_at)"
  using assms by (auto simp: load_row_def record_of_def Let_def map_ok_Ok_iff elim!: result_elims split: option.splits)

lemma load_signed_out:
  assumes "load_row U uuid db = Ok (Some c)" "signed_out.fenced t lo uuid db"
  shows "cr_deleted_at c \<noteq> None \<or> at_or_after (cr_revoked_before c) t"
  using assms(1)
proof (cases rule: load_row_OkE)
  case (1 k u)
  then show ?thesis using assms(2)
    by (auto simp: signed_out.fenced_def row_signed_out_def pending_signed_out_def greatest_def at_or_after_def
        coalesce_def split: option.splits)
qed

lemma load_gone:
  assumes "load_row U uuid db = Ok (Some c)" "gone.fenced lo uuid db"
  shows "cr_deleted_at c \<noteq> None"
  using assms(1)
proof (cases rule: load_row_OkE)
  case (1 k u)
  then show ?thesis using assms(2)
    by (auto simp: gone.fenced_def row_deleted_def pending_deleted_def coalesce_def split: option.splits)
qed

section \<open>Properties of the directory\<close>

definition directory_empty :: directory_db where
  "directory_empty =
     \<lparr>dd_keys = fmempty, dd_accounts = fmempty, dd_pending = fmempty, dd_migrated = {||}, dd_events = fmempty,
      dd_proofs = [], dd_owned = []\<rparr>"

text \<open>
  C15: whatever steps the directory takes, in any order and at any clock readings, every account has
  one storage key that is not nil and no other account has, its row has the key's kind and satisfies
  the checks of the schema, and a deleted account's row holds no id, name, photo or custodian and
  refuses tokens.
\<close>

theorem reachable_directory_wf: "reaches U (\<lambda>_. True) directory_empty db \<Longrightarrow> directory_wf db"
  by (erule reaches_invariant [where I = directory_wf])
    (simp add: directory_wf_def directory_empty_def, rule apply_step_wf)

text \<open>
  C16: nothing that is recorded for good gets lost: whatever happens, an account keeps its storage key
  and kind, the instant before which its tokens are refused never moves back, and a deletion stays.
\<close>

theorem directory_never_forgets:
  assumes "reaches U (\<lambda>_. True) db db'" "fmlookup (dd_keys db) uuid = Some k"
    and "fmlookup (dd_accounts db) uuid = Some r"
  shows "fmlookup (dd_keys db') uuid = Some k \<and>
    (\<exists>r'. fmlookup (dd_accounts db') uuid = Some r' \<and> ac_kind r' = ac_kind r \<and>
       (\<forall>t. at_or_after (ac_revoked_before r) t \<longrightarrow> at_or_after (ac_revoked_before r') t) \<and>
       (ac_deleted_at r \<noteq> None \<longrightarrow> ac_deleted_at r' = ac_deleted_at r))"
  using reaches_keeps [OF assms(1)] assms(2,3)
  by (fastforce simp: account_keeps_def row_keeps_def at_or_after_def split: option.splits)

section \<open>Deliveries\<close>

definition events_kept :: "directory_db \<Rightarrow> directory_db \<Rightarrow> bool" where
  "events_kept db db' \<longleftrightarrow> (\<forall>e. fmlookup (dd_events db) e \<noteq> None \<longrightarrow> fmlookup (dd_events db') e \<noteq> None)"

lemma update_account_events: "update_account uuid cond f db = Ok (b, db') \<Longrightarrow> dd_events db' = dd_events db"
  by (erule update_account_OkE) simp_all

lemma purge_events: "purge_account now uuid at db = Ok (p, db') \<Longrightarrow> dd_events db' = dd_events db"
  by (auto simp: purge_account_def record_pending_event_def delete_owned_def Let_def elim!: result_elims
      dest!: update_account_events split: option.splits)

lemma ensure_events: "ensure_rows now key uuid kind i at source db = Ok (x, db') \<Longrightarrow> dd_events db' = dd_events db"
  by (auto simp: ensure_rows_def insert_key_def insert_account_def fold_pending_events_def Let_def
      elim!: result_elims dest!: update_account_events purge_events split: option.splits if_splits)

lemma apply_event_events: "apply_event U now event account at db = Ok (a, db') \<Longrightarrow> dd_events db' = dd_events db"
  unfolding apply_event_def change_id_def update_profile_def change_custodian_def updated_or_stale_def
    end_sign_ins_def delete_account_def invalidate_storage_proof_def record_pending_event_def
    rename_custodian_def Let_def
  by (auto elim!: result_elims dest!: update_account_events purge_events
      split: option.splits if_splits webhook_payload.splits)

lemma apply_step_events: "events_kept db (apply_step U st db)"
proof (cases st)
  case (WebhookStep event at now)
  then show ?thesis
    by (auto simp: events_kept_def receive_rows_def after_commit_def elim!: result_elims
        dest!: apply_event_events split: sum.split if_splits)
qed (auto simp: events_kept_def adopt_id_rows_def rename_custodian_def store_summary_rows_def note_unknown_rows_def
    complete_profile_rows_def forget_old_pending_def claim_due_def after_commit_def Let_def elim!: result_elims
    dest!: ensure_events purge_events update_account_events split: sum.split)

text \<open>
  An event takes effect once: when a delivery with its id has been applied, every later delivery
  with that id, whatever it says and whatever happened in between, changes nothing and is answered as
  a duplicate.
\<close>

theorem repeated_delivery_changes_nothing:
  assumes "receive_rows U event at now db = Ok (Some applied, db')" and "reaches U (\<lambda>_. True) db' db''"
    and "we_event_id again = we_event_id event"
  shows "receive_rows U again at' now' db'' = Ok (None, db'')"
proof -
  have "fmlookup (dd_events db') (we_event_id event) \<noteq> None"
    using assms(1) by (auto simp: receive_rows_def elim!: result_elims split: if_splits)
  then have "fmlookup (dd_events db'') (we_event_id event) \<noteq> None"
    by (rule reaches_invariant [OF assms(2)]) (use apply_step_events in \<open>auto simp: events_kept_def\<close>)
  then show ?thesis by (simp add: receive_rows_def assms(3))
qed

section \<open>Acting for a Silicon\<close>

lemma refresh_needs_answer:
  assumes "\<forall>w u p x. fst (run_state (di_lookup D u p) w) \<noteq> Ok (lookup.Found x)"
  shows "fst (run_state (refresh_from_accounts D uuid) s) \<noteq> Ok (Account r)"
proof
  assume "fst (run_state (refresh_from_accounts D uuid) s) = Ok (Account r)"
  then obtain w x where "fst (run_state (di_lookup D (account_uuid_str uuid) Authorization) w) = Ok (lookup.Found x)"
    by (auto simp: refresh_from_accounts_def run_simps split: prod.splits sum.splits lookup.splits) (metis fst_conv)
  then show False using assms by blast
qed

text \<open>
  A Carbon acts on another account only as the custodian of a Silicon that is not deleted, as the
  record says that the directory answers; and unless Silicon Accounts describes an account during the
  call, that is only so for a read of a Silicon named by its uuid whose custodian was confirmed within
  the last ten minutes. A write always asks.
\<close>

theorem custodian_is_confirmed:
  assumes "run_state (select_for_custodian D carbon selector confirm) s = (Ok (Custodian r), s')"
  shows "custodian_is r carbon \<and>
    ((\<forall>w u p x. fst (run_state (di_lookup D u p) w) \<noteq> Ok (lookup.Found x) \<and>
        fst (run_state (di_lookup_by_id D u p) w) \<noteq> Ok (lookup.Found x)) \<longrightarrow>
     confirm = Recent \<and> public_id_kind selector = None \<and>
     (\<exists>now. custodian_checked_within now CUSTODIAN_RECHECK r))"
proof -
  let ?silent = "\<forall>w u p x. fst (run_state (di_lookup D u p) w) \<noteq> Ok (lookup.Found x) \<and>
        fst (run_state (di_lookup_by_id D u p) w) \<noteq> Ok (lookup.Found x)"
  have by_lookup: "custodian_is r carbon \<and> \<not> ?silent"
    if "run_state (select_by_lookup D carbon selector) m = (Ok (Custodian r), s')" for m
    using that unfolding select_by_lookup_def recently_missing_def may_look_up_for_def remember_missing_def Let_def
    by (auto simp: run_simps split: prod.splits sum.splits if_splits lookup.splits option.splits) (metis fst_conv)+
  have cached: "custodian_is r carbon \<and> (?silent \<longrightarrow> confirm = Recent \<and> (\<exists>now. custodian_checked_within now CUSTODIAN_RECHECK r))"
    if "run_state (custody D carbon c confirm) m = (Ok (Custodian r), s')" for c m
  proof -
    have "\<not> (?silent \<and> run_state (refresh_from_accounts D u) m' = (Ok (Account f), m''))" for u m' f m''
      using refresh_needs_answer [of D u m' f] by (metis fst_conv)
    then show ?thesis
      using that unfolding custody_def
      by (auto simp: run_simps split: prod.splits sum.splits if_splits refreshed.splits)
  qed
  show ?thesis
    using assms by_lookup cached unfolding select_for_custodian_def as_unavailable_def
    by (fastforce simp: run_simps split: if_splits sum.splits prod.splits option.splits)
qed

section \<open>Ids that arrive late\<close>

text \<open>
  Public ids do go back. An account's id is changed to \<open>new\<close> at \<open>t2\<close>; then the delayed event that
  it was changed to \<open>old\<close> at an earlier \<open>t1\<close> arrives. The account itself keeps \<open>new\<close>, but every Silicon it
  looks after shows \<open>old\<close> as its custodian's id; and a delayed profile update, newer than the profile
  Waveform has, puts \<open>old\<close> back on the account itself while \<open>id_changed_at\<close> still says \<open>t2\<close>.
\<close>

theorem late_events_bring_old_ids_back:
  assumes "fmlookup (dd_accounts db) carbon = Some r" "fmlookup (dd_accounts db) silicon = Some q"
    and "ac_deleted_at r = None" "ac_id_changed_at r = Some t2" "t1 < t2" "ac_custodian_uuid r = None"
    and "ac_custodian_uuid q = Some carbon" "silicon \<noteq> carbon"
    and "ac_profile_version r < version" "account_row_allowed r"
    and "3 \<le> char_count old" "char_count old \<le> 128"
  shows "(\<exists>a late. change_id carbon old t1 db = Ok (a, late) \<and>
      fmlookup (dd_accounts late) carbon = Some r \<and>
      map_option ac_custodian_id (fmlookup (dd_accounts late) silicon) = Some (Some old)) \<and>
    (\<exists>a late r'. update_profile carbon
        \<lparr>wp_display_name = [], wp_pfp_url = [], wp_id = old, wp_version = version, wp_custodian = None\<rparr> db = Ok (a, late) \<and>
      fmlookup (dd_accounts late) carbon = Some r' \<and> ac_current_id r' = Some old \<and> ac_id_changed_at r' = Some t2)"
proof (intro conjI)
  show "\<exists>a late. change_id carbon old t1 db = Ok (a, late) \<and>
      fmlookup (dd_accounts late) carbon = Some r \<and>
      map_option ac_custodian_id (fmlookup (dd_accounts late) silicon) = Some (Some old)"
    using assms by (simp add: change_id_def update_account_def updated_or_stale_def rename_custodian_def)
  have "nullif_empty old = Some old" using assms(11) by (cases old) (simp_all add: nullif_empty_def char_count_def)
  then show "\<exists>a late r'. update_profile carbon
        \<lparr>wp_display_name = [], wp_pfp_url = [], wp_id = old, wp_version = version, wp_custodian = None\<rparr> db = Ok (a, late) \<and>
      fmlookup (dd_accounts late) carbon = Some r' \<and> ac_current_id r' = Some old \<and> ac_id_changed_at r' = Some t2"
    using assms
    by (simp add: update_profile_def update_account_def updated_or_stale_def account_row_allowed_def nullif_empty_def)
qed

end
