(* ===== verification/Authenticator_Properties.thy ===== *)
theory Authenticator_Properties
  imports Directory_Properties
begin

text \<open>
  Who gets in: what an accepted bearer token or proof implies, and that neither ended sign-ins nor a
  deleted account come back, whatever other requests, webhooks and background checks do meanwhile.
\<close>

section \<open>Records the directory answers\<close>

text \<open>A record read from a database that the operation's start reaches.\<close>

definition read_later :: "uuid_crate \<Rightarrow> (directory_step \<Rightarrow> bool) \<Rightarrow> string \<Rightarrow> directory_db \<Rightarrow> account_record \<Rightarrow> bool" where
  "read_later U ok uuid db c \<longleftrightarrow> (\<exists>db'. reaches U ok db db' \<and> load_row U uuid db' = Ok (Some c))"

lemma read_later_trans: "reaches U ok a b \<Longrightarrow> read_later U ok uuid b c \<Longrightarrow> read_later U ok uuid a c"
  unfolding read_later_def by (meson reaches_trans)

text \<open>Silicon Accounts describes the account it was asked about.\<close>

definition describes_asked :: "'w directory \<Rightarrow> bool" where
  "describes_asked D \<longleftrightarrow> (\<forall>w uuid purpose summary.
     fst (run_state (di_lookup D uuid purpose) w) = Ok (lookup.Found summary) \<longrightarrow> as_uuid summary = uuid)"

context directory_tasks
begin

lemma transact_Ok:
  assumes "run_state (transact D body) s = (Ok x, s')"
  obtains db where "reaches (di_uuid_crate D) ok (ds_db s) db" "body db = Ok (x, ds_db s')"
proof -
  obtain s1 where s1: "run_state (di_others D) s = ((), s1)"
    by (cases "run_state (di_others D) s") simp
  have "reaches (di_uuid_crate D) ok (ds_db s) (ds_db s1)"
    using others s1 by (metis snd_conv stepping_def)
  moreover have "body (ds_db s1) = Ok (x, ds_db s')"
    using assms s1 by (auto simp: transact_def run_simps split: sum.splits prod.splits if_splits)
  ultimately show ?thesis by (rule that)
qed

lemma load_Ok:
  assumes "run_state (load D uuid) s = (Ok (Some c), s')"
  shows "read_later (di_uuid_crate D) ok (account_uuid_str uuid) (ds_db s) c"
  using assms unfolding load_def query_def read_later_def
  by (elim transact_Ok) (auto simp: map_ok_Ok_iff)

lemma load_existing_Ok:
  assumes "run_state (load_existing D uuid) s = (Ok c, s')"
  shows "read_later (di_uuid_crate D) ok (account_uuid_str uuid) (ds_db s) c"
  using assms unfolding load_existing_def
  by (auto simp: run_simps split: prod.splits sum.splits elim!: run_try_call_OkE dest!: load_Ok)

lemma stepping_Ok:
  assumes "stepping (di_uuid_crate D) ok action" "run_state action s = (x, s')"
  shows "reaches (di_uuid_crate D) ok (ds_db s) (ds_db s')"
  using assms unfolding stepping_def by (metis snd_conv)

lemma ensure_Ok:
  assumes "run_state (ensure_account D uuid kind i at source) s = (Ok c, s')"
  shows "read_later (di_uuid_crate D) ok (account_uuid_str uuid) (ds_db s) c"
proof -
  obtain key w where key: "run_state (di_uuid_v7 D) (ds_world s) = (key, w)" by fastforce
  obtain u mid where mid: "run_state (transact_at D (\<lambda>now. ensure_rows now key (account_uuid_str uuid) kind
      (of_kind kind i) (if of_kind kind i = None then None else at) source)) (s\<lparr>ds_world := w\<rparr>) = (Ok u, mid)"
    "run_state (load_existing D uuid) mid = (Ok c, s')"
    using assms key by (auto simp: ensure_account_def Let_def run_simps elim!: run_try_call_OkE
        split: prod.splits sum.splits)
  show ?thesis
    using read_later_trans [OF stepping_Ok [OF stepping_transactions(1) mid(1)] load_existing_Ok [OF mid(2)]]
    by simp
qed

lemma adopt_Ok:
  assumes "run_state (adopt_id D uuid i at) s = (Ok (Some c), s')"
  shows "read_later (di_uuid_crate D) ok (account_uuid_str uuid) (ds_db s) c"
proof -
  obtain b mid where mid: "run_state (transact D (adopt_id_rows (account_uuid_str uuid) i at)) s = (Ok b, mid)"
    "run_state (if b then load D uuid else done_with None) mid = (Ok (Some c), s')"
    using assms unfolding adopt_id_def by (elim run_try_call_OkE)
  then have "run_state (load D uuid) mid = (Ok (Some c), s')" by (simp add: run_simps split: if_splits)
  then show ?thesis
    by (rule read_later_trans [OF stepping_Ok [OF stepping_transactions(2) mid(1)] load_Ok])
qed

lemma store_summary_Ok:
  assumes "run_state (store_summary D summary started) s = (Ok c, s')"
  shows "read_later (di_uuid_crate D) ok (as_uuid summary) (ds_db s) c"
proof -
  obtain uuid where uuid: "account_uuid_from_str (di_uuid_crate D) (as_uuid summary) = Ok uuid"
    using assms unfolding store_summary_def by (elim run_try_call_OkE) (auto simp: run_lift_result)
  obtain u mid v mid' where mid:
    "run_state (ensure_account D uuid (as_kind summary) (nullif_empty (as_id summary)) (Some started)
       key_source.Lookup) s = (u, mid)"
    "run_state (transact_at D (\<lambda>now. store_summary_rows (di_uuid_crate D) now (account_uuid_str uuid) started summary)) mid = (v, mid')"
    "run_state (load_existing D uuid) mid' = (Ok c, s')"
    using assms by (auto simp: store_summary_def run_simps uuid as_unavailable_def split: prod.splits sum.splits)
  have "account_uuid_str uuid = as_uuid summary"
    using uuid by (auto simp: account_uuid_from_str_def split: if_splits)
  then show ?thesis
    using read_later_trans [OF reaches_trans [OF stepping_Ok [OF stepping_transactions(3) mid(2)]
        stepping_Ok [OF stepping_ensure mid(1)]] load_existing_Ok [OF mid(3)]] by simp
qed

lemma refresh_Account:
  assumes "describes_asked D" "run_state (refresh_from_accounts D uuid) s = (Ok (Account c), s')"
  shows "read_later (di_uuid_crate D) ok (account_uuid_str uuid) (ds_db s) c"
proof -
  obtain started w summary w' s1 where run: "run_state (di_now_utc D) (ds_world s) = (started, w)"
    "run_state (di_lookup D (account_uuid_str uuid) Authorization) w = (Ok (lookup.Found summary), w')"
    "run_state (store_summary D summary started) (s\<lparr>ds_world := w'\<rparr>) = (Ok c, s1)"
    using assms(2) by (auto simp: refresh_from_accounts_def run_simps split: prod.splits sum.splits lookup.splits)
  have "as_uuid summary = account_uuid_str uuid"
    using assms(1) run(2) unfolding describes_asked_def by (metis fst_conv)
  then show ?thesis using store_summary_Ok [OF run(3)] by simp
qed

lemma learn_id_Ok:
  assumes "run_state (learn_id D uuid i at c0) s = (Ok c, s')"
  shows "c = c0 \<or> read_later (di_uuid_crate D) ok (account_uuid_str uuid) (ds_db s) c"
  using assms unfolding learn_id_def
  by (auto simp: run_simps split: option.splits if_splits prod.splits sum.splits dest!: adopt_Ok)

lemma check_custodian_Ok:
  assumes "describes_asked D" "run_state (check_custodian D uuid c0) s = (Ok c, s')"
  shows "c = c0 \<or> read_later (di_uuid_crate D) ok (account_uuid_str uuid) (ds_db s) c"
proof -
  have refresh: "read_later (di_uuid_crate D) ok (account_uuid_str uuid) (ds_db s) c"
    if "run_state (within_deadline D (refresh_from_accounts D uuid)) m = (Some (Ok (Account c)), m')" "ds_db m = ds_db s"
    for m m'
  proof -
    from that(1) obtain m1 where "run_state (refresh_from_accounts D uuid) m = (Ok (Account c), m1)"
      by (auto simp: within_deadline_def run_simps split: prod.splits if_splits)
    from refresh_Account [OF assms(1) this] show ?thesis using that(2) by simp
  qed
  have deleted: "read_later (di_uuid_crate D) ok (account_uuid_str uuid) (ds_db s) c"
    if "run_state (within_deadline D (refresh_from_accounts D uuid)) m = (Some (Ok refreshed.Deleted), m')"
      "ds_db m = ds_db s" "run_state (load_existing D uuid) m' = (Ok c, m'')"
    for m m' m''
  proof -
    have "stepping (di_uuid_crate D) ok (within_deadline D (refresh_from_accounts D uuid))"
      unfolding within_deadline_def by (intro stepping_intros stepping_refresh)
    from stepping_Ok [OF this that(1)] have "reaches (di_uuid_crate D) ok (ds_db s) (ds_db m')" using that(2) by simp
    then show ?thesis using load_existing_Ok [OF that(3)] by (rule read_later_trans)
  qed
  show ?thesis
    using assms(2) unfolding check_custodian_def may_wait_for_first_lookup_def first_lookup_failed_def
      refresh_in_background_def
    by (auto simp: run_simps split: if_splits option.splits prod.splits sum.splits refreshed.splits
        intro: refresh deleted)
qed

lemma sighting_Ok:
  assumes "describes_asked D" "run_state (sighting D uuid kind i at source) s = (Ok c, s')"
  shows "read_later (di_uuid_crate D) ok (account_uuid_str uuid) (ds_db s) c"
proof -
  let ?read = "read_later (di_uuid_crate D) ok (account_uuid_str uuid)"
  have rest: "?read (ds_db s) c"
    if "run_state (learn_id D uuid j t c0) m = (Ok c1, m1)" "run_state (check_custodian D uuid c1) m1 = (Ok c, m2)"
      "?read (ds_db s) c0" "reaches (di_uuid_crate D) ok (ds_db s) (ds_db m)" for j t c0 c1 m m1 m2
  proof -
    have "stepping (di_uuid_crate D) ok (learn_id D uuid j t c0)"
      unfolding learn_id_def by (auto intro!: stepping_intros stepping_adopt split: option.split)
    then have m1: "reaches (di_uuid_crate D) ok (ds_db s) (ds_db m1)"
      using reaches_trans [OF stepping_Ok [OF _ that(1)] that(4)] by blast
    show ?thesis
      using learn_id_Ok [OF that(1)] check_custodian_Ok [OF assms(1) that(2)] that(3,4) m1 read_later_trans by blast
  qed
  obtain seen m where load: "run_state (load D uuid) s = (Ok seen, m)"
    and after: "run_state (case seen of
        Some r \<Rightarrow>
          if cr_kind r \<noteq> kind then done_with r
          else try_call
            (if cr_current_id r \<noteq> None \<or> of_kind kind i = None then done_with r
             else ensure_account D uuid kind (of_kind kind i) at source) (\<lambda>r.
            try_call (learn_id D uuid (of_kind kind i) at r) (check_custodian D uuid))
      | None \<Rightarrow>
          try_call (ensure_account D uuid kind (of_kind kind i) at source) (\<lambda>r.
          try_call (learn_id D uuid (of_kind kind i) at r) (check_custodian D uuid))) m = (Ok c, s')"
    using assms(2) unfolding sighting_def Let_def by (elim run_try_call_OkE)
  have m: "reaches (di_uuid_crate D) ok (ds_db s) (ds_db m)" by (rule stepping_Ok [OF stepping_load load])
  have ensured: "?read (ds_db s) c"
    if "run_state (try_call (ensure_account D uuid kind j at source) (\<lambda>r.
          try_call (learn_id D uuid (of_kind kind i) at r) (check_custodian D uuid))) m = (Ok c, s')" for j
  proof -
    from that obtain c0 m0 c1 m1 where run: "run_state (ensure_account D uuid kind j at source) m = (Ok c0, m0)"
      "run_state (learn_id D uuid (of_kind kind i) at c0) m0 = (Ok c1, m1)"
      "run_state (check_custodian D uuid c1) m1 = (Ok c, s')"
      by (elim run_try_call_OkE)
    show ?thesis
      using rest [OF run(2,3)] read_later_trans [OF m ensure_Ok [OF run(1)]]
        reaches_trans [OF stepping_Ok [OF stepping_ensure run(1)] m] by blast
  qed
  show ?thesis
  proof (cases seen)
    case None
    then show ?thesis using after ensured by simp
  next
    case (Some c0)
    have c0: "?read (ds_db s) c0" using load Some by (simp add: load_Ok)
    show ?thesis
    proof (cases "cr_kind c0 \<noteq> kind")
      case True
      then show ?thesis using after Some c0 by (simp add: run_simps)
    next
      case same: False
      show ?thesis
      proof (cases "cr_current_id c0 \<noteq> None \<or> of_kind kind i = None")
        case True
        then have "run_state (try_call (learn_id D uuid (of_kind kind i) at c0) (check_custodian D uuid)) m = (Ok c, s')"
          using after Some same by (auto simp: run_simps)
        then show ?thesis using rest c0 m by (elim run_try_call_OkE)
      next
        case False
        then show ?thesis using after Some same ensured by auto
      qed
    qed
  qed
qed

lemma require_current_Ok:
  assumes "au_directory A = D" "run_state (require_current_uuid A uuid) s = (Ok u, s')"
  shows "\<exists>db. reaches (di_uuid_crate D) ok (ds_db s) db \<and> account_uuid_str uuid |\<notin>| dd_migrated db"
proof -
  obtain b m where b: "run_state (transact D (\<lambda>db. map_ok (\<lambda>x. (x, db)) (Ok (account_uuid_str uuid |\<in>| dd_migrated db)))) s = (Ok b, m)"
    "\<not> b"
    using assms unfolding require_current_uuid_def is_retired_uuid_def query_def as_unavailable_def
    by (auto simp: run_simps rejected_def split: prod.splits sum.splits if_splits)
  then show ?thesis by (elim transact_Ok) auto
qed

text \<open>What acceptance of a bearer token rests on.\<close>

lemma bearer_Ok:
  assumes A: "au_directory A = D" and "describes_asked D" and run: "run_state (bearer A token) s = (Ok a, s')"
  obtains c w r db where "run_state (au_verify_access_token A token) (ds_world s) = (Ok c, w)"
    "reaches (di_uuid_crate D) ok (ds_db s) db" "cl_sub c |\<notin>| dd_migrated db"
    "read_later (di_uuid_crate D) ok (cl_sub c) (ds_db s) r"
    "cr_deleted_at r = None" "\<not> sign_in_ended r (Option.bind (cl_iat c) unix_instant)"
    "claimed_kind (cl_kind c) (cl_id c) = Some (cr_kind r)" "cr_storage_key r \<noteq> 0"
    "a = \<lparr>aa_actor = \<lparr>act_kind = cr_kind r, act_id = ActorId (cr_storage_key r)\<rparr>,
          aa_account = \<lparr>ref_uuid = cr_uuid r,
            ref_id = (case coalesce (cr_current_id r) (cl_id c) of Some i \<Rightarrow> i | None \<Rightarrow> [])\<rparr>,
          originating_application = None, aa_expires_at = unix_instant (cl_exp c),
          aa_scopes = cl_scopes c, token_family = cl_fid c\<rparr>"
proof -
  obtain c w where c: "run_state (au_verify_access_token A token) (ds_world s) = (Ok c, w)"
    using run unfolding bearer_def by (auto simp: run_simps split: prod.splits sum.splits)
  obtain uuid where uuid: "account_uuid_from_str (di_uuid_crate D) (cl_sub c) = Ok uuid"
    using run c A unfolding bearer_def by (auto simp: run_simps split: prod.splits sum.splits)
  let ?issued = "Option.bind (cl_iat c) unix_instant"
  obtain u m kind r m' where steps: "run_state (require_current_uuid A uuid) (s\<lparr>ds_world := w\<rparr>) = (Ok u, m)"
    "claimed_kind (cl_kind c) (cl_id c) = Some kind"
    "run_state (sighting D uuid kind (cl_id c) ?issued key_source.SignIn) m = (Ok r, m')"
    "cr_deleted_at r = None" "\<not> sign_in_ended r ?issued" "same_kind r kind = Ok ()"
    and final: "\<exists>a0. authorized r (cl_id c) None (unix_instant (cl_exp c)) = Ok a0 \<and>
      a = a0\<lparr>aa_scopes := cl_scopes c, token_family := cl_fid c\<rparr>"
    using run c A uuid unfolding bearer_def
    by (auto simp: run_simps as_unavailable_def rejected_def Let_def split: prod.splits sum.splits if_splits)
  have str: "account_uuid_str uuid = cl_sub c"
    using uuid by (auto simp: account_uuid_from_str_def split: if_splits)
  obtain db where db: "reaches (di_uuid_crate D) ok (ds_db s) db" "cl_sub c |\<notin>| dd_migrated db"
    using require_current_Ok [OF A steps(1)] str by auto
  have "reaches (di_uuid_crate D) ok (ds_db s) (ds_db m)"
    using stepping_Ok [OF stepping_require_current [OF A] steps(1)] by simp
  then have r: "read_later (di_uuid_crate D) ok (cl_sub c) (ds_db s) r"
    using sighting_Ok [OF assms(2) steps(3)] str by (auto intro: read_later_trans)
  have "cr_kind r = kind" using steps(6) by (simp add: same_kind_def split: if_splits)
  moreover obtain a0 where "authorized r (cl_id c) None (unix_instant (cl_exp c)) = Ok a0"
    "a = a0\<lparr>aa_scopes := cl_scopes c, token_family := cl_fid c\<rparr>" using final by blast
  ultimately show ?thesis
    using that [OF c db r steps(4,5)] steps(2)
    by (auto simp: authorized_def actor_id_new_def ensure_non_nil_def map_ok_Ok_iff split: if_splits elim!: result_elims)
qed

lemma proof_Ok:
  assumes A: "au_directory A = D" and "describes_asked D"
    and run: "run_state (proof_authorization A token scope) s = (Ok a, s')"
  obtains p w user r where "run_state (au_verify_proof A token) (ds_world s) = (Ok (ValidProof p), w)"
    "vp_kind p = UserVerification" "vp_receiving_app p = au_app_id A" "scope \<in> set (vp_scopes p)"
    "allows (au_issuers A) scope (vp_issuing_app p)" "vp_user p = Some user"
    "read_later (di_uuid_crate D) ok (pu_uuid user) (ds_db s) r" "cr_deleted_at r = None"
    "claimed_kind (pu_kind user) (Some (pu_id user)) = Some (cr_kind r)"
    "act_id (aa_actor a) = ActorId (cr_storage_key r)" "act_kind (aa_actor a) = cr_kind r"
    "originating_application a = Some (ApplicationId (vp_issuing_app p))"
    "aa_expires_at a = Some (vp_expires_at p)" "aa_scopes a = vp_scopes p"
proof -
  obtain p w where p: "run_state (au_verify_proof A token) (ds_world s) = (Ok (ValidProof p), w)"
    and checks: "vp_kind p = UserVerification" "vp_receiving_app p = au_app_id A" "scope \<in> set (vp_scopes p)"
    "allows (au_issuers A) scope (vp_issuing_app p)" and actor: "run_state (proof_actor A p) (s\<lparr>ds_world := w\<rparr>) = (Ok a, s')"
    using run unfolding proof_authorization_def
    by (auto simp: run_simps rejected_def split: prod.splits sum.splits proof_verification.splits if_splits)
  obtain app user uuid u m kind now w' r m' where steps: "application_id_from_str (vp_issuing_app p) = Ok app"
    "vp_user p = Some user" "account_uuid_from_str (di_uuid_crate D) (pu_uuid user) = Ok uuid"
    "run_state (require_current_uuid A uuid) (s\<lparr>ds_world := w\<rparr>) = (Ok u, m)"
    "claimed_kind (pu_kind user) (Some (pu_id user)) = Some kind"
    "run_state (sighting D uuid kind (Some (pu_id user)) (Some now) key_source.Proof) (m\<lparr>ds_world := w'\<rparr>) = (Ok r, m')"
    "cr_deleted_at r = None" "same_kind r kind = Ok ()"
    and final: "\<exists>a0. authorized r (Some (pu_id user)) (Some app) (Some (vp_expires_at p)) = Ok a0 \<and>
      a = a0\<lparr>aa_scopes := vp_scopes p\<rparr>"
    using actor A unfolding proof_actor_def
    by (auto simp: run_simps as_unavailable_def rejected_def Let_def split: prod.splits sum.splits if_splits)
  have str: "account_uuid_str uuid = pu_uuid user" "app = ApplicationId (vp_issuing_app p)"
    using steps(1,3) by (auto simp: account_uuid_from_str_def application_id_from_str_def split: if_splits)
  have "reaches (di_uuid_crate D) ok (ds_db s) (ds_db m)"
    using stepping_Ok [OF stepping_require_current [OF A] steps(4)] by simp
  then have r: "read_later (di_uuid_crate D) ok (pu_uuid user) (ds_db s) r"
    using sighting_Ok [OF assms(2) steps(6)] str by (auto intro: read_later_trans)
  have "cr_kind r = kind" using steps(8) by (simp add: same_kind_def split: if_splits)
  with final show ?thesis
    using that [OF p checks steps(2) r steps(7)] steps(5) str
    by (auto simp: authorized_def actor_id_new_def ensure_non_nil_def map_ok_Ok_iff split: if_splits elim!: result_elims)
qed

end

section \<open>Accepted credentials\<close>

lemma uuid_crate_shared [simp]: "di_uuid_crate (shared_directory lo plan throttles D) = di_uuid_crate D"
  by (simp add: shared_directory_def)

lemma describes_asked_shared [simp]: "describes_asked (shared_directory lo plan throttles D) = describes_asked D"
  by (simp add: describes_asked_def shared_directory_def)

text \<open>
  C8: a bearer token is accepted only when Silicon Accounts' keys verify it and, in a state of the
  directory the request sees, its account exists, is not deleted, was not retired by the migration,
  has the kind the token claims, and its sign-ins did not end after the token was issued; the actor
  is that account with the token's scopes, and never a delegated one.
\<close>

theorem accepted_bearer:
  assumes "au_directory A = shared_directory lo plan throttles D" and "describes_asked D"
    and "run_state (bearer A token) s = (Ok a, s')"
  shows "\<exists>c w db db' r.
    run_state (au_verify_access_token A token) (ds_world s) = (Ok c, w) \<and>
    reaches (di_uuid_crate D) (step_since lo) (ds_db s) db \<and> cl_sub c |\<notin>| dd_migrated db \<and>
    reaches (di_uuid_crate D) (step_since lo) (ds_db s) db' \<and>
    load_row (di_uuid_crate D) (cl_sub c) db' = Ok (Some r) \<and> cr_deleted_at r = None \<and>
    (\<forall>t. cr_revoked_before r = Some t \<longrightarrow> at_or_after (Option.bind (cl_iat c) unix_instant) t) \<and>
    claimed_kind (cl_kind c) (cl_id c) = Some (cr_kind r) \<and>
    aa_actor a = \<lparr>act_kind = cr_kind r, act_id = ActorId (cr_storage_key r)\<rparr> \<and>
    aa_scopes a = cl_scopes c \<and> \<not> is_delegated a"
proof -
  have "describes_asked (shared_directory lo plan throttles D)" using assms(2) by simp
  from shared.bearer_Ok [OF assms(1) this assms(3)] obtain c w r db where ok:
    "run_state (au_verify_access_token A token) (ds_world s) = (Ok c, w)"
    "reaches (di_uuid_crate D) (step_since lo) (ds_db s) db" "cl_sub c |\<notin>| dd_migrated db"
    "read_later (di_uuid_crate D) (step_since lo) (cl_sub c) (ds_db s) r"
    "cr_deleted_at r = None" "\<not> sign_in_ended r (Option.bind (cl_iat c) unix_instant)"
    "claimed_kind (cl_kind c) (cl_id c) = Some (cr_kind r)"
    "aa_actor a = \<lparr>act_kind = cr_kind r, act_id = ActorId (cr_storage_key r)\<rparr>"
    "aa_scopes a = cl_scopes c" "originating_application a = None"
    by (metis authorized_actor.select_convs(1,3,5) uuid_crate_shared)
  have "\<forall>t. cr_revoked_before r = Some t \<longrightarrow> at_or_after (Option.bind (cl_iat c) unix_instant) t"
    using ok(6) by (auto simp: sign_in_ended_def at_or_after_def split: option.splits)
  with ok show ?thesis unfolding read_later_def is_delegated_def by blast
qed


section \<open>What was ended stays ended\<close>

lemma sign_out_marks: "row_signed_out at (sign_out at reason r)"
  by (auto simp: row_signed_out_def sign_out_def greatest_def coalesce_def split: option.split)

lemma end_sign_ins_fences:
  assumes "end_sign_ins lo uuid at reason db = Ok (a, db')"
  shows "signed_out.fenced at lo uuid db'"
proof (cases "\<exists>k r. fmlookup (dd_keys db) uuid = Some k \<and> fmlookup (dd_accounts db) uuid = Some r")
  case True
  then obtain k r where row: "fmlookup (dd_keys db) uuid = Some k" "fmlookup (dd_accounts db) uuid = Some r" by blast
  then have "dd_keys db' = dd_keys db \<and> fmlookup (dd_accounts db') uuid = Some (sign_out at reason r)"
    using assms by (auto simp: end_sign_ins_def invalidate_storage_proof_def update_account_def
        elim!: result_elims split: if_splits)
  then show ?thesis using row sign_out_marks by (auto simp: signed_out.fenced_def)
next
  case False
  then have "db' = record_pending_event lo uuid at reason False db"
    using assms by (auto simp: end_sign_ins_def split: option.splits)
  then show ?thesis
    by (auto simp: signed_out.fenced_def record_pending_event_def pending_signed_out_def new_pending_def
        merge_pending_def Let_def split: option.split)
qed

lemma purge_fences:
  assumes "purge_account lo uuid at db = Ok (p, db')" "directory_wf db"
  shows "gone.fenced lo uuid db'"
proof (cases "fmlookup (dd_keys db) uuid")
  case None
  then have "db' = record_pending_event lo uuid at ''account_deleted'' True db"
    using assms(1) by (simp add: purge_account_def)
  then show ?thesis
    by (auto simp: gone.fenced_def record_pending_event_def pending_deleted_def new_pending_def
        merge_pending_def coalesce_def Let_def split: option.split)
next
  case (Some k)
  then obtain r where r: "fmlookup (dd_accounts db) uuid = Some r" using directory_wf_row [OF assms(2)] by blast
  then have "dd_keys db' = dd_keys db \<and> fmlookup (dd_accounts db') uuid = Some (tombstone at r)"
    using assms(1) Some by (auto simp: purge_account_def update_account_def delete_owned_def Let_def
        elim!: result_elims split: if_splits)
  then show ?thesis using Some gone.buried by (auto simp: gone.fenced_def)
qed

text \<open>The delivery of an event that ends sign-ins, or of a deletion.\<close>

definition ends_sign_ins :: "webhook_payload \<Rightarrow> string \<Rightarrow> bool" where
  "ends_sign_ins payload uuid \<longleftrightarrow> payload = MembershipAccessRemoved uuid \<or>
     (\<exists>reason. payload = MembershipSignedOut uuid reason \<and> reason \<noteq> Some ''app_revoked'')"

lemma received_sign_out:
  assumes "receive_rows U event at lo db = Ok (Some a, db')" "ends_sign_ins (we_payload event) uuid"
    "is_ok (account_uuid_from_str U uuid)" "uuid |\<notin>| dd_migrated db"
  shows "signed_out.fenced at lo uuid db'"
proof -
  obtain acc where "account_uuid_from_str U uuid = Ok acc" "account_uuid_str acc = uuid"
    using assms(3) by (auto simp: account_uuid_from_str_def split: if_splits)
  then obtain reason mid where mid: "end_sign_ins lo uuid at reason
      (db\<lparr>dd_events := fmupd (we_event_id event) ''processing'' (dd_events db)\<rparr>) = Ok (a, mid)"
    "db' = mid\<lparr>dd_events := fmupd (we_event_id event) (ap_outcome a) (dd_events mid)\<rparr>"
    using assms(1,2,4)
    by (auto simp: receive_rows_def apply_event_def account_of_def named_custodian_def ends_sign_ins_def Let_def
        elim!: result_elims split: if_splits)
  show ?thesis using end_sign_ins_fences [OF mid(1)] mid(2) by (simp add: signed_out.fenced_def)
qed

lemma received_deletion:
  assumes "receive_rows U event at lo db = Ok (Some a, db')" "we_payload event = AccountDeletedEvent uuid"
    "is_ok (account_uuid_from_str U uuid)" "uuid |\<notin>| dd_migrated db" "directory_wf db"
  shows "gone.fenced lo uuid db'"
proof -
  obtain acc where "account_uuid_from_str U uuid = Ok acc" "account_uuid_str acc = uuid"
    using assms(3) by (auto simp: account_uuid_from_str_def split: if_splits)
  then obtain p mid where mid: "purge_account lo uuid at
      (db\<lparr>dd_events := fmupd (we_event_id event) ''processing'' (dd_events db)\<rparr>) = Ok (p, mid)"
    "db' = mid\<lparr>dd_events := fmupd (we_event_id event) (ap_outcome a) (dd_events mid)\<rparr>"
    using assms(1,2,4)
    by (auto simp: receive_rows_def apply_event_def account_of_def named_custodian_def delete_account_def Let_def
        elim!: result_elims split: if_splits)
  show ?thesis using purge_fences [OF mid(1)] assms(5) mid(2) by (simp add: gone.fenced_def)
qed

lemma receive_rows_wf: "receive_rows U event at now db = Ok (a, db') \<Longrightarrow> directory_wf db \<Longrightarrow> directory_wf db'"
  using apply_step_wf [of db U "WebhookStep event at now"] by simp

text \<open>
  C6: once Waveform has applied a webhook that ends an account's sign-ins at \<open>at\<close> (a sign-out other
  than Waveform's own, or removed access), a bearer token of that account issued before \<open>at\<close> is
  refused, whether or not Waveform had seen the account, whatever transactions other requests,
  webhooks and background checks commit before and during the request (while the cleaner has not yet
  forgotten the event, which takes seven days).
\<close>

theorem ended_sign_ins_stay_ended:
  assumes "directory_wf db" and "receive_rows (di_uuid_crate D) event at lo db = Ok (Some applied, db')"
    and "ends_sign_ins (we_payload event) uuid" and "is_ok (account_uuid_from_str (di_uuid_crate D) uuid)"
    and "uuid |\<notin>| dd_migrated db"
    and "reaches (di_uuid_crate D) (step_since lo) db' (ds_db s)"
    and "au_directory A = shared_directory lo plan throttles D" and "describes_asked D"
    and "\<forall>w c. fst (run_state (au_verify_access_token A token) w) = Ok c \<longrightarrow>
      cl_sub c = uuid \<and> \<not> at_or_after (Option.bind (cl_iat c) unix_instant) at"
  shows "\<not> is_ok (fst (run_state (bearer A token) s))"
proof
  assume "is_ok (fst (run_state (bearer A token) s))"
  then obtain a s' where run: "run_state (bearer A token) s = (Ok a, s')"
    by (cases "run_state (bearer A token) s") (auto simp: is_ok_def split: sum.splits)
  have D: "describes_asked (shared_directory lo plan throttles D)" using assms(8) by simp
  have U: "di_uuid_crate (shared_directory lo plan throttles D) = di_uuid_crate D" by simp
  show False
  proof (rule shared.bearer_Ok [OF assms(7) D run, unfolded U])
    fix c w r
    assume c: "run_state (au_verify_access_token A token) (ds_world s) = (Ok c, w)"
      and read: "read_later (di_uuid_crate D) (step_since lo) (cl_sub c) (ds_db s) r"
      and open_account: "cr_deleted_at r = None" "\<not> sign_in_ended r (Option.bind (cl_iat c) unix_instant)"
    have token: "cl_sub c = uuid" "\<not> at_or_after (Option.bind (cl_iat c) unix_instant) at"
      using assms(9) c by (metis fst_conv)+
    obtain db2 where db2: "reaches (di_uuid_crate D) (step_since lo) (ds_db s) db2"
      "load_row (di_uuid_crate D) uuid db2 = Ok (Some r)" using read token(1) by (auto simp: read_later_def)
    have "signed_out.fenced at lo uuid db2"
      by (rule signed_out.fenced_reaches [OF reaches_trans [OF db2(1) assms(6)]
          received_sign_out [OF assms(2-5)] receive_rows_wf [OF assms(2,1)]])
    then have "at_or_after (cr_revoked_before r) at" using load_signed_out [OF db2(2)] open_account(1) by blast
    then show False
      using open_account(2) token(2) by (auto simp: sign_in_ended_def at_or_after_def split: option.splits)
  qed
qed


end
