(* ===== verification/Directory_Examples.thy ===== *)
theory Directory_Examples
  imports Authenticator_Properties
begin

text \<open>
  The properties of the directory and of the authenticator at concrete inputs: an account \<open>a1\<close> (a
  Carbon), a Silicon \<open>s1\<close> it looks after, a directory whose gateway is unreachable and an
  authenticator that verifies one token and one proof of \<open>a1\<close>.
\<close>

section \<open>A small directory\<close>

definition dx_carbon :: account_row where
  "dx_carbon = (new_account_row Carbon (Some ''c:new'') (Some 50))"

definition dx_silicon :: account_row where
  "dx_silicon = (new_account_row Silicon (Some ''si:one'') (Some 50))
     \<lparr>ac_custodian_uuid := Some ''a1'', ac_custodian_id := Some ''c:new'', ac_custodian_checked_at := Some 90\<rparr>"

definition dx_db :: directory_db where
  "dx_db = directory_empty
     \<lparr>dd_keys := fmupd ''s1'' \<lparr>kr_storage_key = 9, kr_kind = Silicon, kr_source = ''lookup''\<rparr>
        (fmupd ''a1'' \<lparr>kr_storage_key = 7, kr_kind = Carbon, kr_source = ''sign_in''\<rparr> fmempty),
      dd_accounts := fmupd ''s1'' dx_silicon (fmupd ''a1'' dx_carbon fmempty)\<rparr>"

definition dx_directory :: "unit directory" where
  "dx_directory =
     \<lparr>di_uuid_crate = reference_uuid_crate,
      di_lookup = (\<lambda>_ _. throw accounts_error.Unavailable),
      di_lookup_by_id = (\<lambda>_ _. throw accounts_error.Unavailable),
      di_userinfo = (\<lambda>_. throw accounts_error.Unavailable),
      di_now_utc = State_Monad.return 100, di_db_now = State_Monad.return 100,
      di_now = State_Monad.return 100, di_uuid_v7 = State_Monad.return 11,
      di_commit = State_Monad.return Committed, di_deadline_passed = State_Monad.return False,
      di_locked_rows = State_Monad.return {||}, di_returning = (\<lambda>us. us),
      di_others = State_Monad.return ()\<rparr>"

definition dx_shared :: "unit directory" where
  "dx_shared = shared_directory 100 (\<lambda>_. []) (\<lambda>s. s) dx_directory"

definition dx_claims :: claims where
  "dx_claims = \<lparr>cl_sub = ''a1'', cl_kind = Some Carbon, cl_id = None, cl_iat = Some 0, cl_exp = 1000,
     cl_scopes = [''speech''], cl_fid = None\<rparr>"

definition dx_proof :: verified_proof where
  "dx_proof = \<lparr>vp_kind = UserVerification, vp_receiving_app = ''waveform'', vp_issuing_app = ''interface'',
     vp_scopes = [''waveform.tts''], vp_user = Some \<lparr>pu_uuid = ''a1'', pu_kind = Some Carbon, pu_id = ''x''\<rparr>,
     vp_expires_at = 500\<rparr>"

definition dx_issuers :: proof_issuers where
  "dx_issuers = (case proof_issuers_parse ''waveform.tts=interface'' of Ok i \<Rightarrow> i | Err _ \<Rightarrow> undefined)"

definition dx_authenticator :: "unit authenticator" where
  "dx_authenticator =
     \<lparr>au_directory = dx_shared, au_verify_access_token = (\<lambda>_. done_with dx_claims),
      au_verify_proof = (\<lambda>_. done_with (ValidProof dx_proof)), au_app_id = ''waveform'', au_issuers = dx_issuers\<rparr>"

definition dx_state :: "directory_db \<Rightarrow> unit directory_state" where
  "dx_state db = \<lparr>ds_db = db, ds_first_lookup_failures = fmempty, ds_profile_checks = fmempty,
     ds_selector_lookups = fmempty, ds_missing = fmempty, ds_background = [], ds_world = ()\<rparr>"

lemma dx_uuids:
  "account_uuid_from_str reference_uuid_crate ''a1'' = Ok (AccountUuid ''a1'')"
  "account_uuid_from_str reference_uuid_crate ''s1'' = Ok (AccountUuid ''s1'')"
  by code_simp+

lemma dx_describes: "describes_asked dx_directory"
  by (simp add: describes_asked_def dx_directory_def run_simps)

lemma dx_counts: "char_count ''c:new'' = 5" "char_count ''si:one'' = 6" "char_count ''c:old'' = 5"
    "char_count ''evt_1'' = 5" "char_count ''membership'' = 10" "db_uuid_allowed ''a1''"
  by code_simp+

lemma dx_rows:
  "fmlookup (dd_keys dx_db) ''a1'' = Some \<lparr>kr_storage_key = 7, kr_kind = Carbon, kr_source = ''sign_in''\<rparr>"
  "fmlookup (dd_accounts dx_db) ''a1'' = Some dx_carbon" "fmlookup (dd_accounts dx_db) ''s1'' = Some dx_silicon"
  "fmlookup (dd_keys dx_db) ''s1'' = Some \<lparr>kr_storage_key = 9, kr_kind = Silicon, kr_source = ''lookup''\<rparr>"
  "fmlookup (dd_pending dx_db) u = None" "dd_migrated dx_db = {||}" "dd_proofs dx_db = []" "dd_owned dx_db = []"
  "fmlookup (dd_events dx_db) e = None"
  by (simp_all add: dx_db_def directory_empty_def)

lemmas dx_row_defs = dx_carbon_def dx_silicon_def new_account_row_def

lemma dx_rows_ok: "row_ok dx_carbon" "row_ok dx_silicon"
  by (simp_all add: row_ok_def account_row_allowed_def dx_row_defs dx_counts)

lemma dx_wf: "directory_wf dx_db"
  using dx_rows_ok
  by (auto simp: directory_wf_def dx_db_def directory_empty_def dx_row_defs split: if_splits)

section \<open>Steps\<close>

lemma reachable_directory_wf_witness:
  "directory_wf (run_steps reference_uuid_crate
     [EnsureStep 100 7 ''a1'' Carbon (Some ''c:new'') (Some 50) key_source.SignIn, PurgeStep 110 ''a1'' 110]
     directory_empty)"
  by (rule reachable_directory_wf [of reference_uuid_crate]) (rule reaches_run_steps, simp)

lemma directory_never_forgets_witness:
  "\<exists>r'. fmlookup (dd_accounts (run_steps reference_uuid_crate [PurgeStep 110 ''a1'' 110] dx_db)) ''a1'' = Some r' \<and>
     ac_kind r' = Carbon"
proof -
  have "reaches reference_uuid_crate (\<lambda>_. True) dx_db (run_steps reference_uuid_crate [PurgeStep 110 ''a1'' 110] dx_db)"
    by (rule reaches_run_steps) simp
  from directory_never_forgets [OF this dx_rows(1,2)] show ?thesis by (auto simp: dx_row_defs)
qed

definition dx_event :: "webhook_payload \<Rightarrow> webhook_event" where
  "dx_event payload = \<lparr>we_event_id = ''evt_1'', we_event_type = ''membership'', we_occurred_at = Some 100,
     we_payload = payload\<rparr>"

definition dx_signed_out :: directory_db where
  "dx_signed_out = after_commit dx_db (receive_rows reference_uuid_crate
     (dx_event (MembershipSignedOut ''a1'' None)) 10000000000 100 dx_db)"

definition dx_deleted :: directory_db where
  "dx_deleted = after_commit dx_db (receive_rows reference_uuid_crate
     (dx_event (AccountDeletedEvent ''a1'')) 100 100 dx_db)"

lemma dx_receive:
  "\<exists>a. receive_rows reference_uuid_crate (dx_event (MembershipSignedOut ''a1'' None)) 10000000000 100 dx_db =
     Ok (Some a, dx_signed_out)"
  "\<exists>a. receive_rows reference_uuid_crate (dx_event (AccountDeletedEvent ''a1'')) 100 100 dx_db = Ok (Some a, dx_deleted)"
  unfolding dx_signed_out_def dx_deleted_def
  by (simp_all add: receive_rows_def dx_event_def apply_event_def account_of_def named_custodian_def dx_uuids
      end_sign_ins_def delete_account_def purge_account_def invalidate_storage_proof_def update_account_def
      delete_owned_def dx_rows dx_row_defs sign_out_def tombstone_def dx_counts
      account_row_allowed_def Let_def live_proof_def)

lemma repeated_delivery_changes_nothing_witness:
  "receive_rows reference_uuid_crate (dx_event Ping) 5 6 (run_steps reference_uuid_crate [ForgetStep 200] dx_deleted) =
     Ok (None, run_steps reference_uuid_crate [ForgetStep 200] dx_deleted)"
proof -
  obtain a where a: "receive_rows reference_uuid_crate (dx_event (AccountDeletedEvent ''a1'')) 100 100 dx_db = Ok (Some a, dx_deleted)"
    using dx_receive by blast
  have "reaches reference_uuid_crate (\<lambda>_. True) dx_deleted (run_steps reference_uuid_crate [ForgetStep 200] dx_deleted)"
    by (rule reaches_run_steps) simp
  from repeated_delivery_changes_nothing [OF a this, of "dx_event Ping"] show ?thesis by (simp add: dx_event_def)
qed

lemma late_events_bring_old_ids_back_witness:
  "\<exists>a late. change_id ''a1'' ''c:old'' 10 dx_db = Ok (a, late) \<and>
     map_option ac_custodian_id (fmlookup (dd_accounts late) ''s1'') = Some (Some ''c:old'')"
  using late_events_bring_old_ids_back [OF dx_rows(2,3), of 50 10 1 "''c:old''"] dx_rows_ok
  by (auto simp: dx_row_defs dx_counts row_ok_def)

section \<open>Requests\<close>

lemmas dx_run = run_simps dx_directory_def dx_shared_def shared_directory_def clock_since_def transact_def transact_at_def
  query_def as_unavailable_def load_def is_retired_uuid_def rejected_def dx_uuids Let_def load_row_def record_of_def
  dx_state_def dx_authenticator_def

lemma dx_load:
  "run_state (load dx_shared (AccountUuid ''a1'')) (dx_state dx_db) =
     (Ok (Some \<lparr>cr_uuid = AccountUuid ''a1'', cr_storage_key = 7, cr_kind = Carbon, cr_current_id = Some ''c:new'',
       cr_display_name = None, cr_pfp_url = None, cr_custodian = None, cr_custodian_checked_at = None,
       cr_revoked_before = None, cr_revoked_reason = None, cr_deleted_at = None\<rparr>), dx_state dx_db)"
  by (simp add: dx_run dx_rows dx_row_defs)

lemma dx_current:
  "run_state (require_current_uuid dx_authenticator (AccountUuid ''a1'')) (dx_state dx_db) = (Ok (), dx_state dx_db)"
  by (simp add: require_current_uuid_def dx_run dx_rows)

lemma dx_sighting:
  "run_state (sighting dx_shared (AccountUuid ''a1'') Carbon None at key_source.SignIn) (dx_state dx_db) =
     run_state (load_existing dx_shared (AccountUuid ''a1'')) (dx_state dx_db)"
  "run_state (sighting dx_shared (AccountUuid ''a1'') Carbon (Some ''x'') at key_source.Proof) (dx_state dx_db) =
     run_state (load_existing dx_shared (AccountUuid ''a1'')) (dx_state dx_db)"
proof -
  have "public_id_kind ''x'' = None" by code_simp
  then show "run_state (sighting dx_shared (AccountUuid ''a1'') Carbon (Some ''x'') at key_source.Proof) (dx_state dx_db) =
     run_state (load_existing dx_shared (AccountUuid ''a1'')) (dx_state dx_db)"
    by (simp add: sighting_def load_existing_def run_simps dx_load learn_id_def check_custodian_def of_kind_def)
qed (simp add: sighting_def load_existing_def run_simps dx_load learn_id_def check_custodian_def of_kind_def)

lemma dx_load_existing:
  "run_state (load_existing dx_shared (AccountUuid ''a1'')) (dx_state dx_db) =
     (Ok \<lparr>cr_uuid = AccountUuid ''a1'', cr_storage_key = 7, cr_kind = Carbon, cr_current_id = Some ''c:new'',
       cr_display_name = None, cr_pfp_url = None, cr_custodian = None, cr_custodian_checked_at = None,
       cr_revoked_before = None, cr_revoked_reason = None, cr_deleted_at = None\<rparr>, dx_state dx_db)"
  by (simp add: load_existing_def run_simps dx_load)

lemma dx_parts:
  "au_directory dx_authenticator = dx_shared" "di_uuid_crate dx_shared = reference_uuid_crate"
  "run_state (au_verify_access_token dx_authenticator t) w = (Ok dx_claims, w)"
  "run_state (au_verify_proof dx_authenticator t) w = (Ok (ValidProof dx_proof), w)"
  "run_state (di_now_utc dx_shared) w = (100, w)" "ds_world (dx_state db) = ()" "ds_db (dx_state db) = db"
  "dx_state db\<lparr>ds_world := w\<rparr> = dx_state db" "au_app_id dx_authenticator = ''waveform''"
  "au_issuers dx_authenticator = dx_issuers"
  by (simp_all add: dx_authenticator_def dx_shared_def shared_directory_def dx_directory_def dx_state_def run_simps)

lemma dx_bearer: "\<exists>a. run_state (bearer dx_authenticator ''t'') (dx_state dx_db) = (Ok a, dx_state dx_db)"
  by (simp add: bearer_def run_simps dx_parts dx_claims_def dx_uuids dx_current claimed_kind_def Let_def
      as_unavailable_def dx_sighting dx_load_existing sign_in_ended_def same_kind_def authorized_def
      actor_id_new_def ensure_non_nil_def)

lemma accepted_bearer_witness:
  "\<exists>db r. reaches reference_uuid_crate (step_since 100) dx_db db \<and>
     load_row reference_uuid_crate ''a1'' db = Ok (Some r) \<and> cr_deleted_at r = None"
proof -
  obtain a where "run_state (bearer dx_authenticator ''t'') (dx_state dx_db) = (Ok a, dx_state dx_db)"
    using dx_bearer by blast
  from accepted_bearer [OF dx_parts(1) [unfolded dx_shared_def] dx_describes this]
  show ?thesis by (auto simp: dx_parts dx_claims_def dx_directory_def)
qed

definition dx_request :: authorization_request where
  "dx_request = \<lparr>ar_credentials = inbound_credentials.Proof (ProofToken (OpaqueCredential ''sap_x'')),
     ar_action = SynthesizeSpeech, ar_request_id = RequestId 1\<rparr>"

lemma dx_allowed: "allows dx_issuers ''waveform.tts'' ''interface''"
  unfolding dx_issuers_def by code_simp

lemma dx_app: "application_id_from_str ''interface'' = Ok (ApplicationId ''interface'')"
  by code_simp

lemma dx_proof_accepted: "\<exists>a. run_state (authenticator_authorize dx_authenticator dx_request) (dx_state dx_db) = (Ok a, dx_state dx_db)"
  by (simp add: authenticator_authorize_def dx_request_def proof_authorization_def proof_actor_def run_simps dx_parts dx_proof_def
      dx_allowed dx_app dx_uuids dx_current claimed_kind_def as_unavailable_def dx_sighting dx_load_existing
      same_kind_def authorized_def actor_id_new_def ensure_non_nil_def)


lemma ended_sign_ins_stay_ended_witness:
  "\<not> is_ok (fst (run_state (bearer dx_authenticator ''t'') (dx_state dx_signed_out)))"
proof -
  have crate: "di_uuid_crate dx_directory = reference_uuid_crate" by (simp add: dx_directory_def)
  obtain a where a: "receive_rows (di_uuid_crate dx_directory) (dx_event (MembershipSignedOut ''a1'' None)) 10000000000 100 dx_db = Ok (Some a, dx_signed_out)"
    using dx_receive crate by metis
  show ?thesis
    by (rule ended_sign_ins_stay_ended [OF dx_wf a _ _ _ _ dx_parts(1) [unfolded dx_shared_def] dx_describes, of "''a1''"])
      (simp_all add: dx_event_def ends_sign_ins_def crate dx_uuids dx_rows dx_parts reaches.here dx_claims_def unix_instant_def)
qed


lemma custodian_is_confirmed_witness:
  "\<exists>r. custodian_is r (AccountUuid ''a1'')"
proof -
  have "public_id_kind ''s1'' = None" by code_simp
  then obtain r where
    "run_state (select_for_custodian dx_shared (AccountUuid ''a1'') ''s1'' Recent) (dx_state dx_db) =
       (Ok (Custodian r), dx_state dx_db)"
    by (auto simp: select_for_custodian_def custody_def dx_run dx_rows dx_row_defs custodian_is_def
        custodian_checked_within_def CUSTODIAN_RECHECK_def secs_def)
  from custodian_is_confirmed [OF this] show ?thesis by blast
qed

end
