(* ===== verification/Serde.thy ===== *)
theory Serde
  imports Json
begin

text \<open>
  What the adapters use of \<open>serde\<close> and of Rust's \<open>f64\<close>: derived \<open>Deserialize\<close> of structs from a JSON
  value, the conversion of JSON numbers, and the product and rounding of \<open>f64\<close> on its bits. A struct is
  read from an object (unknown keys are ignored, a key given twice is an error); the other form
  \<open>serde\<close> knows, an array in place of an object, is refused.
\<close>

section \<open>Numbers\<close>

fun bit_length :: "nat \<Rightarrow> nat" where
  "bit_length n = (if n = 0 then 0 else Suc (bit_length (n div 2)))"

declare bit_length.simps [simp del]

text \<open>A natural number in at most 53 bits and an exponent of two, rounded to the nearest, ties to even.\<close>

definition round_53 :: "nat \<Rightarrow> nat \<times> nat" where
  "round_53 n =
     (let len = bit_length n in
      if len \<le> 53 then (n, 0)
      else
        let s = len - 53; q = n div 2 ^ s; r = n mod 2 ^ s; half = 2 ^ (s - 1)
        in (if r > half \<or> r = half \<and> odd q then q + 1 else q, s))"

text \<open>\<open>n as f64\<close>.\<close>

definition f64_of_nat :: "nat \<Rightarrow> f64" where
  "f64_of_nat n =
     (if n = 0 then 0
      else case round_53 n of (m, s) \<Rightarrow>
        let len = bit_length m
        in of_nat ((len + s + 1022) * 2 ^ 52 + (m * 2 ^ (54 - len) div 2 - 2 ^ 52)))"

definition f64_of_number :: "json_number \<Rightarrow> f64" where
  "f64_of_number n =
     (case n of
        PosInt k \<Rightarrow> f64_of_nat k
      | NegInt i \<Rightarrow> 2 ^ 63 + f64_of_nat (nat (- i))
      | Float f \<Rightarrow> f)"

text \<open>The magnitude of a finite number: its significand and the exponent of two.\<close>

definition f64_magnitude :: "f64 \<Rightarrow> nat \<times> int" where
  "f64_magnitude v =
     (let e = unat v div 2 ^ 52 mod 2048; f = unat v mod 2 ^ 52
      in if e = 0 then (f, -1074) else (f + 2 ^ 52, int e - 1075))"

definition f64_is_sign_negative :: "f64 \<Rightarrow> bool" where
  "f64_is_sign_negative v \<longleftrightarrow> unat v \<ge> 2 ^ 63"

text \<open>\<open>round() as u64\<close> of \<open>m * 2 ^ e\<close>: halves away from zero, saturating.\<close>

definition round_to_u64 :: "nat \<Rightarrow> int \<Rightarrow> nat" where
  "round_to_u64 m e =
     min u64_max (if e \<ge> 0 then m * 2 ^ nat e else (2 * m + 2 ^ nat (- e)) div 2 ^ Suc (nat (- e)))"

text \<open>\<open>(seconds * 1_000.0).round() as u64\<close>, the product rounded to an \<open>f64\<close> first.\<close>

definition seconds_to_millis :: "f64 \<Rightarrow> nat option" where
  "seconds_to_millis seconds =
     (if \<not> f64_is_finite seconds \<or> f64_is_sign_negative seconds then None
      else case f64_magnitude seconds of (m, e) \<Rightarrow>
        case round_53 (m * 1000) of (p, s) \<Rightarrow> Some (round_to_u64 p (e + int s)))"

section \<open>Fields of a struct\<close>

definition struct_field :: "string list \<Rightarrow> json \<Rightarrow> json option option" where
  "struct_field names v =
     (case v of
        JObject members \<Rightarrow>
          (case filter (\<lambda>(k, _). k \<in> set names) members of
             [] \<Rightarrow> Some None
           | [(_, w)] \<Rightarrow> Some (Some w)
           | _ \<Rightarrow> None)
      | _ \<Rightarrow> None)"

definition required_field :: "string list \<Rightarrow> (json \<Rightarrow> 'a option) \<Rightarrow> json \<Rightarrow> 'a option" where
  "required_field names read v =
     (case struct_field names v of Some (Some w) \<Rightarrow> read w | _ \<Rightarrow> None)"

definition optional_field :: "string list \<Rightarrow> (json \<Rightarrow> 'a option) \<Rightarrow> json \<Rightarrow> 'a option option" where
  "optional_field names read v =
     (case struct_field names v of
        None \<Rightarrow> None
      | Some None \<Rightarrow> Some None
      | Some (Some w) \<Rightarrow> if w = JNull then Some None else map_option Some (read w))"

text \<open>\<open>#[serde(default)]\<close>.\<close>

definition default_field :: "string list \<Rightarrow> 'a \<Rightarrow> (json \<Rightarrow> 'a option) \<Rightarrow> json \<Rightarrow> 'a option" where
  "default_field names d read v =
     (case struct_field names v of
        None \<Rightarrow> None
      | Some None \<Rightarrow> Some d
      | Some (Some w) \<Rightarrow> read w)"

definition read_f64 :: "json \<Rightarrow> f64 option" where
  "read_f64 v = (case v of JNumber n \<Rightarrow> Some (f64_of_number n) | _ \<Rightarrow> None)"

definition read_uint :: "nat \<Rightarrow> json \<Rightarrow> nat option" where
  "read_uint m v = (case v of JNumber (PosInt n) \<Rightarrow> if n \<le> m then Some n else None | _ \<Rightarrow> None)"

definition read_vec :: "(json \<Rightarrow> 'a option) \<Rightarrow> json \<Rightarrow> 'a list option" where
  "read_vec read v = (case v of JArray vs \<Rightarrow> those (map read vs) | _ \<Rightarrow> None)"

text \<open>\<open>#[serde(skip_serializing_if = "Option::is_none")]\<close>.\<close>

definition json_member :: "string \<Rightarrow> json option \<Rightarrow> (string \<times> json) list" where
  "json_member key v = (case v of Some w \<Rightarrow> [(key, w)] | None \<Rightarrow> [])"

section \<open>Examples\<close>

text \<open>1.5 s are 1500 ms, 0.0005 s round up to 1 ms, and an integer number reads like its \<open>f64\<close>.\<close>

lemma bit_length_step: "bit_length 0 = 0" "0 < n \<Longrightarrow> bit_length n = Suc (bit_length (n div 2))"
  by (simp_all add: bit_length.simps [of n] bit_length.simps [of 0])

lemma seconds_to_millis_examples:
  "seconds_to_millis 0x3FF8000000000000 = Some 1500"
  "seconds_to_millis 0x3F40624DD2F1A9FC = Some 1"
  "seconds_to_millis 0xBFF8000000000000 = None"
  "f64_of_nat 3 = 0x4008000000000000"
  by (simp_all add: seconds_to_millis_def f64_is_finite_def f64_is_sign_negative_def f64_magnitude_def Let_def
      round_53_def round_to_u64_def f64_of_nat_def u64_max_def bit_length_step)

end
