(* ===== verification/Exchange.thy ===== *)
theory Exchange
  imports Serde Media Std_Text
begin

text \<open>
  \<open>src/src/infrastructure/providers/common.rs\<close>: the HTTP exchange every provider adapter shares, with
  its permit, its URLs, its one retry, its deadline and its bounded body. The HTTP client, the clocks,
  the random jitter and the semaphore act on a world \<open>'w\<close>; what the crates compute on URLs, JSON,
  dates and Base64 is the record \<open>http_crates\<close>.
\<close>

section \<open>Requests and responses\<close>

datatype http_method = GET | POST | PUT | PATCH | DELETE

datatype form_part = FormText string string | FormFile string string string bytes

datatype http_body = NoBody | JsonBody json | RawBody bytes | FormBody "form_part list"

record http_request =
  rq_method :: http_method
  rq_url :: url
  rq_headers :: "(string \<times> string) list"
  rq_body :: http_body

text \<open>
  A response with its body in chunks, each of which may fail to arrive (\<open>Err True\<close> a timeout).
  \<open>Cut\<close>: the deadline of the operation passed during the exchange.
\<close>

record http_response =
  rs_status :: nat
  rs_headers :: "(string \<times> bytes) list"
  rs_content_length :: "nat option"
  rs_chunks :: "(bytes, bool) result list"

datatype exchange = Cut | SendTimedOut | SendFailed | Responded http_response

record http_crates =
  hc_url_parse :: "string \<Rightarrow> url option"
  hc_path_segments :: "url \<Rightarrow> string list option"
  hc_with_segments :: "url \<Rightarrow> string list \<Rightarrow> url"
  hc_push_segment :: "url \<Rightarrow> string \<Rightarrow> url option"
  hc_append_query :: "url \<Rightarrow> (string \<times> string) list \<Rightarrow> url"
  hc_json :: "bytes \<Rightarrow> json option"
  hc_rfc2822 :: "string \<Rightarrow> instant option"
  hc_base64_decode :: "string \<Rightarrow> bytes option"
  hc_mime_ok :: "string \<Rightarrow> bool"

text \<open>\<open>headers.get(name).and_then(|value| value.to_str().ok())\<close>: visible ASCII or tabs only.\<close>

definition header_str :: "(string \<times> bytes) list \<Rightarrow> string \<Rightarrow> string option" where
  "header_str headers name =
     (case map_of headers name of
        Some v \<Rightarrow> if \<forall>c \<in> set v. 32 \<le> byte c \<and> byte c < 127 \<or> byte c = 9 then Some v else None
      | None \<Rightarrow> None)"

section \<open>Failures\<close>

datatype provider_error_kind =
    Saturated | Timeout | Network | RateLimited | Rejected | Configuration | InvalidResponse | Unavailable

record adapter_error =
  ae_status :: "nat option"
  ae_reason :: "string option"
  ae_kind :: provider_error_kind

definition adapter_error_new :: "provider_error_kind \<Rightarrow> adapter_error" where
  "adapter_error_new kind = \<lparr>ae_status = None, ae_reason = None, ae_kind = kind\<rparr>"

definition invalid_response :: adapter_error where
  "invalid_response = adapter_error_new InvalidResponse"

definition is_retryable :: "adapter_error \<Rightarrow> bool" where
  "is_retryable e \<longleftrightarrow> ae_kind e \<in> {Timeout, Network, RateLimited, Unavailable}"

definition classify_reqwest_error :: "bool \<Rightarrow> adapter_error" where
  "classify_reqwest_error timed_out = adapter_error_new (if timed_out then Timeout else Network)"

definition classify_status :: "nat \<Rightarrow> adapter_error" where
  "classify_status status =
     \<lparr>ae_status = Some status, ae_reason = None,
      ae_kind = (if status = 401 \<or> status = 403 then Configuration
        else if status = 408 then Timeout
        else if status = 429 then RateLimited
        else if 500 \<le> status \<and> status < 600 then Unavailable
        else Rejected)\<rparr>"

definition known_reason :: "string \<Rightarrow> string option" where
  "known_reason code =
     (if code \<in> {''quota_exceeded'', ''insufficient_quota'', ''insufficient_credits''} then Some ''quota_exceeded''
      else if code \<in> {''RESOURCE_EXHAUSTED'', ''rate_limit_exceeded''} then Some ''rate_limited''
      else if code \<in> {''invalid_api_key'', ''invalid_api_key_error'', ''key_not_found'', ''UNAUTHENTICATED''}
        then Some ''invalid_api_key''
      else if code \<in> {''model_not_found'', ''model_not_available'', ''invalid_model_id''} then Some ''model_not_found''
      else if code \<in> {''voice_not_found'', ''voice_does_not_exist''} then Some ''voice_not_found''
      else if code \<in> {''content_policy_violation'', ''safety_violation'', ''content_blocked''}
        then Some ''content_blocked''
      else if code \<in> {''missing_permissions'', ''permission_denied'', ''PERMISSION_DENIED''}
        then Some ''missing_permissions''
      else None)"

text \<open>\<open>pointer\<close> and \<open>as_str\<close> on the six paths, then the first code that is known.\<close>

definition reason_codes :: "json \<Rightarrow> string list" where
  "reason_codes v = List.map_filter
     (\<lambda>(outer, inner). Option.bind (json_get v outer) (\<lambda>w. Option.bind (json_get w inner) as_str))
     [(''error'', ''code''), (''error'', ''status''), (''error'', ''type''),
      (''detail'', ''code''), (''detail'', ''status''), (''detail'', ''type'')]"

definition safe_error_reason :: "http_crates \<Rightarrow> bytes \<Rightarrow> string option" where
  "safe_error_reason C body =
     Option.bind (hc_json C body) (\<lambda>v.
       case List.map_filter known_reason (reason_codes v) of r # _ \<Rightarrow> Some r | [] \<Rightarrow> None)"

section \<open>Retries\<close>

definition millis :: "nat \<Rightarrow> duration" where
  "millis n = n * 1000000"

definition PROVIDER_RETRY_BASE_DELAY :: duration where
  "PROVIDER_RETRY_BASE_DELAY = millis 200"

definition PROVIDER_RETRY_MAX_JITTER :: duration where
  "PROVIDER_RETRY_MAX_JITTER = millis 100"

definition PROVIDER_RETRY_AFTER_CAP :: duration where
  "PROVIDER_RETRY_AFTER_CAP = secs 2"

definition MIN_RETRY_EXCHANGE_BUDGET :: duration where
  "MIN_RETRY_EXCHANGE_BUDGET = millis 50"

datatype transient_retry = Disabled | Once duration

record 'w provider_runtime =
  pr_api_key :: string
  pr_base_url :: url
  pr_timeout :: duration
  pr_max_response_bytes :: nat
  pr_retry :: transient_retry
  pr_crates :: http_crates
  pr_send :: "http_request \<Rightarrow> ('w, exchange) state"
  pr_now :: "('w, instant) state"
  pr_now_utc :: "('w, instant) state"
  pr_sleep :: "duration \<Rightarrow> ('w, bool) state"
  pr_jitter_millis :: "nat \<Rightarrow> ('w, nat) state"
  pr_acquire :: "('w, bool) state"
  pr_release :: "('w, unit) state"

record bounded_response =
  br_headers :: "(string \<times> bytes) list"
  br_body :: bytes

text \<open>\<open>retry_delay\<close> of \<open>common.rs\<close>, with the jitter that was drawn.\<close>

definition exchange_retry_delay :: "duration \<Rightarrow> duration option \<Rightarrow> duration \<Rightarrow> duration" where
  "exchange_retry_delay base retry_after jitter =
     max (min (min base PROVIDER_RETRY_AFTER_CAP + jitter) PROVIDER_RETRY_AFTER_CAP)
       (min (case retry_after of Some d \<Rightarrow> d | None \<Rightarrow> 0) PROVIDER_RETRY_AFTER_CAP)"

definition retry_after :: "'w provider_runtime \<Rightarrow> (string \<times> bytes) list \<Rightarrow> ('w, duration option) state" where
  "retry_after R headers =
     (case map_option str_trim (header_str headers ''retry-after'') of
        None \<Rightarrow> State_Monad.return None
      | Some value \<Rightarrow>
          (case parse_unsigned u64_max value of
             Ok seconds \<Rightarrow> State_Monad.return (Some (min (secs seconds) PROVIDER_RETRY_AFTER_CAP))
           | Err _ \<Rightarrow>
               (case hc_rfc2822 (pr_crates R) value of
                  None \<Rightarrow> State_Monad.return None
                | Some target \<Rightarrow>
                    State_Monad.bind (pr_now_utc R) (\<lambda>now.
                    State_Monad.return (Some (min (nat (target - now)) PROVIDER_RETRY_AFTER_CAP))))))"

section \<open>One exchange\<close>

fun read_chunks :: "nat \<Rightarrow> bytes \<Rightarrow> (bytes, bool) result list \<Rightarrow> (bytes, adapter_error) result" where
  "read_chunks limit output [] = Ok output"
| "read_chunks limit output (Err timed_out # chunks) = Err (classify_reqwest_error timed_out)"
| "read_chunks limit output (Ok chunk # chunks) =
     (case (if length output + length chunk \<le> u64_max then Some (length output + length chunk) else None) of
        None \<Rightarrow> Err invalid_response
      | Some next_len \<Rightarrow>
          if next_len > limit then Err invalid_response
          else read_chunks limit (output @ chunk) chunks)"

definition read_response_body :: "http_response \<Rightarrow> nat \<Rightarrow> (bytes, adapter_error) result" where
  "read_response_body response limit =
     (if (case rs_content_length response of Some n \<Rightarrow> n > min u64_max limit | None \<Rightarrow> False)
      then Err invalid_response
      else read_chunks limit [] (rs_chunks response))"

text \<open>How an attempt fails: cut by the deadline, or with an error and the wait the provider asked for.\<close>

datatype attempt_failure = DeadlinePassed | AttemptFailure adapter_error "duration option"

definition execute_once ::
    "'w provider_runtime \<Rightarrow> http_request \<Rightarrow> ('w, bounded_response, attempt_failure) call" where
  "execute_once R request =
     State_Monad.bind (pr_send R request) (\<lambda>e.
     case e of
       Cut \<Rightarrow> throw DeadlinePassed
     | SendTimedOut \<Rightarrow> throw (AttemptFailure (classify_reqwest_error True) None)
     | SendFailed \<Rightarrow> throw (AttemptFailure (classify_reqwest_error False) None)
     | Responded response \<Rightarrow>
         if \<not> (200 \<le> rs_status response \<and> rs_status response < 300) then
           State_Monad.bind (retry_after R (rs_headers response)) (\<lambda>wait.
           throw (AttemptFailure
             (case read_response_body response (16 * 1024) of
                Ok body \<Rightarrow> (classify_status (rs_status response))\<lparr>ae_reason := safe_error_reason (pr_crates R) body\<rparr>
              | Err _ \<Rightarrow> classify_status (rs_status response)) wait))
         else lift_result (case read_response_body response (pr_max_response_bytes R) of
             Ok body \<Rightarrow> Ok \<lparr>br_headers = rs_headers response, br_body = body\<rparr>
           | Err e \<Rightarrow> Err (AttemptFailure e None)))"

section \<open>An operation\<close>

text \<open>
  The loop of \<open>execute_with_retry_budget\<close>: the answer, and whether the budget is consumed. \<open>pr_sleep\<close>
  says whether the deadline passed meanwhile.
\<close>

function execute_loop ::
    "'w provider_runtime \<Rightarrow> instant \<Rightarrow> (http_request, adapter_error) result \<Rightarrow> bool \<Rightarrow>
     ('w, (bounded_response, adapter_error) result \<times> bool) state" where
  "execute_loop R deadline build consumed =
     (case build of
        Err e \<Rightarrow> State_Monad.return (Err e, consumed)
      | Ok request \<Rightarrow>
          State_Monad.bind (execute_once R request) (\<lambda>r.
          case r of
            Ok response \<Rightarrow> State_Monad.return (Ok response, consumed)
          | Err DeadlinePassed \<Rightarrow> State_Monad.return (Err (adapter_error_new Timeout), consumed)
          | Err (AttemptFailure e wait) \<Rightarrow>
              (case pr_retry R of
                 Disabled \<Rightarrow> State_Monad.return (Err e, consumed)
               | Once base \<Rightarrow>
                   if is_retryable e \<and> \<not> consumed then
                     State_Monad.bind (pr_jitter_millis R (PROVIDER_RETRY_MAX_JITTER div 1000000)) (\<lambda>jitter.
                     let delay = exchange_retry_delay base wait (millis jitter) in
                     State_Monad.bind (pr_now R) (\<lambda>now.
                     if nat (deadline - now) \<le> delay + MIN_RETRY_EXCHANGE_BUDGET
                     then State_Monad.return (Err e, True)
                     else State_Monad.bind (pr_sleep R delay) (\<lambda>passed.
                       if passed then State_Monad.return (Err (adapter_error_new Timeout), True)
                       else execute_loop R deadline build True)))
                   else State_Monad.return (Err e, consumed))))"
  by pat_completeness auto
termination by (relation "measure (\<lambda>(_, _, _, consumed). if consumed then 0 else 1)") auto

declare execute_loop.simps [simp del]

definition execute_with_retry_budget ::
    "'w provider_runtime \<Rightarrow> bool \<Rightarrow> (http_request, adapter_error) result \<Rightarrow>
     ('w, (bounded_response, adapter_error) result \<times> bool) state" where
  "execute_with_retry_budget R consumed build =
     State_Monad.bind (pr_now R) (\<lambda>now. execute_loop R (now + int (pr_timeout R)) build consumed)"

definition execute_retrying ::
    "'w provider_runtime \<Rightarrow> (http_request, adapter_error) result \<Rightarrow> ('w, bounded_response, adapter_error) call" where
  "execute_retrying R build =
     State_Monad.bind (execute_with_retry_budget R False build) (\<lambda>(r, _). State_Monad.return r)"

definition execute_without_retry ::
    "'w provider_runtime \<Rightarrow> (http_request, adapter_error) result \<Rightarrow> ('w, bounded_response, adapter_error) call" where
  "execute_without_retry R build =
     try_call (lift_result build) (\<lambda>request.
     on_err (\<lambda>e. case e of DeadlinePassed \<Rightarrow> adapter_error_new Timeout | AttemptFailure e _ \<Rightarrow> e)
       (execute_once R request))"

section \<open>Permits and URLs\<close>

text \<open>\<open>try_acquire\<close>, and the permit that ends with the operation.\<close>

definition with_permit ::
    "'w provider_runtime \<Rightarrow> ('w, 'a, adapter_error) call \<Rightarrow> ('w, 'a, adapter_error) call" where
  "with_permit R action =
     (if pr_api_key R = [] then
        throw \<lparr>ae_status = None, ae_reason = Some ''key_not_configured'', ae_kind = Configuration\<rparr>
      else State_Monad.bind (pr_acquire R) (\<lambda>acquired.
        if \<not> acquired then throw (adapter_error_new Saturated)
        else State_Monad.bind action (\<lambda>r. State_Monad.bind (pr_release R) (\<lambda>_. State_Monad.return r))))"

definition is_api_version :: "string \<Rightarrow> bool" where
  "is_api_version segment \<longleftrightarrow>
     (case strip_prefix ''v'' segment of
        None \<Rightarrow> False
      | Some suffix \<Rightarrow> suffix \<noteq> [] \<and> is_ascii_digit (hd suffix) \<and> list_all is_ascii_alphanumeric suffix)"

definition endpoint_url :: "'w provider_runtime \<Rightarrow> string \<Rightarrow> (url, adapter_error) result" where
  "endpoint_url R endpoint =
     (let segments = filter (\<lambda>s. s \<noteq> []) (split_on CHR ''/'' endpoint) in
      if segments = [] \<or> list_ex (\<lambda>s. s = ''.'' \<or> s = ''..'') segments
      then Err (adapter_error_new Configuration)
      else and_then (ok_or (hc_path_segments (pr_crates R) (pr_base_url R)) (adapter_error_new Configuration)) (\<lambda>base.
        let base = filter (\<lambda>s. s \<noteq> []) base;
            base = (if list_ex is_api_version segments \<and> base \<noteq> [] \<and> is_api_version (last base)
              then butlast base else base)
        in Ok (hc_with_segments (pr_crates R)
             ((pr_base_url R)\<lparr>url_query := None, url_fragment := None\<rparr>) (base @ segments))))"

end
