(* ===== verification/Mp3.thy ===== *)
theory Mp3
  imports Media Std_Text
begin

text \<open>
  The MPEG audio framing of \<open>src/src/infrastructure/audio.rs\<close>: \<open>mp3_duration_ms\<close> walks the frames of a
  file and sums their samples. A slice is the list of its bytes, an offset a natural number; the
  additions the code checks are checked here against the greatest \<open>usize\<close> (64 bit) or \<open>u128\<close>, and
  headers are 32-bit words.
\<close>

unbundle bit_operations_syntax

section \<open>Errors\<close>

datatype audio_error =
    EmptyInput | InputTooLarge | ProcessUnavailable | Timeout | ProcessFailed | OutputTooLarge
  | InvalidMp3 | InvalidFormat | InvalidConfiguration

definition u128_max :: nat where
  "u128_max = 340282366920938463463374607431768211455"

text \<open>\<open>checked_add\<close> of a \<open>usize\<close>, and the checked operations of a \<open>u128\<close> by their mathematical result.\<close>

definition usize_checked_add :: "nat \<Rightarrow> nat \<Rightarrow> nat option" where
  "usize_checked_add a b = (if a + b \<le> u64_max then Some (a + b) else None)"

definition u128_checked :: "nat \<Rightarrow> nat option" where
  "u128_checked n = (if n \<le> u128_max then Some n else None)"

section \<open>Tags\<close>

definition shift_in_seven :: "nat \<Rightarrow> char \<Rightarrow> nat" where
  "shift_in_seven acc c = push_bit 7 acc OR byte c"

definition id3v2_end :: "bytes \<Rightarrow> (nat, audio_error) result" where
  "id3v2_end bs =
     (if \<not> starts_with ''ID3'' bs then Ok 0
      else if length bs < 10 then Err InvalidMp3
      else
        let size_bytes = take 4 (drop 6 bs) in
        if list_ex (\<lambda>c. byte c AND 128 \<noteq> 0) size_bytes then Err InvalidMp3
        else
          let size = foldl shift_in_seven 0 size_bytes;
              footer = (if byte (bs ! 5) AND 16 \<noteq> 0 then 10 else 0)
          in case Option.bind (usize_checked_add 10 size) (\<lambda>e. usize_checked_add e footer) of
               Some e \<Rightarrow> if e \<le> length bs then Ok e else Err InvalidMp3
             | None \<Rightarrow> Err InvalidMp3)"

definition is_trailing_tag :: "bytes \<Rightarrow> bool" where
  "is_trailing_tag bs \<longleftrightarrow> length bs = 128 \<and> starts_with ''TAG'' bs \<or> starts_with ''APETAGEX'' bs"

section \<open>Frame headers\<close>

datatype mpeg_version = One | Two | TwoPointFive
datatype mpeg_layer = One | Two | Three

record frame_header =
  frame_len :: nat
  fh_sample_rate :: "32 word"
  samples_per_frame :: "16 word"

fun sample_rate :: "mpeg_version \<Rightarrow> nat \<Rightarrow> 32 word" where
  "sample_rate mpeg_version.One index = [44100, 48000, 32000] ! index"
| "sample_rate mpeg_version.Two index = ([44100, 48000, 32000] ! index) div 2"
| "sample_rate TwoPointFive index = ([44100, 48000, 32000] ! index) div 4"

definition V1_L1 :: "32 word list" where
  "V1_L1 = [0, 32, 64, 96, 128, 160, 192, 224, 256, 288, 320, 352, 384, 416, 448, 0]"

definition V1_L2 :: "32 word list" where
  "V1_L2 = [0, 32, 48, 56, 64, 80, 96, 112, 128, 160, 192, 224, 256, 320, 384, 0]"

definition V1_L3 :: "32 word list" where
  "V1_L3 = [0, 32, 40, 48, 56, 64, 80, 96, 112, 128, 160, 192, 224, 256, 320, 0]"

definition V2_L1 :: "32 word list" where
  "V2_L1 = [0, 32, 48, 56, 64, 80, 96, 112, 128, 144, 160, 176, 192, 224, 256, 0]"

definition V2_L23 :: "32 word list" where
  "V2_L23 = [0, 8, 16, 24, 32, 40, 48, 56, 64, 80, 96, 112, 128, 144, 160, 0]"

fun bitrate_kbps :: "mpeg_version \<Rightarrow> mpeg_layer \<Rightarrow> nat \<Rightarrow> 32 word" where
  "bitrate_kbps mpeg_version.One mpeg_layer.One index = V1_L1 ! index"
| "bitrate_kbps mpeg_version.One mpeg_layer.Two index = V1_L2 ! index"
| "bitrate_kbps mpeg_version.One Three index = V1_L3 ! index"
| "bitrate_kbps _ mpeg_layer.One index = V2_L1 ! index"
| "bitrate_kbps _ _ index = V2_L23 ! index"

definition u32_checked_mul :: "32 word \<Rightarrow> 32 word \<Rightarrow> 32 word option" where
  "u32_checked_mul a b = (if unat a * unat b \<le> u32_max then Some (a * b) else None)"

text \<open>The length of a frame in bytes and its samples, by version and layer.\<close>

definition frame_shape ::
    "mpeg_version \<Rightarrow> mpeg_layer \<Rightarrow> 32 word \<Rightarrow> 32 word \<Rightarrow> nat \<Rightarrow> nat \<times> 16 word" where
  "frame_shape version layer bitrate rate padding =
     (case layer of
        mpeg_layer.One \<Rightarrow> ((unat (12 * bitrate div rate) + padding) * 4, 384)
      | mpeg_layer.Two \<Rightarrow> (unat (144 * bitrate div rate) + padding, 1152)
      | Three \<Rightarrow>
          if version = mpeg_version.One then (unat (144 * bitrate div rate) + padding, 1152)
          else (unat (72 * bitrate div rate) + padding, 576))"

definition mpeg_version_of :: "32 word \<Rightarrow> mpeg_version option" where
  "mpeg_version_of bits =
     (if bits = 3 then Some mpeg_version.One else if bits = 2 then Some mpeg_version.Two
      else if bits = 0 then Some TwoPointFive else None)"

definition mpeg_layer_of :: "32 word \<Rightarrow> mpeg_layer option" where
  "mpeg_layer_of bits =
     (if bits = 3 then Some mpeg_layer.One else if bits = 2 then Some mpeg_layer.Two
      else if bits = 1 then Some Three else None)"

definition parse_raw_header :: "32 word \<Rightarrow> (frame_header, audio_error) result" where
  "parse_raw_header raw =
     (if raw AND 0xffe00000 \<noteq> 0xffe00000 then Err InvalidMp3
      else
        let bitrate_index = unat (drop_bit 12 raw AND 15);
            sample_rate_index = unat (drop_bit 10 raw AND 3);
            padding = unat (drop_bit 9 raw AND 1)
        in and_then (ok_or (mpeg_version_of (drop_bit 19 raw AND 3)) InvalidMp3) (\<lambda>version.
           and_then (ok_or (mpeg_layer_of (drop_bit 17 raw AND 3)) InvalidMp3) (\<lambda>layer.
           if layer \<noteq> Three then Err InvalidMp3
           else if bitrate_index = 0 \<or> bitrate_index = 15 \<or> sample_rate_index = 3 then Err InvalidMp3
           else
             let rate = sample_rate version sample_rate_index in
             and_then (ok_or (u32_checked_mul (bitrate_kbps version layer bitrate_index) 1000) InvalidMp3) (\<lambda>bitrate.
             case frame_shape version layer bitrate rate padding of
               (len, samples) \<Rightarrow>
                 if len < 4 then Err InvalidMp3
                 else Ok \<lparr>frame_len = len, fh_sample_rate = rate, samples_per_frame = samples\<rparr>))))"

definition u32_from_be_bytes :: "char \<Rightarrow> char \<Rightarrow> char \<Rightarrow> char \<Rightarrow> 32 word" where
  "u32_from_be_bytes a b c d = of_nat (((byte a * 256 + byte b) * 256 + byte c) * 256 + byte d)"

text \<open>\<open>bytes.get(offset..offset.saturating_add(4))\<close>.\<close>

definition parse_frame_header :: "bytes \<Rightarrow> nat \<Rightarrow> (frame_header, audio_error) result" where
  "parse_frame_header bs offset =
     (case take 4 (drop offset bs) of
        [a, b, c, d] \<Rightarrow> parse_raw_header (u32_from_be_bytes a b c d)
      | _ \<Rightarrow> Err InvalidMp3)"

section \<open>All frames\<close>

type_synonym stream_shape = "32 word \<times> 16 word"

lemma parse_raw_header_len: "parse_raw_header raw = Ok h \<Longrightarrow> 4 \<le> frame_len h"
  by (auto simp: parse_raw_header_def Let_def elim!: result_elims split: if_splits prod.splits)

lemma parse_frame_header_len: "parse_frame_header bs offset = Ok h \<Longrightarrow> 4 \<le> frame_len h"
  by (auto simp: parse_frame_header_def dest: parse_raw_header_len split: list.splits)

text \<open>
  The loop, with the shape of the stream, the count of frames and of samples; it ends at the end of the
  file or at a trailing tag.
\<close>

function mp3_frames ::
    "bytes \<Rightarrow> nat \<Rightarrow> stream_shape option \<Rightarrow> nat \<Rightarrow> nat \<Rightarrow>
     (stream_shape option \<times> nat \<times> nat, audio_error) result" where
  "mp3_frames bs offset shape count samples =
     (if \<not> offset < length bs then Ok (shape, count, samples)
      else if is_trailing_tag (drop offset bs) then Ok (shape, count, samples)
      else case parse_frame_header bs offset of
        Err e \<Rightarrow> Err e
      | Ok h \<Rightarrow>
          (case usize_checked_add offset (frame_len h) of
             None \<Rightarrow> Err InvalidMp3
           | Some e \<Rightarrow>
               if e > length bs then Err InvalidMp3
               else if shape \<noteq> None \<and> shape \<noteq> Some (fh_sample_rate h, samples_per_frame h) then Err InvalidMp3
               else (case u128_checked (samples + unat (samples_per_frame h)) of
                   None \<Rightarrow> Err InvalidMp3
                 | Some all \<Rightarrow>
                     mp3_frames bs e (Some (fh_sample_rate h, samples_per_frame h)) (min u64_max (count + 1)) all)))"
  by pat_completeness auto
termination
  by (relation "measure (\<lambda>(bs, offset, _). length bs - offset)")
    (auto simp: usize_checked_add_def dest: parse_frame_header_len split: if_splits)

declare mp3_frames.simps [simp del]

definition div_ceil :: "nat \<Rightarrow> nat \<Rightarrow> nat option" where
  "div_ceil n d = map_option (\<lambda>m. m div d) (u128_checked (n + (d - 1)))"

definition mp3_duration_ms :: "bytes \<Rightarrow> (nat, audio_error) result" where
  "mp3_duration_ms bs =
     and_then (id3v2_end bs) (\<lambda>offset.
     and_then (mp3_frames bs offset None 0 0) (\<lambda>(shape, count, samples).
     if count = 0 then Err InvalidMp3
     else
     and_then (ok_or shape InvalidMp3) (\<lambda>(rate, _).
     and_then (ok_or (u128_checked (samples * 1000)) InvalidMp3) (\<lambda>numerator.
     and_then (ok_or (div_ceil numerator (unat rate)) InvalidMp3) (\<lambda>millis.
     if millis \<le> u64_max then Ok millis else Err InvalidMp3)))))"

definition validate_mp3_bytes :: "bytes \<Rightarrow> bool" where
  "validate_mp3_bytes bs = is_ok (mp3_duration_ms bs)"

section \<open>What a valid file is\<close>

text \<open>A frame of a shape: a Layer III header and as many bytes as it announces.\<close>

definition is_frame :: "stream_shape \<Rightarrow> bytes \<Rightarrow> bool" where
  "is_frame shape f \<longleftrightarrow> (\<exists>h. parse_frame_header f 0 = Ok h \<and> length f = frame_len h \<and>
     shape = (fh_sample_rate h, samples_per_frame h))"

definition valid_mp3 :: "bytes \<Rightarrow> bytes \<Rightarrow> bytes list \<Rightarrow> bytes \<Rightarrow> stream_shape \<Rightarrow> bool" where
  "valid_mp3 bs tag frames trailer shape \<longleftrightarrow>
     bs = tag @ concat frames @ trailer \<and> id3v2_end bs = Ok (length tag) \<and> frames \<noteq> [] \<and>
     (\<forall>f \<in> set frames. is_frame shape f) \<and> (trailer = [] \<or> is_trailing_tag trailer)"

lemma parse_frame_header_cong:
  "take 4 (drop offset bs) = take 4 f \<Longrightarrow> parse_frame_header bs offset = parse_frame_header f 0"
  by (simp add: parse_frame_header_def)

lemma top_bit_of_nat: "bit (of_nat n :: 32 word) 31 \<Longrightarrow> 2 ^ 31 \<le> n"
proof (rule ccontr)
  assume "bit (of_nat n :: 32 word) 31" and "\<not> 2 ^ 31 \<le> n"
  then have "bit (unat (of_nat n :: 32 word)) 31" and "unat (of_nat n :: 32 word) = n"
    unfolding bit_unsigned_iff by (simp_all add: unat_of_nat del: unsigned_of_nat)
  then show False using \<open>\<not> 2 ^ 31 \<le> n\<close> by (simp add: bit_iff_odd)
qed

lemma raw_header_sync:
  assumes "parse_raw_header (u32_from_be_bytes a b c d) = Ok h"
  shows "128 \<le> byte a"
proof -
  have "u32_from_be_bytes a b c d AND 0xffe00000 = 0xffe00000"
    using assms by (auto simp: parse_raw_header_def Let_def split: if_splits)
  then have "bit (u32_from_be_bytes a b c d AND 0xffe00000) 31"
    by simp
  then have "bit (u32_from_be_bytes a b c d) 31"
    by (simp only: bit_and_iff)
  then have "2 ^ 31 \<le> ((byte a * 256 + byte b) * 256 + byte c) * 256 + byte d"
    unfolding u32_from_be_bytes_def by (rule top_bit_of_nat)
  then show ?thesis
    using byte_less [of b] byte_less [of c] byte_less [of d] by (simp del: byte_less)
qed

lemma frame_no_tag:
  assumes "is_frame shape f"
  shows "4 \<le> length f" and "\<not> is_trailing_tag (f @ rest)"
proof -
  obtain h where h: "parse_frame_header f 0 = Ok h" "length f = frame_len h"
    using assms by (auto simp: is_frame_def)
  show "4 \<le> length f" using h parse_frame_header_len by fastforce
  obtain a b c d where f: "take 4 f = [a, b, c, d]" "parse_raw_header (u32_from_be_bytes a b c d) = Ok h"
    using h(1) by (auto simp: parse_frame_header_def split: list.splits)
  then obtain fs where "f = a # b # c # d # fs"
    by (metis append_Cons append_Nil append_take_drop_id)
  then show "\<not> is_trailing_tag (f @ rest)"
    using raw_header_sync [OF f(2)] by (auto simp: is_trailing_tag_def starts_with_def byte_def)
qed

lemma sample_rate_bounds:
  "index < 3 \<Longrightarrow> 8000 \<le> unat (sample_rate version index)"
  by (cases version; auto simp: less_Suc_eq numeral_3_eq_3)

lemma two_bits_less: "unat ((w :: 32 word) AND 3) < 4"
  using word_and_le1 [of w 3] by (simp add: word_le_nat_alt)

lemma frame_header_bounds:
  assumes "parse_frame_header bs offset = Ok h"
  shows "8000 \<le> unat (fh_sample_rate h)" and "unat (samples_per_frame h) \<le> 1152"
proof -
  obtain raw where raw: "parse_raw_header raw = Ok h"
    using assms by (auto simp: parse_frame_header_def split: list.splits)
  have rate: "8000 \<le> unat (sample_rate version (unat (drop_bit 10 raw AND 3)))"
    if "unat (drop_bit 10 raw AND 3) \<noteq> 3" for version
    using sample_rate_bounds [of "unat (drop_bit 10 raw AND 3)"] two_bits_less [of "drop_bit 10 raw"] that by simp
  show "8000 \<le> unat (fh_sample_rate h)" "unat (samples_per_frame h) \<le> 1152"
    using raw rate by (auto simp: parse_raw_header_def Let_def frame_shape_def
      simp del: sample_rate.simps bitrate_kbps.simps elim!: result_elims
      split: if_splits prod.splits mpeg_layer.splits)
qed

lemma mp3_frames_step:
  assumes "mp3_frames bs offset shape count samples = Ok r"
    "offset < length bs" "\<not> is_trailing_tag (drop offset bs)" "parse_frame_header bs offset = Ok h"
  defines "s \<equiv> (fh_sample_rate h, samples_per_frame h)" and "e \<equiv> offset + frame_len h"
    and "all \<equiv> samples + unat (samples_per_frame h)"
  shows "usize_checked_add offset (frame_len h) = Some e" "e \<le> length bs" "shape = None \<or> shape = Some s"
    "u128_checked all = Some all" "mp3_frames bs e (Some s) (min u64_max (count + 1)) all = Ok r"
proof -
  have "usize_checked_add offset (frame_len h) = Some e \<and> e \<le> length bs \<and> (shape = None \<or> shape = Some s) \<and>
    u128_checked all = Some all \<and> mp3_frames bs e (Some s) (min u64_max (count + 1)) all = Ok r"
    using assms(1-4) unfolding mp3_frames.simps [of bs offset]
    by (cases shape) (simp_all add: usize_checked_add_def u128_checked_def s_def e_def all_def split: if_splits)
  then show "usize_checked_add offset (frame_len h) = Some e" "e \<le> length bs" "shape = None \<or> shape = Some s"
    "u128_checked all = Some all" "mp3_frames bs e (Some s) (min u64_max (count + 1)) all = Ok r" by simp_all
qed

lemma mp3_frames_sound:
  assumes "mp3_frames bs offset shape count samples = Ok (shape', count', samples')" "offset \<le> length bs"
  shows "\<exists>frames trailer. drop offset bs = concat frames @ trailer \<and>
    (trailer = [] \<or> is_trailing_tag trailer) \<and>
    (if frames = [] then shape' = shape \<and> count' = count \<and> samples' = samples
     else \<exists>s. shape' = Some s \<and> (shape = None \<or> shape = Some s) \<and> (\<forall>f \<in> set frames. is_frame s f) \<and>
       0 < count' \<and> samples' = samples + length frames * unat (snd s))"
  using assms
proof (induction bs offset shape count samples rule: mp3_frames.induct)
  case (1 bs offset shape count samples)
  let ?goal = "\<lambda>frames trailer. drop offset bs = concat frames @ trailer \<and>
    (trailer = [] \<or> is_trailing_tag trailer) \<and>
    (if frames = [] then shape' = shape \<and> count' = count \<and> samples' = samples
     else \<exists>s. shape' = Some s \<and> (shape = None \<or> shape = Some s) \<and> (\<forall>f \<in> set frames. is_frame s f) \<and>
       0 < count' \<and> samples' = samples + length frames * unat (snd s))"
  show ?case
  proof (cases "offset < length bs \<and> \<not> is_trailing_tag (drop offset bs)")
    case False
    then have "?goal [] (drop offset bs)"
      using 1(2,3) by (subst (asm) mp3_frames.simps) (auto split: if_splits)
    then show ?thesis by blast
  next
    case True
    with 1(2) obtain h where h: "parse_frame_header bs offset = Ok h"
      by (subst (asm) mp3_frames.simps) (auto split: sum.splits)
    let ?s = "(fh_sample_rate h, samples_per_frame h)" and ?e = "offset + frame_len h"
      and ?all = "samples + unat (samples_per_frame h)"
    note step = mp3_frames_step [OF 1(2) _ _ h]
    have e: "usize_checked_add offset (frame_len h) = Some ?e" "?e \<le> length bs" "shape = None \<or> shape = Some ?s"
      and all: "u128_checked ?all = Some ?all"
      and rest: "mp3_frames bs ?e (Some ?s) (min u64_max (count + 1)) ?all = Ok (shape', count', samples')"
      using step True by blast+
    let ?f = "take (frame_len h) (drop offset bs)"
    have len: "4 \<le> frame_len h" using h by (rule parse_frame_header_len)
    have f: "is_frame ?s ?f"
      using h e(2) parse_frame_header_cong [of offset bs ?f] len by (auto simp: is_frame_def min_def)
    have "\<exists>frames trailer. drop ?e bs = concat frames @ trailer \<and>
      (trailer = [] \<or> is_trailing_tag trailer) \<and>
      (if frames = [] then shape' = Some ?s \<and> count' = min u64_max (count + 1) \<and> samples' = ?all
       else \<exists>s. shape' = Some s \<and> (Some ?s = None \<or> Some ?s = Some s) \<and> (\<forall>f \<in> set frames. is_frame s f) \<and>
         0 < count' \<and> samples' = ?all + length frames * unat (snd s))"
      by (rule 1(1) [OF _ _ h e(1) _ _ all rest e(2)]) (use True e in auto)
    then obtain frames trailer where IH: "drop ?e bs = concat frames @ trailer"
      "trailer = [] \<or> is_trailing_tag trailer"
      "if frames = [] then shape' = Some ?s \<and> count' = min u64_max (count + 1) \<and> samples' = ?all
       else \<exists>s. shape' = Some s \<and> (Some ?s = None \<or> Some ?s = Some s) \<and> (\<forall>f \<in> set frames. is_frame s f) \<and>
         0 < count' \<and> samples' = ?all + length frames * unat (snd s)" by blast
    have "drop offset bs = ?f @ drop ?e bs"
      by (metis add.commute append_take_drop_id drop_drop)
    then have "?goal (?f # frames) trailer"
      using IH f e(3) by (auto simp: u64_max_def split: if_splits)
    then show ?thesis by blast
  qed
qed

lemma mp3_frames_complete:
  assumes "\<forall>f \<in> set frames. is_frame s f" "trailer = [] \<or> is_trailing_tag trailer"
    "drop offset bs = concat frames @ trailer" "offset \<le> length bs" "length bs \<le> u64_max"
    "shape = None \<or> shape = Some s" "samples + length frames * unat (snd s) \<le> u128_max"
  shows "\<exists>count'. mp3_frames bs offset shape count samples =
      Ok (if frames = [] then shape else Some s, count', samples + length frames * unat (snd s)) \<and>
    (if frames = [] then count' = count else 0 < count')"
  using assms
proof (induction frames arbitrary: offset shape count samples)
  case Nil
  then show ?case by (subst mp3_frames.simps) (auto simp: not_less)
next
  case (Cons f frames)
  have f: "is_frame s f" using Cons.prems(1) by simp
  then obtain h where h: "parse_frame_header f 0 = Ok h" "length f = frame_len h"
    "s = (fh_sample_rate h, samples_per_frame h)" by (auto simp: is_frame_def)
  let ?e = "offset + length f"
  have here: "drop offset bs = f @ concat frames @ trailer" using Cons.prems(3) by simp
  have "take 4 (drop offset bs) = take 4 f" using frame_no_tag(1) [OF f] here by simp
  then have h': "parse_frame_header bs offset = Ok h" using h(1) parse_frame_header_cong by metis
  have next_frame: "drop ?e bs = concat frames @ trailer"
    using here by (metis add.commute append_eq_conv_conj drop_drop)
  have len: "length f + length (concat frames @ trailer) = length bs - offset"
    using here by (metis length_append length_drop)
  have more: "offset < length bs" "?e \<le> length bs" using len frame_no_tag(1) [OF f] Cons.prems(4) by auto
  have "\<not> is_trailing_tag (drop offset bs)" using frame_no_tag(2) [OF f] here by simp
  moreover have "usize_checked_add offset (frame_len h) = Some ?e"
    using more Cons.prems(5) h(2) by (simp add: usize_checked_add_def)
  moreover have "u128_checked (samples + unat (snd s)) = Some (samples + unat (snd s))"
    using Cons.prems(7) by (simp add: u128_checked_def)
  ultimately have "mp3_frames bs offset shape count samples =
      mp3_frames bs ?e (Some s) (min u64_max (count + 1)) (samples + unat (snd s))"
    using more Cons.prems(6) h' h(3) by (subst mp3_frames.simps) auto
  moreover obtain count' where "mp3_frames bs ?e (Some s) (min u64_max (count + 1)) (samples + unat (snd s)) =
      Ok (Some s, count', samples + unat (snd s) + length frames * unat (snd s))"
      "if frames = [] then count' = min u64_max (count + 1) else 0 < count'"
    using Cons.IH [of ?e "Some s" "samples + unat (snd s)" "min u64_max (count + 1)"] Cons.prems next_frame more
    by (auto split: if_splits)
  ultimately show ?case by (auto simp: u64_max_def algebra_simps split: if_splits)
qed

lemma id3v2_end_le: "id3v2_end bs = Ok e \<Longrightarrow> e \<le> length bs"
  by (auto simp: id3v2_end_def Let_def split: if_splits option.splits)

definition duration_of :: "nat \<Rightarrow> stream_shape \<Rightarrow> nat" where
  "duration_of frames shape =
     (frames * unat (snd shape) * 1000 + (unat (fst shape) - 1)) div unat (fst shape)"

lemma is_frame_bounds:
  assumes "is_frame shape f"
  shows "8000 \<le> unat (fst shape)" "unat (snd shape) \<le> 1152"
  using assms frame_header_bounds by (auto simp: is_frame_def)

lemma frames_length:
  assumes "\<forall>f \<in> set frames. is_frame s f"
  shows "4 * length frames \<le> length (concat frames)"
  using assms by (induction frames) (auto dest: frame_no_tag(1))

text \<open>What the code computes after the loop never overflows for files below 2^58 bytes.\<close>

lemma duration_small:
  assumes "4 * n \<le> len" "len < 2 ^ 58" "8000 \<le> unat rate" "unat samples \<le> 1152"
  shows "n * unat samples * 1000 + (unat rate - 1) \<le> u128_max"
    and "duration_of n (rate, samples) \<le> u64_max"
proof -
  have n: "n * unat samples \<le> 2 ^ 56 * 1152"
    using mult_le_mono [of n "2 ^ 56" "unat samples" 1152] assms(1,2,4) by simp
  then have sum: "n * unat samples * 1000 + (unat rate - 1) \<le> 2 ^ 56 * 1152000 + unat rate" by simp
  have rate: "unat rate < 2 ^ 32" using unsigned_less [of rate] by simp
  show "n * unat samples * 1000 + (unat rate - 1) \<le> u128_max"
    using sum rate by (simp add: u128_max_def)
  have "duration_of n (rate, samples) \<le> (2 ^ 56 * 1152000 + unat rate) div unat rate"
    unfolding duration_of_def fst_conv snd_conv using sum by (rule div_le_mono)
  also have "\<dots> = 2 ^ 56 * 1152000 div unat rate + 1" using assms(3) div_add_self2 [of "unat rate"] by force
  also have "\<dots> \<le> 2 ^ 56 * 1152000 div 8000 + 1"
    using div_le_mono2 [of 8000 "unat rate" "2 ^ 56 * 1152000"] assms(3) by simp
  finally show "duration_of n (rate, samples) \<le> u64_max" by (simp add: u64_max_def)
qed

lemma valid_mp3_small:
  assumes "valid_mp3 bs tag frames trailer (rate, samples)" "length bs < 2 ^ 58"
  shows "length frames * unat samples * 1000 + (unat rate - 1) \<le> u128_max"
    and "duration_of (length frames) (rate, samples) \<le> u64_max" and "8000 \<le> unat rate"
proof -
  have "\<forall>f \<in> set frames. is_frame (rate, samples) f" "frames \<noteq> []" "length (concat frames) \<le> length bs"
    using assms(1) by (auto simp: valid_mp3_def)
  moreover from this obtain f where "is_frame (rate, samples) f" by (cases frames) auto
  ultimately have "4 * length frames \<le> length bs" "8000 \<le> unat rate" "unat samples \<le> 1152"
    using frames_length [of frames "(rate, samples)"] is_frame_bounds [of "(rate, samples)" f] by auto
  then show "length frames * unat samples * 1000 + (unat rate - 1) \<le> u128_max"
    "duration_of (length frames) (rate, samples) \<le> u64_max" "8000 \<le> unat rate"
    using duration_small [OF _ assms(2)] by blast+
qed

section \<open>The duration of a file\<close>

lemma mp3_duration_ms_sound:
  assumes "mp3_duration_ms bs = Ok ms"
  obtains tag frames trailer shape where "valid_mp3 bs tag frames trailer shape"
    "ms = duration_of (length frames) shape"
proof -
  from assms obtain offset shape count samples rate s where run: "id3v2_end bs = Ok offset"
    "mp3_frames bs offset None 0 0 = Ok (Some (rate, s), count, samples)" "count \<noteq> 0"
    and ms: "ms = (samples * 1000 + (unat rate - 1)) div unat rate"
    by (auto simp: mp3_duration_ms_def div_ceil_def u128_checked_def and_then_Ok_iff split: if_splits prod.splits)
  from mp3_frames_sound [OF run(2) id3v2_end_le [OF run(1)]] obtain frames trailer where
    frames: "drop offset bs = concat frames @ trailer" "trailer = [] \<or> is_trailing_tag trailer"
    "frames \<noteq> []" "\<forall>f \<in> set frames. is_frame (rate, s) f" "samples = length frames * unat s"
    using run(3) by (auto split: if_splits)
  have "valid_mp3 bs (take offset bs) frames trailer (rate, s)"
    unfolding valid_mp3_def using frames run(1) id3v2_end_le [OF run(1)]
    by (metis append_take_drop_id length_take min.absorb2)
  moreover have "ms = duration_of (length frames) (rate, s)" using ms frames(5) by (simp add: duration_of_def)
  ultimately show thesis by (rule that)
qed

lemma mp3_duration_ms_complete:
  assumes "valid_mp3 bs tag frames trailer shape" "length bs < 2 ^ 58"
  shows "mp3_duration_ms bs = Ok (duration_of (length frames) shape)"
proof -
  obtain rate s where v: "valid_mp3 bs tag frames trailer (rate, s)" and shape: "shape = (rate, s)"
    using assms(1) by (metis surj_pair)
  note small = valid_mp3_small [OF v assms(2)]
  have bs: "drop (length tag) bs = concat frames @ trailer" "length tag \<le> length bs" "frames \<noteq> []"
    "\<forall>f \<in> set frames. is_frame (rate, s) f" "trailer = [] \<or> is_trailing_tag trailer" "id3v2_end bs = Ok (length tag)"
    using v by (auto simp: valid_mp3_def)
  have "length bs \<le> u64_max" using assms(2) by (simp add: u64_max_def)
  then obtain count where "mp3_frames bs (length tag) None 0 0 = Ok (Some (rate, s), count, length frames * unat s)"
    "0 < count"
    using mp3_frames_complete [OF bs(4,5,1,2), of None 0 0] bs(3) small(1) by auto
  then show ?thesis
    using bs(6) small shape
    by (simp add: mp3_duration_ms_def div_ceil_def u128_checked_def duration_of_def)
qed


section \<open>An example\<close>

text \<open>MPEG-2 Layer III, 8 kbit/s at 24 kHz: 24 bytes and 24 ms a frame, after an ID3 tag and before a trailing one.\<close>

definition mx_frame :: bytes where
  "mx_frame = map char_of [255, 243, 20, 0 :: nat] @ replicate 20 (CHR 0x00)"

definition mx_file :: bytes where
  "mx_file = ''ID3'' @ map char_of [4, 0, 0, 0, 0, 0, 3 :: nat] @ ''abc'' @ mx_frame @ mx_frame @ ''APETAGEX'' @ ''tail''"

lemma mx_file_duration: "mp3_duration_ms mx_file = Ok 48" "length mx_file = 73"
  by code_simp+


end
