(* ===== verification/Adapters.thy ===== *)
theory Adapters
  imports Exchange Mp3 Speech
begin

text \<open>
  \<open>src/src/infrastructure/providers/{mod,openai,elevenlabs,deepgram}.rs\<close>: what a provider's response
  becomes, and the OpenAI, ElevenLabs and Deepgram adapters from their request to their result.
\<close>

section \<open>What responses become\<close>

fun failure_kind_of :: "provider_error_kind \<Rightarrow> provider_failure_kind" where
  "failure_kind_of provider_error_kind.Saturated = provider_failure_kind.Saturated"
| "failure_kind_of provider_error_kind.Timeout = provider_failure_kind.Timeout"
| "failure_kind_of provider_error_kind.Network = provider_failure_kind.Network"
| "failure_kind_of provider_error_kind.RateLimited = provider_failure_kind.RateLimited"
| "failure_kind_of provider_error_kind.Rejected = RejectedRequest"
| "failure_kind_of provider_error_kind.Configuration = Authentication"
| "failure_kind_of provider_error_kind.InvalidResponse = provider_failure_kind.InvalidResponse"
| "failure_kind_of provider_error_kind.Unavailable = provider_failure_kind.Unavailable"

definition map_provider_error :: "provider_name \<Rightarrow> adapter_error \<Rightarrow> provider_error" where
  "map_provider_error provider e =
     \<lparr>pe_status = map_option of_nat (ae_status e), pe_reason = ae_reason e, pe_provider = provider,
      pe_kind = failure_kind_of (ae_kind e)\<rparr>"

fun find_parameter :: "string \<Rightarrow> string list \<Rightarrow> string option" where
  "find_parameter expected [] = None"
| "find_parameter expected (parameter # parameters) =
     (case split_once CHR ''='' (str_trim parameter) of
        None \<Rightarrow> find_parameter expected parameters
      | Some (name, value) \<Rightarrow>
          if eq_ignore_ascii_case (str_trim name) expected then Some (str_trim value)
          else find_parameter expected parameters)"

definition media_parameter :: "string \<Rightarrow> string \<Rightarrow> string option" where
  "media_parameter media_type expected = find_parameter expected (tl (split_on CHR '';'' media_type))"

definition parsed_u32 :: "string \<Rightarrow> 32 word option" where
  "parsed_u32 s = (case parse_unsigned u32_max s of Ok n \<Rightarrow> Some (of_nat n) | Err _ \<Rightarrow> None)"

definition audio_artifact_of :: "bytes \<Rightarrow> string \<Rightarrow> (audio_artifact, adapter_error) result" where
  "audio_artifact_of bs media_type =
     (let essence = str_trim (hd (split_on CHR '';'' media_type)) in
      and_then
        (if eq_ignore_ascii_case essence ''audio/mpeg'' \<or> eq_ignore_ascii_case essence ''audio/mp3''
         then Ok provider_audio_format.Mp3
         else if eq_ignore_ascii_case essence ''audio/wav'' \<or> eq_ignore_ascii_case essence ''audio/x-wav''
         then Ok provider_audio_format.Wav
         else if eq_ignore_ascii_case essence ''audio/l16'' then
           and_then (ok_or (Option.bind (media_parameter media_type ''rate'') parsed_u32) invalid_response) (\<lambda>rate.
           and_then (ok_or (case media_parameter media_type ''channels'' of
               None \<Rightarrow> Some 1 | Some v \<Rightarrow> parsed_u32 v) invalid_response) (\<lambda>chans.
           map_ok LinearPcm (map_err (\<lambda>_. invalid_response) (pcm_specification_new rate chans 16))))
         else Err invalid_response) (\<lambda>format.
      map_err (\<lambda>_. invalid_response) (audio_artifact_new format bs)))"

definition mp3_response_artifact :: "bounded_response \<Rightarrow> (audio_artifact, adapter_error) result" where
  "mp3_response_artifact response =
     and_then (ok_or (header_str (br_headers response) ''content-type'') invalid_response) (\<lambda>content_type.
     if to_ascii_lowercase (str_trim (hd (split_on CHR '';'' content_type))) \<notin> {''audio/mpeg'', ''audio/mp3''} \<or>
       \<not> validate_mp3_bytes (br_body response)
     then Err invalid_response
     else audio_artifact_of (br_body response) ''audio/mpeg'')"

definition detected_hint :: "string \<Rightarrow> language_hint option" where
  "detected_hint s = (case language_hint_from_str s of Ok h \<Rightarrow> Some h | Err _ \<Rightarrow> None)"

definition transcription_result ::
    "string \<Rightarrow> string option \<Rightarrow> nat option \<Rightarrow> (stt_provider_result, adapter_error) result" where
  "transcription_result text detected_language duration_ms =
     and_then (map_err (\<lambda>_. invalid_response) (transcript_new text)) (\<lambda>t.
     Ok \<lparr>pr_transcript = t, pr_detected_language = Option.bind detected_language detected_hint,
         pr_duration = map_option (\<lambda>ms. MediaDuration (of_nat ms)) duration_ms\<rparr>)"

fun media_filename :: "source_media_type \<Rightarrow> string" where
  "media_filename source_media_type.Mpeg = ''audio.mp3''"
| "media_filename source_media_type.Wav = ''audio.wav''"
| "media_filename Flac = ''audio.flac''"
| "media_filename Ogg = ''audio.ogg''"
| "media_filename WebM = ''audio.webm''"
| "media_filename Mp4 = ''audio.mp4''"
| "media_filename Aac = ''audio.aac''"
| "media_filename M4a = ''audio.m4a''"
| "media_filename Mp4Video = ''media.mp4''"
| "media_filename MpegVideo = ''media.mpeg''"
| "media_filename WebMVideo = ''media.webm''"

definition unwrap_or :: "'a option \<Rightarrow> 'a \<Rightarrow> 'a" where
  "unwrap_or x d = (case x of Some v \<Rightarrow> v | None \<Rightarrow> d)"

definition or_option :: "'a option \<Rightarrow> 'a option \<Rightarrow> 'a option" where
  "or_option x y = (case x of Some v \<Rightarrow> Some v | None \<Rightarrow> y)"

text \<open>\<open>languages.first().filter(|_| languages.len() == 1)\<close>.\<close>

definition only_language :: "string list \<Rightarrow> string option" where
  "only_language languages = (case languages of [l] \<Rightarrow> Some l | _ \<Rightarrow> None)"

section \<open>OpenAI\<close>

definition OPENAI_TTS_MODEL :: string where "OPENAI_TTS_MODEL = ''tts-1''"
definition OPENAI_STT_MODEL :: string where "OPENAI_STT_MODEL = ''gpt-transcribe''"

record 'w open_ai_provider =
  op_tts_runtime :: "'w provider_runtime"
  op_stt_runtime :: "'w provider_runtime"
  op_tts_model :: string
  op_stt_model :: string
  op_voice :: string

definition bearer_auth :: "string \<Rightarrow> string \<times> string" where
  "bearer_auth key = (''authorization'', ''Bearer '' @ key)"

definition open_ai_speech_request ::
    "'w open_ai_provider \<Rightarrow> string \<Rightarrow> string option \<Rightarrow> open_ai_tts_options option \<Rightarrow> json" where
  "open_ai_speech_request P text voice options = JObject
     ([(''model'', JString (unwrap_or (Option.bind options oa_model) (op_tts_model P))),
       (''input'', JString text),
       (''voice'', JString (unwrap_or (or_option (Option.bind options oa_voice) voice) (op_voice P))),
       (''response_format'', JString ''mp3'')] @
      json_member ''speed'' (map_option (JNumber \<circ> Float) (Option.bind options oa_speed)) @
      json_member ''instructions'' (map_option JString (Option.bind options oa_instructions)))"

definition open_ai_synthesize_audio ::
    "'w open_ai_provider \<Rightarrow> string \<Rightarrow> string option \<Rightarrow> open_ai_tts_options option \<Rightarrow>
     ('w, audio_artifact, adapter_error) call" where
  "open_ai_synthesize_audio P text voice options =
     (let R = op_tts_runtime P in
      with_permit R
        (try_call (lift_result (endpoint_url R ''v1/audio/speech'')) (\<lambda>url.
         try_call (execute_without_retry R (Ok
           \<lparr>rq_method = POST, rq_url = url, rq_headers = [bearer_auth (pr_api_key R)],
            rq_body = JsonBody (open_ai_speech_request P text voice options)\<rparr>)) (\<lambda>response.
         lift_result (mp3_response_artifact response)))))"

record open_ai_transcription =
  ot_text :: string
  ot_language :: "string option"
  ot_languages :: "string list"
  ot_duration :: "f64 option"
  ot_usage :: "f64 option option"

definition read_open_ai_transcription :: "json \<Rightarrow> open_ai_transcription option" where
  "read_open_ai_transcription v =
     Option.bind (required_field [''text''] as_str v) (\<lambda>text.
     Option.bind (optional_field [''language''] as_str v) (\<lambda>language.
     Option.bind (default_field [''languages''] [] (read_vec (required_field [''code''] as_str)) v) (\<lambda>languages.
     Option.bind (optional_field [''duration''] read_f64 v) (\<lambda>duration.
     Option.bind (optional_field [''usage''] (optional_field [''seconds''] read_f64) v) (\<lambda>usage.
     Some \<lparr>ot_text = text, ot_language = language, ot_languages = languages, ot_duration = duration,
           ot_usage = usage\<rparr>)))))"

definition open_ai_result :: "open_ai_transcription \<Rightarrow> (stt_provider_result, adapter_error) result" where
  "open_ai_result t = transcription_result (ot_text t)
     (or_option (ot_language t) (only_language (ot_languages t)))
     (Option.bind (or_option (ot_duration t) (Option.bind (ot_usage t) id)) seconds_to_millis)"

definition open_ai_form :: "'w open_ai_provider \<Rightarrow> stt_provider_request \<Rightarrow> form_part list" where
  "open_ai_form P request =
     [FormText ''model'' (op_stt_model P), FormText ''response_format'' ''json'',
      FormFile ''file'' (media_filename (sm_media_type (sp_media request)))
        (as_mime_str (sm_media_type (sp_media request))) (sm_bytes (sp_media request))] @
     (case sp_language request of Some l \<Rightarrow> [FormText ''language'' (primary_language l)] | None \<Rightarrow> [])"

definition open_ai_transcribe_media ::
    "'w open_ai_provider \<Rightarrow> stt_provider_request \<Rightarrow> ('w, stt_provider_result, adapter_error) call" where
  "open_ai_transcribe_media P request =
     (let R = op_stt_runtime P; C = pr_crates R;
          media_type = as_mime_str (sm_media_type (sp_media request)) in
      with_permit R
        (try_call (lift_result (endpoint_url R ''v1/audio/transcriptions'')) (\<lambda>url.
         if \<not> hc_mime_ok C media_type then throw invalid_response
         else try_call (execute_retrying R (Ok
           \<lparr>rq_method = POST, rq_url = url, rq_headers = [bearer_auth (pr_api_key R)],
            rq_body = FormBody (open_ai_form P request)\<rparr>)) (\<lambda>response.
         lift_result (and_then
           (ok_or (Option.bind (hc_json C (br_body response)) read_open_ai_transcription) invalid_response)
           open_ai_result)))))"

definition open_ai_synthesize ::
    "'w open_ai_provider \<Rightarrow> tts_provider_request \<Rightarrow> request_id \<Rightarrow> ('w, audio_artifact, provider_error) call" where
  "open_ai_synthesize P request rid =
     on_err (map_provider_error provider_name.OpenAi) (open_ai_synthesize_audio P (speech_str (tp_text request))
       (case tp_voice request of Some (provider_voice.OpenAi v) \<Rightarrow> Some v | _ \<Rightarrow> None)
       (po_openai (tp_options request)))"

definition open_ai_transcribe ::
    "'w open_ai_provider \<Rightarrow> stt_provider_request \<Rightarrow> request_id \<Rightarrow>
     ('w, stt_provider_result, provider_error) call" where
  "open_ai_transcribe P request rid =
     on_err (map_provider_error provider_name.OpenAi) (open_ai_transcribe_media P request)"

definition open_ai_with_api_key :: "'w open_ai_provider \<Rightarrow> string \<Rightarrow> 'w open_ai_provider" where
  "open_ai_with_api_key P key =
     P\<lparr>op_tts_runtime := (op_tts_runtime P)\<lparr>pr_api_key := key\<rparr>,
       op_stt_runtime := (op_stt_runtime P)\<lparr>pr_api_key := key\<rparr>\<rparr>"

section \<open>ElevenLabs\<close>

definition ELEVENLABS_MODEL :: string where "ELEVENLABS_MODEL = ''eleven_multilingual_v2''"
definition OUTPUT_FORMAT :: string where "OUTPUT_FORMAT = ''mp3_44100_128''"

record 'w eleven_labs_provider =
  ep_runtime :: "'w provider_runtime"
  ep_model :: string
  ep_voice_id :: string
  ep_enable_logging :: bool

record eleven_labs_speech_settings =
  es_stability :: "f64 option"
  es_similarity_boost :: "f64 option"
  es_style :: "f64 option"
  es_use_speaker_boost :: "bool option"
  es_speed :: "f64 option"

definition profile_settings :: "eleven_labs_voice_settings option \<Rightarrow> eleven_labs_speech_settings" where
  "profile_settings profile =
     \<lparr>es_stability = map_option vs_stability profile,
      es_similarity_boost = map_option vs_similarity_boost profile,
      es_style = map_option vs_style profile,
      es_use_speaker_boost = map_option vs_use_speaker_boost profile,
      es_speed = map_option vs_speed profile\<rparr>"

definition merged ::
    "eleven_labs_voice_settings option \<Rightarrow> eleven_labs_tts_options option \<Rightarrow> eleven_labs_speech_settings option" where
  "merged profile options =
     (let base = profile_settings profile;
          s = (case options of
            None \<Rightarrow> base
          | Some opts \<Rightarrow>
              \<lparr>es_stability = or_option (el_stability opts) (es_stability base),
               es_similarity_boost = or_option (el_similarity_boost opts) (es_similarity_boost base),
               es_style = or_option (el_style opts) (es_style base),
               es_use_speaker_boost = or_option (el_use_speaker_boost opts) (es_use_speaker_boost base),
               es_speed = or_option (el_speed opts) (es_speed base)\<rparr>)
      in if es_stability s \<noteq> None \<or> es_similarity_boost s \<noteq> None \<or> es_style s \<noteq> None \<or>
           es_use_speaker_boost s \<noteq> None \<or> es_speed s \<noteq> None
         then Some s else None)"

definition settings_json :: "eleven_labs_speech_settings \<Rightarrow> json" where
  "settings_json s = JObject
     (json_member ''stability'' (map_option (JNumber \<circ> Float) (es_stability s)) @
      json_member ''similarity_boost'' (map_option (JNumber \<circ> Float) (es_similarity_boost s)) @
      json_member ''style'' (map_option (JNumber \<circ> Float) (es_style s)) @
      json_member ''use_speaker_boost'' (map_option JBool (es_use_speaker_boost s)) @
      json_member ''speed'' (map_option (JNumber \<circ> Float) (es_speed s)))"

definition eleven_labs_speech_request ::
    "'w eleven_labs_provider \<Rightarrow> string \<Rightarrow> eleven_labs_voice option \<Rightarrow> eleven_labs_tts_options option \<Rightarrow> json" where
  "eleven_labs_speech_request P text voice options = JObject
     ([(''text'', JString text),
       (''model_id'', JString (unwrap_or (Option.bind options el_model_id)
          (case voice of Some v \<Rightarrow> elv_model_id v | None \<Rightarrow> ep_model P)))] @
      json_member ''voice_settings'' (map_option settings_json (merged (map_option elv_voice_settings voice) options)) @
      json_member ''seed'' (map_option (JNumber \<circ> PosInt \<circ> unat) (Option.bind options el_seed)) @
      json_member ''previous_text'' (map_option JString (Option.bind options el_previous_text)) @
      json_member ''next_text'' (map_option JString (Option.bind options el_next_text)) @
      json_member ''apply_text_normalization'' (map_option JString (Option.bind options el_apply_text_normalization)))"

definition speech_url :: "'w eleven_labs_provider \<Rightarrow> string \<Rightarrow> (url, adapter_error) result" where
  "speech_url P voice_id =
     (let R = ep_runtime P in
      and_then (endpoint_url R ''v1/text-to-speech/'') (\<lambda>url.
      and_then (ok_or (hc_push_segment (pr_crates R) url voice_id) invalid_response) (\<lambda>url.
      Ok (hc_append_query (pr_crates R) url
        [(''output_format'', OUTPUT_FORMAT),
         (''enable_logging'', if ep_enable_logging P then ''true'' else ''false'')]))))"

definition eleven_labs_synthesize_audio ::
    "'w eleven_labs_provider \<Rightarrow> string \<Rightarrow> eleven_labs_voice option \<Rightarrow> eleven_labs_tts_options option \<Rightarrow>
     ('w, audio_artifact, adapter_error) call" where
  "eleven_labs_synthesize_audio P text voice options =
     (let R = ep_runtime P in
      with_permit R
        (try_call (lift_result (speech_url P (unwrap_or (Option.bind options el_voice_id)
           (case voice of Some v \<Rightarrow> elv_voice_id v | None \<Rightarrow> ep_voice_id P)))) (\<lambda>url.
         try_call (execute_without_retry R (Ok
           \<lparr>rq_method = POST, rq_url = url, rq_headers = [(''xi-api-key'', pr_api_key R)],
            rq_body = JsonBody (eleven_labs_speech_request P text voice options)\<rparr>)) (\<lambda>response.
         lift_result (mp3_response_artifact response)))))"

definition eleven_labs_synthesize ::
    "'w eleven_labs_provider \<Rightarrow> tts_provider_request \<Rightarrow> request_id \<Rightarrow> ('w, audio_artifact, provider_error) call" where
  "eleven_labs_synthesize P request rid =
     on_err (map_provider_error provider_name.ElevenLabs) (eleven_labs_synthesize_audio P (speech_str (tp_text request))
       (case tp_voice request of Some (provider_voice.ElevenLabs v) \<Rightarrow> Some v | _ \<Rightarrow> None)
       (po_elevenlabs (tp_options request)))"

definition eleven_labs_with_api_key :: "'w eleven_labs_provider \<Rightarrow> string \<Rightarrow> 'w eleven_labs_provider" where
  "eleven_labs_with_api_key P key = P\<lparr>ep_runtime := (ep_runtime P)\<lparr>pr_api_key := key\<rparr>\<rparr>"

section \<open>Deepgram\<close>

definition DEEPGRAM_MODEL :: string where "DEEPGRAM_MODEL = ''nova-3''"

record 'w deepgram_provider =
  dp_runtime :: "'w provider_runtime"
  dp_model :: string
  dp_mip_opt_out :: bool

record deepgram_alternative =
  da_transcript :: string
  da_languages :: "string list"

record deepgram_channel =
  dc_alternatives :: "deepgram_alternative list"
  dc_detected_language :: "string option"

record deepgram_response =
  dr_duration :: "f64 option"
  dr_channels :: "deepgram_channel list"

definition read_deepgram_alternative :: "json \<Rightarrow> deepgram_alternative option" where
  "read_deepgram_alternative v =
     Option.bind (required_field [''transcript''] as_str v) (\<lambda>text.
     Option.bind (default_field [''languages''] [] (read_vec as_str) v) (\<lambda>languages.
     Some \<lparr>da_transcript = text, da_languages = languages\<rparr>))"

definition read_deepgram_channel :: "json \<Rightarrow> deepgram_channel option" where
  "read_deepgram_channel v =
     Option.bind (required_field [''alternatives''] (read_vec read_deepgram_alternative) v) (\<lambda>alternatives.
     Option.bind (optional_field [''detected_language''] as_str v) (\<lambda>language.
     Some \<lparr>dc_alternatives = alternatives, dc_detected_language = language\<rparr>))"

definition read_deepgram_response :: "json \<Rightarrow> deepgram_response option" where
  "read_deepgram_response v =
     Option.bind (required_field [''metadata''] (optional_field [''duration''] read_f64) v) (\<lambda>duration.
     Option.bind (required_field [''results''] (required_field [''channels''] (read_vec read_deepgram_channel)) v)
       (\<lambda>chans. Some \<lparr>dr_duration = duration, dr_channels = chans\<rparr>))"

definition deepgram_result :: "deepgram_response \<Rightarrow> (stt_provider_result, adapter_error) result" where
  "deepgram_result r =
     (case dr_channels r of
        [] \<Rightarrow> Err invalid_response
      | channel # _ \<Rightarrow>
          (case dc_alternatives channel of
             [] \<Rightarrow> Err invalid_response
           | alternative # _ \<Rightarrow>
               transcription_result (da_transcript alternative)
                 (or_option (dc_detected_language channel) (only_language (da_languages alternative)))
                 (Option.bind (dr_duration r) seconds_to_millis)))"

definition deepgram_query :: "'w deepgram_provider \<Rightarrow> stt_provider_request \<Rightarrow> (string \<times> string) list" where
  "deepgram_query P request =
     [(''model'', dp_model P),
      (''language'', case sp_language request of Some l \<Rightarrow> primary_language l | None \<Rightarrow> ''multi''),
      (''smart_format'', ''true''), (''mip_opt_out'', if dp_mip_opt_out P then ''true'' else ''false'')]"

definition deepgram_transcribe_media ::
    "'w deepgram_provider \<Rightarrow> stt_provider_request \<Rightarrow> ('w, stt_provider_result, adapter_error) call" where
  "deepgram_transcribe_media P request =
     (let R = dp_runtime P; C = pr_crates R in
      with_permit R
        (try_call (lift_result (endpoint_url R ''v1/listen'')) (\<lambda>url.
         try_call (execute_retrying R (Ok
           \<lparr>rq_method = POST, rq_url = hc_append_query C url (deepgram_query P request),
            rq_headers = [(''authorization'', ''Token '' @ pr_api_key R),
              (''content-type'', as_mime_str (sm_media_type (sp_media request)))],
            rq_body = RawBody (sm_bytes (sp_media request))\<rparr>)) (\<lambda>response.
         lift_result (and_then
           (ok_or (Option.bind (hc_json C (br_body response)) read_deepgram_response) invalid_response)
           deepgram_result)))))"

definition deepgram_transcribe ::
    "'w deepgram_provider \<Rightarrow> stt_provider_request \<Rightarrow> request_id \<Rightarrow>
     ('w, stt_provider_result, provider_error) call" where
  "deepgram_transcribe P request rid =
     on_err (map_provider_error provider_name.Deepgram) (deepgram_transcribe_media P request)"

definition deepgram_with_api_key :: "'w deepgram_provider \<Rightarrow> string \<Rightarrow> 'w deepgram_provider" where
  "deepgram_with_api_key P key = P\<lparr>dp_runtime := (dp_runtime P)\<lparr>pr_api_key := key\<rparr>\<rparr>"

end
