(* ===== verification/Gemini.thy ===== *)
theory Gemini
  imports Adapters
begin

text \<open>
  \<open>src/src/infrastructure/providers/gemini.rs\<close>: speech through the Interactions API, transcription of a
  file that is uploaded first, polled until it is active, and deleted in the end.
\<close>

section \<open>Provider and responses\<close>

definition GEMINI_TTS_MODEL :: string where "GEMINI_TTS_MODEL = ''gemini-3.1-flash-tts-preview''"
definition GEMINI_STT_MODEL :: string where "GEMINI_STT_MODEL = ''gemini-3.5-transcribe''"
definition UPLOAD_URL_HEADER :: string where "UPLOAD_URL_HEADER = ''x-goog-upload-url''"
definition FILE_POLL_INTERVAL :: duration where "FILE_POLL_INTERVAL = millis 250"

text \<open>\<open>gp_spawn_cleanup\<close> leaves the deletion of a file to another task.\<close>

record 'w gemini_provider =
  gp_tts_runtime :: "'w provider_runtime"
  gp_stt_runtime :: "'w provider_runtime"
  gp_tts_model :: string
  gp_stt_model :: string
  gp_voice :: string
  gp_spawn_cleanup :: "string \<Rightarrow> ('w, unit) state"

record gemini_file =
  gf_name :: string
  gf_uri :: string
  gf_mime_type :: string
  gf_state :: string

record gemini_content =
  gc_kind :: string
  gc_data :: "string option"
  gc_mime_type :: "string option"
  gc_sample_rate :: "nat option"
  gc_channels :: "nat option"
  gc_text :: "string option"

record gemini_interaction =
  gi_status :: string
  gi_steps :: "gemini_content list list"

definition read_gemini_file :: "json \<Rightarrow> gemini_file option" where
  "read_gemini_file v =
     Option.bind (required_field [''name''] as_str v) (\<lambda>name.
     Option.bind (required_field [''uri''] as_str v) (\<lambda>uri.
     Option.bind (required_field [''mime_type'', ''mimeType''] as_str v) (\<lambda>mime_type.
     Option.bind (required_field [''state''] as_str v) (\<lambda>st.
     Some \<lparr>gf_name = name, gf_uri = uri, gf_mime_type = mime_type, gf_state = st\<rparr>))))"

definition read_gemini_content :: "json \<Rightarrow> gemini_content option" where
  "read_gemini_content v =
     Option.bind (required_field [''type''] as_str v) (\<lambda>kind.
     Option.bind (optional_field [''data''] as_str v) (\<lambda>data.
     Option.bind (optional_field [''mime_type'', ''mimeType''] as_str v) (\<lambda>mime_type.
     Option.bind (optional_field [''sample_rate'', ''sampleRate''] (read_uint u32_max) v) (\<lambda>rate.
     Option.bind (optional_field [''channels''] (read_uint u16_max) v) (\<lambda>chans.
     Option.bind (optional_field [''text''] as_str v) (\<lambda>text.
     Some \<lparr>gc_kind = kind, gc_data = data, gc_mime_type = mime_type, gc_sample_rate = rate,
           gc_channels = chans, gc_text = text\<rparr>))))))"

definition read_gemini_interaction :: "json \<Rightarrow> gemini_interaction option" where
  "read_gemini_interaction v =
     Option.bind (required_field [''status''] as_str v) (\<lambda>st.
     Option.bind (default_field [''steps''] [] (read_vec (default_field [''content''] [] (read_vec read_gemini_content))) v)
       (\<lambda>steps. Some \<lparr>gi_status = st, gi_steps = steps\<rparr>))"

definition validate_file :: "gemini_file \<Rightarrow> (unit, adapter_error) result" where
  "validate_file f =
     (if gf_name f = [] \<or> gf_uri f = [] \<or> gf_mime_type f = [] then Err invalid_response else Ok ())"

definition parse_completed_interaction ::
    "http_crates \<Rightarrow> bytes \<Rightarrow> (gemini_interaction, adapter_error) result" where
  "parse_completed_interaction C body =
     and_then (ok_or (Option.bind (hc_json C body) read_gemini_interaction) invalid_response) (\<lambda>i.
     if gi_status i = ''completed'' then Ok i
     else if gi_status i \<in> {''failed'', ''cancelled'', ''incomplete'', ''budget_exceeded'', ''queued''}
     then Err (adapter_error_new Rejected)
     else Err invalid_response)"

definition audio_media_type :: "gemini_content \<Rightarrow> string" where
  "audio_media_type c =
     (let base = unwrap_or (gc_mime_type c) ''audio/l16'' in
      if eq_ignore_ascii_case base ''audio/l16'' then
        ''audio/L16;codec=pcm;rate='' @ decimal (unwrap_or (gc_sample_rate c) 24000) @
        '';channels='' @ decimal (unwrap_or (gc_channels c) 1)
      else base)"

definition known_port :: "url \<Rightarrow> 16 word option" where
  "known_port u = (case url_port u of
     Some p \<Rightarrow> Some p
   | None \<Rightarrow> if url_scheme u = ''https'' \<or> url_scheme u = ''wss'' then Some 443
       else if url_scheme u = ''http'' \<or> url_scheme u = ''ws'' then Some 80
       else if url_scheme u = ''ftp'' then Some 21 else None)"

definition same_origin :: "url \<Rightarrow> url \<Rightarrow> bool" where
  "same_origin candidate configured \<longleftrightarrow>
     url_scheme candidate = url_scheme configured \<and> url_host candidate = url_host configured \<and>
     known_port candidate = known_port configured"

definition valid_file_name :: "string \<Rightarrow> bool" where
  "valid_file_name name \<longleftrightarrow> (case strip_prefix ''files/'' name of
     None \<Rightarrow> False
   | Some i \<Rightarrow> i \<noteq> [] \<and> list_all (\<lambda>c. is_ascii_alphanumeric c \<or> c = CHR ''-'' \<or> c = CHR ''_'') i)"

definition gemini_language_hint :: "string \<Rightarrow> string" where
  "gemini_language_hint language =
     (case map_of [(''en'', ''en-US''), (''es'', ''es-419''), (''fr'', ''fr-FR''), (''de'', ''de-DE''),
        (''hi'', ''hi-IN''), (''ru'', ''ru-RU''), (''pt'', ''pt-BR''), (''ja'', ''ja-JP''),
        (''it'', ''it-IT''), (''nl'', ''nl-NL'')] language of Some hint \<Rightarrow> hint | None \<Rightarrow> language)"

definition goog_api_key :: "'w provider_runtime \<Rightarrow> string \<times> string" where
  "goog_api_key R = (''x-goog-api-key'', pr_api_key R)"

section \<open>Speech\<close>

definition gemini_tts_request ::
    "'w gemini_provider \<Rightarrow> string \<Rightarrow> string option \<Rightarrow> string option \<Rightarrow> gemini_tts_options option \<Rightarrow> json" where
  "gemini_tts_request P text language voice options = JObject
     [(''model'', JString (gp_tts_model P)),
      (''input'', JString (case options of Some g \<Rightarrow> gemini_prompt g text | None \<Rightarrow> text)),
      (''response_format'', JObject [(''type'', JString ''audio'')]),
      (''generation_config'', JObject [(''speech_config'', JArray [JObject
         ([(''voice'', JString (unwrap_or (or_option (Option.bind options gm_voice) voice) (gp_voice P)))] @
          json_member ''language'' (map_option JString language))])])]"

definition gemini_audio :: "'w provider_runtime \<Rightarrow> bytes \<Rightarrow> (audio_artifact, adapter_error) result" where
  "gemini_audio R body =
     and_then (parse_completed_interaction (pr_crates R) body) (\<lambda>i.
     and_then (ok_or (find (\<lambda>c. gc_kind c = ''audio'') (rev (concat (gi_steps i)))) invalid_response) (\<lambda>audio.
     and_then (ok_or (gc_data audio) invalid_response) (\<lambda>encoded.
     and_then (ok_or (hc_base64_decode (pr_crates R) encoded) invalid_response) (\<lambda>decoded.
     if decoded = [] \<or> length decoded > pr_max_response_bytes R then Err invalid_response
     else audio_artifact_of decoded (audio_media_type audio)))))"

definition gemini_synthesize_audio ::
    "'w gemini_provider \<Rightarrow> string \<Rightarrow> string option \<Rightarrow> string option \<Rightarrow> gemini_tts_options option \<Rightarrow>
     ('w, audio_artifact, adapter_error) call" where
  "gemini_synthesize_audio P text language voice options =
     (let R = gp_tts_runtime P in
      with_permit R
        (try_call (lift_result (endpoint_url R ''v1beta/interactions'')) (\<lambda>url.
         try_call (execute_without_retry R (Ok
           \<lparr>rq_method = POST, rq_url = url, rq_headers = [goog_api_key R],
            rq_body = JsonBody (gemini_tts_request P text language voice options)\<rparr>)) (\<lambda>response.
         lift_result (gemini_audio R (br_body response))))))"

section \<open>Transcription\<close>

definition upload_start_headers :: "'w provider_runtime \<Rightarrow> source_media \<Rightarrow> (string \<times> string) list" where
  "upload_start_headers R media =
     [goog_api_key R, (''x-goog-upload-protocol'', ''resumable''), (''x-goog-upload-command'', ''start''),
      (''x-goog-upload-header-content-length'', decimal (length (sm_bytes media))),
      (''x-goog-upload-header-content-type'', as_mime_str (sm_media_type media))]"

definition upload_url_of :: "'w provider_runtime \<Rightarrow> bounded_response \<Rightarrow> (url, adapter_error) result" where
  "upload_url_of R start =
     ok_or (Option.bind (header_str (br_headers start) UPLOAD_URL_HEADER) (\<lambda>value.
       Option.bind (hc_url_parse (pr_crates R) value) (\<lambda>u.
       if same_origin u (pr_base_url R) then Some u else None))) invalid_response"

definition upload_file ::
    "'w gemini_provider \<Rightarrow> stt_provider_request \<Rightarrow> ('w, gemini_file, adapter_error) call" where
  "upload_file P request =
     (let R = gp_stt_runtime P; media = sp_media request in
      try_call (lift_result (endpoint_url R ''upload/v1beta/files'')) (\<lambda>start_url.
      try_call (execute_without_retry R (Ok
        \<lparr>rq_method = POST, rq_url = start_url, rq_headers = upload_start_headers R media,
         rq_body = JsonBody (JObject [(''file'', JObject
           [(''display_name'', JString (media_filename (sm_media_type media)))])])\<rparr>)) (\<lambda>start.
      try_call (lift_result (upload_url_of R start)) (\<lambda>upload_url.
      try_call (execute_without_retry R (Ok
        \<lparr>rq_method = POST, rq_url = upload_url,
         rq_headers = [(''content-length'', decimal (length (sm_bytes media))), (''x-goog-upload-offset'', ''0''),
           (''x-goog-upload-command'', ''upload, finalize''), (''content-type'', as_mime_str (sm_media_type media))],
         rq_body = RawBody (sm_bytes media)\<rparr>)) (\<lambda>uploaded.
      lift_result (
        and_then (ok_or (Option.bind (hc_json (pr_crates R) (br_body uploaded))
          (required_field [''file''] read_gemini_file)) invalid_response) (\<lambda>f.
        and_then (validate_file f) (\<lambda>_. Ok f))))))))"

text \<open>
  The loop of \<open>wait_until_active\<close>. It sleeps a quarter of a second before every poll and the deadline
  ends it; \<open>polls\<close> is the number of such sleeps that fit before the deadline, and the sleep after them
  is the one the deadline interrupts.
\<close>

fun wait_until_active ::
    "'w gemini_provider \<Rightarrow> nat \<Rightarrow> gemini_file \<Rightarrow> bool \<Rightarrow>
     ('w, (gemini_file, adapter_error) result \<times> bool) state" where
  "wait_until_active P polls f consumed =
     (if gf_state f = ''ACTIVE'' then State_Monad.return (Ok f, consumed)
      else if gf_state f = ''FAILED'' then State_Monad.return (Err (adapter_error_new Rejected), consumed)
      else if gf_state f \<noteq> ''PROCESSING'' then State_Monad.return (Err invalid_response, consumed)
      else
        let R = gp_stt_runtime P in
        State_Monad.bind (pr_sleep R FILE_POLL_INTERVAL) (\<lambda>passed.
        case polls of
          0 \<Rightarrow> State_Monad.return (Err (adapter_error_new provider_error_kind.Timeout), consumed)
        | Suc polls \<Rightarrow>
            if passed then State_Monad.return (Err (adapter_error_new provider_error_kind.Timeout), consumed)
            else (case endpoint_url R (''v1beta/'' @ gf_name f) of
                Err e \<Rightarrow> State_Monad.return (Err e, consumed)
              | Ok url \<Rightarrow>
                  State_Monad.bind (execute_with_retry_budget R consumed (Ok
                    \<lparr>rq_method = GET, rq_url = url, rq_headers = [goog_api_key R], rq_body = NoBody\<rparr>)) (\<lambda>(r, consumed).
                  case and_then r (\<lambda>response.
                      and_then (ok_or (Option.bind (hc_json (pr_crates R) (br_body response)) read_gemini_file)
                        invalid_response) (\<lambda>f.
                      and_then (validate_file f) (\<lambda>_. Ok f))) of
                    Err e \<Rightarrow> State_Monad.return (Err e, consumed)
                  | Ok f \<Rightarrow> wait_until_active P polls f consumed))))"

declare wait_until_active.simps [simp del]

definition gemini_stt_request :: "'w gemini_provider \<Rightarrow> gemini_file \<Rightarrow> string option \<Rightarrow> json" where
  "gemini_stt_request P f language = JObject
     [(''model'', JString (gp_stt_model P)),
      (''input'', JArray [JObject [(''type'', JString ''audio''), (''uri'', JString (gf_uri f)),
         (''mime_type'', JString (gf_mime_type f))]]),
      (''generation_config'', JObject [(''transcription_config'', JObject [(''language_codes'',
         JArray (case language of Some l \<Rightarrow> [JString (gemini_language_hint l)] | None \<Rightarrow> []))])])]"

definition gemini_transcript :: "http_crates \<Rightarrow> bytes \<Rightarrow> (stt_provider_result, adapter_error) result" where
  "gemini_transcript C body =
     and_then (parse_completed_interaction C body) (\<lambda>i.
     and_then (ok_or (those (map gc_text (filter (\<lambda>c. gc_kind c = ''text'') (concat (gi_steps i))))) invalid_response)
       (\<lambda>parts. if parts = [] then Err invalid_response
          else transcription_result (concat parts) None None))"

definition transcribe_file ::
    "'w gemini_provider \<Rightarrow> gemini_file \<Rightarrow> string option \<Rightarrow> bool \<Rightarrow>
     ('w, (stt_provider_result, adapter_error) result) state" where
  "transcribe_file P f language consumed =
     (let R = gp_stt_runtime P in
      try_call (lift_result (endpoint_url R ''v1beta/interactions'')) (\<lambda>url.
      State_Monad.bind (execute_with_retry_budget R consumed (Ok
        \<lparr>rq_method = POST, rq_url = url, rq_headers = [goog_api_key R],
         rq_body = JsonBody (gemini_stt_request P f language)\<rparr>)) (\<lambda>(r, _).
      State_Monad.return (and_then r (\<lambda>response. gemini_transcript (pr_crates R) (br_body response))))))"

text \<open>\<open>delete_file\<close>, with a passed deadline told apart from a failure.\<close>

definition delete_file :: "'w gemini_provider \<Rightarrow> string \<Rightarrow> ('w, unit, attempt_failure) call" where
  "delete_file P name =
     (let R = gp_stt_runtime P in
      if \<not> valid_file_name name then throw (AttemptFailure invalid_response None)
      else try_call (lift_result (map_err (\<lambda>e. AttemptFailure e None) (endpoint_url R (''v1beta/'' @ name)))) (\<lambda>url.
        try_call (execute_once R \<lparr>rq_method = DELETE, rq_url = url, rq_headers = [goog_api_key R], rq_body = NoBody\<rparr>)
          (\<lambda>_. done_with ())))"

text \<open>\<open>GeminiFileCleanup::run_until\<close>: deleted before the deadline or left to another task.\<close>

definition cleanup_until :: "'w gemini_provider \<Rightarrow> string \<Rightarrow> instant \<Rightarrow> ('w, unit) state" where
  "cleanup_until P name deadline =
     State_Monad.bind (pr_now (gp_stt_runtime P)) (\<lambda>now.
     if now \<ge> deadline then gp_spawn_cleanup P name
     else State_Monad.bind (delete_file P name) (\<lambda>r.
       if r = Err DeadlinePassed then gp_spawn_cleanup P name else State_Monad.return ()))"

definition gemini_transcribe_media ::
    "'w gemini_provider \<Rightarrow> stt_provider_request \<Rightarrow> ('w, stt_provider_result, adapter_error) call" where
  "gemini_transcribe_media P request =
     (let R = gp_stt_runtime P in
      with_permit R
        (State_Monad.bind (pr_now R) (\<lambda>now.
         let deadline = now + int (pr_timeout R) in
         try_call (upload_file P request) (\<lambda>f.
         State_Monad.bind (wait_until_active P (pr_timeout R div FILE_POLL_INTERVAL) f False) (\<lambda>(active, consumed).
         State_Monad.bind (case active of
             Err e \<Rightarrow> throw e
           | Ok a \<Rightarrow> transcribe_file P a (map_option hint_str (sp_language request)) consumed) (\<lambda>r.
         State_Monad.bind (cleanup_until P (gf_name f) deadline) (\<lambda>_.
         State_Monad.return r)))))))"

section \<open>The ports\<close>

definition gemini_synthesize ::
    "'w gemini_provider \<Rightarrow> tts_provider_request \<Rightarrow> request_id \<Rightarrow> ('w, audio_artifact, provider_error) call" where
  "gemini_synthesize P request rid =
     on_err (map_provider_error provider_name.Gemini) (gemini_synthesize_audio P (speech_str (tp_text request))
       (map_option hint_str (tp_language request))
       (case tp_voice request of Some (provider_voice.Gemini v) \<Rightarrow> Some v | _ \<Rightarrow> None)
       (po_gemini (tp_options request)))"

definition gemini_transcribe ::
    "'w gemini_provider \<Rightarrow> stt_provider_request \<Rightarrow> request_id \<Rightarrow>
     ('w, stt_provider_result, provider_error) call" where
  "gemini_transcribe P request rid =
     on_err (map_provider_error provider_name.Gemini) (gemini_transcribe_media P request)"

definition gemini_with_api_key :: "'w gemini_provider \<Rightarrow> string \<Rightarrow> 'w gemini_provider" where
  "gemini_with_api_key P key =
     P\<lparr>gp_tts_runtime := (gp_tts_runtime P)\<lparr>pr_api_key := key\<rparr>,
       gp_stt_runtime := (gp_stt_runtime P)\<lparr>pr_api_key := key\<rparr>\<rparr>"

end
