(* ===== verification/Provider_Calls.thy ===== *)
theory Provider_Calls
  imports Gemini
begin

text \<open>
  What the adapters send. A runtime is run on a world that also keeps the list of the requests sent;
  \<open>sends m P c\<close> says that \<open>m\<close> only sends requests that satisfy \<open>P\<close>, at most \<open>c r\<close> of them when its
  result is \<open>r\<close>. Its rules follow the operations the adapters are composed of.
\<close>

section \<open>The log of requests\<close>

type_synonym 'w logged = "'w \<times> http_request list"

definition beside_log :: "('w, 'a) state \<Rightarrow> ('w logged, 'a) state" where
  "beside_log m = State (\<lambda>(w, log). case run_state m w of (x, w') \<Rightarrow> (x, (w', log)))"

definition log_send :: "('w, exchange) state \<Rightarrow> http_request \<Rightarrow> ('w logged, exchange) state" where
  "log_send m q = State (\<lambda>(w, log). case run_state m w of (x, w') \<Rightarrow> (x, (w', log @ [q])))"

definition logging :: "'w provider_runtime \<Rightarrow> 'w logged provider_runtime" where
  "logging R =
     \<lparr>pr_api_key = pr_api_key R, pr_base_url = pr_base_url R, pr_timeout = pr_timeout R,
      pr_max_response_bytes = pr_max_response_bytes R, pr_retry = pr_retry R, pr_crates = pr_crates R,
      pr_send = (\<lambda>q. log_send (pr_send R q) q), pr_now = beside_log (pr_now R),
      pr_now_utc = beside_log (pr_now_utc R), pr_sleep = (\<lambda>d. beside_log (pr_sleep R d)),
      pr_jitter_millis = (\<lambda>n. beside_log (pr_jitter_millis R n)), pr_acquire = beside_log (pr_acquire R),
      pr_release = beside_log (pr_release R)\<rparr>"

lemma logging_simps [simp]:
  "pr_api_key (logging R) = pr_api_key R" "pr_base_url (logging R) = pr_base_url R"
  "pr_timeout (logging R) = pr_timeout R" "pr_max_response_bytes (logging R) = pr_max_response_bytes R"
  "pr_retry (logging R) = pr_retry R" "pr_crates (logging R) = pr_crates R"
  "pr_send (logging R) q = log_send (pr_send R q) q" "pr_now (logging R) = beside_log (pr_now R)"
  "pr_now_utc (logging R) = beside_log (pr_now_utc R)" "pr_sleep (logging R) d = beside_log (pr_sleep R d)"
  "pr_jitter_millis (logging R) n = beside_log (pr_jitter_millis R n)"
  "pr_acquire (logging R) = beside_log (pr_acquire R)" "pr_release (logging R) = beside_log (pr_release R)"
  by (simp_all add: logging_def)

lemma endpoint_url_logging [simp]: "endpoint_url (logging R) e = endpoint_url R e"
  by (simp add: endpoint_url_def Let_def)

section \<open>Sending\<close>

definition sends :: "('w logged, 'a) state \<Rightarrow> (http_request \<Rightarrow> bool) \<Rightarrow> ('a \<Rightarrow> nat) \<Rightarrow> bool" where
  "sends m P c \<longleftrightarrow> (\<forall>w log r w' log'. run_state m (w, log) = (r, (w', log')) \<longrightarrow>
     (\<exists>more. log' = log @ more \<and> length more \<le> c r \<and> (\<forall>q \<in> set more. P q)))"

named_theorems sending

lemma sends_weaken: "sends m P c \<Longrightarrow> (\<And>r. c r \<le> d r) \<Longrightarrow> sends m P d"
  unfolding sends_def by (meson le_trans)

lemma sends_return [sending]: "sends (State_Monad.return x) P c"
  by (simp add: sends_def run_simps)

lemma sends_throw [sending]: "sends (throw e) P c"
  and sends_done_with [sending]: "sends (done_with x) P c"
  and sends_lift_result [sending]: "sends (lift_result r) P c"
  by (simp_all add: sends_def run_simps)

lemma sends_beside_log [sending]: "sends (beside_log m) P c"
  by (auto simp: sends_def beside_log_def split: prod.splits)

lemma sends_log_send: "P q \<Longrightarrow> (\<And>r. 1 \<le> c r) \<Longrightarrow> sends (log_send m q) P c"
  by (auto simp: sends_def log_send_def split: prod.splits)

lemma sends_bind_run:
  assumes "sends m P c" "\<And>x. sends (f x) P (k x)"
    "\<And>s x s' r s''. run_state m s = (x, s') \<Longrightarrow> run_state (f x) s' = (r, s'') \<Longrightarrow> c x + k x r \<le> d r"
  shows "sends (State_Monad.bind m f) P d"
  unfolding sends_def
proof (intro allI impI)
  fix w log r w' log'
  assume "run_state (State_Monad.bind m f) (w, log) = (r, (w', log'))"
  then obtain x v mid where run: "run_state m (w, log) = (x, (v, mid))" "run_state (f x) (v, mid) = (r, (w', log'))"
    by (auto simp: run_simps split: prod.splits)
  then obtain a b where "mid = log @ a" "length a \<le> c x" "\<forall>q \<in> set a. P q"
    "log' = mid @ b" "length b \<le> k x r" "\<forall>q \<in> set b. P q"
    using assms(1,2) unfolding sends_def by metis
  moreover from this have "length (a @ b) \<le> d r" using assms(3) [OF run] by simp
  ultimately show "\<exists>more. log' = log @ more \<and> length more \<le> d r \<and> (\<forall>q \<in> set more. P q)"
    by (intro exI [of _ "a @ b"]) auto
qed

lemma sends_bind:
  "sends m P c \<Longrightarrow> (\<And>x. sends (f x) P (k x)) \<Longrightarrow> (\<And>x r. c x + k x r \<le> d r) \<Longrightarrow> sends (State_Monad.bind m f) P d"
  by (rule sends_bind_run)

lemma sends_try_call:
  assumes "sends m P c" "\<And>x. sends (f x) P (k x)" "\<And>x r. c (Ok x) + k x r \<le> d r" "\<And>e. c (Err e) \<le> d (Err e)"
  shows "sends (try_call m f) P d"
  unfolding sends_def
proof (intro allI impI)
  fix w log r w' log'
  assume run: "run_state (try_call m f) (w, log) = (r, (w', log'))"
  obtain x v mid where m: "run_state m (w, log) = (x, (v, mid))" by (metis surj_pair)
  then obtain a where a: "mid = log @ a" "length a \<le> c x" "\<forall>q \<in> set a. P q"
    using assms(1) unfolding sends_def by blast
  show "\<exists>more. log' = log @ more \<and> length more \<le> d r \<and> (\<forall>q \<in> set more. P q)"
  proof (cases x)
    case (Inl e)
    then show ?thesis using run m a assms(4) [of e] by (auto simp: run_simps intro: le_trans)
  next
    case (Inr y)
    then have "run_state (f y) (v, mid) = (r, (w', log'))" using run m by (simp add: run_simps)
    then obtain b where "log' = mid @ b" "length b \<le> k y r" "\<forall>q \<in> set b. P q"
      using assms(2) [of y] unfolding sends_def by blast
    moreover from this a Inr have "length (a @ b) \<le> d r" using assms(3) [of y r] by simp
    ultimately show ?thesis using a by (intro exI [of _ "a @ b"]) auto
  qed
qed

text \<open>The rules for operations of a fixed cost, and for a check before an operation.\<close>

lemma sends_bind_const [sending]:
  "sends m P (\<lambda>_. a) \<Longrightarrow> (\<And>x. sends (f x) P (\<lambda>_. n - a)) \<Longrightarrow> a \<le> n \<Longrightarrow> sends (State_Monad.bind m f) P (\<lambda>_. n)"
  by (rule sends_bind) auto

lemma sends_bind_free: "sends m P (\<lambda>_. 0) \<Longrightarrow> (\<And>x. sends (f x) P c) \<Longrightarrow> sends (State_Monad.bind m f) P c"
  by (rule sends_bind) auto

lemma sends_try_lift:
  "(\<And>x. r = Ok x \<Longrightarrow> sends (f x) P c) \<Longrightarrow> sends (try_call (lift_result r) f) P c"
  by (cases r) (auto simp: sends_def run_simps)

lemma sends_try_then:
  "sends m P (\<lambda>_. n) \<Longrightarrow> (\<And>x. sends (f x) P (\<lambda>_. 0)) \<Longrightarrow> sends (try_call m f) P (\<lambda>_. n)"
  by (rule sends_try_call [where k = "\<lambda>_ _. 0"]) auto

lemma sends_on_err: "sends m P (\<lambda>_. n) \<Longrightarrow> sends (on_err f m) P (\<lambda>_. n)"
  by (fastforce simp: sends_def run_simps split: prod.splits sum.splits)

lemma sends_if [sending]: "(b \<Longrightarrow> sends m P c) \<Longrightarrow> (\<not> b \<Longrightarrow> sends m' P c) \<Longrightarrow> sends (if b then m else m') P c"
  by simp

section \<open>The exchange\<close>

lemma sends_retry_after: "sends (retry_after (logging R) headers) P (\<lambda>_. 0)"
  by (auto simp: retry_after_def intro!: sending sends_bind_free split: option.splits sum.splits)

lemma sends_execute_once:
  assumes "P q"
  shows "sends (execute_once (logging R) q) P (\<lambda>_. 1)"
  unfolding execute_once_def
proof (rule sends_bind [where k = "\<lambda>_ _. 0"])
  show "sends (pr_send (logging R) q) P (\<lambda>_. 1)" using assms by (simp add: sends_log_send)
  fix e :: exchange
  show "sends (case e of Cut \<Rightarrow> throw DeadlinePassed
     | SendTimedOut \<Rightarrow> throw (AttemptFailure (classify_reqwest_error True) None)
     | SendFailed \<Rightarrow> throw (AttemptFailure (classify_reqwest_error False) None)
     | Responded response \<Rightarrow>
         if \<not> (200 \<le> rs_status response \<and> rs_status response < 300) then
           State_Monad.bind (retry_after (logging R) (rs_headers response)) (\<lambda>wait.
           throw (AttemptFailure
             (case read_response_body response (16 * 1024) of
                Ok body \<Rightarrow> (classify_status (rs_status response))\<lparr>ae_reason := safe_error_reason (pr_crates (logging R)) body\<rparr>
              | Err _ \<Rightarrow> classify_status (rs_status response)) wait))
         else lift_result (case read_response_body response (pr_max_response_bytes (logging R)) of
             Ok body \<Rightarrow> Ok \<lparr>br_headers = rs_headers response, br_body = body\<rparr>
           | Err e \<Rightarrow> Err (AttemptFailure e None))) P (\<lambda>_. 0)"
    by (cases e) (auto intro!: sending sends_bind_free sends_retry_after)
qed simp

lemma sends_execute_without_retry:
  "P q \<Longrightarrow> sends (execute_without_retry (logging R) (Ok q)) P (\<lambda>_. 1)"
  unfolding execute_without_retry_def
  by (intro sends_try_lift sends_on_err) (simp add: sends_execute_once [unfolded One_nat_def])

text \<open>Whether the budget of the one retry was consumed meanwhile.\<close>

definition retried :: "bool \<Rightarrow> bool \<Rightarrow> nat" where
  "retried consumed consumed' = (if consumed' \<and> \<not> consumed then 1 else 0)"

text \<open>What happens after a failed attempt, as the loop has it.\<close>

lemma execute_loop_step:
  "execute_loop R deadline (Ok q) consumed =
     State_Monad.bind (execute_once R q) (\<lambda>r.
       case r of
         Ok response \<Rightarrow> State_Monad.return (Ok response, consumed)
       | Err DeadlinePassed \<Rightarrow> State_Monad.return (Err (adapter_error_new provider_error_kind.Timeout), consumed)
       | Err (AttemptFailure e wait) \<Rightarrow>
           (case pr_retry R of
              Disabled \<Rightarrow> State_Monad.return (Err e, consumed)
            | Once base \<Rightarrow>
                if is_retryable e \<and> \<not> consumed then
                  State_Monad.bind (pr_jitter_millis R (PROVIDER_RETRY_MAX_JITTER div 1000000)) (\<lambda>jitter.
                  State_Monad.bind (pr_now R) (\<lambda>now.
                  if nat (deadline - now) \<le> exchange_retry_delay base wait (millis jitter) + MIN_RETRY_EXCHANGE_BUDGET
                  then State_Monad.return (Err e, True)
                  else State_Monad.bind (pr_sleep R (exchange_retry_delay base wait (millis jitter))) (\<lambda>passed.
                    if passed then State_Monad.return (Err (adapter_error_new provider_error_kind.Timeout), True)
                    else execute_loop R deadline (Ok q) True)))
                else State_Monad.return (Err e, consumed)))"
  apply (subst execute_loop.simps) unfolding Let_def sum.case by (rule refl)

lemma execute_loop_consumed:
  "run_state (execute_loop R deadline (Ok q) True) s = (r, s') \<Longrightarrow> snd r"
  by (subst (asm) execute_loop_step)
    (auto simp: run_simps split: prod.splits sum.splits attempt_failure.splits transient_retry.splits)

lemma sends_post:
  "sends m P c \<Longrightarrow> (\<And>s r s'. run_state m s = (r, s') \<Longrightarrow> c r \<le> d r) \<Longrightarrow> sends m P d"
  unfolding sends_def by (meson le_trans)

lemma sends_execute_loop:
  assumes "P q"
  shows "sends (execute_loop (logging R) deadline (Ok q) consumed) P (\<lambda>r. 1 + retried consumed (snd r))"
proof -
  have last_attempt: "sends (execute_loop (logging R) deadline (Ok q) True) P (\<lambda>_. 1)"
    by (subst execute_loop_step)
      (auto intro!: sends_bind [OF sends_execute_once [of P q, OF assms], where k = "\<lambda>_ _. 0"] sending
        split: sum.splits attempt_failure.splits transient_retry.splits)
  then have retry: "sends (execute_loop (logging R) deadline (Ok q) True) P (\<lambda>r. retried False (snd r))"
    by (rule sends_post) (auto simp: retried_def dest: execute_loop_consumed)
  show ?thesis
  proof (cases consumed)
    case True
    then show ?thesis by (auto intro: sends_weaken [OF last_attempt])
  next
    case False
    have "sends (execute_loop (logging R) deadline (Ok q) False) P (\<lambda>r. 1 + retried False (snd r))"
      by (subst execute_loop_step,
          rule sends_bind [OF sends_execute_once [of P q, OF assms], where k = "\<lambda>_ r. retried False (snd r)"])
        (auto intro!: sending sends_bind_free retry split: sum.splits attempt_failure.splits transient_retry.splits)
    then show ?thesis using False by simp
  qed
qed

lemma sends_with_retry_budget:
  "P q \<Longrightarrow> sends (execute_with_retry_budget (logging R) consumed (Ok q)) P (\<lambda>r. 1 + retried consumed (snd r))"
  unfolding execute_with_retry_budget_def by (auto intro!: sends_bind_free sending sends_execute_loop simp del: One_nat_def)

lemma sends_retrying:
  "P q \<Longrightarrow> sends (execute_retrying (logging R) (Ok q)) P (\<lambda>_. 2)"
  unfolding execute_retrying_def
  by (rule sends_bind [OF sends_with_retry_budget, where k = "\<lambda>_ _. 0"])
    (auto intro: sending simp: retried_def split: prod.splits)

lemma sends_with_permit: "sends m P (\<lambda>_. n) \<Longrightarrow> sends (with_permit (logging R) m) P (\<lambda>_. n)"
  unfolding with_permit_def logging_simps
  by (rule sends_if sends_throw sends_bind_free [OF sends_beside_log] sends_return
      sends_bind [of m P "\<lambda>_. n" _ "\<lambda>_ _. 0"] | simp)+

section \<open>The adapters\<close>

text \<open>A provider whose runtimes log what they send.\<close>

definition open_ai_logging :: "'w open_ai_provider \<Rightarrow> 'w logged open_ai_provider" where
  "open_ai_logging P =
     \<lparr>op_tts_runtime = logging (op_tts_runtime P), op_stt_runtime = logging (op_stt_runtime P),
      op_tts_model = op_tts_model P, op_stt_model = op_stt_model P, op_voice = op_voice P\<rparr>"

definition eleven_labs_logging :: "'w eleven_labs_provider \<Rightarrow> 'w logged eleven_labs_provider" where
  "eleven_labs_logging P =
     \<lparr>ep_runtime = logging (ep_runtime P), ep_model = ep_model P, ep_voice_id = ep_voice_id P,
      ep_enable_logging = ep_enable_logging P\<rparr>"

definition deepgram_logging :: "'w deepgram_provider \<Rightarrow> 'w logged deepgram_provider" where
  "deepgram_logging P =
     \<lparr>dp_runtime = logging (dp_runtime P), dp_model = dp_model P, dp_mip_opt_out = dp_mip_opt_out P\<rparr>"

definition gemini_logging :: "'w gemini_provider \<Rightarrow> 'w logged gemini_provider" where
  "gemini_logging P =
     \<lparr>gp_tts_runtime = logging (gp_tts_runtime P), gp_stt_runtime = logging (gp_stt_runtime P),
      gp_tts_model = gp_tts_model P, gp_stt_model = gp_stt_model P, gp_voice = gp_voice P,
      gp_spawn_cleanup = (\<lambda>name. beside_log (gp_spawn_cleanup P name))\<rparr>"

lemmas adapter_logging = open_ai_logging_def eleven_labs_logging_def deepgram_logging_def gemini_logging_def

text \<open>
  What a request of a runtime may be: it goes to the scheme, host and port of the configured base URL,
  and the key is in no header but those that authenticate.
\<close>

definition key_headers :: "string list" where
  "key_headers = [''authorization'', ''xi-api-key'', ''x-goog-api-key'']"

definition own_request :: "'w provider_runtime \<Rightarrow> http_request \<Rightarrow> bool" where
  "own_request R q \<longleftrightarrow> same_origin (rq_url q) (pr_base_url R) \<and>
     (\<forall>(name, value) \<in> set (rq_headers q). name \<in> set key_headers \<longrightarrow>
        value \<in> {pr_api_key R, ''Bearer '' @ pr_api_key R, ''Token '' @ pr_api_key R})"

text \<open>What the \<open>url\<close> crate keeps when a path or query is replaced.\<close>

definition keeps_origin :: "http_crates \<Rightarrow> bool" where
  "keeps_origin C \<longleftrightarrow>
     (\<forall>u segments. same_origin (hc_with_segments C u segments) u) \<and>
     (\<forall>u s v. hc_push_segment C u s = Some v \<longrightarrow> same_origin v u) \<and>
     (\<forall>u pairs. same_origin (hc_append_query C u pairs) u)"

lemma same_origin_trans [trans]: "same_origin a b \<Longrightarrow> same_origin b c \<Longrightarrow> same_origin a c"
  by (simp add: same_origin_def)

lemma endpoint_url_own:
  assumes "keeps_origin (pr_crates R)" "endpoint_url R e = Ok u"
  shows "same_origin u (pr_base_url R)"
proof -
  obtain v segments where "u = hc_with_segments (pr_crates R) v segments" "same_origin v (pr_base_url R)"
    using assms(2) by (auto simp: endpoint_url_def Let_def same_origin_def known_port_def
        elim!: result_elims split: if_splits)
  then show ?thesis using assms(1) unfolding keeps_origin_def by (metis same_origin_trans)
qed

lemma speech_url_own:
  assumes "keeps_origin (pr_crates (ep_runtime P))" "speech_url P v = Ok u"
  shows "same_origin u (pr_base_url (ep_runtime P))"
proof -
  obtain a b where "endpoint_url (ep_runtime P) ''v1/text-to-speech/'' = Ok a"
    "hc_push_segment (pr_crates (ep_runtime P)) a v = Some b"
    "u = hc_append_query (pr_crates (ep_runtime P)) b [(''output_format'', OUTPUT_FORMAT),
         (''enable_logging'', if ep_enable_logging P then ''true'' else ''false'')]"
    using assms(2) by (auto simp: speech_url_def Let_def elim!: result_elims)
  then have "same_origin u b" "same_origin b a" "same_origin a (pr_base_url (ep_runtime P))"
    using endpoint_url_own [OF assms(1)] assms(1) unfolding keeps_origin_def by blast+
  then show ?thesis by (blast intro: same_origin_trans)
qed

lemma speech_url_logging [simp]: "speech_url (eleven_labs_logging P) v = speech_url P v"
  by (simp add: speech_url_def eleven_labs_logging_def Let_def)

lemma own_request_logging [simp]: "own_request (logging R) = own_request R"
  by (simp add: own_request_def fun_eq_iff)

text \<open>A generation of speech is one request; a transcription at most two.\<close>

lemma sends_open_ai_synthesize:
  assumes "keeps_origin (pr_crates (op_tts_runtime P))"
  shows "sends (open_ai_synthesize (open_ai_logging P) request rid) (own_request (op_tts_runtime P)) (\<lambda>_. 1)"
  unfolding open_ai_synthesize_def open_ai_synthesize_audio_def Let_def
  by (auto simp: open_ai_logging_def own_request_def bearer_auth_def simp del: One_nat_def
      intro!: sends_on_err sends_with_permit sends_try_lift sends_try_then
        sends_execute_without_retry sending endpoint_url_own [OF assms])

lemma sends_eleven_labs_synthesize:
  assumes "keeps_origin (pr_crates (ep_runtime P))"
  shows "sends (eleven_labs_synthesize (eleven_labs_logging P) request rid) (own_request (ep_runtime P)) (\<lambda>_. 1)"
  unfolding eleven_labs_synthesize_def eleven_labs_synthesize_audio_def Let_def
  by (auto simp: eleven_labs_logging_def [of P, THEN arg_cong [of _ _ ep_runtime]] own_request_def simp del: One_nat_def
      intro!: sends_on_err sends_with_permit sends_try_lift sends_try_then
        sends_execute_without_retry sending speech_url_own [OF assms])

lemma sends_open_ai_transcribe:
  assumes "keeps_origin (pr_crates (op_stt_runtime P))"
  shows "sends (open_ai_transcribe (open_ai_logging P) request rid) (own_request (op_stt_runtime P)) (\<lambda>_. 2)"
  unfolding open_ai_transcribe_def open_ai_transcribe_media_def Let_def
  by (auto simp: open_ai_logging_def own_request_def bearer_auth_def simp del: One_nat_def
      intro!: sends_on_err sends_with_permit sends_try_lift sends_try_then
        sends_retrying sending endpoint_url_own [OF assms])

lemma sends_deepgram_transcribe:
  assumes "keeps_origin (pr_crates (dp_runtime P))"
  shows "sends (deepgram_transcribe (deepgram_logging P) request rid) (own_request (dp_runtime P)) (\<lambda>_. 2)"
proof -
  have query: "same_origin (hc_append_query (pr_crates (dp_runtime P)) u pairs) (pr_base_url (dp_runtime P))"
    if "endpoint_url (dp_runtime P) e = Ok u" for e u pairs
    using endpoint_url_own [OF assms that] assms unfolding keeps_origin_def by (metis same_origin_trans)
  show ?thesis
    unfolding deepgram_transcribe_def deepgram_transcribe_media_def Let_def
    by (auto simp: deepgram_logging_def own_request_def key_headers_def
        intro!: sends_on_err sends_with_permit sends_try_lift sends_try_then
          sends_retrying sending query)
qed

lemma sends_gemini_synthesize:
  assumes "keeps_origin (pr_crates (gp_tts_runtime P))"
  shows "sends (gemini_synthesize (gemini_logging P) request rid) (own_request (gp_tts_runtime P)) (\<lambda>_. 1)"
  unfolding gemini_synthesize_def gemini_synthesize_audio_def Let_def
  by (auto simp: gemini_logging_def own_request_def goog_api_key_def simp del: One_nat_def
      intro!: sends_on_err sends_with_permit sends_try_lift sends_try_then
        sends_execute_without_retry sending endpoint_url_own [OF assms])

section \<open>Gemini's files\<close>

lemma upload_url_own: "upload_url_of R start = Ok u \<Longrightarrow> same_origin u (pr_base_url R)"
  by (auto simp: upload_url_of_def Option.bind_eq_Some_conv split: if_splits)

lemma upload_url_logging [simp]: "upload_url_of (logging R) start = upload_url_of R start"
  by (simp add: upload_url_of_def)

lemma own_headers:
  "own_request R \<lparr>rq_method = m, rq_url = u, rq_headers = [goog_api_key R], rq_body = b\<rparr> \<longleftrightarrow>
     same_origin u (pr_base_url R)"
  "own_request R \<lparr>rq_method = m, rq_url = u, rq_headers = upload_start_headers R media, rq_body = b\<rparr> \<longleftrightarrow>
     same_origin u (pr_base_url R)"
  by (auto simp: own_request_def goog_api_key_def upload_start_headers_def key_headers_def)

lemma goog_api_key_logging [simp]:
  "goog_api_key (logging R) = goog_api_key R" "upload_start_headers (logging R) media = upload_start_headers R media"
  by (simp_all add: goog_api_key_def upload_start_headers_def)

lemma gemini_logging_simps [simp]:
  "gp_stt_runtime (gemini_logging P) = logging (gp_stt_runtime P)"
  "gp_spawn_cleanup (gemini_logging P) name = beside_log (gp_spawn_cleanup P name)"
  by (simp_all add: gemini_logging_def)

lemma sends_upload_file:
  assumes "keeps_origin (pr_crates (gp_stt_runtime P))"
  shows "sends (upload_file (gemini_logging P) request) (own_request (gp_stt_runtime P)) (\<lambda>_. 2)"
proof -
  let ?R = "gp_stt_runtime P"
  have start: "sends (execute_without_retry (logging ?R) (Ok
      \<lparr>rq_method = POST, rq_url = url, rq_headers = upload_start_headers ?R media, rq_body = b\<rparr>)) (own_request ?R) (\<lambda>_. 1)"
    if "endpoint_url ?R e = Ok url" for e url media b
    using endpoint_url_own [OF assms that] by (intro sends_execute_without_retry) (simp add: own_headers)
  have sent: "sends (execute_without_retry (logging ?R) (Ok
      \<lparr>rq_method = POST, rq_url = url,
       rq_headers = [(''content-length'', n), (''x-goog-upload-offset'', ''0''),
         (''x-goog-upload-command'', ''upload, finalize''), (''content-type'', mime)], rq_body = b\<rparr>)) (own_request ?R) (\<lambda>_. 1)"
    if "upload_url_of ?R r = Ok url" for r url n mime b
    using upload_url_own [OF that] by (intro sends_execute_without_retry) (simp add: own_request_def key_headers_def)
  show ?thesis
    unfolding upload_file_def Let_def gemini_logging_simps endpoint_url_logging goog_api_key_logging upload_url_logging
    by (rule sends_try_lift, rule sends_try_call [OF start, where k = "\<lambda>_ _. 1"], assumption)
      (auto intro!: sends_try_lift sends_try_then sent sending simp del: One_nat_def)
qed

text \<open>The loop that waits for a file; a retry that was consumed stays consumed.\<close>

lemma wait_until_active_step:
  "wait_until_active P polls f consumed =
     (if gf_state f = ''ACTIVE'' then State_Monad.return (Ok f, consumed)
      else if gf_state f = ''FAILED'' then State_Monad.return (Err (adapter_error_new Rejected), consumed)
      else if gf_state f \<noteq> ''PROCESSING'' then State_Monad.return (Err invalid_response, consumed)
      else
        State_Monad.bind (pr_sleep (gp_stt_runtime P) FILE_POLL_INTERVAL) (\<lambda>passed.
        case polls of
          0 \<Rightarrow> State_Monad.return (Err (adapter_error_new provider_error_kind.Timeout), consumed)
        | Suc polls \<Rightarrow>
            if passed then State_Monad.return (Err (adapter_error_new provider_error_kind.Timeout), consumed)
            else (case endpoint_url (gp_stt_runtime P) (''v1beta/'' @ gf_name f) of
                Err e \<Rightarrow> State_Monad.return (Err e, consumed)
              | Ok url \<Rightarrow>
                  State_Monad.bind (execute_with_retry_budget (gp_stt_runtime P) consumed (Ok
                    \<lparr>rq_method = GET, rq_url = url, rq_headers = [goog_api_key (gp_stt_runtime P)], rq_body = NoBody\<rparr>))
                  (\<lambda>(r, consumed).
                  case and_then r (\<lambda>response.
                      and_then (ok_or (Option.bind (hc_json (pr_crates (gp_stt_runtime P)) (br_body response)) read_gemini_file)
                        invalid_response) (\<lambda>f.
                      and_then (validate_file f) (\<lambda>_. Ok f))) of
                    Err e \<Rightarrow> State_Monad.return (Err e, consumed)
                  | Ok f \<Rightarrow> wait_until_active P polls f consumed))))"
  apply (subst wait_until_active.simps) unfolding Let_def by (rule refl)

lemma with_retry_budget_keeps:
  "run_state (execute_with_retry_budget R True (Ok q)) s = (r, s') \<Longrightarrow> snd r"
  by (auto simp: execute_with_retry_budget_def run_simps split: prod.splits dest: execute_loop_consumed)

lemma wait_until_active_keeps:
  "run_state (wait_until_active P polls f True) s = (r, s') \<Longrightarrow> snd r"
proof (induction polls arbitrary: f s)
  case 0
  then show ?case
    by (subst (asm) wait_until_active_step) (auto simp: run_simps split: if_splits prod.splits)
next
  case (Suc polls)
  show ?case
    using Suc.prems
    by (subst (asm) wait_until_active_step)
      (auto simp: run_simps split: if_splits prod.splits sum.splits
        dest!: with_retry_budget_keeps dest: Suc.IH)
qed

lemma retried_then:
  assumes "consumed \<Longrightarrow> c" "c \<Longrightarrow> d"
  shows "retried consumed c + retried c d \<le> retried consumed d"
  using assms by (auto simp: retried_def)

lemma sends_wait_until_active:
  assumes "keeps_origin (pr_crates (gp_stt_runtime P))"
  shows "sends (wait_until_active (gemini_logging P) polls f consumed) (own_request (gp_stt_runtime P))
    (\<lambda>r. polls + retried consumed (snd r))"
proof (induction polls arbitrary: f consumed)
  case 0
  show ?case
    by (subst wait_until_active_step) (auto intro!: sending sends_bind_free)
next
  case (Suc polls)
  let ?R = "gp_stt_runtime P"
  have poll: "sends (execute_with_retry_budget (logging ?R) consumed (Ok
      \<lparr>rq_method = GET, rq_url = url, rq_headers = [goog_api_key ?R], rq_body = NoBody\<rparr>)) (own_request ?R)
      (\<lambda>r. 1 + retried consumed (snd r))"
    if "endpoint_url ?R e = Ok url" for e url
    using endpoint_url_own [OF assms that] by (intro sends_with_retry_budget) (simp add: own_headers)
  have rest: "sends (case x of Err e \<Rightarrow> State_Monad.return (Err e, c)
      | Ok f' \<Rightarrow> wait_until_active (gemini_logging P) polls f' c) (own_request ?R)
      (\<lambda>r. polls + retried c (snd r))" for x c
    by (cases x) (auto intro: sending Suc.IH)
  have kept: "c \<Longrightarrow> snd r"
    if "run_state (case x of Err e \<Rightarrow> State_Monad.return (Err e, c)
      | Ok f' \<Rightarrow> wait_until_active (gemini_logging P) polls f' c) s = (r, s')" for x c s r s'
    using that by (cases x) (auto simp: run_simps dest: wait_until_active_keeps)
  have polled: "sends (State_Monad.bind (execute_with_retry_budget (logging ?R) consumed (Ok
        \<lparr>rq_method = GET, rq_url = url, rq_headers = [goog_api_key ?R], rq_body = NoBody\<rparr>))
      (\<lambda>y. case g (fst y) of Err e \<Rightarrow> State_Monad.return (Err e, snd y)
        | Ok f' \<Rightarrow> wait_until_active (gemini_logging P) polls f' (snd y))) (own_request ?R)
      (\<lambda>r. Suc polls + retried consumed (snd r))"
    if "endpoint_url ?R e = Ok url" for e url g
  proof (rule sends_bind_run [OF poll [OF that] rest])
    fix s y s' r s''
    assume "run_state (execute_with_retry_budget (logging ?R) consumed (Ok
        \<lparr>rq_method = GET, rq_url = url, rq_headers = [goog_api_key ?R], rq_body = NoBody\<rparr>)) s = (y, s')"
      and "run_state (case g (fst y) of Err e \<Rightarrow> State_Monad.return (Err e, snd y)
        | Ok f' \<Rightarrow> wait_until_active (gemini_logging P) polls f' (snd y)) s' = (r, s'')"
    then have "retried consumed (snd y) + retried (snd y) (snd r) \<le> retried consumed (snd r)"
      by (intro retried_then) (auto dest: with_retry_budget_keeps kept)
    then show "1 + retried consumed (snd y) + (polls + retried (snd y) (snd r)) \<le> Suc polls + retried consumed (snd r)"
      by simp
  qed
  have after: "sends (case endpoint_url ?R e of Err e \<Rightarrow> State_Monad.return (Err e, consumed)
      | Ok url \<Rightarrow> State_Monad.bind (execute_with_retry_budget (logging ?R) consumed (Ok
          \<lparr>rq_method = GET, rq_url = url, rq_headers = [goog_api_key ?R], rq_body = NoBody\<rparr>))
        (\<lambda>y. case g (fst y) of Err e \<Rightarrow> State_Monad.return (Err e, snd y)
          | Ok f' \<Rightarrow> wait_until_active (gemini_logging P) polls f' (snd y))) (own_request ?R)
      (\<lambda>r. Suc polls + retried consumed (snd r))" for e g
    by (cases "endpoint_url ?R e") (auto intro: sending polled simp del: add_Suc add_Suc_right)
  show ?case
    by (subst wait_until_active_step,
        unfold gemini_logging_simps logging_simps endpoint_url_logging goog_api_key_logging nat.case split_beta)
      (intro sends_if sends_return sends_bind_free sends_beside_log after)
qed

text \<open>A transcription: the file is uploaded in two requests, polled for, transcribed and deleted.\<close>

lemma sends_transcribe_file:
  assumes "keeps_origin (pr_crates (gp_stt_runtime P))"
  shows "sends (transcribe_file (gemini_logging P) f language consumed) (own_request (gp_stt_runtime P))
    (\<lambda>_. 1 + retried consumed True)"
  unfolding transcribe_file_def Let_def gemini_logging_simps endpoint_url_logging goog_api_key_logging
  apply (rule sends_try_lift)
  subgoal premises url for u
    by (rule sends_bind [OF sends_with_retry_budget, where k = "\<lambda>_ _. 0"])
      (auto simp: own_headers retried_def intro: sending endpoint_url_own [OF assms url])
  done

lemma sends_cleanup_until:
  assumes "keeps_origin (pr_crates (gp_stt_runtime P))"
  shows "sends (cleanup_until (gemini_logging P) name deadline) (own_request (gp_stt_runtime P)) (\<lambda>_. 1)"
proof -
  let ?R = "gp_stt_runtime P"
  have delete: "sends (execute_once (logging ?R) \<lparr>rq_method = DELETE, rq_url = u, rq_headers = [goog_api_key ?R],
      rq_body = NoBody\<rparr>) (own_request ?R) (\<lambda>_. 1)" if "map_err g (endpoint_url ?R e) = Ok u" for u e g
    using endpoint_url_own [OF assms, of e u] that
    by (intro sends_execute_once) (auto simp: own_headers elim!: result_elims)
  have deleted: "sends (delete_file (gemini_logging P) name) (own_request ?R) (\<lambda>_. 1)"
    unfolding delete_file_def Let_def gemini_logging_simps endpoint_url_logging goog_api_key_logging
    by (intro sends_if sends_throw sends_try_lift sends_try_then delete sends_done_with)
  have leave: "sends (State_Monad.bind (delete_file (gemini_logging P) name) (\<lambda>r.
      if r = Err DeadlinePassed then beside_log m else State_Monad.return ())) (own_request ?R) (\<lambda>_. 1)" for m
    by (rule sends_bind [OF deleted, where k = "\<lambda>_ _. 0"]) (auto intro: sending)
  show ?thesis
    unfolding cleanup_until_def gemini_logging_simps logging_simps
    by (rule sends_bind_free [OF sends_beside_log], rule sends_if, rule sends_beside_log, rule leave)
qed

lemma sends_gemini_transcribe:
  assumes "keeps_origin (pr_crates (gp_stt_runtime P))"
  shows "sends (gemini_transcribe (gemini_logging P) request rid) (own_request (gp_stt_runtime P))
    (\<lambda>_. pr_timeout (gp_stt_runtime P) div FILE_POLL_INTERVAL + 5)"
proof -
  let ?R = "gp_stt_runtime P" and ?polls = "pr_timeout (gp_stt_runtime P) div FILE_POLL_INTERVAL"
  have transcribe: "sends (case fst y of Err e \<Rightarrow> throw e
      | Ok a \<Rightarrow> transcribe_file (gemini_logging P) a language (snd y)) (own_request ?R)
      (\<lambda>_. 1 + retried (snd y) True)" for y language
    by (cases "fst y") (simp_all only: sum.case sends_throw sends_transcribe_file [OF assms])
  have finish: "sends (State_Monad.bind (cleanup_until (gemini_logging P) name deadline) (\<lambda>_. State_Monad.return r))
      (own_request ?R) (\<lambda>_. 1)" for name deadline r
    by (rule sends_bind [OF sends_cleanup_until [OF assms], where k = "\<lambda>_ _. 0"]) (auto intro: sending)
  have active: "sends (State_Monad.bind (wait_until_active (gemini_logging P) ?polls f False) (\<lambda>y.
      State_Monad.bind (case fst y of Err e \<Rightarrow> throw e
        | Ok a \<Rightarrow> transcribe_file (gemini_logging P) a language (snd y)) (\<lambda>r.
      State_Monad.bind (cleanup_until (gemini_logging P) name deadline) (\<lambda>_. State_Monad.return r))))
      (own_request ?R) (\<lambda>_. ?polls + 3)" for f language name deadline
    by (rule sends_bind [OF sends_wait_until_active [OF assms],
          where k = "\<lambda>y _. 2 + retried (snd y) True"],
        rule sends_bind [OF transcribe finish]) (auto simp: retried_def)
  show ?thesis
    unfolding gemini_transcribe_def gemini_transcribe_media_def Let_def gemini_logging_simps logging_simps split_beta
    by (intro sends_on_err sends_with_permit sends_bind_free sends_beside_log,
        rule sends_try_call [OF sends_upload_file [OF assms], where k = "\<lambda>_ _. ?polls + 3"], rule active)
      auto
qed

end
