(* ===== verification/Audio.thy ===== *)
theory Audio
  imports Mp3 Ports
begin

text \<open>
  \<open>src/src/infrastructure/audio.rs\<close>: the normalizer that passes valid MP3 through and transcodes
  everything else with FFmpeg. The FFmpeg process is a parameter: from its arguments and its input it
  either does not start, does not end in time, or ends with what was written to it, what it wrote and
  its status.
\<close>

section \<open>Configuration and process\<close>

record audio_normalizer_config =
  max_input_bytes :: nat
  max_output_bytes :: nat
  nc_bitrate_kbps :: "16 word"

definition audio_normalizer_config_new :: audio_normalizer_config where
  "audio_normalizer_config_new =
     \<lparr>max_input_bytes = 25 * 1024 * 1024, max_output_bytes = 25 * 1024 * 1024, nc_bitrate_kbps = 128\<rparr>"

definition STDERR_LIMIT :: nat where
  "STDERR_LIMIT = 8 * 1024"

text \<open>
  \<open>Finished written output status\<close>: whether all input was written, the bytes of standard output or
  \<open>None\<close> when reading failed, and whether the process succeeded, \<open>None\<close> when waiting failed. Its
  standard error is drained and dropped.
\<close>

datatype process_end = NotStarted | TimedOut | Finished bool "bytes option" "bool option"

record 'w ffmpeg_normalizer =
  fn_config :: audio_normalizer_config
  fn_run :: "string list \<Rightarrow> bytes \<Rightarrow> ('w, process_end) state"

section \<open>Formats\<close>

definition is_mp3_media_type :: "string \<Rightarrow> bool" where
  "is_mp3_media_type media_type \<longleftrightarrow>
     to_ascii_lowercase (str_trim (hd (split_on CHR '';'' media_type))) \<in> {''audio/mpeg'', ''audio/mp3''}"

definition MP3_MEDIA_TYPE :: string where
  "MP3_MEDIA_TYPE = ''audio/mpeg''"

record raw_pcm_specification =
  raw_sample_rate_hz :: nat
  raw_channels :: nat

definition ok_of :: "('a, 'e) result \<Rightarrow> 'a option" where
  "ok_of r = (case r of Ok x \<Rightarrow> Some x | Err _ \<Rightarrow> None)"

text \<open>The loop over the parameters after the essence.\<close>

fun pcm_parameters ::
    "string list \<Rightarrow> nat option \<Rightarrow> nat option \<Rightarrow> (nat option \<times> nat option, audio_error) result" where
  "pcm_parameters [] rate chans = Ok (rate, chans)"
| "pcm_parameters (parameter # pieces) rate chans =
     (case split_once CHR ''='' (str_trim parameter) of
        None \<Rightarrow> Err InvalidFormat
      | Some (name, value) \<Rightarrow>
          let name = to_ascii_lowercase (str_trim name) in
          if name = ''rate'' then pcm_parameters pieces (ok_of (parse_unsigned u32_max (str_trim value))) chans
          else if name = ''channels'' then pcm_parameters pieces rate (ok_of (parse_unsigned 255 (str_trim value)))
          else if name = ''codec'' \<and> eq_ignore_ascii_case (str_trim value) ''pcm'' then pcm_parameters pieces rate chans
          else if name = ''codec'' then Err InvalidFormat
          else pcm_parameters pieces rate chans)"

definition raw_pcm_specification_of :: "string \<Rightarrow> (raw_pcm_specification option, audio_error) result" where
  "raw_pcm_specification_of media_type =
     (case split_on CHR '';'' media_type of
        [] \<Rightarrow> Ok None
      | essence # pieces \<Rightarrow>
          if \<not> eq_ignore_ascii_case (str_trim essence) ''audio/l16'' then Ok None
          else and_then (pcm_parameters pieces None None) (\<lambda>(rate, chans).
            let rate = (case rate of Some r \<Rightarrow> if 8000 \<le> r \<and> r \<le> 384000 then Some r else None | None \<Rightarrow> None);
                chans = (case chans of Some c \<Rightarrow> c | None \<Rightarrow> 1)
            in if \<not> (1 \<le> chans \<and> chans \<le> 8) then Err InvalidFormat
               else and_then (ok_or rate InvalidFormat) (\<lambda>r.
                 Ok (Some \<lparr>raw_sample_rate_hz = r, raw_channels = chans\<rparr>))))"

section \<open>The command\<close>

definition fixed_ffmpeg_command :: "string \<Rightarrow> 16 word \<Rightarrow> (string list, audio_error) result" where
  "fixed_ffmpeg_command media_type bitrate =
     (if \<not> (32 \<le> bitrate \<and> bitrate \<le> 320) then Err InvalidConfiguration
      else and_then (raw_pcm_specification_of media_type) (\<lambda>pcm. Ok
        ([''-hide_banner'', ''-loglevel'', ''error'', ''-nostdin'', ''-protocol_whitelist'', ''pipe''] @
         (case pcm of
            Some p \<Rightarrow> [''-f'', ''s16le'', ''-ar'', decimal (raw_sample_rate_hz p), ''-ac'', decimal (raw_channels p)]
          | None \<Rightarrow> []) @
         [''-i'', ''pipe:0'', ''-map_metadata'', ''-1'', ''-vn'', ''-codec:a'', ''libmp3lame'', ''-b:a'',
          decimal (unat bitrate) @ ''k'', ''-f'', ''mp3'', ''pipe:1''])))"

definition source_duration_arguments :: "string list" where
  "source_duration_arguments =
     [''-hide_banner'', ''-loglevel'', ''error'', ''-nostdin'', ''-protocol_whitelist'', ''pipe'', ''-i'', ''pipe:0'',
      ''-map'', ''0:a:0'', ''-vn'', ''-ac'', ''1'', ''-ar'', ''16000'', ''-f'', ''s16le'', ''pipe:1'']"

section \<open>Normalizing\<close>

definition validate_input_size :: "audio_normalizer_config \<Rightarrow> bytes \<Rightarrow> (unit, audio_error) result" where
  "validate_input_size C input =
     (if input = [] then Err EmptyInput
      else if length input > max_input_bytes C then Err InputTooLarge
      else Ok ())"

text \<open>\<open>take(limit + 1).read_to_end\<close>: at most one byte more than the limit is read.\<close>

definition read_bounded :: "bytes option \<Rightarrow> nat \<Rightarrow> (bytes, audio_error) result" where
  "read_bounded output limit =
     and_then (ok_or output ProcessFailed) (\<lambda>all.
     let bs = take (min u64_max (min u64_max limit + 1)) all in
     if length bs > limit then Err OutputTooLarge else Ok bs)"

definition run_ffmpeg :: "'w ffmpeg_normalizer \<Rightarrow> bytes \<Rightarrow> string \<Rightarrow> ('w, bytes, audio_error) call" where
  "run_ffmpeg N input media_type =
     try_call (lift_result (fixed_ffmpeg_command media_type (nc_bitrate_kbps (fn_config N)))) (\<lambda>arguments.
     State_Monad.bind (fn_run N arguments input) (\<lambda>e.
     case e of
       NotStarted \<Rightarrow> throw ProcessUnavailable
     | TimedOut \<Rightarrow> throw audio_error.Timeout
     | Finished written output status \<Rightarrow>
         if \<not> written then throw ProcessFailed
         else try_call (lift_result (read_bounded output (max_output_bytes (fn_config N)))) (\<lambda>bs.
           if status = Some True then done_with bs else throw ProcessFailed)))"

definition normalize ::
    "'w ffmpeg_normalizer \<Rightarrow> bytes \<Rightarrow> string \<Rightarrow> nat option \<Rightarrow> ('w, normalized_audio, audio_error) call" where
  "normalize N input media_type exact =
     try_call (lift_result (validate_input_size (fn_config N) input)) (\<lambda>_.
     if is_mp3_media_type media_type then
       if length input > max_output_bytes (fn_config N) then throw OutputTooLarge
       else lift_result (and_then (mp3_duration_ms input) (\<lambda>ms.
         map_err (\<lambda>_. InvalidMp3) (normalized_audio_new input (MediaDuration (of_nat ms)))))
     else
       try_call (run_ffmpeg N input media_type) (\<lambda>output.
       lift_result (and_then (mp3_duration_ms output) (\<lambda>encoded.
         map_err (\<lambda>_. InvalidMp3) (normalized_audio_new output
           (MediaDuration (of_nat (case exact of Some ms \<Rightarrow> ms | None \<Rightarrow> encoded))))))))"

section \<open>Raw samples\<close>

definition pcm_duration_ms ::
    "nat \<Rightarrow> 32 word \<Rightarrow> 32 word \<Rightarrow> 32 word \<Rightarrow> (nat, audio_normalization_error) result" where
  "pcm_duration_ms byte_length rate chans bits =
     (let bytes_per_sample = bits div 8 in
      if \<not> (bytes_per_sample > 0 \<and> bits mod 8 = 0) then Err InvalidAudio
      else and_then (ok_or (u32_checked_mul chans bytes_per_sample) InvalidAudio) (\<lambda>bytes_per_frame.
        if \<not> bytes_per_frame > 0 then Err InvalidAudio
        else if byte_length mod unat bytes_per_frame \<noteq> 0 \<or> rate = 0 then Err InvalidAudio
        else
          and_then (ok_or (u128_checked (byte_length div unat bytes_per_frame * 1000)) InvalidAudio) (\<lambda>numerator.
          and_then (ok_or (div_ceil numerator (unat rate)) InvalidAudio) (\<lambda>milliseconds.
          if milliseconds \<le> u64_max then Ok milliseconds else Err InvalidAudio))))"

fun map_ffmpeg_error :: "audio_error \<Rightarrow> audio_normalization_error" where
  "map_ffmpeg_error EmptyInput = InvalidAudio"
| "map_ffmpeg_error InputTooLarge = InvalidAudio"
| "map_ffmpeg_error OutputTooLarge = InvalidAudio"
| "map_ffmpeg_error InvalidMp3 = InvalidAudio"
| "map_ffmpeg_error InvalidFormat = InvalidAudio"
| "map_ffmpeg_error ProcessUnavailable = audio_normalization_error.Unavailable"
| "map_ffmpeg_error InvalidConfiguration = audio_normalization_error.Unavailable"
| "map_ffmpeg_error audio_error.Timeout = audio_normalization_error.Timeout"
| "map_ffmpeg_error ProcessFailed = audio_normalization_error.Failed"

definition pcm_media_type :: "pcm_specification \<Rightarrow> string" where
  "pcm_media_type p =
     ''audio/L16;codec=pcm;rate='' @ decimal (unat (sample_rate_hz p)) @
     '';channels='' @ decimal (unat (channels p))"

definition normalize_to_mp3 ::
    "'w ffmpeg_normalizer \<Rightarrow> audio_artifact \<Rightarrow> request_id \<Rightarrow>
     ('w, normalized_audio, audio_normalization_error) call" where
  "normalize_to_mp3 N artifact rid =
     try_call (lift_result (case artifact_format artifact of
         LinearPcm p \<Rightarrow> map_ok Some (pcm_duration_ms (length (artifact_bytes artifact))
           (sample_rate_hz p) (channels p) (bits_per_sample p))
       | _ \<Rightarrow> Ok None)) (\<lambda>exact.
     try_call (lift_result (case artifact_format artifact of
         provider_audio_format.Mp3 \<Rightarrow> Ok MP3_MEDIA_TYPE
       | provider_audio_format.Wav \<Rightarrow> Ok ''audio/wav''
       | LinearPcm p \<Rightarrow> if bits_per_sample p \<noteq> 16 then Err InvalidAudio else Ok (pcm_media_type p))) (\<lambda>media_type.
     on_err map_ffmpeg_error (normalize N (artifact_bytes artifact) media_type exact)))"

section \<open>Duration of uploaded media\<close>

text \<open>
  FFmpeg decodes the first audio stream to mono 16-bit samples at 16 kHz, 32 bytes a millisecond; the
  loop counts what it writes.
\<close>

definition count_output :: "bytes option \<Rightarrow> (nat, audio_normalization_error) result" where
  "count_output output =
     and_then (ok_or output audio_normalization_error.Failed) (\<lambda>bs.
     if length bs \<le> u64_max then Ok (length bs) else Err audio_normalization_error.Failed)"

definition source_duration ::
    "'w ffmpeg_normalizer \<Rightarrow> source_media \<Rightarrow> request_id \<Rightarrow>
     ('w, media_duration, audio_normalization_error) call" where
  "source_duration N media rid =
     try_call (lift_result (map_err map_ffmpeg_error (validate_input_size (fn_config N) (sm_bytes media)))) (\<lambda>_.
     State_Monad.bind (fn_run N source_duration_arguments (sm_bytes media)) (\<lambda>e.
     case e of
       NotStarted \<Rightarrow> throw audio_normalization_error.Unavailable
     | TimedOut \<Rightarrow> throw audio_normalization_error.Timeout
     | Finished written output status \<Rightarrow>
         if \<not> written then throw InvalidAudio
         else if status = None then throw audio_normalization_error.Failed
         else if status \<noteq> Some True then throw InvalidAudio
         else lift_result (and_then (count_output output) (\<lambda>len.
           if len = 0 \<or> len mod 2 \<noteq> 0 then Err InvalidAudio
           else Ok (MediaDuration (of_nat ((len + 31) div 32)))))))"

section \<open>Readiness\<close>

definition check_audio_ready :: "'w ffmpeg_normalizer \<Rightarrow> ('w, unit, audio_normalization_error) call" where
  "check_audio_ready N =
     (let bitrate = nc_bitrate_kbps (fn_config N) in
      if \<not> (32 \<le> bitrate \<and> bitrate \<le> 320) then throw audio_normalization_error.Unavailable
      else
        try_call (lift_result (map_err (\<lambda>_. audio_normalization_error.Unavailable)
            (fixed_ffmpeg_command ''audio/L16;codec=pcm;rate=8000;channels=1'' bitrate))) (\<lambda>arguments.
        State_Monad.bind (fn_run N arguments (replicate 320 (CHR 0x00))) (\<lambda>e.
        case e of
          NotStarted \<Rightarrow> throw audio_normalization_error.Unavailable
        | TimedOut \<Rightarrow> throw audio_normalization_error.Timeout
        | Finished written _ status \<Rightarrow>
            if written \<and> status = Some True then done_with ()
            else throw audio_normalization_error.Unavailable)))"

end
