(* ===== verification/Audio_Properties.thy ===== *)
theory Audio_Properties
  imports Audio
begin

text \<open>
  What the normalizer promises: its result is a valid MP3 of bounded size with the duration of the
  speech, FFmpeg is only ever run with fixed arguments, and raw samples have an exact duration.
\<close>

section \<open>The media type of raw samples\<close>

lemma graphic_not_whitespace: "is_ascii_graphic c \<Longrightarrow> \<not> is_unicode_whitespace (byte c)"
  by (auto simp: is_ascii_graphic_def is_unicode_whitespace_def)

lemma dropWhile_graphic: "\<forall>c \<in> set s. is_ascii_graphic c \<Longrightarrow> dropWhile is_unicode_whitespace (map byte s) = map byte s"
  by (cases s) (auto simp: graphic_not_whitespace)

lemma str_trim_graphic:
  assumes "\<forall>c \<in> set s. is_ascii_graphic c"
  shows "str_trim s = s"
proof -
  have ascii: "\<forall>c \<in> set s. is_ascii c" using assms by (auto simp: is_ascii_graphic_def is_ascii_def)
  have "dropWhile is_unicode_whitespace (rev (map byte s)) = rev (map byte s)"
    using dropWhile_graphic [of "rev s"] assms by (simp add: rev_map)
  then show ?thesis
    using assms by (simp add: str_trim_def utf8_chars_ascii ascii dropWhile_graphic utf8_of_chars_ascii)
qed

lemma decimal_graphic: "c \<in> set (decimal n) \<Longrightarrow> is_ascii_graphic c \<and> c \<notin> {CHR '';'', CHR ''=''}"
  using decimal_digits [of c n] by (auto simp: is_ascii_graphic_def is_ascii_digit_def byte_def)

lemma decimal_no_sep [simp]: "CHR '';'' \<notin> set (decimal n)" "CHR ''='' \<notin> set (decimal n)"
  using decimal_graphic by blast+

lemma parameter_value:
  assumes "\<forall>c \<in> set name. is_ascii_graphic c \<and> c \<noteq> CHR ''=''"
  shows "split_once CHR ''='' (str_trim (name @ CHR ''='' # decimal n)) = Some (name, decimal n)"
proof -
  have "str_trim (name @ CHR ''='' # decimal n) = name @ CHR ''='' # decimal n"
    by (rule str_trim_graphic) (use assms decimal_graphic in \<open>auto simp: is_ascii_graphic_def byte_def\<close>)
  then show ?thesis using assms by (auto simp: split_once_Some_iff)
qed

lemma pcm_media_type_pieces:
  "split_on CHR '';'' (pcm_media_type p) =
     [''audio/L16'', ''codec=pcm'', ''rate='' @ decimal (unat (sample_rate_hz p)),
      ''channels='' @ decimal (unat (channels p))]"
  by (simp add: pcm_media_type_def split_on_append_sep split_on_no_sep)

lemma parse_decimal_word: "unat (w :: 32 word) \<le> u32_max"
proof -
  have "unat w < 2 ^ 32" using unsigned_less [of w] by simp
  then show ?thesis by (simp add: u32_max_def)
qed

lemma pcm_media_type_parameters:
  assumes "unat (channels p) \<le> 255"
  shows "pcm_parameters [''codec=pcm'', ''rate='' @ decimal (unat (sample_rate_hz p)),
      ''channels='' @ decimal (unat (channels p))] None None =
    Ok (Some (unat (sample_rate_hz p)), Some (unat (channels p)))"
proof -
  have codec: "split_once CHR ''='' (str_trim ''codec=pcm'') = Some (''codec'', ''pcm'')"
    "to_ascii_lowercase (str_trim ''codec'') = ''codec''" "eq_ignore_ascii_case (str_trim ''pcm'') ''pcm''"
    "to_ascii_lowercase (str_trim ''rate'') = ''rate''" "to_ascii_lowercase (str_trim ''channels'') = ''channels''"
    by code_simp+
  have number: "str_trim (decimal n) = decimal n" for n
    by (rule str_trim_graphic) (use decimal_graphic in blast)
  have rate: "split_once CHR ''='' (str_trim (''rate='' @ decimal n)) = Some (''rate'', decimal n)" for n
    using parameter_value [of "''rate''" n] by (simp add: is_ascii_graphic_def byte_def)
  have chans: "split_once CHR ''='' (str_trim (''channels='' @ decimal n)) = Some (''channels'', decimal n)" for n
    using parameter_value [of "''channels''" n] by (simp add: is_ascii_graphic_def byte_def)
  have "parse_unsigned u32_max (decimal (unat (sample_rate_hz p))) = Ok (unat (sample_rate_hz p))"
    "parse_unsigned 255 (decimal (unat (channels p))) = Ok (unat (channels p))"
    using parse_unsigned_decimal parse_decimal_word assms by blast+
  then show ?thesis
    by (simp add: codec rate [simplified] chans [simplified] number ok_of_def)
qed

lemma raw_pcm_specification_of_media_type:
  assumes "1 \<le> unat (channels p)" "unat (channels p) \<le> 8"
  shows "raw_pcm_specification_of (pcm_media_type p) =
    (if 8000 \<le> unat (sample_rate_hz p) \<and> unat (sample_rate_hz p) \<le> 384000
     then Ok (Some \<lparr>raw_sample_rate_hz = unat (sample_rate_hz p), raw_channels = unat (channels p)\<rparr>)
     else Err InvalidFormat)"
proof -
  have "eq_ignore_ascii_case (str_trim ''audio/L16'') ''audio/l16''" by code_simp
  then show ?thesis
    using assms pcm_media_type_parameters [of p]
    by (simp add: raw_pcm_specification_of_def pcm_media_type_pieces Let_def del: pcm_parameters.simps)
qed

section \<open>The command\<close>

definition fixed_arguments :: "string set" where
  "fixed_arguments = set [''-hide_banner'', ''-loglevel'', ''error'', ''-nostdin'', ''-protocol_whitelist'', ''pipe'',
     ''-f'', ''s16le'', ''-ar'', ''-ac'', ''-i'', ''pipe:0'', ''-map_metadata'', ''-1'', ''-vn'', ''-codec:a'',
     ''libmp3lame'', ''-b:a'', ''mp3'', ''pipe:1'']"

lemma raw_pcm_specification_of_bounds:
  "raw_pcm_specification_of m = Ok (Some p) \<Longrightarrow>
     8000 \<le> raw_sample_rate_hz p \<and> raw_sample_rate_hz p \<le> 384000 \<and> 1 \<le> raw_channels p \<and> raw_channels p \<le> 8"
  by (auto simp: raw_pcm_specification_of_def Let_def elim!: result_elims split: list.splits if_splits option.splits prod.splits)

text \<open>Nothing of the input, of its media type or of the request reaches the command but bounded numbers.\<close>

lemma fixed_ffmpeg_command_arguments:
  assumes "fixed_ffmpeg_command media_type bitrate = Ok arguments"
  shows "set arguments \<subseteq> fixed_arguments \<union>
    {decimal n | n. n \<le> 384000} \<union> {decimal n @ ''k'' | n. 32 \<le> n \<and> n \<le> 320}"
proof -
  obtain pcm where pcm: "raw_pcm_specification_of media_type = Ok pcm" and rate: "32 \<le> bitrate" "bitrate \<le> 320"
    and arguments: "arguments =
        [''-hide_banner'', ''-loglevel'', ''error'', ''-nostdin'', ''-protocol_whitelist'', ''pipe''] @
         (case pcm of
            Some p \<Rightarrow> [''-f'', ''s16le'', ''-ar'', decimal (raw_sample_rate_hz p), ''-ac'', decimal (raw_channels p)]
          | None \<Rightarrow> []) @
         [''-i'', ''pipe:0'', ''-map_metadata'', ''-1'', ''-vn'', ''-codec:a'', ''libmp3lame'', ''-b:a'',
          decimal (unat bitrate) @ ''k'', ''-f'', ''mp3'', ''pipe:1'']"
    using assms by (auto simp: fixed_ffmpeg_command_def elim!: result_elims split: if_splits)
  have k: "32 \<le> unat bitrate" "unat bitrate \<le> 320"
    using rate by (simp_all add: word_le_nat_alt)
  have numbers: "raw_sample_rate_hz p \<le> 384000" "raw_channels p \<le> 384000" if "pcm = Some p" for p
    using raw_pcm_specification_of_bounds [of media_type p] pcm that by auto
  show ?thesis
    unfolding arguments using k numbers by (cases pcm) (auto simp: fixed_arguments_def)
qed

section \<open>What normalizing answers\<close>

lemma read_bounded_Ok: "read_bounded output limit = Ok bs \<Longrightarrow> limit < u64_max \<Longrightarrow>
    output = Some bs \<and> length bs \<le> limit"
  by (auto simp: read_bounded_def Let_def min_def split: if_splits elim!: result_elims)

text \<open>A run of FFmpeg that succeeded: its fixed arguments, its whole input and its whole output.\<close>

definition ffmpeg_made :: "'w ffmpeg_normalizer \<Rightarrow> string \<Rightarrow> bytes \<Rightarrow> 'w \<Rightarrow> bytes \<Rightarrow> 'w \<Rightarrow> bool" where
  "ffmpeg_made N media_type input w output w' \<longleftrightarrow>
     (\<exists>arguments. fixed_ffmpeg_command media_type (nc_bitrate_kbps (fn_config N)) = Ok arguments \<and>
        run_state (fn_run N arguments input) w = (Finished True (Some output) (Some True), w'))"

lemma run_ffmpeg_Ok:
  assumes "run_state (run_ffmpeg N input media_type) w = (Ok bs, w')" "max_output_bytes (fn_config N) < u64_max"
  shows "ffmpeg_made N media_type input w bs w' \<and> length bs \<le> max_output_bytes (fn_config N)"
  using assms read_bounded_Ok
  by (fastforce simp: run_ffmpeg_def ffmpeg_made_def run_simps split: sum.splits prod.splits process_end.splits if_splits)

lemma duration_fits:
  assumes "mp3_duration_ms bs = Ok ms" shows "ms \<le> u64_max"
  using assms by (auto simp: mp3_duration_ms_def elim!: result_elims split: if_splits prod.splits)

lemma u64_word: "ms \<le> u64_max \<Longrightarrow> unat (of_nat ms :: 64 word) = ms"
  by (simp add: unat_of_nat u64_max_def)

lemma normalize_Ok:
  assumes run: "run_state (normalize N input media_type exact) w = (Ok n, w')"
    and limit: "max_output_bytes (fn_config N) < u64_max" and exact: "\<forall>ms. exact = Some ms \<longrightarrow> ms \<le> u64_max"
  obtains tag frames trailer shape where "valid_mp3 (na_bytes n) tag frames trailer shape"
    "length (na_bytes n) \<le> max_output_bytes (fn_config N)" "length (na_bytes n) \<le> 26214400"
    "input \<noteq> []" "length input \<le> max_input_bytes (fn_config N)"
    "if is_mp3_media_type media_type
     then na_bytes n = input \<and> w' = w \<and> unat (as_millis (na_duration n)) = duration_of (length frames) shape
     else ffmpeg_made N media_type input w (na_bytes n) w' \<and>
       unat (as_millis (na_duration n)) = (case exact of Some ms \<Rightarrow> ms | None \<Rightarrow> duration_of (length frames) shape)"
proof -
  have size: "input \<noteq> []" "length input \<le> max_input_bytes (fn_config N)"
    using run by (auto simp: normalize_def validate_input_size_def run_simps split: if_splits)
  have "\<exists>ms. mp3_duration_ms (na_bytes n) = Ok ms \<and> length (na_bytes n) \<le> max_output_bytes (fn_config N) \<and>
    length (na_bytes n) \<le> 26214400 \<and>
    (if is_mp3_media_type media_type
     then na_bytes n = input \<and> w' = w \<and> na_duration n = MediaDuration (of_nat ms)
     else ffmpeg_made N media_type input w (na_bytes n) w' \<and>
       na_duration n = MediaDuration (of_nat (case exact of Some ms \<Rightarrow> ms | None \<Rightarrow> ms)))"
    using run size run_ffmpeg_Ok [OF _ limit]
    by (fastforce simp: normalize_def validate_input_size_def run_simps and_then_Ok_iff normalized_audio_new_Ok_iff
        split: if_splits sum.splits prod.splits)
  then obtain ms where ms: "mp3_duration_ms (na_bytes n) = Ok ms" "length (na_bytes n) \<le> max_output_bytes (fn_config N)"
    "length (na_bytes n) \<le> 26214400"
    "if is_mp3_media_type media_type
     then na_bytes n = input \<and> w' = w \<and> na_duration n = MediaDuration (of_nat ms)
     else ffmpeg_made N media_type input w (na_bytes n) w' \<and>
       na_duration n = MediaDuration (of_nat (case exact of Some ms \<Rightarrow> ms | None \<Rightarrow> ms))" by blast
  obtain tag frames trailer shape where "valid_mp3 (na_bytes n) tag frames trailer shape"
    "ms = duration_of (length frames) shape" using mp3_duration_ms_sound [OF ms(1)] .
  then show thesis
    using that [of tag frames trailer shape] ms size u64_word [OF duration_fits [OF ms(1)]] exact u64_word
    by (cases exact) (auto split: if_splits)
qed

section \<open>Raw samples\<close>

text \<open>The duration of whole 16-bit frames, rounded up to a millisecond.\<close>

definition pcm_frames :: "nat \<Rightarrow> pcm_specification \<Rightarrow> nat" where
  "pcm_frames len p = len div (unat (channels p) * (unat (bits_per_sample p) div 8))"

definition pcm_duration :: "nat \<Rightarrow> pcm_specification \<Rightarrow> nat" where
  "pcm_duration len p =
     (pcm_frames len p * 1000 + (unat (sample_rate_hz p) - 1)) div unat (sample_rate_hz p)"

lemma pcm_duration_ms_Ok:
  assumes "pcm_duration_ms len (sample_rate_hz p) (channels p) (bits_per_sample p) = Ok ms"
  shows "ms = pcm_duration len p" "ms \<le> u64_max" "1 \<le> unat (channels p)"
    "len mod (unat (channels p) * (unat (bits_per_sample p) div 8)) = 0"
proof -
  obtain frame where frame: "u32_checked_mul (channels p) (bits_per_sample p div 8) = Some frame" "0 < frame"
    "len mod unat frame = 0" and ms: "ms \<le> u64_max"
    "ms = (len div unat frame * 1000 + (unat (sample_rate_hz p) - 1)) div unat (sample_rate_hz p)"
    using assms by (auto simp: pcm_duration_ms_def Let_def div_ceil_def u128_checked_def
        elim!: result_elims split: if_splits)
  have bytes: "unat frame = unat (channels p) * (unat (bits_per_sample p) div 8)"
    using frame(1) by (auto simp: u32_checked_mul_def unat_div_distrib unat_word_ariths u32_max_def split: if_splits)
  then show "ms = pcm_duration len p" "ms \<le> u64_max" "1 \<le> unat (channels p)"
    "len mod (unat (channels p) * (unat (bits_per_sample p) div 8)) = 0"
    using frame(2,3) ms by (auto simp: pcm_duration_def pcm_frames_def word_less_nat_alt intro!: Suc_leI gr0I)
qed

lemma is_mp3_media_type_literals [simp]:
  "is_mp3_media_type MP3_MEDIA_TYPE" "\<not> is_mp3_media_type ''audio/wav''" "\<not> is_mp3_media_type (pcm_media_type p)"
proof -
  have "is_mp3_media_type MP3_MEDIA_TYPE" "\<not> is_mp3_media_type ''audio/wav''"
    "to_ascii_lowercase (str_trim ''audio/L16'') = ''audio/l16''" by code_simp+
  then show "is_mp3_media_type MP3_MEDIA_TYPE" "\<not> is_mp3_media_type ''audio/wav''" "\<not> is_mp3_media_type (pcm_media_type p)"
    by (simp_all add: is_mp3_media_type_def pcm_media_type_pieces)
qed

text \<open>The invariant of \<open>PcmSpecification\<close>, whose fields are private.\<close>

definition artifact_wf :: "audio_artifact \<Rightarrow> bool" where
  "artifact_wf artifact \<longleftrightarrow> (case artifact_format artifact of
     LinearPcm p \<Rightarrow> pcm_specification_new (sample_rate_hz p) (channels p) (bits_per_sample p) = Ok p
   | _ \<Rightarrow> True)"

lemma pcm_command_bounds:
  assumes "ffmpeg_made N (pcm_media_type p) input w output w'" "1 \<le> unat (channels p)"
    "pcm_specification_new (sample_rate_hz p) (channels p) (bits_per_sample p) = Ok p"
  shows "8000 \<le> unat (sample_rate_hz p) \<and> unat (sample_rate_hz p) \<le> 384000"
proof -
  have "unat (channels p) \<le> 8"
    using assms(3) by (auto simp: pcm_specification_new_def word_le_nat_alt word_less_nat_alt split: if_splits)
  then show ?thesis
    using assms(1,2) raw_pcm_specification_of_media_type [of p]
    by (auto simp: ffmpeg_made_def fixed_ffmpeg_command_def split: if_splits)
qed

text \<open>
  C11: audio is only ever answered as a valid MP3 of bounded size. An MP3 of a provider is answered byte
  for byte, without a process, with the duration of its frames; anything else is the whole output of an
  FFmpeg run that succeeded on all of it, with the duration of the frames of a WAV's MP3, and of the raw
  samples themselves when they are 16-bit PCM at 8 to 384 kHz (no other raw samples are accepted).
\<close>

theorem normalized_audio_is_valid_mp3:
  assumes run: "run_state (normalize_to_mp3 N artifact rid) w = (Ok n, w')"
    and limit: "max_output_bytes (fn_config N) < u64_max" and wf: "artifact_wf artifact"
  shows "\<exists>tag frames trailer shape. valid_mp3 (na_bytes n) tag frames trailer shape \<and>
    length (na_bytes n) \<le> min (max_output_bytes (fn_config N)) 26214400 \<and>
    (case artifact_format artifact of
       provider_audio_format.Mp3 \<Rightarrow> na_bytes n = artifact_bytes artifact \<and> w' = w \<and>
         unat (as_millis (na_duration n)) = duration_of (length frames) shape
     | provider_audio_format.Wav \<Rightarrow> ffmpeg_made N ''audio/wav'' (artifact_bytes artifact) w (na_bytes n) w' \<and>
         unat (as_millis (na_duration n)) = duration_of (length frames) shape
     | LinearPcm p \<Rightarrow> bits_per_sample p = 16 \<and>
         8000 \<le> unat (sample_rate_hz p) \<and> unat (sample_rate_hz p) \<le> 384000 \<and>
         ffmpeg_made N (pcm_media_type p) (artifact_bytes artifact) w (na_bytes n) w' \<and>
         unat (as_millis (na_duration n)) = pcm_duration (length (artifact_bytes artifact)) p)"
proof (cases "artifact_format artifact")
  case Mp3
  then have "run_state (normalize N (artifact_bytes artifact) MP3_MEDIA_TYPE None) w = (Ok n, w')"
    using run by (auto simp: normalize_to_mp3_def run_simps split: prod.splits sum.splits)
  then obtain tag frames trailer shape where "valid_mp3 (na_bytes n) tag frames trailer shape"
    "length (na_bytes n) \<le> max_output_bytes (fn_config N)" "length (na_bytes n) \<le> 26214400"
    "na_bytes n = artifact_bytes artifact" "w' = w"
    "unat (as_millis (na_duration n)) = duration_of (length frames) shape"
    by (rule normalize_Ok [OF _ limit]) simp_all
  then show ?thesis using Mp3 by (intro exI [of _ tag] exI [of _ frames] exI [of _ trailer] exI [of _ shape]) simp
next
  case Wav
  then have "run_state (normalize N (artifact_bytes artifact) ''audio/wav'' None) w = (Ok n, w')"
    using run by (auto simp: normalize_to_mp3_def run_simps split: prod.splits sum.splits)
  then obtain tag frames trailer shape where "valid_mp3 (na_bytes n) tag frames trailer shape"
    "length (na_bytes n) \<le> max_output_bytes (fn_config N)" "length (na_bytes n) \<le> 26214400"
    "ffmpeg_made N ''audio/wav'' (artifact_bytes artifact) w (na_bytes n) w'"
    "unat (as_millis (na_duration n)) = duration_of (length frames) shape"
    by (rule normalize_Ok [OF _ limit]) simp_all
  then show ?thesis using Wav by (intro exI [of _ tag] exI [of _ frames] exI [of _ trailer] exI [of _ shape]) simp
next
  case (LinearPcm p)
  let ?input = "artifact_bytes artifact"
  obtain ms where ms: "pcm_duration_ms (length ?input) (sample_rate_hz p) (channels p) (bits_per_sample p) = Ok ms"
    and bits: "bits_per_sample p = 16"
    and n: "run_state (normalize N ?input (pcm_media_type p) (Some ms)) w = (Ok n, w')"
    using run LinearPcm by (auto simp: normalize_to_mp3_def run_simps map_ok_Ok_iff split: prod.splits sum.splits if_splits)
  note pcm = pcm_duration_ms_Ok [OF ms]
  from n pcm(2) obtain tag frames trailer shape where
    "valid_mp3 (na_bytes n) tag frames trailer shape" "length (na_bytes n) \<le> max_output_bytes (fn_config N)"
    "length (na_bytes n) \<le> 26214400" "ffmpeg_made N (pcm_media_type p) ?input w (na_bytes n) w'"
    "unat (as_millis (na_duration n)) = ms"
    by (elim normalize_Ok [OF _ limit]) simp_all
  moreover have "pcm_specification_new (sample_rate_hz p) (channels p) (bits_per_sample p) = Ok p"
    using wf LinearPcm by (simp add: artifact_wf_def)
  ultimately show ?thesis
    using LinearPcm bits pcm(1) pcm_command_bounds [OF _ pcm(3)]
    by (intro exI [of _ tag] exI [of _ frames] exI [of _ trailer] exI [of _ shape]) simp
qed

lemma normalize_mp3_passes:
  assumes "mp3_duration_ms bs = Ok ms" "bs \<noteq> []" "length bs \<le> max_input_bytes (fn_config N)"
    "length bs \<le> max_output_bytes (fn_config N)" "length bs \<le> 26214400"
  shows "run_state (normalize_to_mp3 N \<lparr>artifact_format = provider_audio_format.Mp3, artifact_bytes = bs\<rparr> rid) w =
    (Ok \<lparr>na_bytes = bs, na_duration = MediaDuration (of_nat ms)\<rparr>, w)"
proof -
  have "normalized_audio_new bs (MediaDuration (of_nat ms)) = Ok \<lparr>na_bytes = bs, na_duration = MediaDuration (of_nat ms)\<rparr>"
    using assms by (simp add: normalized_audio_new_Ok_iff)
  then show ?thesis
    using assms by (auto simp: normalize_to_mp3_def normalize_def validate_input_size_def run_simps)
qed

lemma normalize_to_mp3_normalize:
  assumes "run_state (normalize_to_mp3 N artifact rid) w = (Ok n, w')"
  obtains media_type exact where
    "run_state (normalize N (artifact_bytes artifact) media_type exact) w = (Ok n, w')"
    "(\<forall>p. artifact_format artifact \<noteq> LinearPcm p) \<longrightarrow> exact = None"
    "\<forall>ms. exact = Some ms \<longrightarrow> ms \<le> u64_max"
proof (cases "artifact_format artifact")
  case (LinearPcm p)
  then obtain ms where "pcm_duration_ms (length (artifact_bytes artifact)) (sample_rate_hz p) (channels p)
      (bits_per_sample p) = Ok ms"
    "run_state (normalize N (artifact_bytes artifact) (pcm_media_type p) (Some ms)) w = (Ok n, w')"
    using assms by (auto simp: normalize_to_mp3_def run_simps map_ok_Ok_iff split: prod.splits sum.splits if_splits)
  then show thesis using that [of "pcm_media_type p" "Some ms"] pcm_duration_ms_Ok(2) LinearPcm by auto
qed (use assms that [of _ None] in \<open>auto simp: normalize_to_mp3_def run_simps split: prod.splits sum.splits\<close>)

text \<open>
  Normalizing is idempotent. What was answered normalizes again to the very same bytes without a
  process, and to the same duration unless the first one was measured on raw samples.
\<close>

theorem normalizing_again_changes_nothing:
  assumes run: "run_state (normalize_to_mp3 N artifact rid) w = (Ok n, w')"
    and limit: "max_output_bytes (fn_config N) < u64_max"
    and input: "max_output_bytes (fn_config N) \<le> max_input_bytes (fn_config N)"
  shows "\<exists>d. run_state (normalize_to_mp3 N
      \<lparr>artifact_format = provider_audio_format.Mp3, artifact_bytes = na_bytes n\<rparr> rid') v =
        (Ok \<lparr>na_bytes = na_bytes n, na_duration = d\<rparr>, v) \<and>
    ((\<forall>p. artifact_format artifact \<noteq> LinearPcm p) \<longrightarrow> d = na_duration n)"
proof -
  obtain media_type exact where n: "run_state (normalize N (artifact_bytes artifact) media_type exact) w = (Ok n, w')"
    and plain: "(\<forall>p. artifact_format artifact \<noteq> LinearPcm p) \<longrightarrow> exact = None"
    and exact: "\<forall>ms. exact = Some ms \<longrightarrow> ms \<le> u64_max"
    using run by (rule normalize_to_mp3_normalize)
  obtain tag frames trailer shape where v: "valid_mp3 (na_bytes n) tag frames trailer shape"
    and size: "length (na_bytes n) \<le> max_output_bytes (fn_config N)" "length (na_bytes n) \<le> 26214400"
    and d: "exact = None \<longrightarrow> unat (as_millis (na_duration n)) = duration_of (length frames) shape"
    using normalize_Ok [OF n limit exact] by (metis option.simps(4))
  have ms: "mp3_duration_ms (na_bytes n) = Ok (duration_of (length frames) shape)"
    using mp3_duration_ms_complete [OF v] size(2) by simp
  have "4 * length frames \<le> length (na_bytes n)" "frames \<noteq> []"
    using v frames_length [of frames shape] by (auto simp: valid_mp3_def simp del: length_concat)
  then have "na_bytes n \<noteq> []" by auto
  moreover have "exact = None \<longrightarrow> MediaDuration (of_nat (duration_of (length frames) shape)) = na_duration n"
    using d by (metis media_duration.collapse of_nat_unat ucast_id)
  ultimately show ?thesis
    using normalize_mp3_passes [OF ms, of N rid' v] size input plain by auto
qed

section \<open>Examples\<close>

text \<open>
  One second of silence as raw samples; an FFmpeg that always writes the example file.
\<close>

definition ax_specification :: pcm_specification where
  "ax_specification = \<lparr>sample_rate_hz = 24000, channels = 1, bits_per_sample = 16\<rparr>"

definition ax_artifact :: audio_artifact where
  "ax_artifact = \<lparr>artifact_format = LinearPcm ax_specification, artifact_bytes = replicate 2304 (CHR 0x00)\<rparr>"

definition ax_ffmpeg :: "unit ffmpeg_normalizer" where
  "ax_ffmpeg = \<lparr>fn_config = audio_normalizer_config_new,
     fn_run = (\<lambda>_ _. State_Monad.return (Finished True (Some mx_file) (Some True)))\<rparr>"

definition ax_audio :: normalized_audio where
  "ax_audio = \<lparr>na_bytes = mx_file, na_duration = MediaDuration 48\<rparr>"

lemma ax_normalized: "run_state (normalize_to_mp3 ax_ffmpeg ax_artifact ax_rid) () = (Ok ax_audio, ())"
proof -
  have "fixed_ffmpeg_command (pcm_media_type ax_specification) 128 \<noteq> Err e" for e
    using raw_pcm_specification_of_media_type [of ax_specification]
    by (simp add: ax_specification_def fixed_ffmpeg_command_def)
  then obtain arguments where arguments: "fixed_ffmpeg_command (pcm_media_type ax_specification) 128 = Ok arguments"
    by (cases "fixed_ffmpeg_command (pcm_media_type ax_specification) 128") auto
  have "pcm_duration_ms 2304 24000 1 16 = Ok 48" by code_simp
  moreover have "length mx_file = 73" "mx_file \<noteq> []" using mx_file_duration(2) by auto
  moreover from this have "normalized_audio_new mx_file (MediaDuration 48) = Ok ax_audio"
    by (simp add: normalized_audio_new_Ok_iff ax_audio_def)
  ultimately show ?thesis
    using arguments mx_file_duration
    by (simp add: normalize_to_mp3_def normalize_def run_ffmpeg_def read_bounded_def validate_input_size_def
        ax_ffmpeg_def ax_artifact_def audio_normalizer_config_new_def u64_max_def ax_specification_def
        run_simps)
qed

lemma ax_limits: "max_output_bytes (fn_config ax_ffmpeg) < u64_max" "artifact_wf ax_artifact"
    "max_output_bytes (fn_config ax_ffmpeg) \<le> max_input_bytes (fn_config ax_ffmpeg)"
  by (simp_all add: ax_ffmpeg_def audio_normalizer_config_new_def u64_max_def artifact_wf_def ax_artifact_def
      ax_specification_def pcm_specification_new_def)

theorem normalized_audio_is_valid_mp3_witness:
  "\<exists>tag frames trailer shape. valid_mp3 (na_bytes ax_audio) tag frames trailer shape"
  using normalized_audio_is_valid_mp3 [OF ax_normalized ax_limits(1,2)] by blast

theorem normalizing_again_changes_nothing_witness:
  "\<exists>d. run_state (normalize_to_mp3 ax_ffmpeg
      \<lparr>artifact_format = provider_audio_format.Mp3, artifact_bytes = na_bytes ax_audio\<rparr> (RequestId 1)) () =
        (Ok \<lparr>na_bytes = na_bytes ax_audio, na_duration = d\<rparr>, ())"
  using normalizing_again_changes_nothing [OF ax_normalized ax_limits(1,3)] by blast

end
