(* ===== verification/Provider_Properties.thy ===== *)
theory Provider_Properties
  imports Provider_Calls Audio_Properties
begin

text \<open>
  What the adapters promise: how many requests they send and where to, what their failures reveal, and
  what the audio they answer is.
\<close>

section \<open>Failures\<close>

text \<open>The reasons a failure may carry: the codes of the taxonomy and a missing key.\<close>

definition safe_reasons :: "string set" where
  "safe_reasons = {''quota_exceeded'', ''rate_limited'', ''invalid_api_key'', ''model_not_found'', ''voice_not_found'',
     ''content_blocked'', ''missing_permissions'', ''key_not_configured''}"

definition plain :: "adapter_error \<Rightarrow> bool" where
  "plain e \<longleftrightarrow> (\<forall>reason. ae_reason e = Some reason \<longrightarrow> reason \<in> safe_reasons)"

definition ends :: "('w, 'a) state \<Rightarrow> ('a \<Rightarrow> bool) \<Rightarrow> bool" where
  "ends m Q \<longleftrightarrow> (\<forall>s r s'. run_state m s = (r, s') \<longrightarrow> Q r)"

abbreviation fails_plainly :: "('w, ('a, adapter_error) result) state \<Rightarrow> bool" where
  "fails_plainly m \<equiv> ends m (\<lambda>r. \<forall>e. r = Err e \<longrightarrow> plain e)"

lemma ends_bind: "ends m R \<Longrightarrow> (\<And>x. R x \<Longrightarrow> ends (f x) Q) \<Longrightarrow> ends (State_Monad.bind m f) Q"
  unfolding ends_def by (simp add: run_simps split: prod.splits) blast

lemma ends_after: "(\<And>x. ends (f x) Q) \<Longrightarrow> ends (State_Monad.bind m f) Q"
  by (auto simp: ends_def run_simps split: prod.splits)

lemma ends_return: "Q x \<Longrightarrow> ends (State_Monad.return x) Q"
  by (simp add: ends_def run_simps)

lemma ends_throw: "Q (Err e) \<Longrightarrow> ends (throw e) Q"
  by (simp add: ends_def run_simps)

lemma ends_done_with: "Q (Ok x) \<Longrightarrow> ends (done_with x) Q"
  by (simp add: ends_def run_simps)

lemma ends_lift: "Q r \<Longrightarrow> ends (lift_result r) Q"
  by (simp add: ends_def run_simps)

lemma ends_if: "(b \<Longrightarrow> ends m Q) \<Longrightarrow> (\<not> b \<Longrightarrow> ends m' Q) \<Longrightarrow> ends (if b then m else m') Q"
  by simp

lemma plainly_try: "fails_plainly m \<Longrightarrow> (\<And>x. fails_plainly (f x)) \<Longrightarrow> fails_plainly (try_call m f)"
  by (fastforce simp: ends_def run_simps split: prod.splits sum.splits)

lemma plain_new [simp]: "plain (adapter_error_new k)" "plain invalid_response" "plain (classify_status status)"
    "plain (classify_reqwest_error t)"
  by (simp_all add: plain_def adapter_error_new_def invalid_response_def classify_status_def classify_reqwest_error_def)

lemma known_reason_safe: "known_reason code = Some reason \<Longrightarrow> reason \<in> safe_reasons"
  by (auto simp: known_reason_def safe_reasons_def split: if_splits)

lemma map_filter_known: "List.map_filter known_reason codes = reason # rest \<Longrightarrow> reason \<in> safe_reasons"
proof -
  assume "List.map_filter known_reason codes = reason # rest"
  then have "reason \<in> set (List.map_filter known_reason codes)" by simp
  then show ?thesis using known_reason_safe by (auto simp: List.map_filter_def)
qed

lemma plain_error_reason [simp]: "plain (e\<lparr>ae_reason := safe_error_reason C body\<rparr>)"
proof -
  have "reason \<in> safe_reasons" if reason: "safe_error_reason C body = Some reason" for reason
  proof -
    obtain v where "(case List.map_filter known_reason (reason_codes v) of r # _ \<Rightarrow> Some r | [] \<Rightarrow> None) = Some reason"
      using reason unfolding safe_error_reason_def Option.bind_eq_Some_conv by blast
    then show ?thesis
      by (cases "List.map_filter known_reason (reason_codes v)") (auto dest: map_filter_known)
  qed
  then show ?thesis by (simp add: plain_def)
qed

text \<open>A result whose error is plain.\<close>

abbreviation plainly :: "('a, adapter_error) result \<Rightarrow> bool" where
  "plainly r \<equiv> \<forall>e. r = Err e \<longrightarrow> plain e"

lemma plainly_and_then: "plainly r \<Longrightarrow> (\<And>x. plainly (f x)) \<Longrightarrow> plainly (and_then r f)"
  by (cases r) auto

lemma plainly_ok_or: "plain e \<Longrightarrow> plainly (ok_or x e)"
  by (cases x) auto

lemma plainly_map_err: "plain e \<Longrightarrow> plainly (map_err (\<lambda>_. e) r)"
  by (cases r) auto

lemma plainly_map_ok: "plainly r \<Longrightarrow> plainly (map_ok f r)"
  by (cases r) auto

lemma plainly_if: "plainly r \<Longrightarrow> plainly r' \<Longrightarrow> plainly (if b then r else r')"
  by simp

lemma plainly_Err: "plain e \<Longrightarrow> plainly (Err e)" and plainly_Ok: "plainly (Ok x)"
  by simp_all

lemmas plainly_intros = plainly_and_then plainly_ok_or plainly_map_err plainly_map_ok plainly_if plainly_Err plainly_Ok

lemma plainly_urls: "plainly (endpoint_url R e)" "plainly (speech_url P v)" "plainly (upload_url_of R start)"
  unfolding endpoint_url_def speech_url_def upload_url_of_def Let_def
  by (intro plainly_intros; simp)+

lemma plainly_artifact: "plainly (audio_artifact_of bs m)"
  unfolding audio_artifact_of_def Let_def by (intro plainly_intros; simp)

lemma plainly_results:
  "plainly (mp3_response_artifact response)" "plainly (transcription_result t l d)" "plainly (open_ai_result ot)"
  "plainly (parse_completed_interaction C b)"  "plainly (validate_file f)"
  unfolding mp3_response_artifact_def transcription_result_def open_ai_result_def parse_completed_interaction_def
    validate_file_def
  by (intro plainly_intros plainly_artifact; simp)+

lemma plainly_deepgram: "plainly (deepgram_result r)"
  unfolding deepgram_result_def by (auto simp: plainly_results(2) split: list.splits)

lemma plainly_gemini: "plainly (gemini_audio R b)" "plainly (gemini_transcript C b)"
  unfolding gemini_audio_def gemini_transcript_def
  by (intro plainly_intros plainly_artifact plainly_results; simp)+

text \<open>The exchange: an attempt, and an operation with its retry.\<close>

lemma ends_trivially: "ends m (\<lambda>_. True)"
  by (simp add: ends_def)

lemma read_chunks_Cons:
  "read_chunks limit sofar (c # chunks) =
     (case c of Err timed_out \<Rightarrow> Err (classify_reqwest_error timed_out)
      | Ok chunk \<Rightarrow>
          if length sofar + length chunk \<le> u64_max \<and> length sofar + length chunk \<le> limit
          then read_chunks limit (sofar @ chunk) chunks else Err invalid_response)"
  by (cases c) auto

lemma plainly_read_chunks: "plainly (read_chunks limit sofar chunks)"
  by (induction chunks arbitrary: sofar rule: list.induct) (auto split: sum.splits simp: read_chunks_Cons)

lemma plainly_body: "plainly (read_response_body response limit)"
  unfolding read_response_body_def by (intro plainly_if plainly_Err plainly_read_chunks) simp

definition fails_attempt_plainly :: "(bounded_response, attempt_failure) result \<Rightarrow> bool" where
  "fails_attempt_plainly r \<longleftrightarrow> (case r of Err (AttemptFailure e _) \<Rightarrow> plain e | _ \<Rightarrow> True)"

lemma fails_attempt_plainly_simps [simp]:
  "fails_attempt_plainly (Err (AttemptFailure e wait)) = plain e" "fails_attempt_plainly (Err DeadlinePassed)"
  "fails_attempt_plainly (Ok response)"
  by (simp_all add: fails_attempt_plainly_def)

lemma execute_once_plain: "ends (execute_once R q) fails_attempt_plainly"
  unfolding execute_once_def
proof (rule ends_after)
  fix e :: exchange
  show "ends (case e of Cut \<Rightarrow> throw DeadlinePassed
     | SendTimedOut \<Rightarrow> throw (AttemptFailure (classify_reqwest_error True) None)
     | SendFailed \<Rightarrow> throw (AttemptFailure (classify_reqwest_error False) None)
     | Responded response \<Rightarrow>
         if \<not> (200 \<le> rs_status response \<and> rs_status response < 300) then
           State_Monad.bind (retry_after R (rs_headers response)) (\<lambda>wait.
           throw (AttemptFailure
             (case read_response_body response (16 * 1024) of
                Ok body \<Rightarrow> (classify_status (rs_status response))\<lparr>ae_reason := safe_error_reason (pr_crates R) body\<rparr>
              | Err _ \<Rightarrow> classify_status (rs_status response)) wait))
         else lift_result (case read_response_body response (pr_max_response_bytes R) of
             Ok body \<Rightarrow> Ok \<lparr>br_headers = rs_headers response, br_body = body\<rparr>
           | Err e \<Rightarrow> Err (AttemptFailure e None))) fails_attempt_plainly"
    using plainly_body
    by (cases e) (auto intro!: ends_throw ends_after ends_lift split: sum.splits)
qed

lemma attempt_cases:
  obtains (Done) response where "r = Ok response" | (Late) "r = Err DeadlinePassed"
    | (Failed) e wait where "r = Err (AttemptFailure e wait)"
  by (metis attempt_failure.exhaust sum.exhaust)

lemma execute_loop_plain: "ends (execute_loop R deadline (Ok q) consumed) (\<lambda>r. plainly (fst r))"
proof -
  have step: "ends (execute_loop R deadline (Ok q) c) (\<lambda>r. plainly (fst r))"
    if again: "\<not> c \<Longrightarrow> ends (execute_loop R deadline (Ok q) True) (\<lambda>r. plainly (fst r))" for c
  proof (subst execute_loop_step, rule ends_bind [OF execute_once_plain], goal_cases)
    case (1 r)
    then show ?case
    proof (cases r rule: attempt_cases)
      case (Failed e wait)
      with 1 have "plain e" by simp
      then show ?thesis
        unfolding Failed sum.case attempt_failure.case
        by (cases "pr_retry R"; simp only: transient_retry.case)
          (intro ends_if ends_after ends_return again; simp)+
    qed (auto intro!: ends_return)
  qed
  show ?thesis by (rule step, rule step) simp
qed

lemma operations_plain:
  "ends (execute_with_retry_budget R consumed (Ok q)) (\<lambda>r. plainly (fst r))"
  "fails_plainly (execute_retrying R (Ok q))" "fails_plainly (execute_without_retry R (Ok q))"
proof -
  show budget: "ends (execute_with_retry_budget R consumed (Ok q)) (\<lambda>r. plainly (fst r))" for consumed
    unfolding execute_with_retry_budget_def by (intro ends_after execute_loop_plain)
  show "fails_plainly (execute_retrying R (Ok q))"
    unfolding execute_retrying_def by (rule ends_bind [OF budget]) (auto intro: ends_return split: prod.splits)
  show "fails_plainly (execute_without_retry R (Ok q))"
  proof -
    have "plainly (map_err (\<lambda>e. case e of DeadlinePassed \<Rightarrow> adapter_error_new provider_error_kind.Timeout
        | AttemptFailure e _ \<Rightarrow> e) r)" if "fails_attempt_plainly r" for r
      using that by (cases r rule: attempt_cases) auto
    then show ?thesis
      using execute_once_plain [of R q]
      unfolding ends_def by (simp add: execute_without_retry_def run_simps split: prod.splits) blast
  qed
qed

lemma permit_plain: "fails_plainly m \<Longrightarrow> fails_plainly (with_permit R m)"
  unfolding with_permit_def
  by (intro ends_if ends_throw ends_after ends_bind [of m "\<lambda>r. \<forall>e. r = Err e \<longrightarrow> plain e"] ends_return)
    (auto simp: plain_def safe_reasons_def adapter_error_new_def)

lemma lift_plain: "plainly r \<Longrightarrow> fails_plainly (lift_result r)"
  by (rule ends_lift)

lemma try_lift_plain: "plainly r \<Longrightarrow> (\<And>x. fails_plainly (f x)) \<Longrightarrow> fails_plainly (try_call (lift_result r) f)"
  by (intro plainly_try lift_plain)

lemma adapters_plain:
  "fails_plainly (open_ai_synthesize_audio OP text voice oa)"
  "fails_plainly (open_ai_transcribe_media OP request)"
  "fails_plainly (eleven_labs_synthesize_audio EP text evoice el)"
  "fails_plainly (deepgram_transcribe_media DP request)"
  "fails_plainly (gemini_synthesize_audio GP text lang gvoice gm)"
  unfolding open_ai_synthesize_audio_def open_ai_transcribe_media_def eleven_labs_synthesize_audio_def
    deepgram_transcribe_media_def gemini_synthesize_audio_def Let_def
  by (intro permit_plain try_lift_plain plainly_try operations_plain lift_plain plainly_urls plainly_results
      plainly_and_then plainly_ok_or plainly_deepgram plainly_gemini ends_if ends_throw allI impI; simp)+

lemma wait_until_active_plain: "ends (wait_until_active P polls f consumed) (\<lambda>r. plainly (fst r))"
proof (induction polls arbitrary: f consumed)
  case 0
  show ?case
    by (subst wait_until_active_step) (intro ends_if ends_after ends_return; simp add: ends_return)
next
  case (Suc polls)
  let ?R = "gp_stt_runtime P"
  have rest: "ends (case g r of Err e \<Rightarrow> State_Monad.return (Err e, c) | Ok f' \<Rightarrow> wait_until_active P polls f' c)
      (\<lambda>r. plainly (fst r))" if "plainly (g r)" for g and r :: "(bounded_response, adapter_error) result" and c
    using that by (cases "g r") (auto intro!: ends_return Suc.IH)
  have "plainly (and_then r (\<lambda>response. and_then
      (ok_or (Option.bind (hc_json (pr_crates ?R) (br_body response)) read_gemini_file) invalid_response)
      (\<lambda>f. and_then (validate_file f) (\<lambda>_. Ok f))))" if "plainly r" for r
    using that by (intro plainly_intros plainly_results) simp_all
  note rest' = rest [OF this]
  have after: "ends (case endpoint_url ?R e of Err e \<Rightarrow> State_Monad.return (Err e, consumed)
      | Ok url \<Rightarrow> State_Monad.bind (execute_with_retry_budget ?R consumed (Ok (q url))) (\<lambda>y.
          case and_then (fst y) (\<lambda>response. and_then
              (ok_or (Option.bind (hc_json (pr_crates ?R) (br_body response)) read_gemini_file) invalid_response)
              (\<lambda>f. and_then (validate_file f) (\<lambda>_. Ok f))) of
            Err e \<Rightarrow> State_Monad.return (Err e, snd y)
          | Ok f' \<Rightarrow> wait_until_active P polls f' (snd y))) (\<lambda>r. plainly (fst r))" for e q
    using plainly_urls(1) [of ?R e]
    by (cases "endpoint_url ?R e") (auto intro!: ends_return ends_bind [OF operations_plain(1)] rest')
  show ?case
    by (subst wait_until_active_step, unfold nat.case split_beta)
      (intro ends_if ends_after after; simp add: ends_return)
qed

lemma gemini_transcription_plain:
  "fails_plainly (upload_file P request)" "fails_plainly (transcribe_file P f language consumed)"
  "fails_plainly (gemini_transcribe_media P request)"
proof -
  show upload: "fails_plainly (upload_file P request)"
    unfolding upload_file_def Let_def
    by (intro try_lift_plain plainly_try operations_plain lift_plain plainly_urls plainly_results plainly_intros; simp)
  have result: "fails_plainly (State_Monad.return (and_then r (\<lambda>response. gemini_transcript C (br_body response))))"
    if "plainly r" for r C
    using that by (intro ends_return plainly_intros plainly_gemini)
  show transcribe: "fails_plainly (transcribe_file P f language consumed)" for f language consumed
    unfolding transcribe_file_def Let_def split_beta
    by (intro try_lift_plain plainly_urls ends_bind [OF operations_plain(1)] result)
  have active: "fails_plainly (case fst y of Err e \<Rightarrow> throw e | Ok a \<Rightarrow> transcribe_file P a language (snd y))"
    if "plainly (fst y)" for y language
    using that by (cases "fst y") (auto intro!: ends_throw transcribe)
  show "fails_plainly (gemini_transcribe_media P request)"
    unfolding gemini_transcribe_media_def Let_def split_beta
    by (rule permit_plain, rule ends_after, rule plainly_try [OF upload], rule ends_bind [OF wait_until_active_plain],
        rule ends_bind [OF active], assumption, rule ends_after, rule ends_return, assumption)
qed

lemma mapped_plain:
  assumes "fails_plainly m" "run_state (on_err (map_provider_error provider) m) w = (Err e, w')"
  shows "pe_provider e = provider \<and> (\<forall>reason. pe_reason e = Some reason \<longrightarrow> reason \<in> safe_reasons)"
proof -
  obtain a where a: "run_state m w = (Err a, w')" "e = map_provider_error provider a"
    using assms(2) by (auto simp: run_simps map_err_Err_iff split: prod.splits)
  then have "plain a" using assms(1) unfolding ends_def by blast
  then show ?thesis using a(2) by (simp add: map_provider_error_def plain_def)
qed

section \<open>The audio they answer\<close>

lemma mp3_response_valid:
  assumes "mp3_response_artifact response = Ok artifact"
  obtains tag frames trailer shape where "artifact_format artifact = provider_audio_format.Mp3"
    "artifact_bytes artifact = br_body response" "valid_mp3 (br_body response) tag frames trailer shape"
proof -
  have mp3: "hd (split_on CHR '';'' ''audio/mpeg'') = ''audio/mpeg''"
    "eq_ignore_ascii_case (str_trim ''audio/mpeg'') ''audio/mpeg''" by code_simp+
  obtain content_type where valid: "validate_mp3_bytes (br_body response)"
    and artifact: "audio_artifact_of (br_body response) ''audio/mpeg'' = Ok artifact"
    using assms by (auto simp: mp3_response_artifact_def elim!: result_elims split: if_splits)
  then have "artifact_format artifact = provider_audio_format.Mp3" "artifact_bytes artifact = br_body response"
    by (auto simp: audio_artifact_of_def audio_artifact_new_def Let_def mp3 elim!: result_elims split: if_splits)
  moreover obtain ms where "mp3_duration_ms (br_body response) = Ok ms"
    using valid by (cases "mp3_duration_ms (br_body response)") (auto simp: validate_mp3_bytes_def)
  ultimately show thesis using that mp3_duration_ms_sound by metis
qed

section \<open>Properties\<close>

text \<open>
  A failure of an adapter names its provider, and its reason is one of eight fixed codes or none:
  whatever a provider answers, nothing else of it is repeated.
\<close>

theorem provider_failures_reveal_nothing:
  assumes "provider = provider_name.OpenAi \<and> run_state (open_ai_synthesize OA tts rid) w = (Err e, w') \<or>
    provider = provider_name.OpenAi \<and> run_state (open_ai_transcribe OA stt rid) w = (Err e, w') \<or>
    provider = provider_name.ElevenLabs \<and> run_state (eleven_labs_synthesize EL tts rid) w = (Err e, w') \<or>
    provider = provider_name.Deepgram \<and> run_state (deepgram_transcribe DG stt rid) w = (Err e, w') \<or>
    provider = provider_name.Gemini \<and> run_state (gemini_synthesize GM tts rid) w = (Err e, w') \<or>
    provider = provider_name.Gemini \<and> run_state (gemini_transcribe GM stt rid) w = (Err e, w')"
  shows "pe_provider e = provider \<and> (\<forall>reason. pe_reason e = Some reason \<longrightarrow>
    reason \<in> {''quota_exceeded'', ''rate_limited'', ''invalid_api_key'', ''model_not_found'', ''voice_not_found'',
      ''content_blocked'', ''missing_permissions'', ''key_not_configured''})"
  using assms
  unfolding open_ai_synthesize_def open_ai_transcribe_def eleven_labs_synthesize_def deepgram_transcribe_def
    gemini_synthesize_def gemini_transcribe_def
  apply (elim disjE conjE)
  by (hypsubst, erule mapped_plain [rotated, unfolded safe_reasons_def], rule adapters_plain gemini_transcription_plain)+

definition requests_of :: "('w logged, 'a) state \<Rightarrow> 'w \<Rightarrow> http_request list" where
  "requests_of m w = snd (snd (run_state m (w, [])))"

lemma sends_requests:
  assumes "sends m P (\<lambda>_. n)"
  shows "length (requests_of m w) \<le> n \<and> (\<forall>q \<in> set (requests_of m w). P q)"
proof -
  obtain r w' log where "run_state m (w, []) = (r, (w', log))" by (metis prod.exhaust)
  then show ?thesis using assms by (fastforce simp: sends_def requests_of_def)
qed

text \<open>
  C13: a speech generation is paid for once: no adapter ever sends a second request for one. The request
  goes to the origin of the provider's configured base URL, and its key headers hold this key alone.
\<close>

theorem speech_is_one_request:
  assumes "\<forall>R \<in> {op_tts_runtime OA, ep_runtime EL, gp_tts_runtime GM}. keeps_origin (pr_crates R)"
  shows "length (requests_of (open_ai_synthesize (open_ai_logging OA) tts rid) w) \<le> 1 \<and>
    (\<forall>q \<in> set (requests_of (open_ai_synthesize (open_ai_logging OA) tts rid) w). own_request (op_tts_runtime OA) q) \<and>
    length (requests_of (eleven_labs_synthesize (eleven_labs_logging EL) tts rid) w) \<le> 1 \<and>
    (\<forall>q \<in> set (requests_of (eleven_labs_synthesize (eleven_labs_logging EL) tts rid) w). own_request (ep_runtime EL) q) \<and>
    length (requests_of (gemini_synthesize (gemini_logging GM) tts rid) w) \<le> 1 \<and>
    (\<forall>q \<in> set (requests_of (gemini_synthesize (gemini_logging GM) tts rid) w). own_request (gp_tts_runtime GM) q)"
  using assms
    sends_requests [OF sends_open_ai_synthesize [of OA tts rid]]
    sends_requests [OF sends_eleven_labs_synthesize [of EL tts rid]]
    sends_requests [OF sends_gemini_synthesize [of GM tts rid]] by blast


lemma open_ai_audio:
  assumes "run_state (open_ai_synthesize P tts rid) w = (Ok artifact, w')"
  shows "\<exists>response. mp3_response_artifact response = Ok artifact"
  using assms by (fastforce simp: open_ai_synthesize_def open_ai_synthesize_audio_def with_permit_def Let_def run_simps
      map_err_Ok_iff split: if_splits prod.splits sum.splits)

lemma eleven_labs_audio:
  assumes "run_state (eleven_labs_synthesize P tts rid) w = (Ok artifact, w')"
  shows "\<exists>response. mp3_response_artifact response = Ok artifact"
  using assms by (fastforce simp: eleven_labs_synthesize_def eleven_labs_synthesize_audio_def with_permit_def Let_def
      run_simps map_err_Ok_iff split: if_splits prod.splits sum.splits)

text \<open>
  What OpenAI or ElevenLabs answered as speech is a whole valid MP3, so a normalizer that takes
  its size answers it byte for byte, without running FFmpeg.
\<close>

theorem synthesized_mp3_passes_unchanged:
  assumes audio: "run_state (open_ai_synthesize OA tts rid) w = (Ok artifact, w') \<or>
      run_state (eleven_labs_synthesize EL tts rid) w = (Ok artifact, w')"
    and fits: "length (artifact_bytes artifact) \<le> max_input_bytes (fn_config N)"
      "length (artifact_bytes artifact) \<le> max_output_bytes (fn_config N)"
  shows "\<exists>tag frames trailer shape. valid_mp3 (artifact_bytes artifact) tag frames trailer shape \<and>
    run_state (normalize_to_mp3 N artifact rid') v =
      (Ok \<lparr>na_bytes = artifact_bytes artifact,
           na_duration = MediaDuration (of_nat (duration_of (length frames) shape))\<rparr>, v)"
proof -
  from audio have "\<exists>response. mp3_response_artifact response = Ok artifact"
    by (elim disjE open_ai_audio eleven_labs_audio)
  then obtain response where response: "mp3_response_artifact response = Ok artifact" by blast
  then obtain tag frames trailer shape where mp3: "artifact_format artifact = provider_audio_format.Mp3"
    "valid_mp3 (artifact_bytes artifact) tag frames trailer shape"
    by (metis mp3_response_valid)
  have size: "artifact_bytes artifact \<noteq> []" "length (artifact_bytes artifact) \<le> 26214400"
    using response by (auto simp: mp3_response_artifact_def audio_artifact_of_def audio_artifact_new_Ok_iff Let_def
        elim!: result_elims split: if_splits)
  have "mp3_duration_ms (artifact_bytes artifact) = Ok (duration_of (length frames) shape)"
    using mp3_duration_ms_complete [OF mp3(2)] size(2) by simp
  from normalize_mp3_passes [OF this size(1) fits size(2), of rid' v] mp3 show ?thesis
    by (intro exI [of _ tag] exI [of _ frames] exI [of _ trailer] exI [of _ shape])
      (metis audio_artifact.surjective old.unit.exhaust)
qed

section \<open>Examples\<close>

text \<open>
  A client that always gets the same exchange, with crates that work on paths as strings and read every
  body as one error.
\<close>

definition px_url :: url where
  "px_url = \<lparr>url_scheme = ''https'', url_username = [], url_password = None, url_host = Some (Domain ''api.example''),
     url_port = None, url_path = ''/v1'', url_query = None, url_fragment = None\<rparr>"

definition px_crates :: http_crates where
  "px_crates =
     \<lparr>hc_url_parse = (\<lambda>_. None), hc_path_segments = (\<lambda>u. Some (split_on CHR ''/'' (url_path u))),
      hc_with_segments = (\<lambda>u segments. u\<lparr>url_path := concat (map ((#) CHR ''/'') segments)\<rparr>),
      hc_push_segment = (\<lambda>u s. Some (u\<lparr>url_path := url_path u @ CHR ''/'' # s\<rparr>)),
      hc_append_query = (\<lambda>u pairs. u\<lparr>url_query := Some (concat (map (\<lambda>(k, v). k @ CHR ''='' # v) pairs))\<rparr>),
      hc_json = (\<lambda>_. Some (JObject [(''error'', JObject [(''code'', JString ''insufficient_quota''),
        (''message'', JString ''the account of 4242 is empty'')])])),
      hc_rfc2822 = (\<lambda>_. None), hc_base64_decode = (\<lambda>_. None), hc_mime_ok = (\<lambda>_. True)\<rparr>"

definition px_runtime :: "exchange \<Rightarrow> unit provider_runtime" where
  "px_runtime e =
     \<lparr>pr_api_key = ''key'', pr_base_url = px_url, pr_timeout = secs 30, pr_max_response_bytes = 26214400,
      pr_retry = Once PROVIDER_RETRY_BASE_DELAY, pr_crates = px_crates, pr_send = (\<lambda>_. State_Monad.return e),
      pr_now = State_Monad.return 0, pr_now_utc = State_Monad.return 0, pr_sleep = (\<lambda>_. State_Monad.return False),
      pr_jitter_millis = (\<lambda>_. State_Monad.return 7), pr_acquire = State_Monad.return True,
      pr_release = State_Monad.return ()\<rparr>"

definition px_open_ai :: "exchange \<Rightarrow> unit open_ai_provider" where
  "px_open_ai e = \<lparr>op_tts_runtime = px_runtime e, op_stt_runtime = px_runtime e, op_tts_model = OPENAI_TTS_MODEL,
     op_stt_model = OPENAI_STT_MODEL, op_voice = ''alloy''\<rparr>"

definition px_eleven_labs :: "exchange \<Rightarrow> unit eleven_labs_provider" where
  "px_eleven_labs e = \<lparr>ep_runtime = px_runtime e, ep_model = ELEVENLABS_MODEL, ep_voice_id = ''voice'',
     ep_enable_logging = False\<rparr>"

definition px_deepgram :: "exchange \<Rightarrow> unit deepgram_provider" where
  "px_deepgram e = \<lparr>dp_runtime = px_runtime e, dp_model = DEEPGRAM_MODEL, dp_mip_opt_out = True\<rparr>"

definition px_gemini :: "exchange \<Rightarrow> unit gemini_provider" where
  "px_gemini e = \<lparr>gp_tts_runtime = px_runtime e, gp_stt_runtime = px_runtime e, gp_tts_model = GEMINI_TTS_MODEL,
     gp_stt_model = GEMINI_STT_MODEL, gp_voice = ''Kore'', gp_spawn_cleanup = (\<lambda>_. State_Monad.return ())\<rparr>"

definition px_speech :: tts_provider_request where
  "px_speech = \<lparr>tp_fixture_voice = None,
     tp_options = \<lparr>po_gemini = None, po_elevenlabs = None, po_openai = None\<rparr>,
     tp_text = SpeechText ''hello'', tp_voice = None, tp_language = None\<rparr>"

definition px_media :: stt_provider_request where
  "px_media = \<lparr>sp_media = \<lparr>sm_media_type = source_media_type.Mpeg, sm_bytes = mx_file\<rparr>, sp_language = None\<rparr>"

definition px_no_quota :: exchange where
  "px_no_quota = Responded \<lparr>rs_status = 429, rs_headers = [], rs_content_length = None, rs_chunks = [Ok ''{}'']\<rparr>"

definition px_spoken :: exchange where
  "px_spoken = Responded \<lparr>rs_status = 200, rs_headers = [(''content-type'', ''audio/mpeg'')],
     rs_content_length = Some 73, rs_chunks = [Ok mx_file]\<rparr>"

lemma px_keeps_origin: "keeps_origin px_crates"
  by (auto simp: keeps_origin_def px_crates_def same_origin_def known_port_def)

lemma px_runtime_simps [simp]:
  "pr_api_key (px_runtime e) = ''key''" "pr_base_url (px_runtime e) = px_url" "pr_timeout (px_runtime e) = secs 30"
  "pr_max_response_bytes (px_runtime e) = 26214400" "pr_retry (px_runtime e) = Once PROVIDER_RETRY_BASE_DELAY"
  "pr_crates (px_runtime e) = px_crates" "pr_send (px_runtime e) q = State_Monad.return e"
  "pr_now (px_runtime e) = State_Monad.return 0" "pr_now_utc (px_runtime e) = State_Monad.return 0"
  "pr_sleep (px_runtime e) d = State_Monad.return False" "pr_jitter_millis (px_runtime e) n = State_Monad.return 7"
  "pr_acquire (px_runtime e) = State_Monad.return True" "pr_release (px_runtime e) = State_Monad.return ()"
  by (simp_all add: px_runtime_def)

lemma px_endpoint: "\<exists>u. endpoint_url (px_runtime e) ''v1/audio/speech'' = Ok u"
proof -
  have "filter (\<lambda>s. s \<noteq> []) (split_on CHR ''/'' ''v1/audio/speech'') = [''v1'', ''audio'', ''speech'']" by code_simp
  then show ?thesis by (simp add: endpoint_url_def px_crates_def Let_def)
qed

lemma px_refusal: "run_state (open_ai_synthesize (px_open_ai px_no_quota) px_speech rid) () =
    (Err \<lparr>pe_status = Some 429, pe_reason = Some ''quota_exceeded'', pe_provider = provider_name.OpenAi,
          pe_kind = provider_failure_kind.RateLimited\<rparr>, ())"
proof -
  obtain u where u: "endpoint_url (px_runtime px_no_quota) ''v1/audio/speech'' = Ok u" using px_endpoint by blast
  have reason: "safe_error_reason px_crates ''{}'' = Some ''quota_exceeded''" by code_simp
  show ?thesis
    by (simp add: open_ai_synthesize_def open_ai_synthesize_audio_def px_open_ai_def px_speech_def Let_def u
        with_permit_def execute_without_retry_def execute_once_def run_simps)
      (simp add: px_no_quota_def run_simps read_response_body_def reason retry_after_def header_str_def
        u64_max_def classify_status_def map_provider_error_def)
qed

lemma px_answer: "run_state (open_ai_synthesize (px_open_ai px_spoken) px_speech rid) () =
    (Ok \<lparr>artifact_format = provider_audio_format.Mp3, artifact_bytes = mx_file\<rparr>, ())"
proof -
  obtain u where u: "endpoint_url (px_runtime px_spoken) ''v1/audio/speech'' = Ok u" using px_endpoint by blast
  have mp3: "mp3_response_artifact \<lparr>br_headers = [(''content-type'', ''audio/mpeg'')], br_body = mx_file\<rparr> =
    Ok \<lparr>artifact_format = provider_audio_format.Mp3, artifact_bytes = mx_file\<rparr>"
  proof -
    have "header_str [(''content-type'', ''audio/mpeg'')] ''content-type'' = Some ''audio/mpeg''"
      "hd (split_on CHR '';'' ''audio/mpeg'') = ''audio/mpeg''" "to_ascii_lowercase (str_trim ''audio/mpeg'') = ''audio/mpeg''"
      "eq_ignore_ascii_case (str_trim ''audio/mpeg'') ''audio/mpeg''" by code_simp+
    moreover have "mx_file \<noteq> []" using mx_file_duration(2) by auto
    ultimately show ?thesis
      by (simp add: mp3_response_artifact_def audio_artifact_of_def Let_def validate_mp3_bytes_def mx_file_duration
          audio_artifact_new_Ok_iff)
  qed
  show ?thesis
    by (simp add: open_ai_synthesize_def open_ai_synthesize_audio_def px_open_ai_def px_speech_def Let_def u
        with_permit_def execute_without_retry_def execute_once_def run_simps)
      (simp add: px_spoken_def run_simps read_response_body_def u64_max_def mx_file_duration mp3)
qed

theorem provider_failures_reveal_nothing_witness:
  "\<exists>e. run_state (open_ai_synthesize (px_open_ai px_no_quota) px_speech (RequestId 1)) () = (Err e, ()) \<and>
     pe_provider e = provider_name.OpenAi \<and> (\<forall>reason. pe_reason e = Some reason \<longrightarrow>
       reason \<in> {''quota_exceeded'', ''rate_limited'', ''invalid_api_key'', ''model_not_found'', ''voice_not_found'',
         ''content_blocked'', ''missing_permissions'', ''key_not_configured''})"
  using px_refusal [of "RequestId 1"]
    provider_failures_reveal_nothing [OF disjI1 [OF conjI [OF refl px_refusal [of "RequestId 1"]]]] by blast

theorem speech_is_one_request_witness:
  "length (requests_of (eleven_labs_synthesize (eleven_labs_logging (px_eleven_labs px_no_quota)) px_speech (RequestId 1)) ()) \<le> 1"
  using speech_is_one_request [of "px_open_ai px_no_quota" "px_eleven_labs px_no_quota" "px_gemini px_no_quota"]
  by (simp add: px_open_ai_def px_eleven_labs_def px_gemini_def px_keeps_origin)


theorem synthesized_mp3_passes_unchanged_witness:
  "\<exists>tag frames trailer shape. valid_mp3 mx_file tag frames trailer shape \<and>
    run_state (normalize_to_mp3 ax_ffmpeg
      \<lparr>artifact_format = provider_audio_format.Mp3, artifact_bytes = mx_file\<rparr> (RequestId 1)) () =
      (Ok \<lparr>na_bytes = mx_file, na_duration = MediaDuration (of_nat (duration_of (length frames) shape))\<rparr>, ())"
  using synthesized_mp3_passes_unchanged [OF disjI1, OF px_answer [of "RequestId 1"], of ax_ffmpeg "RequestId 1" "()"]
  by (simp add: mx_file_duration ax_ffmpeg_def audio_normalizer_config_new_def)

end
