(* ===== verification/Briefcase.thy ===== *)
theory Briefcase
  imports Exchange Ports Config
begin

text \<open>
  \<open>src/src/infrastructure/briefcase.rs\<close>: the Briefcase client. Requests and responses are those of the
  provider exchange: \<open>Cut\<close>, or a chunk \<open>Err True\<close>, is the deadline around the whole operation passing
  during the exchange. URLs, UUIDs, percent decoding, SHA-256 and JSON are crates.
\<close>

section \<open>The client\<close>

record briefcase_crates =
  bc_url :: url_crate
  bc_join :: "url \<Rightarrow> string \<Rightarrow> url option"
  bc_path_segments :: "url \<Rightarrow> string list option"
  bc_percent_decode :: "string \<Rightarrow> bytes"
  bc_uuid :: uuid_crate
  bc_sha256 :: "bytes \<Rightarrow> bytes"
  bc_json :: "bytes \<Rightarrow> json option"

definition MAX_PAGES :: nat where "MAX_PAGES = 100"
definition PAGE_SIZE :: nat where "PAGE_SIZE = 100"

datatype briefcase_build_error = InvalidUrl | HttpClient

record source_target =
  st_folder_id :: uuid
  st_folder_path :: string

record 'w briefcase_http =
  bh_api_root :: url
  bh_permanent_origin :: url
  bh_waveform_app_id :: string
  bh_app_folder :: string
  bh_timeout :: duration
  bh_download_timeout :: duration
  bh_max_download_bytes :: nat
  bh_crates :: briefcase_crates
  bh_send :: "http_request \<Rightarrow> duration \<Rightarrow> ('w, exchange) state"

text \<open>\<open>client\<close> is the HTTP client that was built, or none.\<close>

definition briefcase_http_new ::
    "briefcase_crates \<Rightarrow> (http_request \<Rightarrow> duration \<Rightarrow> ('w, exchange) state) option \<Rightarrow> briefcase_settings \<Rightarrow>
     string \<Rightarrow> ('w briefcase_http, briefcase_build_error) result" where
  "briefcase_http_new C client settings waveform_app_id =
     (let root = briefcase_base_url settings;
          permanent = briefcase_permanent_origin settings;
          path = trim_end_slashes (url_path root) in
      if url_scheme root \<notin> {''http'', ''https''} \<or> url_host root = None \<or> url_username root \<noteq> [] \<or>
        url_password root \<noteq> None then Err InvalidUrl
      else if url_scheme permanent \<notin> {''http'', ''https''} \<or> url_host permanent = None then Err InvalidUrl
      else and_then (ok_or client HttpClient) (\<lambda>send.
        Ok \<lparr>bh_api_root = url_set_path (bc_url C) root (if path = [] then ''/api/v1/'' else path @ ''/''),
            bh_permanent_origin = permanent, bh_waveform_app_id = waveform_app_id,
            bh_app_folder = briefcase_app_folder settings, bh_timeout = briefcase_timeout settings,
            bh_download_timeout = briefcase_download_timeout settings,
            bh_max_download_bytes = briefcase_max_download_bytes settings, bh_crates = C, bh_send = send\<rparr>))"

section \<open>Bodies\<close>

definition json_text :: "string option \<Rightarrow> json" where
  "json_text s = (case s of Some t \<Rightarrow> JString t | None \<Rightarrow> JNull)"

definition uuid_json :: "briefcase_crates \<Rightarrow> uuid \<Rightarrow> json" where
  "uuid_json C u = JString (uuid_text (bc_uuid C) u)"

definition reserve_body ::
    "briefcase_crates \<Rightarrow> uuid \<Rightarrow> string \<Rightarrow> string \<Rightarrow> bytes \<Rightarrow> json" where
  "reserve_body C operation_id parent_path name bs = JObject
     [(''operation_id'', uuid_json C operation_id), (''parent_path'', JString parent_path), (''name'', JString name),
      (''content_type'', JString ''audio/mpeg''), (''size'', JNumber (PosInt (length bs))),
      (''sha256'', JString (concat (map (\<lambda>c. hex_digits 2 (byte c)) (bc_sha256 C bs))))]"

definition commit_body :: "briefcase_crates \<Rightarrow> uuid \<Rightarrow> uuid \<Rightarrow> json" where
  "commit_body C operation_id upload_id = JObject
     [(''operation_id'', uuid_json C operation_id), (''upload_id'', uuid_json C upload_id)]"

definition list_body :: "string option \<Rightarrow> string option \<Rightarrow> nat \<Rightarrow> json" where
  "list_body path cursor limit = JObject
     [(''parent_id'', JNull), (''path'', json_text path), (''filter'', JNull), (''cursor'', json_text cursor),
      (''limit'', JNumber (PosInt limit))]"

definition read_body :: "briefcase_crates \<Rightarrow> uuid \<Rightarrow> bool \<Rightarrow> json" where
  "read_body C entry_id probe = JObject
     [(''entry_id'', uuid_json C entry_id), (''range'', if probe then JString ''bytes=0-0'' else JNull),
      (''download'', JBool False)]"

datatype upload_state = Reserved | Receiving | Staged | Committed | Other

record entry =
  en_id :: uuid
  en_kind :: string
  en_name :: string
  en_path :: string
  en_parent_id :: "uuid option"
  en_permanent_url :: "string option"
  en_content_type :: "string option"
  en_size :: "nat option"
  en_origin_app_id :: "string option"
  en_deleted_at :: "string option"

record upload_status =
  us_operation_id :: uuid
  us_upload_id :: uuid
  us_state :: upload_state
  us_published_entry_id :: "uuid option"
  us_capability :: "string option"
  us_entry :: "entry option"

record entry_page =
  pg_items :: "entry list"
  pg_folder :: "entry option"
  pg_next_cursor :: "string option"

definition is_folder :: "entry \<Rightarrow> bool" where
  "is_folder e \<longleftrightarrow> en_kind e = ''folder''"

definition is_live :: "entry \<Rightarrow> bool" where
  "is_live e \<longleftrightarrow> en_deleted_at e = None \<and> en_id e \<noteq> 0"

definition read_uuid :: "briefcase_crates \<Rightarrow> json \<Rightarrow> uuid option" where
  "read_uuid C v = Option.bind (as_str v) (uuid_parse (bc_uuid C))"

text \<open>A unit variant is its name, or an object of its name with \<open>null\<close>.\<close>

definition upload_state_named :: "string \<Rightarrow> upload_state" where
  "upload_state_named s =
     (if s = ''reserved'' then Reserved else if s = ''receiving'' then Receiving else if s = ''staged'' then Staged
      else if s = ''committed'' then Committed else Other)"

definition read_upload_state :: "json \<Rightarrow> upload_state option" where
  "read_upload_state v = (case v of
     JString s \<Rightarrow> Some (upload_state_named s)
   | JObject [(s, JNull)] \<Rightarrow> Some (upload_state_named s)
   | _ \<Rightarrow> None)"

definition read_entry :: "briefcase_crates \<Rightarrow> json \<Rightarrow> entry option" where
  "read_entry C v =
     Option.bind (required_field [''id''] (read_uuid C) v) (\<lambda>i.
     Option.bind (default_field [''type''] [] as_str v) (\<lambda>kind.
     Option.bind (default_field [''name''] [] as_str v) (\<lambda>name.
     Option.bind (default_field [''path''] [] as_str v) (\<lambda>path.
     Option.bind (optional_field [''parent_id''] (read_uuid C) v) (\<lambda>parent.
     Option.bind (optional_field [''permanent_url''] as_str v) (\<lambda>permanent.
     Option.bind (optional_field [''content_type''] as_str v) (\<lambda>content_type.
     Option.bind (optional_field [''size''] (read_uint u64_max) v) (\<lambda>len.
     Option.bind (optional_field [''origin_app_id''] as_str v) (\<lambda>app.
     Option.bind (optional_field [''deleted_at''] as_str v) (\<lambda>deleted.
     Some \<lparr>en_id = i, en_kind = kind, en_name = name, en_path = path, en_parent_id = parent,
           en_permanent_url = permanent, en_content_type = content_type, en_size = len,
           en_origin_app_id = app, en_deleted_at = deleted\<rparr>))))))))))"

definition read_upload_status :: "briefcase_crates \<Rightarrow> json \<Rightarrow> upload_status option" where
  "read_upload_status C v =
     Option.bind (required_field [''operation_id''] (read_uuid C) v) (\<lambda>operation.
     Option.bind (required_field [''upload_id''] (read_uuid C) v) (\<lambda>upload.
     Option.bind (required_field [''state''] read_upload_state v) (\<lambda>st.
     Option.bind (optional_field [''published_entry_id''] (read_uuid C) v) (\<lambda>published.
     Option.bind (optional_field [''capability''] as_str v) (\<lambda>capability.
     Option.bind (optional_field [''entry''] (read_entry C) v) (\<lambda>e.
     Some \<lparr>us_operation_id = operation, us_upload_id = upload, us_state = st,
           us_published_entry_id = published, us_capability = capability, us_entry = e\<rparr>))))))"

definition read_entry_page :: "briefcase_crates \<Rightarrow> json \<Rightarrow> entry_page option" where
  "read_entry_page C v =
     Option.bind (required_field [''items''] (read_vec (read_entry C)) v) (\<lambda>entries.
     Option.bind (optional_field [''folder''] (read_entry C) v) (\<lambda>folder.
     Option.bind (optional_field [''next_cursor''] as_str v) (\<lambda>cursor.
     Some \<lparr>pg_items = entries, pg_folder = folder, pg_next_cursor = cursor\<rparr>)))"

section \<open>Exchanges\<close>

definition endpoint :: "'w briefcase_http \<Rightarrow> string \<Rightarrow> (url, briefcase_error) result" where
  "endpoint B path = ok_or (bc_join (bh_crates B) (bh_api_root B) path) briefcase_error.InvalidResponse"

definition status_error :: "nat \<Rightarrow> bool \<Rightarrow> briefcase_error" where
  "status_error status upload_route =
     (if status = 401 then briefcase_error.Unauthorized
      else if status = 403 then briefcase_error.Forbidden
      else if status = 404 \<and> upload_route then briefcase_error.ContractUnavailable
      else if status = 404 \<or> status = 410 then briefcase_error.NotFound
      else if status = 405 \<or> status = 501 then briefcase_error.ContractUnavailable
      else if status = 408 \<or> status = 504 then briefcase_error.Timeout
      else if status = 413 then briefcase_error.MediaTooLarge
      else if status = 415 then briefcase_error.UnsupportedMediaType
      else briefcase_error.Unavailable)"

definition send_request ::
    "'w briefcase_http \<Rightarrow> http_request \<Rightarrow> duration \<Rightarrow> bool \<Rightarrow> ('w, http_response, briefcase_error) call" where
  "send_request B request timeout upload_route =
     State_Monad.bind (bh_send B request timeout) (\<lambda>e.
     case e of
       Cut \<Rightarrow> throw briefcase_error.Timeout
     | SendTimedOut \<Rightarrow> throw briefcase_error.Timeout
     | SendFailed \<Rightarrow> throw briefcase_error.Unavailable
     | Responded response \<Rightarrow>
         if 200 \<le> rs_status response \<and> rs_status response < 300 then done_with response
         else throw (status_error (rs_status response) upload_route))"

text \<open>\<open>response.json()\<close>: the whole body, then the value.\<close>

fun whole_body :: "(bytes, bool) result list \<Rightarrow> (bytes, bool) result" where
  "whole_body [] = Ok []"
| "whole_body (Err late # chunks) = Err late"
| "whole_body (Ok chunk # chunks) = map_ok (\<lambda>rest. chunk @ rest) (whole_body chunks)"

definition response_json ::
    "briefcase_crates \<Rightarrow> (json \<Rightarrow> 'a option) \<Rightarrow> http_response \<Rightarrow> ('a, briefcase_error) result" where
  "response_json C read response =
     and_then (map_err (\<lambda>late. if late then briefcase_error.Timeout else briefcase_error.InvalidResponse)
       (whole_body (rs_chunks response))) (\<lambda>body.
     ok_or (Option.bind (bc_json C body) read) briefcase_error.InvalidResponse)"

definition proof_headers :: "'w briefcase_http \<Rightarrow> briefcase_proof \<Rightarrow> request_id \<Rightarrow> (string \<times> string) list" where
  "proof_headers B p rid =
     [(''authorization'', ''Proof '' @ proof_secret (bp_token p)),
      (''x-request-id'', uuid_text (bc_uuid (bh_crates B)) (request_uuid rid))]"

definition post_json ::
    "'w briefcase_http \<Rightarrow> (json \<Rightarrow> 'a option) \<Rightarrow> string \<Rightarrow> briefcase_proof \<Rightarrow> json \<Rightarrow> request_id \<Rightarrow> bool \<Rightarrow>
     ('w, 'a, briefcase_error) call" where
  "post_json B read path p body rid upload_route =
     try_call (lift_result (endpoint B path)) (\<lambda>url.
     try_call (send_request B \<lparr>rq_method = POST, rq_url = url, rq_headers = proof_headers B p rid,
         rq_body = JsonBody body\<rparr> (bh_timeout B) upload_route) (\<lambda>response.
     lift_result (response_json (bh_crates B) read response)))"

definition list_entries ::
    "'w briefcase_http \<Rightarrow> briefcase_proof \<Rightarrow> string option \<Rightarrow> string option \<Rightarrow> nat \<Rightarrow> request_id \<Rightarrow>
     ('w, entry_page, briefcase_error) call" where
  "list_entries B p path cursor limit rid =
     post_json B (read_entry_page (bh_crates B)) ''obo/entries/list'' p (list_body path cursor limit) rid False"

text \<open>The loop of \<open>find\<close>: at most \<open>n\<close> more pages, with the cursors that were followed.\<close>

fun find_from ::
    "'w briefcase_http \<Rightarrow> briefcase_proof \<Rightarrow> string option \<Rightarrow> request_id \<Rightarrow> (entry \<Rightarrow> bool) \<Rightarrow>
     nat \<Rightarrow> string option \<Rightarrow> string set \<Rightarrow> ('w, entry, briefcase_error) call" where
  "find_from B p path rid matches 0 cursor seen = throw briefcase_error.InvalidResponse"
| "find_from B p path rid matches (Suc n) cursor seen =
     try_call (list_entries B p path cursor PAGE_SIZE rid) (\<lambda>page.
     case find matches (pg_items page) of
       Some e \<Rightarrow> done_with e
     | None \<Rightarrow>
         (case pg_next_cursor page of
            None \<Rightarrow> throw briefcase_error.NotFound
          | Some next_cursor \<Rightarrow>
              if next_cursor \<notin> seen
              then find_from B p path rid matches n (Some next_cursor) (insert next_cursor seen)
              else throw briefcase_error.InvalidResponse))"

definition find_entry ::
    "'w briefcase_http \<Rightarrow> briefcase_proof \<Rightarrow> string option \<Rightarrow> request_id \<Rightarrow> (entry \<Rightarrow> bool) \<Rightarrow>
     ('w, entry, briefcase_error) call" where
  "find_entry B p path rid matches = find_from B p path rid matches MAX_PAGES None {}"

section \<open>Permanent URLs\<close>

definition rsplit_once :: "char \<Rightarrow> string \<Rightarrow> (string \<times> string) option" where
  "rsplit_once c s = map_option (\<lambda>(a, b). (rev b, rev a)) (split_once c (rev s))"

definition own_origin :: "'w briefcase_http \<Rightarrow> url \<Rightarrow> bool" where
  "own_origin B u \<longleftrightarrow> url_same_origin (bc_url (bh_crates B)) u (bh_permanent_origin B)"

definition bad_segment :: "string \<Rightarrow> bool" where
  "bad_segment s \<longleftrightarrow> s = [] \<or> s = ''.'' \<or> s = ''..'' \<or> CHR ''/'' \<in> set s \<or> CHR 0x5C \<in> set s \<or>
     list_ex is_control (utf8_chars s)"

definition decoded_segment :: "briefcase_crates \<Rightarrow> string \<Rightarrow> string option" where
  "decoded_segment C part = (let s = bc_percent_decode C part in if utf8_valid s then Some s else None)"

definition relative_path :: "'w briefcase_http \<Rightarrow> briefcase_file_url \<Rightarrow> (string, briefcase_error) result" where
  "relative_path B u =
     (if \<not> own_origin B (as_url u) then Err briefcase_error.Forbidden
      else and_then (ok_or (bc_path_segments (bh_crates B) (as_url u)) briefcase_error.NotFound) (\<lambda>parts.
        and_then (ok_or (those (map (decoded_segment (bh_crates B)) parts)) briefcase_error.NotFound) (\<lambda>segments.
        if list_ex bad_segment segments then Err briefcase_error.NotFound
        else
          let skip = (if segments \<noteq> [] \<and> hd segments = ''org'' \<and> length segments \<ge> 4 then 2 else 1) in
          if length segments \<le> skip then Err briefcase_error.NotFound
          else Ok (join_with ''/'' (drop skip segments)))))"

definition listed_url :: "briefcase_crates \<Rightarrow> string option \<Rightarrow> briefcase_file_url option" where
  "listed_url C listed = Option.bind (Option.bind listed (url_parse (bc_url C)))
     (\<lambda>u. case briefcase_file_url_new u of Ok f \<Rightarrow> Some f | Err _ \<Rightarrow> None)"

definition resolve ::
    "'w briefcase_http \<Rightarrow> briefcase_proof \<Rightarrow> briefcase_file_url \<Rightarrow> request_id \<Rightarrow> ('w, uuid, briefcase_error) call" where
  "resolve B p u rid =
     try_call (lift_result (relative_path B u)) (\<lambda>path.
     try_call (find_entry B p (map_option fst (rsplit_once CHR ''/'' path)) rid
       (\<lambda>e. en_path e = path \<and> \<not> is_folder e \<and> is_live e)) (\<lambda>e.
     if en_permanent_url e = None then done_with (en_id e)
     else lift_result (
       and_then (ok_or (listed_url (bh_crates B) (en_permanent_url e)) briefcase_error.InvalidResponse) (\<lambda>listed.
       and_then (relative_path B listed) (\<lambda>listed_path.
       if listed_path \<noteq> path then Err briefcase_error.InvalidResponse else Ok (en_id e))))))"

definition open_file ::
    "'w briefcase_http \<Rightarrow> briefcase_proof \<Rightarrow> briefcase_file_url \<Rightarrow> request_id \<Rightarrow> bool \<Rightarrow>
     ('w, http_response, briefcase_error) call" where
  "open_file B p u rid probe =
     try_call (resolve B p u rid) (\<lambda>entry_id.
     try_call (lift_result (endpoint B ''obo/files/read'')) (\<lambda>url.
     send_request B \<lparr>rq_method = POST, rq_url = url, rq_headers = proof_headers B p rid,
       rq_body = JsonBody (read_body (bh_crates B) entry_id probe)\<rparr> (bh_download_timeout B) False))"

section \<open>Uploads\<close>

definition transfer_headers :: "string \<Rightarrow> (string \<times> string) list" where
  "transfer_headers capability =
     [(''x-briefcase-upload-capability'', capability), (''content-type'', ''application/octet-stream'')]"

definition transfer ::
    "'w briefcase_http \<Rightarrow> upload_status \<Rightarrow> uuid \<Rightarrow> bytes \<Rightarrow> ('w, upload_status, briefcase_error) call" where
  "transfer B reservation operation_id bs =
     (let C = bh_crates B; upload_id = us_upload_id reservation in
      try_call (lift_result (ok_or (us_capability reservation) briefcase_error.InvalidResponse)) (\<lambda>capability.
      try_call (lift_result (endpoint B (''obo/uploads/'' @ uuid_text (bc_uuid C) upload_id @ ''/content''))) (\<lambda>url.
      try_call (send_request B \<lparr>rq_method = PUT, rq_url = url, rq_headers = transfer_headers capability,
          rq_body = RawBody bs\<rparr> (bh_download_timeout B) True) (\<lambda>response.
      try_call (lift_result (response_json C (read_upload_status C) response)) (\<lambda>staged.
      if us_operation_id staged \<noteq> operation_id \<or> us_upload_id staged \<noteq> upload_id \<or>
        us_state staged \<notin> {Staged, Committed}
      then throw briefcase_error.InvalidResponse else done_with staged)))))"

definition staged_upload ::
    "'w briefcase_http \<Rightarrow> upload_status \<Rightarrow> uuid \<Rightarrow> bytes \<Rightarrow> ('w, upload_status, briefcase_error) call" where
  "staged_upload B reservation operation_id bs =
     (case us_state reservation of
        Reserved \<Rightarrow> transfer B reservation operation_id bs
      | Receiving \<Rightarrow> transfer B reservation operation_id bs
      | Staged \<Rightarrow> done_with reservation
      | Committed \<Rightarrow> done_with reservation
      | Other \<Rightarrow> throw briefcase_error.Unavailable)"

text \<open>What the published entry must be, and the permanent URL it then has.\<close>

definition published_url ::
    "'w briefcase_http \<Rightarrow> entry \<Rightarrow> store_generated_audio_request \<Rightarrow> (briefcase_file_url, briefcase_error) result" where
  "published_url B e request =
     (if is_folder e \<or> \<not> is_live e \<or> en_name e \<noteq> file_name_str (ga_filename request) \<or>
        (en_content_type e \<noteq> None \<and> en_content_type e \<noteq> Some ''audio/mpeg'') \<or>
        (en_size e \<noteq> None \<and> en_size e \<noteq> Some (length (na_bytes (ga_audio request)))) \<or>
        (en_origin_app_id e \<noteq> None \<and> en_origin_app_id e \<noteq> Some (bh_waveform_app_id B))
      then Err briefcase_error.InvalidResponse
      else and_then (ok_or (listed_url (bh_crates B) (en_permanent_url e)) briefcase_error.InvalidResponse) (\<lambda>url.
        if \<not> own_origin B (as_url url) then Err briefcase_error.InvalidResponse else Ok url))"

definition published_entry ::
    "'w briefcase_http \<Rightarrow> briefcase_proof \<Rightarrow> request_id \<Rightarrow> upload_status \<Rightarrow> uuid \<Rightarrow> ('w, entry, briefcase_error) call" where
  "published_entry B p rid committed published =
     (case us_entry committed of
        Some e \<Rightarrow> if en_id e = published then done_with e
          else find_entry B p (Some (bh_app_folder B)) rid (\<lambda>e. en_id e = published)
      | None \<Rightarrow> find_entry B p (Some (bh_app_folder B)) rid (\<lambda>e. en_id e = published))"

definition upload ::
    "'w briefcase_http \<Rightarrow> store_generated_audio_request \<Rightarrow> ('w, briefcase_file_url, briefcase_error) call" where
  "upload B request =
     (let C = bh_crates B; bs = na_bytes (ga_audio request); p = ga_proof request; rid = ga_request_id request;
          operation_id = request_uuid rid in
      if length bs > u64_max then throw briefcase_error.MediaTooLarge
      else try_call (post_json B (read_upload_status C) ''obo/uploads/reserve'' p
          (reserve_body C operation_id '''' (file_name_str (ga_filename request)) bs) rid True) (\<lambda>reservation.
        let upload_id = us_upload_id reservation in
        if us_operation_id reservation \<noteq> operation_id \<or> upload_id = 0 then throw briefcase_error.InvalidResponse
        else try_call (staged_upload B reservation operation_id bs) (\<lambda>status.
          try_call (if us_state status = Committed then done_with status
              else post_json B (read_upload_status C) ''obo/uploads/commit'' p
                (commit_body C operation_id upload_id) rid True) (\<lambda>committed.
          if us_operation_id committed \<noteq> operation_id \<or> us_upload_id committed \<noteq> upload_id \<or>
            us_state committed \<noteq> Committed then throw briefcase_error.InvalidResponse
          else try_call (lift_result (ok_or (us_published_entry_id committed) briefcase_error.InvalidResponse)) (\<lambda>published.
            try_call (published_entry B p rid committed published) (\<lambda>e.
            lift_result (published_url B e request)))))))"

section \<open>The source folder\<close>

definition prepared_folder :: "'w briefcase_http \<Rightarrow> entry_page \<Rightarrow> uuid option" where
  "prepared_folder B page =
     (case pg_folder page of
        Some folder \<Rightarrow>
          if en_path folder = bh_app_folder B \<and> is_folder folder \<and> is_live folder \<and>
            (en_origin_app_id folder = None \<or> en_origin_app_id folder = Some (bh_waveform_app_id B))
          then Some (en_id folder) else None
      | None \<Rightarrow> None)"

definition child_parent :: "'w briefcase_http \<Rightarrow> entry_page \<Rightarrow> uuid option" where
  "child_parent B page =
     (let prefix = bh_app_folder B @ ''/'' in
      case find (\<lambda>e. starts_with prefix (en_path e) \<and> CHR ''/'' \<notin> set (drop (length prefix) (en_path e)))
          (pg_items page) of
        None \<Rightarrow> None
      | Some e \<Rightarrow> (case en_parent_id e of Some i \<Rightarrow> if i \<noteq> 0 then Some i else None | None \<Rightarrow> None))"

definition prepare_source_target ::
    "'w briefcase_http \<Rightarrow> briefcase_proof \<Rightarrow> request_id \<Rightarrow> ('w, source_target, briefcase_error) call" where
  "prepare_source_target B p rid =
     try_call (list_entries B p None None 1 rid) (\<lambda>page.
     case prepared_folder B page of
       Some i \<Rightarrow> done_with \<lparr>st_folder_id = i, st_folder_path = bh_app_folder B\<rparr>
     | None \<Rightarrow>
         (case child_parent B page of
            Some i \<Rightarrow> done_with \<lparr>st_folder_id = i, st_folder_path = bh_app_folder B\<rparr>
          | None \<Rightarrow>
              try_call (on_err (\<lambda>e. if e = briefcase_error.Forbidden then briefcase_error.NotFound else e)
                (find_entry B p (map_option fst (rsplit_once CHR ''/'' (bh_app_folder B))) rid
                  (\<lambda>e. en_path e = bh_app_folder B \<and> is_folder e \<and> is_live e))) (\<lambda>folder.
              if en_origin_app_id folder \<noteq> None \<and> en_origin_app_id folder \<noteq> Some (bh_waveform_app_id B)
              then throw briefcase_error.InvalidResponse
              else done_with \<lparr>st_folder_id = en_id folder, st_folder_path = en_path folder\<rparr>)))"

section \<open>The port\<close>

definition verify_file_read_access ::
    "'w briefcase_http \<Rightarrow> briefcase_file_access_request \<Rightarrow> ('w, unit, briefcase_error) call" where
  "verify_file_read_access B request =
     try_call (open_file B (fa_proof request) (fa_file_url request) (fa_request_id request) True) (\<lambda>_. done_with ())"

fun limited_body :: "nat \<Rightarrow> bytes \<Rightarrow> (bytes, bool) result list \<Rightarrow> (bytes, briefcase_error) result" where
  "limited_body limit sofar [] = Ok sofar"
| "limited_body limit sofar (Err late # chunks) =
     Err (if late then briefcase_error.Timeout else briefcase_error.Unavailable)"
| "limited_body limit sofar (Ok chunk # chunks) =
     (if length sofar + length chunk > u64_max \<or> length sofar + length chunk > limit
      then Err briefcase_error.MediaTooLarge
      else limited_body limit (sofar @ chunk) chunks)"

definition media_of ::
    "http_response \<Rightarrow> nat \<Rightarrow> media_size_limit \<Rightarrow> (source_media, briefcase_error) result" where
  "media_of response limit size_limit =
     (if (case rs_content_length response of Some n \<Rightarrow> n > limit | None \<Rightarrow> False)
      then Err briefcase_error.MediaTooLarge
      else if map_of (rs_headers response) ''content-range'' \<noteq> None then Err briefcase_error.InvalidResponse
      else and_then (ok_or (header_str (rs_headers response) ''content-type'') briefcase_error.UnsupportedMediaType) (\<lambda>value.
        and_then (map_err (\<lambda>_. briefcase_error.UnsupportedMediaType) (source_media_type_from_str value)) (\<lambda>media_type.
        and_then (limited_body limit [] (rs_chunks response)) (\<lambda>bs.
        map_err (\<lambda>_. briefcase_error.InvalidResponse) (source_media_new media_type bs size_limit)))))"

definition read_source_media ::
    "'w briefcase_http \<Rightarrow> read_source_media_request \<Rightarrow> ('w, source_media, briefcase_error) call" where
  "read_source_media B request =
     try_call (open_file B (rs_proof request) (rs_source_url request) (rs_request_id request) False) (\<lambda>response.
     if bh_max_download_bytes B > u64_max then throw briefcase_error.MediaTooLarge
     else lift_result (media_of response
       (min (unat (media_size_limit_get (rs_size_limit request))) (bh_max_download_bytes B)) (rs_size_limit request)))"

definition store_generated_audio ::
    "'w briefcase_http \<Rightarrow> store_generated_audio_request \<Rightarrow> ('w, briefcase_file_url, briefcase_error) call" where
  "store_generated_audio B request = upload B request"

end
