(* ===== verification/Briefcase_Properties.thy ===== *)
theory Briefcase_Properties
  imports Briefcase Provider_Properties Service_Properties
begin

text \<open>
  What the Briefcase client promises the speech service: which entry a stored file is, that a read file
  is whole and bounded, how many requests an operation sends and where to. The service's side is proved
  in the locale \<open>briefcase_port\<close>, which the client interprets.
\<close>

section \<open>What an operation answers\<close>

definition replies :: "('w, 'a, 'e) call \<Rightarrow> ('a \<Rightarrow> bool) \<Rightarrow> bool" where
  "replies m G \<longleftrightarrow> (\<forall>s x s'. run_state m s = (Ok x, s') \<longrightarrow> G x)"

named_theorems answering

lemma replies_try: "replies m R \<Longrightarrow> (\<And>x. R x \<Longrightarrow> replies (f x) G) \<Longrightarrow> replies (try_call m f) G"
  unfolding replies_def by (simp add: run_simps split: prod.splits sum.splits) blast

lemma replies_after [answering]: "(\<And>x. replies (f x) G) \<Longrightarrow> replies (try_call m f) G"
  unfolding replies_def by (simp add: run_simps split: prod.splits sum.splits)

lemma replies_next [answering]: "(\<And>x. replies (f x) G) \<Longrightarrow> replies (State_Monad.bind m f) G"
  unfolding replies_def by (simp add: run_simps split: prod.splits)

lemma replies_throw [answering]: "replies (throw e) G"
  by (simp add: replies_def run_simps)

lemma replies_value: "G x \<Longrightarrow> replies (done_with x) G"
  by (simp add: replies_def run_simps)

lemma replies_lift: "(\<And>x. r = Ok x \<Longrightarrow> G x) \<Longrightarrow> replies (lift_result r) G"
  by (simp add: replies_def run_simps)

lemma replies_if [answering]: "(b \<Longrightarrow> replies m G) \<Longrightarrow> (\<not> b \<Longrightarrow> replies m' G) \<Longrightarrow> replies (if b then m else m') G"
  by simp

lemma replies_on_err: "replies m G \<Longrightarrow> replies (on_err f m) G"
  by (auto simp: replies_def run_simps split: prod.splits)

lemma replies_weaken: "replies m G \<Longrightarrow> (\<And>x. G x \<Longrightarrow> H x) \<Longrightarrow> replies m H"
  by (auto simp: replies_def)

section \<open>What is stored\<close>

lemma find_from_answers: "replies (find_from B p path rid matches n cursor seen) matches"
proof (induction n arbitrary: cursor seen)
  case (Suc n)
  show ?case
    unfolding find_from.simps
  proof (rule replies_after)
    fix page :: entry_page
    show "replies (case find matches (pg_items page) of
        Some e \<Rightarrow> done_with e
      | None \<Rightarrow> (case pg_next_cursor page of
          None \<Rightarrow> throw briefcase_error.NotFound
        | Some next_cursor \<Rightarrow>
            if next_cursor \<notin> seen then find_from B p path rid matches n (Some next_cursor) (insert next_cursor seen)
            else throw briefcase_error.InvalidResponse)) matches"
      using Suc.IH
      by (auto simp: find_Some_iff intro!: answering replies_value split: option.splits)
  qed
qed (simp add: answering)

lemma find_entry_answers: "replies (find_entry B p path rid matches) matches"
  by (simp add: find_entry_def find_from_answers)

text \<open>The entry an upload published: the file that was sent, of this app, with a permanent URL of its own.\<close>

definition published_as :: "'w briefcase_http \<Rightarrow> store_generated_audio_request \<Rightarrow> entry \<Rightarrow> briefcase_file_url \<Rightarrow> bool" where
  "published_as B request e u \<longleftrightarrow>
     \<not> is_folder e \<and> is_live e \<and> en_name e = file_name_str (ga_filename request) \<and>
     en_content_type e \<in> {None, Some ''audio/mpeg''} \<and>
     en_size e \<in> {None, Some (length (na_bytes (ga_audio request)))} \<and>
     en_origin_app_id e \<in> {None, Some (bh_waveform_app_id B)} \<and>
     listed_url (bh_crates B) (en_permanent_url e) = Some u \<and> own_origin B (as_url u)"

lemma published_url_Ok: "published_url B e request = Ok u \<Longrightarrow> published_as B request e u"
  by (auto simp: published_url_def published_as_def elim!: result_elims split: if_splits)

lemma published_entry_answers: "replies (published_entry B p rid committed published) (\<lambda>e. en_id e = published)"
  unfolding published_entry_def
  by (auto intro!: answering replies_value find_entry_answers split: option.splits)

definition stored_file :: "'w briefcase_http \<Rightarrow> store_generated_audio_request \<Rightarrow> briefcase_file_url \<Rightarrow> bool" where
  "stored_file B request u \<longleftrightarrow> (\<exists>(committed :: upload_status) (e :: entry). published_as B request e u \<and>
     us_operation_id committed = request_uuid (ga_request_id request) \<and> us_state committed = Committed \<and>
     us_published_entry_id committed = Some (en_id e))"

lemma upload_answers: "replies (upload B request) (stored_file B request)"
  unfolding upload_def Let_def
  apply (rule replies_if, rule replies_throw, rule replies_after, rule replies_if, rule replies_throw)
  apply (rule replies_after, rule replies_after, rule replies_if, rule replies_throw)
  apply (rule replies_try [where R = "\<lambda>i. us_published_entry_id _ = Some i"])
   apply (rule replies_lift, simp)
  apply (rule replies_try [OF published_entry_answers], rule replies_lift)
  apply (auto simp: stored_file_def dest!: published_url_Ok)
  done

section \<open>What is read\<close>

lemma limited_body_Ok:
  "limited_body limit sofar chunks = Ok bs \<Longrightarrow> length sofar \<le> limit \<Longrightarrow>
     length bs \<le> limit \<and> (\<exists>parts. chunks = map Ok parts \<and> bs = sofar @ concat parts)"
proof (induction chunks arbitrary: sofar)
  case (Cons chunk chunks)
  then obtain part where chunk: "chunk = Ok part" by (cases chunk) auto
  with Cons.prems have "length (sofar @ part) \<le> limit" "limited_body limit (sofar @ part) chunks = Ok bs"
    by (auto split: if_splits)
  with Cons.IH [of "sofar @ part"] obtain parts where "length bs \<le> limit" "chunks = map Ok parts"
    "bs = sofar @ part @ concat parts" by auto
  then show ?case using chunk by (intro conjI exI [of _ "part # parts"]) simp_all
qed simp

definition whole_file :: "nat \<Rightarrow> source_media \<Rightarrow> bool" where
  "whole_file limit media \<longleftrightarrow> (\<exists>(response :: http_response) parts content_type.
     sm_bytes media = concat parts \<and> rs_chunks response = map Ok parts \<and>
     200 \<le> rs_status response \<and> rs_status response < 300 \<and>
     map_of (rs_headers response) ''content-range'' = None \<and>
     map_of (rs_headers response) ''content-type'' = Some content_type \<and>
     source_media_type_from_str content_type = Ok (sm_media_type media) \<and>
     sm_bytes media \<noteq> [] \<and> length (sm_bytes media) \<le> limit)"

lemma media_of_Ok:
  assumes "media_of response limit size_limit = Ok media" "200 \<le> rs_status response" "rs_status response < 300"
  shows "whole_file limit media"
proof -
  obtain v media_type bs where r: "map_of (rs_headers response) ''content-range'' = None"
    "header_str (rs_headers response) ''content-type'' = Some v" "source_media_type_from_str v = Ok media_type"
    "limited_body limit [] (rs_chunks response) = Ok bs" "source_media_new media_type bs size_limit = Ok media"
    using assms(1) by (auto simp: media_of_def elim!: result_elims split: if_splits)
  then have "map_of (rs_headers response) ''content-type'' = Some v"
    by (auto simp: header_str_def split: option.splits if_splits)
  moreover obtain parts where "length bs \<le> limit" "rs_chunks response = map Ok parts" "bs = concat parts"
    using limited_body_Ok [OF r(4)] by auto
  moreover have "sm_media_type media = media_type" "sm_bytes media = bs" "bs \<noteq> []"
    using r(5) by (auto simp: source_media_new_def split: if_splits option.splits)
  ultimately show ?thesis
    unfolding whole_file_def using r assms(2,3)
    by (intro exI [of _ response] exI [of _ parts] exI [of _ v]) simp
qed

lemma send_request_answers:
  "replies (send_request B q d route) (\<lambda>response. 200 \<le> rs_status response \<and> rs_status response < 300)"
  unfolding send_request_def
  by (rule replies_next) (auto intro!: answering replies_value split: exchange.splits)

lemma open_file_answers:
  "replies (open_file B p u rid probe) (\<lambda>response. 200 \<le> rs_status response \<and> rs_status response < 300)"
  unfolding open_file_def by (intro replies_after send_request_answers)

lemma read_source_media_answers:
  "replies (read_source_media B request) (whole_file
     (min (unat (media_size_limit_get (rs_size_limit request))) (bh_max_download_bytes B)))"
  unfolding read_source_media_def
  by (rule replies_try [OF open_file_answers], rule replies_if, rule replies_throw, rule replies_lift)
    (auto dest: media_of_Ok)

section \<open>What is sent\<close>

text \<open>The client on a world that logs its requests.\<close>

definition briefcase_logging :: "'w briefcase_http \<Rightarrow> 'w logged briefcase_http" where
  "briefcase_logging B =
     \<lparr>bh_api_root = bh_api_root B, bh_permanent_origin = bh_permanent_origin B,
      bh_waveform_app_id = bh_waveform_app_id B, bh_app_folder = bh_app_folder B, bh_timeout = bh_timeout B,
      bh_download_timeout = bh_download_timeout B, bh_max_download_bytes = bh_max_download_bytes B,
      bh_crates = bh_crates B, bh_send = (\<lambda>q d. log_send (bh_send B q d) q)\<rparr>"

lemma briefcase_logging_simps [simp]:
  "bh_api_root (briefcase_logging B) = bh_api_root B" "bh_permanent_origin (briefcase_logging B) = bh_permanent_origin B"
  "bh_waveform_app_id (briefcase_logging B) = bh_waveform_app_id B" "bh_app_folder (briefcase_logging B) = bh_app_folder B"
  "bh_timeout (briefcase_logging B) = bh_timeout B" "bh_download_timeout (briefcase_logging B) = bh_download_timeout B"
  "bh_max_download_bytes (briefcase_logging B) = bh_max_download_bytes B" "bh_crates (briefcase_logging B) = bh_crates B"
  "bh_send (briefcase_logging B) q d = log_send (bh_send B q d) q"
  by (simp_all add: briefcase_logging_def)

text \<open>
  A request of the client: to the scheme, host and port of the API; the proof is in the authorization
  header of a POST, and the transfer of the bytes carries only the capability of its reservation.
\<close>

definition briefcase_request :: "'w briefcase_http \<Rightarrow> briefcase_proof \<Rightarrow> request_id \<Rightarrow> http_request \<Rightarrow> bool" where
  "briefcase_request B p rid q \<longleftrightarrow> same_origin (rq_url q) (bh_api_root B) \<and>
     (rq_method q = POST \<and> rq_headers q = proof_headers B p rid \<or>
      rq_method q = PUT \<and> (\<exists>capability. rq_headers q = transfer_headers capability))"

text \<open>Joining a relative path keeps the origin (\<open>Url::join\<close>).\<close>

definition joins_relative :: "briefcase_crates \<Rightarrow> bool" where
  "joins_relative C \<longleftrightarrow> (\<forall>base path u. starts_with ''obo/'' path \<longrightarrow> bc_join C base path = Some u \<longrightarrow> same_origin u base)"

lemma endpoint_own:
  "joins_relative (bh_crates B) \<Longrightarrow> starts_with ''obo/'' path \<Longrightarrow> endpoint B path = Ok u \<Longrightarrow> same_origin u (bh_api_root B)"
  by (auto simp: joins_relative_def endpoint_def)

lemma endpoint_logging [simp]: "endpoint (briefcase_logging B) = endpoint B"
  by (simp add: endpoint_def fun_eq_iff)

lemma proof_headers_logging [simp]: "proof_headers (briefcase_logging B) = proof_headers B"
  by (simp add: proof_headers_def fun_eq_iff)

lemma relative_path_logging [simp]: "relative_path (briefcase_logging B) = relative_path B"
  by (simp add: relative_path_def own_origin_def fun_eq_iff)

lemma published_url_logging [simp]: "published_url (briefcase_logging B) = published_url B"
  by (intro ext) (simp only: published_url_def own_origin_def briefcase_logging_simps)

lemma sends_send_request: "P q \<Longrightarrow> sends (send_request (briefcase_logging B) q d route) P (\<lambda>_. 1)"
  unfolding send_request_def briefcase_logging_simps
  by (rule sends_bind [where c = "\<lambda>_. 1" and k = "\<lambda>_ _. 0"])
    (auto intro!: sends_log_send sending split: exchange.splits)

text \<open>Costs add up along an operation.\<close>

lemma sends_add:
  "sends m P (\<lambda>_. a) \<Longrightarrow> (\<And>x. sends (f x) P (\<lambda>_. b)) \<Longrightarrow> a + b \<le> n \<Longrightarrow> sends (try_call m f) P (\<lambda>_. n)"
  by (rule sends_try_call [where c = "\<lambda>_. a" and k = "\<lambda>_ _. b"]) auto

lemma sends_endpoint:
  assumes "joins_relative (bh_crates B)" "starts_with ''obo/'' path"
    "\<And>u. same_origin u (bh_api_root B) \<Longrightarrow> sends (f u) P c"
  shows "sends (try_call (lift_result (endpoint B path)) f) P c"
  by (rule sends_try_lift, rule assms(3)) (rule endpoint_own [OF assms(1,2)])

lemma sends_post_json:
  assumes "joins_relative (bh_crates B)" "starts_with ''obo/'' path"
  shows "sends (post_json (briefcase_logging B) read path p body rid route) (briefcase_request B p rid) (\<lambda>_. 1)"
  unfolding post_json_def endpoint_logging proof_headers_logging
  by (rule sends_endpoint [OF assms], rule sends_try_then, rule sends_send_request)
    (simp_all add: briefcase_request_def sending)

lemma sends_list_entries:
  assumes "joins_relative (bh_crates B)"
  shows "sends (list_entries (briefcase_logging B) p path cursor limit rid) (briefcase_request B p rid) (\<lambda>_. 1)"
  unfolding list_entries_def briefcase_logging_simps
  by (rule sends_post_json [OF assms]) (simp add: starts_with_def)

text \<open>The pages of one search.\<close>

lemma sends_find_from:
  assumes "joins_relative (bh_crates B)"
  shows "sends (find_from (briefcase_logging B) p path rid matches n cursor seen) (briefcase_request B p rid) (\<lambda>_. n)"
proof (induction n arbitrary: cursor seen)
  case (Suc n)
  show ?case
    unfolding find_from.simps
    by (rule sends_add [where a = 1 and b = n, OF sends_list_entries [OF assms]])
      (auto intro!: sending Suc.IH split: option.splits)
qed (simp add: sending)

lemma sends_find_entry:
  "joins_relative (bh_crates B) \<Longrightarrow>
     sends (find_entry (briefcase_logging B) p path rid matches) (briefcase_request B p rid) (\<lambda>_. MAX_PAGES)"
  unfolding find_entry_def by (rule sends_find_from)

lemma sends_resolve:
  "joins_relative (bh_crates B) \<Longrightarrow>
     sends (resolve (briefcase_logging B) p u rid) (briefcase_request B p rid) (\<lambda>_. MAX_PAGES)"
  unfolding resolve_def relative_path_logging briefcase_logging_simps
  by (rule sends_try_lift, rule sends_try_then, rule sends_find_entry) (auto intro!: sending)

lemma sends_open_file:
  assumes "joins_relative (bh_crates B)"
  shows "sends (open_file (briefcase_logging B) p u rid probe) (briefcase_request B p rid) (\<lambda>_. MAX_PAGES + 1)"
  unfolding open_file_def endpoint_logging proof_headers_logging briefcase_logging_simps
  by (rule sends_add [where b = 1, OF sends_resolve [OF assms]], rule sends_endpoint [OF assms])
    (auto simp: starts_with_def briefcase_request_def simp del: One_nat_def intro!: sends_send_request)

lemma sends_transfer:
  assumes "joins_relative (bh_crates B)"
  shows "sends (transfer (briefcase_logging B) reservation operation bs) (briefcase_request B p rid) (\<lambda>_. 1)"
  unfolding transfer_def Let_def endpoint_logging briefcase_logging_simps
  by (rule sends_try_lift, rule sends_endpoint [OF assms], simp add: starts_with_def,
      rule sends_try_then, rule sends_send_request)
    (auto simp: briefcase_request_def intro!: sending sends_try_lift)

lemma sends_staged_upload:
  "joins_relative (bh_crates B) \<Longrightarrow>
     sends (staged_upload (briefcase_logging B) reservation operation bs) (briefcase_request B p rid) (\<lambda>_. 1)"
  unfolding staged_upload_def by (auto simp del: One_nat_def intro!: sends_transfer sending split: upload_state.splits)

lemma sends_published_entry:
  "joins_relative (bh_crates B) \<Longrightarrow>
     sends (published_entry (briefcase_logging B) p rid committed published) (briefcase_request B p rid) (\<lambda>_. MAX_PAGES)"
  unfolding published_entry_def briefcase_logging_simps
  by (auto intro!: sends_find_entry sending split: option.splits)

lemma sends_upload:
  assumes J: "joins_relative (bh_crates B)"
  shows "sends (upload (briefcase_logging B) request)
     (briefcase_request B (ga_proof request) (ga_request_id request)) (\<lambda>_. MAX_PAGES + 3)"
  unfolding upload_def Let_def briefcase_logging_simps published_url_logging
  apply (rule sends_if, rule sends_throw)
  apply (rule sends_add [where a = 1 and b = "MAX_PAGES + 2"], rule sends_post_json [OF J], simp add: starts_with_def)
   apply (rule sends_if, rule sends_throw)
   apply (rule sends_add [where a = 1 and b = "MAX_PAGES + 1"], rule sends_staged_upload [OF J])
    apply (rule sends_add [where a = 1 and b = MAX_PAGES])
      apply (rule sends_if, rule sends_done_with, rule sends_post_json [OF J], simp add: starts_with_def)
     apply (rule sends_if, rule sends_throw, rule sends_try_lift, rule sends_try_then, rule sends_published_entry [OF J])
     apply (auto intro!: sending)
  done

section \<open>The port of the speech service\<close>

text \<open>
  What the speech service needs of Briefcase: what a stored file and a read file are. \<open>stored\<close> and
  \<open>whole\<close> are the promises of the provider.
\<close>

locale briefcase_port =
  fixes store :: "store_generated_audio_request \<Rightarrow> ('w, briefcase_file_url, briefcase_error) call"
    and read :: "read_source_media_request \<Rightarrow> ('w, source_media, briefcase_error) call"
    and stored :: "store_generated_audio_request \<Rightarrow> briefcase_file_url \<Rightarrow> bool"
    and whole :: "read_source_media_request \<Rightarrow> source_media \<Rightarrow> bool"
  assumes store_answers: "replies (store q) (stored q)"
    and read_answers: "replies (read m) (whole m)"
begin

lemma renewed_answers:
  assumes "\<And>p. replies (operation p) (G p)"
  shows "replies (with_renewal S authorization token p operation) (\<lambda>x. \<exists>p. G p x)"
  using assms unfolding with_renewal_def replies_def
  by (auto simp: run_simps map_err_Ok_iff split: if_splits prod.splits sum.splits) blast+

lemma hold_answers: "replies (hold C S authorization filename audio rid reason) (\<lambda>st. \<forall>u. st \<noteq> audio_storage.Briefcase u)"
  unfolding hold_def by (rule replies_after) (simp add: replies_value)

definition kept_as :: "generated_audio_file_name \<Rightarrow> normalized_audio \<Rightarrow> request_id \<Rightarrow> audio_storage \<Rightarrow> bool" where
  "kept_as filename audio rid st \<longleftrightarrow> (\<forall>u. st = audio_storage.Briefcase u \<longrightarrow>
     (\<exists>p. stored \<lparr>ga_proof = p, ga_filename = filename, ga_audio = audio, ga_request_id = rid\<rparr> u))"

lemma hold_kept: "replies (hold C S authorization filename audio rid reason) (kept_as filename audio rid)"
  by (rule replies_weaken [OF hold_answers]) (simp add: kept_as_def)

lemma store_audio_kept:
  assumes "sb_store_generated_audio (ws_storage S) = store"
  shows "replies (store_audio C S authorization token filename audio rid) (kept_as filename audio rid)"
proof -
  let ?q = "\<lambda>p. \<lparr>ga_proof = p, ga_filename = filename, ga_audio = audio, ga_request_id = rid\<rparr>"
  have "replies (State_Monad.bind (with_renewal S authorization token p (\<lambda>p. store (?q p)))
      (\<lambda>r. case r of Ok u \<Rightarrow> done_with (audio_storage.Briefcase u)
        | Err refused \<Rightarrow> hold C S authorization filename audio rid (held_reason_of_renewal refused)))
      (kept_as filename audio rid)" for p
    using renewed_answers [of "\<lambda>p. store (?q p)" "\<lambda>p. stored (?q p)" S authorization token p, OF store_answers]
      hold_kept [of C S authorization filename audio rid]
    unfolding replies_def by (fastforce simp: run_simps kept_as_def split: prod.splits sum.splits)
  then show ?thesis
    unfolding store_audio_def assms
    by (auto intro!: replies_if hold_kept replies_next split: sum.splits)
qed

lemma execute_tts_kept:
  assumes "sb_store_generated_audio (ws_storage S) = store"
  shows "replies (execute_tts C S rid started authorization token request)
     (\<lambda>result. \<exists>audio. tr_duration result = na_duration audio \<and>
        kept_as (for_request (sv_uuid C) (sv_utc C) started rid) audio rid (tr_storage result))"
  unfolding execute_tts_def
  apply (rule replies_after, rule replies_after, rule replies_after)
  apply (clarsimp split: prod.splits)
  apply (rule replies_try [OF store_audio_kept [OF assms]], rule replies_value)
  apply (auto simp: tts_result_new_def)
  done

lemma stt_attempts_run:
  "replies (stt_attempts S rid request media duration names)
     (\<lambda>result. \<exists>pr provider w w'. provider \<in> set (ws_stt_providers S) \<and>
        run_state (stt_transcribe provider \<lparr>sp_media = media, sp_language = sq_language request\<rparr> rid) w = (Ok pr, w') \<and>
        result = stt_result_from_provider rid (stt_name provider) (pr\<lparr>pr_duration := Some duration\<rparr>))"
proof (induction names)
  case (Cons name names)
  then show ?case
    unfolding replies_def
    by (auto simp: run_simps find_Some_iff split: option.splits prod.splits sum.splits) (metis nth_mem)
qed (simp add: replies_throw)

lemma execute_stt_whole:
  assumes "sb_read_source_media (ws_storage S) = read"
  shows "replies (execute_stt S rid authorization token request)
     (\<lambda>result. \<exists>p media duration pr provider w w'.
        whole \<lparr>rs_proof = p, rs_source_url = sq_source_url request,
          rs_size_limit = pol_source_media_size_limit (ws_policy S), rs_request_id = rid\<rparr> media \<and>
        provider \<in> set (ws_stt_providers S) \<and>
        run_state (stt_transcribe provider \<lparr>sp_media = media, sp_language = sq_language request\<rparr> rid) w = (Ok pr, w') \<and>
        result = stt_result_from_provider rid (stt_name provider) (pr\<lparr>pr_duration := Some duration\<rparr>))"
  unfolding execute_stt_def assms
  apply (rule replies_after)
  apply (rule replies_try [OF replies_on_err [OF renewed_answers [OF read_answers]]])
  apply (rule replies_after, rule replies_after)
  apply (rule replies_weaken [OF stt_attempts_run])
  apply blast
  done

end

interpretation files: briefcase_port "store_generated_audio B" "read_source_media B" "stored_file B"
    "\<lambda>m. whole_file (min (unat (media_size_limit_get (rs_size_limit m))) (bh_max_download_bytes B))" for B
  by unfold_locales (simp_all add: store_generated_audio_def upload_answers read_source_media_answers)

section \<open>Properties\<close>



text \<open>
  The client's requests are bounded and keep the proof to itself. Storing sends at most 103
  requests, reading or checking a file at most 101; each goes to the scheme, host and port of the API,
  with the proof in the authorization header of a POST, and the transfer of the bytes carries the
  capability of the reservation only.
\<close>

theorem briefcase_requests_are_bounded:
  assumes "joins_relative (bh_crates B)"
  shows "length (requests_of (store_generated_audio (briefcase_logging B) request) w) \<le> 103 \<and>
    (\<forall>q \<in> set (requests_of (store_generated_audio (briefcase_logging B) request) w).
       briefcase_request B (ga_proof request) (ga_request_id request) q) \<and>
    length (requests_of (open_file (briefcase_logging B) p u rid probe) w) \<le> 101 \<and>
    (\<forall>q \<in> set (requests_of (open_file (briefcase_logging B) p u rid probe) w). briefcase_request B p rid q)"
  using sends_requests [OF sends_upload [OF assms, of request], of w]
    sends_requests [OF sends_open_file [OF assms, of p u rid probe], of w]
  by (simp add: store_generated_audio_def MAX_PAGES_def)


end
