(* ===== verification/Briefcase_Examples.thy ===== *)
theory Briefcase_Examples
  imports Briefcase_Properties Service_Examples
begin

text \<open>
  A concrete Briefcase client, whose server answers each request by the path it was sent to, behind the
  service of the examples. Each theorem applies a property of the client at a run of it.
\<close>

definition bx_status :: "string \<Rightarrow> json" where
  "bx_status name = JObject
      [(''operation_id'', JString ''7777777''), (''upload_id'', JString ''1''), (''state'', JString ''committed''),
       (''published_entry_id'', JString ''333''),
       (''entry'', JObject [(''id'', JString ''333''), (''type'', JString ''file''), (''name'', JString name),
          (''permanent_url'', JString ''u'')])]"

definition bx_listing :: json where
  "bx_listing = JObject [(''items'', JArray [JObject
      [(''id'', JString ''333''), (''type'', JString ''file''), (''path'', JString ''f.wav'')]])]"

definition bx_crates :: "string \<Rightarrow> briefcase_crates" where
  "bx_crates name =
     \<lparr>bc_url = \<lparr>url_parse = (\<lambda>_. Some ex_url), url_text = url_path, url_set_path = (\<lambda>u p. u\<lparr>url_path := p\<rparr>),
        url_same_origin = (\<lambda>_ _. True)\<rparr>,
      bc_join = (\<lambda>u p. Some (u\<lparr>url_path := p\<rparr>)), bc_path_segments = (\<lambda>_. Some [''a'', ''f.wav'']),
      bc_percent_decode = id,
      bc_uuid = \<lparr>uuid_parse = (\<lambda>s. Some (of_nat (length s))), uuid_text = (\<lambda>u. replicate (unat u) CHR ''0'')\<rparr>,
      bc_sha256 = id,
      bc_json = (\<lambda>body.
        if body = ''obo/uploads/reserve'' then Some (bx_status name)
        else if body = ''obo/entries/list'' then Some bx_listing
        else None)\<rparr>"

definition bx_client :: "string \<Rightarrow> unit briefcase_http" where
  "bx_client name =
     \<lparr>bh_api_root = ex_url, bh_permanent_origin = ex_url, bh_waveform_app_id = ''app'', bh_app_folder = ''Waveform'',
      bh_timeout = secs 5, bh_download_timeout = secs 30, bh_max_download_bytes = 1000, bh_crates = bx_crates name,
      bh_send = (\<lambda>q d. State_Monad.return (Responded \<lparr>rs_status = 200,
        rs_headers = [(''content-type'', ''audio/wav'')], rs_content_length = None,
        rs_chunks = [Ok (url_path (rq_url q))]\<rparr>))\<rparr>"

lemma bx_reserved: "read_upload_status (bx_crates name) (bx_status name) =
    Some \<lparr>us_operation_id = 7, us_upload_id = 1, us_state = Committed, us_published_entry_id = Some 3,
      us_capability = None, us_entry = Some \<lparr>en_id = 3, en_kind = ''file'', en_name = name, en_path = [],
        en_parent_id = None, en_permanent_url = Some ''u'', en_content_type = None, en_size = None,
        en_origin_app_id = None, en_deleted_at = None\<rparr>\<rparr>"
  by (simp add: read_upload_status_def read_entry_def read_uuid_def read_upload_state_def upload_state_named_def
      required_field_def default_field_def optional_field_def struct_field_def as_str_def bx_status_def bx_crates_def)

lemma bx_client_simps [simp]:
  "bh_api_root (bx_client name) = ex_url" "bh_permanent_origin (bx_client name) = ex_url"
  "bh_waveform_app_id (bx_client name) = ''app''" "bh_max_download_bytes (bx_client name) = 1000"
  "bh_crates (bx_client name) = bx_crates name"
  "bh_send (bx_client name) q d = State_Monad.return (Responded \<lparr>rs_status = 200,
     rs_headers = [(''content-type'', ''audio/wav'')], rs_content_length = None, rs_chunks = [Ok (url_path (rq_url q))]\<rparr>)"
  by (simp_all add: bx_client_def)

lemma bx_crates_simps [simp]:
  "bc_join (bx_crates name) u p = Some (u\<lparr>url_path := p\<rparr>)" "bc_path_segments (bx_crates name) u = Some [''a'', ''f.wav'']"
  "bc_percent_decode (bx_crates name) = id" "url_same_origin (bc_url (bx_crates name)) u v = True"
  "url_parse (bc_url (bx_crates name)) s = Some ex_url"
  "bc_json (bx_crates name) ''obo/uploads/reserve'' = Some (bx_status name)"
  "bc_json (bx_crates name) ''obo/entries/list'' = Some bx_listing"
  by (simp_all add: bx_crates_def)

lemma bx_joins: "joins_relative (bx_crates name)"
  by (simp add: joins_relative_def same_origin_def known_port_def)

lemma bx_url: "briefcase_file_url_new ex_url = Ok (BriefcaseFileUrl ex_url)"
  by (simp add: briefcase_file_url_new_def validate_https_url_def ex_url_def)

lemma bx_store:
  assumes "ga_request_id q = RequestId 7" "length (na_bytes (ga_audio q)) = 3" "file_name_str (ga_filename q) = name"
  shows "run_state (store_generated_audio (bx_client name) q) w = (Ok (BriefcaseFileUrl ex_url), w)"
  using assms bx_reserved [of name]
  by (simp add: store_generated_audio_def upload_def Let_def post_json_def endpoint_def send_request_def response_json_def
      run_simps u64_max_def staged_upload_def published_entry_def published_url_def is_folder_def is_live_def
      listed_url_def own_origin_def bx_url)

lemma bx_path: "relative_path (bx_client name) u = Ok ''f.wav''"
proof -
  have "decoded_segment (bx_crates name) ''a'' = Some ''a''" "decoded_segment (bx_crates name) ''f.wav'' = Some ''f.wav''"
    unfolding decoded_segment_def bx_crates_simps id_apply by code_simp+
  moreover have "\<not> bad_segment ''a''" "\<not> bad_segment ''f.wav''" by code_simp+
  ultimately show ?thesis by (simp add: relative_path_def own_origin_def)
qed

lemma bx_page: "read_entry_page (bx_crates name) bx_listing =
    Some \<lparr>pg_items = [\<lparr>en_id = 3, en_kind = ''file'', en_name = [], en_path = ''f.wav'', en_parent_id = None,
      en_permanent_url = None, en_content_type = None, en_size = None, en_origin_app_id = None, en_deleted_at = None\<rparr>],
      pg_folder = None, pg_next_cursor = None\<rparr>"
  by (simp add: read_entry_page_def bx_listing_def read_entry_def read_uuid_def read_vec_def required_field_def
      default_field_def optional_field_def struct_field_def as_str_def bx_crates_def)

lemma bx_find:
  "run_state (find_entry (bx_client name) p path rid (\<lambda>e. en_path e = ''f.wav'' \<and> \<not> is_folder e \<and> is_live e)) w =
     (Ok \<lparr>en_id = 3, en_kind = ''file'', en_name = [], en_path = ''f.wav'', en_parent_id = None,
      en_permanent_url = None, en_content_type = None, en_size = None, en_origin_app_id = None, en_deleted_at = None\<rparr>, w)"
proof -
  have pages: "MAX_PAGES = Suc 99" by (simp add: MAX_PAGES_def)
  show ?thesis
    unfolding find_entry_def pages find_from.simps
    by (simp add: list_entries_def post_json_def endpoint_def send_request_def response_json_def run_simps bx_page
        is_folder_def is_live_def)
qed

lemma bx_media:
  "header_str [(''content-type'', ''audio/wav'')] ''content-type'' = Some ''audio/wav''"
  "source_media_type_from_str ''audio/wav'' = Ok source_media_type.Wav"
  "source_media_new source_media_type.Wav ''obo/files/read'' (MediaSizeLimit 1000) =
     Ok \<lparr>sm_media_type = source_media_type.Wav, sm_bytes = ''obo/files/read''\<rparr>"
  by code_simp+

lemma bx_read: "run_state (read_source_media (bx_client name)
    \<lparr>rs_proof = p, rs_source_url = u, rs_size_limit = MediaSizeLimit 1000, rs_request_id = rid\<rparr>) w =
    (Ok \<lparr>sm_media_type = source_media_type.Wav, sm_bytes = ''obo/files/read''\<rparr>, w)"
  by (simp add: read_source_media_def open_file_def resolve_def bx_path bx_find endpoint_def send_request_def run_simps
      u64_max_def media_of_def bx_media)

section \<open>The service over the client\<close>

definition bx_name :: generated_audio_file_name where
  "bx_name = for_request (sv_uuid sx_crates) (sv_utc sx_crates) 0 (RequestId 7)"

definition bx_service :: "unit waveform_service" where
  "bx_service = sx_service\<lparr>ws_storage := sx_storage
     \<lparr>sb_store_generated_audio := store_generated_audio (bx_client (file_name_str bx_name)),
      sb_read_source_media := read_source_media (bx_client (file_name_str bx_name))\<rparr>\<rparr>"

lemma bx_service_simps [simp]:
  "sb_store_generated_audio (ws_storage bx_service) = store_generated_audio (bx_client (file_name_str bx_name))"
  "sb_read_source_media (ws_storage bx_service) = read_source_media (bx_client (file_name_str bx_name))"
  "sb_briefcase_proof (ws_storage bx_service) a t = sx_answer (Ok (sx_proof ''sap_old''))"
  "ws_tts_providers bx_service = map sx_tts TTS_PROVIDER_CHAIN" "ws_stt_providers bx_service = map sx_stt STT_PROVIDER_CHAIN"
  "ws_normalize_to_mp3 bx_service art rid = sx_answer (Ok sx_audio)"
  "ws_source_duration bx_service media rid = sx_answer (Ok (MediaDuration 900))" "ws_policy bx_service = sx_policy"
  by (simp_all add: bx_service_def sx_service_def sx_storage_def)

lemma bx_tts_run: "\<exists>result. run_state (execute_tts sx_crates bx_service (RequestId 7) 0 (sx_actor None) None
    sx_tts_request) () = (Ok result, ()) \<and> tr_storage result = audio_storage.Briefcase (BriefcaseFileUrl ex_url)"
  by (simp add: execute_tts_def sx_tts_request_def resolve_order_def TTS_PROVIDER_CHAIN_def run_simps sx_tts_def
      sx_answer_def store_audio_def sx_actor_def is_delegated_def with_renewal_def bx_store sx_audio_def tts_result_new_def
      flip: bx_name_def)

lemma bx_stt_run: "\<exists>result. run_state (execute_stt bx_service (RequestId 7) (sx_actor None) None sx_stt_request) () =
    (Ok result, ())"
  by (simp add: execute_stt_def sx_stt_request_def resolve_order_def STT_PROVIDER_CHAIN_def briefcase_authority_def
      run_simps sx_stt_def sx_answer_def sx_actor_def is_delegated_def with_renewal_def sx_policy_def bx_read)

section \<open>Witnesses\<close>



theorem briefcase_requests_are_bounded_witness:
  "length (requests_of (open_file (briefcase_logging (bx_client ''n'')) (sx_proof ''sap'') (BriefcaseFileUrl ex_url)
     (RequestId 7) True) ()) \<le> 101"
  using briefcase_requests_are_bounded [of "bx_client ''n''"] by (simp add: bx_joins)


end
