(* ===== verification/Api_Error.thy ===== *)
theory Api_Error
  imports Errors Serde
begin

text \<open>
  \<open>src/src/api/error.rs\<close>: the error answers of the public API. A response is its status, its headers
  (names in lower case) and its JSON body; \<open>HeaderMap::insert\<close> replaces every value of the name.
\<close>

section \<open>Responses\<close>

type_synonym header_map = "(string \<times> string) list"

record api_response =
  ar_status :: nat
  ar_headers :: header_map
  ar_body :: json

definition header_insert :: "string \<Rightarrow> string \<Rightarrow> header_map \<Rightarrow> header_map" where
  "header_insert name v headers = filter (\<lambda>(n, _). n \<noteq> name) headers @ [(name, v)]"

text \<open>\<open>HeaderValue::from_str\<close> accepts visible ASCII, spaces and tabs; \<open>to_str\<close> accepts no more.\<close>

definition header_text :: "string \<Rightarrow> bool" where
  "header_text s \<longleftrightarrow> (\<forall>c \<in> set s. 32 \<le> byte c \<and> byte c < 127 \<or> byte c = 9)"

definition insert_text_header :: "string \<Rightarrow> string \<Rightarrow> api_response \<Rightarrow> api_response" where
  "insert_text_header name v response =
     (if header_text v then response\<lparr>ar_headers := header_insert name v (ar_headers response)\<rparr> else response)"

definition REQUEST_ID_HEADER :: string where
  "REQUEST_ID_HEADER = ''x-request-id''"

text \<open>\<open>(status, Json(body)).into_response()\<close>.\<close>

definition json_response :: "nat \<Rightarrow> json \<Rightarrow> api_response" where
  "json_response status body =
     \<lparr>ar_status = status, ar_headers = [(''content-type'', ''application/json'')], ar_body = body\<rparr>"

section \<open>Errors\<close>

record api_error =
  er_status :: nat
  er_code :: string
  er_message :: string
  er_hint :: "string option"
  er_provider :: "string option"
  er_reason :: "string option"
  er_provider_status :: "16 word option"
  er_request_id :: request_id
  er_retry_after :: "duration option"

fun dependency_name :: "dependency \<Rightarrow> string" where
  "dependency_name VoiceProfiles = ''voice profiles''"
| "dependency_name ProviderKeys = ''saved provider keys''"
| "dependency_name Accounts = ''Silicon Accounts''"
| "dependency_name dependency.Briefcase = ''Briefcase''"
| "dependency_name AudioStore = ''Waveform audio store''"
| "dependency_name IdempotencyStore = ''Waveform database''"
| "dependency_name AudioNormalizer = ''audio normalizer''"

fun dependency_reason :: "dependency \<Rightarrow> string" where
  "dependency_reason VoiceProfiles = ''voice_profiles''"
| "dependency_reason ProviderKeys = ''provider_keys''"
| "dependency_reason Accounts = ''accounts''"
| "dependency_reason dependency.Briefcase = ''briefcase''"
| "dependency_reason AudioStore = ''audio_store''"
| "dependency_reason IdempotencyStore = ''database''"
| "dependency_reason AudioNormalizer = ''audio_normalizer''"

definition message_for_code :: "string \<Rightarrow> string" where
  "message_for_code code =
     (if code = ''invalid_request'' then
        ''The request is malformed or contains an invalid value.''
      else if code = ''unauthenticated'' then
        ''Sign in with Silicon Accounts (Authorization: Bearer) or send a valid proof (Authorization: Proof sap_'' @ [CHR 0xE2, CHR 0x80, CHR 0xA6] @ '').''
      else if code = ''storage_authorization_required'' then
        ''Waveform has no Briefcase access for this account, so it cannot read the source file.''
      else if code = ''forbidden'' then
        ''The account is not permitted to perform this action.''
      else if code = ''payload_too_large'' then
        ''The request exceeds a synchronous service limit.''
      else if code = ''unsupported_media_type'' then
        ''The Briefcase source media type is not supported.''
      else if code = ''source_not_found'' then
        ''The referenced Briefcase file was not found.''
      else if code = ''idempotency_key_reused'' then
        ''The idempotency key is bound to a different request.''
      else if code = ''request_in_progress'' then
        ''An equivalent request is already in progress.''
      else if code = ''providers_exhausted'' then
        ''No configured speech provider returned a usable result.''
      else if code = ''dependency_contract_unavailable'' then
        ''A required dependency contract is unavailable.''
      else if code = ''dependency_unavailable'' then
        ''A required dependency is temporarily unavailable.''
      else if code = ''dependency_timeout'' then
        ''A required dependency exceeded its deadline.''
      else ''Waveform could not complete the request.'')"

definition STORAGE_HINT :: string where
  "STORAGE_HINT =
     ''The account gives it with `waveform storage approve` (or POST /api/v1/storage-authorizations with its own access token). Its first direct Waveform request also gives it, unless the account or its custodian revoked it.''"

fun waveform_status :: "waveform_error \<Rightarrow> nat" where
  "waveform_status waveform_error.InvalidRequest = 400"
| "waveform_status (waveform_error.InvalidProviderOptions _) = 400"
| "waveform_status waveform_error.Unauthenticated = 401"
| "waveform_status (waveform_error.AuthenticationFailed failure) = (if is_forbidden failure then 403 else 401)"
| "waveform_status waveform_error.Forbidden = 403"
| "waveform_status waveform_error.StorageAuthorizationRequired = 403"
| "waveform_status waveform_error.PayloadTooLarge = 413"
| "waveform_status waveform_error.UnsupportedMediaType = 415"
| "waveform_status waveform_error.SourceNotFound = 404"
| "waveform_status waveform_error.IdempotencyKeyReused = 409"
| "waveform_status (waveform_error.RequestInProgress _) = 409"
| "waveform_status waveform_error.ProvidersExhausted = 502"
| "waveform_status (waveform_error.ProviderFailed _) = 502"
| "waveform_status (waveform_error.DependencyContractUnavailable _) = 503"
| "waveform_status (waveform_error.DependencyUnavailable _) = 503"
| "waveform_status (waveform_error.DependencyTimeout _) = 504"
| "waveform_status waveform_error.Internal = 500"

text \<open>The message, hint, provider, reason and provider status of an application failure.\<close>

definition code_message :: "waveform_error \<Rightarrow> string" where
  "code_message e = message_for_code (error_code_as_str (waveform_error_code e))"

definition dependency_message :: "waveform_error \<Rightarrow> dependency \<Rightarrow> string" where
  "dependency_message e d = code_message e @ '' ('' @ dependency_name d @ '')''"

definition provider_failure_message :: "provider_error \<Rightarrow> string" where
  "provider_failure_message failure =
     provider_as_str (pe_provider failure) @ '' request failed: '' @ provider_error_message failure @
     '' Automatic fallback is off; correct the request or choose a different provider.''"

definition from_waveform :: "waveform_error \<Rightarrow> request_id \<Rightarrow> api_error" where
  "from_waveform error rid =
     (let status = waveform_status error;
          (hint, message, provider, reason, provider_status) =
            (case error of
               waveform_error.ProviderFailed failure \<Rightarrow>
                 (None, provider_failure_message failure, Some (provider_as_str (pe_provider failure)),
                  Some (case pe_reason failure of Some reason \<Rightarrow> reason
                        | None \<Rightarrow> failure_kind_as_str (pe_kind failure)),
                  pe_status failure)
             | waveform_error.InvalidProviderOptions message \<Rightarrow> (None, message, None, None, None)
             | waveform_error.AuthenticationFailed failure \<Rightarrow>
                 (Some (auth_failure_hint failure), auth_failure_message failure, None,
                  Some (auth_failure_reason failure), None)
             | waveform_error.StorageAuthorizationRequired \<Rightarrow>
                 (Some STORAGE_HINT, code_message error, None, None, None)
             | waveform_error.DependencyContractUnavailable d \<Rightarrow>
                 (None, dependency_message error d, None, Some (dependency_reason d), None)
             | waveform_error.DependencyUnavailable d \<Rightarrow>
                 (None, dependency_message error d, None, Some (dependency_reason d), None)
             | waveform_error.DependencyTimeout d \<Rightarrow>
                 (None, dependency_message error d, None, Some (dependency_reason d), None)
             | _ \<Rightarrow> (None, code_message error, None, None, None))
      in \<lparr>er_status = status, er_code = error_code_as_str (waveform_error_code error), er_message = message,
          er_hint = hint, er_provider = provider, er_reason = reason, er_provider_status = provider_status,
          er_request_id = rid,
          er_retry_after = (case waveform_error_retry_after error of
             Some d \<Rightarrow> Some d
           | None \<Rightarrow> if status = 503 then Some (secs 5) else None)\<rparr>)"

definition api_error_new :: "nat \<Rightarrow> string \<Rightarrow> string \<Rightarrow> request_id \<Rightarrow> api_error" where
  "api_error_new status code message rid =
     \<lparr>er_status = status, er_code = code, er_message = message, er_hint = None, er_provider = None,
      er_reason = None, er_provider_status = None, er_request_id = rid, er_retry_after = None\<rparr>"

definition with_retry_after :: "duration \<Rightarrow> api_error \<Rightarrow> api_error" where
  "with_retry_after d e = e\<lparr>er_retry_after := Some d\<rparr>"

definition invalid_request :: "request_id \<Rightarrow> api_error" where
  "invalid_request = api_error_new 400 ''invalid_request''
     ''The request is malformed or contains an invalid value.''"

definition invalid_options :: "string \<Rightarrow> request_id \<Rightarrow> api_error" where
  "invalid_options message = api_error_new 400 ''invalid_request'' message"

definition not_found :: "request_id \<Rightarrow> api_error" where
  "not_found = api_error_new 404 ''not_found'' ''The requested Waveform route does not exist.''"

definition method_not_allowed :: "request_id \<Rightarrow> api_error" where
  "method_not_allowed = api_error_new 405 ''method_not_allowed''
     ''The HTTP method is not supported for this route.''"

definition authentication :: "auth_failure \<Rightarrow> request_id \<Rightarrow> api_error" where
  "authentication failure rid = from_waveform (waveform_error.AuthenticationFailed failure) rid"

definition speech_runs_as_yourself :: "request_id \<Rightarrow> api_error" where
  "speech_runs_as_yourself rid =
     (api_error_new 400 ''speech_runs_as_yourself''
       (''Speech always runs as the account that calls Waveform, so `account` cannot be given here: a custodian manages a Silicon's history, settings, keys and Briefcase access, but never speaks as it.'') rid)
     \<lparr>er_hint := Some
       (''Remove ?account= and call as the account itself (a Silicon signs in with `silicon-accounts login --app waveform -q | waveform login --slt-stdin`).'')\<rparr>"

definition payload_too_large :: "request_id \<Rightarrow> api_error" where
  "payload_too_large = api_error_new 413 ''payload_too_large''
     ''The request exceeds a synchronous service limit.''"

definition overloaded_error :: "request_id \<Rightarrow> api_error" where
  "overloaded_error rid = with_retry_after (secs 1) (api_error_new 429 ''too_many_requests''
     ''Waveform is at its concurrent request limit.'' rid)"

definition request_timeout :: "request_id \<Rightarrow> api_error" where
  "request_timeout = api_error_new 504 ''request_timeout''
     ''The synchronous Waveform operation exceeded its deadline.''"

definition not_ready :: "request_id \<Rightarrow> api_error" where
  "not_ready rid = with_retry_after (secs 5) (api_error_new 503 ''not_ready''
     ''Waveform is not ready to serve speech operations.'' rid)"

definition internal_error :: "request_id \<Rightarrow> api_error" where
  "internal_error = api_error_new 500 ''internal_error'' ''Waveform could not complete the request.''"

section \<open>The error response\<close>

definition request_id_text :: "uuid_crate \<Rightarrow> request_id \<Rightarrow> string" where
  "request_id_text U rid = uuid_text U (request_uuid rid)"

definition error_body :: "uuid_crate \<Rightarrow> api_error \<Rightarrow> json" where
  "error_body U e = JObject [(''error'', JObject (
     [(''code'', JString (er_code e)), (''message'', JString (er_message e))] @
     json_member ''hint'' (map_option JString (er_hint e)) @
     [(''request_id'', JString (request_id_text U (er_request_id e)))] @
     json_member ''provider'' (map_option JString (er_provider e)) @
     json_member ''reason'' (map_option JString (er_reason e)) @
     json_member ''provider_status'' (map_option (\<lambda>s. JNumber (PosInt (unat s))) (er_provider_status e))))]"

text \<open>A retry delay is answered in whole seconds, at least one.\<close>

definition retry_seconds :: "duration \<Rightarrow> nat" where
  "retry_seconds d = max (d div secs 1) 1"

definition error_response :: "uuid_crate \<Rightarrow> api_error \<Rightarrow> api_response" where
  "error_response U e =
     (let response = insert_text_header REQUEST_ID_HEADER (request_id_text U (er_request_id e))
        (json_response (er_status e) (error_body U e)) in
      case er_retry_after e of
        Some d \<Rightarrow> insert_text_header ''retry-after'' (decimal (retry_seconds d)) response
      | None \<Rightarrow> response)"

end
