(* ===== verification/Api_Headers.thy ===== *)
theory Api_Headers
  imports Api_Error Digest
begin

text \<open>
  \<open>src/src/api/headers.rs\<close>: the strict headers of a speech operation. A header map is the list of its
  fields in order. \<open>form_urlencoded::parse\<close> and the UUIDv7 generator are parameters.
\<close>

datatype header_error =
    MissingHeader string
  | InvalidHeader string
  | DuplicateHeader string
  | Credentials auth_failure
  | InvalidIdempotencyKey

record speech_headers =
  sh_request_id :: request_id
  sh_credentials :: inbound_credentials
  sh_idempotency_key :: idempotency_key

definition RETIRED_HEADERS :: "string list" where
  "RETIRED_HEADERS = [''x-iam-obo-access-token'', ''x-iam-obo-access-proof'', ''x-app-id'']"

definition get_all :: "header_map \<Rightarrow> string \<Rightarrow> string list" where
  "get_all headers name = map snd (filter (\<lambda>(n, _). n = name) headers)"

definition optional_header :: "header_map \<Rightarrow> string \<Rightarrow> (string option, header_error) result" where
  "optional_header headers name =
     (case get_all headers name of
        [] \<Rightarrow> Ok None
      | [v] \<Rightarrow> if header_text v then Ok (Some v) else Err (InvalidHeader name)
      | _ \<Rightarrow> Err (DuplicateHeader name))"

definition required_header :: "header_map \<Rightarrow> string \<Rightarrow> (string, header_error) result" where
  "required_header headers name =
     and_then (optional_header headers name) (\<lambda>v. ok_or v (MissingHeader name))"

text \<open>The value of the one authorization header.\<close>

definition credential_of :: "string \<Rightarrow> (inbound_credentials, auth_failure) result" where
  "credential_of v =
     (case split_ascii_whitespace v of
        [scheme, token] \<Rightarrow>
          if eq_ignore_ascii_case scheme ''bearer'' then
            map_err (\<lambda>_. MalformedAuthorization) (map_ok Bearer (access_token_new token))
          else if eq_ignore_ascii_case scheme ''proof'' then
            map_err (\<lambda>_. MalformedAuthorization) (map_ok Proof (proof_token_new token))
          else Err MalformedAuthorization
      | _ \<Rightarrow> Err MalformedAuthorization)"

definition parse_credentials :: "header_map \<Rightarrow> (inbound_credentials, auth_failure) result" where
  "parse_credentials headers =
     (if \<exists>name \<in> set RETIRED_HEADERS. get_all headers name \<noteq> [] then Err RetiredCredentials
      else and_then (map_err (\<lambda>_. MalformedAuthorization) (optional_header headers ''authorization'')) (\<lambda>found.
        and_then (ok_or found MissingCredentials) credential_of))"

definition parse_idempotency_key :: "string \<Rightarrow> (idempotency_key, header_error) result" where
  "parse_idempotency_key v =
     (if \<not> (8 \<le> length v \<and> length v \<le> 255) \<or> \<not> (\<forall>c \<in> set v. is_ascii_graphic c) then Err InvalidIdempotencyKey
      else map_err (\<lambda>_. InvalidIdempotencyKey) (idempotency_key_from_str v))"

text \<open>\<open>form_urlencoded::parse\<close> on the query as it was sent.\<close>

definition names_an_account :: "(string \<Rightarrow> (string \<times> string) list) \<Rightarrow> string option \<Rightarrow> bool" where
  "names_an_account form_parse query =
     (case query of None \<Rightarrow> False | Some q \<Rightarrow> \<exists>(name, _) \<in> set (form_parse q). name = ''account'')"

section \<open>The request id\<close>

text \<open>A generated id is never nil: the fallback of a nil UUID is the UUID 1.\<close>

definition generated_request_id :: "('w, uuid) state \<Rightarrow> ('w, request_id) state" where
  "generated_request_id now_v7 = State_Monad.bind now_v7 (\<lambda>u.
     State_Monad.return (case request_id_new u of Ok rid \<Rightarrow> rid | Err _ \<Rightarrow> RequestId 1))"

definition sent_request_id :: "uuid_crate \<Rightarrow> header_map \<Rightarrow> request_id option" where
  "sent_request_id U headers =
     (case optional_header headers REQUEST_ID_HEADER of
        Ok (Some v) \<Rightarrow> (case request_id_from_str U v of Ok rid \<Rightarrow> Some rid | Err _ \<Rightarrow> None)
      | _ \<Rightarrow> None)"

definition header_request_id :: "uuid_crate \<Rightarrow> ('w, uuid) state \<Rightarrow> header_map \<Rightarrow> ('w, request_id) state" where
  "header_request_id U now_v7 headers =
     (case sent_request_id U headers of
        Some rid \<Rightarrow> State_Monad.return rid
      | None \<Rightarrow> generated_request_id now_v7)"

text \<open>The request id is read last, so that a refused request generates none here.\<close>

definition parse_speech_headers ::
    "uuid_crate \<Rightarrow> ('w, uuid) state \<Rightarrow> header_map \<Rightarrow> ('w, speech_headers, header_error) call" where
  "parse_speech_headers U now_v7 headers =
     try_call (lift_result (map_err Credentials (parse_credentials headers))) (\<lambda>credentials.
     try_call (lift_result (and_then (required_header headers ''idempotency-key'') parse_idempotency_key)) (\<lambda>key.
     State_Monad.bind (header_request_id U now_v7 headers) (\<lambda>rid.
     done_with \<lparr>sh_request_id = rid, sh_credentials = credentials, sh_idempotency_key = key\<rparr>)))"

end
