(* ===== verification/Control.thy ===== *)
theory Control
  imports Authenticator Briefcase Held_Audio Idempotency_Store Api_Headers
begin

text \<open>
  \<open>src/src/control/mod.rs\<close>: what every route of the control API shares. The tables are those of the
  production plane (every statement names the nil plane). A statement outside a transaction, and a
  transaction, is one atomic step at one reading of \<open>now()\<close>, before which other sessions and tasks of any
  replica run (\<open>kc_others\<close>); it may fail, and its acknowledgement may get lost. The account directory and
  the Briefcase proofs are the states of \<open>Directory\<close> and \<open>Storage_Proofs\<close>.
\<close>

section \<open>Tables\<close>

record defaults_row =
  df_tts_order :: json
  df_stt_order :: json
  df_voice_profile :: string

text \<open>By org and storage key; provider keys by org, storage key and provider.\<close>

record preference_row =
  pf_tts_order :: "json option"
  pf_stt_order :: "json option"
  pf_voice_profile :: "string option"
  pf_updated_at :: instant

record provider_key_row =
  pk_secret_cipher :: bytes
  pk_updated_at :: instant

record report_row =
  rp_org :: string
  rp_actor :: uuid
  rp_key :: string
  rp_payload :: json
  rp_status :: string
  rp_attempts :: nat
  rp_next_attempt_at :: instant
  rp_created_at :: instant
  rp_sent_at :: "instant option"

record contract_row =
  cw_contract_version :: string
  cw_state :: string
  cw_successor :: "string option"
  cw_deprecated_at :: "instant option"
  cw_last_request_at :: "instant option"
  cw_sunset_at :: "instant option"

type_synonym contract_table = "(string, contract_row) fmap"

type_synonym report_table = "(uuid, report_row) fmap"

record plane =
  pl_defaults :: "defaults_row option"
  pl_preferences :: "(string \<times> uuid, preference_row) fmap"
  pl_keys :: "(string \<times> uuid \<times> string, provider_key_row) fmap"
  pl_profiles :: "(string, json) fmap"
  pl_reports :: report_table
  pl_contracts :: contract_table
  pl_jobs :: db
  pl_held :: held_table

section \<open>Errors\<close>

record control_error =
  ke_status :: nat
  ke_code :: string
  ke_message :: string
  ke_hint :: "string option"
  ke_reason :: "string option"
  ke_retry_after :: "nat option"

definition control_error_new :: "nat \<Rightarrow> string \<Rightarrow> string \<Rightarrow> control_error" where
  "control_error_new http_status code message =
     \<lparr>ke_status = http_status, ke_code = code, ke_message = message, ke_hint = None, ke_reason = None,
      ke_retry_after = None\<rparr>"

definition with_hint :: "string \<Rightarrow> control_error \<Rightarrow> control_error" where
  "with_hint hint e = e\<lparr>ke_hint := Some hint\<rparr>"

definition with_retry_seconds :: "nat \<Rightarrow> control_error \<Rightarrow> control_error" where
  "with_retry_seconds seconds e = e\<lparr>ke_retry_after := Some seconds\<rparr>"

definition bad_request :: "string \<Rightarrow> string \<Rightarrow> control_error" where
  "bad_request = control_error_new 400"

definition forbidden_error :: "string \<Rightarrow> string \<Rightarrow> control_error" where
  "forbidden_error = control_error_new 403"

definition not_found_error :: "string \<Rightarrow> string \<Rightarrow> control_error" where
  "not_found_error = control_error_new 404"

definition unavailable_error :: "string \<Rightarrow> string \<Rightarrow> control_error" where
  "unavailable_error = control_error_new 503"

definition control_speech_runs_as_yourself :: control_error where
  "control_speech_runs_as_yourself =
     with_hint ''Remove ?account= and call as the account itself (a Silicon signs in with `silicon-accounts login --app waveform -q | waveform login --slt-stdin`).''
       (bad_request ''speech_runs_as_yourself''
         ''Speech always runs as the account that calls Waveform, so `account` cannot be given here: a custodian manages a Silicon's history, settings, keys and Briefcase access, but never speaks as it or fetches its audio.'')"

definition authentication_error :: "auth_failure \<Rightarrow> control_error" where
  "authentication_error f =
     (let (http_status, code) = if is_forbidden f then (403, ''forbidden'') else (401, ''unauthenticated'')
      in (with_hint (auth_failure_hint f) (control_error_new http_status code (auth_failure_message f)))
         \<lparr>ke_reason := Some (auth_failure_reason f)\<rparr>)"

fun accounts_answer :: "accounts_error \<Rightarrow> control_error" where
  "accounts_answer (accounts_error.Rejected f) = authentication_error f"
| "accounts_answer accounts_error.Unavailable =
     unavailable_error ''dependency_unavailable'' ''Silicon Accounts is temporarily unavailable.''"
| "accounts_answer accounts_error.Timeout =
     control_error_new 504 ''dependency_timeout'' ''Silicon Accounts did not answer in time.''"

text \<open>\<open>impl From<sqlx::Error>\<close>.\<close>

definition database_error :: control_error where
  "database_error = unavailable_error ''database_unavailable'' ''Waveform's database is unavailable.''"

definition control_error_response :: "control_error \<Rightarrow> api_response" where
  "control_error_response e =
     (let response = json_response (ke_status e) (JObject [(''error'', JObject
            ([(''code'', JString (ke_code e)), (''message'', JString (ke_message e))] @
             json_member ''hint'' (map_option JString (ke_hint e)) @
             json_member ''reason'' (map_option JString (ke_reason e))))])
      in case (case ke_retry_after e of Some s \<Rightarrow> Some s | None \<Rightarrow> if ke_status e = 503 then Some 5 else None) of
           None \<Rightarrow> response
         | Some seconds \<Rightarrow>
             response\<lparr>ar_headers := header_insert ''retry-after'' (decimal seconds) (ar_headers response)\<rparr>)"

definition single_header :: "header_map \<Rightarrow> string \<Rightarrow> (string option, control_error) result" where
  "single_header headers name = map_err (\<lambda>_. bad_request ''invalid_header''
       (''Header '' @ name @ '' must be sent at most once, as visible text.'')) (optional_header headers name)"

definition retired_route :: control_error where
  "retired_route =
     with_hint (''CLIs sign in with Silicon Accounts directly (`waveform login`, or `waveform login --slt-stdin` for Silicons); apps acting for an account send Authorization: Proof sap_'' @ [CHR 0xE2, CHR 0x80, CHR 0xA6] @ ''; discovery is GET /api/v1/accounts.'')
       (control_error_new 410 ''route_retired'' ''This route was removed when Waveform moved to Silicon Accounts.'')"

section \<open>State\<close>

record 'w control_state =
  cs_plane :: plane
  cs_directory :: "'w directory_state"
  cs_proofs :: "'w proof_state"

text \<open>
  \<open>ControlState\<close> and its surroundings: RFC 3339 of the time crate and \<open>form_urlencoded::parse\<close> are
  crates.
\<close>

record mail =
  ml_token :: string
  ml_endpoint :: url

record 'w control =
  kc_authenticator :: "'w authenticator"
  kc_introspect_active :: "string \<Rightarrow> ('w, bool, accounts_error) call"
  kc_storage_proofs :: "'w storage_proofs option"
  kc_briefcase :: "'w briefcase_http"
  kc_vault :: "vault option"
  kc_vault_crates :: "'w vault_crates"
  kc_mail :: "mail option"
  kc_app_id :: string
  kc_accounts_url :: string
  kc_public_url :: string
  kc_uuid_crate :: uuid_crate
  kc_rfc3339 :: "instant \<Rightarrow> string option"
  kc_parse_rfc3339 :: "string \<Rightarrow> instant option"
  kc_form_parse :: "string \<Rightarrow> (string \<times> string) list"
  kc_uuid_v4 :: "('w, uuid) state"
  kc_uuid_v7 :: "('w, uuid) state"
  kc_db_now :: "('w, instant) state"
  kc_commit :: "('w, commit_outcome) state"
  kc_others :: "('w control_state, unit) state"

type_synonym ('w, 'a) control_call = "('w control_state, 'a, control_error) call"

definition in_directory :: "('w directory_state, 'a) state \<Rightarrow> ('w control_state, 'a) state" where
  "in_directory action = State (\<lambda>s. case run_state action (cs_directory s) of (x, d) \<Rightarrow> (x, s\<lparr>cs_directory := d\<rparr>))"

text \<open>The proofs share the world of the directory.\<close>

definition in_proofs :: "('w proof_state, 'a) state \<Rightarrow> ('w control_state, 'a) state" where
  "in_proofs action = State (\<lambda>s.
     case run_state action ((cs_proofs s)\<lparr>px_world := ds_world (cs_directory s)\<rparr>) of
       (x, p) \<Rightarrow> (x, s\<lparr>cs_proofs := p, cs_directory := (cs_directory s)\<lparr>ds_world := px_world p\<rparr>\<rparr>))"

definition in_control_world :: "('w, 'a) state \<Rightarrow> ('w control_state, 'a) state" where
  "in_control_world action = in_directory (in_directory_world action)"

lemma run_in_directory [run_simps]:
  "run_state (in_directory action) s = (case run_state action (cs_directory s) of (x, d) \<Rightarrow> (x, s\<lparr>cs_directory := d\<rparr>))"
  by (simp add: in_directory_def)

lemma run_in_proofs [run_simps]:
  "run_state (in_proofs action) s =
     (case run_state action ((cs_proofs s)\<lparr>px_world := ds_world (cs_directory s)\<rparr>) of
        (x, p) \<Rightarrow> (x, s\<lparr>cs_proofs := p, cs_directory := (cs_directory s)\<lparr>ds_world := px_world p\<rparr>\<rparr>))"
  by (simp add: in_proofs_def)

text \<open>
  A statement or a transaction on the plane's tables: \<open>Err\<close> rolls it back. A failed statement or
  commit is \<open>NotCommitted\<close>.
\<close>

definition on_plane ::
    "'w control \<Rightarrow> (instant \<Rightarrow> plane \<Rightarrow> ('a \<times> plane, control_error) result) \<Rightarrow> ('w, 'a) control_call" where
  "on_plane C body =
     State_Monad.bind (kc_others C) (\<lambda>_.
     State_Monad.bind (in_control_world (kc_db_now C)) (\<lambda>now.
     State_Monad.bind (in_control_world (kc_commit C)) (\<lambda>outcome.
     if outcome = commit_outcome.NotCommitted then throw database_error
     else State_Monad.bind (State (\<lambda>s. (cs_plane s, s))) (\<lambda>p.
       case body now p of
         Err e \<Rightarrow> throw e
       | Ok (x, p') \<Rightarrow>
           State_Monad.bind (State (\<lambda>s. ((), s\<lparr>cs_plane := p'\<rparr>))) (\<lambda>_.
           if outcome = commit_outcome.Committed then done_with x else throw database_error)))))"

definition read_plane ::
    "'w control \<Rightarrow> (instant \<Rightarrow> plane \<Rightarrow> ('a, control_error) result) \<Rightarrow> ('w, 'a) control_call" where
  "read_plane C body = on_plane C (\<lambda>now p. map_ok (\<lambda>x. (x, p)) (body now p))"

section \<open>Callers and targets\<close>

record caller =
  ca_actor :: authorized_actor
  ca_credentials :: inbound_credentials
  ca_record :: account_record

record target =
  tg_record :: account_record
  tg_as_custodian :: bool

definition vault_of :: "'w control \<Rightarrow> (vault, control_error) result" where
  "vault_of C = ok_or (kc_vault C) (unavailable_error ''secret_storage_unavailable''
     ''Waveform has no WAVEFORM_ENCRYPTION_KEY configured, so it cannot store secrets.'')"

definition storage_proofs_of :: "'w control \<Rightarrow> ('w storage_proofs, control_error) result" where
  "storage_proofs_of C = ok_or (kc_storage_proofs C) (unavailable_error ''secret_storage_unavailable''
     ''Waveform has no WAVEFORM_ENCRYPTION_KEY configured, so it cannot hold Briefcase access.'')"

definition caller_of :: "'w control \<Rightarrow> header_map \<Rightarrow> waveform_action \<Rightarrow> ('w, caller) control_call" where
  "caller_of C headers action =
     try_call (lift_result (map_err authentication_error (parse_credentials headers))) (\<lambda>credentials.
     State_Monad.bind (in_control_world (header_request_id (kc_uuid_crate C) (kc_uuid_v7 C) headers)) (\<lambda>rid.
     try_call (on_err accounts_answer (in_directory (authenticator_authorize (kc_authenticator C)
         \<lparr>ar_credentials = credentials, ar_action = action, ar_request_id = rid\<rparr>))) (\<lambda>a.
     try_call (on_err (\<lambda>_. database_error)
         (in_directory (load (au_directory (kc_authenticator C)) (ref_uuid (aa_account a))))) (\<lambda>found.
     try_call (lift_result (ok_or found
         (unavailable_error ''database_unavailable'' ''The account record is missing.''))) (\<lambda>r.
     done_with \<lparr>ca_actor = a, ca_credentials = credentials, ca_record = r\<rparr>)))))"

definition ensure_live :: "'w control \<Rightarrow> caller \<Rightarrow> ('w, unit) control_call" where
  "ensure_live C c =
     (case ca_credentials c of
        Bearer token \<Rightarrow>
          try_call (on_err accounts_answer (in_control_world (kc_introspect_active C (access_secret token)))) (\<lambda>active.
          if active then done_with () else throw (authentication_error TokenInactive))
      | inbound_credentials.Proof _ \<Rightarrow> done_with ())"

definition fresh_caller :: "'w control \<Rightarrow> header_map \<Rightarrow> waveform_action \<Rightarrow> ('w, caller) control_call" where
  "fresh_caller C headers action =
     try_call (caller_of C headers action) (\<lambda>c. try_call (ensure_live C c) (\<lambda>_. done_with c))"

definition display_id :: "caller \<Rightarrow> string" where
  "display_id c = (case cr_current_id (ca_record c) of Some i \<Rightarrow> i | None \<Rightarrow> account_uuid_str (cr_uuid (ca_record c)))"

definition not_custodian :: "caller \<Rightarrow> string \<Rightarrow> control_error" where
  "not_custodian c selector = forbidden_error ''not_custodian''
     (display_id c @ '' is not the custodian of '' @ selector @
      ''. Only a Silicon's custodian can manage its Waveform history, settings, keys and Briefcase access.'')"

definition lookup_limit :: control_error where
  "lookup_limit = with_retry_seconds 60
     (with_hint ''Wait a minute and retry, or name a Silicon by the uuid `waveform silicons` (GET /api/v1/silicons) shows; a Silicon Waveform already knows needs no lookup.''
       (control_error_new 429 ''account_lookup_limit''
         ''Naming this account needs a lookup at Silicon Accounts, and you reached the limit of 30 such lookups a minute.''))"

text \<open>\<open>selector.map(str::trim).filter(|value| !value.is_empty())\<close>.\<close>

definition given_selector :: "string option \<Rightarrow> string option" where
  "given_selector selector =
     (case map_option str_trim selector of Some s \<Rightarrow> if s = [] then None else Some s | None \<Rightarrow> None)"

definition names_itself :: "account_record \<Rightarrow> string \<Rightarrow> bool" where
  "names_itself r selector \<longleftrightarrow> selector = account_uuid_str (cr_uuid r) \<or> cr_current_id r = Some selector"

definition target_of :: "'w control \<Rightarrow> caller \<Rightarrow> string option \<Rightarrow> confirm \<Rightarrow> ('w, target) control_call" where
  "target_of C c selector confirm =
     (let own = \<lparr>tg_record = ca_record c, tg_as_custodian = False\<rparr> in
      case given_selector selector of
        None \<Rightarrow> done_with own
      | Some s \<Rightarrow>
          if names_itself (ca_record c) s then done_with own
          else if cr_kind (ca_record c) \<noteq> Carbon then throw (not_custodian c s)
          else try_call (on_err accounts_answer (in_directory (select_for_custodian
                 (au_directory (kc_authenticator C)) (cr_uuid (ca_record c)) s confirm))) (\<lambda>selected.
            case selected of
              Custodian r \<Rightarrow> done_with \<lparr>tg_record = r, tg_as_custodian = True\<rparr>
            | NotCustodian \<Rightarrow> throw (not_custodian c s)
            | selection.NotFound \<Rightarrow> throw (not_found_error ''account_not_found''
                (''No Silicon Accounts account has the id or uuid '' @ s @ ''.''))
            | Throttled \<Rightarrow> throw lookup_limit))"

definition SWEEP_BATCH :: nat where
  "SWEEP_BATCH = 50"

definition control_sweep :: "'w control \<Rightarrow> ('w, sweep_report) control_call" where
  "control_sweep C = on_err (\<lambda>_. database_error)
     (in_directory (sweep (au_directory (kc_authenticator C)) SWEEP_BATCH))"

text \<open>How every account route starts: the caller, and the account it acts on.\<close>

definition caller_and_target ::
    "'w control \<Rightarrow> header_map \<Rightarrow> string option \<Rightarrow> bool \<Rightarrow> confirm \<Rightarrow> ('w, caller \<times> target) control_call" where
  "caller_and_target C headers account live confirm =
     try_call ((if live then fresh_caller else caller_of) C headers ManageAccount) (\<lambda>c.
     try_call (target_of C c account confirm) (\<lambda>t. done_with (c, t)))"

definition target_key :: "target \<Rightarrow> uuid" where
  "target_key t = cr_storage_key (tg_record t)"

text \<open>\<open>{"uuid", "id"}\<close> of an account in an answer.\<close>

definition account_member :: "account_record \<Rightarrow> json" where
  "account_member r = JObject [(''uuid'', JString (account_uuid_str (cr_uuid r))),
     (''id'', json_text (cr_current_id r))]"

definition answered :: "('a \<Rightarrow> api_response) \<Rightarrow> ('w, 'a) control_call \<Rightarrow> ('w control_state, api_response) state" where
  "answered f action = State_Monad.bind action (\<lambda>r.
     State_Monad.return (case r of Ok x \<Rightarrow> f x | Err e \<Rightarrow> control_error_response e))"

end
