(* ===== verification/Api_Model.thy ===== *)
theory Api_Model
  imports Api_Error Speech
begin

text \<open>
  \<open>src/src/api/model.rs\<close>: what the derived deserializers accept of a request body (here and in
  \<open>domain/tts_options.rs\<close>, \<open>provider_keys.rs\<close>), its validation into the domain, and the JSON of the
  answers. A body is read from its parsed JSON; an array given for a struct is refused.
\<close>

section \<open>Reading\<close>

text \<open>\<open>#[serde(deny_unknown_fields)]\<close>.\<close>

definition only_fields :: "string list \<Rightarrow> json \<Rightarrow> bool" where
  "only_fields names v = (case v of JObject members \<Rightarrow> set (map fst members) \<subseteq> set names | _ \<Rightarrow> False)"

definition as_bool :: "json \<Rightarrow> bool option" where
  "as_bool v = (case v of JBool b \<Rightarrow> Some b | _ \<Rightarrow> None)"

definition provider_named :: "string \<Rightarrow> provider_name option" where
  "provider_named s =
     (if s = ''gemini'' then Some provider_name.Gemini else if s = ''elevenlabs'' then Some provider_name.ElevenLabs
      else if s = ''openai'' then Some provider_name.OpenAi else if s = ''deepgram'' then Some provider_name.Deepgram
      else None)"

text \<open>A unit variant is its name, or an object of its name with \<open>null\<close>.\<close>

definition read_provider_name :: "json \<Rightarrow> provider_name option" where
  "read_provider_name v = (case v of
     JString s \<Rightarrow> provider_named s
   | JObject [(s, JNull)] \<Rightarrow> provider_named s
   | _ \<Rightarrow> None)"

text \<open>\<open>HashMap<ProviderName, SecretString>\<close>: a repeated key keeps its last value.\<close>

definition key_member :: "string \<times> json \<Rightarrow> (provider_name \<times> string) option" where
  "key_member m = Option.bind (provider_named (fst m)) (\<lambda>p. map_option (Pair p) (as_str (snd m)))"

definition read_provider_keys :: "json \<Rightarrow> provider_api_keys option" where
  "read_provider_keys v = (case v of
     JObject members \<Rightarrow> Option.bind (those (map key_member members)) (\<lambda>keys.
       case keys_deserialize (map_of (rev keys)) of Ok ks \<Rightarrow> Some ks | Err _ \<Rightarrow> None)
   | _ \<Rightarrow> None)"

definition read_gemini_options :: "json \<Rightarrow> gemini_tts_options option" where
  "read_gemini_options v =
     (if \<not> only_fields [''voice'', ''scene'', ''audio_profile'', ''director_notes'', ''sample_context''] v then None
      else Option.bind (optional_field [''voice''] as_str v) (\<lambda>voice.
      Option.bind (optional_field [''scene''] as_str v) (\<lambda>scene.
      Option.bind (optional_field [''audio_profile''] as_str v) (\<lambda>profile.
      Option.bind (optional_field [''director_notes''] as_str v) (\<lambda>notes.
      Option.bind (optional_field [''sample_context''] as_str v) (\<lambda>sample.
      Some \<lparr>gm_voice = voice, gm_scene = scene, gm_audio_profile = profile, gm_director_notes = notes,
            gm_sample_context = sample\<rparr>))))))"

definition ELEVENLABS_FIELDS :: "string list" where
  "ELEVENLABS_FIELDS = [''voice_id'', ''model_id'', ''stability'', ''similarity_boost'', ''style'', ''speed'',
     ''use_speaker_boost'', ''seed'', ''previous_text'', ''next_text'', ''apply_text_normalization'']"

definition read_eleven_labs_options :: "json \<Rightarrow> eleven_labs_tts_options option" where
  "read_eleven_labs_options v =
     (if \<not> only_fields ELEVENLABS_FIELDS v then None
      else Option.bind (optional_field [''voice_id''] as_str v) (\<lambda>voice.
      Option.bind (optional_field [''model_id''] as_str v) (\<lambda>model.
      Option.bind (optional_field [''stability''] read_f64 v) (\<lambda>stability.
      Option.bind (optional_field [''similarity_boost''] read_f64 v) (\<lambda>similarity.
      Option.bind (optional_field [''style''] read_f64 v) (\<lambda>style.
      Option.bind (optional_field [''speed''] read_f64 v) (\<lambda>speed.
      Option.bind (optional_field [''use_speaker_boost''] as_bool v) (\<lambda>boost.
      Option.bind (optional_field [''seed''] (read_uint 4294967295) v) (\<lambda>seed.
      Option.bind (optional_field [''previous_text''] as_str v) (\<lambda>previous.
      Option.bind (optional_field [''next_text''] as_str v) (\<lambda>next_text.
      Option.bind (optional_field [''apply_text_normalization''] as_str v) (\<lambda>normalization.
      Some \<lparr>el_voice_id = voice, el_model_id = model, el_stability = stability,
            el_similarity_boost = similarity, el_style = style, el_speed = speed, el_use_speaker_boost = boost,
            el_seed = map_option of_nat seed, el_previous_text = previous, el_next_text = next_text,
            el_apply_text_normalization = normalization\<rparr>))))))))))))"

definition read_open_ai_options :: "json \<Rightarrow> open_ai_tts_options option" where
  "read_open_ai_options v =
     (if \<not> only_fields [''voice'', ''model'', ''instructions'', ''speed''] v then None
      else Option.bind (optional_field [''voice''] as_str v) (\<lambda>voice.
      Option.bind (optional_field [''model''] as_str v) (\<lambda>model.
      Option.bind (optional_field [''instructions''] as_str v) (\<lambda>instructions.
      Option.bind (optional_field [''speed''] read_f64 v) (\<lambda>speed.
      Some \<lparr>oa_voice = voice, oa_model = model, oa_instructions = instructions, oa_speed = speed\<rparr>)))))"

definition read_tts_options :: "json \<Rightarrow> tts_provider_options option" where
  "read_tts_options v =
     (if \<not> only_fields [''gemini'', ''elevenlabs'', ''openai''] v then None
      else Option.bind (optional_field [''gemini''] read_gemini_options v) (\<lambda>gemini.
      Option.bind (optional_field [''elevenlabs''] read_eleven_labs_options v) (\<lambda>elevenlabs.
      Option.bind (optional_field [''openai''] read_open_ai_options v) (\<lambda>openai.
      Some \<lparr>po_gemini = gemini, po_elevenlabs = elevenlabs, po_openai = openai\<rparr>))))"

record tts_request_body =
  tb_auto_fallback :: bool
  tb_provider_options :: tts_provider_options
  tb_provider_keys :: provider_api_keys
  tb_text :: string
  tb_voice_profile :: "string option"
  tb_lang :: "string option"
  tb_provider_order :: "provider_name list option"

record stt_request_body =
  sb_provider_keys :: provider_api_keys
  sb_file_url :: string
  sb_language :: "string option"
  sb_provider_order :: "provider_name list option"

definition read_tts_body :: "json \<Rightarrow> tts_request_body option" where
  "read_tts_body v =
     (if \<not> only_fields [''auto_fallback'', ''provider_options'', ''provider_keys'', ''text'', ''voice_profile'', ''lang'',
         ''provider_order''] v then None
      else Option.bind (default_field [''auto_fallback''] False as_bool v) (\<lambda>fallback.
      Option.bind (default_field [''provider_options''] tts_options_default read_tts_options v) (\<lambda>options.
      Option.bind (default_field [''provider_keys''] no_provider_keys read_provider_keys v) (\<lambda>keys.
      Option.bind (required_field [''text''] as_str v) (\<lambda>text.
      Option.bind (optional_field [''voice_profile''] as_str v) (\<lambda>profile.
      Option.bind (optional_field [''lang''] as_str v) (\<lambda>lang.
      Option.bind (optional_field [''provider_order''] (read_vec read_provider_name) v) (\<lambda>order.
      Some \<lparr>tb_auto_fallback = fallback, tb_provider_options = options, tb_provider_keys = keys, tb_text = text,
            tb_voice_profile = profile, tb_lang = lang, tb_provider_order = order\<rparr>))))))))"

definition read_stt_body :: "json \<Rightarrow> stt_request_body option" where
  "read_stt_body v =
     (if \<not> only_fields [''provider_keys'', ''file_url'', ''language'', ''provider_order''] v then None
      else Option.bind (default_field [''provider_keys''] no_provider_keys read_provider_keys v) (\<lambda>keys.
      Option.bind (required_field [''file_url''] as_str v) (\<lambda>file_url.
      Option.bind (optional_field [''language''] as_str v) (\<lambda>language.
      Option.bind (optional_field [''provider_order''] (read_vec read_provider_name) v) (\<lambda>order.
      Some \<lparr>sb_provider_keys = keys, sb_file_url = file_url, sb_language = language,
            sb_provider_order = order\<rparr>)))))"

section \<open>Validation\<close>

datatype request_body_error =
    InvalidProviderOptions string
  | InvalidVoiceProfile
  | Speech speech_validation_error
  | Language language_hint_error
  | Media media_error
  | InvalidFileUrl

text \<open>\<open>Option::map(..).transpose()\<close>.\<close>

definition transposed :: "('a \<Rightarrow> ('b, 'e) result) \<Rightarrow> 'a option \<Rightarrow> ('b option, 'e) result" where
  "transposed f v = (case v of None \<Rightarrow> Ok None | Some x \<Rightarrow> map_ok Some (f x))"

definition with_tts_order :: "provider_name list option \<Rightarrow> tts_request \<Rightarrow> tts_request" where
  "with_tts_order order request = (case order of Some ps \<Rightarrow> request\<lparr>tq_provider_order := Some ps\<rparr> | None \<Rightarrow> request)"

definition tts_into_domain :: "tts_request_body \<Rightarrow> (tts_request, request_body_error) result" where
  "tts_into_domain b =
     and_then (map_err Speech (speech_text_new (tb_text b))) (\<lambda>text.
     and_then (map_err Language (transposed language_hint_from_str (tb_lang b))) (\<lambda>language.
     if (case tb_voice_profile b of Some v \<Rightarrow> \<not> valid_profile_id v | None \<Rightarrow> False) then Err InvalidVoiceProfile
     else and_then (map_err Speech (tts_request_new text language)) (\<lambda>request.
     if tb_auto_fallback b \<and> \<not> tts_options_is_empty (tb_provider_options b) then
       Err (InvalidProviderOptions ''Provider-specific controls require auto_fallback=false.'')
     else if \<not> supports_only (tb_provider_keys b) TTS_PROVIDER_CHAIN then
       Err (InvalidProviderOptions ''A TTS request accepts keys only for gemini, elevenlabs and openai.'')
     else Ok (with_tts_order (tb_provider_order b) (request
       \<lparr>tq_auto_fallback := tb_auto_fallback b, tq_provider_options := tb_provider_options b,
        tq_provider_keys := tb_provider_keys b, tq_voice_profile := tb_voice_profile b\<rparr>)))))"

definition with_stt_order :: "provider_name list option \<Rightarrow> stt_request \<Rightarrow> stt_request" where
  "with_stt_order order request = (case order of Some ps \<Rightarrow> request\<lparr>sq_provider_order := Some ps\<rparr> | None \<Rightarrow> request)"

definition stt_into_domain :: "url_crate \<Rightarrow> stt_request_body \<Rightarrow> (stt_request, request_body_error) result" where
  "stt_into_domain U b =
     and_then (and_then (ok_or (url_parse U (sb_file_url b)) InvalidFileUrl)
       (\<lambda>u. map_err Media (briefcase_file_url_new u))) (\<lambda>source_url.
     and_then (map_err Language (transposed language_hint_from_str (sb_language b))) (\<lambda>language.
     if \<not> supports_only (sb_provider_keys b) STT_PROVIDER_CHAIN then
       Err (InvalidProviderOptions ''An STT request accepts keys only for gemini, openai and deepgram.'')
     else and_then (map_err Speech (stt_request_new source_url language)) (\<lambda>request.
     Ok (with_stt_order (sb_provider_order b) (request\<lparr>sq_provider_keys := sb_provider_keys b\<rparr>)))))"

section \<open>Answers\<close>

definition json_option :: "('a \<Rightarrow> json) \<Rightarrow> 'a option \<Rightarrow> json" where
  "json_option f v = (case v of Some x \<Rightarrow> f x | None \<Rightarrow> JNull)"

definition json_int :: "int \<Rightarrow> json" where
  "json_int i = JNumber (if 0 \<le> i then PosInt (nat i) else NegInt i)"

definition profile_ref_json :: "voice_profile_ref \<Rightarrow> json" where
  "profile_ref_json r = JObject [(''id'', JString (vr_id r)), (''revision'', json_int (sint (vr_revision r)))]"

text \<open>\<open>rfc3339\<close> is \<open>OffsetDateTime::format\<close>, which may fail.\<close>

definition storage_body :: "(instant \<Rightarrow> string option) \<Rightarrow> audio_storage \<Rightarrow> json" where
  "storage_body rfc3339 st = (case st of
     audio_storage.Briefcase _ \<Rightarrow> JObject [(''status'', JString ''stored'')]
   | Held reason _ expires_at \<Rightarrow> JObject (
       [(''status'', JString ''held''), (''reason'', JString (held_reason_as_str reason)),
        (''message'', JString (held_reason_message reason))] @
       json_member ''expires_at'' (map_option JString (rfc3339 expires_at))))"

definition tts_response_body ::
    "uuid_crate \<Rightarrow> url_crate \<Rightarrow> (instant \<Rightarrow> string option) \<Rightarrow> tts_result \<Rightarrow> json" where
  "tts_response_body U L rfc3339 result = JObject
     [(''voice_profile'', json_option profile_ref_json (tr_voice_profile result)),
      (''request_id'', JString (request_id_text U (tr_request_id result))),
      (''file_url'', (case tr_storage result of audio_storage.Briefcase f \<Rightarrow> JString (url_text L (as_url f)) | _ \<Rightarrow> JNull)),
      (''temporary_url'', JNull),
      (''audio_url'', (case tr_storage result of Held _ u _ \<Rightarrow> JString (url_text L u) | _ \<Rightarrow> JNull)),
      (''storage'', storage_body rfc3339 (tr_storage result)),
      (''media_type'', JString (tts_output_mime (tr_output_format result))),
      (''provider'', JString (provider_as_str (tr_provider result))),
      (''duration_ms'', JNumber (PosInt (unat (as_millis (tr_duration result)))))]"

definition stt_response_body :: "uuid_crate \<Rightarrow> stt_result \<Rightarrow> json" where
  "stt_response_body U result = JObject
     [(''request_id'', JString (request_id_text U (sr_request_id result))),
      (''transcript'', JString (transcript_str (sr_transcript result))),
      (''detected_language'', json_option (\<lambda>l. JString (hint_str l)) (sr_detected_language result)),
      (''provider'', JString (provider_as_str (sr_provider result))),
      (''duration_ms'', json_option (\<lambda>d. JNumber (PosInt (unat (as_millis d)))) (sr_duration result))]"

definition json_strings :: "string list \<Rightarrow> json" where
  "json_strings ss = JArray (map JString ss)"

text \<open>\<open>byok\<close> and \<open>provider_options\<close> are JSON values, whose members are kept in the order of their keys.\<close>

definition capabilities_body :: "capabilities \<Rightarrow> json" where
  "capabilities_body c = JObject
     [(''tts'', JObject
        [(''auto_fallback_default'', JBool False),
         (''provider_options'', JObject
           [(''elevenlabs'', json_strings ELEVENLABS_FIELDS),
            (''gemini'', json_strings [''voice'', ''scene'', ''audio_profile'', ''director_notes'', ''sample_context'']),
            (''openai'', json_strings [''voice'', ''model'', ''instructions'', ''speed''])]),
         (''output_format'', JString (tts_output_as_str (tc_output_format (cap_tts c)))),
         (''languages'', json_strings (tc_languages (cap_tts c)))]),
      (''stt'', JObject
        [(''languages'', json_strings (sc_languages (cap_stt c))),
         (''accepted_media_types'', json_strings (map as_mime_str (sc_accepted_media_types (cap_stt c))))]),
      (''byok'', JObject
        [(''per_request'', JBool True), (''precedence'', json_strings [''request'', ''saved'', ''shared'']),
         (''saved'', JBool True)])]"

end
