(* ===== verification/Account_Settings.thy ===== *)
theory Account_Settings
  imports Control Api_Model "HOL-Library.Product_Lexorder"
begin

text \<open>
  \<open>src/src/control/accounts.rs\<close> and \<open>src/src/control/voices.rs\<close>: an account's provider order, default voice
  and provider keys, and the ports the speech service reads them through. A row of the Accounts era has
  the org \<open>@\<close>; rows of former orgs stand in until it exists. Where SQL leaves the order of rows of the
  same time open, they are in the order of their orgs here.
\<close>

section \<open>Voice profiles\<close>

definition read_signed_32 :: "json \<Rightarrow> 32 word option" where
  "read_signed_32 v = (case v of
     JNumber (PosInt n) \<Rightarrow> if n < 2147483648 then Some (of_nat n) else None
   | JNumber (NegInt i) \<Rightarrow> if - 2147483648 \<le> i then Some (of_int i) else None
   | _ \<Rightarrow> None)"

definition read_voice_settings :: "json \<Rightarrow> eleven_labs_voice_settings option" where
  "read_voice_settings v =
     (if \<not> only_fields [''stability'', ''similarity_boost'', ''style'', ''use_speaker_boost'', ''speed''] v then None
      else Option.bind (required_field [''stability''] read_f64 v) (\<lambda>stability.
      Option.bind (required_field [''similarity_boost''] read_f64 v) (\<lambda>similarity.
      Option.bind (required_field [''style''] read_f64 v) (\<lambda>style.
      Option.bind (required_field [''use_speaker_boost''] as_bool v) (\<lambda>boost.
      Option.bind (required_field [''speed''] read_f64 v) (\<lambda>speed.
      Some \<lparr>vs_stability = stability, vs_similarity_boost = similarity, vs_style = style,
            vs_use_speaker_boost = boost, vs_speed = speed\<rparr>))))))"

definition read_eleven_labs_voice :: "json \<Rightarrow> eleven_labs_voice option" where
  "read_eleven_labs_voice v =
     (if \<not> only_fields [''voice_id'', ''model_id'', ''voice_settings''] v then None
      else Option.bind (required_field [''voice_id''] as_str v) (\<lambda>voice.
      Option.bind (required_field [''model_id''] as_str v) (\<lambda>model.
      Option.bind (required_field [''voice_settings''] read_voice_settings v) (\<lambda>settings.
      Some \<lparr>elv_voice_id = voice, elv_model_id = model, elv_voice_settings = settings\<rparr>))))"

definition read_voice_profile :: "json \<Rightarrow> voice_profile option" where
  "read_voice_profile v =
     (if \<not> only_fields [''id'', ''name'', ''description'', ''revision'', ''auditioned'', ''gemini_voice'', ''openai_voice'',
         ''elevenlabs''] v then None
      else Option.bind (required_field [''id''] as_str v) (\<lambda>i.
      Option.bind (required_field [''name''] as_str v) (\<lambda>name.
      Option.bind (required_field [''description''] as_str v) (\<lambda>description.
      Option.bind (required_field [''revision''] read_signed_32 v) (\<lambda>revision.
      Option.bind (required_field [''auditioned''] as_bool v) (\<lambda>auditioned.
      Option.bind (required_field [''gemini_voice''] as_str v) (\<lambda>gemini.
      Option.bind (required_field [''openai_voice''] as_str v) (\<lambda>openai.
      Option.bind (required_field [''elevenlabs''] read_eleven_labs_voice v) (\<lambda>eleven.
      Some \<lparr>vp_id = i, vp_name = name, vp_description = description, vp_revision = revision,
            vp_auditioned = auditioned, vp_gemini_voice = gemini, vp_openai_voice = openai,
            vp_elevenlabs = eleven\<rparr>)))))))))"

definition parse_profile :: "json \<Rightarrow> (voice_profile, control_error) result" where
  "parse_profile v =
     (let invalid = unavailable_error ''invalid_voice_mapping'' ''A stored voice profile mapping is invalid.'' in
      and_then (ok_or (read_voice_profile v) invalid) (\<lambda>p.
      if voice_profile_is_valid p then Ok p else Err invalid))"

definition voice_profile_of :: "'w control \<Rightarrow> string \<Rightarrow> ('w, voice_profile) control_call" where
  "voice_profile_of C i =
     try_call (read_plane C (\<lambda>now p. ok_or (fmlookup (pl_profiles p) i)
         (bad_request ''invalid_voice_profile''
           (''There is no voice profile '' @ i @ ''; GET /api/v1/voice-profiles lists them.'')))) (\<lambda>v.
     lift_result (parse_profile v))"

text \<open>The catalog as it is answered: every stored profile has to be valid.\<close>

definition voice_catalog :: "plane \<Rightarrow> (voice_profile list, control_error) result" where
  "voice_catalog p = collect_results (map (parse_profile \<circ> snd) (sorted_list_of_fmap (pl_profiles p)))"

definition list_voices :: "'w control \<Rightarrow> header_map \<Rightarrow> ('w, voice_profile list) control_call" where
  "list_voices C headers =
     try_call (caller_of C headers ManageAccount) (\<lambda>_.
     try_call (read_plane C (\<lambda>now p. Ok p)) (\<lambda>p. lift_result (voice_catalog p)))"

section \<open>Preferences\<close>

record preferences_body =
  pb_voice_profile :: "string option"
  pb_tts_order :: "string list option"
  pb_stt_order :: "string list option"

text \<open>\<open>resolve_order\<close> of this file: the loops of \<open>provider.rs\<close>, over names.\<close>

definition resolve_names :: "string list \<Rightarrow> string list \<Rightarrow> (string list, string) result" where
  "resolve_names requested base = ok_or (resolve_order requested base) ''invalid_provider_order''"

definition preferences_of :: "uuid \<Rightarrow> plane \<Rightarrow> (string \<times> preference_row) list" where
  "preferences_of key p = map (\<lambda>((org, _), r). (org, r))
     (filter (\<lambda>((_, actor), _). actor = key) (sorted_list_of_fmap (pl_preferences p)))"

definition newest_legacy :: "uuid \<Rightarrow> plane \<Rightarrow> preference_row option" where
  "newest_legacy key p =
     (case sort_key (\<lambda>(_, r). - pf_updated_at r) (filter (\<lambda>(org, _). org \<noteq> ACCOUNT_SCOPE) (preferences_of key p)) of
        [] \<Rightarrow> None
      | (_, r) # _ \<Rightarrow> Some r)"

text \<open>\<open>INSERT ... SELECT ... ON CONFLICT DO NOTHING\<close>.\<close>

definition first_preferences :: "uuid \<Rightarrow> instant \<Rightarrow> defaults_row \<Rightarrow> plane \<Rightarrow> preference_row" where
  "first_preferences key now d p =
     (let legacy = newest_legacy key p in
      \<lparr>pf_tts_order = Option.bind legacy pf_tts_order, pf_stt_order = Option.bind legacy pf_stt_order,
       pf_voice_profile = coalesce (Option.bind legacy pf_voice_profile) (Some (df_voice_profile d)),
       pf_updated_at = now\<rparr>)"

definition ensure_preferences_row :: "uuid \<Rightarrow> instant \<Rightarrow> plane \<Rightarrow> plane" where
  "ensure_preferences_row key now p =
     (case (pl_defaults p, fmlookup (pl_preferences p) (ACCOUNT_SCOPE, key)) of
        (Some d, None) \<Rightarrow>
          p\<lparr>pl_preferences := fmupd (ACCOUNT_SCOPE, key) (first_preferences key now d p) (pl_preferences p)\<rparr>
      | _ \<Rightarrow> p)"

definition ensure_preferences :: "'w control \<Rightarrow> uuid \<Rightarrow> ('w, unit) control_call" where
  "ensure_preferences C key = on_plane C (\<lambda>now p. Ok ((), ensure_preferences_row key now p))"

definition or_else :: "'a option \<Rightarrow> 'a \<Rightarrow> 'a" where
  "or_else v d = (case v of Some x \<Rightarrow> x | None \<Rightarrow> d)"

definition preferences_json :: "target \<Rightarrow> uuid \<Rightarrow> plane \<Rightarrow> (json, control_error) result" where
  "preferences_json t key p =
     map_ok (\<lambda>d.
       let r = fmlookup (pl_preferences p) (ACCOUNT_SCOPE, key) in JObject
         [(''account'', account_member (tg_record t)),
          (''voice_profile'', JString (or_else (Option.bind r pf_voice_profile) (df_voice_profile d))),
          (''tts_order'', or_else (Option.bind r pf_tts_order) (df_tts_order d)),
          (''stt_order'', or_else (Option.bind r pf_stt_order) (df_stt_order d)),
          (''defaults'', JObject [(''voice_profile'', JString (df_voice_profile d)),
             (''tts_order'', df_tts_order d), (''stt_order'', df_stt_order d)])])
       (ok_or (pl_defaults p) database_error)"

definition preferences :: "'w control \<Rightarrow> header_map \<Rightarrow> string option \<Rightarrow> ('w, json) control_call" where
  "preferences C headers account =
     try_call (caller_and_target C headers account False Recent) (\<lambda>(_, t).
     try_call (ensure_preferences C (target_key t)) (\<lambda>_.
     read_plane C (\<lambda>now p. preferences_json t (target_key t) p)))"

definition invalid_order :: control_error where
  "invalid_order = bad_request ''invalid_provider_order''
     ''A provider order lists each provider of that operation at most once (TTS: gemini, elevenlabs, openai; STT: gemini, openai, deepgram).''"

definition default_names :: "json \<Rightarrow> (string list, control_error) result" where
  "default_names v = ok_or (read_vec as_str v)
     (unavailable_error ''invalid_provider_defaults'' ''Waveform's stored default provider order is invalid.'')"

definition completed_order :: "json \<Rightarrow> string list option \<Rightarrow> (string list option, control_error) result" where
  "completed_order base = transposed (\<lambda>order. and_then (default_names base) (\<lambda>names.
     map_err (\<lambda>_. invalid_order) (resolve_names order names)))"

text \<open>The \<open>UPDATE ... RETURNING\<close>; a voice profile has to exist (foreign key).\<close>

definition update_preferences_row ::
    "uuid \<Rightarrow> string option \<Rightarrow> string list option \<Rightarrow> string list option \<Rightarrow> instant \<Rightarrow> plane \<Rightarrow>
     (preference_row \<times> plane, control_error) result" where
  "update_preferences_row key voice tts stt now p =
     and_then (ok_or (fmlookup (pl_preferences p) (ACCOUNT_SCOPE, key)) database_error) (\<lambda>r.
     if \<not> pred_option (\<lambda>v. fmlookup (pl_profiles p) v \<noteq> None) voice then Err database_error
     else
       let names = map_option (\<lambda>order. JArray (map JString order));
           r = \<lparr>pf_tts_order = coalesce (names tts) (pf_tts_order r), pf_stt_order = coalesce (names stt) (pf_stt_order r),
                pf_voice_profile = coalesce voice (pf_voice_profile r), pf_updated_at = now\<rparr>
       in Ok (r, p\<lparr>pl_preferences := fmupd (ACCOUNT_SCOPE, key) r (pl_preferences p)\<rparr>))"

definition checked_voice :: "'w control \<Rightarrow> string option \<Rightarrow> ('w, unit) control_call" where
  "checked_voice C voice =
     (case voice of
        None \<Rightarrow> done_with ()
      | Some i \<Rightarrow>
          if \<not> valid_profile_id i then throw (bad_request ''invalid_voice_profile''
            (i @ '' is not a voice profile id (lowercase letters, digits and hyphens).''))
          else try_call (voice_profile_of C i) (\<lambda>_. done_with ()))"

definition update_preferences ::
    "'w control \<Rightarrow> header_map \<Rightarrow> string option \<Rightarrow> preferences_body \<Rightarrow> ('w, json) control_call" where
  "update_preferences C headers account body =
     try_call (caller_and_target C headers account False Always) (\<lambda>(c, t).
     try_call (if tg_as_custodian t then ensure_live C c else done_with ()) (\<lambda>_.
     try_call (checked_voice C (pb_voice_profile body)) (\<lambda>_.
     try_call (read_plane C (\<lambda>now p. ok_or (pl_defaults p) database_error)) (\<lambda>d.
     try_call (lift_result (completed_order (df_tts_order d) (pb_tts_order body))) (\<lambda>tts.
     try_call (lift_result (completed_order (df_stt_order d) (pb_stt_order body))) (\<lambda>stt.
     try_call (ensure_preferences C (target_key t)) (\<lambda>_.
     try_call (on_plane C (update_preferences_row (target_key t) (pb_voice_profile body) tts stt)) (\<lambda>r.
     done_with (JObject
       [(''account'', account_member (tg_record t)), (''voice_profile'', json_text (pf_voice_profile r)),
        (''tts_order'', json_option (\<lambda>v. v) (pf_tts_order r)),
        (''stt_order'', json_option (\<lambda>v. v) (pf_stt_order r))])))))))))"

section \<open>Provider keys\<close>

definition key_context :: "'w control \<Rightarrow> uuid \<Rightarrow> string \<Rightarrow> string" where
  "key_context C key provider = ''account/'' @ uuid_text (kc_uuid_crate C) key @ ''/'' @ provider"

definition legacy_key_context :: "'w control \<Rightarrow> string \<Rightarrow> uuid \<Rightarrow> string \<Rightarrow> string" where
  "legacy_key_context C org key provider =
     uuid_text (kc_uuid_crate C) 0 @ ''/'' @ org @ ''/'' @ uuid_text (kc_uuid_crate C) key @ ''/'' @ provider"

definition validate_provider :: "string \<Rightarrow> (unit, control_error) result" where
  "validate_provider provider =
     (if provider \<in> {''gemini'', ''elevenlabs'', ''openai'', ''deepgram''} then Ok ()
      else Err (bad_request ''invalid_provider''
        (provider @ '' is not a provider; use gemini, elevenlabs, openai or deepgram.'')))"

text \<open>The account's keys: org, provider and row.\<close>

definition keys_of :: "uuid \<Rightarrow> plane \<Rightarrow> (string \<times> string \<times> provider_key_row) list" where
  "keys_of key p = map (\<lambda>((org, _, provider), r). (org, provider, r))
     (filter (\<lambda>((_, actor, _), _). actor = key) (sorted_list_of_fmap (pl_keys p)))"

definition provider_names_of :: "uuid \<Rightarrow> plane \<Rightarrow> string list" where
  "provider_names_of key p = sorted_list_of_set ((fst \<circ> snd) ` set (keys_of key p))"

definition rows_for :: "uuid \<Rightarrow> string \<Rightarrow> plane \<Rightarrow> (string \<times> string \<times> provider_key_row) list" where
  "rows_for key provider p = filter (\<lambda>(_, q, _). q = provider) (keys_of key p)"

definition key_item :: "'w control \<Rightarrow> uuid \<Rightarrow> plane \<Rightarrow> string \<Rightarrow> json" where
  "key_item C key p provider = JObject
     [(''provider'', JString provider), (''configured'', JBool True),
      (''updated_at'', JString (or_else (kc_rfc3339 C
         (Max ((\<lambda>(_, _, r). pk_updated_at r) ` set (rows_for key provider p)))) []))]"

definition list_provider_keys :: "'w control \<Rightarrow> header_map \<Rightarrow> string option \<Rightarrow> ('w, json) control_call" where
  "list_provider_keys C headers account =
     try_call (caller_and_target C headers account False Recent) (\<lambda>(_, t).
     try_call (read_plane C (\<lambda>now p.
         Ok (map (key_item C (target_key t) p) (provider_names_of (target_key t) p)))) (\<lambda>items.
     done_with (JObject [(''account'', account_member (tg_record t)), (''items'', JArray items)])))"

text \<open>The two statements of \<open>put_provider_key\<close>, and the one of \<open>delete_provider_key\<close>.\<close>

definition delete_key_rows :: "uuid \<Rightarrow> string \<Rightarrow> (string \<Rightarrow> bool) \<Rightarrow> plane \<Rightarrow> plane" where
  "delete_key_rows key provider orgs p =
     p\<lparr>pl_keys := fmfilter (\<lambda>(org, actor, q). \<not> (actor = key \<and> q = provider \<and> orgs org)) (pl_keys p)\<rparr>"

definition put_key_rows :: "uuid \<Rightarrow> string \<Rightarrow> bytes \<Rightarrow> instant \<Rightarrow> plane \<Rightarrow> plane" where
  "put_key_rows key provider cipher now p =
     delete_key_rows key provider (\<lambda>org. org \<noteq> ACCOUNT_SCOPE)
       (p\<lparr>pl_keys := fmupd (ACCOUNT_SCOPE, key, provider)
           \<lparr>pk_secret_cipher = cipher, pk_updated_at = now\<rparr> (pl_keys p)\<rparr>)"

definition valid_api_key :: "string \<Rightarrow> bool" where
  "valid_api_key k \<longleftrightarrow> k \<noteq> [] \<and> length k \<le> 16384 \<and> list_all is_ascii_graphic k"

definition put_provider_key ::
    "'w control \<Rightarrow> header_map \<Rightarrow> string \<Rightarrow> string option \<Rightarrow> string \<Rightarrow> ('w, nat) control_call" where
  "put_provider_key C headers provider account api_key =
     try_call (lift_result (validate_provider provider)) (\<lambda>_.
     if \<not> valid_api_key api_key then throw (bad_request ''invalid_api_key''
       ''An API key is 1 to 16384 visible ASCII characters with no spaces.'')
     else try_call (caller_and_target C headers account True Always) (\<lambda>(_, t).
       try_call (lift_result (vault_of C)) (\<lambda>v.
       try_call (on_err (\<lambda>_. unavailable_error ''secret_storage_unavailable'' ''The key could not be encrypted.'')
         (in_control_world (seal (kc_vault_crates C) v api_key (key_context C (target_key t) provider)))) (\<lambda>cipher.
       try_call (on_plane C (\<lambda>now p. Ok ((), put_key_rows (target_key t) provider cipher now p))) (\<lambda>_.
       done_with 204)))))"

definition delete_provider_key ::
    "'w control \<Rightarrow> header_map \<Rightarrow> string \<Rightarrow> string option \<Rightarrow> ('w, nat) control_call" where
  "delete_provider_key C headers provider account =
     try_call (lift_result (validate_provider provider)) (\<lambda>_.
     try_call (caller_and_target C headers account True Always) (\<lambda>(_, t).
     try_call (on_plane C (\<lambda>now p. Ok ((), delete_key_rows (target_key t) provider (\<lambda>_. True) p))) (\<lambda>_.
     done_with 204)))"

section \<open>The ports of the speech service\<close>

text \<open>\<open>DISTINCT ON (provider) ... ORDER BY provider, (org_id = '@') DESC, updated_at DESC\<close>.\<close>

definition chosen_key :: "uuid \<Rightarrow> plane \<Rightarrow> string \<Rightarrow> string \<times> string \<times> provider_key_row" where
  "chosen_key key p provider =
     hd (sort_key (\<lambda>(org, _, r). (org \<noteq> ACCOUNT_SCOPE, - pk_updated_at r)) (rows_for key provider p))"

definition key_rows :: "uuid \<Rightarrow> plane \<Rightarrow> (string \<times> string \<times> provider_key_row) list" where
  "key_rows key p = map (chosen_key key p) (provider_names_of key p)"

definition row_context :: "'w control \<Rightarrow> uuid \<Rightarrow> string \<Rightarrow> string \<Rightarrow> string" where
  "row_context C key org provider =
     (if org = ACCOUNT_SCOPE then key_context C key provider else legacy_key_context C org key provider)"

definition opened_key ::
    "'w control \<Rightarrow> uuid \<Rightarrow> string \<times> string \<times> provider_key_row \<Rightarrow> (provider_name \<times> string, provider_key_store_error) result" where
  "opened_key C key row = (case row of (org, provider, r) \<Rightarrow>
     and_then (ok_or (provider_named provider) ProviderKeyStoreError) (\<lambda>n.
     and_then (ok_or (kc_vault C) ProviderKeyStoreError) (\<lambda>v.
     map_ok (Pair n) (map_err (\<lambda>_. ProviderKeyStoreError)
       (open_sealed (kc_vault_crates C) v (pk_secret_cipher r) (row_context C key org provider))))))"

fun opened_keys ::
    "'w control \<Rightarrow> uuid \<Rightarrow> (string \<times> string \<times> provider_key_row) list \<Rightarrow> provider_keys \<Rightarrow>
     (provider_keys, provider_key_store_error) result" where
  "opened_keys C key [] keys = Ok keys"
| "opened_keys C key (row # rows) keys =
     and_then (opened_key C key row) (\<lambda>(n, k). opened_keys C key rows (keys(n := Some k)))"

definition keys_on_plane :: "'w control \<Rightarrow> uuid \<Rightarrow> plane \<Rightarrow> (provider_keys, provider_key_store_error) result" where
  "keys_on_plane C key p = opened_keys C key (key_rows key p) (\<lambda>_. None)"

definition load_keys ::
    "'w control \<Rightarrow> authorized_actor \<Rightarrow> ('w control_state, provider_keys, provider_key_store_error) call" where
  "load_keys C a =
     (let key = actor_uuid (act_id (aa_actor a)) in
      try_call (on_err (\<lambda>_. ProviderKeyStoreError) (read_plane C (\<lambda>now p. Ok (key_rows key p)))) (\<lambda>rows.
      lift_result (opened_keys C key rows (\<lambda>_. None))))"

text \<open>The stored order of the account, or the default.\<close>

definition stored_order :: "speech_operation \<Rightarrow> uuid \<Rightarrow> plane \<Rightarrow> json option" where
  "stored_order operation key p =
     map_option (\<lambda>d.
       let r = (case sort_key (\<lambda>(org, r). (org \<noteq> ACCOUNT_SCOPE, - pf_updated_at r)) (preferences_of key p) of
              [] \<Rightarrow> None | (_, r) # _ \<Rightarrow> Some r)
       in case operation of
            speech_operation.Tts \<Rightarrow> or_else (Option.bind r pf_tts_order) (df_tts_order d)
          | speech_operation.Stt \<Rightarrow> or_else (Option.bind r pf_stt_order) (df_stt_order d)) (pl_defaults p)"

definition operation_chain :: "speech_operation \<Rightarrow> provider_name list" where
  "operation_chain operation =
     (case operation of speech_operation.Tts \<Rightarrow> TTS_PROVIDER_CHAIN | speech_operation.Stt \<Rightarrow> STT_PROVIDER_CHAIN)"

definition complete_order :: "speech_operation \<Rightarrow> json \<Rightarrow> provider_name list option" where
  "complete_order operation v =
     Option.bind (read_vec read_provider_name v) (\<lambda>parsed.
     Option.bind (resolve_order parsed (operation_chain operation)) (\<lambda>order.
     if length order = length parsed then Some order else None))"

definition provider_order_of ::
    "'w control \<Rightarrow> authorized_actor \<Rightarrow> speech_operation \<Rightarrow> ('w control_state, provider_name list, waveform_error) call" where
  "provider_order_of C a operation =
     (let unavailable = DependencyUnavailable IdempotencyStore in
      try_call (on_err (\<lambda>_. unavailable) (read_plane C (\<lambda>now p.
          ok_or (stored_order operation (actor_uuid (act_id (aa_actor a))) p) database_error))) (\<lambda>v.
      lift_result (ok_or (complete_order operation v) unavailable)))"

text \<open>\<open>COALESCE($3, p.voice_profile, d.voice_profile)\<close>.\<close>

definition chosen_voice :: "string option \<Rightarrow> uuid \<Rightarrow> plane \<Rightarrow> (string, control_error) result" where
  "chosen_voice requested key p =
     map_ok (\<lambda>d. or_else (coalesce requested
         (Option.bind (fmlookup (pl_preferences p) (ACCOUNT_SCOPE, key)) pf_voice_profile)) (df_voice_profile d))
       (ok_or (pl_defaults p) database_error)"

definition resolve_saved_voice ::
    "'w control \<Rightarrow> authorized_actor \<Rightarrow> string option \<Rightarrow> ('w control_state, voice_profile, waveform_error) call" where
  "resolve_saved_voice C a requested =
     (let key = actor_uuid (act_id (aa_actor a)); unavailable = DependencyUnavailable VoiceProfiles in
      try_call (on_err (\<lambda>_. unavailable) (ensure_preferences C key)) (\<lambda>_.
      try_call (on_err (\<lambda>_. unavailable) (read_plane C (\<lambda>now p. chosen_voice requested key p))) (\<lambda>i.
      on_err (\<lambda>e. if ke_status e = 400 then InvalidRequest else unavailable) (voice_profile_of C i))))"

end
