(* ===== verification/Job_History.thy ===== *)
theory Job_History
  imports Control Api_Model "HOL-Library.Product_Lexorder"
begin

text \<open>
  \<open>src/src/control/jobs.rs\<close>: the content-free history of an account's speech, page by page. A page is one
  query on the jobs of \<open>Idempotency_Store\<close>; its cursor is the creation time and id of its last job.
\<close>

section \<open>Rows and pages\<close>

record job_filters =
  jf_operation :: "string option"
  jf_limit :: "int option"
  jf_cursor :: "string option"
  jf_account :: "string option"

definition invalid_cursor :: control_error where
  "invalid_cursor = bad_request ''invalid_cursor''
     ''cursor must be the next_cursor value of the previous page, unchanged.''"

definition parse_cursor :: "'w control \<Rightarrow> string option \<Rightarrow> ((instant \<times> uuid) option, control_error) result" where
  "parse_cursor C given =
     (case given of
        None \<Rightarrow> Ok None
      | Some s \<Rightarrow>
          and_then (ok_or (split_once CHR ''|'' s) invalid_cursor) (\<lambda>(timestamp, i).
          and_then (ok_or (kc_parse_rfc3339 C timestamp) invalid_cursor) (\<lambda>t.
          and_then (ok_or (uuid_parse (kc_uuid_crate C) i) invalid_cursor) (\<lambda>u. Ok (Some (t, u))))))"

definition job_position :: "uuid \<times> job_row \<Rightarrow> instant \<times> uuid" where
  "job_position j = (jb_created_at (snd j), fst j)"

text \<open>The account's jobs, newest first.\<close>

definition is_job_of :: "uuid \<Rightarrow> string option \<Rightarrow> job_row \<Rightarrow> bool" where
  "is_job_of key operation j \<longleftrightarrow>
     jb_plane_id j = 0 \<and> jb_actor_id j = key \<and> pred_option (\<lambda>operation. jb_operation j = operation) operation"

definition job_list :: "db \<Rightarrow> (uuid \<times> job_row) list" where
  "job_list d = sorted_list_of_fmap (db_jobs d)"

definition job_history :: "uuid \<Rightarrow> string option \<Rightarrow> db \<Rightarrow> (uuid \<times> job_row) list" where
  "job_history key operation d = rev (sort_key job_position (filter (is_job_of key operation \<circ> snd) (job_list d)))"

text \<open>\<open>created_at < $4 OR (created_at = $4 AND id < $5)\<close>.\<close>

definition after_cursor :: "(instant \<times> uuid) option \<Rightarrow> uuid \<times> job_row \<Rightarrow> bool" where
  "after_cursor cursor j \<longleftrightarrow>
     (case cursor of
        None \<Rightarrow> True
      | Some (t, i) \<Rightarrow> jb_created_at (snd j) < t \<or> jb_created_at (snd j) = t \<and> fst j < i)"

definition page_rows :: "uuid \<Rightarrow> string option \<Rightarrow> (instant \<times> uuid) option \<Rightarrow> nat \<Rightarrow> db \<Rightarrow> (uuid \<times> job_row) list" where
  "page_rows key operation cursor n d = take n (filter (after_cursor cursor) (job_history key operation d))"

definition page_limit :: "int option \<Rightarrow> nat" where
  "page_limit limit = nat (max 1 (min 100 (case limit of Some n \<Rightarrow> n | None \<Rightarrow> 50)))"

text \<open>One more row than the page holds is read, to know whether another page follows.\<close>

definition next_cursor_of :: "'w control \<Rightarrow> nat \<Rightarrow> (uuid \<times> job_row) list \<Rightarrow> string option" where
  "next_cursor_of C limit rows =
     (if length rows > limit
      then (case last (take limit rows) of
          (i, j) \<Rightarrow> map_option (\<lambda>t. t @ ''|'' @ uuid_text (kc_uuid_crate C) i) (kc_rfc3339 C (jb_created_at j)))
      else None)"

definition job_history_page ::
    "'w control \<Rightarrow> uuid \<Rightarrow> string option \<Rightarrow> int option \<Rightarrow> (instant \<times> uuid) option \<Rightarrow> db \<Rightarrow>
     (uuid \<times> job_row) list \<times> string option" where
  "job_history_page C key operation limit cursor d =
     (let n = page_limit limit; rows = page_rows key operation cursor (n + 1) d
      in (take n rows, next_cursor_of C n rows))"

section \<open>Routes\<close>

definition time_text :: "'w control \<Rightarrow> instant \<Rightarrow> string" where
  "time_text C t = (case kc_rfc3339 C t of Some s \<Rightarrow> s | None \<Rightarrow> [])"

definition job_json :: "'w control \<Rightarrow> uuid \<times> job_row \<Rightarrow> json" where
  "job_json C j = (let r = snd j in JObject
     [(''voice_profile'', json_option profile_ref_json (jb_voice_profile r)),
      (''id'', JString (uuid_text (kc_uuid_crate C) (fst j))),
      (''issuing_app'', json_text (jb_issuing_app r)), (''operation'', JString (jb_operation r)),
      (''status'', JString (jb_status r)), (''first_line'', JString (jb_first_line r)),
      (''duration_ms'', json_option json_int (jb_duration_ms r)), (''provider'', json_text (jb_provider r)),
      (''error_code'', json_text (jb_error_code r)), (''created_at'', JString (time_text C (jb_created_at r))),
      (''finished_at'', json_text (map_option (time_text C) (jb_finished_at r)))])"

text \<open>\<open>recover_expired_jobs\<close>, a statement of its own.\<close>

definition recover_jobs :: "'w control \<Rightarrow> ('w, unit) control_call" where
  "recover_jobs C = on_plane C (\<lambda>now p. Ok ((), p\<lparr>pl_jobs := recover_expired_jobs now (pl_jobs p)\<rparr>))"

definition list_jobs :: "'w control \<Rightarrow> header_map \<Rightarrow> job_filters \<Rightarrow> ('w, json) control_call" where
  "list_jobs C headers filters =
     try_call (caller_and_target C headers (jf_account filters) False Recent) (\<lambda>(_, t).
     try_call (recover_jobs C) (\<lambda>_.
     if \<not> pred_option (\<lambda>operation. operation \<in> {''tts'', ''stt''}) (jf_operation filters)
     then throw (bad_request ''invalid_operation'' ''operation must be tts or stt.'')
     else try_call (lift_result (parse_cursor C (jf_cursor filters))) (\<lambda>cursor.
     try_call (read_plane C (\<lambda>now p. Ok (job_history_page C (target_key t) (jf_operation filters) (jf_limit filters)
         cursor (pl_jobs p)))) (\<lambda>(rows, next_cursor).
     done_with (JObject
       [(''account'', account_member (tg_record t)), (''items'', JArray (map (job_json C) rows)),
        (''next_cursor'', json_text next_cursor)])))))"

definition job_of :: "uuid \<Rightarrow> uuid \<Rightarrow> db \<Rightarrow> (uuid \<times> job_row) option" where
  "job_of jid key d =
     (case fmlookup (db_jobs d) jid of
        Some j \<Rightarrow> if jb_plane_id j = 0 \<and> jb_actor_id j = key then Some (jid, j) else None
      | None \<Rightarrow> None)"

definition get_job :: "'w control \<Rightarrow> header_map \<Rightarrow> uuid \<Rightarrow> string option \<Rightarrow> ('w, json) control_call" where
  "get_job C headers jid account =
     try_call (caller_and_target C headers account False Recent) (\<lambda>(_, t).
     try_call (recover_jobs C) (\<lambda>_.
     try_call (read_plane C (\<lambda>now p. ok_or (job_of jid (target_key t) (pl_jobs p))
         (not_found_error ''not_found'' (''There is no job '' @ uuid_text (kc_uuid_crate C) jid @
           '' in this account's history.'')))) (\<lambda>j.
     done_with (job_json C j))))"

section \<open>All pages\<close>

text \<open>What the crates do with the parts of a cursor: RFC 3339 has no bar.\<close>

definition cursor_texts :: "'w control \<Rightarrow> bool" where
  "cursor_texts C \<longleftrightarrow>
     (\<forall>t s. kc_rfc3339 C t = Some s \<longrightarrow> kc_parse_rfc3339 C s = Some t \<and> CHR ''|'' \<notin> set s) \<and>
     (\<forall>u. uuid_parse (kc_uuid_crate C) (uuid_text (kc_uuid_crate C) u) = Some u)"

text \<open>Every creation time of a job has a text: the year has four digits.\<close>

definition writable_times :: "'w control \<Rightarrow> db \<Rightarrow> bool" where
  "writable_times C d \<longleftrightarrow> (\<forall>i j. fmlookup (db_jobs d) i = Some j \<longrightarrow> kc_rfc3339 C (jb_created_at j) \<noteq> None)"

text \<open>A client that follows the cursors, for at most \<open>n\<close> pages.\<close>

fun follow_pages ::
    "nat \<Rightarrow> 'w control \<Rightarrow> uuid \<Rightarrow> string option \<Rightarrow> int option \<Rightarrow> db \<Rightarrow> string option \<Rightarrow>
     ((uuid \<times> job_row) list, control_error) result" where
  "follow_pages 0 C key operation limit d given = Ok []"
| "follow_pages (Suc n) C key operation limit d given =
     and_then (parse_cursor C given) (\<lambda>cursor.
     case job_history_page C key operation limit cursor d of
       (rows, None) \<Rightarrow> Ok rows
     | (rows, Some c) \<Rightarrow> map_ok ((@) rows) (follow_pages n C key operation limit d (Some c)))"

lemma job_list_facts:
  "distinct (map fst (job_list d))" "(i, j) \<in> set (job_list d) \<longleftrightarrow> fmlookup (db_jobs d) i = Some j"
proof -
  have "map_of (job_list d) = fmlookup (db_jobs d)"
    by (simp add: job_list_def map_of_sorted_list)
  moreover show "distinct (map fst (job_list d))"
    by (simp add: job_list_def sorted_list_of_fmap_def comp_def sorted_list_of_fset_def)
  ultimately show "(i, j) \<in> set (job_list d) \<longleftrightarrow> fmlookup (db_jobs d) i = Some j"
    by (metis map_of_eq_Some_iff)
qed

text \<open>The history is in strictly descending order.\<close>

lemma job_history_descending: "sorted_wrt (\<lambda>a b. job_position b < job_position a) (job_history key operation d)"
proof -
  let ?xs = "filter (is_job_of key operation \<circ> snd) (job_list d)"
  have "inj_on job_position (set ?xs)"
    using job_list_facts(2) [of _ _ d] by (auto simp: inj_on_def job_position_def)
  moreover have "distinct ?xs" using job_list_facts(1) [of d] by (simp add: distinct_map)
  ultimately have "distinct (map job_position (sort_key job_position ?xs))" by (simp add: distinct_map)
  moreover have "sorted (map job_position (sort_key job_position ?xs))" by simp
  ultimately have "sorted_wrt (<) (map job_position (sort_key job_position ?xs))"
    by (simp add: strict_sorted_iff)
  then show ?thesis by (simp add: job_history_def sorted_wrt_rev sorted_wrt_map)
qed

lemma set_job_history:
  "set (job_history key operation d) = {(i, j). fmlookup (db_jobs d) i = Some j \<and> is_job_of key operation j}"
  using job_list_facts(2) [of _ _ d] by (auto simp: job_history_def)

lemma after_cursor_less: "after_cursor (Some c) j \<longleftrightarrow> job_position j < c"
  by (cases c) (auto simp: after_cursor_def job_position_def less_prod_simp)

lemma filter_descending:
  assumes "sorted_wrt (\<lambda>a b. f b < (f a :: 'b :: linorder)) xs" "0 < k" "k \<le> length xs"
  shows "filter (\<lambda>x. f x < f (xs ! (k - 1))) xs = drop k xs"
  using assms
proof (induction xs arbitrary: k)
  case (Cons x xs)
  show ?case
  proof (cases "k = 1")
    case True
    then show ?thesis using Cons.prems(1) by (auto intro: filter_True)
  next
    case False
    then have k: "0 < k - 1" "k - 1 \<le> length xs" using Cons.prems(2,3) by auto
    then have "xs ! (k - 2) \<in> set xs" by (intro nth_mem) linarith
    then have "\<not> f x < f (xs ! (k - 2))" using Cons.prems(1) by (auto dest: less_asym)
    moreover have "(x # xs) ! (k - 1) = xs ! (k - 2)" using k by (simp add: nth_Cons' numeral_2_eq_2)
    ultimately show ?thesis using Cons.IH [OF _ k] Cons.prems(1) False k
      by (simp add: numeral_2_eq_2 drop_Cons')
  qed
qed simp

lemma page_limit_positive: "0 < page_limit limit"
  by (simp add: page_limit_def)

lemma cursor_round_trip:
  assumes "cursor_texts C" "kc_rfc3339 C t = Some s"
  shows "parse_cursor C (Some (s @ ''|'' @ uuid_text (kc_uuid_crate C) u)) = Ok (Some (t, u))"
proof -
  have "split_once CHR ''|'' (s @ ''|'' @ uuid_text (kc_uuid_crate C) u) = Some (s, uuid_text (kc_uuid_crate C) u)"
    using assms by (simp add: split_once_Some_iff cursor_texts_def)
  then show ?thesis using assms by (simp add: parse_cursor_def cursor_texts_def)
qed

lemma follow_pages_drop:
  assumes "cursor_texts C" "\<And>i j. (i, j) \<in> set (job_history key operation d) \<Longrightarrow> kc_rfc3339 C (jb_created_at j) \<noteq> None"
    and "parse_cursor C given = Ok cursor" "length (job_history key operation d) - k < n" "k \<le> length (job_history key operation d)"
    and "filter (after_cursor cursor) (job_history key operation d) = drop k (job_history key operation d)"
  shows "follow_pages n C key operation limit d given = Ok (drop k (job_history key operation d))"
  using assms(3-6)
proof (induction n arbitrary: given cursor k)
  case (Suc n)
  let ?xs = "job_history key operation d" and ?m = "page_limit limit"
  let ?rows = "take (?m + 1) (drop k ?xs)"
  have page: "job_history_page C key operation limit cursor d = (take ?m (drop k ?xs), next_cursor_of C ?m ?rows)"
    by (simp add: job_history_page_def page_rows_def Suc.prems(4) Let_def min_def)
  show ?case
  proof (cases "?m < length ?rows")
    case False
    then have "take ?m (drop k ?xs) = drop k ?xs" by simp
    then show ?thesis using False Suc.prems(1) by (simp add: page next_cursor_of_def)
  next
    case True
    then have more: "k + ?m < length ?xs" by simp
    obtain i j where last: "last (take ?m ?rows) = (i, j)" by fastforce
    have "take ?m ?rows = take ?m (drop k ?xs)" by (simp add: min_def)
    then have at: "(i, j) = ?xs ! (k + ?m - 1)"
      using last more page_limit_positive [of limit] by (simp add: last_conv_nth)
    then have "(i, j) \<in> set ?xs" using more page_limit_positive [of limit] by (metis less_imp_diff_less nth_mem)
    then obtain s where s: "kc_rfc3339 C (jb_created_at j) = Some s" using assms(2) by fastforce
    let ?c = "s @ ''|'' @ uuid_text (kc_uuid_crate C) i"
    have next_page: "next_cursor_of C ?m ?rows = Some ?c" using True last s by (simp add: next_cursor_of_def)
    have position: "(jb_created_at j, i) = job_position (i, j)" by (simp add: job_position_def)
    have "filter (after_cursor (Some (jb_created_at j, i))) ?xs = drop (k + ?m) ?xs"
      using filter_descending [OF job_history_descending, of "k + ?m" key operation d] more page_limit_positive [of limit] at
      unfolding position after_cursor_less [abs_def] by (simp add: at)
    then have "follow_pages n C key operation limit d (Some ?c) = Ok (drop (k + ?m) ?xs)"
      using Suc.prems(2) more page_limit_positive [of limit]
      by (intro Suc.IH [OF cursor_round_trip [OF assms(1) s]]) auto
    moreover have "take ?m (drop k ?xs) @ drop (k + ?m) ?xs = drop k ?xs"
      by (metis append_take_drop_id drop_drop add.commute)
    ultimately show ?thesis using Suc.prems(1) next_page by (simp add: page)
  qed
qed simp

text \<open>
  C27: the pages of the history are the history. A client that starts without a cursor and follows each
  \<open>next_cursor\<close>, with any limit, gets, after at most as many pages as there are jobs and one more, exactly
  the account's jobs of the operation it asked for, each once and newest first, and no job of anyone else.
\<close>

theorem pages_cover_the_history:
  assumes "cursor_texts C" "writable_times C d"
  shows "\<exists>jobs. follow_pages (size (fmdom (db_jobs d)) + 1) C key operation limit d None = Ok jobs \<and>
    set jobs = {(i, j). fmlookup (db_jobs d) i = Some j \<and> is_job_of key operation j} \<and>
    sorted_wrt (\<lambda>a b. job_position b < job_position a) jobs"
proof -
  have "length (job_history key operation d) \<le> length (job_list d)"
    by (simp add: job_history_def)
  also have "length (job_list d) = size (fmdom (db_jobs d))"
    by (simp add: job_list_def sorted_list_of_fmap_def sorted_list_of_fset_def)
  finally have "follow_pages (size (fmdom (db_jobs d)) + 1) C key operation limit d None =
      Ok (drop 0 (job_history key operation d))"
    by (intro follow_pages_drop [OF assms(1)]) (use assms(2) in \<open>auto simp: writable_times_def set_job_history parse_cursor_def after_cursor_def\<close>)
  then show ?thesis using set_job_history job_history_descending by auto
qed

end
