(* ===== verification/Control_Routes.thy ===== *)
theory Control_Routes
  imports Control Account_Settings Job_History
begin

text \<open>
  The other routes of the control API: \<open>sessions.rs\<close>, \<open>storage.rs\<close>, \<open>source_target.rs\<close> and \<open>audio.rs\<close> under
  \<open>src/src/control/\<close>. The time and URL texts are crates of \<open>control\<close>.
\<close>

section \<open>Answers with headers or bytes\<close>

definition no_store_response :: "json \<Rightarrow> api_response" where
  "no_store_response body = (json_response 200 body)
     \<lparr>ar_headers := header_insert ''cache-control'' ''no-store'' (ar_headers (json_response 200 body))\<rparr>"

section \<open>Discovery and the signed-in account\<close>

definition discovery :: "string \<Rightarrow> 'w control \<Rightarrow> api_response" where
  "discovery package_version C = no_store_response (JObject
     [(''app_id'', JString (kc_app_id C)), (''accounts_url'', JString (kc_accounts_url C)),
      (''api_url'', JString (trim_end_slashes (kc_public_url C))),
      (''docs_url'', JString ''https://docs.waveform.teamofsilicons.com''),
      (''proof_scopes'', JArray (map JString PROOF_SCOPES)), (''version'', JString package_version)])"

definition control_account_json :: "account_record \<Rightarrow> json" where
  "control_account_json r = JObject
     [(''uuid'', JString (account_uuid_str (cr_uuid r))), (''id'', json_text (cr_current_id r)),
      (''kind'', JString (actor_kind_as_str (cr_kind r))), (''display_name'', json_text (cr_display_name r)),
      (''pfp_url'', json_text (cr_pfp_url r)),
      (''custodian'', json_option (\<lambda>(uuid, i). JObject [(''uuid'', JString uuid), (''id'', JString i)]) (cr_custodian r))]"

definition me :: "'w control \<Rightarrow> header_map \<Rightarrow> ('w, api_response) control_call" where
  "me C headers =
     try_call (caller_of C headers ManageAccount) (\<lambda>c.
     State_Monad.bind (case ca_credentials c of
         Bearer token \<Rightarrow> in_directory (complete_profile (au_directory (kc_authenticator C)) (ca_record c) (access_secret token))
       | inbound_credentials.Proof _ \<Rightarrow> State_Monad.return (ca_record c)) (\<lambda>r.
     done_with (no_store_response (JObject
       [(''authenticated'', JBool True), (''app_id'', JString (kc_app_id C)),
        (''account'', control_account_json r), (''via'', JString ''bearer''),
        (''expires_at'', json_text (Option.bind (aa_expires_at (ca_actor c)) (kc_rfc3339 C)))]))))"

definition silicons :: "'w control \<Rightarrow> header_map \<Rightarrow> ('w, json) control_call" where
  "silicons C headers =
     try_call (caller_of C headers ManageAccount) (\<lambda>c.
     try_call (on_err (\<lambda>_. database_error) (in_directory
       (silicons_of (au_directory (kc_authenticator C)) (cr_uuid (ca_record c))))) (\<lambda>found.
     done_with (JObject [(''items'', JArray (map control_account_json (sl_items found))),
       (''complete'', JBool (sl_complete found))])))"

section \<open>Briefcase access\<close>

definition proof_status_json :: "'w control \<Rightarrow> storage_proof_status \<Rightarrow> json" where
  "proof_status_json C st = (let time = json_option (\<lambda>t. JString (time_text C t)) in JObject
     [(''status'', JString (ps_status st)), (''receiving_app'', JString (ps_receiving_app st)),
      (''scopes'', JArray (map JString (ps_scopes st))), (''proof_id'', json_text (ps_proof_id st)),
      (''token_expires_at'', time (ps_token_expires_at st)),
      (''refresh_expires_at'', time (ps_refresh_expires_at st)), (''updated_at'', time (ps_updated_at st)),
      (''revoked_reason'', json_text (ps_revoked_reason st))])"

definition storage_status_json :: "'w control \<Rightarrow> account_record \<Rightarrow> storage_proof_status \<Rightarrow> json" where
  "storage_status_json C r st = JObject [(''account'', account_member r), (''briefcase'', proof_status_json C st)]"

definition accounts_unavailable :: control_error where
  "accounts_unavailable = unavailable_error ''dependency_unavailable'' ''Silicon Accounts is temporarily unavailable.''"

definition accounts_timeout :: control_error where
  "accounts_timeout = control_error_new 504 ''dependency_timeout'' ''Silicon Accounts did not answer in time.''"

definition approval_refused :: "storage_authority_error \<Rightarrow> control_error" where
  "approval_refused e =
     (case e of
        storage_authority_error.Unavailable \<Rightarrow> accounts_unavailable
      | storage_authority_error.Timeout \<Rightarrow> accounts_timeout
      | _ \<Rightarrow> with_hint ''Sign in to Waveform again and retry.''
          (forbidden_error ''briefcase_access_refused''
            ''Silicon Accounts refused to issue Waveform's Briefcase proof for this sign-in (the sign-in ended, or Briefcase is not an active app).''))"

text \<open>Only the account itself, with its own access token.\<close>

definition approving_token :: "caller \<Rightarrow> target \<Rightarrow> (access_token, control_error) result" where
  "approving_token c t =
     (if tg_as_custodian t then Err (forbidden_error ''approval_needs_the_account''
        ''Only the account itself can give Waveform Briefcase access, because the proof is made from its own Waveform sign-in. A Silicon gives it itself, with `waveform storage approve` (its first direct Waveform request also gives it, unless the access was revoked).'')
      else ok_or (subject_token (ca_credentials c)) (forbidden_error ''approval_needs_the_account''
        ''Briefcase access can only be given with the account's own access token.''))"

definition approve_storage :: "'w control \<Rightarrow> header_map \<Rightarrow> string option \<Rightarrow> ('w, nat \<times> json) control_call" where
  "approve_storage C headers account =
     try_call (caller_and_target C headers account True Recent) (\<lambda>(c, t).
     try_call (lift_result (approving_token c t)) (\<lambda>token.
     try_call (lift_result (storage_proofs_of C)) (\<lambda>P.
     try_call (on_err approval_refused (in_proofs (approve P (ca_actor c) token))) (\<lambda>st.
     done_with (201, storage_status_json C (tg_record t) st)))))"

definition storage_status :: "'w control \<Rightarrow> header_map \<Rightarrow> string option \<Rightarrow> ('w, json) control_call" where
  "storage_status C headers account =
     try_call (caller_and_target C headers account False Recent) (\<lambda>(_, t).
     try_call (lift_result (storage_proofs_of C)) (\<lambda>P.
     try_call (on_err (\<lambda>_. database_error) (in_proofs (status P (target_key t)))) (\<lambda>st.
     done_with (storage_status_json C (tg_record t) st))))"

definition revoke_storage :: "'w control \<Rightarrow> header_map \<Rightarrow> string option \<Rightarrow> ('w, json) control_call" where
  "revoke_storage C headers account =
     try_call (caller_and_target C headers account True Always) (\<lambda>(_, t).
     let reason = (if tg_as_custodian t then ''revoked_by_custodian'' else ''revoked_by_account'') in
     try_call (lift_result (storage_proofs_of C)) (\<lambda>P.
     try_call (on_err (\<lambda>_. database_error) (in_proofs (revoke P (target_key t) reason))) (\<lambda>_.
     try_call (on_err (\<lambda>_. database_error) (in_proofs (status P (target_key t)))) (\<lambda>st.
     done_with (storage_status_json C (tg_record t) st)))))"

section \<open>Where a source file goes\<close>

definition access_required :: "storage_authority_error \<Rightarrow> control_error" where
  "access_required e =
     (case e of
        storage_authority_error.Unavailable \<Rightarrow> accounts_unavailable
      | storage_authority_error.Timeout \<Rightarrow> accounts_timeout
      | _ \<Rightarrow> with_hint ''The account gives it with `waveform storage approve`; its first direct Waveform request also gives it, unless the account or its custodian revoked it.''
          (forbidden_error ''storage_authorization_required''
            ''Waveform has no Briefcase access for this account.''))"

definition source_target_refused :: "briefcase_error \<Rightarrow> control_error" where
  "source_target_refused e =
     (if e \<in> {briefcase_error.Unauthorized, briefcase_error.Forbidden} then
        with_hint ''The account can give it again with `waveform storage approve`.''
          (forbidden_error ''storage_authorization_required''
            ''Briefcase refused Waveform's access for this account.'')
      else if e = briefcase_error.NotFound then
        with_hint (''Store one speech there first (`waveform tts '' @ [CHR 0xE2, CHR 0x80, CHR 0xA6] @ ''`), or upload the source into apps/waveform with your own Briefcase access and pass its permanent URL to `waveform stt`.'')
          (not_found_error ''briefcase_folder_not_found''
            ''Briefcase did not show Waveform its folder (apps/waveform) for this account: Briefcase shows an app its folder only through the files in it, and it is still empty.'')
      else if e = briefcase_error.Timeout then
        control_error_new 504 ''dependency_timeout'' ''Briefcase did not answer in time.''
      else unavailable_error ''briefcase_unavailable'' ''Briefcase is unavailable.'')"

definition delegated_subject :: "caller \<Rightarrow> access_token option" where
  "delegated_subject c = (if is_delegated (ca_actor c) then None else subject_token (ca_credentials c))"

text \<open>A refused proof is renewed once.\<close>

definition source_target_with ::
    "'w control \<Rightarrow> 'w storage_proofs \<Rightarrow> caller \<Rightarrow> request_id \<Rightarrow> briefcase_proof \<Rightarrow>
     ('w control_state, source_target, briefcase_error) call" where
  "source_target_with C P c rid p =
     State_Monad.bind (in_control_world (prepare_source_target (kc_briefcase C) p rid)) (\<lambda>r.
     case r of
       Err briefcase_error.Unauthorized \<Rightarrow>
         State_Monad.bind (in_proofs (renew_refused_proof P (ca_actor c) (delegated_subject c) p)) (\<lambda>renewed.
         case renewed of
           Ok q \<Rightarrow> in_control_world (prepare_source_target (kc_briefcase C) q rid)
         | Err _ \<Rightarrow> throw briefcase_error.Unauthorized)
     | other \<Rightarrow> lift_result other)"

definition prepare_target :: "'w control \<Rightarrow> string option \<Rightarrow> header_map \<Rightarrow> ('w, api_response) control_call" where
  "prepare_target C query_text headers =
     (if names_an_account (kc_form_parse C) query_text then throw control_speech_runs_as_yourself
      else try_call (caller_of C headers TranscribeSpeech) (\<lambda>c.
        try_call (lift_result (storage_proofs_of C)) (\<lambda>P.
        try_call (on_err access_required (in_proofs (storage_briefcase_proof P (ca_actor c) (delegated_subject c)))) (\<lambda>p.
        State_Monad.bind (in_control_world (header_request_id (kc_uuid_crate C) (kc_uuid_v7 C) headers)) (\<lambda>rid.
        try_call (on_err source_target_refused (source_target_with C P c rid p)) (\<lambda>folder.
        done_with (no_store_response (JObject
          [(''app_id'', JString (kc_app_id C)), (''account'', account_member (ca_record c)),
           (''folder_id'', JString (uuid_text (kc_uuid_crate C) (st_folder_id folder))),
           (''folder_path'', JString (st_folder_path folder))]))))))))"

section \<open>Held audio\<close>

record audio_download =
  ad_headers :: header_map
  ad_bytes :: bytes

text \<open>\<open>HeaderValue::from_str\<close>, and what stands in for a value that is none.\<close>

definition download_headers :: "'w control \<Rightarrow> held_audio_file \<Rightarrow> header_map" where
  "download_headers C f =
     (let disposition = (''attachment; filename='' @ [CHR 0x22]) @ hf_filename f @ [CHR 0x22] in
      [(''content-type'', if header_text (hf_media_type f) then hf_media_type f else ''audio/mpeg''),
       (''content-disposition'', if header_text disposition then disposition else ''attachment''),
       (''cache-control'', ''private, no-store'')] @
      (case kc_rfc3339 C (hf_expires_at f) of
         Some s \<Rightarrow> if header_text s then [(''x-waveform-audio-expires-at'', s)] else []
       | None \<Rightarrow> []))"

definition held_file :: "uuid \<Rightarrow> uuid \<Rightarrow> instant \<Rightarrow> plane \<Rightarrow> (held_audio_file option, control_error) result" where
  "held_file rid owner now p =
     map_err (\<lambda>_. database_error) (pg_fetch \<lparr>he_now = now, he_fault = False\<rparr> rid owner (pl_held p))"

definition audio_not_found :: "'w control \<Rightarrow> uuid \<Rightarrow> control_error" where
  "audio_not_found C rid = not_found_error ''audio_not_found''
     (''Waveform holds no audio for request '' @ uuid_text (kc_uuid_crate C) rid @
      '' for this account (it was stored in Briefcase, expired, or belongs to another account).'')"

definition download_audio ::
    "'w control \<Rightarrow> string option \<Rightarrow> header_map \<Rightarrow> uuid \<Rightarrow> ('w, audio_download) control_call" where
  "download_audio C query_text headers rid =
     (if names_an_account (kc_form_parse C) query_text then throw control_speech_runs_as_yourself
      else try_call (caller_of C headers SynthesizeSpeech) (\<lambda>c.
        try_call (read_plane C (held_file rid (cr_storage_key (ca_record c)))) (\<lambda>found.
        try_call (lift_result (ok_or found (audio_not_found C rid))) (\<lambda>f.
        done_with \<lparr>ad_headers = download_headers C f, ad_bytes = hf_bytes f\<rparr>))))"

end
