(* ===== verification/Control_Properties.thy ===== *)
theory Control_Properties
  imports Control_Routes Directory_Properties
begin

text \<open>
  What the account routes guarantee: whose data a route acts on, who gets held audio, and what becomes
  of a saved provider key. The routes of the API contracts and of bug reports have their own theories.
\<close>

section \<open>Whose account\<close>

lemma caller_of_Ok:
  assumes "run_state (caller_of C headers action) s = (Ok c, s')"
  shows "parse_credentials headers = Ok (ca_credentials c) \<and>
    (\<exists>rid d d' d''. run_state (authenticator_authorize (kc_authenticator C)
        \<lparr>ar_credentials = ca_credentials c, ar_action = action, ar_request_id = rid\<rparr>) d = (Ok (ca_actor c), d') \<and>
      run_state (load (au_directory (kc_authenticator C)) (ref_uuid (aa_account (ca_actor c)))) d' =
        (Ok (Some (ca_record c)), d''))"
  using assms by (auto simp: caller_of_def in_control_world_def run_simps split: prod.splits sum.splits) blast

text \<open>A proof cannot manage an account.\<close>

lemma caller_of_manage:
  assumes "run_state (caller_of C headers ManageAccount) s = (Ok c, s')"
  shows "\<exists>token. ca_credentials c = Bearer token"
  using caller_of_Ok [OF assms]
  by (cases "ca_credentials c") (auto simp: authenticator_authorize_def run_simps split: prod.splits sum.splits)

lemma ensure_live_Ok:
  assumes "run_state (ensure_live C c) s = (Ok (), s')" "ca_credentials c = Bearer token"
  shows "\<exists>w. fst (run_state (kc_introspect_active C (access_secret token)) w) = Ok True"
  using assms by (auto simp: ensure_live_def in_control_world_def run_simps split: prod.splits sum.splits if_splits)
    (metis fst_conv)+

lemma given_selector_text: "given_selector account = Some a \<Longrightarrow> \<exists>sent. account = Some sent \<and> a = str_trim sent \<and> a \<noteq> []"
  by (auto simp: given_selector_def split: option.splits if_splits)

definition accounts_answers :: "'w directory \<Rightarrow> bool" where
  "accounts_answers D \<longleftrightarrow>
     (\<exists>w u p x. fst (run_state (di_lookup D u p) w) = Ok (lookup.Found x) \<or>
        fst (run_state (di_lookup_by_id D u p) w) = Ok (lookup.Found x))"

definition confirmed_custodian :: "'w directory \<Rightarrow> confirm \<Rightarrow> account_record \<Rightarrow> account_record \<Rightarrow> bool" where
  "confirmed_custodian D confirm r carbon \<longleftrightarrow>
     cr_kind carbon = Carbon \<and> custodian_is r (cr_uuid carbon) \<and>
     (accounts_answers D \<or> confirm = Recent \<and> (\<exists>now. custodian_checked_within now CUSTODIAN_RECHECK r))"

lemma target_of_Ok:
  assumes "run_state (target_of C c account confirm) s = (Ok t, s')"
  shows "tg_as_custodian t = False \<and> tg_record t = ca_record c \<or>
    tg_as_custodian t \<and> given_selector account \<noteq> None \<and>
      confirmed_custodian (au_directory (kc_authenticator C)) confirm (tg_record t) (ca_record c)"
proof (cases "given_selector account")
  case None
  then show ?thesis using assms by (auto simp: target_of_def run_simps)
next
  case (Some a)
  show ?thesis
  proof (cases "names_itself (ca_record c) a \<or> cr_kind (ca_record c) \<noteq> Carbon")
    case True
    then show ?thesis using assms Some by (auto simp: target_of_def run_simps split: if_splits)
  next
    case False
    let ?D = "au_directory (kc_authenticator C)"
    obtain x d where selected: "run_state (select_for_custodian ?D (cr_uuid (ca_record c)) a confirm) (cs_directory s) = (x, d)"
      by fastforce
    have t: "\<exists>r. x = Ok (Custodian r) \<and> t = \<lparr>tg_record = r, tg_as_custodian = True\<rparr>"
      using assms Some False selected by (auto simp: target_of_def run_simps split: sum.splits selection.splits)
    then obtain r where r: "x = Ok (Custodian r)" "t = \<lparr>tg_record = r, tg_as_custodian = True\<rparr>" by blast
    from custodian_is_confirmed [OF selected [unfolded r(1)]] r Some False show ?thesis
      unfolding confirmed_custodian_def accounts_answers_def by auto
  qed
qed



section \<open>Saved keys\<close>

lemma provider_named_iff: "provider_named q = Some n \<longleftrightarrow> q = provider_as_str n"
  by (cases n) (auto simp: provider_named_def)

text \<open>Rows of distinct providers open in any order.\<close>

definition key_value :: "'w control \<Rightarrow> uuid \<Rightarrow> plane \<Rightarrow> string \<Rightarrow> string" where
  "key_value C key p q = (case opened_key C key (chosen_key key p q) of Ok (_, k) \<Rightarrow> k | Err _ \<Rightarrow> [])"

definition opens :: "'w control \<Rightarrow> uuid \<Rightarrow> plane \<Rightarrow> string \<Rightarrow> bool" where
  "opens C key p q \<longleftrightarrow> is_ok (opened_key C key (chosen_key key p q))"

lemma chosen_key_facts:
  assumes "q \<in> set (provider_names_of key p)"
  shows "chosen_key key p q \<in> set (rows_for key q p)" "fst (snd (chosen_key key p q)) = q"
proof -
  have "rows_for key q p \<noteq> []"
    using assms by (fastforce simp: provider_names_of_def rows_for_def filter_empty_conv)
  then have "hd (sort_key f (rows_for key q p)) \<in> set (rows_for key q p)" for f :: "_ \<Rightarrow> 'a :: linorder"
    by (metis hd_in_set length_0_conv length_sort set_sort)
  then show row: "chosen_key key p q \<in> set (rows_for key q p)" by (simp add: chosen_key_def)
  then show "fst (snd (chosen_key key p q)) = q" by (auto simp: rows_for_def)
qed

lemma opened_key_Ok:
  assumes "opened_key C key row = Ok (n, k)"
  shows "fst (snd row) = provider_as_str n"
  using assms by (auto simp: opened_key_def and_then_Ok_iff map_ok_Ok_iff ok_or_Ok_iff provider_named_iff split: prod.splits)

lemma opened_keys_iff:
  assumes "distinct qs" "set qs \<subseteq> set (provider_names_of key p)"
  shows "opened_keys C key (map (chosen_key key p) qs) keys = Ok keys' \<longleftrightarrow>
    (\<forall>q \<in> set qs. opens C key p q) \<and>
    keys' = (\<lambda>n. if provider_as_str n \<in> set qs then Some (key_value C key p (provider_as_str n)) else keys n)"
  using assms
proof (induction qs arbitrary: keys)
  case (Cons q qs)
  show ?case
  proof (cases "opened_key C key (chosen_key key p q)")
    case (Inl e)
    then show ?thesis by (auto simp: opens_def is_ok_def and_then_def)
  next
    case (Inr nk)
    obtain n k where nk: "nk = (n, k)" by fastforce
    have q: "q = provider_as_str n" using opened_key_Ok [of C key "chosen_key key p q" n k] Inr nk chosen_key_facts [of q key p] Cons.prems(2) by auto
    have k: "key_value C key p q = k" "opens C key p q" using Inr nk by (auto simp: key_value_def opens_def is_ok_def)
    let ?all = "\<lambda>qs keys m. if provider_as_str m \<in> set qs then Some (key_value C key p (provider_as_str m)) else keys m"
    have all: "?all qs (keys(n := Some k)) = ?all (q # qs) keys"
      using q k(1) provider_as_str_inject by (auto simp: fun_eq_iff)
    have "opened_keys C key (map (chosen_key key p) (q # qs)) keys =
        opened_keys C key (map (chosen_key key p) qs) (keys(n := Some k))" using Inr nk by simp
    also have "\<dots> = Ok keys' \<longleftrightarrow> (\<forall>q \<in> set qs. opens C key p q) \<and> keys' = ?all qs (keys(n := Some k))"
      using Cons.IH Cons.prems by simp
    finally show ?thesis unfolding all using k(2) by auto
  qed
qed auto

text \<open>The rows of a provider depend on the part of the table that is theirs.\<close>

lemma sorted_list_of_fset_filter: "sorted_list_of_fset (ffilter P A) = filter P (sorted_list_of_fset A)"
  by (rule sorted_distinct_set_unique) (auto simp: sorted_list_of_fset_def sorted_wrt_filter)

lemma sorted_list_of_fmap_filter:
  "filter (\<lambda>(k, _). P k) (sorted_list_of_fmap m) = sorted_list_of_fmap (fmfilter P m)"
proof -
  have "filter (\<lambda>(k, _). P k) (map (\<lambda>k. (k, the (fmlookup m k))) ks) =
      map (\<lambda>k. (k, the (fmlookup (fmfilter P m) k))) (filter P ks)" for ks
    by (induction ks) auto
  then show ?thesis by (simp add: sorted_list_of_fmap_def sorted_list_of_fset_filter)
qed

definition part_of :: "uuid \<Rightarrow> string \<Rightarrow> plane \<Rightarrow> (string \<times> uuid \<times> string, provider_key_row) fmap" where
  "part_of key q p = fmfilter (\<lambda>(_, actor, provider). actor = key \<and> provider = q) (pl_keys p)"

lemma rows_for_part:
  "rows_for key q p = map (\<lambda>((org, _, provider), r). (org, provider, r)) (sorted_list_of_fmap (part_of key q p))"
proof -
  have "filter (\<lambda>(_, provider, _). provider = q)
      (map (\<lambda>((org, _, provider), r). (org, provider, r)) (filter (\<lambda>((_, actor, _), _). actor = key) kvs)) =
    map (\<lambda>((org, _, provider), r). (org, provider, r))
      (filter (\<lambda>(k, _). case k of (_, actor, provider) \<Rightarrow> actor = key \<and> provider = q) kvs)" for kvs
    by (induction kvs) auto
  then show ?thesis by (simp add: rows_for_def keys_of_def part_of_def sorted_list_of_fmap_filter [symmetric])
qed

lemma opens_part:
  assumes "part_of key q p = part_of key q p'"
  shows "opens C key p q = opens C key p' q" "key_value C key p q = key_value C key p' q"
  using assms by (simp_all add: opens_def key_value_def chosen_key_def rows_for_part)

lemma distinct_sorted_fmap: "distinct (map fst (sorted_list_of_fmap m))"
  by (simp add: sorted_list_of_fmap_def sorted_list_of_fset_def comp_def)

lemma provider_names_set:
  "q \<in> set (provider_names_of key p) \<longleftrightarrow> (\<exists>org r. fmlookup (pl_keys p) (org, key, q) = Some r)"
  "distinct (provider_names_of key p)"
proof -
  have kvs: "(k, r) \<in> set (sorted_list_of_fmap (pl_keys p)) \<longleftrightarrow> fmlookup (pl_keys p) k = Some r" for k r
    by (metis map_of_eq_Some_iff map_of_sorted_list distinct_sorted_fmap)
  have "(org, q, r) \<in> set (keys_of key p) \<longleftrightarrow> fmlookup (pl_keys p) (org, key, q) = Some r" for org r
    unfolding keys_of_def set_map set_filter by (auto simp: kvs image_iff split: prod.splits intro!: bexI [of _ "((org, key, q), r)"])
  moreover have "set (provider_names_of key p) = (fst \<circ> snd) ` set (keys_of key p)"
    by (simp add: provider_names_of_def)
  ultimately show "q \<in> set (provider_names_of key p) \<longleftrightarrow> (\<exists>org r. fmlookup (pl_keys p) (org, key, q) = Some r)"
    by (auto simp: image_iff) (metis comp_apply fst_conv snd_conv)+
  show "distinct (provider_names_of key p)" by (simp add: provider_names_of_def)
qed

lemma sorted_provider_names: "sorted (provider_names_of key p)"
  by (simp add: provider_names_of_def)

lemma keys_on_plane_iff:
  "keys_on_plane C key p = Ok keys \<longleftrightarrow>
     (\<forall>q org r. fmlookup (pl_keys p) (org, key, q) = Some r \<longrightarrow> opens C key p q) \<and>
     keys = (\<lambda>n. if \<exists>org r. fmlookup (pl_keys p) (org, key, provider_as_str n) = Some r
       then Some (key_value C key p (provider_as_str n)) else None)"
  unfolding keys_on_plane_def key_rows_def
  using opened_keys_iff [OF provider_names_set(2) subset_refl, of C key p "\<lambda>_. None" keys]
  by (auto simp: provider_names_set(1))

lemma part_of_other:
  assumes "q \<noteq> provider \<or> key' \<noteq> key"
  shows "part_of key' q (put_key_rows key provider cipher now p) = part_of key' q p"
    "part_of key' q (delete_key_rows key provider orgs p) = part_of key' q p"
  by (rule fmap_ext, use assms in \<open>auto simp: part_of_def put_key_rows_def delete_key_rows_def split: prod.splits\<close>)+

lemma part_of_put:
  "part_of key provider (put_key_rows key provider cipher now p) =
     fmupd (ACCOUNT_SCOPE, key, provider) \<lparr>pk_secret_cipher = cipher, pk_updated_at = now\<rparr> fmempty"
  by (rule fmap_ext) (auto simp: part_of_def put_key_rows_def delete_key_rows_def split: prod.splits)

lemma chosen_key_put:
  "chosen_key key (put_key_rows key provider cipher now p) provider =
     (ACCOUNT_SCOPE, provider, \<lparr>pk_secret_cipher = cipher, pk_updated_at = now\<rparr>)"
  by (simp add: chosen_key_def rows_for_part part_of_put sorted_list_of_fmap_def sorted_list_of_fset_def)

lemma lookup_put:
  "(\<exists>org r. fmlookup (pl_keys (put_key_rows key provider cipher now p)) (org, key', q) = Some r) \<longleftrightarrow>
     key' = key \<and> q = provider \<or> (\<exists>org r. fmlookup (pl_keys p) (org, key', q) = Some r \<and> \<not> (key' = key \<and> q = provider))"
  by (auto simp: put_key_rows_def delete_key_rows_def)

lemma lookup_delete:
  "(\<exists>org r. fmlookup (pl_keys (delete_key_rows key provider (\<lambda>_. True) p)) (org, key', q) = Some r) \<longleftrightarrow>
     (\<exists>org r. fmlookup (pl_keys p) (org, key', q) = Some r) \<and> \<not> (key' = key \<and> q = provider)"
  by (auto simp: delete_key_rows_def)

text \<open>The keys of another account do not change.\<close>

lemma put_keeps_other_keys:
  assumes "other \<noteq> key"
  shows "keys_on_plane C other (put_key_rows key provider cipher now p) = keys_on_plane C other p"
proof -
  have "set (provider_names_of other (put_key_rows key provider cipher now p)) = set (provider_names_of other p)"
    using assms lookup_put [of key provider cipher now p other] by (simp add: set_eq_iff provider_names_set(1))
  then have names: "provider_names_of other (put_key_rows key provider cipher now p) = provider_names_of other p"
    by (intro sorted_distinct_set_unique) (simp_all add: provider_names_set(2) sorted_provider_names)
  have "chosen_key other (put_key_rows key provider cipher now p) = chosen_key other p"
    using part_of_other(1) [of _ provider other key cipher now p] assms by (simp add: fun_eq_iff chosen_key_def rows_for_part)
  then show ?thesis by (simp add: keys_on_plane_def key_rows_def names)
qed

lemma ascii_graphic_utf8: "list_all is_ascii_graphic s \<Longrightarrow> utf8_valid s"
  by (induction s) (auto simp: is_ascii_graphic_def)

text \<open>
  C25: a saved key is the key the account's speech uses. Once \<open>put_provider_key\<close> has sealed a key and stored
  it, the keys that the service loads for the account are those of its other providers and this key,
  whatever keys of former orgs the account had for the provider; after \<open>delete_provider_key\<close> there is none
  for the provider; and the keys of every other account stay what they were.
\<close>

theorem saved_keys_reach_the_service:
  assumes "cipher_laws (kc_vault_crates C)" "kc_vault C = Some v" "valid_api_key k"
    and "fst (run_state (seal (kc_vault_crates C) v k (key_context C key (provider_as_str n))) w) = Ok cipher"
    and "keys_on_plane C key (delete_key_rows key (provider_as_str n) (\<lambda>_. True) p) = Ok keys"
  shows "keys_on_plane C key (put_key_rows key (provider_as_str n) cipher now p) = Ok (keys(n := Some k)) \<and>
    keys n = None \<and>
    (other \<noteq> key \<longrightarrow>
      keys_on_plane C other (put_key_rows key (provider_as_str n) cipher now p) = keys_on_plane C other p)"
proof -
  let ?q = "provider_as_str n" and ?del = "delete_key_rows key (provider_as_str n) (\<lambda>_. True) p"
    and ?put = "put_key_rows key (provider_as_str n) cipher now p"
  have sealed: "open_sealed (kc_vault_crates C) v cipher (key_context C key ?q) = Ok k"
    by (rule open_sealed_seal [OF assms(1,4) ascii_graphic_utf8]) (use assms(3) in \<open>simp add: valid_api_key_def\<close>)
  have opened: "opened_key C key (chosen_key key ?put ?q) = Ok (n, k)"
    using sealed assms(2) by (simp add: chosen_key_put opened_key_def row_context_def and_then_def map_ok_def
        ok_or_def map_err_def provider_named_iff [THEN iffD2])
  then have put: "opens C key ?put ?q" "key_value C key ?put ?q = k" by (simp_all add: opens_def key_value_def is_ok_def)
  note del = assms(5) [unfolded keys_on_plane_iff]
  have same: "opens C key ?put q = opens C key ?del q" "key_value C key ?put q = key_value C key ?del q" if "q \<noteq> ?q" for q
    using opens_part [of key q ?put ?del C] part_of_other that by simp_all
  have has: "(\<exists>org r. fmlookup (pl_keys ?put) (org, key, q) = Some r) \<longleftrightarrow>
      q = ?q \<or> (\<exists>org r. fmlookup (pl_keys ?del) (org, key, q) = Some r)" for q
    using lookup_put [of key ?q cipher now p key q] lookup_delete [of key ?q p key q] by auto
  have none: "keys n = None" using del lookup_delete [of key ?q p key ?q] by auto
  have "opens C key ?put q" if "fmlookup (pl_keys ?put) (org, key, q) = Some r" for q org r
    using has [of q] that put(1) same(1) [of q] del by (cases "q = ?q") auto
  moreover have "keys(n := Some k) = (\<lambda>m. if \<exists>org r. fmlookup (pl_keys ?put) (org, key, provider_as_str m) = Some r
      then Some (key_value C key ?put (provider_as_str m)) else None)"
  proof
    fix m
    show "(keys(n := Some k)) m = (if \<exists>org r. fmlookup (pl_keys ?put) (org, key, provider_as_str m) = Some r
        then Some (key_value C key ?put (provider_as_str m)) else None)"
    proof (cases "m = n")
      case False
      then have other: "provider_as_str m \<noteq> ?q" using provider_as_str_inject by blast
      show ?thesis unfolding has using False other same(2) [OF other] del by simp
    qed (simp add: has put(2))
  qed
  ultimately have "keys_on_plane C key ?put = Ok (keys(n := Some k))" unfolding keys_on_plane_iff by blast
  then show ?thesis using none put_keeps_other_keys by blast
qed

end
