(* ===== verification/Contracts.thy ===== *)
theory Contracts
  imports Control "HOL-Library.List_Lexorder" "HOL-Library.Char_ord"
begin

text \<open>
  \<open>src/src/control/contracts.rs\<close>: which versions of the API are served, and how a deprecated one is
  retired: after seven days without a request, once its successor is active. A statement or transaction
  is a function of the table and of its reading of \<open>now()\<close>.
\<close>

section \<open>Statements\<close>

definition CONTRACT_VERSION :: string where
  "CONTRACT_VERSION = ''2.0.0''"

definition QUIET_PERIOD :: int where
  "QUIET_PERIOD = 7 * 86400 * 1000000000"

definition in_contract_state :: "string \<Rightarrow> contract_table \<Rightarrow> string \<Rightarrow> bool" where
  "in_contract_state st t v \<longleftrightarrow> (case fmlookup t v of Some r \<Rightarrow> cw_state r = st | None \<Rightarrow> False)"

text \<open>\<open>GREATEST(deprecated_at, COALESCE(last_request_at, deprecated_at)) <= now() - interval '7 days'\<close>.\<close>

definition quiet_since :: "instant \<Rightarrow> contract_row \<Rightarrow> bool" where
  "quiet_since now r \<longleftrightarrow>
     (case greatest (cw_deprecated_at r) (coalesce (cw_last_request_at r) (cw_deprecated_at r)) of
        Some t \<Rightarrow> t \<le> now - QUIET_PERIOD
      | None \<Rightarrow> False)"

definition retirement_due :: "instant \<Rightarrow> contract_table \<Rightarrow> contract_row \<Rightarrow> bool" where
  "retirement_due now t r \<longleftrightarrow> quiet_since now r \<and>
     (case cw_successor r of Some s \<Rightarrow> in_contract_state ''active'' t s | None \<Rightarrow> False)"

definition retired_at :: "instant \<Rightarrow> contract_row \<Rightarrow> contract_row" where
  "retired_at now r = r\<lparr>cw_state := ''sunset'', cw_sunset_at := Some now\<rparr>"

definition due_row :: "instant \<Rightarrow> contract_table \<Rightarrow> contract_row \<Rightarrow> contract_row" where
  "due_row now t r = (if cw_state r = ''deprecated'' \<and> retirement_due now t r then retired_at now r else r)"

text \<open>The maintenance statement of \<open>sunset_contracts\<close>: the rows changed, and the table.\<close>

definition sunset_rows :: "instant \<Rightarrow> contract_table \<Rightarrow> nat \<times> contract_table" where
  "sunset_rows now t =
     (fcard (ffilter (\<lambda>v. case fmlookup t v of
         Some r \<Rightarrow> cw_state r = ''deprecated'' \<and> retirement_due now t r | None \<Rightarrow> False) (fmdom t)),
      fmmap (due_row now t) t)"

text \<open>The transaction of \<open>contract_request\<close>: the state it answers.\<close>

definition request_row :: "instant \<Rightarrow> string \<Rightarrow> contract_table \<Rightarrow> (string \<times> contract_table) option" where
  "request_row now version t =
     map_option (\<lambda>r.
       let r = due_row now t r;
           r = (if cw_state r = ''sunset'' then r else r\<lparr>cw_last_request_at := Some now\<rparr>)
       in (cw_state r, fmupd version r t)) (fmlookup t version)"

text \<open>The statement of the operator command \<open>deprecate\<close>; \<open>None\<close> when no row qualifies.\<close>

definition deprecate_row :: "instant \<Rightarrow> string \<Rightarrow> string \<Rightarrow> contract_table \<Rightarrow> contract_table option" where
  "deprecate_row now version successor t =
     (case fmlookup t version of
        None \<Rightarrow> None
      | Some r \<Rightarrow>
          if cw_state r \<in> {''active'', ''deprecated''} \<and> in_contract_state ''active'' t successor
          then Some (fmupd version (r\<lparr>cw_state := ''deprecated'', cw_successor := Some successor,
                 cw_deprecated_at := coalesce (cw_deprecated_at r) (Some now)\<rparr>) t)
          else None)"

section \<open>Operations\<close>

definition on_contracts ::
    "'w control \<Rightarrow> (instant \<Rightarrow> contract_table \<Rightarrow> ('a \<times> contract_table, control_error) result) \<Rightarrow>
     ('w, 'a) control_call" where
  "on_contracts C body = on_plane C (\<lambda>now p.
     map_ok (\<lambda>(x, t). (x, p\<lparr>pl_contracts := t\<rparr>)) (body now (pl_contracts p)))"

definition sunset_contracts :: "'w control \<Rightarrow> ('w, nat) control_call" where
  "sunset_contracts C = on_contracts C (\<lambda>now t. Ok (sunset_rows now t))"

definition unsupported_version :: control_error where
  "unsupported_version = control_error_new 406 ''unsupported_api_version''
     ''This build serves API v1 only; GET /api/contracts lists the supported versions.''"

definition version_sunset :: "string \<Rightarrow> control_error" where
  "version_sunset version = control_error_new 410 ''api_version_sunset''
     (''API '' @ version @ '' was retired; GET /api/contracts lists the supported versions.'')"

text \<open>The retirement is committed before the request is refused.\<close>

definition contract_request :: "'w control \<Rightarrow> string \<Rightarrow> ('w, string) control_call" where
  "contract_request C version =
     try_call (on_contracts C (\<lambda>now t. ok_or (request_row now version t) unsupported_version)) (\<lambda>st.
     if st = ''sunset'' then throw (version_sunset version) else done_with st)"

definition validate_version :: "header_map \<Rightarrow> string \<Rightarrow> (unit, control_error) result" where
  "validate_version headers version =
     (if version \<noteq> ''v1'' then Err unsupported_version
      else and_then (single_header headers ''x-waveform-api-version'') (\<lambda>sent.
        if pred_option (\<lambda>v. v = version) sent
        then and_then (single_header headers ''x-waveform-protocol-version'') (\<lambda>protocol.
          if pred_option (\<lambda>v. v = ''1'') protocol then Ok ()
          else Err (control_error_new 406 ''unsupported_protocol_version''
            ''X-Waveform-Protocol-Version must be 1.''))
        else Err (control_error_new 406 ''api_version_mismatch''
            ''X-Waveform-API-Version must match the version in the path (v1).'')))"

text \<open>\<open>path.split('/').nth(2).unwrap_or("")\<close>.\<close>

definition path_version :: "string \<Rightarrow> string" where
  "path_version path = (case drop 2 (split_on CHR ''/'' path) of [] \<Rightarrow> [] | v # _ \<Rightarrow> v)"

definition contract_headers :: "api_response \<Rightarrow> api_response" where
  "contract_headers response = response\<lparr>ar_headers :=
     header_insert ''x-waveform-protocol-version'' ''1''
       (header_insert ''x-waveform-contract-version'' CONTRACT_VERSION
         (header_insert ''x-waveform-api-version'' ''v1'' (ar_headers response)))\<rparr>"

text \<open>\<open>@\<close> and whole seconds since 1970.\<close>

definition deprecation_value :: "instant \<Rightarrow> string" where
  "deprecation_value t = ''@'' @ (let seconds = unix_timestamp t in
     if seconds < 0 then ''-'' @ decimal (nat (- seconds)) else decimal (nat seconds))"

definition deprecated_headers :: "(instant option, control_error) result \<Rightarrow> api_response \<Rightarrow> api_response" where
  "deprecated_headers since response = response\<lparr>ar_headers :=
     header_insert ''link'' (''</api/contracts>; rel='' @ [CHR 0x22] @ ''deprecation'' @ [CHR 0x22] @ ''; type='' @ [CHR 0x22] @ ''application/json'' @ [CHR 0x22])
       (case since of
          Ok (Some t) \<Rightarrow> header_insert ''deprecation'' (deprecation_value t) (ar_headers response)
        | _ \<Rightarrow> ar_headers response)\<rparr>"

text \<open>The middleware around the whole API: \<open>next\<close> is the rest of the router.\<close>

definition negotiate ::
    "'w control \<Rightarrow> string \<Rightarrow> header_map \<Rightarrow> ('w control_state, api_response) state \<Rightarrow>
     ('w control_state, api_response) state" where
  "negotiate C path headers next_handler =
     (if \<not> starts_with ''/api/v'' path then next_handler
      else case validate_version headers (path_version path) of
          Err e \<Rightarrow> State_Monad.return (control_error_response e)
        | Ok _ \<Rightarrow>
            State_Monad.bind (contract_request C (path_version path)) (\<lambda>granted. case granted of
              Err e \<Rightarrow> State_Monad.return (control_error_response e)
            | Ok st \<Rightarrow>
                State_Monad.bind next_handler (\<lambda>response.
                if st \<noteq> ''deprecated'' then State_Monad.return (contract_headers response)
                else State_Monad.bind (read_plane C (\<lambda>now p.
                     map_ok cw_deprecated_at (ok_or (fmlookup (pl_contracts p) ''v1'') database_error))) (\<lambda>since.
                  State_Monad.return (deprecated_headers since (contract_headers response))))))"

definition contract_json :: "(instant \<Rightarrow> string option) \<Rightarrow> string \<Rightarrow> contract_row \<Rightarrow> json" where
  "contract_json rfc3339 version r = JObject
     [(''api_version'', JString version), (''contract_version'', JString (cw_contract_version r)),
      (''state'', JString (cw_state r)), (''successor'', json_text (cw_successor r)),
      (''deprecated_at'', json_text (Option.bind (cw_deprecated_at r) rfc3339)),
      (''sunset_at'', json_text (Option.bind (cw_sunset_at r) rfc3339))]"

text \<open>\<open>ORDER BY version\<close>, in the order of the bytes.\<close>

definition contract_rows :: "contract_table \<Rightarrow> (string \<times> contract_row) list" where
  "contract_rows t = sorted_list_of_fmap t"

definition describe :: "'w control \<Rightarrow> ('w, json) control_call" where
  "describe C =
     try_call (read_plane C (\<lambda>now p. Ok (contract_rows (pl_contracts p)))) (\<lambda>rows.
     done_with (JObject
       [(''service'', JString ''silicon-waveform''), (''default_api_version'', JString ''v1''),
        (''protocol_versions'', JArray [JString ''1'']),
        (''contracts'', JArray (map (\<lambda>(v, r). contract_json (kc_rfc3339 C) v r) rows)),
        (''compatibility'', JArray [JObject
          [(''api_version'', JString ''v1''), (''protocol_version'', JString ''1''),
           (''contract_version'', JString CONTRACT_VERSION), (''rust_client'', JString ''>=0.6.0, <0.8.0''),
           (''cli'', JString ''>=0.6.0, <0.8.0''),
           (''authentication'', JArray [JString ''bearer'', JString ''proof''])]]),
        (''policy'', JObject
          [(''quiet_days_before_sunset'', JNumber (PosInt 7)), (''requires_active_successor'', JBool True),
           (''guide'', JString ''https://docs.waveform.teamofsilicons.com/api-contracts/'')])]))"

text \<open>
  The operator command: \<open>database\<close> is the text of a database error, \<open>fault\<close> whether the statement fails.
\<close>

definition deprecate ::
    "string \<Rightarrow> bool \<Rightarrow> instant \<Rightarrow> string \<Rightarrow> string \<Rightarrow> contract_table \<Rightarrow> (unit, string) result \<times> contract_table" where
  "deprecate database fault now version successor t =
     (if version = successor then (Err ''the successor must be a different version'', t)
      else if fault then (Err (''database error: '' @ database), t)
      else case deprecate_row now version successor t of
          None \<Rightarrow> (Err (version @ '' was not deprecated: it must be active or deprecated, and '' @ successor @
            '' must already be registered and active''), t)
        | Some t' \<Rightarrow> (Ok (), t'))"

section \<open>Lives of the versions\<close>

text \<open>
  What any replica, operator or migration does to the table: a request, the maintenance, a deprecation,
  or a new version that a release registers.
\<close>

inductive contract_change :: "contract_table \<Rightarrow> contract_table \<Rightarrow> bool" where
  request: "request_row now v t = Some (st, t') \<Longrightarrow> contract_change t t'"
| maintenance: "contract_change t (snd (sunset_rows now t))"
| deprecation: "v \<noteq> s \<Longrightarrow> deprecate_row now v s t = Some t' \<Longrightarrow> contract_change t t'"
| registration: "fmlookup t v = None \<Longrightarrow> cw_state r = ''active'' \<Longrightarrow> cw_deprecated_at r = None \<Longrightarrow>
     contract_change t (fmupd v r t)"

inductive_cases contract_changeE: "contract_change t t'"

text \<open>A retired version stays as it was retired.\<close>

lemma due_row_sunset [simp]: "cw_state r = ''sunset'' \<Longrightarrow> due_row now t r = r"
  by (simp add: due_row_def)

lemma request_row_sunset:
  assumes "fmlookup t v = Some r" "cw_state r = ''sunset''"
  shows "request_row now v t = Some (''sunset'', fmupd v r t)"
  using assms by (simp add: request_row_def)

lemma contract_change_keeps_sunset:
  assumes "contract_change t t'" "fmlookup t v = Some r" "cw_state r = ''sunset''"
  shows "fmlookup t' v = Some r"
  using assms(1)
proof cases
  case (request now w st)
  then show ?thesis using assms(2,3)
    by (cases "w = v") (auto simp: request_row_def Let_def split: if_splits)
next
  case (deprecation w s now)
  then show ?thesis using assms(2,3)
    by (cases "w = v") (auto simp: deprecate_row_def split: option.splits if_splits)
qed (use assms(2,3) in \<open>auto simp: sunset_rows_def\<close>)

lemma contract_changes_keep_sunset:
  assumes "contract_change\<^sup>*\<^sup>* t t'" "fmlookup t v = Some r" "cw_state r = ''sunset''"
  shows "fmlookup t' v = Some r"
  using assms by (induction rule: rtranclp_induct) (auto intro: contract_change_keeps_sunset)

text \<open>Only a quiet version with an active successor is retired.\<close>

definition was_quiet :: "instant \<Rightarrow> contract_table \<Rightarrow> contract_row \<Rightarrow> bool" where
  "was_quiet now t r \<longleftrightarrow> cw_state r = ''deprecated'' \<and>
     (\<exists>d. cw_deprecated_at r = Some d \<and> d + QUIET_PERIOD \<le> now) \<and>
     (\<forall>u. cw_last_request_at r = Some u \<longrightarrow> u + QUIET_PERIOD \<le> now) \<and>
     (\<exists>s. cw_successor r = Some s \<and> in_contract_state ''active'' t s)"

definition dated :: "contract_table \<Rightarrow> bool" where
  "dated t \<longleftrightarrow> (\<forall>v r. fmlookup t v = Some r \<longrightarrow> cw_state r = ''deprecated'' \<longrightarrow>
     (\<exists>d. cw_deprecated_at r = Some d) \<and> cw_successor r \<noteq> None)"

lemma due_row_dated: "cw_state (due_row now t r) = ''deprecated'' \<Longrightarrow> due_row now t r = r"
  by (auto simp: due_row_def retired_at_def split: if_splits)

lemma dated_step:
  assumes "contract_change t t'" "dated t"
  shows "dated t'"
  using assms(1)
proof cases
  case (request now w st)
  then obtain r where r: "fmlookup t w = Some r" by (auto simp: request_row_def)
  have "cw_state (due_row now t r) = ''deprecated'' \<Longrightarrow>
      (\<exists>d. cw_deprecated_at (due_row now t r) = Some d) \<and> cw_successor (due_row now t r) \<noteq> None"
    using assms(2) r due_row_dated [of now t r] unfolding dated_def by metis
  then show ?thesis using request r assms(2)
    by (auto simp: request_row_def Let_def dated_def split: if_splits)
next
  case (maintenance now)
  then show ?thesis using assms(2) due_row_dated unfolding dated_def
    by (auto simp: sunset_rows_def) metis+
next
  case (deprecation w s now)
  then show ?thesis using assms(2)
    by (auto simp: deprecate_row_def dated_def coalesce_def split: option.splits if_splits)
next
  case (registration w r)
  then show ?thesis using assms(2) by (auto simp: dated_def)
qed

lemma retirement_due_quiet:
  assumes "cw_state r = ''deprecated''" "retirement_due now t r" "cw_deprecated_at r \<noteq> None"
  shows "was_quiet now t r"
  using assms by (auto simp: was_quiet_def retirement_due_def quiet_since_def coalesce_def greatest_def
      split: option.splits)

lemma due_row_retires:
  assumes "cw_state (due_row now t r) = ''sunset''" "cw_state r \<noteq> ''sunset''"
  shows "cw_state r = ''deprecated'' \<and> retirement_due now t r \<and> due_row now t r = retired_at now r"
  using assms by (auto simp: due_row_def split: if_splits)

lemma contract_change_retires:
  assumes "contract_change t t'" "dated t" "fmlookup t v = Some r" "cw_state r \<noteq> ''sunset''"
    and "fmlookup t' v = Some r'" "cw_state r' = ''sunset''"
  shows "\<exists>now. was_quiet now t r \<and> r' = retired_at now r"
proof -
  have dated: "cw_state r = ''deprecated'' \<Longrightarrow> cw_deprecated_at r \<noteq> None"
    using assms(2,3) unfolding dated_def by fastforce
  have quiet: ?thesis if "r' = due_row now t r" for now
    using due_row_retires [of now t r] retirement_due_quiet [of r now t] dated assms(4,6) that by metis
  show ?thesis
    using assms(1)
  proof cases
    case (request now w st)
    then have "r' = due_row now t r"
      using assms(3-6) by (cases "w = v") (auto simp: request_row_def Let_def split: if_splits)
    then show ?thesis by (rule quiet)
  next
    case (maintenance now)
    then have "r' = due_row now t r" using assms(3,5) by (auto simp: sunset_rows_def)
    then show ?thesis by (rule quiet)
  next
    case (deprecation w s now)
    then show ?thesis using assms(3-6)
      by (cases "w = v") (auto simp: deprecate_row_def split: option.splits if_splits)
  next
    case (registration w q)
    then show ?thesis using assms(3-6) by (auto split: if_splits)
  qed
qed

inductive contracts_reachable :: "contract_table \<Rightarrow> bool" where
  start: "contracts_reachable fmempty"
| step: "contracts_reachable t \<Longrightarrow> contract_change t t' \<Longrightarrow> contracts_reachable t'"

lemma contracts_reachable_dated: "contracts_reachable t \<Longrightarrow> dated t"
  by (induction rule: contracts_reachable.induct) (auto simp: dated_def [of fmempty] intro: dated_step)

text \<open>
  C28: a version of the API is retired only when it is over. However requests, the maintenance, operators
  and releases interleave, a version becomes \<open>sunset\<close> only from \<open>deprecated\<close>, seven days or more after its
  deprecation and after its last counted request, while its registered successor is active; and from
  then on its row never changes again.
\<close>

theorem versions_retire_when_quiet:
  assumes "contracts_reachable t" "contract_change t t'" "fmlookup t v = Some r" "cw_state r \<noteq> ''sunset''"
    and "fmlookup t' v = Some r'" "cw_state r' = ''sunset''" "contract_change\<^sup>*\<^sup>* t' t''"
  shows "(\<exists>now. was_quiet now t r \<and> r' = retired_at now r) \<and> fmlookup t'' v = Some r'"
  using contract_change_retires [OF assms(2) contracts_reachable_dated [OF assms(1)] assms(3-6)]
    contract_changes_keep_sunset [OF assms(7,5,6)] by blast

section \<open>The middleware\<close>

text \<open>Whatever the other sessions do to the contracts, they do by the statements above.\<close>

definition contracts_of :: "'w control_state \<Rightarrow> contract_table" where
  "contracts_of s = pl_contracts (cs_plane s)"

definition others_follow_contracts :: "'w control \<Rightarrow> bool" where
  "others_follow_contracts C \<longleftrightarrow>
     (\<forall>s. contract_change\<^sup>*\<^sup>* (contracts_of s) (contracts_of (snd (run_state (kc_others C) s))))"

lemma contract_request_sunset:
  assumes "others_follow_contracts C" "fmlookup (contracts_of s) v = Some r" "cw_state r = ''sunset''"
    and "run_state (contract_request C v) s = (x, s')"
  shows "x \<in> {Err database_error, Err (version_sunset v)} \<and> fmlookup (contracts_of s') v = Some r"
proof -
  obtain s1 where s1: "run_state (kc_others C) s = ((), s1)" by (metis (full_types) old.unit.exhaust surj_pair)
  have row: "fmlookup (contracts_of s1) v = Some r"
    using contract_changes_keep_sunset assms(1-3) s1 unfolding others_follow_contracts_def by (metis snd_conv)
  then have at: "fmlookup (pl_contracts (cs_plane s1)) v = Some r" by (simp add: contracts_of_def)
  show ?thesis
    using assms(4) row
    by (auto simp: contract_request_def on_contracts_def on_plane_def run_simps s1 in_control_world_def
        request_row_sunset [OF at assms(3)] contracts_of_def split: prod.splits if_splits)
qed

text \<open>
  C29: a request for a retired version reaches no handler. Whatever other sessions do meanwhile, the
  middleware answers it by itself: with 410, or the refusal of its version headers, or 503 when the
  database fails; the answer and everything after it is the same for every handler, and the version
  stays retired.
\<close>

theorem retired_versions_reach_no_handler:
  assumes "others_follow_contracts C" "starts_with ''/api/v'' path"
    and "fmlookup (contracts_of s) (path_version path) = Some r" "cw_state r = ''sunset''"
  shows "run_state (negotiate C path headers h) s = run_state (negotiate C path headers h') s \<and>
    ar_status (fst (run_state (negotiate C path headers h) s)) \<in> {400, 406, 410, 503} \<and>
    fmlookup (contracts_of (snd (run_state (negotiate C path headers h) s))) (path_version path) = Some r"
proof -
  let ?v = "path_version path"
  show ?thesis
  proof (cases "validate_version headers ?v")
    case (Inl e)
    then have "ke_status e \<in> {400, 406}"
      by (auto simp: validate_version_def unsupported_version_def single_header_def bad_request_def
          control_error_new_def and_then_Ok_iff and_then_def map_err_def split: if_splits sum.splits)
    then show ?thesis using Inl assms(2-4)
      by (auto simp: negotiate_def control_error_response_def json_response_def Let_def run_simps split: option.splits)
  next
    case (Inr u)
    obtain x s' where request: "run_state (contract_request C ?v) s = (x, s')" by fastforce
    have x: "x \<in> {Err database_error, Err (version_sunset ?v)}" and kept: "fmlookup (contracts_of s') ?v = Some r"
      using contract_request_sunset [OF assms(1,3,4) request] by simp_all
    then obtain e where e: "x = Err e" "ke_status e \<in> {410, 503}"
      by (auto simp: database_error_def version_sunset_def unavailable_error_def control_error_new_def)
    then show ?thesis using Inr assms(2) request kept
      by (auto simp: negotiate_def control_error_response_def json_response_def Let_def run_simps split: option.splits)
  qed
qed

end
