(* ===== verification/Reports.thy ===== *)
theory Reports
  imports Control
begin

text \<open>
  \<open>src/src/control/reporting.rs\<close>: bug reports, queued in a table and mailed to the team through
  Postmark. A transaction is a function of the table and of \<open>now()\<close>, its start; transactions of one account
  run one after the other (an advisory lock), but their \<open>now()\<close> need not be in that order. The mail client
  and the ids are parameters.
\<close>

section \<open>Settings\<close>

definition mail_from_env :: "url_crate \<Rightarrow> (string \<Rightarrow> string option) \<Rightarrow> (mail option, string) result" where
  "mail_from_env U env =
     (case env ''WAVEFORM_POSTMARK_TOKEN'' of
        None \<Rightarrow> Ok None
      | Some token \<Rightarrow>
          and_then (ok_or (url_parse U (case env ''WAVEFORM_POSTMARK_URL'' of
              Some u \<Rightarrow> u | None \<Rightarrow> ''https://api.postmarkapp.com/email'')) ''invalid Postmark URL'') (\<lambda>endpoint.
          if url_scheme endpoint \<noteq> ''https'' \<or> url_username endpoint \<noteq> [] \<or> url_password endpoint \<noteq> None \<or>
            url_query endpoint \<noteq> None \<or> url_fragment endpoint \<noteq> None \<or> str_trim token = []
          then Err ''invalid Postmark configuration''
          else Ok (Some \<lparr>ml_token = token, ml_endpoint = endpoint\<rparr>)))"

section \<open>Reports\<close>

record report =
  re_message :: string
  re_pr :: "string option"
  re_client_version :: string

definition CREDENTIAL_PREFIXES :: "string list" where
  "CREDENTIAL_PREFIXES = [''slt_'', ''sar_'', ''sap_'', ''sapr_'', ''sarq_'', ''stk-'', ''whsec_'', ''sa_app_'',
     ''eyJhbGci'', ''eyJ0eXAi'', ''sk-'', ''AIza'']"

text \<open>
  A match of the prefix that no letter, digit or underscore precedes. No prefix overlaps itself, so the
  disjoint matches of \<open>match_indices\<close> are all its matches; a character of several bytes ends in none of
  the bytes that count.
\<close>

definition word_before :: "char option \<Rightarrow> bool" where
  "word_before before \<longleftrightarrow> (case before of Some c \<Rightarrow> is_ascii_alphanumeric c \<or> c = CHR ''_'' | None \<Rightarrow> False)"

fun word_starts_with :: "string \<Rightarrow> char option \<Rightarrow> string \<Rightarrow> bool" where
  "word_starts_with prefix before [] \<longleftrightarrow> False"
| "word_starts_with prefix before (c # cs) \<longleftrightarrow>
     starts_with prefix (c # cs) \<and> \<not> word_before before \<or> word_starts_with prefix (Some c) cs"

definition contains_credential :: "string \<Rightarrow> bool" where
  "contains_credential text \<longleftrightarrow> list_ex (\<lambda>prefix. word_starts_with prefix None text) CREDENTIAL_PREFIXES"

definition is_pull_request :: "url \<Rightarrow> bool" where
  "is_pull_request u \<longleftrightarrow>
     url_scheme u = ''https'' \<and> url_host u = Some (Domain ''github.com'') \<and> url_username u = [] \<and>
     url_password u = None \<and> url_query u = None \<and> url_fragment u = None \<and>
     (case strip_prefix ''/teamofsilicons/silicon-waveform/pull/'' (url_path u) of
        Some i \<Rightarrow> i \<noteq> [] \<and> list_all is_ascii_digit i
      | None \<Rightarrow> False)"

definition validate_report :: "url_crate \<Rightarrow> report \<Rightarrow> (unit, control_error) result" where
  "validate_report U r =
     (if str_trim (re_message r) = [] \<or> length (re_message r) > 60000 \<or> length (re_client_version r) > 100
      then Err (bad_request ''report_requires_1_to_60000_bytes''
        ''message must be 1 to 60000 bytes and client_version at most 100.'')
      else if \<not> pred_option (\<lambda>p. pred_option is_pull_request (url_parse U p) \<and> url_parse U p \<noteq> None) (re_pr r)
      then Err (bad_request ''pr_must_reference_silicon_waveform_pull_request''
        ''pr must be https://github.com/teamofsilicons/silicon-waveform/pull/<number>.'')
      else if contains_credential (re_message r) \<or> contains_credential (re_client_version r)
      then Err (bad_request ''remove_credentials_from_report''
        ''The report contains what looks like a token, secret or API key. Remove it and send the report again.'')
      else Ok ())"

definition report_json :: "report \<Rightarrow> json" where
  "report_json r = JObject [(''message'', JString (re_message r)), (''pr'', json_text (re_pr r)),
     (''client_version'', JString (re_client_version r))]"

section \<open>Queueing\<close>

definition HOUR :: int where "HOUR = 3600 * 1000000000"
definition REPORTS_PER_HOUR :: nat where "REPORTS_PER_HOUR = 10"

definition reports_where :: "(report_row \<Rightarrow> bool) \<Rightarrow> report_table \<Rightarrow> uuid fset" where
  "reports_where P t = ffilter (\<lambda>i. case fmlookup t i of Some r \<Rightarrow> P r | None \<Rightarrow> False) (fmdom t)"

definition report_under_key :: "uuid \<Rightarrow> string \<Rightarrow> report_row \<Rightarrow> bool" where
  "report_under_key actor key r \<longleftrightarrow> rp_org r = ACCOUNT_SCOPE \<and> rp_actor r = actor \<and> rp_key r = key"

text \<open>The transaction of \<open>submit\<close>: the id and status it answers. \<open>fresh\<close> is the new UUID, when one is needed.\<close>

definition submit_row ::
    "uuid \<Rightarrow> uuid \<Rightarrow> string \<Rightarrow> json \<Rightarrow> instant \<Rightarrow> report_table \<Rightarrow>
     ((uuid \<times> string) \<times> report_table, control_error) result" where
  "submit_row fresh actor key payload now t =
     (case sorted_list_of_fset (reports_where (report_under_key actor key) t) of
        i # _ \<Rightarrow>
          (case fmlookup t i of
             Some old \<Rightarrow>
               if rp_payload old \<noteq> payload
               then Err (control_error_new 409 ''report_idempotency_conflict''
                 ''This Idempotency-Key was already used for a different report; use a new key.'')
               else Ok ((i, rp_status old), t)
           | None \<Rightarrow> Err database_error)
      | [] \<Rightarrow>
          if fcard (reports_where (\<lambda>r. rp_actor r = actor \<and> rp_created_at r > now - HOUR) t) \<ge> REPORTS_PER_HOUR
          then Err (control_error_new 429 ''report_hourly_limit''
            ''An account can send at most 10 bug reports per hour; try again later.'')
          else if fmlookup t fresh \<noteq> None then Err database_error
          else Ok ((fresh, ''queued''), fmupd fresh
            \<lparr>rp_org = ACCOUNT_SCOPE, rp_actor = actor, rp_key = key, rp_payload = payload,
             rp_status = ''queued'', rp_attempts = 0, rp_next_attempt_at = now, rp_created_at = now,
             rp_sent_at = None\<rparr> t))"

definition report_key :: "header_map \<Rightarrow> (string, control_error) result" where
  "report_key headers =
     and_then (single_header headers ''idempotency-key'') (\<lambda>sent.
     and_then (ok_or sent (bad_request ''idempotency_key_required''
         ''Send an Idempotency-Key header (1 to 128 letters, digits, hyphens or underscores).'')) (\<lambda>key.
     if key = [] \<or> length key > 128 \<or> \<not> list_all (\<lambda>b. is_ascii_alphanumeric b \<or> b = CHR ''-'' \<or> b = CHR ''_'') key
     then Err (bad_request ''invalid_idempotency_key''
       ''Idempotency-Key must be 1 to 128 letters, digits, hyphens or underscores.'')
     else Ok key))"

definition on_reports ::
    "'w control \<Rightarrow> (instant \<Rightarrow> report_table \<Rightarrow> ('a \<times> report_table, control_error) result) \<Rightarrow> ('w, 'a) control_call" where
  "on_reports C body = on_plane C (\<lambda>now p.
     map_ok (\<lambda>(x, t). (x, p\<lparr>pl_reports := t\<rparr>)) (body now (pl_reports p)))"

text \<open>The UUID is drawn before the transaction here; it is only used for a new report.\<close>

definition submit :: "'w control \<Rightarrow> url_crate \<Rightarrow> header_map \<Rightarrow> report \<Rightarrow> ('w, nat \<times> json) control_call" where
  "submit C U headers r =
     try_call (lift_result (validate_report U r)) (\<lambda>_.
     try_call (caller_of C headers ManageAccount) (\<lambda>c.
     try_call (lift_result (report_key headers)) (\<lambda>key.
     if kc_mail C = None then throw (unavailable_error ''postmark_not_configured''
       ''Bug reports cannot be delivered: WAVEFORM_POSTMARK_TOKEN is not configured.'')
     else State_Monad.bind (in_control_world (kc_uuid_v4 C)) (\<lambda>fresh.
       try_call (on_reports C (submit_row fresh (cr_storage_key (ca_record c)) key (report_json r))) (\<lambda>(i, st).
       done_with (202, JObject
         [(''id'', JString (uuid_text (kc_uuid_crate C) i)), (''submitted'', JBool True),
          (''notification'', JString st),
          (''repository'', JString ''https://github.com/teamofsilicons/silicon-waveform'')]))))))"

section \<open>Delivery\<close>

text \<open>
  The first report that is due and that no other delivery holds (\<open>locked\<close>): rows of the same time in
  the order of their ids.
\<close>

definition due_report :: "uuid fset \<Rightarrow> instant \<Rightarrow> report_table \<Rightarrow> (uuid \<times> json) option" where
  "due_report locked now t =
     (case sort_key (\<lambda>i. case fmlookup t i of Some r \<Rightarrow> rp_next_attempt_at r | None \<Rightarrow> 0)
         (sorted_list_of_fset (reports_where (\<lambda>r. rp_status r = ''queued'' \<and> rp_next_attempt_at r \<le> now) t |-| locked)) of
        [] \<Rightarrow> None
      | i # _ \<Rightarrow> map_option (\<lambda>r. (i, rp_payload r)) (fmlookup t i))"

definition text_or :: "string \<Rightarrow> json \<Rightarrow> string" where
  "text_or d v = (case as_str v of Some s \<Rightarrow> s | None \<Rightarrow> d)"

definition report_mail :: "uuid_crate \<Rightarrow> uuid \<Rightarrow> json \<Rightarrow> json" where
  "report_mail U i payload =
     (let id_text = uuid_text U i; line = [CHR 0x0A] in JObject
        [(''From'', JString ''waveform@teamofsilicons.com''),
         (''To'', JString ''saketdev12@gmail.com,shubhastro2@gmail.com,bugs@teamofsilicons.com''),
         (''Subject'', JString (''Waveform bug report '' @ id_text)),
         (''TextBody'', JString (''Report: '' @ id_text @ line @ ''Version: '' @
            text_or [] (json_index payload ''client_version'') @ line @ line @
            text_or [] (json_index payload ''message'') @ line @ line @ ''PR: '' @
            text_or ''No PR attached'' (json_index payload ''pr''))),
         (''MessageStream'', JString ''outbound''), (''TrackOpens'', JBool False),
         (''TrackLinks'', JString ''None''), (''Metadata'', JObject [(''report_id'', JString id_text)])])"

text \<open>The answer of the mail service: its status, and its body if it is JSON.\<close>

definition accepted_mail :: "(nat \<times> json option) option \<Rightarrow> bool" where
  "accepted_mail answer \<longleftrightarrow>
     (case answer of
        Some (http_status, Some v) \<Rightarrow> 200 \<le> http_status \<and> http_status < 300 \<and>
          json_index v ''ErrorCode'' = JNumber (PosInt 0) \<and> as_str (json_index v ''MessageID'') \<noteq> None
      | _ \<Rightarrow> False)"

definition sent_row :: "instant \<Rightarrow> report_row \<Rightarrow> report_row" where
  "sent_row now r = r\<lparr>rp_status := ''sent'', rp_sent_at := Some now, rp_attempts := rp_attempts r + 1\<rparr>"

text \<open>\<open>least(3600, 60*power(2,least(attempts,6)))\<close> seconds.\<close>

definition retry_row :: "instant \<Rightarrow> report_row \<Rightarrow> report_row" where
  "retry_row now r = r\<lparr>rp_attempts := rp_attempts r + 1,
     rp_next_attempt_at := now + int (secs (min 3600 (60 * 2 ^ min (rp_attempts r) 6)))\<rparr>"

definition update_report :: "uuid \<Rightarrow> (report_row \<Rightarrow> report_row) \<Rightarrow> report_table \<Rightarrow> report_table" where
  "update_report i f t = (case fmlookup t i of Some r \<Rightarrow> fmupd i (f r) t | None \<Rightarrow> t)"

text \<open>
  One transaction holds the row while the mail is sent: its two statements share \<open>now()\<close>. \<open>client\<close> is
  whether the HTTP client could be built, \<open>post\<close> the exchange with the token of the mailbox.
\<close>

definition deliver_report ::
    "'w control \<Rightarrow> ('w, uuid fset) state \<Rightarrow> bool \<Rightarrow> (mail \<Rightarrow> json \<Rightarrow> ('w, (nat \<times> json option) option) state) \<Rightarrow>
     ('w, unit) control_call" where
  "deliver_report C locked_rows client post =
     (case kc_mail C of
        None \<Rightarrow> done_with ()
      | Some mail \<Rightarrow>
          State_Monad.bind (in_control_world locked_rows) (\<lambda>locked.
          try_call (read_plane C (\<lambda>now p. Ok (now, due_report locked now (pl_reports p)))) (\<lambda>(now, found).
          case found of
            None \<Rightarrow> done_with ()
          | Some (i, payload) \<Rightarrow>
              if \<not> client then throw (unavailable_error ''postmark_unavailable'' ''Postmark is unavailable.'')
              else State_Monad.bind (in_control_world (post mail (report_mail (kc_uuid_crate C) i payload))) (\<lambda>answer.
                on_reports C (\<lambda>_ t. Ok ((), update_report i
                  ((if accepted_mail answer then sent_row else retry_row) now) t))))))"

section \<open>The queue\<close>

text \<open>What any replica does to the table, and the deletion of an account with its rows.\<close>

inductive report_change :: "report_table \<Rightarrow> report_table \<Rightarrow> bool" where
  queue: "submit_row fresh actor key payload now t = Ok (x, t') \<Longrightarrow> report_change t t'"
| deliver: "report_change t (update_report i (sent_row now) t)"
| fail: "report_change t (update_report i (retry_row now) t)"
| purge: "report_change t (fmfilter (\<lambda>i. i \<notin> gone) t)"

inductive reports_reachable :: "report_table \<Rightarrow> bool" where
  start: "reports_reachable fmempty"
| step: "reports_reachable t \<Longrightarrow> report_change t t' \<Longrightarrow> reports_reachable t'"

definition made_within :: "uuid \<Rightarrow> instant \<Rightarrow> report_row \<Rightarrow> bool" where
  "made_within actor x r \<longleftrightarrow> rp_actor r = actor \<and> x < rp_created_at r \<and> rp_created_at r \<le> x + HOUR"

definition within_limit :: "report_table \<Rightarrow> bool" where
  "within_limit t \<longleftrightarrow> (\<forall>actor x. fcard (reports_where (made_within actor x) t) \<le> REPORTS_PER_HOUR)"

definition keys_apart :: "report_table \<Rightarrow> bool" where
  "keys_apart t \<longleftrightarrow> (\<forall>i j r q. fmlookup t i = Some r \<longrightarrow> fmlookup t j = Some q \<longrightarrow>
     rp_org r = rp_org q \<longrightarrow> rp_actor r = rp_actor q \<longrightarrow> rp_key r = rp_key q \<longrightarrow> i = j)"

lemma reports_where_iff [simp]:
  "i |\<in>| reports_where P t \<longleftrightarrow> (\<exists>r. fmlookup t i = Some r \<and> P r)"
  by (auto simp: reports_where_def fmlookup_dom_iff split: option.splits)

lemma reports_where_mono:
  assumes "\<And>i r. fmlookup t i = Some r \<Longrightarrow> P r \<Longrightarrow> \<exists>q. fmlookup t' i = Some q \<and> Q q"
  shows "fcard (reports_where P t) \<le> fcard (reports_where Q t')"
  by (rule fcard_mono) (use assms in \<open>fastforce\<close>)

text \<open>Updates that keep the owner, the key and the time of a report change neither.\<close>

definition report_keeps_origin :: "(report_row \<Rightarrow> report_row) \<Rightarrow> bool" where
  "report_keeps_origin f \<longleftrightarrow> (\<forall>r. rp_org (f r) = rp_org r \<and> rp_actor (f r) = rp_actor r \<and> rp_key (f r) = rp_key r \<and>
     rp_created_at (f r) = rp_created_at r)"

lemma report_keeps_origin_rows [simp]: "report_keeps_origin (sent_row now)" "report_keeps_origin (retry_row now)"
  by (simp_all add: report_keeps_origin_def sent_row_def retry_row_def)

lemma update_report_lookup:
  "fmlookup (update_report i f t) j = (if j = i then map_option f (fmlookup t j) else fmlookup t j)"
  by (auto simp: update_report_def split: option.splits)

lemma within_limit_smaller:
  assumes "within_limit t"
    and "\<And>i r. fmlookup t' i = Some r \<Longrightarrow> \<exists>q. fmlookup t i = Some q \<and> rp_actor q = rp_actor r \<and> rp_created_at q = rp_created_at r"
  shows "within_limit t'"
proof -
  have "fcard (reports_where (made_within actor x) t') \<le> fcard (reports_where (made_within actor x) t)" for actor x
    by (rule reports_where_mono) (use assms(2) in \<open>fastforce simp: made_within_def\<close>)
  with assms(1) show ?thesis unfolding within_limit_def by (meson order_trans)
qed

lemma keys_apart_smaller:
  assumes "keys_apart t"
    and "\<And>i r. fmlookup t' i = Some r \<Longrightarrow>
      \<exists>q. fmlookup t i = Some q \<and> rp_org q = rp_org r \<and> rp_actor q = rp_actor r \<and> rp_key q = rp_key r"
  shows "keys_apart t'"
  using assms unfolding keys_apart_def by metis

lemma submit_row_cases:
  assumes "submit_row fresh actor key payload now t = Ok (x, t')"
  obtains (replay) i r where "x = (i, rp_status r)" "t' = t" "fmlookup t i = Some r" "report_under_key actor key r"
      "rp_payload r = payload"
  | (new) r where "t' = fmupd fresh r t" "fmlookup t fresh = None"
      "\<And>i q. fmlookup t i = Some q \<Longrightarrow> \<not> report_under_key actor key q"
      "fcard (reports_where (\<lambda>r. rp_actor r = actor \<and> rp_created_at r > now - HOUR) t) < REPORTS_PER_HOUR"
      "rp_org r = ACCOUNT_SCOPE" "rp_actor r = actor" "rp_key r = key" "rp_created_at r = now" "rp_payload r = payload"
      "rp_status r = ''queued''" "x = (fresh, ''queued'')"
proof (cases "sorted_list_of_fset (reports_where (report_under_key actor key) t)")
  case (Cons i rest)
  then have "i |\<in>| reports_where (report_under_key actor key) t"
    by (metis list.set_intros(1) sorted_list_of_fset_simps(1) fset_of_list_elem fset_of_list_simps)
  then obtain r where "fmlookup t i = Some r" "report_under_key actor key r" by auto
  then show ?thesis using assms Cons by (intro replay [of i r]) (auto simp: submit_row_def split: if_splits)
next
  case Nil
  then have "reports_where (report_under_key actor key) t = {||}"
    by (metis bot_fset.rep_eq fset_inverse list.set(1) sorted_list_of_fset_simps(1))
  then have none: "fmlookup t i = Some q \<Longrightarrow> \<not> report_under_key actor key q" for i q
    using reports_where_iff [of i "report_under_key actor key" t] by auto
  show ?thesis
    using assms Nil none by (auto simp: submit_row_def not_le split: if_splits intro!: new)
qed

lemma fcard_finsert_le: "fcard (finsert x A) \<le> Suc (fcard A)"
  by (simp add: fcard_finsert_if)

lemma within_limit_new:
  assumes "within_limit t" "fmlookup t fresh = None" "rp_actor r = actor" "rp_created_at r = now"
    and "fcard (reports_where (\<lambda>r. rp_actor r = actor \<and> rp_created_at r > now - HOUR) t) < REPORTS_PER_HOUR"
  shows "within_limit (fmupd fresh r t)"
  unfolding within_limit_def
proof (intro allI)
  fix a x
  let ?old = "reports_where (made_within a x) t" and ?new = "reports_where (made_within a x) (fmupd fresh r t)"
  show "fcard ?new \<le> REPORTS_PER_HOUR"
  proof (cases "made_within a x r")
    case False
    then have "?new = ?old" using assms(2) by (auto simp: fset_eq_iff)
    then show ?thesis using assms(1) by (simp add: within_limit_def)
  next
    case True
    then have "?new = finsert fresh ?old" using assms(2) by (auto simp: fset_eq_iff)
    moreover have "fcard ?old \<le> fcard (reports_where (\<lambda>r. rp_actor r = actor \<and> rp_created_at r > now - HOUR) t)"
      by (rule reports_where_mono) (use True assms(3,4) in \<open>auto simp: made_within_def\<close>)
    ultimately show ?thesis using assms(5) fcard_finsert_le [of fresh ?old] by simp
  qed
qed

lemma keys_apart_new:
  assumes "keys_apart t" "fmlookup t fresh = None" "rp_org r = ACCOUNT_SCOPE"
    and "\<And>i q. fmlookup t i = Some q \<Longrightarrow> \<not> report_under_key (rp_actor r) (rp_key r) q"
  shows "keys_apart (fmupd fresh r t)"
proof -
  have "i = j" if "fmlookup (fmupd fresh r t) i = Some a" "fmlookup (fmupd fresh r t) j = Some b"
    "rp_org a = rp_org b" "rp_actor a = rp_actor b" "rp_key a = rp_key b" for i j a b
    using that assms(1,3) assms(4) [of i a] assms(4) [of j b]
    by (auto simp: keys_apart_def report_under_key_def split: if_splits)
  then show ?thesis unfolding keys_apart_def by blast
qed

lemma report_change_inv:
  assumes "report_change t t'" "within_limit t" "keys_apart t"
  shows "within_limit t' \<and> keys_apart t'"
  using assms(1)
proof cases
  case (queue fresh actor key payload now x)
  from queue show ?thesis
  proof (cases rule: submit_row_cases)
    case (new r)
    then show ?thesis
      using within_limit_new [OF assms(2) new(2,6,8)] keys_apart_new [OF assms(3) new(2,5)] by simp
  qed (use assms(2,3) in simp)
next
  case (purge gone)
  then have "\<exists>q. fmlookup t i = Some q \<and> q = r" if "fmlookup t' i = Some r" for i r
    using that by (auto split: if_splits)
  then show ?thesis
    using within_limit_smaller [OF assms(2), of t'] keys_apart_smaller [OF assms(3), of t'] by fast
qed (auto intro!: within_limit_smaller [OF assms(2)] keys_apart_smaller [OF assms(3)]
  simp: update_report_lookup sent_row_def retry_row_def split: if_splits)

lemma reports_reachable_inv: "reports_reachable t \<Longrightarrow> within_limit t \<and> keys_apart t"
proof (induction rule: reports_reachable.induct)
  case start
  have "reports_where P fmempty = {||}" for P by auto
  then show ?case by (simp add: within_limit_def keys_apart_def fcard_fempty)
next
  case (step t t')
  then show ?case using report_change_inv by blast
qed

lemmas reports_reachable_keys = reports_reachable_inv [THEN conjunct2]

text \<open>
  C30: an account cannot flood the team with reports. However replicas queue, mail, retry and delete
  reports, and in whatever order the readings of \<open>now()\<close> of concurrent requests are, no account has more
  than ten reports made within any one hour, and no two reports of an account share an idempotency key.
\<close>

theorem at_most_ten_reports_an_hour:
  assumes "reports_reachable t"
  shows "fcard (reports_where (made_within actor x) t) \<le> 10 \<and> keys_apart t"
  using reports_reachable_inv [OF assms] by (simp add: within_limit_def REPORTS_PER_HOUR_def)

section \<open>Idempotency\<close>

text \<open>Steps of others that leave report \<open>i\<close> in the table.\<close>

inductive report_changes_but :: "uuid \<Rightarrow> report_table \<Rightarrow> report_table \<Rightarrow> bool" for i where
  refl: "report_changes_but i t t"
| step: "report_changes_but i t t' \<Longrightarrow> report_change t' t'' \<Longrightarrow> fmlookup t'' i \<noteq> None \<Longrightarrow> report_changes_but i t t''"

definition same_report :: "report_row \<Rightarrow> report_row \<Rightarrow> bool" where
  "same_report r q \<longleftrightarrow> rp_org r = rp_org q \<and> rp_actor r = rp_actor q \<and> rp_key r = rp_key q \<and> rp_payload r = rp_payload q"

lemma report_change_keeps:
  assumes "report_change t t'" "fmlookup t i = Some r" "fmlookup t' i = Some r'"
  shows "same_report r r'"
  using assms(1)
proof cases
  case (queue fresh actor key payload now x)
  from queue assms(2,3) show ?thesis by (cases rule: submit_row_cases) (auto simp: same_report_def split: if_splits)
qed (use assms(2,3) in \<open>auto simp: same_report_def update_report_lookup sent_row_def retry_row_def split: if_splits\<close>)

lemma report_changes_keep:
  assumes "report_changes_but i t t'" "fmlookup t i = Some r"
  shows "\<exists>r'. fmlookup t' i = Some r' \<and> same_report r r'"
  using assms
proof induction
  case (refl t)
  then show ?case by (auto simp: same_report_def)
next
  case (step t t' t'')
  then obtain r' where "fmlookup t' i = Some r'" "same_report r r'" by blast
  moreover obtain r'' where "fmlookup t'' i = Some r''" using step.hyps(3) by auto
  ultimately show ?case using report_change_keeps [OF step.hyps(2)] unfolding same_report_def by metis
qed

lemma submit_row_answers:
  assumes "submit_row fresh actor key payload now t = Ok ((i, st), t')"
  shows "\<exists>r. fmlookup t' i = Some r \<and> report_under_key actor key r \<and> rp_payload r = payload \<and> st = rp_status r"
  using assms by (cases rule: submit_row_cases) (auto simp: report_under_key_def)

lemma sorted_list_of_singleton [simp]: "sorted_list_of_fset {|i|} = [i]"
  by (simp add: sorted_list_of_fset_def)

lemma submit_row_again:
  assumes "keys_apart t" "fmlookup t i = Some r" "report_under_key actor key r"
  shows "submit_row fresh actor key payload now t =
    (if rp_payload r = payload then Ok ((i, rp_status r), t)
     else Err (control_error_new 409 ''report_idempotency_conflict''
       ''This Idempotency-Key was already used for a different report; use a new key.''))"
proof -
  have "reports_where (report_under_key actor key) t = {|i|}"
    using assms unfolding keys_apart_def report_under_key_def by (auto simp: fset_eq_iff report_under_key_def)
  then show ?thesis using assms(2) by (simp add: submit_row_def)
qed

text \<open>
  A report is queued once. After a report was accepted, and whatever the replicas do as long as the
  report stays in the table, sending it again under its key answers the same id and changes nothing,
  and sending another report under that key is refused with 409 and changes nothing.
\<close>

theorem reports_are_queued_once:
  assumes "reports_reachable t" "submit_row fresh actor key payload now t = Ok ((i, st), t')"
    and "report_changes_but i t' t''"
  shows "(\<exists>st'. submit_row fresh' actor key payload now' t'' = Ok ((i, st'), t'')) \<and>
    (payload' \<noteq> payload \<longrightarrow>
      (\<exists>e. submit_row fresh' actor key payload' now' t'' = Err e \<and> ke_status e = 409))"
proof -
  obtain r where r: "fmlookup t' i = Some r" "report_under_key actor key r" "rp_payload r = payload"
    using submit_row_answers [OF assms(2)] by blast
  obtain r' where r': "fmlookup t'' i = Some r'" "same_report r r'" using report_changes_keep [OF assms(3) r(1)] by blast
  have "reports_reachable t''"
    using assms(3) reports_reachable.step [OF assms(1) report_change.queue [OF assms(2)]]
    by induction (auto intro: reports_reachable.step)
  then have "keys_apart t''" by (rule reports_reachable_keys)
  note again = submit_row_again [OF this r'(1)]
  have "report_under_key actor key r'" "rp_payload r' = payload"
    using r r'(2) by (auto simp: same_report_def report_under_key_def)
  then show ?thesis using again by (auto simp: control_error_new_def)
qed

end
