(* ===== verification/Control_Examples.thy ===== *)
theory Control_Examples
  imports Control_Properties Contracts Reports Directory_Examples Briefcase_Examples Store_Examples
    Storage_Properties
begin

text \<open>
  The properties of the control API at concrete inputs: the accounts of \<open>Directory_Examples\<close>, a deprecated
  version of the API, one bug report, two jobs, one held file and one saved key.
\<close>

section \<open>A small control API\<close>

definition nx_directory_state :: "unit directory_state" where
  "nx_directory_state = dx_state dx_db"

definition nx_retired :: contract_row where
  "nx_retired = \<lparr>cw_contract_version = ''1.0.0'', cw_state = ''sunset'', cw_successor = Some ''v2'',
     cw_deprecated_at = Some 0, cw_last_request_at = None, cw_sunset_at = Some 700000000000000\<rparr>"

definition nx_held :: held_row where
  "nx_held = \<lparr>hr_owner = 7, hr_filename = ''speech.mp3'', hr_media_type = ''audio/mpeg'', hr_audio = ''a'',
     hr_reason = ''no_access'', hr_expires_at = 200\<rparr>"

definition nx_plane :: plane where
  "nx_plane = \<lparr>pl_defaults = None, pl_preferences = fmempty, pl_keys = fmempty, pl_profiles = fmempty,
     pl_reports = fmempty, pl_contracts = fmupd ''v1'' nx_retired fmempty,
     pl_jobs = \<lparr>db_records = fmempty, db_jobs = fmempty, db_planes = [0]\<rparr>, pl_held = fmupd 5 nx_held fmempty\<rparr>"

definition nx_state :: "unit control_state" where
  "nx_state = \<lparr>cs_plane = nx_plane, cs_directory = dx_state dx_db,
     cs_proofs = \<lparr>px_table = fmempty, px_written = None, px_aborted = False, px_world = ()\<rparr>\<rparr>"

definition nx_uuids :: uuid_crate where
  "nx_uuids = \<lparr>uuid_parse = (\<lambda>s. Some (of_nat (length s))), uuid_text = (\<lambda>u. replicate (unat u) CHR ''x'')\<rparr>"

definition nx_control :: "unit control" where
  "nx_control = \<lparr>kc_authenticator = dx_authenticator, kc_introspect_active = (\<lambda>_. done_with True),
     kc_storage_proofs = None, kc_briefcase = bx_client ''/a'', kc_vault = Some (Vault []),
     kc_vault_crates = plain_crates, kc_mail = None, kc_app_id = ''waveform'', kc_accounts_url = ''https://a'',
     kc_public_url = ''https://w'', kc_uuid_crate = nx_uuids,
     kc_rfc3339 = (\<lambda>t. if 0 \<le> t then Some (replicate (nat t) CHR ''x'') else None),
     kc_parse_rfc3339 = (\<lambda>s. Some (int (length s))), kc_form_parse = (\<lambda>_. []),
     kc_uuid_v4 = State_Monad.return 21, kc_uuid_v7 = State_Monad.return 22, kc_db_now = State_Monad.return 100,
     kc_commit = State_Monad.return commit_outcome.Committed, kc_others = State_Monad.return ()\<rparr>"

section \<open>Versions of the API\<close>

definition nx_active :: contract_row where
  "nx_active = \<lparr>cw_contract_version = ''1.0.0'', cw_state = ''active'', cw_successor = None,
     cw_deprecated_at = None, cw_last_request_at = None, cw_sunset_at = None\<rparr>"

definition nx_deprecated :: contract_row where
  "nx_deprecated = nx_active\<lparr>cw_state := ''deprecated'', cw_successor := Some ''v2'', cw_deprecated_at := Some 0\<rparr>"

definition nx_versions :: contract_table where
  "nx_versions = fmupd ''v1'' nx_deprecated (fmupd ''v2'' nx_active (fmupd ''v1'' nx_active fmempty))"

lemma nx_versions_reachable: "contracts_reachable nx_versions"
proof -
  let ?one = "fmupd ''v1'' nx_active fmempty" and ?two = "fmupd ''v2'' nx_active (fmupd ''v1'' nx_active fmempty)"
  have new: "cw_state nx_active = ''active''" "cw_deprecated_at nx_active = None" by (simp_all add: nx_active_def)
  have "contracts_reachable ?one"
    by (rule contracts_reachable.step [OF contracts_reachable.start registration [OF _ new]]) simp
  then have "contracts_reachable ?two"
    by (rule contracts_reachable.step [OF _ registration [OF _ new]]) simp
  then show ?thesis
  proof (rule contracts_reachable.step)
    have "deprecate_row 0 ''v1'' ''v2'' ?two = Some nx_versions"
      by (simp add: deprecate_row_def nx_versions_def nx_deprecated_def nx_active_def in_contract_state_def)
    then show "contract_change ?two nx_versions" by (rule contract_change.deprecation [rotated]) simp
  qed
qed

lemma versions_retire_when_quiet_witness:
  "fmlookup (snd (sunset_rows 700000000000000 nx_versions)) ''v1'' = Some (retired_at 700000000000000 nx_deprecated) \<and>
   (\<exists>now. was_quiet now nx_versions nx_deprecated)"
proof -
  let ?now = "700000000000000 :: int"
  have after: "fmlookup (snd (sunset_rows ?now nx_versions)) ''v1'' = Some (retired_at ?now nx_deprecated)"
    by (simp add: sunset_rows_def nx_versions_def due_row_def retirement_due_def quiet_since_def QUIET_PERIOD_def
        in_contract_state_def nx_deprecated_def nx_active_def)
  have "(\<exists>now. was_quiet now nx_versions nx_deprecated \<and> retired_at ?now nx_deprecated = retired_at now nx_deprecated) \<and>
      fmlookup (snd (sunset_rows ?now nx_versions)) ''v1'' = Some (retired_at ?now nx_deprecated)"
    by (rule versions_retire_when_quiet [OF nx_versions_reachable maintenance [of nx_versions ?now] _ _ after _ rtranclp.rtrancl_refl])
      (simp_all add: nx_versions_def nx_deprecated_def retired_at_def)
  then show ?thesis by blast
qed

lemma retired_versions_reach_no_handler_witness:
  "ar_status (fst (run_state (negotiate nx_control ''/api/v1/tts'' []
     (State_Monad.return (json_response 200 JNull))) nx_state)) \<in> {400, 406, 410, 503}"
proof -
  have others: "others_follow_contracts nx_control"
    by (simp add: others_follow_contracts_def nx_control_def run_simps)
  have path: "path_version ''/api/v1/tts'' = ''v1''" "starts_with ''/api/v'' ''/api/v1/tts''" by code_simp+
  have row: "fmlookup (contracts_of nx_state) ''v1'' = Some nx_retired" "cw_state nx_retired = ''sunset''"
    by (simp_all add: contracts_of_def nx_state_def nx_plane_def nx_retired_def)
  have found_row: "fmlookup (contracts_of nx_state) (path_version ''/api/v1/tts'') = Some nx_retired"
    unfolding path(1) by (rule row(1))
  show ?thesis
    using retired_versions_reach_no_handler [OF others path(2) found_row row(2), of "[]"
      "State_Monad.return (json_response 200 JNull)" "State_Monad.return (json_response 404 JNull)"] by blast
qed

section \<open>Bug reports\<close>

definition nx_queue :: report_table where
  "nx_queue = snd (case submit_row 21 7 ''k'' JNull 0 fmempty of Ok x \<Rightarrow> x | Err _ \<Rightarrow> ((0, []), fmempty))"

lemma reports_where_empty [simp]: "reports_where P fmempty = {||}"
  by auto

lemma nx_submit: "submit_row 21 7 ''k'' JNull 0 fmempty = Ok ((21, ''queued''), nx_queue)"
  by (simp add: nx_queue_def submit_row_def sorted_list_of_fset_def fcard_fempty REPORTS_PER_HOUR_def)

lemma at_most_ten_reports_an_hour_witness: "fcard (reports_where (made_within 7 0) nx_queue) \<le> 10"
  using at_most_ten_reports_an_hour [OF reports_reachable.step [OF reports_reachable.start queue [OF nx_submit]]] by blast

lemma reports_are_queued_once_witness:
  "\<exists>st. submit_row 23 7 ''k'' JNull 50 nx_queue = Ok ((21, st), nx_queue)"
  using reports_are_queued_once [OF reports_reachable.start nx_submit report_changes_but.refl] by blast

section \<open>History\<close>

definition nx_jobs :: db where
  "nx_jobs = \<lparr>db_records = fmempty, db_jobs = fmupd 2 (ex_job\<lparr>jb_created_at := 4\<rparr>) (fmupd 1 ex_job fmempty), db_planes = [0]\<rparr>"

lemma pages_cover_the_history_witness:
  "\<exists>jobs. follow_pages 3 nx_control 3 (Some ''tts'') (Some 1) nx_jobs None = Ok jobs \<and> (1, ex_job) \<in> set jobs"
proof -
  have texts: "cursor_texts nx_control"
    by (auto simp: cursor_texts_def nx_control_def nx_uuids_def)
  have times: "writable_times nx_control nx_jobs"
    by (auto simp: writable_times_def nx_jobs_def nx_control_def ex_job_def)
  from pages_cover_the_history [OF texts times, of 3 "Some ''tts''" "Some 1"] obtain jobs where
    "follow_pages (size (fmdom (db_jobs nx_jobs)) + 1) nx_control 3 (Some ''tts'') (Some 1) nx_jobs None = Ok jobs"
    "set jobs = {(i, j). fmlookup (db_jobs nx_jobs) i = Some j \<and> is_job_of 3 (Some ''tts'') j}" by blast
  moreover have "(1, ex_job) \<in> {(i, j). fmlookup (db_jobs nx_jobs) i = Some j \<and> is_job_of 3 (Some ''tts'') j}"
    by (simp add: nx_jobs_def is_job_of_def ex_job_def)
  moreover have "size (fmdom (db_jobs nx_jobs)) + 1 = 3" by (simp add: nx_jobs_def)
  ultimately show ?thesis by metis
qed

section \<open>Saved keys\<close>

lemma saved_keys_reach_the_service_witness:
  "\<exists>keys. keys_on_plane nx_control 7 (put_key_rows 7 ''openai'' (replicate 24 CHR ''n'' @ ''key'' @ replicate 16 CHR ''t'') 50 nx_plane) = Ok keys \<and>
     keys provider_name.OpenAi = Some ''key''"
proof -
  have laws: "cipher_laws (kc_vault_crates nx_control)" "kc_vault nx_control = Some (Vault [])"
    by (simp_all add: cipher_laws_def nx_control_def plain_crates_def run_state_return)
  have key: "valid_api_key ''key''" by code_simp
  have seal: "fst (run_state (seal (kc_vault_crates nx_control) (Vault []) ''key''
      (key_context nx_control 7 (provider_as_str provider_name.OpenAi))) ()) = Ok (replicate 24 CHR ''n'' @ ''key'' @ replicate 16 CHR ''t'')"
    by (simp add: nx_control_def plain_crates_def seal_def run_simps)
  have none: "keys_on_plane nx_control 7 (delete_key_rows 7 (provider_as_str provider_name.OpenAi) (\<lambda>_. True) nx_plane) = Ok (\<lambda>_. None)"
    by (simp add: keys_on_plane_iff delete_key_rows_def nx_plane_def)
  from saved_keys_reach_the_service [OF laws key seal none, of 50 9] show ?thesis by auto
qed

section \<open>Accounts\<close>

lemma nx_bearer:
  "\<exists>a. run_state (bearer dx_authenticator t) (dx_state dx_db) = (Ok a, dx_state dx_db) \<and> ref_uuid (aa_account a) = AccountUuid ''a1''"
  by (simp add: bearer_def run_simps dx_parts dx_claims_def dx_uuids dx_current claimed_kind_def Let_def
      as_unavailable_def dx_sighting dx_load_existing sign_in_ended_def same_kind_def authorized_def
      actor_id_new_def ensure_non_nil_def)

definition nx_headers :: header_map where
  "nx_headers = [(''authorization'', ''Bearer t'')]"

lemma nx_credentials: "parse_credentials nx_headers = Ok (Bearer (AccessToken (OpaqueCredential ''t'')))"
  by code_simp

lemma nx_caller:
  "\<exists>c. run_state (caller_of nx_control nx_headers ManageAccount) nx_state = (Ok c, nx_state) \<and>
     cr_uuid (ca_record c) = AccountUuid ''a1'' \<and> cr_kind (ca_record c) = Carbon \<and> cr_current_id (ca_record c) = Some ''c:new'' \<and>
     ca_credentials c = Bearer (AccessToken (OpaqueCredential ''t''))"
proof -
  obtain a where "run_state (bearer dx_authenticator ''t'') (dx_state dx_db) = (Ok a, dx_state dx_db)"
    "ref_uuid (aa_account a) = AccountUuid ''a1''" using nx_bearer by blast
  moreover have "sent_request_id nx_uuids nx_headers = None" by code_simp
  moreover have "nx_state\<lparr>cs_directory := dx_state dx_db\<rparr> = nx_state" by (simp add: nx_state_def)
  ultimately show ?thesis
    by (simp add: caller_of_def nx_credentials run_simps in_control_world_def nx_control_def header_request_id_def
        generated_request_id_def authenticator_authorize_def nx_state_def dx_parts dx_load access_secret_def)
qed

lemma nx_silicon:
  "\<exists>r. run_state (select_for_custodian dx_shared (AccountUuid ''a1'') ''s1'' Recent) (dx_state dx_db) =
     (Ok (Custodian r), dx_state dx_db)"
proof -
  have "public_id_kind ''s1'' = None" by code_simp
  then show ?thesis
    by (auto simp: select_for_custodian_def custody_def dx_run dx_rows dx_row_defs custodian_is_def
        custodian_checked_within_def CUSTODIAN_RECHECK_def secs_def)
qed


definition nx_proof_headers :: header_map where
  "nx_proof_headers = [(''authorization'', ''Proof sap_x'')]"

lemma nx_proof_credentials:
  "parse_credentials nx_proof_headers = Ok (inbound_credentials.Proof (ProofToken (OpaqueCredential ''sap_x'')))"
  by code_simp

lemma nx_delegated:
  "\<exists>c. run_state (caller_of nx_control nx_proof_headers SynthesizeSpeech) nx_state = (Ok c, nx_state) \<and>
     cr_storage_key (ca_record c) = 7"
proof -
  have "sent_request_id nx_uuids nx_proof_headers = None" by code_simp
  moreover have "nx_state\<lparr>cs_directory := dx_state dx_db\<rparr> = nx_state" by (simp add: nx_state_def)
  ultimately show ?thesis
    by (simp add: caller_of_def nx_proof_credentials run_simps in_control_world_def nx_control_def header_request_id_def
        generated_request_id_def authenticator_authorize_def nx_state_def dx_parts dx_load proof_authorization_def
        proof_actor_def dx_proof_def dx_allowed dx_app dx_uuids dx_current claimed_kind_def as_unavailable_def
        dx_sighting dx_load_existing same_kind_def authorized_def actor_id_new_def ensure_non_nil_def)
qed


end
