(* ===== verification/Client_Types.thy ===== *)
theory Client_Types
  imports Api_Model
begin

text \<open>
  \<open>src/client/src/types.rs\<close> and \<open>tts_options.rs\<close>: the client library's own request and response types,
  with what its derived deserializers read and its serializers write. The client's copies of the TTS
  controls have the fields of the service's and share its records; a string map is a function.
\<close>

section \<open>Responses\<close>

definition read_i32 :: "json \<Rightarrow> int option" where
  "read_i32 v = (case v of
     JNumber (PosInt n) \<Rightarrow> if n \<le> 2147483647 then Some (int n) else None
   | JNumber (NegInt i) \<Rightarrow> if -2147483648 \<le> i then Some i else None
   | _ \<Rightarrow> None)"

definition read_string_lists :: "json \<Rightarrow> (string \<Rightarrow> string list option) option" where
  "read_string_lists v = (case v of
     JObject members \<Rightarrow> map_option (\<lambda>entries. map_of (rev entries))
       (those (map (\<lambda>(k, w). map_option (Pair k) (read_vec as_str w)) members))
   | _ \<Rightarrow> None)"

record client_account_ref =
  ccr_uuid :: string
  ccr_id :: "string option"

definition read_client_account_ref :: "json \<Rightarrow> client_account_ref option" where
  "read_client_account_ref v =
     Option.bind (required_field [''uuid''] as_str v) (\<lambda>x1.
     Option.bind (optional_field [''id''] as_str v) (\<lambda>x2.
     Some \<lparr>ccr_uuid = x1, ccr_id = x2\<rparr>))"

record client_account =
  cca_uuid :: string
  cca_id :: "string option"
  cca_kind :: string
  cca_display_name :: "string option"
  cca_pfp_url :: "string option"
  cca_custodian :: "client_account_ref option"

definition read_client_account :: "json \<Rightarrow> client_account option" where
  "read_client_account v =
     Option.bind (required_field [''uuid''] as_str v) (\<lambda>x1.
     Option.bind (optional_field [''id''] as_str v) (\<lambda>x2.
     Option.bind (required_field [''kind''] as_str v) (\<lambda>x3.
     Option.bind (optional_field [''display_name''] as_str v) (\<lambda>x4.
     Option.bind (optional_field [''pfp_url''] as_str v) (\<lambda>x5.
     Option.bind (optional_field [''custodian''] read_client_account_ref v) (\<lambda>x6.
     Some \<lparr>cca_uuid = x1, cca_id = x2, cca_kind = x3, cca_display_name = x4, cca_pfp_url = x5,
       cca_custodian = x6\<rparr>))))))"

record client_me =
  cme_authenticated :: bool
  cme_app_id :: string
  cme_account :: client_account
  cme_via :: "string option"
  cme_expires_at :: "string option"

definition read_client_me :: "json \<Rightarrow> client_me option" where
  "read_client_me v =
     Option.bind (required_field [''authenticated''] as_bool v) (\<lambda>x1.
     Option.bind (required_field [''app_id''] as_str v) (\<lambda>x2.
     Option.bind (required_field [''account''] read_client_account v) (\<lambda>x3.
     Option.bind (optional_field [''via''] as_str v) (\<lambda>x4.
     Option.bind (optional_field [''expires_at''] as_str v) (\<lambda>x5.
     Some \<lparr>cme_authenticated = x1, cme_app_id = x2, cme_account = x3, cme_via = x4, cme_expires_at = x5\<rparr>)))))"

record accounts_info =
  cai_app_id :: string
  cai_accounts_url :: string
  cai_api_url :: string
  cai_docs_url :: "string option"
  cai_proof_scopes :: "string list"
  cai_version :: "string option"

definition read_accounts_info :: "json \<Rightarrow> accounts_info option" where
  "read_accounts_info v =
     Option.bind (required_field [''app_id''] as_str v) (\<lambda>x1.
     Option.bind (required_field [''accounts_url''] as_str v) (\<lambda>x2.
     Option.bind (required_field [''api_url''] as_str v) (\<lambda>x3.
     Option.bind (optional_field [''docs_url''] as_str v) (\<lambda>x4.
     Option.bind (default_field [''proof_scopes''] [] (read_vec as_str) v) (\<lambda>x5.
     Option.bind (optional_field [''version''] as_str v) (\<lambda>x6.
     Some \<lparr>cai_app_id = x1, cai_accounts_url = x2, cai_api_url = x3, cai_docs_url = x4, cai_proof_scopes = x5,
       cai_version = x6\<rparr>))))))"

record client_profile_ref =
  cpf_id :: string
  cpf_revision :: int

definition read_client_profile_ref :: "json \<Rightarrow> client_profile_ref option" where
  "read_client_profile_ref v =
     Option.bind (required_field [''id''] as_str v) (\<lambda>x1.
     Option.bind (required_field [''revision''] read_i32 v) (\<lambda>x2.
     Some \<lparr>cpf_id = x1, cpf_revision = x2\<rparr>))"

record storage_info =
  csi_status :: string
  csi_reason :: "string option"
  csi_message :: "string option"
  csi_expires_at :: "string option"

definition read_storage_info :: "json \<Rightarrow> storage_info option" where
  "read_storage_info v =
     Option.bind (required_field [''status''] as_str v) (\<lambda>x1.
     Option.bind (optional_field [''reason''] as_str v) (\<lambda>x2.
     Option.bind (optional_field [''message''] as_str v) (\<lambda>x3.
     Option.bind (optional_field [''expires_at''] as_str v) (\<lambda>x4.
     Some \<lparr>csi_status = x1, csi_reason = x2, csi_message = x3, csi_expires_at = x4\<rparr>))))"

record tts_response =
  ctr_voice_profile :: "client_profile_ref option"
  ctr_request_id :: string
  ctr_file_url :: "string option"
  ctr_temporary_url :: "string option"
  ctr_audio_url :: "string option"
  ctr_storage :: "storage_info option"
  ctr_media_type :: string
  ctr_provider :: string
  ctr_duration_ms :: nat

definition read_tts_response :: "json \<Rightarrow> tts_response option" where
  "read_tts_response v =
     Option.bind (optional_field [''voice_profile''] read_client_profile_ref v) (\<lambda>x1.
     Option.bind (required_field [''request_id''] as_str v) (\<lambda>x2.
     Option.bind (optional_field [''file_url''] as_str v) (\<lambda>x3.
     Option.bind (optional_field [''temporary_url''] as_str v) (\<lambda>x4.
     Option.bind (optional_field [''audio_url''] as_str v) (\<lambda>x5.
     Option.bind (optional_field [''storage''] read_storage_info v) (\<lambda>x6.
     Option.bind (required_field [''media_type''] as_str v) (\<lambda>x7.
     Option.bind (required_field [''provider''] as_str v) (\<lambda>x8.
     Option.bind (required_field [''duration_ms''] (read_uint u64_max) v) (\<lambda>x9.
     Some \<lparr>ctr_voice_profile = x1, ctr_request_id = x2, ctr_file_url = x3, ctr_temporary_url = x4,
       ctr_audio_url = x5, ctr_storage = x6, ctr_media_type = x7, ctr_provider = x8, ctr_duration_ms = x9\<rparr>)))))))))"

record stt_response =
  cst_request_id :: string
  cst_transcript :: string
  cst_detected_language :: "string option"
  cst_provider :: string
  cst_duration_ms :: "nat option"

definition read_stt_response :: "json \<Rightarrow> stt_response option" where
  "read_stt_response v =
     Option.bind (required_field [''request_id''] as_str v) (\<lambda>x1.
     Option.bind (required_field [''transcript''] as_str v) (\<lambda>x2.
     Option.bind (optional_field [''detected_language''] as_str v) (\<lambda>x3.
     Option.bind (required_field [''provider''] as_str v) (\<lambda>x4.
     Option.bind (optional_field [''duration_ms''] (read_uint u64_max) v) (\<lambda>x5.
     Some \<lparr>cst_request_id = x1, cst_transcript = x2, cst_detected_language = x3, cst_provider = x4,
       cst_duration_ms = x5\<rparr>)))))"

record client_job =
  ccj_voice_profile :: "client_profile_ref option"
  ccj_id :: string
  ccj_issuing_app :: "string option"
  ccj_operation :: string
  ccj_status :: string
  ccj_first_line :: string
  ccj_duration_ms :: "nat option"
  ccj_provider :: "string option"
  ccj_error_code :: "string option"
  ccj_created_at :: string
  ccj_finished_at :: "string option"

definition read_client_job :: "json \<Rightarrow> client_job option" where
  "read_client_job v =
     Option.bind (optional_field [''voice_profile''] read_client_profile_ref v) (\<lambda>x1.
     Option.bind (required_field [''id''] as_str v) (\<lambda>x2.
     Option.bind (optional_field [''issuing_app''] as_str v) (\<lambda>x3.
     Option.bind (required_field [''operation''] as_str v) (\<lambda>x4.
     Option.bind (required_field [''status''] as_str v) (\<lambda>x5.
     Option.bind (required_field [''first_line''] as_str v) (\<lambda>x6.
     Option.bind (optional_field [''duration_ms''] (read_uint u64_max) v) (\<lambda>x7.
     Option.bind (optional_field [''provider''] as_str v) (\<lambda>x8.
     Option.bind (optional_field [''error_code''] as_str v) (\<lambda>x9.
     Option.bind (required_field [''created_at''] as_str v) (\<lambda>x10.
     Option.bind (optional_field [''finished_at''] as_str v) (\<lambda>x11.
     Some \<lparr>ccj_voice_profile = x1, ccj_id = x2, ccj_issuing_app = x3, ccj_operation = x4, ccj_status = x5,
       ccj_first_line = x6, ccj_duration_ms = x7, ccj_provider = x8, ccj_error_code = x9, ccj_created_at = x10,
       ccj_finished_at = x11\<rparr>)))))))))))"

record job_page =
  cjp_account :: "client_account_ref option"
  cjp_items :: "client_job list"
  cjp_next_cursor :: "string option"

definition read_job_page :: "json \<Rightarrow> job_page option" where
  "read_job_page v =
     Option.bind (optional_field [''account''] read_client_account_ref v) (\<lambda>x1.
     Option.bind (required_field [''items''] (read_vec read_client_job) v) (\<lambda>x2.
     Option.bind (optional_field [''next_cursor''] as_str v) (\<lambda>x3.
     Some \<lparr>cjp_account = x1, cjp_items = x2, cjp_next_cursor = x3\<rparr>)))"

record client_tts_capabilities =
  ckt_output_format :: string
  ckt_languages :: "string list"
  ckt_auto_fallback_default :: "bool option"
  ckt_provider_options :: "(string \<Rightarrow> string list option)"

definition read_client_tts_capabilities :: "json \<Rightarrow> client_tts_capabilities option" where
  "read_client_tts_capabilities v =
     Option.bind (required_field [''output_format''] as_str v) (\<lambda>x1.
     Option.bind (required_field [''languages''] (read_vec as_str) v) (\<lambda>x2.
     Option.bind (optional_field [''auto_fallback_default''] as_bool v) (\<lambda>x3.
     Option.bind (default_field [''provider_options''] (\<lambda>_. None) read_string_lists v) (\<lambda>x4.
     Some \<lparr>ckt_output_format = x1, ckt_languages = x2, ckt_auto_fallback_default = x3,
       ckt_provider_options = x4\<rparr>))))"

record byok_capabilities =
  ckb_saved :: bool
  ckb_per_request :: bool
  ckb_precedence :: "string list"

definition read_byok_capabilities :: "json \<Rightarrow> byok_capabilities option" where
  "read_byok_capabilities v =
     Option.bind (required_field [''saved''] as_bool v) (\<lambda>x1.
     Option.bind (required_field [''per_request''] as_bool v) (\<lambda>x2.
     Option.bind (required_field [''precedence''] (read_vec as_str) v) (\<lambda>x3.
     Some \<lparr>ckb_saved = x1, ckb_per_request = x2, ckb_precedence = x3\<rparr>)))"

record client_stt_capabilities =
  cks_languages :: "string list"
  cks_accepted_media_types :: "string list"

definition read_client_stt_capabilities :: "json \<Rightarrow> client_stt_capabilities option" where
  "read_client_stt_capabilities v =
     Option.bind (required_field [''languages''] (read_vec as_str) v) (\<lambda>x1.
     Option.bind (required_field [''accepted_media_types''] (read_vec as_str) v) (\<lambda>x2.
     Some \<lparr>cks_languages = x1, cks_accepted_media_types = x2\<rparr>))"

record client_capabilities =
  ckc_tts :: client_tts_capabilities
  ckc_stt :: client_stt_capabilities
  ckc_byok :: "byok_capabilities option"

definition read_client_capabilities :: "json \<Rightarrow> client_capabilities option" where
  "read_client_capabilities v =
     Option.bind (required_field [''tts''] read_client_tts_capabilities v) (\<lambda>x1.
     Option.bind (required_field [''stt''] read_client_stt_capabilities v) (\<lambda>x2.
     Option.bind (optional_field [''byok''] read_byok_capabilities v) (\<lambda>x3.
     Some \<lparr>ckc_tts = x1, ckc_stt = x2, ckc_byok = x3\<rparr>)))"

record client_voice_settings =
  cvs_stability :: f64
  cvs_similarity_boost :: f64
  cvs_style :: f64
  cvs_use_speaker_boost :: bool
  cvs_speed :: f64

definition read_client_voice_settings :: "json \<Rightarrow> client_voice_settings option" where
  "read_client_voice_settings v =
     (if \<not> only_fields [''stability'', ''similarity_boost'', ''style'', ''use_speaker_boost'', ''speed''] v then None else
     Option.bind (required_field [''stability''] read_f64 v) (\<lambda>x1.
     Option.bind (required_field [''similarity_boost''] read_f64 v) (\<lambda>x2.
     Option.bind (required_field [''style''] read_f64 v) (\<lambda>x3.
     Option.bind (required_field [''use_speaker_boost''] as_bool v) (\<lambda>x4.
     Option.bind (required_field [''speed''] read_f64 v) (\<lambda>x5.
     Some \<lparr>cvs_stability = x1, cvs_similarity_boost = x2, cvs_style = x3, cvs_use_speaker_boost = x4,
       cvs_speed = x5\<rparr>))))))"

record client_eleven_labs_voice =
  cev_voice_id :: string
  cev_model_id :: string
  cev_voice_settings :: client_voice_settings

definition read_client_eleven_labs_voice :: "json \<Rightarrow> client_eleven_labs_voice option" where
  "read_client_eleven_labs_voice v =
     (if \<not> only_fields [''voice_id'', ''model_id'', ''voice_settings''] v then None else
     Option.bind (required_field [''voice_id''] as_str v) (\<lambda>x1.
     Option.bind (required_field [''model_id''] as_str v) (\<lambda>x2.
     Option.bind (required_field [''voice_settings''] read_client_voice_settings v) (\<lambda>x3.
     Some \<lparr>cev_voice_id = x1, cev_model_id = x2, cev_voice_settings = x3\<rparr>))))"

record client_voice_profile =
  cvp_id :: string
  cvp_name :: string
  cvp_description :: string
  cvp_revision :: int
  cvp_auditioned :: bool
  cvp_gemini_voice :: string
  cvp_openai_voice :: string
  cvp_elevenlabs :: client_eleven_labs_voice

definition read_client_voice_profile :: "json \<Rightarrow> client_voice_profile option" where
  "read_client_voice_profile v =
     (if \<not> only_fields [''id'', ''name'', ''description'', ''revision'', ''auditioned'', ''gemini_voice'', ''openai_voice'', ''elevenlabs''] v then None else
     Option.bind (required_field [''id''] as_str v) (\<lambda>x1.
     Option.bind (required_field [''name''] as_str v) (\<lambda>x2.
     Option.bind (required_field [''description''] as_str v) (\<lambda>x3.
     Option.bind (required_field [''revision''] read_i32 v) (\<lambda>x4.
     Option.bind (required_field [''auditioned''] as_bool v) (\<lambda>x5.
     Option.bind (required_field [''gemini_voice''] as_str v) (\<lambda>x6.
     Option.bind (required_field [''openai_voice''] as_str v) (\<lambda>x7.
     Option.bind (required_field [''elevenlabs''] read_client_eleven_labs_voice v) (\<lambda>x8.
     Some \<lparr>cvp_id = x1, cvp_name = x2, cvp_description = x3, cvp_revision = x4, cvp_auditioned = x5,
       cvp_gemini_voice = x6, cvp_openai_voice = x7, cvp_elevenlabs = x8\<rparr>)))))))))"

record preference_defaults =
  cpd_voice_profile :: "string option"
  cpd_tts_order :: "string list"
  cpd_stt_order :: "string list"

definition read_preference_defaults :: "json \<Rightarrow> preference_defaults option" where
  "read_preference_defaults v =
     Option.bind (optional_field [''voice_profile''] as_str v) (\<lambda>x1.
     Option.bind (default_field [''tts_order''] [] (read_vec as_str) v) (\<lambda>x2.
     Option.bind (default_field [''stt_order''] [] (read_vec as_str) v) (\<lambda>x3.
     Some \<lparr>cpd_voice_profile = x1, cpd_tts_order = x2, cpd_stt_order = x3\<rparr>)))"

record client_preferences =
  cpr_account :: "client_account_ref option"
  cpr_voice_profile :: "string option"
  cpr_tts_order :: "string list option"
  cpr_stt_order :: "string list option"
  cpr_defaults :: "preference_defaults option"

definition read_client_preferences :: "json \<Rightarrow> client_preferences option" where
  "read_client_preferences v =
     Option.bind (optional_field [''account''] read_client_account_ref v) (\<lambda>x1.
     Option.bind (optional_field [''voice_profile''] as_str v) (\<lambda>x2.
     Option.bind (optional_field [''tts_order''] (read_vec as_str) v) (\<lambda>x3.
     Option.bind (optional_field [''stt_order''] (read_vec as_str) v) (\<lambda>x4.
     Option.bind (optional_field [''defaults''] read_preference_defaults v) (\<lambda>x5.
     Some \<lparr>cpr_account = x1, cpr_voice_profile = x2, cpr_tts_order = x3, cpr_stt_order = x4, cpr_defaults = x5\<rparr>)))))"

record provider_key_info =
  cpi_provider :: string
  cpi_configured :: bool
  cpi_updated_at :: "string option"

definition read_provider_key_info :: "json \<Rightarrow> provider_key_info option" where
  "read_provider_key_info v =
     Option.bind (required_field [''provider''] as_str v) (\<lambda>x1.
     Option.bind (default_field [''configured''] False as_bool v) (\<lambda>x2.
     Option.bind (optional_field [''updated_at''] as_str v) (\<lambda>x3.
     Some \<lparr>cpi_provider = x1, cpi_configured = x2, cpi_updated_at = x3\<rparr>)))"

record provider_key_list =
  cpl_account :: "client_account_ref option"
  cpl_items :: "provider_key_info list"

definition read_provider_key_list :: "json \<Rightarrow> provider_key_list option" where
  "read_provider_key_list v =
     Option.bind (optional_field [''account''] read_client_account_ref v) (\<lambda>x1.
     Option.bind (required_field [''items''] (read_vec read_provider_key_info) v) (\<lambda>x2.
     Some \<lparr>cpl_account = x1, cpl_items = x2\<rparr>))"

record briefcase_access_status =
  cbs_status :: string
  cbs_receiving_app :: "string option"
  cbs_scopes :: "string list"
  cbs_proof_id :: "string option"
  cbs_token_expires_at :: "string option"
  cbs_refresh_expires_at :: "string option"
  cbs_updated_at :: "string option"
  cbs_revoked_reason :: "string option"

definition read_briefcase_access_status :: "json \<Rightarrow> briefcase_access_status option" where
  "read_briefcase_access_status v =
     Option.bind (required_field [''status''] as_str v) (\<lambda>x1.
     Option.bind (optional_field [''receiving_app''] as_str v) (\<lambda>x2.
     Option.bind (default_field [''scopes''] [] (read_vec as_str) v) (\<lambda>x3.
     Option.bind (optional_field [''proof_id''] as_str v) (\<lambda>x4.
     Option.bind (optional_field [''token_expires_at''] as_str v) (\<lambda>x5.
     Option.bind (optional_field [''refresh_expires_at''] as_str v) (\<lambda>x6.
     Option.bind (optional_field [''updated_at''] as_str v) (\<lambda>x7.
     Option.bind (optional_field [''revoked_reason''] as_str v) (\<lambda>x8.
     Some \<lparr>cbs_status = x1, cbs_receiving_app = x2, cbs_scopes = x3, cbs_proof_id = x4,
       cbs_token_expires_at = x5, cbs_refresh_expires_at = x6, cbs_updated_at = x7, cbs_revoked_reason = x8\<rparr>))))))))"

record briefcase_access =
  cba_account :: client_account_ref
  cba_briefcase :: briefcase_access_status

definition read_briefcase_access :: "json \<Rightarrow> briefcase_access option" where
  "read_briefcase_access v =
     Option.bind (required_field [''account''] read_client_account_ref v) (\<lambda>x1.
     Option.bind (required_field [''briefcase''] read_briefcase_access_status v) (\<lambda>x2.
     Some \<lparr>cba_account = x1, cba_briefcase = x2\<rparr>))"

record source_folder =
  csf_app_id :: string
  csf_account :: client_account_ref
  csf_folder_id :: string
  csf_folder_path :: string

definition read_source_folder :: "json \<Rightarrow> source_folder option" where
  "read_source_folder v =
     Option.bind (required_field [''app_id''] as_str v) (\<lambda>x1.
     Option.bind (required_field [''account''] read_client_account_ref v) (\<lambda>x2.
     Option.bind (required_field [''folder_id''] as_str v) (\<lambda>x3.
     Option.bind (required_field [''folder_path''] as_str v) (\<lambda>x4.
     Some \<lparr>csf_app_id = x1, csf_account = x2, csf_folder_id = x3, csf_folder_path = x4\<rparr>))))"

record report_receipt =
  crr_id :: string
  crr_submitted :: bool
  crr_notification :: "string option"
  crr_repository :: "string option"

definition read_report_receipt :: "json \<Rightarrow> report_receipt option" where
  "read_report_receipt v =
     Option.bind (required_field [''id''] as_str v) (\<lambda>x1.
     Option.bind (default_field [''submitted''] False as_bool v) (\<lambda>x2.
     Option.bind (optional_field [''notification''] as_str v) (\<lambda>x3.
     Option.bind (optional_field [''repository''] as_str v) (\<lambda>x4.
     Some \<lparr>crr_id = x1, crr_submitted = x2, crr_notification = x3, crr_repository = x4\<rparr>))))"

text \<open>What the client computes itself.\<close>

record login_status =
  ls_authenticated :: bool
  ls_account :: "client_account option"
  ls_expires_at :: "string option"
  ls_reason :: "string option"
  ls_message :: "string option"

record held_download =
  hd_bytes :: bytes
  hd_media_type :: string
  hd_expires_at :: "string option"
  hd_filename :: "string option"

definition account_label :: "client_account \<Rightarrow> string" where
  "account_label a = (case cca_id a of Some i \<Rightarrow> i | None \<Rightarrow> cca_uuid a)"

definition is_silicon :: "client_account \<Rightarrow> bool" where
  "is_silicon a \<longleftrightarrow> cca_kind a = ''silicon''"

definition storage_is_held :: "storage_info \<Rightarrow> bool" where
  "storage_is_held s \<longleftrightarrow> csi_status s = ''held''"

definition job_is_terminal :: "client_job \<Rightarrow> bool" where
  "job_is_terminal j \<longleftrightarrow> ccj_status j \<in> {''completed'', ''failed''}"

section \<open>Requests\<close>

text \<open>\<open>BTreeMap<String, SecretString>\<close>: only the four providers are ever inserted.\<close>

datatype client_keys = ClientKeys (client_key_map: "string \<Rightarrow> string option")

definition no_client_keys :: client_keys where
  "no_client_keys = ClientKeys (\<lambda>_. None)"

definition CLIENT_PROVIDERS :: "string list" where
  "CLIENT_PROVIDERS = [''deepgram'', ''elevenlabs'', ''gemini'', ''openai'']"

definition client_validate_provider :: "string \<Rightarrow> (unit, string) result" where
  "client_validate_provider provider =
     (if provider \<in> {''gemini'', ''elevenlabs'', ''openai'', ''deepgram''} then Ok ()
      else Err (''`'' @ provider @ ''` is not a provider; use gemini, elevenlabs, openai or deepgram.''))"

definition insert_client_key :: "string \<Rightarrow> string \<Rightarrow> client_keys \<Rightarrow> (client_keys, string) result" where
  "insert_client_key provider key keys =
     and_then (client_validate_provider provider) (\<lambda>_.
     if key = [] \<or> length key > 16384 \<or> \<not> (\<forall>c \<in> set key. is_ascii_graphic c)
     then Err ''A provider key must be 1-16384 ASCII characters without whitespace or control characters.''
     else Ok (ClientKeys ((client_key_map keys)(provider \<mapsto> key))))"

definition client_key_entries :: "client_keys \<Rightarrow> (string \<times> string) list" where
  "client_key_entries keys =
     List.map_filter (\<lambda>p. map_option (Pair p) (client_key_map keys p)) CLIENT_PROVIDERS"

record client_tts_request =
  ct_text :: string
  ct_voice_profile :: "string option"
  ct_lang :: "string option"
  ct_provider_order :: "string list option"
  ct_auto_fallback :: bool
  ct_provider_options :: tts_provider_options
  ct_provider_keys :: client_keys

record client_stt_request =
  cs_file_url :: string
  cs_language :: "string option"
  cs_provider_order :: "string list option"
  cs_provider_keys :: client_keys

record preferences_update =
  pu_voice_profile :: "string option"
  pu_tts_order :: "string list option"
  pu_stt_order :: "string list option"

definition update_is_empty :: "preferences_update \<Rightarrow> bool" where
  "update_is_empty u \<longleftrightarrow> pu_voice_profile u = None \<and> pu_tts_order u = None \<and> pu_stt_order u = None"

text \<open>A number that is not finite is written as \<open>null\<close>.\<close>

definition json_f64 :: "f64 \<Rightarrow> json" where
  "json_f64 x = (if f64_is_finite x then JNumber (Float x) else JNull)"

definition text_member :: "string \<Rightarrow> string option \<Rightarrow> (string \<times> json) list" where
  "text_member name v = json_member name (map_option JString v)"

definition number_member :: "string \<Rightarrow> f64 option \<Rightarrow> (string \<times> json) list" where
  "number_member name v = json_member name (map_option json_f64 v)"

definition gemini_options_json :: "gemini_tts_options \<Rightarrow> json" where
  "gemini_options_json g = JObject (
     text_member ''voice'' (gm_voice g) @ text_member ''scene'' (gm_scene g) @
     text_member ''audio_profile'' (gm_audio_profile g) @ text_member ''director_notes'' (gm_director_notes g) @
     text_member ''sample_context'' (gm_sample_context g))"

definition eleven_labs_options_json :: "eleven_labs_tts_options \<Rightarrow> json" where
  "eleven_labs_options_json e = JObject (
     text_member ''voice_id'' (el_voice_id e) @ text_member ''model_id'' (el_model_id e) @
     number_member ''stability'' (el_stability e) @ number_member ''similarity_boost'' (el_similarity_boost e) @
     number_member ''style'' (el_style e) @ number_member ''speed'' (el_speed e) @
     json_member ''use_speaker_boost'' (map_option JBool (el_use_speaker_boost e)) @
     json_member ''seed'' (map_option (\<lambda>s. JNumber (PosInt (unat s))) (el_seed e)) @
     text_member ''previous_text'' (el_previous_text e) @ text_member ''next_text'' (el_next_text e) @
     text_member ''apply_text_normalization'' (el_apply_text_normalization e))"

definition open_ai_options_json :: "open_ai_tts_options \<Rightarrow> json" where
  "open_ai_options_json a = JObject (
     text_member ''voice'' (oa_voice a) @ text_member ''model'' (oa_model a) @
     text_member ''instructions'' (oa_instructions a) @ number_member ''speed'' (oa_speed a))"

definition tts_options_json :: "tts_provider_options \<Rightarrow> json" where
  "tts_options_json p = JObject (
     json_member ''gemini'' (map_option gemini_options_json (po_gemini p)) @
     json_member ''elevenlabs'' (map_option eleven_labs_options_json (po_elevenlabs p)) @
     json_member ''openai'' (map_option open_ai_options_json (po_openai p)))"

definition client_keys_json :: "client_keys \<Rightarrow> json" where
  "client_keys_json keys = JObject (map (\<lambda>(p, k). (p, JString k)) (client_key_entries keys))"

definition keys_members :: "client_keys \<Rightarrow> (string \<times> json) list" where
  "keys_members keys =
     (if client_key_entries keys = [] then [] else [(''provider_keys'', client_keys_json keys)])"

definition client_tts_json :: "client_tts_request \<Rightarrow> json" where
  "client_tts_json r = JObject (
     [(''text'', JString (ct_text r))] @ text_member ''voice_profile'' (ct_voice_profile r) @
     text_member ''lang'' (ct_lang r) @ json_member ''provider_order'' (map_option json_strings (ct_provider_order r)) @
     [(''auto_fallback'', JBool (ct_auto_fallback r))] @
     (if tts_options_is_empty (ct_provider_options r) then []
      else [(''provider_options'', tts_options_json (ct_provider_options r))]) @
     keys_members (ct_provider_keys r))"

definition client_stt_json :: "client_stt_request \<Rightarrow> json" where
  "client_stt_json r = JObject (
     [(''file_url'', JString (cs_file_url r))] @ text_member ''language'' (cs_language r) @
     json_member ''provider_order'' (map_option json_strings (cs_provider_order r)) @ keys_members (cs_provider_keys r))"

definition preferences_update_json :: "preferences_update \<Rightarrow> json" where
  "preferences_update_json u = JObject (
     text_member ''voice_profile'' (pu_voice_profile u) @
     json_member ''tts_order'' (map_option json_strings (pu_tts_order u)) @
     json_member ''stt_order'' (map_option json_strings (pu_stt_order u)))"

end
