(* ===== verification/Client.thy ===== *)
theory Client
  imports Client_Types Exchange
begin

text \<open>
  \<open>src/client/src/error.rs\<close> and \<open>client.rs\<close>: the client library. The HTTP client, the clock and the
  waits act on a world \<open>'w\<close>; URLs, JSON and UUIDs are crates. Secrets are their exposed text.
\<close>

section \<open>Errors\<close>

record client_api_error =
  ce_status :: nat
  ce_code :: string
  ce_message :: string
  ce_hint :: "string option"
  ce_reason :: "string option"
  ce_request_id :: "string option"
  ce_provider :: "string option"
  ce_provider_status :: "nat option"
  ce_retry_after_seconds :: "nat option"

text \<open>\<open>Transport True\<close> is a timeout.\<close>

datatype client_error = Invalid string | Transport bool | Api client_api_error | Decode

fun client_code :: "client_error \<Rightarrow> string" where
  "client_code (client_error.Invalid _) = ''invalid_input''"
| "client_code (Transport late) = (if late then ''request_timeout'' else ''connection_failed'')"
| "client_code (Api e) = ce_code e"
| "client_code Decode = ''unexpected_response''"

fun client_hint :: "client_error \<Rightarrow> string option" where
  "client_hint (Api e) = ce_hint e"
| "client_hint (Transport _) = Some
     (''Check the network and the Waveform URL (--url or WAVEFORM_URL), then retry. A speech request may or may not have run: retry it with the same idempotency key.'')"
| "client_hint Decode = Some
     (''Check that the URL points at a Waveform API (it answers GET /api/v1/accounts), then retry.'')"
| "client_hint (client_error.Invalid _) = None"

fun client_status :: "client_error \<Rightarrow> nat option" where
  "client_status (Api e) = Some (ce_status e)"
| "client_status _ = None"

fun as_api :: "client_error \<Rightarrow> client_api_error option" where
  "as_api (Api e) = Some e"
| "as_api _ = None"

definition client_reason :: "client_error \<Rightarrow> string option" where
  "client_reason e = Option.bind (as_api e) ce_reason"

definition is_code :: "client_error \<Rightarrow> string \<Rightarrow> bool" where
  "is_code e code \<longleftrightarrow> client_code e = code"

definition is_unauthenticated :: "client_error \<Rightarrow> bool" where
  "is_unauthenticated e \<longleftrightarrow> client_status e = Some 401"

definition is_stale_credential :: "client_error \<Rightarrow> bool" where
  "is_stale_credential e \<longleftrightarrow> is_unauthenticated e \<and>
     client_reason e \<in> Some ` {''token_expired'', ''sign_in_ended'', ''token_inactive'', ''unknown_signing_key''}"

text \<open>Indexing a JSON value: \<open>null\<close> where there is no such member; the last of repeated members counts.\<close>

definition value_at :: "json \<Rightarrow> string \<Rightarrow> json" where
  "value_at v key = (case v of
     JObject members \<Rightarrow> (case map_of (rev members) key of Some w \<Rightarrow> w | None \<Rightarrow> JNull)
   | _ \<Rightarrow> JNull)"

definition error_field :: "json \<Rightarrow> string \<Rightarrow> nat \<Rightarrow> string option" where
  "error_field error name limit = (case value_at error name of
     JString s \<Rightarrow>
       (let t = utf8_of_chars (take limit (filter (\<lambda>c. \<not> is_control c) (utf8_chars s)))
        in if t = [] then None else Some t)
   | _ \<Rightarrow> None)"

definition fallback_message :: "nat \<Rightarrow> string" where
  "fallback_message status =
     (if status = 401 then ''Waveform refused the credential.''
      else if status = 403 then ''Waveform refused the request for this account.''
      else if status = 404 then ''Waveform has no such resource for this account.''
      else if status = 429 then ''Waveform is limiting requests; wait and retry.''
      else if 500 \<le> status \<and> status \<le> 599 then ''Waveform failed with HTTP '' @ decimal status @ ''.''
      else ''Waveform answered HTTP '' @ decimal status @ '' without an error this client understands.'')"

definition error_of_answer :: "(bytes \<Rightarrow> json option) \<Rightarrow> nat \<Rightarrow> nat option \<Rightarrow> bytes \<Rightarrow> client_error" where
  "error_of_answer parse status delay bs =
     (let v = (case parse bs of Some v \<Rightarrow> v | None \<Rightarrow> JNull); error = value_at v ''error'' in
      Api \<lparr>ce_status = status,
        ce_code = (case error_field error ''code'' 128 of Some c \<Rightarrow> c | None \<Rightarrow> ''unstructured_response''),
        ce_message = (case error_field error ''message'' 1024 of Some t \<Rightarrow> t | None \<Rightarrow> fallback_message status),
        ce_hint = error_field error ''hint'' 1024, ce_reason = error_field error ''reason'' 128,
        ce_request_id = error_field error ''request_id'' 128, ce_provider = error_field error ''provider'' 32,
        ce_provider_status = read_uint 65535 (value_at error ''provider_status''),
        ce_retry_after_seconds = delay\<rparr>)"

section \<open>The client\<close>

datatype client_auth = Anonymous | BearerAuth string | ProofAuth string

record client_crates =
  cc_url :: url_crate
  cc_url_error :: "string \<Rightarrow> string"
  cc_extend_path :: "url \<Rightarrow> string list \<Rightarrow> url option"
  cc_append_query :: "url \<Rightarrow> (string \<times> string) list \<Rightarrow> url"
  cc_json :: "bytes \<Rightarrow> json option"
  cc_uuid :: uuid_crate
  cc_checked_add :: "nat \<Rightarrow> duration \<Rightarrow> nat option"

record 'w client =
  cl_base :: url
  cl_credential :: client_auth
  cl_account :: "string option"
  cl_speech_request_id :: "uuid option"
  cl_crates :: client_crates
  cl_send :: "http_request \<Rightarrow> ('w, exchange) state"
  cl_now :: "('w, nat) state"
  cl_sleep :: "duration \<Rightarrow> ('w, unit) state"
  cl_timeout_at :: "nat \<Rightarrow> ('w, client_job, client_error) call \<Rightarrow> ('w, (client_job, client_error) result option) state"

record client_call =
  ck_anonymous :: bool
  ck_account_scoped :: bool
  ck_idempotency :: "string option"
  ck_speech :: bool

definition plain_call :: client_call where
  "plain_call = \<lparr>ck_anonymous = False, ck_account_scoped = False, ck_idempotency = None, ck_speech = False\<rparr>"

definition public_call :: client_call where
  "public_call = plain_call\<lparr>ck_anonymous := True\<rparr>"

definition account_call :: client_call where
  "account_call = plain_call\<lparr>ck_account_scoped := True\<rparr>"

definition DEFAULT_API_URL :: string where
  "DEFAULT_API_URL = ''https://api.waveform.teamofsilicons.com''"

text \<open>\<open>is_loopback\<close> of the library: the hosts plain http is accepted for.\<close>

definition client_is_loopback :: "url \<Rightarrow> bool" where
  "client_is_loopback u = (case url_host u of
     Some (Domain domain) \<Rightarrow>
       (let d = to_ascii_lowercase domain in d = ''localhost'' \<or> ends_with ''.localhost'' d)
   | Some (Ipv4 ip) \<Rightarrow> drop_bit 24 ip = 127
   | Some (Ipv6 ip) \<Rightarrow> ip = 1
   | None \<Rightarrow> False)"

text \<open>\<open>connect\<close> is the client with the HTTP client that was built, or why none was.\<close>

definition client_new ::
    "client_crates \<Rightarrow> (url \<Rightarrow> ('w client, client_error) result) \<Rightarrow> string \<Rightarrow> client_auth \<Rightarrow> ('w client, client_error) result" where
  "client_new K connect base credential =
     (case url_parse (cc_url K) (str_trim base) of
        None \<Rightarrow> Err (client_error.Invalid (''The Waveform URL `'' @ base @ ''` is not a valid absolute URL ('' @
          cc_url_error K base @ ''); use e.g. '' @ DEFAULT_API_URL @ ''.''))
      | Some u \<Rightarrow>
          if url_scheme u \<notin> {''http'', ''https''} \<or> url_host u = None then
            Err (client_error.Invalid (''The Waveform URL `'' @ base @ ''` must use https (or http for this machine).''))
          else if url_username u \<noteq> [] \<or> url_password u \<noteq> None \<or> url_query u \<noteq> None \<or> url_fragment u \<noteq> None \<or>
            url_path u \<noteq> ''/'' then
            Err (client_error.Invalid (''The Waveform URL `'' @ base @
              ''` must be an origin only (scheme, host and port), without credentials, path, query or fragment.''))
          else if url_scheme u = ''http'' \<and> \<not> client_is_loopback u then
            Err (client_error.Invalid (''The Waveform URL `'' @ base @
              ''` uses plain http for a host that is not this machine, so tokens would travel unencrypted; use https.''))
          else map_ok (\<lambda>c. c\<lparr>cl_base := u, cl_credential := credential, cl_account := None,
            cl_speech_request_id := None, cl_crates := K\<rparr>) (connect u))"

definition base_url :: "'w client \<Rightarrow> string" where
  "base_url c = trim_end_slashes (url_text (cc_url (cl_crates c)) (cl_base c))"

definition with_auth :: "client_auth \<Rightarrow> 'w client \<Rightarrow> 'w client" where
  "with_auth a c = c\<lparr>cl_credential := a\<rparr>"

definition with_bearer :: "string \<Rightarrow> 'w client \<Rightarrow> 'w client" where
  "with_bearer token c = with_auth (BearerAuth token) c"

definition with_proof :: "string \<Rightarrow> 'w client \<Rightarrow> ('w client, client_error) result" where
  "with_proof p c =
     (let s = str_trim p in
      if \<not> starts_with ''sap_'' s \<or> length s > 16384 \<or> \<not> (\<forall>b \<in> set s. is_ascii_graphic b) then
        Err (client_error.Invalid
          (''A proof must be a Silicon Accounts User verification proof token (sap_'' @ [CHR 0xE2, CHR 0x80, CHR 0xA6] @ '', visible ASCII). Get one with POST /v1/proofs/user-verification for receiving_app waveform; it is not an access or refresh token.''))
      else Ok (with_auth (ProofAuth s) c))"

definition for_account :: "string \<Rightarrow> 'w client \<Rightarrow> ('w client, client_error) result" where
  "for_account account c =
     (let a = str_trim account in
      if a = [] \<or> length a > 128 \<or> list_ex (\<lambda>ch. is_control ch \<or> is_unicode_whitespace ch) (utf8_chars a) then
        Err (client_error.Invalid
          (''Select an account by its id (c:'' @ [CHR 0xE2, CHR 0x80, CHR 0xA6] @ '' or si:'' @ [CHR 0xE2, CHR 0x80, CHR 0xA6] @ '') or uuid: 1-128 visible characters.''))
      else Ok (c\<lparr>cl_account := Some a\<rparr>))"

definition for_self :: "'w client \<Rightarrow> 'w client" where
  "for_self c = c\<lparr>cl_account := None\<rparr>"

definition with_speech_request_id :: "uuid \<Rightarrow> 'w client \<Rightarrow> ('w client, client_error) result" where
  "with_speech_request_id u c =
     (if u = 0 then Err (client_error.Invalid ''The speech request id must not be the nil UUID.'')
      else Ok (c\<lparr>cl_speech_request_id := Some u\<rparr>))"

section \<open>Requests\<close>

definition client_url :: "'w client \<Rightarrow> string list \<Rightarrow> (string \<times> string) list \<Rightarrow> (url, client_error) result" where
  "client_url c segments query =
     and_then (ok_or (cc_extend_path (cl_crates c) (cl_base c) segments)
       (client_error.Invalid ''The Waveform URL cannot carry a path.'')) (\<lambda>u.
     Ok (if query = [] then u else cc_append_query (cl_crates c) u query))"

definition api_url :: "'w client \<Rightarrow> string list \<Rightarrow> client_call \<Rightarrow> (string \<times> string) list \<Rightarrow> (url, client_error) result" where
  "api_url c path k query =
     client_url c ([''api'', ''v1''] @ path)
       (query @ (case cl_account c of Some a \<Rightarrow> if ck_account_scoped k then [(''account'', a)] else [] | None \<Rightarrow> []))"

definition sensitive :: "string \<Rightarrow> (string, client_error) result" where
  "sensitive v = (if header_text v then Ok v else
     Err (client_error.Invalid ''The credential contains characters that cannot be sent in a header.''))"

definition credential_headers :: "'w client \<Rightarrow> client_call \<Rightarrow> ((string \<times> string) list, client_error) result" where
  "credential_headers c k =
     (if ck_anonymous k then Ok []
      else case cl_credential c of
        Anonymous \<Rightarrow> Ok []
      | BearerAuth t \<Rightarrow> map_ok (\<lambda>v. [(''authorization'', v)]) (sensitive (''Bearer '' @ t))
      | ProofAuth p \<Rightarrow> map_ok (\<lambda>v. [(''authorization'', v)]) (sensitive (''Proof '' @ p)))"

definition build_request ::
    "'w client \<Rightarrow> http_method \<Rightarrow> url \<Rightarrow> client_call \<Rightarrow> http_body \<Rightarrow> (http_request, client_error) result" where
  "build_request c method u k body =
     map_ok (\<lambda>credential. \<lparr>rq_method = method, rq_url = u,
       rq_headers =
         [(''x-waveform-api-version'', ''v1''), (''x-waveform-protocol-version'', ''1'')] @ credential @
         (case ck_idempotency k of Some key \<Rightarrow> [(''idempotency-key'', key)] | None \<Rightarrow> []) @
         (case cl_speech_request_id c of
            Some i \<Rightarrow> if ck_speech k then [(''x-request-id'', uuid_text (cc_uuid (cl_crates c)) i)] else []
          | None \<Rightarrow> []),
       rq_body = body\<rparr>) (credential_headers c k)"

definition too_large :: "nat \<Rightarrow> client_error" where
  "too_large limit = client_error.Invalid (''Waveform's answer is larger than this client accepts ('' @
     decimal (limit div (1024 * 1024)) @ '' MiB).'')"

fun bounded_chunks :: "nat \<Rightarrow> bytes \<Rightarrow> (bytes, bool) result list \<Rightarrow> (bytes, client_error) result" where
  "bounded_chunks limit sofar [] = Ok sofar"
| "bounded_chunks limit sofar (Err late # chunks) = Err (Transport late)"
| "bounded_chunks limit sofar (Ok chunk # chunks) =
     (if length sofar + length chunk > limit then Err (too_large limit)
      else bounded_chunks limit (sofar @ chunk) chunks)"

definition client_read_body :: "'w client \<Rightarrow> nat \<Rightarrow> http_response \<Rightarrow> (bytes, client_error) result" where
  "client_read_body c limit response =
     (if (case rs_content_length response of Some n \<Rightarrow> n > limit | None \<Rightarrow> False) then Err (too_large limit)
      else and_then (bounded_chunks limit [] (rs_chunks response)) (\<lambda>bs.
        if \<not> (200 \<le> rs_status response \<and> rs_status response < 300) then
          Err (error_of_answer (cc_json (cl_crates c)) (rs_status response)
            (Option.bind (header_str (rs_headers response) ''retry-after'')
              (\<lambda>v. case parse_unsigned u64_max (str_trim v) of Ok n \<Rightarrow> Some n | Err _ \<Rightarrow> None)) bs)
        else Ok bs))"

definition exchanged :: "'w client \<Rightarrow> http_request \<Rightarrow> ('w, http_response, client_error) call" where
  "exchanged c q = State_Monad.bind (cl_send c q) (\<lambda>e. case e of
     Responded response \<Rightarrow> done_with response
   | SendFailed \<Rightarrow> throw (Transport False)
   | SendTimedOut \<Rightarrow> throw (Transport True)
   | Cut \<Rightarrow> throw (Transport True))"

definition CLIENT_JSON_LIMIT :: nat where "CLIENT_JSON_LIMIT = 4 * 1024 * 1024"
definition CLIENT_AUDIO_LIMIT :: nat where "CLIENT_AUDIO_LIMIT = 64 * 1024 * 1024"

definition send_json ::
    "'w client \<Rightarrow> (json \<Rightarrow> 'a option) \<Rightarrow> http_method \<Rightarrow> url \<Rightarrow> client_call \<Rightarrow> http_body \<Rightarrow> ('w, 'a, client_error) call" where
  "send_json c read method u k body =
     try_call (lift_result (build_request c method u k body)) (\<lambda>q.
     try_call (exchanged c q) (\<lambda>response.
     try_call (lift_result (client_read_body c CLIENT_JSON_LIMIT response)) (\<lambda>bs.
     lift_result (ok_or (Option.bind (cc_json (cl_crates c) bs) read) Decode))))"

definition send_empty ::
    "'w client \<Rightarrow> http_method \<Rightarrow> url \<Rightarrow> client_call \<Rightarrow> http_body \<Rightarrow> ('w, unit, client_error) call" where
  "send_empty c method u k body =
     try_call (lift_result (build_request c method u k body)) (\<lambda>q.
     try_call (exchanged c q) (\<lambda>response.
     try_call (lift_result (client_read_body c CLIENT_JSON_LIMIT response)) (\<lambda>_. done_with ())))"

text \<open>A call of the API at a path.\<close>

definition at_path ::
    "'w client \<Rightarrow> (json \<Rightarrow> 'a option) \<Rightarrow> http_method \<Rightarrow> string list \<Rightarrow> client_call \<Rightarrow> (string \<times> string) list \<Rightarrow> http_body \<Rightarrow>
     ('w, 'a, client_error) call" where
  "at_path c read method path k query body =
     try_call (lift_result (api_url c path k query)) (\<lambda>u. send_json c read method u k body)"

definition refuse_selected_account :: "'w client \<Rightarrow> (unit, client_error) result" where
  "refuse_selected_account c = (case cl_account c of
     Some account \<Rightarrow> Err (client_error.Invalid (''Speech always runs as the account that holds the credential; this client selected '' @ account @
       '' with for_account, which only reads history and manages settings. A custodian never speaks as its Silicon: use a client without for_account (Client::for_self).''))
   | None \<Rightarrow> Ok ())"

definition check_speech_key :: "string \<Rightarrow> (unit, client_error) result" where
  "check_speech_key key =
     (if 8 \<le> length key \<and> length key \<le> 255 \<and> (\<forall>b \<in> set key. is_ascii_graphic b) then Ok ()
      else Err (client_error.Invalid
        ''A speech request needs an idempotency key of 8-255 visible ASCII characters; reuse it to retry the same request safely.''))"

definition check_uuid :: "'w client \<Rightarrow> string \<Rightarrow> string \<Rightarrow> (unit, client_error) result" where
  "check_uuid c v what = (case uuid_parse (cc_uuid (cl_crates c)) v of
     Some _ \<Rightarrow> Ok ()
   | None \<Rightarrow> Err (client_error.Invalid (''`'' @ v @ ''` is not a '' @ what @ '' (a UUID).'')))"

section \<open>Discovery and the account\<close>

definition client_accounts :: "'w client \<Rightarrow> ('w, accounts_info, client_error) call" where
  "client_accounts c = at_path c read_accounts_info GET [''accounts''] public_call [] NoBody"

definition client_capabilities_of :: "'w client \<Rightarrow> ('w, client_capabilities, client_error) call" where
  "client_capabilities_of c = at_path c read_client_capabilities GET [''capabilities''] public_call [] NoBody"

definition client_contracts :: "'w client \<Rightarrow> ('w, json, client_error) call" where
  "client_contracts c =
     try_call (lift_result (client_url c [''api'', ''contracts''] [])) (\<lambda>u. send_json c Some GET u public_call NoBody)"

definition client_me_of :: "'w client \<Rightarrow> ('w, client_me, client_error) call" where
  "client_me_of c = at_path c read_client_me GET [''me''] plain_call [] NoBody"

definition signed_out :: login_status where
  "signed_out = \<lparr>ls_authenticated = False, ls_account = None, ls_expires_at = None, ls_reason = None,
     ls_message = None\<rparr>"

definition client_login_status :: "'w client \<Rightarrow> ('w, login_status, client_error) call" where
  "client_login_status c =
     (if cl_credential c = Anonymous then done_with signed_out
      else State_Monad.bind (client_me_of c) (\<lambda>r. case r of
        Ok me \<Rightarrow> done_with \<lparr>ls_authenticated = True, ls_account = Some (cme_account me),
          ls_expires_at = cme_expires_at me, ls_reason = None, ls_message = None\<rparr>
      | Err (Api e) \<Rightarrow>
          if ce_status e \<in> {401, 403} then done_with (signed_out
            \<lparr>ls_reason := Some (case ce_reason e of Some reason \<Rightarrow> reason | None \<Rightarrow> ce_code e),
             ls_message := Some (ce_message e)\<rparr>)
          else throw (Api e)
      | Err e \<Rightarrow> throw e))"

definition read_items :: "(json \<Rightarrow> 'a option) \<Rightarrow> json \<Rightarrow> 'a list option" where
  "read_items read v = required_field [''items''] (read_vec read) v"

definition client_silicons :: "'w client \<Rightarrow> ('w, client_account list, client_error) call" where
  "client_silicons c = at_path c (read_items read_client_account) GET [''silicons''] plain_call [] NoBody"

section \<open>Speech\<close>

definition speech_call_of :: "string \<Rightarrow> client_call" where
  "speech_call_of key = plain_call\<lparr>ck_idempotency := Some key, ck_speech := True\<rparr>"

definition client_tts :: "'w client \<Rightarrow> client_tts_request \<Rightarrow> string \<Rightarrow> ('w, tts_response, client_error) call" where
  "client_tts c request key =
     try_call (lift_result (refuse_selected_account c)) (\<lambda>_.
     try_call (lift_result (check_speech_key key)) (\<lambda>_.
     at_path c read_tts_response POST [''tts''] (speech_call_of key) [] (JsonBody (client_tts_json request))))"

definition client_stt :: "'w client \<Rightarrow> client_stt_request \<Rightarrow> string \<Rightarrow> ('w, stt_response, client_error) call" where
  "client_stt c request key =
     try_call (lift_result (refuse_selected_account c)) (\<lambda>_.
     try_call (lift_result (check_speech_key key)) (\<lambda>_.
     at_path c read_stt_response POST [''stt''] (speech_call_of key) [] (JsonBody (client_stt_json request))))"

definition stt_source_folder :: "'w client \<Rightarrow> ('w, source_folder, client_error) call" where
  "stt_source_folder c =
     try_call (lift_result (refuse_selected_account c)) (\<lambda>_.
     at_path c read_source_folder POST [''stt'', ''source-target''] plain_call [] (JsonBody (JObject [])))"

text \<open>\<open>split(pattern)\<close> up to its second piece, and \<open>trim_matches\<close> of a character.\<close>

fun before_str :: "string \<Rightarrow> string \<Rightarrow> string \<times> string option" where
  "before_str p [] = ([], None)"
| "before_str p (c # s) =
     (if starts_with p (c # s) then ([], Some (drop (length p) (c # s)))
      else case before_str p s of (a, rest) \<Rightarrow> (c # a, rest))"

definition second_piece :: "string \<Rightarrow> string \<Rightarrow> string option" where
  "second_piece p s = map_option (\<lambda>rest. fst (before_str p rest)) (snd (before_str p s))"

definition trim_quotes :: "string \<Rightarrow> string" where
  "trim_quotes s = (let cut_quotes = dropWhile (\<lambda>c. c = CHR 0x22) in rev (cut_quotes (rev (cut_quotes s))))"

definition download_name :: "string \<Rightarrow> string option" where
  "download_name disposition =
     Option.bind (second_piece ''filename='' disposition) (\<lambda>piece.
     let name = trim_quotes (str_trim piece) in
     if name \<noteq> [] \<and> CHR ''/'' \<notin> set name \<and> CHR 0x5C \<notin> set name \<and> name \<noteq> ''.'' \<and> name \<noteq> ''..'' then Some name else None)"

definition client_held_audio :: "'w client \<Rightarrow> string \<Rightarrow> ('w, held_download, client_error) call" where
  "client_held_audio c rid =
     try_call (lift_result (check_uuid c rid ''speech request id'')) (\<lambda>_.
     try_call (lift_result (api_url c [''audio'', rid] plain_call [])) (\<lambda>u.
     try_call (lift_result (build_request c GET u plain_call NoBody)) (\<lambda>q.
     try_call (exchanged c q) (\<lambda>response.
     try_call (lift_result (client_read_body c CLIENT_AUDIO_LIMIT response)) (\<lambda>bs.
     done_with
       \<lparr>hd_bytes = bs,
        hd_media_type = (case header_str (rs_headers response) ''content-type'' of Some t \<Rightarrow> t | None \<Rightarrow> ''audio/mpeg''),
        hd_expires_at = header_str (rs_headers response) ''x-waveform-audio-expires-at'',
        hd_filename = Option.bind (header_str (rs_headers response) ''content-disposition'') download_name\<rparr>)))))"

section \<open>History\<close>

definition jobs_page ::
    "'w client \<Rightarrow> string option \<Rightarrow> nat option \<Rightarrow> string option \<Rightarrow> ('w, job_page, client_error) call" where
  "jobs_page c operation limit cursor =
     (if (case limit of Some n \<Rightarrow> \<not> (1 \<le> n \<and> n \<le> 100) | None \<Rightarrow> False)
      then throw (client_error.Invalid ''A history page holds 1 to 100 jobs.'')
      else if (case operation of Some v \<Rightarrow> v \<notin> {''tts'', ''stt''} | None \<Rightarrow> False)
      then throw (client_error.Invalid ''The job operation filter is tts or stt.'')
      else at_path c read_job_page GET [''jobs''] account_call
        ((case operation of Some v \<Rightarrow> [(''operation'', v)] | None \<Rightarrow> []) @
         (case limit of Some n \<Rightarrow> [(''limit'', decimal n)] | None \<Rightarrow> []) @
         (case cursor of Some v \<Rightarrow> [(''cursor'', v)] | None \<Rightarrow> [])) NoBody)"

definition client_jobs :: "'w client \<Rightarrow> string option \<Rightarrow> ('w, job_page, client_error) call" where
  "client_jobs c operation = jobs_page c operation None None"

definition client_job_of :: "'w client \<Rightarrow> string \<Rightarrow> ('w, client_job, client_error) call" where
  "client_job_of c job_id =
     try_call (lift_result (check_uuid c job_id ''job id'')) (\<lambda>_.
     at_path c read_client_job GET [''jobs'', job_id] account_call [] NoBody)"

definition job_timed_out :: "string \<Rightarrow> duration \<Rightarrow> client_error" where
  "job_timed_out job_id timeout = client_error.Invalid
     (''Job '' @ job_id @ '' did not finish within '' @ decimal (timeout div 1000000) @
      '' ms; it may still be running. Poll it again with the same job id.'')"

text \<open>The polling loop: \<open>None\<close> when \<open>n\<close> rounds were not enough.\<close>

fun poll_job ::
    "nat \<Rightarrow> 'w client \<Rightarrow> string \<Rightarrow> duration \<Rightarrow> nat \<Rightarrow> duration \<Rightarrow> ('w, (client_job, client_error) result option) state" where
  "poll_job 0 c job_id timeout deadline interval = State_Monad.return None"
| "poll_job (Suc n) c job_id timeout deadline interval =
     State_Monad.bind (cl_timeout_at c deadline (client_job_of c job_id)) (\<lambda>r.
     let again = State_Monad.bind (cl_now c) (\<lambda>now.
           if now \<ge> deadline then State_Monad.return (Some (Err (job_timed_out job_id timeout)))
           else State_Monad.bind (cl_sleep c (min interval (deadline - now))) (\<lambda>_.
             poll_job n c job_id timeout deadline interval)) in
     case r of
       None \<Rightarrow> State_Monad.return (Some (Err (job_timed_out job_id timeout)))
     | Some (Ok job) \<Rightarrow> if job_is_terminal job then State_Monad.return (Some (Ok job)) else again
     | Some (Err e) \<Rightarrow> if client_status e = Some 404 then again else State_Monad.return (Some (Err e)))"

definition wait_for_job ::
    "nat \<Rightarrow> 'w client \<Rightarrow> string \<Rightarrow> duration \<Rightarrow> duration \<Rightarrow> ('w, (client_job, client_error) result option) state" where
  "wait_for_job n c job_id timeout interval =
     (if timeout = 0 \<or> interval = 0 then State_Monad.return (Some (Err
        (client_error.Invalid ''Job polling needs a non-zero timeout and interval.'')))
      else State_Monad.bind (cl_now c) (\<lambda>now.
        case cc_checked_add (cl_crates c) now timeout of
          None \<Rightarrow> State_Monad.return (Some (Err (client_error.Invalid ''The job polling timeout is out of range.'')))
        | Some deadline \<Rightarrow> poll_job n c job_id timeout deadline interval))"

section \<open>Settings, keys, access and reports\<close>

definition client_preferences_of :: "'w client \<Rightarrow> ('w, client_preferences, client_error) call" where
  "client_preferences_of c = at_path c read_client_preferences GET [''preferences''] account_call [] NoBody"

definition client_update_preferences ::
    "'w client \<Rightarrow> preferences_update \<Rightarrow> ('w, client_preferences, client_error) call" where
  "client_update_preferences c update =
     (if update_is_empty update
      then throw (client_error.Invalid ''Nothing to change: set a voice profile, a TTS order or an STT order.'')
      else at_path c read_client_preferences PATCH [''preferences''] account_call []
        (JsonBody (preferences_update_json update)))"

definition set_telemetry :: "'w client \<Rightarrow> bool \<Rightarrow> ('w, client_preferences, client_error) call" where
  "set_telemetry c enabled = client_preferences_of c"

definition client_voice_profiles :: "'w client \<Rightarrow> ('w, client_voice_profile list, client_error) call" where
  "client_voice_profiles c =
     at_path c (read_items read_client_voice_profile) GET [''voice-profiles''] plain_call [] NoBody"

definition client_provider_keys :: "'w client \<Rightarrow> ('w, provider_key_list, client_error) call" where
  "client_provider_keys c = at_path c read_provider_key_list GET [''provider-keys''] account_call [] NoBody"

definition send_empty_at ::
    "'w client \<Rightarrow> http_method \<Rightarrow> string list \<Rightarrow> client_call \<Rightarrow> http_body \<Rightarrow> ('w, unit, client_error) call" where
  "send_empty_at c method path k body =
     try_call (lift_result (api_url c path k [])) (\<lambda>u. send_empty c method u k body)"

definition client_put_provider_key :: "'w client \<Rightarrow> string \<Rightarrow> string \<Rightarrow> ('w, unit, client_error) call" where
  "client_put_provider_key c provider api_key =
     try_call (lift_result (map_err client_error.Invalid (client_validate_provider provider))) (\<lambda>_.
     try_call (lift_result (map_err client_error.Invalid (insert_client_key provider api_key no_client_keys))) (\<lambda>_.
     send_empty_at c PUT [''provider-keys'', provider] account_call
       (JsonBody (JObject [(''api_key'', JString api_key)]))))"

definition client_delete_provider_key :: "'w client \<Rightarrow> string \<Rightarrow> ('w, unit, client_error) call" where
  "client_delete_provider_key c provider =
     try_call (lift_result (map_err client_error.Invalid (client_validate_provider provider))) (\<lambda>_.
     send_empty_at c DELETE [''provider-keys'', provider] account_call NoBody)"

definition client_approve_storage :: "'w client \<Rightarrow> ('w, briefcase_access, client_error) call" where
  "client_approve_storage c = (case cl_account c of
     Some account \<Rightarrow> throw (client_error.Invalid (''Only the account itself can give Waveform Briefcase access, because the proof is made from its own sign-in; '' @ account @
       '' gives it itself, by running the approval while signed in as itself (its first direct Waveform request also gives it, unless the access was revoked).''))
   | None \<Rightarrow> at_path c read_briefcase_access POST [''storage-authorizations''] plain_call [] NoBody)"

definition client_storage :: "'w client \<Rightarrow> ('w, briefcase_access, client_error) call" where
  "client_storage c = at_path c read_briefcase_access GET [''storage-authorizations''] account_call [] NoBody"

definition client_revoke_storage :: "'w client \<Rightarrow> ('w, briefcase_access, client_error) call" where
  "client_revoke_storage c = at_path c read_briefcase_access DELETE [''storage-authorizations''] account_call [] NoBody"

definition CLIENT_VERSION :: string where
  "CLIENT_VERSION = ''0.7.0''"

definition client_report ::
    "'w client \<Rightarrow> string \<Rightarrow> string option \<Rightarrow> string \<Rightarrow> ('w, report_receipt, client_error) call" where
  "client_report c message pr key =
     (if key = [] \<or> length key > 128 \<or> \<not> (\<forall>b \<in> set key. is_ascii_alphanumeric b \<or> b \<in> {CHR ''-'', CHR ''_''})
      then throw (client_error.Invalid ''A report idempotency key is 1-128 letters, digits, hyphens or underscores.'')
      else at_path c read_report_receipt POST [''reports''] (plain_call\<lparr>ck_idempotency := Some key\<rparr>) []
        (JsonBody (JObject [(''client_version'', JString CLIENT_VERSION), (''message'', JString message),
           (''pr'', json_option JString pr)])))"

end
