(* ===== verification/Api.thy ===== *)
theory Api
  imports Api_Headers Api_Model Service Config
begin

text \<open>
  \<open>src/src/api/mod.rs\<close> and \<open>middleware.rs\<close>: the handlers, the routes and the layers around them, for
  a server without the control routes. A request carries the outcome of the JSON extractor: the parsed
  body, or the status it was rejected with. The time limit (\<open>None\<close> when it passed), the panic guard
  (\<open>None\<close> after a panic) and the semaphores are those of the runtime.
\<close>

section \<open>Requests and the runtime\<close>

record api_request =
  aq_method :: string
  aq_path :: string
  aq_query :: "string option"
  aq_headers :: header_map
  aq_body :: "(json, nat) result"

datatype admission_class = Bypass | Public | Readiness

record 'w http_runtime =
  hr_new_uuid :: "('w, uuid) state"
  hr_timeout :: "duration \<Rightarrow> ('w, api_response) state \<Rightarrow> ('w, api_response option) state"
  hr_catch_unwind :: "('w, api_response) state \<Rightarrow> ('w, api_response option) state"
  hr_try_acquire :: "admission_class \<Rightarrow> ('w, bool) state"
  hr_release :: "admission_class \<Rightarrow> ('w, unit) state"

record api_crates =
  ac_service :: service_crates
  ac_form_parse :: "string \<Rightarrow> (string \<times> string) list"
  ac_rfc3339 :: "instant \<Rightarrow> string option"

abbreviation ac_uuid :: "api_crates \<Rightarrow> uuid_crate" where
  "ac_uuid C \<equiv> sv_uuid (ac_service C)"

record 'w readiness_checks =
  rc_idempotency_ready :: "('w, bool) state"
  rc_audio_ready :: "('w, bool) state"
  rc_provider_chains_configured :: bool
  rc_dependency_contracts_available :: bool

record 'w api_state =
  as_service :: "'w waveform_service"
  as_readiness :: "'w readiness_checks"
  as_tts_deadline :: duration
  as_stt_deadline :: duration

section \<open>Answers\<close>

definition REPLAYED_HEADER :: string where
  "REPLAYED_HEADER = ''idempotency-replayed''"

definition insert_request_id :: "uuid_crate \<Rightarrow> request_id \<Rightarrow> api_response \<Rightarrow> api_response" where
  "insert_request_id U rid response = insert_text_header REQUEST_ID_HEADER (request_id_text U rid) response"

definition success_response :: "uuid_crate \<Rightarrow> json \<Rightarrow> request_id \<Rightarrow> bool \<Rightarrow> api_response" where
  "success_response U body rid replayed =
     (let response = json_response 200 body in
      insert_request_id U rid (response\<lparr>ar_headers :=
        header_insert REPLAYED_HEADER (if replayed then ''true'' else ''false'') (ar_headers response)\<rparr>))"

definition tts_success :: "api_crates \<Rightarrow> tts_result service_response \<Rightarrow> api_response" where
  "tts_success C response = success_response (ac_uuid C)
     (tts_response_body (ac_uuid C) (sv_url (ac_service C)) (ac_rfc3339 C) (resp_result response))
     (tr_request_id (resp_result response)) (resp_replayed response)"

definition stt_success :: "api_crates \<Rightarrow> stt_result service_response \<Rightarrow> api_response" where
  "stt_success C response = success_response (ac_uuid C) (stt_response_body (ac_uuid C) (resp_result response))
     (sr_request_id (resp_result response)) (resp_replayed response)"

definition health_response :: "uuid_crate \<Rightarrow> nat \<Rightarrow> string \<Rightarrow> request_id \<Rightarrow> api_response" where
  "health_response U status v rid =
     insert_request_id U rid (json_response status (JObject [(''status'', JString v)]))"

fun header_error_answer :: "header_error \<Rightarrow> request_id \<Rightarrow> api_error" where
  "header_error_answer (Credentials failure) rid = authentication failure rid"
| "header_error_answer (MissingHeader _) rid = invalid_request rid"
| "header_error_answer (InvalidHeader _) rid = invalid_request rid"
| "header_error_answer (DuplicateHeader _) rid = invalid_request rid"
| "header_error_answer InvalidIdempotencyKey rid = invalid_request rid"

fun body_error_answer :: "request_body_error \<Rightarrow> request_id \<Rightarrow> api_error" where
  "body_error_answer (request_body_error.InvalidProviderOptions message) rid = invalid_options message rid"
| "body_error_answer (request_body_error.Speech (TextTooLong _)) rid = payload_too_large rid"
| "body_error_answer (request_body_error.Speech _) rid = invalid_request rid"
| "body_error_answer (request_body_error.Language _) rid = invalid_request rid"
| "body_error_answer (request_body_error.Media _) rid = invalid_request rid"
| "body_error_answer InvalidFileUrl rid = invalid_request rid"
| "body_error_answer InvalidVoiceProfile rid = invalid_request rid"

definition json_error_answer :: "nat \<Rightarrow> request_id \<Rightarrow> api_error" where
  "json_error_answer status rid = (if status = 413 then payload_too_large rid else invalid_request rid)"

section \<open>Speech handlers\<close>

text \<open>\<open>Result<Json<T>, JsonRejection>\<close>: JSON that is not a \<open>T\<close> is rejected with 422.\<close>

definition typed_body :: "(json \<Rightarrow> 'a option) \<Rightarrow> (json, nat) result \<Rightarrow> ('a, nat) result" where
  "typed_body read body = and_then body (\<lambda>v. ok_or (read v) 422)"

text \<open>Everything before the service: the answer of a refused request, or what to ask the service.\<close>

definition admitted ::
    "api_crates \<Rightarrow> 'w http_runtime \<Rightarrow> (json \<Rightarrow> 'b option) \<Rightarrow> ('b \<Rightarrow> ('r, request_body_error) result) \<Rightarrow>
     ('r \<Rightarrow> provider_name list option) \<Rightarrow> api_request \<Rightarrow>
     ('w, speech_request_context \<times> 'r, api_error) call" where
  "admitted C R read into_domain order_of q =
     State_Monad.bind (header_request_id (ac_uuid C) (hr_new_uuid R) (aq_headers q)) (\<lambda>candidate.
     if names_an_account (ac_form_parse C) (aq_query q) then throw (speech_runs_as_yourself candidate)
     else try_call (on_err (\<lambda>e. header_error_answer e candidate)
         (parse_speech_headers (ac_uuid C) (hr_new_uuid R) (aq_headers q))) (\<lambda>headers.
     let rid = sh_request_id headers in
     case typed_body read (aq_body q) of
       Err status \<Rightarrow> throw (json_error_answer status rid)
     | Ok body \<Rightarrow>
         (case into_domain body of
            Err e \<Rightarrow> throw (body_error_answer e rid)
          | Ok request \<Rightarrow>
              if order_of request = Some [] then throw (invalid_request rid)
              else done_with (\<lparr>cx_request_id = rid, cx_credentials = sh_credentials headers,
                  cx_idempotency_key = sh_idempotency_key headers\<rparr>, request))))"

definition answer_of :: "('r \<Rightarrow> api_response) \<Rightarrow> api_crates \<Rightarrow> request_id \<Rightarrow> ('r, waveform_error) result \<Rightarrow> api_response" where
  "answer_of success C rid r =
     (case r of Ok response \<Rightarrow> success response | Err e \<Rightarrow> error_response (ac_uuid C) (from_waveform e rid))"

definition or_timeout :: "api_crates \<Rightarrow> request_id \<Rightarrow> api_response option \<Rightarrow> api_response" where
  "or_timeout C rid r =
     (case r of Some response \<Rightarrow> response | None \<Rightarrow> error_response (ac_uuid C) (request_timeout rid))"

definition api_synthesize :: "api_crates \<Rightarrow> 'w http_runtime \<Rightarrow> 'w api_state \<Rightarrow> api_request \<Rightarrow> ('w, api_response) state" where
  "api_synthesize C R A q =
     State_Monad.bind (admitted C R read_tts_body tts_into_domain tq_provider_order q) (\<lambda>r.
     case r of
       Err e \<Rightarrow> State_Monad.return (error_response (ac_uuid C) e)
     | Ok (context, request) \<Rightarrow>
         State_Monad.bind (hr_timeout R (as_tts_deadline A)
           (State_Monad.bind (synthesize (ac_service C) (as_service A) context request) (\<lambda>x.
            State_Monad.return (answer_of (tts_success C) C (cx_request_id context) x)))) (\<lambda>x.
         State_Monad.return (or_timeout C (cx_request_id context) x)))"

definition api_transcribe :: "api_crates \<Rightarrow> 'w http_runtime \<Rightarrow> 'w api_state \<Rightarrow> api_request \<Rightarrow> ('w, api_response) state" where
  "api_transcribe C R A q =
     State_Monad.bind (admitted C R read_stt_body (stt_into_domain (sv_url (ac_service C))) sq_provider_order q) (\<lambda>r.
     case r of
       Err e \<Rightarrow> State_Monad.return (error_response (ac_uuid C) e)
     | Ok (context, request) \<Rightarrow>
         State_Monad.bind (hr_timeout R (as_stt_deadline A)
           (State_Monad.bind (transcribe (ac_service C) (as_service A) context request) (\<lambda>x.
            State_Monad.return (answer_of (stt_success C) C (cx_request_id context) x)))) (\<lambda>x.
         State_Monad.return (or_timeout C (cx_request_id context) x)))"

section \<open>Other handlers\<close>

definition with_request_id ::
    "api_crates \<Rightarrow> 'w http_runtime \<Rightarrow> api_request \<Rightarrow> (request_id \<Rightarrow> ('w, api_response) state) \<Rightarrow> ('w, api_response) state" where
  "with_request_id C R q f =
     State_Monad.bind (header_request_id (ac_uuid C) (hr_new_uuid R) (aq_headers q)) f"

definition api_capabilities :: "api_crates \<Rightarrow> 'w http_runtime \<Rightarrow> api_request \<Rightarrow> ('w, api_response) state" where
  "api_capabilities C R q = with_request_id C R q (\<lambda>rid. State_Monad.return
     (insert_request_id (ac_uuid C) rid (json_response 200 (capabilities_body current_capabilities))))"

definition liveness :: "api_crates \<Rightarrow> 'w http_runtime \<Rightarrow> api_request \<Rightarrow> ('w, api_response) state" where
  "liveness C R q = with_request_id C R q (\<lambda>rid. State_Monad.return (health_response (ac_uuid C) 200 ''live'' rid))"

text \<open>Both checks run, in either order, unless the composition is not ready.\<close>

definition is_ready :: "'w readiness_checks \<Rightarrow> ('w, bool) state" where
  "is_ready K =
     (if \<not> rc_provider_chains_configured K \<or> \<not> rc_dependency_contracts_available K then State_Monad.return False
      else State_Monad.bind (rc_idempotency_ready K) (\<lambda>database.
        State_Monad.bind (rc_audio_ready K) (\<lambda>audio. State_Monad.return (database \<and> audio))))"

definition readiness :: "api_crates \<Rightarrow> 'w http_runtime \<Rightarrow> 'w api_state \<Rightarrow> api_request \<Rightarrow> ('w, api_response) state" where
  "readiness C R A q = with_request_id C R q (\<lambda>rid.
     State_Monad.bind (is_ready (as_readiness A)) (\<lambda>ready.
     State_Monad.return (if ready then health_response (ac_uuid C) 200 ''ready'' rid
       else error_response (ac_uuid C) (not_ready rid))))"

definition refuse :: "(request_id \<Rightarrow> api_error) \<Rightarrow> api_crates \<Rightarrow> 'w http_runtime \<Rightarrow> api_request \<Rightarrow> ('w, api_response) state" where
  "refuse e C R q = with_request_id C R q (\<lambda>rid. State_Monad.return (error_response (ac_uuid C) (e rid)))"

text \<open>A GET route also answers HEAD, without the body, which the model keeps.\<close>

definition handler :: "api_crates \<Rightarrow> 'w http_runtime \<Rightarrow> 'w api_state \<Rightarrow> api_request \<Rightarrow> ('w, api_response) state" where
  "handler C R A q =
     (let get = aq_method q \<in> {''GET'', ''HEAD''}; post = (aq_method q = ''POST'');
          wrong = refuse method_not_allowed C R q in
      if aq_path q = ''/api/v1/tts'' then (if post then api_synthesize C R A q else wrong)
      else if aq_path q = ''/api/v1/stt'' then (if post then api_transcribe C R A q else wrong)
      else if aq_path q = ''/api/v1/capabilities'' then (if get then api_capabilities C R q else wrong)
      else if aq_path q = ''/health/live'' then (if get then liveness C R q else wrong)
      else if aq_path q = ''/health/ready'' then (if get then readiness C R A q else wrong)
      else refuse not_found C R q)"

section \<open>Layers\<close>

definition TTS_PATH :: string where "TTS_PATH = ''/api/v1/tts''"
definition STT_PATH :: string where "STT_PATH = ''/api/v1/stt''"
definition LIVENESS_PATH :: string where "LIVENESS_PATH = ''/health/live''"
definition READINESS_PATH :: string where "READINESS_PATH = ''/health/ready''"

definition READINESS_MAX_IN_FLIGHT :: nat where "READINESS_MAX_IN_FLIGHT = 8"
definition PUBLIC_CONTROL_DEADLINE :: duration where "PUBLIC_CONTROL_DEADLINE = secs 10"
definition TRANSPORT_DEADLINE_ALLOWANCE :: duration where "TRANSPORT_DEADLINE_ALLOWANCE = secs 5"

record request_deadlines =
  rd_tts :: duration
  rd_stt :: duration
  rd_other :: duration
  rd_transport_allowance :: duration

definition request_deadlines_new :: "duration \<Rightarrow> duration \<Rightarrow> duration \<Rightarrow> duration \<Rightarrow> request_deadlines" where
  "request_deadlines_new tts stt other allowance =
     \<lparr>rd_tts = tts, rd_stt = stt, rd_other = other, rd_transport_allowance = allowance\<rparr>"

definition for_path :: "request_deadlines \<Rightarrow> string \<Rightarrow> duration option" where
  "for_path d path =
     (if path = LIVENESS_PATH then None
      else if path = TTS_PATH then Some (duration_saturating_add (rd_tts d) (rd_transport_allowance d))
      else if path = STT_PATH then Some (duration_saturating_add (rd_stt d) (rd_transport_allowance d))
      else Some (rd_other d))"

definition admission_class_of :: "string \<Rightarrow> admission_class" where
  "admission_class_of path =
     (if path = LIVENESS_PATH then Bypass else if path = READINESS_PATH then Readiness else Public)"

type_synonym 'w service_fn = "api_request \<Rightarrow> ('w, api_response) state"

definition admission :: "api_crates \<Rightarrow> 'w http_runtime \<Rightarrow> 'w service_fn \<Rightarrow> 'w service_fn" where
  "admission C R run_next q = with_request_id C R q (\<lambda>rid.
     let c = admission_class_of (aq_path q) in
     if c = Bypass then run_next q
     else State_Monad.bind (hr_try_acquire R c) (\<lambda>acquired.
       if \<not> acquired then State_Monad.return (error_response (ac_uuid C) (overloaded_error rid))
       else State_Monad.bind (run_next q) (\<lambda>response.
         State_Monad.bind (hr_release R c) (\<lambda>_. State_Monad.return response))))"

definition enforce_request_deadline ::
    "request_deadlines \<Rightarrow> api_crates \<Rightarrow> 'w http_runtime \<Rightarrow> 'w service_fn \<Rightarrow> 'w service_fn" where
  "enforce_request_deadline d C R run_next q =
     (case for_path d (aq_path q) of
        None \<Rightarrow> run_next q
      | Some deadline \<Rightarrow> with_request_id C R q (\<lambda>rid.
          State_Monad.bind (hr_timeout R deadline (run_next q)) (\<lambda>r. State_Monad.return (or_timeout C rid r))))"

definition catch_panic :: "api_crates \<Rightarrow> 'w http_runtime \<Rightarrow> 'w service_fn \<Rightarrow> 'w service_fn" where
  "catch_panic C R run_next q = with_request_id C R q (\<lambda>rid.
     State_Monad.bind (hr_catch_unwind R (run_next q)) (\<lambda>r.
     State_Monad.return (case r of Some response \<Rightarrow> response | None \<Rightarrow> error_response (ac_uuid C) (internal_error rid))))"

text \<open>The span and the event of a request are not in the model; the id they carry is read.\<close>

definition trace_request :: "api_crates \<Rightarrow> 'w http_runtime \<Rightarrow> 'w service_fn \<Rightarrow> 'w service_fn" where
  "trace_request C R run_next q = with_request_id C R q (\<lambda>_. run_next q)"

definition request_id_layer :: "api_crates \<Rightarrow> 'w http_runtime \<Rightarrow> 'w service_fn \<Rightarrow> 'w service_fn" where
  "request_id_layer C R run_next q = with_request_id C R q (\<lambda>rid.
     let v = request_id_text (ac_uuid C) rid;
         q' = (if header_text v then q\<lparr>aq_headers := header_insert REQUEST_ID_HEADER v (aq_headers q)\<rparr> else q) in
     State_Monad.bind (run_next q') (\<lambda>response.
     let response = (if get_all (ar_headers response) REQUEST_ID_HEADER = []
                     then insert_text_header REQUEST_ID_HEADER v response else response) in
     State_Monad.return (response\<lparr>ar_headers := header_insert ''cache-control'' ''no-store'' (ar_headers response)\<rparr>)))"

text \<open>\<open>router\<close>: the layers, the outermost first, with the deadlines of the server's settings.\<close>

definition router :: "api_crates \<Rightarrow> 'w http_runtime \<Rightarrow> 'w api_state \<Rightarrow> server_settings \<Rightarrow> 'w service_fn" where
  "router C R A server =
     request_id_layer C R (trace_request C R (catch_panic C R
       (enforce_request_deadline
         (request_deadlines_new (server_tts_deadline server) (server_stt_deadline server) PUBLIC_CONTROL_DEADLINE
           TRANSPORT_DEADLINE_ALLOWANCE) C R
         (admission C R (handler C R A)))))"

section \<open>Admission under concurrency\<close>

text \<open>
  The two budgets as counted permits, and the interleaving of requests: \<open>running\<close> lists the classes of
  the requests that hold a permit. A permit is dropped with its request, whether it answered, was cut by
  its deadline, panicked or lost its client.
\<close>

record admission_limiters =
  al_public :: nat
  al_readiness :: nat

definition admission_limiters_new :: "nat \<Rightarrow> nat \<Rightarrow> admission_limiters" where
  "admission_limiters_new pub ready = \<lparr>al_public = pub, al_readiness = ready\<rparr>"

definition router_limiters :: "server_settings \<Rightarrow> admission_limiters" where
  "router_limiters server = admission_limiters_new (server_max_in_flight server) READINESS_MAX_IN_FLIGHT"

fun permits :: "admission_limiters \<Rightarrow> admission_class \<Rightarrow> nat" where
  "permits L Public = al_public L"
| "permits L Readiness = al_readiness L"
| "permits L Bypass = 0"

fun set_permits :: "admission_class \<Rightarrow> nat \<Rightarrow> admission_limiters \<Rightarrow> admission_limiters" where
  "set_permits Public n L = L\<lparr>al_public := n\<rparr>"
| "set_permits Readiness n L = L\<lparr>al_readiness := n\<rparr>"
| "set_permits Bypass n L = L"

definition try_acquire :: "admission_class \<Rightarrow> admission_limiters \<Rightarrow> admission_limiters option" where
  "try_acquire c L = (if permits L c = 0 then None else Some (set_permits c (permits L c - 1) L))"

definition release_permit :: "admission_class \<Rightarrow> admission_limiters \<Rightarrow> admission_limiters" where
  "release_permit c L = set_permits c (permits L c + 1) L"

datatype admission_event = Passed string | Admitted string | Refused string | Finished

inductive admission_step ::
    "admission_limiters \<times> admission_class list \<Rightarrow> admission_event \<Rightarrow> admission_limiters \<times> admission_class list \<Rightarrow> bool" where
  passed: "admission_class_of path = Bypass \<Longrightarrow> admission_step (L, running) (admission_event.Passed path) (L, running)"
| admitted: "c = admission_class_of path \<Longrightarrow> c \<noteq> Bypass \<Longrightarrow> try_acquire c L = Some L' \<Longrightarrow>
    admission_step (L, running) (admission_event.Admitted path) (L', c # running)"
| refused: "c = admission_class_of path \<Longrightarrow> c \<noteq> Bypass \<Longrightarrow> try_acquire c L = None \<Longrightarrow>
    admission_step (L, running) (admission_event.Refused path) (L, running)"
| finished: "admission_step (L, before @ c # rest) Finished (release_permit c L, before @ rest)"

inductive admission_reachable :: "admission_limiters \<Rightarrow> admission_limiters \<times> admission_class list \<Rightarrow> bool" for L0 where
  start: "admission_reachable L0 (L0, [])"
| step: "admission_reachable L0 s \<Longrightarrow> admission_step s e s' \<Longrightarrow> admission_reachable L0 s'"

inductive_cases admission_stepE: "admission_step s e s'"

end
