(* ===== verification/Api_Properties.thy ===== *)
theory Api_Properties
  imports Api Briefcase_Properties
begin

text \<open>
  The public API: which requests reach the speech service, what every response carries, how failures
  map to statuses, which credentials are read, and what the admission budgets admit.
\<close>

section \<open>Headers\<close>

lemma get_all_insert [simp]:
  "get_all (header_insert name v headers) name = [v]"
  "n \<noteq> name \<Longrightarrow> get_all (header_insert name v headers) n = get_all headers n"
  by (auto simp: get_all_def header_insert_def filter_empty_conv intro: arg_cong [where f = "map snd"] filter_cong)

lemma get_all_insert_text:
  "get_all (ar_headers (insert_text_header name v response)) n =
     (if n = name \<and> header_text v then [v] else get_all (ar_headers response) n)"
  by (simp add: insert_text_header_def)

lemma insert_text_header_simps [simp]:
  "ar_status (insert_text_header name v response) = ar_status response"
  "ar_body (insert_text_header name v response) = ar_body response"
  by (simp_all add: insert_text_header_def)

lemma get_all_json_response [simp]:
  "get_all (ar_headers (json_response status body)) n = (if n = ''content-type'' then [''application/json''] else [])"
  by (simp add: json_response_def get_all_def)

lemma optional_header_Some_iff:
  "optional_header headers name = Ok (Some v) \<longleftrightarrow> get_all headers name = [v] \<and> header_text v"
  by (auto simp: optional_header_def split: list.splits)

text \<open>The texts the crate documents for UUIDs: they fit in a header and parse back.\<close>

definition uuid_texts :: "uuid_crate \<Rightarrow> bool" where
  "uuid_texts U \<longleftrightarrow> (\<forall>u. header_text (uuid_text U u) \<and> uuid_parse U (uuid_text U u) = Some u)"

lemma sent_request_id_insert:
  assumes "uuid_texts U" "request_uuid rid \<noteq> 0"
  shows "sent_request_id U (header_insert REQUEST_ID_HEADER (request_id_text U rid) headers) = Some rid"
proof -
  have "optional_header (header_insert REQUEST_ID_HEADER (request_id_text U rid) headers) REQUEST_ID_HEADER =
      Ok (Some (request_id_text U rid))"
    using assms(1) by (simp add: optional_header_Some_iff uuid_texts_def request_id_text_def)
  moreover have "request_id_from_str U (request_id_text U rid) = Ok rid"
    using assms by (simp add: uuid_texts_def request_id_text_def request_id_from_str_def request_id_new_def ensure_non_nil_def)
  ultimately show ?thesis by (simp add: sent_request_id_def)
qed

lemma header_request_id_run:
  "run_state (header_request_id U now headers) w = (rid, w') \<Longrightarrow>
     request_uuid rid \<noteq> 0 \<and> (\<forall>r. sent_request_id U headers = Some r \<longrightarrow> rid = r)"
proof (cases "sent_request_id U headers")
  case None
  then show "run_state (header_request_id U now headers) w = (rid, w') \<Longrightarrow> ?thesis"
    by (auto simp: header_request_id_def generated_request_id_def run_simps request_id_new_non_nil
        split: prod.splits sum.splits)
next
  case (Some r)
  then have "request_uuid r \<noteq> 0"
    by (auto simp: sent_request_id_def request_id_from_str_def request_id_new_non_nil
        elim!: result_elims split: sum.splits option.splits)
  with Some show "run_state (header_request_id U now headers) w = (rid, w') \<Longrightarrow> ?thesis"
    by (simp add: header_request_id_def run_simps)
qed

lemma with_request_id_sent:
  "sent_request_id (ac_uuid C) (aq_headers q) = Some rid \<Longrightarrow> with_request_id C R q f = f rid"
  by (rule state_ext) (simp add: with_request_id_def header_request_id_def run_simps)

section \<open>Credentials\<close>

lemma split_ascii_whitespace_two:
  assumes "a \<noteq> []" "b \<noteq> []" "\<forall>c \<in> set a. \<not> is_ascii_whitespace c" "\<forall>c \<in> set b. \<not> is_ascii_whitespace c"
  shows "split_ascii_whitespace (a @ CHR '' '' # b) = [a, b]"
proof -
  have word: "words_from acc (s @ rest) = words_from (rev s @ acc) rest"
    if "\<forall>c \<in> set s. \<not> is_ascii_whitespace c" for acc s rest
    using that by (induction s arbitrary: acc) auto
  have "words_from [] (a @ CHR '' '' # b) = words_from (rev a) (CHR '' '' # b)"
    using word [OF assms(3), of "[]"] by simp
  also have "\<dots> = a # words_from [] b"
    using assms(1) by (simp add: is_ascii_whitespace_def byte_def)
  also have "words_from [] b = [b]"
    using word [OF assms(4), of "[]" "[]"] assms(2) by simp
  finally show ?thesis by (simp add: split_ascii_whitespace_def)
qed

lemma opaque_credential_new_Ok:
  "opaque_credential_new s = Ok c \<longleftrightarrow>
     c = OpaqueCredential s \<and> s \<noteq> [] \<and> length s \<le> MAX_CREDENTIAL_LENGTH \<and> (\<forall>x \<in> set s. is_ascii_graphic x)"
  by (auto simp: opaque_credential_new_def)

lemma graphic_not_space: "is_ascii_graphic c \<Longrightarrow> \<not> is_ascii_whitespace c"
  by (auto simp: is_ascii_graphic_def is_ascii_whitespace_def)

lemma graphic_header_text: "\<forall>c \<in> set s. is_ascii_graphic c \<Longrightarrow> header_text s"
  by (auto simp: header_text_def is_ascii_graphic_def)

lemma header_text_append [simp]: "header_text (a @ b) \<longleftrightarrow> header_text a \<and> header_text b"
  by (auto simp: header_text_def)

text \<open>One field with a scheme, a space and a token.\<close>

lemma parse_one_credential:
  assumes "get_all headers ''authorization'' = [scheme @ CHR '' '' # token]"
    and "\<forall>name \<in> set RETIRED_HEADERS. get_all headers name = []"
    and "scheme \<in> {''Bearer'', ''Proof''}" "token \<noteq> []" "\<forall>c \<in> set token. is_ascii_graphic c"
  shows "parse_credentials headers =
    (if scheme = ''Bearer'' then map_err (\<lambda>_. MalformedAuthorization) (map_ok Bearer (access_token_new token))
     else map_err (\<lambda>_. MalformedAuthorization) (map_ok Proof (proof_token_new token)))"
proof -
  have "scheme \<noteq> []" "\<forall>c \<in> set scheme. \<not> is_ascii_whitespace c" "header_text scheme"
    using assms(3) by (auto simp: is_ascii_whitespace_def byte_def header_text_def)
  then have split: "split_ascii_whitespace (scheme @ CHR '' '' # token) = [scheme, token]"
    and readable: "header_text (scheme @ CHR '' '' # token)"
    using assms(4,5) graphic_header_text [OF assms(5)] header_text_append [of scheme "CHR '' '' # token"]
    by (auto simp: header_text_def byte_def intro!: split_ascii_whitespace_two dest: graphic_not_space)
  have schemes: "eq_ignore_ascii_case ''Bearer'' ''bearer''" "\<not> eq_ignore_ascii_case ''Proof'' ''bearer''"
    "eq_ignore_ascii_case ''Proof'' ''proof''" by code_simp+
  have field: "optional_header headers ''authorization'' = Ok (Some (scheme @ CHR '' '' # token))"
    using assms(1) readable by (simp add: optional_header_Some_iff)
  from assms(3) have "scheme = ''Bearer'' \<or> scheme = ''Proof''" by simp
  then show ?thesis
    unfolding parse_credentials_def field credential_of_def
    using assms(2) split schemes by (elim disjE) simp_all
qed

lemma and_then_Err_iff: "and_then r f = Err e \<longleftrightarrow> r = Err e \<or> (\<exists>x. r = Ok x \<and> f x = Err e)"
  by (cases r) simp_all

lemma const_err: "map_err (\<lambda>_. a) r = Err e \<Longrightarrow> e = a" "ok_or v a = Err e \<Longrightarrow> e = a"
  by (cases r; simp)(cases v; simp)

lemma credential_of_Err: "credential_of v = Err failure \<Longrightarrow> failure = MalformedAuthorization"
  by (auto simp: credential_of_def dest: const_err split: if_splits list.splits)

lemma parse_credentials_Err:
  "parse_credentials headers = Err failure \<Longrightarrow> failure \<in> {RetiredCredentials, MalformedAuthorization, MissingCredentials}"
  by (auto simp: parse_credentials_def and_then_Err_iff dest: const_err credential_of_Err split: if_splits)

section \<open>What reaches the speech service\<close>

text \<open>
  The one call a request stands for, whatever the order of the checks: no account in the query, one
  well-formed credential, one well-formed key, a body that reads and validates, no empty order.
\<close>

definition speech_key :: "header_map \<Rightarrow> idempotency_key option" where
  "speech_key headers = (case get_all headers ''idempotency-key'' of
     [k] \<Rightarrow> if 8 \<le> length k \<and> length k \<le> 255 \<and> (\<forall>c \<in> set k. is_ascii_graphic c) then Some (IdempotencyKey k) else None
   | _ \<Rightarrow> None)"

definition speech_call ::
    "api_crates \<Rightarrow> (json \<Rightarrow> 'b option) \<Rightarrow> ('b \<Rightarrow> ('r, request_body_error) result) \<Rightarrow>
     ('r \<Rightarrow> provider_name list option) \<Rightarrow> api_request \<Rightarrow> (inbound_credentials \<times> idempotency_key \<times> 'r) option" where
  "speech_call C read into_domain order_of q =
     (if names_an_account (ac_form_parse C) (aq_query q) then None
      else case (parse_credentials (aq_headers q), speech_key (aq_headers q), aq_body q) of
        (Ok c, Some k, Ok v) \<Rightarrow>
          (case read v of
             None \<Rightarrow> None
           | Some b \<Rightarrow>
               (case into_domain b of
                  Err _ \<Rightarrow> None
                | Ok r \<Rightarrow> if order_of r = Some [] then None else Some (c, k, r)))
      | _ \<Rightarrow> None)"

lemma speech_key_parse:
  "and_then (required_header headers ''idempotency-key'') parse_idempotency_key = Ok k \<longleftrightarrow> speech_key headers = Some k"
  by (auto simp: speech_key_def required_header_def optional_header_def parse_idempotency_key_def and_then_Ok_iff
      idempotency_key_from_str_def MIN_IDEMPOTENCY_KEY_LENGTH_def MAX_IDEMPOTENCY_KEY_LENGTH_def
      graphic_header_text split: list.splits if_splits)

lemma speech_key_refused:
  assumes "speech_key headers = None"
  obtains e where "and_then (required_header headers ''idempotency-key'') parse_idempotency_key = Err e"
    "\<And>failure. e \<noteq> Credentials failure"
proof -
  from assms speech_key_parse [of headers] obtain e where
    e: "and_then (required_header headers ''idempotency-key'') parse_idempotency_key = Err e"
    by (cases "and_then (required_header headers ''idempotency-key'') parse_idempotency_key") auto
  moreover from e have "e \<noteq> Credentials failure" for failure
    unfolding required_header_def optional_header_def parse_idempotency_key_def and_then_def map_err_def ok_or_def
    by (auto split: if_splits list.splits sum.splits option.splits)
  ultimately show thesis using that by blast
qed

definition refusal :: "request_id \<Rightarrow> api_error \<Rightarrow> bool" where
  "refusal rid e \<longleftrightarrow> er_status e \<in> {400, 401, 413} \<and> er_request_id e = rid"

lemma refusal_intros [simp, intro]:
  "refusal rid (invalid_request rid)" "refusal rid (speech_runs_as_yourself rid)" "refusal rid (payload_too_large rid)"
  "refusal rid (invalid_options message rid)"
  by (simp_all add: refusal_def invalid_request_def speech_runs_as_yourself_def payload_too_large_def
      invalid_options_def api_error_new_def)

lemma refusal_header_error:
  "(\<And>failure. e = Credentials failure \<Longrightarrow> failure \<in> {RetiredCredentials, MalformedAuthorization, MissingCredentials}) \<Longrightarrow>
     refusal rid (header_error_answer e rid)"
  by (cases e) (auto simp: authentication_def from_waveform_def refusal_def is_forbidden_def invalid_request_def
      api_error_new_def)

lemma refusal_body_error: "refusal rid (body_error_answer e rid)"
proof (cases e)
  case (Speech s)
  then show ?thesis by (cases s) simp_all
qed simp_all

lemma refusal_json_error: "refusal rid (json_error_answer status rid)"
  by (simp add: json_error_answer_def)

lemma parse_speech_headers_run:
  assumes "sent_request_id U headers = Some rid"
  shows "run_state (parse_speech_headers U now headers) w =
    (case parse_credentials headers of
       Err failure \<Rightarrow> (Err (Credentials failure), w)
     | Ok c \<Rightarrow> (case and_then (required_header headers ''idempotency-key'') parse_idempotency_key of
         Err e \<Rightarrow> (Err e, w)
       | Ok k \<Rightarrow> (Ok \<lparr>sh_request_id = rid, sh_credentials = c, sh_idempotency_key = k\<rparr>, w)))"
  using assms by (auto simp: parse_speech_headers_def header_request_id_def run_simps split: sum.splits)

lemma admitted_run:
  assumes sent: "sent_request_id (ac_uuid C) (aq_headers q) = Some rid"
  shows "case speech_call C read into_domain order_of q of
      Some (c, k, r) \<Rightarrow> run_state (admitted C R read into_domain order_of q) w =
        (Ok (\<lparr>cx_request_id = rid, cx_credentials = c, cx_idempotency_key = k\<rparr>, r), w)
    | None \<Rightarrow> \<exists>e. refusal rid e \<and> run_state (admitted C R read into_domain order_of q) w = (Err e, w)"
proof -
  let ?run = "run_state (admitted C R read into_domain order_of q) w"
  note run = admitted_def header_request_id_def sent run_simps parse_speech_headers_run [OF sent] typed_body_def
  show ?thesis
  proof (cases "names_an_account (ac_form_parse C) (aq_query q)")
    case True
    then show ?thesis by (auto simp: run speech_call_def)
  next
    case account: False
    show ?thesis
    proof (cases "parse_credentials (aq_headers q)")
      case (Inl failure)
      then have "?run = (Err (header_error_answer (Credentials failure) rid), w)"
        using account by (simp add: run)
      moreover have "refusal rid (header_error_answer (Credentials failure) rid)"
        using parse_credentials_Err [OF Inl] by (intro refusal_header_error) auto
      ultimately show ?thesis using Inl account by (auto simp: speech_call_def)
    next
      case (Inr c)
      show ?thesis
      proof (cases "speech_key (aq_headers q)")
        case None
        obtain e where "and_then (required_header (aq_headers q) ''idempotency-key'') parse_idempotency_key = Err e"
          "\<And>failure. e \<noteq> Credentials failure" using speech_key_refused [OF None] by metis
        moreover from this have "refusal rid (header_error_answer e rid)" by (intro refusal_header_error) auto
        ultimately show ?thesis using Inr None account by (auto simp: run speech_call_def)
      next
        case (Some k)
        then have "and_then (required_header (aq_headers q) ''idempotency-key'') parse_idempotency_key = Ok k"
          by (simp add: speech_key_parse)
        with Inr Some account show ?thesis
          by (auto simp: run speech_call_def refusal_json_error refusal_body_error split: sum.splits option.splits)
      qed
    qed
  qed
qed

section \<open>What a response carries\<close>

definition yields :: "('w, 'a) state \<Rightarrow> ('a \<Rightarrow> bool) \<Rightarrow> bool" where
  "yields m P \<longleftrightarrow> (\<forall>w. P (fst (run_state m w)))"

lemma yields_return: "P x \<Longrightarrow> yields (State_Monad.return x) P"
  by (simp add: yields_def run_simps)

lemma yields_bind: "(\<And>x. yields (f x) P) \<Longrightarrow> yields (State_Monad.bind m f) P"
  by (auto simp: yields_def run_simps split: prod.splits)

lemma yields_then: "yields m R \<Longrightarrow> (\<And>x. R x \<Longrightarrow> yields (f x) P) \<Longrightarrow> yields (State_Monad.bind m f) P"
  by (auto simp: yields_def run_simps split: prod.splits) (metis fst_conv)

lemma yields_if: "(b \<Longrightarrow> yields m P) \<Longrightarrow> (\<not> b \<Longrightarrow> yields m' P) \<Longrightarrow> yields (if b then m else m') P"
  by simp

text \<open>A time limit and a panic guard answer what the guarded run answers, or that it did not.\<close>

definition own_answers :: "'w http_runtime \<Rightarrow> bool" where
  "own_answers R \<longleftrightarrow>
     (\<forall>P d m. yields m P \<longrightarrow> yields (hr_timeout R d m) (\<lambda>x. \<forall>r. x = Some r \<longrightarrow> P r)) \<and>
     (\<forall>P m. yields m P \<longrightarrow> yields (hr_catch_unwind R m) (\<lambda>x. \<forall>r. x = Some r \<longrightarrow> P r))"

text \<open>One request id: the given one, or on a success the id of the operation.\<close>

definition correlated :: "api_crates \<Rightarrow> request_id \<Rightarrow> api_response \<Rightarrow> bool" where
  "correlated C rid response \<longleftrightarrow> (\<exists>r. get_all (ar_headers response) REQUEST_ID_HEADER = [request_id_text (ac_uuid C) r] \<and>
     (r = rid \<or> ar_status response = 200))"

lemma uuid_header_text: "uuid_texts U \<Longrightarrow> header_text (request_id_text U r)"
  by (simp add: uuid_texts_def request_id_text_def)

lemma error_correlated:
  assumes "uuid_texts (ac_uuid C)" "er_request_id e = rid"
  shows "correlated C rid (error_response (ac_uuid C) e)"
  using assms(2) uuid_header_text [OF assms(1)]
  by (auto simp: correlated_def error_response_def Let_def get_all_insert_text REQUEST_ID_HEADER_def split: option.splits)

lemma new_error_id [simp]:
  "er_request_id (request_timeout rid) = rid" "er_request_id (internal_error rid) = rid"
  "er_request_id (overloaded_error rid) = rid" "er_request_id (not_ready rid) = rid"
  "er_request_id (not_found rid) = rid" "er_request_id (method_not_allowed rid) = rid"
  "er_request_id (from_waveform e rid) = rid"
  by (simp_all add: request_timeout_def internal_error_def overloaded_error_def not_ready_def not_found_def
      method_not_allowed_def with_retry_after_def api_error_new_def from_waveform_def Let_def split: prod.splits)

lemma success_correlated:
  "uuid_texts (ac_uuid C) \<Longrightarrow> correlated C rid (success_response (ac_uuid C) body r replayed)"
  by (auto simp: correlated_def success_response_def insert_request_id_def Let_def get_all_insert_text uuid_header_text
      json_response_def)

lemma insert_request_id_correlated:
  "uuid_texts (ac_uuid C) \<Longrightarrow> correlated C rid (insert_request_id (ac_uuid C) rid response)"
  by (auto simp: correlated_def insert_request_id_def get_all_insert_text uuid_header_text)

lemma answer_correlated:
  assumes "uuid_texts (ac_uuid C)" "\<And>response. correlated C rid (success response)"
  shows "correlated C rid (answer_of success C rid r)"
  using assms by (auto simp: answer_of_def intro: error_correlated split: sum.splits)

lemma timed_correlated:
  assumes "uuid_texts (ac_uuid C)" "own_answers R" "yields m (correlated C rid)"
  shows "yields (State_Monad.bind (hr_timeout R d m) (\<lambda>x. State_Monad.return (or_timeout C rid x))) (correlated C rid)"
proof (rule yields_then)
  show "yields (hr_timeout R d m) (\<lambda>x. \<forall>r. x = Some r \<longrightarrow> correlated C rid r)"
    using assms(2,3) unfolding own_answers_def by blast
  fix x assume "\<forall>r. x = Some r \<longrightarrow> correlated C rid r"
  then show "yields (State_Monad.return (or_timeout C rid x)) (correlated C rid)"
    using error_correlated [OF assms(1), of "request_timeout rid" rid]
    by (auto simp: or_timeout_def intro!: yields_return split: option.splits)
qed

lemma speech_correlated:
  assumes "uuid_texts (ac_uuid C)" "own_answers R" "sent_request_id (ac_uuid C) (aq_headers q) = Some rid"
    and "\<And>response. correlated C rid (success response)"
  shows "yields (State_Monad.bind (admitted C R read
       (into_domain :: 'b \<Rightarrow> ('r, request_body_error) result) order_of q) (\<lambda>r. case r of
       Err e \<Rightarrow> State_Monad.return (error_response (ac_uuid C) e)
     | Ok (context, request) \<Rightarrow>
         State_Monad.bind (hr_timeout R d (State_Monad.bind (call context request) (\<lambda>x.
            State_Monad.return (answer_of success C (cx_request_id context) x)))) (\<lambda>x.
         State_Monad.return (or_timeout C (cx_request_id context) x)))) (correlated C rid)"
proof (rule yields_then [where R = "\<lambda>r. case r of Err e \<Rightarrow> refusal rid e | Ok (context, _) \<Rightarrow> cx_request_id context = rid"])
  show "yields (admitted C R read into_domain order_of q)
      (\<lambda>r. case r of Err e \<Rightarrow> refusal rid e | Ok (context, _) \<Rightarrow> cx_request_id context = rid)"
    unfolding yields_def
  proof
    fix w
    from admitted_run [OF assms(3), where R = R and read = read and into_domain = into_domain and order_of = order_of and w = w]
    show "case fst (run_state (admitted C R read into_domain order_of q) w) of
        Err e \<Rightarrow> refusal rid e | Ok (context, _) \<Rightarrow> cx_request_id context = rid"
      by (auto split: option.splits prod.splits)
  qed
  fix r :: "(speech_request_context \<times> 'r, api_error) result"
  assume r: "case r of Err e \<Rightarrow> refusal rid e | Ok (context, _) \<Rightarrow> cx_request_id context = rid"
  have timed: "yields (State_Monad.bind (hr_timeout R d (State_Monad.bind m (\<lambda>x.
      State_Monad.return (answer_of success C rid x)))) (\<lambda>x. State_Monad.return (or_timeout C rid x))) (correlated C rid)" for m
    by (rule timed_correlated [OF assms(1,2)], rule yields_bind, rule yields_return, rule answer_correlated [OF assms(1,4)])
  show "yields (case r of
       Err e \<Rightarrow> State_Monad.return (error_response (ac_uuid C) e)
     | Ok (context, request) \<Rightarrow>
         State_Monad.bind (hr_timeout R d (State_Monad.bind (call context request) (\<lambda>x.
            State_Monad.return (answer_of success C (cx_request_id context) x)))) (\<lambda>x.
         State_Monad.return (or_timeout C (cx_request_id context) x))) (correlated C rid)"
    using r timed by (auto simp: refusal_def intro!: yields_return error_correlated assms(1) split: sum.splits prod.splits)
qed

lemma handler_correlated:
  assumes "uuid_texts (ac_uuid C)" "own_answers R" "sent_request_id (ac_uuid C) (aq_headers q) = Some rid"
  shows "yields (handler C R A q) (correlated C rid)"
  unfolding handler_def Let_def api_synthesize_def api_transcribe_def tts_success_def stt_success_def api_capabilities_def
    liveness_def readiness_def refuse_def health_response_def with_request_id_sent [OF assms(3)]
  by (intro yields_if speech_correlated [OF assms] success_correlated [OF assms(1)] yields_bind yields_return)
    (auto intro!: error_correlated insert_request_id_correlated assms(1))

lemma admission_correlated:
  assumes "uuid_texts (ac_uuid C)" "sent_request_id (ac_uuid C) (aq_headers q) = Some rid"
    and "yields (run_next q) (correlated C rid)"
  shows "yields (admission C R run_next q) (correlated C rid)"
  unfolding admission_def with_request_id_sent [OF assms(2)] Let_def
  by (intro yields_if yields_bind assms(3) yields_then [OF assms(3)] yields_return)
    (auto intro!: error_correlated assms(1))

lemma deadline_correlated:
  assumes "uuid_texts (ac_uuid C)" "own_answers R" "sent_request_id (ac_uuid C) (aq_headers q) = Some rid"
    and "yields (run_next q) (correlated C rid)"
  shows "yields (enforce_request_deadline d C R run_next q) (correlated C rid)"
  unfolding enforce_request_deadline_def with_request_id_sent [OF assms(3)]
  using timed_correlated [OF assms(1,2,4)] assms(4) by (auto split: option.splits)

lemma catch_panic_correlated:
  assumes "uuid_texts (ac_uuid C)" "own_answers R" "sent_request_id (ac_uuid C) (aq_headers q) = Some rid"
    and "yields (run_next q) (correlated C rid)"
  shows "yields (catch_panic C R run_next q) (correlated C rid)"
  unfolding catch_panic_def with_request_id_sent [OF assms(3)]
proof (rule yields_then)
  show "yields (hr_catch_unwind R (run_next q)) (\<lambda>x. \<forall>r. x = Some r \<longrightarrow> correlated C rid r)"
    using assms(2,4) unfolding own_answers_def by blast
qed (auto intro!: yields_return error_correlated assms(1) split: option.splits)

lemma router_run:
  assumes "uuid_texts (ac_uuid C)" "own_answers R"
  obtains rid inner where "\<And>sent. sent_request_id (ac_uuid C) (aq_headers q) = Some sent \<Longrightarrow> rid = sent"
    "correlated C rid inner"
    "fst (run_state (router C R A server q) w) =
       inner\<lparr>ar_headers := header_insert ''cache-control'' ''no-store'' (ar_headers inner)\<rparr>"
proof -
  obtain rid w1 where rid: "run_state (header_request_id (ac_uuid C) (hr_new_uuid R) (aq_headers q)) w = (rid, w1)"
    by (metis surj_pair)
  note facts = header_request_id_run [OF rid]
  let ?q = "q\<lparr>aq_headers := header_insert REQUEST_ID_HEADER (request_id_text (ac_uuid C) rid) (aq_headers q)\<rparr>"
  have sent: "sent_request_id (ac_uuid C) (aq_headers ?q) = Some rid"
    using sent_request_id_insert [OF assms(1)] facts by simp
  define layers where "layers = trace_request C R (catch_panic C R (enforce_request_deadline
    (request_deadlines_new (server_tts_deadline server) (server_stt_deadline server) PUBLIC_CONTROL_DEADLINE
      TRANSPORT_DEADLINE_ALLOWANCE) C R (admission C R (handler C R A))))"
  have "yields (layers ?q) (correlated C rid)"
    unfolding layers_def trace_request_def with_request_id_sent [OF sent]
    by (intro catch_panic_correlated [OF assms sent] deadline_correlated [OF assms sent]
        admission_correlated [OF assms(1) sent] handler_correlated [OF assms sent])
  moreover obtain inner w2 where inner: "run_state (layers ?q) w1 = (inner, w2)" by (metis surj_pair)
  ultimately have good: "correlated C rid inner" by (simp add: yields_def) (metis fst_conv)
  then have "get_all (ar_headers inner) REQUEST_ID_HEADER \<noteq> []" by (auto simp: correlated_def)
  moreover have "router C R A server = request_id_layer C R layers" by (simp add: router_def layers_def)
  ultimately have "fst (run_state (router C R A server q) w) =
      inner\<lparr>ar_headers := header_insert ''cache-control'' ''no-store'' (ar_headers inner)\<rparr>"
    using uuid_header_text [OF assms(1), of rid] rid inner
    by (simp add: request_id_layer_def with_request_id_def Let_def run_simps)
  with that [of rid] facts good show thesis by blast
qed

lemma correlated_no_store:
  "correlated C rid inner \<Longrightarrow>
     correlated C rid (inner\<lparr>ar_headers := header_insert ''cache-control'' ''no-store'' (ar_headers inner)\<rparr>)"
  by (simp add: correlated_def REQUEST_ID_HEADER_def)

section \<open>Properties\<close>

text \<open>
  C20: only a checked request reaches the speech service. A text-to-speech request either stands for one
  call, with its one credential, its key and its validated body, and then exactly this call runs under
  the deadline; or it is refused with 400, 401 or 413 under its request id, whatever the service is, and
  nothing runs.
\<close>

theorem only_checked_speech_reaches_the_service:
  assumes "sent_request_id (ac_uuid C) (aq_headers q) = Some rid"
  shows "case speech_call C read_tts_body tts_into_domain tq_provider_order q of
      Some (c, k, r) \<Rightarrow> run_state (api_synthesize C R A q) w =
        run_state (State_Monad.bind (hr_timeout R (as_tts_deadline A)
          (State_Monad.bind (synthesize (ac_service C) (as_service A)
              \<lparr>cx_request_id = rid, cx_credentials = c, cx_idempotency_key = k\<rparr> r) (\<lambda>x.
            State_Monad.return (answer_of (tts_success C) C rid x)))) (\<lambda>x.
          State_Monad.return (or_timeout C rid x))) w
    | None \<Rightarrow> \<exists>e. er_status e \<in> {400, 401, 413} \<and> er_request_id e = rid \<and>
        (\<forall>A. run_state (api_synthesize C R A q) w = (error_response (ac_uuid C) e, w))"
  using admitted_run [OF assms, where R = R and read = read_tts_body and into_domain = tts_into_domain
      and order_of = tq_provider_order and w = w]
  by (auto simp: api_synthesize_def run_simps refusal_def split: option.splits)

text \<open>
  What the service is called with is valid. The text is not blank and within the limit, the language
  is one the service supports, the profile has a well-formed id, provider controls come without fallback,
  keys are only of the chain's providers, and the request has no resolved voice yet.
\<close>

theorem validated_speech_is_valid:
  assumes "tts_into_domain b = Ok r"
  shows "str_trim (speech_str (tq_text r)) \<noteq> [] \<and> character_count (tq_text r) \<le> MAX_TTS_TEXT_CHARACTERS \<and>
    (\<forall>hint. tq_language r = Some hint \<longrightarrow> tts_supports (cap_tts current_capabilities) hint) \<and>
    (\<forall>v. tq_voice_profile r = Some v \<longrightarrow> valid_profile_id v) \<and>
    (tq_auto_fallback r \<longrightarrow> tts_options_is_empty (tq_provider_options r)) \<and>
    supports_only (tq_provider_keys r) TTS_PROVIDER_CHAIN \<and>
    tq_resolved_voice r = None \<and> tq_provider_order r = tb_provider_order b"
  using assms unfolding tts_into_domain_def
proof (elim result_elims, goal_cases)
  case (1 spoken language request)
  then have "spoken = SpeechText (tb_text b)" "str_trim (tb_text b) \<noteq> []"
    "char_count (tb_text b) \<le> MAX_TTS_TEXT_CHARACTERS"
    by (auto simp: map_err_Ok_iff speech_text_new_def split: if_splits)
  moreover from 1 have "tq_text request = spoken" "tq_language request = language" "tq_resolved_voice request = None"
    "tq_provider_order request = None"
    "\<forall>hint. language = Some hint \<longrightarrow> tts_supports (cap_tts current_capabilities) hint"
    by (auto simp: map_err_Ok_iff tts_request_new_def split: if_splits option.splits)
  moreover from 1 have "r = with_tts_order (tb_provider_order b) (request
      \<lparr>tq_auto_fallback := tb_auto_fallback b, tq_provider_options := tb_provider_options b,
       tq_provider_keys := tb_provider_keys b, tq_voice_profile := tb_voice_profile b\<rparr>)" by simp
  moreover from 1 have "\<forall>v. tb_voice_profile b = Some v \<longrightarrow> valid_profile_id v" by (auto split: option.splits)
  ultimately show ?case
    using 1 by (auto simp: with_tts_order_def character_count_def split: option.splits)
qed


text \<open>The status of each public code.\<close>

fun code_status :: "error_code \<Rightarrow> nat" where
  "code_status error_code.InvalidRequest = 400"
| "code_status error_code.Unauthenticated = 401"
| "code_status error_code.Forbidden = 403"
| "code_status error_code.StorageAuthorizationRequired = 403"
| "code_status error_code.SourceNotFound = 404"
| "code_status error_code.IdempotencyKeyReused = 409"
| "code_status error_code.RequestInProgress = 409"
| "code_status error_code.PayloadTooLarge = 413"
| "code_status error_code.UnsupportedMediaType = 415"
| "code_status error_code.Internal = 500"
| "code_status error_code.ProvidersExhausted = 502"
| "code_status error_code.ProviderFailed = 502"
| "code_status error_code.DependencyUnavailable = 503"
| "code_status error_code.DependencyContractUnavailable = 503"
| "code_status error_code.DependencyTimeout = 504"

lemma from_waveform_simps [simp]:
  "er_status (from_waveform e rid) = waveform_status e"
  "er_code (from_waveform e rid) = error_code_as_str (waveform_error_code e)"
  "er_retry_after (from_waveform e rid) = (case waveform_error_retry_after e of
     Some d \<Rightarrow> Some d | None \<Rightarrow> if waveform_status e = 503 then Some (secs 5) else None)"
  by (simp_all add: from_waveform_def Let_def split: prod.splits)

lemma header_text_decimal: "header_text (decimal n)"
proof (induction n rule: decimal.induct)
  case (1 n)
  then show ?case by (subst decimal.simps) (auto simp: header_text_def)
qed

lemma get_all_error_response:
  "n \<noteq> ''content-type'' \<Longrightarrow> n \<noteq> REQUEST_ID_HEADER \<Longrightarrow>
     get_all (ar_headers (error_response U e)) n =
       (if n = ''retry-after'' then case er_retry_after e of Some d \<Rightarrow> [decimal (retry_seconds d)] | None \<Rightarrow> [] else [])"
  by (auto simp: error_response_def Let_def get_all_insert_text header_text_decimal split: option.splits)

lemma error_response_status [simp]: "ar_status (error_response U e) = er_status e"
  by (simp add: error_response_def Let_def json_response_def split: option.splits)


text \<open>
  Credentials are read as they are written. A valid access or proof token sent the documented way is
  read as exactly this token, and so is the proof in the headers the Briefcase client sends.
\<close>

theorem credentials_round_trip:
  assumes "access_token_new t = Ok a" "proof_token_new s = Ok p"
  shows "parse_credentials [(''authorization'', ''Bearer '' @ t)] = Ok (Bearer a) \<and>
    parse_credentials [(''authorization'', ''Proof '' @ s)] = Ok (Proof p) \<and>
    (bp_token bp = p \<longrightarrow> parse_credentials (proof_headers B bp rid) = Ok (Proof p))"
proof -
  have t: "t \<noteq> []" "\<forall>c \<in> set t. is_ascii_graphic c"
    using assms(1) by (auto simp: access_token_new_def map_ok_Ok_iff opaque_credential_new_Ok)
  have s: "s \<noteq> []" "\<forall>c \<in> set s. is_ascii_graphic c" "proof_secret p = s"
    using assms(2) by (auto simp: proof_token_new_def map_ok_Ok_iff opaque_credential_new_Ok proof_secret_def split: if_splits)
  have one: "get_all [(''authorization'', v)] ''authorization'' = [v]"
    "\<forall>name \<in> set RETIRED_HEADERS. get_all [(''authorization'', v)] name = []" for v
    by (auto simp: get_all_def RETIRED_HEADERS_def)
  have two: "get_all [(''authorization'', v), (''x-request-id'', u)] ''authorization'' = [v]"
    "\<forall>name \<in> set RETIRED_HEADERS. get_all [(''authorization'', v), (''x-request-id'', u)] name = []" for v u
    by (auto simp: get_all_def RETIRED_HEADERS_def)
  show ?thesis
    using parse_one_credential [of _ "''Bearer''" t] parse_one_credential [of _ "''Proof''" s] t s assms one two
    by (simp add: proof_headers_def)
qed

section \<open>Admission\<close>

definition balanced :: "admission_limiters \<Rightarrow> admission_limiters \<times> admission_class list \<Rightarrow> bool" where
  "balanced L0 s \<longleftrightarrow> (case s of (L, running) \<Rightarrow> Bypass \<notin> set running \<and>
     (\<forall>c. permits L c + count_list running c = permits L0 c))"

lemma permits_set [simp]: "permits (set_permits c n L) d = (if c = d \<and> d \<noteq> Bypass then n else permits L d)"
  by (cases c; cases d) simp_all

lemma admission_step_balanced: "admission_step s e s' \<Longrightarrow> balanced L0 s \<Longrightarrow> balanced L0 s'"
proof (induction rule: admission_step.induct)
  case (admitted c path L L' running)
  then show ?case by (auto simp: balanced_def try_acquire_def split: if_splits)
next
  case (finished L before c rest)
  then have "c \<noteq> Bypass" "Bypass \<notin> set (before @ rest)"
    and counts: "permits L d + count_list (before @ c # rest) d = permits L0 d" for d
    by (auto simp: balanced_def)
  moreover have "permits (release_permit c L) d + count_list (before @ rest) d = permits L0 d" for d
    using counts [of d] \<open>c \<noteq> Bypass\<close> by (auto simp: release_permit_def)
  ultimately show ?case by (simp add: balanced_def)
qed simp_all

lemma admission_reachable_balanced: "admission_reachable L0 s \<Longrightarrow> balanced L0 s"
  by (induction rule: admission_reachable.induct)
    (auto simp: balanced_def dest: admission_step_balanced [unfolded balanced_def])


end
