(* ===== verification/Client_Messages.thy ===== *)
theory Client_Messages
  imports Client Api_Properties
begin

text \<open>
  The client library and the service agree on their messages: what the client serializes is what the
  service deserializes, and the answers of the service, its failures included, are read back whole.
\<close>

section \<open>Members of an object\<close>

definition member_of :: "string \<Rightarrow> (string \<times> json) list \<Rightarrow> (string \<times> json) list" where
  "member_of n ms = filter (\<lambda>m. fst m = n) ms"

lemma member_of_simps [simp]:
  "member_of n [] = []"
  "member_of n (m # ms) = (if fst m = n then m # member_of n ms else member_of n ms)"
  "member_of n (ms @ ms') = member_of n ms @ member_of n ms'"
  "member_of n (json_member k v) = (if k = n then json_member k v else [])"
  "member_of n (text_member k t) = (if k = n then text_member k t else [])"
  "member_of n (number_member k x) = (if k = n then number_member k x else [])"
  "member_of n (if b then ms else ms') = (if b then member_of n ms else member_of n ms')"
  by (simp_all add: member_of_def json_member_def text_member_def number_member_def split: option.splits)

fun only_value :: "(string \<times> json) list \<Rightarrow> json option option" where
  "only_value [] = Some None"
| "only_value [m] = Some (Some (snd m))"
| "only_value _ = None"

lemma struct_field_object: "struct_field [n] (JObject ms) = only_value (member_of n ms)"
proof -
  have "filter (\<lambda>(k, _). k \<in> set [n]) ms = member_of n ms"
    by (auto simp: member_of_def intro: filter_cong)
  then show ?thesis
    by (auto simp: struct_field_def split: list.splits elim!: only_value.elims)
qed

lemma only_value_member [simp]:
  "only_value (json_member k v) = Some v"
  "only_value (text_member k t) = Some (map_option JString t)"
  "only_value (number_member k x) = Some (map_option json_f64 x)"
  by (auto simp: json_member_def text_member_def number_member_def split: option.splits)

lemma required_object: "required_field [n] read (JObject ms) =
    (case only_value (member_of n ms) of Some (Some w) \<Rightarrow> read w | _ \<Rightarrow> None)"
  by (simp add: required_field_def struct_field_object)

lemma default_object: "default_field [n] d read (JObject ms) =
    (case only_value (member_of n ms) of None \<Rightarrow> None | Some None \<Rightarrow> Some d | Some (Some w) \<Rightarrow> read w)"
  by (simp add: default_field_def struct_field_object)

lemma optional_object: "only_value (member_of n ms) = Some (map_option f v) \<Longrightarrow>
    (\<And>x. v = Some x \<Longrightarrow> f x \<noteq> JNull \<and> read (f x) = Some x) \<Longrightarrow> optional_field [n] read (JObject ms) = Some v"
  by (cases v) (auto simp: optional_field_def struct_field_object)

lemma optional_null: "only_value (member_of n ms) = Some (Some (json_option f v)) \<Longrightarrow>
    (\<And>x. v = Some x \<Longrightarrow> f x \<noteq> JNull \<and> read (f x) = Some x) \<Longrightarrow> optional_field [n] read (JObject ms) = Some v"
  by (cases v) (auto simp: optional_field_def struct_field_object json_option_def)

lemma only_fields_object: "only_fields names (JObject ms) \<longleftrightarrow> fst ` set ms \<subseteq> set names"
  by (simp add: only_fields_def)

lemma json_member_names [simp]: "fst ` set (json_member k v) \<subseteq> N \<longleftrightarrow> v = None \<or> k \<in> N"
  by (cases v) (simp_all add: json_member_def)

lemma member_names [simp]:
  "fst ` set (text_member k t) \<subseteq> N \<longleftrightarrow> t = None \<or> k \<in> N"
  "fst ` set (number_member k x) \<subseteq> N \<longleftrightarrow> x = None \<or> k \<in> N"
  by (simp_all add: text_member_def number_member_def)

section \<open>Provider controls\<close>

definition finite_number :: "f64 option \<Rightarrow> bool" where
  "finite_number v \<longleftrightarrow> (case v of Some x \<Rightarrow> f64_is_finite x | None \<Rightarrow> True)"

definition finite_numbers :: "tts_provider_options \<Rightarrow> bool" where
  "finite_numbers p \<longleftrightarrow>
     (case po_elevenlabs p of Some e \<Rightarrow> list_all finite_number [el_stability e, el_similarity_boost e, el_style e, el_speed e]
      | None \<Rightarrow> True) \<and>
     (case po_openai p of Some a \<Rightarrow> finite_number (oa_speed a) | None \<Rightarrow> True)"

lemma text_read: "only_value (member_of n ms) = Some (map_option JString v) \<Longrightarrow>
    optional_field [n] as_str (JObject ms) = Some v"
  by (rule optional_object) auto

lemma number_read: "only_value (member_of n ms) = Some (map_option json_f64 v) \<Longrightarrow> finite_number v \<Longrightarrow>
    optional_field [n] read_f64 (JObject ms) = Some v"
  by (rule optional_object) (auto simp: json_f64_def read_f64_def f64_of_number_def finite_number_def)

lemma bool_read: "only_value (member_of n ms) = Some (map_option JBool v) \<Longrightarrow>
    optional_field [n] as_bool (JObject ms) = Some v"
  by (rule optional_object) (auto simp: as_bool_def)

lemma seed_read:
  fixes v :: "32 word option"
  assumes "only_value (member_of n ms) = Some (map_option (\<lambda>s. JNumber (PosInt (unat s))) v)"
  shows "optional_field [n] (read_uint 4294967295) (JObject ms) = Some (map_option unat v)"
proof -
  have "unat (s :: 32 word) \<le> 4294967295" for s using unsigned_less [of s, where 'a = nat] by simp
  then show ?thesis using assms
    by (intro optional_object [where f = "\<lambda>n. JNumber (PosInt n)"]) (auto simp: read_uint_def option.map_comp comp_def)
qed

lemma gemini_options_read: "read_gemini_options (gemini_options_json g) = Some g"
  by (simp add: read_gemini_options_def gemini_options_json_def only_fields_object image_Un text_read)

lemma eleven_labs_options_read:
  assumes "list_all finite_number [el_stability e, el_similarity_boost e, el_style e, el_speed e]"
  shows "read_eleven_labs_options (eleven_labs_options_json e) = Some e"
  using assms
  by (simp add: read_eleven_labs_options_def eleven_labs_options_json_def only_fields_object image_Un text_read
      ELEVENLABS_FIELDS_def number_read bool_read seed_read option.map_comp comp_def option.map_ident)

lemma open_ai_options_read:
  "finite_number (oa_speed a) \<Longrightarrow> read_open_ai_options (open_ai_options_json a) = Some a"
  by (simp add: read_open_ai_options_def open_ai_options_json_def only_fields_object image_Un text_read number_read)

lemma options_not_null [simp]:
  "gemini_options_json g \<noteq> JNull" "eleven_labs_options_json e \<noteq> JNull" "open_ai_options_json a \<noteq> JNull"
  by (simp_all add: gemini_options_json_def eleven_labs_options_json_def open_ai_options_json_def)

lemma tts_options_read:
  assumes "finite_numbers p"
  shows "read_tts_options (tts_options_json p) = Some p"
proof -
  let ?v = "tts_options_json p"
  have "optional_field [''gemini''] read_gemini_options ?v = Some (po_gemini p)"
    unfolding tts_options_json_def by (rule optional_object [where f = gemini_options_json]) (simp_all add: gemini_options_read)
  moreover have "optional_field [''elevenlabs''] read_eleven_labs_options ?v = Some (po_elevenlabs p)"
    unfolding tts_options_json_def
    by (rule optional_object [where f = eleven_labs_options_json]) (use assms in \<open>simp_all add: eleven_labs_options_read finite_numbers_def\<close>)
  moreover have "optional_field [''openai''] read_open_ai_options ?v = Some (po_openai p)"
    unfolding tts_options_json_def
    by (rule optional_object [where f = open_ai_options_json]) (use assms in \<open>simp_all add: open_ai_options_read finite_numbers_def\<close>)
  moreover have "only_fields [''gemini'', ''elevenlabs'', ''openai''] ?v"
    by (simp add: tts_options_json_def only_fields_object image_Un)
  ultimately show ?thesis by (simp add: read_tts_options_def)
qed

section \<open>Provider keys and orders\<close>

text \<open>Every key map built by \<open>insert_client_key\<close> is sendable.\<close>

definition sendable_keys :: "client_keys \<Rightarrow> bool" where
  "sendable_keys keys \<longleftrightarrow>
     (\<forall>p s. client_key_map keys p = Some s \<longrightarrow> p \<in> set CLIENT_PROVIDERS \<and> valid_provider_key s)"

lemma no_client_keys_sendable: "sendable_keys no_client_keys"
  by (simp add: sendable_keys_def no_client_keys_def)

lemma insert_client_key_sendable:
  assumes "insert_client_key p s keys = Ok keys'" "sendable_keys keys"
  shows "sendable_keys keys'"
proof -
  have "p \<in> set CLIENT_PROVIDERS" "valid_provider_key s" "keys' = ClientKeys ((client_key_map keys)(p \<mapsto> s))"
    using assms(1) unfolding insert_client_key_def client_validate_provider_def valid_provider_key_def
    by (auto simp: and_then_Ok_iff CLIENT_PROVIDERS_def split: if_splits)
  then show ?thesis using assms(2) by (simp add: sendable_keys_def)
qed

definition server_keys :: "client_keys \<Rightarrow> provider_api_keys" where
  "server_keys keys = ProviderApiKeys (\<lambda>p. client_key_map keys (provider_as_str p))"

lemma provider_named_str [simp]: "provider_named (provider_as_str p) = Some p"
  by (cases p) (simp_all add: provider_named_def)

lemma provider_fun_eq: "f = g \<longleftrightarrow> f provider_name.Gemini = g provider_name.Gemini \<and>
    f provider_name.ElevenLabs = g provider_name.ElevenLabs \<and> f provider_name.OpenAi = g provider_name.OpenAi \<and>
    f provider_name.Deepgram = g provider_name.Deepgram"
  by (auto simp: fun_eq_iff) (metis provider_name.exhaust)

lemma entries_read:
  "\<exists>entries. those (map key_member (map (\<lambda>(p, k). (p, JString k)) (client_key_entries keys))) = Some entries \<and>
     map_of (rev entries) = (\<lambda>p. client_key_map keys (provider_as_str p))"
proof -
  have read: "key_member (''gemini'', JString s) = Some (provider_name.Gemini, s)"
    "key_member (''elevenlabs'', JString s) = Some (provider_name.ElevenLabs, s)"
    "key_member (''openai'', JString s) = Some (provider_name.OpenAi, s)"
    "key_member (''deepgram'', JString s) = Some (provider_name.Deepgram, s)" for s
    by (simp_all add: provider_named_def key_member_def as_str_def)
  show ?thesis
    unfolding client_key_entries_def CLIENT_PROVIDERS_def
    by (cases "client_key_map keys ''gemini''"; cases "client_key_map keys ''elevenlabs''";
        cases "client_key_map keys ''openai''"; cases "client_key_map keys ''deepgram''")
      (simp_all add: List.map_filter_simps read provider_fun_eq)
qed

lemma client_keys_read:
  assumes "sendable_keys keys"
  shows "read_provider_keys (client_keys_json keys) = Some (server_keys keys)"
  using entries_read [of keys] assms
  by (auto simp: read_provider_keys_def client_keys_json_def keys_deserialize_def server_keys_def sendable_keys_def
      split: option.splits)

lemma no_entries: "sendable_keys keys \<Longrightarrow> client_key_entries keys = [] \<Longrightarrow> server_keys keys = no_provider_keys"
proof -
  assume "client_key_entries keys = []"
  then have "client_key_map keys (provider_as_str p) = None" for p
    by (cases p) (auto simp: client_key_entries_def CLIENT_PROVIDERS_def List.map_filter_simps split: option.splits)
  then show ?thesis by (simp add: server_keys_def no_provider_keys_def)
qed

lemma those_map_Some: "(\<And>x. x \<in> set xs \<Longrightarrow> f x = Some (g x)) \<Longrightarrow> those (map f xs) = Some (map g xs)"
  by (induction xs) simp_all

lemma order_read: "read_vec read_provider_name (json_strings (map provider_as_str ps)) = Some ps"
  using those_map_Some [where xs = ps and f = "\<lambda>p. read_provider_name (JString (provider_as_str p))" and g = "\<lambda>p. p"]
  by (simp add: read_vec_def json_strings_def read_provider_name_def comp_def)

lemma keys_field:
  assumes "only_value (member_of ''provider_keys'' ms) = only_value (keys_members keys)" "sendable_keys keys"
  shows "default_field [''provider_keys''] no_provider_keys read_provider_keys (JObject ms) = Some (server_keys keys)"
  using assms client_keys_read [of keys] no_entries [of keys] by (auto simp: default_object keys_members_def)

lemma keys_members_simps [simp]:
  "member_of n (keys_members keys) = (if n = ''provider_keys'' then keys_members keys else [])"
  "''provider_keys'' \<in> N \<Longrightarrow> fst ` set (keys_members keys) \<subseteq> N"
  by (simp_all add: keys_members_def)

section \<open>Requests\<close>

definition server_tts_body :: "client_tts_request \<Rightarrow> provider_name list option \<Rightarrow> tts_request_body" where
  "server_tts_body r order =
     \<lparr>tb_auto_fallback = ct_auto_fallback r,
      tb_provider_options = (if tts_options_is_empty (ct_provider_options r) then tts_options_default else ct_provider_options r),
      tb_provider_keys = server_keys (ct_provider_keys r), tb_text = ct_text r, tb_voice_profile = ct_voice_profile r,
      tb_lang = ct_lang r, tb_provider_order = order\<rparr>"

lemma order_field:
  assumes "only_value (member_of ''provider_order'' ms) = Some (map_option json_strings (map_option (map provider_as_str) order))"
  shows "optional_field [''provider_order''] (read_vec read_provider_name) (JObject ms) = Some order"
  using assms
  by (intro optional_object [where f = "\<lambda>ps. json_strings (map provider_as_str ps)"])
    (simp_all add: option.map_comp comp_def order_read, simp add: json_strings_def)

lemma tts_body_read:
  assumes "sendable_keys (ct_provider_keys r)" "finite_numbers (ct_provider_options r)"
    and "ct_provider_order r = map_option (map provider_as_str) order"
  shows "read_tts_body (client_tts_json r) = Some (server_tts_body r order)"
  using assms
  by (simp add: read_tts_body_def client_tts_json_def only_fields_object image_Un text_read default_object [of "''auto_fallback''"]
      required_object default_object [of "''provider_options''"] tts_options_read keys_field order_field as_bool_def as_str_def server_tts_body_def)

definition server_stt_body :: "client_stt_request \<Rightarrow> provider_name list option \<Rightarrow> stt_request_body" where
  "server_stt_body r order =
     \<lparr>sb_provider_keys = server_keys (cs_provider_keys r), sb_file_url = cs_file_url r, sb_language = cs_language r,
      sb_provider_order = order\<rparr>"

lemma stt_body_read:
  assumes "sendable_keys (cs_provider_keys r)" "cs_provider_order r = map_option (map provider_as_str) order"
  shows "read_stt_body (client_stt_json r) = Some (server_stt_body r order)"
  using assms
  by (simp add: read_stt_body_def client_stt_json_def only_fields_object image_Un text_read required_object keys_field
      order_field as_str_def server_stt_body_def)

section \<open>Answers\<close>

definition received_profile :: "voice_profile_ref \<Rightarrow> client_profile_ref" where
  "received_profile r = \<lparr>cpf_id = vr_id r, cpf_revision = sint (vr_revision r)\<rparr>"

definition received_storage :: "(instant \<Rightarrow> string option) \<Rightarrow> audio_storage \<Rightarrow> storage_info" where
  "received_storage rfc3339 st = (case st of
     audio_storage.Briefcase _ \<Rightarrow> \<lparr>csi_status = ''stored'', csi_reason = None, csi_message = None, csi_expires_at = None\<rparr>
   | Held reason _ expires_at \<Rightarrow> \<lparr>csi_status = ''held'', csi_reason = Some (held_reason_as_str reason),
       csi_message = Some (held_reason_message reason), csi_expires_at = rfc3339 expires_at\<rparr>)"

lemma i32_read: "read_i32 (json_int (sint (i :: 32 word))) = Some (sint i)"
proof -
  have "sint i < 2147483648" "-2147483648 \<le> sint i"
    using sint_lt [of i] sint_ge [of i] by simp_all
  then show ?thesis by (auto simp: read_i32_def json_int_def)
qed

lemma profile_ref_read: "read_client_profile_ref (profile_ref_json r) = Some (received_profile r)"
  by (simp add: read_client_profile_ref_def profile_ref_json_def required_object as_str_def i32_read received_profile_def)

lemma storage_read: "read_storage_info (storage_body rfc3339 st) = Some (received_storage rfc3339 st)"
proof (cases st)
  case (Briefcase f)
  then show ?thesis
    by (simp add: read_storage_info_def storage_body_def required_object as_str_def received_storage_def
        optional_field_def struct_field_object)
next
  case (Held reason u e)
  then show ?thesis
    by (simp add: read_storage_info_def storage_body_def required_object as_str_def received_storage_def
        text_read optional_field_def struct_field_object split: option.splits)
qed

lemma millis_read: "read_uint u64_max (JNumber (PosInt (unat (n :: 64 word)))) = Some (unat n)"
  using unsigned_less [of n, where 'a = nat] by (simp add: read_uint_def u64_max_def)

definition received_tts :: "uuid_crate \<Rightarrow> url_crate \<Rightarrow> (instant \<Rightarrow> string option) \<Rightarrow> tts_result \<Rightarrow> tts_response" where
  "received_tts U L rfc3339 result =
     \<lparr>ctr_voice_profile = map_option received_profile (tr_voice_profile result),
      ctr_request_id = request_id_text U (tr_request_id result),
      ctr_file_url = (case tr_storage result of audio_storage.Briefcase f \<Rightarrow> Some (url_text L (as_url f)) | _ \<Rightarrow> None),
      ctr_temporary_url = None,
      ctr_audio_url = (case tr_storage result of Held _ u _ \<Rightarrow> Some (url_text L u) | _ \<Rightarrow> None),
      ctr_storage = Some (received_storage rfc3339 (tr_storage result)),
      ctr_media_type = tts_output_mime (tr_output_format result),
      ctr_provider = provider_as_str (tr_provider result),
      ctr_duration_ms = unat (as_millis (tr_duration result))\<rparr>"

lemma tts_answer_read:
  "read_tts_response (tts_response_body U L rfc3339 result) = Some (received_tts U L rfc3339 result)"
proof -
  have "storage_body rfc3339 st \<noteq> JNull" for st by (cases st) (simp_all add: storage_body_def)
  moreover have "profile_ref_json r \<noteq> JNull" for r by (simp add: profile_ref_json_def)
  ultimately show ?thesis
    by (cases "tr_storage result"; cases "tr_voice_profile result")
      (simp_all add: read_tts_response_def tts_response_body_def required_object as_str_def json_option_def
        optional_field_def struct_field_object storage_read millis_read profile_ref_read received_tts_def)
qed

definition received_stt :: "uuid_crate \<Rightarrow> stt_result \<Rightarrow> stt_response" where
  "received_stt U result =
     \<lparr>cst_request_id = request_id_text U (sr_request_id result), cst_transcript = transcript_str (sr_transcript result),
      cst_detected_language = map_option hint_str (sr_detected_language result),
      cst_provider = provider_as_str (sr_provider result),
      cst_duration_ms = map_option (\<lambda>d. unat (as_millis d)) (sr_duration result)\<rparr>"

lemma stt_answer_read: "read_stt_response (stt_response_body U result) = Some (received_stt U result)"
  by (cases "sr_detected_language result"; cases "sr_duration result")
    (simp_all add: read_stt_response_def stt_response_body_def required_object as_str_def
      optional_field_def struct_field_object json_option_def millis_read received_stt_def)

section \<open>Round trips\<close>

text \<open>
  The client's requests are read as they were meant. A speech request whose keys went through
  \<open>insert_client_key\<close> and whose numbers are finite deserializes on the service to the request with the same
  text, voice, language, controls, keys and order; controls that set nothing arrive as none.
\<close>

theorem client_requests_round_trip:
  assumes "sendable_keys keys" "finite_numbers (ct_provider_options r)"
    and "insert_client_key p s keys = Ok (ct_provider_keys r)" "cs_provider_keys r' = keys"
    and "ct_provider_order r = map_option (map provider_as_str) order" "cs_provider_order r' = map_option (map provider_as_str) order'"
  shows "read_tts_body (client_tts_json r) = Some
      \<lparr>tb_auto_fallback = ct_auto_fallback r,
       tb_provider_options = (if tts_options_is_empty (ct_provider_options r) then tts_options_default else ct_provider_options r),
       tb_provider_keys = server_keys (ct_provider_keys r), tb_text = ct_text r, tb_voice_profile = ct_voice_profile r,
       tb_lang = ct_lang r, tb_provider_order = order\<rparr> \<and>
    read_stt_body (client_stt_json r') = Some
      \<lparr>sb_provider_keys = server_keys (cs_provider_keys r'), sb_file_url = cs_file_url r', sb_language = cs_language r',
       sb_provider_order = order'\<rparr>"
  using tts_body_read [OF insert_client_key_sendable [OF assms(3,1)] assms(2,5)] stt_body_read [of r' order'] assms(1,4,6)
  by (simp add: server_tts_body_def server_stt_body_def)

text \<open>
  C32: the service's speech answers are read as they were written. The client gives its caller every field of
  a speech result: where the audio is stored or held until when and why, the request id, the voice profile
  with its revision, the provider and the exact duration, and of a transcription its text and language.
\<close>

theorem speech_answers_round_trip:
  "read_tts_response (tts_response_body U L rfc3339 result) = Some
     \<lparr>ctr_voice_profile = map_option (\<lambda>v. \<lparr>cpf_id = vr_id v, cpf_revision = sint (vr_revision v)\<rparr>) (tr_voice_profile result),
      ctr_request_id = request_id_text U (tr_request_id result),
      ctr_file_url = (case tr_storage result of audio_storage.Briefcase f \<Rightarrow> Some (url_text L (as_url f)) | _ \<Rightarrow> None),
      ctr_temporary_url = None,
      ctr_audio_url = (case tr_storage result of Held _ u _ \<Rightarrow> Some (url_text L u) | _ \<Rightarrow> None),
      ctr_storage = Some (received_storage rfc3339 (tr_storage result)),
      ctr_media_type = tts_output_mime (tr_output_format result),
      ctr_provider = provider_as_str (tr_provider result), ctr_duration_ms = unat (as_millis (tr_duration result))\<rparr> \<and>
   read_stt_response (stt_response_body U transcription) = Some
     \<lparr>cst_request_id = request_id_text U (sr_request_id transcription),
      cst_transcript = transcript_str (sr_transcript transcription),
      cst_detected_language = map_option hint_str (sr_detected_language transcription),
      cst_provider = provider_as_str (sr_provider transcription),
      cst_duration_ms = map_option (\<lambda>d. unat (as_millis d)) (sr_duration transcription)\<rparr>"
  using tts_answer_read [of U L rfc3339 result] stt_answer_read [of U transcription]
  unfolding received_tts_def received_stt_def received_profile_def by simp

end
