(* ===== verification/Client_Properties.thy ===== *)
theory Client_Properties
  imports Client_Messages Audio_Properties
begin

text \<open>
  The client library against the service: what it reads of an answer, which calls leave it, what the
  public API makes of them, and that waiting for a job ends.
\<close>

section \<open>Reading failures\<close>

lemma value_at_object:
  assumes "only_value (member_of n ms) = Some v"
  shows "value_at (JObject ms) n = (case v of Some w \<Rightarrow> w | None \<Rightarrow> JNull)"
proof -
  have "map_of (rev ms) n = map_of (rev (member_of n ms)) n"
    by (induction ms) (auto simp: member_of_def map_add_def split: option.splits)
  moreover have "\<forall>m \<in> set (member_of n ms). fst m = n" by (simp add: member_of_def)
  ultimately show ?thesis
    using assms by (auto simp: value_at_def elim!: only_value.elims)
qed

lemma error_field_graphic:
  assumes "value_at e name = JString s" "s \<noteq> []" "length s \<le> limit" "\<forall>c \<in> set s. is_ascii_graphic c"
  shows "error_field e name limit = Some s"
proof -
  have ascii: "\<forall>c \<in> set s. is_ascii c" and "\<forall>c \<in> set s. \<not> is_control (byte c)"
    using assms(4) by (auto simp: is_ascii_graphic_def is_ascii_def is_control_def)
  then have "filter (\<lambda>c. \<not> is_control c) (map byte s) = map byte s" by (auto intro!: filter_True)
  then show ?thesis
    using assms by (simp add: error_field_def utf8_chars_ascii utf8_of_chars_ascii ascii Let_def)
qed

lemma error_field_none: "value_at e name = JNull \<Longrightarrow> error_field e name limit = None"
  by (simp add: error_field_def)

definition short_word :: "nat \<Rightarrow> string \<Rightarrow> bool" where
  "short_word limit s \<longleftrightarrow> s \<noteq> [] \<and> length s \<le> limit \<and> (\<forall>c \<in> set s. is_ascii_graphic c)"

lemma code_words: "short_word 128 (error_code_as_str code)"
  by (cases code; simp only: error_code_as_str.simps; code_simp)

lemma reason_words: "short_word 128 (auth_failure_reason f)"
  by (cases f; simp only: auth_failure_reason.simps; code_simp)

lemma provider_words: "short_word 32 (provider_as_str p)"
  by (cases p; simp only: provider_as_str.simps; code_simp)

lemma error_body_value: "value_at (error_body U e) ''error'' = JObject (
     [(''code'', JString (er_code e)), (''message'', JString (er_message e))] @
     json_member ''hint'' (map_option JString (er_hint e)) @
     [(''request_id'', JString (request_id_text U (er_request_id e)))] @
     json_member ''provider'' (map_option JString (er_provider e)) @
     json_member ''reason'' (map_option JString (er_reason e)) @
     json_member ''provider_status'' (map_option (\<lambda>s. JNumber (PosInt (unat s))) (er_provider_status e)))"
  by (simp add: error_body_def value_at_object)

text \<open>What the client makes of an error body, for words that fit.\<close>

lemma error_body_read:
  assumes "parse bs = Some (error_body U e)" "short_word 128 (er_code e)"
  obtains api where "error_of_answer parse status delay bs = Api api" "ce_status api = status" "ce_code api = er_code e"
    "ce_retry_after_seconds api = delay" "ce_provider_status api = map_option unat (er_provider_status e)"
    "\<And>s. er_reason e = Some s \<Longrightarrow> short_word 128 s \<Longrightarrow> ce_reason api = Some s"
    "er_reason e = None \<Longrightarrow> ce_reason api = None"
    "\<And>s. er_provider e = Some s \<Longrightarrow> short_word 32 s \<Longrightarrow> ce_provider api = Some s"
    "er_provider e = None \<Longrightarrow> ce_provider api = None"
proof -
  let ?error = "value_at (error_body U e) ''error''"
  note looked_up = error_body_value value_at_object
  have code: "error_field ?error ''code'' 128 = Some (er_code e)"
    using assms(2) by (intro error_field_graphic) (simp_all add: looked_up short_word_def)
  have reason: "value_at ?error ''reason'' = (case er_reason e of Some s \<Rightarrow> JString s | None \<Rightarrow> JNull)"
    by (simp add: looked_up split: option.splits)
  have provider: "value_at ?error ''provider'' = (case er_provider e of Some s \<Rightarrow> JString s | None \<Rightarrow> JNull)"
    by (simp add: looked_up split: option.splits)
  have status: "read_uint 65535 (value_at ?error ''provider_status'') = map_option unat (er_provider_status e)"
  proof (cases "er_provider_status e")
    case (Some s)
    have "unat s \<le> 65535" using unsigned_less [of s, where 'a = nat] by simp
    with Some show ?thesis by (simp add: looked_up read_uint_def)
  qed (simp add: looked_up read_uint_def)
  show thesis
    by (rule that) (use assms(1) code reason provider status in
      \<open>auto simp: error_of_answer_def Let_def short_word_def error_field_graphic error_field_none\<close>)
qed

text \<open>How the HTTP layer carries an answer of the service to the client.\<close>

definition delivered :: "'w client \<Rightarrow> nat \<Rightarrow> http_response \<Rightarrow> api_response \<Rightarrow> bool" where
  "delivered c limit response answer \<longleftrightarrow>
     rs_status response = ar_status answer \<and>
     header_str (rs_headers response) ''retry-after'' =
       (case get_all (ar_headers answer) ''retry-after'' of v # _ \<Rightarrow> Some v | [] \<Rightarrow> None) \<and>
     (case rs_content_length response of Some n \<Rightarrow> n \<le> limit | None \<Rightarrow> True) \<and>
     (case bounded_chunks limit [] (rs_chunks response) of
        Ok bs \<Rightarrow> cc_json (cl_crates c) bs = Some (ar_body answer)
      | Err _ \<Rightarrow> False)"

lemma delivered_read:
  assumes "delivered c limit response answer"
  obtains bs where "bounded_chunks limit [] (rs_chunks response) = Ok bs" "cc_json (cl_crates c) bs = Some (ar_body answer)"
    "client_read_body c limit response =
      (if \<not> (200 \<le> ar_status answer \<and> ar_status answer < 300) then
         Err (error_of_answer (cc_json (cl_crates c)) (ar_status answer)
           (case get_all (ar_headers answer) ''retry-after'' of
              v # _ \<Rightarrow> (case parse_unsigned u64_max (str_trim v) of Ok n \<Rightarrow> Some n | Err _ \<Rightarrow> None)
            | [] \<Rightarrow> None) bs)
       else Ok bs)"
proof -
  from assms obtain bs where "bounded_chunks limit [] (rs_chunks response) = Ok bs"
    by (auto simp: delivered_def split: sum.splits)
  with assms that show thesis
    by (auto simp: delivered_def client_read_body_def split: option.splits list.splits)
qed

lemma error_body_of_response: "ar_body (error_response U e) = error_body U e"
  by (simp add: error_response_def Let_def json_response_def split: option.splits)

definition stale_failures :: "auth_failure set" where
  "stale_failures = {TokenExpired, SignInEnded, TokenInactive, UnknownSigningKey}"

lemma delay_read: "n \<le> u64_max \<Longrightarrow> parse_unsigned u64_max (str_trim (decimal n)) = Ok n"
  using str_trim_graphic [of "decimal n"] decimal_graphic by (simp add: parse_unsigned_decimal)

lemma failure_read:
  assumes "parse bs = Some (error_body U (from_waveform e rid))"
  obtains api where "error_of_answer parse (waveform_status e) delay bs = Api api" "ce_status api = waveform_status e"
    "ce_code api = error_code_as_str (waveform_error_code e)" "ce_retry_after_seconds api = delay"
    "ce_provider_status api = map_option unat (er_provider_status (from_waveform e rid))"
    "ce_provider api = (case e of waveform_error.ProviderFailed failure \<Rightarrow> Some (provider_as_str (pe_provider failure)) | _ \<Rightarrow> None)"
    "is_stale_credential (Api api) \<longleftrightarrow> e \<in> waveform_error.AuthenticationFailed ` stale_failures"
proof -
  let ?e = "from_waveform e rid"
  obtain api where api: "error_of_answer parse (waveform_status e) delay bs = Api api" "ce_status api = waveform_status e"
      "ce_code api = er_code ?e" "ce_retry_after_seconds api = delay"
      "ce_provider_status api = map_option unat (er_provider_status ?e)"
      "\<And>s. er_reason ?e = Some s \<Longrightarrow> short_word 128 s \<Longrightarrow> ce_reason api = Some s"
      "er_reason ?e = None \<Longrightarrow> ce_reason api = None"
      "\<And>s. er_provider ?e = Some s \<Longrightarrow> short_word 32 s \<Longrightarrow> ce_provider api = Some s"
      "er_provider ?e = None \<Longrightarrow> ce_provider api = None"
    by (rule error_body_read [where parse = parse and e = ?e and status = "waveform_status e" and delay = delay, OF assms])
      (simp_all add: code_words)
  have "ce_provider api = (case e of waveform_error.ProviderFailed failure \<Rightarrow> Some (provider_as_str (pe_provider failure)) | _ \<Rightarrow> None)"
    using api(8,9) provider_words by (cases e) (auto simp: from_waveform_def)
  moreover have "is_stale_credential (Api api) \<longleftrightarrow> e \<in> waveform_error.AuthenticationFailed ` stale_failures"
  proof (cases e)
    case (AuthenticationFailed f)
    then have "ce_reason api = Some (auth_failure_reason f)"
      by (intro api(6) reason_words) (simp add: from_waveform_def)
    with AuthenticationFailed api(2) show ?thesis
      by (cases f) (simp_all add: is_stale_credential_def is_unauthenticated_def client_reason_def is_forbidden_def
        stale_failures_def image_iff)
  qed (use api(2,7) in \<open>auto simp: is_stale_credential_def is_unauthenticated_def client_reason_def from_waveform_def\<close>)
  ultimately show thesis using api by (intro that) simp_all
qed

lemma waveform_status_error: "400 \<le> waveform_status e"
  by (cases e) auto

lemma failure_delivered:
  assumes "delivered c limit response (error_response U (from_waveform e rid))"
  obtains api where "client_read_body c limit response = Err (Api api)" "ce_status api = waveform_status e"
    "ce_code api = error_code_as_str (waveform_error_code e)"
    "ce_retry_after_seconds api = (case er_retry_after (from_waveform e rid) of
       Some d \<Rightarrow> (case parse_unsigned u64_max (str_trim (decimal (retry_seconds d))) of Ok n \<Rightarrow> Some n | Err _ \<Rightarrow> None)
     | None \<Rightarrow> None)"
    "ce_provider_status api = map_option unat (er_provider_status (from_waveform e rid))"
    "ce_provider api = (case e of waveform_error.ProviderFailed failure \<Rightarrow> Some (provider_as_str (pe_provider failure)) | _ \<Rightarrow> None)"
    "is_stale_credential (Api api) \<longleftrightarrow> e \<in> waveform_error.AuthenticationFailed ` stale_failures"
proof (rule delivered_read [OF assms])
  let ?e = "from_waveform e rid"
  let ?delay = "case er_retry_after ?e of
       Some d \<Rightarrow> (case parse_unsigned u64_max (str_trim (decimal (retry_seconds d))) of Ok n \<Rightarrow> Some n | Err _ \<Rightarrow> None)
     | None \<Rightarrow> None"
  fix bs
  assume body: "cc_json (cl_crates c) bs = Some (ar_body (error_response U ?e))"
    and read: "client_read_body c limit response = (if \<not> (200 \<le> ar_status (error_response U ?e) \<and> ar_status (error_response U ?e) < 300)
      then Err (error_of_answer (cc_json (cl_crates c)) (ar_status (error_response U ?e))
        (case get_all (ar_headers (error_response U ?e)) ''retry-after'' of
           v # _ \<Rightarrow> (case parse_unsigned u64_max (str_trim v) of Ok n \<Rightarrow> Some n | Err _ \<Rightarrow> None)
         | [] \<Rightarrow> None) bs) else Ok bs)"
  from body have error: "cc_json (cl_crates c) bs = Some (error_body U ?e)" by (simp add: error_body_of_response)
  have "get_all (ar_headers (error_response U ?e)) ''retry-after'' =
      (case er_retry_after ?e of Some d \<Rightarrow> [decimal (retry_seconds d)] | None \<Rightarrow> [])"
    by (simp add: get_all_error_response REQUEST_ID_HEADER_def del: from_waveform_simps(3))
  then have "client_read_body c limit response = Err (error_of_answer (cc_json (cl_crates c)) (waveform_status e) ?delay bs)"
    using read waveform_status_error [of e] by (cases "er_retry_after ?e") simp_all
  then show thesis
    by (rule_tac failure_read [where parse = "cc_json (cl_crates c)" and delay = ?delay, OF error]) (rule that, simp_all)
qed

text \<open>
  C33: a failure of the service reaches the caller whole. From the error answer the client makes an error
  with the status, the public code, the provider and its status, and the whole seconds to wait; and it calls
  the credential stale, so that a new sign-in is tried, exactly for an expired, ended, inactive or
  unknown-key access token.
\<close>

theorem client_reads_failures:
  assumes "delivered c limit response (error_response U (from_waveform e rid))"
    and "case waveform_error_retry_after e of Some d \<Rightarrow> retry_seconds d \<le> u64_max | None \<Rightarrow> True"
  shows "\<exists>api. client_read_body c limit response = Err (Api api) \<and>
    ce_status api = waveform_status e \<and> ce_code api = error_code_as_str (waveform_error_code e) \<and>
    ce_retry_after_seconds api = map_option retry_seconds (er_retry_after (from_waveform e rid)) \<and>
    ce_provider_status api = map_option unat (er_provider_status (from_waveform e rid)) \<and>
    ce_provider api = (case e of waveform_error.ProviderFailed failure \<Rightarrow> Some (provider_as_str (pe_provider failure)) | _ \<Rightarrow> None) \<and>
    (is_stale_credential (Api api) \<longleftrightarrow> e \<in> waveform_error.AuthenticationFailed ` stale_failures)"
proof -
  let ?e = "from_waveform e rid"
  have delay: "case er_retry_after ?e of Some d \<Rightarrow> retry_seconds d \<le> u64_max | None \<Rightarrow> True"
    using assms(2) by (simp add: retry_seconds_def secs_def u64_max_def split: option.splits)
  show ?thesis
    by (rule failure_delivered [OF assms(1)])
      (use delay in \<open>auto simp: delay_read simp del: from_waveform_simps(3) split: option.splits\<close>)
qed

section \<open>A speech call of the client is the service's\<close>

fun method_name :: "http_method \<Rightarrow> string" where
  "method_name GET = ''GET''"
| "method_name POST = ''POST''"
| "method_name PUT = ''PUT''"
| "method_name PATCH = ''PATCH''"
| "method_name DELETE = ''DELETE''"

text \<open>The request as the server has it.\<close>

definition received :: "http_request \<Rightarrow> api_request" where
  "received q =
     \<lparr>aq_method = method_name (rq_method q), aq_path = url_path (rq_url q), aq_query = url_query (rq_url q),
      aq_headers = rq_headers q, aq_body = (case rq_body q of JsonBody v \<Rightarrow> Ok v | _ \<Rightarrow> Err 415)\<rparr>"

text \<open>The exchange of a request: the server runs \<open>f\<close> on it, and the client is given its answer.\<close>

definition served_by :: "'w client \<Rightarrow> 'w service_fn \<Rightarrow> http_request \<Rightarrow> 'w \<Rightarrow> bool" where
  "served_by c f q w \<longleftrightarrow> (\<exists>response.
     run_state (cl_send c q) w = (Responded response, snd (run_state (f (received q)) w)) \<and>
     delivered c CLIENT_JSON_LIMIT response (fst (run_state (f (received q)) w)))"

definition in_time :: "'w http_runtime \<Rightarrow> bool" where
  "in_time R \<longleftrightarrow> (\<forall>d m w. run_state (hr_timeout R d m) w = (Some (fst (run_state m w)), snd (run_state m w)))"

lemma client_header_values:
  assumes "build_request c POST u (speech_call_of key) body = Ok q" "cl_credential c = BearerAuth token"
    and "cl_speech_request_id c = Some i" "cc_uuid (cl_crates c) = U"
  shows "rq_url q = u" "rq_method q = POST" "rq_body q = body"
    "get_all (rq_headers q) ''authorization'' = [''Bearer '' @ token]" "get_all (rq_headers q) ''idempotency-key'' = [key]"
    "get_all (rq_headers q) REQUEST_ID_HEADER = [uuid_text U i]"
    "\<forall>name \<in> set RETIRED_HEADERS. get_all (rq_headers q) name = []"
  using assms by (auto simp: build_request_def map_ok_Ok_iff credential_headers_def speech_call_of_def plain_call_def
      sensitive_def get_all_def REQUEST_ID_HEADER_def RETIRED_HEADERS_def split: if_splits)

lemma access_token_text:
  "access_token_new token = Ok t \<Longrightarrow> token \<noteq> [] \<and> (\<forall>x \<in> set token. is_ascii_graphic x)"
  by (auto simp: access_token_new_def map_ok_Ok_iff opaque_credential_new_Ok)

lemma check_speech_key_Ok:
  "check_speech_key key = Ok () \<longleftrightarrow> 8 \<le> length key \<and> length key \<le> 255 \<and> (\<forall>b \<in> set key. is_ascii_graphic b)"
  by (simp add: check_speech_key_def)

text \<open>What the API makes of the client's request: the call the caller meant.\<close>

lemma client_call_admitted:
  assumes q: "build_request c POST u (speech_call_of key) (JsonBody v) = Ok q" "cl_credential c = BearerAuth token"
      "cl_speech_request_id c = Some i" "cc_uuid (cl_crates c) = ac_uuid C"
    and "url_query u = None" "access_token_new token = Ok t" "check_speech_key key = Ok ()"
    and "read v = Some b" "into_domain b = Ok request" "order_of request \<noteq> Some []"
  shows "speech_call C read into_domain order_of (received q) = Some (Bearer t, IdempotencyKey key, request)"
proof -
  note sent = client_header_values [OF q]
  have "parse_credentials (rq_headers q) = Ok (Bearer t)"
    using parse_one_credential [of "rq_headers q" "''Bearer''" token] sent(4,7) access_token_text [OF assms(6)] assms(6)
    by simp
  moreover have "speech_key (rq_headers q) = Some (IdempotencyKey key)"
    using sent(5) assms(7) by (simp add: speech_key_def check_speech_key_Ok)
  ultimately show ?thesis
    using sent(1,3) assms(5,8,9,10) by (simp add: speech_call_def names_an_account_def received_def)
qed

lemma client_id_received:
  assumes "build_request c POST u (speech_call_of key) body = Ok q" "cl_credential c = BearerAuth token"
    and "cl_speech_request_id c = Some i" "cc_uuid (cl_crates c) = U" "uuid_texts U" "i \<noteq> 0"
  shows "sent_request_id U (aq_headers (received q)) = Some (RequestId i)"
proof -
  note sent = client_header_values [OF assms(1-4)]
  have "optional_header (rq_headers q) REQUEST_ID_HEADER = Ok (Some (uuid_text U i))"
    using sent(6) assms(5) by (simp add: optional_header_Some_iff uuid_texts_def)
  moreover have "request_id_from_str U (uuid_text U i) = Ok (RequestId i)"
    using assms(5,6) by (simp add: uuid_texts_def request_id_from_str_def request_id_new_def ensure_non_nil_def)
  ultimately show ?thesis by (simp add: sent_request_id_def received_def)
qed

lemma at_path_run:
  assumes "api_url c path k query = Ok u" "build_request c method u k body = Ok q"
    and "run_state (cl_send c q) w = (Responded response, w')"
  shows "run_state (at_path c read method path k query body) w =
    (and_then (client_read_body c CLIENT_JSON_LIMIT response)
       (\<lambda>bs. ok_or (Option.bind (cc_json (cl_crates c) bs) read) Decode), w')"
  using assms by (auto simp: at_path_def send_json_def exchanged_def run_simps split: sum.splits)

lemma client_tts_run:
  assumes "cl_account c = None" "check_speech_key key = Ok ()"
    and "cc_extend_path (cl_crates c) (cl_base c) [''api'', ''v1'', ''tts''] = Some u"
    and "build_request c POST u (speech_call_of key) (JsonBody (client_tts_json r)) = Ok q"
    and "run_state (cl_send c q) w = (Responded response, w')"
  shows "run_state (client_tts c r key) w =
    (and_then (client_read_body c CLIENT_JSON_LIMIT response)
       (\<lambda>bs. ok_or (Option.bind (cc_json (cl_crates c) bs) read_tts_response) Decode), w')"
proof -
  have "api_url c [''tts''] (speech_call_of key) [] = Ok u"
    using assms(1,3) by (simp add: api_url_def client_url_def)
  from at_path_run [OF this assms(4,5), of read_tts_response] show ?thesis
    using assms(1,2) by (simp add: client_tts_def refuse_selected_account_def run_simps)
qed

lemma api_synthesize_run:
  assumes "sent_request_id (ac_uuid C) (aq_headers q) = Some rid" "in_time R"
    and "speech_call C read_tts_body tts_into_domain tq_provider_order q = Some (creds, k, request)"
    and "run_state (synthesize (ac_service C) (as_service A)
      \<lparr>cx_request_id = rid, cx_credentials = creds, cx_idempotency_key = k\<rparr> request) w = (x, w')"
  shows "run_state (api_synthesize C R A q) w = (answer_of (tts_success C) C rid x, w')"
  using admitted_run [OF assms(1), where read = read_tts_body and into_domain = tts_into_domain and
      order_of = tq_provider_order and R = R and w = w] assms(2-4)
  by (simp add: api_synthesize_def run_simps in_time_def or_timeout_def)

lemma success_read:
  assumes "delivered c limit response (tts_success C answer)"
  shows "and_then (client_read_body c limit response)
      (\<lambda>bs. ok_or (Option.bind (cc_json (cl_crates c) bs) read_tts_response) Decode) =
    Ok (received_tts (ac_uuid C) (sv_url (ac_service C)) (ac_rfc3339 C) (resp_result answer))"
proof (rule delivered_read [OF assms])
  have "ar_status (tts_success C answer) = 200" "ar_body (tts_success C answer) =
      tts_response_body (ac_uuid C) (sv_url (ac_service C)) (ac_rfc3339 C) (resp_result answer)"
    by (simp_all add: tts_success_def success_response_def insert_request_id_def Let_def json_response_def)
  then show ?thesis if "cc_json (cl_crates c) bs = Some (ar_body (tts_success C answer))"
    "client_read_body c limit response = (if \<not> (200 \<le> ar_status (tts_success C answer) \<and> ar_status (tts_success C answer) < 300)
      then Err (error_of_answer (cc_json (cl_crates c)) (ar_status (tts_success C answer)) delay bs) else Ok bs)" for bs delay
    using that by (simp add: tts_answer_read)
qed

text \<open>
  C31: a speech call of the client is the service's. With a bearer client and the public API on the other
  end of the exchange, \<open>tts\<close> runs the service's \<open>synthesize\<close> exactly once, as the caller's token, key and
  request id, on the request that was meant; the caller gets the service's result, or its failure by
  status and code, and the world is left as the service left it.
\<close>

theorem client_speech_is_the_service_call:
  fixes c :: "'w client"
  assumes url: "cc_extend_path (cl_crates c) (cl_base c) [''api'', ''v1'', ''tts''] = Some u"
      "url_path u = TTS_PATH" "url_query u = None"
    and q: "build_request c POST u (speech_call_of key) (JsonBody (client_tts_json r)) = Ok q"
    and network: "served_by c (handler C R A) q w" "in_time R"
    and client: "cl_account c = None" "cl_credential c = BearerAuth token" "access_token_new token = Ok t"
      "cl_speech_request_id c = Some i" "i \<noteq> 0"
    and crates: "cc_uuid (cl_crates c) = ac_uuid C" "uuid_texts (ac_uuid C)"
    and request: "check_speech_key key = Ok ()" "sendable_keys (ct_provider_keys r)" "finite_numbers (ct_provider_options r)"
      "ct_provider_order r = map_option (map provider_as_str) order"
      "tts_into_domain (server_tts_body r order) = Ok request" "tq_provider_order request \<noteq> Some []"
  shows "case run_state (synthesize (ac_service C) (as_service A)
      \<lparr>cx_request_id = RequestId i, cx_credentials = Bearer t, cx_idempotency_key = IdempotencyKey key\<rparr> request) w of
    (Ok answer, w') \<Rightarrow> run_state (client_tts c r key) w =
      (Ok (received_tts (ac_uuid C) (sv_url (ac_service C)) (ac_rfc3339 C) (resp_result answer)), w')
  | (Err e, w') \<Rightarrow> \<exists>api. run_state (client_tts c r key) w = (Err (Api api), w') \<and>
      ce_status api = waveform_status e \<and> ce_code api = error_code_as_str (waveform_error_code e) \<and>
      (is_stale_credential (Api api) \<longleftrightarrow> e \<in> waveform_error.AuthenticationFailed ` stale_failures)"
proof -
  let ?v = "client_tts_json r"
  have sent: "sent_request_id (ac_uuid C) (aq_headers (received q)) = Some (RequestId i)"
    by (rule client_id_received [OF q client(2,4) crates client(5)])
  have call: "speech_call C read_tts_body tts_into_domain tq_provider_order (received q) =
      Some (Bearer t, IdempotencyKey key, request)"
    by (rule client_call_admitted [where read = read_tts_body and v = ?v and into_domain = tts_into_domain and order_of = tq_provider_order,
      OF q client(2,4) crates(1) url(3) client(3) request(1) tts_body_read [OF request(2-4)] request(5,6)])
  obtain x w' where x: "run_state (synthesize (ac_service C) (as_service A)
      \<lparr>cx_request_id = RequestId i, cx_credentials = Bearer t, cx_idempotency_key = IdempotencyKey key\<rparr> request) w = (x, w')"
    by fastforce
  have "handler C R A (received q) = api_synthesize C R A (received q)"
    using client_header_values(1,2) [OF q client(2,4) crates(1)] url(2)
    by (simp add: handler_def received_def TTS_PATH_def)
  then have "run_state (handler C R A (received q)) w = (answer_of (tts_success C) C (RequestId i) x, w')"
    using api_synthesize_run [OF sent network(2) call x] by simp
  with network(1) obtain response where response: "run_state (cl_send c q) w = (Responded response, w')"
    and delivered: "delivered c CLIENT_JSON_LIMIT response (answer_of (tts_success C) C (RequestId i) x)"
    by (auto simp: served_by_def)
  note run = client_tts_run [OF client(1) request(1) url(1) q response]
  show ?thesis
  proof (cases x)
    case (Inl e)
    with delivered have "delivered c CLIENT_JSON_LIMIT response (error_response (ac_uuid C) (from_waveform e (RequestId i)))"
      by (simp add: answer_of_def)
    then show ?thesis using run x Inl by (rule_tac failure_delivered) auto
  next
    case (Inr answer)
    with delivered show ?thesis using run x success_read [of c CLIENT_JSON_LIMIT response C answer]
      by (simp add: answer_of_def)
  qed
qed

section \<open>Waiting for a job\<close>

text \<open>A clock that never runs backwards, and sleeps that last at least as long as they were asked to.\<close>

definition client_clock :: "'w client \<Rightarrow> ('w \<Rightarrow> nat) \<Rightarrow> bool" where
  "client_clock c clk \<longleftrightarrow>
     (\<forall>w. run_state (cl_now c) w = (clk w, w)) \<and>
     (\<forall>d w. clk w + d \<le> clk (snd (run_state (cl_sleep c d) w))) \<and>
     (\<forall>d m w. clk w \<le> clk (snd (run_state (cl_timeout_at c d m) w)))"

definition good_outcome :: "(client_job, client_error) result option \<Rightarrow> bool" where
  "good_outcome r \<longleftrightarrow> (case r of Some (Ok job) \<Rightarrow> job_is_terminal job | Some (Err _) \<Rightarrow> True | None \<Rightarrow> False)"

lemma good_outcome_simps [simp]:
  "good_outcome (Some (Ok job)) = job_is_terminal job" "good_outcome (Some (Err e))"
  by (simp_all add: good_outcome_def)

text \<open>A round of the loop ends it, or the next starts a whole interval later, or at the deadline.\<close>

lemma poll_round:
  assumes "client_clock c clk"
  shows "good_outcome (fst (run_state (poll_job (Suc n) c job_id timeout deadline interval) w)) \<or>
    clk w < deadline \<and> (\<exists>w'. min deadline (clk w + interval) \<le> clk w' \<and>
      run_state (poll_job (Suc n) c job_id timeout deadline interval) w =
      run_state (poll_job n c job_id timeout deadline interval) w')"
proof -
  obtain r v where poll: "run_state (cl_timeout_at c deadline (client_job_of c job_id)) w = (r, v)" by fastforce
  obtain u v' where wait: "run_state (cl_sleep c (min interval (deadline - clk v))) v = (u :: unit, v')"
    by (cases "run_state (cl_sleep c (min interval (deadline - clk v))) v") blast
  have now: "run_state (cl_now c) v = (clk v, v)"
    and later: "clk w \<le> clk v" "clk v + min interval (deadline - clk v) \<le> clk v'"
    using assms poll wait unfolding client_clock_def by (metis snd_conv)+
  have again: "clk v < deadline \<Longrightarrow> clk w < deadline \<and> min deadline (clk w + interval) \<le> clk v'"
    using later by linarith
  show ?thesis
    using again
    by (cases "deadline \<le> clk v") (auto simp: poll now wait run_simps Let_def split: option.splits sum.splits intro!: exI [of _ v'])
qed

lemma poll_job_ends:
  assumes "client_clock c clk" "deadline \<le> clk w + n * interval"
  shows "good_outcome (fst (run_state (poll_job (Suc n) c job_id timeout deadline interval) w))"
  using assms(2)
proof (induction n arbitrary: w)
  case 0
  then show ?case using poll_round [OF assms(1), of 0 job_id timeout deadline interval w] by fastforce
next
  case (Suc n)
  from poll_round [OF assms(1), of "Suc n" job_id timeout deadline interval w] show ?case
  proof (elim disjE conjE exE)
    fix w'
    assume "min deadline (clk w + interval) \<le> clk w'"
      and run: "run_state (poll_job (Suc (Suc n)) c job_id timeout deadline interval) w =
        run_state (poll_job (Suc n) c job_id timeout deadline interval) w'"
    then have "deadline \<le> clk w' + n * interval" using Suc.prems by (auto simp: min_def split: if_splits)
    from Suc.IH [OF this] show ?thesis by (simp only: run)
  qed
qed

text \<open>
  C34: waiting for a job ends. Under a clock that does not run backwards, the polling loop returns after at
  most \<open>timeout / interval + 2\<close> rounds, whatever the server answers, and a job it returns has finished.
\<close>

theorem waiting_for_a_job_ends:
  assumes "client_clock c clk" "\<And>a b d. cc_checked_add (cl_crates c) a b = Some d \<Longrightarrow> d = a + b"
    and "timeout div interval + 2 \<le> n"
  shows "case fst (run_state (wait_for_job n c job_id timeout interval) w) of
      Some (Ok job) \<Rightarrow> job_is_terminal job | Some (Err _) \<Rightarrow> True | None \<Rightarrow> False"
proof -
  obtain m where n: "n = Suc m" "timeout div interval + 1 \<le> m" using assms(3) by (cases n) auto
  have now: "run_state (cl_now c) w = (clk w, w)" using assms(1) by (simp add: client_clock_def)
  have "good_outcome (fst (run_state (wait_for_job n c job_id timeout interval) w))"
  proof (cases "interval = 0 \<or> timeout = 0")
    case False
    have "timeout < (timeout div interval + 1) * interval"
      using dividend_less_times_div [of interval timeout] False by (simp add: algebra_simps)
    also have "\<dots> \<le> m * interval" using n(2) by (rule mult_right_mono) simp
    finally have "clk w + timeout \<le> clk w + m * interval" by simp
    with False now n(1) poll_job_ends [OF assms(1), of "clk w + timeout" w m interval job_id timeout] assms(2) show ?thesis
      by (auto simp: wait_for_job_def run_simps split: option.splits simp del: poll_job.simps)
  qed (auto simp: wait_for_job_def run_simps)
  then show ?thesis by (simp add: good_outcome_def)
qed

section \<open>What leaves the client\<close>

text \<open>A client only ever talks to an origin over TLS, or to this machine.\<close>

lemma client_base_is_safe:
  assumes "client_new K connect base credential = Ok c"
  shows "url_path (cl_base c) = ''/'' \<and> url_username (cl_base c) = [] \<and> url_password (cl_base c) = None \<and>
    (url_scheme (cl_base c) = ''https'' \<or> url_scheme (cl_base c) = ''http'' \<and> client_is_loopback (cl_base c))"
  using assms by (auto simp: client_new_def map_ok_Ok_iff split: option.splits if_splits)

end
