(* ===== verification/Api_Examples.thy ===== *)
theory Api_Examples
  imports Api_Properties Service_Examples
begin

text \<open>
  A concrete API: request ids written as tallies, a runtime whose time limits and panic guards let every
  run finish. Each theorem applies a property of the API at a run of it.
\<close>

definition ay_uuid :: uuid_crate where
  "ay_uuid = \<lparr>uuid_parse = (\<lambda>s. Some (of_nat (length s))), uuid_text = (\<lambda>u. replicate (unat u) CHR ''0'')\<rparr>"

definition ay_crates :: api_crates where
  "ay_crates = \<lparr>ac_service = sx_crates\<lparr>sv_uuid := ay_uuid\<rparr>, ac_form_parse = (\<lambda>_. []), ac_rfc3339 = (\<lambda>_. None)\<rparr>"

definition ay_runtime :: "unit http_runtime" where
  "ay_runtime =
     \<lparr>hr_new_uuid = State_Monad.return 9,
      hr_timeout = (\<lambda>d m. State_Monad.bind m (\<lambda>r. State_Monad.return (Some r))),
      hr_catch_unwind = (\<lambda>m. State_Monad.bind m (\<lambda>r. State_Monad.return (Some r))),
      hr_try_acquire = (\<lambda>_. State_Monad.return True), hr_release = (\<lambda>_. State_Monad.return ())\<rparr>"

definition ay_state :: "unit api_state" where
  "ay_state = \<lparr>as_service = sx_service,
     as_readiness = \<lparr>rc_idempotency_ready = State_Monad.return True, rc_audio_ready = State_Monad.return True,
       rc_provider_chains_configured = True, rc_dependency_contracts_available = True\<rparr>,
     as_tts_deadline = secs 60, as_stt_deadline = secs 60\<rparr>"

definition ay_server :: server_settings where
  "ay_server = \<lparr>server_bind_addr = SocketAddrV4 [127, 0, 0, 1] 8080, server_json_body_limit = 50176, server_tts_deadline = secs 60,
     server_stt_deadline = secs 60, server_max_in_flight = 2, server_shutdown_timeout = secs 30\<rparr>"

definition ay_request :: "header_map \<Rightarrow> api_request" where
  "ay_request headers = \<lparr>aq_method = ''POST'', aq_path = ''/api/v1/tts'', aq_query = None, aq_headers = headers,
     aq_body = Ok (JObject [(''text'', JString ''hi'')])\<rparr>"

lemma ay_texts: "uuid_texts (ac_uuid ay_crates)"
  by (simp add: uuid_texts_def ay_crates_def ay_uuid_def header_text_def byte_def)

lemma ay_answers: "own_answers ay_runtime"
  by (auto simp: own_answers_def ay_runtime_def yields_def run_simps split: prod.splits)

lemma ay_sent: "sent_request_id (ac_uuid ay_crates) (aq_headers (ay_request [(''x-request-id'', ''0000000'')])) =
    Some (RequestId 7)"
  by (simp add: sent_request_id_def optional_header_def get_all_def ay_request_def REQUEST_ID_HEADER_def header_text_def
      ay_crates_def ay_uuid_def byte_def request_id_from_str_def request_id_new_def ensure_non_nil_def)

lemma ay_no_call: "speech_call ay_crates read_tts_body tts_into_domain tq_provider_order
    (ay_request [(''x-request-id'', ''0000000'')]) = None"
  by (simp add: speech_call_def names_an_account_def ay_request_def parse_credentials_def optional_header_def get_all_def
      RETIRED_HEADERS_def)

theorem only_checked_speech_reaches_the_service_witness:
  "\<exists>e. er_status e \<in> {400, 401, 413} \<and> er_request_id e = RequestId 7 \<and>
     (\<forall>A. run_state (api_synthesize ay_crates ay_runtime A (ay_request [(''x-request-id'', ''0000000'')])) () =
        (error_response (ac_uuid ay_crates) e, ()))"
  using only_checked_speech_reaches_the_service [OF ay_sent, where R = ay_runtime and A = ay_state and w = "()"]
  unfolding ay_no_call by simp

definition ay_body :: tts_request_body where
  "ay_body = \<lparr>tb_auto_fallback = True, tb_provider_options = tts_options_default, tb_provider_keys = no_provider_keys,
     tb_text = ''hi'', tb_voice_profile = None, tb_lang = None, tb_provider_order = Some [provider_name.Gemini]\<rparr>"

lemma ay_domain: "\<exists>r. tts_into_domain ay_body = Ok r"
proof -
  have "speech_text_new ''hi'' = Ok (SpeechText ''hi'')" by code_simp
  then show ?thesis
    by (simp add: tts_into_domain_def ay_body_def transposed_def tts_request_new_def tts_options_is_empty_def
        tts_options_default_def supports_only_def no_provider_keys_def)
qed

theorem validated_speech_is_valid_witness:
  "\<exists>r. tts_into_domain ay_body = Ok r \<and> character_count (tq_text r) \<le> 4096 \<and>
     tq_provider_order r = Some [provider_name.Gemini]"
proof -
  obtain r where r: "tts_into_domain ay_body = Ok r" using ay_domain by blast
  then show ?thesis
    using validated_speech_is_valid [OF r] by (simp add: MAX_TTS_TEXT_CHARACTERS_def) (simp add: ay_body_def)
qed


theorem credentials_round_trip_witness:
  "parse_credentials [(''authorization'', ''Bearer ey.token'')] = Ok (Bearer (AccessToken (OpaqueCredential ''ey.token''))) \<and>
   parse_credentials [(''authorization'', ''Proof sap_x'')] = Ok (Proof (ProofToken (OpaqueCredential ''sap_x'')))"
proof -
  have tokens: "access_token_new ''ey.token'' = Ok (AccessToken (OpaqueCredential ''ey.token''))"
    "proof_token_new ''sap_x'' = Ok (ProofToken (OpaqueCredential ''sap_x''))"
    by (code_simp)+
  show ?thesis
    using credentials_round_trip [OF tokens, THEN conjunct1]
      credentials_round_trip [OF tokens, THEN conjunct2, THEN conjunct1] by simp
qed

lemma ay_running: "admission_reachable (router_limiters ay_server)
    (\<lparr>al_public = 1, al_readiness = 8\<rparr>, [Public])"
proof -
  have limits: "router_limiters ay_server = \<lparr>al_public = 2, al_readiness = 8\<rparr>"
    by (simp add: router_limiters_def admission_limiters_new_def ay_server_def READINESS_MAX_IN_FLIGHT_def)
  have admitted: "admission_step (\<lparr>al_public = 2, al_readiness = 8\<rparr>, []) (admission_event.Admitted ''/api/v1/tts'')
      (\<lparr>al_public = 1, al_readiness = 8\<rparr>, [Public])"
    by (rule admission_step.admitted)
      (simp_all add: admission_class_of_def LIVENESS_PATH_def READINESS_PATH_def try_acquire_def)
  show ?thesis
    using admission_reachable.step [OF admission_reachable.start admitted] unfolding limits .
qed


end
