(* ===== verification/Client_Examples.thy ===== *)
theory Client_Examples
  imports Client_Properties Api_Examples
begin

text \<open>
  A concrete client: a bearer client of the example API, with the exchange written out. Each theorem applies
  a property of the client at a run of it.
\<close>

section \<open>Messages\<close>

definition kx_keys :: client_keys where
  "kx_keys = ClientKeys [''gemini'' \<mapsto> ''key'']"

definition kx_tts :: client_tts_request where
  "kx_tts = \<lparr>ct_text = ''hi'', ct_voice_profile = None, ct_lang = None, ct_provider_order = Some [''gemini''],
     ct_auto_fallback = True, ct_provider_options = tts_options_default, ct_provider_keys = no_client_keys\<rparr>"

definition kx_stt :: client_stt_request where
  "kx_stt = \<lparr>cs_file_url = ''https://b'', cs_language = None, cs_provider_order = None, cs_provider_keys = no_client_keys\<rparr>"

lemma kx_facts:
  "finite_numbers (ct_provider_options kx_tts)" "sendable_keys (ct_provider_keys kx_tts)"
  "ct_provider_order kx_tts = map_option (map provider_as_str) (Some [provider_name.Gemini])"
  "cs_provider_keys kx_stt = no_client_keys" "cs_provider_order kx_stt = map_option (map provider_as_str) None"
  by (simp_all add: kx_tts_def kx_stt_def finite_numbers_def tts_options_default_def no_client_keys_sendable)

theorem client_requests_round_trip_witness:
  "read_tts_body (client_tts_json (kx_tts\<lparr>ct_provider_keys := kx_keys\<rparr>)) = Some
     \<lparr>tb_auto_fallback = True, tb_provider_options = tts_options_default,
      tb_provider_keys = ProviderApiKeys [provider_name.Gemini \<mapsto> ''key''], tb_text = ''hi'', tb_voice_profile = None,
      tb_lang = None, tb_provider_order = Some [provider_name.Gemini]\<rparr> \<and>
   read_stt_body (client_stt_json kx_stt) = Some
     \<lparr>sb_provider_keys = no_provider_keys, sb_file_url = ''https://b'', sb_language = None, sb_provider_order = None\<rparr>"
proof -
  let ?r = "kx_tts\<lparr>ct_provider_keys := kx_keys\<rparr>"
  have key: "insert_client_key ''gemini'' ''key'' no_client_keys = Ok (ct_provider_keys ?r)"
    by (simp add: insert_client_key_def client_validate_provider_def no_client_keys_def kx_keys_def is_ascii_graphic_def byte_def)
  have keys: "server_keys kx_keys = ProviderApiKeys [provider_name.Gemini \<mapsto> ''key'']" "server_keys no_client_keys = no_provider_keys"
    by (simp_all add: server_keys_def kx_keys_def no_client_keys_def no_provider_keys_def provider_fun_eq)
  have "finite_numbers (ct_provider_options ?r)" "ct_provider_order ?r = map_option (map provider_as_str) (Some [provider_name.Gemini])"
    by (simp_all add: kx_tts_def finite_numbers_def tts_options_default_def)
  from client_requests_round_trip [OF no_client_keys_sendable this(1) key kx_facts(4) this(2) kx_facts(5)]
  show ?thesis by (simp add: keys) (simp add: kx_tts_def kx_stt_def no_client_keys_def [symmetric] keys)
qed

section \<open>A speech call\<close>

definition kx_url :: url where
  "kx_url = \<lparr>url_scheme = ''https'', url_username = [], url_password = None, url_host = Some (Domain ''w''), url_port = None,
     url_path = ''/api/v1/tts'', url_query = None, url_fragment = None\<rparr>"

definition kx_request :: http_request where
  "kx_request = \<lparr>rq_method = POST, rq_url = kx_url,
     rq_headers = [(''x-waveform-api-version'', ''v1''), (''x-waveform-protocol-version'', ''1''),
       (''authorization'', ''Bearer ey.token''), (''idempotency-key'', ''key-0001''), (''x-request-id'', ''000'')],
     rq_body = JsonBody (client_tts_json kx_tts)\<rparr>"

definition kx_served :: "api_response \<times> unit" where
  "kx_served = run_state (handler ay_crates ay_runtime ay_state (received kx_request)) ()"

definition kx_client :: "unit client" where
  "kx_client = \<lparr>cl_base = kx_url\<lparr>url_path := ''/''\<rparr>, cl_credential = BearerAuth ''ey.token'', cl_account = None,
     cl_speech_request_id = Some 3,
     cl_crates = \<lparr>cc_url = sv_url sx_crates, cc_url_error = (\<lambda>_. []), cc_extend_path = (\<lambda>u _. Some kx_url),
       cc_append_query = (\<lambda>u _. u), cc_json = (\<lambda>_. Some (ar_body (fst kx_served))), cc_uuid = ay_uuid,
       cc_checked_add = (\<lambda>a b. Some (a + b))\<rparr>,
     cl_send = (\<lambda>_. State_Monad.return (Responded
       \<lparr>rs_status = ar_status (fst kx_served),
        rs_headers = map (Pair ''retry-after'') (get_all (ar_headers (fst kx_served)) ''retry-after''),
        rs_content_length = None, rs_chunks = []\<rparr>)),
     cl_now = State_Monad.return 0, cl_sleep = (\<lambda>_. State_Monad.return ()),
     cl_timeout_at = (\<lambda>_ m. State_Monad.bind m (\<lambda>r. State_Monad.return (Some r)))\<rparr>"

lemma kx_id: "uuid_text ay_uuid 3 = ''000''"
proof -
  have "unat (3 :: 128 word) = 3" by simp
  then show ?thesis by (simp only: ay_uuid_def uuid_crate.simps) (simp add: numeral_3_eq_3)
qed

lemma kx_build: "build_request kx_client POST kx_url (speech_call_of ''key-0001'') (JsonBody (client_tts_json kx_tts)) = Ok kx_request"
  using kx_id by (simp add: build_request_def credential_headers_def sensitive_def kx_client_def header_text_def byte_def
      speech_call_of_def plain_call_def kx_request_def)

lemma kx_token: "access_token_new ''ey.token'' = Ok (AccessToken (OpaqueCredential ''ey.token''))"
  by code_simp

lemma kx_key: "check_speech_key ''key-0001'' = Ok ()"
  by code_simp

lemma kx_in_time: "in_time ay_runtime"
  by (auto simp: in_time_def ay_runtime_def run_simps split: prod.splits)

definition kx_domain :: tts_request where
  "kx_domain = \<lparr>tq_auto_fallback = True, tq_provider_options = tts_options_default, tq_provider_keys = no_provider_keys,
     tq_text = SpeechText ''hi'', tq_voice_profile = None, tq_resolved_voice = None, tq_language = None,
     tq_provider_order = Some [provider_name.Gemini]\<rparr>"

lemma kx_into_domain: "tts_into_domain (server_tts_body kx_tts (Some [provider_name.Gemini])) = Ok kx_domain"
proof -
  have hi: "speech_text_new ''hi'' = Ok (SpeechText ''hi'')" by code_simp
  have "server_keys no_client_keys = no_provider_keys" by (simp add: server_keys_def no_client_keys_def no_provider_keys_def)
  then have "server_tts_body kx_tts (Some [provider_name.Gemini]) = ay_body"
    by (simp add: server_tts_body_def kx_tts_def ay_body_def)
  then show ?thesis using hi
    by (simp add: tts_into_domain_def ay_body_def transposed_def tts_request_new_def tts_options_is_empty_def
        tts_options_default_def supports_only_def no_provider_keys_def kx_domain_def with_tts_order_def character_count_def)
qed

text \<open>The headers of a speech answer as a client reads them.\<close>

lemma speech_answer_delay:
  "header_str (map (Pair ''retry-after'') (get_all (ar_headers (answer_of (tts_success C) C rid x)) ''retry-after'')) ''retry-after'' =
     (case get_all (ar_headers (answer_of (tts_success C) C rid x)) ''retry-after'' of v # _ \<Rightarrow> Some v | [] \<Rightarrow> None)"
proof (cases x)
  case (Inl e)
  then show ?thesis using header_text_decimal
    by (auto simp: answer_of_def get_all_error_response REQUEST_ID_HEADER_def header_str_def header_text_def
      split: option.splits simp del: from_waveform_simps(3))
next
  case (Inr answer)
  then show ?thesis
    by (simp add: answer_of_def tts_success_def success_response_def insert_request_id_def Let_def get_all_insert_text
      REPLAYED_HEADER_def REQUEST_ID_HEADER_def header_str_def)
qed

lemma kx_served_answer: "\<exists>x. fst kx_served = answer_of (tts_success ay_crates) ay_crates (RequestId 3) x"
proof -
  have client: "cl_credential kx_client = BearerAuth ''ey.token''" "cl_speech_request_id kx_client = Some 3"
    "cc_uuid (cl_crates kx_client) = ac_uuid ay_crates" "url_query kx_url = None"
    by (simp_all add: kx_client_def kx_url_def ay_crates_def)
  note sent = client_id_received [OF kx_build client(1-3) ay_texts, simplified]
  have call: "speech_call ay_crates read_tts_body tts_into_domain tq_provider_order (received kx_request) =
      Some (Bearer (AccessToken (OpaqueCredential ''ey.token'')), IdempotencyKey ''key-0001'', kx_domain)"
    by (rule client_call_admitted [where read = read_tts_body and v = "client_tts_json kx_tts" and into_domain = tts_into_domain
      and order_of = tq_provider_order, OF kx_build client kx_token kx_key tts_body_read [OF kx_facts(2,1,3)] kx_into_domain])
      (simp add: kx_domain_def)
  obtain x w' where x: "run_state (synthesize (ac_service ay_crates) (as_service ay_state)
      \<lparr>cx_request_id = RequestId 3, cx_credentials = Bearer (AccessToken (OpaqueCredential ''ey.token'')),
       cx_idempotency_key = IdempotencyKey ''key-0001''\<rparr> kx_domain) () = (x, w')" by (rule prod.exhaust)
  have "handler ay_crates ay_runtime ay_state (received kx_request) = api_synthesize ay_crates ay_runtime ay_state (received kx_request)"
    by (simp add: handler_def received_def kx_request_def kx_url_def)
  with api_synthesize_run [OF sent kx_in_time call x] show ?thesis by (auto simp: kx_served_def)
qed

lemma kx_delivered: "served_by kx_client (handler ay_crates ay_runtime ay_state) kx_request ()"
proof -
  obtain x where "fst kx_served = answer_of (tts_success ay_crates) ay_crates (RequestId 3) x"
    using kx_served_answer by blast
  then have "delivered kx_client CLIENT_JSON_LIMIT
      \<lparr>rs_status = ar_status (fst kx_served),
       rs_headers = map (Pair ''retry-after'') (get_all (ar_headers (fst kx_served)) ''retry-after''),
       rs_content_length = None, rs_chunks = []\<rparr> (fst kx_served)"
    using speech_answer_delay [of ay_crates "RequestId 3" x] by (simp add: delivered_def kx_client_def)
  then show ?thesis
    unfolding served_by_def kx_served_def [symmetric] by (simp add: kx_client_def run_simps)
qed

theorem client_speech_is_the_service_call_witness:
  "case run_state (synthesize (ac_service ay_crates) (as_service ay_state)
      \<lparr>cx_request_id = RequestId 3, cx_credentials = Bearer (AccessToken (OpaqueCredential ''ey.token'')),
       cx_idempotency_key = IdempotencyKey ''key-0001''\<rparr> kx_domain) () of
    (Ok answer, w') \<Rightarrow> run_state (client_tts kx_client kx_tts ''key-0001'') () =
      (Ok (received_tts ay_uuid (sv_url (ac_service ay_crates)) (ac_rfc3339 ay_crates) (resp_result answer)), w')
  | (Err e, w') \<Rightarrow> \<exists>api. run_state (client_tts kx_client kx_tts ''key-0001'') () = (Err (Api api), w') \<and>
      ce_status api = waveform_status e \<and> ce_code api = error_code_as_str (waveform_error_code e)"
proof -
  have "cc_extend_path (cl_crates kx_client) (cl_base kx_client) [''api'', ''v1'', ''tts''] = Some kx_url"
    "url_path kx_url = TTS_PATH" "url_query kx_url = None" "cl_account kx_client = None"
    "cl_credential kx_client = BearerAuth ''ey.token''" "cl_speech_request_id kx_client = Some 3" "(3 :: uuid) \<noteq> 0"
    "cc_uuid (cl_crates kx_client) = ac_uuid ay_crates" "tq_provider_order kx_domain \<noteq> Some []" "ac_uuid ay_crates = ay_uuid"
    by (simp_all add: kx_client_def kx_url_def TTS_PATH_def ay_crates_def kx_domain_def)
  note facts = this
  from client_speech_is_the_service_call [OF facts(1-3) kx_build kx_delivered kx_in_time facts(4,5) kx_token facts(6-8)
      ay_texts kx_key kx_facts(2,1,3) kx_into_domain facts(9)]
  show ?thesis unfolding facts(10) by (auto split: prod.splits sum.splits)
qed

section \<open>Failures\<close>

definition kx_failure :: waveform_error where
  "kx_failure = waveform_error.AuthenticationFailed TokenExpired"

definition kx_failing :: "unit client" where
  "kx_failing = kx_client\<lparr>cl_crates := (cl_crates kx_client)
     \<lparr>cc_json := (\<lambda>_. Some (error_body ay_uuid (from_waveform kx_failure (RequestId 3))))\<rparr>\<rparr>"

theorem client_reads_failures_witness:
  "\<exists>api. client_read_body kx_failing 100 \<lparr>rs_status = 401, rs_headers = [], rs_content_length = Some 2, rs_chunks = [Ok ''{}'']\<rparr> =
      Err (Api api) \<and> ce_code api = ''unauthenticated'' \<and> is_stale_credential (Api api)"
proof -
  have "delivered kx_failing 100 \<lparr>rs_status = 401, rs_headers = [], rs_content_length = Some 2, rs_chunks = [Ok ''{}'']\<rparr>
      (error_response ay_uuid (from_waveform kx_failure (RequestId 3)))"
    by (simp add: delivered_def kx_failing_def kx_failure_def error_body_of_response header_str_def is_forbidden_def
      get_all_error_response REQUEST_ID_HEADER_def)
  moreover have "case waveform_error_retry_after kx_failure of Some d \<Rightarrow> retry_seconds d \<le> u64_max | None \<Rightarrow> True"
    by (simp add: kx_failure_def)
  ultimately obtain api where api: "client_read_body kx_failing 100
      \<lparr>rs_status = 401, rs_headers = [], rs_content_length = Some 2, rs_chunks = [Ok ''{}'']\<rparr> = Err (Api api)"
    "ce_code api = error_code_as_str (waveform_error_code kx_failure)"
    "is_stale_credential (Api api) \<longleftrightarrow> kx_failure \<in> waveform_error.AuthenticationFailed ` stale_failures"
    using client_reads_failures [of kx_failing 100 _ ay_uuid kx_failure "RequestId 3"] by blast
  from api(2,3) have "ce_code api = ''unauthenticated''" "is_stale_credential (Api api)"
    by (simp_all add: kx_failure_def stale_failures_def is_forbidden_def)
  with api(1) show ?thesis by blast
qed

section \<open>Waiting\<close>

text \<open>A world that is the time: a sleep lasts as long as it was asked to, and the job never ends.\<close>

definition kx_waiting :: "nat client" where
  "kx_waiting = \<lparr>cl_base = kx_url, cl_credential = Anonymous, cl_account = None, cl_speech_request_id = None,
     cl_crates = cl_crates kx_client, cl_send = (\<lambda>_. State_Monad.return SendFailed),
     cl_now = State (\<lambda>t. (t, t)), cl_sleep = (\<lambda>d. State (\<lambda>t. ((), t + d))),
     cl_timeout_at = (\<lambda>_ _. State_Monad.return (Some (Ok
       \<lparr>ccj_voice_profile = None, ccj_id = ''j'', ccj_issuing_app = None, ccj_operation = ''tts'', ccj_status = ''running'',
        ccj_first_line = [], ccj_duration_ms = None, ccj_provider = None, ccj_error_code = None, ccj_created_at = [],
        ccj_finished_at = None\<rparr>)))\<rparr>"

theorem waiting_for_a_job_ends_witness:
  "case fst (run_state (wait_for_job 12 kx_waiting ''j'' 100 10) 0) of
     Some (Ok job) \<Rightarrow> job_is_terminal job | Some (Err _) \<Rightarrow> True | None \<Rightarrow> False"
proof -
  have clock: "client_clock kx_waiting (\<lambda>t. t)"
    by (simp add: client_clock_def kx_waiting_def run_simps)
  have add: "\<And>a b d. cc_checked_add (cl_crates kx_waiting) a b = Some d \<Longrightarrow> d = a + b"
    by (simp add: kx_waiting_def kx_client_def)
  show ?thesis by (rule waiting_for_a_job_ends [OF clock add]) simp_all
qed

end
