(* ===== verification/Sign_In.thy ===== *)
theory Sign_In
  imports Client Config
begin

text \<open>
  \<open>src/client/src/signin.rs\<close>: signing in to Waveform at Silicon Accounts as a public client. The Accounts
  client is a crate: its device flow, its refresh and what it says of its errors are parameters, and so are
  the HTTP client, the clock, the waits and the JSON of a token answer. Tokens are their exposed text.
\<close>

section \<open>Tokens\<close>

text \<open>What is read of the crate's \<open>TokenResponse\<close>.\<close>

record token_custodian =
  tk_uuid :: string
  tk_id :: string

record token_account =
  ta_uuid :: string
  ta_id :: string
  ta_kind :: string
  ta_display_name :: string
  ta_pfp_url :: string
  ta_custodian :: "token_custodian option"

record token_response =
  tp_access_token :: string
  tp_refresh_token :: "string option"
  tp_account :: "token_account option"
  tp_expires_in :: nat
  tp_refresh_token_expires_at :: "int option"
  tp_scope :: "string option"

record tokens =
  tn_access_token :: string
  tn_refresh_token :: string
  tn_expires_at :: int
  tn_refresh_expires_at :: "int option"
  tn_scope :: string
  tn_account :: client_account

datatype slt_refusal =
    AlreadyUsed | Expired | WrongApp "string option" | Unknown | NotAShortLivedToken | AccessRemoved
  | SignInEnded | Other

datatype sign_in_error =
    Configuration string string
  | SltRefused slt_refusal string
  | SignInEnded string
  | DeviceDenied string
  | DeviceExpired string
  | NotEnabled string string
  | Accounts "nat option" string string "string option"
  | Transport string

definition i64_max :: int where "i64_max = 9223372036854775807"
definition i64_min :: int where "i64_min = -9223372036854775808"

text \<open>\<open>a.saturating_add(b)\<close>, and \<open>i64::try_from(n).unwrap_or(i64::MAX)\<close>.\<close>

definition i64_saturating_add :: "int \<Rightarrow> int \<Rightarrow> int" where
  "i64_saturating_add a b = max i64_min (min i64_max (a + b))"

definition i64_of_u64 :: "nat \<Rightarrow> int" where
  "i64_of_u64 n = min i64_max (int n)"

definition non_empty :: "string \<Rightarrow> string option" where
  "non_empty s = (if s = [] then None else Some s)"

definition unexpected :: "string \<Rightarrow> sign_in_error" where
  "unexpected what = Accounts None ''unexpected_response''
     (''Silicon Accounts answered the sign-in without '' @ what @ ''.'')
     (Some ''Retry; if it keeps happening, report it with `waveform report`.'')"

definition tokens_from_response :: "token_response \<Rightarrow> int \<Rightarrow> (tokens, sign_in_error) result" where
  "tokens_from_response response received_at =
     and_then (ok_or (tp_refresh_token response) (unexpected ''a refresh token'')) (\<lambda>refresh.
     and_then (ok_or (tp_account response) (unexpected ''the account'')) (\<lambda>account.
     Ok \<lparr>tn_access_token = tp_access_token response, tn_refresh_token = refresh,
       tn_expires_at = i64_saturating_add received_at (i64_of_u64 (tp_expires_in response)),
       tn_refresh_expires_at = tp_refresh_token_expires_at response,
       tn_scope = (case tp_scope response of Some s \<Rightarrow> s | None \<Rightarrow> []),
       tn_account = \<lparr>cca_uuid = ta_uuid account, cca_id = non_empty (ta_id account), cca_kind = ta_kind account,
         cca_display_name = non_empty (ta_display_name account), cca_pfp_url = non_empty (ta_pfp_url account),
         cca_custodian = map_option (\<lambda>c. \<lparr>ccr_uuid = tk_uuid c, ccr_id = non_empty (tk_id c)\<rparr>)
           (ta_custodian account)\<rparr>\<rparr>))"

section \<open>Refusals and errors\<close>

fun contains_str :: "string \<Rightarrow> string \<Rightarrow> bool" where
  "contains_str p [] \<longleftrightarrow> p = []"
| "contains_str p (c # s) \<longleftrightarrow> starts_with p (c # s) \<or> contains_str p s"

definition classify_refusal :: "string \<Rightarrow> slt_refusal" where
  "classify_refusal description =
     (let t = to_ascii_lowercase description in
      if contains_str ''already used'' t then AlreadyUsed
      else if contains_str ''expired at'' t \<or> contains_str ''token expired'' t then Expired
      else if contains_str ''was issued for the app'' t then
        WrongApp (case split_on CHR 0x27 description of _ # app # _ \<Rightarrow> non_empty app | _ \<Rightarrow> None)
      else if contains_str ''is not known'' t then Unknown
      else if contains_str ''must be a short-lived token'' t \<or> contains_str ''starts with slt_'' t then NotAShortLivedToken
      else if contains_str ''removed the access of the app'' t then AccessRemoved
      else if contains_str ''rotated its stk'' t \<or> contains_str ''trusted outside token'' t \<or>
        contains_str ''removed that trust'' t then slt_refusal.SignInEnded
      else Other)"

fun refusal_code :: "slt_refusal \<Rightarrow> string" where
  "refusal_code AlreadyUsed = ''slt_already_used''"
| "refusal_code Expired = ''slt_expired''"
| "refusal_code (WrongApp _) = ''slt_wrong_app''"
| "refusal_code Unknown = ''slt_unknown''"
| "refusal_code NotAShortLivedToken = ''slt_not_a_short_lived_token''"
| "refusal_code AccessRemoved = ''slt_access_removed''"
| "refusal_code slt_refusal.SignInEnded = ''slt_sign_in_ended''"
| "refusal_code Other = ''slt_refused''"

fun sign_in_code :: "sign_in_error \<Rightarrow> string" where
  "sign_in_code (Configuration _ _) = ''sign_in_configuration''"
| "sign_in_code (SltRefused reason _) = refusal_code reason"
| "sign_in_code (SignInEnded _) = ''sign_in_ended''"
| "sign_in_code (DeviceDenied _) = ''device_denied''"
| "sign_in_code (DeviceExpired _) = ''device_code_expired''"
| "sign_in_code (NotEnabled _ _) = ''sign_in_not_enabled''"
| "sign_in_code (Accounts _ code _ _) = code"
| "sign_in_code (Transport _) = ''accounts_unreachable''"

fun sign_in_message :: "sign_in_error \<Rightarrow> string" where
  "sign_in_message (SignInEnded description) = ''Your Waveform sign-in ended: '' @ description"
| "sign_in_message (SltRefused reason description) =
     (if reason = Unknown then description @
        '' (A short-lived token is only known to the Silicon Accounts that minted it.)'' else description)"
| "sign_in_message (Configuration message _) = message"
| "sign_in_message (DeviceDenied user_code) = ''The sign-in request '' @ user_code @ '' was denied on the account site.''"
| "sign_in_message (DeviceExpired user_code) = ''The code '' @ user_code @ '' expired before anyone approved it.''"
| "sign_in_message (NotEnabled _ description) = description"
| "sign_in_message (Accounts _ _ message _) = message"
| "sign_in_message (Transport message) = message"

definition CARBON_SIGN_IN :: string where "CARBON_SIGN_IN = ''waveform login''"
definition SLT_MINT_COMMAND :: string where "SLT_MINT_COMMAND = ''silicon-accounts login --app waveform -q''"
definition SILICON_SIGN_IN :: string where
  "SILICON_SIGN_IN = ''silicon-accounts login --app waveform -q | waveform login --slt-stdin''"

definition fresh_hint :: string where
  "fresh_hint = ''Mint a fresh one and use it at once: '' @ SILICON_SIGN_IN"

fun refusal_hint :: "slt_refusal \<Rightarrow> string" where
  "refusal_hint AlreadyUsed = ''Short-lived tokens work once. '' @ fresh_hint"
| "refusal_hint Expired = ''Short-lived tokens last 2 minutes. '' @ fresh_hint"
| "refusal_hint (WrongApp app) =
     ''That token was minted for '' @ (case app of Some a \<Rightarrow> a | None \<Rightarrow> ''another app'') @
     ''; Waveform needs one minted with --app waveform: '' @ SILICON_SIGN_IN"
| "refusal_hint Unknown =
     ''Pass the whole token, and sign in at the Silicon Accounts that minted it (ACCOUNTS_URL or --accounts-url). '' @ fresh_hint"
| "refusal_hint NotAShortLivedToken =
     (''Pass a short-lived token (slt_'' @ [CHR 0xE2, CHR 0x80, CHR 0xA6] @ ''), not an access or refresh token. '') @ fresh_hint"
| "refusal_hint AccessRemoved =
     ''The account removed Waveform's access after that token was minted; a token minted now signs in again: '' @ SILICON_SIGN_IN"
| "refusal_hint slt_refusal.SignInEnded =
     (''Sign the Silicon in to Silicon Accounts again (silicon-accounts login --silicon si:<id> '' @ [CHR 0xE2, CHR 0x80, CHR 0xA6] @ ''), then: '') @ SILICON_SIGN_IN"
| "refusal_hint Other = fresh_hint"

fun sign_in_hint :: "sign_in_error \<Rightarrow> string" where
  "sign_in_hint (Configuration _ hint) = hint"
| "sign_in_hint (SltRefused reason _) = refusal_hint reason"
| "sign_in_hint (SignInEnded _) =
     ''Sign in again: Carbons run `'' @ CARBON_SIGN_IN @ ''`; Silicons run `'' @ SILICON_SIGN_IN @ ''`.''"
| "sign_in_hint (DeviceDenied _) =
     ''If that was a mistake, run `'' @ CARBON_SIGN_IN @ ''` again and approve the new code.''"
| "sign_in_hint (DeviceExpired _) =
     ''Run `'' @ CARBON_SIGN_IN @ ''` again and approve the new code within 10 minutes.''"
| "sign_in_hint (NotEnabled grant _) =
     ''Waveform's sign-in setup at this Silicon Accounts must allow '' @ grant @
     '' (device_flow and public_client). Check ACCOUNTS_URL / --accounts-url: it must be the Silicon Accounts this Waveform uses.''"
| "sign_in_hint (Accounts _ _ _ hint) =
     (case hint of Some h \<Rightarrow> h | None \<Rightarrow> ''Retry; if it keeps failing, report it with `waveform report`.'')"
| "sign_in_hint (Transport _) =
     ''Check the network and the Silicon Accounts URL (ACCOUNTS_URL or --accounts-url), then retry.''"

fun is_transient :: "sign_in_error \<Rightarrow> bool" where
  "is_transient (Transport _) = True"
| "is_transient (Accounts (Some status) _ _ _) = (status \<ge> 500 \<or> status = 429)"
| "is_transient _ = False"

section \<open>The errors of Silicon Accounts\<close>

text \<open>An error of the crate: an OAuth error, a failed exchange, or another with what its accessors say.\<close>

record oauth_error =
  oe_status :: nat
  oe_error :: string
  oe_description :: "string option"

datatype accounts_failure =
    OAuthError oauth_error
  | HttpFailure string string
  | OtherFailure "nat option" string string "string option"

datatype grant = DeviceGrant | SltGrant | RefreshGrant | RevokeGrant

record reqwest_failure =
  rf_connect :: bool
  rf_timeout :: bool
  rf_cause :: string

record device_authorization =
  da_user_code :: string
  da_verification_uri :: string
  da_verification_uri_complete :: "string option"
  da_expires_in :: nat
  da_interval :: nat
  da_device_code :: string

datatype accounts_poll = PollPending | PollSlowDown | PollDenied | PollExpired | PollTokens token_response | PollOther

record 'w sign_in =
  si_base :: url
  si_app_id :: string
  si_poll_unit :: duration
  si_slt_grant_type :: string
  si_url_text :: "url \<Rightarrow> string"
  si_extend_path :: "url \<Rightarrow> string list \<Rightarrow> url option"
  si_oauth_message :: "oauth_error \<Rightarrow> string"
  si_oauth_view :: "oauth_error \<Rightarrow> nat option \<times> string \<times> string option"
  si_json :: "bytes \<Rightarrow> json option"
  si_token_response :: "bytes \<Rightarrow> (token_response, string) result"
  si_device_authorize :: "string \<Rightarrow> string option \<Rightarrow> ('w, device_authorization, accounts_failure) call"
  si_device_poll :: "string \<Rightarrow> string \<Rightarrow> ('w, accounts_poll, accounts_failure) call"
  si_refresh_public :: "string \<Rightarrow> string \<Rightarrow> ('w, token_response, accounts_failure) call"
  si_post :: "url \<Rightarrow> (string \<times> string) list \<Rightarrow> ('w, (nat \<times> (bytes, reqwest_failure) result, reqwest_failure) result) state"
  si_now :: "('w, int) state"
  si_sleep :: "duration \<Rightarrow> ('w, unit) state"

text \<open>\<open>None\<close>: no answer of the kind \<open>invalid_grant\<close> or \<open>unauthorized_client\<close> names.\<close>

definition grant_refusal :: "oauth_error \<Rightarrow> grant \<Rightarrow> string \<Rightarrow> sign_in_error option" where
  "grant_refusal e g description =
     (if oe_error e = ''invalid_grant'' \<and> g = SltGrant then Some (SltRefused (classify_refusal description) description)
      else if oe_error e = ''invalid_grant'' \<and> g = RefreshGrant then Some (SignInEnded description)
      else if oe_error e \<in> {''unauthorized_client'', ''invalid_client''} then
        Some (NotEnabled (case g of DeviceGrant \<Rightarrow> ''the device flow''
          | SltGrant \<Rightarrow> ''short-lived token exchange without a secret'' | _ \<Rightarrow> ''public clients'') description)
      else None)"

fun from_accounts :: "'w sign_in \<Rightarrow> grant \<Rightarrow> accounts_failure \<Rightarrow> sign_in_error" where
  "from_accounts S g (OAuthError e) =
     (case grant_refusal e g (si_oauth_message S e) of
        Some r \<Rightarrow> r
      | None \<Rightarrow> (case si_oauth_view S e of (status, code, hint) \<Rightarrow> Accounts status code (si_oauth_message S e) hint))"
| "from_accounts S g (HttpFailure message hint) = Transport (message @ '' '' @ hint)"
| "from_accounts S g (OtherFailure status code message hint) = Accounts status code message hint"

definition from_body :: "'w sign_in \<Rightarrow> nat \<Rightarrow> bytes \<Rightarrow> grant \<Rightarrow> sign_in_error" where
  "from_body S status body g =
     (let v = (case si_json S body of Some v \<Rightarrow> v | None \<Rightarrow> JNull) in
      case value_at v ''error'' of
        JString e \<Rightarrow> from_accounts S g (OAuthError
          \<lparr>oe_status = status, oe_error = e, oe_description = as_str (value_at v ''error_description'')\<rparr>)
      | JObject members \<Rightarrow>
          (let field = (\<lambda>key. as_str (value_at (JObject members) key)) in
           Accounts (Some status) (case field ''code'' of Some c \<Rightarrow> c | None \<Rightarrow> ''accounts_error'')
             (case field ''message'' of Some t \<Rightarrow> t | None \<Rightarrow> ''Silicon Accounts answered HTTP '' @ decimal status @ ''.'')
             (field ''hint''))
      | _ \<Rightarrow> Accounts (Some status) ''unexpected_response''
          (''Silicon Accounts answered HTTP '' @ decimal status @ '' without an error body this client understands.'')
          (Some ''Check that ACCOUNTS_URL points at Silicon Accounts, then retry.''))"

section \<open>Exchanges\<close>

definition APP_ID :: string where "APP_ID = ''waveform''"

text \<open>\<open>accounts\<close> and \<open>http\<close> are the two clients that were built, or why one was not.\<close>

definition sign_in_for_app ::
    "('w sign_in, string \<times> string option) result \<Rightarrow> (unit, string) result \<Rightarrow> string \<Rightarrow> ('w sign_in, sign_in_error) result" where
  "sign_in_for_app accounts http app_id =
     and_then (map_err (\<lambda>(message, hint). Configuration message (case hint of Some h \<Rightarrow> h | None \<Rightarrow> [])) accounts) (\<lambda>S.
     let app = str_trim app_id in
     if app = [] then Err (Configuration ''The app id to sign in to is empty.'' (''Use Waveform's app id, `'' @ APP_ID @ ''`.''))
     else and_then (map_err (\<lambda>e. Configuration (''Could not create the HTTP client: '' @ e @ ''.'')
       ''The TLS backend failed to start; check the system certificate store.'') http) (\<lambda>_.
     Ok (S\<lparr>si_app_id := app, si_poll_unit := secs 1\<rparr>)))"

definition with_poll_unit :: "duration \<Rightarrow> 'w sign_in \<Rightarrow> 'w sign_in" where
  "with_poll_unit unit S = S\<lparr>si_poll_unit := max unit (millis 1)\<rparr>"

definition sign_in_url :: "'w sign_in \<Rightarrow> string" where
  "sign_in_url S = trim_end_slashes (si_url_text S (si_base S))"

definition transport_error :: "'w sign_in \<Rightarrow> string \<Rightarrow> reqwest_failure \<Rightarrow> sign_in_error" where
  "transport_error S what e = Transport
     (if rf_timeout e then ''Silicon Accounts at '' @ sign_in_url S @ '' did not answer '' @ what @ '' in time.''
      else ''Could not reach Silicon Accounts at '' @ sign_in_url S @ '' ('' @ what @ ''): '' @ rf_cause e @ ''.'')"

text \<open>The attempts left: only a connection that was never established is tried again, twice at most.\<close>

fun post_attempts ::
    "nat \<Rightarrow> 'w sign_in \<Rightarrow> url \<Rightarrow> (string \<times> string) list \<Rightarrow> string \<Rightarrow>
     ('w, nat \<times> (bytes, reqwest_failure) result, sign_in_error) call" where
  "post_attempts 0 S u form what = on_err (transport_error S what) (si_post S u form)"
| "post_attempts (Suc left) S u form what =
     State_Monad.bind (si_post S u form) (\<lambda>r. case r of
       Ok response \<Rightarrow> done_with response
     | Err e \<Rightarrow>
         if rf_connect e then
           State_Monad.bind (si_sleep S (millis (200 * (2 - left)))) (\<lambda>_. post_attempts left S u form what)
         else throw (transport_error S what e))"

definition post_form ::
    "'w sign_in \<Rightarrow> string list \<Rightarrow> (string \<times> string) list \<Rightarrow> grant \<Rightarrow> ('w, bytes, sign_in_error) call" where
  "post_form S path form g =
     try_call (lift_result (ok_or (si_extend_path S (si_base S) path)
       (Configuration ''The Silicon Accounts URL cannot carry a path.''
          ''Use an origin such as https://accounts.teamofsilicons.com.''))) (\<lambda>u.
     let what = ''POST '' @ url_path u in
     try_call (post_attempts 2 S u form what) (\<lambda>(status, body).
     lift_result (and_then (map_err (transport_error S what) body) (\<lambda>bs.
       if 200 \<le> status \<and> status < 300 then Ok bs else Err (from_body S status bs g)))))"

section \<open>The device flow\<close>

record device_code =
  dv_user_code :: string
  dv_verification_uri :: string
  dv_verification_uri_complete :: "string option"
  dv_expires_in :: nat
  dv_interval :: nat
  dv_expires_at :: int
  dv_device_code :: string

definition browser_url :: "device_code \<Rightarrow> string" where
  "browser_url d = (case dv_verification_uri_complete d of Some u \<Rightarrow> u | None \<Rightarrow> dv_verification_uri d)"

datatype device_poll = Pending | SlowDown | Approved tokens

datatype device_progress = StillPending | SlowedDown nat | Retrying string

definition start_device :: "'w sign_in \<Rightarrow> string option \<Rightarrow> ('w, device_code, sign_in_error) call" where
  "start_device S client_label =
     State_Monad.bind (si_now S) (\<lambda>started.
     try_call (on_err (from_accounts S DeviceGrant) (si_device_authorize S (si_app_id S) client_label)) (\<lambda>a.
     done_with \<lparr>dv_user_code = da_user_code a, dv_verification_uri = da_verification_uri a,
       dv_verification_uri_complete = da_verification_uri_complete a, dv_expires_in = da_expires_in a,
       dv_interval = max (da_interval a) 1,
       dv_expires_at = i64_saturating_add started (i64_of_u64 (da_expires_in a)),
       dv_device_code = da_device_code a\<rparr>))"

definition poll_device :: "'w sign_in \<Rightarrow> device_code \<Rightarrow> ('w, device_poll, sign_in_error) call" where
  "poll_device S d =
     try_call (on_err (from_accounts S DeviceGrant) (si_device_poll S (si_app_id S) (dv_device_code d))) (\<lambda>p.
     case p of
       PollPending \<Rightarrow> done_with Pending
     | PollSlowDown \<Rightarrow> done_with SlowDown
     | PollDenied \<Rightarrow> throw (DeviceDenied (dv_user_code d))
     | PollExpired \<Rightarrow> throw (DeviceExpired (dv_user_code d))
     | PollTokens response \<Rightarrow> State_Monad.bind (si_now S) (\<lambda>now.
         lift_result (map_ok Approved (tokens_from_response response now)))
     | PollOther \<Rightarrow> throw (Accounts None ''unexpected_response''
         ''Silicon Accounts answered the device poll in a way this client does not know.''
         (Some ''Update the waveform CLI; Silicon Apps installs updates within minutes.'')))"

definition u64_saturating_add :: "nat \<Rightarrow> nat \<Rightarrow> nat" where
  "u64_saturating_add a b = min u64_max (a + b)"

text \<open>\<open>Duration::saturating_mul\<close> of the poll unit, the interval taken as a \<open>u32\<close>.\<close>

definition poll_wait :: "'w sign_in \<Rightarrow> nat \<Rightarrow> duration" where
  "poll_wait S interval = duration_saturating_mul (si_poll_unit S) (if interval \<le> u32_max then interval else u32_max)"

text \<open>The loop of \<open>wait_for_device\<close>: \<open>None\<close> when \<open>n\<close> rounds were not enough.\<close>

fun wait_for_device ::
    "nat \<Rightarrow> 'w sign_in \<Rightarrow> (device_progress \<Rightarrow> ('w, unit) state) \<Rightarrow> device_code \<Rightarrow> nat \<Rightarrow>
     ('w, (tokens, sign_in_error) result option) state" where
  "wait_for_device 0 S progress d interval = State_Monad.return None"
| "wait_for_device (Suc n) S progress d interval =
     State_Monad.bind (si_now S) (\<lambda>now.
     if now \<ge> dv_expires_at d then State_Monad.return (Some (Err (DeviceExpired (dv_user_code d))))
     else State_Monad.bind (si_sleep S (poll_wait S interval)) (\<lambda>_.
     State_Monad.bind (poll_device S d) (\<lambda>r.
     let next_round = (\<lambda>interval event. State_Monad.bind (progress event) (\<lambda>_.
           wait_for_device n S progress d interval)) in
     case r of
       Ok (Approved t) \<Rightarrow> State_Monad.return (Some (Ok t))
     | Ok Pending \<Rightarrow> next_round interval StillPending
     | Ok SlowDown \<Rightarrow> next_round (u64_saturating_add interval 5) (SlowedDown (u64_saturating_add interval 5))
     | Err e \<Rightarrow>
         if is_transient e then
           next_round (case e of Accounts (Some status) _ _ _ \<Rightarrow>
               if status = 429 then u64_saturating_add interval 5 else interval | _ \<Rightarrow> interval)
             (Retrying (sign_in_message e))
         else State_Monad.return (Some (Err e)))))"

definition device_sign_in ::
    "nat \<Rightarrow> 'w sign_in \<Rightarrow> (device_progress \<Rightarrow> ('w, unit) state) \<Rightarrow> device_code \<Rightarrow>
     ('w, (tokens, sign_in_error) result option) state" where
  "device_sign_in n S progress d = wait_for_device n S progress d (max (dv_interval d) 1)"

section \<open>Short-lived tokens, refresh and sign-out\<close>

definition exchange_slt :: "'w sign_in \<Rightarrow> string \<Rightarrow> ('w, tokens, sign_in_error) call" where
  "exchange_slt S slt0 =
     (let slt = str_trim slt0 in
      if slt = [] then throw (Configuration ''The short-lived token is empty.''
        (''Mint one with `'' @ SLT_MINT_COMMAND @ ''` and pass it at once: '' @ SILICON_SIGN_IN))
      else if \<not> starts_with ''slt_'' slt \<or> length slt > 4096 \<or> \<not> (\<forall>b \<in> set slt. is_ascii_graphic b) then
        throw (SltRefused NotAShortLivedToken
          ''That is not a Silicon Accounts short-lived token: they start with slt_ and contain no spaces. It was not sent anywhere.'')
      else
        try_call (post_form S [''v1'', ''oauth'', ''token'']
          [(''grant_type'', si_slt_grant_type S), (''slt'', slt), (''client_id'', si_app_id S)] SltGrant) (\<lambda>bs.
        State_Monad.bind (si_now S) (\<lambda>received_at.
        lift_result (and_then (map_err (\<lambda>e. Accounts None ''unexpected_response''
            (''Silicon Accounts answered the exchange with a body this client does not understand: '' @ e @ ''.'')
            (Some ''Check that ACCOUNTS_URL points at Silicon Accounts, then sign in again with a fresh token.''))
            (si_token_response S bs)) (\<lambda>response.
          tokens_from_response response received_at)))))"

definition refresh_tokens :: "'w sign_in \<Rightarrow> string \<Rightarrow> ('w, tokens, sign_in_error) call" where
  "refresh_tokens S refresh =
     try_call (on_err (from_accounts S RefreshGrant) (si_refresh_public S (si_app_id S) refresh)) (\<lambda>response.
     State_Monad.bind (si_now S) (\<lambda>now. lift_result (tokens_from_response response now)))"

definition revoke_token :: "'w sign_in \<Rightarrow> string \<Rightarrow> ('w, unit, sign_in_error) call" where
  "revoke_token S refresh =
     (let token = str_trim refresh in
      if token = [] then throw (Configuration ''There is no refresh token to revoke.'' ''Nothing to sign out of.'')
      else try_call (post_form S [''v1'', ''oauth'', ''revoke'']
        [(''token'', token),
         (''token_type_hint'', if starts_with ''sar_'' token then ''refresh_token'' else ''access_token''),
         (''client_id'', si_app_id S)] RevokeGrant) (\<lambda>_. done_with ()))"

end
