(* ===== verification/Session.thy ===== *)
theory Session
  imports Sign_In
begin

text \<open>
  \<open>src/cli/src/session.rs\<close>, \<open>output.rs\<close> (errors and outcomes) and \<open>auth.rs\<close>: the saved sign-in of the
  command line tool and its life: refreshed under a lock that all its writers take, replaced by a login,
  deleted by a logout. The file, the lock, the clock, the terminal and the JSON texts are parameters.
\<close>

section \<open>Errors and outcomes\<close>

definition EXIT_OK :: nat where "EXIT_OK = 0"
definition EXIT_FAILURE :: nat where "EXIT_FAILURE = 1"
definition EXIT_INVALID :: nat where "EXIT_INVALID = 2"
definition EXIT_AUTH :: nat where "EXIT_AUTH = 3"
definition EXIT_NOT_FOUND :: nat where "EXIT_NOT_FOUND = 4"
definition EXIT_CONFLICT :: nat where "EXIT_CONFLICT = 5"
definition EXIT_RATE_LIMITED :: nat where "EXIT_RATE_LIMITED = 6"

record cli_error =
  xe_exit :: nat
  xe_code :: string
  xe_message :: string
  xe_hint :: "string option"
  xe_details :: "json option"

definition cli_error_new :: "nat \<Rightarrow> string \<Rightarrow> string \<Rightarrow> string \<Rightarrow> cli_error" where
  "cli_error_new exit code message hint =
     \<lparr>xe_exit = exit, xe_code = code, xe_message = message, xe_hint = non_empty hint, xe_details = None\<rparr>"

definition cli_invalid :: "string \<Rightarrow> string \<Rightarrow> cli_error" where
  "cli_invalid = cli_error_new EXIT_INVALID ''invalid_input''"

definition cli_local :: "string \<Rightarrow> string \<Rightarrow> cli_error" where
  "cli_local = cli_error_new EXIT_FAILURE ''local_state''"

text \<open>Members of a JSON value are kept in the order of their keys; setting one replaces it.\<close>

fun set_member :: "string \<Rightarrow> json \<Rightarrow> (string \<times> json) list \<Rightarrow> (string \<times> json) list" where
  "set_member k v [] = [(k, v)]"
| "set_member k v ((k', v') # ms) =
     (if k = k' then (k, v) # ms
      else if lexordp (\<lambda>a b. byte a < byte b) k k' then (k, v) # (k', v') # ms
      else (k', v') # set_member k v ms)"

definition json_object :: "(string \<times> json) list \<Rightarrow> json" where
  "json_object ms = JObject (foldl (\<lambda>acc (k, v). set_member k v acc) [] ms)"

fun with_member :: "json \<Rightarrow> string \<Rightarrow> json \<Rightarrow> json" where
  "with_member (JObject ms) k v = JObject (set_member k v ms)"
| "with_member w k v = w"

definition cli_error_json :: "cli_error \<Rightarrow> json" where
  "cli_error_json e = json_object [(''error'', json_object (
     [(''code'', JString (xe_code e)), (''message'', JString (xe_message e))] @
     json_member ''hint'' (map_option JString (xe_hint e)) @ json_member ''details'' (xe_details e)))]"

text \<open>\<open>texts\<close> is what the crates say of a failed exchange or body.\<close>

fun client_message :: "(client_error \<Rightarrow> string) \<Rightarrow> client_error \<Rightarrow> string" where
  "client_message texts (Api e) = ce_message e"
| "client_message texts (client_error.Invalid t) = t"
| "client_message texts (client_error.Transport late) = ''Could not reach Waveform: '' @ texts (client_error.Transport late)"
| "client_message texts Decode = ''Waveform answered with a body this client does not understand: '' @ texts Decode"

definition exit_of_client_error :: "client_error \<Rightarrow> nat" where
  "exit_of_client_error e = (case client_status e of
     Some status \<Rightarrow>
       if status \<in> {400, 406, 410, 413, 415, 422} then EXIT_INVALID
       else if status \<in> {401, 403} then EXIT_AUTH
       else if status = 404 then EXIT_NOT_FOUND
       else if status = 409 then EXIT_CONFLICT
       else if status \<in> {423, 429} then EXIT_RATE_LIMITED
       else EXIT_FAILURE
   | None \<Rightarrow> if is_code e ''invalid_input'' then EXIT_INVALID else EXIT_FAILURE)"

definition api_details :: "client_api_error \<Rightarrow> (string \<times> json) list" where
  "api_details e =
     [(''status'', JNumber (PosInt (ce_status e)))] @
     json_member ''reason'' (map_option JString (ce_reason e)) @
     json_member ''request_id'' (map_option JString (ce_request_id e)) @
     json_member ''provider'' (map_option JString (ce_provider e)) @
     json_member ''provider_status'' (map_option (\<lambda>n. JNumber (PosInt n)) (ce_provider_status e)) @
     json_member ''retry_after_seconds'' (map_option (\<lambda>n. JNumber (PosInt n)) (ce_retry_after_seconds e))"

definition cli_error_of_client :: "(client_error \<Rightarrow> string) \<Rightarrow> client_error \<Rightarrow> cli_error" where
  "cli_error_of_client texts e =
     \<lparr>xe_exit = exit_of_client_error e, xe_code = client_code e, xe_message = client_message texts e,
      xe_hint = client_hint e, xe_details = map_option (\<lambda>a. json_object (api_details a)) (as_api e)\<rparr>"

definition exit_of_sign_in_error :: "sign_in_error \<Rightarrow> nat" where
  "exit_of_sign_in_error e = (case e of
     Configuration _ _ \<Rightarrow> EXIT_INVALID
   | Accounts (Some status) _ _ _ \<Rightarrow> if status = 429 then EXIT_RATE_LIMITED else EXIT_FAILURE
   | Accounts None _ _ _ \<Rightarrow> EXIT_FAILURE
   | sign_in_error.Transport _ \<Rightarrow> EXIT_FAILURE
   | _ \<Rightarrow> EXIT_AUTH)"

definition cli_error_of_sign_in :: "sign_in_error \<Rightarrow> cli_error" where
  "cli_error_of_sign_in e =
     cli_error_new (exit_of_sign_in_error e) (sign_in_code e) (sign_in_message e) (sign_in_hint e)"

record outcome =
  oc_json :: json
  oc_text :: string
  oc_exit :: nat
  oc_compact :: bool
  oc_silent :: bool

definition outcome_new :: "json \<Rightarrow> string \<Rightarrow> outcome" where
  "outcome_new v text =
     \<lparr>oc_json = v, oc_text = text, oc_exit = EXIT_OK, oc_compact = False, oc_silent = False\<rparr>"

definition outcome_exit :: "nat \<Rightarrow> outcome \<Rightarrow> outcome" where
  "outcome_exit code c = c\<lparr>oc_exit := code\<rparr>"

section \<open>The saved sign-in\<close>

definition FORMAT :: nat where "FORMAT = 1"
definition REFRESH_MARGIN_SECONDS :: int where "REFRESH_MARGIN_SECONDS = 60"

definition normalize_url :: "string \<Rightarrow> string" where
  "normalize_url u = trim_end_slashes (str_trim u)"

record stored_session =
  ssn_format :: nat
  ssn_app_id :: string
  ssn_accounts_url :: string
  ssn_access_token :: string
  ssn_refresh_token :: string
  ssn_expires_at :: int
  ssn_refresh_expires_at :: "int option"
  ssn_scope :: string
  ssn_method :: string
  ssn_signed_in_at :: int
  ssn_refreshed_at :: "int option"
  ssn_account :: client_account

definition from_tokens :: "tokens \<Rightarrow> string \<Rightarrow> string \<Rightarrow> int \<Rightarrow> stored_session" where
  "from_tokens t accounts_url method at =
     \<lparr>ssn_format = FORMAT, ssn_app_id = APP_ID, ssn_accounts_url = normalize_url accounts_url,
      ssn_access_token = tn_access_token t, ssn_refresh_token = tn_refresh_token t,
      ssn_expires_at = tn_expires_at t, ssn_refresh_expires_at = tn_refresh_expires_at t, ssn_scope = tn_scope t,
      ssn_method = method, ssn_signed_in_at = at, ssn_refreshed_at = None, ssn_account = tn_account t\<rparr>"

definition rotated :: "stored_session \<Rightarrow> tokens \<Rightarrow> int \<Rightarrow> stored_session" where
  "rotated s t at = s
     \<lparr>ssn_access_token := tn_access_token t, ssn_refresh_token := tn_refresh_token t,
      ssn_expires_at := tn_expires_at t,
      ssn_refresh_expires_at := (case tn_refresh_expires_at t of Some e \<Rightarrow> Some e | None \<Rightarrow> ssn_refresh_expires_at s),
      ssn_scope := (if tn_scope t = [] then ssn_scope s else tn_scope t),
      ssn_refreshed_at := Some at, ssn_account := tn_account t\<rparr>"

definition needs_refresh :: "stored_session \<Rightarrow> int \<Rightarrow> bool" where
  "needs_refresh s at \<longleftrightarrow> ssn_expires_at s \<le> i64_saturating_add at REFRESH_MARGIN_SECONDS"

definition session_ended :: "stored_session \<Rightarrow> int \<Rightarrow> bool" where
  "session_ended s at \<longleftrightarrow> (case ssn_refresh_expires_at s of Some e \<Rightarrow> e \<le> at | None \<Rightarrow> False)"

text \<open>The derived JSON of a session and of its account, and what is read back.\<close>

definition account_ref_json :: "client_account_ref \<Rightarrow> json" where
  "account_ref_json r = JObject [(''uuid'', JString (ccr_uuid r)), (''id'', json_option JString (ccr_id r))]"

definition account_json :: "client_account \<Rightarrow> json" where
  "account_json a = JObject
     [(''uuid'', JString (cca_uuid a)), (''id'', json_option JString (cca_id a)), (''kind'', JString (cca_kind a)),
      (''display_name'', json_option JString (cca_display_name a)), (''pfp_url'', json_option JString (cca_pfp_url a)),
      (''custodian'', json_option account_ref_json (cca_custodian a))]"

definition session_json :: "stored_session \<Rightarrow> json" where
  "session_json s = JObject
     [(''format'', JNumber (PosInt (ssn_format s))), (''app_id'', JString (ssn_app_id s)),
      (''accounts_url'', JString (ssn_accounts_url s)), (''access_token'', JString (ssn_access_token s)),
      (''refresh_token'', JString (ssn_refresh_token s)), (''expires_at'', json_int (ssn_expires_at s)),
      (''refresh_expires_at'', json_option json_int (ssn_refresh_expires_at s)), (''scope'', JString (ssn_scope s)),
      (''method'', JString (ssn_method s)), (''signed_in_at'', json_int (ssn_signed_in_at s)),
      (''refreshed_at'', json_option json_int (ssn_refreshed_at s)), (''account'', account_json (ssn_account s))]"

definition read_i64 :: "json \<Rightarrow> int option" where
  "read_i64 v = (case v of
     JNumber (PosInt n) \<Rightarrow> if int n \<le> i64_max then Some (int n) else None
   | JNumber (NegInt i) \<Rightarrow> if i64_min \<le> i then Some i else None
   | _ \<Rightarrow> None)"

definition read_session :: "json \<Rightarrow> stored_session option" where
  "read_session v =
     Option.bind (required_field [''format''] (read_uint u32_max) v) (\<lambda>x1.
     Option.bind (required_field [''app_id''] as_str v) (\<lambda>x2.
     Option.bind (required_field [''accounts_url''] as_str v) (\<lambda>x3.
     Option.bind (required_field [''access_token''] as_str v) (\<lambda>x4.
     Option.bind (required_field [''refresh_token''] as_str v) (\<lambda>x5.
     Option.bind (required_field [''expires_at''] read_i64 v) (\<lambda>x6.
     Option.bind (optional_field [''refresh_expires_at''] read_i64 v) (\<lambda>x7.
     Option.bind (default_field [''scope''] [] as_str v) (\<lambda>x8.
     Option.bind (required_field [''method''] as_str v) (\<lambda>x9.
     Option.bind (required_field [''signed_in_at''] read_i64 v) (\<lambda>x10.
     Option.bind (optional_field [''refreshed_at''] read_i64 v) (\<lambda>x11.
     Option.bind (required_field [''account''] read_client_account v) (\<lambda>x12.
     Some \<lparr>ssn_format = x1, ssn_app_id = x2, ssn_accounts_url = x3, ssn_access_token = x4, ssn_refresh_token = x5,
       ssn_expires_at = x6, ssn_refresh_expires_at = x7, ssn_scope = x8, ssn_method = x9, ssn_signed_in_at = x10,
       ssn_refreshed_at = x11, ssn_account = x12\<rparr>))))))))))))"

datatype loaded = Missing | Loaded stored_session "string option" | Unreadable string string

text \<open>\<open>Err None\<close> of a file operation: there is no such file.\<close>

record 'w session_store =
  st_accounts_url :: string
  st_path :: string
  st_read :: "('w, (bytes, string option) result) state"
  st_mode :: "('w, nat option) state"
  st_make_private :: "('w, bool) state"
  st_write_private :: "bytes \<Rightarrow> ('w, unit, cli_error) call"
  st_unlink :: "('w, (unit, string option) result) state"
  st_lock :: "('w, unit, cli_error) call"
  st_unlock :: "('w, unit) state"
  st_legacy_files :: "('w, string list) state"
  st_remove_legacy :: "('w, nat) state"
  st_other_origins :: "('w, string list) state"
  st_parse :: "bytes \<Rightarrow> (json, string) result"
  st_session_error :: "json \<Rightarrow> string"
  st_pretty :: "json \<Rightarrow> bytes"

definition octal_bits :: "nat \<Rightarrow> string" where
  "octal_bits n = (if n < 8 then [char_of (48 + n)]
     else if n < 64 then [char_of (48 + n div 8), char_of (48 + n mod 8)]
     else [char_of (48 + n div 64), char_of (48 + n div 8 mod 8), char_of (48 + n mod 8)])"

definition tighten :: "'w session_store \<Rightarrow> ('w, string option) state" where
  "tighten T = State_Monad.bind (st_mode T) (\<lambda>mode. case mode of
     None \<Rightarrow> State_Monad.return None
   | Some mode \<Rightarrow>
       if mode mod 64 = 0 then State_Monad.return None
       else State_Monad.bind (st_make_private T) (\<lambda>fixed.
         State_Monad.return (Some (st_path T @ '' was readable by other users (mode '' @ octal_bits (mode mod 512) @ '')'' @
           (if fixed then '' and has been made private'' else []) @
           ''; anyone who read it could act as you until you sign out (waveform logout) and sign in again.''))))"

definition usable :: "'w session_store \<Rightarrow> stored_session \<Rightarrow> bool" where
  "usable T s \<longleftrightarrow> ssn_format s = FORMAT \<and> ssn_app_id s = APP_ID \<and>
     normalize_url (ssn_accounts_url s) = st_accounts_url T \<and> ssn_access_token s \<noteq> [] \<and>
     ssn_refresh_token s \<noteq> [] \<and> cca_uuid (ssn_account s) \<noteq> []"

definition load_session :: "'w session_store \<Rightarrow> ('w, loaded) state" where
  "load_session T = State_Monad.bind (st_read T) (\<lambda>r. case r of
     Err None \<Rightarrow> State_Monad.return Missing
   | Err (Some e) \<Rightarrow> State_Monad.return (Unreadable (st_path T) (''it cannot be read ('' @ e @ '')''))
   | Ok bs \<Rightarrow>
       (case and_then (st_parse T bs) (\<lambda>v. ok_or (read_session v) (st_session_error T v)) of
          Err e \<Rightarrow> State_Monad.return (Unreadable (st_path T) (''it is not a sign-in this CLI wrote ('' @ e @ '')''))
        | Ok s \<Rightarrow>
            if \<not> usable T s then State_Monad.return (Unreadable (st_path T)
              ''it was written for another format, app or Silicon Accounts, or it is incomplete'')
            else State_Monad.bind (tighten T) (\<lambda>warning. State_Monad.return (Loaded s warning))))"

definition save_session :: "'w session_store \<Rightarrow> stored_session \<Rightarrow> ('w, unit, cli_error) call" where
  "save_session T s = st_write_private T (st_pretty T (session_json s))"

definition remove_session :: "'w session_store \<Rightarrow> ('w, bool, cli_error) call" where
  "remove_session T = State_Monad.bind (st_unlink T) (\<lambda>r. case r of
     Ok _ \<Rightarrow> done_with True
   | Err None \<Rightarrow> done_with False
   | Err (Some e) \<Rightarrow> throw (cli_local (''Cannot delete '' @ st_path T @ '': '' @ e @ ''.'')
       ''Delete it by hand; it holds this machine's Waveform sign-in.''))"

text \<open>The lock is held while \<open>body\<close> runs and dropped with its guard.\<close>

definition with_lock :: "'w session_store \<Rightarrow> ('w, 'a, cli_error) call \<Rightarrow> ('w, 'a, cli_error) call" where
  "with_lock T body = try_call (st_lock T) (\<lambda>_.
     State_Monad.bind body (\<lambda>r. State_Monad.bind (st_unlock T) (\<lambda>_. State_Monad.return r)))"

end
