(* ===== verification/Cli_Auth.thy ===== *)
theory Cli_Auth
  imports Session
begin

text \<open>
  \<open>src/cli/src/auth.rs\<close>: signing in and out, the refresh of the saved sign-in, and authenticated calls. The
  time of the system, the terminal and standard input are parameters.
\<close>

record 'w ctx =
  cx_json :: bool
  cx_api_url :: string
  cx_accounts_url :: string
  cx_profile :: string
  cx_store :: "'w session_store"
  cx_crates :: client_crates
  cx_connect :: "url \<Rightarrow> ('w client, client_error) result"
  cx_sign_in :: "('w sign_in, sign_in_error) result"
  cx_now :: "('w, int) state"
  cx_warn :: "string \<Rightarrow> ('w, unit) state"
  cx_announce :: "device_code \<Rightarrow> ('w, unit) state"
  cx_progress :: "device_progress \<Rightarrow> ('w, unit) state"
  cx_rfc3339 :: "int \<Rightarrow> string option"
  cx_texts :: "client_error \<Rightarrow> string"

definition api :: "'w ctx \<Rightarrow> ('w client, cli_error) result" where
  "api X = map_err (cli_error_of_client (cx_texts X)) (client_new (cx_crates X) (cx_connect X) (cx_api_url X) Anonymous)"

definition signin :: "'w ctx \<Rightarrow> ('w sign_in, cli_error) result" where
  "signin X = map_err cli_error_of_sign_in (cx_sign_in X)"

definition int_text :: "int \<Rightarrow> string" where
  "int_text n = (if n < 0 then CHR ''-'' # decimal (nat (- n)) else decimal (nat n))"

definition rfc3339 :: "'w ctx \<Rightarrow> int \<Rightarrow> string" where
  "rfc3339 X unix = (case cx_rfc3339 X unix of Some t \<Rightarrow> t | None \<Rightarrow> int_text unix)"

section \<open>What goes wrong\<close>

definition sign_in_again :: "string \<Rightarrow> string \<Rightarrow> string" where
  "sign_in_again before_carbon before_silicon =
     before_carbon @ CARBON_SIGN_IN @ before_silicon @ SILICON_SIGN_IN"

definition not_signed_in :: "'w ctx \<Rightarrow> ('w, cli_error) state" where
  "not_signed_in X =
     (let message = ''This machine is not signed in to Waveform (profile `'' @ cx_profile X @ ''`, Silicon Accounts '' @
            cx_accounts_url X @ '').'';
          refusal = (\<lambda>extra. cli_error_new EXIT_AUTH ''not_signed_in'' (message @ extra)
            (sign_in_again ''Carbons: `'' ''`. Silicons: `'' @ ''`.'')) in
      State_Monad.bind (st_legacy_files (cx_store X)) (\<lambda>legacy.
      if legacy \<noteq> [] then State_Monad.return (refusal
        '' A sign-in saved by an earlier Waveform version was found; it cannot be used any more.'')
      else State_Monad.bind (st_other_origins (cx_store X)) (\<lambda>others. case others of
        [] \<Rightarrow> State_Monad.return (refusal [])
      | other # _ \<Rightarrow> State_Monad.return (refusal ('' This profile is signed in at '' @ other @
          '' instead; pass --accounts-url '' @ other @ '' (or ACCOUNTS_URL) to use it.'')))))"

definition unreadable :: "string \<Rightarrow> string \<Rightarrow> cli_error" where
  "unreadable path why = cli_error_new EXIT_AUTH ''session_unreadable''
     (''The saved sign-in '' @ path @ '' cannot be used: '' @ why @ ''.'')
     (sign_in_again ''Sign in again (Carbons: `'' ''`; Silicons: `'' @ ''`); the new sign-in replaces it.'')"

definition ended_error :: "stored_session \<Rightarrow> string \<Rightarrow> cli_error" where
  "ended_error s why = cli_error_new EXIT_AUTH ''sign_in_ended''
     (''The Waveform sign-in of '' @ account_label (ssn_account s) @ '' ended: '' @ why)
     (sign_in_again ''Sign in again: Carbons run `'' ''`; Silicons run `'' @ ''`.'')"

definition session_changed :: "stored_session \<Rightarrow> cli_error" where
  "session_changed s = cli_error_new EXIT_AUTH ''session_changed''
     (''The saved sign-in changed while this command ran: this profile is now signed in as '' @
       account_label (ssn_account s) @ ''.'') ''Run the command again.''"

definition warn_if :: "'w ctx \<Rightarrow> string option \<Rightarrow> ('w, unit) state" where
  "warn_if X warning = (case warning of Some t \<Rightarrow> cx_warn X t | None \<Rightarrow> State_Monad.return ())"

section \<open>A fresh sign-in\<close>

text \<open>The sign-in to start from: the saved one, or why there is none to use.\<close>

definition loaded_session :: "'w ctx \<Rightarrow> loaded \<Rightarrow> ('w, stored_session \<times> string option, cli_error) call" where
  "loaded_session X l = (case l of
     Missing \<Rightarrow> State_Monad.bind (not_signed_in X) throw
   | Unreadable path why \<Rightarrow> throw (unreadable path why)
   | Loaded s warning \<Rightarrow> done_with (s, warning))"

text \<open>Whether the sign-in found under the lock is used as it is.\<close>

definition someone_else_refreshed :: "string option \<Rightarrow> stored_session \<Rightarrow> int \<Rightarrow> bool" where
  "someone_else_refreshed refused latest at =
     ((case refused of Some token \<Rightarrow> ssn_access_token latest \<noteq> token | None \<Rightarrow> True) \<and> \<not> needs_refresh latest at)"

text \<open>What the answer to a refresh does to the saved sign-in.\<close>

definition after_refresh ::
    "'w ctx \<Rightarrow> stored_session \<Rightarrow> (tokens, sign_in_error) result \<Rightarrow> ('w, stored_session, cli_error) call" where
  "after_refresh X latest r = (case r of
     Ok t \<Rightarrow> State_Monad.bind (cx_now X) (\<lambda>now.
       let s = rotated latest t now in
       try_call (save_session (cx_store X) s) (\<lambda>_. done_with s))
   | Err e \<Rightarrow> (case e of
       sign_in_error.SignInEnded description \<Rightarrow>
         State_Monad.bind (load_session (cx_store X)) (\<lambda>l.
         try_call (case l of
             Loaded s _ \<Rightarrow>
               if ssn_refresh_token s = ssn_refresh_token latest then remove_session (cx_store X) else done_with False
           | _ \<Rightarrow> done_with False) (\<lambda>_.
         throw (ended_error latest description)))
     | _ \<Rightarrow> throw (cli_error_of_sign_in e)))"

definition refresh_locked :: "'w ctx \<Rightarrow> string option \<Rightarrow> stored_session \<Rightarrow> ('w, stored_session, cli_error) call" where
  "refresh_locked X refused current =
     State_Monad.bind (load_session (cx_store X)) (\<lambda>l.
     try_call (loaded_session X l) (\<lambda>(latest, _).
     if cca_uuid (ssn_account latest) \<noteq> cca_uuid (ssn_account current) then throw (session_changed latest)
     else State_Monad.bind (cx_now X) (\<lambda>now.
       if someone_else_refreshed refused latest now then done_with latest
       else try_call (lift_result (signin X)) (\<lambda>S.
         State_Monad.bind (refresh_tokens S (ssn_refresh_token latest)) (after_refresh X latest)))))"

definition ensure_fresh :: "'w ctx \<Rightarrow> string option \<Rightarrow> ('w, stored_session, cli_error) call" where
  "ensure_fresh X refused =
     State_Monad.bind (load_session (cx_store X)) (\<lambda>l.
     try_call (loaded_session X l) (\<lambda>(current, warning).
     State_Monad.bind (warn_if X warning) (\<lambda>_.
     State_Monad.bind (cx_now X) (\<lambda>now.
     if session_ended current now then
       throw (ended_error current (''it expired at '' @
         rfc3339 X (case ssn_refresh_expires_at current of Some e \<Rightarrow> e | None \<Rightarrow> 0) @ ''.''))
     else State_Monad.bind (if refused = None
         then State_Monad.bind (cx_now X) (\<lambda>now. State_Monad.return (\<not> needs_refresh current now))
         else State_Monad.return False) (\<lambda>fresh.
       if fresh then done_with current
       else with_lock (cx_store X) (refresh_locked X refused current))))))"

section \<open>Authenticated calls\<close>

definition call_with_session ::
    "'w ctx \<Rightarrow> ('w client \<Rightarrow> ('w, 'a, client_error) call) \<Rightarrow> ('w, 'a \<times> stored_session, cli_error) call" where
  "call_with_session X run_op =
     try_call (lift_result (api X)) (\<lambda>c.
     try_call (ensure_fresh X None) (\<lambda>session.
     State_Monad.bind (run_op (with_bearer (ssn_access_token session) c)) (\<lambda>r. case r of
       Ok v \<Rightarrow> done_with (v, session)
     | Err e \<Rightarrow>
         if is_stale_credential e then
           try_call (ensure_fresh X (Some (ssn_access_token session))) (\<lambda>session.
           on_err (cli_error_of_client (cx_texts X))
             (try_call (run_op (with_bearer (ssn_access_token session) c)) (\<lambda>v. done_with (v, session))))
         else throw (cli_error_of_client (cx_texts X) e))))"

definition cli_call :: "'w ctx \<Rightarrow> ('w client \<Rightarrow> ('w, 'a, client_error) call) \<Rightarrow> ('w, 'a, cli_error) call" where
  "cli_call X run_op = try_call (call_with_session X run_op) (\<lambda>(v, _). done_with v)"

definition proof_client :: "'w ctx \<Rightarrow> (string, cli_error) result \<Rightarrow> ('w client, cli_error) result" where
  "proof_client X secret =
     and_then secret (\<lambda>p. and_then (api X) (\<lambda>c. map_err (cli_error_of_client (cx_texts X)) (with_proof p c)))"

section \<open>Status\<close>

definition status_json :: "'w ctx \<Rightarrow> stored_session \<Rightarrow> bool \<Rightarrow> json" where
  "status_json X s verified = json_object
     [(''authenticated'', JBool True), (''app_id'', JString APP_ID),
      (''uuid'', JString (cca_uuid (ssn_account s))), (''id'', json_option JString (cca_id (ssn_account s))),
      (''kind'', JString (cca_kind (ssn_account s))),
      (''display_name'', json_option JString (cca_display_name (ssn_account s))),
      (''custodian'', json_option (\<lambda>r. json_object
        [(''uuid'', JString (ccr_uuid r)), (''id'', json_option JString (ccr_id r))]) (cca_custodian (ssn_account s))),
      (''expires_at'', JString (rfc3339 X (ssn_expires_at s))),
      (''refresh_expires_at'', json_option (\<lambda>e. JString (rfc3339 X e)) (ssn_refresh_expires_at s)),
      (''accounts_url'', JString (ssn_accounts_url s)), (''api_url'', JString (normalize_url (cx_api_url X))),
      (''profile'', JString (cx_profile X)), (''method'', JString (ssn_method s)), (''verified'', JBool verified)]"

definition title :: "string \<Rightarrow> string" where
  "title kind = (if kind = ''silicon'' then ''Silicon'' else ''Carbon'')"

definition signed_in_text :: "'w ctx \<Rightarrow> stored_session \<Rightarrow> bool \<Rightarrow> string" where
  "signed_in_text X s verified =
     (let a = ssn_account s; name = (case cca_display_name a of Some n \<Rightarrow> '' ('' @ n @ '')'' | None \<Rightarrow> []) in
      join_with [CHR 0x0A] (
        [''Signed in to Waveform as '' @ account_label a @ name @ '', a '' @ title (cca_kind a) @ ''.'',
         ''  uuid              '' @ cca_uuid a] @
        (case cca_custodian a of
           Some c \<Rightarrow> [''  custodian         '' @ (case ccr_id c of Some i \<Rightarrow> i | None \<Rightarrow> ccr_uuid c)] | None \<Rightarrow> []) @
        [''  access token      expires '' @ rfc3339 X (ssn_expires_at s) @ '' (refreshed automatically)''] @
        (case ssn_refresh_expires_at s of Some e \<Rightarrow> [''  sign-in ends      '' @ rfc3339 X e] | None \<Rightarrow> []) @
        [''  Silicon Accounts  '' @ ssn_accounts_url s, ''  Waveform          '' @ normalize_url (cx_api_url X)] @
        (if cx_profile X \<noteq> ''default'' then [''  profile           '' @ cx_profile X] else []) @
        [''  checked           '' @ (if verified then ''yes, Waveform accepted the sign-in just now''
           else ''no (saved sign-in, not checked with Waveform)'')]))"

definition not_signed_in_outcome :: "'w ctx \<Rightarrow> json \<Rightarrow> string \<Rightarrow> outcome" where
  "not_signed_in_outcome X v why = outcome_exit (if cx_json X then 0 else 1)
     (outcome_new v (sign_in_again (why @ [CHR 0x0A] @ ''Carbons: '') ([CHR 0x0A] @ ''Silicons: '')))"

definition check_with_waveform :: "'w ctx \<Rightarrow> ('w, client_me \<times> stored_session, cli_error) call" where
  "check_with_waveform X = call_with_session X client_me_of"

text \<open>The id, the name and the custodian as Waveform reports them.\<close>

definition with_reported :: "client_account \<Rightarrow> client_account \<Rightarrow> client_account" where
  "with_reported reported a = a\<lparr>cca_id := cca_id reported,
     cca_display_name := (if cca_display_name reported \<noteq> None then cca_display_name reported else cca_display_name a),
     cca_custodian := cca_custodian reported\<rparr>"

definition remember_account :: "'w ctx \<Rightarrow> stored_session \<Rightarrow> client_me \<Rightarrow> ('w, unit) state" where
  "remember_account X session me =
     (let a = cme_account me; saved = ssn_account session in
      if cca_uuid a \<noteq> cca_uuid saved \<or>
        cca_id a = cca_id saved \<and> cca_display_name a = cca_display_name saved \<and> cca_custodian a = cca_custodian saved
      then State_Monad.return ()
      else ignore (with_lock (cx_store X) (State_Monad.bind (load_session (cx_store X)) (\<lambda>l. case l of
          Loaded latest _ \<Rightarrow>
            if cca_uuid (ssn_account latest) = cca_uuid a
            then save_session (cx_store X) (latest\<lparr>ssn_account := with_reported a (ssn_account latest)\<rparr>)
            else done_with ()
        | _ \<Rightarrow> done_with ()))))"

definition unauthenticated :: "(string \<times> json) list \<Rightarrow> json" where
  "unauthenticated extra = json_object ([(''authenticated'', JBool False)] @ extra)"

definition unauthenticated_because :: "string \<Rightarrow> string \<Rightarrow> json" where
  "unauthenticated_because reason message =
     unauthenticated [(''reason'', JString reason), (''message'', JString message)]"

text \<open>\<open>login status\<close> of a profile without a sign-in.\<close>

definition status_missing :: "'w ctx \<Rightarrow> ('w, outcome) state" where
  "status_missing X =
     (let why = ''Not signed in to Waveform (profile `'' @ cx_profile X @ ''`, Silicon Accounts '' @ cx_accounts_url X @ '').'' in
      State_Monad.bind (st_legacy_files (cx_store X)) (\<lambda>legacy.
      if legacy \<noteq> [] then State_Monad.return (not_signed_in_outcome X
        (unauthenticated_because ''legacy_session''
          ''A sign-in saved by an earlier Waveform version was found; it cannot be used with Silicon Accounts. Sign in again.'')
        (why @ '' A sign-in saved by an earlier Waveform version was found; it cannot be used any more, so sign in again.''))
      else State_Monad.bind (st_other_origins (cx_store X)) (\<lambda>others. State_Monad.return (case others of
        [] \<Rightarrow> not_signed_in_outcome X (unauthenticated []) why
      | other # _ \<Rightarrow> not_signed_in_outcome X
          (unauthenticated [(''reason'', JString ''signed_in_elsewhere''), (''session_accounts_url'', JString other)])
          (why @ '' This profile is signed in at '' @ other @ ''; pass --accounts-url '' @ other @ '' to use it.'')))))"

text \<open>What a failed check with Waveform means for the saved sign-in.\<close>

definition status_after_failure :: "'w ctx \<Rightarrow> stored_session \<Rightarrow> cli_error \<Rightarrow> ('w, outcome) state" where
  "status_after_failure X session e =
     (if xe_code e \<in> {''sign_in_ended'', ''not_signed_in'', ''session_unreadable''} then
        State_Monad.return (not_signed_in_outcome X
          (unauthenticated_because (if xe_code e = ''sign_in_ended'' then ''session_ended'' else xe_code e) (xe_message e))
          (xe_message e))
      else if xe_exit e = EXIT_AUTH then
        (let reason = (case Option.bind (xe_details e) (\<lambda>d. as_str (value_at d ''reason'')) of Some r \<Rightarrow> r | None \<Rightarrow> xe_code e);
             v = unauthenticated_because reason (xe_message e);
             v = (case xe_hint e of Some h \<Rightarrow> with_member v ''hint'' (JString h) | None \<Rightarrow> v) in
         State_Monad.return (not_signed_in_outcome X v
           (''Waveform at '' @ normalize_url (cx_api_url X) @ '' refused the saved sign-in: '' @ xe_message e)))
      else State_Monad.bind (cx_warn X (xe_message e @ '' Reporting the saved sign-in without checking it.'')) (\<lambda>_.
        State_Monad.return (outcome_new (with_member (status_json X session False) ''warning'' (JString (xe_message e)))
          (signed_in_text X session False))))"

definition cli_status :: "'w ctx \<Rightarrow> bool \<Rightarrow> ('w, outcome, cli_error) call" where
  "cli_status X offline =
     State_Monad.bind (load_session (cx_store X)) (\<lambda>l. case l of
       Missing \<Rightarrow> State_Monad.bind (status_missing X) done_with
     | Unreadable path why \<Rightarrow>
         (let message = ''The saved sign-in '' @ path @ '' cannot be used: '' @ why @ ''.'' in
          done_with (not_signed_in_outcome X (unauthenticated_because ''session_unreadable'' message) message))
     | Loaded session warning \<Rightarrow>
         State_Monad.bind (warn_if X warning) (\<lambda>_.
         State_Monad.bind (cx_now X) (\<lambda>now.
         if session_ended session now then
           (let message = ''The Waveform sign-in of '' @ account_label (ssn_account session) @ '' ended at '' @
                rfc3339 X (case ssn_refresh_expires_at session of Some e \<Rightarrow> e | None \<Rightarrow> 0) @ ''.'' in
            done_with (not_signed_in_outcome X (unauthenticated_because ''session_ended'' message) message))
         else if offline then done_with (outcome_new (status_json X session False) (signed_in_text X session False))
         else State_Monad.bind (check_with_waveform X) (\<lambda>r. case r of
           Ok (me, latest) \<Rightarrow>
             State_Monad.bind (remember_account X latest me) (\<lambda>_.
             let shown = latest\<lparr>ssn_account := with_reported (cme_account me) (ssn_account latest)\<rparr> in
             done_with (outcome_new (status_json X shown True) (signed_in_text X shown True)))
         | Err e \<Rightarrow> State_Monad.bind (status_after_failure X session e) done_with))))"

section \<open>Login, refresh and logout\<close>

text \<open>The device flow with at most \<open>n\<close> rounds of polling.\<close>

definition device_flow ::
    "nat \<Rightarrow> 'w ctx \<Rightarrow> 'w sign_in \<Rightarrow> string \<Rightarrow> ('w, (tokens, cli_error) result option) state" where
  "device_flow n X S label =
     State_Monad.bind (start_device S (Some label)) (\<lambda>r. case r of
       Err e \<Rightarrow> State_Monad.return (Some (Err (cli_error_of_sign_in e)))
     | Ok d \<Rightarrow> State_Monad.bind (cx_announce X d) (\<lambda>_.
         State_Monad.bind (device_sign_in n S (cx_progress X) d) (\<lambda>r.
         State_Monad.return (map_option (map_err cli_error_of_sign_in) r))))"

text \<open>The sign-in that replaces the saved one, and the one it replaced.\<close>

definition replace_session :: "'w ctx \<Rightarrow> stored_session \<Rightarrow> ('w, stored_session option, cli_error) call" where
  "replace_session X session = with_lock (cx_store X)
     (State_Monad.bind (load_session (cx_store X)) (\<lambda>l.
      try_call (save_session (cx_store X) session) (\<lambda>_.
      done_with (case l of Loaded s _ \<Rightarrow> Some s | _ \<Rightarrow> None))))"

definition end_replaced :: "'w ctx \<Rightarrow> 'w sign_in \<Rightarrow> stored_session \<Rightarrow> stored_session option \<Rightarrow> ('w, unit) state" where
  "end_replaced X S session replaced = (case replaced of
     Some previous \<Rightarrow>
       if ssn_refresh_token previous = ssn_refresh_token session then State_Monad.return ()
       else State_Monad.bind (revoke_token S (ssn_refresh_token previous)) (\<lambda>r. case r of
           Ok _ \<Rightarrow> State_Monad.return ()
         | Err e \<Rightarrow> cx_warn X (''The previous sign-in of '' @ account_label (ssn_account previous) @
             '' on this machine could not be ended at Silicon Accounts ('' @ sign_in_message e @
             ''); it ends by itself when it expires.''))
   | None \<Rightarrow> State_Monad.return ())"

definition signed_in_outcome :: "'w ctx \<Rightarrow> stored_session \<Rightarrow> client_error option \<Rightarrow> ('w, outcome) state" where
  "signed_in_outcome X session failure =
     (let warning = map_option (\<lambda>e. ''The sign-in is saved, but Waveform at '' @ normalize_url (cx_api_url X) @
            '' did not accept it yet: '' @ client_message (cx_texts X) e @
            (case client_hint e of Some h \<Rightarrow> '' Hint: '' @ h | None \<Rightarrow> [])) failure;
          verified = (failure = None);
          v = with_member (status_json X session verified) ''event'' (JString ''signed_in'');
          v = (case warning of Some t \<Rightarrow> with_member v ''warning'' (JString t) | None \<Rightarrow> v) in
      State_Monad.bind (warn_if X warning) (\<lambda>_.
      State_Monad.return ((outcome_new v (signed_in_text X session verified))\<lparr>oc_compact := True\<rparr>)))"

definition keep_tokens :: "'w ctx \<Rightarrow> 'w sign_in \<Rightarrow> tokens \<Rightarrow> string \<Rightarrow> ('w, outcome, cli_error) call" where
  "keep_tokens X S t method =
     State_Monad.bind (cx_now X) (\<lambda>now.
     let session = from_tokens t (cx_accounts_url X) method now in
     try_call (replace_session X session) (\<lambda>replaced.
     State_Monad.bind (end_replaced X S session replaced) (\<lambda>_.
     try_call (lift_result (api X)) (\<lambda>c.
     State_Monad.bind (client_me_of (with_bearer (ssn_access_token session) c)) (\<lambda>r.
     State_Monad.bind (signed_in_outcome X session (case r of Ok _ \<Rightarrow> None | Err e \<Rightarrow> Some e)) done_with)))))"

definition login :: "nat \<Rightarrow> 'w ctx \<Rightarrow> (string option, cli_error) result \<Rightarrow> string \<Rightarrow>
     ('w, (outcome, cli_error) result option) state" where
  "login n X slt label =
     (case and_then slt (\<lambda>s. map_ok (Pair s) (signin X)) of
        Err e \<Rightarrow> State_Monad.return (Some (Err e))
      | Ok (Some token, S) \<Rightarrow>
          State_Monad.bind (try_call (on_err cli_error_of_sign_in (exchange_slt S token)) (\<lambda>t. keep_tokens X S t ''slt''))
            (\<lambda>r. State_Monad.return (Some r))
      | Ok (None, S) \<Rightarrow>
          State_Monad.bind (device_flow n X S label) (\<lambda>r. case r of
            None \<Rightarrow> State_Monad.return None
          | Some (Err e) \<Rightarrow> State_Monad.return (Some (Err e))
          | Some (Ok t) \<Rightarrow> State_Monad.bind (keep_tokens X S t ''device'') (\<lambda>r. State_Monad.return (Some r))))"

definition cli_refresh :: "'w ctx \<Rightarrow> ('w, outcome, cli_error) call" where
  "cli_refresh X =
     State_Monad.bind (load_session (cx_store X)) (\<lambda>l.
     try_call (loaded_session X l) (\<lambda>(current, _).
     try_call (ensure_fresh X (Some (ssn_access_token current))) (\<lambda>s.
     done_with (outcome_new (json_object
         [(''refreshed'', JBool True), (''uuid'', JString (cca_uuid (ssn_account s))),
          (''id'', json_option JString (cca_id (ssn_account s))),
          (''expires_at'', JString (rfc3339 X (ssn_expires_at s))),
          (''refresh_expires_at'', json_option (\<lambda>e. JString (rfc3339 X e)) (ssn_refresh_expires_at s))])
       (''Refreshed the sign-in of '' @ account_label (ssn_account s) @ ''; the access token now expires '' @
         rfc3339 X (ssn_expires_at s) @ ''.'')))))"

definition logout_warning :: "sign_in_error \<Rightarrow> string" where
  "logout_warning e = ''Could not end the sign-in at Silicon Accounts ('' @ sign_in_message e @
     ''); it is deleted from this machine anyway. End it from your account's sign-ins on the account site, or let it expire.''"

text \<open>Under the lock: the sign-in is ended at Silicon Accounts if it can be, and deleted in any case.\<close>

definition end_saved_sign_in :: "'w ctx \<Rightarrow> ('w, client_account option \<times> bool, cli_error) call" where
  "end_saved_sign_in X =
     State_Monad.bind (load_session (cx_store X)) (\<lambda>l. case l of
       Loaded s _ \<Rightarrow>
         try_call (lift_result (signin X)) (\<lambda>S.
         State_Monad.bind (revoke_token S (ssn_refresh_token s)) (\<lambda>r. case r of
           Ok _ \<Rightarrow> done_with (Some (ssn_account s), True)
         | Err e \<Rightarrow> State_Monad.bind (cx_warn X (logout_warning e)) (\<lambda>_. done_with (Some (ssn_account s), False))))
     | _ \<Rightarrow> done_with (None, False))"

definition logout_nothing :: "nat \<Rightarrow> outcome" where
  "logout_nothing legacy =
     (if legacy = 0 then outcome_new (json_object [(''signed_out'', JBool False), (''reason'', JString ''not_signed_in'')])
        ''This machine was not signed in to Waveform; nothing to do.''
      else outcome_new (json_object [(''signed_out'', JBool True), (''revoked'', JBool False),
          (''legacy_files_removed'', JNumber (PosInt legacy))])
        (''Deleted '' @ decimal legacy @
         '' file(s) left by an earlier Waveform version (its saved sign-ins and cached test secrets). Those sign-ins could not be ended online; that sign-in system is retired.''))"

definition logout :: "'w ctx \<Rightarrow> ('w, outcome, cli_error) call" where
  "logout X =
     State_Monad.bind (load_session (cx_store X)) (\<lambda>l.
     if l = Missing then State_Monad.bind (st_remove_legacy (cx_store X)) (\<lambda>n. done_with (logout_nothing n))
     else with_lock (cx_store X)
       (try_call (end_saved_sign_in X) (\<lambda>(account, revoked).
        try_call (remove_session (cx_store X)) (\<lambda>_.
        State_Monad.bind (st_remove_legacy (cx_store X)) (\<lambda>legacy.
        done_with (outcome_new (json_object
            [(''signed_out'', JBool True), (''uuid'', json_option (\<lambda>a. JString (cca_uuid a)) account),
             (''id'', json_option JString (Option.bind account cca_id)), (''revoked'', JBool revoked),
             (''legacy_files_removed'', JNumber (PosInt legacy))])
          (''Signed out '' @ (case account of Some a \<Rightarrow> account_label a | None \<Rightarrow> ''this machine'') @ '' from Waveform'' @
           (if revoked then '' and ended the sign-in at Silicon Accounts'' else []) @ ''.'')))))))"

end
