(* ===== verification/Session_Steps.thy ===== *)
theory Session_Steps
  imports Cli_Auth
begin

text \<open>
  Several processes of the command line tool on one saved sign-in: each operation of \<open>auth.rs\<close> as its
  steps between the points where another process may run, with the decisions of the code. The world is
  the file, the lock, the refresh tokens presented and issued so far, and the tokens whose presentation had
  no saved outcome (\<open>sg_lost\<close>): no answer, an answer that could not be saved, or a process that died.
\<close>

section \<open>The processes\<close>

datatype task =
    Refresh "string option" stored_session
  | Replace stored_session
  | Delete
  | Remember client_account

datatype phase = Idle | Waiting task | Holding task | Refreshing stored_session

record sign_in_state =
  sg_file :: "stored_session option"
  sg_lock :: "nat option"
  sg_phase :: "nat \<Rightarrow> phase"
  sg_presented :: "string list"
  sg_issued :: "string set"
  sg_lost :: "string set"

definition set_phase :: "nat \<Rightarrow> phase \<Rightarrow> sign_in_state \<Rightarrow> sign_in_state" where
  "set_phase p ph s = s\<lparr>sg_phase := (sg_phase s)(p := ph)\<rparr>"

text \<open>The end of a locked operation: the guard is dropped.\<close>

definition unlocked :: "nat \<Rightarrow> sign_in_state \<Rightarrow> sign_in_state" where
  "unlocked p s = (set_phase p Idle s)\<lparr>sg_lock := None\<rparr>"

text \<open>A refresh is tried when the sign-in found under the lock is the same account's and still to be refreshed.\<close>

definition presents :: "string option \<Rightarrow> stored_session \<Rightarrow> stored_session \<Rightarrow> int \<Rightarrow> bool" where
  "presents refused current latest at \<longleftrightarrow>
     cca_uuid (ssn_account latest) = cca_uuid (ssn_account current) \<and> \<not> someone_else_refreshed refused latest at"

text \<open>Silicon Accounts never issues a refresh token twice: \<open>t\<close> is new.\<close>

definition issue_tokens :: "tokens \<Rightarrow> sign_in_state \<Rightarrow> sign_in_state" where
  "issue_tokens t s = s\<lparr>sg_issued := insert (tn_refresh_token t) (sg_issued s)\<rparr>"

definition lose :: "stored_session \<Rightarrow> sign_in_state \<Rightarrow> sign_in_state" where
  "lose x s = s\<lparr>sg_lost := insert (ssn_refresh_token x) (sg_lost s)\<rparr>"

definition without_refused :: "stored_session \<Rightarrow> sign_in_state \<Rightarrow> sign_in_state" where
  "without_refused latest s = s\<lparr>sg_file := (case sg_file s of
     Some f \<Rightarrow> if ssn_refresh_token f = ssn_refresh_token latest then None else Some f | None \<Rightarrow> None)\<rparr>"

inductive sign_in_step :: "sign_in_state \<Rightarrow> nat \<Rightarrow> sign_in_state \<Rightarrow> bool" where
  start_refresh:
    "sg_phase s p = Idle \<Longrightarrow> sg_file s = Some current \<Longrightarrow> \<not> session_ended current now \<Longrightarrow>
     refused \<noteq> None \<or> needs_refresh current now' \<Longrightarrow>
     sign_in_step s p (set_phase p (Waiting (Refresh refused current)) s)"
| start_login:
    "sg_phase s p = Idle \<Longrightarrow> tn_refresh_token t \<notin> sg_issued s \<Longrightarrow>
     sign_in_step s p (issue_tokens t (set_phase p (Waiting (Replace (from_tokens t accounts_url method now))) s))"
| start_logout: "sg_phase s p = Idle \<Longrightarrow> sign_in_step s p (set_phase p (Waiting Delete) s)"
| start_remember: "sg_phase s p = Idle \<Longrightarrow> sign_in_step s p (set_phase p (Waiting (Remember a)) s)"
| acquire:
    "sg_phase s p = Waiting task \<Longrightarrow> sg_lock s = None \<Longrightarrow>
     sign_in_step s p ((set_phase p (Holding task) s)\<lparr>sg_lock := Some p\<rparr>)"
| give_up: "sg_phase s p = Waiting task \<Longrightarrow> sign_in_step s p (set_phase p Idle s)"
| leave: "sg_phase s p = Holding task \<Longrightarrow> sign_in_step s p (unlocked p s)"
| present:
    "sg_phase s p = Holding (Refresh refused current) \<Longrightarrow> sg_file s = Some latest \<Longrightarrow>
     presents refused current latest now \<Longrightarrow>
     sign_in_step s p ((set_phase p (Refreshing latest) s)
       \<lparr>sg_presented := ssn_refresh_token latest # sg_presented s\<rparr>)"
| rotate:
    "sg_phase s p = Refreshing latest \<Longrightarrow> tn_refresh_token t \<notin> sg_issued s \<Longrightarrow>
     sign_in_step s p (issue_tokens t (unlocked p s\<lparr>sg_file := Some (rotated latest t now)\<rparr>))"
| rotate_unsaved:
    "sg_phase s p = Refreshing latest \<Longrightarrow> tn_refresh_token t \<notin> sg_issued s \<Longrightarrow>
     sign_in_step s p (lose latest (issue_tokens t (unlocked p s)))"
| sign_in_over: "sg_phase s p = Refreshing latest \<Longrightarrow> sign_in_step s p (unlocked p (without_refused latest s))"
| not_answered: "sg_phase s p = Refreshing latest \<Longrightarrow> sign_in_step s p (lose latest (unlocked p s))"
| replace: "sg_phase s p = Holding (Replace x) \<Longrightarrow> sign_in_step s p (unlocked p (s\<lparr>sg_file := Some x\<rparr>))"
| delete: "sg_phase s p = Holding Delete \<Longrightarrow> sign_in_step s p (unlocked p (s\<lparr>sg_file := None\<rparr>))"
| remember:
    "sg_phase s p = Holding (Remember a) \<Longrightarrow> sg_file s = Some latest \<Longrightarrow>
     cca_uuid (ssn_account latest) = cca_uuid a \<Longrightarrow>
     sign_in_step s p (unlocked p (s\<lparr>sg_file := Some (latest\<lparr>ssn_account := with_reported a (ssn_account latest)\<rparr>)\<rparr>))"
| die_idle: "sg_lock s \<noteq> Some p \<Longrightarrow> sign_in_step s p (set_phase p Idle s)"
| die_holding: "sg_phase s p = Holding task \<Longrightarrow> sign_in_step s p (unlocked p s)"
| die_refreshing: "sg_phase s p = Refreshing latest \<Longrightarrow> sign_in_step s p (lose latest (unlocked p s))"

definition sign_in_start :: "stored_session option \<Rightarrow> sign_in_state" where
  "sign_in_start f = \<lparr>sg_file = f, sg_lock = None, sg_phase = (\<lambda>_. Idle), sg_presented = [],
     sg_issued = (case f of Some x \<Rightarrow> {ssn_refresh_token x} | None \<Rightarrow> {}), sg_lost = {}\<rparr>"

inductive sign_in_reachable :: "stored_session option \<Rightarrow> sign_in_state \<Rightarrow> bool" for f where
  start: "sign_in_reachable f (sign_in_start f)"
| step: "sign_in_reachable f s \<Longrightarrow> sign_in_step s p s' \<Longrightarrow> sign_in_reachable f s'"

section \<open>The invariant\<close>

fun pending :: "phase \<Rightarrow> stored_session option" where
  "pending (Waiting (Replace x)) = Some x"
| "pending (Holding (Replace x)) = Some x"
| "pending _ = None"

fun critical :: "phase \<Rightarrow> bool" where
  "critical (Holding _) \<longleftrightarrow> True"
| "critical (Refreshing _) \<longleftrightarrow> True"
| "critical _ \<longleftrightarrow> False"

abbreviation rt :: "stored_session \<Rightarrow> string" where
  "rt \<equiv> ssn_refresh_token"

definition locked_right :: "sign_in_state \<Rightarrow> bool" where
  "locked_right s \<longleftrightarrow> (\<forall>p. critical (sg_phase s p) \<longleftrightarrow> sg_lock s = Some p) \<and>
     (\<forall>p x. sg_phase s p = Refreshing x \<longrightarrow> sg_file s = Some x)"

definition tokens_apart :: "sign_in_state \<Rightarrow> bool" where
  "tokens_apart s \<longleftrightarrow>
     (\<forall>f. sg_file s = Some f \<longrightarrow> rt f \<in> sg_issued s) \<and> set (sg_presented s) \<subseteq> sg_issued s \<and>
     (\<forall>p x. pending (sg_phase s p) = Some x \<longrightarrow> rt x \<in> sg_issued s \<and> rt x \<notin> set (sg_presented s) \<and>
        (\<forall>f. sg_file s = Some f \<longrightarrow> rt f \<noteq> rt x) \<and>
        (\<forall>q y. pending (sg_phase s q) = Some y \<longrightarrow> rt y = rt x \<longrightarrow> q = p))"

definition presented_once :: "sign_in_state \<Rightarrow> bool" where
  "presented_once s \<longleftrightarrow> (\<forall>t. count_list (sg_presented s) t \<le> 1 \<or> t \<in> sg_lost s) \<and>
     (\<forall>f. sg_file s = Some f \<longrightarrow> rt f \<in> set (sg_presented s) \<longrightarrow>
        rt f \<in> sg_lost s \<or> (\<exists>p x. sg_phase s p = Refreshing x))"

definition sign_in_inv :: "sign_in_state \<Rightarrow> bool" where
  "sign_in_inv s \<longleftrightarrow> locked_right s \<and> tokens_apart s \<and> presented_once s"

lemmas step_defs = set_phase_def unlocked_def issue_tokens_def lose_def without_refused_def

inductive_cases sign_in_stepE: "sign_in_step s p s'"

lemma locked_rightD:
  assumes "locked_right s"
  shows "sg_lock s = Some p \<longleftrightarrow> critical (sg_phase s p)"
    "q \<noteq> p \<Longrightarrow> critical (sg_phase s q) \<longleftrightarrow> sg_lock s = Some q"
    "sg_phase s p = Refreshing x \<Longrightarrow> sg_file s = Some x"
    "q \<noteq> p \<Longrightarrow> critical (sg_phase s p) \<Longrightarrow> sg_phase s q \<noteq> Refreshing x"
    "q \<noteq> p \<Longrightarrow> critical (sg_phase s p) \<Longrightarrow> sg_lock s \<noteq> Some q"
proof -
  have right: "critical (sg_phase s r) \<longleftrightarrow> sg_lock s = Some r" for r
    using assms by (simp add: locked_right_def)
  show "sg_lock s = Some p \<longleftrightarrow> critical (sg_phase s p)" "q \<noteq> p \<Longrightarrow> critical (sg_phase s q) \<longleftrightarrow> sg_lock s = Some q"
    using right by blast+
  show "sg_phase s p = Refreshing x \<Longrightarrow> sg_file s = Some x" using assms by (simp add: locked_right_def)
  show "q \<noteq> p \<Longrightarrow> critical (sg_phase s p) \<Longrightarrow> sg_phase s q \<noteq> Refreshing x"
    using right [of p] right [of q] by auto
  show "q \<noteq> p \<Longrightarrow> critical (sg_phase s p) \<Longrightarrow> sg_lock s \<noteq> Some q" using right [of p] by simp
qed

lemma locked_right_step:
  assumes "sign_in_step s p s'" "locked_right s"
  shows "locked_right s'"
proof -
  note right = locked_rightD(1) [OF assms(2), of p] locked_rightD(2-5) [OF assms(2), where p = p]
  note others = locked_rightD(3) [OF assms(2)]
  show ?thesis
    unfolding locked_right_def using assms(1)
    by cases (use right others in \<open>auto simp: step_defs split: option.splits if_splits\<close>)
qed

lemma tokens_apartD:
  assumes "tokens_apart s"
  shows "sg_file s = Some f \<Longrightarrow> rt f \<in> sg_issued s" "t \<in> set (sg_presented s) \<Longrightarrow> t \<in> sg_issued s"
    "pending (sg_phase s q) = Some x \<Longrightarrow> rt x \<in> sg_issued s"
    "pending (sg_phase s q) = Some x \<Longrightarrow> rt x \<notin> set (sg_presented s)"
    "pending (sg_phase s q) = Some x \<Longrightarrow> sg_file s = Some f \<Longrightarrow> rt f \<noteq> rt x"
    "pending (sg_phase s q) = Some x \<Longrightarrow> pending (sg_phase s r) = Some y \<Longrightarrow> rt y = rt x \<Longrightarrow> r = q"
  using assms unfolding tokens_apart_def by blast+

lemma tokens_apartI:
  assumes "\<And>f. sg_file s = Some f \<Longrightarrow> rt f \<in> sg_issued s" "\<And>t. t \<in> set (sg_presented s) \<Longrightarrow> t \<in> sg_issued s"
    and "\<And>q x. pending (sg_phase s q) = Some x \<Longrightarrow> rt x \<in> sg_issued s"
    and "\<And>q x. pending (sg_phase s q) = Some x \<Longrightarrow> rt x \<notin> set (sg_presented s)"
    and "\<And>q x f. pending (sg_phase s q) = Some x \<Longrightarrow> sg_file s = Some f \<Longrightarrow> rt f \<noteq> rt x"
    and "\<And>q r x y. pending (sg_phase s q) = Some x \<Longrightarrow> pending (sg_phase s r) = Some y \<Longrightarrow> rt y = rt x \<Longrightarrow> r = q"
  shows "tokens_apart s"
  using assms unfolding tokens_apart_def by (auto simp: subset_iff)

lemma pending_if: "pending (if b then ph else ph') = (if b then pending ph else pending ph')"
  by simp

lemma tokens_apart_step:
  assumes "sign_in_step s p s'" "locked_right s" "tokens_apart s"
  shows "tokens_apart s'"
proof -
  note apart = tokens_apartD [OF assms(3)]
  show ?thesis
    using assms(1)
  proof cases
    case (start_login t accounts_url way now)
    then show ?thesis
      by (intro tokens_apartI) (auto simp: step_defs from_tokens_def split: if_splits dest: apart)
  next
    case (present refused current latest now)
    then show ?thesis
      by (intro tokens_apartI) (auto simp: step_defs split: if_splits dest: apart)
  next
    case (rotate latest t now)
    then show ?thesis
      by (intro tokens_apartI) (auto simp: step_defs rotated_def split: if_splits dest: apart)
  next
    case (replace x)
    then have own: "pending (sg_phase s p) = Some x" by simp
    from replace apart(3,4) [OF own] show ?thesis
      by (intro tokens_apartI) (auto simp: step_defs split: if_splits dest: apart apart(6) [OF own])
  next
    case (sign_in_over latest)
    then show ?thesis
      by (intro tokens_apartI) (auto simp: step_defs split: if_splits option.splits dest: apart)
  next
    case (acquire task)
    then have "pending (sg_phase s' q) = pending (sg_phase s q)" for q
      by (cases task) (simp_all add: step_defs)
    moreover have "sg_file s' = sg_file s" "sg_issued s' = sg_issued s" "sg_presented s' = sg_presented s"
      using acquire(1) by (simp_all add: step_defs)
    ultimately have "tokens_apart s' = tokens_apart s" unfolding tokens_apart_def by presburger
    then show ?thesis using assms(3) by simp
  qed (intro tokens_apartI; auto simp: step_defs split: if_splits dest: apart)+
qed

text \<open>Who may present the token of the file: nobody twice, but for tokens that were lost.\<close>

lemma presented_onceD:
  assumes "presented_once s"
  shows "count_list (sg_presented s) t \<le> 1 \<or> t \<in> sg_lost s"
    "sg_file s = Some f \<Longrightarrow> rt f \<in> set (sg_presented s) \<Longrightarrow> rt f \<in> sg_lost s \<or> (\<exists>q x. sg_phase s q = Refreshing x)"
  using assms unfolding presented_once_def by blast+

lemma presented_once_same:
  assumes "presented_once s" "sg_presented s' = sg_presented s" "sg_lost s \<subseteq> sg_lost s'"
    and "\<And>f. sg_file s' = Some f \<Longrightarrow> rt f \<in> set (sg_presented s) \<Longrightarrow> rt f \<in> sg_lost s' \<or> (\<exists>q x. sg_phase s' q = Refreshing x)"
  shows "presented_once s'"
  using assms unfolding presented_once_def by (auto simp: subset_iff)

lemma refreshing_elsewhere:
  assumes "sg_phase s q = Refreshing x" "sg_phase s p \<noteq> Refreshing x" "\<And>r. r \<noteq> p \<Longrightarrow> sg_phase s' r = sg_phase s r"
  shows "\<exists>q x. sg_phase s' q = Refreshing x"
  using assms by metis

lemma presented_once_step:
  assumes "sign_in_step s p s'" "locked_right s" "tokens_apart s" "presented_once s"
  shows "presented_once s'"
proof -
  note once = presented_onceD [OF assms(4)] and same = presented_once_same [OF assms(4)]
  have alone: "sg_phase s q = Refreshing x \<Longrightarrow> critical (sg_phase s p) \<Longrightarrow> q = p" for q x
    using locked_rightD(4) [OF assms(2)] by blast
  have file_at: "sg_phase s p = Refreshing x \<Longrightarrow> sg_file s = Some x" for x
    using locked_rightD(3) [OF assms(2)] by blast
  have elsewhere: "rt f \<in> sg_lost s \<or> (\<exists>q x. sg_phase s q = Refreshing x \<and> q \<noteq> p)"
    if "sg_file s = Some f" "rt f \<in> set (sg_presented s)" "\<And>x. sg_phase s p \<noteq> Refreshing x" for f
    using once(2) [OF that(1,2)] that(3) by metis
  show ?thesis
    using assms(1)
  proof cases
    case (present refused current latest now)
    have "rt latest \<notin> set (sg_presented s) \<or> rt latest \<in> sg_lost s"
      using once(2) [OF present(3)] alone present(2) by fastforce
    then show ?thesis using present once(1)
      by (auto simp: presented_once_def step_defs count_list_0_iff)
  next
    case (rotate latest t now)
    then show ?thesis
      by (intro same) (auto simp: step_defs rotated_def dest: tokens_apartD(2) [OF assms(3)])
  next
    case (replace x)
    then have "pending (sg_phase s p) = Some x" by simp
    from replace tokens_apartD(4) [OF assms(3) this] show ?thesis
      by (intro same) (auto simp: step_defs)
  next
    case (rotate_unsaved latest t)
    then show ?thesis using file_at by (intro same) (auto simp: step_defs)
  next
    case (not_answered latest)
    then show ?thesis using file_at by (intro same) (auto simp: step_defs)
  next
    case (die_refreshing latest)
    then show ?thesis using file_at by (intro same) (auto simp: step_defs)
  next
    case (sign_in_over latest)
    then show ?thesis using file_at by (intro same) (auto simp: step_defs)
  next
    case (remember a latest)
    then show ?thesis using elsewhere by (intro same) (auto simp: step_defs dest!: elsewhere)
  next
    case (delete)
    then show ?thesis by (intro same) (auto simp: step_defs)
  next
    case (die_idle)
    then have "sg_phase s p \<noteq> Refreshing x" for x using locked_rightD(1) [OF assms(2), of p] by auto
    with die_idle show ?thesis by (intro same) (auto simp: step_defs dest!: elsewhere)
  qed (intro same; auto simp: step_defs dest!: elsewhere)+
qed

lemma sign_in_reachable_inv: "sign_in_reachable f s \<Longrightarrow> sign_in_inv s"
proof (induction rule: sign_in_reachable.induct)
  case start
  then show ?case
    by (auto simp: sign_in_inv_def locked_right_def tokens_apart_def presented_once_def sign_in_start_def)
next
  case (step s p s')
  then show ?case
    using locked_right_step tokens_apart_step presented_once_step by (auto simp: sign_in_inv_def)
qed


section \<open>The code runs these steps\<close>

text \<open>
  A machine of one process: what the operations of the code do to the shared state, as the step relation
  has it. \<open>view\<close> is the shared state of a world; the lock, the phases and what is lost are ghosts of it.
\<close>

definition refresh_law :: "'w sign_in \<Rightarrow> ('w \<Rightarrow> sign_in_state) \<Rightarrow> bool" where
  "refresh_law S view \<longleftrightarrow> (\<forall>t w. case run_state (refresh_tokens S t) w of
     (Ok tk, w') \<Rightarrow> view w' = issue_tokens tk ((view w)\<lparr>sg_presented := t # sg_presented (view w)\<rparr>) \<and> tn_refresh_token tk \<notin> sg_issued (view w)
   | (Err _, w') \<Rightarrow> view w' = (view w)\<lparr>sg_presented := t # sg_presented (view w)\<rparr>)"

definition on_machine :: "'w ctx \<Rightarrow> 'w sign_in \<Rightarrow> ('w \<Rightarrow> sign_in_state) \<Rightarrow> bool" where
  "on_machine X S view \<longleftrightarrow> cx_sign_in X = Ok S \<and>
     (\<forall>w. view (snd (run_state (load_session (cx_store X)) w)) = view w \<and>
        (case fst (run_state (load_session (cx_store X)) w) of Loaded f _ \<Rightarrow> sg_file (view w) = Some f | _ \<Rightarrow> True)) \<and>
     (\<forall>w. view (snd (run_state (cx_now X) w)) = view w) \<and>
     (\<forall>w. view (snd (run_state (not_signed_in X) w)) = view w) \<and>
     (\<forall>x w. view (snd (run_state (save_session (cx_store X) x) w)) =
        (case fst (run_state (save_session (cx_store X) x) w) of Ok _ \<Rightarrow> (view w)\<lparr>sg_file := Some x\<rparr> | Err _ \<Rightarrow> view w)) \<and>
     (\<forall>w. view (snd (run_state (remove_session (cx_store X)) w)) =
        (case fst (run_state (remove_session (cx_store X)) w) of Ok _ \<Rightarrow> (view w)\<lparr>sg_file := None\<rparr> | Err _ \<Rightarrow> view w)) \<and>
     refresh_law S view"

definition steps_to :: "nat \<Rightarrow> sign_in_state \<Rightarrow> sign_in_state \<Rightarrow> bool" where
  "steps_to p s s' \<longleftrightarrow> (\<exists>lost. (\<lambda>s s'. sign_in_step s p s')\<^sup>*\<^sup>* s ((unlocked p s')\<lparr>sg_lost := lost\<rparr>))"

lemma same_lost: "(unlocked p s)\<lparr>sg_lost := sg_lost s\<rparr> = unlocked p s"
  by (cases s) (simp add: step_defs)

lemma steps_leave: "sg_phase s p = Holding task \<Longrightarrow> steps_to p s s"
proof -
  assume "sg_phase s p = Holding task"
  then have "sign_in_step s p (unlocked p s)" by (rule sign_in_step.leave)
  then show ?thesis unfolding steps_to_def by (metis same_lost r_into_rtranclp)
qed

lemma steps_present:
  assumes "sg_phase s p = Holding (Refresh refused current)" "sg_file s = Some latest" "presents refused current latest now"
    and "sign_in_step ((set_phase p (Refreshing latest) s)\<lparr>sg_presented := ssn_refresh_token latest # sg_presented s\<rparr>) p
      ((unlocked p s')\<lparr>sg_lost := lost\<rparr>)"
  shows "steps_to p s s'"
  unfolding steps_to_def using sign_in_step.present [OF assms(1-3)] assms(4) by (meson converse_rtranclp_into_rtranclp r_into_rtranclp)

lemma loaded_session_run:
  "run_state (loaded_session X l) w = (case l of
     Loaded f warning \<Rightarrow> (Ok (f, warning), w)
   | Unreadable path why \<Rightarrow> (Err (unreadable path why), w)
   | Missing \<Rightarrow> (Err (fst (run_state (not_signed_in X) w)), snd (run_state (not_signed_in X) w)))"
  by (auto simp: loaded_session_def run_simps split: loaded.splits prod.splits)

text \<open>\<open>after_refresh\<close> ends the operation by one step of the relation.\<close>

lemma on_machineD:
  assumes "on_machine X S view"
  shows "cx_sign_in X = Ok S"
    "run_state (load_session (cx_store X)) w = (l, w') \<Longrightarrow> view w' = view w"
    "run_state (load_session (cx_store X)) w = (Loaded f warning, w') \<Longrightarrow> sg_file (view w) = Some f"
    "run_state (cx_now X) w = (now, w') \<Longrightarrow> view w' = view w"
    "run_state (not_signed_in X) w = (e, w') \<Longrightarrow> view w' = view w"
    "run_state (save_session (cx_store X) y) w = (Ok u, w') \<Longrightarrow> view w' = (view w)\<lparr>sg_file := Some y\<rparr>"
    "run_state (save_session (cx_store X) y) w = (Err e', w') \<Longrightarrow> view w' = view w"
    "run_state (remove_session (cx_store X)) w = (Ok b, w') \<Longrightarrow> view w' = (view w)\<lparr>sg_file := None\<rparr>"
    "run_state (remove_session (cx_store X)) w = (Err e', w') \<Longrightarrow> view w' = view w"
    "run_state (refresh_tokens S t) w = (Ok tk, w') \<Longrightarrow>
       view w' = issue_tokens tk ((view w)\<lparr>sg_presented := t # sg_presented (view w)\<rparr>) \<and> tn_refresh_token tk \<notin> sg_issued (view w)"
    "run_state (refresh_tokens S t) w = (Err e'', w') \<Longrightarrow> view w' = (view w)\<lparr>sg_presented := t # sg_presented (view w)\<rparr>"
proof -
  note law = assms [unfolded on_machine_def]
  show "cx_sign_in X = Ok S" using law by blast
  have load: "view (snd (run_state (load_session (cx_store X)) w)) = view w \<and>
      (case fst (run_state (load_session (cx_store X)) w) of Loaded f _ \<Rightarrow> sg_file (view w) = Some f | _ \<Rightarrow> True)" using law by blast
  then show "run_state (load_session (cx_store X)) w = (l, w') \<Longrightarrow> view w' = view w"
    "run_state (load_session (cx_store X)) w = (Loaded f warning, w') \<Longrightarrow> sg_file (view w) = Some f" by simp_all
  have "view (snd (run_state (cx_now X) w)) = view w" "view (snd (run_state (not_signed_in X) w)) = view w" using law by blast+
  then show "run_state (cx_now X) w = (now, w') \<Longrightarrow> view w' = view w" "run_state (not_signed_in X) w = (e, w') \<Longrightarrow> view w' = view w"
    by simp_all
  have "view (snd (run_state (save_session (cx_store X) y) w)) =
      (case fst (run_state (save_session (cx_store X) y) w) of Ok _ \<Rightarrow> (view w)\<lparr>sg_file := Some y\<rparr> | Err _ \<Rightarrow> view w)" using law by blast
  then show "run_state (save_session (cx_store X) y) w = (Ok u, w') \<Longrightarrow> view w' = (view w)\<lparr>sg_file := Some y\<rparr>"
    "run_state (save_session (cx_store X) y) w = (Err e', w') \<Longrightarrow> view w' = view w" by simp_all
  have "view (snd (run_state (remove_session (cx_store X)) w)) =
      (case fst (run_state (remove_session (cx_store X)) w) of Ok _ \<Rightarrow> (view w)\<lparr>sg_file := None\<rparr> | Err _ \<Rightarrow> view w)" using law by blast
  then show "run_state (remove_session (cx_store X)) w = (Ok b, w') \<Longrightarrow> view w' = (view w)\<lparr>sg_file := None\<rparr>"
    "run_state (remove_session (cx_store X)) w = (Err e', w') \<Longrightarrow> view w' = view w" by simp_all
  have "refresh_law S view" using law by blast
  note this [unfolded refresh_law_def, rule_format, of t w]
  then show "run_state (refresh_tokens S t) w = (Ok tk, w') \<Longrightarrow>
       view w' = issue_tokens tk ((view w)\<lparr>sg_presented := t # sg_presented (view w)\<rparr>) \<and> tn_refresh_token tk \<notin> sg_issued (view w)"
    "run_state (refresh_tokens S t) w = (Err e'', w') \<Longrightarrow> view w' = (view w)\<lparr>sg_presented := t # sg_presented (view w)\<rparr>"
    by simp_all
qed

definition asked :: "nat \<Rightarrow> stored_session \<Rightarrow> sign_in_state \<Rightarrow> sign_in_state" where
  "asked p latest s = (set_phase p (Refreshing latest) s)\<lparr>sg_presented := ssn_refresh_token latest # sg_presented s\<rparr>"

text \<open>\<open>after_refresh\<close> ends the operation by one step of the relation.\<close>

lemma after_refresh_step:
  assumes machine: "on_machine X S view" and file_at: "sg_file (view w) = Some latest"
    and answer: "run_state (refresh_tokens S (ssn_refresh_token latest)) w = (r, w1)"
    and run: "run_state (after_refresh X latest r) w1 = (x, w2)"
  shows "\<exists>lost. sign_in_step (asked p latest (view w)) p ((unlocked p (view w2))\<lparr>sg_lost := lost\<rparr>)"
proof -
  let ?s = "asked p latest (view w)"
  note law = on_machineD [OF machine]
  have at: "sg_phase ?s p = Refreshing latest" by (simp add: asked_def step_defs)
  have unanswered: "\<exists>lost. sign_in_step ?s p ((unlocked p (view w2))\<lparr>sg_lost := lost\<rparr>)"
    if "view w2 = (view w)\<lparr>sg_presented := ssn_refresh_token latest # sg_presented (view w)\<rparr>"
  proof -
    have "lose latest (unlocked p ?s) = (unlocked p (view w2))\<lparr>sg_lost := insert (ssn_refresh_token latest) (sg_lost (view w))\<rparr>"
      by (simp add: that asked_def step_defs)
    then show ?thesis using sign_in_step.not_answered [OF at] by metis
  qed
  show ?thesis
  proof (cases r)
    case (Inr t)
    obtain now w1' where now: "run_state (cx_now X) w1 = (now, w1')" by fastforce
    have w1': "view w1' = issue_tokens t ((view w)\<lparr>sg_presented := ssn_refresh_token latest # sg_presented (view w)\<rparr>)"
      and fresh: "tn_refresh_token t \<notin> sg_issued ?s"
      using law(10) [OF answer [unfolded Inr]] law(4) [OF now] by (simp_all add: asked_def step_defs)
    obtain q where saved: "run_state (save_session (cx_store X) (rotated latest t now)) w1' = (q, w2)"
      using run now by (auto simp: after_refresh_def Inr run_simps Let_def split: prod.splits sum.splits)
    show ?thesis
    proof (cases q)
      case (Inl e)
      have "lose latest (issue_tokens t (unlocked p ?s)) =
          (unlocked p (view w2))\<lparr>sg_lost := insert (ssn_refresh_token latest) (sg_lost (view w))\<rparr>"
        using law(7) [OF saved [unfolded Inl]] w1' by (simp add: asked_def step_defs)
      then show ?thesis using sign_in_step.rotate_unsaved [OF at fresh] by metis
    next
      case (Inr u)
      have "issue_tokens t (unlocked p ?s\<lparr>sg_file := Some (rotated latest t now)\<rparr>) = (unlocked p (view w2))\<lparr>sg_lost := sg_lost (view w)\<rparr>"
        using law(6) [OF saved [unfolded Inr]] w1' by (simp add: asked_def step_defs)
      then show ?thesis using sign_in_step.rotate [OF at fresh, of now] by metis
    qed
  next
    case (Inl e)
    have w1: "view w1 = (view w)\<lparr>sg_presented := ssn_refresh_token latest # sg_presented (view w)\<rparr>"
      using law(11) answer Inl by blast
    show ?thesis
    proof (cases "\<exists>description. e = sign_in_error.SignInEnded description")
      case False
      then have "w2 = w1" using run Inl by (auto simp: after_refresh_def run_simps split: sign_in_error.splits)
      then show ?thesis using unanswered w1 by simp
    next
      case True
      obtain l w1' where l: "run_state (load_session (cx_store X)) w1 = (l, w1')" by fastforce
      have w1': "view w1' = view w1" using law(2) [OF l] .
      show ?thesis
      proof (cases "\<exists>f warning. l = Loaded f warning \<and> ssn_refresh_token f = ssn_refresh_token latest")
        case False
        then have "w2 = w1'" using run Inl True l
          by (auto simp: after_refresh_def run_simps split: loaded.splits if_splits)
        then show ?thesis using unanswered w1 w1' by simp
      next
        case True
        obtain b where removed: "run_state (remove_session (cx_store X)) w1' = (b, w2)"
          using run Inl True l \<open>\<exists>description. e = sign_in_error.SignInEnded description\<close>
          by (auto simp: after_refresh_def run_simps split: prod.splits sum.splits)
        show ?thesis
        proof (cases b)
          case (Inl e')
          then show ?thesis using unanswered w1 w1' law(9) [of w1' e' w2] removed by simp
        next
          case (Inr u)
          have "unlocked p (without_refused latest ?s) = (unlocked p (view w2))\<lparr>sg_lost := sg_lost (view w)\<rparr>"
            using law(8) [OF removed [unfolded Inr]] w1 w1' file_at by (simp add: asked_def step_defs)
          then show ?thesis using sign_in_step.sign_in_over [OF at] by metis
        qed
      qed
    qed
  qed
qed


end
