(* ===== verification/Session_Examples.thy ===== *)
theory Session_Examples
  imports Session_Steps Client_Messages
begin

text \<open>
  A saved sign-in reads back as it was written, and a concrete machine: one sign-in, and a Silicon Accounts
  that rotates its refresh token once. Each theorem applies a property of the saved sign-in at a run of it.
\<close>

section \<open>What is written is read\<close>

definition in_i64 :: "int \<Rightarrow> bool" where
  "in_i64 i \<longleftrightarrow> i64_min \<le> i \<and> i \<le> i64_max"

lemma i64_read: "in_i64 i \<Longrightarrow> read_i64 (json_int i) = Some i"
  by (auto simp: in_i64_def read_i64_def json_int_def)

lemma json_int_not_null [simp]: "json_int i \<noteq> JNull"
  by (simp add: json_int_def)

lemma text_null: "only_value (member_of n ms) = Some (Some (json_option JString v)) \<Longrightarrow>
    optional_field [n] as_str (JObject ms) = Some v"
  by (rule optional_null) auto

lemma int_null: "only_value (member_of n ms) = Some (Some (json_option json_int v)) \<Longrightarrow> (case v of Some i \<Rightarrow> in_i64 i | None \<Rightarrow> True) \<Longrightarrow>
    optional_field [n] read_i64 (JObject ms) = Some v"
  by (rule optional_null) (auto simp: i64_read split: option.splits)

lemma account_ref_read: "read_client_account_ref (account_ref_json r) = Some r"
  by (simp add: read_client_account_ref_def account_ref_json_def required_object as_str_def text_null)

lemma account_ref_not_null [simp]: "account_ref_json r \<noteq> JNull"
  by (simp add: account_ref_json_def)

lemma account_read: "read_client_account (account_json a) = Some a"
proof -
  have "optional_field [''custodian''] read_client_account_ref (account_json a) = Some (cca_custodian a)"
    unfolding account_json_def by (rule optional_null [where f = account_ref_json]) (simp_all add: account_ref_read)
  then show ?thesis
    by (simp add: read_client_account_def account_json_def required_object as_str_def text_null)
qed

text \<open>Saving and loading a sign-in gives it back, when its numbers are those of the code.\<close>

lemma session_read:
  assumes "ssn_format s \<le> u32_max" "in_i64 (ssn_expires_at s)" "in_i64 (ssn_signed_in_at s)"
    and "case ssn_refresh_expires_at s of Some i \<Rightarrow> in_i64 i | None \<Rightarrow> True" "case ssn_refreshed_at s of Some i \<Rightarrow> in_i64 i | None \<Rightarrow> True"
  shows "read_session (session_json s) = Some s"
  using assms
  by (simp add: read_session_def session_json_def required_object as_str_def int_null i64_read default_object account_read
      read_uint_def)

lemma json_int_inject [simp]: "json_int i = json_int j \<longleftrightarrow> i = j"
  by (auto simp: json_int_def nat_eq_iff2 split: if_splits)

lemma json_option_int_inject [simp]: "json_option json_int v = json_option json_int w \<longleftrightarrow> v = w"
  by (cases v; cases w) (simp_all add: json_option_def, metis json_int_not_null)

lemma session_json_inject: "session_json a = session_json b \<longleftrightarrow> a = b"
proof
  assume same: "session_json a = session_json b"
  then have "account_json (ssn_account a) = account_json (ssn_account b)" by (simp add: session_json_def)
  then have "ssn_account a = ssn_account b" by (metis account_read option.inject)
  with same show "a = b" by (intro stored_session.equality) (simp_all add: session_json_def)
qed simp

section \<open>A machine\<close>

definition zx_account :: client_account where
  "zx_account = \<lparr>cca_uuid = ''zQo'', cca_id = Some ''c:ada'', cca_kind = ''carbon'', cca_display_name = None,
     cca_pfp_url = None, cca_custodian = None\<rparr>"

definition zx_session :: stored_session where
  "zx_session = \<lparr>ssn_format = 1, ssn_app_id = ''waveform'', ssn_accounts_url = ''https://a'', ssn_access_token = ''ey0'',
     ssn_refresh_token = ''sar_0'', ssn_expires_at = 100, ssn_refresh_expires_at = None, ssn_scope = [],
     ssn_method = ''device'', ssn_signed_in_at = 0, ssn_refreshed_at = None, ssn_account = zx_account\<rparr>"

definition zx_answer :: token_response where
  "zx_answer = \<lparr>tp_access_token = ''ey1'', tp_refresh_token = Some ''sar_1'',
     tp_account = Some \<lparr>ta_uuid = ''zQo'', ta_id = ''c:ada'', ta_kind = ''carbon'', ta_display_name = [], ta_pfp_url = [], ta_custodian = None\<rparr>,
     tp_expires_in = 1800, tp_refresh_token_expires_at = None, tp_scope = None\<rparr>"

definition zx_tokens :: tokens where
  "zx_tokens = \<lparr>tn_access_token = ''ey1'', tn_refresh_token = ''sar_1'', tn_expires_at = 2000, tn_refresh_expires_at = None,
     tn_scope = [], tn_account = zx_account\<rparr>"

definition zx_rotated :: stored_session where
  "zx_rotated = rotated zx_session zx_tokens 200"

definition zx_url :: url where
  "zx_url = \<lparr>url_scheme = ''https'', url_username = [], url_password = None, url_host = Some (Domain ''a''), url_port = None,
     url_path = ''/'', url_query = None, url_fragment = None\<rparr>"

definition zx_sign_in :: "sign_in_state sign_in" where
  "zx_sign_in = \<lparr>si_base = zx_url, si_app_id = ''waveform'', si_poll_unit = secs 1, si_slt_grant_type = [],
     si_url_text = (\<lambda>_. ''https://a''), si_extend_path = (\<lambda>_ _. None), si_oauth_message = oe_error,
     si_oauth_view = (\<lambda>e. (Some (oe_status e), oe_error e, None)), si_json = (\<lambda>_. None), si_token_response = (\<lambda>_. Err []),
     si_device_authorize = (\<lambda>_ _. throw (HttpFailure [] [])), si_device_poll = (\<lambda>_ _. throw (HttpFailure [] [])),
     si_refresh_public = (\<lambda>_ t. State (\<lambda>s. let asked = s\<lparr>sg_presented := t # sg_presented s\<rparr> in
       if ''sar_1'' \<in> sg_issued s then (Err (HttpFailure [] []), asked)
       else (Ok zx_answer, asked\<lparr>sg_issued := insert ''sar_1'' (sg_issued s)\<rparr>))),
     si_post = (\<lambda>_ _. State_Monad.return (Err \<lparr>rf_connect = False, rf_timeout = True, rf_cause = []\<rparr>)),
     si_now = State_Monad.return 200, si_sleep = (\<lambda>_. State_Monad.return ())\<rparr>"

definition zx_store :: "sign_in_state session_store" where
  "zx_store = \<lparr>st_accounts_url = ''https://a'', st_path = ''s.json'',
     st_read = State (\<lambda>s. (if sg_file s = Some zx_session then Ok ''{}'' else Err (Some ''other''), s)),
     st_mode = State_Monad.return None, st_make_private = State_Monad.return True,
     st_write_private = (\<lambda>bs. State (\<lambda>s. if bs = ''saved'' then (Ok (), s\<lparr>sg_file := Some zx_rotated\<rparr>) else (Err (cli_local [] []), s))),
     st_unlink = State (\<lambda>s. (Ok (), s\<lparr>sg_file := None\<rparr>)), st_lock = done_with (), st_unlock = State_Monad.return (),
     st_legacy_files = State_Monad.return [], st_remove_legacy = State_Monad.return 0, st_other_origins = State_Monad.return [],
     st_parse = (\<lambda>_. Ok (session_json zx_session)), st_session_error = (\<lambda>_. []), 
     st_pretty = (\<lambda>v. if v = session_json zx_rotated then ''saved'' else ''{}'')\<rparr>"

definition zx_ctx :: "sign_in_state ctx" where
  "zx_ctx = \<lparr>cx_json = False, cx_api_url = [], cx_accounts_url = ''https://a'', cx_profile = ''default'', cx_store = zx_store,
     cx_crates = \<lparr>cc_url = \<lparr>url_parse = (\<lambda>_. None), url_text = url_path, url_set_path = (\<lambda>u _. u), url_same_origin = (\<lambda>_ _. True)\<rparr>,
       cc_url_error = (\<lambda>_. []), cc_extend_path = (\<lambda>_ _. None), cc_append_query = (\<lambda>u _. u), cc_json = (\<lambda>_. None),
       cc_uuid = \<lparr>uuid_parse = (\<lambda>_. None), uuid_text = (\<lambda>_. [])\<rparr>, cc_checked_add = (\<lambda>_ _. None)\<rparr>,
     cx_connect = (\<lambda>_. Err Decode), cx_sign_in = Ok zx_sign_in, cx_now = State_Monad.return 200,
     cx_warn = (\<lambda>_. State_Monad.return ()), cx_announce = (\<lambda>_. State_Monad.return ()), cx_progress = (\<lambda>_. State_Monad.return ()),
     cx_rfc3339 = (\<lambda>_. None), cx_texts = (\<lambda>_. [])\<rparr>"

lemma zx_load: "run_state (load_session zx_store) s =
    (if sg_file s = Some zx_session then Loaded zx_session None else Unreadable ''s.json'' ''it cannot be read (other)'', s)"
proof -
  have "read_session (session_json zx_session) = Some zx_session"
    by (rule session_read) (simp_all add: zx_session_def u32_max_def in_i64_def i64_min_def i64_max_def)
  moreover have "usable zx_store zx_session"
    by (simp add: usable_def zx_store_def zx_session_def zx_account_def FORMAT_def APP_ID_def normalize_url_def) code_simp
  ultimately show ?thesis
    by (simp add: load_session_def run_simps) (simp add: zx_store_def tighten_def run_simps)
qed

lemma zx_refresh: "run_state (refresh_tokens zx_sign_in t) s =
    (let s' = s\<lparr>sg_presented := t # sg_presented s\<rparr> in
     if ''sar_1'' \<in> sg_issued s then (Err (sign_in_error.Transport '' ''), s')
     else (Ok zx_tokens, issue_tokens zx_tokens s'))"
  by (simp add: refresh_tokens_def zx_sign_in_def on_err_def run_simps Let_def tokens_from_response_def zx_answer_def
      zx_tokens_def zx_account_def non_empty_def i64_saturating_add_def i64_of_u64_def i64_max_def i64_min_def issue_tokens_def)

lemma zx_machine: "on_machine zx_ctx zx_sign_in (\<lambda>s. s)"
proof -
  have ctx: "cx_store zx_ctx = zx_store" "cx_sign_in zx_ctx = Ok zx_sign_in" "cx_now zx_ctx = State_Monad.return 200"
    by (simp_all add: zx_ctx_def)
  have save_session: "run_state (save_session zx_store x) s =
      (if x = zx_rotated then (Ok (), s\<lparr>sg_file := Some zx_rotated\<rparr>) else (Err (cli_local [] []), s))" for x s
    by (simp add: save_session_def zx_store_def session_json_inject)
  have remove: "run_state (remove_session zx_store) s = (Ok True, s\<lparr>sg_file := None\<rparr>)" for s
    by (simp add: remove_session_def zx_store_def run_simps)
  have none: "snd (run_state (not_signed_in zx_ctx) s) = s" for s
    by (simp add: not_signed_in_def ctx zx_store_def run_simps Let_def)
  have refresh: "refresh_law zx_sign_in (\<lambda>s. s)"
    by (auto simp: refresh_law_def zx_refresh Let_def zx_tokens_def)
  show ?thesis
    unfolding on_machine_def ctx using refresh by (auto simp: zx_load save_session remove none run_simps)
qed


definition zx_refreshing :: sign_in_state where
  "zx_refreshing = (set_phase 1 (Refreshing zx_session) ((set_phase 1 (Holding (Refresh None zx_session))
     (set_phase 1 (Waiting (Refresh None zx_session)) (sign_in_start (Some zx_session))))\<lparr>sg_lock := Some 1\<rparr>))\<lparr>sg_presented := [''sar_0'']\<rparr>"

lemma zx_reachable: "sign_in_reachable (Some zx_session) zx_refreshing"
proof -
  let ?s0 = "sign_in_start (Some zx_session)"
  let ?s1 = "set_phase 1 (Waiting (Refresh None zx_session)) ?s0"
  let ?s2 = "(set_phase 1 (Holding (Refresh None zx_session)) ?s1)\<lparr>sg_lock := Some 1\<rparr>"
  have "sign_in_step ?s0 1 ?s1"
    by (rule sign_in_step.start_refresh [where now = 0 and now' = 100])
      (simp_all add: sign_in_start_def session_ended_def needs_refresh_def zx_session_def i64_saturating_add_def
        REFRESH_MARGIN_SECONDS_def i64_min_def i64_max_def)
  moreover have "sign_in_step ?s1 1 ?s2"
    by (rule sign_in_step.acquire) (simp_all add: set_phase_def sign_in_start_def)
  moreover have "sign_in_step ?s2 1 zx_refreshing"
  proof -
    have "sign_in_step ?s2 1 ((set_phase 1 (Refreshing zx_session) ?s2)\<lparr>sg_presented := ssn_refresh_token zx_session # sg_presented ?s2\<rparr>)"
      by (rule sign_in_step.present [where refused = None and current = zx_session and now = 100])
        (simp_all add: set_phase_def sign_in_start_def presents_def someone_else_refreshed_def needs_refresh_def zx_session_def
          i64_saturating_add_def REFRESH_MARGIN_SECONDS_def i64_min_def i64_max_def)
    then show ?thesis by (simp add: zx_refreshing_def set_phase_def sign_in_start_def zx_session_def)
  qed
  ultimately show ?thesis by (meson sign_in_reachable.start sign_in_reachable.step)
qed


end
